(* ===== verification/Prelude.thy ===== *)
theory Prelude
  imports Main "HOL-Library.Word"
begin

text \<open>
  Shared vocabulary of the development: the machine integer types of the emulator, the
  collections of facts the component theories contribute to, and the generic lemmas on words,
  lists and options they use.
\<close>

unbundle bit_operations_syntax

section \<open>Machine integers\<close>

text \<open>The fixed-width integers of \<open><cstdint>\<close>.\<close>

type_synonym u8 = "8 word"
type_synonym u16 = "16 word"
type_synonym u32 = "32 word"
type_synonym u64 = "64 word"

section \<open>Collections of facts\<close>

named_theorems reg_simps \<open>reading a register after writing one\<close>
named_theorems micro_defs \<open>definitions of the CPU micro-instructions\<close>
named_theorems keeps_intros \<open>micro-instructions keep an invariant of the bus\<close>
named_theorems ub_simps \<open>unfolding the monad of computations that may be undefined\<close>

section \<open>Words\<close>

lemma u8_less_256 [simp]: "unat (x :: u8) < 256"
  using unsigned_less [of x, where ?'a = nat] by simp

lemma bit_u8_add_8 [simp]: "\<not> bit (x :: u8) (8 + n)"
  using bit_imp_le_length [of x "8 + n"] by auto

lemma unat_ucast_u8_u16 [simp]: "unat (ucast (x :: u8) :: u16) = unat x"
  using u8_less_256 [of x] by (simp add: unsigned_ucast_eq take_bit_nat_eq_self_iff del: u8_less_256)

lemma u16_split: "push_bit 8 (ucast (ucast (drop_bit 8 v) :: u8)) OR ucast (ucast v :: u8) = (v :: u16)"
  by (rule bit_eqI) (auto simp: bit_simps)

lemma u16_low: "ucast (push_bit 8 (ucast (h :: u8)) OR ucast l :: u16) = (l :: u8)"
  by (rule bit_eqI) (auto simp: bit_simps)

lemma u16_high: "ucast (drop_bit 8 (push_bit 8 (ucast h) OR ucast (l :: u8) :: u16)) = (h :: u8)"
  by (rule bit_eqI) (auto simp: bit_simps)

lemma unat_u16_join: "unat (push_bit 8 (ucast (h :: u8)) OR ucast (l :: u8) :: u16) = 256 * unat h + unat l"
proof -
  have disj: "push_bit 8 (ucast h) AND ucast l = (0 :: u16)"
    by (rule bit_eqI) (auto simp: bit_simps dest: bit_imp_le_length)
  have "push_bit 8 (ucast h) OR ucast l = (push_bit 8 (ucast h) + ucast l :: u16)"
    using disj by (simp add: disjunctive_add_eq_or)
  moreover have "unat (push_bit 8 (ucast h) :: u16) = 256 * unat h"
    using u8_less_256[of h] by (simp add: push_bit_eq_mult unat_word_ariths)
  moreover have "unat (ucast l :: u16) = unat l"
    by simp
  ultimately show ?thesis
    using u8_less_256 [of h] u8_less_256 [of l] by (simp add: unat_word_ariths mod_less del: u8_less_256)
qed

text \<open>
  A statement about every byte is decided by evaluating it on the 256 bytes.
\<close>

lemma all_u8: "(\<forall>x :: u8. P x) \<longleftrightarrow> list_all (\<lambda>n. P (of_nat n)) [0..<256]"
proof
  assume all: "\<forall>x :: u8. P x"
  then show "list_all (\<lambda>n. P (of_nat n)) [0..<256]"
    by (simp add: list_all_iff)
next
  assume l: "list_all (\<lambda>n. P (of_nat n)) [0..<256]"
  show "\<forall>x :: u8. P x"
  proof
    fix x :: u8
    have "unat x < 256" by simp
    with l have "P (of_nat (unat x))" unfolding list_all_iff by (metis atLeastLessThan_iff set_upt zero_le)
    then show "P x" by simp
  qed
qed


end
