(* ===== verification/Byte_Arith.thy ===== *)
theory Byte_Arith
  imports Prelude
begin

text \<open>
  Byte arithmetic as the processor flags see it: the carry, the half carry and the signed overflow
  of an addition or subtraction, read off the bits of the result, against integer arithmetic.
\<close>

unbundle bit_operations_syntax


lemma bit_word_odd: "bit (x :: 'a :: len word) n \<longleftrightarrow> odd (unat x div 2 ^ n)"
  by (auto simp: bit_unsigned_iff dest: bit_imp_possible_bit simp flip: bit_iff_odd)

lemma bit_7_u8: "bit (x :: u8) 7 \<longleftrightarrow> 128 \<le> unat x"
proof -
  have "unat x div 128 = (if 128 \<le> unat x then 1 else 0)"
    using u8_less_256 [of x] by (simp add: div_nat_eqI del: u8_less_256)
  then show ?thesis using bit_word_odd [of x 7] by simp
qed

lemma sint_u8: "sint (x :: u8) = (if 128 \<le> unat x then int (unat x) - 256 else int (unat x))"
proof -
  have "sint x = int (unat x) - (if bit x 7 then 256 else 0)"
    using unsigned_less [of x, where ?'a = int]
    by (simp add: sint_uint signed_take_bit_eq_take_bit_minus bit_uint_iff take_bit_int_eq_self_iff)
  then show ?thesis using bit_7_u8 [of x] by auto
qed

lemma odd_mod_256_div_16: "odd ((x::nat) mod 256 div 16) \<longleftrightarrow> odd (x div 16)"
proof -
  have "x mod 256 div 16 = x div 16 mod 16"
    using mod_mult2_eq [of x 16 16] by simp
  then show ?thesis by (simp add: dvd_mod_iff)
qed

lemma odd_div_16_add:
  assumes "c \<le> 1"
  shows "odd (((x::nat) + y + c) div 16) \<longleftrightarrow>
    (odd (x div 16) \<noteq> odd (y div 16)) \<noteq> (16 \<le> x mod 16 + y mod 16 + c)"
proof -
  have "h * 16 + l + (h' * 16 + l') + c = 16 * (h + h') + (l + l' + c)" for h l h' l' :: nat
    by simp
  from this [of "x div 16" "x mod 16" "y div 16" "y mod 16"]
  have "x + y + c = 16 * (x div 16 + y div 16) + (x mod 16 + y mod 16 + c)"
    by (simp only: div_mult_mod_eq)
  then have "(x + y + c) div 16 = x div 16 + y div 16 + (x mod 16 + y mod 16 + c) div 16"
    by (metis add.commute div_mult_self4 numeral_One zero_neq_numeral)
  moreover have "(x mod 16 + y mod 16 + c) div 16 = (if 16 \<le> x mod 16 + y mod 16 + c then 1 else 0)"
  proof -
    have "x mod 16 < 16" "y mod 16 < 16" by simp_all
    with assms show ?thesis by (simp add: div_nat_eqI)
  qed
  ultimately show ?thesis by auto
qed

lemma unat_add_carry:
  "unat (a + b + c :: u8) = (unat a + unat b + unat c) mod 256"
  by (simp add: unat_word_ariths mod_add_left_eq)

lemma unat_carry: "unat (if c then 1 else 0 :: u8) = (if c then 1 else 0)"
  by simp

lemma half_carry:
  assumes "unat c \<le> 1"
  shows "bit ((a + b + c :: u8) XOR a XOR b) 4 \<longleftrightarrow> 16 \<le> unat a mod 16 + unat b mod 16 + unat c"
  using bit_word_odd [of "a + b + c" 4] bit_word_odd [of a 4] bit_word_odd [of b 4]
    odd_div_16_add [OF assms, of "unat a" "unat b"]
  by (auto simp: bit_xor_iff unat_add_carry odd_mod_256_div_16)

lemma half_borrow:
  assumes "unat c \<le> 1"
  shows "bit ((a - b - c :: u8) XOR a XOR b) 4 \<longleftrightarrow> unat a mod 16 < unat b mod 16 + unat c"
proof -
  let ?d = "a - b - c"
  have "a = ?d + b + c" by simp
  then have "unat a = (unat ?d + unat b + unat c) mod 256" by (metis unat_add_carry)
  then have "unat a mod 16 = (unat ?d + unat b + unat c) mod 16" by (simp add: mod_mod_cancel)
  then have a: "unat a mod 16 = (unat ?d mod 16 + unat b mod 16 + unat c) mod 16"
    by (metis mod_add_eq mod_mod_trivial)
  have "bit (a XOR ?d XOR b) 4 \<longleftrightarrow> 16 \<le> unat ?d mod 16 + unat b mod 16 + unat c"
    using half_carry [OF assms, of ?d b] by simp
  moreover have "16 \<le> p + q + k \<longleftrightarrow> (p + q + k) mod 16 < q + k" if "p < 16" "q < 16" "k \<le> 1" for p q k :: nat
    using that by (auto simp: mod_if)
  ultimately show ?thesis
    using a assms by (simp add: xor.left_commute)
qed

lemma carry_out:
  assumes "unat c \<le> 1"
  shows "bit (ucast (drop_bit 8 (ucast (a :: u8) + ucast (b :: u8) + c :: u16)) :: u8) 0 \<longleftrightarrow>
    256 \<le> unat a + unat b + unat c"
proof -
  have *: "unat (ucast a + ucast b + c :: u16) = unat a + unat b + unat c"
    using u8_less_256 [of a] u8_less_256 [of b] assms by (simp add: unat_word_ariths del: u8_less_256)
  have "bit (ucast a + ucast b + c) 8 \<longleftrightarrow> odd ((unat a + unat b + unat c) div 256)"
    using bit_word_odd [of "ucast a + ucast b + c" 8] by (simp add: * )
  moreover have "(unat a + unat b + unat c) div 256 = (if 256 \<le> unat a + unat b + unat c then 1 else 0)"
    using u8_less_256 [of a] u8_less_256 [of b] assms by (simp add: div_nat_eqI del: u8_less_256)
  ultimately show ?thesis by (simp add: bit_simps)
qed

lemma borrow_out:
  assumes "unat c \<le> 1"
  shows "bit (ucast (drop_bit 8 (ucast (a :: u8) - ucast (b :: u8) - c :: u16)) :: u8) 0 \<longleftrightarrow>
    unat a < unat b + unat c"
proof -
  have bc: "unat (ucast b + c) = unat b + unat c"
    using u8_less_256 [of b] assms by (simp add: unat_word_ariths del: u8_less_256)
  have *: "unat (ucast a - (ucast b + c)) =
      (if unat b + unat c \<le> unat a then unat a - (unat b + unat c) else unat a + 65536 - (unat b + unat c))"
    using u8_less_256 [of a] by (simp add: unat_sub_if' bc del: u8_less_256)
  have "bit (ucast a - (ucast b + c)) 8 \<longleftrightarrow> odd (unat (ucast a - (ucast b + c)) div 256)"
    using bit_word_odd [of "ucast a - (ucast b + c)" 8] by simp
  moreover have "unat (ucast a - (ucast b + c)) div 256 = (if unat a < unat b + unat c then 255 else 0)"
    using u8_less_256 [of a] u8_less_256 [of b] assms by (auto simp: * div_nat_eqI simp del: u8_less_256)
  ultimately show ?thesis by (simp add: bit_simps diff_diff_eq)
qed

lemma overflow_add:
  assumes "unat c \<le> 1"
  shows "bit ((a AND b AND NOT (a + b + c)) OR (NOT a AND NOT b AND (a + b + c :: u8))) 7 \<longleftrightarrow>
   sint a + sint b + int (unat c) < -128 \<or> 127 < sint a + sint b + int (unat c)"
proof -
  have *: "(x \<ge> 128 \<and> y \<ge> 128 \<and> \<not> (x + y + k) mod 256 \<ge> 128 \<or> \<not> x \<ge> 128 \<and> \<not> y \<ge> 128 \<and> (x + y + k) mod 256 \<ge> 128) \<longleftrightarrow>
      (if 128 \<le> x then int x - 256 else int x) + (if 128 \<le> y then int y - 256 else int y) + int k < -128 \<or>
      127 < (if 128 \<le> x then int x - 256 else int x) + (if 128 \<le> y then int y - 256 else int y) + int k"
    if "x < 256" "y < 256" "k \<le> 1" for x y k :: nat
    using that by (auto simp: mod_if)
  have "bit ((a AND b AND NOT (a + b + c)) OR (NOT a AND NOT b AND (a + b + c))) 7 \<longleftrightarrow>
      bit a 7 \<and> bit b 7 \<and> \<not> bit (a + b + c) 7 \<or> \<not> bit a 7 \<and> \<not> bit b 7 \<and> bit (a + b + c) 7"
    by (simp add: bit_simps)
  then show ?thesis
    using * [OF u8_less_256 u8_less_256 assms, of a b]
    by (simp only: bit_7_u8 sint_u8 unat_add_carry)
qed

lemma overflow_sub:
  assumes "unat c \<le> 1"
  shows "bit ((a AND NOT b AND NOT (a - b - c)) OR (NOT a AND b AND (a - b - c :: u8))) 7 \<longleftrightarrow>
   sint a - sint b - int (unat c) < -128 \<or> 127 < sint a - sint b - int (unat c)"
proof -
  have *: "(x \<ge> 128 \<and> \<not> y \<ge> 128 \<and> \<not> z \<ge> 128 \<or> \<not> x \<ge> 128 \<and> y \<ge> 128 \<and> z \<ge> 128) \<longleftrightarrow>
      (if 128 \<le> x then int x - 256 else int x) - (if 128 \<le> y then int y - 256 else int y) - int k < -128 \<or>
      127 < (if 128 \<le> x then int x - 256 else int x) - (if 128 \<le> y then int y - 256 else int y) - int k"
    if "x < 256" "y < 256" "z < 256" "k \<le> 1" "x = (z + y + k) mod 256" for x y z k :: nat
    using that by (auto simp: mod_if split: if_splits)
  have "a = (a - b - c) + b + c" by simp
  then have "unat a = (unat (a - b - c) + unat b + unat c) mod 256" by (metis unat_add_carry)
  note * = * [OF u8_less_256 u8_less_256 u8_less_256 assms this]
  have "bit ((a AND NOT b AND NOT (a - b - c)) OR (NOT a AND b AND (a - b - c))) 7 \<longleftrightarrow>
      bit a 7 \<and> \<not> bit b 7 \<and> \<not> bit (a - b - c) 7 \<or> \<not> bit a 7 \<and> bit b 7 \<and> bit (a - b - c) 7"
    by (simp add: bit_simps)
  then show ?thesis using * by (simp only: bit_7_u8 sint_u8)
qed
end
