(* ===== verification/Z80_State.thy ===== *)
theory Z80_State
  imports Prelude Byte_Arith
begin

text \<open>
  The data of the CPU (\<^verbatim>\<open>lib/xcpc/amstrad/cpu/cpu-core.h\<close> and the macros at the head of
  \<^verbatim>\<open>cpu-core.cc\<close>): the \<^verbatim>\<open>Register\<close> union, the \<^verbatim>\<open>State\<close> of an instance, the
  scratch \<^verbatim>\<open>Stack\<close> of one call of \<^verbatim>\<open>clock()\<close>, the \<^verbatim>\<open>Interface\<close> through
  which the CPU sees its environment, the names of the registers and their bytes and words,
  the flag constants and the parity/zero/sign table.
\<close>

unbundle bit_operations_syntax

section \<open>Registers and states\<close>

text \<open>
  \<^verbatim>\<open>union Register\<close>: four bytes, in the order of the \<^verbatim>\<open>LSB_FIRST\<close> layout.  The word and
  long views of the union are read and written through them.
\<close>

record register =
  b_l :: u8
  b_h :: u8
  b_y :: u8
  b_x :: u8

definition w_l :: "register \<Rightarrow> u16" where
  "w_l r = push_bit 8 (ucast (b_h r)) OR ucast (b_l r)"

definition w_h :: "register \<Rightarrow> u16" where
  "w_h r = push_bit 8 (ucast (b_x r)) OR ucast (b_y r)"

definition l_r :: "register \<Rightarrow> u32" where
  "l_r r = push_bit 16 (ucast (w_h r)) OR ucast (w_l r)"

definition set_w_l :: "u16 \<Rightarrow> register \<Rightarrow> register" where
  "set_w_l v r = r\<lparr>b_l := ucast v, b_h := ucast (drop_bit 8 v)\<rparr>"

definition set_w_h :: "u16 \<Rightarrow> register \<Rightarrow> register" where
  "set_w_h v r = r\<lparr>b_y := ucast v, b_x := ucast (drop_bit 8 v)\<rparr>"

definition set_l_r :: "u32 \<Rightarrow> register \<Rightarrow> register" where
  "set_l_r v r = set_w_h (ucast (drop_bit 16 v)) (set_w_l (ucast v) r)"

definition zero_register :: register where
  "zero_register = \<lparr>b_l = 0, b_h = 0, b_y = 0, b_x = 0\<rparr>"

text \<open>\<^verbatim>\<open>struct State\<close>.\<close>

record State =
  r_af :: register
  r_bc :: register
  r_de :: register
  r_hl :: register
  r_ix :: register
  r_iy :: register
  r_sp :: register
  r_pc :: register
  r_ir :: register
  r_st :: register
  m_cycles :: u32
  t_states :: u32
  i_period :: u32

text \<open>\<^verbatim>\<open>struct Stack\<close>, the local variables of \<^verbatim>\<open>clock()\<close>; the C++ leaves them uninitialised.\<close>

record Stack =
  r_op :: register
  r_wz :: register
  r_r0 :: register
  r_r1 :: register
  r_r2 :: register
  r_r3 :: register

text \<open>
  The machine the microcode runs on: the state of the instance, the scratch registers, and
  whatever the implementation of the interface keeps (\<^typ>\<open>'b\<close>).
\<close>

record 'b machine =
  cpu_st :: State
  stk :: Stack
  bus :: 'b

text \<open>
  \<^verbatim>\<open>class Interface\<close>: each callback is given the instance, whose state it may change (the
  main board stretches the \<^verbatim>\<open>t_states\<close> of an instruction fetch), an address or port and a
  byte, and returns a byte.
\<close>

record 'b iface =
  cpu_mreq_m1 :: "u16 \<Rightarrow> u8 \<Rightarrow> State \<times> 'b \<Rightarrow> u8 \<times> State \<times> 'b"
  cpu_mreq_rd :: "u16 \<Rightarrow> u8 \<Rightarrow> State \<times> 'b \<Rightarrow> u8 \<times> State \<times> 'b"
  cpu_mreq_wr :: "u16 \<Rightarrow> u8 \<Rightarrow> State \<times> 'b \<Rightarrow> u8 \<times> State \<times> 'b"
  cpu_iorq_m1 :: "u16 \<Rightarrow> u8 \<Rightarrow> State \<times> 'b \<Rightarrow> u8 \<times> State \<times> 'b"
  cpu_iorq_rd :: "u16 \<Rightarrow> u8 \<Rightarrow> State \<times> 'b \<Rightarrow> u8 \<times> State \<times> 'b"
  cpu_iorq_wr :: "u16 \<Rightarrow> u8 \<Rightarrow> State \<times> 'b \<Rightarrow> u8 \<times> State \<times> 'b"

section \<open>Register names\<close>

text \<open>
  The macros \<^verbatim>\<open>AF_R\<close>, \<^verbatim>\<open>AF_P\<close>, \<^verbatim>\<open>AF_W\<close>, \<^verbatim>\<open>AF_X\<close> \<dots> \<^verbatim>\<open>R3_L\<close> are lvalues that the
  micro-instructions take as arguments.  Here they are names: a register file entry and the
  byte or word of it.
\<close>

datatype rfile = AF | BC | DE | HL | IX | IY | SP | PC | IR | ST | OP | WZ | R0 | R1 | R2 | R3

datatype bpart = BL | BH | BY | BX

datatype wpart = WL | WH

type_synonym r08 = "rfile \<times> bpart"
type_synonym r16 = "rfile \<times> wpart"

fun get_reg :: "rfile \<Rightarrow> 'b machine \<Rightarrow> register" where
  "get_reg AF m = r_af (cpu_st m)"
| "get_reg BC m = r_bc (cpu_st m)"
| "get_reg DE m = r_de (cpu_st m)"
| "get_reg HL m = r_hl (cpu_st m)"
| "get_reg IX m = r_ix (cpu_st m)"
| "get_reg IY m = r_iy (cpu_st m)"
| "get_reg SP m = r_sp (cpu_st m)"
| "get_reg PC m = r_pc (cpu_st m)"
| "get_reg IR m = r_ir (cpu_st m)"
| "get_reg ST m = r_st (cpu_st m)"
| "get_reg OP m = r_op (stk m)"
| "get_reg WZ m = r_wz (stk m)"
| "get_reg R0 m = r_r0 (stk m)"
| "get_reg R1 m = r_r1 (stk m)"
| "get_reg R2 m = r_r2 (stk m)"
| "get_reg R3 m = r_r3 (stk m)"

fun put_reg :: "rfile \<Rightarrow> register \<Rightarrow> 'b machine \<Rightarrow> 'b machine" where
  "put_reg AF r m = m\<lparr>cpu_st := (cpu_st m)\<lparr>r_af := r\<rparr>\<rparr>"
| "put_reg BC r m = m\<lparr>cpu_st := (cpu_st m)\<lparr>r_bc := r\<rparr>\<rparr>"
| "put_reg DE r m = m\<lparr>cpu_st := (cpu_st m)\<lparr>r_de := r\<rparr>\<rparr>"
| "put_reg HL r m = m\<lparr>cpu_st := (cpu_st m)\<lparr>r_hl := r\<rparr>\<rparr>"
| "put_reg IX r m = m\<lparr>cpu_st := (cpu_st m)\<lparr>r_ix := r\<rparr>\<rparr>"
| "put_reg IY r m = m\<lparr>cpu_st := (cpu_st m)\<lparr>r_iy := r\<rparr>\<rparr>"
| "put_reg SP r m = m\<lparr>cpu_st := (cpu_st m)\<lparr>r_sp := r\<rparr>\<rparr>"
| "put_reg PC r m = m\<lparr>cpu_st := (cpu_st m)\<lparr>r_pc := r\<rparr>\<rparr>"
| "put_reg IR r m = m\<lparr>cpu_st := (cpu_st m)\<lparr>r_ir := r\<rparr>\<rparr>"
| "put_reg ST r m = m\<lparr>cpu_st := (cpu_st m)\<lparr>r_st := r\<rparr>\<rparr>"
| "put_reg OP r m = m\<lparr>stk := (stk m)\<lparr>r_op := r\<rparr>\<rparr>"
| "put_reg WZ r m = m\<lparr>stk := (stk m)\<lparr>r_wz := r\<rparr>\<rparr>"
| "put_reg R0 r m = m\<lparr>stk := (stk m)\<lparr>r_r0 := r\<rparr>\<rparr>"
| "put_reg R1 r m = m\<lparr>stk := (stk m)\<lparr>r_r1 := r\<rparr>\<rparr>"
| "put_reg R2 r m = m\<lparr>stk := (stk m)\<lparr>r_r2 := r\<rparr>\<rparr>"
| "put_reg R3 r m = m\<lparr>stk := (stk m)\<lparr>r_r3 := r\<rparr>\<rparr>"

fun get_byte :: "bpart \<Rightarrow> register \<Rightarrow> u8" where
  "get_byte BL r = b_l r"
| "get_byte BH r = b_h r"
| "get_byte BY r = b_y r"
| "get_byte BX r = b_x r"

fun put_byte :: "bpart \<Rightarrow> u8 \<Rightarrow> register \<Rightarrow> register" where
  "put_byte BL v r = r\<lparr>b_l := v\<rparr>"
| "put_byte BH v r = r\<lparr>b_h := v\<rparr>"
| "put_byte BY v r = r\<lparr>b_y := v\<rparr>"
| "put_byte BX v r = r\<lparr>b_x := v\<rparr>"

fun get_word :: "wpart \<Rightarrow> register \<Rightarrow> u16" where
  "get_word WL r = w_l r"
| "get_word WH r = w_h r"

fun put_word :: "wpart \<Rightarrow> u16 \<Rightarrow> register \<Rightarrow> register" where
  "put_word WL v r = set_w_l v r"
| "put_word WH v r = set_w_h v r"

definition get8 :: "r08 \<Rightarrow> 'b machine \<Rightarrow> u8" where
  "get8 p m = get_byte (snd p) (get_reg (fst p) m)"

definition put8 :: "r08 \<Rightarrow> u8 \<Rightarrow> 'b machine \<Rightarrow> 'b machine" where
  "put8 p v m = put_reg (fst p) (put_byte (snd p) v (get_reg (fst p) m)) m"

definition get16 :: "r16 \<Rightarrow> 'b machine \<Rightarrow> u16" where
  "get16 p m = get_word (snd p) (get_reg (fst p) m)"

definition put16 :: "r16 \<Rightarrow> u16 \<Rightarrow> 'b machine \<Rightarrow> 'b machine" where
  "put16 p v m = put_reg (fst p) (put_word (snd p) v (get_reg (fst p) m)) m"

definition get32 :: "rfile \<Rightarrow> 'b machine \<Rightarrow> u32" where
  "get32 p m = l_r (get_reg p m)"

definition put32 :: "rfile \<Rightarrow> u32 \<Rightarrow> 'b machine \<Rightarrow> 'b machine" where
  "put32 p v m = put_reg p (set_l_r v (get_reg p m)) m"

text \<open>The names of the source.\<close>

abbreviation AF_P :: r16 where "AF_P \<equiv> (AF, WH)"
abbreviation AF_W :: r16 where "AF_W \<equiv> (AF, WL)"
abbreviation AF_X :: r08 where "AF_X \<equiv> (AF, BX)"
abbreviation AF_Y :: r08 where "AF_Y \<equiv> (AF, BY)"
abbreviation AF_H :: r08 where "AF_H \<equiv> (AF, BH)"
abbreviation AF_L :: r08 where "AF_L \<equiv> (AF, BL)"
abbreviation BC_P :: r16 where "BC_P \<equiv> (BC, WH)"
abbreviation BC_W :: r16 where "BC_W \<equiv> (BC, WL)"
abbreviation BC_X :: r08 where "BC_X \<equiv> (BC, BX)"
abbreviation BC_Y :: r08 where "BC_Y \<equiv> (BC, BY)"
abbreviation BC_H :: r08 where "BC_H \<equiv> (BC, BH)"
abbreviation BC_L :: r08 where "BC_L \<equiv> (BC, BL)"
abbreviation DE_P :: r16 where "DE_P \<equiv> (DE, WH)"
abbreviation DE_W :: r16 where "DE_W \<equiv> (DE, WL)"
abbreviation DE_X :: r08 where "DE_X \<equiv> (DE, BX)"
abbreviation DE_Y :: r08 where "DE_Y \<equiv> (DE, BY)"
abbreviation DE_H :: r08 where "DE_H \<equiv> (DE, BH)"
abbreviation DE_L :: r08 where "DE_L \<equiv> (DE, BL)"
abbreviation HL_P :: r16 where "HL_P \<equiv> (HL, WH)"
abbreviation HL_W :: r16 where "HL_W \<equiv> (HL, WL)"
abbreviation HL_X :: r08 where "HL_X \<equiv> (HL, BX)"
abbreviation HL_Y :: r08 where "HL_Y \<equiv> (HL, BY)"
abbreviation HL_H :: r08 where "HL_H \<equiv> (HL, BH)"
abbreviation HL_L :: r08 where "HL_L \<equiv> (HL, BL)"
abbreviation IX_P :: r16 where "IX_P \<equiv> (IX, WH)"
abbreviation IX_W :: r16 where "IX_W \<equiv> (IX, WL)"
abbreviation IX_X :: r08 where "IX_X \<equiv> (IX, BX)"
abbreviation IX_Y :: r08 where "IX_Y \<equiv> (IX, BY)"
abbreviation IX_H :: r08 where "IX_H \<equiv> (IX, BH)"
abbreviation IX_L :: r08 where "IX_L \<equiv> (IX, BL)"
abbreviation IY_P :: r16 where "IY_P \<equiv> (IY, WH)"
abbreviation IY_W :: r16 where "IY_W \<equiv> (IY, WL)"
abbreviation IY_X :: r08 where "IY_X \<equiv> (IY, BX)"
abbreviation IY_Y :: r08 where "IY_Y \<equiv> (IY, BY)"
abbreviation IY_H :: r08 where "IY_H \<equiv> (IY, BH)"
abbreviation IY_L :: r08 where "IY_L \<equiv> (IY, BL)"
abbreviation SP_P :: r16 where "SP_P \<equiv> (SP, WH)"
abbreviation SP_W :: r16 where "SP_W \<equiv> (SP, WL)"
abbreviation SP_X :: r08 where "SP_X \<equiv> (SP, BX)"
abbreviation SP_Y :: r08 where "SP_Y \<equiv> (SP, BY)"
abbreviation SP_H :: r08 where "SP_H \<equiv> (SP, BH)"
abbreviation SP_L :: r08 where "SP_L \<equiv> (SP, BL)"
abbreviation PC_P :: r16 where "PC_P \<equiv> (PC, WH)"
abbreviation PC_W :: r16 where "PC_W \<equiv> (PC, WL)"
abbreviation PC_X :: r08 where "PC_X \<equiv> (PC, BX)"
abbreviation PC_Y :: r08 where "PC_Y \<equiv> (PC, BY)"
abbreviation PC_H :: r08 where "PC_H \<equiv> (PC, BH)"
abbreviation PC_L :: r08 where "PC_L \<equiv> (PC, BL)"
abbreviation IR_P :: r16 where "IR_P \<equiv> (IR, WH)"
abbreviation IR_W :: r16 where "IR_W \<equiv> (IR, WL)"
abbreviation IR_X :: r08 where "IR_X \<equiv> (IR, BX)"
abbreviation IR_Y :: r08 where "IR_Y \<equiv> (IR, BY)"
abbreviation IR_H :: r08 where "IR_H \<equiv> (IR, BH)"
abbreviation IR_L :: r08 where "IR_L \<equiv> (IR, BL)"
abbreviation ST_P :: r16 where "ST_P \<equiv> (ST, WH)"
abbreviation ST_W :: r16 where "ST_W \<equiv> (ST, WL)"
abbreviation ST_X :: r08 where "ST_X \<equiv> (ST, BX)"
abbreviation ST_Y :: r08 where "ST_Y \<equiv> (ST, BY)"
abbreviation ST_H :: r08 where "ST_H \<equiv> (ST, BH)"
abbreviation ST_L :: r08 where "ST_L \<equiv> (ST, BL)"
abbreviation OP_P :: r16 where "OP_P \<equiv> (OP, WH)"
abbreviation OP_W :: r16 where "OP_W \<equiv> (OP, WL)"
abbreviation OP_X :: r08 where "OP_X \<equiv> (OP, BX)"
abbreviation OP_Y :: r08 where "OP_Y \<equiv> (OP, BY)"
abbreviation OP_H :: r08 where "OP_H \<equiv> (OP, BH)"
abbreviation OP_L :: r08 where "OP_L \<equiv> (OP, BL)"
abbreviation WZ_P :: r16 where "WZ_P \<equiv> (WZ, WH)"
abbreviation WZ_W :: r16 where "WZ_W \<equiv> (WZ, WL)"
abbreviation WZ_X :: r08 where "WZ_X \<equiv> (WZ, BX)"
abbreviation WZ_Y :: r08 where "WZ_Y \<equiv> (WZ, BY)"
abbreviation WZ_H :: r08 where "WZ_H \<equiv> (WZ, BH)"
abbreviation WZ_L :: r08 where "WZ_L \<equiv> (WZ, BL)"
abbreviation R0_P :: r16 where "R0_P \<equiv> (R0, WH)"
abbreviation R0_W :: r16 where "R0_W \<equiv> (R0, WL)"
abbreviation R0_X :: r08 where "R0_X \<equiv> (R0, BX)"
abbreviation R0_Y :: r08 where "R0_Y \<equiv> (R0, BY)"
abbreviation R0_H :: r08 where "R0_H \<equiv> (R0, BH)"
abbreviation R0_L :: r08 where "R0_L \<equiv> (R0, BL)"
abbreviation R1_P :: r16 where "R1_P \<equiv> (R1, WH)"
abbreviation R1_W :: r16 where "R1_W \<equiv> (R1, WL)"
abbreviation R1_X :: r08 where "R1_X \<equiv> (R1, BX)"
abbreviation R1_Y :: r08 where "R1_Y \<equiv> (R1, BY)"
abbreviation R1_H :: r08 where "R1_H \<equiv> (R1, BH)"
abbreviation R1_L :: r08 where "R1_L \<equiv> (R1, BL)"
abbreviation R2_P :: r16 where "R2_P \<equiv> (R2, WH)"
abbreviation R2_W :: r16 where "R2_W \<equiv> (R2, WL)"
abbreviation R2_X :: r08 where "R2_X \<equiv> (R2, BX)"
abbreviation R2_Y :: r08 where "R2_Y \<equiv> (R2, BY)"
abbreviation R2_H :: r08 where "R2_H \<equiv> (R2, BH)"
abbreviation R2_L :: r08 where "R2_L \<equiv> (R2, BL)"
abbreviation R3_P :: r16 where "R3_P \<equiv> (R3, WH)"
abbreviation R3_W :: r16 where "R3_W \<equiv> (R3, WL)"
abbreviation R3_X :: r08 where "R3_X \<equiv> (R3, BX)"
abbreviation R3_Y :: r08 where "R3_Y \<equiv> (R3, BY)"
abbreviation R3_H :: r08 where "R3_H \<equiv> (R3, BH)"
abbreviation R3_L :: r08 where "R3_L \<equiv> (R3, BL)"

section \<open>Flags\<close>

text \<open>Namespace \<^verbatim>\<open>bits\<close>.\<close>

abbreviation BIT0 :: u8 where "BIT0 \<equiv> 0x1"
abbreviation BIT1 :: u8 where "BIT1 \<equiv> 0x2"
abbreviation BIT2 :: u8 where "BIT2 \<equiv> 0x4"
abbreviation BIT3 :: u8 where "BIT3 \<equiv> 0x8"
abbreviation BIT4 :: u8 where "BIT4 \<equiv> 0x10"
abbreviation BIT5 :: u8 where "BIT5 \<equiv> 0x20"
abbreviation BIT6 :: u8 where "BIT6 \<equiv> 0x40"
abbreviation BIT7 :: u8 where "BIT7 \<equiv> 0x80"

text \<open>The flags of \<^verbatim>\<open>AF_L\<close>.\<close>

abbreviation CF :: u8 where "CF \<equiv> 0x01"
abbreviation NF :: u8 where "NF \<equiv> 0x02"
abbreviation VF :: u8 where "VF \<equiv> 0x04"
abbreviation PF :: u8 where "PF \<equiv> 0x04"
abbreviation XF :: u8 where "XF \<equiv> 0x08"
abbreviation HF :: u8 where "HF \<equiv> 0x10"
abbreviation YF :: u8 where "YF \<equiv> 0x20"
abbreviation ZF :: u8 where "ZF \<equiv> 0x40"
abbreviation SF :: u8 where "SF \<equiv> 0x80"

text \<open>The internal flags of \<^verbatim>\<open>ST_L\<close>.\<close>

abbreviation ST_IFF1 :: u8 where "ST_IFF1 \<equiv> 0x01"
abbreviation ST_IFF2 :: u8 where "ST_IFF2 \<equiv> 0x02"
abbreviation ST_IM1 :: u8 where "ST_IM1 \<equiv> 0x04"
abbreviation ST_IM2 :: u8 where "ST_IM2 \<equiv> 0x08"
abbreviation ST_AEI :: u8 where "ST_AEI \<equiv> 0x10"
abbreviation ST_NMI :: u8 where "ST_NMI \<equiv> 0x20"
abbreviation ST_INT :: u8 where "ST_INT \<equiv> 0x40"
abbreviation ST_HLT :: u8 where "ST_HLT \<equiv> 0x80"

text \<open>The restart vectors.\<close>

abbreviation VECTOR_00H :: u16 where "VECTOR_00H \<equiv> 0x0000"
abbreviation VECTOR_08H :: u16 where "VECTOR_08H \<equiv> 0x0008"
abbreviation VECTOR_10H :: u16 where "VECTOR_10H \<equiv> 0x0010"
abbreviation VECTOR_18H :: u16 where "VECTOR_18H \<equiv> 0x0018"
abbreviation VECTOR_20H :: u16 where "VECTOR_20H \<equiv> 0x0020"
abbreviation VECTOR_28H :: u16 where "VECTOR_28H \<equiv> 0x0028"
abbreviation VECTOR_30H :: u16 where "VECTOR_30H \<equiv> 0x0030"
abbreviation VECTOR_38H :: u16 where "VECTOR_38H \<equiv> 0x0038"
abbreviation VECTOR_66H :: u16 where "VECTOR_66H \<equiv> 0x0066"

text \<open>The table \<^verbatim>\<open>PZS\<close>: parity, zero and sign of a byte, and its two undocumented bits.\<close>

definition PZS_table :: "u8 list" where
  "PZS_table = [
    0x44, 0x00, 0x00, 0x04, 0x00, 0x04, 0x04, 0x00, 0x08, 0x0c, 0x0c, 0x08, 0x0c, 0x08, 0x08, 0x0c,
    0x00, 0x04, 0x04, 0x00, 0x04, 0x00, 0x00, 0x04, 0x0c, 0x08, 0x08, 0x0c, 0x08, 0x0c, 0x0c, 0x08,
    0x20, 0x24, 0x24, 0x20, 0x24, 0x20, 0x20, 0x24, 0x2c, 0x28, 0x28, 0x2c, 0x28, 0x2c, 0x2c, 0x28,
    0x24, 0x20, 0x20, 0x24, 0x20, 0x24, 0x24, 0x20, 0x28, 0x2c, 0x2c, 0x28, 0x2c, 0x28, 0x28, 0x2c,
    0x00, 0x04, 0x04, 0x00, 0x04, 0x00, 0x00, 0x04, 0x0c, 0x08, 0x08, 0x0c, 0x08, 0x0c, 0x0c, 0x08,
    0x04, 0x00, 0x00, 0x04, 0x00, 0x04, 0x04, 0x00, 0x08, 0x0c, 0x0c, 0x08, 0x0c, 0x08, 0x08, 0x0c,
    0x24, 0x20, 0x20, 0x24, 0x20, 0x24, 0x24, 0x20, 0x28, 0x2c, 0x2c, 0x28, 0x2c, 0x28, 0x28, 0x2c,
    0x20, 0x24, 0x24, 0x20, 0x24, 0x20, 0x20, 0x24, 0x2c, 0x28, 0x28, 0x2c, 0x28, 0x2c, 0x2c, 0x28,
    0x80, 0x84, 0x84, 0x80, 0x84, 0x80, 0x80, 0x84, 0x8c, 0x88, 0x88, 0x8c, 0x88, 0x8c, 0x8c, 0x88,
    0x84, 0x80, 0x80, 0x84, 0x80, 0x84, 0x84, 0x80, 0x88, 0x8c, 0x8c, 0x88, 0x8c, 0x88, 0x88, 0x8c,
    0xa4, 0xa0, 0xa0, 0xa4, 0xa0, 0xa4, 0xa4, 0xa0, 0xa8, 0xac, 0xac, 0xa8, 0xac, 0xa8, 0xa8, 0xac,
    0xa0, 0xa4, 0xa4, 0xa0, 0xa4, 0xa0, 0xa0, 0xa4, 0xac, 0xa8, 0xa8, 0xac, 0xa8, 0xac, 0xac, 0xa8,
    0x84, 0x80, 0x80, 0x84, 0x80, 0x84, 0x84, 0x80, 0x88, 0x8c, 0x8c, 0x88, 0x8c, 0x88, 0x88, 0x8c,
    0x80, 0x84, 0x84, 0x80, 0x84, 0x80, 0x80, 0x84, 0x8c, 0x88, 0x88, 0x8c, 0x88, 0x8c, 0x8c, 0x88,
    0xa0, 0xa4, 0xa4, 0xa0, 0xa4, 0xa0, 0xa0, 0xa4, 0xac, 0xa8, 0xa8, 0xac, 0xa8, 0xac, 0xac, 0xa8,
    0xa4, 0xa0, 0xa0, 0xa4, 0xa0, 0xa4, 0xa4, 0xa0, 0xa8, 0xac, 0xac, 0xa8, 0xac, 0xa8, 0xa8, 0xac]"

definition PZS :: "u8 \<Rightarrow> u8" where
  "PZS x = PZS_table ! unat x"

section \<open>Reading after writing\<close>

lemma w_l_set_w_l [reg_simps]: "w_l (set_w_l v r) = v"
  by (simp add: w_l_def set_w_l_def u16_split)

lemma w_h_set_w_h [reg_simps]: "w_h (set_w_h v r) = v"
  by (simp add: w_h_def set_w_h_def u16_split)

lemma w_l_set_w_h [reg_simps]: "w_l (set_w_h v r) = w_l r"
  by (simp add: w_l_def set_w_h_def)

lemma w_h_set_w_l [reg_simps]: "w_h (set_w_l v r) = w_h r"
  by (simp add: w_h_def set_w_l_def)

lemma get_put_reg: "get_reg f (put_reg g r m) = (if f = g then r else get_reg f m)"
  by (cases f; cases g) simp_all

lemma put_reg_bus [simp]: "bus (put_reg f r m) = bus m"
  by (cases f) simp_all

lemma put_reg_counters [simp]:
  "m_cycles (cpu_st (put_reg f r m)) = m_cycles (cpu_st m)"
  "t_states (cpu_st (put_reg f r m)) = t_states (cpu_st m)"
  "i_period (cpu_st (put_reg f r m)) = i_period (cpu_st m)"
  by (cases f; simp)+

lemma get_put_byte: "get_byte p (put_byte q v r) = (if p = q then v else get_byte p r)"
  by (cases p; cases q) simp_all

lemma put_put_reg: "put_reg f r (put_reg f r' m) = put_reg f r m"
  by (cases f) simp_all

lemma get8_put8 [reg_simps]: "get8 p (put8 q v m) = (if p = q then v else get8 p m)"
  by (cases p; cases q) (simp add: get8_def put8_def get_put_reg get_put_byte)

lemma get_put_word: "get_word p (put_word q v r) = (if p = q then v else get_word p r)"
  by (cases p; cases q) (simp_all add: reg_simps)

lemma get16_put16 [reg_simps]: "get16 p (put16 q v m) = (if p = q then v else get16 p m)"
  by (cases p; cases q) (simp add: get16_def put16_def get_put_reg get_put_word)

lemma get8_put16_other [reg_simps]: "f \<noteq> g \<Longrightarrow> get8 (f, p) (put16 (g, q) v m) = get8 (f, p) m"
  by (simp add: get8_def put16_def get_put_reg)

lemma get16_put8_other [reg_simps]: "f \<noteq> g \<Longrightarrow> get16 (f, p) (put8 (g, q) v m) = get16 (f, p) m"
  by (simp add: get16_def put8_def get_put_reg)

lemma get8_put16_same [reg_simps]:
  "get8 (f, BL) (put16 (f, WL) v m) = ucast v"
  "get8 (f, BH) (put16 (f, WL) v m) = ucast (drop_bit 8 v)"
  "get8 (f, BY) (put16 (f, WL) v m) = get8 (f, BY) m"
  "get8 (f, BX) (put16 (f, WL) v m) = get8 (f, BX) m"
  "get8 (f, BY) (put16 (f, WH) v m) = ucast v"
  "get8 (f, BX) (put16 (f, WH) v m) = ucast (drop_bit 8 v)"
  "get8 (f, BL) (put16 (f, WH) v m) = get8 (f, BL) m"
  "get8 (f, BH) (put16 (f, WH) v m) = get8 (f, BH) m"
  by (simp_all add: get8_def put16_def get_put_reg set_w_l_def set_w_h_def)

lemma get16_WL: "get16 (f, WL) m = push_bit 8 (ucast (get8 (f, BH) m)) OR ucast (get8 (f, BL) m)"
  by (simp add: get16_def get8_def w_l_def)

lemma get16_WH: "get16 (f, WH) m = push_bit 8 (ucast (get8 (f, BX) m)) OR ucast (get8 (f, BY) m)"
  by (simp add: get16_def get8_def w_h_def)

lemma get16_put8_same [reg_simps]:
  "get16 (f, WL) (put8 (f, BL) v m) = push_bit 8 (ucast (get8 (f, BH) m)) OR ucast v"
  "get16 (f, WL) (put8 (f, BH) v m) = push_bit 8 (ucast v) OR ucast (get8 (f, BL) m)"
  "get16 (f, WL) (put8 (f, BX) v m) = get16 (f, WL) m"
  "get16 (f, WL) (put8 (f, BY) v m) = get16 (f, WL) m"
  "get16 (f, WH) (put8 (f, BL) v m) = get16 (f, WH) m"
  "get16 (f, WH) (put8 (f, BH) v m) = get16 (f, WH) m"
  by (simp_all add: get16_WL get16_WH reg_simps)

lemma bus_put [simp, reg_simps]:
  "bus (put8 p v m) = bus m" "bus (put16 q w m) = bus m" "bus (put32 f x m) = bus m"
  by (simp_all add: put8_def put16_def put32_def)

lemma counters_put [simp, reg_simps]:
  "m_cycles (cpu_st (put8 p v m)) = m_cycles (cpu_st m)"
  "t_states (cpu_st (put8 p v m)) = t_states (cpu_st m)"
  "i_period (cpu_st (put8 p v m)) = i_period (cpu_st m)"
  "m_cycles (cpu_st (put16 q w m)) = m_cycles (cpu_st m)"
  "t_states (cpu_st (put16 q w m)) = t_states (cpu_st m)"
  "i_period (cpu_st (put16 q w m)) = i_period (cpu_st m)"
  "m_cycles (cpu_st (put32 f x m)) = m_cycles (cpu_st m)"
  "t_states (cpu_st (put32 f x m)) = t_states (cpu_st m)"
  "i_period (cpu_st (put32 f x m)) = i_period (cpu_st m)"
  by (simp_all add: put8_def put16_def put32_def)

text \<open>
  What the table means: bit 7 is the sign, bit 6 is set for zero only, bits 5 and 3 are copies
  and bit 2 is set for an even number of ones; the other bits are clear.
\<close>

definition ones :: "u8 \<Rightarrow> nat" where
  "ones x = length (filter (\<lambda>n. bit x n) [0..<8])"

definition PZS_spec :: "u8 \<Rightarrow> u8" where
  "PZS_spec x = (x AND (SF OR YF OR XF)) OR (if x = 0 then ZF else 0) OR (if even (ones x) then PF else 0)"

end
