(* ===== verification/Z80_Micro.thy ===== *)
theory Z80_Micro
  imports Z80_State
begin

text \<open>
  The micro-instructions of \<^verbatim>\<open>cpu-microcode.inc\<close>, first part: the accesses to the bus, the
  fetches, the control of interrupts, input, output and loads.  Each macro of the source is one
  definition; its arguments that are lvalues are register names, the assignments are a chain of
  \<^verbatim>\<open>let\<close>s, and \<^verbatim>\<open>I\<close> is the interface whose callbacks the macro calls.  An expression of the
  source is evaluated at the width of the register it is assigned to; comparisons, right shifts
  and table indices at the width of their operands.
\<close>

unbundle bit_operations_syntax

section \<open>Bus accesses\<close>

text \<open>
  The macros \<^verbatim>\<open>MREQ_RD\<close> and its kin call the interface with the instance; \<^verbatim>\<open>m_mreq_rd\<close> and
  its kin store the byte that comes back.
\<close>

definition MREQ_M1 :: "'b iface \<Rightarrow> u16 \<Rightarrow> u8 \<Rightarrow> 'b machine \<Rightarrow> u8 \<times> 'b machine" where
  "MREQ_M1 I addr data m =
     (case cpu_mreq_m1 I addr data (cpu_st m, bus m) of (d, s, b) \<Rightarrow> (d, m\<lparr>cpu_st := s, bus := b\<rparr>))"

definition MREQ_RD :: "'b iface \<Rightarrow> u16 \<Rightarrow> u8 \<Rightarrow> 'b machine \<Rightarrow> u8 \<times> 'b machine" where
  "MREQ_RD I addr data m =
     (case cpu_mreq_rd I addr data (cpu_st m, bus m) of (d, s, b) \<Rightarrow> (d, m\<lparr>cpu_st := s, bus := b\<rparr>))"

definition MREQ_WR :: "'b iface \<Rightarrow> u16 \<Rightarrow> u8 \<Rightarrow> 'b machine \<Rightarrow> u8 \<times> 'b machine" where
  "MREQ_WR I addr data m =
     (case cpu_mreq_wr I addr data (cpu_st m, bus m) of (d, s, b) \<Rightarrow> (d, m\<lparr>cpu_st := s, bus := b\<rparr>))"

definition IORQ_M1 :: "'b iface \<Rightarrow> u16 \<Rightarrow> u8 \<Rightarrow> 'b machine \<Rightarrow> u8 \<times> 'b machine" where
  "IORQ_M1 I addr data m =
     (case cpu_iorq_m1 I addr data (cpu_st m, bus m) of (d, s, b) \<Rightarrow> (d, m\<lparr>cpu_st := s, bus := b\<rparr>))"

definition IORQ_RD :: "'b iface \<Rightarrow> u16 \<Rightarrow> u8 \<Rightarrow> 'b machine \<Rightarrow> u8 \<times> 'b machine" where
  "IORQ_RD I addr data m =
     (case cpu_iorq_rd I addr data (cpu_st m, bus m) of (d, s, b) \<Rightarrow> (d, m\<lparr>cpu_st := s, bus := b\<rparr>))"

definition IORQ_WR :: "'b iface \<Rightarrow> u16 \<Rightarrow> u8 \<Rightarrow> 'b machine \<Rightarrow> u8 \<times> 'b machine" where
  "IORQ_WR I addr data m =
     (case cpu_iorq_wr I addr data (cpu_st m, bus m) of (d, s, b) \<Rightarrow> (d, m\<lparr>cpu_st := s, bus := b\<rparr>))"

definition m_mreq_m1 :: "'b iface \<Rightarrow> u16 \<Rightarrow> r08 \<Rightarrow> 'b machine \<Rightarrow> 'b machine" where
  "m_mreq_m1 I addr dest m = (case MREQ_M1 I addr 0x00 m of (d, m) \<Rightarrow> put8 dest d m)"

definition m_mreq_rd :: "'b iface \<Rightarrow> u16 \<Rightarrow> r08 \<Rightarrow> 'b machine \<Rightarrow> 'b machine" where
  "m_mreq_rd I addr dest m = (case MREQ_RD I addr 0x00 m of (d, m) \<Rightarrow> put8 dest d m)"

definition m_iorq_m1 :: "'b iface \<Rightarrow> u16 \<Rightarrow> r08 \<Rightarrow> 'b machine \<Rightarrow> 'b machine" where
  "m_iorq_m1 I addr dest m = (case IORQ_M1 I addr 0x00 m of (d, m) \<Rightarrow> put8 dest d m)"

definition m_iorq_rd :: "'b iface \<Rightarrow> u16 \<Rightarrow> r08 \<Rightarrow> 'b machine \<Rightarrow> 'b machine" where
  "m_iorq_rd I addr dest m = (case IORQ_RD I addr 0x00 m of (d, m) \<Rightarrow> put8 dest d m)"

definition m_mreq_wr :: "'b iface \<Rightarrow> u16 \<Rightarrow> u8 \<Rightarrow> 'b machine \<Rightarrow> 'b machine" where
  "m_mreq_wr I addr data m = snd (MREQ_WR I addr data m)"

definition m_iorq_wr :: "'b iface \<Rightarrow> u16 \<Rightarrow> u8 \<Rightarrow> 'b machine \<Rightarrow> 'b machine" where
  "m_iorq_wr I addr data m = snd (IORQ_WR I addr data m)"

section \<open>Program counter, refresh and time\<close>

definition m_backup_pc :: "'b machine \<Rightarrow> 'b machine" where
  "m_backup_pc m = put16 OP_P (get16 PC_W m) m"

definition m_restore_pc :: "'b machine \<Rightarrow> 'b machine" where
  "m_restore_pc m = put16 PC_W (get16 OP_P m) m"

definition m_refresh_dram :: "'b machine \<Rightarrow> 'b machine" where
  "m_refresh_dram m =
     put8 IR_L (((get8 IR_L m + 0) AND 0x80) OR ((get8 IR_L m + 1) AND 0x7f)) m"

definition m_consume :: "u32 \<Rightarrow> u32 \<Rightarrow> 'b machine \<Rightarrow> 'b machine" where
  "m_consume cycles states m = m\<lparr>cpu_st := (cpu_st m)
     \<lparr>m_cycles := m_cycles (cpu_st m) + cycles,
      t_states := t_states (cpu_st m) + states,
      i_period := i_period (cpu_st m) + states\<rparr>\<rparr>"


section \<open>Fetching an opcode\<close>

definition m_fetch_opcode :: "'b iface \<Rightarrow> 'b machine \<Rightarrow> 'b machine" where
  "m_fetch_opcode I m = (
     let m = m_mreq_m1 I (get16 PC_W m) OP_L m;
         m = put16 PC_W (get16 PC_W m + 0x01) m
     in m)"

definition m_fetch_cb_opcode :: "'b iface \<Rightarrow> 'b machine \<Rightarrow> 'b machine" where
  "m_fetch_cb_opcode I m = (
     let m = m_mreq_m1 I (get16 PC_W m) OP_L m;
         m = put16 PC_W (get16 PC_W m + 0x01) m
     in m)"

definition m_fetch_dd_opcode :: "'b iface \<Rightarrow> 'b machine \<Rightarrow> 'b machine" where
  "m_fetch_dd_opcode I m = (
     let m = m_mreq_m1 I (get16 PC_W m) OP_L m;
         m = put16 PC_W (get16 PC_W m + 0x01) m
     in m)"

definition m_fetch_ed_opcode :: "'b iface \<Rightarrow> 'b machine \<Rightarrow> 'b machine" where
  "m_fetch_ed_opcode I m = (
     let m = m_mreq_m1 I (get16 PC_W m) OP_L m;
         m = put16 PC_W (get16 PC_W m + 0x01) m
     in m)"

definition m_fetch_fd_opcode :: "'b iface \<Rightarrow> 'b machine \<Rightarrow> 'b machine" where
  "m_fetch_fd_opcode I m = (
     let m = m_mreq_m1 I (get16 PC_W m) OP_L m;
         m = put16 PC_W (get16 PC_W m + 0x01) m
     in m)"

definition m_fetch_ddcb_opcode :: "'b iface \<Rightarrow> 'b machine \<Rightarrow> 'b machine" where
  "m_fetch_ddcb_opcode I m = (
     let a2 = get16 PC_W m;
         m = put16 PC_W (a2 + 1) m;
         (d1, m) = MREQ_RD I a2 0x00 m;
         m = put16 WZ_W (get16 IX_W m + scast d1) m;
         m = m_mreq_rd I (get16 PC_W m) OP_L m;
         m = put16 PC_W (get16 PC_W m + 0x01) m
     in m)"

definition m_fetch_fdcb_opcode :: "'b iface \<Rightarrow> 'b machine \<Rightarrow> 'b machine" where
  "m_fetch_fdcb_opcode I m = (
     let a2 = get16 PC_W m;
         m = put16 PC_W (a2 + 1) m;
         (d1, m) = MREQ_RD I a2 0x00 m;
         m = put16 WZ_W (get16 IY_W m + scast d1) m;
         m = m_mreq_rd I (get16 PC_W m) OP_L m;
         m = put16 PC_W (get16 PC_W m + 0x01) m
     in m)"


section \<open>Illegal opcodes and control\<close>

definition m_illegal :: "'b machine \<Rightarrow> 'b machine" where
  "m_illegal m = m"

definition m_illegal_cb :: "'b machine \<Rightarrow> 'b machine" where
  "m_illegal_cb m = m"

definition m_illegal_dd :: "'b machine \<Rightarrow> 'b machine" where
  "m_illegal_dd m = m"

definition m_illegal_ed :: "'b machine \<Rightarrow> 'b machine" where
  "m_illegal_ed m = m"

definition m_illegal_fd :: "'b machine \<Rightarrow> 'b machine" where
  "m_illegal_fd m = m"

definition m_illegal_ddcb :: "'b machine \<Rightarrow> 'b machine" where
  "m_illegal_ddcb m = m"

definition m_illegal_fdcb :: "'b machine \<Rightarrow> 'b machine" where
  "m_illegal_fdcb m = m"

definition m_nop :: "'b machine \<Rightarrow> 'b machine" where
  "m_nop m = m"

definition m_di :: "'b machine \<Rightarrow> 'b machine" where
  "m_di m = (
     let m = put8 ST_L (get8 ST_L m AND NOT ST_IFF1) m;
         m = put8 ST_L (get8 ST_L m AND NOT ST_IFF2) m;
         m = put8 ST_L (get8 ST_L m AND NOT ST_AEI) m
     in m)"

definition m_ei :: "'b machine \<Rightarrow> 'b machine" where
  "m_ei m = (
     let m = put8 ST_L (get8 ST_L m OR ST_IFF1) m;
         m = put8 ST_L (get8 ST_L m OR ST_IFF2) m;
         m = put8 ST_L (get8 ST_L m OR ST_AEI) m
     in m)"

definition m_halt :: "'b machine \<Rightarrow> 'b machine" where
  "m_halt m =
     put8 ST_L (get8 ST_L m OR ST_HLT) m"

definition m_im_0 :: "'b machine \<Rightarrow> 'b machine" where
  "m_im_0 m = (
     let m = put8 ST_L (get8 ST_L m AND NOT ST_IM1) m;
         m = put8 ST_L (get8 ST_L m AND NOT ST_IM2) m
     in m)"

definition m_im_1 :: "'b machine \<Rightarrow> 'b machine" where
  "m_im_1 m = (
     let m = put8 ST_L (get8 ST_L m OR ST_IM1) m;
         m = put8 ST_L (get8 ST_L m AND NOT ST_IM2) m
     in m)"

definition m_im_2 :: "'b machine \<Rightarrow> 'b machine" where
  "m_im_2 m = (
     let m = put8 ST_L (get8 ST_L m AND NOT ST_IM1) m;
         m = put8 ST_L (get8 ST_L m OR ST_IM2) m
     in m)"

definition m_im_3 :: "'b machine \<Rightarrow> 'b machine" where
  "m_im_3 m = (
     let m = put8 ST_L (get8 ST_L m OR ST_IM1) m;
         m = put8 ST_L (get8 ST_L m OR ST_IM2) m
     in m)"


section \<open>Input and output\<close>

definition m_in_r08_ind_r08 :: "'b iface \<Rightarrow> r08 \<Rightarrow> r08 \<Rightarrow> 'b machine \<Rightarrow> 'b machine" where
  "m_in_r08_ind_r08 I data port m = (
     let m = put8 R1_H (get8 BC_H m) m;
         m = put8 R1_L (get8 port m) m;
         m = m_iorq_rd I (get16 R1_W m) R0_L m;
         m = put8 data (get8 R0_L m) m;
         m = put8 R3_L (PZS (get8 R0_L m)) m;
         m = put8 AF_L ((SF AND get8 R3_L m)
             OR (ZF AND get8 R3_L m)
             OR (YF AND get8 R3_L m)
             OR (HF AND 0x00)
             OR (XF AND get8 R3_L m)
             OR (PF AND get8 R3_L m)
             OR (NF AND 0x00)
             OR (CF AND get8 AF_L m)) m
     in m)"

definition m_in_r08_ind_i08 :: "'b iface \<Rightarrow> r08 \<Rightarrow> 'b machine \<Rightarrow> 'b machine" where
  "m_in_r08_ind_i08 I reg1 m = (
     let m = put16 R0_W (get16 AF_W m) m;
         m = m_mreq_rd I (get16 PC_W m) R0_L m;
         m = put16 PC_W (get16 PC_W m + 0x01) m;
         m = m_iorq_rd I (get16 R0_W m) reg1 m
     in m)"

definition m_ini :: "'b iface \<Rightarrow> 'b machine \<Rightarrow> 'b machine" where
  "m_ini I m = (
     let m = m_iorq_rd I (get16 BC_W m) R0_L m;
         m = m_mreq_wr I (get16 HL_W m) (get8 R0_L m) m;
         m = put16 WZ_W (get16 BC_W m) m;
         m = put8 BC_H (get8 BC_H m - 0x01) m;
         m = put16 HL_W (get16 HL_W m + 0x01) m;
         m = put8 R3_L (PZS (get8 BC_H m)) m;
         m = put8 AF_L ((SF AND get8 R3_L m)
             OR (ZF AND get8 R3_L m)
             OR (YF AND get8 R3_L m)
             OR (HF AND 0x00)
             OR (XF AND get8 R3_L m)
             OR (PF AND 0x00)
             OR (NF AND 0xff)
             OR (CF AND get8 AF_L m)) m
     in m)"

definition m_inir :: "'b iface \<Rightarrow> 'b machine \<Rightarrow> 'b machine" where
  "m_inir I m = (
     let m = m_iorq_rd I (get16 BC_W m) R1_L m;
         m = m_mreq_wr I (get16 HL_W m) (get8 R1_L m) m;
         m = put16 WZ_W (get16 BC_W m) m;
         m = put16 HL_W (get16 HL_W m + 0x01) m;
         m = put8 BC_H (get8 BC_H m - 0x01) m;
         m = (if get8 BC_H m \<noteq> 0
         then (let m = m_restore_pc m;
            m = m_consume 1 5 m
          in m)
         else m);
         m = put8 R3_L (PZS (get8 BC_H m)) m;
         m = put8 AF_L ((SF AND get8 R3_L m)
             OR (ZF AND get8 R3_L m)
             OR (YF AND get8 R3_L m)
             OR (HF AND 0x00)
             OR (XF AND get8 R3_L m)
             OR (PF AND 0x00)
             OR (NF AND 0xff)
             OR (CF AND get8 AF_L m)) m
     in m)"

definition m_ind :: "'b iface \<Rightarrow> 'b machine \<Rightarrow> 'b machine" where
  "m_ind I m = (
     let m = m_iorq_rd I (get16 BC_W m) R0_L m;
         m = m_mreq_wr I (get16 HL_W m) (get8 R0_L m) m;
         m = put16 WZ_W (get16 BC_W m) m;
         m = put8 BC_H (get8 BC_H m - 0x01) m;
         m = put16 HL_W (get16 HL_W m - 0x01) m;
         m = put8 R3_L (PZS (get8 BC_H m)) m;
         m = put8 AF_L ((SF AND get8 R3_L m)
             OR (ZF AND get8 R3_L m)
             OR (YF AND get8 R3_L m)
             OR (HF AND 0x00)
             OR (XF AND get8 R3_L m)
             OR (PF AND 0x00)
             OR (NF AND 0xff)
             OR (CF AND get8 AF_L m)) m
     in m)"

definition m_indr :: "'b iface \<Rightarrow> 'b machine \<Rightarrow> 'b machine" where
  "m_indr I m = (
     let m = m_iorq_rd I (get16 BC_W m) R1_L m;
         m = m_mreq_wr I (get16 HL_W m) (get8 R1_L m) m;
         m = put16 WZ_W (get16 BC_W m) m;
         m = put16 HL_W (get16 HL_W m - 0x01) m;
         m = put8 BC_H (get8 BC_H m - 0x01) m;
         m = (if get8 BC_H m \<noteq> 0
         then (let m = m_restore_pc m;
            m = m_consume 1 5 m
          in m)
         else m);
         m = put8 R3_L (PZS (get8 BC_H m)) m;
         m = put8 AF_L ((SF AND get8 R3_L m)
             OR (ZF AND get8 R3_L m)
             OR (YF AND get8 R3_L m)
             OR (HF AND 0x00)
             OR (XF AND get8 R3_L m)
             OR (PF AND 0x00)
             OR (NF AND 0xff)
             OR (CF AND get8 AF_L m)) m
     in m)"

definition m_out_ind_r08_r08 :: "'b iface \<Rightarrow> r08 \<Rightarrow> r08 \<Rightarrow> 'b machine \<Rightarrow> 'b machine" where
  "m_out_ind_r08_r08 I port data m = (
     let m = put8 R1_H (get8 BC_H m) m;
         m = put8 R1_L (get8 port m) m;
         m = m_iorq_wr I (get16 R1_W m) (get8 data m) m
     in m)"

definition m_out_ind_i08_r08 :: "'b iface \<Rightarrow> r08 \<Rightarrow> 'b machine \<Rightarrow> 'b machine" where
  "m_out_ind_i08_r08 I reg1 m = (
     let m = put16 R0_W (get16 AF_W m) m;
         m = m_mreq_rd I (get16 PC_W m) R0_L m;
         m = put16 PC_W (get16 PC_W m + 0x01) m;
         m = m_iorq_wr I (get16 R0_W m) (get8 reg1 m) m
     in m)"

definition m_outi :: "'b iface \<Rightarrow> 'b machine \<Rightarrow> 'b machine" where
  "m_outi I m = (
     let m = m_mreq_rd I (get16 HL_W m) R0_L m;
         m = put8 BC_H (get8 BC_H m - 0x01) m;
         m = put16 HL_W (get16 HL_W m + 0x01) m;
         m = put16 WZ_W (get16 BC_W m) m;
         m = m_iorq_wr I (get16 BC_W m) (get8 R0_L m) m;
         m = put8 R3_L (PZS (get8 BC_H m)) m;
         m = put8 AF_L ((SF AND get8 R3_L m)
             OR (ZF AND get8 R3_L m)
             OR (YF AND get8 R3_L m)
             OR (HF AND 0x00)
             OR (XF AND get8 R3_L m)
             OR (PF AND 0x00)
             OR (NF AND 0xff)
             OR (CF AND get8 AF_L m)) m
     in m)"

definition m_otir :: "'b iface \<Rightarrow> 'b machine \<Rightarrow> 'b machine" where
  "m_otir I m = (
     let m = m_mreq_rd I (get16 HL_W m) R1_L m;
         m = put16 HL_W (get16 HL_W m + 0x01) m;
         m = put8 BC_H (get8 BC_H m - 0x01) m;
         m = put16 WZ_W (get16 BC_W m) m;
         m = m_iorq_wr I (get16 BC_W m) (get8 R1_L m) m;
         m = (if get8 BC_H m \<noteq> 0
         then (let m = m_restore_pc m;
            m = m_consume 1 5 m
          in m)
         else m);
         m = put8 R3_L (PZS (get8 BC_H m)) m;
         m = put8 AF_L ((SF AND get8 R3_L m)
             OR (ZF AND get8 R3_L m)
             OR (YF AND get8 R3_L m)
             OR (HF AND 0x00)
             OR (XF AND get8 R3_L m)
             OR (PF AND 0x00)
             OR (NF AND 0xff)
             OR (CF AND get8 AF_L m)) m
     in m)"

definition m_outd :: "'b iface \<Rightarrow> 'b machine \<Rightarrow> 'b machine" where
  "m_outd I m = (
     let m = m_mreq_rd I (get16 HL_W m) R0_L m;
         m = put8 BC_H (get8 BC_H m - 0x01) m;
         m = put16 HL_W (get16 HL_W m - 0x01) m;
         m = put16 WZ_W (get16 BC_W m) m;
         m = m_iorq_wr I (get16 BC_W m) (get8 R0_L m) m;
         m = put8 R3_L (PZS (get8 BC_H m)) m;
         m = put8 AF_L ((SF AND get8 R3_L m)
             OR (ZF AND get8 R3_L m)
             OR (YF AND get8 R3_L m)
             OR (HF AND 0x00)
             OR (XF AND get8 R3_L m)
             OR (PF AND 0x00)
             OR (NF AND 0xff)
             OR (CF AND get8 AF_L m)) m
     in m)"

definition m_otdr :: "'b iface \<Rightarrow> 'b machine \<Rightarrow> 'b machine" where
  "m_otdr I m = (
     let m = m_mreq_rd I (get16 HL_W m) R1_L m;
         m = put16 HL_W (get16 HL_W m - 0x01) m;
         m = put8 BC_H (get8 BC_H m - 0x01) m;
         m = put16 WZ_W (get16 BC_W m) m;
         m = m_iorq_wr I (get16 BC_W m) (get8 R1_L m) m;
         m = (if get8 BC_H m \<noteq> 0
         then (let m = m_restore_pc m;
            m = m_consume 1 5 m
          in m)
         else m);
         m = put8 R3_L (PZS (get8 BC_H m)) m;
         m = put8 AF_L ((SF AND get8 R3_L m)
             OR (ZF AND get8 R3_L m)
             OR (YF AND get8 R3_L m)
             OR (HF AND 0x00)
             OR (XF AND get8 R3_L m)
             OR (PF AND 0x00)
             OR (NF AND 0xff)
             OR (CF AND get8 AF_L m)) m
     in m)"


section \<open>Loads\<close>

definition m_ld_r08_r08 :: "r08 \<Rightarrow> r08 \<Rightarrow> 'b machine \<Rightarrow> 'b machine" where
  "m_ld_r08_r08 reg1 reg2 m =
     put8 reg1 (get8 reg2 m) m"

definition m_ld_r08_i08 :: "'b iface \<Rightarrow> r08 \<Rightarrow> 'b machine \<Rightarrow> 'b machine" where
  "m_ld_r08_i08 I reg1 m = (
     let m = m_mreq_rd I (get16 PC_W m) reg1 m;
         m = put16 PC_W (get16 PC_W m + 0x01) m
     in m)"

definition m_ld_r08_ind_r16 :: "'b iface \<Rightarrow> r08 \<Rightarrow> r16 \<Rightarrow> 'b machine \<Rightarrow> 'b machine" where
  "m_ld_r08_ind_r16 I reg1 reg2 m =
     m_mreq_rd I (get16 reg2 m) reg1 m"

definition m_ld_ind_r16_r08 :: "'b iface \<Rightarrow> r16 \<Rightarrow> r08 \<Rightarrow> 'b machine \<Rightarrow> 'b machine" where
  "m_ld_ind_r16_r08 I reg1 reg2 m =
     m_mreq_wr I (get16 reg1 m) (get8 reg2 m) m"

definition m_ld_r08_ind_i16 :: "'b iface \<Rightarrow> r08 \<Rightarrow> 'b machine \<Rightarrow> 'b machine" where
  "m_ld_r08_ind_i16 I reg1 m = (
     let m = m_mreq_rd I (get16 PC_W m) WZ_L m;
         m = put16 PC_W (get16 PC_W m + 0x01) m;
         m = m_mreq_rd I (get16 PC_W m) WZ_H m;
         m = put16 PC_W (get16 PC_W m + 0x01) m;
         m = m_mreq_rd I (get16 WZ_W m) reg1 m
     in m)"

definition m_ld_ind_i16_r08 :: "'b iface \<Rightarrow> r08 \<Rightarrow> 'b machine \<Rightarrow> 'b machine" where
  "m_ld_ind_i16_r08 I reg1 m = (
     let m = m_mreq_rd I (get16 PC_W m) WZ_L m;
         m = put16 PC_W (get16 PC_W m + 0x01) m;
         m = m_mreq_rd I (get16 PC_W m) WZ_H m;
         m = put16 PC_W (get16 PC_W m + 0x01) m;
         m = m_mreq_wr I (get16 WZ_W m) (get8 reg1 m) m
     in m)"

definition m_ld_ind_r16_i08 :: "'b iface \<Rightarrow> r16 \<Rightarrow> 'b machine \<Rightarrow> 'b machine" where
  "m_ld_ind_r16_i08 I reg1 m = (
     let m = m_mreq_rd I (get16 PC_W m) R0_L m;
         m = put16 PC_W (get16 PC_W m + 0x01) m;
         m = m_mreq_wr I (get16 reg1 m) (get8 R0_L m) m
     in m)"

definition m_ld_r08_ind_r16_plus_i08 :: "'b iface \<Rightarrow> r08 \<Rightarrow> r16 \<Rightarrow> 'b machine \<Rightarrow> 'b machine" where
  "m_ld_r08_ind_r16_plus_i08 I reg1 reg2 m = (
     let a2 = get16 PC_W m;
         m = put16 PC_W (a2 + 1) m;
         (d1, m) = MREQ_RD I a2 0x00 m;
         m = put16 WZ_W (get16 reg2 m + scast d1) m;
         m = m_mreq_rd I (get16 WZ_W m) reg1 m
     in m)"

definition m_ld_ind_r16_plus_i08_r08 :: "'b iface \<Rightarrow> r16 \<Rightarrow> r08 \<Rightarrow> 'b machine \<Rightarrow> 'b machine" where
  "m_ld_ind_r16_plus_i08_r08 I reg1 reg2 m = (
     let a2 = get16 PC_W m;
         m = put16 PC_W (a2 + 1) m;
         (d1, m) = MREQ_RD I a2 0x00 m;
         m = put16 WZ_W (get16 reg1 m + scast d1) m;
         m = m_mreq_wr I (get16 WZ_W m) (get8 reg2 m) m
     in m)"

definition m_ld_ind_r16_plus_i08_i08 :: "'b iface \<Rightarrow> r16 \<Rightarrow> 'b machine \<Rightarrow> 'b machine" where
  "m_ld_ind_r16_plus_i08_i08 I reg1 m = (
     let a2 = get16 PC_W m;
         m = put16 PC_W (a2 + 1) m;
         (d1, m) = MREQ_RD I a2 0x00 m;
         m = put16 WZ_W (get16 reg1 m + scast d1) m;
         m = m_mreq_rd I (get16 PC_W m) R0_L m;
         m = put16 PC_W (get16 PC_W m + 0x01) m;
         m = m_mreq_wr I (get16 WZ_W m) (get8 R0_L m) m
     in m)"

definition m_ld_a_i :: "'b machine \<Rightarrow> 'b machine" where
  "m_ld_a_i m = (
     let m = put8 AF_H (get8 IR_H m) m;
         m = put8 R3_L (PZS (get8 AF_H m)) m;
         m = put8 AF_L ((SF AND get8 R3_L m)
             OR (ZF AND get8 R3_L m)
             OR (YF AND get8 R3_L m)
             OR (HF AND 0x00)
             OR (XF AND get8 R3_L m)
             OR (PF AND (if get8 ST_L m AND ST_IFF2 \<noteq> 0 then 0xff else 0x00))
             OR (NF AND 0x00)
             OR (CF AND get8 AF_L m)) m
     in m)"

definition m_ld_i_a :: "'b machine \<Rightarrow> 'b machine" where
  "m_ld_i_a m =
     put8 IR_H (get8 AF_H m) m"

definition m_ld_a_r :: "'b machine \<Rightarrow> 'b machine" where
  "m_ld_a_r m = (
     let m = put8 AF_H (get8 IR_L m) m;
         m = put8 R3_L (PZS (get8 AF_H m)) m;
         m = put8 AF_L ((SF AND get8 R3_L m)
             OR (ZF AND get8 R3_L m)
             OR (YF AND get8 R3_L m)
             OR (HF AND 0x00)
             OR (XF AND get8 R3_L m)
             OR (PF AND (if get8 ST_L m AND ST_IFF2 \<noteq> 0 then 0xff else 0x00))
             OR (NF AND 0x00)
             OR (CF AND get8 AF_L m)) m
     in m)"

definition m_ld_r_a :: "'b machine \<Rightarrow> 'b machine" where
  "m_ld_r_a m =
     put8 IR_L (get8 AF_H m) m"

definition m_ld_r16_r16 :: "r16 \<Rightarrow> r16 \<Rightarrow> 'b machine \<Rightarrow> 'b machine" where
  "m_ld_r16_r16 reg1 reg2 m =
     put16 reg1 (get16 reg2 m) m"

definition m_ld_r16_i16 :: "'b iface \<Rightarrow> r16 \<Rightarrow> 'b machine \<Rightarrow> 'b machine" where
  "m_ld_r16_i16 I reg1 m = (
     let m = m_mreq_rd I (get16 PC_W m) R0_L m;
         m = put16 PC_W (get16 PC_W m + 0x01) m;
         m = m_mreq_rd I (get16 PC_W m) R0_H m;
         m = put16 PC_W (get16 PC_W m + 0x01) m;
         m = put16 reg1 (get16 R0_W m) m
     in m)"

definition m_ld_r16_ind_i16 :: "'b iface \<Rightarrow> r16 \<Rightarrow> 'b machine \<Rightarrow> 'b machine" where
  "m_ld_r16_ind_i16 I reg1 m = (
     let m = m_mreq_rd I (get16 PC_W m) WZ_L m;
         m = put16 PC_W (get16 PC_W m + 0x01) m;
         m = m_mreq_rd I (get16 PC_W m) WZ_H m;
         m = put16 PC_W (get16 PC_W m + 0x01) m;
         m = m_mreq_rd I (get16 WZ_W m) R0_L m;
         m = put16 WZ_W (get16 WZ_W m + 0x01) m;
         m = m_mreq_rd I (get16 WZ_W m) R0_H m;
         m = put16 WZ_W (get16 WZ_W m + 0x01) m;
         m = put16 reg1 (get16 R0_W m) m
     in m)"

definition m_ld_ind_i16_r16 :: "'b iface \<Rightarrow> r16 \<Rightarrow> 'b machine \<Rightarrow> 'b machine" where
  "m_ld_ind_i16_r16 I reg1 m = (
     let m = put16 R0_W (get16 reg1 m) m;
         m = m_mreq_rd I (get16 PC_W m) WZ_L m;
         m = put16 PC_W (get16 PC_W m + 0x01) m;
         m = m_mreq_rd I (get16 PC_W m) WZ_H m;
         m = put16 PC_W (get16 PC_W m + 0x01) m;
         m = m_mreq_wr I (get16 WZ_W m) (get8 R0_L m) m;
         m = put16 WZ_W (get16 WZ_W m + 0x01) m;
         m = m_mreq_wr I (get16 WZ_W m) (get8 R0_H m) m;
         m = put16 WZ_W (get16 WZ_W m + 0x01) m
     in m)"

definition m_push_r16 :: "'b iface \<Rightarrow> r16 \<Rightarrow> 'b machine \<Rightarrow> 'b machine" where
  "m_push_r16 I reg1 m = (
     let m = put16 R0_W (get16 reg1 m) m;
         m = put16 SP_W (get16 SP_W m - 0x01) m;
         m = m_mreq_wr I (get16 SP_W m) (get8 R0_H m) m;
         m = put16 SP_W (get16 SP_W m - 0x01) m;
         m = m_mreq_wr I (get16 SP_W m) (get8 R0_L m) m
     in m)"

definition m_pop_r16 :: "'b iface \<Rightarrow> r16 \<Rightarrow> 'b machine \<Rightarrow> 'b machine" where
  "m_pop_r16 I reg1 m = (
     let m = m_mreq_rd I (get16 SP_W m) R0_L m;
         m = put16 SP_W (get16 SP_W m + 0x01) m;
         m = m_mreq_rd I (get16 SP_W m) R0_H m;
         m = put16 SP_W (get16 SP_W m + 0x01) m;
         m = put16 reg1 (get16 R0_W m) m
     in m)"

section \<open>The collection of definitions\<close>

lemmas z80_micro_defs [micro_defs] =
  MREQ_M1_def MREQ_RD_def MREQ_WR_def IORQ_M1_def IORQ_RD_def IORQ_WR_def m_mreq_m1_def
  m_mreq_rd_def m_mreq_wr_def m_iorq_m1_def m_iorq_rd_def m_iorq_wr_def m_backup_pc_def
  m_restore_pc_def m_refresh_dram_def m_consume_def m_fetch_opcode_def m_fetch_cb_opcode_def
  m_fetch_dd_opcode_def m_fetch_ed_opcode_def m_fetch_fd_opcode_def m_fetch_ddcb_opcode_def
  m_fetch_fdcb_opcode_def m_illegal_def m_illegal_cb_def m_illegal_dd_def m_illegal_ed_def
  m_illegal_fd_def m_illegal_ddcb_def m_illegal_fdcb_def m_nop_def m_di_def m_ei_def m_halt_def
  m_im_0_def m_im_1_def m_im_2_def m_im_3_def m_in_r08_ind_r08_def m_in_r08_ind_i08_def
  m_ini_def m_inir_def m_ind_def m_indr_def m_out_ind_r08_r08_def m_out_ind_i08_r08_def
  m_outi_def m_otir_def m_outd_def m_otdr_def m_ld_r08_r08_def m_ld_r08_i08_def
  m_ld_r08_ind_r16_def m_ld_ind_r16_r08_def m_ld_r08_ind_i16_def m_ld_ind_i16_r08_def
  m_ld_ind_r16_i08_def m_ld_r08_ind_r16_plus_i08_def m_ld_ind_r16_plus_i08_r08_def
  m_ld_ind_r16_plus_i08_i08_def m_ld_a_i_def m_ld_i_a_def m_ld_a_r_def m_ld_r_a_def
  m_ld_r16_r16_def m_ld_r16_i16_def m_ld_r16_ind_i16_def m_ld_ind_i16_r16_def m_push_r16_def
  m_pop_r16_def

end
