(* ===== verification/Z80_Alu.thy ===== *)
theory Z80_Alu
  imports Z80_Micro
begin

text \<open>
  The micro-instructions of \<^verbatim>\<open>cpu-microcode.inc\<close>, second part: 8-bit and 16-bit arithmetic, logic
  and comparison.
\<close>

unbundle bit_operations_syntax

section \<open>General-purpose arithmetic\<close>

definition m_daa :: "'b machine \<Rightarrow> 'b machine" where
  "m_daa m = (
     let m = put32 R1 (ucast (get8 AF_H m)) m;
         m = put32 R2 0x00 m;
         m = (if ((get8 AF_L m AND HF) \<noteq> 0) \<or> ((get8 R1_L m AND 0x0f) > 0x09)
         then put8 R2_L (get8 R2_L m OR 0x06) m
         else m);
         m = (if ((get8 AF_L m AND CF) \<noteq> 0) \<or> ((get8 R1_L m AND 0xff) > 0x99)
         then (let m = put8 R2_L (get8 R2_L m OR 0x60) m;
            m = put8 AF_L (get8 AF_L m OR CF) m
          in m)
         else m);
         m = (if (get8 AF_L m AND NF) = 0
         then put32 R0 (get32 R1 m + get32 R2 m) m
         else put32 R0 (get32 R1 m - get32 R2 m) m);
         m = put8 R3_L (PZS (get8 R0_L m)) m;
         m = put8 AF_H (get8 R0_L m) m;
         m = put8 AF_L ((SF AND get8 R3_L m)
             OR (ZF AND get8 R3_L m)
             OR (YF AND get8 R0_L m)
             OR (HF AND (get8 R0_L m XOR get8 R1_L m XOR get8 R2_L m))
             OR (XF AND get8 R0_L m)
             OR (PF AND get8 R3_L m)
             OR (NF AND get8 AF_L m)
             OR (CF AND get8 AF_L m)) m
     in m)"

definition m_cpl :: "'b machine \<Rightarrow> 'b machine" where
  "m_cpl m = (
     let m = put8 AF_H (NOT (get8 AF_H m)) m;
         m = put8 AF_L ((SF AND get8 AF_L m)
             OR (ZF AND get8 AF_L m)
             OR (YF AND get8 AF_H m)
             OR (HF AND 0xff)
             OR (XF AND get8 AF_H m)
             OR (PF AND get8 AF_L m)
             OR (NF AND 0xff)
             OR (CF AND get8 AF_L m)) m
     in m)"

definition m_neg :: "'b machine \<Rightarrow> 'b machine" where
  "m_neg m = (
     let m = put8 R1_L 0x00 m;
         m = put8 R2_L (get8 AF_H m) m;
         m = put16 R0_W (ucast (get8 R1_L m) - ucast (get8 R2_L m)) m;
         m = put8 R3_L (PZS (get8 R0_L m)) m;
         m = put8 AF_H (get8 R0_L m) m;
         m = put8 AF_L ((SF AND get8 R3_L m)
             OR (ZF AND get8 R3_L m)
             OR (YF AND get8 R3_L m)
             OR (HF AND (get8 R0_L m XOR get8 R1_L m XOR get8 R2_L m))
             OR (XF AND get8 R3_L m)
             OR (VF AND (if (((get8 R1_L m AND NOT (get8 R2_L m) AND NOT (get8 R0_L m)) OR (NOT (get8 R1_L m) AND get8 R2_L m AND get8 R0_L m)) AND SF) \<noteq> 0 then 0xff else 0x00))
             OR (NF AND 0xff)
             OR (CF AND (get8 R0_H m AND CF))) m
     in m)"

definition m_ccf :: "'b machine \<Rightarrow> 'b machine" where
  "m_ccf m =
     put8 AF_L ((SF AND get8 AF_L m) OR (ZF AND get8 AF_L m) OR (YF AND get8 AF_H m) OR (HF AND (if (get8 AF_L m AND CF) \<noteq> 0 then 0xff else 0x00)) OR (XF AND get8 AF_H m) OR (PF AND get8 AF_L m) OR (NF AND 0x00) OR (CF AND (if (get8 AF_L m AND CF) \<noteq> 0 then 0x00 else 0xff))) m"

definition m_scf :: "'b machine \<Rightarrow> 'b machine" where
  "m_scf m =
     put8 AF_L ((SF AND get8 AF_L m) OR (ZF AND get8 AF_L m) OR (YF AND get8 AF_H m) OR (HF AND 0x00) OR (XF AND get8 AF_H m) OR (PF AND get8 AF_L m) OR (NF AND 0x00) OR (CF AND 0xff)) m"


section \<open>8-bit arithmetic\<close>

definition m_add_r08_r08 :: "r08 \<Rightarrow> r08 \<Rightarrow> 'b machine \<Rightarrow> 'b machine" where
  "m_add_r08_r08 reg1 reg2 m = (
     let m = put8 R1_L (get8 reg1 m) m;
         m = put8 R2_L (get8 reg2 m) m;
         m = put16 R0_W (ucast (get8 R1_L m) + ucast (get8 R2_L m)) m;
         m = put8 R3_L (PZS (get8 R0_L m)) m;
         m = put8 AF_H (get8 R0_L m) m;
         m = put8 AF_L ((SF AND get8 R3_L m)
             OR (ZF AND get8 R3_L m)
             OR (YF AND get8 R3_L m)
             OR (HF AND (get8 R0_L m XOR get8 R1_L m XOR get8 R2_L m))
             OR (XF AND get8 R3_L m)
             OR (VF AND (if (((get8 R1_L m AND get8 R2_L m AND NOT (get8 R0_L m)) OR (NOT (get8 R1_L m) AND NOT (get8 R2_L m) AND get8 R0_L m)) AND SF) \<noteq> 0 then 0xff else 0x00))
             OR (NF AND 0x00)
             OR (CF AND (get8 R0_H m AND CF))) m
     in m)"

definition m_add_r08_i08 :: "'b iface \<Rightarrow> r08 \<Rightarrow> 'b machine \<Rightarrow> 'b machine" where
  "m_add_r08_i08 I reg1 m = (
     let m = put8 R1_L (get8 reg1 m) m;
         a2 = get16 PC_W m;
         m = put16 PC_W (a2 + 1) m;
         (d1, m) = MREQ_RD I a2 0x00 m;
         m = put8 R2_L d1 m;
         m = put16 R0_W (ucast (get8 R1_L m) + ucast (get8 R2_L m)) m;
         m = put8 R3_L (PZS (get8 R0_L m)) m;
         m = put8 AF_H (get8 R0_L m) m;
         m = put8 AF_L ((SF AND get8 R3_L m)
             OR (ZF AND get8 R3_L m)
             OR (YF AND get8 R3_L m)
             OR (HF AND (get8 R0_L m XOR get8 R1_L m XOR get8 R2_L m))
             OR (XF AND get8 R3_L m)
             OR (VF AND (if (((get8 R1_L m AND get8 R2_L m AND NOT (get8 R0_L m)) OR (NOT (get8 R1_L m) AND NOT (get8 R2_L m) AND get8 R0_L m)) AND SF) \<noteq> 0 then 0xff else 0x00))
             OR (NF AND 0x00)
             OR (CF AND (get8 R0_H m AND CF))) m
     in m)"

definition m_add_r08_ind_r16 :: "'b iface \<Rightarrow> r08 \<Rightarrow> r16 \<Rightarrow> 'b machine \<Rightarrow> 'b machine" where
  "m_add_r08_ind_r16 I reg1 reg2 m = (
     let m = put8 R1_L (get8 reg1 m) m;
         (d1, m) = MREQ_RD I (get16 reg2 m) 0x00 m;
         m = put8 R2_L d1 m;
         m = put16 R0_W (ucast (get8 R1_L m) + ucast (get8 R2_L m)) m;
         m = put8 R3_L (PZS (get8 R0_L m)) m;
         m = put8 AF_H (get8 R0_L m) m;
         m = put8 AF_L ((SF AND get8 R3_L m)
             OR (ZF AND get8 R3_L m)
             OR (YF AND get8 R3_L m)
             OR (HF AND (get8 R0_L m XOR get8 R1_L m XOR get8 R2_L m))
             OR (XF AND get8 R3_L m)
             OR (VF AND (if (((get8 R1_L m AND get8 R2_L m AND NOT (get8 R0_L m)) OR (NOT (get8 R1_L m) AND NOT (get8 R2_L m) AND get8 R0_L m)) AND SF) \<noteq> 0 then 0xff else 0x00))
             OR (NF AND 0x00)
             OR (CF AND (get8 R0_H m AND CF))) m
     in m)"

definition m_add_r08_ind_r16_plus_i08 :: "'b iface \<Rightarrow> r08 \<Rightarrow> r16 \<Rightarrow> 'b machine \<Rightarrow> 'b machine" where
  "m_add_r08_ind_r16_plus_i08 I reg1 reg2 m = (
     let a2 = get16 PC_W m;
         m = put16 PC_W (a2 + 1) m;
         (d1, m) = MREQ_RD I a2 0x00 m;
         m = put16 WZ_W (get16 reg2 m + scast d1) m;
         m = put8 R1_L (get8 reg1 m) m;
         (d3, m) = MREQ_RD I (get16 WZ_W m) 0x00 m;
         m = put8 R2_L d3 m;
         m = m_add_r08_r08 R1_L R2_L m
     in m)"

definition m_adc_r08_r08 :: "r08 \<Rightarrow> r08 \<Rightarrow> 'b machine \<Rightarrow> 'b machine" where
  "m_adc_r08_r08 reg1 reg2 m = (
     let m = put8 R1_L (get8 reg1 m) m;
         m = put8 R2_L (get8 reg2 m) m;
         m = put16 R0_W (ucast (get8 R1_L m) + ucast (get8 R2_L m) + (if (get8 AF_L m AND CF) \<noteq> 0 then 0x01 else 0x00)) m;
         m = put8 R3_L (PZS (get8 R0_L m)) m;
         m = put8 AF_H (get8 R0_L m) m;
         m = put8 AF_L ((SF AND get8 R3_L m)
             OR (ZF AND get8 R3_L m)
             OR (YF AND get8 R3_L m)
             OR (HF AND (get8 R0_L m XOR get8 R1_L m XOR get8 R2_L m))
             OR (XF AND get8 R3_L m)
             OR (VF AND (if (((get8 R1_L m AND get8 R2_L m AND NOT (get8 R0_L m)) OR (NOT (get8 R1_L m) AND NOT (get8 R2_L m) AND get8 R0_L m)) AND SF) \<noteq> 0 then 0xff else 0x00))
             OR (NF AND 0x00)
             OR (CF AND (get8 R0_H m AND CF))) m
     in m)"

definition m_adc_r08_i08 :: "'b iface \<Rightarrow> r08 \<Rightarrow> 'b machine \<Rightarrow> 'b machine" where
  "m_adc_r08_i08 I reg1 m = (
     let m = put8 R1_L (get8 reg1 m) m;
         a2 = get16 PC_W m;
         m = put16 PC_W (a2 + 1) m;
         (d1, m) = MREQ_RD I a2 0x00 m;
         m = put8 R2_L d1 m;
         m = put16 R0_W (ucast (get8 R1_L m) + ucast (get8 R2_L m) + (if (get8 AF_L m AND CF) \<noteq> 0 then 0x01 else 0x00)) m;
         m = put8 R3_L (PZS (get8 R0_L m)) m;
         m = put8 AF_H (get8 R0_L m) m;
         m = put8 AF_L ((SF AND get8 R3_L m)
             OR (ZF AND get8 R3_L m)
             OR (YF AND get8 R3_L m)
             OR (HF AND (get8 R0_L m XOR get8 R1_L m XOR get8 R2_L m))
             OR (XF AND get8 R3_L m)
             OR (VF AND (if (((get8 R1_L m AND get8 R2_L m AND NOT (get8 R0_L m)) OR (NOT (get8 R1_L m) AND NOT (get8 R2_L m) AND get8 R0_L m)) AND SF) \<noteq> 0 then 0xff else 0x00))
             OR (NF AND 0x00)
             OR (CF AND (get8 R0_H m AND CF))) m
     in m)"

definition m_adc_r08_ind_r16 :: "'b iface \<Rightarrow> r08 \<Rightarrow> r16 \<Rightarrow> 'b machine \<Rightarrow> 'b machine" where
  "m_adc_r08_ind_r16 I reg1 reg2 m = (
     let m = put8 R1_L (get8 reg1 m) m;
         (d1, m) = MREQ_RD I (get16 reg2 m) 0x00 m;
         m = put8 R2_L d1 m;
         m = put16 R0_W (ucast (get8 R1_L m) + ucast (get8 R2_L m) + (if (get8 AF_L m AND CF) \<noteq> 0 then 0x01 else 0x00)) m;
         m = put8 R3_L (PZS (get8 R0_L m)) m;
         m = put8 AF_H (get8 R0_L m) m;
         m = put8 AF_L ((SF AND get8 R3_L m)
             OR (ZF AND get8 R3_L m)
             OR (YF AND get8 R3_L m)
             OR (HF AND (get8 R0_L m XOR get8 R1_L m XOR get8 R2_L m))
             OR (XF AND get8 R3_L m)
             OR (VF AND (if (((get8 R1_L m AND get8 R2_L m AND NOT (get8 R0_L m)) OR (NOT (get8 R1_L m) AND NOT (get8 R2_L m) AND get8 R0_L m)) AND SF) \<noteq> 0 then 0xff else 0x00))
             OR (NF AND 0x00)
             OR (CF AND (get8 R0_H m AND CF))) m
     in m)"

definition m_adc_r08_ind_r16_plus_i08 :: "'b iface \<Rightarrow> r08 \<Rightarrow> r16 \<Rightarrow> 'b machine \<Rightarrow> 'b machine" where
  "m_adc_r08_ind_r16_plus_i08 I reg1 reg2 m = (
     let a2 = get16 PC_W m;
         m = put16 PC_W (a2 + 1) m;
         (d1, m) = MREQ_RD I a2 0x00 m;
         m = put16 WZ_W (get16 reg2 m + scast d1) m;
         m = put8 R1_L (get8 reg1 m) m;
         (d3, m) = MREQ_RD I (get16 WZ_W m) 0x00 m;
         m = put8 R2_L d3 m;
         m = m_adc_r08_r08 R1_L R2_L m
     in m)"

definition m_sub_r08_r08 :: "r08 \<Rightarrow> r08 \<Rightarrow> 'b machine \<Rightarrow> 'b machine" where
  "m_sub_r08_r08 reg1 reg2 m = (
     let m = put8 R1_L (get8 reg1 m) m;
         m = put8 R2_L (get8 reg2 m) m;
         m = put16 R0_W (ucast (get8 R1_L m) - ucast (get8 R2_L m)) m;
         m = put8 R3_L (PZS (get8 R0_L m)) m;
         m = put8 AF_H (get8 R0_L m) m;
         m = put8 AF_L ((SF AND get8 R3_L m)
             OR (ZF AND get8 R3_L m)
             OR (YF AND get8 R3_L m)
             OR (HF AND (get8 R0_L m XOR get8 R1_L m XOR get8 R2_L m))
             OR (XF AND get8 R3_L m)
             OR (VF AND (if (((get8 R1_L m AND NOT (get8 R2_L m) AND NOT (get8 R0_L m)) OR (NOT (get8 R1_L m) AND get8 R2_L m AND get8 R0_L m)) AND SF) \<noteq> 0 then 0xff else 0x00))
             OR (NF AND 0xff)
             OR (CF AND (get8 R0_H m AND CF))) m
     in m)"

definition m_sub_r08_i08 :: "'b iface \<Rightarrow> r08 \<Rightarrow> 'b machine \<Rightarrow> 'b machine" where
  "m_sub_r08_i08 I reg1 m = (
     let m = put8 R1_L (get8 reg1 m) m;
         a2 = get16 PC_W m;
         m = put16 PC_W (a2 + 1) m;
         (d1, m) = MREQ_RD I a2 0x00 m;
         m = put8 R2_L d1 m;
         m = put16 R0_W (ucast (get8 R1_L m) - ucast (get8 R2_L m)) m;
         m = put8 R3_L (PZS (get8 R0_L m)) m;
         m = put8 AF_H (get8 R0_L m) m;
         m = put8 AF_L ((SF AND get8 R3_L m)
             OR (ZF AND get8 R3_L m)
             OR (YF AND get8 R3_L m)
             OR (HF AND (get8 R0_L m XOR get8 R1_L m XOR get8 R2_L m))
             OR (XF AND get8 R3_L m)
             OR (VF AND (if (((get8 R1_L m AND NOT (get8 R2_L m) AND NOT (get8 R0_L m)) OR (NOT (get8 R1_L m) AND get8 R2_L m AND get8 R0_L m)) AND SF) \<noteq> 0 then 0xff else 0x00))
             OR (NF AND 0xff)
             OR (CF AND (get8 R0_H m AND CF))) m
     in m)"

definition m_sub_r08_ind_r16 :: "'b iface \<Rightarrow> r08 \<Rightarrow> r16 \<Rightarrow> 'b machine \<Rightarrow> 'b machine" where
  "m_sub_r08_ind_r16 I reg1 reg2 m = (
     let m = put8 R1_L (get8 reg1 m) m;
         (d1, m) = MREQ_RD I (get16 reg2 m) 0x00 m;
         m = put8 R2_L d1 m;
         m = put16 R0_W (ucast (get8 R1_L m) - ucast (get8 R2_L m)) m;
         m = put8 R3_L (PZS (get8 R0_L m)) m;
         m = put8 AF_H (get8 R0_L m) m;
         m = put8 AF_L ((SF AND get8 R3_L m)
             OR (ZF AND get8 R3_L m)
             OR (YF AND get8 R3_L m)
             OR (HF AND (get8 R0_L m XOR get8 R1_L m XOR get8 R2_L m))
             OR (XF AND get8 R3_L m)
             OR (VF AND (if (((get8 R1_L m AND NOT (get8 R2_L m) AND NOT (get8 R0_L m)) OR (NOT (get8 R1_L m) AND get8 R2_L m AND get8 R0_L m)) AND SF) \<noteq> 0 then 0xff else 0x00))
             OR (NF AND 0xff)
             OR (CF AND (get8 R0_H m AND CF))) m
     in m)"

definition m_sub_r08_ind_r16_plus_i08 :: "'b iface \<Rightarrow> r08 \<Rightarrow> r16 \<Rightarrow> 'b machine \<Rightarrow> 'b machine" where
  "m_sub_r08_ind_r16_plus_i08 I reg1 reg2 m = (
     let a2 = get16 PC_W m;
         m = put16 PC_W (a2 + 1) m;
         (d1, m) = MREQ_RD I a2 0x00 m;
         m = put16 WZ_W (get16 reg2 m + scast d1) m;
         m = put8 R1_L (get8 reg1 m) m;
         (d3, m) = MREQ_RD I (get16 WZ_W m) 0x00 m;
         m = put8 R2_L d3 m;
         m = m_sub_r08_r08 R1_L R2_L m
     in m)"

definition m_sbc_r08_r08 :: "r08 \<Rightarrow> r08 \<Rightarrow> 'b machine \<Rightarrow> 'b machine" where
  "m_sbc_r08_r08 reg1 reg2 m = (
     let m = put8 R1_L (get8 reg1 m) m;
         m = put8 R2_L (get8 reg2 m) m;
         m = put16 R0_W (ucast (get8 R1_L m) - ucast (get8 R2_L m) - (if (get8 AF_L m AND CF) \<noteq> 0 then 0x01 else 0x00)) m;
         m = put8 R3_L (PZS (get8 R0_L m)) m;
         m = put8 AF_H (get8 R0_L m) m;
         m = put8 AF_L ((SF AND get8 R3_L m)
             OR (ZF AND get8 R3_L m)
             OR (YF AND get8 R3_L m)
             OR (HF AND (get8 R0_L m XOR get8 R1_L m XOR get8 R2_L m))
             OR (XF AND get8 R3_L m)
             OR (VF AND (if (((get8 R1_L m AND NOT (get8 R2_L m) AND NOT (get8 R0_L m)) OR (NOT (get8 R1_L m) AND get8 R2_L m AND get8 R0_L m)) AND SF) \<noteq> 0 then 0xff else 0x00))
             OR (NF AND 0xff)
             OR (CF AND (get8 R0_H m AND CF))) m
     in m)"

definition m_sbc_r08_i08 :: "'b iface \<Rightarrow> r08 \<Rightarrow> 'b machine \<Rightarrow> 'b machine" where
  "m_sbc_r08_i08 I reg1 m = (
     let m = put8 R1_L (get8 reg1 m) m;
         a2 = get16 PC_W m;
         m = put16 PC_W (a2 + 1) m;
         (d1, m) = MREQ_RD I a2 0x00 m;
         m = put8 R2_L d1 m;
         m = put16 R0_W (ucast (get8 R1_L m) - ucast (get8 R2_L m) - (if (get8 AF_L m AND CF) \<noteq> 0 then 0x01 else 0x00)) m;
         m = put8 R3_L (PZS (get8 R0_L m)) m;
         m = put8 AF_H (get8 R0_L m) m;
         m = put8 AF_L ((SF AND get8 R3_L m)
             OR (ZF AND get8 R3_L m)
             OR (YF AND get8 R3_L m)
             OR (HF AND (get8 R0_L m XOR get8 R1_L m XOR get8 R2_L m))
             OR (XF AND get8 R3_L m)
             OR (VF AND (if (((get8 R1_L m AND NOT (get8 R2_L m) AND NOT (get8 R0_L m)) OR (NOT (get8 R1_L m) AND get8 R2_L m AND get8 R0_L m)) AND SF) \<noteq> 0 then 0xff else 0x00))
             OR (NF AND 0xff)
             OR (CF AND (get8 R0_H m AND CF))) m
     in m)"

definition m_sbc_r08_ind_r16 :: "'b iface \<Rightarrow> r08 \<Rightarrow> r16 \<Rightarrow> 'b machine \<Rightarrow> 'b machine" where
  "m_sbc_r08_ind_r16 I reg1 reg2 m = (
     let m = put8 R1_L (get8 reg1 m) m;
         (d1, m) = MREQ_RD I (get16 reg2 m) 0x00 m;
         m = put8 R2_L d1 m;
         m = put16 R0_W (ucast (get8 R1_L m) - ucast (get8 R2_L m) - (if (get8 AF_L m AND CF) \<noteq> 0 then 0x01 else 0x00)) m;
         m = put8 R3_L (PZS (get8 R0_L m)) m;
         m = put8 AF_H (get8 R0_L m) m;
         m = put8 AF_L ((SF AND get8 R3_L m)
             OR (ZF AND get8 R3_L m)
             OR (YF AND get8 R3_L m)
             OR (HF AND (get8 R0_L m XOR get8 R1_L m XOR get8 R2_L m))
             OR (XF AND get8 R3_L m)
             OR (VF AND (if (((get8 R1_L m AND NOT (get8 R2_L m) AND NOT (get8 R0_L m)) OR (NOT (get8 R1_L m) AND get8 R2_L m AND get8 R0_L m)) AND SF) \<noteq> 0 then 0xff else 0x00))
             OR (NF AND 0xff)
             OR (CF AND (get8 R0_H m AND CF))) m
     in m)"

definition m_sbc_r08_ind_r16_plus_i08 :: "'b iface \<Rightarrow> r08 \<Rightarrow> r16 \<Rightarrow> 'b machine \<Rightarrow> 'b machine" where
  "m_sbc_r08_ind_r16_plus_i08 I reg1 reg2 m = (
     let a2 = get16 PC_W m;
         m = put16 PC_W (a2 + 1) m;
         (d1, m) = MREQ_RD I a2 0x00 m;
         m = put16 WZ_W (get16 reg2 m + scast d1) m;
         m = put8 R1_L (get8 reg1 m) m;
         (d3, m) = MREQ_RD I (get16 WZ_W m) 0x00 m;
         m = put8 R2_L d3 m;
         m = m_sbc_r08_r08 R1_L R2_L m
     in m)"


section \<open>8-bit logic and comparison\<close>

definition m_and_r08_r08 :: "r08 \<Rightarrow> r08 \<Rightarrow> 'b machine \<Rightarrow> 'b machine" where
  "m_and_r08_r08 reg1 reg2 m = (
     let m = put8 R1_L (get8 reg1 m) m;
         m = put8 R2_L (get8 reg2 m) m;
         m = put8 R0_L (get8 R1_L m AND get8 R2_L m) m;
         m = put8 R3_L (PZS (get8 R0_L m)) m;
         m = put8 AF_H (get8 R0_L m) m;
         m = put8 AF_L ((SF AND get8 R3_L m)
             OR (ZF AND get8 R3_L m)
             OR (YF AND get8 R3_L m)
             OR (HF AND 0xff)
             OR (XF AND get8 R3_L m)
             OR (PF AND get8 R3_L m)
             OR (NF AND 0x00)
             OR (CF AND 0x00)) m
     in m)"

definition m_and_r08_i08 :: "'b iface \<Rightarrow> r08 \<Rightarrow> 'b machine \<Rightarrow> 'b machine" where
  "m_and_r08_i08 I reg1 m = (
     let m = put8 R1_L (get8 reg1 m) m;
         a2 = get16 PC_W m;
         m = put16 PC_W (a2 + 1) m;
         (d1, m) = MREQ_RD I a2 0x00 m;
         m = put8 R2_L d1 m;
         m = put8 R0_L (get8 R1_L m AND get8 R2_L m) m;
         m = put8 R3_L (PZS (get8 R0_L m)) m;
         m = put8 AF_H (get8 R0_L m) m;
         m = put8 AF_L ((SF AND get8 R3_L m)
             OR (ZF AND get8 R3_L m)
             OR (YF AND get8 R3_L m)
             OR (HF AND 0xff)
             OR (XF AND get8 R3_L m)
             OR (PF AND get8 R3_L m)
             OR (NF AND 0x00)
             OR (CF AND 0x00)) m
     in m)"

definition m_and_r08_ind_r16 :: "'b iface \<Rightarrow> r08 \<Rightarrow> r16 \<Rightarrow> 'b machine \<Rightarrow> 'b machine" where
  "m_and_r08_ind_r16 I reg1 reg2 m = (
     let m = put8 R1_L (get8 reg1 m) m;
         (d1, m) = MREQ_RD I (get16 reg2 m) 0x00 m;
         m = put8 R2_L d1 m;
         m = put8 R0_L (get8 R1_L m AND get8 R2_L m) m;
         m = put8 R3_L (PZS (get8 R0_L m)) m;
         m = put8 AF_H (get8 R0_L m) m;
         m = put8 AF_L ((SF AND get8 R3_L m)
             OR (ZF AND get8 R3_L m)
             OR (YF AND get8 R3_L m)
             OR (HF AND 0xff)
             OR (XF AND get8 R3_L m)
             OR (PF AND get8 R3_L m)
             OR (NF AND 0x00)
             OR (CF AND 0x00)) m
     in m)"

definition m_and_r08_ind_r16_plus_i08 :: "'b iface \<Rightarrow> r08 \<Rightarrow> r16 \<Rightarrow> 'b machine \<Rightarrow> 'b machine" where
  "m_and_r08_ind_r16_plus_i08 I reg1 reg2 m = (
     let a2 = get16 PC_W m;
         m = put16 PC_W (a2 + 1) m;
         (d1, m) = MREQ_RD I a2 0x00 m;
         m = put16 WZ_W (get16 reg2 m + scast d1) m;
         m = put8 R1_L (get8 reg1 m) m;
         (d3, m) = MREQ_RD I (get16 WZ_W m) 0x00 m;
         m = put8 R2_L d3 m;
         m = m_and_r08_r08 R1_L R2_L m
     in m)"

definition m_xor_r08_r08 :: "r08 \<Rightarrow> r08 \<Rightarrow> 'b machine \<Rightarrow> 'b machine" where
  "m_xor_r08_r08 reg1 reg2 m = (
     let m = put8 R1_L (get8 reg1 m) m;
         m = put8 R2_L (get8 reg2 m) m;
         m = put8 R0_L (get8 R1_L m XOR get8 R2_L m) m;
         m = put8 R3_L (PZS (get8 R0_L m)) m;
         m = put8 AF_H (get8 R0_L m) m;
         m = put8 AF_L ((SF AND get8 R3_L m)
             OR (ZF AND get8 R3_L m)
             OR (YF AND get8 R3_L m)
             OR (HF AND 0x00)
             OR (XF AND get8 R3_L m)
             OR (PF AND get8 R3_L m)
             OR (NF AND 0x00)
             OR (CF AND 0x00)) m
     in m)"

definition m_xor_r08_i08 :: "'b iface \<Rightarrow> r08 \<Rightarrow> 'b machine \<Rightarrow> 'b machine" where
  "m_xor_r08_i08 I reg1 m = (
     let m = put8 R1_L (get8 reg1 m) m;
         a2 = get16 PC_W m;
         m = put16 PC_W (a2 + 1) m;
         (d1, m) = MREQ_RD I a2 0x00 m;
         m = put8 R2_L d1 m;
         m = put8 R0_L (get8 R1_L m XOR get8 R2_L m) m;
         m = put8 R3_L (PZS (get8 R0_L m)) m;
         m = put8 AF_H (get8 R0_L m) m;
         m = put8 AF_L ((SF AND get8 R3_L m)
             OR (ZF AND get8 R3_L m)
             OR (YF AND get8 R3_L m)
             OR (HF AND 0x00)
             OR (XF AND get8 R3_L m)
             OR (PF AND get8 R3_L m)
             OR (NF AND 0x00)
             OR (CF AND 0x00)) m
     in m)"

definition m_xor_r08_ind_r16 :: "'b iface \<Rightarrow> r08 \<Rightarrow> r16 \<Rightarrow> 'b machine \<Rightarrow> 'b machine" where
  "m_xor_r08_ind_r16 I reg1 reg2 m = (
     let m = put8 R1_L (get8 reg1 m) m;
         (d1, m) = MREQ_RD I (get16 reg2 m) 0x00 m;
         m = put8 R2_L d1 m;
         m = put8 R0_L (get8 R1_L m XOR get8 R2_L m) m;
         m = put8 R3_L (PZS (get8 R0_L m)) m;
         m = put8 AF_H (get8 R0_L m) m;
         m = put8 AF_L ((SF AND get8 R3_L m)
             OR (ZF AND get8 R3_L m)
             OR (YF AND get8 R3_L m)
             OR (HF AND 0x00)
             OR (XF AND get8 R3_L m)
             OR (PF AND get8 R3_L m)
             OR (NF AND 0x00)
             OR (CF AND 0x00)) m
     in m)"

definition m_xor_r08_ind_r16_plus_i08 :: "'b iface \<Rightarrow> r08 \<Rightarrow> r16 \<Rightarrow> 'b machine \<Rightarrow> 'b machine" where
  "m_xor_r08_ind_r16_plus_i08 I reg1 reg2 m = (
     let a2 = get16 PC_W m;
         m = put16 PC_W (a2 + 1) m;
         (d1, m) = MREQ_RD I a2 0x00 m;
         m = put16 WZ_W (get16 reg2 m + scast d1) m;
         m = put8 R1_L (get8 reg1 m) m;
         (d3, m) = MREQ_RD I (get16 WZ_W m) 0x00 m;
         m = put8 R2_L d3 m;
         m = m_xor_r08_r08 R1_L R2_L m
     in m)"

definition m_or_r08_r08 :: "r08 \<Rightarrow> r08 \<Rightarrow> 'b machine \<Rightarrow> 'b machine" where
  "m_or_r08_r08 reg1 reg2 m = (
     let m = put8 R1_L (get8 reg1 m) m;
         m = put8 R2_L (get8 reg2 m) m;
         m = put8 R0_L (get8 R1_L m OR get8 R2_L m) m;
         m = put8 R3_L (PZS (get8 R0_L m)) m;
         m = put8 AF_H (get8 R0_L m) m;
         m = put8 AF_L ((SF AND get8 R3_L m)
             OR (ZF AND get8 R3_L m)
             OR (YF AND get8 R3_L m)
             OR (HF AND 0x00)
             OR (XF AND get8 R3_L m)
             OR (PF AND get8 R3_L m)
             OR (NF AND 0x00)
             OR (CF AND 0x00)) m
     in m)"

definition m_or_r08_i08 :: "'b iface \<Rightarrow> r08 \<Rightarrow> 'b machine \<Rightarrow> 'b machine" where
  "m_or_r08_i08 I reg1 m = (
     let m = put8 R1_L (get8 reg1 m) m;
         a2 = get16 PC_W m;
         m = put16 PC_W (a2 + 1) m;
         (d1, m) = MREQ_RD I a2 0x00 m;
         m = put8 R2_L d1 m;
         m = put8 R0_L (get8 R1_L m OR get8 R2_L m) m;
         m = put8 R3_L (PZS (get8 R0_L m)) m;
         m = put8 AF_H (get8 R0_L m) m;
         m = put8 AF_L ((SF AND get8 R3_L m)
             OR (ZF AND get8 R3_L m)
             OR (YF AND get8 R3_L m)
             OR (HF AND 0x00)
             OR (XF AND get8 R3_L m)
             OR (PF AND get8 R3_L m)
             OR (NF AND 0x00)
             OR (CF AND 0x00)) m
     in m)"

definition m_or_r08_ind_r16 :: "'b iface \<Rightarrow> r08 \<Rightarrow> r16 \<Rightarrow> 'b machine \<Rightarrow> 'b machine" where
  "m_or_r08_ind_r16 I reg1 reg2 m = (
     let m = put8 R1_L (get8 reg1 m) m;
         (d1, m) = MREQ_RD I (get16 reg2 m) 0x00 m;
         m = put8 R2_L d1 m;
         m = put8 R0_L (get8 R1_L m OR get8 R2_L m) m;
         m = put8 R3_L (PZS (get8 R0_L m)) m;
         m = put8 AF_H (get8 R0_L m) m;
         m = put8 AF_L ((SF AND get8 R3_L m)
             OR (ZF AND get8 R3_L m)
             OR (YF AND get8 R3_L m)
             OR (HF AND 0x00)
             OR (XF AND get8 R3_L m)
             OR (PF AND get8 R3_L m)
             OR (NF AND 0x00)
             OR (CF AND 0x00)) m
     in m)"

definition m_or_r08_ind_r16_plus_i08 :: "'b iface \<Rightarrow> r08 \<Rightarrow> r16 \<Rightarrow> 'b machine \<Rightarrow> 'b machine" where
  "m_or_r08_ind_r16_plus_i08 I reg1 reg2 m = (
     let a2 = get16 PC_W m;
         m = put16 PC_W (a2 + 1) m;
         (d1, m) = MREQ_RD I a2 0x00 m;
         m = put16 WZ_W (get16 reg2 m + scast d1) m;
         m = put8 R1_L (get8 reg1 m) m;
         (d3, m) = MREQ_RD I (get16 WZ_W m) 0x00 m;
         m = put8 R2_L d3 m;
         m = m_or_r08_r08 R1_L R2_L m
     in m)"

definition m_cp_r08_r08 :: "r08 \<Rightarrow> r08 \<Rightarrow> 'b machine \<Rightarrow> 'b machine" where
  "m_cp_r08_r08 reg1 reg2 m = (
     let m = put8 R1_L (get8 reg1 m) m;
         m = put8 R2_L (get8 reg2 m) m;
         m = put16 R0_W (ucast (get8 R1_L m) - ucast (get8 R2_L m)) m;
         m = put8 R3_L (PZS (get8 R0_L m)) m;
         m = put8 AF_L ((SF AND get8 R3_L m)
             OR (ZF AND get8 R3_L m)
             OR (YF AND get8 R2_L m)
             OR (HF AND (get8 R0_L m XOR get8 R1_L m XOR get8 R2_L m))
             OR (XF AND get8 R2_L m)
             OR (VF AND (if (((get8 R1_L m AND NOT (get8 R2_L m) AND NOT (get8 R0_L m)) OR (NOT (get8 R1_L m) AND get8 R2_L m AND get8 R0_L m)) AND SF) \<noteq> 0 then 0xff else 0x00))
             OR (NF AND 0xff)
             OR (CF AND (get8 R0_H m AND CF))) m
     in m)"

definition m_cp_r08_i08 :: "'b iface \<Rightarrow> r08 \<Rightarrow> 'b machine \<Rightarrow> 'b machine" where
  "m_cp_r08_i08 I reg1 m = (
     let m = put8 R1_L (get8 reg1 m) m;
         a2 = get16 PC_W m;
         m = put16 PC_W (a2 + 1) m;
         (d1, m) = MREQ_RD I a2 0x00 m;
         m = put8 R2_L d1 m;
         m = put16 R0_W (ucast (get8 R1_L m) - ucast (get8 R2_L m)) m;
         m = put8 R3_L (PZS (get8 R0_L m)) m;
         m = put8 AF_L ((SF AND get8 R3_L m)
             OR (ZF AND get8 R3_L m)
             OR (YF AND get8 R2_L m)
             OR (HF AND (get8 R0_L m XOR get8 R1_L m XOR get8 R2_L m))
             OR (XF AND get8 R2_L m)
             OR (VF AND (if (((get8 R1_L m AND NOT (get8 R2_L m) AND NOT (get8 R0_L m)) OR (NOT (get8 R1_L m) AND get8 R2_L m AND get8 R0_L m)) AND SF) \<noteq> 0 then 0xff else 0x00))
             OR (NF AND 0xff)
             OR (CF AND (get8 R0_H m AND CF))) m
     in m)"

definition m_cp_r08_ind_r16 :: "'b iface \<Rightarrow> r08 \<Rightarrow> r16 \<Rightarrow> 'b machine \<Rightarrow> 'b machine" where
  "m_cp_r08_ind_r16 I reg1 reg2 m = (
     let m = put8 R1_L (get8 reg1 m) m;
         (d1, m) = MREQ_RD I (get16 reg2 m) 0x00 m;
         m = put8 R2_L d1 m;
         m = put16 R0_W (ucast (get8 R1_L m) - ucast (get8 R2_L m)) m;
         m = put8 R3_L (PZS (get8 R0_L m)) m;
         m = put8 AF_L ((SF AND get8 R3_L m)
             OR (ZF AND get8 R3_L m)
             OR (YF AND get8 R2_L m)
             OR (HF AND (get8 R0_L m XOR get8 R1_L m XOR get8 R2_L m))
             OR (XF AND get8 R2_L m)
             OR (VF AND (if (((get8 R1_L m AND NOT (get8 R2_L m) AND NOT (get8 R0_L m)) OR (NOT (get8 R1_L m) AND get8 R2_L m AND get8 R0_L m)) AND SF) \<noteq> 0 then 0xff else 0x00))
             OR (NF AND 0xff)
             OR (CF AND (get8 R0_H m AND CF))) m
     in m)"

definition m_cp_r08_ind_r16_plus_i08 :: "'b iface \<Rightarrow> r08 \<Rightarrow> r16 \<Rightarrow> 'b machine \<Rightarrow> 'b machine" where
  "m_cp_r08_ind_r16_plus_i08 I reg1 reg2 m = (
     let a2 = get16 PC_W m;
         m = put16 PC_W (a2 + 1) m;
         (d1, m) = MREQ_RD I a2 0x00 m;
         m = put16 WZ_W (get16 reg2 m + scast d1) m;
         m = put8 R1_L (get8 reg1 m) m;
         (d3, m) = MREQ_RD I (get16 WZ_W m) 0x00 m;
         m = put8 R2_L d3 m;
         m = m_cp_r08_r08 R1_L R2_L m
     in m)"


section \<open>8-bit increments\<close>

definition m_inc_r08 :: "r08 \<Rightarrow> 'b machine \<Rightarrow> 'b machine" where
  "m_inc_r08 reg1 m = (
     let m = put8 R1_L (get8 reg1 m) m;
         m = put8 R2_L 1 m;
         m = put16 R0_W (ucast (get8 R1_L m) + ucast (get8 R2_L m)) m;
         m = put8 R3_L (PZS (get8 R0_L m)) m;
         m = put8 AF_L ((SF AND get8 R3_L m)
             OR (ZF AND get8 R3_L m)
             OR (YF AND get8 R3_L m)
             OR (HF AND (get8 R0_L m XOR get8 R1_L m XOR get8 R2_L m))
             OR (XF AND get8 R3_L m)
             OR (VF AND (if get8 R1_L m = 0x7f then 0xff else 0x00))
             OR (NF AND 0x00)
             OR (CF AND get8 AF_L m)) m;
         m = put8 reg1 (get8 R0_L m) m
     in m)"

definition m_inc_ind_r16 :: "'b iface \<Rightarrow> r16 \<Rightarrow> 'b machine \<Rightarrow> 'b machine" where
  "m_inc_ind_r16 I reg1 m = (
     let m = m_mreq_rd I (get16 reg1 m) R1_L m;
         m = put8 R2_L 1 m;
         m = put16 R0_W (ucast (get8 R1_L m) + ucast (get8 R2_L m)) m;
         m = put8 R3_L (PZS (get8 R0_L m)) m;
         m = put8 AF_L ((SF AND get8 R3_L m)
             OR (ZF AND get8 R3_L m)
             OR (YF AND get8 R3_L m)
             OR (HF AND (get8 R0_L m XOR get8 R1_L m XOR get8 R2_L m))
             OR (XF AND get8 R3_L m)
             OR (VF AND (if get8 R1_L m = 0x7f then 0xff else 0x00))
             OR (NF AND 0x00)
             OR (CF AND get8 AF_L m)) m;
         m = m_mreq_wr I (get16 reg1 m) (get8 R0_L m) m
     in m)"

definition m_inc_ind_r16_plus_i08 :: "'b iface \<Rightarrow> r16 \<Rightarrow> 'b machine \<Rightarrow> 'b machine" where
  "m_inc_ind_r16_plus_i08 I reg1 m = (
     let a2 = get16 PC_W m;
         m = put16 PC_W (a2 + 1) m;
         (d1, m) = MREQ_RD I a2 0x00 m;
         m = put16 WZ_W (get16 reg1 m + scast d1) m;
         m = m_mreq_rd I (get16 WZ_W m) R1_L m;
         m = m_inc_r08 R1_L m;
         m = m_mreq_wr I (get16 WZ_W m) (get8 R1_L m) m
     in m)"

definition m_dec_r08 :: "r08 \<Rightarrow> 'b machine \<Rightarrow> 'b machine" where
  "m_dec_r08 reg1 m = (
     let m = put8 R1_L (get8 reg1 m) m;
         m = put8 R2_L 1 m;
         m = put16 R0_W (ucast (get8 R1_L m) - ucast (get8 R2_L m)) m;
         m = put8 R3_L (PZS (get8 R0_L m)) m;
         m = put8 AF_L ((SF AND get8 R3_L m)
             OR (ZF AND get8 R3_L m)
             OR (YF AND get8 R3_L m)
             OR (HF AND (get8 R0_L m XOR get8 R1_L m XOR get8 R2_L m))
             OR (XF AND get8 R3_L m)
             OR (VF AND (if get8 R1_L m = 0x80 then 0xff else 0x00))
             OR (NF AND 0xff)
             OR (CF AND get8 AF_L m)) m;
         m = put8 reg1 (get8 R0_L m) m
     in m)"

definition m_dec_ind_r16 :: "'b iface \<Rightarrow> r16 \<Rightarrow> 'b machine \<Rightarrow> 'b machine" where
  "m_dec_ind_r16 I reg1 m = (
     let m = m_mreq_rd I (get16 reg1 m) R1_L m;
         m = put8 R2_L 1 m;
         m = put16 R0_W (ucast (get8 R1_L m) - ucast (get8 R2_L m)) m;
         m = put8 R3_L (PZS (get8 R0_L m)) m;
         m = put8 AF_L ((SF AND get8 R3_L m)
             OR (ZF AND get8 R3_L m)
             OR (YF AND get8 R3_L m)
             OR (HF AND (get8 R0_L m XOR get8 R1_L m XOR get8 R2_L m))
             OR (XF AND get8 R3_L m)
             OR (VF AND (if get8 R1_L m = 0x80 then 0xff else 0x00))
             OR (NF AND 0xff)
             OR (CF AND get8 AF_L m)) m;
         m = m_mreq_wr I (get16 reg1 m) (get8 R0_L m) m
     in m)"

definition m_dec_ind_r16_plus_i08 :: "'b iface \<Rightarrow> r16 \<Rightarrow> 'b machine \<Rightarrow> 'b machine" where
  "m_dec_ind_r16_plus_i08 I reg1 m = (
     let a2 = get16 PC_W m;
         m = put16 PC_W (a2 + 1) m;
         (d1, m) = MREQ_RD I a2 0x00 m;
         m = put16 WZ_W (get16 reg1 m + scast d1) m;
         m = m_mreq_rd I (get16 WZ_W m) R1_L m;
         m = m_dec_r08 R1_L m;
         m = m_mreq_wr I (get16 WZ_W m) (get8 R1_L m) m
     in m)"


section \<open>16-bit arithmetic\<close>

definition m_add_r16_r16 :: "r16 \<Rightarrow> r16 \<Rightarrow> 'b machine \<Rightarrow> 'b machine" where
  "m_add_r16_r16 reg1 reg2 m = (
     let m = put16 R1_W (get16 reg1 m) m;
         m = put16 R2_W (get16 reg2 m) m;
         m = put16 R0_W (get16 R1_W m + get16 R2_W m) m;
         m = put8 AF_L ((SF AND get8 AF_L m)
             OR (ZF AND get8 AF_L m)
             OR (YF AND get8 R0_H m)
             OR (HF AND (if ((get16 R0_W m XOR get16 R1_W m XOR get16 R2_W m) AND 0x1000) \<noteq> 0 then 0xff else 0x00))
             OR (XF AND get8 R0_H m)
             OR (VF AND get8 AF_L m)
             OR (NF AND 0x00)
             OR (CF AND (if (((ucast (get16 R1_W m) :: u32) + (ucast (get16 R2_W m) :: u32)) AND 0x10000) \<noteq> 0 then 0xff else 0x00))) m;
         m = put16 reg1 (get16 R0_W m) m
     in m)"

definition m_adc_r16_r16 :: "r16 \<Rightarrow> r16 \<Rightarrow> 'b machine \<Rightarrow> 'b machine" where
  "m_adc_r16_r16 reg1 reg2 m = (
     let m = put16 R1_W (get16 reg1 m) m;
         m = put16 R2_W (get16 reg2 m) m;
         m = put16 R3_W (if (get8 AF_L m AND CF) \<noteq> 0 then 1 else 0) m;
         m = put16 R0_W (get16 R1_W m + get16 R2_W m + get16 R3_W m) m;
         m = put8 AF_L ((SF AND get8 R0_H m)
             OR (ZF AND (if get16 R0_W m = 0 then 0xff else 0x00))
             OR (YF AND get8 R0_H m)
             OR (HF AND (if ((get16 R0_W m XOR get16 R1_W m XOR get16 R2_W m) AND 0x1000) \<noteq> 0 then 0xff else 0x00))
             OR (XF AND get8 R0_H m)
             OR (VF AND (if (NOT (get16 R1_W m XOR get16 R2_W m) AND (get16 R2_W m XOR get16 R0_W m) AND 0x8000) \<noteq> 0 then 0xff else 0x00))
             OR (NF AND 0x00)
             OR (CF AND (if (((ucast (get16 R1_W m) :: u32) + (ucast (get16 R2_W m) :: u32) + (ucast (get16 R3_W m) :: u32)) AND 0x10000) \<noteq> 0 then 0xff else 0x00))) m;
         m = put16 reg1 (get16 R0_W m) m
     in m)"

definition m_sbc_r16_r16 :: "r16 \<Rightarrow> r16 \<Rightarrow> 'b machine \<Rightarrow> 'b machine" where
  "m_sbc_r16_r16 reg1 reg2 m = (
     let m = put16 R1_W (get16 reg1 m) m;
         m = put16 R2_W (get16 reg2 m) m;
         m = put16 R3_W (if (get8 AF_L m AND CF) \<noteq> 0 then 1 else 0) m;
         m = put16 R0_W (get16 R1_W m - get16 R2_W m - get16 R3_W m) m;
         m = put8 AF_L ((SF AND get8 R0_H m)
             OR (ZF AND (if get16 R0_W m = 0 then 0xff else 0x00))
             OR (YF AND get8 R0_H m)
             OR (HF AND (if ((get16 R0_W m XOR get16 R1_W m XOR get16 R2_W m) AND 0x1000) \<noteq> 0 then 0xff else 0x00))
             OR (XF AND get8 R0_H m)
             OR (VF AND (if ((get16 R1_W m XOR get16 R2_W m) AND (get16 R1_W m XOR get16 R0_W m) AND 0x8000) \<noteq> 0 then 0xff else 0x00))
             OR (NF AND 0xff)
             OR (CF AND (if (((ucast (get16 R1_W m) :: u32) - (ucast (get16 R2_W m) :: u32) - (ucast (get16 R3_W m) :: u32)) AND 0x10000) \<noteq> 0 then 0xff else 0x00))) m;
         m = put16 reg1 (get16 R0_W m) m
     in m)"

definition m_inc_r16 :: "r16 \<Rightarrow> 'b machine \<Rightarrow> 'b machine" where
  "m_inc_r16 reg1 m =
     put16 reg1 (get16 reg1 m + 1) m"

definition m_dec_r16 :: "r16 \<Rightarrow> 'b machine \<Rightarrow> 'b machine" where
  "m_dec_r16 reg1 m =
     put16 reg1 (get16 reg1 m - 1) m"

section \<open>The collection of definitions\<close>

lemmas z80_alu_defs [micro_defs] =
  m_daa_def m_cpl_def m_neg_def m_ccf_def m_scf_def m_add_r08_r08_def m_add_r08_i08_def
  m_add_r08_ind_r16_def m_add_r08_ind_r16_plus_i08_def m_adc_r08_r08_def m_adc_r08_i08_def
  m_adc_r08_ind_r16_def m_adc_r08_ind_r16_plus_i08_def m_sub_r08_r08_def m_sub_r08_i08_def
  m_sub_r08_ind_r16_def m_sub_r08_ind_r16_plus_i08_def m_sbc_r08_r08_def m_sbc_r08_i08_def
  m_sbc_r08_ind_r16_def m_sbc_r08_ind_r16_plus_i08_def m_and_r08_r08_def m_and_r08_i08_def
  m_and_r08_ind_r16_def m_and_r08_ind_r16_plus_i08_def m_xor_r08_r08_def m_xor_r08_i08_def
  m_xor_r08_ind_r16_def m_xor_r08_ind_r16_plus_i08_def m_or_r08_r08_def m_or_r08_i08_def
  m_or_r08_ind_r16_def m_or_r08_ind_r16_plus_i08_def m_cp_r08_r08_def m_cp_r08_i08_def
  m_cp_r08_ind_r16_def m_cp_r08_ind_r16_plus_i08_def m_inc_r08_def m_inc_ind_r16_def
  m_inc_ind_r16_plus_i08_def m_dec_r08_def m_dec_ind_r16_def m_dec_ind_r16_plus_i08_def
  m_add_r16_r16_def m_adc_r16_r16_def m_sbc_r16_r16_def m_inc_r16_def m_dec_r16_def

end
