(* ===== verification/Z80_Flow.thy ===== *)
theory Z80_Flow
  imports Z80_Alu
begin

text \<open>
  The micro-instructions of \<^verbatim>\<open>cpu-microcode.inc\<close>, third part: jumps, calls, returns, restarts,
  exchanges and the block transfer and search instructions.
\<close>

unbundle bit_operations_syntax

section \<open>Jumps\<close>

definition m_djnz_i08 :: "'b iface \<Rightarrow> 'b machine \<Rightarrow> 'b machine" where
  "m_djnz_i08 I m = (
     let m = put8 BC_H (get8 BC_H m - 1) m;
         m = (if get8 BC_H m \<noteq> 0
         then (let (d1, m) = MREQ_RD I (get16 PC_W m) 0x00 m;
            m = put16 WZ_W (get16 PC_W m + scast d1 + 1) m;
            m = put16 PC_W (get16 WZ_W m) m;
            m = m_consume 1 5 m
          in m)
         else put16 PC_W (get16 PC_W m + 1) m)
     in m)"

definition m_jp_r16 :: "r16 \<Rightarrow> 'b machine \<Rightarrow> 'b machine" where
  "m_jp_r16 reg1 m =
     put16 PC_W (get16 reg1 m) m"

definition m_jp_i16 :: "'b iface \<Rightarrow> 'b machine \<Rightarrow> 'b machine" where
  "m_jp_i16 I m = (
     let a1 = get16 PC_W m;
         m = put16 PC_W (a1 + 1) m;
         m = m_mreq_rd I a1 WZ_L m;
         a2 = get16 PC_W m;
         m = put16 PC_W (a2 + 1) m;
         m = m_mreq_rd I a2 WZ_H m;
         m = put16 PC_W (get16 WZ_W m) m
     in m)"

definition m_jp_nz_i16 :: "'b iface \<Rightarrow> 'b machine \<Rightarrow> 'b machine" where
  "m_jp_nz_i16 I m = (
     let m = (if (get8 AF_L m AND ZF) = 0
         then (let a1 = get16 PC_W m;
            m = put16 PC_W (a1 + 1) m;
            m = m_mreq_rd I a1 WZ_L m;
            a2 = get16 PC_W m;
            m = put16 PC_W (a2 + 1) m;
            m = m_mreq_rd I a2 WZ_H m
          in m)
         else put16 WZ_W (get16 PC_W m + 2) m);
         m = put16 PC_W (get16 WZ_W m) m
     in m)"

definition m_jp_z_i16 :: "'b iface \<Rightarrow> 'b machine \<Rightarrow> 'b machine" where
  "m_jp_z_i16 I m = (
     let m = (if (get8 AF_L m AND ZF) \<noteq> 0
         then (let a1 = get16 PC_W m;
            m = put16 PC_W (a1 + 1) m;
            m = m_mreq_rd I a1 WZ_L m;
            a2 = get16 PC_W m;
            m = put16 PC_W (a2 + 1) m;
            m = m_mreq_rd I a2 WZ_H m
          in m)
         else put16 WZ_W (get16 PC_W m + 2) m);
         m = put16 PC_W (get16 WZ_W m) m
     in m)"

definition m_jp_nc_i16 :: "'b iface \<Rightarrow> 'b machine \<Rightarrow> 'b machine" where
  "m_jp_nc_i16 I m = (
     let m = (if (get8 AF_L m AND CF) = 0
         then (let a1 = get16 PC_W m;
            m = put16 PC_W (a1 + 1) m;
            m = m_mreq_rd I a1 WZ_L m;
            a2 = get16 PC_W m;
            m = put16 PC_W (a2 + 1) m;
            m = m_mreq_rd I a2 WZ_H m
          in m)
         else put16 WZ_W (get16 PC_W m + 2) m);
         m = put16 PC_W (get16 WZ_W m) m
     in m)"

definition m_jp_c_i16 :: "'b iface \<Rightarrow> 'b machine \<Rightarrow> 'b machine" where
  "m_jp_c_i16 I m = (
     let m = (if (get8 AF_L m AND CF) \<noteq> 0
         then (let a1 = get16 PC_W m;
            m = put16 PC_W (a1 + 1) m;
            m = m_mreq_rd I a1 WZ_L m;
            a2 = get16 PC_W m;
            m = put16 PC_W (a2 + 1) m;
            m = m_mreq_rd I a2 WZ_H m
          in m)
         else put16 WZ_W (get16 PC_W m + 2) m);
         m = put16 PC_W (get16 WZ_W m) m
     in m)"

definition m_jp_po_i16 :: "'b iface \<Rightarrow> 'b machine \<Rightarrow> 'b machine" where
  "m_jp_po_i16 I m = (
     let m = (if (get8 AF_L m AND PF) = 0
         then (let a1 = get16 PC_W m;
            m = put16 PC_W (a1 + 1) m;
            m = m_mreq_rd I a1 WZ_L m;
            a2 = get16 PC_W m;
            m = put16 PC_W (a2 + 1) m;
            m = m_mreq_rd I a2 WZ_H m
          in m)
         else put16 WZ_W (get16 PC_W m + 2) m);
         m = put16 PC_W (get16 WZ_W m) m
     in m)"

definition m_jp_pe_i16 :: "'b iface \<Rightarrow> 'b machine \<Rightarrow> 'b machine" where
  "m_jp_pe_i16 I m = (
     let m = (if (get8 AF_L m AND PF) \<noteq> 0
         then (let a1 = get16 PC_W m;
            m = put16 PC_W (a1 + 1) m;
            m = m_mreq_rd I a1 WZ_L m;
            a2 = get16 PC_W m;
            m = put16 PC_W (a2 + 1) m;
            m = m_mreq_rd I a2 WZ_H m
          in m)
         else put16 WZ_W (get16 PC_W m + 2) m);
         m = put16 PC_W (get16 WZ_W m) m
     in m)"

definition m_jp_p_i16 :: "'b iface \<Rightarrow> 'b machine \<Rightarrow> 'b machine" where
  "m_jp_p_i16 I m = (
     let m = (if (get8 AF_L m AND SF) = 0
         then (let a1 = get16 PC_W m;
            m = put16 PC_W (a1 + 1) m;
            m = m_mreq_rd I a1 WZ_L m;
            a2 = get16 PC_W m;
            m = put16 PC_W (a2 + 1) m;
            m = m_mreq_rd I a2 WZ_H m
          in m)
         else put16 WZ_W (get16 PC_W m + 2) m);
         m = put16 PC_W (get16 WZ_W m) m
     in m)"

definition m_jp_m_i16 :: "'b iface \<Rightarrow> 'b machine \<Rightarrow> 'b machine" where
  "m_jp_m_i16 I m = (
     let m = (if (get8 AF_L m AND SF) \<noteq> 0
         then (let a1 = get16 PC_W m;
            m = put16 PC_W (a1 + 1) m;
            m = m_mreq_rd I a1 WZ_L m;
            a2 = get16 PC_W m;
            m = put16 PC_W (a2 + 1) m;
            m = m_mreq_rd I a2 WZ_H m
          in m)
         else put16 WZ_W (get16 PC_W m + 2) m);
         m = put16 PC_W (get16 WZ_W m) m
     in m)"

definition m_jr_i08 :: "'b iface \<Rightarrow> 'b machine \<Rightarrow> 'b machine" where
  "m_jr_i08 I m = (
     let (d1, m) = MREQ_RD I (get16 PC_W m) 0x00 m;
         m = put16 WZ_W (get16 PC_W m + scast d1 + 1) m;
         m = put16 PC_W (get16 WZ_W m) m
     in m)"

definition m_jr_nz_i08 :: "'b iface \<Rightarrow> 'b machine \<Rightarrow> 'b machine" where
  "m_jr_nz_i08 I m =
     (if (get8 AF_L m AND ZF) = 0
         then (let (d1, m) = MREQ_RD I (get16 PC_W m) 0x00 m;
            m = put16 WZ_W (get16 PC_W m + scast d1 + 1) m;
            m = put16 PC_W (get16 WZ_W m) m;
            m = m_consume 1 5 m
          in m)
         else put16 PC_W (get16 PC_W m + 1) m)"

definition m_jr_z_i08 :: "'b iface \<Rightarrow> 'b machine \<Rightarrow> 'b machine" where
  "m_jr_z_i08 I m =
     (if (get8 AF_L m AND ZF) \<noteq> 0
         then (let (d1, m) = MREQ_RD I (get16 PC_W m) 0x00 m;
            m = put16 WZ_W (get16 PC_W m + scast d1 + 1) m;
            m = put16 PC_W (get16 WZ_W m) m;
            m = m_consume 1 5 m
          in m)
         else put16 PC_W (get16 PC_W m + 1) m)"

definition m_jr_nc_i08 :: "'b iface \<Rightarrow> 'b machine \<Rightarrow> 'b machine" where
  "m_jr_nc_i08 I m =
     (if (get8 AF_L m AND CF) = 0
         then (let (d1, m) = MREQ_RD I (get16 PC_W m) 0x00 m;
            m = put16 WZ_W (get16 PC_W m + scast d1 + 1) m;
            m = put16 PC_W (get16 WZ_W m) m;
            m = m_consume 1 5 m
          in m)
         else put16 PC_W (get16 PC_W m + 1) m)"

definition m_jr_c_i08 :: "'b iface \<Rightarrow> 'b machine \<Rightarrow> 'b machine" where
  "m_jr_c_i08 I m =
     (if (get8 AF_L m AND CF) \<noteq> 0
         then (let (d1, m) = MREQ_RD I (get16 PC_W m) 0x00 m;
            m = put16 WZ_W (get16 PC_W m + scast d1 + 1) m;
            m = put16 PC_W (get16 WZ_W m) m;
            m = m_consume 1 5 m
          in m)
         else put16 PC_W (get16 PC_W m + 1) m)"


section \<open>Calls and returns\<close>

definition m_rst_vec16 :: "'b iface \<Rightarrow> u16 \<Rightarrow> 'b machine \<Rightarrow> 'b machine" where
  "m_rst_vec16 I addr m = (
     let m = put16 SP_W (get16 SP_W m - 1) m;
         m = m_mreq_wr I (get16 SP_W m) (get8 PC_H m) m;
         m = put16 SP_W (get16 SP_W m - 1) m;
         m = m_mreq_wr I (get16 SP_W m) (get8 PC_L m) m;
         m = put16 WZ_W addr m;
         m = put16 PC_W (get16 WZ_W m) m
     in m)"

definition m_call_i16 :: "'b iface \<Rightarrow> 'b machine \<Rightarrow> 'b machine" where
  "m_call_i16 I m = (
     let a1 = get16 PC_W m;
         m = put16 PC_W (a1 + 1) m;
         m = m_mreq_rd I a1 WZ_L m;
         a2 = get16 PC_W m;
         m = put16 PC_W (a2 + 1) m;
         m = m_mreq_rd I a2 WZ_H m;
         m = put16 SP_W (get16 SP_W m - 1) m;
         m = m_mreq_wr I (get16 SP_W m) (get8 PC_H m) m;
         m = put16 SP_W (get16 SP_W m - 1) m;
         m = m_mreq_wr I (get16 SP_W m) (get8 PC_L m) m;
         m = put16 PC_W (get16 WZ_W m) m
     in m)"

definition m_call_nz_i16 :: "'b iface \<Rightarrow> 'b machine \<Rightarrow> 'b machine" where
  "m_call_nz_i16 I m =
     (if (get8 AF_L m AND ZF) = 0
         then (let a1 = get16 PC_W m;
            m = put16 PC_W (a1 + 1) m;
            m = m_mreq_rd I a1 WZ_L m;
            a2 = get16 PC_W m;
            m = put16 PC_W (a2 + 1) m;
            m = m_mreq_rd I a2 WZ_H m;
            m = put16 SP_W (get16 SP_W m - 1) m;
            m = m_mreq_wr I (get16 SP_W m) (get8 PC_H m) m;
            m = put16 SP_W (get16 SP_W m - 1) m;
            m = m_mreq_wr I (get16 SP_W m) (get8 PC_L m) m;
            m = put16 PC_W (get16 WZ_W m) m;
            m = m_consume 2 7 m
          in m)
         else (let m = put16 WZ_W (get16 PC_W m + 2) m;
            m = put16 PC_W (get16 WZ_W m) m
          in m))"

definition m_call_z_i16 :: "'b iface \<Rightarrow> 'b machine \<Rightarrow> 'b machine" where
  "m_call_z_i16 I m =
     (if (get8 AF_L m AND ZF) \<noteq> 0
         then (let a1 = get16 PC_W m;
            m = put16 PC_W (a1 + 1) m;
            m = m_mreq_rd I a1 WZ_L m;
            a2 = get16 PC_W m;
            m = put16 PC_W (a2 + 1) m;
            m = m_mreq_rd I a2 WZ_H m;
            m = put16 SP_W (get16 SP_W m - 1) m;
            m = m_mreq_wr I (get16 SP_W m) (get8 PC_H m) m;
            m = put16 SP_W (get16 SP_W m - 1) m;
            m = m_mreq_wr I (get16 SP_W m) (get8 PC_L m) m;
            m = put16 PC_W (get16 WZ_W m) m;
            m = m_consume 2 7 m
          in m)
         else (let m = put16 WZ_W (get16 PC_W m + 2) m;
            m = put16 PC_W (get16 WZ_W m) m
          in m))"

definition m_call_nc_i16 :: "'b iface \<Rightarrow> 'b machine \<Rightarrow> 'b machine" where
  "m_call_nc_i16 I m =
     (if (get8 AF_L m AND CF) = 0
         then (let a1 = get16 PC_W m;
            m = put16 PC_W (a1 + 1) m;
            m = m_mreq_rd I a1 WZ_L m;
            a2 = get16 PC_W m;
            m = put16 PC_W (a2 + 1) m;
            m = m_mreq_rd I a2 WZ_H m;
            m = put16 SP_W (get16 SP_W m - 1) m;
            m = m_mreq_wr I (get16 SP_W m) (get8 PC_H m) m;
            m = put16 SP_W (get16 SP_W m - 1) m;
            m = m_mreq_wr I (get16 SP_W m) (get8 PC_L m) m;
            m = put16 PC_W (get16 WZ_W m) m;
            m = m_consume 2 7 m
          in m)
         else (let m = put16 WZ_W (get16 PC_W m + 2) m;
            m = put16 PC_W (get16 WZ_W m) m
          in m))"

definition m_call_c_i16 :: "'b iface \<Rightarrow> 'b machine \<Rightarrow> 'b machine" where
  "m_call_c_i16 I m =
     (if (get8 AF_L m AND CF) \<noteq> 0
         then (let a1 = get16 PC_W m;
            m = put16 PC_W (a1 + 1) m;
            m = m_mreq_rd I a1 WZ_L m;
            a2 = get16 PC_W m;
            m = put16 PC_W (a2 + 1) m;
            m = m_mreq_rd I a2 WZ_H m;
            m = put16 SP_W (get16 SP_W m - 1) m;
            m = m_mreq_wr I (get16 SP_W m) (get8 PC_H m) m;
            m = put16 SP_W (get16 SP_W m - 1) m;
            m = m_mreq_wr I (get16 SP_W m) (get8 PC_L m) m;
            m = put16 PC_W (get16 WZ_W m) m;
            m = m_consume 2 7 m
          in m)
         else (let m = put16 WZ_W (get16 PC_W m + 2) m;
            m = put16 PC_W (get16 WZ_W m) m
          in m))"

definition m_call_po_i16 :: "'b iface \<Rightarrow> 'b machine \<Rightarrow> 'b machine" where
  "m_call_po_i16 I m =
     (if (get8 AF_L m AND PF) = 0
         then (let a1 = get16 PC_W m;
            m = put16 PC_W (a1 + 1) m;
            m = m_mreq_rd I a1 WZ_L m;
            a2 = get16 PC_W m;
            m = put16 PC_W (a2 + 1) m;
            m = m_mreq_rd I a2 WZ_H m;
            m = put16 SP_W (get16 SP_W m - 1) m;
            m = m_mreq_wr I (get16 SP_W m) (get8 PC_H m) m;
            m = put16 SP_W (get16 SP_W m - 1) m;
            m = m_mreq_wr I (get16 SP_W m) (get8 PC_L m) m;
            m = put16 PC_W (get16 WZ_W m) m;
            m = m_consume 2 7 m
          in m)
         else (let m = put16 WZ_W (get16 PC_W m + 2) m;
            m = put16 PC_W (get16 WZ_W m) m
          in m))"

definition m_call_pe_i16 :: "'b iface \<Rightarrow> 'b machine \<Rightarrow> 'b machine" where
  "m_call_pe_i16 I m =
     (if (get8 AF_L m AND PF) \<noteq> 0
         then (let a1 = get16 PC_W m;
            m = put16 PC_W (a1 + 1) m;
            m = m_mreq_rd I a1 WZ_L m;
            a2 = get16 PC_W m;
            m = put16 PC_W (a2 + 1) m;
            m = m_mreq_rd I a2 WZ_H m;
            m = put16 SP_W (get16 SP_W m - 1) m;
            m = m_mreq_wr I (get16 SP_W m) (get8 PC_H m) m;
            m = put16 SP_W (get16 SP_W m - 1) m;
            m = m_mreq_wr I (get16 SP_W m) (get8 PC_L m) m;
            m = put16 PC_W (get16 WZ_W m) m;
            m = m_consume 2 7 m
          in m)
         else (let m = put16 WZ_W (get16 PC_W m + 2) m;
            m = put16 PC_W (get16 WZ_W m) m
          in m))"

definition m_call_p_i16 :: "'b iface \<Rightarrow> 'b machine \<Rightarrow> 'b machine" where
  "m_call_p_i16 I m =
     (if (get8 AF_L m AND SF) = 0
         then (let a1 = get16 PC_W m;
            m = put16 PC_W (a1 + 1) m;
            m = m_mreq_rd I a1 WZ_L m;
            a2 = get16 PC_W m;
            m = put16 PC_W (a2 + 1) m;
            m = m_mreq_rd I a2 WZ_H m;
            m = put16 SP_W (get16 SP_W m - 1) m;
            m = m_mreq_wr I (get16 SP_W m) (get8 PC_H m) m;
            m = put16 SP_W (get16 SP_W m - 1) m;
            m = m_mreq_wr I (get16 SP_W m) (get8 PC_L m) m;
            m = put16 PC_W (get16 WZ_W m) m;
            m = m_consume 2 7 m
          in m)
         else (let m = put16 WZ_W (get16 PC_W m + 2) m;
            m = put16 PC_W (get16 WZ_W m) m
          in m))"

definition m_call_m_i16 :: "'b iface \<Rightarrow> 'b machine \<Rightarrow> 'b machine" where
  "m_call_m_i16 I m =
     (if (get8 AF_L m AND SF) \<noteq> 0
         then (let a1 = get16 PC_W m;
            m = put16 PC_W (a1 + 1) m;
            m = m_mreq_rd I a1 WZ_L m;
            a2 = get16 PC_W m;
            m = put16 PC_W (a2 + 1) m;
            m = m_mreq_rd I a2 WZ_H m;
            m = put16 SP_W (get16 SP_W m - 1) m;
            m = m_mreq_wr I (get16 SP_W m) (get8 PC_H m) m;
            m = put16 SP_W (get16 SP_W m - 1) m;
            m = m_mreq_wr I (get16 SP_W m) (get8 PC_L m) m;
            m = put16 PC_W (get16 WZ_W m) m;
            m = m_consume 2 7 m
          in m)
         else (let m = put16 WZ_W (get16 PC_W m + 2) m;
            m = put16 PC_W (get16 WZ_W m) m
          in m))"

definition m_ret :: "'b iface \<Rightarrow> 'b machine \<Rightarrow> 'b machine" where
  "m_ret I m = (
     let a1 = get16 SP_W m;
         m = put16 SP_W (a1 + 1) m;
         m = m_mreq_rd I a1 WZ_L m;
         a2 = get16 SP_W m;
         m = put16 SP_W (a2 + 1) m;
         m = m_mreq_rd I a2 WZ_H m;
         m = put16 PC_W (get16 WZ_W m) m
     in m)"

definition m_ret_nz :: "'b iface \<Rightarrow> 'b machine \<Rightarrow> 'b machine" where
  "m_ret_nz I m =
     (if (get8 AF_L m AND ZF) = 0
         then (let a1 = get16 SP_W m;
            m = put16 SP_W (a1 + 1) m;
            m = m_mreq_rd I a1 WZ_L m;
            a2 = get16 SP_W m;
            m = put16 SP_W (a2 + 1) m;
            m = m_mreq_rd I a2 WZ_H m;
            m = put16 PC_W (get16 WZ_W m) m;
            m = m_consume 2 6 m
          in m)
         else m)"

definition m_ret_z :: "'b iface \<Rightarrow> 'b machine \<Rightarrow> 'b machine" where
  "m_ret_z I m =
     (if (get8 AF_L m AND ZF) \<noteq> 0
         then (let a1 = get16 SP_W m;
            m = put16 SP_W (a1 + 1) m;
            m = m_mreq_rd I a1 WZ_L m;
            a2 = get16 SP_W m;
            m = put16 SP_W (a2 + 1) m;
            m = m_mreq_rd I a2 WZ_H m;
            m = put16 PC_W (get16 WZ_W m) m;
            m = m_consume 2 6 m
          in m)
         else m)"

definition m_ret_nc :: "'b iface \<Rightarrow> 'b machine \<Rightarrow> 'b machine" where
  "m_ret_nc I m =
     (if (get8 AF_L m AND CF) = 0
         then (let a1 = get16 SP_W m;
            m = put16 SP_W (a1 + 1) m;
            m = m_mreq_rd I a1 WZ_L m;
            a2 = get16 SP_W m;
            m = put16 SP_W (a2 + 1) m;
            m = m_mreq_rd I a2 WZ_H m;
            m = put16 PC_W (get16 WZ_W m) m;
            m = m_consume 2 6 m
          in m)
         else m)"

definition m_ret_c :: "'b iface \<Rightarrow> 'b machine \<Rightarrow> 'b machine" where
  "m_ret_c I m =
     (if (get8 AF_L m AND CF) \<noteq> 0
         then (let a1 = get16 SP_W m;
            m = put16 SP_W (a1 + 1) m;
            m = m_mreq_rd I a1 WZ_L m;
            a2 = get16 SP_W m;
            m = put16 SP_W (a2 + 1) m;
            m = m_mreq_rd I a2 WZ_H m;
            m = put16 PC_W (get16 WZ_W m) m;
            m = m_consume 2 6 m
          in m)
         else m)"

definition m_ret_po :: "'b iface \<Rightarrow> 'b machine \<Rightarrow> 'b machine" where
  "m_ret_po I m =
     (if (get8 AF_L m AND PF) = 0
         then (let a1 = get16 SP_W m;
            m = put16 SP_W (a1 + 1) m;
            m = m_mreq_rd I a1 WZ_L m;
            a2 = get16 SP_W m;
            m = put16 SP_W (a2 + 1) m;
            m = m_mreq_rd I a2 WZ_H m;
            m = put16 PC_W (get16 WZ_W m) m;
            m = m_consume 2 6 m
          in m)
         else m)"

definition m_ret_pe :: "'b iface \<Rightarrow> 'b machine \<Rightarrow> 'b machine" where
  "m_ret_pe I m =
     (if (get8 AF_L m AND PF) \<noteq> 0
         then (let a1 = get16 SP_W m;
            m = put16 SP_W (a1 + 1) m;
            m = m_mreq_rd I a1 WZ_L m;
            a2 = get16 SP_W m;
            m = put16 SP_W (a2 + 1) m;
            m = m_mreq_rd I a2 WZ_H m;
            m = put16 PC_W (get16 WZ_W m) m;
            m = m_consume 2 6 m
          in m)
         else m)"

definition m_ret_p :: "'b iface \<Rightarrow> 'b machine \<Rightarrow> 'b machine" where
  "m_ret_p I m =
     (if (get8 AF_L m AND SF) = 0
         then (let a1 = get16 SP_W m;
            m = put16 SP_W (a1 + 1) m;
            m = m_mreq_rd I a1 WZ_L m;
            a2 = get16 SP_W m;
            m = put16 SP_W (a2 + 1) m;
            m = m_mreq_rd I a2 WZ_H m;
            m = put16 PC_W (get16 WZ_W m) m;
            m = m_consume 2 6 m
          in m)
         else m)"

definition m_ret_m :: "'b iface \<Rightarrow> 'b machine \<Rightarrow> 'b machine" where
  "m_ret_m I m =
     (if (get8 AF_L m AND SF) \<noteq> 0
         then (let a1 = get16 SP_W m;
            m = put16 SP_W (a1 + 1) m;
            m = m_mreq_rd I a1 WZ_L m;
            a2 = get16 SP_W m;
            m = put16 SP_W (a2 + 1) m;
            m = m_mreq_rd I a2 WZ_H m;
            m = put16 PC_W (get16 WZ_W m) m;
            m = m_consume 2 6 m
          in m)
         else m)"

definition m_reti :: "'b iface \<Rightarrow> 'b machine \<Rightarrow> 'b machine" where
  "m_reti I m = (
     let a1 = get16 SP_W m;
         m = put16 SP_W (a1 + 1) m;
         m = m_mreq_rd I a1 WZ_L m;
         a2 = get16 SP_W m;
         m = put16 SP_W (a2 + 1) m;
         m = m_mreq_rd I a2 WZ_H m;
         m = put16 PC_W (get16 WZ_W m) m
     in m)"

definition m_retn :: "'b iface \<Rightarrow> 'b machine \<Rightarrow> 'b machine" where
  "m_retn I m = (
     let m = (if (get8 ST_L m AND ST_IFF2) \<noteq> 0
         then put8 ST_L (get8 ST_L m OR ST_IFF1) m
         else put8 ST_L (get8 ST_L m AND NOT ST_IFF1) m);
         a1 = get16 SP_W m;
         m = put16 SP_W (a1 + 1) m;
         m = m_mreq_rd I a1 WZ_L m;
         a2 = get16 SP_W m;
         m = put16 SP_W (a2 + 1) m;
         m = m_mreq_rd I a2 WZ_H m;
         m = put16 PC_W (get16 WZ_W m) m
     in m)"


section \<open>Exchanges and block transfers\<close>

definition m_exx :: "'b machine \<Rightarrow> 'b machine" where
  "m_exx m = (
     let m = put16 R0_W (get16 BC_W m) m;
         m = put16 BC_W (get16 BC_P m) m;
         m = put16 BC_P (get16 R0_W m) m;
         m = put16 R0_W (get16 DE_W m) m;
         m = put16 DE_W (get16 DE_P m) m;
         m = put16 DE_P (get16 R0_W m) m;
         m = put16 R0_W (get16 HL_W m) m;
         m = put16 HL_W (get16 HL_P m) m;
         m = put16 HL_P (get16 R0_W m) m
     in m)"

definition m_ex_r16_r16 :: "r16 \<Rightarrow> r16 \<Rightarrow> 'b machine \<Rightarrow> 'b machine" where
  "m_ex_r16_r16 reg1 reg2 m = (
     let m = put16 R0_W (get16 reg1 m) m;
         m = put16 reg1 (get16 reg2 m) m;
         m = put16 reg2 (get16 R0_W m) m
     in m)"

definition m_ex_ind_r16_r16 :: "'b iface \<Rightarrow> r16 \<Rightarrow> r16 \<Rightarrow> 'b machine \<Rightarrow> 'b machine" where
  "m_ex_ind_r16_r16 I reg1 reg2 m = (
     let m = put16 R1_W (get16 reg1 m) m;
         m = put16 R2_W (get16 reg2 m) m;
         m = m_mreq_rd I (get16 R1_W m + 0) R0_L m;
         m = m_mreq_rd I (get16 R1_W m + 1) R0_H m;
         m = m_mreq_wr I (get16 R1_W m + 0) (get8 R2_L m) m;
         m = m_mreq_wr I (get16 R1_W m + 1) (get8 R2_H m) m;
         m = put16 reg2 (get16 R0_W m) m
     in m)"

definition m_ldi :: "'b iface \<Rightarrow> 'b machine \<Rightarrow> 'b machine" where
  "m_ldi I m = (
     let m = put8 R1_L (get8 AF_H m) m;
         m = m_mreq_rd I (get16 HL_W m) R2_L m;
         m = m_mreq_wr I (get16 DE_W m) (get8 R2_L m) m;
         m = put8 R0_L (get8 R1_L m + get8 R2_L m) m;
         m = put16 HL_W (get16 HL_W m + 1) m;
         m = put16 DE_W (get16 DE_W m + 1) m;
         m = put16 BC_W (get16 BC_W m - 1) m;
         m = put8 AF_L ((SF AND get8 AF_L m)
             OR (ZF AND get8 AF_L m)
             OR (YF AND (if (get8 R0_L m AND BIT1) \<noteq> 0 then 0xff else 0x00))
             OR (HF AND 0x00)
             OR (XF AND (if (get8 R0_L m AND BIT3) \<noteq> 0 then 0xff else 0x00))
             OR (PF AND (if get16 BC_W m \<noteq> 0 then 0xff else 0x00))
             OR (NF AND 0x00)
             OR (CF AND get8 AF_L m)) m
     in m)"

definition m_ldd :: "'b iface \<Rightarrow> 'b machine \<Rightarrow> 'b machine" where
  "m_ldd I m = (
     let m = put8 R1_L (get8 AF_H m) m;
         m = m_mreq_rd I (get16 HL_W m) R2_L m;
         m = m_mreq_wr I (get16 DE_W m) (get8 R2_L m) m;
         m = put8 R0_L (get8 R1_L m + get8 R2_L m) m;
         m = put16 HL_W (get16 HL_W m - 1) m;
         m = put16 DE_W (get16 DE_W m - 1) m;
         m = put16 BC_W (get16 BC_W m - 1) m;
         m = put8 AF_L ((SF AND get8 AF_L m)
             OR (ZF AND get8 AF_L m)
             OR (YF AND (if (get8 R0_L m AND BIT1) \<noteq> 0 then 0xff else 0x00))
             OR (HF AND 0x00)
             OR (XF AND (if (get8 R0_L m AND BIT3) \<noteq> 0 then 0xff else 0x00))
             OR (PF AND (if get16 BC_W m \<noteq> 0 then 0xff else 0x00))
             OR (NF AND 0x00)
             OR (CF AND get8 AF_L m)) m
     in m)"

definition m_ldir :: "'b iface \<Rightarrow> 'b machine \<Rightarrow> 'b machine" where
  "m_ldir I m = (
     let m = put8 R1_L (get8 AF_H m) m;
         m = m_mreq_rd I (get16 HL_W m) R2_L m;
         m = m_mreq_wr I (get16 DE_W m) (get8 R2_L m) m;
         m = put8 R0_L (get8 R1_L m + get8 R2_L m) m;
         m = put16 HL_W (get16 HL_W m + 1) m;
         m = put16 DE_W (get16 DE_W m + 1) m;
         m = put16 BC_W (get16 BC_W m - 1) m;
         m = put8 AF_L ((SF AND get8 AF_L m)
             OR (ZF AND get8 AF_L m)
             OR (YF AND (if (get8 R0_L m AND BIT1) \<noteq> 0 then 0xff else 0x00))
             OR (HF AND 0x00)
             OR (XF AND (if (get8 R0_L m AND BIT3) \<noteq> 0 then 0xff else 0x00))
             OR (PF AND (if get16 BC_W m \<noteq> 0 then 0xff else 0x00))
             OR (NF AND 0x00)
             OR (CF AND get8 AF_L m)) m;
         m = (if get16 BC_W m \<noteq> 0
         then (let m = m_restore_pc m;
            m = m_consume 1 5 m
          in m)
         else put16 WZ_W (get16 PC_W m) m)
     in m)"

definition m_lddr :: "'b iface \<Rightarrow> 'b machine \<Rightarrow> 'b machine" where
  "m_lddr I m = (
     let m = put8 R1_L (get8 AF_H m) m;
         m = m_mreq_rd I (get16 HL_W m) R2_L m;
         m = m_mreq_wr I (get16 DE_W m) (get8 R2_L m) m;
         m = put8 R0_L (get8 R1_L m + get8 R2_L m) m;
         m = put16 HL_W (get16 HL_W m - 1) m;
         m = put16 DE_W (get16 DE_W m - 1) m;
         m = put16 BC_W (get16 BC_W m - 1) m;
         m = put8 AF_L ((SF AND get8 AF_L m)
             OR (ZF AND get8 AF_L m)
             OR (YF AND (if (get8 R0_L m AND BIT1) \<noteq> 0 then 0xff else 0x00))
             OR (HF AND 0x00)
             OR (XF AND (if (get8 R0_L m AND BIT3) \<noteq> 0 then 0xff else 0x00))
             OR (PF AND (if get16 BC_W m \<noteq> 0 then 0xff else 0x00))
             OR (NF AND 0x00)
             OR (CF AND get8 AF_L m)) m;
         m = (if get16 BC_W m \<noteq> 0
         then (let m = m_restore_pc m;
            m = m_consume 1 5 m
          in m)
         else put16 WZ_W (get16 PC_W m) m)
     in m)"

definition m_cpi :: "'b iface \<Rightarrow> 'b machine \<Rightarrow> 'b machine" where
  "m_cpi I m = (
     let m = put8 R1_L (get8 AF_H m) m;
         m = m_mreq_rd I (get16 HL_W m) R2_L m;
         m = put8 R0_L (get8 R1_L m - get8 R2_L m) m;
         m = put16 HL_W (get16 HL_W m + 1) m;
         m = put16 BC_W (get16 BC_W m - 1) m;
         m = put8 R3_L (PZS (get8 R0_L m)) m;
         m = put8 AF_L ((SF AND get8 R3_L m)
             OR (ZF AND get8 R3_L m)
             OR (YF AND 0x00)
             OR (HF AND (get8 R0_L m XOR get8 R1_L m XOR get8 R2_L m))
             OR (XF AND 0x00)
             OR (PF AND (if get16 BC_W m \<noteq> 0 then 0xff else 0x00))
             OR (NF AND 0xff)
             OR (CF AND get8 AF_L m)) m;
         m = put8 R0_L (get8 R0_L m - (if (get8 AF_L m AND HF) \<noteq> 0 then 1 else 0)) m;
         m = put8 AF_L (get8 AF_L m OR (YF AND (if (get8 R0_L m AND BIT1) \<noteq> 0 then 0xff else 0x00)) OR (XF AND (if (get8 R0_L m AND BIT3) \<noteq> 0 then 0xff else 0x00))) m
     in m)"

definition m_cpd :: "'b iface \<Rightarrow> 'b machine \<Rightarrow> 'b machine" where
  "m_cpd I m = (
     let m = put8 R1_L (get8 AF_H m) m;
         m = m_mreq_rd I (get16 HL_W m) R2_L m;
         m = put8 R0_L (get8 R1_L m - get8 R2_L m) m;
         m = put16 HL_W (get16 HL_W m - 1) m;
         m = put16 BC_W (get16 BC_W m - 1) m;
         m = put8 R3_L (PZS (get8 R0_L m)) m;
         m = put8 AF_L ((SF AND get8 R3_L m)
             OR (ZF AND get8 R3_L m)
             OR (YF AND 0x00)
             OR (HF AND (get8 R0_L m XOR get8 R1_L m XOR get8 R2_L m))
             OR (XF AND 0x00)
             OR (PF AND (if get16 BC_W m \<noteq> 0 then 0xff else 0x00))
             OR (NF AND 0xff)
             OR (CF AND get8 AF_L m)) m;
         m = put8 R0_L (get8 R0_L m - (if (get8 AF_L m AND HF) \<noteq> 0 then 1 else 0)) m;
         m = put8 AF_L (get8 AF_L m OR (YF AND (if (get8 R0_L m AND BIT1) \<noteq> 0 then 0xff else 0x00)) OR (XF AND (if (get8 R0_L m AND BIT3) \<noteq> 0 then 0xff else 0x00))) m
     in m)"

definition m_cpir :: "'b iface \<Rightarrow> 'b machine \<Rightarrow> 'b machine" where
  "m_cpir I m = (
     let m = put8 R1_L (get8 AF_H m) m;
         m = m_mreq_rd I (get16 HL_W m) R2_L m;
         m = put8 R0_L (get8 R1_L m - get8 R2_L m) m;
         m = put16 HL_W (get16 HL_W m + 1) m;
         m = put16 BC_W (get16 BC_W m - 1) m;
         m = put8 R3_L (PZS (get8 R0_L m)) m;
         m = put8 AF_L ((SF AND get8 R3_L m)
             OR (ZF AND get8 R3_L m)
             OR (YF AND 0x00)
             OR (HF AND (get8 R0_L m XOR get8 R1_L m XOR get8 R2_L m))
             OR (XF AND 0x00)
             OR (PF AND (if get16 BC_W m \<noteq> 0 then 0xff else 0x00))
             OR (NF AND 0xff)
             OR (CF AND get8 AF_L m)) m;
         m = (if (get16 BC_W m \<noteq> 0) \<and> (get8 R0_L m \<noteq> 0)
         then (let m = m_restore_pc m;
            m = m_consume 1 5 m
          in m)
         else m);
         m = put8 R0_L (get8 R0_L m - (if (get8 AF_L m AND HF) \<noteq> 0 then 1 else 0)) m;
         m = put8 AF_L (get8 AF_L m OR (YF AND (if (get8 R0_L m AND BIT1) \<noteq> 0 then 0xff else 0x00)) OR (XF AND (if (get8 R0_L m AND BIT3) \<noteq> 0 then 0xff else 0x00))) m
     in m)"

definition m_cpdr :: "'b iface \<Rightarrow> 'b machine \<Rightarrow> 'b machine" where
  "m_cpdr I m = (
     let m = put8 R1_L (get8 AF_H m) m;
         m = m_mreq_rd I (get16 HL_W m) R2_L m;
         m = put8 R0_L (get8 R1_L m - get8 R2_L m) m;
         m = put16 HL_W (get16 HL_W m - 1) m;
         m = put16 BC_W (get16 BC_W m - 1) m;
         m = put8 R3_L (PZS (get8 R0_L m)) m;
         m = put8 AF_L ((SF AND get8 R3_L m)
             OR (ZF AND get8 R3_L m)
             OR (YF AND 0x00)
             OR (HF AND (get8 R0_L m XOR get8 R1_L m XOR get8 R2_L m))
             OR (XF AND 0x00)
             OR (PF AND (if get16 BC_W m \<noteq> 0 then 0xff else 0x00))
             OR (NF AND 0xff)
             OR (CF AND get8 AF_L m)) m;
         m = (if (get16 BC_W m \<noteq> 0) \<and> (get8 R0_L m \<noteq> 0)
         then (let m = m_restore_pc m;
            m = m_consume 1 5 m
          in m)
         else m);
         m = put8 R0_L (get8 R0_L m - (if (get8 AF_L m AND HF) \<noteq> 0 then 1 else 0)) m;
         m = put8 AF_L (get8 AF_L m OR (YF AND (if (get8 R0_L m AND BIT1) \<noteq> 0 then 0xff else 0x00)) OR (XF AND (if (get8 R0_L m AND BIT3) \<noteq> 0 then 0xff else 0x00))) m
     in m)"

section \<open>The collection of definitions\<close>

lemmas z80_flow_defs [micro_defs] =
  m_djnz_i08_def m_jp_r16_def m_jp_i16_def m_jp_nz_i16_def m_jp_z_i16_def m_jp_nc_i16_def
  m_jp_c_i16_def m_jp_po_i16_def m_jp_pe_i16_def m_jp_p_i16_def m_jp_m_i16_def m_jr_i08_def
  m_jr_nz_i08_def m_jr_z_i08_def m_jr_nc_i08_def m_jr_c_i08_def m_rst_vec16_def m_call_i16_def
  m_call_nz_i16_def m_call_z_i16_def m_call_nc_i16_def m_call_c_i16_def m_call_po_i16_def
  m_call_pe_i16_def m_call_p_i16_def m_call_m_i16_def m_ret_def m_ret_nz_def m_ret_z_def
  m_ret_nc_def m_ret_c_def m_ret_po_def m_ret_pe_def m_ret_p_def m_ret_m_def m_reti_def
  m_retn_def m_exx_def m_ex_r16_r16_def m_ex_ind_r16_r16_def m_ldi_def m_ldd_def m_ldir_def
  m_lddr_def m_cpi_def m_cpd_def m_cpir_def m_cpdr_def

end
