(* ===== verification/Z80_Bits.thy ===== *)
theory Z80_Bits
  imports Z80_Flow
begin

text \<open>
  The micro-instructions of \<^verbatim>\<open>cpu-microcode.inc\<close>, fourth part: rotates, shifts and the bit
  instructions, on registers, through a pointer and indexed.
\<close>

unbundle bit_operations_syntax

section \<open>Rotates and shifts\<close>

definition m_rlca :: "'b machine \<Rightarrow> 'b machine" where
  "m_rlca m = (
     let m = put8 R1_L (get8 AF_H m) m;
         m = put8 R0_L (push_bit 1 (get8 R1_L m) OR drop_bit 7 (get8 R1_L m)) m;
         m = put8 AF_H (get8 R0_L m) m;
         m = put8 AF_L ((SF AND get8 AF_L m)
             OR (ZF AND get8 AF_L m)
             OR (YF AND get8 R0_L m)
             OR (HF AND 0x00)
             OR (XF AND get8 R0_L m)
             OR (PF AND get8 AF_L m)
             OR (NF AND 0x00)
             OR (CF AND (if (get8 R1_L m AND BIT7) \<noteq> 0 then 0xff else 0x00))) m
     in m)"

definition m_rrca :: "'b machine \<Rightarrow> 'b machine" where
  "m_rrca m = (
     let m = put8 R1_L (get8 AF_H m) m;
         m = put8 R0_L (drop_bit 1 (get8 R1_L m) OR push_bit 7 (get8 R1_L m)) m;
         m = put8 AF_H (get8 R0_L m) m;
         m = put8 AF_L ((SF AND get8 AF_L m)
             OR (ZF AND get8 AF_L m)
             OR (YF AND get8 R0_L m)
             OR (HF AND 0x00)
             OR (XF AND get8 R0_L m)
             OR (PF AND get8 AF_L m)
             OR (NF AND 0x00)
             OR (CF AND (if (get8 R1_L m AND BIT0) \<noteq> 0 then 0xff else 0x00))) m
     in m)"

definition m_rla :: "'b machine \<Rightarrow> 'b machine" where
  "m_rla m = (
     let m = put8 R1_L (get8 AF_H m) m;
         m = put8 R0_L (push_bit 1 (get8 R1_L m) OR (if (get8 AF_L m AND CF) \<noteq> 0 then BIT0 else 0x00)) m;
         m = put8 AF_H (get8 R0_L m) m;
         m = put8 AF_L ((SF AND get8 AF_L m)
             OR (ZF AND get8 AF_L m)
             OR (YF AND get8 R0_L m)
             OR (HF AND 0x00)
             OR (XF AND get8 R0_L m)
             OR (PF AND get8 AF_L m)
             OR (NF AND 0x00)
             OR (CF AND (if (get8 R1_L m AND BIT7) \<noteq> 0 then 0xff else 0x00))) m
     in m)"

definition m_rra :: "'b machine \<Rightarrow> 'b machine" where
  "m_rra m = (
     let m = put8 R1_L (get8 AF_H m) m;
         m = put8 R0_L (drop_bit 1 (get8 R1_L m) OR (if (get8 AF_L m AND CF) \<noteq> 0 then BIT7 else 0x00)) m;
         m = put8 AF_H (get8 R0_L m) m;
         m = put8 AF_L ((SF AND get8 AF_L m)
             OR (ZF AND get8 AF_L m)
             OR (YF AND get8 R0_L m)
             OR (HF AND 0x00)
             OR (XF AND get8 R0_L m)
             OR (PF AND get8 AF_L m)
             OR (NF AND 0x00)
             OR (CF AND (if (get8 R1_L m AND BIT0) \<noteq> 0 then 0xff else 0x00))) m
     in m)"

definition m_rld :: "'b iface \<Rightarrow> 'b machine \<Rightarrow> 'b machine" where
  "m_rld I m = (
     let m = m_mreq_rd I (get16 HL_W m) R1_L m;
         m = put8 R0_L (push_bit 4 (get8 R1_L m AND 0x0f) OR drop_bit 0 (get8 AF_H m AND 0x0f)) m;
         m = put8 AF_H (push_bit 0 (get8 AF_H m AND 0xf0) OR drop_bit 4 (get8 R1_L m AND 0xf0)) m;
         m = put8 R3_L (PZS (get8 AF_H m)) m;
         m = put8 AF_L ((SF AND get8 R3_L m)
             OR (ZF AND get8 R3_L m)
             OR (YF AND get8 AF_H m)
             OR (HF AND 0x00)
             OR (XF AND get8 AF_H m)
             OR (PF AND get8 R3_L m)
             OR (NF AND 0x00)
             OR (CF AND get8 AF_L m)) m;
         m = m_mreq_wr I (get16 HL_W m) (get8 R0_L m) m
     in m)"

definition m_rrd :: "'b iface \<Rightarrow> 'b machine \<Rightarrow> 'b machine" where
  "m_rrd I m = (
     let m = m_mreq_rd I (get16 HL_W m) R1_L m;
         m = put8 R0_L (push_bit 4 (get8 AF_H m AND 0x0f) OR drop_bit 4 (get8 R1_L m AND 0xf0)) m;
         m = put8 AF_H (push_bit 0 (get8 AF_H m AND 0xf0) OR drop_bit 0 (get8 R1_L m AND 0x0f)) m;
         m = put8 R3_L (PZS (get8 AF_H m)) m;
         m = put8 AF_L ((SF AND get8 R3_L m)
             OR (ZF AND get8 R3_L m)
             OR (YF AND get8 AF_H m)
             OR (HF AND 0x00)
             OR (XF AND get8 AF_H m)
             OR (PF AND get8 R3_L m)
             OR (NF AND 0x00)
             OR (CF AND get8 AF_L m)) m;
         m = m_mreq_wr I (get16 HL_W m) (get8 R0_L m) m
     in m)"

definition m_rlc_r08 :: "r08 \<Rightarrow> 'b machine \<Rightarrow> 'b machine" where
  "m_rlc_r08 data m = (
     let m = put8 R1_L (get8 data m) m;
         m = put8 R0_L (push_bit 1 (get8 R1_L m) OR drop_bit 7 (get8 R1_L m)) m;
         m = put8 R3_L (PZS (get8 R0_L m)) m;
         m = put8 AF_L ((SF AND get8 R3_L m)
             OR (ZF AND get8 R3_L m)
             OR (YF AND get8 R3_L m)
             OR (HF AND 0x00)
             OR (XF AND get8 R3_L m)
             OR (PF AND get8 R3_L m)
             OR (NF AND 0x00)
             OR (CF AND (if (get8 R1_L m AND BIT7) \<noteq> 0 then 0xff else 0x00))) m;
         m = put8 data (get8 R0_L m) m
     in m)"

definition m_rlc_ind_r16 :: "'b iface \<Rightarrow> r16 \<Rightarrow> 'b machine \<Rightarrow> 'b machine" where
  "m_rlc_ind_r16 I addr m = (
     let m = m_mreq_rd I (get16 addr m) R1_L m;
         m = put8 R0_L (push_bit 1 (get8 R1_L m) OR drop_bit 7 (get8 R1_L m)) m;
         m = put8 R3_L (PZS (get8 R0_L m)) m;
         m = put8 AF_L ((SF AND get8 R3_L m)
             OR (ZF AND get8 R3_L m)
             OR (YF AND get8 R3_L m)
             OR (HF AND 0x00)
             OR (XF AND get8 R3_L m)
             OR (PF AND get8 R3_L m)
             OR (NF AND 0x00)
             OR (CF AND (if (get8 R1_L m AND BIT7) \<noteq> 0 then 0xff else 0x00))) m;
         m = m_mreq_wr I (get16 addr m) (get8 R0_L m) m
     in m)"

definition m_rrc_r08 :: "r08 \<Rightarrow> 'b machine \<Rightarrow> 'b machine" where
  "m_rrc_r08 data m = (
     let m = put8 R1_L (get8 data m) m;
         m = put8 R0_L (drop_bit 1 (get8 R1_L m) OR push_bit 7 (get8 R1_L m)) m;
         m = put8 R3_L (PZS (get8 R0_L m)) m;
         m = put8 AF_L ((SF AND get8 R3_L m)
             OR (ZF AND get8 R3_L m)
             OR (YF AND get8 R3_L m)
             OR (HF AND 0x00)
             OR (XF AND get8 R3_L m)
             OR (PF AND get8 R3_L m)
             OR (NF AND 0x00)
             OR (CF AND (if (get8 R1_L m AND BIT0) \<noteq> 0 then 0xff else 0x00))) m;
         m = put8 data (get8 R0_L m) m
     in m)"

definition m_rrc_ind_r16 :: "'b iface \<Rightarrow> r16 \<Rightarrow> 'b machine \<Rightarrow> 'b machine" where
  "m_rrc_ind_r16 I addr m = (
     let m = m_mreq_rd I (get16 addr m) R1_L m;
         m = put8 R0_L (drop_bit 1 (get8 R1_L m) OR push_bit 7 (get8 R1_L m)) m;
         m = put8 R3_L (PZS (get8 R0_L m)) m;
         m = put8 AF_L ((SF AND get8 R3_L m)
             OR (ZF AND get8 R3_L m)
             OR (YF AND get8 R3_L m)
             OR (HF AND 0x00)
             OR (XF AND get8 R3_L m)
             OR (PF AND get8 R3_L m)
             OR (NF AND 0x00)
             OR (CF AND (if (get8 R1_L m AND BIT0) \<noteq> 0 then 0xff else 0x00))) m;
         m = m_mreq_wr I (get16 addr m) (get8 R0_L m) m
     in m)"

definition m_rl_r08 :: "r08 \<Rightarrow> 'b machine \<Rightarrow> 'b machine" where
  "m_rl_r08 data m = (
     let m = put8 R1_L (get8 data m) m;
         m = put8 R0_L (push_bit 1 (get8 R1_L m) OR (if (get8 AF_L m AND CF) \<noteq> 0 then BIT0 else 0x00)) m;
         m = put8 R3_L (PZS (get8 R0_L m)) m;
         m = put8 AF_L ((SF AND get8 R3_L m)
             OR (ZF AND get8 R3_L m)
             OR (YF AND get8 R3_L m)
             OR (HF AND 0x00)
             OR (XF AND get8 R3_L m)
             OR (PF AND get8 R3_L m)
             OR (NF AND 0x00)
             OR (CF AND (if (get8 R1_L m AND BIT7) \<noteq> 0 then 0xff else 0x00))) m;
         m = put8 data (get8 R0_L m) m
     in m)"

definition m_rl_ind_r16 :: "'b iface \<Rightarrow> r16 \<Rightarrow> 'b machine \<Rightarrow> 'b machine" where
  "m_rl_ind_r16 I addr m = (
     let m = m_mreq_rd I (get16 addr m) R1_L m;
         m = put8 R0_L (push_bit 1 (get8 R1_L m) OR (if (get8 AF_L m AND CF) \<noteq> 0 then BIT0 else 0x00)) m;
         m = put8 R3_L (PZS (get8 R0_L m)) m;
         m = put8 AF_L ((SF AND get8 R3_L m)
             OR (ZF AND get8 R3_L m)
             OR (YF AND get8 R3_L m)
             OR (HF AND 0x00)
             OR (XF AND get8 R3_L m)
             OR (PF AND get8 R3_L m)
             OR (NF AND 0x00)
             OR (CF AND (if (get8 R1_L m AND BIT7) \<noteq> 0 then 0xff else 0x00))) m;
         m = m_mreq_wr I (get16 addr m) (get8 R0_L m) m
     in m)"

definition m_rr_r08 :: "r08 \<Rightarrow> 'b machine \<Rightarrow> 'b machine" where
  "m_rr_r08 data m = (
     let m = put8 R1_L (get8 data m) m;
         m = put8 R0_L (drop_bit 1 (get8 R1_L m) OR (if (get8 AF_L m AND CF) \<noteq> 0 then BIT7 else 0x00)) m;
         m = put8 R3_L (PZS (get8 R0_L m)) m;
         m = put8 AF_L ((SF AND get8 R3_L m)
             OR (ZF AND get8 R3_L m)
             OR (YF AND get8 R3_L m)
             OR (HF AND 0x00)
             OR (XF AND get8 R3_L m)
             OR (PF AND get8 R3_L m)
             OR (NF AND 0x00)
             OR (CF AND (if (get8 R1_L m AND BIT0) \<noteq> 0 then 0xff else 0x00))) m;
         m = put8 data (get8 R0_L m) m
     in m)"

definition m_rr_ind_r16 :: "'b iface \<Rightarrow> r16 \<Rightarrow> 'b machine \<Rightarrow> 'b machine" where
  "m_rr_ind_r16 I addr m = (
     let m = m_mreq_rd I (get16 addr m) R1_L m;
         m = put8 R0_L (drop_bit 1 (get8 R1_L m) OR (if (get8 AF_L m AND CF) \<noteq> 0 then BIT7 else 0x00)) m;
         m = put8 R3_L (PZS (get8 R0_L m)) m;
         m = put8 AF_L ((SF AND get8 R3_L m)
             OR (ZF AND get8 R3_L m)
             OR (YF AND get8 R3_L m)
             OR (HF AND 0x00)
             OR (XF AND get8 R3_L m)
             OR (PF AND get8 R3_L m)
             OR (NF AND 0x00)
             OR (CF AND (if (get8 R1_L m AND BIT0) \<noteq> 0 then 0xff else 0x00))) m;
         m = m_mreq_wr I (get16 addr m) (get8 R0_L m) m
     in m)"

definition m_sla_r08 :: "r08 \<Rightarrow> 'b machine \<Rightarrow> 'b machine" where
  "m_sla_r08 data m = (
     let m = put8 R1_L (get8 data m) m;
         m = put8 R0_L (push_bit 1 (get8 R1_L m)) m;
         m = put8 R3_L (PZS (get8 R0_L m)) m;
         m = put8 AF_L ((SF AND get8 R3_L m)
             OR (ZF AND get8 R3_L m)
             OR (YF AND get8 R3_L m)
             OR (HF AND 0x00)
             OR (XF AND get8 R3_L m)
             OR (PF AND get8 R3_L m)
             OR (NF AND 0x00)
             OR (CF AND (if (get8 R1_L m AND BIT7) \<noteq> 0 then 0xff else 0x00))) m;
         m = put8 data (get8 R0_L m) m
     in m)"

definition m_sla_ind_r16 :: "'b iface \<Rightarrow> r16 \<Rightarrow> 'b machine \<Rightarrow> 'b machine" where
  "m_sla_ind_r16 I addr m = (
     let m = m_mreq_rd I (get16 addr m) R1_L m;
         m = put8 R0_L (push_bit 1 (get8 R1_L m)) m;
         m = put8 R3_L (PZS (get8 R0_L m)) m;
         m = put8 AF_L ((SF AND get8 R3_L m)
             OR (ZF AND get8 R3_L m)
             OR (YF AND get8 R3_L m)
             OR (HF AND 0x00)
             OR (XF AND get8 R3_L m)
             OR (PF AND get8 R3_L m)
             OR (NF AND 0x00)
             OR (CF AND (if (get8 R1_L m AND BIT7) \<noteq> 0 then 0xff else 0x00))) m;
         m = m_mreq_wr I (get16 addr m) (get8 R0_L m) m
     in m)"

definition m_sra_r08 :: "r08 \<Rightarrow> 'b machine \<Rightarrow> 'b machine" where
  "m_sra_r08 data m = (
     let m = put8 R1_L (get8 data m) m;
         m = put8 R0_L (signed_drop_bit 1 (get8 R1_L m)) m;
         m = put8 R3_L (PZS (get8 R0_L m)) m;
         m = put8 AF_L ((SF AND get8 R3_L m)
             OR (ZF AND get8 R3_L m)
             OR (YF AND get8 R3_L m)
             OR (HF AND 0x00)
             OR (XF AND get8 R3_L m)
             OR (PF AND get8 R3_L m)
             OR (NF AND 0x00)
             OR (CF AND (if (get8 R1_L m AND BIT0) \<noteq> 0 then 0xff else 0x00))) m;
         m = put8 data (get8 R0_L m) m
     in m)"

definition m_sra_ind_r16 :: "'b iface \<Rightarrow> r16 \<Rightarrow> 'b machine \<Rightarrow> 'b machine" where
  "m_sra_ind_r16 I addr m = (
     let m = m_mreq_rd I (get16 addr m) R1_L m;
         m = put8 R0_L (signed_drop_bit 1 (get8 R1_L m)) m;
         m = put8 R3_L (PZS (get8 R0_L m)) m;
         m = put8 AF_L ((SF AND get8 R3_L m)
             OR (ZF AND get8 R3_L m)
             OR (YF AND get8 R3_L m)
             OR (HF AND 0x00)
             OR (XF AND get8 R3_L m)
             OR (PF AND get8 R3_L m)
             OR (NF AND 0x00)
             OR (CF AND (if (get8 R1_L m AND BIT0) \<noteq> 0 then 0xff else 0x00))) m;
         m = m_mreq_wr I (get16 addr m) (get8 R0_L m) m
     in m)"

definition m_sll_r08 :: "r08 \<Rightarrow> 'b machine \<Rightarrow> 'b machine" where
  "m_sll_r08 data m = (
     let m = put8 R1_L (get8 data m) m;
         m = put8 R0_L (push_bit 1 (get8 R1_L m) OR BIT0) m;
         m = put8 R3_L (PZS (get8 R0_L m)) m;
         m = put8 AF_L ((SF AND get8 R3_L m)
             OR (ZF AND get8 R3_L m)
             OR (YF AND get8 R3_L m)
             OR (HF AND 0x00)
             OR (XF AND get8 R3_L m)
             OR (PF AND get8 R3_L m)
             OR (NF AND 0x00)
             OR (CF AND (if (get8 R1_L m AND BIT7) \<noteq> 0 then 0xff else 0x00))) m;
         m = put8 data (get8 R0_L m) m
     in m)"

definition m_sll_ind_r16 :: "'b iface \<Rightarrow> r16 \<Rightarrow> 'b machine \<Rightarrow> 'b machine" where
  "m_sll_ind_r16 I addr m = (
     let m = m_mreq_rd I (get16 addr m) R1_L m;
         m = put8 R0_L (push_bit 1 (get8 R1_L m) OR BIT0) m;
         m = put8 R3_L (PZS (get8 R0_L m)) m;
         m = put8 AF_L ((SF AND get8 R3_L m)
             OR (ZF AND get8 R3_L m)
             OR (YF AND get8 R3_L m)
             OR (HF AND 0x00)
             OR (XF AND get8 R3_L m)
             OR (PF AND get8 R3_L m)
             OR (NF AND 0x00)
             OR (CF AND (if (get8 R1_L m AND BIT7) \<noteq> 0 then 0xff else 0x00))) m;
         m = m_mreq_wr I (get16 addr m) (get8 R0_L m) m
     in m)"

definition m_srl_r08 :: "r08 \<Rightarrow> 'b machine \<Rightarrow> 'b machine" where
  "m_srl_r08 data m = (
     let m = put8 R1_L (get8 data m) m;
         m = put8 R0_L (drop_bit 1 (get8 R1_L m) AND NOT BIT7) m;
         m = put8 R3_L (PZS (get8 R0_L m)) m;
         m = put8 AF_L ((SF AND get8 R3_L m)
             OR (ZF AND get8 R3_L m)
             OR (YF AND get8 R3_L m)
             OR (HF AND 0x00)
             OR (XF AND get8 R3_L m)
             OR (PF AND get8 R3_L m)
             OR (NF AND 0x00)
             OR (CF AND (if (get8 R1_L m AND BIT0) \<noteq> 0 then 0xff else 0x00))) m;
         m = put8 data (get8 R0_L m) m
     in m)"

definition m_srl_ind_r16 :: "'b iface \<Rightarrow> r16 \<Rightarrow> 'b machine \<Rightarrow> 'b machine" where
  "m_srl_ind_r16 I addr m = (
     let m = m_mreq_rd I (get16 addr m) R1_L m;
         m = put8 R0_L (drop_bit 1 (get8 R1_L m) AND NOT BIT7) m;
         m = put8 R3_L (PZS (get8 R0_L m)) m;
         m = put8 AF_L ((SF AND get8 R3_L m)
             OR (ZF AND get8 R3_L m)
             OR (YF AND get8 R3_L m)
             OR (HF AND 0x00)
             OR (XF AND get8 R3_L m)
             OR (PF AND get8 R3_L m)
             OR (NF AND 0x00)
             OR (CF AND (if (get8 R1_L m AND BIT0) \<noteq> 0 then 0xff else 0x00))) m;
         m = m_mreq_wr I (get16 addr m) (get8 R0_L m) m
     in m)"


section \<open>Bits\<close>

definition m_bit_b_r08 :: "u8 \<Rightarrow> r08 \<Rightarrow> 'b machine \<Rightarrow> 'b machine" where
  "m_bit_b_r08 msk data m = (
     let m = put8 R1_L (get8 data m) m;
         m = put8 R0_L (get8 R1_L m AND msk) m;
         m = put8 R3_L (PZS (get8 R0_L m)) m;
         m = put8 AF_L ((SF AND get8 R0_L m)
             OR (ZF AND get8 R3_L m)
             OR (YF AND get8 R1_L m)
             OR (HF AND 0xff)
             OR (XF AND get8 R1_L m)
             OR (PF AND (if get8 R0_L m = 0x00 then 0xff else 0x00))
             OR (NF AND 0x00)
             OR (CF AND get8 AF_L m)) m
     in m)"

definition m_bit_b_ind_r16 :: "'b iface \<Rightarrow> u8 \<Rightarrow> r16 \<Rightarrow> 'b machine \<Rightarrow> 'b machine" where
  "m_bit_b_ind_r16 I msk addr m = (
     let m = put16 WZ_W (get16 addr m) m;
         m = m_mreq_rd I (get16 WZ_W m) R1_L m;
         m = put8 R0_L (get8 R1_L m AND msk) m;
         m = put8 R3_L (PZS (get8 R0_L m)) m;
         m = put8 AF_L ((SF AND get8 R0_L m)
             OR (ZF AND get8 R3_L m)
             OR (YF AND get8 WZ_H m)
             OR (HF AND 0xff)
             OR (XF AND get8 WZ_H m)
             OR (PF AND (if get8 R0_L m = 0x00 then 0xff else 0x00))
             OR (NF AND 0x00)
             OR (CF AND get8 AF_L m)) m
     in m)"

definition m_res_b_r08 :: "u8 \<Rightarrow> r08 \<Rightarrow> 'b machine \<Rightarrow> 'b machine" where
  "m_res_b_r08 msk data m = (
     let m = put8 R1_L (get8 data m) m;
         m = put8 R0_L (get8 R1_L m AND NOT msk) m;
         m = put8 data (get8 R0_L m) m
     in m)"

definition m_res_b_ind_r16 :: "'b iface \<Rightarrow> u8 \<Rightarrow> r16 \<Rightarrow> 'b machine \<Rightarrow> 'b machine" where
  "m_res_b_ind_r16 I msk addr m = (
     let m = m_mreq_rd I (get16 addr m) R1_L m;
         m = put8 R0_L (get8 R1_L m AND NOT msk) m;
         m = m_mreq_wr I (get16 addr m) (get8 R0_L m) m
     in m)"

definition m_set_b_r08 :: "u8 \<Rightarrow> r08 \<Rightarrow> 'b machine \<Rightarrow> 'b machine" where
  "m_set_b_r08 msk data m = (
     let m = put8 R1_L (get8 data m) m;
         m = put8 R0_L (get8 R1_L m OR msk) m;
         m = put8 data (get8 R0_L m) m
     in m)"

definition m_set_b_ind_r16 :: "'b iface \<Rightarrow> u8 \<Rightarrow> r16 \<Rightarrow> 'b machine \<Rightarrow> 'b machine" where
  "m_set_b_ind_r16 I msk addr m = (
     let m = m_mreq_rd I (get16 addr m) R1_L m;
         m = put8 R0_L (get8 R1_L m OR msk) m;
         m = m_mreq_wr I (get16 addr m) (get8 R0_L m) m
     in m)"


section \<open>Indexed rotates, shifts and bits\<close>

definition m_rlc_ind_r16_plus_i08 :: "'b iface \<Rightarrow> r16 \<Rightarrow> 'b machine \<Rightarrow> 'b machine" where
  "m_rlc_ind_r16_plus_i08 I reg1 m =
     m_rlc_ind_r16 I WZ_W m"

definition m_rlc_ind_r16_plus_i08_r08 :: "'b iface \<Rightarrow> r16 \<Rightarrow> r08 \<Rightarrow> 'b machine \<Rightarrow> 'b machine" where
  "m_rlc_ind_r16_plus_i08_r08 I reg1 reg2 m = (
     let m = m_rlc_ind_r16 I WZ_W m;
         m = m_ld_r08_r08 reg2 R0_L m
     in m)"

definition m_rrc_ind_r16_plus_i08 :: "'b iface \<Rightarrow> r16 \<Rightarrow> 'b machine \<Rightarrow> 'b machine" where
  "m_rrc_ind_r16_plus_i08 I reg1 m =
     m_rrc_ind_r16 I WZ_W m"

definition m_rrc_ind_r16_plus_i08_r08 :: "'b iface \<Rightarrow> r16 \<Rightarrow> r08 \<Rightarrow> 'b machine \<Rightarrow> 'b machine" where
  "m_rrc_ind_r16_plus_i08_r08 I reg1 reg2 m = (
     let m = m_rrc_ind_r16 I WZ_W m;
         m = m_ld_r08_r08 reg2 R0_L m
     in m)"

definition m_rl_ind_r16_plus_i08 :: "'b iface \<Rightarrow> r16 \<Rightarrow> 'b machine \<Rightarrow> 'b machine" where
  "m_rl_ind_r16_plus_i08 I reg1 m =
     m_rl_ind_r16 I WZ_W m"

definition m_rl_ind_r16_plus_i08_r08 :: "'b iface \<Rightarrow> r16 \<Rightarrow> r08 \<Rightarrow> 'b machine \<Rightarrow> 'b machine" where
  "m_rl_ind_r16_plus_i08_r08 I reg1 reg2 m = (
     let m = m_rl_ind_r16 I WZ_W m;
         m = m_ld_r08_r08 reg2 R0_L m
     in m)"

definition m_rr_ind_r16_plus_i08 :: "'b iface \<Rightarrow> r16 \<Rightarrow> 'b machine \<Rightarrow> 'b machine" where
  "m_rr_ind_r16_plus_i08 I reg1 m =
     m_rr_ind_r16 I WZ_W m"

definition m_rr_ind_r16_plus_i08_r08 :: "'b iface \<Rightarrow> r16 \<Rightarrow> r08 \<Rightarrow> 'b machine \<Rightarrow> 'b machine" where
  "m_rr_ind_r16_plus_i08_r08 I reg1 reg2 m = (
     let m = m_rr_ind_r16 I WZ_W m;
         m = m_ld_r08_r08 reg2 R0_L m
     in m)"

definition m_sla_ind_r16_plus_i08 :: "'b iface \<Rightarrow> r16 \<Rightarrow> 'b machine \<Rightarrow> 'b machine" where
  "m_sla_ind_r16_plus_i08 I reg1 m =
     m_sla_ind_r16 I WZ_W m"

definition m_sla_ind_r16_plus_i08_r08 :: "'b iface \<Rightarrow> r16 \<Rightarrow> r08 \<Rightarrow> 'b machine \<Rightarrow> 'b machine" where
  "m_sla_ind_r16_plus_i08_r08 I reg1 reg2 m = (
     let m = m_sla_ind_r16 I WZ_W m;
         m = m_ld_r08_r08 reg2 R0_L m
     in m)"

definition m_sra_ind_r16_plus_i08 :: "'b iface \<Rightarrow> r16 \<Rightarrow> 'b machine \<Rightarrow> 'b machine" where
  "m_sra_ind_r16_plus_i08 I reg1 m =
     m_sra_ind_r16 I WZ_W m"

definition m_sra_ind_r16_plus_i08_r08 :: "'b iface \<Rightarrow> r16 \<Rightarrow> r08 \<Rightarrow> 'b machine \<Rightarrow> 'b machine" where
  "m_sra_ind_r16_plus_i08_r08 I reg1 reg2 m = (
     let m = m_sra_ind_r16 I WZ_W m;
         m = m_ld_r08_r08 reg2 R0_L m
     in m)"

definition m_sll_ind_r16_plus_i08 :: "'b iface \<Rightarrow> r16 \<Rightarrow> 'b machine \<Rightarrow> 'b machine" where
  "m_sll_ind_r16_plus_i08 I reg1 m =
     m_sll_ind_r16 I WZ_W m"

definition m_sll_ind_r16_plus_i08_r08 :: "'b iface \<Rightarrow> r16 \<Rightarrow> r08 \<Rightarrow> 'b machine \<Rightarrow> 'b machine" where
  "m_sll_ind_r16_plus_i08_r08 I reg1 reg2 m = (
     let m = m_sll_ind_r16 I WZ_W m;
         m = m_ld_r08_r08 reg2 R0_L m
     in m)"

definition m_srl_ind_r16_plus_i08 :: "'b iface \<Rightarrow> r16 \<Rightarrow> 'b machine \<Rightarrow> 'b machine" where
  "m_srl_ind_r16_plus_i08 I reg1 m =
     m_srl_ind_r16 I WZ_W m"

definition m_srl_ind_r16_plus_i08_r08 :: "'b iface \<Rightarrow> r16 \<Rightarrow> r08 \<Rightarrow> 'b machine \<Rightarrow> 'b machine" where
  "m_srl_ind_r16_plus_i08_r08 I reg1 reg2 m = (
     let m = m_srl_ind_r16 I WZ_W m;
         m = m_ld_r08_r08 reg2 R0_L m
     in m)"

definition m_bit_b_ind_r16_plus_i08 :: "'b iface \<Rightarrow> u8 \<Rightarrow> r16 \<Rightarrow> 'b machine \<Rightarrow> 'b machine" where
  "m_bit_b_ind_r16_plus_i08 I msk reg1 m =
     m_bit_b_ind_r16 I msk WZ_W m"

definition m_res_b_ind_r16_plus_i08 :: "'b iface \<Rightarrow> u8 \<Rightarrow> r16 \<Rightarrow> 'b machine \<Rightarrow> 'b machine" where
  "m_res_b_ind_r16_plus_i08 I msk reg1 m =
     m_res_b_ind_r16 I msk WZ_W m"

definition m_res_b_ind_r16_plus_i08_r08 :: "'b iface \<Rightarrow> u8 \<Rightarrow> r16 \<Rightarrow> r08 \<Rightarrow> 'b machine \<Rightarrow> 'b machine" where
  "m_res_b_ind_r16_plus_i08_r08 I msk reg1 reg2 m = (
     let m = m_res_b_ind_r16 I msk WZ_W m;
         m = m_ld_r08_r08 reg2 R0_L m
     in m)"

definition m_set_b_ind_r16_plus_i08 :: "'b iface \<Rightarrow> u8 \<Rightarrow> r16 \<Rightarrow> 'b machine \<Rightarrow> 'b machine" where
  "m_set_b_ind_r16_plus_i08 I msk reg1 m =
     m_set_b_ind_r16 I msk WZ_W m"

definition m_set_b_ind_r16_plus_i08_r08 :: "'b iface \<Rightarrow> u8 \<Rightarrow> r16 \<Rightarrow> r08 \<Rightarrow> 'b machine \<Rightarrow> 'b machine" where
  "m_set_b_ind_r16_plus_i08_r08 I msk reg1 reg2 m = (
     let m = m_set_b_ind_r16 I msk WZ_W m;
         m = m_ld_r08_r08 reg2 R0_L m
     in m)"

section \<open>The collection of definitions\<close>

lemmas z80_bits_defs [micro_defs] =
  m_rlca_def m_rrca_def m_rla_def m_rra_def m_rld_def m_rrd_def m_rlc_r08_def m_rlc_ind_r16_def
  m_rrc_r08_def m_rrc_ind_r16_def m_rl_r08_def m_rl_ind_r16_def m_rr_r08_def m_rr_ind_r16_def
  m_sla_r08_def m_sla_ind_r16_def m_sra_r08_def m_sra_ind_r16_def m_sll_r08_def
  m_sll_ind_r16_def m_srl_r08_def m_srl_ind_r16_def m_bit_b_r08_def m_bit_b_ind_r16_def
  m_res_b_r08_def m_res_b_ind_r16_def m_set_b_r08_def m_set_b_ind_r16_def
  m_rlc_ind_r16_plus_i08_def m_rlc_ind_r16_plus_i08_r08_def m_rrc_ind_r16_plus_i08_def
  m_rrc_ind_r16_plus_i08_r08_def m_rl_ind_r16_plus_i08_def m_rl_ind_r16_plus_i08_r08_def
  m_rr_ind_r16_plus_i08_def m_rr_ind_r16_plus_i08_r08_def m_sla_ind_r16_plus_i08_def
  m_sla_ind_r16_plus_i08_r08_def m_sra_ind_r16_plus_i08_def m_sra_ind_r16_plus_i08_r08_def
  m_sll_ind_r16_plus_i08_def m_sll_ind_r16_plus_i08_r08_def m_srl_ind_r16_plus_i08_def
  m_srl_ind_r16_plus_i08_r08_def m_bit_b_ind_r16_plus_i08_def m_res_b_ind_r16_plus_i08_def
  m_res_b_ind_r16_plus_i08_r08_def m_set_b_ind_r16_plus_i08_def
  m_set_b_ind_r16_plus_i08_r08_def

end
