(* ===== verification/Z80_Opcodes.thy ===== *)
theory Z80_Opcodes
  imports Z80_Bits
begin

text \<open>
  The opcode tables without index registers: \<^verbatim>\<open>cpu-opcodes.inc\<close>, \<^verbatim>\<open>cpu-opcodes-cb.inc\<close> and
  \<^verbatim>\<open>cpu-opcodes-ed.inc\<close>.  Entry \<^verbatim>\<open>n\<close> of a table is \<^verbatim>\<open>case n\<close> of the source's \<^verbatim>\<open>switch\<close>; sixteen
  cases make one definition.
\<close>

text \<open>
  A case of the \<^verbatim>\<open>switch\<close>: the machine cycles and T-states of the instruction, its
  micro-instruction, and where control goes after \<^verbatim>\<open>m_consume\<close>: \<^verbatim>\<open>break\<close> (which leads to
  \<^verbatim>\<open>goto epilog\<close>) or \<^verbatim>\<open>goto fetch_xx_opcode\<close>.
\<close>

datatype label = Epilog | Fetch_cb | Fetch_dd | Fetch_ed | Fetch_fd | Fetch_ddcb | Fetch_fdcb

datatype (dead 'b) opcode =
  Op (op_m_cycles: u32) (op_t_states: u32) (op_body: "'b machine \<Rightarrow> 'b machine") (op_next: label)

section \<open>The table \<^verbatim>\<open>cpu-opcodes.inc\<close>\<close>

definition opcodes_base_0 :: "'b iface \<Rightarrow> 'b opcode list" where
  "opcodes_base_0 I = [
     Op 1 4 (m_nop) Epilog, \<comment> \<open>0x00: nop\<close>
     Op 2 10 (m_ld_r16_i16 I BC_W) Epilog, \<comment> \<open>0x01: ld bc,nn\<close>
     Op 2 7 (m_ld_ind_r16_r08 I BC_W AF_H) Epilog, \<comment> \<open>0x02: ld (bc),a\<close>
     Op 1 6 (m_inc_r16 BC_W) Epilog, \<comment> \<open>0x03: inc bc\<close>
     Op 1 4 (m_inc_r08 BC_H) Epilog, \<comment> \<open>0x04: inc b\<close>
     Op 1 4 (m_dec_r08 BC_H) Epilog, \<comment> \<open>0x05: dec b\<close>
     Op 2 7 (m_ld_r08_i08 I BC_H) Epilog, \<comment> \<open>0x06: ld b,n\<close>
     Op 1 4 (m_rlca) Epilog, \<comment> \<open>0x07: rlca\<close>
     Op 1 4 (m_ex_r16_r16 AF_W AF_P) Epilog, \<comment> \<open>0x08: ex af,af'\<close>
     Op 3 11 (m_add_r16_r16 HL_W BC_W) Epilog, \<comment> \<open>0x09: add hl,bc\<close>
     Op 2 7 (m_ld_r08_ind_r16 I AF_H BC_W) Epilog, \<comment> \<open>0x0a: ld a,(bc)\<close>
     Op 1 6 (m_dec_r16 BC_W) Epilog, \<comment> \<open>0x0b: dec bc\<close>
     Op 1 4 (m_inc_r08 BC_L) Epilog, \<comment> \<open>0x0c: inc c\<close>
     Op 1 4 (m_dec_r08 BC_L) Epilog, \<comment> \<open>0x0d: dec c\<close>
     Op 2 7 (m_ld_r08_i08 I BC_L) Epilog, \<comment> \<open>0x0e: ld c,n\<close>
     Op 1 4 (m_rrca) Epilog]"

definition opcodes_base_1 :: "'b iface \<Rightarrow> 'b opcode list" where
  "opcodes_base_1 I = [
     Op 2 8 (m_djnz_i08 I) Epilog, \<comment> \<open>0x10: djnz d\<close>
     Op 2 10 (m_ld_r16_i16 I DE_W) Epilog, \<comment> \<open>0x11: ld de,nn\<close>
     Op 2 7 (m_ld_ind_r16_r08 I DE_W AF_H) Epilog, \<comment> \<open>0x12: ld (de),a\<close>
     Op 1 6 (m_inc_r16 DE_W) Epilog, \<comment> \<open>0x13: inc de\<close>
     Op 1 4 (m_inc_r08 DE_H) Epilog, \<comment> \<open>0x14: inc d\<close>
     Op 1 4 (m_dec_r08 DE_H) Epilog, \<comment> \<open>0x15: dec d\<close>
     Op 2 7 (m_ld_r08_i08 I DE_H) Epilog, \<comment> \<open>0x16: ld d,n\<close>
     Op 1 4 (m_rla) Epilog, \<comment> \<open>0x17: rla\<close>
     Op 3 12 (m_jr_i08 I) Epilog, \<comment> \<open>0x18: jr d\<close>
     Op 3 11 (m_add_r16_r16 HL_W DE_W) Epilog, \<comment> \<open>0x19: add hl,de\<close>
     Op 2 7 (m_ld_r08_ind_r16 I AF_H DE_W) Epilog, \<comment> \<open>0x1a: ld a,(de)\<close>
     Op 1 6 (m_dec_r16 DE_W) Epilog, \<comment> \<open>0x1b: dec de\<close>
     Op 1 4 (m_inc_r08 DE_L) Epilog, \<comment> \<open>0x1c: inc e\<close>
     Op 1 4 (m_dec_r08 DE_L) Epilog, \<comment> \<open>0x1d: dec e\<close>
     Op 2 7 (m_ld_r08_i08 I DE_L) Epilog, \<comment> \<open>0x1e: ld e,n\<close>
     Op 1 4 (m_rra) Epilog]"

definition opcodes_base_2 :: "'b iface \<Rightarrow> 'b opcode list" where
  "opcodes_base_2 I = [
     Op 2 7 (m_jr_nz_i08 I) Epilog, \<comment> \<open>0x20: jr nz,d\<close>
     Op 2 10 (m_ld_r16_i16 I HL_W) Epilog, \<comment> \<open>0x21: ld hl,nn\<close>
     Op 5 16 (m_ld_ind_i16_r16 I HL_W) Epilog, \<comment> \<open>0x22: ld (nn),hl\<close>
     Op 1 6 (m_inc_r16 HL_W) Epilog, \<comment> \<open>0x23: inc hl\<close>
     Op 1 4 (m_inc_r08 HL_H) Epilog, \<comment> \<open>0x24: inc h\<close>
     Op 1 4 (m_dec_r08 HL_H) Epilog, \<comment> \<open>0x25: dec h\<close>
     Op 2 7 (m_ld_r08_i08 I HL_H) Epilog, \<comment> \<open>0x26: ld h,n\<close>
     Op 1 4 (m_daa) Epilog, \<comment> \<open>0x27: daa\<close>
     Op 2 7 (m_jr_z_i08 I) Epilog, \<comment> \<open>0x28: jr z,d\<close>
     Op 3 11 (m_add_r16_r16 HL_W HL_W) Epilog, \<comment> \<open>0x29: add hl,hl\<close>
     Op 5 16 (m_ld_r16_ind_i16 I HL_W) Epilog, \<comment> \<open>0x2a: ld hl,(nn)\<close>
     Op 1 6 (m_dec_r16 HL_W) Epilog, \<comment> \<open>0x2b: dec hl\<close>
     Op 1 4 (m_inc_r08 HL_L) Epilog, \<comment> \<open>0x2c: inc l\<close>
     Op 1 4 (m_dec_r08 HL_L) Epilog, \<comment> \<open>0x2d: dec l\<close>
     Op 2 7 (m_ld_r08_i08 I HL_L) Epilog, \<comment> \<open>0x2e: ld l,n\<close>
     Op 1 4 (m_cpl) Epilog]"

definition opcodes_base_3 :: "'b iface \<Rightarrow> 'b opcode list" where
  "opcodes_base_3 I = [
     Op 2 7 (m_jr_nc_i08 I) Epilog, \<comment> \<open>0x30: jr nc,d\<close>
     Op 2 10 (m_ld_r16_i16 I SP_W) Epilog, \<comment> \<open>0x31: ld sp,nn\<close>
     Op 4 13 (m_ld_ind_i16_r08 I AF_H) Epilog, \<comment> \<open>0x32: ld (nn),a\<close>
     Op 1 6 (m_inc_r16 SP_W) Epilog, \<comment> \<open>0x33: inc sp\<close>
     Op 3 11 (m_inc_ind_r16 I HL_W) Epilog, \<comment> \<open>0x34: inc (hl)\<close>
     Op 3 11 (m_dec_ind_r16 I HL_W) Epilog, \<comment> \<open>0x35: dec (hl)\<close>
     Op 3 10 (m_ld_ind_r16_i08 I HL_W) Epilog, \<comment> \<open>0x36: ld (hl),n\<close>
     Op 1 4 (m_scf) Epilog, \<comment> \<open>0x37: scf\<close>
     Op 2 7 (m_jr_c_i08 I) Epilog, \<comment> \<open>0x38: jr c,d\<close>
     Op 3 11 (m_add_r16_r16 HL_W SP_W) Epilog, \<comment> \<open>0x39: add hl,sp\<close>
     Op 4 13 (m_ld_r08_ind_i16 I AF_H) Epilog, \<comment> \<open>0x3a: ld a,(nn)\<close>
     Op 1 6 (m_dec_r16 SP_W) Epilog, \<comment> \<open>0x3b: dec sp\<close>
     Op 1 4 (m_inc_r08 AF_H) Epilog, \<comment> \<open>0x3c: inc a\<close>
     Op 1 4 (m_dec_r08 AF_H) Epilog, \<comment> \<open>0x3d: dec a\<close>
     Op 2 7 (m_ld_r08_i08 I AF_H) Epilog, \<comment> \<open>0x3e: ld a,n\<close>
     Op 1 4 (m_ccf) Epilog]"

definition opcodes_base_4 :: "'b iface \<Rightarrow> 'b opcode list" where
  "opcodes_base_4 I = [
     Op 1 4 (m_ld_r08_r08 BC_H BC_H) Epilog, \<comment> \<open>0x40: ld b,b\<close>
     Op 1 4 (m_ld_r08_r08 BC_H BC_L) Epilog, \<comment> \<open>0x41: ld b,c\<close>
     Op 1 4 (m_ld_r08_r08 BC_H DE_H) Epilog, \<comment> \<open>0x42: ld b,d\<close>
     Op 1 4 (m_ld_r08_r08 BC_H DE_L) Epilog, \<comment> \<open>0x43: ld b,e\<close>
     Op 1 4 (m_ld_r08_r08 BC_H HL_H) Epilog, \<comment> \<open>0x44: ld b,h\<close>
     Op 1 4 (m_ld_r08_r08 BC_H HL_L) Epilog, \<comment> \<open>0x45: ld b,l\<close>
     Op 2 7 (m_ld_r08_ind_r16 I BC_H HL_W) Epilog, \<comment> \<open>0x46: ld b,(hl)\<close>
     Op 1 4 (m_ld_r08_r08 BC_H AF_H) Epilog, \<comment> \<open>0x47: ld b,a\<close>
     Op 1 4 (m_ld_r08_r08 BC_L BC_H) Epilog, \<comment> \<open>0x48: ld c,b\<close>
     Op 1 4 (m_ld_r08_r08 BC_L BC_L) Epilog, \<comment> \<open>0x49: ld c,c\<close>
     Op 1 4 (m_ld_r08_r08 BC_L DE_H) Epilog, \<comment> \<open>0x4a: ld c,d\<close>
     Op 1 4 (m_ld_r08_r08 BC_L DE_L) Epilog, \<comment> \<open>0x4b: ld c,e\<close>
     Op 1 4 (m_ld_r08_r08 BC_L HL_H) Epilog, \<comment> \<open>0x4c: ld c,h\<close>
     Op 1 4 (m_ld_r08_r08 BC_L HL_L) Epilog, \<comment> \<open>0x4d: ld c,l\<close>
     Op 2 7 (m_ld_r08_ind_r16 I BC_L HL_W) Epilog, \<comment> \<open>0x4e: ld c,(hl)\<close>
     Op 1 4 (m_ld_r08_r08 BC_L AF_H) Epilog]"

definition opcodes_base_5 :: "'b iface \<Rightarrow> 'b opcode list" where
  "opcodes_base_5 I = [
     Op 1 4 (m_ld_r08_r08 DE_H BC_H) Epilog, \<comment> \<open>0x50: ld d,b\<close>
     Op 1 4 (m_ld_r08_r08 DE_H BC_L) Epilog, \<comment> \<open>0x51: ld d,c\<close>
     Op 1 4 (m_ld_r08_r08 DE_H DE_H) Epilog, \<comment> \<open>0x52: ld d,d\<close>
     Op 1 4 (m_ld_r08_r08 DE_H DE_L) Epilog, \<comment> \<open>0x53: ld d,e\<close>
     Op 1 4 (m_ld_r08_r08 DE_H HL_H) Epilog, \<comment> \<open>0x54: ld d,h\<close>
     Op 1 4 (m_ld_r08_r08 DE_H HL_L) Epilog, \<comment> \<open>0x55: ld d,l\<close>
     Op 2 7 (m_ld_r08_ind_r16 I DE_H HL_W) Epilog, \<comment> \<open>0x56: ld d,(hl)\<close>
     Op 1 4 (m_ld_r08_r08 DE_H AF_H) Epilog, \<comment> \<open>0x57: ld d,a\<close>
     Op 1 4 (m_ld_r08_r08 DE_L BC_H) Epilog, \<comment> \<open>0x58: ld e,b\<close>
     Op 1 4 (m_ld_r08_r08 DE_L BC_L) Epilog, \<comment> \<open>0x59: ld e,c\<close>
     Op 1 4 (m_ld_r08_r08 DE_L DE_H) Epilog, \<comment> \<open>0x5a: ld e,d\<close>
     Op 1 4 (m_ld_r08_r08 DE_L DE_L) Epilog, \<comment> \<open>0x5b: ld e,e\<close>
     Op 1 4 (m_ld_r08_r08 DE_L HL_H) Epilog, \<comment> \<open>0x5c: ld e,h\<close>
     Op 1 4 (m_ld_r08_r08 DE_L HL_L) Epilog, \<comment> \<open>0x5d: ld e,l\<close>
     Op 2 7 (m_ld_r08_ind_r16 I DE_L HL_W) Epilog, \<comment> \<open>0x5e: ld e,(hl)\<close>
     Op 1 4 (m_ld_r08_r08 DE_L AF_H) Epilog]"

definition opcodes_base_6 :: "'b iface \<Rightarrow> 'b opcode list" where
  "opcodes_base_6 I = [
     Op 1 4 (m_ld_r08_r08 HL_H BC_H) Epilog, \<comment> \<open>0x60: ld h,b\<close>
     Op 1 4 (m_ld_r08_r08 HL_H BC_L) Epilog, \<comment> \<open>0x61: ld h,c\<close>
     Op 1 4 (m_ld_r08_r08 HL_H DE_H) Epilog, \<comment> \<open>0x62: ld h,d\<close>
     Op 1 4 (m_ld_r08_r08 HL_H DE_L) Epilog, \<comment> \<open>0x63: ld h,e\<close>
     Op 1 4 (m_ld_r08_r08 HL_H HL_H) Epilog, \<comment> \<open>0x64: ld h,h\<close>
     Op 1 4 (m_ld_r08_r08 HL_H HL_L) Epilog, \<comment> \<open>0x65: ld h,l\<close>
     Op 2 7 (m_ld_r08_ind_r16 I HL_H HL_W) Epilog, \<comment> \<open>0x66: ld h,(hl)\<close>
     Op 1 4 (m_ld_r08_r08 HL_H AF_H) Epilog, \<comment> \<open>0x67: ld h,a\<close>
     Op 1 4 (m_ld_r08_r08 HL_L BC_H) Epilog, \<comment> \<open>0x68: ld l,b\<close>
     Op 1 4 (m_ld_r08_r08 HL_L BC_L) Epilog, \<comment> \<open>0x69: ld l,c\<close>
     Op 1 4 (m_ld_r08_r08 HL_L DE_H) Epilog, \<comment> \<open>0x6a: ld l,d\<close>
     Op 1 4 (m_ld_r08_r08 HL_L DE_L) Epilog, \<comment> \<open>0x6b: ld l,e\<close>
     Op 1 4 (m_ld_r08_r08 HL_L HL_H) Epilog, \<comment> \<open>0x6c: ld l,h\<close>
     Op 1 4 (m_ld_r08_r08 HL_L HL_L) Epilog, \<comment> \<open>0x6d: ld l,l\<close>
     Op 2 7 (m_ld_r08_ind_r16 I HL_L HL_W) Epilog, \<comment> \<open>0x6e: ld l,(hl)\<close>
     Op 1 4 (m_ld_r08_r08 HL_L AF_H) Epilog]"

definition opcodes_base_7 :: "'b iface \<Rightarrow> 'b opcode list" where
  "opcodes_base_7 I = [
     Op 2 7 (m_ld_ind_r16_r08 I HL_W BC_H) Epilog, \<comment> \<open>0x70: ld (hl),b\<close>
     Op 2 7 (m_ld_ind_r16_r08 I HL_W BC_L) Epilog, \<comment> \<open>0x71: ld (hl),c\<close>
     Op 2 7 (m_ld_ind_r16_r08 I HL_W DE_H) Epilog, \<comment> \<open>0x72: ld (hl),d\<close>
     Op 2 7 (m_ld_ind_r16_r08 I HL_W DE_L) Epilog, \<comment> \<open>0x73: ld (hl),e\<close>
     Op 2 7 (m_ld_ind_r16_r08 I HL_W HL_H) Epilog, \<comment> \<open>0x74: ld (hl),h\<close>
     Op 2 7 (m_ld_ind_r16_r08 I HL_W HL_L) Epilog, \<comment> \<open>0x75: ld (hl),l\<close>
     Op 1 4 (m_halt) Epilog, \<comment> \<open>0x76: halt\<close>
     Op 2 7 (m_ld_ind_r16_r08 I HL_W AF_H) Epilog, \<comment> \<open>0x77: ld (hl),a\<close>
     Op 1 4 (m_ld_r08_r08 AF_H BC_H) Epilog, \<comment> \<open>0x78: ld a,b\<close>
     Op 1 4 (m_ld_r08_r08 AF_H BC_L) Epilog, \<comment> \<open>0x79: ld a,c\<close>
     Op 1 4 (m_ld_r08_r08 AF_H DE_H) Epilog, \<comment> \<open>0x7a: ld a,d\<close>
     Op 1 4 (m_ld_r08_r08 AF_H DE_L) Epilog, \<comment> \<open>0x7b: ld a,e\<close>
     Op 1 4 (m_ld_r08_r08 AF_H HL_H) Epilog, \<comment> \<open>0x7c: ld a,h\<close>
     Op 1 4 (m_ld_r08_r08 AF_H HL_L) Epilog, \<comment> \<open>0x7d: ld a,l\<close>
     Op 2 7 (m_ld_r08_ind_r16 I AF_H HL_W) Epilog, \<comment> \<open>0x7e: ld a,(hl)\<close>
     Op 1 4 (m_ld_r08_r08 AF_H AF_H) Epilog]"

definition opcodes_base_8 :: "'b iface \<Rightarrow> 'b opcode list" where
  "opcodes_base_8 I = [
     Op 1 4 (m_add_r08_r08 AF_H BC_H) Epilog, \<comment> \<open>0x80: add a,b\<close>
     Op 1 4 (m_add_r08_r08 AF_H BC_L) Epilog, \<comment> \<open>0x81: add a,c\<close>
     Op 1 4 (m_add_r08_r08 AF_H DE_H) Epilog, \<comment> \<open>0x82: add a,d\<close>
     Op 1 4 (m_add_r08_r08 AF_H DE_L) Epilog, \<comment> \<open>0x83: add a,e\<close>
     Op 1 4 (m_add_r08_r08 AF_H HL_H) Epilog, \<comment> \<open>0x84: add a,h\<close>
     Op 1 4 (m_add_r08_r08 AF_H HL_L) Epilog, \<comment> \<open>0x85: add a,l\<close>
     Op 2 7 (m_add_r08_ind_r16 I AF_H HL_W) Epilog, \<comment> \<open>0x86: add a,(hl)\<close>
     Op 1 4 (m_add_r08_r08 AF_H AF_H) Epilog, \<comment> \<open>0x87: add a,a\<close>
     Op 1 4 (m_adc_r08_r08 AF_H BC_H) Epilog, \<comment> \<open>0x88: adc a,b\<close>
     Op 1 4 (m_adc_r08_r08 AF_H BC_L) Epilog, \<comment> \<open>0x89: adc a,c\<close>
     Op 1 4 (m_adc_r08_r08 AF_H DE_H) Epilog, \<comment> \<open>0x8a: adc a,d\<close>
     Op 1 4 (m_adc_r08_r08 AF_H DE_L) Epilog, \<comment> \<open>0x8b: adc a,e\<close>
     Op 1 4 (m_adc_r08_r08 AF_H HL_H) Epilog, \<comment> \<open>0x8c: adc a,h\<close>
     Op 1 4 (m_adc_r08_r08 AF_H HL_L) Epilog, \<comment> \<open>0x8d: adc a,l\<close>
     Op 2 7 (m_adc_r08_ind_r16 I AF_H HL_W) Epilog, \<comment> \<open>0x8e: adc a,(hl)\<close>
     Op 1 4 (m_adc_r08_r08 AF_H AF_H) Epilog]"

definition opcodes_base_9 :: "'b iface \<Rightarrow> 'b opcode list" where
  "opcodes_base_9 I = [
     Op 1 4 (m_sub_r08_r08 AF_H BC_H) Epilog, \<comment> \<open>0x90: sub a,b\<close>
     Op 1 4 (m_sub_r08_r08 AF_H BC_L) Epilog, \<comment> \<open>0x91: sub a,c\<close>
     Op 1 4 (m_sub_r08_r08 AF_H DE_H) Epilog, \<comment> \<open>0x92: sub a,d\<close>
     Op 1 4 (m_sub_r08_r08 AF_H DE_L) Epilog, \<comment> \<open>0x93: sub a,e\<close>
     Op 1 4 (m_sub_r08_r08 AF_H HL_H) Epilog, \<comment> \<open>0x94: sub a,h\<close>
     Op 1 4 (m_sub_r08_r08 AF_H HL_L) Epilog, \<comment> \<open>0x95: sub a,l\<close>
     Op 2 7 (m_sub_r08_ind_r16 I AF_H HL_W) Epilog, \<comment> \<open>0x96: sub a,(hl)\<close>
     Op 1 4 (m_sub_r08_r08 AF_H AF_H) Epilog, \<comment> \<open>0x97: sub a,a\<close>
     Op 1 4 (m_sbc_r08_r08 AF_H BC_H) Epilog, \<comment> \<open>0x98: sbc a,b\<close>
     Op 1 4 (m_sbc_r08_r08 AF_H BC_L) Epilog, \<comment> \<open>0x99: sbc a,c\<close>
     Op 1 4 (m_sbc_r08_r08 AF_H DE_H) Epilog, \<comment> \<open>0x9a: sbc a,d\<close>
     Op 1 4 (m_sbc_r08_r08 AF_H DE_L) Epilog, \<comment> \<open>0x9b: sbc a,e\<close>
     Op 1 4 (m_sbc_r08_r08 AF_H HL_H) Epilog, \<comment> \<open>0x9c: sbc a,h\<close>
     Op 1 4 (m_sbc_r08_r08 AF_H HL_L) Epilog, \<comment> \<open>0x9d: sbc a,l\<close>
     Op 2 7 (m_sbc_r08_ind_r16 I AF_H HL_W) Epilog, \<comment> \<open>0x9e: sbc a,(hl)\<close>
     Op 1 4 (m_sbc_r08_r08 AF_H AF_H) Epilog]"

definition opcodes_base_a :: "'b iface \<Rightarrow> 'b opcode list" where
  "opcodes_base_a I = [
     Op 1 4 (m_and_r08_r08 AF_H BC_H) Epilog, \<comment> \<open>0xa0: and a,b\<close>
     Op 1 4 (m_and_r08_r08 AF_H BC_L) Epilog, \<comment> \<open>0xa1: and a,c\<close>
     Op 1 4 (m_and_r08_r08 AF_H DE_H) Epilog, \<comment> \<open>0xa2: and a,d\<close>
     Op 1 4 (m_and_r08_r08 AF_H DE_L) Epilog, \<comment> \<open>0xa3: and a,e\<close>
     Op 1 4 (m_and_r08_r08 AF_H HL_H) Epilog, \<comment> \<open>0xa4: and a,h\<close>
     Op 1 4 (m_and_r08_r08 AF_H HL_L) Epilog, \<comment> \<open>0xa5: and a,l\<close>
     Op 2 7 (m_and_r08_ind_r16 I AF_H HL_W) Epilog, \<comment> \<open>0xa6: and a,(hl)\<close>
     Op 1 4 (m_and_r08_r08 AF_H AF_H) Epilog, \<comment> \<open>0xa7: and a,a\<close>
     Op 1 4 (m_xor_r08_r08 AF_H BC_H) Epilog, \<comment> \<open>0xa8: xor a,b\<close>
     Op 1 4 (m_xor_r08_r08 AF_H BC_L) Epilog, \<comment> \<open>0xa9: xor a,c\<close>
     Op 1 4 (m_xor_r08_r08 AF_H DE_H) Epilog, \<comment> \<open>0xaa: xor a,d\<close>
     Op 1 4 (m_xor_r08_r08 AF_H DE_L) Epilog, \<comment> \<open>0xab: xor a,e\<close>
     Op 1 4 (m_xor_r08_r08 AF_H HL_H) Epilog, \<comment> \<open>0xac: xor a,h\<close>
     Op 1 4 (m_xor_r08_r08 AF_H HL_L) Epilog, \<comment> \<open>0xad: xor a,l\<close>
     Op 2 7 (m_xor_r08_ind_r16 I AF_H HL_W) Epilog, \<comment> \<open>0xae: xor a,(hl)\<close>
     Op 1 4 (m_xor_r08_r08 AF_H AF_H) Epilog]"

definition opcodes_base_b :: "'b iface \<Rightarrow> 'b opcode list" where
  "opcodes_base_b I = [
     Op 1 4 (m_or_r08_r08 AF_H BC_H) Epilog, \<comment> \<open>0xb0: or a,b\<close>
     Op 1 4 (m_or_r08_r08 AF_H BC_L) Epilog, \<comment> \<open>0xb1: or a,c\<close>
     Op 1 4 (m_or_r08_r08 AF_H DE_H) Epilog, \<comment> \<open>0xb2: or a,d\<close>
     Op 1 4 (m_or_r08_r08 AF_H DE_L) Epilog, \<comment> \<open>0xb3: or a,e\<close>
     Op 1 4 (m_or_r08_r08 AF_H HL_H) Epilog, \<comment> \<open>0xb4: or a,h\<close>
     Op 1 4 (m_or_r08_r08 AF_H HL_L) Epilog, \<comment> \<open>0xb5: or a,l\<close>
     Op 2 7 (m_or_r08_ind_r16 I AF_H HL_W) Epilog, \<comment> \<open>0xb6: or a,(hl)\<close>
     Op 1 4 (m_or_r08_r08 AF_H AF_H) Epilog, \<comment> \<open>0xb7: or a,a\<close>
     Op 1 4 (m_cp_r08_r08 AF_H BC_H) Epilog, \<comment> \<open>0xb8: cp a,b\<close>
     Op 1 4 (m_cp_r08_r08 AF_H BC_L) Epilog, \<comment> \<open>0xb9: cp a,c\<close>
     Op 1 4 (m_cp_r08_r08 AF_H DE_H) Epilog, \<comment> \<open>0xba: cp a,d\<close>
     Op 1 4 (m_cp_r08_r08 AF_H DE_L) Epilog, \<comment> \<open>0xbb: cp a,e\<close>
     Op 1 4 (m_cp_r08_r08 AF_H HL_H) Epilog, \<comment> \<open>0xbc: cp a,h\<close>
     Op 1 4 (m_cp_r08_r08 AF_H HL_L) Epilog, \<comment> \<open>0xbd: cp a,l\<close>
     Op 2 7 (m_cp_r08_ind_r16 I AF_H HL_W) Epilog, \<comment> \<open>0xbe: cp a,(hl)\<close>
     Op 1 4 (m_cp_r08_r08 AF_H AF_H) Epilog]"

definition opcodes_base_c :: "'b iface \<Rightarrow> 'b opcode list" where
  "opcodes_base_c I = [
     Op 1 5 (m_ret_nz I) Epilog, \<comment> \<open>0xc0: ret nz\<close>
     Op 3 10 (m_pop_r16 I BC_W) Epilog, \<comment> \<open>0xc1: pop bc\<close>
     Op 3 10 (m_jp_nz_i16 I) Epilog, \<comment> \<open>0xc2: jp nz,nn\<close>
     Op 3 10 (m_jp_i16 I) Epilog, \<comment> \<open>0xc3: jp nn\<close>
     Op 3 10 (m_call_nz_i16 I) Epilog, \<comment> \<open>0xc4: call nz,nn\<close>
     Op 3 11 (m_push_r16 I BC_W) Epilog, \<comment> \<open>0xc5: push bc\<close>
     Op 2 7 (m_add_r08_i08 I AF_H) Epilog, \<comment> \<open>0xc6: add a,n\<close>
     Op 3 11 (m_rst_vec16 I VECTOR_00H) Epilog, \<comment> \<open>0xc7: rst $00\<close>
     Op 1 5 (m_ret_z I) Epilog, \<comment> \<open>0xc8: ret z\<close>
     Op 3 10 (m_ret I) Epilog, \<comment> \<open>0xc9: ret\<close>
     Op 3 10 (m_jp_z_i16 I) Epilog, \<comment> \<open>0xca: jp z,nn\<close>
     Op 1 4 (m_nop) Fetch_cb, \<comment> \<open>0xcb: prefix $cb\<close>
     Op 3 10 (m_call_z_i16 I) Epilog, \<comment> \<open>0xcc: call z,nn\<close>
     Op 5 17 (m_call_i16 I) Epilog, \<comment> \<open>0xcd: call nn\<close>
     Op 2 7 (m_adc_r08_i08 I AF_H) Epilog, \<comment> \<open>0xce: adc a,n\<close>
     Op 3 11 (m_rst_vec16 I VECTOR_08H) Epilog]"

definition opcodes_base_d :: "'b iface \<Rightarrow> 'b opcode list" where
  "opcodes_base_d I = [
     Op 1 5 (m_ret_nc I) Epilog, \<comment> \<open>0xd0: ret nc\<close>
     Op 3 10 (m_pop_r16 I DE_W) Epilog, \<comment> \<open>0xd1: pop de\<close>
     Op 3 10 (m_jp_nc_i16 I) Epilog, \<comment> \<open>0xd2: jp nc,nn\<close>
     Op 3 11 (m_out_ind_i08_r08 I AF_H) Epilog, \<comment> \<open>0xd3: out (n),a\<close>
     Op 3 10 (m_call_nc_i16 I) Epilog, \<comment> \<open>0xd4: call nc,nn\<close>
     Op 3 11 (m_push_r16 I DE_W) Epilog, \<comment> \<open>0xd5: push de\<close>
     Op 2 7 (m_sub_r08_i08 I AF_H) Epilog, \<comment> \<open>0xd6: sub a,n\<close>
     Op 3 11 (m_rst_vec16 I VECTOR_10H) Epilog, \<comment> \<open>0xd7: rst $10\<close>
     Op 1 5 (m_ret_c I) Epilog, \<comment> \<open>0xd8: ret c\<close>
     Op 1 4 (m_exx) Epilog, \<comment> \<open>0xd9: exx\<close>
     Op 3 10 (m_jp_c_i16 I) Epilog, \<comment> \<open>0xda: jp c,nn\<close>
     Op 3 11 (m_in_r08_ind_i08 I AF_H) Epilog, \<comment> \<open>0xdb: in a,(n)\<close>
     Op 3 10 (m_call_c_i16 I) Epilog, \<comment> \<open>0xdc: call c,nn\<close>
     Op 1 4 (m_nop) Fetch_dd, \<comment> \<open>0xdd: prefix $dd\<close>
     Op 2 7 (m_sbc_r08_i08 I AF_H) Epilog, \<comment> \<open>0xde: sbc a,n\<close>
     Op 3 11 (m_rst_vec16 I VECTOR_18H) Epilog]"

definition opcodes_base_e :: "'b iface \<Rightarrow> 'b opcode list" where
  "opcodes_base_e I = [
     Op 1 5 (m_ret_po I) Epilog, \<comment> \<open>0xe0: ret po\<close>
     Op 3 10 (m_pop_r16 I HL_W) Epilog, \<comment> \<open>0xe1: pop hl\<close>
     Op 3 10 (m_jp_po_i16 I) Epilog, \<comment> \<open>0xe2: jp po,nn\<close>
     Op 5 19 (m_ex_ind_r16_r16 I SP_W HL_W) Epilog, \<comment> \<open>0xe3: ex (sp),hl\<close>
     Op 3 10 (m_call_po_i16 I) Epilog, \<comment> \<open>0xe4: call po,nn\<close>
     Op 3 11 (m_push_r16 I HL_W) Epilog, \<comment> \<open>0xe5: push hl\<close>
     Op 2 7 (m_and_r08_i08 I AF_H) Epilog, \<comment> \<open>0xe6: and a,n\<close>
     Op 3 11 (m_rst_vec16 I VECTOR_20H) Epilog, \<comment> \<open>0xe7: rst $20\<close>
     Op 1 5 (m_ret_pe I) Epilog, \<comment> \<open>0xe8: ret pe\<close>
     Op 1 4 (m_jp_r16 HL_W) Epilog, \<comment> \<open>0xe9: jp hl\<close>
     Op 3 10 (m_jp_pe_i16 I) Epilog, \<comment> \<open>0xea: jp pe,nn\<close>
     Op 1 4 (m_ex_r16_r16 DE_W HL_W) Epilog, \<comment> \<open>0xeb: ex de,hl\<close>
     Op 3 10 (m_call_pe_i16 I) Epilog, \<comment> \<open>0xec: call pe,nn\<close>
     Op 1 4 (m_nop) Fetch_ed, \<comment> \<open>0xed: prefix $ed\<close>
     Op 2 7 (m_xor_r08_i08 I AF_H) Epilog, \<comment> \<open>0xee: xor a,n\<close>
     Op 3 11 (m_rst_vec16 I VECTOR_28H) Epilog]"

definition opcodes_base_f :: "'b iface \<Rightarrow> 'b opcode list" where
  "opcodes_base_f I = [
     Op 1 5 (m_ret_p I) Epilog, \<comment> \<open>0xf0: ret p\<close>
     Op 3 10 (m_pop_r16 I AF_W) Epilog, \<comment> \<open>0xf1: pop af\<close>
     Op 3 10 (m_jp_p_i16 I) Epilog, \<comment> \<open>0xf2: jp p,nn\<close>
     Op 1 4 (m_di) Epilog, \<comment> \<open>0xf3: di\<close>
     Op 3 10 (m_call_p_i16 I) Epilog, \<comment> \<open>0xf4: call p,nn\<close>
     Op 3 11 (m_push_r16 I AF_W) Epilog, \<comment> \<open>0xf5: push af\<close>
     Op 2 7 (m_or_r08_i08 I AF_H) Epilog, \<comment> \<open>0xf6: or a,n\<close>
     Op 3 11 (m_rst_vec16 I VECTOR_30H) Epilog, \<comment> \<open>0xf7: rst $30\<close>
     Op 1 5 (m_ret_m I) Epilog, \<comment> \<open>0xf8: ret m\<close>
     Op 1 6 (m_ld_r16_r16 SP_W HL_W) Epilog, \<comment> \<open>0xf9: ld sp,hl\<close>
     Op 3 10 (m_jp_m_i16 I) Epilog, \<comment> \<open>0xfa: jp m,nn\<close>
     Op 1 4 (m_ei) Epilog, \<comment> \<open>0xfb: ei\<close>
     Op 3 10 (m_call_m_i16 I) Epilog, \<comment> \<open>0xfc: call m,nn\<close>
     Op 1 4 (m_nop) Fetch_fd, \<comment> \<open>0xfd: prefix $fd\<close>
     Op 2 7 (m_cp_r08_i08 I AF_H) Epilog, \<comment> \<open>0xfe: cp a,n\<close>
     Op 3 11 (m_rst_vec16 I VECTOR_38H) Epilog]"

definition opcodes_base :: "'b iface \<Rightarrow> 'b opcode list" where
  "opcodes_base I = opcodes_base_0 I @ opcodes_base_1 I @ opcodes_base_2 I @ opcodes_base_3 I @
     opcodes_base_4 I @ opcodes_base_5 I @ opcodes_base_6 I @ opcodes_base_7 I @
     opcodes_base_8 I @ opcodes_base_9 I @ opcodes_base_a I @ opcodes_base_b I @
     opcodes_base_c I @ opcodes_base_d I @ opcodes_base_e I @ opcodes_base_f I"

lemmas opcodes_base_defs = opcodes_base_def
  opcodes_base_0_def opcodes_base_1_def opcodes_base_2_def opcodes_base_3_def
  opcodes_base_4_def opcodes_base_5_def opcodes_base_6_def opcodes_base_7_def
  opcodes_base_8_def opcodes_base_9_def opcodes_base_a_def opcodes_base_b_def
  opcodes_base_c_def opcodes_base_d_def opcodes_base_e_def opcodes_base_f_def

section \<open>The table \<^verbatim>\<open>cpu-opcodes-cb.inc\<close>\<close>

definition opcodes_cb_0 :: "'b iface \<Rightarrow> 'b opcode list" where
  "opcodes_cb_0 I = [
     Op (2 - 1) (8 - 4) (m_rlc_r08 BC_H) Epilog, \<comment> \<open>0x00: rlc b\<close>
     Op (2 - 1) (8 - 4) (m_rlc_r08 BC_L) Epilog, \<comment> \<open>0x01: rlc c\<close>
     Op (2 - 1) (8 - 4) (m_rlc_r08 DE_H) Epilog, \<comment> \<open>0x02: rlc d\<close>
     Op (2 - 1) (8 - 4) (m_rlc_r08 DE_L) Epilog, \<comment> \<open>0x03: rlc e\<close>
     Op (2 - 1) (8 - 4) (m_rlc_r08 HL_H) Epilog, \<comment> \<open>0x04: rlc h\<close>
     Op (2 - 1) (8 - 4) (m_rlc_r08 HL_L) Epilog, \<comment> \<open>0x05: rlc l\<close>
     Op (4 - 1) (15 - 4) (m_rlc_ind_r16 I HL_W) Epilog, \<comment> \<open>0x06: rlc (hl)\<close>
     Op (2 - 1) (8 - 4) (m_rlc_r08 AF_H) Epilog, \<comment> \<open>0x07: rlc a\<close>
     Op (2 - 1) (8 - 4) (m_rrc_r08 BC_H) Epilog, \<comment> \<open>0x08: rrc b\<close>
     Op (2 - 1) (8 - 4) (m_rrc_r08 BC_L) Epilog, \<comment> \<open>0x09: rrc c\<close>
     Op (2 - 1) (8 - 4) (m_rrc_r08 DE_H) Epilog, \<comment> \<open>0x0a: rrc d\<close>
     Op (2 - 1) (8 - 4) (m_rrc_r08 DE_L) Epilog, \<comment> \<open>0x0b: rrc e\<close>
     Op (2 - 1) (8 - 4) (m_rrc_r08 HL_H) Epilog, \<comment> \<open>0x0c: rrc h\<close>
     Op (2 - 1) (8 - 4) (m_rrc_r08 HL_L) Epilog, \<comment> \<open>0x0d: rrc l\<close>
     Op (4 - 1) (15 - 4) (m_rrc_ind_r16 I HL_W) Epilog, \<comment> \<open>0x0e: rrc (hl)\<close>
     Op (2 - 1) (8 - 4) (m_rrc_r08 AF_H) Epilog]"

definition opcodes_cb_1 :: "'b iface \<Rightarrow> 'b opcode list" where
  "opcodes_cb_1 I = [
     Op (2 - 1) (8 - 4) (m_rl_r08 BC_H) Epilog, \<comment> \<open>0x10: rl b\<close>
     Op (2 - 1) (8 - 4) (m_rl_r08 BC_L) Epilog, \<comment> \<open>0x11: rl c\<close>
     Op (2 - 1) (8 - 4) (m_rl_r08 DE_H) Epilog, \<comment> \<open>0x12: rl d\<close>
     Op (2 - 1) (8 - 4) (m_rl_r08 DE_L) Epilog, \<comment> \<open>0x13: rl e\<close>
     Op (2 - 1) (8 - 4) (m_rl_r08 HL_H) Epilog, \<comment> \<open>0x14: rl h\<close>
     Op (2 - 1) (8 - 4) (m_rl_r08 HL_L) Epilog, \<comment> \<open>0x15: rl l\<close>
     Op (4 - 1) (15 - 4) (m_rl_ind_r16 I HL_W) Epilog, \<comment> \<open>0x16: rl (hl)\<close>
     Op (2 - 1) (8 - 4) (m_rl_r08 AF_H) Epilog, \<comment> \<open>0x17: rl a\<close>
     Op (2 - 1) (8 - 4) (m_rr_r08 BC_H) Epilog, \<comment> \<open>0x18: rr b\<close>
     Op (2 - 1) (8 - 4) (m_rr_r08 BC_L) Epilog, \<comment> \<open>0x19: rr c\<close>
     Op (2 - 1) (8 - 4) (m_rr_r08 DE_H) Epilog, \<comment> \<open>0x1a: rr d\<close>
     Op (2 - 1) (8 - 4) (m_rr_r08 DE_L) Epilog, \<comment> \<open>0x1b: rr e\<close>
     Op (2 - 1) (8 - 4) (m_rr_r08 HL_H) Epilog, \<comment> \<open>0x1c: rr h\<close>
     Op (2 - 1) (8 - 4) (m_rr_r08 HL_L) Epilog, \<comment> \<open>0x1d: rr l\<close>
     Op (4 - 1) (15 - 4) (m_rr_ind_r16 I HL_W) Epilog, \<comment> \<open>0x1e: rr (hl)\<close>
     Op (2 - 1) (8 - 4) (m_rr_r08 AF_H) Epilog]"

definition opcodes_cb_2 :: "'b iface \<Rightarrow> 'b opcode list" where
  "opcodes_cb_2 I = [
     Op (2 - 1) (8 - 4) (m_sla_r08 BC_H) Epilog, \<comment> \<open>0x20: sla b\<close>
     Op (2 - 1) (8 - 4) (m_sla_r08 BC_L) Epilog, \<comment> \<open>0x21: sla c\<close>
     Op (2 - 1) (8 - 4) (m_sla_r08 DE_H) Epilog, \<comment> \<open>0x22: sla d\<close>
     Op (2 - 1) (8 - 4) (m_sla_r08 DE_L) Epilog, \<comment> \<open>0x23: sla e\<close>
     Op (2 - 1) (8 - 4) (m_sla_r08 HL_H) Epilog, \<comment> \<open>0x24: sla h\<close>
     Op (2 - 1) (8 - 4) (m_sla_r08 HL_L) Epilog, \<comment> \<open>0x25: sla l\<close>
     Op (4 - 1) (15 - 4) (m_sla_ind_r16 I HL_W) Epilog, \<comment> \<open>0x26: sla (hl)\<close>
     Op (2 - 1) (8 - 4) (m_sla_r08 AF_H) Epilog, \<comment> \<open>0x27: sla a\<close>
     Op (2 - 1) (8 - 4) (m_sra_r08 BC_H) Epilog, \<comment> \<open>0x28: sra b\<close>
     Op (2 - 1) (8 - 4) (m_sra_r08 BC_L) Epilog, \<comment> \<open>0x29: sra c\<close>
     Op (2 - 1) (8 - 4) (m_sra_r08 DE_H) Epilog, \<comment> \<open>0x2a: sra d\<close>
     Op (2 - 1) (8 - 4) (m_sra_r08 DE_L) Epilog, \<comment> \<open>0x2b: sra e\<close>
     Op (2 - 1) (8 - 4) (m_sra_r08 HL_H) Epilog, \<comment> \<open>0x2c: sra h\<close>
     Op (2 - 1) (8 - 4) (m_sra_r08 HL_L) Epilog, \<comment> \<open>0x2d: sra l\<close>
     Op (4 - 1) (15 - 4) (m_sra_ind_r16 I HL_W) Epilog, \<comment> \<open>0x2e: sra (hl)\<close>
     Op (2 - 1) (8 - 4) (m_sra_r08 AF_H) Epilog]"

definition opcodes_cb_3 :: "'b iface \<Rightarrow> 'b opcode list" where
  "opcodes_cb_3 I = [
     Op (2 - 1) (8 - 4) (m_sll_r08 BC_H) Epilog, \<comment> \<open>0x30: sll b\<close>
     Op (2 - 1) (8 - 4) (m_sll_r08 BC_L) Epilog, \<comment> \<open>0x31: sll c\<close>
     Op (2 - 1) (8 - 4) (m_sll_r08 DE_H) Epilog, \<comment> \<open>0x32: sll d\<close>
     Op (2 - 1) (8 - 4) (m_sll_r08 DE_L) Epilog, \<comment> \<open>0x33: sll e\<close>
     Op (2 - 1) (8 - 4) (m_sll_r08 HL_H) Epilog, \<comment> \<open>0x34: sll h\<close>
     Op (2 - 1) (8 - 4) (m_sll_r08 HL_L) Epilog, \<comment> \<open>0x35: sll l\<close>
     Op (4 - 1) (15 - 4) (m_sll_ind_r16 I HL_W) Epilog, \<comment> \<open>0x36: sll (hl)\<close>
     Op (2 - 1) (8 - 4) (m_sll_r08 AF_H) Epilog, \<comment> \<open>0x37: sll a\<close>
     Op (2 - 1) (8 - 4) (m_srl_r08 BC_H) Epilog, \<comment> \<open>0x38: srl b\<close>
     Op (2 - 1) (8 - 4) (m_srl_r08 BC_L) Epilog, \<comment> \<open>0x39: srl c\<close>
     Op (2 - 1) (8 - 4) (m_srl_r08 DE_H) Epilog, \<comment> \<open>0x3a: srl d\<close>
     Op (2 - 1) (8 - 4) (m_srl_r08 DE_L) Epilog, \<comment> \<open>0x3b: srl e\<close>
     Op (2 - 1) (8 - 4) (m_srl_r08 HL_H) Epilog, \<comment> \<open>0x3c: srl h\<close>
     Op (2 - 1) (8 - 4) (m_srl_r08 HL_L) Epilog, \<comment> \<open>0x3d: srl l\<close>
     Op (4 - 1) (15 - 4) (m_srl_ind_r16 I HL_W) Epilog, \<comment> \<open>0x3e: srl (hl)\<close>
     Op (2 - 1) (8 - 4) (m_srl_r08 AF_H) Epilog]"

definition opcodes_cb_4 :: "'b iface \<Rightarrow> 'b opcode list" where
  "opcodes_cb_4 I = [
     Op (2 - 1) (8 - 4) (m_bit_b_r08 BIT0 BC_H) Epilog, \<comment> \<open>0x40: bit 0,b\<close>
     Op (2 - 1) (8 - 4) (m_bit_b_r08 BIT0 BC_L) Epilog, \<comment> \<open>0x41: bit 0,c\<close>
     Op (2 - 1) (8 - 4) (m_bit_b_r08 BIT0 DE_H) Epilog, \<comment> \<open>0x42: bit 0,d\<close>
     Op (2 - 1) (8 - 4) (m_bit_b_r08 BIT0 DE_L) Epilog, \<comment> \<open>0x43: bit 0,e\<close>
     Op (2 - 1) (8 - 4) (m_bit_b_r08 BIT0 HL_H) Epilog, \<comment> \<open>0x44: bit 0,h\<close>
     Op (2 - 1) (8 - 4) (m_bit_b_r08 BIT0 HL_L) Epilog, \<comment> \<open>0x45: bit 0,l\<close>
     Op (3 - 1) (12 - 4) (m_bit_b_ind_r16 I BIT0 HL_W) Epilog, \<comment> \<open>0x46: bit 0,(hl)\<close>
     Op (2 - 1) (8 - 4) (m_bit_b_r08 BIT0 AF_H) Epilog, \<comment> \<open>0x47: bit 0,a\<close>
     Op (2 - 1) (8 - 4) (m_bit_b_r08 BIT1 BC_H) Epilog, \<comment> \<open>0x48: bit 1,b\<close>
     Op (2 - 1) (8 - 4) (m_bit_b_r08 BIT1 BC_L) Epilog, \<comment> \<open>0x49: bit 1,c\<close>
     Op (2 - 1) (8 - 4) (m_bit_b_r08 BIT1 DE_H) Epilog, \<comment> \<open>0x4a: bit 1,d\<close>
     Op (2 - 1) (8 - 4) (m_bit_b_r08 BIT1 DE_L) Epilog, \<comment> \<open>0x4b: bit 1,e\<close>
     Op (2 - 1) (8 - 4) (m_bit_b_r08 BIT1 HL_H) Epilog, \<comment> \<open>0x4c: bit 1,h\<close>
     Op (2 - 1) (8 - 4) (m_bit_b_r08 BIT1 HL_L) Epilog, \<comment> \<open>0x4d: bit 1,l\<close>
     Op (3 - 1) (12 - 4) (m_bit_b_ind_r16 I BIT1 HL_W) Epilog, \<comment> \<open>0x4e: bit 1,(hl)\<close>
     Op (2 - 1) (8 - 4) (m_bit_b_r08 BIT1 AF_H) Epilog]"

definition opcodes_cb_5 :: "'b iface \<Rightarrow> 'b opcode list" where
  "opcodes_cb_5 I = [
     Op (2 - 1) (8 - 4) (m_bit_b_r08 BIT2 BC_H) Epilog, \<comment> \<open>0x50: bit 2,b\<close>
     Op (2 - 1) (8 - 4) (m_bit_b_r08 BIT2 BC_L) Epilog, \<comment> \<open>0x51: bit 2,c\<close>
     Op (2 - 1) (8 - 4) (m_bit_b_r08 BIT2 DE_H) Epilog, \<comment> \<open>0x52: bit 2,d\<close>
     Op (2 - 1) (8 - 4) (m_bit_b_r08 BIT2 DE_L) Epilog, \<comment> \<open>0x53: bit 2,e\<close>
     Op (2 - 1) (8 - 4) (m_bit_b_r08 BIT2 HL_H) Epilog, \<comment> \<open>0x54: bit 2,h\<close>
     Op (2 - 1) (8 - 4) (m_bit_b_r08 BIT2 HL_L) Epilog, \<comment> \<open>0x55: bit 2,l\<close>
     Op (3 - 1) (12 - 4) (m_bit_b_ind_r16 I BIT2 HL_W) Epilog, \<comment> \<open>0x56: bit 2,(hl)\<close>
     Op (2 - 1) (8 - 4) (m_bit_b_r08 BIT2 AF_H) Epilog, \<comment> \<open>0x57: bit 2,a\<close>
     Op (2 - 1) (8 - 4) (m_bit_b_r08 BIT3 BC_H) Epilog, \<comment> \<open>0x58: bit 3,b\<close>
     Op (2 - 1) (8 - 4) (m_bit_b_r08 BIT3 BC_L) Epilog, \<comment> \<open>0x59: bit 3,c\<close>
     Op (2 - 1) (8 - 4) (m_bit_b_r08 BIT3 DE_H) Epilog, \<comment> \<open>0x5a: bit 3,d\<close>
     Op (2 - 1) (8 - 4) (m_bit_b_r08 BIT3 DE_L) Epilog, \<comment> \<open>0x5b: bit 3,e\<close>
     Op (2 - 1) (8 - 4) (m_bit_b_r08 BIT3 HL_H) Epilog, \<comment> \<open>0x5c: bit 3,h\<close>
     Op (2 - 1) (8 - 4) (m_bit_b_r08 BIT3 HL_L) Epilog, \<comment> \<open>0x5d: bit 3,l\<close>
     Op (3 - 1) (12 - 4) (m_bit_b_ind_r16 I BIT3 HL_W) Epilog, \<comment> \<open>0x5e: bit 3,(hl)\<close>
     Op (2 - 1) (8 - 4) (m_bit_b_r08 BIT3 AF_H) Epilog]"

definition opcodes_cb_6 :: "'b iface \<Rightarrow> 'b opcode list" where
  "opcodes_cb_6 I = [
     Op (2 - 1) (8 - 4) (m_bit_b_r08 BIT4 BC_H) Epilog, \<comment> \<open>0x60: bit 4,b\<close>
     Op (2 - 1) (8 - 4) (m_bit_b_r08 BIT4 BC_L) Epilog, \<comment> \<open>0x61: bit 4,c\<close>
     Op (2 - 1) (8 - 4) (m_bit_b_r08 BIT4 DE_H) Epilog, \<comment> \<open>0x62: bit 4,d\<close>
     Op (2 - 1) (8 - 4) (m_bit_b_r08 BIT4 DE_L) Epilog, \<comment> \<open>0x63: bit 4,e\<close>
     Op (2 - 1) (8 - 4) (m_bit_b_r08 BIT4 HL_H) Epilog, \<comment> \<open>0x64: bit 4,h\<close>
     Op (2 - 1) (8 - 4) (m_bit_b_r08 BIT4 HL_L) Epilog, \<comment> \<open>0x65: bit 4,l\<close>
     Op (3 - 1) (12 - 4) (m_bit_b_ind_r16 I BIT4 HL_W) Epilog, \<comment> \<open>0x66: bit 4,(hl)\<close>
     Op (2 - 1) (8 - 4) (m_bit_b_r08 BIT4 AF_H) Epilog, \<comment> \<open>0x67: bit 4,a\<close>
     Op (2 - 1) (8 - 4) (m_bit_b_r08 BIT5 BC_H) Epilog, \<comment> \<open>0x68: bit 5,b\<close>
     Op (2 - 1) (8 - 4) (m_bit_b_r08 BIT5 BC_L) Epilog, \<comment> \<open>0x69: bit 5,c\<close>
     Op (2 - 1) (8 - 4) (m_bit_b_r08 BIT5 DE_H) Epilog, \<comment> \<open>0x6a: bit 5,d\<close>
     Op (2 - 1) (8 - 4) (m_bit_b_r08 BIT5 DE_L) Epilog, \<comment> \<open>0x6b: bit 5,e\<close>
     Op (2 - 1) (8 - 4) (m_bit_b_r08 BIT5 HL_H) Epilog, \<comment> \<open>0x6c: bit 5,h\<close>
     Op (2 - 1) (8 - 4) (m_bit_b_r08 BIT5 HL_L) Epilog, \<comment> \<open>0x6d: bit 5,l\<close>
     Op (3 - 1) (12 - 4) (m_bit_b_ind_r16 I BIT5 HL_W) Epilog, \<comment> \<open>0x6e: bit 5,(hl)\<close>
     Op (2 - 1) (8 - 4) (m_bit_b_r08 BIT5 AF_H) Epilog]"

definition opcodes_cb_7 :: "'b iface \<Rightarrow> 'b opcode list" where
  "opcodes_cb_7 I = [
     Op (2 - 1) (8 - 4) (m_bit_b_r08 BIT6 BC_H) Epilog, \<comment> \<open>0x70: bit 6,b\<close>
     Op (2 - 1) (8 - 4) (m_bit_b_r08 BIT6 BC_L) Epilog, \<comment> \<open>0x71: bit 6,c\<close>
     Op (2 - 1) (8 - 4) (m_bit_b_r08 BIT6 DE_H) Epilog, \<comment> \<open>0x72: bit 6,d\<close>
     Op (2 - 1) (8 - 4) (m_bit_b_r08 BIT6 DE_L) Epilog, \<comment> \<open>0x73: bit 6,e\<close>
     Op (2 - 1) (8 - 4) (m_bit_b_r08 BIT6 HL_H) Epilog, \<comment> \<open>0x74: bit 6,h\<close>
     Op (2 - 1) (8 - 4) (m_bit_b_r08 BIT6 HL_L) Epilog, \<comment> \<open>0x75: bit 6,l\<close>
     Op (3 - 1) (12 - 4) (m_bit_b_ind_r16 I BIT6 HL_W) Epilog, \<comment> \<open>0x76: bit 6,(hl)\<close>
     Op (2 - 1) (8 - 4) (m_bit_b_r08 BIT6 AF_H) Epilog, \<comment> \<open>0x77: bit 6,a\<close>
     Op (2 - 1) (8 - 4) (m_bit_b_r08 BIT7 BC_H) Epilog, \<comment> \<open>0x78: bit 7,b\<close>
     Op (2 - 1) (8 - 4) (m_bit_b_r08 BIT7 BC_L) Epilog, \<comment> \<open>0x79: bit 7,c\<close>
     Op (2 - 1) (8 - 4) (m_bit_b_r08 BIT7 DE_H) Epilog, \<comment> \<open>0x7a: bit 7,d\<close>
     Op (2 - 1) (8 - 4) (m_bit_b_r08 BIT7 DE_L) Epilog, \<comment> \<open>0x7b: bit 7,e\<close>
     Op (2 - 1) (8 - 4) (m_bit_b_r08 BIT7 HL_H) Epilog, \<comment> \<open>0x7c: bit 7,h\<close>
     Op (2 - 1) (8 - 4) (m_bit_b_r08 BIT7 HL_L) Epilog, \<comment> \<open>0x7d: bit 7,l\<close>
     Op (3 - 1) (12 - 4) (m_bit_b_ind_r16 I BIT7 HL_W) Epilog, \<comment> \<open>0x7e: bit 7,(hl)\<close>
     Op (2 - 1) (8 - 4) (m_bit_b_r08 BIT7 AF_H) Epilog]"

definition opcodes_cb_8 :: "'b iface \<Rightarrow> 'b opcode list" where
  "opcodes_cb_8 I = [
     Op (2 - 1) (8 - 4) (m_res_b_r08 BIT0 BC_H) Epilog, \<comment> \<open>0x80: res 0,b\<close>
     Op (2 - 1) (8 - 4) (m_res_b_r08 BIT0 BC_L) Epilog, \<comment> \<open>0x81: res 0,c\<close>
     Op (2 - 1) (8 - 4) (m_res_b_r08 BIT0 DE_H) Epilog, \<comment> \<open>0x82: res 0,d\<close>
     Op (2 - 1) (8 - 4) (m_res_b_r08 BIT0 DE_L) Epilog, \<comment> \<open>0x83: res 0,e\<close>
     Op (2 - 1) (8 - 4) (m_res_b_r08 BIT0 HL_H) Epilog, \<comment> \<open>0x84: res 0,h\<close>
     Op (2 - 1) (8 - 4) (m_res_b_r08 BIT0 HL_L) Epilog, \<comment> \<open>0x85: res 0,l\<close>
     Op (4 - 1) (15 - 4) (m_res_b_ind_r16 I BIT0 HL_W) Epilog, \<comment> \<open>0x86: res 0,(hl)\<close>
     Op (2 - 1) (8 - 4) (m_res_b_r08 BIT0 AF_H) Epilog, \<comment> \<open>0x87: res 0,a\<close>
     Op (2 - 1) (8 - 4) (m_res_b_r08 BIT1 BC_H) Epilog, \<comment> \<open>0x88: res 1,b\<close>
     Op (2 - 1) (8 - 4) (m_res_b_r08 BIT1 BC_L) Epilog, \<comment> \<open>0x89: res 1,c\<close>
     Op (2 - 1) (8 - 4) (m_res_b_r08 BIT1 DE_H) Epilog, \<comment> \<open>0x8a: res 1,d\<close>
     Op (2 - 1) (8 - 4) (m_res_b_r08 BIT1 DE_L) Epilog, \<comment> \<open>0x8b: res 1,e\<close>
     Op (2 - 1) (8 - 4) (m_res_b_r08 BIT1 HL_H) Epilog, \<comment> \<open>0x8c: res 1,h\<close>
     Op (2 - 1) (8 - 4) (m_res_b_r08 BIT1 HL_L) Epilog, \<comment> \<open>0x8d: res 1,l\<close>
     Op (4 - 1) (15 - 4) (m_res_b_ind_r16 I BIT1 HL_W) Epilog, \<comment> \<open>0x8e: res 1,(hl)\<close>
     Op (2 - 1) (8 - 4) (m_res_b_r08 BIT1 AF_H) Epilog]"

definition opcodes_cb_9 :: "'b iface \<Rightarrow> 'b opcode list" where
  "opcodes_cb_9 I = [
     Op (2 - 1) (8 - 4) (m_res_b_r08 BIT2 BC_H) Epilog, \<comment> \<open>0x90: res 2,b\<close>
     Op (2 - 1) (8 - 4) (m_res_b_r08 BIT2 BC_L) Epilog, \<comment> \<open>0x91: res 2,c\<close>
     Op (2 - 1) (8 - 4) (m_res_b_r08 BIT2 DE_H) Epilog, \<comment> \<open>0x92: res 2,d\<close>
     Op (2 - 1) (8 - 4) (m_res_b_r08 BIT2 DE_L) Epilog, \<comment> \<open>0x93: res 2,e\<close>
     Op (2 - 1) (8 - 4) (m_res_b_r08 BIT2 HL_H) Epilog, \<comment> \<open>0x94: res 2,h\<close>
     Op (2 - 1) (8 - 4) (m_res_b_r08 BIT2 HL_L) Epilog, \<comment> \<open>0x95: res 2,l\<close>
     Op (4 - 1) (15 - 4) (m_res_b_ind_r16 I BIT2 HL_W) Epilog, \<comment> \<open>0x96: res 2,(hl)\<close>
     Op (2 - 1) (8 - 4) (m_res_b_r08 BIT2 AF_H) Epilog, \<comment> \<open>0x97: res 2,a\<close>
     Op (2 - 1) (8 - 4) (m_res_b_r08 BIT3 BC_H) Epilog, \<comment> \<open>0x98: res 3,b\<close>
     Op (2 - 1) (8 - 4) (m_res_b_r08 BIT3 BC_L) Epilog, \<comment> \<open>0x99: res 3,c\<close>
     Op (2 - 1) (8 - 4) (m_res_b_r08 BIT3 DE_H) Epilog, \<comment> \<open>0x9a: res 3,d\<close>
     Op (2 - 1) (8 - 4) (m_res_b_r08 BIT3 DE_L) Epilog, \<comment> \<open>0x9b: res 3,e\<close>
     Op (2 - 1) (8 - 4) (m_res_b_r08 BIT3 HL_H) Epilog, \<comment> \<open>0x9c: res 3,h\<close>
     Op (2 - 1) (8 - 4) (m_res_b_r08 BIT3 HL_L) Epilog, \<comment> \<open>0x9d: res 3,l\<close>
     Op (4 - 1) (15 - 4) (m_res_b_ind_r16 I BIT3 HL_W) Epilog, \<comment> \<open>0x9e: res 3,(hl)\<close>
     Op (2 - 1) (8 - 4) (m_res_b_r08 BIT3 AF_H) Epilog]"

definition opcodes_cb_a :: "'b iface \<Rightarrow> 'b opcode list" where
  "opcodes_cb_a I = [
     Op (2 - 1) (8 - 4) (m_res_b_r08 BIT4 BC_H) Epilog, \<comment> \<open>0xa0: res 4,b\<close>
     Op (2 - 1) (8 - 4) (m_res_b_r08 BIT4 BC_L) Epilog, \<comment> \<open>0xa1: res 4,c\<close>
     Op (2 - 1) (8 - 4) (m_res_b_r08 BIT4 DE_H) Epilog, \<comment> \<open>0xa2: res 4,d\<close>
     Op (2 - 1) (8 - 4) (m_res_b_r08 BIT4 DE_L) Epilog, \<comment> \<open>0xa3: res 4,e\<close>
     Op (2 - 1) (8 - 4) (m_res_b_r08 BIT4 HL_H) Epilog, \<comment> \<open>0xa4: res 4,h\<close>
     Op (2 - 1) (8 - 4) (m_res_b_r08 BIT4 HL_L) Epilog, \<comment> \<open>0xa5: res 4,l\<close>
     Op (4 - 1) (15 - 4) (m_res_b_ind_r16 I BIT4 HL_W) Epilog, \<comment> \<open>0xa6: res 4,(hl)\<close>
     Op (2 - 1) (8 - 4) (m_res_b_r08 BIT4 AF_H) Epilog, \<comment> \<open>0xa7: res 4,a\<close>
     Op (2 - 1) (8 - 4) (m_res_b_r08 BIT5 BC_H) Epilog, \<comment> \<open>0xa8: res 5,b\<close>
     Op (2 - 1) (8 - 4) (m_res_b_r08 BIT5 BC_L) Epilog, \<comment> \<open>0xa9: res 5,c\<close>
     Op (2 - 1) (8 - 4) (m_res_b_r08 BIT5 DE_H) Epilog, \<comment> \<open>0xaa: res 5,d\<close>
     Op (2 - 1) (8 - 4) (m_res_b_r08 BIT5 DE_L) Epilog, \<comment> \<open>0xab: res 5,e\<close>
     Op (2 - 1) (8 - 4) (m_res_b_r08 BIT5 HL_H) Epilog, \<comment> \<open>0xac: res 5,h\<close>
     Op (2 - 1) (8 - 4) (m_res_b_r08 BIT5 HL_L) Epilog, \<comment> \<open>0xad: res 5,l\<close>
     Op (4 - 1) (15 - 4) (m_res_b_ind_r16 I BIT5 HL_W) Epilog, \<comment> \<open>0xae: res 5,(hl)\<close>
     Op (2 - 1) (8 - 4) (m_res_b_r08 BIT5 AF_H) Epilog]"

definition opcodes_cb_b :: "'b iface \<Rightarrow> 'b opcode list" where
  "opcodes_cb_b I = [
     Op (2 - 1) (8 - 4) (m_res_b_r08 BIT6 BC_H) Epilog, \<comment> \<open>0xb0: res 6,b\<close>
     Op (2 - 1) (8 - 4) (m_res_b_r08 BIT6 BC_L) Epilog, \<comment> \<open>0xb1: res 6,c\<close>
     Op (2 - 1) (8 - 4) (m_res_b_r08 BIT6 DE_H) Epilog, \<comment> \<open>0xb2: res 6,d\<close>
     Op (2 - 1) (8 - 4) (m_res_b_r08 BIT6 DE_L) Epilog, \<comment> \<open>0xb3: res 6,e\<close>
     Op (2 - 1) (8 - 4) (m_res_b_r08 BIT6 HL_H) Epilog, \<comment> \<open>0xb4: res 6,h\<close>
     Op (2 - 1) (8 - 4) (m_res_b_r08 BIT6 HL_L) Epilog, \<comment> \<open>0xb5: res 6,l\<close>
     Op (4 - 1) (15 - 4) (m_res_b_ind_r16 I BIT6 HL_W) Epilog, \<comment> \<open>0xb6: res 6,(hl)\<close>
     Op (2 - 1) (8 - 4) (m_res_b_r08 BIT6 AF_H) Epilog, \<comment> \<open>0xb7: res 6,a\<close>
     Op (2 - 1) (8 - 4) (m_res_b_r08 BIT7 BC_H) Epilog, \<comment> \<open>0xb8: res 7,b\<close>
     Op (2 - 1) (8 - 4) (m_res_b_r08 BIT7 BC_L) Epilog, \<comment> \<open>0xb9: res 7,c\<close>
     Op (2 - 1) (8 - 4) (m_res_b_r08 BIT7 DE_H) Epilog, \<comment> \<open>0xba: res 7,d\<close>
     Op (2 - 1) (8 - 4) (m_res_b_r08 BIT7 DE_L) Epilog, \<comment> \<open>0xbb: res 7,e\<close>
     Op (2 - 1) (8 - 4) (m_res_b_r08 BIT7 HL_H) Epilog, \<comment> \<open>0xbc: res 7,h\<close>
     Op (2 - 1) (8 - 4) (m_res_b_r08 BIT7 HL_L) Epilog, \<comment> \<open>0xbd: res 7,l\<close>
     Op (4 - 1) (15 - 4) (m_res_b_ind_r16 I BIT7 HL_W) Epilog, \<comment> \<open>0xbe: res 7,(hl)\<close>
     Op (2 - 1) (8 - 4) (m_res_b_r08 BIT7 AF_H) Epilog]"

definition opcodes_cb_c :: "'b iface \<Rightarrow> 'b opcode list" where
  "opcodes_cb_c I = [
     Op (2 - 1) (8 - 4) (m_set_b_r08 BIT0 BC_H) Epilog, \<comment> \<open>0xc0: set 0,b\<close>
     Op (2 - 1) (8 - 4) (m_set_b_r08 BIT0 BC_L) Epilog, \<comment> \<open>0xc1: set 0,c\<close>
     Op (2 - 1) (8 - 4) (m_set_b_r08 BIT0 DE_H) Epilog, \<comment> \<open>0xc2: set 0,d\<close>
     Op (2 - 1) (8 - 4) (m_set_b_r08 BIT0 DE_L) Epilog, \<comment> \<open>0xc3: set 0,e\<close>
     Op (2 - 1) (8 - 4) (m_set_b_r08 BIT0 HL_H) Epilog, \<comment> \<open>0xc4: set 0,h\<close>
     Op (2 - 1) (8 - 4) (m_set_b_r08 BIT0 HL_L) Epilog, \<comment> \<open>0xc5: set 0,l\<close>
     Op (4 - 1) (15 - 4) (m_set_b_ind_r16 I BIT0 HL_W) Epilog, \<comment> \<open>0xc6: set 0,(hl)\<close>
     Op (2 - 1) (8 - 4) (m_set_b_r08 BIT0 AF_H) Epilog, \<comment> \<open>0xc7: set 0,a\<close>
     Op (2 - 1) (8 - 4) (m_set_b_r08 BIT1 BC_H) Epilog, \<comment> \<open>0xc8: set 1,b\<close>
     Op (2 - 1) (8 - 4) (m_set_b_r08 BIT1 BC_L) Epilog, \<comment> \<open>0xc9: set 1,c\<close>
     Op (2 - 1) (8 - 4) (m_set_b_r08 BIT1 DE_H) Epilog, \<comment> \<open>0xca: set 1,d\<close>
     Op (2 - 1) (8 - 4) (m_set_b_r08 BIT1 DE_L) Epilog, \<comment> \<open>0xcb: set 1,e\<close>
     Op (2 - 1) (8 - 4) (m_set_b_r08 BIT1 HL_H) Epilog, \<comment> \<open>0xcc: set 1,h\<close>
     Op (2 - 1) (8 - 4) (m_set_b_r08 BIT1 HL_L) Epilog, \<comment> \<open>0xcd: set 1,l\<close>
     Op (4 - 1) (15 - 4) (m_set_b_ind_r16 I BIT1 HL_W) Epilog, \<comment> \<open>0xce: set 1,(hl)\<close>
     Op (2 - 1) (8 - 4) (m_set_b_r08 BIT1 AF_H) Epilog]"

definition opcodes_cb_d :: "'b iface \<Rightarrow> 'b opcode list" where
  "opcodes_cb_d I = [
     Op (2 - 1) (8 - 4) (m_set_b_r08 BIT2 BC_H) Epilog, \<comment> \<open>0xd0: set 2,b\<close>
     Op (2 - 1) (8 - 4) (m_set_b_r08 BIT2 BC_L) Epilog, \<comment> \<open>0xd1: set 2,c\<close>
     Op (2 - 1) (8 - 4) (m_set_b_r08 BIT2 DE_H) Epilog, \<comment> \<open>0xd2: set 2,d\<close>
     Op (2 - 1) (8 - 4) (m_set_b_r08 BIT2 DE_L) Epilog, \<comment> \<open>0xd3: set 2,e\<close>
     Op (2 - 1) (8 - 4) (m_set_b_r08 BIT2 HL_H) Epilog, \<comment> \<open>0xd4: set 2,h\<close>
     Op (2 - 1) (8 - 4) (m_set_b_r08 BIT2 HL_L) Epilog, \<comment> \<open>0xd5: set 2,l\<close>
     Op (4 - 1) (15 - 4) (m_set_b_ind_r16 I BIT2 HL_W) Epilog, \<comment> \<open>0xd6: set 2,(hl)\<close>
     Op (2 - 1) (8 - 4) (m_set_b_r08 BIT2 AF_H) Epilog, \<comment> \<open>0xd7: set 2,a\<close>
     Op (2 - 1) (8 - 4) (m_set_b_r08 BIT3 BC_H) Epilog, \<comment> \<open>0xd8: set 3,b\<close>
     Op (2 - 1) (8 - 4) (m_set_b_r08 BIT3 BC_L) Epilog, \<comment> \<open>0xd9: set 3,c\<close>
     Op (2 - 1) (8 - 4) (m_set_b_r08 BIT3 DE_H) Epilog, \<comment> \<open>0xda: set 3,d\<close>
     Op (2 - 1) (8 - 4) (m_set_b_r08 BIT3 DE_L) Epilog, \<comment> \<open>0xdb: set 3,e\<close>
     Op (2 - 1) (8 - 4) (m_set_b_r08 BIT3 HL_H) Epilog, \<comment> \<open>0xdc: set 3,h\<close>
     Op (2 - 1) (8 - 4) (m_set_b_r08 BIT3 HL_L) Epilog, \<comment> \<open>0xdd: set 3,l\<close>
     Op (4 - 1) (15 - 4) (m_set_b_ind_r16 I BIT3 HL_W) Epilog, \<comment> \<open>0xde: set 3,(hl)\<close>
     Op (2 - 1) (8 - 4) (m_set_b_r08 BIT3 AF_H) Epilog]"

definition opcodes_cb_e :: "'b iface \<Rightarrow> 'b opcode list" where
  "opcodes_cb_e I = [
     Op (2 - 1) (8 - 4) (m_set_b_r08 BIT4 BC_H) Epilog, \<comment> \<open>0xe0: set 4,b\<close>
     Op (2 - 1) (8 - 4) (m_set_b_r08 BIT4 BC_L) Epilog, \<comment> \<open>0xe1: set 4,c\<close>
     Op (2 - 1) (8 - 4) (m_set_b_r08 BIT4 DE_H) Epilog, \<comment> \<open>0xe2: set 4,d\<close>
     Op (2 - 1) (8 - 4) (m_set_b_r08 BIT4 DE_L) Epilog, \<comment> \<open>0xe3: set 4,e\<close>
     Op (2 - 1) (8 - 4) (m_set_b_r08 BIT4 HL_H) Epilog, \<comment> \<open>0xe4: set 4,h\<close>
     Op (2 - 1) (8 - 4) (m_set_b_r08 BIT4 HL_L) Epilog, \<comment> \<open>0xe5: set 4,l\<close>
     Op (4 - 1) (15 - 4) (m_set_b_ind_r16 I BIT4 HL_W) Epilog, \<comment> \<open>0xe6: set 4,(hl)\<close>
     Op (2 - 1) (8 - 4) (m_set_b_r08 BIT4 AF_H) Epilog, \<comment> \<open>0xe7: set 4,a\<close>
     Op (2 - 1) (8 - 4) (m_set_b_r08 BIT5 BC_H) Epilog, \<comment> \<open>0xe8: set 5,b\<close>
     Op (2 - 1) (8 - 4) (m_set_b_r08 BIT5 BC_L) Epilog, \<comment> \<open>0xe9: set 5,c\<close>
     Op (2 - 1) (8 - 4) (m_set_b_r08 BIT5 DE_H) Epilog, \<comment> \<open>0xea: set 5,d\<close>
     Op (2 - 1) (8 - 4) (m_set_b_r08 BIT5 DE_L) Epilog, \<comment> \<open>0xeb: set 5,e\<close>
     Op (2 - 1) (8 - 4) (m_set_b_r08 BIT5 HL_H) Epilog, \<comment> \<open>0xec: set 5,h\<close>
     Op (2 - 1) (8 - 4) (m_set_b_r08 BIT5 HL_L) Epilog, \<comment> \<open>0xed: set 5,l\<close>
     Op (4 - 1) (15 - 4) (m_set_b_ind_r16 I BIT5 HL_W) Epilog, \<comment> \<open>0xee: set 5,(hl)\<close>
     Op (2 - 1) (8 - 4) (m_set_b_r08 BIT5 AF_H) Epilog]"

definition opcodes_cb_f :: "'b iface \<Rightarrow> 'b opcode list" where
  "opcodes_cb_f I = [
     Op (2 - 1) (8 - 4) (m_set_b_r08 BIT6 BC_H) Epilog, \<comment> \<open>0xf0: set 6,b\<close>
     Op (2 - 1) (8 - 4) (m_set_b_r08 BIT6 BC_L) Epilog, \<comment> \<open>0xf1: set 6,c\<close>
     Op (2 - 1) (8 - 4) (m_set_b_r08 BIT6 DE_H) Epilog, \<comment> \<open>0xf2: set 6,d\<close>
     Op (2 - 1) (8 - 4) (m_set_b_r08 BIT6 DE_L) Epilog, \<comment> \<open>0xf3: set 6,e\<close>
     Op (2 - 1) (8 - 4) (m_set_b_r08 BIT6 HL_H) Epilog, \<comment> \<open>0xf4: set 6,h\<close>
     Op (2 - 1) (8 - 4) (m_set_b_r08 BIT6 HL_L) Epilog, \<comment> \<open>0xf5: set 6,l\<close>
     Op (4 - 1) (15 - 4) (m_set_b_ind_r16 I BIT6 HL_W) Epilog, \<comment> \<open>0xf6: set 6,(hl)\<close>
     Op (2 - 1) (8 - 4) (m_set_b_r08 BIT6 AF_H) Epilog, \<comment> \<open>0xf7: set 6,a\<close>
     Op (2 - 1) (8 - 4) (m_set_b_r08 BIT7 BC_H) Epilog, \<comment> \<open>0xf8: set 7,b\<close>
     Op (2 - 1) (8 - 4) (m_set_b_r08 BIT7 BC_L) Epilog, \<comment> \<open>0xf9: set 7,c\<close>
     Op (2 - 1) (8 - 4) (m_set_b_r08 BIT7 DE_H) Epilog, \<comment> \<open>0xfa: set 7,d\<close>
     Op (2 - 1) (8 - 4) (m_set_b_r08 BIT7 DE_L) Epilog, \<comment> \<open>0xfb: set 7,e\<close>
     Op (2 - 1) (8 - 4) (m_set_b_r08 BIT7 HL_H) Epilog, \<comment> \<open>0xfc: set 7,h\<close>
     Op (2 - 1) (8 - 4) (m_set_b_r08 BIT7 HL_L) Epilog, \<comment> \<open>0xfd: set 7,l\<close>
     Op (4 - 1) (15 - 4) (m_set_b_ind_r16 I BIT7 HL_W) Epilog, \<comment> \<open>0xfe: set 7,(hl)\<close>
     Op (2 - 1) (8 - 4) (m_set_b_r08 BIT7 AF_H) Epilog]"

definition opcodes_cb :: "'b iface \<Rightarrow> 'b opcode list" where
  "opcodes_cb I = opcodes_cb_0 I @ opcodes_cb_1 I @ opcodes_cb_2 I @ opcodes_cb_3 I @
     opcodes_cb_4 I @ opcodes_cb_5 I @ opcodes_cb_6 I @ opcodes_cb_7 I @
     opcodes_cb_8 I @ opcodes_cb_9 I @ opcodes_cb_a I @ opcodes_cb_b I @
     opcodes_cb_c I @ opcodes_cb_d I @ opcodes_cb_e I @ opcodes_cb_f I"

lemmas opcodes_cb_defs = opcodes_cb_def
  opcodes_cb_0_def opcodes_cb_1_def opcodes_cb_2_def opcodes_cb_3_def
  opcodes_cb_4_def opcodes_cb_5_def opcodes_cb_6_def opcodes_cb_7_def
  opcodes_cb_8_def opcodes_cb_9_def opcodes_cb_a_def opcodes_cb_b_def
  opcodes_cb_c_def opcodes_cb_d_def opcodes_cb_e_def opcodes_cb_f_def

section \<open>The table \<^verbatim>\<open>cpu-opcodes-ed.inc\<close>\<close>

definition opcodes_ed_0 :: "'b iface \<Rightarrow> 'b opcode list" where
  "opcodes_ed_0 I = [
     Op (2 - 1) (8 - 4) (m_illegal_ed) Epilog, \<comment> \<open>0x00: illegal\<close>
     Op (2 - 1) (8 - 4) (m_illegal_ed) Epilog, \<comment> \<open>0x01: illegal\<close>
     Op (2 - 1) (8 - 4) (m_illegal_ed) Epilog, \<comment> \<open>0x02: illegal\<close>
     Op (2 - 1) (8 - 4) (m_illegal_ed) Epilog, \<comment> \<open>0x03: illegal\<close>
     Op (2 - 1) (8 - 4) (m_illegal_ed) Epilog, \<comment> \<open>0x04: illegal\<close>
     Op (2 - 1) (8 - 4) (m_illegal_ed) Epilog, \<comment> \<open>0x05: illegal\<close>
     Op (2 - 1) (8 - 4) (m_illegal_ed) Epilog, \<comment> \<open>0x06: illegal\<close>
     Op (2 - 1) (8 - 4) (m_illegal_ed) Epilog, \<comment> \<open>0x07: illegal\<close>
     Op (2 - 1) (8 - 4) (m_illegal_ed) Epilog, \<comment> \<open>0x08: illegal\<close>
     Op (2 - 1) (8 - 4) (m_illegal_ed) Epilog, \<comment> \<open>0x09: illegal\<close>
     Op (2 - 1) (8 - 4) (m_illegal_ed) Epilog, \<comment> \<open>0x0a: illegal\<close>
     Op (2 - 1) (8 - 4) (m_illegal_ed) Epilog, \<comment> \<open>0x0b: illegal\<close>
     Op (2 - 1) (8 - 4) (m_illegal_ed) Epilog, \<comment> \<open>0x0c: illegal\<close>
     Op (2 - 1) (8 - 4) (m_illegal_ed) Epilog, \<comment> \<open>0x0d: illegal\<close>
     Op (2 - 1) (8 - 4) (m_illegal_ed) Epilog, \<comment> \<open>0x0e: illegal\<close>
     Op (2 - 1) (8 - 4) (m_illegal_ed) Epilog]"

definition opcodes_ed_1 :: "'b iface \<Rightarrow> 'b opcode list" where
  "opcodes_ed_1 I = [
     Op (2 - 1) (8 - 4) (m_illegal_ed) Epilog, \<comment> \<open>0x10: illegal\<close>
     Op (2 - 1) (8 - 4) (m_illegal_ed) Epilog, \<comment> \<open>0x11: illegal\<close>
     Op (2 - 1) (8 - 4) (m_illegal_ed) Epilog, \<comment> \<open>0x12: illegal\<close>
     Op (2 - 1) (8 - 4) (m_illegal_ed) Epilog, \<comment> \<open>0x13: illegal\<close>
     Op (2 - 1) (8 - 4) (m_illegal_ed) Epilog, \<comment> \<open>0x14: illegal\<close>
     Op (2 - 1) (8 - 4) (m_illegal_ed) Epilog, \<comment> \<open>0x15: illegal\<close>
     Op (2 - 1) (8 - 4) (m_illegal_ed) Epilog, \<comment> \<open>0x16: illegal\<close>
     Op (2 - 1) (8 - 4) (m_illegal_ed) Epilog, \<comment> \<open>0x17: illegal\<close>
     Op (2 - 1) (8 - 4) (m_illegal_ed) Epilog, \<comment> \<open>0x18: illegal\<close>
     Op (2 - 1) (8 - 4) (m_illegal_ed) Epilog, \<comment> \<open>0x19: illegal\<close>
     Op (2 - 1) (8 - 4) (m_illegal_ed) Epilog, \<comment> \<open>0x1a: illegal\<close>
     Op (2 - 1) (8 - 4) (m_illegal_ed) Epilog, \<comment> \<open>0x1b: illegal\<close>
     Op (2 - 1) (8 - 4) (m_illegal_ed) Epilog, \<comment> \<open>0x1c: illegal\<close>
     Op (2 - 1) (8 - 4) (m_illegal_ed) Epilog, \<comment> \<open>0x1d: illegal\<close>
     Op (2 - 1) (8 - 4) (m_illegal_ed) Epilog, \<comment> \<open>0x1e: illegal\<close>
     Op (2 - 1) (8 - 4) (m_illegal_ed) Epilog]"

definition opcodes_ed_2 :: "'b iface \<Rightarrow> 'b opcode list" where
  "opcodes_ed_2 I = [
     Op (2 - 1) (8 - 4) (m_illegal_ed) Epilog, \<comment> \<open>0x20: illegal\<close>
     Op (2 - 1) (8 - 4) (m_illegal_ed) Epilog, \<comment> \<open>0x21: illegal\<close>
     Op (2 - 1) (8 - 4) (m_illegal_ed) Epilog, \<comment> \<open>0x22: illegal\<close>
     Op (2 - 1) (8 - 4) (m_illegal_ed) Epilog, \<comment> \<open>0x23: illegal\<close>
     Op (2 - 1) (8 - 4) (m_illegal_ed) Epilog, \<comment> \<open>0x24: illegal\<close>
     Op (2 - 1) (8 - 4) (m_illegal_ed) Epilog, \<comment> \<open>0x25: illegal\<close>
     Op (2 - 1) (8 - 4) (m_illegal_ed) Epilog, \<comment> \<open>0x26: illegal\<close>
     Op (2 - 1) (8 - 4) (m_illegal_ed) Epilog, \<comment> \<open>0x27: illegal\<close>
     Op (2 - 1) (8 - 4) (m_illegal_ed) Epilog, \<comment> \<open>0x28: illegal\<close>
     Op (2 - 1) (8 - 4) (m_illegal_ed) Epilog, \<comment> \<open>0x29: illegal\<close>
     Op (2 - 1) (8 - 4) (m_illegal_ed) Epilog, \<comment> \<open>0x2a: illegal\<close>
     Op (2 - 1) (8 - 4) (m_illegal_ed) Epilog, \<comment> \<open>0x2b: illegal\<close>
     Op (2 - 1) (8 - 4) (m_illegal_ed) Epilog, \<comment> \<open>0x2c: illegal\<close>
     Op (2 - 1) (8 - 4) (m_illegal_ed) Epilog, \<comment> \<open>0x2d: illegal\<close>
     Op (2 - 1) (8 - 4) (m_illegal_ed) Epilog, \<comment> \<open>0x2e: illegal\<close>
     Op (2 - 1) (8 - 4) (m_illegal_ed) Epilog]"

definition opcodes_ed_3 :: "'b iface \<Rightarrow> 'b opcode list" where
  "opcodes_ed_3 I = [
     Op (2 - 1) (8 - 4) (m_illegal_ed) Epilog, \<comment> \<open>0x30: illegal\<close>
     Op (2 - 1) (8 - 4) (m_illegal_ed) Epilog, \<comment> \<open>0x31: illegal\<close>
     Op (2 - 1) (8 - 4) (m_illegal_ed) Epilog, \<comment> \<open>0x32: illegal\<close>
     Op (2 - 1) (8 - 4) (m_illegal_ed) Epilog, \<comment> \<open>0x33: illegal\<close>
     Op (2 - 1) (8 - 4) (m_illegal_ed) Epilog, \<comment> \<open>0x34: illegal\<close>
     Op (2 - 1) (8 - 4) (m_illegal_ed) Epilog, \<comment> \<open>0x35: illegal\<close>
     Op (2 - 1) (8 - 4) (m_illegal_ed) Epilog, \<comment> \<open>0x36: illegal\<close>
     Op (2 - 1) (8 - 4) (m_illegal_ed) Epilog, \<comment> \<open>0x37: illegal\<close>
     Op (2 - 1) (8 - 4) (m_illegal_ed) Epilog, \<comment> \<open>0x38: illegal\<close>
     Op (2 - 1) (8 - 4) (m_illegal_ed) Epilog, \<comment> \<open>0x39: illegal\<close>
     Op (2 - 1) (8 - 4) (m_illegal_ed) Epilog, \<comment> \<open>0x3a: illegal\<close>
     Op (2 - 1) (8 - 4) (m_illegal_ed) Epilog, \<comment> \<open>0x3b: illegal\<close>
     Op (2 - 1) (8 - 4) (m_illegal_ed) Epilog, \<comment> \<open>0x3c: illegal\<close>
     Op (2 - 1) (8 - 4) (m_illegal_ed) Epilog, \<comment> \<open>0x3d: illegal\<close>
     Op (2 - 1) (8 - 4) (m_illegal_ed) Epilog, \<comment> \<open>0x3e: illegal\<close>
     Op (2 - 1) (8 - 4) (m_illegal_ed) Epilog]"

definition opcodes_ed_4 :: "'b iface \<Rightarrow> 'b opcode list" where
  "opcodes_ed_4 I = [
     Op (3 - 1) (12 - 4) (m_in_r08_ind_r08 I BC_H BC_L) Epilog, \<comment> \<open>0x40: in b,(c)\<close>
     Op (3 - 1) (12 - 4) (m_out_ind_r08_r08 I BC_L BC_H) Epilog, \<comment> \<open>0x41: out (c),b\<close>
     Op (4 - 1) (15 - 4) (m_sbc_r16_r16 HL_W BC_W) Epilog, \<comment> \<open>0x42: sbc hl,bc\<close>
     Op (6 - 1) (20 - 4) (m_ld_ind_i16_r16 I BC_W) Epilog, \<comment> \<open>0x43: ld (nn),bc\<close>
     Op (2 - 1) (8 - 4) (m_neg) Epilog, \<comment> \<open>0x44: neg\<close>
     Op (4 - 1) (14 - 4) (m_retn I) Epilog, \<comment> \<open>0x45: retn\<close>
     Op (2 - 1) (8 - 4) (m_im_0) Epilog, \<comment> \<open>0x46: im 0\<close>
     Op (2 - 1) (9 - 4) (m_ld_i_a) Epilog, \<comment> \<open>0x47: ld i,a\<close>
     Op (3 - 1) (12 - 4) (m_in_r08_ind_r08 I BC_L BC_L) Epilog, \<comment> \<open>0x48: in c,(c)\<close>
     Op (3 - 1) (12 - 4) (m_out_ind_r08_r08 I BC_L BC_L) Epilog, \<comment> \<open>0x49: out (c),c\<close>
     Op (4 - 1) (15 - 4) (m_adc_r16_r16 HL_W BC_W) Epilog, \<comment> \<open>0x4a: adc hl,bc\<close>
     Op (6 - 1) (20 - 4) (m_ld_r16_ind_i16 I BC_W) Epilog, \<comment> \<open>0x4b: ld bc,(nn)\<close>
     Op (2 - 1) (8 - 4) (m_neg) Epilog, \<comment> \<open>0x4c: neg\<close>
     Op (4 - 1) (14 - 4) (m_reti I) Epilog, \<comment> \<open>0x4d: reti\<close>
     Op (2 - 1) (8 - 4) (m_im_3) Epilog, \<comment> \<open>0x4e: im 0/1\<close>
     Op (2 - 1) (9 - 4) (m_ld_r_a) Epilog]"

definition opcodes_ed_5 :: "'b iface \<Rightarrow> 'b opcode list" where
  "opcodes_ed_5 I = [
     Op (3 - 1) (12 - 4) (m_in_r08_ind_r08 I DE_H BC_L) Epilog, \<comment> \<open>0x50: in d,(c)\<close>
     Op (3 - 1) (12 - 4) (m_out_ind_r08_r08 I BC_L DE_H) Epilog, \<comment> \<open>0x51: out (c),d\<close>
     Op (4 - 1) (15 - 4) (m_sbc_r16_r16 HL_W DE_W) Epilog, \<comment> \<open>0x52: sbc hl,de\<close>
     Op (6 - 1) (20 - 4) (m_ld_ind_i16_r16 I DE_W) Epilog, \<comment> \<open>0x53: ld (nn),de\<close>
     Op (2 - 1) (8 - 4) (m_neg) Epilog, \<comment> \<open>0x54: neg\<close>
     Op (4 - 1) (14 - 4) (m_retn I) Epilog, \<comment> \<open>0x55: retn\<close>
     Op (2 - 1) (8 - 4) (m_im_1) Epilog, \<comment> \<open>0x56: im 1\<close>
     Op (2 - 1) (9 - 4) (m_ld_a_i) Epilog, \<comment> \<open>0x57: ld a,i\<close>
     Op (3 - 1) (12 - 4) (m_in_r08_ind_r08 I DE_L BC_L) Epilog, \<comment> \<open>0x58: in e,(c)\<close>
     Op (3 - 1) (12 - 4) (m_out_ind_r08_r08 I BC_L DE_L) Epilog, \<comment> \<open>0x59: out (c),e\<close>
     Op (4 - 1) (15 - 4) (m_adc_r16_r16 HL_W DE_W) Epilog, \<comment> \<open>0x5a: adc hl,de\<close>
     Op (6 - 1) (20 - 4) (m_ld_r16_ind_i16 I DE_W) Epilog, \<comment> \<open>0x5b: ld de,(nn)\<close>
     Op (2 - 1) (8 - 4) (m_neg) Epilog, \<comment> \<open>0x5c: neg\<close>
     Op (4 - 1) (14 - 4) (m_reti I) Epilog, \<comment> \<open>0x5d: reti\<close>
     Op (2 - 1) (8 - 4) (m_im_2) Epilog, \<comment> \<open>0x5e: im 2\<close>
     Op (2 - 1) (9 - 4) (m_ld_a_r) Epilog]"

definition opcodes_ed_6 :: "'b iface \<Rightarrow> 'b opcode list" where
  "opcodes_ed_6 I = [
     Op (3 - 1) (12 - 4) (m_in_r08_ind_r08 I HL_H BC_L) Epilog, \<comment> \<open>0x60: in h,(c)\<close>
     Op (3 - 1) (12 - 4) (m_out_ind_r08_r08 I BC_L HL_H) Epilog, \<comment> \<open>0x61: out (c),h\<close>
     Op (4 - 1) (15 - 4) (m_sbc_r16_r16 HL_W HL_W) Epilog, \<comment> \<open>0x62: sbc hl,hl\<close>
     Op (6 - 1) (20 - 4) (m_ld_ind_i16_r16 I HL_W) Epilog, \<comment> \<open>0x63: ld (nn),hl\<close>
     Op (2 - 1) (8 - 4) (m_neg) Epilog, \<comment> \<open>0x64: neg\<close>
     Op (4 - 1) (14 - 4) (m_retn I) Epilog, \<comment> \<open>0x65: retn\<close>
     Op (2 - 1) (8 - 4) (m_im_0) Epilog, \<comment> \<open>0x66: im 0\<close>
     Op (5 - 1) (18 - 4) (m_rrd I) Epilog, \<comment> \<open>0x67: rrd\<close>
     Op (3 - 1) (12 - 4) (m_in_r08_ind_r08 I HL_L BC_L) Epilog, \<comment> \<open>0x68: in l,(c)\<close>
     Op (3 - 1) (12 - 4) (m_out_ind_r08_r08 I BC_L HL_L) Epilog, \<comment> \<open>0x69: out (c),l\<close>
     Op (4 - 1) (15 - 4) (m_adc_r16_r16 HL_W HL_W) Epilog, \<comment> \<open>0x6a: adc hl,hl\<close>
     Op (6 - 1) (20 - 4) (m_ld_r16_ind_i16 I HL_W) Epilog, \<comment> \<open>0x6b: ld hl,(nn)\<close>
     Op (2 - 1) (8 - 4) (m_neg) Epilog, \<comment> \<open>0x6c: neg\<close>
     Op (4 - 1) (14 - 4) (m_reti I) Epilog, \<comment> \<open>0x6d: reti\<close>
     Op (2 - 1) (8 - 4) (m_im_3) Epilog, \<comment> \<open>0x6e: im 0/1\<close>
     Op (5 - 1) (18 - 4) (m_rld I) Epilog]"

definition opcodes_ed_7 :: "'b iface \<Rightarrow> 'b opcode list" where
  "opcodes_ed_7 I = [
     Op (3 - 1) (12 - 4) (m_in_r08_ind_r08 I AF_L BC_L) Epilog, \<comment> \<open>0x70: in f,(c)\<close>
     Op (3 - 1) (12 - 4) (m_out_ind_r08_r08 I BC_L AF_L) Epilog, \<comment> \<open>0x71: out (c),f\<close>
     Op (4 - 1) (15 - 4) (m_sbc_r16_r16 HL_W SP_W) Epilog, \<comment> \<open>0x72: sbc hl,sp\<close>
     Op (6 - 1) (20 - 4) (m_ld_ind_i16_r16 I SP_W) Epilog, \<comment> \<open>0x73: ld (nn),sp\<close>
     Op (2 - 1) (8 - 4) (m_neg) Epilog, \<comment> \<open>0x74: neg\<close>
     Op (4 - 1) (14 - 4) (m_retn I) Epilog, \<comment> \<open>0x75: retn\<close>
     Op (2 - 1) (8 - 4) (m_im_1) Epilog, \<comment> \<open>0x76: im 1\<close>
     Op (2 - 1) (8 - 4) (m_nop) Epilog, \<comment> \<open>0x77: nop\<close>
     Op (3 - 1) (12 - 4) (m_in_r08_ind_r08 I AF_H BC_L) Epilog, \<comment> \<open>0x78: in a,(c)\<close>
     Op (3 - 1) (12 - 4) (m_out_ind_r08_r08 I BC_L AF_H) Epilog, \<comment> \<open>0x79: out (c),a\<close>
     Op (4 - 1) (15 - 4) (m_adc_r16_r16 HL_W SP_W) Epilog, \<comment> \<open>0x7a: adc hl,sp\<close>
     Op (6 - 1) (20 - 4) (m_ld_r16_ind_i16 I SP_W) Epilog, \<comment> \<open>0x7b: ld sp,(nn)\<close>
     Op (2 - 1) (8 - 4) (m_neg) Epilog, \<comment> \<open>0x7c: neg\<close>
     Op (4 - 1) (14 - 4) (m_reti I) Epilog, \<comment> \<open>0x7d: reti\<close>
     Op (2 - 1) (8 - 4) (m_im_2) Epilog, \<comment> \<open>0x7e: im 2\<close>
     Op (2 - 1) (8 - 4) (m_nop) Epilog]"

definition opcodes_ed_8 :: "'b iface \<Rightarrow> 'b opcode list" where
  "opcodes_ed_8 I = [
     Op (2 - 1) (8 - 4) (m_illegal_ed) Epilog, \<comment> \<open>0x80: illegal\<close>
     Op (2 - 1) (8 - 4) (m_illegal_ed) Epilog, \<comment> \<open>0x81: illegal\<close>
     Op (2 - 1) (8 - 4) (m_illegal_ed) Epilog, \<comment> \<open>0x82: illegal\<close>
     Op (2 - 1) (8 - 4) (m_illegal_ed) Epilog, \<comment> \<open>0x83: illegal\<close>
     Op (2 - 1) (8 - 4) (m_illegal_ed) Epilog, \<comment> \<open>0x84: illegal\<close>
     Op (2 - 1) (8 - 4) (m_illegal_ed) Epilog, \<comment> \<open>0x85: illegal\<close>
     Op (2 - 1) (8 - 4) (m_illegal_ed) Epilog, \<comment> \<open>0x86: illegal\<close>
     Op (2 - 1) (8 - 4) (m_illegal_ed) Epilog, \<comment> \<open>0x87: illegal\<close>
     Op (2 - 1) (8 - 4) (m_illegal_ed) Epilog, \<comment> \<open>0x88: illegal\<close>
     Op (2 - 1) (8 - 4) (m_illegal_ed) Epilog, \<comment> \<open>0x89: illegal\<close>
     Op (2 - 1) (8 - 4) (m_illegal_ed) Epilog, \<comment> \<open>0x8a: illegal\<close>
     Op (2 - 1) (8 - 4) (m_illegal_ed) Epilog, \<comment> \<open>0x8b: illegal\<close>
     Op (2 - 1) (8 - 4) (m_illegal_ed) Epilog, \<comment> \<open>0x8c: illegal\<close>
     Op (2 - 1) (8 - 4) (m_illegal_ed) Epilog, \<comment> \<open>0x8d: illegal\<close>
     Op (2 - 1) (8 - 4) (m_illegal_ed) Epilog, \<comment> \<open>0x8e: illegal\<close>
     Op (2 - 1) (8 - 4) (m_illegal_ed) Epilog]"

definition opcodes_ed_9 :: "'b iface \<Rightarrow> 'b opcode list" where
  "opcodes_ed_9 I = [
     Op (2 - 1) (8 - 4) (m_illegal_ed) Epilog, \<comment> \<open>0x90: illegal\<close>
     Op (2 - 1) (8 - 4) (m_illegal_ed) Epilog, \<comment> \<open>0x91: illegal\<close>
     Op (2 - 1) (8 - 4) (m_illegal_ed) Epilog, \<comment> \<open>0x92: illegal\<close>
     Op (2 - 1) (8 - 4) (m_illegal_ed) Epilog, \<comment> \<open>0x93: illegal\<close>
     Op (2 - 1) (8 - 4) (m_illegal_ed) Epilog, \<comment> \<open>0x94: illegal\<close>
     Op (2 - 1) (8 - 4) (m_illegal_ed) Epilog, \<comment> \<open>0x95: illegal\<close>
     Op (2 - 1) (8 - 4) (m_illegal_ed) Epilog, \<comment> \<open>0x96: illegal\<close>
     Op (2 - 1) (8 - 4) (m_illegal_ed) Epilog, \<comment> \<open>0x97: illegal\<close>
     Op (2 - 1) (8 - 4) (m_illegal_ed) Epilog, \<comment> \<open>0x98: illegal\<close>
     Op (2 - 1) (8 - 4) (m_illegal_ed) Epilog, \<comment> \<open>0x99: illegal\<close>
     Op (2 - 1) (8 - 4) (m_illegal_ed) Epilog, \<comment> \<open>0x9a: illegal\<close>
     Op (2 - 1) (8 - 4) (m_illegal_ed) Epilog, \<comment> \<open>0x9b: illegal\<close>
     Op (2 - 1) (8 - 4) (m_illegal_ed) Epilog, \<comment> \<open>0x9c: illegal\<close>
     Op (2 - 1) (8 - 4) (m_illegal_ed) Epilog, \<comment> \<open>0x9d: illegal\<close>
     Op (2 - 1) (8 - 4) (m_illegal_ed) Epilog, \<comment> \<open>0x9e: illegal\<close>
     Op (2 - 1) (8 - 4) (m_illegal_ed) Epilog]"

definition opcodes_ed_a :: "'b iface \<Rightarrow> 'b opcode list" where
  "opcodes_ed_a I = [
     Op (4 - 1) (16 - 4) (m_ldi I) Epilog, \<comment> \<open>0xa0: ldi\<close>
     Op (4 - 1) (16 - 4) (m_cpi I) Epilog, \<comment> \<open>0xa1: cpi\<close>
     Op (4 - 1) (16 - 4) (m_ini I) Epilog, \<comment> \<open>0xa2: ini\<close>
     Op (4 - 1) (16 - 4) (m_outi I) Epilog, \<comment> \<open>0xa3: outi\<close>
     Op (2 - 1) (8 - 4) (m_illegal_ed) Epilog, \<comment> \<open>0xa4: illegal\<close>
     Op (2 - 1) (8 - 4) (m_illegal_ed) Epilog, \<comment> \<open>0xa5: illegal\<close>
     Op (2 - 1) (8 - 4) (m_illegal_ed) Epilog, \<comment> \<open>0xa6: illegal\<close>
     Op (2 - 1) (8 - 4) (m_illegal_ed) Epilog, \<comment> \<open>0xa7: illegal\<close>
     Op (4 - 1) (16 - 4) (m_ldd I) Epilog, \<comment> \<open>0xa8: ldd\<close>
     Op (4 - 1) (16 - 4) (m_cpd I) Epilog, \<comment> \<open>0xa9: cpd\<close>
     Op (4 - 1) (16 - 4) (m_ind I) Epilog, \<comment> \<open>0xaa: ind\<close>
     Op (4 - 1) (16 - 4) (m_outd I) Epilog, \<comment> \<open>0xab: outd\<close>
     Op (2 - 1) (8 - 4) (m_illegal_ed) Epilog, \<comment> \<open>0xac: illegal\<close>
     Op (2 - 1) (8 - 4) (m_illegal_ed) Epilog, \<comment> \<open>0xad: illegal\<close>
     Op (2 - 1) (8 - 4) (m_illegal_ed) Epilog, \<comment> \<open>0xae: illegal\<close>
     Op (2 - 1) (8 - 4) (m_illegal_ed) Epilog]"

definition opcodes_ed_b :: "'b iface \<Rightarrow> 'b opcode list" where
  "opcodes_ed_b I = [
     Op (4 - 1) (16 - 4) (m_ldir I) Epilog, \<comment> \<open>0xb0: ldir\<close>
     Op (4 - 1) (16 - 4) (m_cpir I) Epilog, \<comment> \<open>0xb1: cpir\<close>
     Op (4 - 1) (16 - 4) (m_inir I) Epilog, \<comment> \<open>0xb2: inir\<close>
     Op (4 - 1) (16 - 4) (m_otir I) Epilog, \<comment> \<open>0xb3: otir\<close>
     Op (2 - 1) (8 - 4) (m_illegal_ed) Epilog, \<comment> \<open>0xb4: illegal\<close>
     Op (2 - 1) (8 - 4) (m_illegal_ed) Epilog, \<comment> \<open>0xb5: illegal\<close>
     Op (2 - 1) (8 - 4) (m_illegal_ed) Epilog, \<comment> \<open>0xb6: illegal\<close>
     Op (2 - 1) (8 - 4) (m_illegal_ed) Epilog, \<comment> \<open>0xb7: illegal\<close>
     Op (4 - 1) (16 - 4) (m_lddr I) Epilog, \<comment> \<open>0xb8: lddr\<close>
     Op (4 - 1) (16 - 4) (m_cpdr I) Epilog, \<comment> \<open>0xb9: cpdr\<close>
     Op (4 - 1) (16 - 4) (m_indr I) Epilog, \<comment> \<open>0xba: indr\<close>
     Op (4 - 1) (16 - 4) (m_otdr I) Epilog, \<comment> \<open>0xbb: otdr\<close>
     Op (2 - 1) (8 - 4) (m_illegal_ed) Epilog, \<comment> \<open>0xbc: illegal\<close>
     Op (2 - 1) (8 - 4) (m_illegal_ed) Epilog, \<comment> \<open>0xbd: illegal\<close>
     Op (2 - 1) (8 - 4) (m_illegal_ed) Epilog, \<comment> \<open>0xbe: illegal\<close>
     Op (2 - 1) (8 - 4) (m_illegal_ed) Epilog]"

definition opcodes_ed_c :: "'b iface \<Rightarrow> 'b opcode list" where
  "opcodes_ed_c I = [
     Op (2 - 1) (8 - 4) (m_illegal_ed) Epilog, \<comment> \<open>0xc0: illegal\<close>
     Op (2 - 1) (8 - 4) (m_illegal_ed) Epilog, \<comment> \<open>0xc1: illegal\<close>
     Op (2 - 1) (8 - 4) (m_illegal_ed) Epilog, \<comment> \<open>0xc2: illegal\<close>
     Op (2 - 1) (8 - 4) (m_illegal_ed) Epilog, \<comment> \<open>0xc3: illegal\<close>
     Op (2 - 1) (8 - 4) (m_illegal_ed) Epilog, \<comment> \<open>0xc4: illegal\<close>
     Op (2 - 1) (8 - 4) (m_illegal_ed) Epilog, \<comment> \<open>0xc5: illegal\<close>
     Op (2 - 1) (8 - 4) (m_illegal_ed) Epilog, \<comment> \<open>0xc6: illegal\<close>
     Op (2 - 1) (8 - 4) (m_illegal_ed) Epilog, \<comment> \<open>0xc7: illegal\<close>
     Op (2 - 1) (8 - 4) (m_illegal_ed) Epilog, \<comment> \<open>0xc8: illegal\<close>
     Op (2 - 1) (8 - 4) (m_illegal_ed) Epilog, \<comment> \<open>0xc9: illegal\<close>
     Op (2 - 1) (8 - 4) (m_illegal_ed) Epilog, \<comment> \<open>0xca: illegal\<close>
     Op (2 - 1) (8 - 4) (m_illegal_ed) Epilog, \<comment> \<open>0xcb: illegal\<close>
     Op (2 - 1) (8 - 4) (m_illegal_ed) Epilog, \<comment> \<open>0xcc: illegal\<close>
     Op (2 - 1) (8 - 4) (m_illegal_ed) Epilog, \<comment> \<open>0xcd: illegal\<close>
     Op (2 - 1) (8 - 4) (m_illegal_ed) Epilog, \<comment> \<open>0xce: illegal\<close>
     Op (2 - 1) (8 - 4) (m_illegal_ed) Epilog]"

definition opcodes_ed_d :: "'b iface \<Rightarrow> 'b opcode list" where
  "opcodes_ed_d I = [
     Op (2 - 1) (8 - 4) (m_illegal_ed) Epilog, \<comment> \<open>0xd0: illegal\<close>
     Op (2 - 1) (8 - 4) (m_illegal_ed) Epilog, \<comment> \<open>0xd1: illegal\<close>
     Op (2 - 1) (8 - 4) (m_illegal_ed) Epilog, \<comment> \<open>0xd2: illegal\<close>
     Op (2 - 1) (8 - 4) (m_illegal_ed) Epilog, \<comment> \<open>0xd3: illegal\<close>
     Op (2 - 1) (8 - 4) (m_illegal_ed) Epilog, \<comment> \<open>0xd4: illegal\<close>
     Op (2 - 1) (8 - 4) (m_illegal_ed) Epilog, \<comment> \<open>0xd5: illegal\<close>
     Op (2 - 1) (8 - 4) (m_illegal_ed) Epilog, \<comment> \<open>0xd6: illegal\<close>
     Op (2 - 1) (8 - 4) (m_illegal_ed) Epilog, \<comment> \<open>0xd7: illegal\<close>
     Op (2 - 1) (8 - 4) (m_illegal_ed) Epilog, \<comment> \<open>0xd8: illegal\<close>
     Op (2 - 1) (8 - 4) (m_illegal_ed) Epilog, \<comment> \<open>0xd9: illegal\<close>
     Op (2 - 1) (8 - 4) (m_illegal_ed) Epilog, \<comment> \<open>0xda: illegal\<close>
     Op (2 - 1) (8 - 4) (m_illegal_ed) Epilog, \<comment> \<open>0xdb: illegal\<close>
     Op (2 - 1) (8 - 4) (m_illegal_ed) Epilog, \<comment> \<open>0xdc: illegal\<close>
     Op (2 - 1) (8 - 4) (m_illegal_ed) Epilog, \<comment> \<open>0xdd: illegal\<close>
     Op (2 - 1) (8 - 4) (m_illegal_ed) Epilog, \<comment> \<open>0xde: illegal\<close>
     Op (2 - 1) (8 - 4) (m_illegal_ed) Epilog]"

definition opcodes_ed_e :: "'b iface \<Rightarrow> 'b opcode list" where
  "opcodes_ed_e I = [
     Op (2 - 1) (8 - 4) (m_illegal_ed) Epilog, \<comment> \<open>0xe0: illegal\<close>
     Op (2 - 1) (8 - 4) (m_illegal_ed) Epilog, \<comment> \<open>0xe1: illegal\<close>
     Op (2 - 1) (8 - 4) (m_illegal_ed) Epilog, \<comment> \<open>0xe2: illegal\<close>
     Op (2 - 1) (8 - 4) (m_illegal_ed) Epilog, \<comment> \<open>0xe3: illegal\<close>
     Op (2 - 1) (8 - 4) (m_illegal_ed) Epilog, \<comment> \<open>0xe4: illegal\<close>
     Op (2 - 1) (8 - 4) (m_illegal_ed) Epilog, \<comment> \<open>0xe5: illegal\<close>
     Op (2 - 1) (8 - 4) (m_illegal_ed) Epilog, \<comment> \<open>0xe6: illegal\<close>
     Op (2 - 1) (8 - 4) (m_illegal_ed) Epilog, \<comment> \<open>0xe7: illegal\<close>
     Op (2 - 1) (8 - 4) (m_illegal_ed) Epilog, \<comment> \<open>0xe8: illegal\<close>
     Op (2 - 1) (8 - 4) (m_illegal_ed) Epilog, \<comment> \<open>0xe9: illegal\<close>
     Op (2 - 1) (8 - 4) (m_illegal_ed) Epilog, \<comment> \<open>0xea: illegal\<close>
     Op (2 - 1) (8 - 4) (m_illegal_ed) Epilog, \<comment> \<open>0xeb: illegal\<close>
     Op (2 - 1) (8 - 4) (m_illegal_ed) Epilog, \<comment> \<open>0xec: illegal\<close>
     Op (2 - 1) (8 - 4) (m_illegal_ed) Epilog, \<comment> \<open>0xed: illegal\<close>
     Op (2 - 1) (8 - 4) (m_illegal_ed) Epilog, \<comment> \<open>0xee: illegal\<close>
     Op (2 - 1) (8 - 4) (m_illegal_ed) Epilog]"

definition opcodes_ed_f :: "'b iface \<Rightarrow> 'b opcode list" where
  "opcodes_ed_f I = [
     Op (2 - 1) (8 - 4) (m_illegal_ed) Epilog, \<comment> \<open>0xf0: illegal\<close>
     Op (2 - 1) (8 - 4) (m_illegal_ed) Epilog, \<comment> \<open>0xf1: illegal\<close>
     Op (2 - 1) (8 - 4) (m_illegal_ed) Epilog, \<comment> \<open>0xf2: illegal\<close>
     Op (2 - 1) (8 - 4) (m_illegal_ed) Epilog, \<comment> \<open>0xf3: illegal\<close>
     Op (2 - 1) (8 - 4) (m_illegal_ed) Epilog, \<comment> \<open>0xf4: illegal\<close>
     Op (2 - 1) (8 - 4) (m_illegal_ed) Epilog, \<comment> \<open>0xf5: illegal\<close>
     Op (2 - 1) (8 - 4) (m_illegal_ed) Epilog, \<comment> \<open>0xf6: illegal\<close>
     Op (2 - 1) (8 - 4) (m_illegal_ed) Epilog, \<comment> \<open>0xf7: illegal\<close>
     Op (2 - 1) (8 - 4) (m_illegal_ed) Epilog, \<comment> \<open>0xf8: illegal\<close>
     Op (2 - 1) (8 - 4) (m_illegal_ed) Epilog, \<comment> \<open>0xf9: illegal\<close>
     Op (2 - 1) (8 - 4) (m_illegal_ed) Epilog, \<comment> \<open>0xfa: illegal\<close>
     Op (2 - 1) (8 - 4) (m_illegal_ed) Epilog, \<comment> \<open>0xfb: illegal\<close>
     Op (2 - 1) (8 - 4) (m_illegal_ed) Epilog, \<comment> \<open>0xfc: illegal\<close>
     Op (2 - 1) (8 - 4) (m_illegal_ed) Epilog, \<comment> \<open>0xfd: illegal\<close>
     Op (2 - 1) (8 - 4) (m_illegal_ed) Epilog, \<comment> \<open>0xfe: illegal\<close>
     Op (2 - 1) (8 - 4) (m_illegal_ed) Epilog]"

definition opcodes_ed :: "'b iface \<Rightarrow> 'b opcode list" where
  "opcodes_ed I = opcodes_ed_0 I @ opcodes_ed_1 I @ opcodes_ed_2 I @ opcodes_ed_3 I @
     opcodes_ed_4 I @ opcodes_ed_5 I @ opcodes_ed_6 I @ opcodes_ed_7 I @
     opcodes_ed_8 I @ opcodes_ed_9 I @ opcodes_ed_a I @ opcodes_ed_b I @
     opcodes_ed_c I @ opcodes_ed_d I @ opcodes_ed_e I @ opcodes_ed_f I"

lemmas opcodes_ed_defs = opcodes_ed_def
  opcodes_ed_0_def opcodes_ed_1_def opcodes_ed_2_def opcodes_ed_3_def
  opcodes_ed_4_def opcodes_ed_5_def opcodes_ed_6_def opcodes_ed_7_def
  opcodes_ed_8_def opcodes_ed_9_def opcodes_ed_a_def opcodes_ed_b_def
  opcodes_ed_c_def opcodes_ed_d_def opcodes_ed_e_def opcodes_ed_f_def

end
