(* ===== verification/Z80_Index_Opcodes.thy ===== *)
theory Z80_Index_Opcodes
  imports Z80_Opcodes
begin

text \<open>
  The opcode tables of the index registers: \<^verbatim>\<open>cpu-opcodes-dd.inc\<close>, \<^verbatim>\<open>cpu-opcodes-fd.inc\<close>,
  \<^verbatim>\<open>cpu-opcodes-ddcb.inc\<close> and \<^verbatim>\<open>cpu-opcodes-fdcb.inc\<close>.
\<close>

section \<open>The table \<^verbatim>\<open>cpu-opcodes-dd.inc\<close>\<close>

definition opcodes_dd_0 :: "'b iface \<Rightarrow> 'b opcode list" where
  "opcodes_dd_0 I = [
     Op (2 - 1) (8 - 4) (m_nop) Epilog, \<comment> \<open>0x00: nop\<close>
     Op (3 - 1) (14 - 4) (m_ld_r16_i16 I BC_W) Epilog, \<comment> \<open>0x01: ld bc,nn\<close>
     Op (3 - 1) (11 - 4) (m_ld_ind_r16_r08 I BC_W AF_H) Epilog, \<comment> \<open>0x02: ld (bc),a\<close>
     Op (2 - 1) (10 - 4) (m_inc_r16 BC_W) Epilog, \<comment> \<open>0x03: inc bc\<close>
     Op (2 - 1) (8 - 4) (m_inc_r08 BC_H) Epilog, \<comment> \<open>0x04: inc b\<close>
     Op (2 - 1) (8 - 4) (m_dec_r08 BC_H) Epilog, \<comment> \<open>0x05: dec b\<close>
     Op (3 - 1) (11 - 4) (m_ld_r08_i08 I BC_H) Epilog, \<comment> \<open>0x06: ld b,n\<close>
     Op (2 - 1) (8 - 4) (m_rlca) Epilog, \<comment> \<open>0x07: rlca\<close>
     Op (2 - 1) (8 - 4) (m_ex_r16_r16 AF_W AF_P) Epilog, \<comment> \<open>0x08: ex af,af'\<close>
     Op (4 - 1) (15 - 4) (m_add_r16_r16 IX_W BC_W) Epilog, \<comment> \<open>0x09: add ix,bc\<close>
     Op (3 - 1) (11 - 4) (m_ld_r08_ind_r16 I AF_H BC_W) Epilog, \<comment> \<open>0x0a: ld a,(bc)\<close>
     Op (2 - 1) (10 - 4) (m_dec_r16 BC_W) Epilog, \<comment> \<open>0x0b: dec bc\<close>
     Op (2 - 1) (8 - 4) (m_inc_r08 BC_L) Epilog, \<comment> \<open>0x0c: inc c\<close>
     Op (2 - 1) (8 - 4) (m_dec_r08 BC_L) Epilog, \<comment> \<open>0x0d: dec c\<close>
     Op (3 - 1) (11 - 4) (m_ld_r08_i08 I BC_L) Epilog, \<comment> \<open>0x0e: ld c,n\<close>
     Op (2 - 1) (8 - 4) (m_rrca) Epilog]"

definition opcodes_dd_1 :: "'b iface \<Rightarrow> 'b opcode list" where
  "opcodes_dd_1 I = [
     Op (3 - 1) (12 - 4) (m_djnz_i08 I) Epilog, \<comment> \<open>0x10: djnz d\<close>
     Op (3 - 1) (14 - 4) (m_ld_r16_i16 I DE_W) Epilog, \<comment> \<open>0x11: ld de,nn\<close>
     Op (3 - 1) (11 - 4) (m_ld_ind_r16_r08 I DE_W AF_H) Epilog, \<comment> \<open>0x12: ld (de),a\<close>
     Op (2 - 1) (10 - 4) (m_inc_r16 DE_W) Epilog, \<comment> \<open>0x13: inc de\<close>
     Op (2 - 1) (8 - 4) (m_inc_r08 DE_H) Epilog, \<comment> \<open>0x14: inc d\<close>
     Op (2 - 1) (8 - 4) (m_dec_r08 DE_H) Epilog, \<comment> \<open>0x15: dec d\<close>
     Op (3 - 1) (11 - 4) (m_ld_r08_i08 I DE_H) Epilog, \<comment> \<open>0x16: ld d,n\<close>
     Op (2 - 1) (8 - 4) (m_rla) Epilog, \<comment> \<open>0x17: rla\<close>
     Op (4 - 1) (16 - 4) (m_jr_i08 I) Epilog, \<comment> \<open>0x18: jr d\<close>
     Op (4 - 1) (15 - 4) (m_add_r16_r16 IX_W DE_W) Epilog, \<comment> \<open>0x19: add ix,de\<close>
     Op (3 - 1) (11 - 4) (m_ld_r08_ind_r16 I AF_H DE_W) Epilog, \<comment> \<open>0x1a: ld a,(de)\<close>
     Op (2 - 1) (10 - 4) (m_dec_r16 DE_W) Epilog, \<comment> \<open>0x1b: dec de\<close>
     Op (2 - 1) (8 - 4) (m_inc_r08 DE_L) Epilog, \<comment> \<open>0x1c: inc e\<close>
     Op (2 - 1) (8 - 4) (m_dec_r08 DE_L) Epilog, \<comment> \<open>0x1d: dec e\<close>
     Op (3 - 1) (11 - 4) (m_ld_r08_i08 I DE_L) Epilog, \<comment> \<open>0x1e: ld e,n\<close>
     Op (2 - 1) (8 - 4) (m_rra) Epilog]"

definition opcodes_dd_2 :: "'b iface \<Rightarrow> 'b opcode list" where
  "opcodes_dd_2 I = [
     Op (3 - 1) (11 - 4) (m_jr_nz_i08 I) Epilog, \<comment> \<open>0x20: jr nz,d\<close>
     Op (3 - 1) (14 - 4) (m_ld_r16_i16 I IX_W) Epilog, \<comment> \<open>0x21: ld ix,nn\<close>
     Op (6 - 1) (20 - 4) (m_ld_ind_i16_r16 I IX_W) Epilog, \<comment> \<open>0x22: ld (nn),ix\<close>
     Op (2 - 1) (10 - 4) (m_inc_r16 IX_W) Epilog, \<comment> \<open>0x23: inc ix\<close>
     Op (2 - 1) (8 - 4) (m_inc_r08 IX_H) Epilog, \<comment> \<open>0x24: inc ix.h\<close>
     Op (2 - 1) (8 - 4) (m_dec_r08 IX_H) Epilog, \<comment> \<open>0x25: dec ix.h\<close>
     Op (3 - 1) (11 - 4) (m_ld_r08_i08 I IX_H) Epilog, \<comment> \<open>0x26: ld ix.h,n\<close>
     Op (2 - 1) (8 - 4) (m_daa) Epilog, \<comment> \<open>0x27: daa\<close>
     Op (3 - 1) (11 - 4) (m_jr_z_i08 I) Epilog, \<comment> \<open>0x28: jr z,d\<close>
     Op (4 - 1) (15 - 4) (m_add_r16_r16 IX_W IX_W) Epilog, \<comment> \<open>0x29: add ix,ix\<close>
     Op (6 - 1) (20 - 4) (m_ld_r16_ind_i16 I IX_W) Epilog, \<comment> \<open>0x2a: ld ix,(nn)\<close>
     Op (2 - 1) (10 - 4) (m_dec_r16 IX_W) Epilog, \<comment> \<open>0x2b: dec ix\<close>
     Op (2 - 1) (8 - 4) (m_inc_r08 IX_L) Epilog, \<comment> \<open>0x2c: inc ix.l\<close>
     Op (2 - 1) (8 - 4) (m_dec_r08 IX_L) Epilog, \<comment> \<open>0x2d: dec ix.l\<close>
     Op (3 - 1) (11 - 4) (m_ld_r08_i08 I IX_L) Epilog, \<comment> \<open>0x2e: ld ix.l,n\<close>
     Op (2 - 1) (8 - 4) (m_cpl) Epilog]"

definition opcodes_dd_3 :: "'b iface \<Rightarrow> 'b opcode list" where
  "opcodes_dd_3 I = [
     Op (3 - 1) (11 - 4) (m_jr_nc_i08 I) Epilog, \<comment> \<open>0x30: jr nc,d\<close>
     Op (3 - 1) (14 - 4) (m_ld_r16_i16 I SP_W) Epilog, \<comment> \<open>0x31: ld sp,nn\<close>
     Op (5 - 1) (17 - 4) (m_ld_ind_i16_r08 I AF_H) Epilog, \<comment> \<open>0x32: ld (nn),a\<close>
     Op (2 - 1) (10 - 4) (m_inc_r16 SP_W) Epilog, \<comment> \<open>0x33: inc sp\<close>
     Op (6 - 1) (23 - 4) (m_inc_ind_r16_plus_i08 I IX_W) Epilog, \<comment> \<open>0x34: inc (ix+d)\<close>
     Op (6 - 1) (23 - 4) (m_dec_ind_r16_plus_i08 I IX_W) Epilog, \<comment> \<open>0x35: dec (ix+d)\<close>
     Op (5 - 1) (19 - 4) (m_ld_ind_r16_plus_i08_i08 I IX_W) Epilog, \<comment> \<open>0x36: ld (ix+d),n\<close>
     Op (2 - 1) (8 - 4) (m_scf) Epilog, \<comment> \<open>0x37: scf\<close>
     Op (3 - 1) (11 - 4) (m_jr_c_i08 I) Epilog, \<comment> \<open>0x38: jr c,d\<close>
     Op (4 - 1) (15 - 4) (m_add_r16_r16 IX_W SP_W) Epilog, \<comment> \<open>0x39: add ix,sp\<close>
     Op (5 - 1) (17 - 4) (m_ld_r08_ind_i16 I AF_H) Epilog, \<comment> \<open>0x3a: ld a,(nn)\<close>
     Op (2 - 1) (10 - 4) (m_dec_r16 SP_W) Epilog, \<comment> \<open>0x3b: dec sp\<close>
     Op (2 - 1) (8 - 4) (m_inc_r08 AF_H) Epilog, \<comment> \<open>0x3c: inc a\<close>
     Op (2 - 1) (8 - 4) (m_dec_r08 AF_H) Epilog, \<comment> \<open>0x3d: dec a\<close>
     Op (3 - 1) (11 - 4) (m_ld_r08_i08 I AF_H) Epilog, \<comment> \<open>0x3e: ld a,n\<close>
     Op (2 - 1) (8 - 4) (m_ccf) Epilog]"

definition opcodes_dd_4 :: "'b iface \<Rightarrow> 'b opcode list" where
  "opcodes_dd_4 I = [
     Op (2 - 1) (8 - 4) (m_ld_r08_r08 BC_H BC_H) Epilog, \<comment> \<open>0x40: ld b,b\<close>
     Op (2 - 1) (8 - 4) (m_ld_r08_r08 BC_H BC_L) Epilog, \<comment> \<open>0x41: ld b,c\<close>
     Op (2 - 1) (8 - 4) (m_ld_r08_r08 BC_H DE_H) Epilog, \<comment> \<open>0x42: ld b,d\<close>
     Op (2 - 1) (8 - 4) (m_ld_r08_r08 BC_H DE_L) Epilog, \<comment> \<open>0x43: ld b,e\<close>
     Op (2 - 1) (8 - 4) (m_ld_r08_r08 BC_H IX_H) Epilog, \<comment> \<open>0x44: ld b,ix.h\<close>
     Op (2 - 1) (8 - 4) (m_ld_r08_r08 BC_H IX_L) Epilog, \<comment> \<open>0x45: ld b,ix.l\<close>
     Op (5 - 1) (19 - 4) (m_ld_r08_ind_r16_plus_i08 I BC_H IX_W) Epilog, \<comment> \<open>0x46: ld b,(ix+d)\<close>
     Op (2 - 1) (8 - 4) (m_ld_r08_r08 BC_H AF_H) Epilog, \<comment> \<open>0x47: ld b,a\<close>
     Op (2 - 1) (8 - 4) (m_ld_r08_r08 BC_L BC_H) Epilog, \<comment> \<open>0x48: ld c,b\<close>
     Op (2 - 1) (8 - 4) (m_ld_r08_r08 BC_L BC_L) Epilog, \<comment> \<open>0x49: ld c,c\<close>
     Op (2 - 1) (8 - 4) (m_ld_r08_r08 BC_L DE_H) Epilog, \<comment> \<open>0x4a: ld c,d\<close>
     Op (2 - 1) (8 - 4) (m_ld_r08_r08 BC_L DE_L) Epilog, \<comment> \<open>0x4b: ld c,e\<close>
     Op (2 - 1) (8 - 4) (m_ld_r08_r08 BC_L IX_H) Epilog, \<comment> \<open>0x4c: ld c,ix.h\<close>
     Op (2 - 1) (8 - 4) (m_ld_r08_r08 BC_L IX_L) Epilog, \<comment> \<open>0x4d: ld c,ix.l\<close>
     Op (5 - 1) (19 - 4) (m_ld_r08_ind_r16_plus_i08 I BC_L IX_W) Epilog, \<comment> \<open>0x4e: ld c,(ix+d)\<close>
     Op (2 - 1) (8 - 4) (m_ld_r08_r08 BC_L AF_H) Epilog]"

definition opcodes_dd_5 :: "'b iface \<Rightarrow> 'b opcode list" where
  "opcodes_dd_5 I = [
     Op (2 - 1) (8 - 4) (m_ld_r08_r08 DE_H BC_H) Epilog, \<comment> \<open>0x50: ld d,b\<close>
     Op (2 - 1) (8 - 4) (m_ld_r08_r08 DE_H BC_L) Epilog, \<comment> \<open>0x51: ld d,c\<close>
     Op (2 - 1) (8 - 4) (m_ld_r08_r08 DE_H DE_H) Epilog, \<comment> \<open>0x52: ld d,d\<close>
     Op (2 - 1) (8 - 4) (m_ld_r08_r08 DE_H DE_L) Epilog, \<comment> \<open>0x53: ld d,e\<close>
     Op (2 - 1) (8 - 4) (m_ld_r08_r08 DE_H IX_H) Epilog, \<comment> \<open>0x54: ld d,ix.h\<close>
     Op (2 - 1) (8 - 4) (m_ld_r08_r08 DE_H IX_L) Epilog, \<comment> \<open>0x55: ld d,ix.l\<close>
     Op (5 - 1) (19 - 4) (m_ld_r08_ind_r16_plus_i08 I DE_H IX_W) Epilog, \<comment> \<open>0x56: ld d,(ix+d)\<close>
     Op (2 - 1) (8 - 4) (m_ld_r08_r08 DE_H AF_H) Epilog, \<comment> \<open>0x57: ld d,a\<close>
     Op (2 - 1) (8 - 4) (m_ld_r08_r08 DE_L BC_H) Epilog, \<comment> \<open>0x58: ld e,b\<close>
     Op (2 - 1) (8 - 4) (m_ld_r08_r08 DE_L BC_L) Epilog, \<comment> \<open>0x59: ld e,c\<close>
     Op (2 - 1) (8 - 4) (m_ld_r08_r08 DE_L DE_H) Epilog, \<comment> \<open>0x5a: ld e,d\<close>
     Op (2 - 1) (8 - 4) (m_ld_r08_r08 DE_L DE_L) Epilog, \<comment> \<open>0x5b: ld e,e\<close>
     Op (2 - 1) (8 - 4) (m_ld_r08_r08 DE_L IX_H) Epilog, \<comment> \<open>0x5c: ld e,ix.h\<close>
     Op (2 - 1) (8 - 4) (m_ld_r08_r08 DE_L IX_L) Epilog, \<comment> \<open>0x5d: ld e,ix.l\<close>
     Op (5 - 1) (19 - 4) (m_ld_r08_ind_r16_plus_i08 I DE_L IX_W) Epilog, \<comment> \<open>0x5e: ld e,(ix+d)\<close>
     Op (2 - 1) (8 - 4) (m_ld_r08_r08 DE_L AF_H) Epilog]"

definition opcodes_dd_6 :: "'b iface \<Rightarrow> 'b opcode list" where
  "opcodes_dd_6 I = [
     Op (2 - 1) (8 - 4) (m_ld_r08_r08 IX_H BC_H) Epilog, \<comment> \<open>0x60: ld ix.h,b\<close>
     Op (2 - 1) (8 - 4) (m_ld_r08_r08 IX_H BC_L) Epilog, \<comment> \<open>0x61: ld ix.h,c\<close>
     Op (2 - 1) (8 - 4) (m_ld_r08_r08 IX_H DE_H) Epilog, \<comment> \<open>0x62: ld ix.h,d\<close>
     Op (2 - 1) (8 - 4) (m_ld_r08_r08 IX_H DE_L) Epilog, \<comment> \<open>0x63: ld ix.h,e\<close>
     Op (2 - 1) (8 - 4) (m_ld_r08_r08 IX_H IX_H) Epilog, \<comment> \<open>0x64: ld ix.h,ix.h\<close>
     Op (2 - 1) (8 - 4) (m_ld_r08_r08 IX_H IX_L) Epilog, \<comment> \<open>0x65: ld ix.h,ix.l\<close>
     Op (5 - 1) (19 - 4) (m_ld_r08_ind_r16_plus_i08 I HL_H IX_W) Epilog, \<comment> \<open>0x66: ld h,(ix+d)\<close>
     Op (2 - 1) (8 - 4) (m_ld_r08_r08 IX_H AF_H) Epilog, \<comment> \<open>0x67: ld ix.h,a\<close>
     Op (2 - 1) (8 - 4) (m_ld_r08_r08 IX_L BC_H) Epilog, \<comment> \<open>0x68: ld ix.l,b\<close>
     Op (2 - 1) (8 - 4) (m_ld_r08_r08 IX_L BC_L) Epilog, \<comment> \<open>0x69: ld ix.l,c\<close>
     Op (2 - 1) (8 - 4) (m_ld_r08_r08 IX_L DE_H) Epilog, \<comment> \<open>0x6a: ld ix.l,d\<close>
     Op (2 - 1) (8 - 4) (m_ld_r08_r08 IX_L DE_L) Epilog, \<comment> \<open>0x6b: ld ix.l,e\<close>
     Op (2 - 1) (8 - 4) (m_ld_r08_r08 IX_L IX_H) Epilog, \<comment> \<open>0x6c: ld ix.l,ix.h\<close>
     Op (2 - 1) (8 - 4) (m_ld_r08_r08 IX_L IX_L) Epilog, \<comment> \<open>0x6d: ld ix.l,ix.l\<close>
     Op (5 - 1) (19 - 4) (m_ld_r08_ind_r16_plus_i08 I HL_L IX_W) Epilog, \<comment> \<open>0x6e: ld l,(ix+d)\<close>
     Op (2 - 1) (8 - 4) (m_ld_r08_r08 IX_L AF_H) Epilog]"

definition opcodes_dd_7 :: "'b iface \<Rightarrow> 'b opcode list" where
  "opcodes_dd_7 I = [
     Op (5 - 1) (19 - 4) (m_ld_ind_r16_plus_i08_r08 I IX_W BC_H) Epilog, \<comment> \<open>0x70: ld (ix+d),b\<close>
     Op (5 - 1) (19 - 4) (m_ld_ind_r16_plus_i08_r08 I IX_W BC_L) Epilog, \<comment> \<open>0x71: ld (ix+d),c\<close>
     Op (5 - 1) (19 - 4) (m_ld_ind_r16_plus_i08_r08 I IX_W DE_H) Epilog, \<comment> \<open>0x72: ld (ix+d),d\<close>
     Op (5 - 1) (19 - 4) (m_ld_ind_r16_plus_i08_r08 I IX_W DE_L) Epilog, \<comment> \<open>0x73: ld (ix+d),e\<close>
     Op (5 - 1) (19 - 4) (m_ld_ind_r16_plus_i08_r08 I IX_W HL_H) Epilog, \<comment> \<open>0x74: ld (ix+d),h\<close>
     Op (5 - 1) (19 - 4) (m_ld_ind_r16_plus_i08_r08 I IX_W HL_L) Epilog, \<comment> \<open>0x75: ld (ix+d),l\<close>
     Op (2 - 1) (8 - 4) (m_halt) Epilog, \<comment> \<open>0x76: halt\<close>
     Op (5 - 1) (19 - 4) (m_ld_ind_r16_plus_i08_r08 I IX_W AF_H) Epilog, \<comment> \<open>0x77: ld (ix+d),a\<close>
     Op (2 - 1) (8 - 4) (m_ld_r08_r08 AF_H BC_H) Epilog, \<comment> \<open>0x78: ld a,b\<close>
     Op (2 - 1) (8 - 4) (m_ld_r08_r08 AF_H BC_L) Epilog, \<comment> \<open>0x79: ld a,c\<close>
     Op (2 - 1) (8 - 4) (m_ld_r08_r08 AF_H DE_H) Epilog, \<comment> \<open>0x7a: ld a,d\<close>
     Op (2 - 1) (8 - 4) (m_ld_r08_r08 AF_H DE_L) Epilog, \<comment> \<open>0x7b: ld a,e\<close>
     Op (2 - 1) (8 - 4) (m_ld_r08_r08 AF_H IX_H) Epilog, \<comment> \<open>0x7c: ld a,ix.h\<close>
     Op (2 - 1) (8 - 4) (m_ld_r08_r08 AF_H IX_L) Epilog, \<comment> \<open>0x7d: ld a,ix.l\<close>
     Op (5 - 1) (19 - 4) (m_ld_r08_ind_r16_plus_i08 I AF_H IX_W) Epilog, \<comment> \<open>0x7e: ld a,(ix+d)\<close>
     Op (2 - 1) (8 - 4) (m_ld_r08_r08 AF_H AF_H) Epilog]"

definition opcodes_dd_8 :: "'b iface \<Rightarrow> 'b opcode list" where
  "opcodes_dd_8 I = [
     Op (2 - 1) (8 - 4) (m_add_r08_r08 AF_H BC_H) Epilog, \<comment> \<open>0x80: add a,b\<close>
     Op (2 - 1) (8 - 4) (m_add_r08_r08 AF_H BC_L) Epilog, \<comment> \<open>0x81: add a,c\<close>
     Op (2 - 1) (8 - 4) (m_add_r08_r08 AF_H DE_H) Epilog, \<comment> \<open>0x82: add a,d\<close>
     Op (2 - 1) (8 - 4) (m_add_r08_r08 AF_H DE_L) Epilog, \<comment> \<open>0x83: add a,e\<close>
     Op (2 - 1) (8 - 4) (m_add_r08_r08 AF_H IX_H) Epilog, \<comment> \<open>0x84: add a,ix.h\<close>
     Op (2 - 1) (8 - 4) (m_add_r08_r08 AF_H IX_L) Epilog, \<comment> \<open>0x85: add a,ix.l\<close>
     Op (5 - 1) (19 - 4) (m_add_r08_ind_r16_plus_i08 I AF_H IX_W) Epilog, \<comment> \<open>0x86: add a,(ix+d)\<close>
     Op (2 - 1) (8 - 4) (m_add_r08_r08 AF_H AF_H) Epilog, \<comment> \<open>0x87: add a,a\<close>
     Op (2 - 1) (8 - 4) (m_adc_r08_r08 AF_H BC_H) Epilog, \<comment> \<open>0x88: adc a,b\<close>
     Op (2 - 1) (8 - 4) (m_adc_r08_r08 AF_H BC_L) Epilog, \<comment> \<open>0x89: adc a,c\<close>
     Op (2 - 1) (8 - 4) (m_adc_r08_r08 AF_H DE_H) Epilog, \<comment> \<open>0x8a: adc a,d\<close>
     Op (2 - 1) (8 - 4) (m_adc_r08_r08 AF_H DE_L) Epilog, \<comment> \<open>0x8b: adc a,e\<close>
     Op (2 - 1) (8 - 4) (m_adc_r08_r08 AF_H IX_H) Epilog, \<comment> \<open>0x8c: adc a,ix.h\<close>
     Op (2 - 1) (8 - 4) (m_adc_r08_r08 AF_H IX_L) Epilog, \<comment> \<open>0x8d: adc a,ix.l\<close>
     Op (5 - 1) (19 - 4) (m_adc_r08_ind_r16_plus_i08 I AF_H IX_W) Epilog, \<comment> \<open>0x8e: adc a,(ix+d)\<close>
     Op (2 - 1) (8 - 4) (m_adc_r08_r08 AF_H AF_H) Epilog]"

definition opcodes_dd_9 :: "'b iface \<Rightarrow> 'b opcode list" where
  "opcodes_dd_9 I = [
     Op (2 - 1) (8 - 4) (m_sub_r08_r08 AF_H BC_H) Epilog, \<comment> \<open>0x90: sub a,b\<close>
     Op (2 - 1) (8 - 4) (m_sub_r08_r08 AF_H BC_L) Epilog, \<comment> \<open>0x91: sub a,c\<close>
     Op (2 - 1) (8 - 4) (m_sub_r08_r08 AF_H DE_H) Epilog, \<comment> \<open>0x92: sub a,d\<close>
     Op (2 - 1) (8 - 4) (m_sub_r08_r08 AF_H DE_L) Epilog, \<comment> \<open>0x93: sub a,e\<close>
     Op (2 - 1) (8 - 4) (m_sub_r08_r08 AF_H IX_H) Epilog, \<comment> \<open>0x94: sub a,ix.h\<close>
     Op (2 - 1) (8 - 4) (m_sub_r08_r08 AF_H IX_L) Epilog, \<comment> \<open>0x95: sub a,ix.l\<close>
     Op (5 - 1) (19 - 4) (m_sub_r08_ind_r16_plus_i08 I AF_H IX_W) Epilog, \<comment> \<open>0x96: sub a,(ix+d)\<close>
     Op (2 - 1) (8 - 4) (m_sub_r08_r08 AF_H AF_H) Epilog, \<comment> \<open>0x97: sub a,a\<close>
     Op (2 - 1) (8 - 4) (m_sbc_r08_r08 AF_H BC_H) Epilog, \<comment> \<open>0x98: sbc a,b\<close>
     Op (2 - 1) (8 - 4) (m_sbc_r08_r08 AF_H BC_L) Epilog, \<comment> \<open>0x99: sbc a,c\<close>
     Op (2 - 1) (8 - 4) (m_sbc_r08_r08 AF_H DE_H) Epilog, \<comment> \<open>0x9a: sbc a,d\<close>
     Op (2 - 1) (8 - 4) (m_sbc_r08_r08 AF_H DE_L) Epilog, \<comment> \<open>0x9b: sbc a,e\<close>
     Op (2 - 1) (8 - 4) (m_sbc_r08_r08 AF_H IX_H) Epilog, \<comment> \<open>0x9c: sbc a,ix.h\<close>
     Op (2 - 1) (8 - 4) (m_sbc_r08_r08 AF_H IX_L) Epilog, \<comment> \<open>0x9d: sbc a,ix.l\<close>
     Op (5 - 1) (19 - 4) (m_sbc_r08_ind_r16_plus_i08 I AF_H IX_W) Epilog, \<comment> \<open>0x9e: sbc a,(ix+d)\<close>
     Op (2 - 1) (8 - 4) (m_sbc_r08_r08 AF_H AF_H) Epilog]"

definition opcodes_dd_a :: "'b iface \<Rightarrow> 'b opcode list" where
  "opcodes_dd_a I = [
     Op (2 - 1) (8 - 4) (m_and_r08_r08 AF_H BC_H) Epilog, \<comment> \<open>0xa0: and a,b\<close>
     Op (2 - 1) (8 - 4) (m_and_r08_r08 AF_H BC_L) Epilog, \<comment> \<open>0xa1: and a,c\<close>
     Op (2 - 1) (8 - 4) (m_and_r08_r08 AF_H DE_H) Epilog, \<comment> \<open>0xa2: and a,d\<close>
     Op (2 - 1) (8 - 4) (m_and_r08_r08 AF_H DE_L) Epilog, \<comment> \<open>0xa3: and a,e\<close>
     Op (2 - 1) (8 - 4) (m_and_r08_r08 AF_H IX_H) Epilog, \<comment> \<open>0xa4: and a,ix.h\<close>
     Op (2 - 1) (8 - 4) (m_and_r08_r08 AF_H IX_L) Epilog, \<comment> \<open>0xa5: and a,ix.l\<close>
     Op (5 - 1) (19 - 4) (m_and_r08_ind_r16_plus_i08 I AF_H IX_W) Epilog, \<comment> \<open>0xa6: and a,(ix+d)\<close>
     Op (2 - 1) (8 - 4) (m_and_r08_r08 AF_H AF_H) Epilog, \<comment> \<open>0xa7: and a,a\<close>
     Op (2 - 1) (8 - 4) (m_xor_r08_r08 AF_H BC_H) Epilog, \<comment> \<open>0xa8: xor a,b\<close>
     Op (2 - 1) (8 - 4) (m_xor_r08_r08 AF_H BC_L) Epilog, \<comment> \<open>0xa9: xor a,c\<close>
     Op (2 - 1) (8 - 4) (m_xor_r08_r08 AF_H DE_H) Epilog, \<comment> \<open>0xaa: xor a,d\<close>
     Op (2 - 1) (8 - 4) (m_xor_r08_r08 AF_H DE_L) Epilog, \<comment> \<open>0xab: xor a,e\<close>
     Op (2 - 1) (8 - 4) (m_xor_r08_r08 AF_H IX_H) Epilog, \<comment> \<open>0xac: xor a,ix.h\<close>
     Op (2 - 1) (8 - 4) (m_xor_r08_r08 AF_H IX_L) Epilog, \<comment> \<open>0xad: xor a,ix.l\<close>
     Op (5 - 1) (19 - 4) (m_xor_r08_ind_r16_plus_i08 I AF_H IX_W) Epilog, \<comment> \<open>0xae: xor a,(ix+d)\<close>
     Op (2 - 1) (8 - 4) (m_xor_r08_r08 AF_H AF_H) Epilog]"

definition opcodes_dd_b :: "'b iface \<Rightarrow> 'b opcode list" where
  "opcodes_dd_b I = [
     Op (2 - 1) (8 - 4) (m_or_r08_r08 AF_H BC_H) Epilog, \<comment> \<open>0xb0: or a,b\<close>
     Op (2 - 1) (8 - 4) (m_or_r08_r08 AF_H BC_L) Epilog, \<comment> \<open>0xb1: or a,c\<close>
     Op (2 - 1) (8 - 4) (m_or_r08_r08 AF_H DE_H) Epilog, \<comment> \<open>0xb2: or a,d\<close>
     Op (2 - 1) (8 - 4) (m_or_r08_r08 AF_H DE_L) Epilog, \<comment> \<open>0xb3: or a,e\<close>
     Op (2 - 1) (8 - 4) (m_or_r08_r08 AF_H IX_H) Epilog, \<comment> \<open>0xb4: or a,ix.h\<close>
     Op (2 - 1) (8 - 4) (m_or_r08_r08 AF_H IX_L) Epilog, \<comment> \<open>0xb5: or a,ix.l\<close>
     Op (5 - 1) (19 - 4) (m_or_r08_ind_r16_plus_i08 I AF_H IX_W) Epilog, \<comment> \<open>0xb6: or a,(ix+d)\<close>
     Op (2 - 1) (8 - 4) (m_or_r08_r08 AF_H AF_H) Epilog, \<comment> \<open>0xb7: or a,a\<close>
     Op (2 - 1) (8 - 4) (m_cp_r08_r08 AF_H BC_H) Epilog, \<comment> \<open>0xb8: cp a,b\<close>
     Op (2 - 1) (8 - 4) (m_cp_r08_r08 AF_H BC_L) Epilog, \<comment> \<open>0xb9: cp a,c\<close>
     Op (2 - 1) (8 - 4) (m_cp_r08_r08 AF_H DE_H) Epilog, \<comment> \<open>0xba: cp a,d\<close>
     Op (2 - 1) (8 - 4) (m_cp_r08_r08 AF_H DE_L) Epilog, \<comment> \<open>0xbb: cp a,e\<close>
     Op (2 - 1) (8 - 4) (m_cp_r08_r08 AF_H IX_H) Epilog, \<comment> \<open>0xbc: cp a,ix.h\<close>
     Op (2 - 1) (8 - 4) (m_cp_r08_r08 AF_H IX_L) Epilog, \<comment> \<open>0xbd: cp a,ix.l\<close>
     Op (5 - 1) (19 - 4) (m_cp_r08_ind_r16_plus_i08 I AF_H IX_W) Epilog, \<comment> \<open>0xbe: cp a,(ix+d)\<close>
     Op (2 - 1) (8 - 4) (m_cp_r08_r08 AF_H AF_H) Epilog]"

definition opcodes_dd_c :: "'b iface \<Rightarrow> 'b opcode list" where
  "opcodes_dd_c I = [
     Op (2 - 1) (9 - 4) (m_ret_nz I) Epilog, \<comment> \<open>0xc0: ret nz\<close>
     Op (4 - 1) (14 - 4) (m_pop_r16 I BC_W) Epilog, \<comment> \<open>0xc1: pop bc\<close>
     Op (4 - 1) (14 - 4) (m_jp_nz_i16 I) Epilog, \<comment> \<open>0xc2: jp nz,nn\<close>
     Op (4 - 1) (14 - 4) (m_jp_i16 I) Epilog, \<comment> \<open>0xc3: jp nn\<close>
     Op (4 - 1) (14 - 4) (m_call_nz_i16 I) Epilog, \<comment> \<open>0xc4: call nz,nn\<close>
     Op (4 - 1) (15 - 4) (m_push_r16 I BC_W) Epilog, \<comment> \<open>0xc5: push bc\<close>
     Op (3 - 1) (11 - 4) (m_add_r08_i08 I AF_H) Epilog, \<comment> \<open>0xc6: add a,n\<close>
     Op (4 - 1) (15 - 4) (m_rst_vec16 I VECTOR_00H) Epilog, \<comment> \<open>0xc7: rst $00\<close>
     Op (2 - 1) (9 - 4) (m_ret_z I) Epilog, \<comment> \<open>0xc8: ret z\<close>
     Op (4 - 1) (14 - 4) (m_ret I) Epilog, \<comment> \<open>0xc9: ret\<close>
     Op (4 - 1) (14 - 4) (m_jp_z_i16 I) Epilog, \<comment> \<open>0xca: jp z,nn\<close>
     Op (2 - 1) (8 - 4) (m_nop) Fetch_ddcb, \<comment> \<open>0xcb: prefix $dd,$cb\<close>
     Op (4 - 1) (14 - 4) (m_call_z_i16 I) Epilog, \<comment> \<open>0xcc: call z,nn\<close>
     Op (6 - 1) (21 - 4) (m_call_i16 I) Epilog, \<comment> \<open>0xcd: call nn\<close>
     Op (3 - 1) (11 - 4) (m_adc_r08_i08 I AF_H) Epilog, \<comment> \<open>0xce: adc a,n\<close>
     Op (4 - 1) (15 - 4) (m_rst_vec16 I VECTOR_08H) Epilog]"

definition opcodes_dd_d :: "'b iface \<Rightarrow> 'b opcode list" where
  "opcodes_dd_d I = [
     Op (2 - 1) (9 - 4) (m_ret_nc I) Epilog, \<comment> \<open>0xd0: ret nc\<close>
     Op (4 - 1) (14 - 4) (m_pop_r16 I DE_W) Epilog, \<comment> \<open>0xd1: pop de\<close>
     Op (4 - 1) (14 - 4) (m_jp_nc_i16 I) Epilog, \<comment> \<open>0xd2: jp nc,nn\<close>
     Op (4 - 1) (15 - 4) (m_out_ind_i08_r08 I AF_H) Epilog, \<comment> \<open>0xd3: out (n),a\<close>
     Op (4 - 1) (14 - 4) (m_call_nc_i16 I) Epilog, \<comment> \<open>0xd4: call nc,nn\<close>
     Op (4 - 1) (15 - 4) (m_push_r16 I DE_W) Epilog, \<comment> \<open>0xd5: push de\<close>
     Op (3 - 1) (11 - 4) (m_sub_r08_i08 I AF_H) Epilog, \<comment> \<open>0xd6: sub a,n\<close>
     Op (4 - 1) (15 - 4) (m_rst_vec16 I VECTOR_10H) Epilog, \<comment> \<open>0xd7: rst $10\<close>
     Op (2 - 1) (9 - 4) (m_ret_c I) Epilog, \<comment> \<open>0xd8: ret c\<close>
     Op (2 - 1) (8 - 4) (m_exx) Epilog, \<comment> \<open>0xd9: exx\<close>
     Op (4 - 1) (14 - 4) (m_jp_c_i16 I) Epilog, \<comment> \<open>0xda: jp c,nn\<close>
     Op (4 - 1) (15 - 4) (m_in_r08_ind_i08 I AF_H) Epilog, \<comment> \<open>0xdb: in a,(n)\<close>
     Op (4 - 1) (14 - 4) (m_call_c_i16 I) Epilog, \<comment> \<open>0xdc: call c,nn\<close>
     Op (2 - 1) (8 - 4) (m_nop) Epilog, \<comment> \<open>0xdd: prefix $dd,$dd\<close>
     Op (3 - 1) (11 - 4) (m_sbc_r08_i08 I AF_H) Epilog, \<comment> \<open>0xde: sbc a,n\<close>
     Op (4 - 1) (15 - 4) (m_rst_vec16 I VECTOR_18H) Epilog]"

definition opcodes_dd_e :: "'b iface \<Rightarrow> 'b opcode list" where
  "opcodes_dd_e I = [
     Op (2 - 1) (9 - 4) (m_ret_po I) Epilog, \<comment> \<open>0xe0: ret po\<close>
     Op (4 - 1) (14 - 4) (m_pop_r16 I IX_W) Epilog, \<comment> \<open>0xe1: pop ix\<close>
     Op (4 - 1) (14 - 4) (m_jp_po_i16 I) Epilog, \<comment> \<open>0xe2: jp po,nn\<close>
     Op (6 - 1) (23 - 4) (m_ex_ind_r16_r16 I SP_W IX_W) Epilog, \<comment> \<open>0xe3: ex (sp),ix\<close>
     Op (4 - 1) (14 - 4) (m_call_po_i16 I) Epilog, \<comment> \<open>0xe4: call po,nn\<close>
     Op (4 - 1) (15 - 4) (m_push_r16 I IX_W) Epilog, \<comment> \<open>0xe5: push ix\<close>
     Op (3 - 1) (11 - 4) (m_and_r08_i08 I AF_H) Epilog, \<comment> \<open>0xe6: and a,n\<close>
     Op (4 - 1) (15 - 4) (m_rst_vec16 I VECTOR_20H) Epilog, \<comment> \<open>0xe7: rst $20\<close>
     Op (2 - 1) (9 - 4) (m_ret_pe I) Epilog, \<comment> \<open>0xe8: ret pe\<close>
     Op (2 - 1) (8 - 4) (m_jp_r16 IX_W) Epilog, \<comment> \<open>0xe9: jp ix\<close>
     Op (4 - 1) (14 - 4) (m_jp_pe_i16 I) Epilog, \<comment> \<open>0xea: jp pe,nn\<close>
     Op (2 - 1) (8 - 4) (m_ex_r16_r16 DE_W HL_W) Epilog, \<comment> \<open>0xeb: ex de,hl\<close>
     Op (4 - 1) (14 - 4) (m_call_pe_i16 I) Epilog, \<comment> \<open>0xec: call pe,nn\<close>
     Op (2 - 1) (8 - 4) (m_nop) Epilog, \<comment> \<open>0xed: prefix $dd,$ed\<close>
     Op (3 - 1) (11 - 4) (m_xor_r08_i08 I AF_H) Epilog, \<comment> \<open>0xee: xor a,n\<close>
     Op (4 - 1) (15 - 4) (m_rst_vec16 I VECTOR_28H) Epilog]"

definition opcodes_dd_f :: "'b iface \<Rightarrow> 'b opcode list" where
  "opcodes_dd_f I = [
     Op (2 - 1) (9 - 4) (m_ret_p I) Epilog, \<comment> \<open>0xf0: ret p\<close>
     Op (4 - 1) (14 - 4) (m_pop_r16 I AF_W) Epilog, \<comment> \<open>0xf1: pop af\<close>
     Op (4 - 1) (14 - 4) (m_jp_p_i16 I) Epilog, \<comment> \<open>0xf2: jp p,nn\<close>
     Op (2 - 1) (8 - 4) (m_di) Epilog, \<comment> \<open>0xf3: di\<close>
     Op (4 - 1) (14 - 4) (m_call_p_i16 I) Epilog, \<comment> \<open>0xf4: call p,nn\<close>
     Op (4 - 1) (15 - 4) (m_push_r16 I AF_W) Epilog, \<comment> \<open>0xf5: push af\<close>
     Op (3 - 1) (11 - 4) (m_or_r08_i08 I AF_H) Epilog, \<comment> \<open>0xf6: or a,n\<close>
     Op (4 - 1) (15 - 4) (m_rst_vec16 I VECTOR_30H) Epilog, \<comment> \<open>0xf7: rst $30\<close>
     Op (2 - 1) (9 - 4) (m_ret_m I) Epilog, \<comment> \<open>0xf8: ret m\<close>
     Op (2 - 1) (10 - 4) (m_ld_r16_r16 SP_W IX_W) Epilog, \<comment> \<open>0xf9: ld sp,ix\<close>
     Op (4 - 1) (14 - 4) (m_jp_m_i16 I) Epilog, \<comment> \<open>0xfa: jp m,nn\<close>
     Op (2 - 1) (8 - 4) (m_ei) Epilog, \<comment> \<open>0xfb: ei\<close>
     Op (4 - 1) (14 - 4) (m_call_m_i16 I) Epilog, \<comment> \<open>0xfc: call m,nn\<close>
     Op (2 - 1) (8 - 4) (m_nop) Epilog, \<comment> \<open>0xfd: prefix $dd,$fd\<close>
     Op (3 - 1) (11 - 4) (m_cp_r08_i08 I AF_H) Epilog, \<comment> \<open>0xfe: cp a,n\<close>
     Op (4 - 1) (15 - 4) (m_rst_vec16 I VECTOR_38H) Epilog]"

definition opcodes_dd :: "'b iface \<Rightarrow> 'b opcode list" where
  "opcodes_dd I = opcodes_dd_0 I @ opcodes_dd_1 I @ opcodes_dd_2 I @ opcodes_dd_3 I @
     opcodes_dd_4 I @ opcodes_dd_5 I @ opcodes_dd_6 I @ opcodes_dd_7 I @
     opcodes_dd_8 I @ opcodes_dd_9 I @ opcodes_dd_a I @ opcodes_dd_b I @
     opcodes_dd_c I @ opcodes_dd_d I @ opcodes_dd_e I @ opcodes_dd_f I"

lemmas opcodes_dd_defs = opcodes_dd_def
  opcodes_dd_0_def opcodes_dd_1_def opcodes_dd_2_def opcodes_dd_3_def
  opcodes_dd_4_def opcodes_dd_5_def opcodes_dd_6_def opcodes_dd_7_def
  opcodes_dd_8_def opcodes_dd_9_def opcodes_dd_a_def opcodes_dd_b_def
  opcodes_dd_c_def opcodes_dd_d_def opcodes_dd_e_def opcodes_dd_f_def

section \<open>The table \<^verbatim>\<open>cpu-opcodes-fd.inc\<close>\<close>

definition opcodes_fd_0 :: "'b iface \<Rightarrow> 'b opcode list" where
  "opcodes_fd_0 I = [
     Op (2 - 1) (8 - 4) (m_nop) Epilog, \<comment> \<open>0x00: nop\<close>
     Op (3 - 1) (14 - 4) (m_ld_r16_i16 I BC_W) Epilog, \<comment> \<open>0x01: ld bc,nn\<close>
     Op (3 - 1) (11 - 4) (m_ld_ind_r16_r08 I BC_W AF_H) Epilog, \<comment> \<open>0x02: ld (bc),a\<close>
     Op (2 - 1) (10 - 4) (m_inc_r16 BC_W) Epilog, \<comment> \<open>0x03: inc bc\<close>
     Op (2 - 1) (8 - 4) (m_inc_r08 BC_H) Epilog, \<comment> \<open>0x04: inc b\<close>
     Op (2 - 1) (8 - 4) (m_dec_r08 BC_H) Epilog, \<comment> \<open>0x05: dec b\<close>
     Op (3 - 1) (11 - 4) (m_ld_r08_i08 I BC_H) Epilog, \<comment> \<open>0x06: ld b,n\<close>
     Op (2 - 1) (8 - 4) (m_rlca) Epilog, \<comment> \<open>0x07: rlca\<close>
     Op (2 - 1) (8 - 4) (m_ex_r16_r16 AF_W AF_P) Epilog, \<comment> \<open>0x08: ex af,af'\<close>
     Op (4 - 1) (15 - 4) (m_add_r16_r16 IY_W BC_W) Epilog, \<comment> \<open>0x09: add iy,bc\<close>
     Op (3 - 1) (11 - 4) (m_ld_r08_ind_r16 I AF_H BC_W) Epilog, \<comment> \<open>0x0a: ld a,(bc)\<close>
     Op (2 - 1) (10 - 4) (m_dec_r16 BC_W) Epilog, \<comment> \<open>0x0b: dec bc\<close>
     Op (2 - 1) (8 - 4) (m_inc_r08 BC_L) Epilog, \<comment> \<open>0x0c: inc c\<close>
     Op (2 - 1) (8 - 4) (m_dec_r08 BC_L) Epilog, \<comment> \<open>0x0d: dec c\<close>
     Op (3 - 1) (11 - 4) (m_ld_r08_i08 I BC_L) Epilog, \<comment> \<open>0x0e: ld c,n\<close>
     Op (2 - 1) (8 - 4) (m_rrca) Epilog]"

definition opcodes_fd_1 :: "'b iface \<Rightarrow> 'b opcode list" where
  "opcodes_fd_1 I = [
     Op (3 - 1) (12 - 4) (m_djnz_i08 I) Epilog, \<comment> \<open>0x10: djnz d\<close>
     Op (3 - 1) (14 - 4) (m_ld_r16_i16 I DE_W) Epilog, \<comment> \<open>0x11: ld de,nn\<close>
     Op (3 - 1) (11 - 4) (m_ld_ind_r16_r08 I DE_W AF_H) Epilog, \<comment> \<open>0x12: ld (de),a\<close>
     Op (2 - 1) (10 - 4) (m_inc_r16 DE_W) Epilog, \<comment> \<open>0x13: inc de\<close>
     Op (2 - 1) (8 - 4) (m_inc_r08 DE_H) Epilog, \<comment> \<open>0x14: inc d\<close>
     Op (2 - 1) (8 - 4) (m_dec_r08 DE_H) Epilog, \<comment> \<open>0x15: dec d\<close>
     Op (3 - 1) (11 - 4) (m_ld_r08_i08 I DE_H) Epilog, \<comment> \<open>0x16: ld d,n\<close>
     Op (2 - 1) (8 - 4) (m_rla) Epilog, \<comment> \<open>0x17: rla\<close>
     Op (4 - 1) (16 - 4) (m_jr_i08 I) Epilog, \<comment> \<open>0x18: jr d\<close>
     Op (4 - 1) (15 - 4) (m_add_r16_r16 IY_W DE_W) Epilog, \<comment> \<open>0x19: add iy,de\<close>
     Op (3 - 1) (11 - 4) (m_ld_r08_ind_r16 I AF_H DE_W) Epilog, \<comment> \<open>0x1a: ld a,(de)\<close>
     Op (2 - 1) (10 - 4) (m_dec_r16 DE_W) Epilog, \<comment> \<open>0x1b: dec de\<close>
     Op (2 - 1) (8 - 4) (m_inc_r08 DE_L) Epilog, \<comment> \<open>0x1c: inc e\<close>
     Op (2 - 1) (8 - 4) (m_dec_r08 DE_L) Epilog, \<comment> \<open>0x1d: dec e\<close>
     Op (3 - 1) (11 - 4) (m_ld_r08_i08 I DE_L) Epilog, \<comment> \<open>0x1e: ld e,n\<close>
     Op (2 - 1) (8 - 4) (m_rra) Epilog]"

definition opcodes_fd_2 :: "'b iface \<Rightarrow> 'b opcode list" where
  "opcodes_fd_2 I = [
     Op (3 - 1) (11 - 4) (m_jr_nz_i08 I) Epilog, \<comment> \<open>0x20: jr nz,d\<close>
     Op (3 - 1) (14 - 4) (m_ld_r16_i16 I IY_W) Epilog, \<comment> \<open>0x21: ld iy,nn\<close>
     Op (6 - 1) (20 - 4) (m_ld_ind_i16_r16 I IY_W) Epilog, \<comment> \<open>0x22: ld (nn),iy\<close>
     Op (2 - 1) (10 - 4) (m_inc_r16 IY_W) Epilog, \<comment> \<open>0x23: inc iy\<close>
     Op (2 - 1) (8 - 4) (m_inc_r08 IY_H) Epilog, \<comment> \<open>0x24: inc iy.h\<close>
     Op (2 - 1) (8 - 4) (m_dec_r08 IY_H) Epilog, \<comment> \<open>0x25: dec iy.h\<close>
     Op (3 - 1) (11 - 4) (m_ld_r08_i08 I IY_H) Epilog, \<comment> \<open>0x26: ld iy.h,n\<close>
     Op (2 - 1) (8 - 4) (m_daa) Epilog, \<comment> \<open>0x27: daa\<close>
     Op (3 - 1) (11 - 4) (m_jr_z_i08 I) Epilog, \<comment> \<open>0x28: jr z,d\<close>
     Op (4 - 1) (15 - 4) (m_add_r16_r16 IY_W IY_W) Epilog, \<comment> \<open>0x29: add iy,iy\<close>
     Op (6 - 1) (20 - 4) (m_ld_r16_ind_i16 I IY_W) Epilog, \<comment> \<open>0x2a: ld iy,(nn)\<close>
     Op (2 - 1) (10 - 4) (m_dec_r16 IY_W) Epilog, \<comment> \<open>0x2b: dec iy\<close>
     Op (2 - 1) (8 - 4) (m_inc_r08 IY_L) Epilog, \<comment> \<open>0x2c: inc iy.l\<close>
     Op (2 - 1) (8 - 4) (m_dec_r08 IY_L) Epilog, \<comment> \<open>0x2d: dec iy.l\<close>
     Op (3 - 1) (11 - 4) (m_ld_r08_i08 I IY_L) Epilog, \<comment> \<open>0x2e: ld iy.l,n\<close>
     Op (2 - 1) (8 - 4) (m_cpl) Epilog]"

definition opcodes_fd_3 :: "'b iface \<Rightarrow> 'b opcode list" where
  "opcodes_fd_3 I = [
     Op (3 - 1) (11 - 4) (m_jr_nc_i08 I) Epilog, \<comment> \<open>0x30: jr nc,d\<close>
     Op (3 - 1) (14 - 4) (m_ld_r16_i16 I SP_W) Epilog, \<comment> \<open>0x31: ld sp,nn\<close>
     Op (5 - 1) (17 - 4) (m_ld_ind_i16_r08 I AF_H) Epilog, \<comment> \<open>0x32: ld (nn),a\<close>
     Op (2 - 1) (10 - 4) (m_inc_r16 SP_W) Epilog, \<comment> \<open>0x33: inc sp\<close>
     Op (6 - 1) (23 - 4) (m_inc_ind_r16_plus_i08 I IY_W) Epilog, \<comment> \<open>0x34: inc (iy+d)\<close>
     Op (6 - 1) (23 - 4) (m_dec_ind_r16_plus_i08 I IY_W) Epilog, \<comment> \<open>0x35: dec (iy+d)\<close>
     Op (5 - 1) (19 - 4) (m_ld_ind_r16_plus_i08_i08 I IY_W) Epilog, \<comment> \<open>0x36: ld (iy+d),n\<close>
     Op (2 - 1) (8 - 4) (m_scf) Epilog, \<comment> \<open>0x37: scf\<close>
     Op (3 - 1) (11 - 4) (m_jr_c_i08 I) Epilog, \<comment> \<open>0x38: jr c,d\<close>
     Op (4 - 1) (15 - 4) (m_add_r16_r16 IY_W SP_W) Epilog, \<comment> \<open>0x39: add iy,sp\<close>
     Op (5 - 1) (17 - 4) (m_ld_r08_ind_i16 I AF_H) Epilog, \<comment> \<open>0x3a: ld a,(nn)\<close>
     Op (2 - 1) (10 - 4) (m_dec_r16 SP_W) Epilog, \<comment> \<open>0x3b: dec sp\<close>
     Op (2 - 1) (8 - 4) (m_inc_r08 AF_H) Epilog, \<comment> \<open>0x3c: inc a\<close>
     Op (2 - 1) (8 - 4) (m_dec_r08 AF_H) Epilog, \<comment> \<open>0x3d: dec a\<close>
     Op (3 - 1) (11 - 4) (m_ld_r08_i08 I AF_H) Epilog, \<comment> \<open>0x3e: ld a,n\<close>
     Op (2 - 1) (8 - 4) (m_ccf) Epilog]"

definition opcodes_fd_4 :: "'b iface \<Rightarrow> 'b opcode list" where
  "opcodes_fd_4 I = [
     Op (2 - 1) (8 - 4) (m_ld_r08_r08 BC_H BC_H) Epilog, \<comment> \<open>0x40: ld b,b\<close>
     Op (2 - 1) (8 - 4) (m_ld_r08_r08 BC_H BC_L) Epilog, \<comment> \<open>0x41: ld b,c\<close>
     Op (2 - 1) (8 - 4) (m_ld_r08_r08 BC_H DE_H) Epilog, \<comment> \<open>0x42: ld b,d\<close>
     Op (2 - 1) (8 - 4) (m_ld_r08_r08 BC_H DE_L) Epilog, \<comment> \<open>0x43: ld b,e\<close>
     Op (2 - 1) (8 - 4) (m_ld_r08_r08 BC_H IY_H) Epilog, \<comment> \<open>0x44: ld b,iy.h\<close>
     Op (2 - 1) (8 - 4) (m_ld_r08_r08 BC_H IY_L) Epilog, \<comment> \<open>0x45: ld b,iy.l\<close>
     Op (5 - 1) (19 - 4) (m_ld_r08_ind_r16_plus_i08 I BC_H IY_W) Epilog, \<comment> \<open>0x46: ld b,(iy+d)\<close>
     Op (2 - 1) (8 - 4) (m_ld_r08_r08 BC_H AF_H) Epilog, \<comment> \<open>0x47: ld b,a\<close>
     Op (2 - 1) (8 - 4) (m_ld_r08_r08 BC_L BC_H) Epilog, \<comment> \<open>0x48: ld c,b\<close>
     Op (2 - 1) (8 - 4) (m_ld_r08_r08 BC_L BC_L) Epilog, \<comment> \<open>0x49: ld c,c\<close>
     Op (2 - 1) (8 - 4) (m_ld_r08_r08 BC_L DE_H) Epilog, \<comment> \<open>0x4a: ld c,d\<close>
     Op (2 - 1) (8 - 4) (m_ld_r08_r08 BC_L DE_L) Epilog, \<comment> \<open>0x4b: ld c,e\<close>
     Op (2 - 1) (8 - 4) (m_ld_r08_r08 BC_L IY_H) Epilog, \<comment> \<open>0x4c: ld c,iy.h\<close>
     Op (2 - 1) (8 - 4) (m_ld_r08_r08 BC_L IY_L) Epilog, \<comment> \<open>0x4d: ld c,iy.l\<close>
     Op (5 - 1) (19 - 4) (m_ld_r08_ind_r16_plus_i08 I BC_L IY_W) Epilog, \<comment> \<open>0x4e: ld c,(iy+d)\<close>
     Op (2 - 1) (8 - 4) (m_ld_r08_r08 BC_L AF_H) Epilog]"

definition opcodes_fd_5 :: "'b iface \<Rightarrow> 'b opcode list" where
  "opcodes_fd_5 I = [
     Op (2 - 1) (8 - 4) (m_ld_r08_r08 DE_H BC_H) Epilog, \<comment> \<open>0x50: ld d,b\<close>
     Op (2 - 1) (8 - 4) (m_ld_r08_r08 DE_H BC_L) Epilog, \<comment> \<open>0x51: ld d,c\<close>
     Op (2 - 1) (8 - 4) (m_ld_r08_r08 DE_H DE_H) Epilog, \<comment> \<open>0x52: ld d,d\<close>
     Op (2 - 1) (8 - 4) (m_ld_r08_r08 DE_H DE_L) Epilog, \<comment> \<open>0x53: ld d,e\<close>
     Op (2 - 1) (8 - 4) (m_ld_r08_r08 DE_H IY_H) Epilog, \<comment> \<open>0x54: ld d,iy.h\<close>
     Op (2 - 1) (8 - 4) (m_ld_r08_r08 DE_H IY_L) Epilog, \<comment> \<open>0x55: ld d,iy.l\<close>
     Op (5 - 1) (19 - 4) (m_ld_r08_ind_r16_plus_i08 I DE_H IY_W) Epilog, \<comment> \<open>0x56: ld d,(iy+d)\<close>
     Op (2 - 1) (8 - 4) (m_ld_r08_r08 DE_H AF_H) Epilog, \<comment> \<open>0x57: ld d,a\<close>
     Op (2 - 1) (8 - 4) (m_ld_r08_r08 DE_L BC_H) Epilog, \<comment> \<open>0x58: ld e,b\<close>
     Op (2 - 1) (8 - 4) (m_ld_r08_r08 DE_L BC_L) Epilog, \<comment> \<open>0x59: ld e,c\<close>
     Op (2 - 1) (8 - 4) (m_ld_r08_r08 DE_L DE_H) Epilog, \<comment> \<open>0x5a: ld e,d\<close>
     Op (2 - 1) (8 - 4) (m_ld_r08_r08 DE_L DE_L) Epilog, \<comment> \<open>0x5b: ld e,e\<close>
     Op (2 - 1) (8 - 4) (m_ld_r08_r08 DE_L IY_H) Epilog, \<comment> \<open>0x5c: ld e,iy.h\<close>
     Op (2 - 1) (8 - 4) (m_ld_r08_r08 DE_L IY_L) Epilog, \<comment> \<open>0x5d: ld e,iy.l\<close>
     Op (5 - 1) (19 - 4) (m_ld_r08_ind_r16_plus_i08 I DE_L IY_W) Epilog, \<comment> \<open>0x5e: ld e,(iy+d)\<close>
     Op (2 - 1) (8 - 4) (m_ld_r08_r08 DE_L AF_H) Epilog]"

definition opcodes_fd_6 :: "'b iface \<Rightarrow> 'b opcode list" where
  "opcodes_fd_6 I = [
     Op (2 - 1) (8 - 4) (m_ld_r08_r08 IY_H BC_H) Epilog, \<comment> \<open>0x60: ld iy.h,b\<close>
     Op (2 - 1) (8 - 4) (m_ld_r08_r08 IY_H BC_L) Epilog, \<comment> \<open>0x61: ld iy.h,c\<close>
     Op (2 - 1) (8 - 4) (m_ld_r08_r08 IY_H DE_H) Epilog, \<comment> \<open>0x62: ld iy.h,d\<close>
     Op (2 - 1) (8 - 4) (m_ld_r08_r08 IY_H DE_L) Epilog, \<comment> \<open>0x63: ld iy.h,e\<close>
     Op (2 - 1) (8 - 4) (m_ld_r08_r08 IY_H IY_H) Epilog, \<comment> \<open>0x64: ld iy.h,iy.h\<close>
     Op (2 - 1) (8 - 4) (m_ld_r08_r08 IY_H IY_L) Epilog, \<comment> \<open>0x65: ld iy.h,iy.l\<close>
     Op (5 - 1) (19 - 4) (m_ld_r08_ind_r16_plus_i08 I HL_H IY_W) Epilog, \<comment> \<open>0x66: ld h,(iy+d)\<close>
     Op (2 - 1) (8 - 4) (m_ld_r08_r08 IY_H AF_H) Epilog, \<comment> \<open>0x67: ld iy.h,a\<close>
     Op (2 - 1) (8 - 4) (m_ld_r08_r08 IY_L BC_H) Epilog, \<comment> \<open>0x68: ld iy.l,b\<close>
     Op (2 - 1) (8 - 4) (m_ld_r08_r08 IY_L BC_L) Epilog, \<comment> \<open>0x69: ld iy.l,c\<close>
     Op (2 - 1) (8 - 4) (m_ld_r08_r08 IY_L DE_H) Epilog, \<comment> \<open>0x6a: ld iy.l,d\<close>
     Op (2 - 1) (8 - 4) (m_ld_r08_r08 IY_L DE_L) Epilog, \<comment> \<open>0x6b: ld iy.l,e\<close>
     Op (2 - 1) (8 - 4) (m_ld_r08_r08 IY_L IY_H) Epilog, \<comment> \<open>0x6c: ld iy.l,iy.h\<close>
     Op (2 - 1) (8 - 4) (m_ld_r08_r08 IY_L IY_L) Epilog, \<comment> \<open>0x6d: ld iy.l,iy.l\<close>
     Op (5 - 1) (19 - 4) (m_ld_r08_ind_r16_plus_i08 I HL_L IY_W) Epilog, \<comment> \<open>0x6e: ld l,(iy+d)\<close>
     Op (2 - 1) (8 - 4) (m_ld_r08_r08 IY_L AF_H) Epilog]"

definition opcodes_fd_7 :: "'b iface \<Rightarrow> 'b opcode list" where
  "opcodes_fd_7 I = [
     Op (5 - 1) (19 - 4) (m_ld_ind_r16_plus_i08_r08 I IY_W BC_H) Epilog, \<comment> \<open>0x70: ld (iy+d),b\<close>
     Op (5 - 1) (19 - 4) (m_ld_ind_r16_plus_i08_r08 I IY_W BC_L) Epilog, \<comment> \<open>0x71: ld (iy+d),c\<close>
     Op (5 - 1) (19 - 4) (m_ld_ind_r16_plus_i08_r08 I IY_W DE_H) Epilog, \<comment> \<open>0x72: ld (iy+d),d\<close>
     Op (5 - 1) (19 - 4) (m_ld_ind_r16_plus_i08_r08 I IY_W DE_L) Epilog, \<comment> \<open>0x73: ld (iy+d),e\<close>
     Op (5 - 1) (19 - 4) (m_ld_ind_r16_plus_i08_r08 I IY_W HL_H) Epilog, \<comment> \<open>0x74: ld (iy+d),h\<close>
     Op (5 - 1) (19 - 4) (m_ld_ind_r16_plus_i08_r08 I IY_W HL_L) Epilog, \<comment> \<open>0x75: ld (iy+d),l\<close>
     Op (2 - 1) (8 - 4) (m_halt) Epilog, \<comment> \<open>0x76: halt\<close>
     Op (5 - 1) (19 - 4) (m_ld_ind_r16_plus_i08_r08 I IY_W AF_H) Epilog, \<comment> \<open>0x77: ld (iy+d),a\<close>
     Op (2 - 1) (8 - 4) (m_ld_r08_r08 AF_H BC_H) Epilog, \<comment> \<open>0x78: ld a,b\<close>
     Op (2 - 1) (8 - 4) (m_ld_r08_r08 AF_H BC_L) Epilog, \<comment> \<open>0x79: ld a,c\<close>
     Op (2 - 1) (8 - 4) (m_ld_r08_r08 AF_H DE_H) Epilog, \<comment> \<open>0x7a: ld a,d\<close>
     Op (2 - 1) (8 - 4) (m_ld_r08_r08 AF_H DE_L) Epilog, \<comment> \<open>0x7b: ld a,e\<close>
     Op (2 - 1) (8 - 4) (m_ld_r08_r08 AF_H IY_H) Epilog, \<comment> \<open>0x7c: ld a,iy.h\<close>
     Op (2 - 1) (8 - 4) (m_ld_r08_r08 AF_H IY_L) Epilog, \<comment> \<open>0x7d: ld a,iy.l\<close>
     Op (5 - 1) (19 - 4) (m_ld_r08_ind_r16_plus_i08 I AF_H IY_W) Epilog, \<comment> \<open>0x7e: ld a,(iy+d)\<close>
     Op (2 - 1) (8 - 4) (m_ld_r08_r08 AF_H AF_H) Epilog]"

definition opcodes_fd_8 :: "'b iface \<Rightarrow> 'b opcode list" where
  "opcodes_fd_8 I = [
     Op (2 - 1) (8 - 4) (m_add_r08_r08 AF_H BC_H) Epilog, \<comment> \<open>0x80: add a,b\<close>
     Op (2 - 1) (8 - 4) (m_add_r08_r08 AF_H BC_L) Epilog, \<comment> \<open>0x81: add a,c\<close>
     Op (2 - 1) (8 - 4) (m_add_r08_r08 AF_H DE_H) Epilog, \<comment> \<open>0x82: add a,d\<close>
     Op (2 - 1) (8 - 4) (m_add_r08_r08 AF_H DE_L) Epilog, \<comment> \<open>0x83: add a,e\<close>
     Op (2 - 1) (8 - 4) (m_add_r08_r08 AF_H IY_H) Epilog, \<comment> \<open>0x84: add a,iy.h\<close>
     Op (2 - 1) (8 - 4) (m_add_r08_r08 AF_H IY_L) Epilog, \<comment> \<open>0x85: add a,iy.l\<close>
     Op (5 - 1) (19 - 4) (m_add_r08_ind_r16_plus_i08 I AF_H IY_W) Epilog, \<comment> \<open>0x86: add a,(iy+d)\<close>
     Op (2 - 1) (8 - 4) (m_add_r08_r08 AF_H AF_H) Epilog, \<comment> \<open>0x87: add a,a\<close>
     Op (2 - 1) (8 - 4) (m_adc_r08_r08 AF_H BC_H) Epilog, \<comment> \<open>0x88: adc a,b\<close>
     Op (2 - 1) (8 - 4) (m_adc_r08_r08 AF_H BC_L) Epilog, \<comment> \<open>0x89: adc a,c\<close>
     Op (2 - 1) (8 - 4) (m_adc_r08_r08 AF_H DE_H) Epilog, \<comment> \<open>0x8a: adc a,d\<close>
     Op (2 - 1) (8 - 4) (m_adc_r08_r08 AF_H DE_L) Epilog, \<comment> \<open>0x8b: adc a,e\<close>
     Op (2 - 1) (8 - 4) (m_adc_r08_r08 AF_H IY_H) Epilog, \<comment> \<open>0x8c: adc a,iy.h\<close>
     Op (2 - 1) (8 - 4) (m_adc_r08_r08 AF_H IY_L) Epilog, \<comment> \<open>0x8d: adc a,iy.l\<close>
     Op (5 - 1) (19 - 4) (m_adc_r08_ind_r16_plus_i08 I AF_H IY_W) Epilog, \<comment> \<open>0x8e: adc a,(iy+d)\<close>
     Op (2 - 1) (8 - 4) (m_adc_r08_r08 AF_H AF_H) Epilog]"

definition opcodes_fd_9 :: "'b iface \<Rightarrow> 'b opcode list" where
  "opcodes_fd_9 I = [
     Op (2 - 1) (8 - 4) (m_sub_r08_r08 AF_H BC_H) Epilog, \<comment> \<open>0x90: sub a,b\<close>
     Op (2 - 1) (8 - 4) (m_sub_r08_r08 AF_H BC_L) Epilog, \<comment> \<open>0x91: sub a,c\<close>
     Op (2 - 1) (8 - 4) (m_sub_r08_r08 AF_H DE_H) Epilog, \<comment> \<open>0x92: sub a,d\<close>
     Op (2 - 1) (8 - 4) (m_sub_r08_r08 AF_H DE_L) Epilog, \<comment> \<open>0x93: sub a,e\<close>
     Op (2 - 1) (8 - 4) (m_sub_r08_r08 AF_H IY_H) Epilog, \<comment> \<open>0x94: sub a,iy.h\<close>
     Op (2 - 1) (8 - 4) (m_sub_r08_r08 AF_H IY_L) Epilog, \<comment> \<open>0x95: sub a,iy.l\<close>
     Op (5 - 1) (19 - 4) (m_sub_r08_ind_r16_plus_i08 I AF_H IY_W) Epilog, \<comment> \<open>0x96: sub a,(iy+d)\<close>
     Op (2 - 1) (8 - 4) (m_sub_r08_r08 AF_H AF_H) Epilog, \<comment> \<open>0x97: sub a,a\<close>
     Op (2 - 1) (8 - 4) (m_sbc_r08_r08 AF_H BC_H) Epilog, \<comment> \<open>0x98: sbc a,b\<close>
     Op (2 - 1) (8 - 4) (m_sbc_r08_r08 AF_H BC_L) Epilog, \<comment> \<open>0x99: sbc a,c\<close>
     Op (2 - 1) (8 - 4) (m_sbc_r08_r08 AF_H DE_H) Epilog, \<comment> \<open>0x9a: sbc a,d\<close>
     Op (2 - 1) (8 - 4) (m_sbc_r08_r08 AF_H DE_L) Epilog, \<comment> \<open>0x9b: sbc a,e\<close>
     Op (2 - 1) (8 - 4) (m_sbc_r08_r08 AF_H IY_H) Epilog, \<comment> \<open>0x9c: sbc a,iy.h\<close>
     Op (2 - 1) (8 - 4) (m_sbc_r08_r08 AF_H IY_L) Epilog, \<comment> \<open>0x9d: sbc a,iy.l\<close>
     Op (5 - 1) (19 - 4) (m_sbc_r08_ind_r16_plus_i08 I AF_H IY_W) Epilog, \<comment> \<open>0x9e: sbc a,(iy+d)\<close>
     Op (2 - 1) (8 - 4) (m_sbc_r08_r08 AF_H AF_H) Epilog]"

definition opcodes_fd_a :: "'b iface \<Rightarrow> 'b opcode list" where
  "opcodes_fd_a I = [
     Op (2 - 1) (8 - 4) (m_and_r08_r08 AF_H BC_H) Epilog, \<comment> \<open>0xa0: and a,b\<close>
     Op (2 - 1) (8 - 4) (m_and_r08_r08 AF_H BC_L) Epilog, \<comment> \<open>0xa1: and a,c\<close>
     Op (2 - 1) (8 - 4) (m_and_r08_r08 AF_H DE_H) Epilog, \<comment> \<open>0xa2: and a,d\<close>
     Op (2 - 1) (8 - 4) (m_and_r08_r08 AF_H DE_L) Epilog, \<comment> \<open>0xa3: and a,e\<close>
     Op (2 - 1) (8 - 4) (m_and_r08_r08 AF_H IY_H) Epilog, \<comment> \<open>0xa4: and a,iy.h\<close>
     Op (2 - 1) (8 - 4) (m_and_r08_r08 AF_H IY_L) Epilog, \<comment> \<open>0xa5: and a,iy.l\<close>
     Op (5 - 1) (19 - 4) (m_and_r08_ind_r16_plus_i08 I AF_H IY_W) Epilog, \<comment> \<open>0xa6: and a,(iy+d)\<close>
     Op (2 - 1) (8 - 4) (m_and_r08_r08 AF_H AF_H) Epilog, \<comment> \<open>0xa7: and a,a\<close>
     Op (2 - 1) (8 - 4) (m_xor_r08_r08 AF_H BC_H) Epilog, \<comment> \<open>0xa8: xor a,b\<close>
     Op (2 - 1) (8 - 4) (m_xor_r08_r08 AF_H BC_L) Epilog, \<comment> \<open>0xa9: xor a,c\<close>
     Op (2 - 1) (8 - 4) (m_xor_r08_r08 AF_H DE_H) Epilog, \<comment> \<open>0xaa: xor a,d\<close>
     Op (2 - 1) (8 - 4) (m_xor_r08_r08 AF_H DE_L) Epilog, \<comment> \<open>0xab: xor a,e\<close>
     Op (2 - 1) (8 - 4) (m_xor_r08_r08 AF_H IY_H) Epilog, \<comment> \<open>0xac: xor a,iy.h\<close>
     Op (2 - 1) (8 - 4) (m_xor_r08_r08 AF_H IY_L) Epilog, \<comment> \<open>0xad: xor a,iy.l\<close>
     Op (5 - 1) (19 - 4) (m_xor_r08_ind_r16_plus_i08 I AF_H IY_W) Epilog, \<comment> \<open>0xae: xor a,(iy+d)\<close>
     Op (2 - 1) (8 - 4) (m_xor_r08_r08 AF_H AF_H) Epilog]"

definition opcodes_fd_b :: "'b iface \<Rightarrow> 'b opcode list" where
  "opcodes_fd_b I = [
     Op (2 - 1) (8 - 4) (m_or_r08_r08 AF_H BC_H) Epilog, \<comment> \<open>0xb0: or a,b\<close>
     Op (2 - 1) (8 - 4) (m_or_r08_r08 AF_H BC_L) Epilog, \<comment> \<open>0xb1: or a,c\<close>
     Op (2 - 1) (8 - 4) (m_or_r08_r08 AF_H DE_H) Epilog, \<comment> \<open>0xb2: or a,d\<close>
     Op (2 - 1) (8 - 4) (m_or_r08_r08 AF_H DE_L) Epilog, \<comment> \<open>0xb3: or a,e\<close>
     Op (2 - 1) (8 - 4) (m_or_r08_r08 AF_H IY_H) Epilog, \<comment> \<open>0xb4: or a,iy.h\<close>
     Op (2 - 1) (8 - 4) (m_or_r08_r08 AF_H IY_L) Epilog, \<comment> \<open>0xb5: or a,iy.l\<close>
     Op (5 - 1) (19 - 4) (m_or_r08_ind_r16_plus_i08 I AF_H IY_W) Epilog, \<comment> \<open>0xb6: or a,(iy+d)\<close>
     Op (2 - 1) (8 - 4) (m_or_r08_r08 AF_H AF_H) Epilog, \<comment> \<open>0xb7: or a,a\<close>
     Op (2 - 1) (8 - 4) (m_cp_r08_r08 AF_H BC_H) Epilog, \<comment> \<open>0xb8: cp a,b\<close>
     Op (2 - 1) (8 - 4) (m_cp_r08_r08 AF_H BC_L) Epilog, \<comment> \<open>0xb9: cp a,c\<close>
     Op (2 - 1) (8 - 4) (m_cp_r08_r08 AF_H DE_H) Epilog, \<comment> \<open>0xba: cp a,d\<close>
     Op (2 - 1) (8 - 4) (m_cp_r08_r08 AF_H DE_L) Epilog, \<comment> \<open>0xbb: cp a,e\<close>
     Op (2 - 1) (8 - 4) (m_cp_r08_r08 AF_H IY_H) Epilog, \<comment> \<open>0xbc: cp a,iy.h\<close>
     Op (2 - 1) (8 - 4) (m_cp_r08_r08 AF_H IY_L) Epilog, \<comment> \<open>0xbd: cp a,iy.l\<close>
     Op (5 - 1) (19 - 4) (m_cp_r08_ind_r16_plus_i08 I AF_H IY_W) Epilog, \<comment> \<open>0xbe: cp a,(iy+d)\<close>
     Op (2 - 1) (8 - 4) (m_cp_r08_r08 AF_H AF_H) Epilog]"

definition opcodes_fd_c :: "'b iface \<Rightarrow> 'b opcode list" where
  "opcodes_fd_c I = [
     Op (2 - 1) (9 - 4) (m_ret_nz I) Epilog, \<comment> \<open>0xc0: ret nz\<close>
     Op (4 - 1) (14 - 4) (m_pop_r16 I BC_W) Epilog, \<comment> \<open>0xc1: pop bc\<close>
     Op (4 - 1) (14 - 4) (m_jp_nz_i16 I) Epilog, \<comment> \<open>0xc2: jp nz,nn\<close>
     Op (4 - 1) (14 - 4) (m_jp_i16 I) Epilog, \<comment> \<open>0xc3: jp nn\<close>
     Op (4 - 1) (14 - 4) (m_call_nz_i16 I) Epilog, \<comment> \<open>0xc4: call nz,nn\<close>
     Op (4 - 1) (15 - 4) (m_push_r16 I BC_W) Epilog, \<comment> \<open>0xc5: push bc\<close>
     Op (3 - 1) (11 - 4) (m_add_r08_i08 I AF_H) Epilog, \<comment> \<open>0xc6: add a,n\<close>
     Op (4 - 1) (15 - 4) (m_rst_vec16 I VECTOR_00H) Epilog, \<comment> \<open>0xc7: rst $00\<close>
     Op (2 - 1) (9 - 4) (m_ret_z I) Epilog, \<comment> \<open>0xc8: ret z\<close>
     Op (4 - 1) (14 - 4) (m_ret I) Epilog, \<comment> \<open>0xc9: ret\<close>
     Op (4 - 1) (14 - 4) (m_jp_z_i16 I) Epilog, \<comment> \<open>0xca: jp z,nn\<close>
     Op (2 - 1) (8 - 4) (m_nop) Fetch_fdcb, \<comment> \<open>0xcb: prefix $fd,$cb\<close>
     Op (4 - 1) (14 - 4) (m_call_z_i16 I) Epilog, \<comment> \<open>0xcc: call z,nn\<close>
     Op (6 - 1) (21 - 4) (m_call_i16 I) Epilog, \<comment> \<open>0xcd: call nn\<close>
     Op (3 - 1) (11 - 4) (m_adc_r08_i08 I AF_H) Epilog, \<comment> \<open>0xce: adc a,n\<close>
     Op (4 - 1) (15 - 4) (m_rst_vec16 I VECTOR_08H) Epilog]"

definition opcodes_fd_d :: "'b iface \<Rightarrow> 'b opcode list" where
  "opcodes_fd_d I = [
     Op (2 - 1) (9 - 4) (m_ret_nc I) Epilog, \<comment> \<open>0xd0: ret nc\<close>
     Op (4 - 1) (14 - 4) (m_pop_r16 I DE_W) Epilog, \<comment> \<open>0xd1: pop de\<close>
     Op (4 - 1) (14 - 4) (m_jp_nc_i16 I) Epilog, \<comment> \<open>0xd2: jp nc,nn\<close>
     Op (4 - 1) (15 - 4) (m_out_ind_i08_r08 I AF_H) Epilog, \<comment> \<open>0xd3: out (n),a\<close>
     Op (4 - 1) (14 - 4) (m_call_nc_i16 I) Epilog, \<comment> \<open>0xd4: call nc,nn\<close>
     Op (4 - 1) (15 - 4) (m_push_r16 I DE_W) Epilog, \<comment> \<open>0xd5: push de\<close>
     Op (3 - 1) (11 - 4) (m_sub_r08_i08 I AF_H) Epilog, \<comment> \<open>0xd6: sub a,n\<close>
     Op (4 - 1) (15 - 4) (m_rst_vec16 I VECTOR_10H) Epilog, \<comment> \<open>0xd7: rst $10\<close>
     Op (2 - 1) (9 - 4) (m_ret_c I) Epilog, \<comment> \<open>0xd8: ret c\<close>
     Op (2 - 1) (8 - 4) (m_exx) Epilog, \<comment> \<open>0xd9: exx\<close>
     Op (4 - 1) (14 - 4) (m_jp_c_i16 I) Epilog, \<comment> \<open>0xda: jp c,nn\<close>
     Op (4 - 1) (15 - 4) (m_in_r08_ind_i08 I AF_H) Epilog, \<comment> \<open>0xdb: in a,(n)\<close>
     Op (4 - 1) (14 - 4) (m_call_c_i16 I) Epilog, \<comment> \<open>0xdc: call c,nn\<close>
     Op (2 - 1) (8 - 4) (m_nop) Epilog, \<comment> \<open>0xdd: prefix $fd,$dd\<close>
     Op (3 - 1) (11 - 4) (m_sbc_r08_i08 I AF_H) Epilog, \<comment> \<open>0xde: sbc a,n\<close>
     Op (4 - 1) (15 - 4) (m_rst_vec16 I VECTOR_18H) Epilog]"

definition opcodes_fd_e :: "'b iface \<Rightarrow> 'b opcode list" where
  "opcodes_fd_e I = [
     Op (2 - 1) (9 - 4) (m_ret_po I) Epilog, \<comment> \<open>0xe0: ret po\<close>
     Op (4 - 1) (14 - 4) (m_pop_r16 I IY_W) Epilog, \<comment> \<open>0xe1: pop iy\<close>
     Op (4 - 1) (14 - 4) (m_jp_po_i16 I) Epilog, \<comment> \<open>0xe2: jp po,nn\<close>
     Op (6 - 1) (23 - 4) (m_ex_ind_r16_r16 I SP_W IY_W) Epilog, \<comment> \<open>0xe3: ex (sp),iy\<close>
     Op (4 - 1) (14 - 4) (m_call_po_i16 I) Epilog, \<comment> \<open>0xe4: call po,nn\<close>
     Op (4 - 1) (15 - 4) (m_push_r16 I IY_W) Epilog, \<comment> \<open>0xe5: push iy\<close>
     Op (3 - 1) (11 - 4) (m_and_r08_i08 I AF_H) Epilog, \<comment> \<open>0xe6: and a,n\<close>
     Op (4 - 1) (15 - 4) (m_rst_vec16 I VECTOR_20H) Epilog, \<comment> \<open>0xe7: rst $20\<close>
     Op (2 - 1) (9 - 4) (m_ret_pe I) Epilog, \<comment> \<open>0xe8: ret pe\<close>
     Op (2 - 1) (8 - 4) (m_jp_r16 IY_W) Epilog, \<comment> \<open>0xe9: jp iy\<close>
     Op (4 - 1) (14 - 4) (m_jp_pe_i16 I) Epilog, \<comment> \<open>0xea: jp pe,nn\<close>
     Op (2 - 1) (8 - 4) (m_ex_r16_r16 DE_W HL_W) Epilog, \<comment> \<open>0xeb: ex de,hl\<close>
     Op (4 - 1) (14 - 4) (m_call_pe_i16 I) Epilog, \<comment> \<open>0xec: call pe,nn\<close>
     Op (2 - 1) (8 - 4) (m_nop) Epilog, \<comment> \<open>0xed: prefix $fd,$ed\<close>
     Op (3 - 1) (11 - 4) (m_xor_r08_i08 I AF_H) Epilog, \<comment> \<open>0xee: xor a,n\<close>
     Op (4 - 1) (15 - 4) (m_rst_vec16 I VECTOR_28H) Epilog]"

definition opcodes_fd_f :: "'b iface \<Rightarrow> 'b opcode list" where
  "opcodes_fd_f I = [
     Op (2 - 1) (9 - 4) (m_ret_p I) Epilog, \<comment> \<open>0xf0: ret p\<close>
     Op (4 - 1) (14 - 4) (m_pop_r16 I AF_W) Epilog, \<comment> \<open>0xf1: pop af\<close>
     Op (4 - 1) (14 - 4) (m_jp_p_i16 I) Epilog, \<comment> \<open>0xf2: jp p,nn\<close>
     Op (2 - 1) (8 - 4) (m_di) Epilog, \<comment> \<open>0xf3: di\<close>
     Op (4 - 1) (14 - 4) (m_call_p_i16 I) Epilog, \<comment> \<open>0xf4: call p,nn\<close>
     Op (4 - 1) (15 - 4) (m_push_r16 I AF_W) Epilog, \<comment> \<open>0xf5: push af\<close>
     Op (3 - 1) (11 - 4) (m_or_r08_i08 I AF_H) Epilog, \<comment> \<open>0xf6: or a,n\<close>
     Op (4 - 1) (15 - 4) (m_rst_vec16 I VECTOR_30H) Epilog, \<comment> \<open>0xf7: rst $30\<close>
     Op (2 - 1) (9 - 4) (m_ret_m I) Epilog, \<comment> \<open>0xf8: ret m\<close>
     Op (2 - 1) (10 - 4) (m_ld_r16_r16 SP_W IY_W) Epilog, \<comment> \<open>0xf9: ld sp,iy\<close>
     Op (4 - 1) (14 - 4) (m_jp_m_i16 I) Epilog, \<comment> \<open>0xfa: jp m,nn\<close>
     Op (2 - 1) (8 - 4) (m_ei) Epilog, \<comment> \<open>0xfb: ei\<close>
     Op (4 - 1) (14 - 4) (m_call_m_i16 I) Epilog, \<comment> \<open>0xfc: call m,nn\<close>
     Op (2 - 1) (8 - 4) (m_nop) Epilog, \<comment> \<open>0xfd: prefix $fd,$fd\<close>
     Op (3 - 1) (11 - 4) (m_cp_r08_i08 I AF_H) Epilog, \<comment> \<open>0xfe: cp a,n\<close>
     Op (4 - 1) (15 - 4) (m_rst_vec16 I VECTOR_38H) Epilog]"

definition opcodes_fd :: "'b iface \<Rightarrow> 'b opcode list" where
  "opcodes_fd I = opcodes_fd_0 I @ opcodes_fd_1 I @ opcodes_fd_2 I @ opcodes_fd_3 I @
     opcodes_fd_4 I @ opcodes_fd_5 I @ opcodes_fd_6 I @ opcodes_fd_7 I @
     opcodes_fd_8 I @ opcodes_fd_9 I @ opcodes_fd_a I @ opcodes_fd_b I @
     opcodes_fd_c I @ opcodes_fd_d I @ opcodes_fd_e I @ opcodes_fd_f I"

lemmas opcodes_fd_defs = opcodes_fd_def
  opcodes_fd_0_def opcodes_fd_1_def opcodes_fd_2_def opcodes_fd_3_def
  opcodes_fd_4_def opcodes_fd_5_def opcodes_fd_6_def opcodes_fd_7_def
  opcodes_fd_8_def opcodes_fd_9_def opcodes_fd_a_def opcodes_fd_b_def
  opcodes_fd_c_def opcodes_fd_d_def opcodes_fd_e_def opcodes_fd_f_def

section \<open>The table \<^verbatim>\<open>cpu-opcodes-ddcb.inc\<close>\<close>

definition opcodes_ddcb_0 :: "'b iface \<Rightarrow> 'b opcode list" where
  "opcodes_ddcb_0 I = [
     Op (6 - 2) (23 - 8) (m_rlc_ind_r16_plus_i08_r08 I IX_W BC_H) Epilog, \<comment> \<open>0x00: rlc (ix+d),b\<close>
     Op (6 - 2) (23 - 8) (m_rlc_ind_r16_plus_i08_r08 I IX_W BC_L) Epilog, \<comment> \<open>0x01: rlc (ix+d),c\<close>
     Op (6 - 2) (23 - 8) (m_rlc_ind_r16_plus_i08_r08 I IX_W DE_H) Epilog, \<comment> \<open>0x02: rlc (ix+d),d\<close>
     Op (6 - 2) (23 - 8) (m_rlc_ind_r16_plus_i08_r08 I IX_W DE_L) Epilog, \<comment> \<open>0x03: rlc (ix+d),e\<close>
     Op (6 - 2) (23 - 8) (m_rlc_ind_r16_plus_i08_r08 I IX_W HL_H) Epilog, \<comment> \<open>0x04: rlc (ix+d),h\<close>
     Op (6 - 2) (23 - 8) (m_rlc_ind_r16_plus_i08_r08 I IX_W HL_L) Epilog, \<comment> \<open>0x05: rlc (ix+d),l\<close>
     Op (6 - 2) (23 - 8) (m_rlc_ind_r16_plus_i08 I IX_W) Epilog, \<comment> \<open>0x06: rlc (ix+d)\<close>
     Op (6 - 2) (23 - 8) (m_rlc_ind_r16_plus_i08_r08 I IX_W AF_H) Epilog, \<comment> \<open>0x07: rlc (ix+d),a\<close>
     Op (6 - 2) (23 - 8) (m_rrc_ind_r16_plus_i08_r08 I IX_W BC_H) Epilog, \<comment> \<open>0x08: rrc (ix+d),b\<close>
     Op (6 - 2) (23 - 8) (m_rrc_ind_r16_plus_i08_r08 I IX_W BC_L) Epilog, \<comment> \<open>0x09: rrc (ix+d),c\<close>
     Op (6 - 2) (23 - 8) (m_rrc_ind_r16_plus_i08_r08 I IX_W DE_H) Epilog, \<comment> \<open>0x0a: rrc (ix+d),d\<close>
     Op (6 - 2) (23 - 8) (m_rrc_ind_r16_plus_i08_r08 I IX_W DE_L) Epilog, \<comment> \<open>0x0b: rrc (ix+d),e\<close>
     Op (6 - 2) (23 - 8) (m_rrc_ind_r16_plus_i08_r08 I IX_W HL_H) Epilog, \<comment> \<open>0x0c: rrc (ix+d),h\<close>
     Op (6 - 2) (23 - 8) (m_rrc_ind_r16_plus_i08_r08 I IX_W HL_L) Epilog, \<comment> \<open>0x0d: rrc (ix+d),l\<close>
     Op (6 - 2) (23 - 8) (m_rrc_ind_r16_plus_i08 I IX_W) Epilog, \<comment> \<open>0x0e: rrc (ix+d)\<close>
     Op (6 - 2) (23 - 8) (m_rrc_ind_r16_plus_i08_r08 I IX_W AF_H) Epilog]"

definition opcodes_ddcb_1 :: "'b iface \<Rightarrow> 'b opcode list" where
  "opcodes_ddcb_1 I = [
     Op (6 - 2) (23 - 8) (m_rl_ind_r16_plus_i08_r08 I IX_W BC_H) Epilog, \<comment> \<open>0x10: rl (ix+d),b\<close>
     Op (6 - 2) (23 - 8) (m_rl_ind_r16_plus_i08_r08 I IX_W BC_L) Epilog, \<comment> \<open>0x11: rl (ix+d),c\<close>
     Op (6 - 2) (23 - 8) (m_rl_ind_r16_plus_i08_r08 I IX_W DE_H) Epilog, \<comment> \<open>0x12: rl (ix+d),d\<close>
     Op (6 - 2) (23 - 8) (m_rl_ind_r16_plus_i08_r08 I IX_W DE_L) Epilog, \<comment> \<open>0x13: rl (ix+d),e\<close>
     Op (6 - 2) (23 - 8) (m_rl_ind_r16_plus_i08_r08 I IX_W HL_H) Epilog, \<comment> \<open>0x14: rl (ix+d),h\<close>
     Op (6 - 2) (23 - 8) (m_rl_ind_r16_plus_i08_r08 I IX_W HL_L) Epilog, \<comment> \<open>0x15: rl (ix+d),l\<close>
     Op (6 - 2) (23 - 8) (m_rl_ind_r16_plus_i08 I IX_W) Epilog, \<comment> \<open>0x16: rl (ix+d)\<close>
     Op (6 - 2) (23 - 8) (m_rl_ind_r16_plus_i08_r08 I IX_W AF_H) Epilog, \<comment> \<open>0x17: rl (ix+d),a\<close>
     Op (6 - 2) (23 - 8) (m_rr_ind_r16_plus_i08_r08 I IX_W BC_H) Epilog, \<comment> \<open>0x18: rr (ix+d),b\<close>
     Op (6 - 2) (23 - 8) (m_rr_ind_r16_plus_i08_r08 I IX_W BC_L) Epilog, \<comment> \<open>0x19: rr (ix+d),c\<close>
     Op (6 - 2) (23 - 8) (m_rr_ind_r16_plus_i08_r08 I IX_W DE_H) Epilog, \<comment> \<open>0x1a: rr (ix+d),d\<close>
     Op (6 - 2) (23 - 8) (m_rr_ind_r16_plus_i08_r08 I IX_W DE_L) Epilog, \<comment> \<open>0x1b: rr (ix+d),e\<close>
     Op (6 - 2) (23 - 8) (m_rr_ind_r16_plus_i08_r08 I IX_W HL_H) Epilog, \<comment> \<open>0x1c: rr (ix+d),h\<close>
     Op (6 - 2) (23 - 8) (m_rr_ind_r16_plus_i08_r08 I IX_W HL_L) Epilog, \<comment> \<open>0x1d: rr (ix+d),l\<close>
     Op (6 - 2) (23 - 8) (m_rr_ind_r16_plus_i08 I IX_W) Epilog, \<comment> \<open>0x1e: rr (ix+d)\<close>
     Op (6 - 2) (23 - 8) (m_rr_ind_r16_plus_i08_r08 I IX_W AF_H) Epilog]"

definition opcodes_ddcb_2 :: "'b iface \<Rightarrow> 'b opcode list" where
  "opcodes_ddcb_2 I = [
     Op (6 - 2) (23 - 8) (m_sla_ind_r16_plus_i08_r08 I IX_W BC_H) Epilog, \<comment> \<open>0x20: sla (ix+d),b\<close>
     Op (6 - 2) (23 - 8) (m_sla_ind_r16_plus_i08_r08 I IX_W BC_L) Epilog, \<comment> \<open>0x21: sla (ix+d),c\<close>
     Op (6 - 2) (23 - 8) (m_sla_ind_r16_plus_i08_r08 I IX_W DE_H) Epilog, \<comment> \<open>0x22: sla (ix+d),d\<close>
     Op (6 - 2) (23 - 8) (m_sla_ind_r16_plus_i08_r08 I IX_W DE_L) Epilog, \<comment> \<open>0x23: sla (ix+d),e\<close>
     Op (6 - 2) (23 - 8) (m_sla_ind_r16_plus_i08_r08 I IX_W HL_H) Epilog, \<comment> \<open>0x24: sla (ix+d),h\<close>
     Op (6 - 2) (23 - 8) (m_sla_ind_r16_plus_i08_r08 I IX_W HL_L) Epilog, \<comment> \<open>0x25: sla (ix+d),l\<close>
     Op (6 - 2) (23 - 8) (m_sla_ind_r16_plus_i08 I IX_W) Epilog, \<comment> \<open>0x26: sla (ix+d)\<close>
     Op (6 - 2) (23 - 8) (m_sla_ind_r16_plus_i08_r08 I IX_W AF_H) Epilog, \<comment> \<open>0x27: sla (ix+d),a\<close>
     Op (6 - 2) (23 - 8) (m_sra_ind_r16_plus_i08_r08 I IX_W BC_H) Epilog, \<comment> \<open>0x28: sra (ix+d),b\<close>
     Op (6 - 2) (23 - 8) (m_sra_ind_r16_plus_i08_r08 I IX_W BC_L) Epilog, \<comment> \<open>0x29: sra (ix+d),c\<close>
     Op (6 - 2) (23 - 8) (m_sra_ind_r16_plus_i08_r08 I IX_W DE_H) Epilog, \<comment> \<open>0x2a: sra (ix+d),d\<close>
     Op (6 - 2) (23 - 8) (m_sra_ind_r16_plus_i08_r08 I IX_W DE_L) Epilog, \<comment> \<open>0x2b: sra (ix+d),e\<close>
     Op (6 - 2) (23 - 8) (m_sra_ind_r16_plus_i08_r08 I IX_W HL_H) Epilog, \<comment> \<open>0x2c: sra (ix+d),h\<close>
     Op (6 - 2) (23 - 8) (m_sra_ind_r16_plus_i08_r08 I IX_W HL_L) Epilog, \<comment> \<open>0x2d: sra (ix+d),l\<close>
     Op (6 - 2) (23 - 8) (m_sra_ind_r16_plus_i08 I IX_W) Epilog, \<comment> \<open>0x2e: sra (ix+d)\<close>
     Op (6 - 2) (23 - 8) (m_sra_ind_r16_plus_i08_r08 I IX_W AF_H) Epilog]"

definition opcodes_ddcb_3 :: "'b iface \<Rightarrow> 'b opcode list" where
  "opcodes_ddcb_3 I = [
     Op (6 - 2) (23 - 8) (m_sll_ind_r16_plus_i08_r08 I IX_W BC_H) Epilog, \<comment> \<open>0x30: sll (ix+d),b\<close>
     Op (6 - 2) (23 - 8) (m_sll_ind_r16_plus_i08_r08 I IX_W BC_L) Epilog, \<comment> \<open>0x31: sll (ix+d),c\<close>
     Op (6 - 2) (23 - 8) (m_sll_ind_r16_plus_i08_r08 I IX_W DE_H) Epilog, \<comment> \<open>0x32: sll (ix+d),d\<close>
     Op (6 - 2) (23 - 8) (m_sll_ind_r16_plus_i08_r08 I IX_W DE_L) Epilog, \<comment> \<open>0x33: sll (ix+d),e\<close>
     Op (6 - 2) (23 - 8) (m_sll_ind_r16_plus_i08_r08 I IX_W HL_H) Epilog, \<comment> \<open>0x34: sll (ix+d),h\<close>
     Op (6 - 2) (23 - 8) (m_sll_ind_r16_plus_i08_r08 I IX_W HL_L) Epilog, \<comment> \<open>0x35: sll (ix+d),l\<close>
     Op (6 - 2) (23 - 8) (m_sll_ind_r16_plus_i08 I IX_W) Epilog, \<comment> \<open>0x36: sll (ix+d)\<close>
     Op (6 - 2) (23 - 8) (m_sll_ind_r16_plus_i08_r08 I IX_W AF_H) Epilog, \<comment> \<open>0x37: sll (ix+d),a\<close>
     Op (6 - 2) (23 - 8) (m_srl_ind_r16_plus_i08_r08 I IX_W BC_H) Epilog, \<comment> \<open>0x38: srl (ix+d),b\<close>
     Op (6 - 2) (23 - 8) (m_srl_ind_r16_plus_i08_r08 I IX_W BC_L) Epilog, \<comment> \<open>0x39: srl (ix+d),c\<close>
     Op (6 - 2) (23 - 8) (m_srl_ind_r16_plus_i08_r08 I IX_W DE_H) Epilog, \<comment> \<open>0x3a: srl (ix+d),d\<close>
     Op (6 - 2) (23 - 8) (m_srl_ind_r16_plus_i08_r08 I IX_W DE_L) Epilog, \<comment> \<open>0x3b: srl (ix+d),e\<close>
     Op (6 - 2) (23 - 8) (m_srl_ind_r16_plus_i08_r08 I IX_W HL_H) Epilog, \<comment> \<open>0x3c: srl (ix+d),h\<close>
     Op (6 - 2) (23 - 8) (m_srl_ind_r16_plus_i08_r08 I IX_W HL_L) Epilog, \<comment> \<open>0x3d: srl (ix+d),l\<close>
     Op (6 - 2) (23 - 8) (m_srl_ind_r16_plus_i08 I IX_W) Epilog, \<comment> \<open>0x3e: srl (ix+d)\<close>
     Op (6 - 2) (23 - 8) (m_srl_ind_r16_plus_i08_r08 I IX_W AF_H) Epilog]"

definition opcodes_ddcb_4 :: "'b iface \<Rightarrow> 'b opcode list" where
  "opcodes_ddcb_4 I = [
     Op (5 - 2) (20 - 8) (m_bit_b_ind_r16_plus_i08 I BIT0 IX_W) Epilog, \<comment> \<open>0x40: bit 0,(ix+d)\<close>
     Op (5 - 2) (20 - 8) (m_bit_b_ind_r16_plus_i08 I BIT0 IX_W) Epilog, \<comment> \<open>0x41: bit 0,(ix+d)\<close>
     Op (5 - 2) (20 - 8) (m_bit_b_ind_r16_plus_i08 I BIT0 IX_W) Epilog, \<comment> \<open>0x42: bit 0,(ix+d)\<close>
     Op (5 - 2) (20 - 8) (m_bit_b_ind_r16_plus_i08 I BIT0 IX_W) Epilog, \<comment> \<open>0x43: bit 0,(ix+d)\<close>
     Op (5 - 2) (20 - 8) (m_bit_b_ind_r16_plus_i08 I BIT0 IX_W) Epilog, \<comment> \<open>0x44: bit 0,(ix+d)\<close>
     Op (5 - 2) (20 - 8) (m_bit_b_ind_r16_plus_i08 I BIT0 IX_W) Epilog, \<comment> \<open>0x45: bit 0,(ix+d)\<close>
     Op (5 - 2) (20 - 8) (m_bit_b_ind_r16_plus_i08 I BIT0 IX_W) Epilog, \<comment> \<open>0x46: bit 0,(ix+d)\<close>
     Op (5 - 2) (20 - 8) (m_bit_b_ind_r16_plus_i08 I BIT0 IX_W) Epilog, \<comment> \<open>0x47: bit 0,(ix+d)\<close>
     Op (5 - 2) (20 - 8) (m_bit_b_ind_r16_plus_i08 I BIT1 IX_W) Epilog, \<comment> \<open>0x48: bit 1,(ix+d)\<close>
     Op (5 - 2) (20 - 8) (m_bit_b_ind_r16_plus_i08 I BIT1 IX_W) Epilog, \<comment> \<open>0x49: bit 1,(ix+d)\<close>
     Op (5 - 2) (20 - 8) (m_bit_b_ind_r16_plus_i08 I BIT1 IX_W) Epilog, \<comment> \<open>0x4a: bit 1,(ix+d)\<close>
     Op (5 - 2) (20 - 8) (m_bit_b_ind_r16_plus_i08 I BIT1 IX_W) Epilog, \<comment> \<open>0x4b: bit 1,(ix+d)\<close>
     Op (5 - 2) (20 - 8) (m_bit_b_ind_r16_plus_i08 I BIT1 IX_W) Epilog, \<comment> \<open>0x4c: bit 1,(ix+d)\<close>
     Op (5 - 2) (20 - 8) (m_bit_b_ind_r16_plus_i08 I BIT1 IX_W) Epilog, \<comment> \<open>0x4d: bit 1,(ix+d)\<close>
     Op (5 - 2) (20 - 8) (m_bit_b_ind_r16_plus_i08 I BIT1 IX_W) Epilog, \<comment> \<open>0x4e: bit 1,(ix+d)\<close>
     Op (5 - 2) (20 - 8) (m_bit_b_ind_r16_plus_i08 I BIT1 IX_W) Epilog]"

definition opcodes_ddcb_5 :: "'b iface \<Rightarrow> 'b opcode list" where
  "opcodes_ddcb_5 I = [
     Op (5 - 2) (20 - 8) (m_bit_b_ind_r16_plus_i08 I BIT2 IX_W) Epilog, \<comment> \<open>0x50: bit 2,(ix+d)\<close>
     Op (5 - 2) (20 - 8) (m_bit_b_ind_r16_plus_i08 I BIT2 IX_W) Epilog, \<comment> \<open>0x51: bit 2,(ix+d)\<close>
     Op (5 - 2) (20 - 8) (m_bit_b_ind_r16_plus_i08 I BIT2 IX_W) Epilog, \<comment> \<open>0x52: bit 2,(ix+d)\<close>
     Op (5 - 2) (20 - 8) (m_bit_b_ind_r16_plus_i08 I BIT2 IX_W) Epilog, \<comment> \<open>0x53: bit 2,(ix+d)\<close>
     Op (5 - 2) (20 - 8) (m_bit_b_ind_r16_plus_i08 I BIT2 IX_W) Epilog, \<comment> \<open>0x54: bit 2,(ix+d)\<close>
     Op (5 - 2) (20 - 8) (m_bit_b_ind_r16_plus_i08 I BIT2 IX_W) Epilog, \<comment> \<open>0x55: bit 2,(ix+d)\<close>
     Op (5 - 2) (20 - 8) (m_bit_b_ind_r16_plus_i08 I BIT2 IX_W) Epilog, \<comment> \<open>0x56: bit 2,(ix+d)\<close>
     Op (5 - 2) (20 - 8) (m_bit_b_ind_r16_plus_i08 I BIT2 IX_W) Epilog, \<comment> \<open>0x57: bit 2,(ix+d)\<close>
     Op (5 - 2) (20 - 8) (m_bit_b_ind_r16_plus_i08 I BIT3 IX_W) Epilog, \<comment> \<open>0x58: bit 3,(ix+d)\<close>
     Op (5 - 2) (20 - 8) (m_bit_b_ind_r16_plus_i08 I BIT3 IX_W) Epilog, \<comment> \<open>0x59: bit 3,(ix+d)\<close>
     Op (5 - 2) (20 - 8) (m_bit_b_ind_r16_plus_i08 I BIT3 IX_W) Epilog, \<comment> \<open>0x5a: bit 3,(ix+d)\<close>
     Op (5 - 2) (20 - 8) (m_bit_b_ind_r16_plus_i08 I BIT3 IX_W) Epilog, \<comment> \<open>0x5b: bit 3,(ix+d)\<close>
     Op (5 - 2) (20 - 8) (m_bit_b_ind_r16_plus_i08 I BIT3 IX_W) Epilog, \<comment> \<open>0x5c: bit 3,(ix+d)\<close>
     Op (5 - 2) (20 - 8) (m_bit_b_ind_r16_plus_i08 I BIT3 IX_W) Epilog, \<comment> \<open>0x5d: bit 3,(ix+d)\<close>
     Op (5 - 2) (20 - 8) (m_bit_b_ind_r16_plus_i08 I BIT3 IX_W) Epilog, \<comment> \<open>0x5e: bit 3,(ix+d)\<close>
     Op (5 - 2) (20 - 8) (m_bit_b_ind_r16_plus_i08 I BIT3 IX_W) Epilog]"

definition opcodes_ddcb_6 :: "'b iface \<Rightarrow> 'b opcode list" where
  "opcodes_ddcb_6 I = [
     Op (5 - 2) (20 - 8) (m_bit_b_ind_r16_plus_i08 I BIT4 IX_W) Epilog, \<comment> \<open>0x60: bit 4,(ix+d)\<close>
     Op (5 - 2) (20 - 8) (m_bit_b_ind_r16_plus_i08 I BIT4 IX_W) Epilog, \<comment> \<open>0x61: bit 4,(ix+d)\<close>
     Op (5 - 2) (20 - 8) (m_bit_b_ind_r16_plus_i08 I BIT4 IX_W) Epilog, \<comment> \<open>0x62: bit 4,(ix+d)\<close>
     Op (5 - 2) (20 - 8) (m_bit_b_ind_r16_plus_i08 I BIT4 IX_W) Epilog, \<comment> \<open>0x63: bit 4,(ix+d)\<close>
     Op (5 - 2) (20 - 8) (m_bit_b_ind_r16_plus_i08 I BIT4 IX_W) Epilog, \<comment> \<open>0x64: bit 4,(ix+d)\<close>
     Op (5 - 2) (20 - 8) (m_bit_b_ind_r16_plus_i08 I BIT4 IX_W) Epilog, \<comment> \<open>0x65: bit 4,(ix+d)\<close>
     Op (5 - 2) (20 - 8) (m_bit_b_ind_r16_plus_i08 I BIT4 IX_W) Epilog, \<comment> \<open>0x66: bit 4,(ix+d)\<close>
     Op (5 - 2) (20 - 8) (m_bit_b_ind_r16_plus_i08 I BIT4 IX_W) Epilog, \<comment> \<open>0x67: bit 4,(ix+d)\<close>
     Op (5 - 2) (20 - 8) (m_bit_b_ind_r16_plus_i08 I BIT5 IX_W) Epilog, \<comment> \<open>0x68: bit 5,(ix+d)\<close>
     Op (5 - 2) (20 - 8) (m_bit_b_ind_r16_plus_i08 I BIT5 IX_W) Epilog, \<comment> \<open>0x69: bit 5,(ix+d)\<close>
     Op (5 - 2) (20 - 8) (m_bit_b_ind_r16_plus_i08 I BIT5 IX_W) Epilog, \<comment> \<open>0x6a: bit 5,(ix+d)\<close>
     Op (5 - 2) (20 - 8) (m_bit_b_ind_r16_plus_i08 I BIT5 IX_W) Epilog, \<comment> \<open>0x6b: bit 5,(ix+d)\<close>
     Op (5 - 2) (20 - 8) (m_bit_b_ind_r16_plus_i08 I BIT5 IX_W) Epilog, \<comment> \<open>0x6c: bit 5,(ix+d)\<close>
     Op (5 - 2) (20 - 8) (m_bit_b_ind_r16_plus_i08 I BIT5 IX_W) Epilog, \<comment> \<open>0x6d: bit 5,(ix+d)\<close>
     Op (5 - 2) (20 - 8) (m_bit_b_ind_r16_plus_i08 I BIT5 IX_W) Epilog, \<comment> \<open>0x6e: bit 5,(ix+d)\<close>
     Op (5 - 2) (20 - 8) (m_bit_b_ind_r16_plus_i08 I BIT5 IX_W) Epilog]"

definition opcodes_ddcb_7 :: "'b iface \<Rightarrow> 'b opcode list" where
  "opcodes_ddcb_7 I = [
     Op (5 - 2) (20 - 8) (m_bit_b_ind_r16_plus_i08 I BIT6 IX_W) Epilog, \<comment> \<open>0x70: bit 6,(ix+d)\<close>
     Op (5 - 2) (20 - 8) (m_bit_b_ind_r16_plus_i08 I BIT6 IX_W) Epilog, \<comment> \<open>0x71: bit 6,(ix+d)\<close>
     Op (5 - 2) (20 - 8) (m_bit_b_ind_r16_plus_i08 I BIT6 IX_W) Epilog, \<comment> \<open>0x72: bit 6,(ix+d)\<close>
     Op (5 - 2) (20 - 8) (m_bit_b_ind_r16_plus_i08 I BIT6 IX_W) Epilog, \<comment> \<open>0x73: bit 6,(ix+d)\<close>
     Op (5 - 2) (20 - 8) (m_bit_b_ind_r16_plus_i08 I BIT6 IX_W) Epilog, \<comment> \<open>0x74: bit 6,(ix+d)\<close>
     Op (5 - 2) (20 - 8) (m_bit_b_ind_r16_plus_i08 I BIT6 IX_W) Epilog, \<comment> \<open>0x75: bit 6,(ix+d)\<close>
     Op (5 - 2) (20 - 8) (m_bit_b_ind_r16_plus_i08 I BIT6 IX_W) Epilog, \<comment> \<open>0x76: bit 6,(ix+d)\<close>
     Op (5 - 2) (20 - 8) (m_bit_b_ind_r16_plus_i08 I BIT6 IX_W) Epilog, \<comment> \<open>0x77: bit 6,(ix+d)\<close>
     Op (5 - 2) (20 - 8) (m_bit_b_ind_r16_plus_i08 I BIT7 IX_W) Epilog, \<comment> \<open>0x78: bit 7,(ix+d)\<close>
     Op (5 - 2) (20 - 8) (m_bit_b_ind_r16_plus_i08 I BIT7 IX_W) Epilog, \<comment> \<open>0x79: bit 7,(ix+d)\<close>
     Op (5 - 2) (20 - 8) (m_bit_b_ind_r16_plus_i08 I BIT7 IX_W) Epilog, \<comment> \<open>0x7a: bit 7,(ix+d)\<close>
     Op (5 - 2) (20 - 8) (m_bit_b_ind_r16_plus_i08 I BIT7 IX_W) Epilog, \<comment> \<open>0x7b: bit 7,(ix+d)\<close>
     Op (5 - 2) (20 - 8) (m_bit_b_ind_r16_plus_i08 I BIT7 IX_W) Epilog, \<comment> \<open>0x7c: bit 7,(ix+d)\<close>
     Op (5 - 2) (20 - 8) (m_bit_b_ind_r16_plus_i08 I BIT7 IX_W) Epilog, \<comment> \<open>0x7d: bit 7,(ix+d)\<close>
     Op (5 - 2) (20 - 8) (m_bit_b_ind_r16_plus_i08 I BIT7 IX_W) Epilog, \<comment> \<open>0x7e: bit 7,(ix+d)\<close>
     Op (5 - 2) (20 - 8) (m_bit_b_ind_r16_plus_i08 I BIT7 IX_W) Epilog]"

definition opcodes_ddcb_8 :: "'b iface \<Rightarrow> 'b opcode list" where
  "opcodes_ddcb_8 I = [
     Op (6 - 2) (23 - 8) (m_res_b_ind_r16_plus_i08_r08 I BIT0 IX_W BC_H) Epilog, \<comment> \<open>0x80: res 0,(ix+d),b\<close>
     Op (6 - 2) (23 - 8) (m_res_b_ind_r16_plus_i08_r08 I BIT0 IX_W BC_L) Epilog, \<comment> \<open>0x81: res 0,(ix+d),c\<close>
     Op (6 - 2) (23 - 8) (m_res_b_ind_r16_plus_i08_r08 I BIT0 IX_W DE_H) Epilog, \<comment> \<open>0x82: res 0,(ix+d),d\<close>
     Op (6 - 2) (23 - 8) (m_res_b_ind_r16_plus_i08_r08 I BIT0 IX_W DE_L) Epilog, \<comment> \<open>0x83: res 0,(ix+d),e\<close>
     Op (6 - 2) (23 - 8) (m_res_b_ind_r16_plus_i08_r08 I BIT0 IX_W HL_H) Epilog, \<comment> \<open>0x84: res 0,(ix+d),h\<close>
     Op (6 - 2) (23 - 8) (m_res_b_ind_r16_plus_i08_r08 I BIT0 IX_W HL_L) Epilog, \<comment> \<open>0x85: res 0,(ix+d),l\<close>
     Op (6 - 2) (23 - 8) (m_res_b_ind_r16_plus_i08 I BIT0 IX_W) Epilog, \<comment> \<open>0x86: res 0,(ix+d)\<close>
     Op (6 - 2) (23 - 8) (m_res_b_ind_r16_plus_i08_r08 I BIT0 IX_W AF_H) Epilog, \<comment> \<open>0x87: res 0,(ix+d),a\<close>
     Op (6 - 2) (23 - 8) (m_res_b_ind_r16_plus_i08_r08 I BIT1 IX_W BC_H) Epilog, \<comment> \<open>0x88: res 1,(ix+d),b\<close>
     Op (6 - 2) (23 - 8) (m_res_b_ind_r16_plus_i08_r08 I BIT1 IX_W BC_L) Epilog, \<comment> \<open>0x89: res 1,(ix+d),c\<close>
     Op (6 - 2) (23 - 8) (m_res_b_ind_r16_plus_i08_r08 I BIT1 IX_W DE_H) Epilog, \<comment> \<open>0x8a: res 1,(ix+d),d\<close>
     Op (6 - 2) (23 - 8) (m_res_b_ind_r16_plus_i08_r08 I BIT1 IX_W DE_L) Epilog, \<comment> \<open>0x8b: res 1,(ix+d),e\<close>
     Op (6 - 2) (23 - 8) (m_res_b_ind_r16_plus_i08_r08 I BIT1 IX_W HL_H) Epilog, \<comment> \<open>0x8c: res 1,(ix+d),h\<close>
     Op (6 - 2) (23 - 8) (m_res_b_ind_r16_plus_i08_r08 I BIT1 IX_W HL_L) Epilog, \<comment> \<open>0x8d: res 1,(ix+d),l\<close>
     Op (6 - 2) (23 - 8) (m_res_b_ind_r16_plus_i08 I BIT1 IX_W) Epilog, \<comment> \<open>0x8e: res 1,(ix+d)\<close>
     Op (6 - 2) (23 - 8) (m_res_b_ind_r16_plus_i08_r08 I BIT1 IX_W AF_H) Epilog]"

definition opcodes_ddcb_9 :: "'b iface \<Rightarrow> 'b opcode list" where
  "opcodes_ddcb_9 I = [
     Op (6 - 2) (23 - 8) (m_res_b_ind_r16_plus_i08_r08 I BIT2 IX_W BC_H) Epilog, \<comment> \<open>0x90: res 2,(ix+d),b\<close>
     Op (6 - 2) (23 - 8) (m_res_b_ind_r16_plus_i08_r08 I BIT2 IX_W BC_L) Epilog, \<comment> \<open>0x91: res 2,(ix+d),c\<close>
     Op (6 - 2) (23 - 8) (m_res_b_ind_r16_plus_i08_r08 I BIT2 IX_W DE_H) Epilog, \<comment> \<open>0x92: res 2,(ix+d),d\<close>
     Op (6 - 2) (23 - 8) (m_res_b_ind_r16_plus_i08_r08 I BIT2 IX_W DE_L) Epilog, \<comment> \<open>0x93: res 2,(ix+d),e\<close>
     Op (6 - 2) (23 - 8) (m_res_b_ind_r16_plus_i08_r08 I BIT2 IX_W HL_H) Epilog, \<comment> \<open>0x94: res 2,(ix+d),h\<close>
     Op (6 - 2) (23 - 8) (m_res_b_ind_r16_plus_i08_r08 I BIT2 IX_W HL_L) Epilog, \<comment> \<open>0x95: res 2,(ix+d),l\<close>
     Op (6 - 2) (23 - 8) (m_res_b_ind_r16_plus_i08 I BIT2 IX_W) Epilog, \<comment> \<open>0x96: res 2,(ix+d)\<close>
     Op (6 - 2) (23 - 8) (m_res_b_ind_r16_plus_i08_r08 I BIT2 IX_W AF_H) Epilog, \<comment> \<open>0x97: res 2,(ix+d),a\<close>
     Op (6 - 2) (23 - 8) (m_res_b_ind_r16_plus_i08_r08 I BIT3 IX_W BC_H) Epilog, \<comment> \<open>0x98: res 3,(ix+d),b\<close>
     Op (6 - 2) (23 - 8) (m_res_b_ind_r16_plus_i08_r08 I BIT3 IX_W BC_L) Epilog, \<comment> \<open>0x99: res 3,(ix+d),c\<close>
     Op (6 - 2) (23 - 8) (m_res_b_ind_r16_plus_i08_r08 I BIT3 IX_W DE_H) Epilog, \<comment> \<open>0x9a: res 3,(ix+d),d\<close>
     Op (6 - 2) (23 - 8) (m_res_b_ind_r16_plus_i08_r08 I BIT3 IX_W DE_L) Epilog, \<comment> \<open>0x9b: res 3,(ix+d),e\<close>
     Op (6 - 2) (23 - 8) (m_res_b_ind_r16_plus_i08_r08 I BIT3 IX_W HL_H) Epilog, \<comment> \<open>0x9c: res 3,(ix+d),h\<close>
     Op (6 - 2) (23 - 8) (m_res_b_ind_r16_plus_i08_r08 I BIT3 IX_W HL_L) Epilog, \<comment> \<open>0x9d: res 3,(ix+d),l\<close>
     Op (6 - 2) (23 - 8) (m_res_b_ind_r16_plus_i08 I BIT3 IX_W) Epilog, \<comment> \<open>0x9e: res 3,(ix+d)\<close>
     Op (6 - 2) (23 - 8) (m_res_b_ind_r16_plus_i08_r08 I BIT3 IX_W AF_H) Epilog]"

definition opcodes_ddcb_a :: "'b iface \<Rightarrow> 'b opcode list" where
  "opcodes_ddcb_a I = [
     Op (6 - 2) (23 - 8) (m_res_b_ind_r16_plus_i08_r08 I BIT4 IX_W BC_H) Epilog, \<comment> \<open>0xa0: res 4,(ix+d),b\<close>
     Op (6 - 2) (23 - 8) (m_res_b_ind_r16_plus_i08_r08 I BIT4 IX_W BC_L) Epilog, \<comment> \<open>0xa1: res 4,(ix+d),c\<close>
     Op (6 - 2) (23 - 8) (m_res_b_ind_r16_plus_i08_r08 I BIT4 IX_W DE_H) Epilog, \<comment> \<open>0xa2: res 4,(ix+d),d\<close>
     Op (6 - 2) (23 - 8) (m_res_b_ind_r16_plus_i08_r08 I BIT4 IX_W DE_L) Epilog, \<comment> \<open>0xa3: res 4,(ix+d),e\<close>
     Op (6 - 2) (23 - 8) (m_res_b_ind_r16_plus_i08_r08 I BIT4 IX_W HL_H) Epilog, \<comment> \<open>0xa4: res 4,(ix+d),h\<close>
     Op (6 - 2) (23 - 8) (m_res_b_ind_r16_plus_i08_r08 I BIT4 IX_W HL_L) Epilog, \<comment> \<open>0xa5: res 4,(ix+d),l\<close>
     Op (6 - 2) (23 - 8) (m_res_b_ind_r16_plus_i08 I BIT4 IX_W) Epilog, \<comment> \<open>0xa6: res 4,(ix+d)\<close>
     Op (6 - 2) (23 - 8) (m_res_b_ind_r16_plus_i08_r08 I BIT4 IX_W AF_H) Epilog, \<comment> \<open>0xa7: res 4,(ix+d),a\<close>
     Op (6 - 2) (23 - 8) (m_res_b_ind_r16_plus_i08_r08 I BIT5 IX_W BC_H) Epilog, \<comment> \<open>0xa8: res 5,(ix+d),b\<close>
     Op (6 - 2) (23 - 8) (m_res_b_ind_r16_plus_i08_r08 I BIT5 IX_W BC_L) Epilog, \<comment> \<open>0xa9: res 5,(ix+d),c\<close>
     Op (6 - 2) (23 - 8) (m_res_b_ind_r16_plus_i08_r08 I BIT5 IX_W DE_H) Epilog, \<comment> \<open>0xaa: res 5,(ix+d),d\<close>
     Op (6 - 2) (23 - 8) (m_res_b_ind_r16_plus_i08_r08 I BIT5 IX_W DE_L) Epilog, \<comment> \<open>0xab: res 5,(ix+d),e\<close>
     Op (6 - 2) (23 - 8) (m_res_b_ind_r16_plus_i08_r08 I BIT5 IX_W HL_H) Epilog, \<comment> \<open>0xac: res 5,(ix+d),h\<close>
     Op (6 - 2) (23 - 8) (m_res_b_ind_r16_plus_i08_r08 I BIT5 IX_W HL_L) Epilog, \<comment> \<open>0xad: res 5,(ix+d),l\<close>
     Op (6 - 2) (23 - 8) (m_res_b_ind_r16_plus_i08 I BIT5 IX_W) Epilog, \<comment> \<open>0xae: res 5,(ix+d)\<close>
     Op (6 - 2) (23 - 8) (m_res_b_ind_r16_plus_i08_r08 I BIT5 IX_W AF_H) Epilog]"

definition opcodes_ddcb_b :: "'b iface \<Rightarrow> 'b opcode list" where
  "opcodes_ddcb_b I = [
     Op (6 - 2) (23 - 8) (m_res_b_ind_r16_plus_i08_r08 I BIT6 IX_W BC_H) Epilog, \<comment> \<open>0xb0: res 6,(ix+d),b\<close>
     Op (6 - 2) (23 - 8) (m_res_b_ind_r16_plus_i08_r08 I BIT6 IX_W BC_L) Epilog, \<comment> \<open>0xb1: res 6,(ix+d),c\<close>
     Op (6 - 2) (23 - 8) (m_res_b_ind_r16_plus_i08_r08 I BIT6 IX_W DE_H) Epilog, \<comment> \<open>0xb2: res 6,(ix+d),d\<close>
     Op (6 - 2) (23 - 8) (m_res_b_ind_r16_plus_i08_r08 I BIT6 IX_W DE_L) Epilog, \<comment> \<open>0xb3: res 6,(ix+d),e\<close>
     Op (6 - 2) (23 - 8) (m_res_b_ind_r16_plus_i08_r08 I BIT6 IX_W HL_H) Epilog, \<comment> \<open>0xb4: res 6,(ix+d),h\<close>
     Op (6 - 2) (23 - 8) (m_res_b_ind_r16_plus_i08_r08 I BIT6 IX_W HL_L) Epilog, \<comment> \<open>0xb5: res 6,(ix+d),l\<close>
     Op (6 - 2) (23 - 8) (m_res_b_ind_r16_plus_i08 I BIT6 IX_W) Epilog, \<comment> \<open>0xb6: res 6,(ix+d)\<close>
     Op (6 - 2) (23 - 8) (m_res_b_ind_r16_plus_i08_r08 I BIT6 IX_W AF_H) Epilog, \<comment> \<open>0xb7: res 6,(ix+d),a\<close>
     Op (6 - 2) (23 - 8) (m_res_b_ind_r16_plus_i08_r08 I BIT7 IX_W BC_H) Epilog, \<comment> \<open>0xb8: res 7,(ix+d),b\<close>
     Op (6 - 2) (23 - 8) (m_res_b_ind_r16_plus_i08_r08 I BIT7 IX_W BC_L) Epilog, \<comment> \<open>0xb9: res 7,(ix+d),c\<close>
     Op (6 - 2) (23 - 8) (m_res_b_ind_r16_plus_i08_r08 I BIT7 IX_W DE_H) Epilog, \<comment> \<open>0xba: res 7,(ix+d),d\<close>
     Op (6 - 2) (23 - 8) (m_res_b_ind_r16_plus_i08_r08 I BIT7 IX_W DE_L) Epilog, \<comment> \<open>0xbb: res 7,(ix+d),e\<close>
     Op (6 - 2) (23 - 8) (m_res_b_ind_r16_plus_i08_r08 I BIT7 IX_W HL_H) Epilog, \<comment> \<open>0xbc: res 7,(ix+d),h\<close>
     Op (6 - 2) (23 - 8) (m_res_b_ind_r16_plus_i08_r08 I BIT7 IX_W HL_L) Epilog, \<comment> \<open>0xbd: res 7,(ix+d),l\<close>
     Op (6 - 2) (23 - 8) (m_res_b_ind_r16_plus_i08 I BIT7 IX_W) Epilog, \<comment> \<open>0xbe: res 7,(ix+d)\<close>
     Op (6 - 2) (23 - 8) (m_res_b_ind_r16_plus_i08_r08 I BIT7 IX_W AF_H) Epilog]"

definition opcodes_ddcb_c :: "'b iface \<Rightarrow> 'b opcode list" where
  "opcodes_ddcb_c I = [
     Op (6 - 2) (23 - 8) (m_set_b_ind_r16_plus_i08_r08 I BIT0 IX_W BC_H) Epilog, \<comment> \<open>0xc0: set 0,(ix+d),b\<close>
     Op (6 - 2) (23 - 8) (m_set_b_ind_r16_plus_i08_r08 I BIT0 IX_W BC_L) Epilog, \<comment> \<open>0xc1: set 0,(ix+d),c\<close>
     Op (6 - 2) (23 - 8) (m_set_b_ind_r16_plus_i08_r08 I BIT0 IX_W DE_H) Epilog, \<comment> \<open>0xc2: set 0,(ix+d),d\<close>
     Op (6 - 2) (23 - 8) (m_set_b_ind_r16_plus_i08_r08 I BIT0 IX_W DE_L) Epilog, \<comment> \<open>0xc3: set 0,(ix+d),e\<close>
     Op (6 - 2) (23 - 8) (m_set_b_ind_r16_plus_i08_r08 I BIT0 IX_W HL_H) Epilog, \<comment> \<open>0xc4: set 0,(ix+d),h\<close>
     Op (6 - 2) (23 - 8) (m_set_b_ind_r16_plus_i08_r08 I BIT0 IX_W HL_L) Epilog, \<comment> \<open>0xc5: set 0,(ix+d),l\<close>
     Op (6 - 2) (23 - 8) (m_set_b_ind_r16_plus_i08 I BIT0 IX_W) Epilog, \<comment> \<open>0xc6: set 0,(ix+d)\<close>
     Op (6 - 2) (23 - 8) (m_set_b_ind_r16_plus_i08_r08 I BIT0 IX_W AF_H) Epilog, \<comment> \<open>0xc7: set 0,(ix+d),a\<close>
     Op (6 - 2) (23 - 8) (m_set_b_ind_r16_plus_i08_r08 I BIT1 IX_W BC_H) Epilog, \<comment> \<open>0xc8: set 1,(ix+d),b\<close>
     Op (6 - 2) (23 - 8) (m_set_b_ind_r16_plus_i08_r08 I BIT1 IX_W BC_L) Epilog, \<comment> \<open>0xc9: set 1,(ix+d),c\<close>
     Op (6 - 2) (23 - 8) (m_set_b_ind_r16_plus_i08_r08 I BIT1 IX_W DE_H) Epilog, \<comment> \<open>0xca: set 1,(ix+d),d\<close>
     Op (6 - 2) (23 - 8) (m_set_b_ind_r16_plus_i08_r08 I BIT1 IX_W DE_L) Epilog, \<comment> \<open>0xcb: set 1,(ix+d),e\<close>
     Op (6 - 2) (23 - 8) (m_set_b_ind_r16_plus_i08_r08 I BIT1 IX_W HL_H) Epilog, \<comment> \<open>0xcc: set 1,(ix+d),h\<close>
     Op (6 - 2) (23 - 8) (m_set_b_ind_r16_plus_i08_r08 I BIT1 IX_W HL_L) Epilog, \<comment> \<open>0xcd: set 1,(ix+d),l\<close>
     Op (6 - 2) (23 - 8) (m_set_b_ind_r16_plus_i08 I BIT1 IX_W) Epilog, \<comment> \<open>0xce: set 1,(ix+d)\<close>
     Op (6 - 2) (23 - 8) (m_set_b_ind_r16_plus_i08_r08 I BIT1 IX_W AF_H) Epilog]"

definition opcodes_ddcb_d :: "'b iface \<Rightarrow> 'b opcode list" where
  "opcodes_ddcb_d I = [
     Op (6 - 2) (23 - 8) (m_set_b_ind_r16_plus_i08_r08 I BIT2 IX_W BC_H) Epilog, \<comment> \<open>0xd0: set 2,(ix+d),b\<close>
     Op (6 - 2) (23 - 8) (m_set_b_ind_r16_plus_i08_r08 I BIT2 IX_W BC_L) Epilog, \<comment> \<open>0xd1: set 2,(ix+d),c\<close>
     Op (6 - 2) (23 - 8) (m_set_b_ind_r16_plus_i08_r08 I BIT2 IX_W DE_H) Epilog, \<comment> \<open>0xd2: set 2,(ix+d),d\<close>
     Op (6 - 2) (23 - 8) (m_set_b_ind_r16_plus_i08_r08 I BIT2 IX_W DE_L) Epilog, \<comment> \<open>0xd3: set 2,(ix+d),e\<close>
     Op (6 - 2) (23 - 8) (m_set_b_ind_r16_plus_i08_r08 I BIT2 IX_W HL_H) Epilog, \<comment> \<open>0xd4: set 2,(ix+d),h\<close>
     Op (6 - 2) (23 - 8) (m_set_b_ind_r16_plus_i08_r08 I BIT2 IX_W HL_L) Epilog, \<comment> \<open>0xd5: set 2,(ix+d),l\<close>
     Op (6 - 2) (23 - 8) (m_set_b_ind_r16_plus_i08 I BIT2 IX_W) Epilog, \<comment> \<open>0xd6: set 2,(ix+d)\<close>
     Op (6 - 2) (23 - 8) (m_set_b_ind_r16_plus_i08_r08 I BIT2 IX_W AF_H) Epilog, \<comment> \<open>0xd7: set 2,(ix+d),a\<close>
     Op (6 - 2) (23 - 8) (m_set_b_ind_r16_plus_i08_r08 I BIT3 IX_W BC_H) Epilog, \<comment> \<open>0xd8: set 3,(ix+d),b\<close>
     Op (6 - 2) (23 - 8) (m_set_b_ind_r16_plus_i08_r08 I BIT3 IX_W BC_L) Epilog, \<comment> \<open>0xd9: set 3,(ix+d),c\<close>
     Op (6 - 2) (23 - 8) (m_set_b_ind_r16_plus_i08_r08 I BIT3 IX_W DE_H) Epilog, \<comment> \<open>0xda: set 3,(ix+d),d\<close>
     Op (6 - 2) (23 - 8) (m_set_b_ind_r16_plus_i08_r08 I BIT3 IX_W DE_L) Epilog, \<comment> \<open>0xdb: set 3,(ix+d),e\<close>
     Op (6 - 2) (23 - 8) (m_set_b_ind_r16_plus_i08_r08 I BIT3 IX_W HL_H) Epilog, \<comment> \<open>0xdc: set 3,(ix+d),h\<close>
     Op (6 - 2) (23 - 8) (m_set_b_ind_r16_plus_i08_r08 I BIT3 IX_W HL_L) Epilog, \<comment> \<open>0xdd: set 3,(ix+d),l\<close>
     Op (6 - 2) (23 - 8) (m_set_b_ind_r16_plus_i08 I BIT3 IX_W) Epilog, \<comment> \<open>0xde: set 3,(ix+d)\<close>
     Op (6 - 2) (23 - 8) (m_set_b_ind_r16_plus_i08_r08 I BIT3 IX_W AF_H) Epilog]"

definition opcodes_ddcb_e :: "'b iface \<Rightarrow> 'b opcode list" where
  "opcodes_ddcb_e I = [
     Op (6 - 2) (23 - 8) (m_set_b_ind_r16_plus_i08_r08 I BIT4 IX_W BC_H) Epilog, \<comment> \<open>0xe0: set 4,(ix+d),b\<close>
     Op (6 - 2) (23 - 8) (m_set_b_ind_r16_plus_i08_r08 I BIT4 IX_W BC_L) Epilog, \<comment> \<open>0xe1: set 4,(ix+d),c\<close>
     Op (6 - 2) (23 - 8) (m_set_b_ind_r16_plus_i08_r08 I BIT4 IX_W DE_H) Epilog, \<comment> \<open>0xe2: set 4,(ix+d),d\<close>
     Op (6 - 2) (23 - 8) (m_set_b_ind_r16_plus_i08_r08 I BIT4 IX_W DE_L) Epilog, \<comment> \<open>0xe3: set 4,(ix+d),e\<close>
     Op (6 - 2) (23 - 8) (m_set_b_ind_r16_plus_i08_r08 I BIT4 IX_W HL_H) Epilog, \<comment> \<open>0xe4: set 4,(ix+d),h\<close>
     Op (6 - 2) (23 - 8) (m_set_b_ind_r16_plus_i08_r08 I BIT4 IX_W HL_L) Epilog, \<comment> \<open>0xe5: set 4,(ix+d),l\<close>
     Op (6 - 2) (23 - 8) (m_set_b_ind_r16_plus_i08 I BIT4 IX_W) Epilog, \<comment> \<open>0xe6: set 4,(ix+d)\<close>
     Op (6 - 2) (23 - 8) (m_set_b_ind_r16_plus_i08_r08 I BIT4 IX_W AF_H) Epilog, \<comment> \<open>0xe7: set 4,(ix+d),a\<close>
     Op (6 - 2) (23 - 8) (m_set_b_ind_r16_plus_i08_r08 I BIT5 IX_W BC_H) Epilog, \<comment> \<open>0xe8: set 5,(ix+d),b\<close>
     Op (6 - 2) (23 - 8) (m_set_b_ind_r16_plus_i08_r08 I BIT5 IX_W BC_L) Epilog, \<comment> \<open>0xe9: set 5,(ix+d),c\<close>
     Op (6 - 2) (23 - 8) (m_set_b_ind_r16_plus_i08_r08 I BIT5 IX_W DE_H) Epilog, \<comment> \<open>0xea: set 5,(ix+d),d\<close>
     Op (6 - 2) (23 - 8) (m_set_b_ind_r16_plus_i08_r08 I BIT5 IX_W DE_L) Epilog, \<comment> \<open>0xeb: set 5,(ix+d),e\<close>
     Op (6 - 2) (23 - 8) (m_set_b_ind_r16_plus_i08_r08 I BIT5 IX_W HL_H) Epilog, \<comment> \<open>0xec: set 5,(ix+d),h\<close>
     Op (6 - 2) (23 - 8) (m_set_b_ind_r16_plus_i08_r08 I BIT5 IX_W HL_L) Epilog, \<comment> \<open>0xed: set 5,(ix+d),l\<close>
     Op (6 - 2) (23 - 8) (m_set_b_ind_r16_plus_i08 I BIT5 IX_W) Epilog, \<comment> \<open>0xee: set 5,(ix+d)\<close>
     Op (6 - 2) (23 - 8) (m_set_b_ind_r16_plus_i08_r08 I BIT5 IX_W AF_H) Epilog]"

definition opcodes_ddcb_f :: "'b iface \<Rightarrow> 'b opcode list" where
  "opcodes_ddcb_f I = [
     Op (6 - 2) (23 - 8) (m_set_b_ind_r16_plus_i08_r08 I BIT6 IX_W BC_H) Epilog, \<comment> \<open>0xf0: set 6,(ix+d),b\<close>
     Op (6 - 2) (23 - 8) (m_set_b_ind_r16_plus_i08_r08 I BIT6 IX_W BC_L) Epilog, \<comment> \<open>0xf1: set 6,(ix+d),c\<close>
     Op (6 - 2) (23 - 8) (m_set_b_ind_r16_plus_i08_r08 I BIT6 IX_W DE_H) Epilog, \<comment> \<open>0xf2: set 6,(ix+d),d\<close>
     Op (6 - 2) (23 - 8) (m_set_b_ind_r16_plus_i08_r08 I BIT6 IX_W DE_L) Epilog, \<comment> \<open>0xf3: set 6,(ix+d),e\<close>
     Op (6 - 2) (23 - 8) (m_set_b_ind_r16_plus_i08_r08 I BIT6 IX_W HL_H) Epilog, \<comment> \<open>0xf4: set 6,(ix+d),h\<close>
     Op (6 - 2) (23 - 8) (m_set_b_ind_r16_plus_i08_r08 I BIT6 IX_W HL_L) Epilog, \<comment> \<open>0xf5: set 6,(ix+d),l\<close>
     Op (6 - 2) (23 - 8) (m_set_b_ind_r16_plus_i08 I BIT6 IX_W) Epilog, \<comment> \<open>0xf6: set 6,(ix+d)\<close>
     Op (6 - 2) (23 - 8) (m_set_b_ind_r16_plus_i08_r08 I BIT6 IX_W AF_H) Epilog, \<comment> \<open>0xf7: set 6,(ix+d),a\<close>
     Op (6 - 2) (23 - 8) (m_set_b_ind_r16_plus_i08_r08 I BIT7 IX_W BC_H) Epilog, \<comment> \<open>0xf8: set 7,(ix+d),b\<close>
     Op (6 - 2) (23 - 8) (m_set_b_ind_r16_plus_i08_r08 I BIT7 IX_W BC_L) Epilog, \<comment> \<open>0xf9: set 7,(ix+d),c\<close>
     Op (6 - 2) (23 - 8) (m_set_b_ind_r16_plus_i08_r08 I BIT7 IX_W DE_H) Epilog, \<comment> \<open>0xfa: set 7,(ix+d),d\<close>
     Op (6 - 2) (23 - 8) (m_set_b_ind_r16_plus_i08_r08 I BIT7 IX_W DE_L) Epilog, \<comment> \<open>0xfb: set 7,(ix+d),e\<close>
     Op (6 - 2) (23 - 8) (m_set_b_ind_r16_plus_i08_r08 I BIT7 IX_W HL_H) Epilog, \<comment> \<open>0xfc: set 7,(ix+d),h\<close>
     Op (6 - 2) (23 - 8) (m_set_b_ind_r16_plus_i08_r08 I BIT7 IX_W HL_L) Epilog, \<comment> \<open>0xfd: set 7,(ix+d),l\<close>
     Op (6 - 2) (23 - 8) (m_set_b_ind_r16_plus_i08 I BIT7 IX_W) Epilog, \<comment> \<open>0xfe: set 7,(ix+d)\<close>
     Op (6 - 2) (23 - 8) (m_set_b_ind_r16_plus_i08_r08 I BIT7 IX_W AF_H) Epilog]"

definition opcodes_ddcb :: "'b iface \<Rightarrow> 'b opcode list" where
  "opcodes_ddcb I = opcodes_ddcb_0 I @ opcodes_ddcb_1 I @ opcodes_ddcb_2 I @ opcodes_ddcb_3 I @
     opcodes_ddcb_4 I @ opcodes_ddcb_5 I @ opcodes_ddcb_6 I @ opcodes_ddcb_7 I @
     opcodes_ddcb_8 I @ opcodes_ddcb_9 I @ opcodes_ddcb_a I @ opcodes_ddcb_b I @
     opcodes_ddcb_c I @ opcodes_ddcb_d I @ opcodes_ddcb_e I @ opcodes_ddcb_f I"

lemmas opcodes_ddcb_defs = opcodes_ddcb_def
  opcodes_ddcb_0_def opcodes_ddcb_1_def opcodes_ddcb_2_def opcodes_ddcb_3_def
  opcodes_ddcb_4_def opcodes_ddcb_5_def opcodes_ddcb_6_def opcodes_ddcb_7_def
  opcodes_ddcb_8_def opcodes_ddcb_9_def opcodes_ddcb_a_def opcodes_ddcb_b_def
  opcodes_ddcb_c_def opcodes_ddcb_d_def opcodes_ddcb_e_def opcodes_ddcb_f_def

section \<open>The table \<^verbatim>\<open>cpu-opcodes-fdcb.inc\<close>\<close>

definition opcodes_fdcb_0 :: "'b iface \<Rightarrow> 'b opcode list" where
  "opcodes_fdcb_0 I = [
     Op (6 - 2) (23 - 8) (m_rlc_ind_r16_plus_i08_r08 I IY_W BC_H) Epilog, \<comment> \<open>0x00: rlc (iy+d),b\<close>
     Op (6 - 2) (23 - 8) (m_rlc_ind_r16_plus_i08_r08 I IY_W BC_L) Epilog, \<comment> \<open>0x01: rlc (iy+d),c\<close>
     Op (6 - 2) (23 - 8) (m_rlc_ind_r16_plus_i08_r08 I IY_W DE_H) Epilog, \<comment> \<open>0x02: rlc (iy+d),d\<close>
     Op (6 - 2) (23 - 8) (m_rlc_ind_r16_plus_i08_r08 I IY_W DE_L) Epilog, \<comment> \<open>0x03: rlc (iy+d),e\<close>
     Op (6 - 2) (23 - 8) (m_rlc_ind_r16_plus_i08_r08 I IY_W HL_H) Epilog, \<comment> \<open>0x04: rlc (iy+d),h\<close>
     Op (6 - 2) (23 - 8) (m_rlc_ind_r16_plus_i08_r08 I IY_W HL_L) Epilog, \<comment> \<open>0x05: rlc (iy+d),l\<close>
     Op (6 - 2) (23 - 8) (m_rlc_ind_r16_plus_i08 I IY_W) Epilog, \<comment> \<open>0x06: rlc (iy+d)\<close>
     Op (6 - 2) (23 - 8) (m_rlc_ind_r16_plus_i08_r08 I IY_W AF_H) Epilog, \<comment> \<open>0x07: rlc (iy+d),a\<close>
     Op (6 - 2) (23 - 8) (m_rrc_ind_r16_plus_i08_r08 I IY_W BC_H) Epilog, \<comment> \<open>0x08: rrc (iy+d),b\<close>
     Op (6 - 2) (23 - 8) (m_rrc_ind_r16_plus_i08_r08 I IY_W BC_L) Epilog, \<comment> \<open>0x09: rrc (iy+d),c\<close>
     Op (6 - 2) (23 - 8) (m_rrc_ind_r16_plus_i08_r08 I IY_W DE_H) Epilog, \<comment> \<open>0x0a: rrc (iy+d),d\<close>
     Op (6 - 2) (23 - 8) (m_rrc_ind_r16_plus_i08_r08 I IY_W DE_L) Epilog, \<comment> \<open>0x0b: rrc (iy+d),e\<close>
     Op (6 - 2) (23 - 8) (m_rrc_ind_r16_plus_i08_r08 I IY_W HL_H) Epilog, \<comment> \<open>0x0c: rrc (iy+d),h\<close>
     Op (6 - 2) (23 - 8) (m_rrc_ind_r16_plus_i08_r08 I IY_W HL_L) Epilog, \<comment> \<open>0x0d: rrc (iy+d),l\<close>
     Op (6 - 2) (23 - 8) (m_rrc_ind_r16_plus_i08 I IY_W) Epilog, \<comment> \<open>0x0e: rrc (iy+d)\<close>
     Op (6 - 2) (23 - 8) (m_rrc_ind_r16_plus_i08_r08 I IY_W AF_H) Epilog]"

definition opcodes_fdcb_1 :: "'b iface \<Rightarrow> 'b opcode list" where
  "opcodes_fdcb_1 I = [
     Op (6 - 2) (23 - 8) (m_rl_ind_r16_plus_i08_r08 I IY_W BC_H) Epilog, \<comment> \<open>0x10: rl (iy+d),b\<close>
     Op (6 - 2) (23 - 8) (m_rl_ind_r16_plus_i08_r08 I IY_W BC_L) Epilog, \<comment> \<open>0x11: rl (iy+d),c\<close>
     Op (6 - 2) (23 - 8) (m_rl_ind_r16_plus_i08_r08 I IY_W DE_H) Epilog, \<comment> \<open>0x12: rl (iy+d),d\<close>
     Op (6 - 2) (23 - 8) (m_rl_ind_r16_plus_i08_r08 I IY_W DE_L) Epilog, \<comment> \<open>0x13: rl (iy+d),e\<close>
     Op (6 - 2) (23 - 8) (m_rl_ind_r16_plus_i08_r08 I IY_W HL_H) Epilog, \<comment> \<open>0x14: rl (iy+d),h\<close>
     Op (6 - 2) (23 - 8) (m_rl_ind_r16_plus_i08_r08 I IY_W HL_L) Epilog, \<comment> \<open>0x15: rl (iy+d),l\<close>
     Op (6 - 2) (23 - 8) (m_rl_ind_r16_plus_i08 I IY_W) Epilog, \<comment> \<open>0x16: rl (iy+d)\<close>
     Op (6 - 2) (23 - 8) (m_rl_ind_r16_plus_i08_r08 I IY_W AF_H) Epilog, \<comment> \<open>0x17: rl (iy+d),a\<close>
     Op (6 - 2) (23 - 8) (m_rr_ind_r16_plus_i08_r08 I IY_W BC_H) Epilog, \<comment> \<open>0x18: rr (iy+d),b\<close>
     Op (6 - 2) (23 - 8) (m_rr_ind_r16_plus_i08_r08 I IY_W BC_L) Epilog, \<comment> \<open>0x19: rr (iy+d),c\<close>
     Op (6 - 2) (23 - 8) (m_rr_ind_r16_plus_i08_r08 I IY_W DE_H) Epilog, \<comment> \<open>0x1a: rr (iy+d),d\<close>
     Op (6 - 2) (23 - 8) (m_rr_ind_r16_plus_i08_r08 I IY_W DE_L) Epilog, \<comment> \<open>0x1b: rr (iy+d),e\<close>
     Op (6 - 2) (23 - 8) (m_rr_ind_r16_plus_i08_r08 I IY_W HL_H) Epilog, \<comment> \<open>0x1c: rr (iy+d),h\<close>
     Op (6 - 2) (23 - 8) (m_rr_ind_r16_plus_i08_r08 I IY_W HL_L) Epilog, \<comment> \<open>0x1d: rr (iy+d),l\<close>
     Op (6 - 2) (23 - 8) (m_rr_ind_r16_plus_i08 I IY_W) Epilog, \<comment> \<open>0x1e: rr (iy+d)\<close>
     Op (6 - 2) (23 - 8) (m_rr_ind_r16_plus_i08_r08 I IY_W AF_H) Epilog]"

definition opcodes_fdcb_2 :: "'b iface \<Rightarrow> 'b opcode list" where
  "opcodes_fdcb_2 I = [
     Op (6 - 2) (23 - 8) (m_sla_ind_r16_plus_i08_r08 I IY_W BC_H) Epilog, \<comment> \<open>0x20: sla (iy+d),b\<close>
     Op (6 - 2) (23 - 8) (m_sla_ind_r16_plus_i08_r08 I IY_W BC_L) Epilog, \<comment> \<open>0x21: sla (iy+d),c\<close>
     Op (6 - 2) (23 - 8) (m_sla_ind_r16_plus_i08_r08 I IY_W DE_H) Epilog, \<comment> \<open>0x22: sla (iy+d),d\<close>
     Op (6 - 2) (23 - 8) (m_sla_ind_r16_plus_i08_r08 I IY_W DE_L) Epilog, \<comment> \<open>0x23: sla (iy+d),e\<close>
     Op (6 - 2) (23 - 8) (m_sla_ind_r16_plus_i08_r08 I IY_W HL_H) Epilog, \<comment> \<open>0x24: sla (iy+d),h\<close>
     Op (6 - 2) (23 - 8) (m_sla_ind_r16_plus_i08_r08 I IY_W HL_L) Epilog, \<comment> \<open>0x25: sla (iy+d),l\<close>
     Op (6 - 2) (23 - 8) (m_sla_ind_r16_plus_i08 I IY_W) Epilog, \<comment> \<open>0x26: sla (iy+d)\<close>
     Op (6 - 2) (23 - 8) (m_sla_ind_r16_plus_i08_r08 I IY_W AF_H) Epilog, \<comment> \<open>0x27: sla (iy+d),a\<close>
     Op (6 - 2) (23 - 8) (m_sra_ind_r16_plus_i08_r08 I IY_W BC_H) Epilog, \<comment> \<open>0x28: sra (iy+d),b\<close>
     Op (6 - 2) (23 - 8) (m_sra_ind_r16_plus_i08_r08 I IY_W BC_L) Epilog, \<comment> \<open>0x29: sra (iy+d),c\<close>
     Op (6 - 2) (23 - 8) (m_sra_ind_r16_plus_i08_r08 I IY_W DE_H) Epilog, \<comment> \<open>0x2a: sra (iy+d),d\<close>
     Op (6 - 2) (23 - 8) (m_sra_ind_r16_plus_i08_r08 I IY_W DE_L) Epilog, \<comment> \<open>0x2b: sra (iy+d),e\<close>
     Op (6 - 2) (23 - 8) (m_sra_ind_r16_plus_i08_r08 I IY_W HL_H) Epilog, \<comment> \<open>0x2c: sra (iy+d),h\<close>
     Op (6 - 2) (23 - 8) (m_sra_ind_r16_plus_i08_r08 I IY_W HL_L) Epilog, \<comment> \<open>0x2d: sra (iy+d),l\<close>
     Op (6 - 2) (23 - 8) (m_sra_ind_r16_plus_i08 I IY_W) Epilog, \<comment> \<open>0x2e: sra (iy+d)\<close>
     Op (6 - 2) (23 - 8) (m_sra_ind_r16_plus_i08_r08 I IY_W AF_H) Epilog]"

definition opcodes_fdcb_3 :: "'b iface \<Rightarrow> 'b opcode list" where
  "opcodes_fdcb_3 I = [
     Op (6 - 2) (23 - 8) (m_sll_ind_r16_plus_i08_r08 I IY_W BC_H) Epilog, \<comment> \<open>0x30: sll (iy+d),b\<close>
     Op (6 - 2) (23 - 8) (m_sll_ind_r16_plus_i08_r08 I IY_W BC_L) Epilog, \<comment> \<open>0x31: sll (iy+d),c\<close>
     Op (6 - 2) (23 - 8) (m_sll_ind_r16_plus_i08_r08 I IY_W DE_H) Epilog, \<comment> \<open>0x32: sll (iy+d),d\<close>
     Op (6 - 2) (23 - 8) (m_sll_ind_r16_plus_i08_r08 I IY_W DE_L) Epilog, \<comment> \<open>0x33: sll (iy+d),e\<close>
     Op (6 - 2) (23 - 8) (m_sll_ind_r16_plus_i08_r08 I IY_W HL_H) Epilog, \<comment> \<open>0x34: sll (iy+d),h\<close>
     Op (6 - 2) (23 - 8) (m_sll_ind_r16_plus_i08_r08 I IY_W HL_L) Epilog, \<comment> \<open>0x35: sll (iy+d),l\<close>
     Op (6 - 2) (23 - 8) (m_sll_ind_r16_plus_i08 I IY_W) Epilog, \<comment> \<open>0x36: sll (iy+d)\<close>
     Op (6 - 2) (23 - 8) (m_sll_ind_r16_plus_i08_r08 I IY_W AF_H) Epilog, \<comment> \<open>0x37: sll (iy+d),a\<close>
     Op (6 - 2) (23 - 8) (m_srl_ind_r16_plus_i08_r08 I IY_W BC_H) Epilog, \<comment> \<open>0x38: srl (iy+d),b\<close>
     Op (6 - 2) (23 - 8) (m_srl_ind_r16_plus_i08_r08 I IY_W BC_L) Epilog, \<comment> \<open>0x39: srl (iy+d),c\<close>
     Op (6 - 2) (23 - 8) (m_srl_ind_r16_plus_i08_r08 I IY_W DE_H) Epilog, \<comment> \<open>0x3a: srl (iy+d),d\<close>
     Op (6 - 2) (23 - 8) (m_srl_ind_r16_plus_i08_r08 I IY_W DE_L) Epilog, \<comment> \<open>0x3b: srl (iy+d),e\<close>
     Op (6 - 2) (23 - 8) (m_srl_ind_r16_plus_i08_r08 I IY_W HL_H) Epilog, \<comment> \<open>0x3c: srl (iy+d),h\<close>
     Op (6 - 2) (23 - 8) (m_srl_ind_r16_plus_i08_r08 I IY_W HL_L) Epilog, \<comment> \<open>0x3d: srl (iy+d),l\<close>
     Op (6 - 2) (23 - 8) (m_srl_ind_r16_plus_i08 I IY_W) Epilog, \<comment> \<open>0x3e: srl (iy+d)\<close>
     Op (6 - 2) (23 - 8) (m_srl_ind_r16_plus_i08_r08 I IY_W AF_H) Epilog]"

definition opcodes_fdcb_4 :: "'b iface \<Rightarrow> 'b opcode list" where
  "opcodes_fdcb_4 I = [
     Op (5 - 2) (20 - 8) (m_bit_b_ind_r16_plus_i08 I BIT0 IY_W) Epilog, \<comment> \<open>0x40: bit 0,(iy+d)\<close>
     Op (5 - 2) (20 - 8) (m_bit_b_ind_r16_plus_i08 I BIT0 IY_W) Epilog, \<comment> \<open>0x41: bit 0,(iy+d)\<close>
     Op (5 - 2) (20 - 8) (m_bit_b_ind_r16_plus_i08 I BIT0 IY_W) Epilog, \<comment> \<open>0x42: bit 0,(iy+d)\<close>
     Op (5 - 2) (20 - 8) (m_bit_b_ind_r16_plus_i08 I BIT0 IY_W) Epilog, \<comment> \<open>0x43: bit 0,(iy+d)\<close>
     Op (5 - 2) (20 - 8) (m_bit_b_ind_r16_plus_i08 I BIT0 IY_W) Epilog, \<comment> \<open>0x44: bit 0,(iy+d)\<close>
     Op (5 - 2) (20 - 8) (m_bit_b_ind_r16_plus_i08 I BIT0 IY_W) Epilog, \<comment> \<open>0x45: bit 0,(iy+d)\<close>
     Op (5 - 2) (20 - 8) (m_bit_b_ind_r16_plus_i08 I BIT0 IY_W) Epilog, \<comment> \<open>0x46: bit 0,(iy+d)\<close>
     Op (5 - 2) (20 - 8) (m_bit_b_ind_r16_plus_i08 I BIT0 IY_W) Epilog, \<comment> \<open>0x47: bit 0,(iy+d)\<close>
     Op (5 - 2) (20 - 8) (m_bit_b_ind_r16_plus_i08 I BIT1 IY_W) Epilog, \<comment> \<open>0x48: bit 1,(iy+d)\<close>
     Op (5 - 2) (20 - 8) (m_bit_b_ind_r16_plus_i08 I BIT1 IY_W) Epilog, \<comment> \<open>0x49: bit 1,(iy+d)\<close>
     Op (5 - 2) (20 - 8) (m_bit_b_ind_r16_plus_i08 I BIT1 IY_W) Epilog, \<comment> \<open>0x4a: bit 1,(iy+d)\<close>
     Op (5 - 2) (20 - 8) (m_bit_b_ind_r16_plus_i08 I BIT1 IY_W) Epilog, \<comment> \<open>0x4b: bit 1,(iy+d)\<close>
     Op (5 - 2) (20 - 8) (m_bit_b_ind_r16_plus_i08 I BIT1 IY_W) Epilog, \<comment> \<open>0x4c: bit 1,(iy+d)\<close>
     Op (5 - 2) (20 - 8) (m_bit_b_ind_r16_plus_i08 I BIT1 IY_W) Epilog, \<comment> \<open>0x4d: bit 1,(iy+d)\<close>
     Op (5 - 2) (20 - 8) (m_bit_b_ind_r16_plus_i08 I BIT1 IY_W) Epilog, \<comment> \<open>0x4e: bit 1,(iy+d)\<close>
     Op (5 - 2) (20 - 8) (m_bit_b_ind_r16_plus_i08 I BIT1 IY_W) Epilog]"

definition opcodes_fdcb_5 :: "'b iface \<Rightarrow> 'b opcode list" where
  "opcodes_fdcb_5 I = [
     Op (5 - 2) (20 - 8) (m_bit_b_ind_r16_plus_i08 I BIT2 IY_W) Epilog, \<comment> \<open>0x50: bit 2,(iy+d)\<close>
     Op (5 - 2) (20 - 8) (m_bit_b_ind_r16_plus_i08 I BIT2 IY_W) Epilog, \<comment> \<open>0x51: bit 2,(iy+d)\<close>
     Op (5 - 2) (20 - 8) (m_bit_b_ind_r16_plus_i08 I BIT2 IY_W) Epilog, \<comment> \<open>0x52: bit 2,(iy+d)\<close>
     Op (5 - 2) (20 - 8) (m_bit_b_ind_r16_plus_i08 I BIT2 IY_W) Epilog, \<comment> \<open>0x53: bit 2,(iy+d)\<close>
     Op (5 - 2) (20 - 8) (m_bit_b_ind_r16_plus_i08 I BIT2 IY_W) Epilog, \<comment> \<open>0x54: bit 2,(iy+d)\<close>
     Op (5 - 2) (20 - 8) (m_bit_b_ind_r16_plus_i08 I BIT2 IY_W) Epilog, \<comment> \<open>0x55: bit 2,(iy+d)\<close>
     Op (5 - 2) (20 - 8) (m_bit_b_ind_r16_plus_i08 I BIT2 IY_W) Epilog, \<comment> \<open>0x56: bit 2,(iy+d)\<close>
     Op (5 - 2) (20 - 8) (m_bit_b_ind_r16_plus_i08 I BIT2 IY_W) Epilog, \<comment> \<open>0x57: bit 2,(iy+d)\<close>
     Op (5 - 2) (20 - 8) (m_bit_b_ind_r16_plus_i08 I BIT3 IY_W) Epilog, \<comment> \<open>0x58: bit 3,(iy+d)\<close>
     Op (5 - 2) (20 - 8) (m_bit_b_ind_r16_plus_i08 I BIT3 IY_W) Epilog, \<comment> \<open>0x59: bit 3,(iy+d)\<close>
     Op (5 - 2) (20 - 8) (m_bit_b_ind_r16_plus_i08 I BIT3 IY_W) Epilog, \<comment> \<open>0x5a: bit 3,(iy+d)\<close>
     Op (5 - 2) (20 - 8) (m_bit_b_ind_r16_plus_i08 I BIT3 IY_W) Epilog, \<comment> \<open>0x5b: bit 3,(iy+d)\<close>
     Op (5 - 2) (20 - 8) (m_bit_b_ind_r16_plus_i08 I BIT3 IY_W) Epilog, \<comment> \<open>0x5c: bit 3,(iy+d)\<close>
     Op (5 - 2) (20 - 8) (m_bit_b_ind_r16_plus_i08 I BIT3 IY_W) Epilog, \<comment> \<open>0x5d: bit 3,(iy+d)\<close>
     Op (5 - 2) (20 - 8) (m_bit_b_ind_r16_plus_i08 I BIT3 IY_W) Epilog, \<comment> \<open>0x5e: bit 3,(iy+d)\<close>
     Op (5 - 2) (20 - 8) (m_bit_b_ind_r16_plus_i08 I BIT3 IY_W) Epilog]"

definition opcodes_fdcb_6 :: "'b iface \<Rightarrow> 'b opcode list" where
  "opcodes_fdcb_6 I = [
     Op (5 - 2) (20 - 8) (m_bit_b_ind_r16_plus_i08 I BIT4 IY_W) Epilog, \<comment> \<open>0x60: bit 4,(iy+d)\<close>
     Op (5 - 2) (20 - 8) (m_bit_b_ind_r16_plus_i08 I BIT4 IY_W) Epilog, \<comment> \<open>0x61: bit 4,(iy+d)\<close>
     Op (5 - 2) (20 - 8) (m_bit_b_ind_r16_plus_i08 I BIT4 IY_W) Epilog, \<comment> \<open>0x62: bit 4,(iy+d)\<close>
     Op (5 - 2) (20 - 8) (m_bit_b_ind_r16_plus_i08 I BIT4 IY_W) Epilog, \<comment> \<open>0x63: bit 4,(iy+d)\<close>
     Op (5 - 2) (20 - 8) (m_bit_b_ind_r16_plus_i08 I BIT4 IY_W) Epilog, \<comment> \<open>0x64: bit 4,(iy+d)\<close>
     Op (5 - 2) (20 - 8) (m_bit_b_ind_r16_plus_i08 I BIT4 IY_W) Epilog, \<comment> \<open>0x65: bit 4,(iy+d)\<close>
     Op (5 - 2) (20 - 8) (m_bit_b_ind_r16_plus_i08 I BIT4 IY_W) Epilog, \<comment> \<open>0x66: bit 4,(iy+d)\<close>
     Op (5 - 2) (20 - 8) (m_bit_b_ind_r16_plus_i08 I BIT4 IY_W) Epilog, \<comment> \<open>0x67: bit 4,(iy+d)\<close>
     Op (5 - 2) (20 - 8) (m_bit_b_ind_r16_plus_i08 I BIT5 IY_W) Epilog, \<comment> \<open>0x68: bit 5,(iy+d)\<close>
     Op (5 - 2) (20 - 8) (m_bit_b_ind_r16_plus_i08 I BIT5 IY_W) Epilog, \<comment> \<open>0x69: bit 5,(iy+d)\<close>
     Op (5 - 2) (20 - 8) (m_bit_b_ind_r16_plus_i08 I BIT5 IY_W) Epilog, \<comment> \<open>0x6a: bit 5,(iy+d)\<close>
     Op (5 - 2) (20 - 8) (m_bit_b_ind_r16_plus_i08 I BIT5 IY_W) Epilog, \<comment> \<open>0x6b: bit 5,(iy+d)\<close>
     Op (5 - 2) (20 - 8) (m_bit_b_ind_r16_plus_i08 I BIT5 IY_W) Epilog, \<comment> \<open>0x6c: bit 5,(iy+d)\<close>
     Op (5 - 2) (20 - 8) (m_bit_b_ind_r16_plus_i08 I BIT5 IY_W) Epilog, \<comment> \<open>0x6d: bit 5,(iy+d)\<close>
     Op (5 - 2) (20 - 8) (m_bit_b_ind_r16_plus_i08 I BIT5 IY_W) Epilog, \<comment> \<open>0x6e: bit 5,(iy+d)\<close>
     Op (5 - 2) (20 - 8) (m_bit_b_ind_r16_plus_i08 I BIT5 IY_W) Epilog]"

definition opcodes_fdcb_7 :: "'b iface \<Rightarrow> 'b opcode list" where
  "opcodes_fdcb_7 I = [
     Op (5 - 2) (20 - 8) (m_bit_b_ind_r16_plus_i08 I BIT6 IY_W) Epilog, \<comment> \<open>0x70: bit 6,(iy+d)\<close>
     Op (5 - 2) (20 - 8) (m_bit_b_ind_r16_plus_i08 I BIT6 IY_W) Epilog, \<comment> \<open>0x71: bit 6,(iy+d)\<close>
     Op (5 - 2) (20 - 8) (m_bit_b_ind_r16_plus_i08 I BIT6 IY_W) Epilog, \<comment> \<open>0x72: bit 6,(iy+d)\<close>
     Op (5 - 2) (20 - 8) (m_bit_b_ind_r16_plus_i08 I BIT6 IY_W) Epilog, \<comment> \<open>0x73: bit 6,(iy+d)\<close>
     Op (5 - 2) (20 - 8) (m_bit_b_ind_r16_plus_i08 I BIT6 IY_W) Epilog, \<comment> \<open>0x74: bit 6,(iy+d)\<close>
     Op (5 - 2) (20 - 8) (m_bit_b_ind_r16_plus_i08 I BIT6 IY_W) Epilog, \<comment> \<open>0x75: bit 6,(iy+d)\<close>
     Op (5 - 2) (20 - 8) (m_bit_b_ind_r16_plus_i08 I BIT6 IY_W) Epilog, \<comment> \<open>0x76: bit 6,(iy+d)\<close>
     Op (5 - 2) (20 - 8) (m_bit_b_ind_r16_plus_i08 I BIT6 IY_W) Epilog, \<comment> \<open>0x77: bit 6,(iy+d)\<close>
     Op (5 - 2) (20 - 8) (m_bit_b_ind_r16_plus_i08 I BIT7 IY_W) Epilog, \<comment> \<open>0x78: bit 7,(iy+d)\<close>
     Op (5 - 2) (20 - 8) (m_bit_b_ind_r16_plus_i08 I BIT7 IY_W) Epilog, \<comment> \<open>0x79: bit 7,(iy+d)\<close>
     Op (5 - 2) (20 - 8) (m_bit_b_ind_r16_plus_i08 I BIT7 IY_W) Epilog, \<comment> \<open>0x7a: bit 7,(iy+d)\<close>
     Op (5 - 2) (20 - 8) (m_bit_b_ind_r16_plus_i08 I BIT7 IY_W) Epilog, \<comment> \<open>0x7b: bit 7,(iy+d)\<close>
     Op (5 - 2) (20 - 8) (m_bit_b_ind_r16_plus_i08 I BIT7 IY_W) Epilog, \<comment> \<open>0x7c: bit 7,(iy+d)\<close>
     Op (5 - 2) (20 - 8) (m_bit_b_ind_r16_plus_i08 I BIT7 IY_W) Epilog, \<comment> \<open>0x7d: bit 7,(iy+d)\<close>
     Op (5 - 2) (20 - 8) (m_bit_b_ind_r16_plus_i08 I BIT7 IY_W) Epilog, \<comment> \<open>0x7e: bit 7,(iy+d)\<close>
     Op (5 - 2) (20 - 8) (m_bit_b_ind_r16_plus_i08 I BIT7 IY_W) Epilog]"

definition opcodes_fdcb_8 :: "'b iface \<Rightarrow> 'b opcode list" where
  "opcodes_fdcb_8 I = [
     Op (6 - 2) (23 - 8) (m_res_b_ind_r16_plus_i08_r08 I BIT0 IY_W BC_H) Epilog, \<comment> \<open>0x80: res 0,(iy+d),b\<close>
     Op (6 - 2) (23 - 8) (m_res_b_ind_r16_plus_i08_r08 I BIT0 IY_W BC_L) Epilog, \<comment> \<open>0x81: res 0,(iy+d),c\<close>
     Op (6 - 2) (23 - 8) (m_res_b_ind_r16_plus_i08_r08 I BIT0 IY_W DE_H) Epilog, \<comment> \<open>0x82: res 0,(iy+d),d\<close>
     Op (6 - 2) (23 - 8) (m_res_b_ind_r16_plus_i08_r08 I BIT0 IY_W DE_L) Epilog, \<comment> \<open>0x83: res 0,(iy+d),e\<close>
     Op (6 - 2) (23 - 8) (m_res_b_ind_r16_plus_i08_r08 I BIT0 IY_W HL_H) Epilog, \<comment> \<open>0x84: res 0,(iy+d),h\<close>
     Op (6 - 2) (23 - 8) (m_res_b_ind_r16_plus_i08_r08 I BIT0 IY_W HL_L) Epilog, \<comment> \<open>0x85: res 0,(iy+d),l\<close>
     Op (6 - 2) (23 - 8) (m_res_b_ind_r16_plus_i08 I BIT0 IY_W) Epilog, \<comment> \<open>0x86: res 0,(iy+d)\<close>
     Op (6 - 2) (23 - 8) (m_res_b_ind_r16_plus_i08_r08 I BIT0 IY_W AF_H) Epilog, \<comment> \<open>0x87: res 0,(iy+d),a\<close>
     Op (6 - 2) (23 - 8) (m_res_b_ind_r16_plus_i08_r08 I BIT1 IY_W BC_H) Epilog, \<comment> \<open>0x88: res 1,(iy+d),b\<close>
     Op (6 - 2) (23 - 8) (m_res_b_ind_r16_plus_i08_r08 I BIT1 IY_W BC_L) Epilog, \<comment> \<open>0x89: res 1,(iy+d),c\<close>
     Op (6 - 2) (23 - 8) (m_res_b_ind_r16_plus_i08_r08 I BIT1 IY_W DE_H) Epilog, \<comment> \<open>0x8a: res 1,(iy+d),d\<close>
     Op (6 - 2) (23 - 8) (m_res_b_ind_r16_plus_i08_r08 I BIT1 IY_W DE_L) Epilog, \<comment> \<open>0x8b: res 1,(iy+d),e\<close>
     Op (6 - 2) (23 - 8) (m_res_b_ind_r16_plus_i08_r08 I BIT1 IY_W HL_H) Epilog, \<comment> \<open>0x8c: res 1,(iy+d),h\<close>
     Op (6 - 2) (23 - 8) (m_res_b_ind_r16_plus_i08_r08 I BIT1 IY_W HL_L) Epilog, \<comment> \<open>0x8d: res 1,(iy+d),l\<close>
     Op (6 - 2) (23 - 8) (m_res_b_ind_r16_plus_i08 I BIT1 IY_W) Epilog, \<comment> \<open>0x8e: res 1,(iy+d)\<close>
     Op (6 - 2) (23 - 8) (m_res_b_ind_r16_plus_i08_r08 I BIT1 IY_W AF_H) Epilog]"

definition opcodes_fdcb_9 :: "'b iface \<Rightarrow> 'b opcode list" where
  "opcodes_fdcb_9 I = [
     Op (6 - 2) (23 - 8) (m_res_b_ind_r16_plus_i08_r08 I BIT2 IY_W BC_H) Epilog, \<comment> \<open>0x90: res 2,(iy+d),b\<close>
     Op (6 - 2) (23 - 8) (m_res_b_ind_r16_plus_i08_r08 I BIT2 IY_W BC_L) Epilog, \<comment> \<open>0x91: res 2,(iy+d),c\<close>
     Op (6 - 2) (23 - 8) (m_res_b_ind_r16_plus_i08_r08 I BIT2 IY_W DE_H) Epilog, \<comment> \<open>0x92: res 2,(iy+d),d\<close>
     Op (6 - 2) (23 - 8) (m_res_b_ind_r16_plus_i08_r08 I BIT2 IY_W DE_L) Epilog, \<comment> \<open>0x93: res 2,(iy+d),e\<close>
     Op (6 - 2) (23 - 8) (m_res_b_ind_r16_plus_i08_r08 I BIT2 IY_W HL_H) Epilog, \<comment> \<open>0x94: res 2,(iy+d),h\<close>
     Op (6 - 2) (23 - 8) (m_res_b_ind_r16_plus_i08_r08 I BIT2 IY_W HL_L) Epilog, \<comment> \<open>0x95: res 2,(iy+d),l\<close>
     Op (6 - 2) (23 - 8) (m_res_b_ind_r16_plus_i08 I BIT2 IY_W) Epilog, \<comment> \<open>0x96: res 2,(iy+d)\<close>
     Op (6 - 2) (23 - 8) (m_res_b_ind_r16_plus_i08_r08 I BIT2 IY_W AF_H) Epilog, \<comment> \<open>0x97: res 2,(iy+d),a\<close>
     Op (6 - 2) (23 - 8) (m_res_b_ind_r16_plus_i08_r08 I BIT3 IY_W BC_H) Epilog, \<comment> \<open>0x98: res 3,(iy+d),b\<close>
     Op (6 - 2) (23 - 8) (m_res_b_ind_r16_plus_i08_r08 I BIT3 IY_W BC_L) Epilog, \<comment> \<open>0x99: res 3,(iy+d),c\<close>
     Op (6 - 2) (23 - 8) (m_res_b_ind_r16_plus_i08_r08 I BIT3 IY_W DE_H) Epilog, \<comment> \<open>0x9a: res 3,(iy+d),d\<close>
     Op (6 - 2) (23 - 8) (m_res_b_ind_r16_plus_i08_r08 I BIT3 IY_W DE_L) Epilog, \<comment> \<open>0x9b: res 3,(iy+d),e\<close>
     Op (6 - 2) (23 - 8) (m_res_b_ind_r16_plus_i08_r08 I BIT3 IY_W HL_H) Epilog, \<comment> \<open>0x9c: res 3,(iy+d),h\<close>
     Op (6 - 2) (23 - 8) (m_res_b_ind_r16_plus_i08_r08 I BIT3 IY_W HL_L) Epilog, \<comment> \<open>0x9d: res 3,(iy+d),l\<close>
     Op (6 - 2) (23 - 8) (m_res_b_ind_r16_plus_i08 I BIT3 IY_W) Epilog, \<comment> \<open>0x9e: res 3,(iy+d)\<close>
     Op (6 - 2) (23 - 8) (m_res_b_ind_r16_plus_i08_r08 I BIT3 IY_W AF_H) Epilog]"

definition opcodes_fdcb_a :: "'b iface \<Rightarrow> 'b opcode list" where
  "opcodes_fdcb_a I = [
     Op (6 - 2) (23 - 8) (m_res_b_ind_r16_plus_i08_r08 I BIT4 IY_W BC_H) Epilog, \<comment> \<open>0xa0: res 4,(iy+d),b\<close>
     Op (6 - 2) (23 - 8) (m_res_b_ind_r16_plus_i08_r08 I BIT4 IY_W BC_L) Epilog, \<comment> \<open>0xa1: res 4,(iy+d),c\<close>
     Op (6 - 2) (23 - 8) (m_res_b_ind_r16_plus_i08_r08 I BIT4 IY_W DE_H) Epilog, \<comment> \<open>0xa2: res 4,(iy+d),d\<close>
     Op (6 - 2) (23 - 8) (m_res_b_ind_r16_plus_i08_r08 I BIT4 IY_W DE_L) Epilog, \<comment> \<open>0xa3: res 4,(iy+d),e\<close>
     Op (6 - 2) (23 - 8) (m_res_b_ind_r16_plus_i08_r08 I BIT4 IY_W HL_H) Epilog, \<comment> \<open>0xa4: res 4,(iy+d),h\<close>
     Op (6 - 2) (23 - 8) (m_res_b_ind_r16_plus_i08_r08 I BIT4 IY_W HL_L) Epilog, \<comment> \<open>0xa5: res 4,(iy+d),l\<close>
     Op (6 - 2) (23 - 8) (m_res_b_ind_r16_plus_i08 I BIT4 IY_W) Epilog, \<comment> \<open>0xa6: res 4,(iy+d)\<close>
     Op (6 - 2) (23 - 8) (m_res_b_ind_r16_plus_i08_r08 I BIT4 IY_W AF_H) Epilog, \<comment> \<open>0xa7: res 4,(iy+d),a\<close>
     Op (6 - 2) (23 - 8) (m_res_b_ind_r16_plus_i08_r08 I BIT5 IY_W BC_H) Epilog, \<comment> \<open>0xa8: res 5,(iy+d),b\<close>
     Op (6 - 2) (23 - 8) (m_res_b_ind_r16_plus_i08_r08 I BIT5 IY_W BC_L) Epilog, \<comment> \<open>0xa9: res 5,(iy+d),c\<close>
     Op (6 - 2) (23 - 8) (m_res_b_ind_r16_plus_i08_r08 I BIT5 IY_W DE_H) Epilog, \<comment> \<open>0xaa: res 5,(iy+d),d\<close>
     Op (6 - 2) (23 - 8) (m_res_b_ind_r16_plus_i08_r08 I BIT5 IY_W DE_L) Epilog, \<comment> \<open>0xab: res 5,(iy+d),e\<close>
     Op (6 - 2) (23 - 8) (m_res_b_ind_r16_plus_i08_r08 I BIT5 IY_W HL_H) Epilog, \<comment> \<open>0xac: res 5,(iy+d),h\<close>
     Op (6 - 2) (23 - 8) (m_res_b_ind_r16_plus_i08_r08 I BIT5 IY_W HL_L) Epilog, \<comment> \<open>0xad: res 5,(iy+d),l\<close>
     Op (6 - 2) (23 - 8) (m_res_b_ind_r16_plus_i08 I BIT5 IY_W) Epilog, \<comment> \<open>0xae: res 5,(iy+d)\<close>
     Op (6 - 2) (23 - 8) (m_res_b_ind_r16_plus_i08_r08 I BIT5 IY_W AF_H) Epilog]"

definition opcodes_fdcb_b :: "'b iface \<Rightarrow> 'b opcode list" where
  "opcodes_fdcb_b I = [
     Op (6 - 2) (23 - 8) (m_res_b_ind_r16_plus_i08_r08 I BIT6 IY_W BC_H) Epilog, \<comment> \<open>0xb0: res 6,(iy+d),b\<close>
     Op (6 - 2) (23 - 8) (m_res_b_ind_r16_plus_i08_r08 I BIT6 IY_W BC_L) Epilog, \<comment> \<open>0xb1: res 6,(iy+d),c\<close>
     Op (6 - 2) (23 - 8) (m_res_b_ind_r16_plus_i08_r08 I BIT6 IY_W DE_H) Epilog, \<comment> \<open>0xb2: res 6,(iy+d),d\<close>
     Op (6 - 2) (23 - 8) (m_res_b_ind_r16_plus_i08_r08 I BIT6 IY_W DE_L) Epilog, \<comment> \<open>0xb3: res 6,(iy+d),e\<close>
     Op (6 - 2) (23 - 8) (m_res_b_ind_r16_plus_i08_r08 I BIT6 IY_W HL_H) Epilog, \<comment> \<open>0xb4: res 6,(iy+d),h\<close>
     Op (6 - 2) (23 - 8) (m_res_b_ind_r16_plus_i08_r08 I BIT6 IY_W HL_L) Epilog, \<comment> \<open>0xb5: res 6,(iy+d),l\<close>
     Op (6 - 2) (23 - 8) (m_res_b_ind_r16_plus_i08 I BIT6 IY_W) Epilog, \<comment> \<open>0xb6: res 6,(iy+d)\<close>
     Op (6 - 2) (23 - 8) (m_res_b_ind_r16_plus_i08_r08 I BIT6 IY_W AF_H) Epilog, \<comment> \<open>0xb7: res 6,(iy+d),a\<close>
     Op (6 - 2) (23 - 8) (m_res_b_ind_r16_plus_i08_r08 I BIT7 IY_W BC_H) Epilog, \<comment> \<open>0xb8: res 7,(iy+d),b\<close>
     Op (6 - 2) (23 - 8) (m_res_b_ind_r16_plus_i08_r08 I BIT7 IY_W BC_L) Epilog, \<comment> \<open>0xb9: res 7,(iy+d),c\<close>
     Op (6 - 2) (23 - 8) (m_res_b_ind_r16_plus_i08_r08 I BIT7 IY_W DE_H) Epilog, \<comment> \<open>0xba: res 7,(iy+d),d\<close>
     Op (6 - 2) (23 - 8) (m_res_b_ind_r16_plus_i08_r08 I BIT7 IY_W DE_L) Epilog, \<comment> \<open>0xbb: res 7,(iy+d),e\<close>
     Op (6 - 2) (23 - 8) (m_res_b_ind_r16_plus_i08_r08 I BIT7 IY_W HL_H) Epilog, \<comment> \<open>0xbc: res 7,(iy+d),h\<close>
     Op (6 - 2) (23 - 8) (m_res_b_ind_r16_plus_i08_r08 I BIT7 IY_W HL_L) Epilog, \<comment> \<open>0xbd: res 7,(iy+d),l\<close>
     Op (6 - 2) (23 - 8) (m_res_b_ind_r16_plus_i08 I BIT7 IY_W) Epilog, \<comment> \<open>0xbe: res 7,(iy+d)\<close>
     Op (6 - 2) (23 - 8) (m_res_b_ind_r16_plus_i08_r08 I BIT7 IY_W AF_H) Epilog]"

definition opcodes_fdcb_c :: "'b iface \<Rightarrow> 'b opcode list" where
  "opcodes_fdcb_c I = [
     Op (6 - 2) (23 - 8) (m_set_b_ind_r16_plus_i08_r08 I BIT0 IY_W BC_H) Epilog, \<comment> \<open>0xc0: set 0,(iy+d),b\<close>
     Op (6 - 2) (23 - 8) (m_set_b_ind_r16_plus_i08_r08 I BIT0 IY_W BC_L) Epilog, \<comment> \<open>0xc1: set 0,(iy+d),c\<close>
     Op (6 - 2) (23 - 8) (m_set_b_ind_r16_plus_i08_r08 I BIT0 IY_W DE_H) Epilog, \<comment> \<open>0xc2: set 0,(iy+d),d\<close>
     Op (6 - 2) (23 - 8) (m_set_b_ind_r16_plus_i08_r08 I BIT0 IY_W DE_L) Epilog, \<comment> \<open>0xc3: set 0,(iy+d),e\<close>
     Op (6 - 2) (23 - 8) (m_set_b_ind_r16_plus_i08_r08 I BIT0 IY_W HL_H) Epilog, \<comment> \<open>0xc4: set 0,(iy+d),h\<close>
     Op (6 - 2) (23 - 8) (m_set_b_ind_r16_plus_i08_r08 I BIT0 IY_W HL_L) Epilog, \<comment> \<open>0xc5: set 0,(iy+d),l\<close>
     Op (6 - 2) (23 - 8) (m_set_b_ind_r16_plus_i08 I BIT0 IY_W) Epilog, \<comment> \<open>0xc6: set 0,(iy+d)\<close>
     Op (6 - 2) (23 - 8) (m_set_b_ind_r16_plus_i08_r08 I BIT0 IY_W AF_H) Epilog, \<comment> \<open>0xc7: set 0,(iy+d),a\<close>
     Op (6 - 2) (23 - 8) (m_set_b_ind_r16_plus_i08_r08 I BIT1 IY_W BC_H) Epilog, \<comment> \<open>0xc8: set 1,(iy+d),b\<close>
     Op (6 - 2) (23 - 8) (m_set_b_ind_r16_plus_i08_r08 I BIT1 IY_W BC_L) Epilog, \<comment> \<open>0xc9: set 1,(iy+d),c\<close>
     Op (6 - 2) (23 - 8) (m_set_b_ind_r16_plus_i08_r08 I BIT1 IY_W DE_H) Epilog, \<comment> \<open>0xca: set 1,(iy+d),d\<close>
     Op (6 - 2) (23 - 8) (m_set_b_ind_r16_plus_i08_r08 I BIT1 IY_W DE_L) Epilog, \<comment> \<open>0xcb: set 1,(iy+d),e\<close>
     Op (6 - 2) (23 - 8) (m_set_b_ind_r16_plus_i08_r08 I BIT1 IY_W HL_H) Epilog, \<comment> \<open>0xcc: set 1,(iy+d),h\<close>
     Op (6 - 2) (23 - 8) (m_set_b_ind_r16_plus_i08_r08 I BIT1 IY_W HL_L) Epilog, \<comment> \<open>0xcd: set 1,(iy+d),l\<close>
     Op (6 - 2) (23 - 8) (m_set_b_ind_r16_plus_i08 I BIT1 IY_W) Epilog, \<comment> \<open>0xce: set 1,(iy+d)\<close>
     Op (6 - 2) (23 - 8) (m_set_b_ind_r16_plus_i08_r08 I BIT1 IY_W AF_H) Epilog]"

definition opcodes_fdcb_d :: "'b iface \<Rightarrow> 'b opcode list" where
  "opcodes_fdcb_d I = [
     Op (6 - 2) (23 - 8) (m_set_b_ind_r16_plus_i08_r08 I BIT2 IY_W BC_H) Epilog, \<comment> \<open>0xd0: set 2,(iy+d),b\<close>
     Op (6 - 2) (23 - 8) (m_set_b_ind_r16_plus_i08_r08 I BIT2 IY_W BC_L) Epilog, \<comment> \<open>0xd1: set 2,(iy+d),c\<close>
     Op (6 - 2) (23 - 8) (m_set_b_ind_r16_plus_i08_r08 I BIT2 IY_W DE_H) Epilog, \<comment> \<open>0xd2: set 2,(iy+d),d\<close>
     Op (6 - 2) (23 - 8) (m_set_b_ind_r16_plus_i08_r08 I BIT2 IY_W DE_L) Epilog, \<comment> \<open>0xd3: set 2,(iy+d),e\<close>
     Op (6 - 2) (23 - 8) (m_set_b_ind_r16_plus_i08_r08 I BIT2 IY_W HL_H) Epilog, \<comment> \<open>0xd4: set 2,(iy+d),h\<close>
     Op (6 - 2) (23 - 8) (m_set_b_ind_r16_plus_i08_r08 I BIT2 IY_W HL_L) Epilog, \<comment> \<open>0xd5: set 2,(iy+d),l\<close>
     Op (6 - 2) (23 - 8) (m_set_b_ind_r16_plus_i08 I BIT2 IY_W) Epilog, \<comment> \<open>0xd6: set 2,(iy+d)\<close>
     Op (6 - 2) (23 - 8) (m_set_b_ind_r16_plus_i08_r08 I BIT2 IY_W AF_H) Epilog, \<comment> \<open>0xd7: set 2,(iy+d),a\<close>
     Op (6 - 2) (23 - 8) (m_set_b_ind_r16_plus_i08_r08 I BIT3 IY_W BC_H) Epilog, \<comment> \<open>0xd8: set 3,(iy+d),b\<close>
     Op (6 - 2) (23 - 8) (m_set_b_ind_r16_plus_i08_r08 I BIT3 IY_W BC_L) Epilog, \<comment> \<open>0xd9: set 3,(iy+d),c\<close>
     Op (6 - 2) (23 - 8) (m_set_b_ind_r16_plus_i08_r08 I BIT3 IY_W DE_H) Epilog, \<comment> \<open>0xda: set 3,(iy+d),d\<close>
     Op (6 - 2) (23 - 8) (m_set_b_ind_r16_plus_i08_r08 I BIT3 IY_W DE_L) Epilog, \<comment> \<open>0xdb: set 3,(iy+d),e\<close>
     Op (6 - 2) (23 - 8) (m_set_b_ind_r16_plus_i08_r08 I BIT3 IY_W HL_H) Epilog, \<comment> \<open>0xdc: set 3,(iy+d),h\<close>
     Op (6 - 2) (23 - 8) (m_set_b_ind_r16_plus_i08_r08 I BIT3 IY_W HL_L) Epilog, \<comment> \<open>0xdd: set 3,(iy+d),l\<close>
     Op (6 - 2) (23 - 8) (m_set_b_ind_r16_plus_i08 I BIT3 IY_W) Epilog, \<comment> \<open>0xde: set 3,(iy+d)\<close>
     Op (6 - 2) (23 - 8) (m_set_b_ind_r16_plus_i08_r08 I BIT3 IY_W AF_H) Epilog]"

definition opcodes_fdcb_e :: "'b iface \<Rightarrow> 'b opcode list" where
  "opcodes_fdcb_e I = [
     Op (6 - 2) (23 - 8) (m_set_b_ind_r16_plus_i08_r08 I BIT4 IY_W BC_H) Epilog, \<comment> \<open>0xe0: set 4,(iy+d),b\<close>
     Op (6 - 2) (23 - 8) (m_set_b_ind_r16_plus_i08_r08 I BIT4 IY_W BC_L) Epilog, \<comment> \<open>0xe1: set 4,(iy+d),c\<close>
     Op (6 - 2) (23 - 8) (m_set_b_ind_r16_plus_i08_r08 I BIT4 IY_W DE_H) Epilog, \<comment> \<open>0xe2: set 4,(iy+d),d\<close>
     Op (6 - 2) (23 - 8) (m_set_b_ind_r16_plus_i08_r08 I BIT4 IY_W DE_L) Epilog, \<comment> \<open>0xe3: set 4,(iy+d),e\<close>
     Op (6 - 2) (23 - 8) (m_set_b_ind_r16_plus_i08_r08 I BIT4 IY_W HL_H) Epilog, \<comment> \<open>0xe4: set 4,(iy+d),h\<close>
     Op (6 - 2) (23 - 8) (m_set_b_ind_r16_plus_i08_r08 I BIT4 IY_W HL_L) Epilog, \<comment> \<open>0xe5: set 4,(iy+d),l\<close>
     Op (6 - 2) (23 - 8) (m_set_b_ind_r16_plus_i08 I BIT4 IY_W) Epilog, \<comment> \<open>0xe6: set 4,(iy+d)\<close>
     Op (6 - 2) (23 - 8) (m_set_b_ind_r16_plus_i08_r08 I BIT4 IY_W AF_H) Epilog, \<comment> \<open>0xe7: set 4,(iy+d),a\<close>
     Op (6 - 2) (23 - 8) (m_set_b_ind_r16_plus_i08_r08 I BIT5 IY_W BC_H) Epilog, \<comment> \<open>0xe8: set 5,(iy+d),b\<close>
     Op (6 - 2) (23 - 8) (m_set_b_ind_r16_plus_i08_r08 I BIT5 IY_W BC_L) Epilog, \<comment> \<open>0xe9: set 5,(iy+d),c\<close>
     Op (6 - 2) (23 - 8) (m_set_b_ind_r16_plus_i08_r08 I BIT5 IY_W DE_H) Epilog, \<comment> \<open>0xea: set 5,(iy+d),d\<close>
     Op (6 - 2) (23 - 8) (m_set_b_ind_r16_plus_i08_r08 I BIT5 IY_W DE_L) Epilog, \<comment> \<open>0xeb: set 5,(iy+d),e\<close>
     Op (6 - 2) (23 - 8) (m_set_b_ind_r16_plus_i08_r08 I BIT5 IY_W HL_H) Epilog, \<comment> \<open>0xec: set 5,(iy+d),h\<close>
     Op (6 - 2) (23 - 8) (m_set_b_ind_r16_plus_i08_r08 I BIT5 IY_W HL_L) Epilog, \<comment> \<open>0xed: set 5,(iy+d),l\<close>
     Op (6 - 2) (23 - 8) (m_set_b_ind_r16_plus_i08 I BIT5 IY_W) Epilog, \<comment> \<open>0xee: set 5,(iy+d)\<close>
     Op (6 - 2) (23 - 8) (m_set_b_ind_r16_plus_i08_r08 I BIT5 IY_W AF_H) Epilog]"

definition opcodes_fdcb_f :: "'b iface \<Rightarrow> 'b opcode list" where
  "opcodes_fdcb_f I = [
     Op (6 - 2) (23 - 8) (m_set_b_ind_r16_plus_i08_r08 I BIT6 IY_W BC_H) Epilog, \<comment> \<open>0xf0: set 6,(iy+d),b\<close>
     Op (6 - 2) (23 - 8) (m_set_b_ind_r16_plus_i08_r08 I BIT6 IY_W BC_L) Epilog, \<comment> \<open>0xf1: set 6,(iy+d),c\<close>
     Op (6 - 2) (23 - 8) (m_set_b_ind_r16_plus_i08_r08 I BIT6 IY_W DE_H) Epilog, \<comment> \<open>0xf2: set 6,(iy+d),d\<close>
     Op (6 - 2) (23 - 8) (m_set_b_ind_r16_plus_i08_r08 I BIT6 IY_W DE_L) Epilog, \<comment> \<open>0xf3: set 6,(iy+d),e\<close>
     Op (6 - 2) (23 - 8) (m_set_b_ind_r16_plus_i08_r08 I BIT6 IY_W HL_H) Epilog, \<comment> \<open>0xf4: set 6,(iy+d),h\<close>
     Op (6 - 2) (23 - 8) (m_set_b_ind_r16_plus_i08_r08 I BIT6 IY_W HL_L) Epilog, \<comment> \<open>0xf5: set 6,(iy+d),l\<close>
     Op (6 - 2) (23 - 8) (m_set_b_ind_r16_plus_i08 I BIT6 IY_W) Epilog, \<comment> \<open>0xf6: set 6,(iy+d)\<close>
     Op (6 - 2) (23 - 8) (m_set_b_ind_r16_plus_i08_r08 I BIT6 IY_W AF_H) Epilog, \<comment> \<open>0xf7: set 6,(iy+d),a\<close>
     Op (6 - 2) (23 - 8) (m_set_b_ind_r16_plus_i08_r08 I BIT7 IY_W BC_H) Epilog, \<comment> \<open>0xf8: set 7,(iy+d),b\<close>
     Op (6 - 2) (23 - 8) (m_set_b_ind_r16_plus_i08_r08 I BIT7 IY_W BC_L) Epilog, \<comment> \<open>0xf9: set 7,(iy+d),c\<close>
     Op (6 - 2) (23 - 8) (m_set_b_ind_r16_plus_i08_r08 I BIT7 IY_W DE_H) Epilog, \<comment> \<open>0xfa: set 7,(iy+d),d\<close>
     Op (6 - 2) (23 - 8) (m_set_b_ind_r16_plus_i08_r08 I BIT7 IY_W DE_L) Epilog, \<comment> \<open>0xfb: set 7,(iy+d),e\<close>
     Op (6 - 2) (23 - 8) (m_set_b_ind_r16_plus_i08_r08 I BIT7 IY_W HL_H) Epilog, \<comment> \<open>0xfc: set 7,(iy+d),h\<close>
     Op (6 - 2) (23 - 8) (m_set_b_ind_r16_plus_i08_r08 I BIT7 IY_W HL_L) Epilog, \<comment> \<open>0xfd: set 7,(iy+d),l\<close>
     Op (6 - 2) (23 - 8) (m_set_b_ind_r16_plus_i08 I BIT7 IY_W) Epilog, \<comment> \<open>0xfe: set 7,(iy+d)\<close>
     Op (6 - 2) (23 - 8) (m_set_b_ind_r16_plus_i08_r08 I BIT7 IY_W AF_H) Epilog]"

definition opcodes_fdcb :: "'b iface \<Rightarrow> 'b opcode list" where
  "opcodes_fdcb I = opcodes_fdcb_0 I @ opcodes_fdcb_1 I @ opcodes_fdcb_2 I @ opcodes_fdcb_3 I @
     opcodes_fdcb_4 I @ opcodes_fdcb_5 I @ opcodes_fdcb_6 I @ opcodes_fdcb_7 I @
     opcodes_fdcb_8 I @ opcodes_fdcb_9 I @ opcodes_fdcb_a I @ opcodes_fdcb_b I @
     opcodes_fdcb_c I @ opcodes_fdcb_d I @ opcodes_fdcb_e I @ opcodes_fdcb_f I"

lemmas opcodes_fdcb_defs = opcodes_fdcb_def
  opcodes_fdcb_0_def opcodes_fdcb_1_def opcodes_fdcb_2_def opcodes_fdcb_3_def
  opcodes_fdcb_4_def opcodes_fdcb_5_def opcodes_fdcb_6_def opcodes_fdcb_7_def
  opcodes_fdcb_8_def opcodes_fdcb_9_def opcodes_fdcb_a_def opcodes_fdcb_b_def
  opcodes_fdcb_c_def opcodes_fdcb_d_def opcodes_fdcb_e_def opcodes_fdcb_f_def

end
