(* ===== verification/Z80_Clock.thy ===== *)
theory Z80_Clock
  imports Z80_Index_Opcodes
begin

text \<open>
  The control of the CPU (\<^verbatim>\<open>cpu-core.cc\<close>): reset, the interrupt lines, and
  \<^verbatim>\<open>Instance::clock()\<close>, whose labels \<^verbatim>\<open>prolog\<close>, \<^verbatim>\<open>check_nmi\<close>, \<^verbatim>\<open>check_int\<close>,
  \<^verbatim>\<open>check_hlt\<close>, \<^verbatim>\<open>fetch_opcode\<close>, \<^verbatim>\<open>execute_opcode\<close>, \<^verbatim>\<open>fetch_xx_opcode\<close> and
  \<^verbatim>\<open>epilog\<close> are one definition each: a \<^verbatim>\<open>goto\<close> is a call in tail position.
\<close>

unbundle bit_operations_syntax

section \<open>Reset, interrupt lines and accessors\<close>

definition reset_state :: "State \<Rightarrow> State" where
  "reset_state s = s
     \<lparr>r_af := set_l_r (l_r (r_af s) AND 0) (r_af s), r_bc := set_l_r (l_r (r_bc s) AND 0) (r_bc s),
      r_de := set_l_r (l_r (r_de s) AND 0) (r_de s), r_hl := set_l_r (l_r (r_hl s) AND 0) (r_hl s),
      r_ix := set_l_r (l_r (r_ix s) AND 0) (r_ix s), r_iy := set_l_r (l_r (r_iy s) AND 0) (r_iy s),
      r_sp := set_l_r (l_r (r_sp s) AND 0) (r_sp s), r_pc := set_l_r (l_r (r_pc s) AND 0) (r_pc s),
      r_ir := set_l_r (l_r (r_ir s) AND 0) (r_ir s), r_st := set_l_r (l_r (r_st s) AND 0) (r_st s),
      m_cycles := m_cycles s AND 0, t_states := t_states s AND 0, i_period := i_period s AND 0\<rparr>"

definition pulse_nmi :: "State \<Rightarrow> State" where
  "pulse_nmi s = s\<lparr>r_st := (r_st s)\<lparr>b_l := b_l (r_st s) OR ST_NMI\<rparr>\<rparr>"

definition pulse_int :: "State \<Rightarrow> State" where
  "pulse_int s = s\<lparr>r_st := (r_st s)\<lparr>b_l := b_l (r_st s) OR ST_INT\<rparr>\<rparr>"

definition get_im_l :: "State \<Rightarrow> u8" where
  "get_im_l s = (if b_l (r_st s) AND ST_IM1 \<noteq> 0 then 1 else 0) OR (if b_l (r_st s) AND ST_IM2 \<noteq> 0 then 2 else 0)"

definition set_im_l :: "u8 \<Rightarrow> State \<Rightarrow> State" where
  "set_im_l data s = s\<lparr>r_st := (r_st s)\<lparr>b_l :=
     (if data = 1 then (b_l (r_st s) OR ST_IM1) AND NOT ST_IM2
      else if data = 2 then (b_l (r_st s) AND NOT ST_IM1) OR ST_IM2
      else if data = 3 then (b_l (r_st s) OR ST_IM1) OR ST_IM2
      else (b_l (r_st s) AND NOT ST_IM1) AND NOT ST_IM2)\<rparr>\<rparr>"

definition get_iff1 :: "State \<Rightarrow> u8" where
  "get_iff1 s = (if b_l (r_st s) AND ST_IFF1 \<noteq> 0 then 1 else 0)"

definition get_iff2 :: "State \<Rightarrow> u8" where
  "get_iff2 s = (if b_l (r_st s) AND ST_IFF2 \<noteq> 0 then 1 else 0)"

definition set_iff1 :: "u8 \<Rightarrow> State \<Rightarrow> State" where
  "set_iff1 iff1 s = s\<lparr>r_st := (r_st s)\<lparr>b_l :=
     (if iff1 \<noteq> 0 then b_l (r_st s) OR ST_IFF1 else b_l (r_st s) AND NOT ST_IFF1)\<rparr>\<rparr>"

definition set_iff2 :: "u8 \<Rightarrow> State \<Rightarrow> State" where
  "set_iff2 iff2 s = s\<lparr>r_st := (r_st s)\<lparr>b_l :=
     (if iff2 \<noteq> 0 then b_l (r_st s) OR ST_IFF2 else b_l (r_st s) AND NOT ST_IFF2)\<rparr>\<rparr>"

section \<open>The tests on the internal flags\<close>

definition m_interrupt_mode :: "'b machine \<Rightarrow> u8" where
  "m_interrupt_mode m =
     (if get8 ST_L m AND ST_IM1 \<noteq> 0 then 1 else 0) OR (if get8 ST_L m AND ST_IM2 \<noteq> 0 then 2 else 0)"

definition m_after_ei :: "'b machine \<Rightarrow> bool \<times> 'b machine" where
  "m_after_ei m =
     (if get8 ST_L m AND ST_AEI \<noteq> 0 then (True, put8 ST_L (get8 ST_L m AND NOT ST_AEI) m)
      else (False, m))"

definition m_take_nmi :: "'b machine \<Rightarrow> bool \<times> 'b machine" where
  "m_take_nmi m =
     (if get8 ST_L m AND ST_NMI \<noteq> 0
      then (True, put8 ST_L (get8 ST_L m AND NOT (ST_HLT OR ST_NMI OR ST_IFF1)) m)
      else (False, m))"

definition m_take_int :: "'b machine \<Rightarrow> bool \<times> 'b machine" where
  "m_take_int m =
     (if get8 ST_L m AND ST_IFF1 = 0 then (False, m)
      else if get8 ST_L m AND ST_INT \<noteq> 0
      then (True, put8 ST_L (get8 ST_L m AND NOT (ST_HLT OR ST_INT OR ST_IFF2 OR ST_IFF1)) m)
      else (False, m))"

definition m_halted :: "'b machine \<Rightarrow> bool" where
  "m_halted m \<longleftrightarrow> get8 ST_L m AND ST_HLT \<noteq> 0"

section \<open>Dispatch\<close>

text \<open>
  One \<^verbatim>\<open>switch(OP_L)\<close>.  The tables have an entry for every byte (lemma \<open>length_tables\<close> below),
  so the \<^verbatim>\<open>default\<close> branch of the source is never reached.
\<close>

definition dispatch :: "'b opcode list \<Rightarrow> 'b machine \<Rightarrow> label \<times> 'b machine" where
  "dispatch tab m =
     (case tab ! unat (get8 OP_L m) of
        Op cycles states body l \<Rightarrow> (l, m_consume cycles states (body m)))"

definition fetch_cb :: "'b iface \<Rightarrow> 'b machine \<Rightarrow> 'b machine" where
  "fetch_cb I m = snd (dispatch (opcodes_cb I) (m_refresh_dram (m_fetch_cb_opcode I m)))"

definition fetch_ed :: "'b iface \<Rightarrow> 'b machine \<Rightarrow> 'b machine" where
  "fetch_ed I m = snd (dispatch (opcodes_ed I) (m_refresh_dram (m_fetch_ed_opcode I m)))"

definition fetch_ddcb :: "'b iface \<Rightarrow> 'b machine \<Rightarrow> 'b machine" where
  "fetch_ddcb I m = snd (dispatch (opcodes_ddcb I) (m_fetch_ddcb_opcode I m))"

definition fetch_fdcb :: "'b iface \<Rightarrow> 'b machine \<Rightarrow> 'b machine" where
  "fetch_fdcb I m = snd (dispatch (opcodes_fdcb I) (m_fetch_fdcb_opcode I m))"

definition fetch_dd :: "'b iface \<Rightarrow> 'b machine \<Rightarrow> 'b machine" where
  "fetch_dd I m =
     (case dispatch (opcodes_dd I) (m_refresh_dram (m_fetch_dd_opcode I m)) of
        (l, m) \<Rightarrow> if l = Fetch_ddcb then fetch_ddcb I m else m)"

definition fetch_fd :: "'b iface \<Rightarrow> 'b machine \<Rightarrow> 'b machine" where
  "fetch_fd I m =
     (case dispatch (opcodes_fd I) (m_refresh_dram (m_fetch_fd_opcode I m)) of
        (l, m) \<Rightarrow> if l = Fetch_fdcb then fetch_fdcb I m else m)"

definition execute_opcode :: "'b iface \<Rightarrow> 'b machine \<Rightarrow> 'b machine" where
  "execute_opcode I m =
     (case dispatch (opcodes_base I) m of (l, m) \<Rightarrow>
        case l of
          Fetch_cb \<Rightarrow> fetch_cb I m
        | Fetch_dd \<Rightarrow> fetch_dd I m
        | Fetch_ed \<Rightarrow> fetch_ed I m
        | Fetch_fd \<Rightarrow> fetch_fd I m
        | _ \<Rightarrow> m)"

section \<open>The clock\<close>

definition fetch_opcode :: "'b iface \<Rightarrow> 'b machine \<Rightarrow> 'b machine" where
  "fetch_opcode I m = execute_opcode I (m_refresh_dram (m_fetch_opcode I m))"

definition check_hlt :: "'b iface \<Rightarrow> 'b machine \<Rightarrow> 'b machine" where
  "check_hlt I m =
     (if m_halted m then m_consume 1 4 (m_refresh_dram m) else fetch_opcode I m)"

definition interrupt_im1 :: "'b iface \<Rightarrow> 'b machine \<Rightarrow> 'b machine" where
  "interrupt_im1 I m = (
     let m = m_iorq_m1 I 0x0000 R1_L m;
         m = m_rst_vec16 I VECTOR_38H m
     in m_consume 3 13 m)"

definition interrupt_im2 :: "'b iface \<Rightarrow> 'b machine \<Rightarrow> 'b machine" where
  "interrupt_im2 I m = (
     let m = put16 SP_W (get16 SP_W m - 1) m;
         m = m_mreq_wr I (get16 SP_W m) (get8 PC_H m) m;
         m = put16 SP_W (get16 SP_W m - 1) m;
         m = m_mreq_wr I (get16 SP_W m) (get8 PC_L m) m;
         m = m_iorq_m1 I 0x0000 R1_L m;
         m = put8 R1_H (get8 IR_H m) m;
         m = put8 R1_L (get8 R1_L m) m;
         a = get16 R1_W m;
         m = put16 R1_W (a + 1) m;
         m = m_mreq_rd I a PC_L m;
         a = get16 R1_W m;
         m = put16 R1_W (a + 1) m;
         m = m_mreq_rd I a PC_H m
     in m_consume 5 19 m)"

definition check_int :: "'b iface \<Rightarrow> 'b machine \<Rightarrow> 'b machine" where
  "check_int I m =
     (case m_take_int m of (taken, m) \<Rightarrow>
        if taken then
          (let mode = m_interrupt_mode m in
           if mode = 0 then execute_opcode I (m_iorq_m1 I 0x0000 OP_L m)
           else if mode = 1 then interrupt_im1 I m
           else if mode = 2 then interrupt_im2 I m
           else m)
        else check_hlt I m)"

definition check_nmi :: "'b iface \<Rightarrow> 'b machine \<Rightarrow> 'b machine" where
  "check_nmi I m =
     (case m_take_nmi m of (taken, m) \<Rightarrow>
        if taken then m_consume 3 11 (m_rst_vec16 I VECTOR_66H m) else check_int I m)"

definition prolog :: "'b iface \<Rightarrow> 'b machine \<Rightarrow> 'b machine" where
  "prolog I m =
     (case m_after_ei (m_backup_pc m) of (after_ei, m) \<Rightarrow>
        if after_ei then check_hlt I m else check_nmi I m)"

definition epilog :: "'b machine \<Rightarrow> 'b machine" where
  "epilog m = m\<lparr>cpu_st := (cpu_st m)\<lparr>i_period := i_period (cpu_st m) - 1\<rparr>\<rparr>"

text \<open>
  \<^verbatim>\<open>Instance::clock()\<close> takes the uninitialised contents of its local \<^verbatim>\<open>Stack\<close> as an argument.
\<close>

definition clock_machine :: "'b iface \<Rightarrow> 'b machine \<Rightarrow> 'b machine" where
  "clock_machine I m = epilog (if i_period (cpu_st m) = 0 then prolog I m else m)"

definition clock :: "'b iface \<Rightarrow> Stack \<Rightarrow> State \<times> 'b \<Rightarrow> State \<times> 'b" where
  "clock I stack sb =
     (let m = clock_machine I \<lparr>cpu_st = fst sb, stk = stack, bus = snd sb\<rparr> in (cpu_st m, bus m))"

lemma length_tables:
  "length (opcodes_base I) = 256" "length (opcodes_cb I) = 256" "length (opcodes_ed I) = 256"
  "length (opcodes_dd I) = 256" "length (opcodes_fd I) = 256"
  "length (opcodes_ddcb I) = 256" "length (opcodes_fdcb I) = 256"
  by (simp_all add: opcodes_base_defs opcodes_cb_defs opcodes_ed_defs opcodes_dd_defs
      opcodes_fd_defs opcodes_ddcb_defs opcodes_fdcb_defs)

end
