(* ===== verification/Z80_Frame.thy ===== *)
theory Z80_Frame
  imports Z80_Clock
begin

text \<open>
  What every instruction leaves alone.  The locale \<open>step_rel\<close> states a contract between the
  CPU and its environment: a relation from a fixed machine to the current one that is closed under
  writing registers and under the data accesses of the interface.  Its lemmas show once that every
  micro-instruction that consumes no extra time stays within the relation; \<open>micro_rel\<close> adds time
  and the two M1 accesses, and its lemmas cover the other micro-instructions, every entry of the
  opcode tables and \<^verbatim>\<open>clock()\<close> itself.  The components that provide an interface interpret
  the locales with the invariant they promise.
\<close>

locale step_rel =
  fixes I :: "'b iface"
    and R :: "'b machine \<Rightarrow> 'b machine \<Rightarrow> bool"
  assumes R_put: "R m m1 \<Longrightarrow> R m (put8 p v m1)" "R m m1 \<Longrightarrow> R m (put16 q w m1)"
      "R m m1 \<Longrightarrow> R m (put32 f x m1)"
    and R_MREQ_RD: "R m m1 \<Longrightarrow> R m (snd (MREQ_RD I a d m1))"
    and R_MREQ_WR: "R m m1 \<Longrightarrow> R m (snd (MREQ_WR I a d m1))"
    and R_IORQ_RD: "R m m1 \<Longrightarrow> R m (snd (IORQ_RD I a d m1))"
    and R_IORQ_WR: "R m m1 \<Longrightarrow> R m (snd (IORQ_WR I a d m1))"
begin

declare R_put [keeps_intros]

lemma time_rel [keeps_intros]:
  "R m m1 \<Longrightarrow> R m (m_backup_pc m1)" "R m m1 \<Longrightarrow> R m (m_restore_pc m1)"
  "R m m1 \<Longrightarrow> R m (m_refresh_dram m1)"
  unfolding m_backup_pc_def m_restore_pc_def m_refresh_dram_def by (rule R_put, assumption)+

lemma bus_rel [keeps_intros]:
  "R m m1 \<Longrightarrow> R m (m_mreq_rd I a r m1)" "R m m1 \<Longrightarrow> R m (m_mreq_wr I a d m1)"
  "R m m1 \<Longrightarrow> R m (m_iorq_rd I a r m1)" "R m m1 \<Longrightarrow> R m (m_iorq_wr I a d m1)"
  unfolding m_mreq_rd_def m_mreq_wr_def m_iorq_rd_def m_iorq_wr_def case_prod_unfold
  by ((rule R_put)?, erule R_MREQ_RD R_MREQ_WR R_IORQ_RD R_IORQ_WR)+

lemma let_rel [keeps_intros]:
  "R m m1 \<Longrightarrow> (\<And>m2. R m m2 \<Longrightarrow> R m (g m2)) \<Longrightarrow> R m (Let m1 g)"
  by simp

lemma let_value_rel [keeps_intros]: "(\<And>x. R m (h x)) \<Longrightarrow> R m (Let (v :: u16) h)"
  by simp

lemma let_read_rel [keeps_intros]:
  "R m m1 \<Longrightarrow> (\<And>d m2. R m m2 \<Longrightarrow> R m (g d m2)) \<Longrightarrow> R m (Let (MREQ_RD I a x m1) (case_prod g))"
  using R_MREQ_RD [of m m1 a x] by (cases "MREQ_RD I a x m1") auto

lemma if_rel [keeps_intros]: "R m m1 \<Longrightarrow> R m m2 \<Longrightarrow> R m (if c then m1 else m2)"
  by simp

lemma fetching_an_opcode_rel [keeps_intros]:
  "R m m1 \<Longrightarrow> R m (m_fetch_ddcb_opcode I m1)"
  "R m m1 \<Longrightarrow> R m (m_fetch_fdcb_opcode I m1)"
  by (simp_all only: m_fetch_ddcb_opcode_def m_fetch_fdcb_opcode_def)
    (intro keeps_intros; assumption)+

lemma illegal_opcodes_and_control_rel [keeps_intros]:
  "R m m1 \<Longrightarrow> R m (m_illegal m1)"
  "R m m1 \<Longrightarrow> R m (m_illegal_cb m1)"
  "R m m1 \<Longrightarrow> R m (m_illegal_dd m1)"
  "R m m1 \<Longrightarrow> R m (m_illegal_ed m1)"
  "R m m1 \<Longrightarrow> R m (m_illegal_fd m1)"
  "R m m1 \<Longrightarrow> R m (m_illegal_ddcb m1)"
  "R m m1 \<Longrightarrow> R m (m_illegal_fdcb m1)"
  "R m m1 \<Longrightarrow> R m (m_nop m1)"
  "R m m1 \<Longrightarrow> R m (m_di m1)"
  "R m m1 \<Longrightarrow> R m (m_ei m1)"
  "R m m1 \<Longrightarrow> R m (m_halt m1)"
  "R m m1 \<Longrightarrow> R m (m_im_0 m1)"
  "R m m1 \<Longrightarrow> R m (m_im_1 m1)"
  "R m m1 \<Longrightarrow> R m (m_im_2 m1)"
  "R m m1 \<Longrightarrow> R m (m_im_3 m1)"
  by (simp_all only: m_illegal_def m_illegal_cb_def m_illegal_dd_def m_illegal_ed_def
      m_illegal_fd_def m_illegal_ddcb_def m_illegal_fdcb_def m_nop_def m_di_def
      m_ei_def m_halt_def m_im_0_def m_im_1_def m_im_2_def m_im_3_def)
    (intro keeps_intros; assumption)+

lemma input_and_output_rel [keeps_intros]:
  "R m m1 \<Longrightarrow> R m (m_in_r08_ind_r08 I p1 p2 m1)"
  "R m m1 \<Longrightarrow> R m (m_in_r08_ind_i08 I p1 m1)"
  "R m m1 \<Longrightarrow> R m (m_ini I m1)"
  "R m m1 \<Longrightarrow> R m (m_ind I m1)"
  "R m m1 \<Longrightarrow> R m (m_out_ind_r08_r08 I p1 p2 m1)"
  "R m m1 \<Longrightarrow> R m (m_out_ind_i08_r08 I p1 m1)"
  "R m m1 \<Longrightarrow> R m (m_outi I m1)"
  "R m m1 \<Longrightarrow> R m (m_outd I m1)"
  by (simp_all only: m_in_r08_ind_r08_def m_in_r08_ind_i08_def m_ini_def m_ind_def
      m_out_ind_r08_r08_def m_out_ind_i08_r08_def m_outi_def m_outd_def)
    (intro keeps_intros; assumption)+

lemma loads_core_rel [keeps_intros]:
  "R m m1 \<Longrightarrow> R m (m_ld_r08_r08 p1 p2 m1)"
  by (simp_all only: m_ld_r08_r08_def)
    (intro keeps_intros; assumption)+

lemma loads_rel [keeps_intros]:
  "R m m1 \<Longrightarrow> R m (m_ld_r08_i08 I p1 m1)"
  "R m m1 \<Longrightarrow> R m (m_ld_r08_ind_r16 I p1 q2 m1)"
  "R m m1 \<Longrightarrow> R m (m_ld_ind_r16_r08 I q1 p2 m1)"
  "R m m1 \<Longrightarrow> R m (m_ld_r08_ind_i16 I p1 m1)"
  "R m m1 \<Longrightarrow> R m (m_ld_ind_i16_r08 I p1 m1)"
  "R m m1 \<Longrightarrow> R m (m_ld_ind_r16_i08 I q1 m1)"
  "R m m1 \<Longrightarrow> R m (m_ld_r08_ind_r16_plus_i08 I p1 q2 m1)"
  "R m m1 \<Longrightarrow> R m (m_ld_ind_r16_plus_i08_r08 I q1 p2 m1)"
  "R m m1 \<Longrightarrow> R m (m_ld_ind_r16_plus_i08_i08 I q1 m1)"
  "R m m1 \<Longrightarrow> R m (m_ld_a_i m1)"
  "R m m1 \<Longrightarrow> R m (m_ld_i_a m1)"
  "R m m1 \<Longrightarrow> R m (m_ld_a_r m1)"
  "R m m1 \<Longrightarrow> R m (m_ld_r_a m1)"
  "R m m1 \<Longrightarrow> R m (m_ld_r16_r16 q1 q2 m1)"
  "R m m1 \<Longrightarrow> R m (m_ld_r16_i16 I q1 m1)"
  "R m m1 \<Longrightarrow> R m (m_ld_r16_ind_i16 I q1 m1)"
  "R m m1 \<Longrightarrow> R m (m_ld_ind_i16_r16 I q1 m1)"
  "R m m1 \<Longrightarrow> R m (m_push_r16 I q1 m1)"
  "R m m1 \<Longrightarrow> R m (m_pop_r16 I q1 m1)"
  by (simp_all only: m_ld_r08_i08_def m_ld_r08_ind_r16_def m_ld_ind_r16_r08_def m_ld_r08_ind_i16_def
      m_ld_ind_i16_r08_def m_ld_ind_r16_i08_def m_ld_r08_ind_r16_plus_i08_def
      m_ld_ind_r16_plus_i08_r08_def m_ld_ind_r16_plus_i08_i08_def m_ld_a_i_def
      m_ld_i_a_def m_ld_a_r_def m_ld_r_a_def m_ld_r16_r16_def m_ld_r16_i16_def
      m_ld_r16_ind_i16_def m_ld_ind_i16_r16_def m_push_r16_def m_pop_r16_def)
    (intro keeps_intros; assumption)+

lemma general_purpose_arithmetic_rel [keeps_intros]:
  "R m m1 \<Longrightarrow> R m (m_daa m1)"
  "R m m1 \<Longrightarrow> R m (m_cpl m1)"
  "R m m1 \<Longrightarrow> R m (m_neg m1)"
  "R m m1 \<Longrightarrow> R m (m_ccf m1)"
  "R m m1 \<Longrightarrow> R m (m_scf m1)"
  by (simp_all only: m_daa_def m_cpl_def m_neg_def m_ccf_def m_scf_def)
    (intro keeps_intros; assumption)+

lemma byte_arithmetic_core_rel [keeps_intros]:
  "R m m1 \<Longrightarrow> R m (m_add_r08_r08 p1 p2 m1)"
  "R m m1 \<Longrightarrow> R m (m_adc_r08_r08 p1 p2 m1)"
  "R m m1 \<Longrightarrow> R m (m_sub_r08_r08 p1 p2 m1)"
  "R m m1 \<Longrightarrow> R m (m_sbc_r08_r08 p1 p2 m1)"
  by (simp_all only: m_add_r08_r08_def m_adc_r08_r08_def m_sub_r08_r08_def m_sbc_r08_r08_def)
    (intro keeps_intros; assumption)+

lemma byte_arithmetic_rel [keeps_intros]:
  "R m m1 \<Longrightarrow> R m (m_add_r08_i08 I p1 m1)"
  "R m m1 \<Longrightarrow> R m (m_add_r08_ind_r16 I p1 q2 m1)"
  "R m m1 \<Longrightarrow> R m (m_add_r08_ind_r16_plus_i08 I p1 q2 m1)"
  "R m m1 \<Longrightarrow> R m (m_adc_r08_i08 I p1 m1)"
  "R m m1 \<Longrightarrow> R m (m_adc_r08_ind_r16 I p1 q2 m1)"
  "R m m1 \<Longrightarrow> R m (m_adc_r08_ind_r16_plus_i08 I p1 q2 m1)"
  "R m m1 \<Longrightarrow> R m (m_sub_r08_i08 I p1 m1)"
  "R m m1 \<Longrightarrow> R m (m_sub_r08_ind_r16 I p1 q2 m1)"
  "R m m1 \<Longrightarrow> R m (m_sub_r08_ind_r16_plus_i08 I p1 q2 m1)"
  "R m m1 \<Longrightarrow> R m (m_sbc_r08_i08 I p1 m1)"
  "R m m1 \<Longrightarrow> R m (m_sbc_r08_ind_r16 I p1 q2 m1)"
  "R m m1 \<Longrightarrow> R m (m_sbc_r08_ind_r16_plus_i08 I p1 q2 m1)"
  by (simp_all only: m_add_r08_i08_def m_add_r08_ind_r16_def m_add_r08_ind_r16_plus_i08_def
      m_adc_r08_i08_def m_adc_r08_ind_r16_def m_adc_r08_ind_r16_plus_i08_def
      m_sub_r08_i08_def m_sub_r08_ind_r16_def m_sub_r08_ind_r16_plus_i08_def
      m_sbc_r08_i08_def m_sbc_r08_ind_r16_def m_sbc_r08_ind_r16_plus_i08_def)
    (intro keeps_intros; assumption)+

lemma byte_logic_and_comparison_core_rel [keeps_intros]:
  "R m m1 \<Longrightarrow> R m (m_and_r08_r08 p1 p2 m1)"
  "R m m1 \<Longrightarrow> R m (m_xor_r08_r08 p1 p2 m1)"
  "R m m1 \<Longrightarrow> R m (m_or_r08_r08 p1 p2 m1)"
  "R m m1 \<Longrightarrow> R m (m_cp_r08_r08 p1 p2 m1)"
  by (simp_all only: m_and_r08_r08_def m_xor_r08_r08_def m_or_r08_r08_def m_cp_r08_r08_def)
    (intro keeps_intros; assumption)+

lemma byte_logic_and_comparison_rel [keeps_intros]:
  "R m m1 \<Longrightarrow> R m (m_and_r08_i08 I p1 m1)"
  "R m m1 \<Longrightarrow> R m (m_and_r08_ind_r16 I p1 q2 m1)"
  "R m m1 \<Longrightarrow> R m (m_and_r08_ind_r16_plus_i08 I p1 q2 m1)"
  "R m m1 \<Longrightarrow> R m (m_xor_r08_i08 I p1 m1)"
  "R m m1 \<Longrightarrow> R m (m_xor_r08_ind_r16 I p1 q2 m1)"
  "R m m1 \<Longrightarrow> R m (m_xor_r08_ind_r16_plus_i08 I p1 q2 m1)"
  "R m m1 \<Longrightarrow> R m (m_or_r08_i08 I p1 m1)"
  "R m m1 \<Longrightarrow> R m (m_or_r08_ind_r16 I p1 q2 m1)"
  "R m m1 \<Longrightarrow> R m (m_or_r08_ind_r16_plus_i08 I p1 q2 m1)"
  "R m m1 \<Longrightarrow> R m (m_cp_r08_i08 I p1 m1)"
  "R m m1 \<Longrightarrow> R m (m_cp_r08_ind_r16 I p1 q2 m1)"
  "R m m1 \<Longrightarrow> R m (m_cp_r08_ind_r16_plus_i08 I p1 q2 m1)"
  by (simp_all only: m_and_r08_i08_def m_and_r08_ind_r16_def m_and_r08_ind_r16_plus_i08_def
      m_xor_r08_i08_def m_xor_r08_ind_r16_def m_xor_r08_ind_r16_plus_i08_def
      m_or_r08_i08_def m_or_r08_ind_r16_def m_or_r08_ind_r16_plus_i08_def
      m_cp_r08_i08_def m_cp_r08_ind_r16_def m_cp_r08_ind_r16_plus_i08_def)
    (intro keeps_intros; assumption)+

lemma byte_increments_core_rel [keeps_intros]:
  "R m m1 \<Longrightarrow> R m (m_inc_r08 p1 m1)"
  "R m m1 \<Longrightarrow> R m (m_dec_r08 p1 m1)"
  by (simp_all only: m_inc_r08_def m_dec_r08_def)
    (intro keeps_intros; assumption)+

lemma byte_increments_rel [keeps_intros]:
  "R m m1 \<Longrightarrow> R m (m_inc_ind_r16 I q1 m1)"
  "R m m1 \<Longrightarrow> R m (m_inc_ind_r16_plus_i08 I q1 m1)"
  "R m m1 \<Longrightarrow> R m (m_dec_ind_r16 I q1 m1)"
  "R m m1 \<Longrightarrow> R m (m_dec_ind_r16_plus_i08 I q1 m1)"
  by (simp_all only: m_inc_ind_r16_def m_inc_ind_r16_plus_i08_def m_dec_ind_r16_def
      m_dec_ind_r16_plus_i08_def)
    (intro keeps_intros; assumption)+

lemma word_arithmetic_rel [keeps_intros]:
  "R m m1 \<Longrightarrow> R m (m_add_r16_r16 q1 q2 m1)"
  "R m m1 \<Longrightarrow> R m (m_adc_r16_r16 q1 q2 m1)"
  "R m m1 \<Longrightarrow> R m (m_sbc_r16_r16 q1 q2 m1)"
  "R m m1 \<Longrightarrow> R m (m_inc_r16 q1 m1)"
  "R m m1 \<Longrightarrow> R m (m_dec_r16 q1 m1)"
  by (simp_all only: m_add_r16_r16_def m_adc_r16_r16_def m_sbc_r16_r16_def m_inc_r16_def
      m_dec_r16_def)
    (intro keeps_intros; assumption)+

lemma jumps_rel [keeps_intros]:
  "R m m1 \<Longrightarrow> R m (m_jp_r16 q1 m1)"
  "R m m1 \<Longrightarrow> R m (m_jp_i16 I m1)"
  "R m m1 \<Longrightarrow> R m (m_jp_nz_i16 I m1)"
  "R m m1 \<Longrightarrow> R m (m_jp_z_i16 I m1)"
  "R m m1 \<Longrightarrow> R m (m_jp_nc_i16 I m1)"
  "R m m1 \<Longrightarrow> R m (m_jp_c_i16 I m1)"
  "R m m1 \<Longrightarrow> R m (m_jp_po_i16 I m1)"
  "R m m1 \<Longrightarrow> R m (m_jp_pe_i16 I m1)"
  "R m m1 \<Longrightarrow> R m (m_jp_p_i16 I m1)"
  "R m m1 \<Longrightarrow> R m (m_jp_m_i16 I m1)"
  "R m m1 \<Longrightarrow> R m (m_jr_i08 I m1)"
  by (simp_all only: m_jp_r16_def m_jp_i16_def m_jp_nz_i16_def m_jp_z_i16_def m_jp_nc_i16_def
      m_jp_c_i16_def m_jp_po_i16_def m_jp_pe_i16_def m_jp_p_i16_def m_jp_m_i16_def
      m_jr_i08_def)
    (intro keeps_intros; assumption)+

lemma calls_and_returns_rel [keeps_intros]:
  "R m m1 \<Longrightarrow> R m (m_rst_vec16 I w1 m1)"
  "R m m1 \<Longrightarrow> R m (m_call_i16 I m1)"
  "R m m1 \<Longrightarrow> R m (m_ret I m1)"
  "R m m1 \<Longrightarrow> R m (m_reti I m1)"
  "R m m1 \<Longrightarrow> R m (m_retn I m1)"
  by (simp_all only: m_rst_vec16_def m_call_i16_def m_ret_def m_reti_def m_retn_def)
    (intro keeps_intros; assumption)+

lemma exchanges_and_block_transfers_rel [keeps_intros]:
  "R m m1 \<Longrightarrow> R m (m_exx m1)"
  "R m m1 \<Longrightarrow> R m (m_ex_r16_r16 q1 q2 m1)"
  "R m m1 \<Longrightarrow> R m (m_ex_ind_r16_r16 I q1 q2 m1)"
  "R m m1 \<Longrightarrow> R m (m_ldi I m1)"
  "R m m1 \<Longrightarrow> R m (m_ldd I m1)"
  "R m m1 \<Longrightarrow> R m (m_cpi I m1)"
  "R m m1 \<Longrightarrow> R m (m_cpd I m1)"
  by (simp_all only: m_exx_def m_ex_r16_r16_def m_ex_ind_r16_r16_def m_ldi_def m_ldd_def m_cpi_def
      m_cpd_def)
    (intro keeps_intros; assumption)+

lemma rotates_and_shifts_rel [keeps_intros]:
  "R m m1 \<Longrightarrow> R m (m_rlca m1)"
  "R m m1 \<Longrightarrow> R m (m_rrca m1)"
  "R m m1 \<Longrightarrow> R m (m_rla m1)"
  "R m m1 \<Longrightarrow> R m (m_rra m1)"
  "R m m1 \<Longrightarrow> R m (m_rld I m1)"
  "R m m1 \<Longrightarrow> R m (m_rrd I m1)"
  "R m m1 \<Longrightarrow> R m (m_rlc_r08 p1 m1)"
  "R m m1 \<Longrightarrow> R m (m_rlc_ind_r16 I q1 m1)"
  "R m m1 \<Longrightarrow> R m (m_rrc_r08 p1 m1)"
  "R m m1 \<Longrightarrow> R m (m_rrc_ind_r16 I q1 m1)"
  "R m m1 \<Longrightarrow> R m (m_rl_r08 p1 m1)"
  "R m m1 \<Longrightarrow> R m (m_rl_ind_r16 I q1 m1)"
  "R m m1 \<Longrightarrow> R m (m_rr_r08 p1 m1)"
  "R m m1 \<Longrightarrow> R m (m_rr_ind_r16 I q1 m1)"
  "R m m1 \<Longrightarrow> R m (m_sla_r08 p1 m1)"
  "R m m1 \<Longrightarrow> R m (m_sla_ind_r16 I q1 m1)"
  "R m m1 \<Longrightarrow> R m (m_sra_r08 p1 m1)"
  "R m m1 \<Longrightarrow> R m (m_sra_ind_r16 I q1 m1)"
  "R m m1 \<Longrightarrow> R m (m_sll_r08 p1 m1)"
  "R m m1 \<Longrightarrow> R m (m_sll_ind_r16 I q1 m1)"
  "R m m1 \<Longrightarrow> R m (m_srl_r08 p1 m1)"
  "R m m1 \<Longrightarrow> R m (m_srl_ind_r16 I q1 m1)"
  by (simp_all only: m_rlca_def m_rrca_def m_rla_def m_rra_def m_rld_def m_rrd_def m_rlc_r08_def
      m_rlc_ind_r16_def m_rrc_r08_def m_rrc_ind_r16_def m_rl_r08_def m_rl_ind_r16_def
      m_rr_r08_def m_rr_ind_r16_def m_sla_r08_def m_sla_ind_r16_def m_sra_r08_def
      m_sra_ind_r16_def m_sll_r08_def m_sll_ind_r16_def m_srl_r08_def
      m_srl_ind_r16_def)
    (intro keeps_intros; assumption)+

lemma bits_rel [keeps_intros]:
  "R m m1 \<Longrightarrow> R m (m_bit_b_r08 k1 p2 m1)"
  "R m m1 \<Longrightarrow> R m (m_bit_b_ind_r16 I k1 q2 m1)"
  "R m m1 \<Longrightarrow> R m (m_res_b_r08 k1 p2 m1)"
  "R m m1 \<Longrightarrow> R m (m_res_b_ind_r16 I k1 q2 m1)"
  "R m m1 \<Longrightarrow> R m (m_set_b_r08 k1 p2 m1)"
  "R m m1 \<Longrightarrow> R m (m_set_b_ind_r16 I k1 q2 m1)"
  by (simp_all only: m_bit_b_r08_def m_bit_b_ind_r16_def m_res_b_r08_def m_res_b_ind_r16_def
      m_set_b_r08_def m_set_b_ind_r16_def)
    (intro keeps_intros; assumption)+

lemma indexed_rotates_shifts_and_bits_rel [keeps_intros]:
  "R m m1 \<Longrightarrow> R m (m_rlc_ind_r16_plus_i08 I q1 m1)"
  "R m m1 \<Longrightarrow> R m (m_rlc_ind_r16_plus_i08_r08 I q1 p2 m1)"
  "R m m1 \<Longrightarrow> R m (m_rrc_ind_r16_plus_i08 I q1 m1)"
  "R m m1 \<Longrightarrow> R m (m_rrc_ind_r16_plus_i08_r08 I q1 p2 m1)"
  "R m m1 \<Longrightarrow> R m (m_rl_ind_r16_plus_i08 I q1 m1)"
  "R m m1 \<Longrightarrow> R m (m_rl_ind_r16_plus_i08_r08 I q1 p2 m1)"
  "R m m1 \<Longrightarrow> R m (m_rr_ind_r16_plus_i08 I q1 m1)"
  "R m m1 \<Longrightarrow> R m (m_rr_ind_r16_plus_i08_r08 I q1 p2 m1)"
  "R m m1 \<Longrightarrow> R m (m_sla_ind_r16_plus_i08 I q1 m1)"
  "R m m1 \<Longrightarrow> R m (m_sla_ind_r16_plus_i08_r08 I q1 p2 m1)"
  "R m m1 \<Longrightarrow> R m (m_sra_ind_r16_plus_i08 I q1 m1)"
  "R m m1 \<Longrightarrow> R m (m_sra_ind_r16_plus_i08_r08 I q1 p2 m1)"
  "R m m1 \<Longrightarrow> R m (m_sll_ind_r16_plus_i08 I q1 m1)"
  "R m m1 \<Longrightarrow> R m (m_sll_ind_r16_plus_i08_r08 I q1 p2 m1)"
  "R m m1 \<Longrightarrow> R m (m_srl_ind_r16_plus_i08 I q1 m1)"
  "R m m1 \<Longrightarrow> R m (m_srl_ind_r16_plus_i08_r08 I q1 p2 m1)"
  "R m m1 \<Longrightarrow> R m (m_bit_b_ind_r16_plus_i08 I k1 q2 m1)"
  "R m m1 \<Longrightarrow> R m (m_res_b_ind_r16_plus_i08 I k1 q2 m1)"
  "R m m1 \<Longrightarrow> R m (m_res_b_ind_r16_plus_i08_r08 I k1 q2 p3 m1)"
  "R m m1 \<Longrightarrow> R m (m_set_b_ind_r16_plus_i08 I k1 q2 m1)"
  "R m m1 \<Longrightarrow> R m (m_set_b_ind_r16_plus_i08_r08 I k1 q2 p3 m1)"
  by (simp_all only: m_rlc_ind_r16_plus_i08_def m_rlc_ind_r16_plus_i08_r08_def
      m_rrc_ind_r16_plus_i08_def m_rrc_ind_r16_plus_i08_r08_def
      m_rl_ind_r16_plus_i08_def m_rl_ind_r16_plus_i08_r08_def
      m_rr_ind_r16_plus_i08_def m_rr_ind_r16_plus_i08_r08_def
      m_sla_ind_r16_plus_i08_def m_sla_ind_r16_plus_i08_r08_def
      m_sra_ind_r16_plus_i08_def m_sra_ind_r16_plus_i08_r08_def
      m_sll_ind_r16_plus_i08_def m_sll_ind_r16_plus_i08_r08_def
      m_srl_ind_r16_plus_i08_def m_srl_ind_r16_plus_i08_r08_def
      m_bit_b_ind_r16_plus_i08_def m_res_b_ind_r16_plus_i08_def
      m_res_b_ind_r16_plus_i08_r08_def m_set_b_ind_r16_plus_i08_def
      m_set_b_ind_r16_plus_i08_r08_def)
    (intro keeps_intros; assumption)+

end

locale micro_rel = step_rel +
  assumes R_refl: "R m m"
    and R_consume: "R m m1 \<Longrightarrow> R m (m_consume c s m1)"
    and R_epilog: "R m m1 \<Longrightarrow> R m (epilog m1)"
    and R_MREQ_M1: "R m m1 \<Longrightarrow> R m (snd (MREQ_M1 I a d m1))"
    and R_IORQ_M1: "R m m1 \<Longrightarrow> R m (snd (IORQ_M1 I a d m1))"
begin

declare R_consume [keeps_intros]

lemma m1_rel [keeps_intros]:
  "R m m1 \<Longrightarrow> R m (m_mreq_m1 I a r m1)" "R m m1 \<Longrightarrow> R m (m_iorq_m1 I a r m1)"
  unfolding m_mreq_m1_def m_iorq_m1_def case_prod_unfold
  by ((rule R_put)?, erule R_MREQ_M1 R_IORQ_M1)+

lemma fetching_an_opcode_timed_rel [keeps_intros]:
  "R m m1 \<Longrightarrow> R m (m_fetch_opcode I m1)"
  "R m m1 \<Longrightarrow> R m (m_fetch_cb_opcode I m1)"
  "R m m1 \<Longrightarrow> R m (m_fetch_dd_opcode I m1)"
  "R m m1 \<Longrightarrow> R m (m_fetch_ed_opcode I m1)"
  "R m m1 \<Longrightarrow> R m (m_fetch_fd_opcode I m1)"
  by (simp_all only: m_fetch_opcode_def m_fetch_cb_opcode_def m_fetch_dd_opcode_def
      m_fetch_ed_opcode_def m_fetch_fd_opcode_def)
    (intro keeps_intros; assumption)+

lemma input_and_output_timed_rel [keeps_intros]:
  "R m m1 \<Longrightarrow> R m (m_inir I m1)"
  "R m m1 \<Longrightarrow> R m (m_indr I m1)"
  "R m m1 \<Longrightarrow> R m (m_otir I m1)"
  "R m m1 \<Longrightarrow> R m (m_otdr I m1)"
  by (simp_all only: m_inir_def m_indr_def m_otir_def m_otdr_def)
    (intro keeps_intros; assumption)+

lemma jumps_timed_rel [keeps_intros]:
  "R m m1 \<Longrightarrow> R m (m_djnz_i08 I m1)"
  "R m m1 \<Longrightarrow> R m (m_jr_nz_i08 I m1)"
  "R m m1 \<Longrightarrow> R m (m_jr_z_i08 I m1)"
  "R m m1 \<Longrightarrow> R m (m_jr_nc_i08 I m1)"
  "R m m1 \<Longrightarrow> R m (m_jr_c_i08 I m1)"
  by (simp_all only: m_djnz_i08_def m_jr_nz_i08_def m_jr_z_i08_def m_jr_nc_i08_def m_jr_c_i08_def)
    (intro keeps_intros; assumption)+

lemma calls_and_returns_timed_rel [keeps_intros]:
  "R m m1 \<Longrightarrow> R m (m_call_nz_i16 I m1)"
  "R m m1 \<Longrightarrow> R m (m_call_z_i16 I m1)"
  "R m m1 \<Longrightarrow> R m (m_call_nc_i16 I m1)"
  "R m m1 \<Longrightarrow> R m (m_call_c_i16 I m1)"
  "R m m1 \<Longrightarrow> R m (m_call_po_i16 I m1)"
  "R m m1 \<Longrightarrow> R m (m_call_pe_i16 I m1)"
  "R m m1 \<Longrightarrow> R m (m_call_p_i16 I m1)"
  "R m m1 \<Longrightarrow> R m (m_call_m_i16 I m1)"
  "R m m1 \<Longrightarrow> R m (m_ret_nz I m1)"
  "R m m1 \<Longrightarrow> R m (m_ret_z I m1)"
  "R m m1 \<Longrightarrow> R m (m_ret_nc I m1)"
  "R m m1 \<Longrightarrow> R m (m_ret_c I m1)"
  "R m m1 \<Longrightarrow> R m (m_ret_po I m1)"
  "R m m1 \<Longrightarrow> R m (m_ret_pe I m1)"
  "R m m1 \<Longrightarrow> R m (m_ret_p I m1)"
  "R m m1 \<Longrightarrow> R m (m_ret_m I m1)"
  by (simp_all only: m_call_nz_i16_def m_call_z_i16_def m_call_nc_i16_def m_call_c_i16_def
      m_call_po_i16_def m_call_pe_i16_def m_call_p_i16_def m_call_m_i16_def
      m_ret_nz_def m_ret_z_def m_ret_nc_def m_ret_c_def m_ret_po_def m_ret_pe_def
      m_ret_p_def m_ret_m_def)
    (intro keeps_intros; assumption)+

lemma exchanges_and_block_transfers_timed_rel [keeps_intros]:
  "R m m1 \<Longrightarrow> R m (m_ldir I m1)"
  "R m m1 \<Longrightarrow> R m (m_lddr I m1)"
  "R m m1 \<Longrightarrow> R m (m_cpir I m1)"
  "R m m1 \<Longrightarrow> R m (m_cpdr I m1)"
  by (simp_all only: m_ldir_def m_lddr_def m_cpir_def m_cpdr_def)
    (intro keeps_intros; assumption)+

lemma tables_rel:
  "list_all (\<lambda>e. \<forall>m m1. R m m1 \<longrightarrow> R m (op_body e m1)) (opcodes_base I)"
  "list_all (\<lambda>e. \<forall>m m1. R m m1 \<longrightarrow> R m (op_body e m1)) (opcodes_cb I)"
  "list_all (\<lambda>e. \<forall>m m1. R m m1 \<longrightarrow> R m (op_body e m1)) (opcodes_ed I)"
  "list_all (\<lambda>e. \<forall>m m1. R m m1 \<longrightarrow> R m (op_body e m1)) (opcodes_dd I)"
  "list_all (\<lambda>e. \<forall>m m1. R m m1 \<longrightarrow> R m (op_body e m1)) (opcodes_fd I)"
  "list_all (\<lambda>e. \<forall>m m1. R m m1 \<longrightarrow> R m (op_body e m1)) (opcodes_ddcb I)"
  "list_all (\<lambda>e. \<forall>m m1. R m m1 \<longrightarrow> R m (op_body e m1)) (opcodes_fdcb I)"
  by (simp_all add: opcodes_base_defs opcodes_cb_defs opcodes_ed_defs opcodes_dd_defs
      opcodes_fd_defs opcodes_ddcb_defs opcodes_fdcb_defs keeps_intros)

lemma dispatch_rel:
  assumes tab: "list_all (\<lambda>e. \<forall>m m1. R m m1 \<longrightarrow> R m (op_body e m1)) tab" and len: "length tab = 256"
    and m1: "R m m1"
  shows "R m (snd (dispatch tab m1))"
proof -
  let ?e = "tab ! unat (get8 OP_L m1)"
  have "?e \<in> set tab" using len by simp
  with tab have "\<forall>m m1. R m m1 \<longrightarrow> R m (op_body ?e m1)"
    unfolding list_all_iff by (rule bspec)
  with m1 have "R m (m_consume (op_m_cycles ?e) (op_t_states ?e) (op_body ?e m1))"
    by (blast intro: R_consume)
  then show ?thesis by (cases ?e) (simp add: dispatch_def)
qed

lemma fetch_rel:
  "R m m1 \<Longrightarrow> R m (fetch_cb I m1)" "R m m1 \<Longrightarrow> R m (fetch_ed I m1)"
  "R m m1 \<Longrightarrow> R m (fetch_ddcb I m1)" "R m m1 \<Longrightarrow> R m (fetch_fdcb I m1)"
  unfolding fetch_cb_def fetch_ed_def fetch_ddcb_def fetch_fdcb_def
  by (intro dispatch_rel tables_rel length_tables keeps_intros; assumption)+

lemma fetch_index_rel: "R m m1 \<Longrightarrow> R m (fetch_dd I m1)" "R m m1 \<Longrightarrow> R m (fetch_fd I m1)"
proof -
  assume m1: "R m m1"
  have "R m (snd (dispatch (opcodes_dd I) (m_refresh_dram (m_fetch_dd_opcode I m1))))"
    using m1 by (intro dispatch_rel tables_rel length_tables keeps_intros)
  then show "R m (fetch_dd I m1)"
    by (auto simp: fetch_dd_def fetch_rel split: prod.split)
  have "R m (snd (dispatch (opcodes_fd I) (m_refresh_dram (m_fetch_fd_opcode I m1))))"
    using m1 by (intro dispatch_rel tables_rel length_tables keeps_intros)
  then show "R m (fetch_fd I m1)"
    by (auto simp: fetch_fd_def fetch_rel split: prod.split)
qed

lemma execute_opcode_rel: "R m m1 \<Longrightarrow> R m (execute_opcode I m1)"
  using dispatch_rel [OF tables_rel(1) length_tables(1)]
  by (fastforce simp: execute_opcode_def fetch_rel fetch_index_rel split: prod.split label.split)

lemma check_hlt_rel: "R m m1 \<Longrightarrow> R m (check_hlt I m1)"
  by (simp add: check_hlt_def fetch_opcode_def execute_opcode_rel keeps_intros)

lemma interrupt_rel: "R m m1 \<Longrightarrow> R m (interrupt_im1 I m1)" "R m m1 \<Longrightarrow> R m (interrupt_im2 I m1)"
  unfolding interrupt_im1_def interrupt_im2_def by (intro keeps_intros; assumption)+

lemma check_int_rel: "R m m1 \<Longrightarrow> R m (check_int I m1)"
  by (auto simp: check_int_def m_take_int_def Let_def check_hlt_rel interrupt_rel
      execute_opcode_rel keeps_intros)

lemma check_nmi_rel: "R m m1 \<Longrightarrow> R m (check_nmi I m1)"
  by (auto simp: check_nmi_def m_take_nmi_def check_int_rel keeps_intros)

lemma prolog_rel: "R m (prolog I m)"
  by (auto simp: prolog_def m_after_ei_def check_nmi_rel check_hlt_rel keeps_intros R_refl)

lemma clock_machine_rel: "R m (clock_machine I m)"
  unfolding clock_machine_def by (intro R_epilog if_rel prolog_rel R_refl)

end

end
