(* ===== verification/Z80_Time.thy ===== *)
theory Z80_Time
  imports Z80_Frame
begin

text \<open>
  Time.  \<^verbatim>\<open>clock()\<close> runs an instruction only when \<^verbatim>\<open>I_PERIOD\<close> is zero and then lets the
  instruction's T-states pass, so the CPU makes progress only as long as every instruction leaves a
  small positive period behind.  The locale \<open>bus_time\<close> says what the interface must promise: an
  M1 access stretches the period by at most three T-states, nothing else touches it.
\<close>

unbundle bit_operations_syntax

definition grows :: "nat \<Rightarrow> 'b machine \<Rightarrow> 'b machine \<Rightarrow> bool" where
  "grows n m m' \<longleftrightarrow> (\<exists>k \<le> n. i_period (cpu_st m') = i_period (cpu_st m) + of_nat k)"

text \<open>The same with a lower bound.\<close>

definition grows_between :: "nat \<Rightarrow> nat \<Rightarrow> 'b machine \<Rightarrow> 'b machine \<Rightarrow> bool" where
  "grows_between l n m m' \<longleftrightarrow>
     (\<exists>k. l \<le> k \<and> k \<le> n \<and> i_period (cpu_st m') = i_period (cpu_st m) + of_nat k)"

lemma grows_refl: "grows n m m"
  by (auto simp: grows_def intro: exI [of _ 0])

lemma grows_same: "grows n m m1 \<Longrightarrow> i_period (cpu_st m2) = i_period (cpu_st m1) \<Longrightarrow> grows n m m2"
  by (auto simp: grows_def)

lemma grows_mono: "grows k m m1 \<Longrightarrow> k \<le> n \<Longrightarrow> grows n m m1"
  unfolding grows_def by (meson le_trans)

lemma grows_consume: "grows 0 m m1 \<Longrightarrow> unat s \<le> 7 \<Longrightarrow> grows 7 m (m_consume c s m1)"
  by (auto simp: grows_def m_consume_def intro!: exI [of _ "unat s"])

lemma grows_let: "grows n m m1 \<Longrightarrow> (\<And>m2. grows n m m2 \<Longrightarrow> grows k m (g m2)) \<Longrightarrow> grows k m (Let m1 g)"
  by simp

lemma grows_if: "grows n m m1 \<Longrightarrow> grows n m m2 \<Longrightarrow> grows n m (if c then m1 else m2)"
  by simp

lemma grows_between_grows:
  assumes "grows n m m1" and "grows_between l k m1 m2"
  shows "grows_between l (n + k) m m2"
proof -
  from assms obtain i j where "i \<le> n" "i_period (cpu_st m1) = i_period (cpu_st m) + of_nat i"
    and "l \<le> j" "j \<le> k" "i_period (cpu_st m2) = i_period (cpu_st m1) + of_nat j"
    unfolding grows_def grows_between_def by blast
  then have "l \<le> i + j \<and> i + j \<le> n + k \<and> i_period (cpu_st m2) = i_period (cpu_st m) + of_nat (i + j)"
    by simp
  then show ?thesis unfolding grows_between_def by blast
qed

lemma grows_between_weaken: "grows_between l n m m1 \<Longrightarrow> grows n m m1"
  unfolding grows_def grows_between_def by blast

lemma grows_between_consume:
  assumes "grows n m m1" and "l \<le> unat s" and "unat s \<le> u"
  shows "grows_between l (n + u) m (m_consume c s m1)"
proof (rule grows_between_grows [OF assms(1)])
  show "grows_between l u m1 (m_consume c s m1)"
    using assms(2,3) by (auto simp: grows_between_def m_consume_def intro!: exI [of _ "unat s"])
qed

lemma grows_between_then:
  assumes "grows_between l n m m1" and "grows k m1 m2"
  shows "grows_between l (n + k) m m2"
proof -
  from assms obtain i j where "l \<le> i" "i \<le> n" "i_period (cpu_st m1) = i_period (cpu_st m) + of_nat i"
    and "j \<le> k" "i_period (cpu_st m2) = i_period (cpu_st m1) + of_nat j"
    unfolding grows_def grows_between_def by blast
  then have "l \<le> i + j \<and> i + j \<le> n + k \<and> i_period (cpu_st m2) = i_period (cpu_st m) + of_nat (i + j)"
    by simp
  then show ?thesis unfolding grows_between_def by blast
qed

lemma grows_between_mono:
  "grows_between l n m m1 \<Longrightarrow> l' \<le> l \<Longrightarrow> n \<le> n' \<Longrightarrow> grows_between l' n' m m1"
  unfolding grows_between_def by (meson le_trans)

text \<open>The interrupt mode is unaffected by the tests at the head of the clock.\<close>

lemma m_take_int_mode: "m_interrupt_mode (snd (m_take_int m)) = m_interrupt_mode m"
  by (simp add: m_interrupt_mode_def m_take_int_def reg_simps and.assoc)

lemma m_backup_pc_mode: "m_interrupt_mode (m_backup_pc m) = m_interrupt_mode m"
  by (simp add: m_interrupt_mode_def m_backup_pc_def reg_simps)

locale bus_time =
  fixes I :: "'b iface"
  assumes period_MREQ_RD: "i_period (fst (snd (cpu_mreq_rd I a d sb))) = i_period (fst sb)"
    and period_MREQ_WR: "i_period (fst (snd (cpu_mreq_wr I a d sb))) = i_period (fst sb)"
    and period_IORQ_RD: "i_period (fst (snd (cpu_iorq_rd I a d sb))) = i_period (fst sb)"
    and period_IORQ_WR: "i_period (fst (snd (cpu_iorq_wr I a d sb))) = i_period (fst sb)"
    and period_IORQ_M1: "i_period (fst (snd (cpu_iorq_m1 I a d sb))) = i_period (fst sb)"
    and period_MREQ_M1: "\<exists>k \<le> 3. i_period (fst (snd (cpu_mreq_m1 I a d sb))) = i_period (fst sb) + of_nat k"
begin

sublocale grows: step_rel I "grows n" for n
  by unfold_locales (auto intro: grows_same simp: MREQ_RD_def MREQ_WR_def IORQ_RD_def IORQ_WR_def
      case_prod_unfold period_MREQ_RD period_MREQ_WR period_IORQ_RD period_IORQ_WR)

lemma grows_read0:
  "grows 0 m m1 \<Longrightarrow> (\<And>d m2. grows 0 m m2 \<Longrightarrow> grows k m (g d m2)) \<Longrightarrow>
    grows k m (Let (MREQ_RD I a x m1) (case_prod g))"
  using grows.R_MREQ_RD [of 0 m m1 a x] by (cases "MREQ_RD I a x m1") auto

lemmas let0 = grows_let [where n = 0 and k = 7]
lemmas let7 = grows_let [where n = 7 and k = 7]
lemmas read0 = grows_read0 [where k = 7]
lemmas weaken7 = grows_mono [where k = 0 and n = 7, OF _ le0]

lemma jumps_time:
  "grows 0 m m1 \<Longrightarrow> grows 7 m (m_djnz_i08 I m1)"
  "grows 0 m m1 \<Longrightarrow> grows 7 m (m_jr_nz_i08 I m1)"
  "grows 0 m m1 \<Longrightarrow> grows 7 m (m_jr_z_i08 I m1)"
  "grows 0 m m1 \<Longrightarrow> grows 7 m (m_jr_nc_i08 I m1)"
  "grows 0 m m1 \<Longrightarrow> grows 7 m (m_jr_c_i08 I m1)"
  by (simp_all only: m_djnz_i08_def m_jr_nz_i08_def m_jr_z_i08_def m_jr_nc_i08_def m_jr_c_i08_def)
    (((rule let0, ((intro keeps_intros)?; assumption)) | (rule read0, ((intro keeps_intros)?; assumption)) | rule let7 grows_if
      | (rule grows_consume, ((intro keeps_intros)?; assumption), simp) | (rule weaken7, ((intro keeps_intros)?; assumption)) | ((intro keeps_intros)?; assumption) | rule grows.let_value_rel)+)

lemma returns_time:
  "grows 0 m m1 \<Longrightarrow> grows 7 m (m_call_nz_i16 I m1)"
  "grows 0 m m1 \<Longrightarrow> grows 7 m (m_call_z_i16 I m1)"
  "grows 0 m m1 \<Longrightarrow> grows 7 m (m_call_nc_i16 I m1)"
  "grows 0 m m1 \<Longrightarrow> grows 7 m (m_call_c_i16 I m1)"
  "grows 0 m m1 \<Longrightarrow> grows 7 m (m_call_po_i16 I m1)"
  "grows 0 m m1 \<Longrightarrow> grows 7 m (m_call_pe_i16 I m1)"
  "grows 0 m m1 \<Longrightarrow> grows 7 m (m_call_p_i16 I m1)"
  "grows 0 m m1 \<Longrightarrow> grows 7 m (m_call_m_i16 I m1)"
  "grows 0 m m1 \<Longrightarrow> grows 7 m (m_ret_nz I m1)"
  "grows 0 m m1 \<Longrightarrow> grows 7 m (m_ret_z I m1)"
  "grows 0 m m1 \<Longrightarrow> grows 7 m (m_ret_nc I m1)"
  "grows 0 m m1 \<Longrightarrow> grows 7 m (m_ret_c I m1)"
  "grows 0 m m1 \<Longrightarrow> grows 7 m (m_ret_po I m1)"
  "grows 0 m m1 \<Longrightarrow> grows 7 m (m_ret_pe I m1)"
  "grows 0 m m1 \<Longrightarrow> grows 7 m (m_ret_p I m1)"
  "grows 0 m m1 \<Longrightarrow> grows 7 m (m_ret_m I m1)"
  by (simp_all only: m_call_nz_i16_def m_call_z_i16_def m_call_nc_i16_def m_call_c_i16_def m_call_po_i16_def m_call_pe_i16_def m_call_p_i16_def m_call_m_i16_def m_ret_nz_def m_ret_z_def m_ret_nc_def m_ret_c_def m_ret_po_def m_ret_pe_def m_ret_p_def m_ret_m_def)
    (((rule let0, ((intro keeps_intros)?; assumption)) | (rule read0, ((intro keeps_intros)?; assumption)) | rule let7 grows_if
      | (rule grows_consume, ((intro keeps_intros)?; assumption), simp) | (rule weaken7, ((intro keeps_intros)?; assumption)) | ((intro keeps_intros)?; assumption) | rule grows.let_value_rel)+)

lemma blocks_time:
  "grows 0 m m1 \<Longrightarrow> grows 7 m (m_inir I m1)"
  "grows 0 m m1 \<Longrightarrow> grows 7 m (m_indr I m1)"
  "grows 0 m m1 \<Longrightarrow> grows 7 m (m_otir I m1)"
  "grows 0 m m1 \<Longrightarrow> grows 7 m (m_otdr I m1)"
  "grows 0 m m1 \<Longrightarrow> grows 7 m (m_ldir I m1)"
  "grows 0 m m1 \<Longrightarrow> grows 7 m (m_lddr I m1)"
  "grows 0 m m1 \<Longrightarrow> grows 7 m (m_cpir I m1)"
  "grows 0 m m1 \<Longrightarrow> grows 7 m (m_cpdr I m1)"
  by (simp_all only: m_inir_def m_indr_def m_otir_def m_otdr_def m_ldir_def m_lddr_def m_cpir_def m_cpdr_def)
    (((rule let0, ((intro keeps_intros)?; assumption)) | (rule read0, ((intro keeps_intros)?; assumption)) | rule let7 grows_if
      | (rule grows_consume, ((intro keeps_intros)?; assumption), simp) | (rule weaken7, ((intro keeps_intros)?; assumption)) | ((intro keeps_intros)?; assumption) | rule grows.let_value_rel)+)

abbreviation timed :: "'b opcode \<Rightarrow> bool" where
  "timed e \<equiv> (\<forall>m m1. grows 0 m m1 \<longrightarrow> grows 7 m (op_body e m1)) \<and>
     4 \<le> unat (op_t_states e) \<and> unat (op_t_states e) \<le> 23"

lemma entries_time:
  "list_all timed (opcodes_base I)" "list_all timed (opcodes_cb I)" "list_all timed (opcodes_ed I)"
  "list_all timed (opcodes_dd I)" "list_all timed (opcodes_fd I)" "list_all timed (opcodes_ddcb I)"
  "list_all timed (opcodes_fdcb I)"
  by (simp_all add: opcodes_base_defs opcodes_cb_defs opcodes_ed_defs opcodes_dd_defs
      opcodes_fd_defs opcodes_ddcb_defs opcodes_fdcb_defs jumps_time returns_time blocks_time
      keeps_intros weaken7)

lemma dispatch_time:
  assumes tab: "list_all timed tab" and len: "length tab = 256" and m1: "grows n m m1"
  shows "grows_between 4 (n + 30) m (snd (dispatch tab m1))"
proof -
  let ?e = "tab ! unat (get8 OP_L m1)"
  have "?e \<in> set tab" using len by simp
  with tab have e: "timed ?e"
    unfolding list_all_iff by (rule bspec)
  then have "grows 7 m1 (op_body ?e m1)" by (blast intro: grows_refl)
  with e have "grows_between 4 (7 + 23) m1 (m_consume (op_m_cycles ?e) (op_t_states ?e) (op_body ?e m1))"
    by (intro grows_between_consume) simp_all
  then have "grows_between 4 30 m1 (snd (dispatch tab m1))"
    by (cases ?e) (simp add: dispatch_def)
  with m1 show ?thesis by (rule grows_between_grows)
qed

lemma m1_time: "grows n m m1 \<Longrightarrow> grows (n + 3) m (m_mreq_m1 I a r m1)"
proof -
  assume "grows n m m1"
  then obtain i where i: "i \<le> n" "i_period (cpu_st m1) = i_period (cpu_st m) + of_nat i"
    unfolding grows_def by blast
  obtain k where k: "k \<le> 3"
    "i_period (fst (snd (cpu_mreq_m1 I a 0 (cpu_st m1, bus m1)))) = i_period (cpu_st m1) + of_nat k"
    using period_MREQ_M1 [of a 0 "(cpu_st m1, bus m1)"] by auto
  have "grows (n + 3) m (snd (MREQ_M1 I a 0 m1))"
    using i k unfolding grows_def MREQ_M1_def case_prod_unfold
    by (intro exI [of _ "i + k"]) simp
  then show ?thesis
    unfolding m_mreq_m1_def case_prod_unfold by (rule grows.R_put)
qed

lemma iorq_m1_time: "grows n m m1 \<Longrightarrow> grows n m (m_iorq_m1 I a r m1)"
  unfolding m_iorq_m1_def case_prod_unfold
  by (rule grows.R_put, erule grows_same)
    (simp add: IORQ_M1_def case_prod_unfold period_IORQ_M1)

lemma fetch_steps_time:
  "grows n m m1 \<Longrightarrow> grows (n + 3) m (m_fetch_opcode I m1)"
  "grows n m m1 \<Longrightarrow> grows (n + 3) m (m_fetch_cb_opcode I m1)"
  "grows n m m1 \<Longrightarrow> grows (n + 3) m (m_fetch_dd_opcode I m1)"
  "grows n m m1 \<Longrightarrow> grows (n + 3) m (m_fetch_ed_opcode I m1)"
  "grows n m m1 \<Longrightarrow> grows (n + 3) m (m_fetch_fd_opcode I m1)"
  by (simp_all only: m_fetch_opcode_def m_fetch_cb_opcode_def m_fetch_dd_opcode_def
      m_fetch_ed_opcode_def m_fetch_fd_opcode_def Let_def)
    (rule grows.R_put, rule m1_time, assumption)+

lemma fetch_time:
  "grows n m m1 \<Longrightarrow> grows_between 4 (n + 33) m (fetch_cb I m1)"
  "grows n m m1 \<Longrightarrow> grows_between 4 (n + 33) m (fetch_ed I m1)"
  "grows n m m1 \<Longrightarrow> grows_between 4 (n + 30) m (fetch_ddcb I m1)"
  "grows n m m1 \<Longrightarrow> grows_between 4 (n + 30) m (fetch_fdcb I m1)"
proof -
  assume m1: "grows n m m1"
  have cb: "grows (n + 3) m (m_refresh_dram (m_fetch_cb_opcode I m1))"
    and ed: "grows (n + 3) m (m_refresh_dram (m_fetch_ed_opcode I m1))"
    by (intro keeps_intros fetch_steps_time m1)+
  show "grows_between 4 (n + 33) m (fetch_cb I m1)" "grows_between 4 (n + 33) m (fetch_ed I m1)"
    using dispatch_time [OF entries_time(2) length_tables(2) cb]
      dispatch_time [OF entries_time(3) length_tables(3) ed]
    by (simp_all add: fetch_cb_def fetch_ed_def add.commute)
  show "grows_between 4 (n + 30) m (fetch_ddcb I m1)" "grows_between 4 (n + 30) m (fetch_fdcb I m1)"
    unfolding fetch_ddcb_def fetch_fdcb_def
    by (intro dispatch_time entries_time length_tables keeps_intros m1)+
qed

lemma chain_time:
  assumes "grows_between 4 n m m1" and "\<And>k. grows k m m1 \<Longrightarrow> grows_between 4 (k + j) m m2"
  shows "grows_between 4 (n + j) m m2"
  using assms(2) [OF grows_between_weaken [OF assms(1)]] .

lemma fetch_index_time:
  "grows n m m1 \<Longrightarrow> grows_between 4 (n + 63) m (fetch_dd I m1)"
  "grows n m m1 \<Longrightarrow> grows_between 4 (n + 63) m (fetch_fd I m1)"
proof -
  assume m1: "grows n m m1"
  have dd: "grows_between 4 (n + 33) m (snd (dispatch (opcodes_dd I) (m_refresh_dram (m_fetch_dd_opcode I m1))))"
    using dispatch_time [OF entries_time(4) length_tables(4)
        grows.time_rel(3) [OF fetch_steps_time(3) [OF m1]]] by (simp add: add.commute)
  show "grows_between 4 (n + 63) m (fetch_dd I m1)"
    using fetch_time(3) [OF grows_between_weaken [OF dd]] grows_between_mono [OF dd order_refl, of "n + 63"]
    by (auto simp: fetch_dd_def add.commute split: prod.split)
  have fd: "grows_between 4 (n + 33) m (snd (dispatch (opcodes_fd I) (m_refresh_dram (m_fetch_fd_opcode I m1))))"
    using dispatch_time [OF entries_time(5) length_tables(5)
        grows.time_rel(3) [OF fetch_steps_time(5) [OF m1]]] by (simp add: add.commute)
  show "grows_between 4 (n + 63) m (fetch_fd I m1)"
    using fetch_time(4) [OF grows_between_weaken [OF fd]] grows_between_mono [OF fd order_refl, of "n + 63"]
    by (auto simp: fetch_fd_def add.commute split: prod.split)
qed

lemma execute_opcode_time:
  assumes m1: "grows n m m1"
  shows "grows_between 4 (n + 93) m (execute_opcode I m1)"
proof -
  let ?d = "dispatch (opcodes_base I) m1"
  have d: "grows_between 4 (n + 30) m (snd ?d)"
    by (rule dispatch_time [OF entries_time(1) length_tables(1) m1])
  then have g: "grows (n + 30) m (snd ?d)" by (rule grows_between_weaken)
  have "grows_between 4 (n + 93) m (fetch_dd I (snd ?d))" "grows_between 4 (n + 93) m (fetch_fd I (snd ?d))"
    using fetch_index_time [OF g] by (simp_all add: add.commute)
  moreover have "grows_between 4 (n + 93) m (fetch_cb I (snd ?d))" "grows_between 4 (n + 93) m (fetch_ed I (snd ?d))"
    using fetch_time(1,2) [OF g] by (auto elim: grows_between_mono)
  moreover have "grows_between 4 (n + 93) m (snd ?d)"
    using d by (rule grows_between_mono) simp_all
  ultimately show ?thesis
    by (auto simp: execute_opcode_def split: prod.split label.split)
qed

lemma check_hlt_time: "grows n m m1 \<Longrightarrow> grows_between 4 (n + 96) m (check_hlt I m1)"
proof -
  assume m1: "grows n m m1"
  have "grows (n + 3) m (m_refresh_dram (m_fetch_opcode I m1))"
    using m1 by (intro keeps_intros fetch_steps_time)
  then have "grows_between 4 (n + 96) m (fetch_opcode I m1)"
    using execute_opcode_time [of "n + 3" m] by (simp add: fetch_opcode_def add.commute)
  moreover have "grows_between 4 (n + 4) m (m_consume 1 4 (m_refresh_dram m1))"
    using m1 by (intro grows_between_consume keeps_intros) simp_all
  ultimately show ?thesis
    by (auto simp: check_hlt_def elim: grows_between_mono)
qed

lemma interrupt_time:
  "grows n m m1 \<Longrightarrow> grows_between 4 (n + 13) m (interrupt_im1 I m1)"
  "grows n m m1 \<Longrightarrow> grows_between 4 (n + 19) m (interrupt_im2 I m1)"
  by (simp_all only: interrupt_im1_def interrupt_im2_def Let_def)
    (intro grows_between_consume keeps_intros iorq_m1_time; simp)+

lemma check_int_time:
  assumes m1: "grows n m m1" and mode: "fst (m_take_int m1) \<longrightarrow> m_interrupt_mode (snd (m_take_int m1)) < 3"
  shows "grows_between 4 (n + 96) m (check_int I m1)"
proof (cases "fst (m_take_int m1)")
  case False
  then show ?thesis
    using check_hlt_time [OF m1] by (auto simp: check_int_def m_take_int_def split: if_splits)
next
  case True
  define m2 where "m2 = snd (m_take_int m1)"
  have m2: "grows n m m2"
    using True unfolding m2_def m_take_int_def by (auto split: if_splits intro: keeps_intros m1)
  have "m_interrupt_mode m2 \<in> {0, 1, 2}"
    using mode True by (auto simp: m2_def m_interrupt_mode_def split: if_splits)
  moreover have "check_int I m1 =
      (let mode = m_interrupt_mode m2 in
       if mode = 0 then execute_opcode I (m_iorq_m1 I 0x0000 OP_L m2)
       else if mode = 1 then interrupt_im1 I m2
       else if mode = 2 then interrupt_im2 I m2 else m2)"
    using True unfolding check_int_def m2_def case_prod_unfold by simp
  ultimately show ?thesis
    using grows_between_mono [OF execute_opcode_time [OF iorq_m1_time [OF m2]], of 4 "n + 96"]
      grows_between_mono [OF interrupt_time(1) [OF m2], of 4 "n + 96"]
      grows_between_mono [OF interrupt_time(2) [OF m2], of 4 "n + 96"] by auto
qed

lemma check_nmi_time:
  assumes m1: "grows n m m1" and mode: "m_interrupt_mode m1 < 3"
  shows "grows_between 4 (n + 96) m (check_nmi I m1)"
proof (cases "fst (m_take_nmi m1)")
  case True
  have "grows_between 4 (n + 11) m (m_consume 3 11 (m_rst_vec16 I VECTOR_66H (snd (m_take_nmi m1))))"
    using True by (intro grows_between_consume keeps_intros)
      (auto simp: m_take_nmi_def split: if_splits intro: keeps_intros m1)
  then show ?thesis
    using True by (simp add: check_nmi_def case_prod_unfold grows_between_mono)
next
  case False
  then have "check_nmi I m1 = check_int I m1"
    by (auto simp: check_nmi_def m_take_nmi_def)
  then show ?thesis
    using check_int_time [OF m1] mode by (simp add: m_take_int_mode)
qed

lemma prolog_time:
  assumes mode: "m_interrupt_mode m < 3"
  shows "grows_between 4 96 m (prolog I m)"
proof (cases "fst (m_after_ei (m_backup_pc m))")
  case True
  then have "prolog I m = check_hlt I (snd (m_after_ei (m_backup_pc m)))"
    by (simp add: prolog_def case_prod_unfold)
  moreover have "grows 0 m (snd (m_after_ei (m_backup_pc m)))"
    using True by (auto simp: m_after_ei_def intro: keeps_intros grows_refl)
  ultimately show ?thesis
    using check_hlt_time [of 0 m] by simp
next
  case False
  then have "prolog I m = check_nmi I (m_backup_pc m)"
    by (auto simp: prolog_def m_after_ei_def)
  moreover have "grows 0 m (m_backup_pc m)"
    by (intro keeps_intros grows_refl)
  ultimately show ?thesis
    using check_nmi_time [of 0 m] mode by (simp add: m_backup_pc_mode)
qed

lemma clock_machine_time:
  assumes "i_period (cpu_st m) = 0" and "m_interrupt_mode m < 3"
  shows "3 \<le> unat (i_period (cpu_st (clock_machine I m))) \<and> unat (i_period (cpu_st (clock_machine I m))) \<le> 95"
proof -
  obtain k where "4 \<le> k" "k \<le> 96" "i_period (cpu_st (prolog I m)) = of_nat k"
    using prolog_time [OF assms(2)] assms(1) by (auto simp: grows_between_def)
  moreover from this have "i_period (cpu_st (clock_machine I m)) = of_nat (k - 1)"
    using assms(1) by (simp add: clock_machine_def epilog_def of_nat_diff)
  moreover have "unat (of_nat (k - 1) :: u32) = k - 1"
    using \<open>k \<le> 96\<close> by (simp add: unat_of_nat del: of_nat_diff)
  ultimately show ?thesis
    by (simp only:) linarith
qed

end

end
