(* ===== verification/Host_C.thy ===== *)
theory Host_C
  imports Prelude "HOL-Library.Monad_Syntax"
begin

text \<open>
  What the C code of \<^verbatim>\<open>lib/lib765\<close> uses of its language and standard library: bounds-checked
  access to byte arrays, the shift \<^verbatim>\<open>128 << n\<close>, and binary streams (\<^verbatim>\<open>fopen\<close>, \<^verbatim>\<open>fseek\<close>,
  \<^verbatim>\<open>fread\<close>, \<^verbatim>\<open>fwrite\<close>).  A computation that C leaves undefined (an access outside an
  array, a null pointer, a shift that does not fit an \<^verbatim>\<open>int\<close>, a division by zero) is
  \<^term>\<open>None\<close>.
\<close>

unbundle bit_operations_syntax

section \<open>Arrays\<close>

definition byte_at :: "u8 list \<Rightarrow> int \<Rightarrow> u8 option" where
  "byte_at xs i = (if 0 \<le> i \<and> nat i < length xs then Some (xs ! nat i) else None)"

definition set_byte :: "u8 list \<Rightarrow> int \<Rightarrow> u8 \<Rightarrow> u8 list option" where
  "set_byte xs i v = (if 0 \<le> i \<and> nat i < length xs then Some (xs[nat i := v]) else None)"

text \<open>
  The execution buffer of the controller is large; it is kept as a function from indices to
  bytes together with its size.
\<close>

abbreviation exec_buf_size :: int where "exec_buf_size \<equiv> 16384"

definition buf_at :: "(nat \<Rightarrow> u8) \<Rightarrow> int \<Rightarrow> u8 option" where
  "buf_at b i = (if 0 \<le> i \<and> i < exec_buf_size then Some (b (nat i)) else None)"

definition buf_set :: "(nat \<Rightarrow> u8) \<Rightarrow> int \<Rightarrow> u8 \<Rightarrow> (nat \<Rightarrow> u8) option" where
  "buf_set b i v = (if 0 \<le> i \<and> i < exec_buf_size then Some (b(nat i := v)) else None)"

definition buf_bytes :: "(nat \<Rightarrow> u8) \<Rightarrow> int \<Rightarrow> u8 list option" where
  "buf_bytes b n = (if 0 \<le> n \<and> n \<le> exec_buf_size then Some (map b [0..<nat n]) else None)"

definition buf_store :: "(nat \<Rightarrow> u8) \<Rightarrow> int \<Rightarrow> u8 list \<Rightarrow> (nat \<Rightarrow> u8) option" where
  "buf_store b off xs =
     (if 0 \<le> off \<and> off + int (length xs) \<le> exec_buf_size
      then Some (\<lambda>i. if nat off \<le> i \<and> i < nat off + length xs then xs ! (i - nat off) else b i)
      else None)"

text \<open>\<^verbatim>\<open>memset(buf + off, 0, n)\<close>\<close>

definition buf_zero :: "(nat \<Rightarrow> u8) \<Rightarrow> int \<Rightarrow> int \<Rightarrow> (nat \<Rightarrow> u8) option" where
  "buf_zero b off n =
     (if 0 \<le> off \<and> 0 \<le> n \<and> off + n \<le> exec_buf_size
      then Some (\<lambda>i. if nat off \<le> i \<and> i < nat (off + n) then 0 else b i)
      else None)"

text \<open>\<^verbatim>\<open>128 << n\<close> at type \<^verbatim>\<open>int\<close>.\<close>

definition shl128 :: "u8 \<Rightarrow> int option" where
  "shl128 n = (if unat n < 24 then Some (128 * 2 ^ unat n) else None)"

definition test :: "bool \<Rightarrow> int" where
  "test c = (if c then 1 else 0)"

section \<open>Streams\<close>

record file_entry =
  f_bytes :: "u8 list"
  f_writable :: bool

record FILE =
  fp_name :: string
  fp_pos :: nat
  fp_update :: bool

type_synonym file_system = "string \<Rightarrow> file_entry option"

definition fopen_update :: "string \<Rightarrow> file_system \<Rightarrow> FILE option" where
  "fopen_update name fs = (case fs name of
     Some e \<Rightarrow> if f_writable e then Some \<lparr>fp_name = name, fp_pos = 0, fp_update = True\<rparr> else None
   | None \<Rightarrow> None)"

definition fopen_read :: "string \<Rightarrow> file_system \<Rightarrow> FILE option" where
  "fopen_read name fs = (case fs name of
     Some e \<Rightarrow> Some \<lparr>fp_name = name, fp_pos = 0, fp_update = False\<rparr>
   | None \<Rightarrow> None)"

text \<open>\<^verbatim>\<open>fopen(name, "wb")\<close> creates the file or truncates it.\<close>

definition fopen_write :: "string \<Rightarrow> file_system \<Rightarrow> (FILE \<times> file_system) option" where
  "fopen_write name fs = (case fs name of
     Some e \<Rightarrow> if f_writable e
       then Some (\<lparr>fp_name = name, fp_pos = 0, fp_update = True\<rparr>, fs(name \<mapsto> e\<lparr>f_bytes := []\<rparr>)) else None
   | None \<Rightarrow> if name = '''' then None
       else Some (\<lparr>fp_name = name, fp_pos = 0, fp_update = True\<rparr>, fs(name \<mapsto> \<lparr>f_bytes = [], f_writable = True\<rparr>)))"

definition file_bytes :: "string \<Rightarrow> file_system \<Rightarrow> u8 list" where
  "file_bytes name fs = (case fs name of Some e \<Rightarrow> f_bytes e | None \<Rightarrow> [])"

definition fseek_set :: "int \<Rightarrow> FILE \<Rightarrow> FILE" where
  "fseek_set off fp = (if 0 \<le> off then fp\<lparr>fp_pos := nat off\<rparr> else fp)"

definition fread :: "nat \<Rightarrow> FILE \<Rightarrow> file_system \<Rightarrow> u8 list \<times> FILE" where
  "fread n fp fs =
     (let xs = take n (drop (fp_pos fp) (file_bytes (fp_name fp) fs))
      in (xs, fp\<lparr>fp_pos := fp_pos fp + length xs\<rparr>))"

definition overwrite :: "u8 list \<Rightarrow> nat \<Rightarrow> u8 list \<Rightarrow> u8 list" where
  "overwrite old pos xs =
     take pos old @ replicate (pos - length old) 0 @ xs @ drop (pos + length xs) old"

text \<open>The number of bytes written, the stream and the files after it.\<close>

definition fwrite :: "u8 list \<Rightarrow> FILE \<Rightarrow> file_system \<Rightarrow> nat \<times> FILE \<times> file_system" where
  "fwrite xs fp fs = (case fs (fp_name fp) of
     Some e \<Rightarrow> if fp_update fp
       then (length xs, fp\<lparr>fp_pos := fp_pos fp + length xs\<rparr>,
             fs(fp_name fp \<mapsto> e\<lparr>f_bytes := overwrite (f_bytes e) (fp_pos fp) xs\<rparr>))
       else (0, fp, fs)
   | None \<Rightarrow> (0, fp, fs))"

section \<open>Laws\<close>

lemma byte_at_nth: "0 \<le> i \<Longrightarrow> nat i < length xs \<Longrightarrow> byte_at xs i = Some (xs ! nat i)"
  by (simp add: byte_at_def)

lemma set_byte_nth: "0 \<le> i \<Longrightarrow> nat i < length xs \<Longrightarrow> set_byte xs i v = Some (xs[nat i := v])"
  by (simp add: set_byte_def)

lemma set_byte_length: "set_byte xs i v = Some ys \<Longrightarrow> length ys = length xs"
  by (auto simp: set_byte_def split: if_splits)

lemma length_overwrite: "length (overwrite old pos xs) = max (length old) (pos + length xs)"
  by (simp add: overwrite_def)

lemma overwrite_same: "take (length xs) (drop pos (overwrite old pos xs)) = xs"
  by (simp add: overwrite_def)

lemma overwrite_before: "a + n \<le> pos \<Longrightarrow> pos \<le> length old \<Longrightarrow>
   take n (drop a (overwrite old pos xs)) = take n (drop a old)"
  by (simp add: overwrite_def take_drop min_absorb1)

lemma overwrite_after: "pos + length xs \<le> a \<Longrightarrow> pos + length xs \<le> length old \<Longrightarrow>
   drop a (overwrite old pos xs) = drop a old"
  by (simp add: overwrite_def min_absorb2)

lemma buf_bytes_store:
  "buf_store b 0 xs = Some b' \<Longrightarrow> buf_bytes b' (int (length xs)) = Some xs"
  by (auto simp: buf_store_def buf_bytes_def split: if_splits intro: nth_equalityI)

end
