(* ===== verification/FDD_Drive.thy ===== *)
theory FDD_Drive
  imports Host_C
begin

text \<open>
  The data of the floppy drives of \<^verbatim>\<open>lib/lib765\<close> (\<^verbatim>\<open>765.h\<close>, \<^verbatim>\<open>765i.h\<close>): a
  \<^verbatim>\<open>FLOPPY_DRIVE\<close> with its method table and the fields of its subclass, the store the drive
  pointers point into, and the interface to libdsk that \<^verbatim>\<open>765ldsk.c\<close> calls.
\<close>

unbundle bit_operations_syntax

section \<open>Constants\<close>

abbreviation (input) FD_NC9256 :: int where "FD_NC9256 \<equiv> -1"
abbreviation (input) FD_NONE :: int where "FD_NONE \<equiv> 0"
abbreviation (input) FD_30 :: int where "FD_30 \<equiv> 1"
abbreviation (input) FD_35 :: int where "FD_35 \<equiv> 2"
abbreviation (input) FD_525 :: int where "FD_525 \<equiv> 3"

abbreviation (input) FD_E_OK :: int where "FD_E_OK \<equiv> 0"
abbreviation (input) FD_E_SEEKFAIL :: int where "FD_E_SEEKFAIL \<equiv> -1"
abbreviation (input) FD_E_NOADDR :: int where "FD_E_NOADDR \<equiv> -2"
abbreviation (input) FD_E_NODATA :: int where "FD_E_NODATA \<equiv> -3"
abbreviation (input) FD_E_DATAERR :: int where "FD_E_DATAERR \<equiv> -4"
abbreviation (input) FD_E_NOSECTOR :: int where "FD_E_NOSECTOR \<equiv> -5"
abbreviation (input) FD_E_NOTRDY :: int where "FD_E_NOTRDY \<equiv> -6"
abbreviation (input) FD_E_READONLY :: int where "FD_E_READONLY \<equiv> -7"

abbreviation (input) FD_D_UNAVAILABLE :: int where "FD_D_UNAVAILABLE \<equiv> -1"
abbreviation (input) FD_D_CLEAN :: int where "FD_D_CLEAN \<equiv> 0"
abbreviation (input) FD_D_DIRTY :: int where "FD_D_DIRTY \<equiv> 1"

abbreviation (input) DSK_ERR_OK :: int where "DSK_ERR_OK \<equiv> 0"
abbreviation (input) DSK_ERR_NOTIMPL :: int where "DSK_ERR_NOTIMPL \<equiv> -8"
abbreviation (input) DSK_ERR_NOTRDY :: int where "DSK_ERR_NOTRDY \<equiv> -10"
abbreviation (input) DSK_ERR_RDONLY :: int where "DSK_ERR_RDONLY \<equiv> -11"
abbreviation (input) DSK_ERR_SEEKFAIL :: int where "DSK_ERR_SEEKFAIL \<equiv> -12"
abbreviation (input) DSK_ERR_DATAERR :: int where "DSK_ERR_DATAERR \<equiv> -13"
abbreviation (input) DSK_ERR_NODATA :: int where "DSK_ERR_NODATA \<equiv> -14"
abbreviation (input) DSK_ERR_NOADDR :: int where "DSK_ERR_NOADDR \<equiv> -15"
abbreviation (input) DSK_ERR_BADFMT :: int where "DSK_ERR_BADFMT \<equiv> -16"

abbreviation (input) DSK_ST3_RO :: u8 where "DSK_ST3_RO \<equiv> 0x40"
abbreviation (input) DSK_ST3_READY :: u8 where "DSK_ST3_READY \<equiv> 0x20"
abbreviation (input) DSK_ST3_TRACK0 :: u8 where "DSK_ST3_TRACK0 \<equiv> 0x10"
abbreviation (input) DSK_ST3_DSDRIVE :: u8 where "DSK_ST3_DSDRIVE \<equiv> 0x08"

text \<open>A path is cut to \<^verbatim>\<open>PATH_MAX - 1\<close> characters.\<close>

abbreviation (input) PATH_MAX :: nat where "PATH_MAX \<equiv> 4096"

section \<open>Geometry\<close>

datatype dsk_sides = SIDES_ALT | SIDES_OUTBACK | SIDES_OUTOUT | SIDES_EXTSURFACE

datatype dsk_rate = RATE_HD | RATE_DD | RATE_SD | RATE_ED

record DSK_GEOMETRY =
  dg_sidedness :: dsk_sides
  dg_cylinders :: int
  dg_heads :: int
  dg_sectors :: int
  dg_secbase :: int
  dg_secsize :: int
  dg_datarate :: dsk_rate
  dg_rwgap :: u8
  dg_fmtgap :: u8
  dg_fm :: int
  dg_nomulti :: int
  dg_noskip :: int

record DSK_FORMAT =
  fmt_cylinder :: int
  fmt_head :: int
  fmt_sector :: int
  fmt_secsize :: int

section \<open>Drives\<close>

text \<open>
  A drive's method table is one of four static objects; the pointer \<^verbatim>\<open>fd_vtable\<close> is their
  name.
\<close>

datatype vtable = dummy_vtbl | d9256_vtbl | fdv_dsk | fdv_libdsk

text \<open>The fields that a subclass adds, by the structure the drive was allocated as.\<close>

record dsk_part =
  fdd_filename :: string
  fdd_fp :: "FILE option"
  fdd_disk_header :: "u8 list"
  fdd_track_header :: "u8 list"
  fdd_dirty :: int

record libdsk_part =
  fdl_filename :: string
  fdl_type :: "string option"
  fdl_compress :: "string option"
  fdl_diskp :: "nat option"
  fdl_diskg :: DSK_GEOMETRY

type_synonym fdrv_ptr = "nat option"

datatype fd_subclass = No_sub | Dsk_sub dsk_part | Libdsk_sub libdsk_part | Nc9_sub fdrv_ptr

record floppy_drive =
  fd_vtable :: vtable
  fd_type :: int
  fd_heads :: int
  fd_cylinders :: int
  fd_readonly :: int
  fd_changed :: int
  fd_motor :: int
  fd_cylinder :: int
  fd_sub :: fd_subclass

text \<open>
  The world the controller lives in: the drives its pointers point to, the files of the host, the
  state of libdsk, and the calls made to the interrupt callback.
\<close>

record 'd world =
  drives :: "nat \<Rightarrow> floppy_drive option"
  files :: file_system
  lib :: 'd
  isr_calls :: "(nat \<times> int) list"

definition get_drive :: "nat \<Rightarrow> 'd world \<Rightarrow> floppy_drive option" where
  "get_drive p w = drives w p"

definition put_drive :: "nat \<Rightarrow> floppy_drive \<Rightarrow> 'd world \<Rightarrow> 'd world" where
  "put_drive p d w = w\<lparr>drives := (drives w)(p \<mapsto> d)\<rparr>"

text \<open>Run a method on the drive a pointer points to.\<close>

definition on_drive :: "nat \<Rightarrow> (floppy_drive \<Rightarrow> 'd world \<Rightarrow> ('a \<times> floppy_drive \<times> 'd world) option)
    \<Rightarrow> 'd world \<Rightarrow> ('a \<times> 'd world) option" where
  "on_drive p f w = do {
     d \<leftarrow> get_drive p w;
     (r, d, w) \<leftarrow> f d w;
     Some (r, put_drive p d w)}"

section \<open>The interface to libdsk\<close>

text \<open>
  The functions of libdsk that \<^verbatim>\<open>765ldsk.c\<close> calls, over a state of libdsk.  A handle is what a
  \<^verbatim>\<open>DSK_PDRIVER\<close> points to; a function that fills a buffer returns the bytes it stores, a
  function that changes the geometry or the \<^verbatim>\<open>deleted\<close> flag returns the new value.
\<close>

record 'd libdsk =
  dsk_open :: "string \<Rightarrow> string option \<Rightarrow> string option \<Rightarrow> 'd \<Rightarrow> int \<times> nat option \<times> 'd"
  dsk_creat :: "string \<Rightarrow> string option \<Rightarrow> string option \<Rightarrow> 'd \<Rightarrow> int \<times> nat option \<times> 'd"
  dsk_close :: "nat \<Rightarrow> 'd \<Rightarrow> 'd"
  dsk_dirty :: "nat \<Rightarrow> 'd \<Rightarrow> int"
  dsk_getgeom :: "nat \<Rightarrow> DSK_GEOMETRY \<Rightarrow> 'd \<Rightarrow> int \<times> DSK_GEOMETRY \<times> 'd"
  dsk_drive_status :: "nat \<Rightarrow> DSK_GEOMETRY \<Rightarrow> int \<Rightarrow> 'd \<Rightarrow> int \<times> u8 \<times> 'd"
  dsk_pseek :: "nat \<Rightarrow> DSK_GEOMETRY \<Rightarrow> int \<Rightarrow> int \<Rightarrow> 'd \<Rightarrow> int \<times> 'd"
  dsk_psecid :: "nat \<Rightarrow> DSK_GEOMETRY \<Rightarrow> int \<Rightarrow> int \<Rightarrow> 'd \<Rightarrow> int \<times> DSK_FORMAT \<times> 'd"
  dsk_xread :: "nat \<Rightarrow> DSK_GEOMETRY \<Rightarrow> int \<Rightarrow> int \<Rightarrow> int \<Rightarrow> int \<Rightarrow> int \<Rightarrow> int \<Rightarrow> int option \<Rightarrow> 'd
    \<Rightarrow> int \<times> u8 list \<times> int option \<times> 'd"
  dsk_pread :: "nat \<Rightarrow> DSK_GEOMETRY \<Rightarrow> int \<Rightarrow> int \<Rightarrow> int \<Rightarrow> 'd \<Rightarrow> int \<times> u8 list \<times> 'd"
  dsk_xtread :: "nat \<Rightarrow> DSK_GEOMETRY \<Rightarrow> int \<Rightarrow> int \<Rightarrow> int \<Rightarrow> int \<Rightarrow> 'd \<Rightarrow> int \<times> u8 list \<times> 'd"
  dsk_xwrite :: "nat \<Rightarrow> DSK_GEOMETRY \<Rightarrow> (nat \<Rightarrow> u8) \<Rightarrow> int \<Rightarrow> int \<Rightarrow> int \<Rightarrow> int \<Rightarrow> int \<Rightarrow> int \<Rightarrow> int \<Rightarrow> 'd
    \<Rightarrow> int \<times> 'd"
  dsk_pwrite :: "nat \<Rightarrow> DSK_GEOMETRY \<Rightarrow> (nat \<Rightarrow> u8) \<Rightarrow> int \<Rightarrow> int \<Rightarrow> int \<Rightarrow> 'd \<Rightarrow> int \<times> 'd"
  dsk_pformat :: "nat \<Rightarrow> DSK_GEOMETRY \<Rightarrow> int \<Rightarrow> int \<Rightarrow> DSK_FORMAT list \<Rightarrow> u8 \<Rightarrow> 'd
    \<Rightarrow> int \<times> DSK_GEOMETRY \<times> 'd"

text \<open>\<^verbatim>\<open>dsk_get_psh\<close> of \<^verbatim>\<open>libdsk/dskopen.c\<close>: the shift of a sector size.\<close>

function psh_loop :: "int \<Rightarrow> u8 \<Rightarrow> u8" where
  "psh_loop secsize psh = (if 128 < secsize then psh_loop (secsize div 2) (psh + 1) else psh)"
  by pat_completeness auto
termination by (relation "measure (\<lambda>(s, _). nat s)") auto

declare psh_loop.simps [simp del]

definition dsk_get_psh :: "int \<Rightarrow> u8" where
  "dsk_get_psh secsize = psh_loop secsize 0"

section \<open>Creating a drive\<close>

text \<open>
  \<^verbatim>\<open>malloc\<close> returns a fresh block with unknown contents: the result of the call is the argument
  \<^verbatim>\<open>block\<close>.  \<^verbatim>\<open>fd_inew\<close> sets every field of the base class except \<^verbatim>\<open>fd_changed\<close>.
\<close>

definition fd_inew :: "(nat \<times> floppy_drive) option \<Rightarrow> 'd world \<Rightarrow> fdrv_ptr \<times> 'd world" where
  "fd_inew block w = (case block of
     None \<Rightarrow> (None, w)
   | Some (p, d) \<Rightarrow> (Some p, put_drive p
       (d\<lparr>fd_type := FD_NONE, fd_heads := 0, fd_cylinders := 0, fd_motor := 0, fd_cylinder := 0,
          fd_readonly := 0, fd_vtable := dummy_vtbl\<rparr>) w))"

definition fd_new :: "(nat \<times> floppy_drive) option \<Rightarrow> 'd world \<Rightarrow> fdrv_ptr \<times> 'd world" where
  "fd_new block w = fd_inew block w"

definition fd_settype :: "nat \<Rightarrow> int \<Rightarrow> 'd world \<Rightarrow> 'd world option" where
  "fd_settype p t w = do {d \<leftarrow> get_drive p w; Some (put_drive p (d\<lparr>fd_type := t\<rparr>) w)}"

definition fd_setheads :: "nat \<Rightarrow> int \<Rightarrow> 'd world \<Rightarrow> 'd world option" where
  "fd_setheads p heads w = do {d \<leftarrow> get_drive p w; Some (put_drive p (d\<lparr>fd_heads := heads\<rparr>) w)}"

definition fd_setcyls :: "nat \<Rightarrow> int \<Rightarrow> 'd world \<Rightarrow> 'd world option" where
  "fd_setcyls p cyls w = do {d \<leftarrow> get_drive p w; Some (put_drive p (d\<lparr>fd_cylinders := cyls\<rparr>) w)}"

definition fd_setreadonly :: "nat \<Rightarrow> int \<Rightarrow> 'd world \<Rightarrow> 'd world option" where
  "fd_setreadonly p ro w = do {d \<leftarrow> get_drive p w; Some (put_drive p (d\<lparr>fd_readonly := ro\<rparr>) w)}"

definition fd_gettype :: "nat \<Rightarrow> 'd world \<Rightarrow> int option" where
  "fd_gettype p w = do {d \<leftarrow> get_drive p w; Some (fd_type d)}"

definition fd_getheads :: "nat \<Rightarrow> 'd world \<Rightarrow> int option" where
  "fd_getheads p w = do {d \<leftarrow> get_drive p w; Some (fd_heads d)}"

definition fd_getcyls :: "nat \<Rightarrow> 'd world \<Rightarrow> int option" where
  "fd_getcyls p w = do {d \<leftarrow> get_drive p w; Some (fd_cylinders d)}"

definition fd_getreadonly :: "nat \<Rightarrow> 'd world \<Rightarrow> int option" where
  "fd_getreadonly p w = do {d \<leftarrow> get_drive p w; Some (fd_readonly d)}"

definition fd_getmotor :: "nat \<Rightarrow> 'd world \<Rightarrow> int option" where
  "fd_getmotor p w = do {d \<leftarrow> get_drive p w; Some (fd_motor d)}"

definition fd_getcurcyl :: "nat \<Rightarrow> 'd world \<Rightarrow> int option" where
  "fd_getcurcyl p w = do {d \<leftarrow> get_drive p w; Some (fd_cylinder d)}"

text \<open>The PCW9256 dummy drive: the cast to \<^verbatim>\<open>NC9_FLOPPY_DRIVE\<close> sets its proxy.\<close>

definition fd_newnc9 :: "(nat \<times> floppy_drive) option \<Rightarrow> fdrv_ptr \<Rightarrow> 'd world \<Rightarrow> (fdrv_ptr \<times> 'd world) option" where
  "fd_newnc9 block fd w = (case fd_inew block w of
     (None, w) \<Rightarrow> None
   | (Some p, w) \<Rightarrow> do {
       w \<leftarrow> fd_settype p FD_NC9256 w;
       d \<leftarrow> get_drive p w;
       Some (Some p, put_drive p (d\<lparr>fd_sub := Nc9_sub fd, fd_vtable := d9256_vtbl\<rparr>) w)})"

definition nc9_fdd :: "floppy_drive \<Rightarrow> fdrv_ptr option" where
  "nc9_fdd d = (case fd_sub d of Nc9_sub q \<Rightarrow> Some q | _ \<Rightarrow> None)"

definition fd9_getproxy :: "nat \<Rightarrow> 'd world \<Rightarrow> fdrv_ptr option" where
  "fd9_getproxy p w = do {
     d \<leftarrow> get_drive p w;
     if fd_vtable d = d9256_vtbl then nc9_fdd d else Some None}"

definition fd9_setproxy :: "nat \<Rightarrow> fdrv_ptr \<Rightarrow> 'd world \<Rightarrow> 'd world option" where
  "fd9_setproxy p proxy w = do {
     d \<leftarrow> get_drive p w;
     Some (if fd_vtable d = d9256_vtbl then put_drive p (d\<lparr>fd_sub := Nc9_sub proxy\<rparr>) w else w)}"

end
