(* ===== verification/FDD_Dsk.thy ===== *)
theory FDD_Dsk
  imports FDD_Drive
begin

text \<open>
  The drive that reads and writes CPCEMU \<^verbatim>\<open>.DSK\<close> files by itself (\<^verbatim>\<open>765dsk.c\<close>).  A method
  takes the drive and the world and returns its result, the drive and the world; \<^term>\<open>None\<close> is
  undefined behaviour, which the code does not guard against when a header of the image is
  damaged.
\<close>

unbundle bit_operations_syntax

section \<open>Views of the drive\<close>

text \<open>The cast to \<^verbatim>\<open>DSK_FLOPPY_DRIVE\<close>.\<close>

definition as_dsk :: "floppy_drive \<Rightarrow> dsk_part option" where
  "as_dsk fd = (case fd_sub fd of Dsk_sub k \<Rightarrow> Some k | _ \<Rightarrow> None)"

abbreviation with_dsk :: "floppy_drive \<Rightarrow> dsk_part \<Rightarrow> floppy_drive" where
  "with_dsk fd k \<equiv> fd\<lparr>fd_sub := Dsk_sub k\<rparr>"

definition chars :: "string \<Rightarrow> u8 list" where
  "chars s = map of_char s"

definition EXTENDED :: "u8 list" where
  "EXTENDED = [0x45, 0x58, 0x54, 0x45, 0x4E, 0x44, 0x45, 0x44]"

definition MV_CPC :: "u8 list" where
  "MV_CPC = [0x4D, 0x56, 0x20, 0x2D, 0x20, 0x43, 0x50, 0x43]"

definition Track_Info :: "u8 list" where
  "Track_Info = [0x54, 0x72, 0x61, 0x63, 0x6B, 0x2D, 0x49, 0x6E, 0x66, 0x6F]"

text \<open>\<^verbatim>\<open>!memcmp(header, "EXTENDED", 8)\<close>\<close>

definition is_extended :: "dsk_part \<Rightarrow> bool" where
  "is_extended k \<longleftrightarrow> take 8 (fdd_disk_header k) = EXTENDED"

section \<open>Opening the image\<close>

definition fdd_reset_part :: "dsk_part \<Rightarrow> dsk_part" where
  "fdd_reset_part k = k\<lparr>fdd_filename := '''', fdd_fp := None,
     fdd_disk_header := replicate 256 0, fdd_track_header := replicate 256 0\<rparr>"

definition fdd_reset :: "floppy_drive \<Rightarrow> floppy_drive option" where
  "fdd_reset fd = do {k \<leftarrow> as_dsk fd; Some (with_dsk fd (fdd_reset_part k))}"

text \<open>\<^verbatim>\<open>fopen(name, "r+b")\<close>, else \<^verbatim>\<open>fopen(name, "rb")\<close>, which makes the drive read-only.\<close>

definition fdd_open :: "floppy_drive \<Rightarrow> dsk_part \<Rightarrow> file_system \<Rightarrow> FILE option \<times> floppy_drive" where
  "fdd_open fd k fs = (case fopen_update (fdd_filename k) fs of
     Some fp \<Rightarrow> (Some fp, fd)
   | None \<Rightarrow> (case fopen_read (fdd_filename k) fs of
       Some fp \<Rightarrow> (Some fp, fd\<lparr>fd_readonly := 1\<rparr>)
     | None \<Rightarrow> (None, fd)))"

definition fdd_isready :: "floppy_drive \<Rightarrow> 'd world \<Rightarrow> (int \<times> floppy_drive \<times> 'd world) option" where
  "fdd_isready fd w = do {
     k \<leftarrow> as_dsk fd;
     if fd_motor fd = 0 then Some (0, fd, w)
     else if fdd_fp k \<noteq> None then Some (1, fd, w)
     else if fdd_filename k = '''' then Some (0, fd, w)
     else (case fdd_open fd k (files w) of
       (None, fd) \<Rightarrow> Some (0, with_dsk fd (fdd_reset_part k), w)
     | (Some fp, fd) \<Rightarrow>
         (case fread 256 (fseek_set 0 fp) (files w) of (header, fp) \<Rightarrow>
            if length header < 256 then Some (0, with_dsk fd (fdd_reset_part k), w)
            else if take 8 header \<noteq> MV_CPC \<and> take 8 header \<noteq> EXTENDED
            then Some (0, with_dsk fd (fdd_reset_part k), w)
            else Some (1, with_dsk fd (k\<lparr>fdd_fp := Some fp, fdd_disk_header := header,
                   fdd_track_header := (fdd_track_header k)[0 := 0]\<rparr>), w)))}"

section \<open>Finding tracks and sectors\<close>

text \<open>The sum over the tracks before the one looked for, in an extended image.\<close>

primrec ext_offset :: "nat \<Rightarrow> u8 list \<Rightarrow> int \<Rightarrow> int \<Rightarrow> int option" where
  "ext_offset 0 header nt off = Some off"
| "ext_offset (Suc n) header nt off = do {
     b \<leftarrow> byte_at header (0x34 + nt);
     ext_offset n header (nt + 1) (off + 256 * (1 + uint b))}"

definition fdd_lookup_track :: "floppy_drive \<Rightarrow> dsk_part \<Rightarrow> int \<Rightarrow> int \<Rightarrow> int option" where
  "fdd_lookup_track fd k cylinder head = (
     if fdd_fp k = None then Some (-1)
     else if cylinder > fd_cylinders fd then Some (-1)
     else if head \<ge> fd_heads fd then Some (-1)
     else do {
       h30 \<leftarrow> byte_at (fdd_disk_header k) 0x30;
       h31 \<leftarrow> byte_at (fdd_disk_header k) 0x31;
       h32 \<leftarrow> byte_at (fdd_disk_header k) 0x32;
       h33 \<leftarrow> byte_at (fdd_disk_header k) 0x33;
       let cylinder = (if (fd_type fd = FD_30 \<or> fd_type fd = FD_525) \<and> uint h30 > 43 \<and> fd_cylinders fd \<ge> 80
                       then cylinder div 2 else cylinder);
       let track = (if uint h31 > 1 then cylinder * 2 else cylinder) + head;
       if is_extended k then ext_offset (nat track) (fdd_disk_header k) 0 256
       else Some ((uint h33 * 256 + uint h32) * track + 256)})"

text \<open>The index in the track header of the information of a sector, if it is listed.\<close>

primrec sector_head_loop :: "nat \<Rightarrow> u8 list \<Rightarrow> int \<Rightarrow> int \<Rightarrow> int option option" where
  "sector_head_loop 0 header sec sector = Some None"
| "sector_head_loop (Suc n) header sec sector = do {
     r \<leftarrow> byte_at header (0x1A + 8 * sec);
     if uint r = sector then Some (Some (0x18 + 8 * sec))
     else sector_head_loop n header (sec + 1) sector}"

definition sector_head :: "dsk_part \<Rightarrow> int \<Rightarrow> int option option" where
  "sector_head k sector = do {
     ms \<leftarrow> byte_at (fdd_track_header k) 0x15;
     sector_head_loop (unat ms) (fdd_track_header k) 0 sector}"

definition fdd_seek_cylinder :: "floppy_drive \<Rightarrow> int \<Rightarrow> 'd world \<Rightarrow> (int \<times> floppy_drive \<times> 'd world) option" where
  "fdd_seek_cylinder fd cylinder w = do {
     k \<leftarrow> as_dsk fd;
     if fdd_fp k = None then Some (FD_E_NOTRDY, fd, w)
     else do {
       nr \<leftarrow> fdd_lookup_track fd k cylinder 0;
       if nr < 0 then Some (FD_E_SEEKFAIL, fd, w)
       else Some (0, fd\<lparr>fd_cylinder := cylinder\<rparr>, w)}}"

text \<open>
  On a short read the bytes that were read are stored all the same.  The loaded header leaves the
  stream just behind it.
\<close>

definition fdd_load_track_header :: "floppy_drive \<Rightarrow> dsk_part \<Rightarrow> int \<Rightarrow> file_system \<Rightarrow> (int \<times> dsk_part) option" where
  "fdd_load_track_header fd k head fs = do {
     track \<leftarrow> fdd_lookup_track fd k (fd_cylinder fd) head;
     if track < 0 then Some (FD_E_SEEKFAIL, k)
     else do {
       fp \<leftarrow> fdd_fp k;
       let (xs, fp) = fread 256 (fseek_set track fp) fs;
       let k = k\<lparr>fdd_fp := Some fp, fdd_track_header := xs @ drop (length xs) (fdd_track_header k)\<rparr>;
       Some (if length xs < 256 then FD_E_NOADDR
             else if take 10 (fdd_track_header k) \<noteq> Track_Info then FD_E_NOADDR
             else 0, k)}}"

text \<open>The result, the four bytes of the sector id (if there is no error), the drive.\<close>

definition fdd_read_id :: "floppy_drive \<Rightarrow> int \<Rightarrow> int \<Rightarrow> 'd world
    \<Rightarrow> ((int \<times> u8 list) \<times> floppy_drive \<times> 'd world) option" where
  "fdd_read_id fd head sector w = do {
     k \<leftarrow> as_dsk fd;
     (n, k) \<leftarrow> fdd_load_track_header fd k head (files w);
     if n < 0 then Some ((n, []), with_dsk fd k, w)
     else do {
       ms \<leftarrow> byte_at (fdd_track_header k) 0x15;
       if ms = 0 then None
       else do {
         let offs = 0x18 + 8 * (sector mod uint ms);
         b0 \<leftarrow> byte_at (fdd_track_header k) offs;
         b1 \<leftarrow> byte_at (fdd_track_header k) (offs + 1);
         b2 \<leftarrow> byte_at (fdd_track_header k) (offs + 2);
         b3 \<leftarrow> byte_at (fdd_track_header k) (offs + 3);
         Some ((0, [b0, b1, b2, b3]), with_dsk fd k, w)}}}"

text \<open>
  The loop of \<^verbatim>\<open>fdd_sector_offset\<close>: the offset of the sector in the track (-1 if it is not
  there), the length and the index of the id it ends with.
\<close>

primrec sector_offset_loop :: "nat \<Rightarrow> bool \<Rightarrow> u8 list \<Rightarrow> int \<Rightarrow> int \<Rightarrow> int \<Rightarrow> int \<Rightarrow> (int \<times> int \<times> int) option" where
  "sector_offset_loop 0 ext header sector offset seclen secid = Some (-1, seclen, secid)"
| "sector_offset_loop (Suc n) ext header sector offset seclen secid = do {
     seclen \<leftarrow> (if ext then do {lo \<leftarrow> byte_at header (secid + 7); hi \<leftarrow> byte_at header (secid + 8);
                               Some (uint lo + 256 * uint hi)}
               else Some seclen);
     r \<leftarrow> byte_at header (secid + 2);
     if uint r = sector then Some (offset, seclen, secid)
     else sector_offset_loop n ext header sector (offset + seclen) seclen (secid + 8)}"

definition fdd_sector_offset :: "dsk_part \<Rightarrow> int \<Rightarrow> (int \<times> int \<times> int) option" where
  "fdd_sector_offset k sector = do {
     maxsec \<leftarrow> byte_at (fdd_track_header k) 0x15;
     n \<leftarrow> byte_at (fdd_track_header k) 0x14;
     seclen \<leftarrow> shl128 n;
     sector_offset_loop (unat maxsec) (is_extended k) (fdd_track_header k) sector 0 seclen 0x18}"

text \<open>The error, the number of bytes to transfer, and the drive with its stream at the sector.\<close>

definition fdd_seekto_sector :: "floppy_drive \<Rightarrow> dsk_part \<Rightarrow> int \<Rightarrow> int \<Rightarrow> int \<Rightarrow> int \<Rightarrow> int \<Rightarrow> file_system
    \<Rightarrow> (int \<times> int \<times> dsk_part) option" where
  "fdd_seekto_sector fd k xcylinder xhead head sector len fs = do {
     (n, k) \<leftarrow> fdd_load_track_header fd k head fs;
     if n < 0 then Some (n, len, k)
     else do {
       (offs, seclen, secid) \<leftarrow> fdd_sector_offset k sector;
       if offs < 0 then Some (FD_E_NOSECTOR, len, k)
       else do {
         c \<leftarrow> byte_at (fdd_track_header k) secid;
         h \<leftarrow> byte_at (fdd_track_header k) (secid + 1);
         if xcylinder \<noteq> uint c \<or> xhead \<noteq> uint h then Some (FD_E_NOSECTOR, len, k)
         else do {
           fp \<leftarrow> fdd_fp k;
           let (err, len) = (if seclen < len then (FD_E_DATAERR, seclen)
                             else if seclen > len then (FD_E_DATAERR, len)
                             else (FD_E_OK, len));
           let k = k\<lparr>fdd_fp := Some (fseek_set (offs + int (fp_pos fp)) fp)\<rparr>;
           Some (err, len, k)}}}}"

section \<open>Reading\<close>

text \<open>
  The \<^verbatim>\<open>do\<close> loop of \<^verbatim>\<open>fdd_read_sector\<close>: with \<^verbatim>\<open>skip_deleted\<close> it goes on to the next sector
  number when the sector's deleted mark is not the one looked for.  \<open>deleted\<close> is
  \<^term>\<open>None\<close> for a null pointer; \<open>try_again\<close> is the flag of the previous round.
\<close>

partial_function (option) fdd_read_loop ::
  "floppy_drive \<Rightarrow> dsk_part \<Rightarrow> int \<Rightarrow> int \<Rightarrow> int \<Rightarrow> int \<Rightarrow> int \<Rightarrow> u8 \<Rightarrow> int option \<Rightarrow> bool \<Rightarrow> bool \<Rightarrow> file_system
    \<Rightarrow> ((int \<times> u8 list \<times> int option) \<times> dsk_part) option" where
  "fdd_read_loop fd k xcylinder xhead head sector len rdeleted deleted skip_deleted try_again fs = do {
     (err, len, k) \<leftarrow> fdd_seekto_sector fd k xcylinder xhead head sector len fs;
     let err = (if try_again \<and> err = FD_E_NOADDR then FD_E_NODATA else err);
     if err \<noteq> FD_E_DATAERR \<and> err \<noteq> FD_E_OK then Some ((err, [], deleted), k)
     else do {
       sh \<leftarrow> sector_head k sector;
       (case sh of
          None \<Rightarrow> Some ((FD_E_NODATA, [], deleted), k)
        | Some sh \<Rightarrow> do {
            _ \<leftarrow> deleted;
            st2 \<leftarrow> byte_at (fdd_track_header k) (sh + 5);
            if rdeleted \<noteq> st2 AND 0x40 \<and> skip_deleted
            then fdd_read_loop fd k xcylinder xhead head (sector + 1) len rdeleted (Some 0) skip_deleted True fs
            else do {
              fp \<leftarrow> fdd_fp k;
              let deleted = Some (if rdeleted \<noteq> st2 AND 0x40 then 1 else 0);
              let (xs, fp) = fread (nat len) fp fs;
              let err = (if int (length xs) < len then FD_E_DATAERR else err);
              Some ((err, xs, deleted), k\<lparr>fdd_fp := Some fp\<rparr>)}})}}"

definition fdd_read_sector :: "floppy_drive \<Rightarrow> int \<Rightarrow> int \<Rightarrow> int \<Rightarrow> int \<Rightarrow> int \<Rightarrow> int option \<Rightarrow> int \<Rightarrow> 'd world
    \<Rightarrow> ((int \<times> u8 list \<times> int option) \<times> floppy_drive \<times> 'd world) option" where
  "fdd_read_sector fd xcylinder xhead head sector len deleted skip_deleted w = do {
     k \<leftarrow> as_dsk fd;
     let rdeleted = (if deleted \<noteq> None \<and> deleted \<noteq> Some 0 then 0x40 else 0);
     (r, k) \<leftarrow> fdd_read_loop fd k xcylinder xhead head sector len rdeleted deleted (skip_deleted \<noteq> 0) False (files w);
     Some (r, with_dsk fd k, w)}"

definition fdd_read_track :: "floppy_drive \<Rightarrow> int \<Rightarrow> int \<Rightarrow> int \<Rightarrow> int \<Rightarrow> 'd world
    \<Rightarrow> ((int \<times> u8 list) \<times> floppy_drive \<times> 'd world) option" where
  "fdd_read_track fd xcylinder xhead head len w = do {
     k \<leftarrow> as_dsk fd;
     (n, k) \<leftarrow> fdd_load_track_header fd k head (files w);
     if n < 0 then Some ((n, []), with_dsk fd k, w)
     else do {
       c \<leftarrow> byte_at (fdd_track_header k) 0x18;
       h \<leftarrow> byte_at (fdd_track_header k) 0x19;
       if xcylinder \<noteq> uint c \<or> xhead \<noteq> uint h then Some ((FD_E_NOSECTOR, []), with_dsk fd k, w)
       else do {
         t10 \<leftarrow> byte_at (fdd_track_header k) 0x10;
         t11 \<leftarrow> byte_at (fdd_track_header k) 0x11;
         h31 \<leftarrow> byte_at (fdd_disk_header k) 0x31;
         h32 \<leftarrow> byte_at (fdd_disk_header k) 0x32;
         h33 \<leftarrow> byte_at (fdd_disk_header k) 0x33;
         trklen \<leftarrow> (if is_extended k
                   then do {b \<leftarrow> byte_at (fdd_disk_header k) (0x34 + uint t10 * uint h31 + uint t11);
                            Some (uint b * 256)}
                   else Some (uint h33 * 256 + uint h32));
         fp \<leftarrow> fdd_fp k;
         let (err, trklen) = (if trklen > len then (FD_E_DATAERR, len) else (FD_E_OK, trklen));
         let (xs, fp) = fread (nat trklen) fp (files w);
         let err = (if int (length xs) < len then FD_E_DATAERR else err);
         Some ((err, xs), with_dsk fd (k\<lparr>fdd_fp := Some fp\<rparr>), w)}}}"

section \<open>Writing\<close>

definition fdd_write_sector :: "floppy_drive \<Rightarrow> int \<Rightarrow> int \<Rightarrow> int \<Rightarrow> int \<Rightarrow> (nat \<Rightarrow> u8) \<Rightarrow> int \<Rightarrow> int \<Rightarrow> 'd world
    \<Rightarrow> (int \<times> floppy_drive \<times> 'd world) option" where
  "fdd_write_sector fd xcylinder xhead head sector buf len deleted w = do {
     k \<leftarrow> as_dsk fd;
     (err, len, k) \<leftarrow> fdd_seekto_sector fd k xcylinder xhead head sector len (files w);
     if fd_readonly fd \<noteq> 0 then Some (FD_E_READONLY, with_dsk fd k, w)
     else if err \<noteq> FD_E_DATAERR \<and> err \<noteq> 0 then Some (err, with_dsk fd k, w)
     else do {
       sh \<leftarrow> sector_head k sector;
       fp \<leftarrow> fdd_fp k;
       xs \<leftarrow> buf_bytes buf len;
       let (n, fp, fs) = fwrite xs fp (files w);
       let err = (if int n < len then FD_E_READONLY else err);
       let w = w\<lparr>files := fs\<rparr>;
       let k = k\<lparr>fdd_fp := Some fp, fdd_dirty := 1\<rparr>;
       sh \<leftarrow> sh;
       odel \<leftarrow> byte_at (fdd_track_header k) (sh + 5);
       let ndel = (if deleted \<noteq> 0 then odel OR 0x40 else odel AND NOT 0x40);
       header \<leftarrow> set_byte (fdd_track_header k) (sh + 5) ndel;
       let k = k\<lparr>fdd_track_header := header\<rparr>;
       if ndel \<noteq> odel then do {
         track \<leftarrow> fdd_lookup_track fd k (fd_cylinder fd) head;
         if track < 0 then Some (FD_E_SEEKFAIL, with_dsk fd k, w)
         else do {
           let (n, fp, fs) = fwrite (take 256 header) (fseek_set track fp) (files w);
           let k = k\<lparr>fdd_fp := Some fp\<rparr>;
           let w = w\<lparr>files := fs\<rparr>;
           Some (if n < 256 then FD_E_DATAERR else err, with_dsk fd k, w)}}
       else Some (err, with_dsk fd k, w)}}"

section \<open>Formatting\<close>

text \<open>The length of the new track, its header included.\<close>

primrec format_trklen :: "nat \<Rightarrow> (nat \<Rightarrow> u8) \<Rightarrow> int option" where
  "format_trklen 0 track = Some 256"
| "format_trklen (Suc n) track = do {
     trklen \<leftarrow> format_trklen n track;
     b \<leftarrow> buf_at track (4 * int n + 3);
     seclen \<leftarrow> shl128 b;
     Some (trklen + seclen)}"

text \<open>
  Steps 1 and 2: whether the head can be formatted, and the number of sides in the header.
  \<^term>\<open>Inl\<close> is an early return with the error and the header as it is left.
\<close>

definition format_sides :: "int \<Rightarrow> u8 list \<Rightarrow> (int \<times> u8 list + u8 list) option" where
  "format_sides head header = do {
     h30 \<leftarrow> byte_at header 0x30;
     h31 \<leftarrow> byte_at header 0x31;
     if head \<noteq> 0 \<and> h31 = 1 \<and> 1 < h30 then Some (Inl (FD_E_READONLY, header))
     else do {
       header \<leftarrow> (if head \<noteq> 0 \<and> h31 = 1 then set_byte header 0x31 2 else Some header);
       header \<leftarrow> (if h31 < 1 then set_byte header 0x31 1 else Some header);
       Some (Inr header)}}"

text \<open>Step 4: the header and the offset of the track in the file.\<close>

definition format_place_ext :: "u8 list \<Rightarrow> u8 list \<Rightarrow> int \<Rightarrow> int \<Rightarrow> (int \<times> u8 list + u8 list \<times> int) option" where
  "format_place_ext oldhead header trkno trklen = do {
     b \<leftarrow> byte_at header (0x34 + trkno);
     let img_trklen = uint b * 256 + 256;
     if img_trklen \<noteq> 0 \<and> trklen > img_trklen then Some (Inl (FD_E_READONLY, header))
     else do {
       contiguous \<leftarrow> (if img_trklen = 0 \<and> trkno > 0
                     then do {p \<leftarrow> byte_at header (0x34 + trkno - 1); Some (p \<noteq> 0)} else Some True);
       if \<not> contiguous then Some (Inl (FD_E_READONLY, oldhead))
       else do {
         trkoff \<leftarrow> ext_offset (nat trkno) header 0 256;
         header \<leftarrow> (if b = 0 then set_byte header (0x34 + trkno) (word_of_int (trklen div 256 - 1))
                   else Some header);
         Some (Inr (header, trkoff))}}}"

definition format_place_std :: "u8 list \<Rightarrow> u8 list \<Rightarrow> int \<Rightarrow> int \<Rightarrow> (int \<times> u8 list + u8 list \<times> int) option" where
  "format_place_std oldhead header trkno trklen = do {
     h30 \<leftarrow> byte_at header 0x30;
     h31 \<leftarrow> byte_at header 0x31;
     h32 \<leftarrow> byte_at header 0x32;
     h33 \<leftarrow> byte_at header 0x33;
     let img_trklen = uint h32 + 256 * uint h33;
     let grow = (h30 = 0 \<or> (h30 = 1 \<and> h31 = 1)) \<and> trklen > img_trklen;
     header \<leftarrow> (if grow then do {
                  header \<leftarrow> set_byte header 0x32 (word_of_int (trklen AND 0xFF));
                  set_byte header 0x33 (word_of_int (trklen div 256))}
                else Some header);
     let img_trklen = (if grow then trklen else img_trklen);
     if trklen > img_trklen then Some (Inl (FD_E_READONLY, oldhead))
     else Some (Inr (header, 256 + trkno * img_trklen))}"

text \<open>The track header: the sector list, with the sizes of the sectors in an extended image.\<close>

primrec format_ids :: "nat \<Rightarrow> bool \<Rightarrow> (nat \<Rightarrow> u8) \<Rightarrow> u8 list \<Rightarrow> u8 list option" where
  "format_ids 0 ext track th = Some th"
| "format_ids (Suc m) ext track th = do {
     th \<leftarrow> format_ids m ext track th;
     let n = int m;
     c \<leftarrow> buf_at track (4 * n);
     h \<leftarrow> buf_at track (4 * n + 1);
     r \<leftarrow> buf_at track (4 * n + 2);
     s \<leftarrow> buf_at track (4 * n + 3);
     th \<leftarrow> set_byte th (0x18 + 8 * n) c;
     th \<leftarrow> set_byte th (0x19 + 8 * n) h;
     th \<leftarrow> set_byte th (0x1A + 8 * n) r;
     th \<leftarrow> set_byte th (0x1B + 8 * n) s;
     if ext then do {
       seclen \<leftarrow> shl128 s;
       th \<leftarrow> set_byte th (0x1E + 8 * n) (word_of_int (seclen AND 0xFF));
       set_byte th (0x1F + 8 * n) (word_of_int (seclen div 256))}
     else Some th}"

definition format_track_header :: "bool \<Rightarrow> int \<Rightarrow> int \<Rightarrow> int \<Rightarrow> (nat \<Rightarrow> u8) \<Rightarrow> u8 \<Rightarrow> u8 list option" where
  "format_track_header ext cylinder head sectors track filler = do {
     t3 \<leftarrow> buf_at track 3;
     t2 \<leftarrow> buf_at track 2;
     let th = Track_Info @ [0x0D, 0x0A] @ replicate 244 0;
     let th = th[0x10 := word_of_int cylinder, 0x11 := word_of_int head, 0x14 := t3,
                 0x15 := word_of_int sectors, 0x16 := t2, 0x17 := filler];
     format_ids (nat sectors) ext track th}"

text \<open>The sectors, filled with the filler byte; the code writes them byte by byte.\<close>

primrec format_fill :: "nat \<Rightarrow> (nat \<Rightarrow> u8) \<Rightarrow> u8 \<Rightarrow> FILE \<times> file_system \<Rightarrow> (bool \<times> FILE \<times> file_system) option" where
  "format_fill 0 track filler st = Some (True, st)"
| "format_fill (Suc n) track filler st = do {
     (ok, fp, fs) \<leftarrow> format_fill n track filler st;
     if \<not> ok then Some (False, fp, fs)
     else do {
       b \<leftarrow> buf_at track (4 * int n + 3);
       seclen \<leftarrow> shl128 b;
       let (m, fp, fs) = fwrite (replicate (nat seclen) filler) fp fs;
       Some (m = nat seclen, fp, fs)}}"

definition fdd_format_track :: "floppy_drive \<Rightarrow> int \<Rightarrow> int \<Rightarrow> (nat \<Rightarrow> u8) \<Rightarrow> u8 \<Rightarrow> 'd world
    \<Rightarrow> (int \<times> floppy_drive \<times> 'd world) option" where
  "fdd_format_track fd head sectors track filler w = do {
     k \<leftarrow> as_dsk fd;
     if fdd_fp k = None then Some (FD_E_NOTRDY, fd, w)
     else if fd_readonly fd \<noteq> 0 then Some (FD_E_READONLY, fd, w)
     else do {
       fp \<leftarrow> fdd_fp k;
       let oldhead = fdd_disk_header k;
       sides \<leftarrow> format_sides head oldhead;
       (case sides of
          Inl (err, header) \<Rightarrow> Some (err, with_dsk fd (k\<lparr>fdd_disk_header := header\<rparr>), w)
        | Inr header \<Rightarrow> do {
            h31 \<leftarrow> byte_at header 0x31;
            let trkno = fd_cylinder fd * uint h31 + head;
            trklen \<leftarrow> format_trklen (nat sectors) track;
            let ext = is_extended k;
            place \<leftarrow> (if ext then format_place_ext oldhead header trkno trklen
                     else format_place_std oldhead header trkno trklen);
            (case place of
               Inl (err, header) \<Rightarrow> Some (err, with_dsk fd (k\<lparr>fdd_disk_header := header\<rparr>), w)
             | Inr (header, trkoff) \<Rightarrow> do {
                 th \<leftarrow> format_track_header ext (fd_cylinder fd) head sectors track filler;
                 let (n, fp, fs) = fwrite th (fseek_set trkoff fp) (files w);
                 let k = k\<lparr>fdd_disk_header := header, fdd_track_header := th, fdd_fp := Some fp\<rparr>;
                 let w = w\<lparr>files := fs\<rparr>;
                 if n < 256 then Some (FD_E_READONLY, with_dsk fd (k\<lparr>fdd_disk_header := oldhead\<rparr>), w)
                 else do {
                   (ok, fp, fs) \<leftarrow> format_fill (nat sectors) track filler (fp, fs);
                   let k = k\<lparr>fdd_dirty := 1, fdd_fp := Some fp\<rparr>;
                   let w = w\<lparr>files := fs\<rparr>;
                   if \<not> ok then Some (FD_E_READONLY, with_dsk fd (k\<lparr>fdd_disk_header := oldhead\<rparr>), w)
                   else do {
                     h30 \<leftarrow> byte_at header 0x30;
                     header \<leftarrow> (if fd_cylinder fd \<ge> uint h30
                               then set_byte header 0x30 (word_of_int (fd_cylinder fd + 1)) else Some header);
                     let (n, fp, fs) = fwrite (take 256 header) (fseek_set 0 fp) fs;
                     let k = k\<lparr>fdd_disk_header := header, fdd_fp := Some fp\<rparr>;
                     let w = w\<lparr>files := fs\<rparr>;
                     if n < 256 then Some (FD_E_READONLY, with_dsk fd (k\<lparr>fdd_disk_header := oldhead\<rparr>), w)
                     else Some (FD_E_OK, with_dsk fd k, w)}}})})}}"

section \<open>Dirty flag, ejection and a new image\<close>

definition fdd_dirty_status :: "floppy_drive \<Rightarrow> int option" where
  "fdd_dirty_status fd = do {
     k \<leftarrow> as_dsk fd;
     Some (if fdd_dirty k \<noteq> 0 then FD_D_DIRTY else FD_D_CLEAN)}"

definition fdd_eject :: "floppy_drive \<Rightarrow> floppy_drive option" where
  "fdd_eject fd = fdd_reset fd"

definition new_dsk_header :: "u8 list" where
  "new_dsk_header =
     (let s = chars ''MV - CPCEMU Disk-File'' @ [0x0D, 0x0A] @ chars ''Disk-Info'' @ [0x0D, 0x0A] @ chars ''(JOYCE)''
      in s @ replicate (256 - length s) 0)"

definition fdd_new_dsk :: "floppy_drive \<Rightarrow> 'd world \<Rightarrow> (int \<times> floppy_drive \<times> 'd world) option" where
  "fdd_new_dsk fd w = do {
     k \<leftarrow> as_dsk fd;
     (case fopen_write (fdd_filename k) (files w) of
        None \<Rightarrow> Some (0, fd, w)
      | Some (fp, fs) \<Rightarrow> do {
          let (n, fp, fs) = fwrite new_dsk_header fp fs;
          Some (test (n = 256), with_dsk fd (k\<lparr>fdd_disk_header := new_dsk_header\<rparr>), w\<lparr>files := fs\<rparr>)})}"

end
