(* ===== verification/FDD_Ldsk.thy ===== *)
theory FDD_Ldsk
  imports FDD_Drive
begin

text \<open>
  The drive that leaves the disc image to libdsk (\<^verbatim>\<open>765ldsk.c\<close>), the one the emulator uses.
  Every method calls the interface \<^typ>\<open>'d libdsk\<close> and translates its errors.
\<close>

unbundle bit_operations_syntax

definition as_libdsk :: "floppy_drive \<Rightarrow> libdsk_part option" where
  "as_libdsk fd = (case fd_sub fd of Libdsk_sub k \<Rightarrow> Some k | _ \<Rightarrow> None)"

abbreviation with_libdsk :: "floppy_drive \<Rightarrow> libdsk_part \<Rightarrow> floppy_drive" where
  "with_libdsk fd k \<equiv> fd\<lparr>fd_sub := Libdsk_sub k\<rparr>"

section \<open>Opening the image\<close>

definition fdl_reset_part :: "libdsk_part \<Rightarrow> libdsk_part" where
  "fdl_reset_part k = k\<lparr>fdl_filename := '''', fdl_type := None, fdl_compress := None, fdl_diskp := None\<rparr>"

definition fdl_reset :: "floppy_drive \<Rightarrow> floppy_drive option" where
  "fdl_reset fd = do {k \<leftarrow> as_libdsk fd; Some (with_libdsk fd (fdl_reset_part k))}"

definition fdl_regeom :: "'d libdsk \<Rightarrow> libdsk_part \<Rightarrow> 'd \<Rightarrow> (int \<times> libdsk_part \<times> 'd) option" where
  "fdl_regeom L k s = do {
     p \<leftarrow> fdl_diskp k;
     let (err, g, s) = dsk_getgeom L p (fdl_diskg k) s;
     let k = k\<lparr>fdl_diskg := g\<rparr>;
     Some (if err \<noteq> 0 \<and> err \<noteq> DSK_ERR_NOADDR \<and> err \<noteq> DSK_ERR_NODATA \<and> err \<noteq> DSK_ERR_BADFMT
           then (err, fdl_reset_part k, s) else (0, k, s))}"

definition fdl_isready :: "'d libdsk \<Rightarrow> floppy_drive \<Rightarrow> 'd world \<Rightarrow> (int \<times> floppy_drive \<times> 'd world) option" where
  "fdl_isready L fd w = do {
     k \<leftarrow> as_libdsk fd;
     if fd_motor fd = 0 then Some (0, fd, w)
     else if fdl_diskp k \<noteq> None then Some (1, fd, w)
     else if fdl_filename k = '''' then Some (0, fd, w)
     else do {
       let (err, p, s) = dsk_open L (fdl_filename k) (fdl_type k) (fdl_compress k) (lib w);
       let w = w\<lparr>lib := s\<rparr>;
       let k = k\<lparr>fdl_diskp := p\<rparr>;
       if err \<noteq> 0 \<or> p = None then Some (0, with_libdsk fd (fdl_reset_part k), w)
       else do {
         (err, k, s) \<leftarrow> fdl_regeom L k (lib w);
         Some (test (err = 0), with_libdsk fd k, w\<lparr>lib := s\<rparr>)}}}"

definition fdl_xlt_error :: "int \<Rightarrow> int" where
  "fdl_xlt_error err = (
     if err = DSK_ERR_OK then FD_E_OK
     else if err = DSK_ERR_SEEKFAIL then FD_E_SEEKFAIL
     else if err = DSK_ERR_NOADDR then FD_E_NOADDR
     else if err = DSK_ERR_NODATA then FD_E_NODATA
     else if err = DSK_ERR_DATAERR then FD_E_DATAERR
     else if err = DSK_ERR_NOTRDY then FD_E_NOTRDY
     else if err = DSK_ERR_RDONLY then FD_E_READONLY
     else FD_E_NOSECTOR)"

section \<open>Seeking, reading and writing\<close>

definition fdl_seek_cylinder :: "'d libdsk \<Rightarrow> floppy_drive \<Rightarrow> int \<Rightarrow> 'd world \<Rightarrow> (int \<times> floppy_drive \<times> 'd world) option" where
  "fdl_seek_cylinder L fd cylinder w = do {
     k \<leftarrow> as_libdsk fd;
     (case fdl_diskp k of
        None \<Rightarrow> Some (FD_E_NOTRDY, fd, w)
      | Some p \<Rightarrow> do {
          let (err, s) = dsk_pseek L p (fdl_diskg k) cylinder 0 (lib w);
          let w = w\<lparr>lib := s\<rparr>;
          if err = DSK_ERR_NOTIMPL \<or> err = DSK_ERR_OK then Some (0, fd\<lparr>fd_cylinder := cylinder\<rparr>, w)
          else Some (fdl_xlt_error err, fd, w)})}"

definition fdl_read_id :: "'d libdsk \<Rightarrow> floppy_drive \<Rightarrow> int \<Rightarrow> int \<Rightarrow> 'd world
    \<Rightarrow> ((int \<times> u8 list) \<times> floppy_drive \<times> 'd world) option" where
  "fdl_read_id L fd head sector w = do {
     k \<leftarrow> as_libdsk fd;
     (case fdl_diskp k of
        None \<Rightarrow> Some ((FD_E_NOTRDY, []), fd, w)
      | Some p \<Rightarrow> do {
          let (err, fmt, s) = dsk_psecid L p (fdl_diskg k) (fd_cylinder fd) head (lib w);
          let w = w\<lparr>lib := s\<rparr>;
          if err = DSK_ERR_NOTIMPL
          then Some ((0, [word_of_int (fd_cylinder fd), word_of_int head, word_of_int sector,
                          dsk_get_psh (dg_secsize (fdl_diskg k))]), fd, w)
          else if err \<noteq> 0 then Some ((fdl_xlt_error err, []), fd, w)
          else Some ((0, [word_of_int (fmt_cylinder fmt), word_of_int (fmt_head fmt),
                          word_of_int (fmt_sector fmt), dsk_get_psh (fmt_secsize fmt)]), fd, w)})}"

text \<open>The flags of the command that a transfer stores in the geometry.\<close>

definition fdl_flags :: "int \<Rightarrow> int \<Rightarrow> int \<Rightarrow> libdsk_part \<Rightarrow> libdsk_part" where
  "fdl_flags skip_deleted mfm multi k = k\<lparr>fdl_diskg := (fdl_diskg k)
     \<lparr>dg_noskip := test (skip_deleted = 0), dg_fm := test (mfm = 0), dg_nomulti := test (multi = 0)\<rparr>\<rparr>"

definition fdl_read_sector :: "'d libdsk \<Rightarrow> floppy_drive \<Rightarrow> int \<Rightarrow> int \<Rightarrow> int \<Rightarrow> int \<Rightarrow> int \<Rightarrow> int option
    \<Rightarrow> int \<Rightarrow> int \<Rightarrow> int \<Rightarrow> 'd world \<Rightarrow> ((int \<times> u8 list \<times> int option) \<times> floppy_drive \<times> 'd world) option" where
  "fdl_read_sector L fd xcylinder xhead head sector len deleted skip_deleted mfm multi w = do {
     k \<leftarrow> as_libdsk fd;
     (case fdl_diskp k of
        None \<Rightarrow> Some ((FD_E_NOTRDY, [], deleted), fd, w)
      | Some p \<Rightarrow> do {
          let k = fdl_flags skip_deleted mfm multi k;
          let fd = with_libdsk fd k;
          let (err, xs, deleted, s) = dsk_xread L p (fdl_diskg k) (fd_cylinder fd) head xcylinder xhead
                                        sector len deleted (lib w);
          let w = w\<lparr>lib := s\<rparr>;
          if err = DSK_ERR_NOTIMPL then
            if deleted \<noteq> None \<and> deleted \<noteq> Some 0 then Some ((FD_E_NOADDR, xs, deleted), fd, w)
            else do {
              let (err, ys, s) = dsk_pread L p (fdl_diskg k) (fd_cylinder fd) head sector (lib w);
              Some ((fdl_xlt_error err, ys @ drop (length ys) xs, deleted), fd, w\<lparr>lib := s\<rparr>)}
          else Some ((fdl_xlt_error err, xs, deleted), fd, w)})}"

definition fdl_read_track :: "'d libdsk \<Rightarrow> floppy_drive \<Rightarrow> int \<Rightarrow> int \<Rightarrow> int \<Rightarrow> 'd world
    \<Rightarrow> ((int \<times> u8 list) \<times> floppy_drive \<times> 'd world) option" where
  "fdl_read_track L fd xcylinder xhead head w = do {
     k \<leftarrow> as_libdsk fd;
     (case fdl_diskp k of
        None \<Rightarrow> Some ((FD_E_NOTRDY, []), fd, w)
      | Some p \<Rightarrow> do {
          let (err, xs, s) = dsk_xtread L p (fdl_diskg k) (fd_cylinder fd) head xcylinder xhead (lib w);
          Some ((fdl_xlt_error err, xs), fd, w\<lparr>lib := s\<rparr>)})}"

definition fdl_write_sector :: "'d libdsk \<Rightarrow> floppy_drive \<Rightarrow> int \<Rightarrow> int \<Rightarrow> int \<Rightarrow> int \<Rightarrow> (nat \<Rightarrow> u8) \<Rightarrow> int
    \<Rightarrow> int \<Rightarrow> int \<Rightarrow> int \<Rightarrow> int \<Rightarrow> 'd world \<Rightarrow> (int \<times> floppy_drive \<times> 'd world) option" where
  "fdl_write_sector L fd xcylinder xhead head sector buf len deleted skip_deleted mfm multi w = do {
     k \<leftarrow> as_libdsk fd;
     (case fdl_diskp k of
        None \<Rightarrow> Some (FD_E_NOTRDY, fd, w)
      | Some p \<Rightarrow> do {
          let k = fdl_flags skip_deleted mfm multi k;
          let fd = with_libdsk fd k;
          let (err, s) = dsk_xwrite L p (fdl_diskg k) buf (fd_cylinder fd) head xcylinder xhead
                           sector len deleted (lib w);
          let w = w\<lparr>lib := s\<rparr>;
          if err = DSK_ERR_NOTIMPL then
            if deleted \<noteq> 0 then Some (FD_E_NOADDR, fd, w)
            else do {
              let (err, s) = dsk_pwrite L p (fdl_diskg k) buf (fd_cylinder fd) head sector (lib w);
              Some (fdl_xlt_error err, fd, w\<lparr>lib := s\<rparr>)}
          else Some (fdl_xlt_error err, fd, w)})}"

text \<open>The sector list of a format command; \<^verbatim>\<open>malloc\<close> succeeds.\<close>

primrec formbuf :: "nat \<Rightarrow> (nat \<Rightarrow> u8) \<Rightarrow> DSK_FORMAT list option" where
  "formbuf 0 track = Some []"
| "formbuf (Suc m) track = do {
     fs \<leftarrow> formbuf m track;
     let n = int m;
     c \<leftarrow> buf_at track (n * 4);
     h \<leftarrow> buf_at track (n * 4 + 1);
     r \<leftarrow> buf_at track (n * 4 + 2);
     s \<leftarrow> buf_at track (n * 4 + 3);
     secsize \<leftarrow> shl128 s;
     Some (fs @ [\<lparr>fmt_cylinder = uint c, fmt_head = uint h, fmt_sector = uint r, fmt_secsize = secsize\<rparr>])}"

definition fdl_format_track :: "'d libdsk \<Rightarrow> floppy_drive \<Rightarrow> int \<Rightarrow> int \<Rightarrow> (nat \<Rightarrow> u8) \<Rightarrow> u8 \<Rightarrow> 'd world
    \<Rightarrow> (int \<times> floppy_drive \<times> 'd world) option" where
  "fdl_format_track L fd head sectors track filler w = do {
     k \<leftarrow> as_libdsk fd;
     (case fdl_diskp k of
        None \<Rightarrow> Some (FD_E_NOTRDY, fd, w)
      | Some p \<Rightarrow> do {
          fs \<leftarrow> formbuf (nat sectors) track;
          let os = dg_sectors (fdl_diskg k);
          let (err, g, s) = dsk_pformat L p ((fdl_diskg k)\<lparr>dg_sectors := sectors\<rparr>) (fd_cylinder fd) head fs
                              filler (lib w);
          let k = k\<lparr>fdl_diskg := g\<lparr>dg_sectors := os\<rparr>\<rparr>;
          (_, k, s) \<leftarrow> (if fd_cylinder fd = 0 \<and> \<not> (fd_cylinder fd \<noteq> 0) then fdl_regeom L k s
                       else Some (0, k, s));
          Some (if err = 0 then 0 else fdl_xlt_error err, with_libdsk fd k, w\<lparr>lib := s\<rparr>)})}"

section \<open>Status, ejection, data rate\<close>

definition fdl_dirty_status :: "'d libdsk \<Rightarrow> floppy_drive \<Rightarrow> 'd world \<Rightarrow> int option" where
  "fdl_dirty_status L fd w = do {
     k \<leftarrow> as_libdsk fd;
     Some (case fdl_diskp k of Some p \<Rightarrow> dsk_dirty L p (lib w) | None \<Rightarrow> FD_D_UNAVAILABLE)}"

definition fdl_eject :: "'d libdsk \<Rightarrow> floppy_drive \<Rightarrow> 'd world \<Rightarrow> (floppy_drive \<times> 'd world) option" where
  "fdl_eject L fd w = do {
     k \<leftarrow> as_libdsk fd;
     let w = (case fdl_diskp k of Some p \<Rightarrow> w\<lparr>lib := dsk_close L p (lib w)\<rparr> | None \<Rightarrow> w);
     fd \<leftarrow> fdl_reset fd;
     Some (fd, w)}"

definition fdl_status_bits :: "floppy_drive \<Rightarrow> u8 \<Rightarrow> u8" where
  "fdl_status_bits fd st = (
     let st = (if fd_type fd = FD_525
               then (if st AND (DSK_ST3_RO OR DSK_ST3_READY) = DSK_ST3_RO then st AND NOT DSK_ST3_RO else st)
               else (let st = (if st AND DSK_ST3_READY = 0 then st OR DSK_ST3_RO else st)
                     in if fd_readonly fd \<noteq> 0 then st OR DSK_ST3_RO else st));
         st = (if fd_cylinder fd = 0 then st OR DSK_ST3_TRACK0 else st);
         st = (if fd_type fd = FD_35 \<and> fd_motor fd = 0 then st AND NOT DSK_ST3_TRACK0 else st);
         st = (if fd_heads fd > 1 then st OR DSK_ST3_DSDRIVE else st);
         st = (if fd_motor fd = 0 then st AND NOT DSK_ST3_READY else st)
     in st)"

definition fdl_drive_status :: "'d libdsk \<Rightarrow> floppy_drive \<Rightarrow> 'd world \<Rightarrow> (u8 \<times> floppy_drive \<times> 'd world) option" where
  "fdl_drive_status L fd w = do {
     k \<leftarrow> as_libdsk fd;
     (st, fd, w) \<leftarrow> (case fdl_diskp k of
        Some p \<Rightarrow> do {
          let (_, st, s) = dsk_drive_status L p (fdl_diskg k) 0 (lib w);
          Some (st, fd, w\<lparr>lib := s\<rparr>)}
      | None \<Rightarrow> do {
          (ready, fd, w) \<leftarrow> fdl_isready L fd w;
          Some (if ready \<noteq> 0 then DSK_ST3_READY else 0, fd, w)});
     Some (fdl_status_bits fd st, fd, w)}"

definition fdl_set_datarate :: "floppy_drive \<Rightarrow> u8 \<Rightarrow> floppy_drive option" where
  "fdl_set_datarate fd rate = do {
     k \<leftarrow> as_libdsk fd;
     let r = (if rate AND 3 = 0 then RATE_HD else if rate AND 3 = 1 then RATE_DD
              else if rate AND 3 = 2 then RATE_SD else RATE_ED);
     Some (with_libdsk fd (k\<lparr>fdl_diskg := (fdl_diskg k)\<lparr>dg_datarate := r\<rparr>\<rparr>))}"

definition fdl_new_dsk :: "'d libdsk \<Rightarrow> floppy_drive \<Rightarrow> 'd world \<Rightarrow> (int \<times> floppy_drive \<times> 'd world) option" where
  "fdl_new_dsk L fd w = do {
     k \<leftarrow> as_libdsk fd;
     if fdl_filename k = '''' then Some (0, fd, w)
     else if fdl_type k = None then Some (0, fd, w)
     else do {
       let (err, p, s) = dsk_creat L (fdl_filename k) (fdl_type k) (fdl_compress k) (lib w);
       if err \<noteq> 0 then Some (fdl_xlt_error err, with_libdsk fd (k\<lparr>fdl_diskp := p\<rparr>), w\<lparr>lib := s\<rparr>)
       else do {
         p \<leftarrow> p;
         Some (0, with_libdsk fd (k\<lparr>fdl_diskp := None\<rparr>), w\<lparr>lib := dsk_close L p s\<rparr>)}}}"

end
