(* ===== verification/FDD_Methods.thy ===== *)
theory FDD_Methods
  imports FDD_Dsk FDD_Ldsk
begin

text \<open>
  The wrapper functions of \<^verbatim>\<open>765drive.c\<close>: each looks the method up in the drive's table and
  answers as an absent drive when the pointer or the method is null.  The four tables are
  \<^verbatim>\<open>dummy_vtbl\<close> and \<^verbatim>\<open>d9256_vtbl\<close> of \<^verbatim>\<open>765drive.c\<close>, \<^verbatim>\<open>fdv_dsk\<close> of
  \<^verbatim>\<open>765dsk.c\<close> and \<^verbatim>\<open>fdv_libdsk\<close> of \<^verbatim>\<open>765ldsk.c\<close>; a case of a table that is not listed below
  is a null method.  The methods that go through the proxy of a PCW9256 drive are partial
  functions: a chain of proxies may be a cycle.
\<close>

unbundle bit_operations_syntax

definition vtable_of :: "nat \<Rightarrow> 'd world \<Rightarrow> vtable option" where
  "vtable_of p w = do {d \<leftarrow> get_drive p w; Some (fd_vtable d)}"

section \<open>Seeking\<close>

partial_function (option) fd_seek_cylinder ::
  "'d libdsk \<Rightarrow> fdrv_ptr \<Rightarrow> int \<Rightarrow> 'd world \<Rightarrow> (int \<times> 'd world) option" where
  "fd_seek_cylinder L fd cylinder w = (case fd of
     None \<Rightarrow> Some (FD_E_NOTRDY, w)
   | Some p \<Rightarrow> do {
       vt \<leftarrow> vtable_of p w;
       (case vt of
          dummy_vtbl \<Rightarrow> Some (FD_E_NOTRDY, w)
        | d9256_vtbl \<Rightarrow> do {
            d \<leftarrow> get_drive p w;
            proxy \<leftarrow> nc9_fdd d;
            if proxy = None then Some (FD_E_NOTRDY, w) else fd_seek_cylinder L proxy cylinder w}
        | fdv_dsk \<Rightarrow> on_drive p (\<lambda>d. fdd_seek_cylinder d cylinder) w
        | fdv_libdsk \<Rightarrow> on_drive p (\<lambda>d. fdl_seek_cylinder L d cylinder) w)})"

section \<open>Reading and writing\<close>

definition fd_read_id :: "'d libdsk \<Rightarrow> fdrv_ptr \<Rightarrow> int \<Rightarrow> int \<Rightarrow> 'd world \<Rightarrow> ((int \<times> u8 list) \<times> 'd world) option" where
  "fd_read_id L fd head sector w = (case fd of
     None \<Rightarrow> Some ((FD_E_NOTRDY, []), w)
   | Some p \<Rightarrow> do {
       vt \<leftarrow> vtable_of p w;
       (case vt of
          fdv_dsk \<Rightarrow> on_drive p (\<lambda>d. fdd_read_id d head sector) w
        | fdv_libdsk \<Rightarrow> on_drive p (\<lambda>d. fdl_read_id L d head sector) w
        | _ \<Rightarrow> Some ((FD_E_NOTRDY, []), w))})"

definition fd_read_sector :: "'d libdsk \<Rightarrow> fdrv_ptr \<Rightarrow> int \<Rightarrow> int \<Rightarrow> int \<Rightarrow> int \<Rightarrow> int \<Rightarrow> int option
    \<Rightarrow> int \<Rightarrow> int \<Rightarrow> int \<Rightarrow> 'd world \<Rightarrow> ((int \<times> u8 list \<times> int option) \<times> 'd world) option" where
  "fd_read_sector L fd xcylinder xhead head sector len deleted skip_deleted mfm multi w = (case fd of
     None \<Rightarrow> Some ((FD_E_NOTRDY, [], deleted), w)
   | Some p \<Rightarrow> do {
       vt \<leftarrow> vtable_of p w;
       (case vt of
          fdv_dsk \<Rightarrow> on_drive p (\<lambda>d. fdd_read_sector d xcylinder xhead head sector len deleted skip_deleted) w
        | fdv_libdsk \<Rightarrow> on_drive p (\<lambda>d. fdl_read_sector L d xcylinder xhead head sector len deleted
                                         skip_deleted mfm multi) w
        | _ \<Rightarrow> Some ((FD_E_NOTRDY, [], deleted), w))})"

definition fd_read_track :: "'d libdsk \<Rightarrow> fdrv_ptr \<Rightarrow> int \<Rightarrow> int \<Rightarrow> int \<Rightarrow> int \<Rightarrow> 'd world
    \<Rightarrow> ((int \<times> u8 list) \<times> 'd world) option" where
  "fd_read_track L fd xcylinder xhead head len w = (case fd of
     None \<Rightarrow> Some ((FD_E_NOTRDY, []), w)
   | Some p \<Rightarrow> do {
       vt \<leftarrow> vtable_of p w;
       (case vt of
          fdv_dsk \<Rightarrow> on_drive p (\<lambda>d. fdd_read_track d xcylinder xhead head len) w
        | fdv_libdsk \<Rightarrow> on_drive p (\<lambda>d. fdl_read_track L d xcylinder xhead head) w
        | _ \<Rightarrow> Some ((FD_E_NOTRDY, []), w))})"

definition fd_write_sector :: "'d libdsk \<Rightarrow> fdrv_ptr \<Rightarrow> int \<Rightarrow> int \<Rightarrow> int \<Rightarrow> int \<Rightarrow> (nat \<Rightarrow> u8) \<Rightarrow> int \<Rightarrow> int
    \<Rightarrow> int \<Rightarrow> int \<Rightarrow> int \<Rightarrow> 'd world \<Rightarrow> (int \<times> 'd world) option" where
  "fd_write_sector L fd xcylinder xhead head sector buf len deleted skip_deleted mfm multi w = (case fd of
     None \<Rightarrow> Some (FD_E_NOTRDY, w)
   | Some p \<Rightarrow> do {
       vt \<leftarrow> vtable_of p w;
       (case vt of
          fdv_dsk \<Rightarrow> on_drive p (\<lambda>d. fdd_write_sector d xcylinder xhead head sector buf len deleted) w
        | fdv_libdsk \<Rightarrow> on_drive p (\<lambda>d. fdl_write_sector L d xcylinder xhead head sector buf len deleted
                                         skip_deleted mfm multi) w
        | _ \<Rightarrow> Some (FD_E_NOTRDY, w))})"

definition fd_format_track :: "'d libdsk \<Rightarrow> fdrv_ptr \<Rightarrow> int \<Rightarrow> int \<Rightarrow> (nat \<Rightarrow> u8) \<Rightarrow> u8 \<Rightarrow> 'd world
    \<Rightarrow> (int \<times> 'd world) option" where
  "fd_format_track L fd head sectors track filler w = (case fd of
     None \<Rightarrow> Some (FD_E_NOTRDY, w)
   | Some p \<Rightarrow> do {
       vt \<leftarrow> vtable_of p w;
       (case vt of
          fdv_dsk \<Rightarrow> on_drive p (\<lambda>d. fdd_format_track d head sectors track filler) w
        | fdv_libdsk \<Rightarrow> on_drive p (\<lambda>d. fdl_format_track L d head sectors track filler) w
        | _ \<Rightarrow> Some (FD_E_NOTRDY, w))})"

section \<open>Status\<close>

text \<open>A method of the own table: \<^verbatim>\<open>fdd_drive_status\<close> asks \<^verbatim>\<open>fd_isready\<close> about its drive.\<close>

definition vt_isready :: "'d libdsk \<Rightarrow> floppy_drive \<Rightarrow> 'd world \<Rightarrow> (u8 \<times> floppy_drive \<times> 'd world) option" where
  "vt_isready L d w = (case fd_vtable d of
     fdv_dsk \<Rightarrow> do {(r, d, w) \<leftarrow> fdd_isready d w; Some (word_of_int r, d, w)}
   | fdv_libdsk \<Rightarrow> do {(r, d, w) \<leftarrow> fdl_isready L d w; Some (word_of_int r, d, w)}
   | _ \<Rightarrow> Some (0, d, w))"

definition fd_isready :: "'d libdsk \<Rightarrow> fdrv_ptr \<Rightarrow> 'd world \<Rightarrow> (u8 \<times> 'd world) option" where
  "fd_isready L fd w = (case fd of None \<Rightarrow> Some (0, w) | Some p \<Rightarrow> on_drive p (vt_isready L) w)"

definition fdd_status_bits :: "floppy_drive \<Rightarrow> bool \<Rightarrow> u8" where
  "fdd_status_bits fd ready = (
     let v = (if fd_type fd = FD_525
              then (if ready then (if fd_readonly fd \<noteq> 0 then 0x20 OR 0x40 else 0x20) else 0)
              else (let v = (if ready then 0x20 else 0x40)
                    in if fd_readonly fd \<noteq> 0 then v OR 0x40 else v));
         v = (if fd_cylinder fd = 0 then v OR 0x10 else v);
         v = (if fd_type fd = FD_35 \<and> fd_motor fd = 0 then v AND NOT 0x10 else v)
     in if fd_heads fd > 1 then v OR 0x08 else v)"

definition fdd_drive_status :: "'d libdsk \<Rightarrow> floppy_drive \<Rightarrow> 'd world \<Rightarrow> (u8 \<times> floppy_drive \<times> 'd world) option" where
  "fdd_drive_status L fd w = do {
     (ready, fd, w) \<leftarrow> vt_isready L fd w;
     Some (fdd_status_bits fd (ready \<noteq> 0), fd, w)}"

partial_function (option) fd_drive_status :: "'d libdsk \<Rightarrow> fdrv_ptr \<Rightarrow> 'd world \<Rightarrow> (u8 \<times> 'd world) option" where
  "fd_drive_status L fd w = (case fd of
     None \<Rightarrow> Some (0, w)
   | Some p \<Rightarrow> do {
       vt \<leftarrow> vtable_of p w;
       (case vt of
          dummy_vtbl \<Rightarrow> Some (0, w)
        | d9256_vtbl \<Rightarrow> do {
            d \<leftarrow> get_drive p w;
            proxy \<leftarrow> nc9_fdd d;
            (b, w) \<leftarrow> (if proxy = None then Some (0, w) else fd_drive_status L proxy w);
            Some (0x20 OR b, w)}
        | fdv_dsk \<Rightarrow> on_drive p (fdd_drive_status L) w
        | fdv_libdsk \<Rightarrow> on_drive p (fdl_drive_status L) w)})"

text \<open>No table has the method \<^verbatim>\<open>fdv_changed\<close>.\<close>

definition fd_changed_status :: "fdrv_ptr \<Rightarrow> 'd world \<Rightarrow> u8 option" where
  "fd_changed_status fd w = (case fd of
     None \<Rightarrow> Some 0
   | Some p \<Rightarrow> do {d \<leftarrow> get_drive p w; Some (word_of_int (fd_changed d))})"

definition fd_dirty :: "'d libdsk \<Rightarrow> fdrv_ptr \<Rightarrow> 'd world \<Rightarrow> int option" where
  "fd_dirty L fd w = (case fd of
     None \<Rightarrow> Some FD_D_UNAVAILABLE
   | Some p \<Rightarrow> do {
       d \<leftarrow> get_drive p w;
       (case fd_vtable d of
          fdv_dsk \<Rightarrow> fdd_dirty_status d
        | fdv_libdsk \<Rightarrow> fdl_dirty_status L d w
        | _ \<Rightarrow> Some FD_D_UNAVAILABLE)})"

section \<open>Ejection, reset, data rate, destruction\<close>

definition fd_eject :: "'d libdsk \<Rightarrow> fdrv_ptr \<Rightarrow> 'd world \<Rightarrow> 'd world option" where
  "fd_eject L fd w = (case fd of
     None \<Rightarrow> Some w
   | Some p \<Rightarrow> do {
       d \<leftarrow> get_drive p w;
       (d, w) \<leftarrow> (case fd_vtable d of
          fdv_dsk \<Rightarrow> do {d \<leftarrow> fdd_eject d; Some (d, w)}
        | fdv_libdsk \<Rightarrow> fdl_eject L d w
        | _ \<Rightarrow> Some (d, w));
       Some (put_drive p (d\<lparr>fd_changed := 1\<rparr>) w)})"

text \<open>\<^verbatim>\<open>fdv_libdsk\<close> has a null \<^verbatim>\<open>fdv_reset\<close>: its \<^verbatim>\<open>fdl_reset\<close> is in the next slot.\<close>

definition fd_reset :: "fdrv_ptr \<Rightarrow> 'd world \<Rightarrow> 'd world option" where
  "fd_reset fd w = (case fd of
     None \<Rightarrow> Some w
   | Some p \<Rightarrow> do {
       d \<leftarrow> get_drive p w;
       d \<leftarrow> (case fd_vtable d of fdv_dsk \<Rightarrow> fdd_reset d | _ \<Rightarrow> Some d);
       Some (put_drive p d w)})"

definition fd_set_datarate :: "fdrv_ptr \<Rightarrow> u8 \<Rightarrow> 'd world \<Rightarrow> 'd world option" where
  "fd_set_datarate fd rate w = (case fd of
     None \<Rightarrow> Some w
   | Some p \<Rightarrow> do {
       d \<leftarrow> get_drive p w;
       d \<leftarrow> (case fd_vtable d of fdv_libdsk \<Rightarrow> fdl_set_datarate d rate | _ \<Rightarrow> Some d);
       Some (put_drive p d w)})"

text \<open>\<^verbatim>\<open>fdv_destroy\<close> is \<^verbatim>\<open>fdl_reset\<close> for libdsk drives; then the block is freed.\<close>

definition fd_destroy :: "'d libdsk \<Rightarrow> fdrv_ptr \<Rightarrow> 'd world \<Rightarrow> (fdrv_ptr \<times> 'd world) option" where
  "fd_destroy L fd w = (case fd of
     None \<Rightarrow> Some (None, w)
   | Some p \<Rightarrow> do {
       w \<leftarrow> fd_eject L fd w;
       d \<leftarrow> get_drive p w;
       d \<leftarrow> (case fd_vtable d of fdv_libdsk \<Rightarrow> fdl_reset d | _ \<Rightarrow> Some d);
       Some (None, w\<lparr>drives := (drives w)(p := None)\<rparr>)})"

section \<open>Drives on an image\<close>

text \<open>\<^verbatim>\<open>malloc\<close>'s block is one of the size of the subclass.\<close>

definition fd_newdsk :: "(nat \<times> floppy_drive) option \<Rightarrow> 'd world \<Rightarrow> (fdrv_ptr \<times> 'd world) option" where
  "fd_newdsk block w = (case fd_inew block w of
     (None, w) \<Rightarrow> None
   | (Some p, w) \<Rightarrow> do {
       d \<leftarrow> get_drive p w;
       w \<leftarrow> fd_reset (Some p) (put_drive p (d\<lparr>fd_vtable := fdv_dsk\<rparr>) w);
       Some (Some p, w)})"

definition fd_newldsk :: "(nat \<times> floppy_drive) option \<Rightarrow> 'd world \<Rightarrow> (fdrv_ptr \<times> 'd world) option" where
  "fd_newldsk block w = (case fd_inew block w of
     (None, w) \<Rightarrow> None
   | (Some p, w) \<Rightarrow> do {
       d \<leftarrow> get_drive p w;
       d \<leftarrow> fdl_reset (d\<lparr>fd_vtable := fdv_libdsk\<rparr>);
       Some (Some p, put_drive p d w)})"

definition fdd_getfilename :: "nat \<Rightarrow> 'd world \<Rightarrow> string option" where
  "fdd_getfilename p w = do {
     d \<leftarrow> get_drive p w;
     if fd_vtable d = fdv_dsk then do {k \<leftarrow> as_dsk d; Some (fdd_filename k)}
     else Some ''Called fdd_getfilename() on wrong drive type''}"

definition fdd_setfilename :: "'d libdsk \<Rightarrow> nat \<Rightarrow> string \<Rightarrow> 'd world \<Rightarrow> 'd world option" where
  "fdd_setfilename L p s w = do {
     d \<leftarrow> get_drive p w;
     if fd_vtable d = fdv_dsk then do {
       w \<leftarrow> fd_eject L (Some p) w;
       d \<leftarrow> get_drive p w;
       k \<leftarrow> as_dsk d;
       Some (put_drive p (with_dsk d (k\<lparr>fdd_filename := take (PATH_MAX - 1) s, fdd_dirty := 0\<rparr>)) w)}
     else Some w}"

definition fdl_getfilename :: "nat \<Rightarrow> 'd world \<Rightarrow> string option" where
  "fdl_getfilename p w = do {
     d \<leftarrow> get_drive p w;
     if fd_vtable d = fdv_libdsk then do {k \<leftarrow> as_libdsk d; Some (fdl_filename k)}
     else Some ''Called fdl_getfilename() on wrong drive type''}"

definition fdl_setfilename :: "'d libdsk \<Rightarrow> nat \<Rightarrow> string \<Rightarrow> 'd world \<Rightarrow> 'd world option" where
  "fdl_setfilename L p s w = do {
     d \<leftarrow> get_drive p w;
     if fd_vtable d = fdv_libdsk then do {
       w \<leftarrow> fd_eject L (Some p) w;
       d \<leftarrow> get_drive p w;
       k \<leftarrow> as_libdsk d;
       Some (put_drive p (with_libdsk d (k\<lparr>fdl_filename := take (PATH_MAX - 1) s\<rparr>)) w)}
     else Some w}"

definition fdl_gettype :: "nat \<Rightarrow> 'd world \<Rightarrow> string option option" where
  "fdl_gettype p w = do {
     d \<leftarrow> get_drive p w;
     if fd_vtable d = fdv_libdsk then do {k \<leftarrow> as_libdsk d; Some (fdl_type k)}
     else Some (Some ''Called fdl_gettype() on wrong drive type'')}"

definition fdl_settype :: "nat \<Rightarrow> string option \<Rightarrow> 'd world \<Rightarrow> 'd world option" where
  "fdl_settype p s w = do {
     d \<leftarrow> get_drive p w;
     if fd_vtable d = fdv_libdsk
     then do {k \<leftarrow> as_libdsk d; Some (put_drive p (with_libdsk d (k\<lparr>fdl_type := s\<rparr>)) w)}
     else Some w}"

definition fdl_getcomp :: "nat \<Rightarrow> 'd world \<Rightarrow> string option option" where
  "fdl_getcomp p w = do {
     d \<leftarrow> get_drive p w;
     if fd_vtable d = fdv_libdsk then do {k \<leftarrow> as_libdsk d; Some (fdl_compress k)}
     else Some (Some ''Called fdl_getcomp() on wrong drive type'')}"

definition fdl_setcomp :: "nat \<Rightarrow> string option \<Rightarrow> 'd world \<Rightarrow> 'd world option" where
  "fdl_setcomp p s w = do {
     d \<leftarrow> get_drive p w;
     if fd_vtable d = fdv_libdsk
     then do {k \<leftarrow> as_libdsk d; Some (put_drive p (with_libdsk d (k\<lparr>fdl_compress := s\<rparr>)) w)}
     else Some w}"

definition fdl_create_dsk :: "'d libdsk \<Rightarrow> nat \<Rightarrow> string \<Rightarrow> 'd world \<Rightarrow> (int \<times> 'd world) option" where
  "fdl_create_dsk L p s w = do {
     d \<leftarrow> get_drive p w;
     if fd_vtable d = fdv_libdsk then do {
       w \<leftarrow> fdl_setfilename L p s w;
       w \<leftarrow> fdl_settype p (Some ''dsk'') w;
       w \<leftarrow> fdl_setcomp p None w;
       d \<leftarrow> get_drive p w;
       k \<leftarrow> as_libdsk d;
       let (err, h, s) = dsk_creat L (fdl_filename k) (fdl_type k) (fdl_compress k) (lib w);
       if err \<noteq> 0
       then Some (fdl_xlt_error err, put_drive p (with_libdsk d (k\<lparr>fdl_diskp := h\<rparr>)) (w\<lparr>lib := s\<rparr>))
       else do {
         h \<leftarrow> h;
         Some (err, put_drive p (with_libdsk d (k\<lparr>fdl_diskp := None\<rparr>)) (w\<lparr>lib := dsk_close L h s\<rparr>))}}
     else Some (-1, w)}"

end
