(* ===== verification/FDC_765.thy ===== *)
theory FDC_765
  imports FDD_Methods
begin

text \<open>
  The uPD765A floppy disc controller (\<^verbatim>\<open>765fdc.c\<close>): its registers, the command, execution and
  result phases, the handlers of its commands, the terminal count, the motors, the interrupt
  countdown and the digital output register.  A function of the source is one definition; the ones
  that reach the drives work on the controller and the world and may be undefined
  (\<^term>\<open>None\<close>), the others on the controller alone.  An \<^verbatim>\<open>int\<close> of the source is an
  integer, a \<^verbatim>\<open>fdc_byte\<close> a byte.
\<close>

unbundle bit_operations_syntax

abbreviation (input) SHORT_TIMEOUT :: int where "SHORT_TIMEOUT \<equiv> 1000"
abbreviation (input) LONGER_TIMEOUT :: int where "LONGER_TIMEOUT \<equiv> 1333333"
abbreviation (input) MAX_SECTOR_LEN :: int where "MAX_SECTOR_LEN \<equiv> 8192"

section \<open>State\<close>

text \<open>\<^verbatim>\<open>struct fdc_765\<close>.  The interrupt callback is the address of a function, or null.\<close>

record fdc_765 =
  fdc_interrupting :: int
  fdc_specify0 :: int
  fdc_specify1 :: int
  fdc_lastidread :: int
  fdc_write_deleted :: int
  fdc_cmd_id :: int
  fdc_cmd_len :: int
  fdc_cmd_pos :: int
  fdc_cmd_buf :: "u8 list"
  fdc_exec_buf :: "nat \<Rightarrow> u8"
  fdc_exec_len :: int
  fdc_exec_pos :: int
  fdc_result_buf :: "u8 list"
  fdc_result_len :: int
  fdc_result_pos :: int
  fdc_terminal_count :: int
  fdc_isr_countdown :: int
  fdc_dor :: int
  fdc_dor_drive :: "fdrv_ptr list"
  fdc_st0 :: int
  fdc_st1 :: int
  fdc_st2 :: int
  fdc_st3 :: int
  fdc_mainstat :: int
  fdc_curunit :: int
  fdc_curhead :: int
  fdc_isr :: "nat option"
  fdc_drive :: "fdrv_ptr list"

type_synonym 'd fdc_world = "fdc_765 \<times> 'd world"

text \<open>Byte \<open>i\<close> of the command, as an integer.\<close>

definition cmd :: "fdc_765 \<Rightarrow> nat \<Rightarrow> int" where
  "cmd self i = uint (fdc_cmd_buf self ! i)"

definition bytes_in_cmd :: "int list" where
  "bytes_in_cmd = [1, 1, 9, 3, 2, 9, 9, 2, 1, 9, 2, 1, 9, 6, 1, 3,
                   1, 9, 1, 1, 1, 1, 1, 1, 1, 9, 1, 1, 1, 1, 9, 1]"

text \<open>The drive the command addresses; \<^verbatim>\<open>curunit\<close> is always below four.\<close>

definition cur_drive :: "fdc_765 \<Rightarrow> fdrv_ptr" where
  "cur_drive self = fdc_dor_drive self ! nat (fdc_curunit self)"

section \<open>Reset and drive selection\<close>

primrec reset_changelines :: "fdrv_ptr list \<Rightarrow> 'd world \<Rightarrow> 'd world option" where
  "reset_changelines [] w = Some w"
| "reset_changelines (fd # fds) w = (case fd of
     None \<Rightarrow> reset_changelines fds w
   | Some p \<Rightarrow> do {
       d \<leftarrow> get_drive p w;
       reset_changelines fds (put_drive p (d\<lparr>fd_changed := 0\<rparr>) w)})"

definition fdc_part_reset :: "'d fdc_world \<Rightarrow> 'd fdc_world option" where
  "fdc_part_reset = (\<lambda>(self, w). do {
     let self = self\<lparr>fdc_mainstat := 0x80, fdc_st0 := 0, fdc_st1 := 0, fdc_st2 := 0, fdc_st3 := 0,
       fdc_curunit := 0, fdc_curhead := 0, fdc_cmd_id := -1, fdc_cmd_len := 0, fdc_cmd_pos := 0,
       fdc_exec_len := 0, fdc_exec_pos := 0, fdc_result_len := 0, fdc_result_pos := 0,
       fdc_cmd_buf := replicate 20 0, fdc_exec_buf := (\<lambda>_. 0), fdc_result_buf := replicate 20 0\<rparr>;
     w \<leftarrow> reset_changelines (fdc_drive self) w;
     Some (self, w)})"

definition fdc_reset :: "'d fdc_world \<Rightarrow> 'd fdc_world option" where
  "fdc_reset = (\<lambda>(self, w). fdc_part_reset
     (self\<lparr>fdc_interrupting := 0, fdc_specify0 := 0, fdc_specify1 := 0, fdc_lastidread := 0,
        fdc_terminal_count := 0, fdc_isr := None, fdc_isr_countdown := 0, fdc_dor := -1,
        fdc_drive := replicate 4 None\<rparr>, w))"

definition fdc_dorcheck :: "fdc_765 \<Rightarrow> fdc_765" where
  "fdc_dorcheck self = self\<lparr>fdc_dor_drive :=
     (if fdc_dor self < 0 then fdc_drive self
      else replicate 4 (fdc_drive self ! nat (fdc_dor self AND 3)))\<rparr>"

section \<open>Status registers\<close>

definition fdc_get_st3 :: "'d libdsk \<Rightarrow> 'd fdc_world \<Rightarrow> 'd fdc_world option" where
  "fdc_get_st3 L = (\<lambda>(self, w). do {
     p \<leftarrow> cur_drive self;
     (value, w) \<leftarrow> fd_drive_status L (Some p) w;
     let value = value AND 0xF8;
     let value = value OR (if fdc_curhead self \<noteq> 0 then 4 else 0);
     let value = value OR word_of_int (fdc_curunit self AND 3);
     Some (self\<lparr>fdc_st3 := uint value\<rparr>, w)})"

definition fdc_isready :: "'d libdsk \<Rightarrow> fdrv_ptr \<Rightarrow> 'd fdc_world \<Rightarrow> (bool \<times> 'd fdc_world) option" where
  "fdc_isready L fd = (\<lambda>(self, w). do {
     (rdy, w) \<leftarrow> fd_isready L fd w;
     Some (if rdy = 0 then (False, self\<lparr>fdc_st3 := fdc_st3 self AND 0xDF\<rparr>, w)
           else (True, self\<lparr>fdc_st3 := fdc_st3 self OR 0x20\<rparr>, w))})"

definition fdc_xlt_error :: "int \<Rightarrow> fdc_765 \<Rightarrow> fdc_765" where
  "fdc_xlt_error error self = (
     if error = FD_E_NOTRDY then self\<lparr>fdc_st0 := fdc_st0 self OR 0x48\<rparr>
     else if error = FD_E_SEEKFAIL
     then self\<lparr>fdc_st0 := fdc_st0 self OR 0x40, fdc_st2 := fdc_st2 self OR 0x02\<rparr>
     else if error = FD_E_NOADDR
     then self\<lparr>fdc_st0 := fdc_st0 self OR 0x40, fdc_st2 := fdc_st2 self OR 0x01\<rparr>
     else if error = FD_E_NODATA
     then self\<lparr>fdc_st0 := fdc_st0 self OR 0x40, fdc_st1 := fdc_st1 self OR 0x04\<rparr>
     else if error = FD_E_DATAERR
     then self\<lparr>fdc_st1 := fdc_st1 self OR 0x20, fdc_st2 := fdc_st2 self OR 0x20\<rparr>
     else if error = FD_E_NOSECTOR
     then self\<lparr>fdc_st0 := fdc_st0 self OR 0x40, fdc_st1 := fdc_st1 self OR 0x82\<rparr>
     else if error = FD_E_READONLY
     then self\<lparr>fdc_st0 := fdc_st0 self OR 0x40, fdc_st1 := fdc_st1 self OR 0x02\<rparr>
     else self)"

definition fdc_results_7 :: "fdc_765 \<Rightarrow> fdc_765" where
  "fdc_results_7 self = self\<lparr>fdc_result_buf := (fdc_result_buf self)
     [0 := word_of_int (fdc_st0 self), 1 := word_of_int (fdc_st1 self), 2 := word_of_int (fdc_st2 self),
      3 := fdc_cmd_buf self ! 2, 4 := fdc_cmd_buf self ! 3, 5 := fdc_cmd_buf self ! 4,
      6 := fdc_cmd_buf self ! 5], fdc_mainstat := 0xD0\<rparr>"

definition fdc_end_result_phase :: "fdc_765 \<Rightarrow> fdc_765" where
  "fdc_end_result_phase self = self\<lparr>fdc_mainstat := 0x80,
     fdc_interrupting := (if fdc_interrupting self < 3 then 0 else fdc_interrupting self),
     fdc_cmd_id := -1\<rparr>"

definition fdc_error :: "fdc_765 \<Rightarrow> fdc_765" where
  "fdc_error self = (
     let self = self\<lparr>fdc_st0 := (fdc_st0 self AND 0x3F) OR 0x80, fdc_mainstat := 0xD0,
           fdc_result_len := 1, fdc_result_pos := 0\<rparr>
     in self\<lparr>fdc_result_buf := (fdc_result_buf self)[0 := word_of_int (fdc_st0 self)]\<rparr>)"

definition fdc_result_interrupt :: "fdc_765 \<Rightarrow> fdc_765" where
  "fdc_result_interrupt self = self\<lparr>fdc_isr_countdown := SHORT_TIMEOUT, fdc_interrupting := 1\<rparr>"

definition fdc_exec_interrupt :: "fdc_765 \<Rightarrow> fdc_765" where
  "fdc_exec_interrupt self = self\<lparr>fdc_isr_countdown := SHORT_TIMEOUT, fdc_interrupting := 2\<rparr>"

definition fdc_scan_byte :: "u8 \<Rightarrow> u8 \<Rightarrow> fdc_765 \<Rightarrow> fdc_765" where
  "fdc_scan_byte fdcbyte cpubyte self = (
     let c = cmd self 0 AND 0x1F in
     if fdc_st2 self AND 0x0C \<noteq> 8 then self
     else if fdcbyte = cpubyte \<or> fdcbyte = 0xFF \<or> cpubyte = 0xFF then self
     else if c = 17 then self\<lparr>fdc_st2 := (fdc_st2 self AND 0xF3) OR 4\<rparr>
     else if c = 25 then
       (if fdcbyte < cpubyte then self\<lparr>fdc_st2 := fdc_st2 self AND 0xF3\<rparr>
        else self\<lparr>fdc_st2 := (fdc_st2 self AND 0xF3) OR 4\<rparr>)
     else if c = 30 then
       (if fdcbyte < cpubyte then self\<lparr>fdc_st2 := (fdc_st2 self AND 0xF3) OR 4\<rparr>
        else self\<lparr>fdc_st2 := fdc_st2 self AND 0xF3\<rparr>)
     else self)"

definition fdc_get_drive :: "fdc_765 \<Rightarrow> fdc_765" where
  "fdc_get_drive self = self
     \<lparr>fdc_curunit := cmd self 1 AND 3, fdc_curhead := (cmd self 1 AND 4) div 4,
      fdc_st0 := (fdc_st0 self AND 0xF8) OR (cmd self 1 AND 7),
      fdc_st3 := (fdc_st3 self AND 0xF8) OR (cmd self 1 AND 7)\<rparr>"

section \<open>The end of an execution phase\<close>

definition fdc_write_end :: "'d libdsk \<Rightarrow> 'd fdc_world \<Rightarrow> 'd fdc_world option" where
  "fdc_write_end L = (\<lambda>(self, w). do {
     len \<leftarrow> shl128 (fdc_cmd_buf self ! 5);
     let len = (if cmd self 8 < 255 then cmd self 8 else len);
     (rv, w) \<leftarrow> fd_write_sector L (cur_drive self) (cmd self 2) (cmd self 3) (fdc_curhead self) (cmd self 4)
                 (fdc_exec_buf self) len (fdc_write_deleted self)
                 (cmd self 0 AND 0x20) (cmd self 0 AND 0x40) (cmd self 0 AND 0x80) w;
     Some (fdc_result_interrupt (fdc_results_7 (fdc_xlt_error rv self)), w)})"

definition fdc_format_end :: "'d libdsk \<Rightarrow> 'd fdc_world \<Rightarrow> 'd fdc_world option" where
  "fdc_format_end L = (\<lambda>(self, w). do {
     (rv, w) \<leftarrow> fd_format_track L (cur_drive self) (fdc_curhead self) (cmd self 3) (fdc_exec_buf self)
                 (fdc_cmd_buf self ! 5) w;
     Some (fdc_result_interrupt (fdc_results_7 (fdc_xlt_error rv self)), w)})"

definition fdc_end_execution_phase :: "'d libdsk \<Rightarrow> 'd fdc_world \<Rightarrow> 'd fdc_world option" where
  "fdc_end_execution_phase L = (\<lambda>(self, w). (
     let c = cmd self 0 AND 0x1F;
         self = self\<lparr>fdc_mainstat := 0xD0, fdc_result_pos := 0\<rparr> in
     if c = 17 \<or> c = 25 \<or> c = 30
     then Some (fdc_result_interrupt ((fdc_results_7 self)\<lparr>fdc_result_len := 7\<rparr>), w)
     else if c = 12 \<or> c = 6 then Some (fdc_result_interrupt (self\<lparr>fdc_result_len := 7\<rparr>), w)
     else if c = 9 \<or> c = 5
     then do {(self, w) \<leftarrow> fdc_write_end L (self, w); Some (self\<lparr>fdc_result_len := 7\<rparr>, w)}
     else if c = 13
     then do {(self, w) \<leftarrow> fdc_format_end L (self, w); Some (self\<lparr>fdc_result_len := 7\<rparr>, w)}
     else Some (self, w)))"

section \<open>Command handlers\<close>

abbreviation clear_status :: "fdc_765 \<Rightarrow> fdc_765" where
  "clear_status self \<equiv> self\<lparr>fdc_st0 := 0, fdc_st1 := 0, fdc_st2 := 0\<rparr>"

definition fdc_read_track :: "'d libdsk \<Rightarrow> 'd fdc_world \<Rightarrow> 'd fdc_world option" where
  "fdc_read_track L = (\<lambda>(self, w). do {
     let self = fdc_get_drive ((clear_status self)\<lparr>fdc_lastidread := 0\<rparr>);
     let fd = cur_drive self;
     let self = self\<lparr>fdc_exec_len := MAX_SECTOR_LEN\<rparr>;
     (rdy, self, w) \<leftarrow> fdc_isready L fd (self, w);
     ((err, xs), w) \<leftarrow> (if \<not> rdy then Some ((FD_E_NOTRDY, []), w)
                      else fd_read_track L fd (cmd self 2) (cmd self 3) (fdc_curhead self) (fdc_exec_len self) w);
     buf \<leftarrow> buf_store (fdc_exec_buf self) 0 xs;
     let self = self\<lparr>fdc_exec_buf := buf\<rparr>;
     let self = (if err \<noteq> 0 then fdc_xlt_error err self else self);
     let self = fdc_results_7 self;
     if err \<noteq> 0 \<and> err \<noteq> FD_E_DATAERR then do {
       (self, w) \<leftarrow> fdc_end_execution_phase L (self, w);
       Some (fdc_result_interrupt self, w)}
     else Some ((fdc_exec_interrupt self)\<lparr>fdc_mainstat := 0xF0, fdc_exec_pos := 0\<rparr>, w)})"

definition fdc_specify :: "fdc_765 \<Rightarrow> fdc_765" where
  "fdc_specify self = fdc_end_result_phase
     (self\<lparr>fdc_specify0 := cmd self 1, fdc_specify1 := cmd self 2\<rparr>)"

definition fdc_sense_drive :: "'d libdsk \<Rightarrow> 'd fdc_world \<Rightarrow> 'd fdc_world option" where
  "fdc_sense_drive L = (\<lambda>(self, w). do {
     (self, w) \<leftarrow> fdc_get_st3 L (fdc_get_drive self, w);
     let self = self\<lparr>fdc_result_buf := (fdc_result_buf self)[0 := word_of_int (fdc_st3 self)],
                  fdc_result_len := 1\<rparr>;
     fdc_end_execution_phase L (self, w)})"

text \<open>
  One round of the loop of \<^verbatim>\<open>fdc_read\<close> over the sectors \<^verbatim>\<open>R\<close> to \<^verbatim>\<open>EOT\<close>; \<open>off\<close> is
  \<^verbatim>\<open>buf - fdc_exec_buf\<close>.  The list is the rest of the values of \<^verbatim>\<open>sector\<close>.
\<close>

definition read_lensector :: "fdc_765 \<Rightarrow> int option" where
  "read_lensector self = do {
     len \<leftarrow> shl128 (fdc_cmd_buf self ! 5);
     Some (if cmd self 5 = 0 \<and> cmd self 8 < 255 then cmd self 8 else len)}"

primrec fdc_read_loop :: "int list \<Rightarrow> 'd libdsk \<Rightarrow> int \<Rightarrow> int \<Rightarrow> int \<Rightarrow> 'd fdc_world \<Rightarrow> (int \<times> 'd fdc_world) option" where
  "fdc_read_loop [] L off deleted err sw = Some (err, sw)"
| "fdc_read_loop (sector # sectors) L off deleted err sw = do {
     let (self, w) = sw;
     let fd = cur_drive self;
     len \<leftarrow> read_lensector self;
     buf \<leftarrow> buf_zero (fdc_exec_buf self) off len;
     (rdy, self, w) \<leftarrow> fdc_isready L fd (self\<lparr>fdc_exec_buf := buf\<rparr>, w);
     ((err, xs, del), w) \<leftarrow> (if \<not> rdy then Some ((FD_E_NOTRDY, [], Some deleted), w)
        else fd_read_sector L fd (cmd self 2) (cmd self 3) (fdc_curhead self) (cmd self 4) len (Some deleted)
               (cmd self 0 AND 0x20) (cmd self 0 AND 0x40) (cmd self 0 AND 0x80) w);
     buf \<leftarrow> buf_store (fdc_exec_buf self) off xs;
     deleted \<leftarrow> del;
     let self = self\<lparr>fdc_exec_buf := buf\<rparr>;
     let self = (if err \<noteq> 0 then fdc_xlt_error err self else self);
     let self = (if deleted \<noteq> 0 then self\<lparr>fdc_st2 := fdc_st2 self OR 0x40\<rparr> else self);
     if err \<noteq> 0 \<and> err \<noteq> FD_E_DATAERR then Some (err, self, w)
     else fdc_read_loop sectors L (off + len) deleted err
       (self\<lparr>fdc_exec_len := fdc_exec_len self + len,
             fdc_cmd_buf := (fdc_cmd_buf self)[4 := fdc_cmd_buf self ! 4 + 1]\<rparr>, w)}"

definition fdc_read :: "'d libdsk \<Rightarrow> int \<Rightarrow> 'd fdc_world \<Rightarrow> 'd fdc_world option" where
  "fdc_read L deleted = (\<lambda>(self, w). do {
     let self = fdc_get_drive ((clear_status self)\<lparr>fdc_lastidread := 0\<rparr>);
     let self = self\<lparr>fdc_exec_len := 0\<rparr>;
     (err, self, w) \<leftarrow> fdc_read_loop [cmd self 4..cmd self 6] L 0 deleted 0 (self, w);
     let self = fdc_results_7 self;
     if err \<noteq> 0 \<and> err \<noteq> FD_E_DATAERR then do {
       (self, w) \<leftarrow> fdc_end_execution_phase L (self, w);
       Some (fdc_result_interrupt self, w)}
     else Some ((fdc_exec_interrupt self)\<lparr>fdc_mainstat := 0xF0, fdc_exec_pos := 0\<rparr>, w)})"

text \<open>\<^verbatim>\<open>fd && fd->fd_readonly\<close>\<close>

definition drive_readonly :: "fdrv_ptr \<Rightarrow> 'd world \<Rightarrow> bool option" where
  "drive_readonly fd w = (case fd of
     None \<Rightarrow> Some False
   | Some p \<Rightarrow> do {d \<leftarrow> get_drive p w; Some (fd_readonly d \<noteq> 0)})"

definition transfer_len :: "fdc_765 \<Rightarrow> int option" where
  "transfer_len self = do {
     len \<leftarrow> shl128 (fdc_cmd_buf self ! 5);
     Some (if cmd self 8 < 255 then cmd self 8 else len)}"

definition fdc_write :: "'d libdsk \<Rightarrow> int \<Rightarrow> 'd fdc_world \<Rightarrow> 'd fdc_world option" where
  "fdc_write L deleted = (\<lambda>(self, w). do {
     let self = fdc_get_drive ((clear_status self)\<lparr>fdc_lastidread := 0, fdc_write_deleted := deleted\<rparr>);
     let fd = cur_drive self;
     len \<leftarrow> transfer_len self;
     buf \<leftarrow> buf_zero (fdc_exec_buf self) 0 len;
     (rdy, self, w) \<leftarrow> fdc_isready L fd (self\<lparr>fdc_exec_len := len, fdc_exec_buf := buf\<rparr>, w);
     ro \<leftarrow> drive_readonly fd w;
     let err = (if \<not> rdy then FD_E_NOTRDY else if ro then FD_E_READONLY else FD_E_OK);
     if err \<noteq> 0
     then Some (fdc_result_interrupt ((fdc_results_7 (fdc_xlt_error err self))
            \<lparr>fdc_result_pos := 0, fdc_result_len := 7\<rparr>), w)
     else Some ((fdc_exec_interrupt self)\<lparr>fdc_mainstat := 0xB0, fdc_exec_pos := 0\<rparr>, w)})"

text \<open>The end of both seek commands: report a drive that is not ready or a failed seek in ST0, ST2.\<close>

definition seek_drive :: "'d libdsk \<Rightarrow> int \<Rightarrow> 'd fdc_world \<Rightarrow> 'd fdc_world option" where
  "seek_drive L cylinder = (\<lambda>(self, w). do {
     let self = (fdc_end_result_phase self)\<lparr>fdc_isr_countdown := SHORT_TIMEOUT, fdc_interrupting := 4\<rparr>;
     let self = self\<lparr>fdc_st2 := fdc_st2 self AND 0xFD, fdc_st0 := fdc_st0 self OR 0x20\<rparr>;
     let fd = cur_drive self;
     (rdy, self, w) \<leftarrow> fdc_isready L fd (self, w);
     if \<not> rdy then Some (self\<lparr>fdc_st0 := fdc_st0 self OR 0x48\<rparr>, w)
     else do {
       (err, w) \<leftarrow> fd_seek_cylinder L fd cylinder w;
       Some (if err \<noteq> 0
             then self\<lparr>fdc_st2 := fdc_st2 self OR 2, fdc_st0 := fdc_st0 self OR 0x40\<rparr> else self, w)}})"

definition fdc_recalibrate :: "'d libdsk \<Rightarrow> 'd fdc_world \<Rightarrow> 'd fdc_world option" where
  "fdc_recalibrate L = (\<lambda>(self, w).
     seek_drive L 0 ((fdc_get_drive (clear_status self))\<lparr>fdc_lastidread := 0\<rparr>, w))"

text \<open>Calling the interrupt callback.\<close>

definition call_isr :: "int \<Rightarrow> 'd fdc_world \<Rightarrow> 'd fdc_world" where
  "call_isr status = (\<lambda>(self, w). (self, case fdc_isr self of
     None \<Rightarrow> w | Some f \<Rightarrow> w\<lparr>isr_calls := isr_calls w @ [(f, status)]\<rparr>))"

definition fdc_sense_int :: "'d libdsk \<Rightarrow> 'd fdc_world \<Rightarrow> 'd fdc_world option" where
  "fdc_sense_int L = (\<lambda>(self, w). do {
     self \<leftarrow> (if fdc_interrupting self > 2 then do {
         cyl \<leftarrow> (case cur_drive self of None \<Rightarrow> Some 0
                | Some p \<Rightarrow> do {d \<leftarrow> get_drive p w; Some (word_of_int (fd_cylinder d))});
         Some (self\<lparr>fdc_result_buf := (fdc_result_buf self)[0 := word_of_int (fdc_st0 self), 1 := cyl],
                    fdc_result_len := 2\<rparr>)}
       else Some (self\<lparr>fdc_st0 := 0x80, fdc_result_buf := (fdc_result_buf self)[0 := 0x80], fdc_result_len := 1\<rparr>));
     (self, w) \<leftarrow> fdc_end_execution_phase L (self, w);
     Some (call_isr 0 (self\<lparr>fdc_isr_countdown := 0, fdc_interrupting := 0\<rparr>, w))})"

text \<open>A method that is null is called all the same: the drive is ready, so it has one.\<close>

definition fdc_read_id :: "'d libdsk \<Rightarrow> 'd fdc_world \<Rightarrow> 'd fdc_world option" where
  "fdc_read_id L = (\<lambda>(self, w). do {
     let self = fdc_get_drive ((clear_status self)\<lparr>fdc_result_len := 7\<rparr>);
     let fd = cur_drive self;
     (rdy, self, w) \<leftarrow> fdc_isready L fd (self, w);
     (self, w) \<leftarrow> (if \<not> rdy then Some (self\<lparr>fdc_st0 := fdc_st0 self OR 0x48\<rparr>, w)
       else do {
         ((ret, xs), w) \<leftarrow> fd_read_id L fd (fdc_curhead self) (fdc_lastidread self) w;
         let self = self\<lparr>fdc_lastidread := fdc_lastidread self + 1,
               fdc_cmd_buf := take 2 (fdc_cmd_buf self) @ xs @ drop (2 + length xs) (fdc_cmd_buf self)\<rparr>;
         Some (if ret = FD_E_SEEKFAIL
               then self\<lparr>fdc_st1 := fdc_st1 self OR 1, fdc_st0 := fdc_st0 self OR 0x40\<rparr>
               else if ret = FD_E_NOADDR
               then self\<lparr>fdc_st2 := fdc_st2 self OR 1, fdc_st0 := fdc_st0 self OR 0x40\<rparr>
               else self, w)});
     fdc_end_execution_phase L (fdc_result_interrupt (fdc_results_7 self), w)})"

definition fdc_format :: "'d libdsk \<Rightarrow> 'd fdc_world \<Rightarrow> 'd fdc_world option" where
  "fdc_format L = (\<lambda>(self, w). do {
     let self = fdc_get_drive ((clear_status self)\<lparr>fdc_lastidread := 0\<rparr>);
     let fd = cur_drive self;
     buf \<leftarrow> buf_zero (fdc_exec_buf self) 0 MAX_SECTOR_LEN;
     (rdy, self, w) \<leftarrow> fdc_isready L fd (self\<lparr>fdc_exec_buf := buf\<rparr>, w);
     ro \<leftarrow> drive_readonly fd w;
     let err = (if \<not> rdy then FD_E_NOTRDY else if ro then FD_E_READONLY else FD_E_OK);
     if err \<noteq> 0
     then Some (fdc_result_interrupt ((fdc_results_7 (fdc_xlt_error err self))\<lparr>fdc_result_pos := 0\<rparr>), w)
     else Some ((fdc_exec_interrupt self)\<lparr>fdc_mainstat := 0xB0, fdc_exec_pos := 0,
            fdc_exec_len := 4 * cmd self 3\<rparr>, w)})"

definition fdc_seek :: "'d libdsk \<Rightarrow> 'd fdc_world \<Rightarrow> 'd fdc_world option" where
  "fdc_seek L = (\<lambda>(self, w).
     seek_drive L (cmd self 2) ((fdc_get_drive (clear_status self))\<lparr>fdc_lastidread := 0\<rparr>, w))"

text \<open>The \<^verbatim>\<open>deleted\<close> argument of the read is a null pointer here.\<close>

definition fdc_scan :: "'d libdsk \<Rightarrow> 'd fdc_world \<Rightarrow> 'd fdc_world option" where
  "fdc_scan L = (\<lambda>(self, w). do {
     let self = fdc_get_drive ((clear_status self)\<lparr>fdc_lastidread := 0\<rparr>);
     len \<leftarrow> transfer_len self;
     buf \<leftarrow> buf_zero (fdc_exec_buf self) 0 len;
     let self = self\<lparr>fdc_exec_len := len\<rparr>;
     ((err, xs, _), w) \<leftarrow> fd_read_sector L (cur_drive self) (cmd self 2) (cmd self 3) (fdc_curhead self)
        (cmd self 4) len None (cmd self 0 AND 0x20) (cmd self 0 AND 0x40) (cmd self 0 AND 0x80) w;
     buf \<leftarrow> buf_store buf 0 xs;
     let self = self\<lparr>fdc_exec_buf := buf\<rparr>;
     let self = (if err \<noteq> 0 then fdc_xlt_error err self else self);
     let self = fdc_results_7 self;
     if err \<noteq> 0 \<and> err \<noteq> FD_E_DATAERR then do {
       (self, w) \<leftarrow> fdc_end_execution_phase L (self, w);
       Some (fdc_result_interrupt self, w)}
     else do {
       let self = fdc_exec_interrupt self;
       Some (self\<lparr>fdc_st2 := fdc_st2 self OR 8, fdc_mainstat := 0xB0, fdc_exec_pos := 0\<rparr>, w)}})"

definition fdc_execute :: "'d libdsk \<Rightarrow> 'd fdc_world \<Rightarrow> 'd fdc_world option" where
  "fdc_execute L = (\<lambda>(self, w). (
     let self = fdc_dorcheck self;
         self = self\<lparr>fdc_st0 := fdc_st0 self AND 0xBF\<rparr>;
         c = cmd self 0 AND 0x1F in
     if c = 2 then fdc_read_track L (self, w)
     else if c = 3 then Some (fdc_specify self, w)
     else if c = 4 then fdc_sense_drive L (self, w)
     else if c = 5 then fdc_write L 0 (self, w)
     else if c = 6 then fdc_read L 0 (self, w)
     else if c = 7 then fdc_recalibrate L (self, w)
     else if c = 8 then fdc_sense_int L (self, w)
     else if c = 9 then fdc_write L 1 (self, w)
     else if c = 10 then fdc_read_id L (self, w)
     else if c = 12 then fdc_read L 1 (self, w)
     else if c = 13 then fdc_format L (self, w)
     else if c = 15 then fdc_seek L (self, w)
     else if c = 17 \<or> c = 25 \<or> c = 30 then fdc_scan L (self, w)
     else Some (fdc_error self, w)))"

section \<open>The data and status registers\<close>

definition fdc_clear_pending_interrupt :: "'d fdc_world \<Rightarrow> 'd fdc_world" where
  "fdc_clear_pending_interrupt = (\<lambda>(self, w).
     if fdc_interrupting self > 0 \<and> fdc_interrupting self < 4
     then call_isr 0 (self\<lparr>fdc_isr_countdown := 0, fdc_interrupting := 0\<rparr>, w)
     else (self, w))"

text \<open>The end of a byte of the execution phase: one position on, the end of the phase, the interrupt.\<close>

definition exec_advance :: "'d libdsk \<Rightarrow> 'd fdc_world \<Rightarrow> 'd fdc_world option" where
  "exec_advance L = (\<lambda>(self, w). do {
     let self = self\<lparr>fdc_exec_pos := fdc_exec_pos self + 1, fdc_exec_len := fdc_exec_len self - 1\<rparr>;
     (self, w) \<leftarrow> (if fdc_exec_len self = 0 then do {
         (self, w) \<leftarrow> fdc_end_execution_phase L (self, w);
         Some (fdc_result_interrupt self, w)}
       else Some (self, w));
     Some (if fdc_interrupting self \<ge> 0 \<and> fdc_interrupting self < 3
           then self\<lparr>fdc_isr_countdown := SHORT_TIMEOUT\<rparr> else self, w)})"

definition write_exec_byte :: "'d libdsk \<Rightarrow> u8 \<Rightarrow> 'd fdc_world \<Rightarrow> 'd fdc_world option" where
  "write_exec_byte L value = (\<lambda>(self, w). do {
     let c = cmd self 0 AND 0x1F;
     self \<leftarrow> (if c = 17 \<or> c = 25 \<or> c = 30
       then do {b \<leftarrow> buf_at (fdc_exec_buf self) (fdc_exec_pos self); Some (fdc_scan_byte b value self)}
       else do {buf \<leftarrow> buf_set (fdc_exec_buf self) (fdc_exec_pos self) value; Some (self\<lparr>fdc_exec_buf := buf\<rparr>)});
     exec_advance L (self, w)})"

definition write_idle_byte :: "'d libdsk \<Rightarrow> u8 \<Rightarrow> 'd fdc_world \<Rightarrow> 'd fdc_world option" where
  "write_idle_byte L value = (\<lambda>(self, w). do {
     let self = self\<lparr>fdc_cmd_id := uint value, fdc_cmd_pos := 0,
           fdc_cmd_buf := (fdc_cmd_buf self)[0 := value],
           fdc_cmd_len := bytes_in_cmd ! unat (value AND 0x1F) - 1\<rparr>;
     (self, w) \<leftarrow> (if fdc_cmd_len self = 0 then fdc_execute L (self, w)
       else if fdc_cmd_len self < 0 then Some (fdc_error self, w)
       else Some (self, w));
     Some (self\<lparr>fdc_mainstat := fdc_mainstat self OR 0x10\<rparr>, w)})"

definition write_command_byte :: "'d libdsk \<Rightarrow> u8 \<Rightarrow> 'd fdc_world \<Rightarrow> 'd fdc_world option" where
  "write_command_byte L value = (\<lambda>(self, w). do {
     let self = self\<lparr>fdc_cmd_pos := fdc_cmd_pos self + 1\<rparr>;
     buf \<leftarrow> set_byte (fdc_cmd_buf self) (fdc_cmd_pos self) value;
     let self = self\<lparr>fdc_cmd_buf := buf, fdc_cmd_len := fdc_cmd_len self - 1\<rparr>;
     if fdc_cmd_len self = 0 then fdc_execute L (self, w) else Some (self, w)})"

definition fdc_write_data :: "'d libdsk \<Rightarrow> u8 \<Rightarrow> 'd fdc_world \<Rightarrow> 'd fdc_world option" where
  "fdc_write_data L value sw = (
     let (self, w) = fdc_clear_pending_interrupt sw in
     if fdc_mainstat self AND 0x20 \<noteq> 0 then write_exec_byte L value (self, w)
     else if fdc_cmd_id self \<ge> 0 \<and> fdc_cmd_len self \<le> 0 then Some (self\<lparr>fdc_cmd_id := -1\<rparr>, w)
     else if fdc_cmd_id self < 0 then write_idle_byte L value (self, w)
     else write_command_byte L value (self, w))"

definition read_result_byte :: "'d fdc_world \<Rightarrow> (u8 \<times> 'd fdc_world) option" where
  "read_result_byte = (\<lambda>(self, w). do {
     v \<leftarrow> byte_at (fdc_result_buf self) (fdc_result_pos self);
     let self = self\<lparr>fdc_result_pos := fdc_result_pos self + 1, fdc_result_len := fdc_result_len self - 1\<rparr>;
     Some (v, if fdc_result_len self = 0 then fdc_end_result_phase self else self, w)})"

definition fdc_read_data :: "'d libdsk \<Rightarrow> 'd fdc_world \<Rightarrow> (u8 \<times> 'd fdc_world) option" where
  "fdc_read_data L sw = (
     let (self, w) = fdc_clear_pending_interrupt sw in
     if fdc_mainstat self AND 0x80 \<noteq> 0 then
       if fdc_mainstat self AND 0x20 \<noteq> 0 then do {
         v \<leftarrow> buf_at (fdc_exec_buf self) (fdc_exec_pos self);
         sw \<leftarrow> exec_advance L (self, w);
         Some (v, sw)}
       else read_result_byte (self, w)
     else Some (word_of_int (fdc_mainstat self OR 2 ^ nat (fdc_curunit self)), self, w))"

definition fdc_read_ctrl :: "fdc_765 \<Rightarrow> u8" where
  "fdc_read_ctrl self = word_of_int (fdc_mainstat self)"

section \<open>Terminal count, motors, time\<close>

definition fdc_set_terminal_count :: "'d libdsk \<Rightarrow> u8 \<Rightarrow> 'd fdc_world \<Rightarrow> 'd fdc_world option" where
  "fdc_set_terminal_count L value = (\<lambda>(self, w). (
     let self = self\<lparr>fdc_terminal_count := uint value\<rparr> in
     if value \<noteq> 0 \<and> fdc_mainstat self AND 0x20 \<noteq> 0 then fdc_end_execution_phase L (self, w)
     else Some (self, w)))"

definition motor_of :: "fdrv_ptr \<Rightarrow> 'd world \<Rightarrow> int option" where
  "motor_of fd w = (case fd of None \<Rightarrow> Some 0 | Some p \<Rightarrow> do {d \<leftarrow> get_drive p w; Some (fd_motor d)})"

text \<open>The assignments to the motors of the four drives, bit \<open>n\<close> of \<^verbatim>\<open>running\<close> for drive \<open>n\<close>.\<close>

primrec set_motors :: "fdrv_ptr list \<Rightarrow> nat \<Rightarrow> u8 \<Rightarrow> 'd world \<Rightarrow> 'd world option" where
  "set_motors [] n running w = Some w"
| "set_motors (fd # fds) n running w = do {
     w \<leftarrow> (case fd of None \<Rightarrow> Some w
          | Some p \<Rightarrow> do {d \<leftarrow> get_drive p w; Some (put_drive p (d\<lparr>fd_motor := test (bit running n)\<rparr>) w)});
     set_motors fds (n + 1) running w}"

definition fdc_set_motor :: "'d libdsk \<Rightarrow> u8 \<Rightarrow> 'd fdc_world \<Rightarrow> 'd fdc_world option" where
  "fdc_set_motor L running = (\<lambda>(self, w). do {
     let self = fdc_dorcheck self;
     let fd = fdc_drive self ! nat (fdc_curunit self);
     oldmotor \<leftarrow> motor_of fd w;
     w \<leftarrow> set_motors (fdc_drive self) 0 running w;
     newmotor \<leftarrow> motor_of fd w;
     if newmotor = oldmotor then Some (self, w)
     else do {
       let self = self\<lparr>fdc_isr_countdown := LONGER_TIMEOUT,
             fdc_st0 := (if newmotor \<noteq> 0 then fdc_st0 self AND 0xF7 else fdc_st0 self OR 8)\<rparr>;
       (self, w) \<leftarrow> fdc_get_st3 L (self, w);
       if fdc_mainstat self AND 0xF0 \<noteq> 0x80 \<and> newmotor = 0
       then fdc_end_execution_phase L (self\<lparr>fdc_st0 := fdc_st0 self OR 0xC0\<rparr>, w)
       else Some (self, w)}})"

definition fdc_tick :: "'d fdc_world \<Rightarrow> 'd fdc_world" where
  "fdc_tick = (\<lambda>(self, w).
     if fdc_isr_countdown self = 0 then (self, w)
     else (let self = self\<lparr>fdc_isr_countdown := fdc_isr_countdown self - 1\<rparr> in
           if fdc_isr_countdown self = 0 then call_isr 1 (self, w) else (self, w)))"

section \<open>The digital output and input registers\<close>

definition fdc_write_dor :: "'d libdsk \<Rightarrow> int \<Rightarrow> 'd fdc_world \<Rightarrow> 'd fdc_world option" where
  "fdc_write_dor L value = (\<lambda>(self, w). do {
     let old_dor = fdc_dor self;
     let self = fdc_dorcheck (self\<lparr>fdc_dor := value\<rparr>);
     if value < 0 then Some (self, w)
     else do {
       let old_dor = (if old_dor < 0 then NOT value else old_dor);
       (self, w) \<leftarrow> (if (value XOR old_dor) AND 0xF0 \<noteq> 0
                    then fdc_set_motor L (word_of_int (value div 16)) (self, w) else Some (self, w));
       if (value XOR old_dor) AND 4 \<noteq> 0 then
         if value AND 4 \<noteq> 0 then do {
           let self = self\<lparr>fdc_st0 := 0xC0 OR (fdc_st0 self AND 0x3F), fdc_mainstat := 0xD0,
                 fdc_result_len := 1, fdc_result_pos := 0\<rparr>;
           let self = self\<lparr>fdc_result_buf := (fdc_result_buf self)[0 := word_of_int (fdc_st0 self)]\<rparr>;
           Some (fdc_result_interrupt self, w)}
         else fdc_part_reset (self, w)
       else Some (self, w)}})"

primrec set_datarates :: "fdrv_ptr list \<Rightarrow> u8 \<Rightarrow> 'd world \<Rightarrow> 'd world option" where
  "set_datarates [] value w = Some w"
| "set_datarates (fd # fds) value w = do {w \<leftarrow> fd_set_datarate fd value w; set_datarates fds value w}"

definition fdc_write_drr :: "u8 \<Rightarrow> 'd fdc_world \<Rightarrow> 'd fdc_world option" where
  "fdc_write_drr value = (\<lambda>(self, w). do {w \<leftarrow> set_datarates (fdc_drive self) value w; Some (self, w)})"

definition fdc_read_dir :: "'d libdsk \<Rightarrow> 'd fdc_world \<Rightarrow> (u8 \<times> 'd fdc_world) option" where
  "fdc_read_dir L = (\<lambda>(self, w). do {
     let self = fdc_dorcheck self;
     if fdc_dor self < 0 then Some (0, self, w)
     else (case fdc_drive self ! nat (fdc_dor self AND 3) of
       None \<Rightarrow> Some (0, self, w)
     | Some p \<Rightarrow> do {
         d \<leftarrow> get_drive p w;
         if fd_motor d = 0 then Some (0, self, w)
         else do {
           (rdy, w) \<leftarrow> fd_isready L (Some p) w;
           if rdy = 0 then Some (0x80, self, w)
           else do {
             ch \<leftarrow> fd_changed_status (Some p) w;
             Some (if ch \<noteq> 0 then 0x80 else 0, self, w)}}})})"

section \<open>Creation and accessors\<close>

text \<open>\<^verbatim>\<open>malloc\<close>'s block has unknown contents; what \<^verbatim>\<open>fdc_reset\<close> does not set stays unknown.\<close>

definition fdc_new :: "fdc_765 option \<Rightarrow> 'd world \<Rightarrow> (fdc_765 option \<times> 'd world) option" where
  "fdc_new block w = (case block of
     None \<Rightarrow> Some (None, w)
   | Some self \<Rightarrow> do {(self, w) \<leftarrow> fdc_reset (self, w); Some (Some self, w)})"

definition fdc_readst0 :: "fdc_765 \<Rightarrow> u8" where "fdc_readst0 fdc = word_of_int (fdc_st0 fdc)"
definition fdc_readst1 :: "fdc_765 \<Rightarrow> u8" where "fdc_readst1 fdc = word_of_int (fdc_st1 fdc)"
definition fdc_readst2 :: "fdc_765 \<Rightarrow> u8" where "fdc_readst2 fdc = word_of_int (fdc_st2 fdc)"
definition fdc_readst3 :: "fdc_765 \<Rightarrow> u8" where "fdc_readst3 fdc = word_of_int (fdc_st3 fdc)"
definition fdc_getunit :: "fdc_765 \<Rightarrow> int" where "fdc_getunit fdc = fdc_curunit fdc"
definition fdc_gethead :: "fdc_765 \<Rightarrow> int" where "fdc_gethead fdc = fdc_curhead fdc"

definition fdc_setisr :: "nat option \<Rightarrow> fdc_765 \<Rightarrow> fdc_765" where
  "fdc_setisr isr self = self\<lparr>fdc_isr := isr\<rparr>"

definition fdc_getisr :: "fdc_765 \<Rightarrow> nat option" where
  "fdc_getisr self = fdc_isr self"

definition fdc_getdrive :: "fdc_765 \<Rightarrow> int \<Rightarrow> fdrv_ptr" where
  "fdc_getdrive self drive = (if drive < 0 \<or> drive > 3 then None else fdc_drive self ! nat drive)"

definition fdc_setdrive :: "int \<Rightarrow> fdrv_ptr \<Rightarrow> fdc_765 \<Rightarrow> fdc_765" where
  "fdc_setdrive drive ptr self =
     (if drive < 0 \<or> drive > 3 then self else self\<lparr>fdc_drive := (fdc_drive self)[nat drive := ptr]\<rparr>)"

end
