(* ===== verification/FDC_Core.thy ===== *)
theory FDC_Core
  imports FDC_765
begin

text \<open>
  The controller as the emulator sees it (\<^verbatim>\<open>lib/xcpc/amstrad/fdc/fdc-core.cc\<close>): one
  controller and four libdsk drives, created once and reset together.  The pointers to the drives
  are those that \<^verbatim>\<open>fd_newldsk()\<close> returned; a C++ exception is the value \<^term>\<open>Inl\<close>.
\<close>

unbundle bit_operations_syntax

record fdc_state =
  fd0 :: nat
  fd1 :: nat
  fd2 :: nat
  fd3 :: nat

type_synonym 'd fdc_instance = "fdc_state \<times> fdc_765 \<times> 'd world"

section \<open>FdcTraits\<close>

text \<open>\<^verbatim>\<open>FdcTraits::reset\<close>: a reset of the controller that keeps its drives.\<close>

definition fdc_traits_reset :: "'d fdc_world \<Rightarrow> 'd fdc_world option" where
  "fdc_traits_reset = (\<lambda>(fdc, w). do {
     let d0 = fdc_getdrive fdc 0;
     let d1 = fdc_getdrive fdc 1;
     let d2 = fdc_getdrive fdc 2;
     let d3 = fdc_getdrive fdc 3;
     (fdc, w) \<leftarrow> fdc_reset (fdc, w);
     Some (fdc_setdrive 3 d3 (fdc_setdrive 2 d2 (fdc_setdrive 1 d1 (fdc_setdrive 0 d0 fdc))), w)})"

section \<open>FddTraits\<close>

text \<open>
  \<^verbatim>\<open>FddTraits::check_supported\<close>, given which compression libraries the build has: the
  message of the exception, if one is thrown.
\<close>

definition check_supported :: "bool \<Rightarrow> bool \<Rightarrow> bool \<Rightarrow> string \<Rightarrow> file_system \<Rightarrow> string option" where
  "check_supported have_libz have_libbz2 have_libzip filename fs = (case fopen_read filename fs of
     None \<Rightarrow> None
   | Some fp \<Rightarrow>
       (let magic = fst (fread 4 fp fs); count = length magic;
            needed = (if 2 \<le> count \<and> magic ! 0 = 0x1f \<and> magic ! 1 = 0x8b
                      then (if have_libz then None else Some ''gzip (.gz)'')
                      else if 3 \<le> count \<and> magic ! 0 = 0x42 \<and> magic ! 1 = 0x5a \<and> magic ! 2 = 0x68
                      then (if have_libbz2 then None else Some ''bzip2 (.bz2)'')
                      else if 4 \<le> count \<and> magic ! 0 = 0x50 \<and> magic ! 1 = 0x4b \<and> magic ! 2 = 0x03 \<and> magic ! 3 = 0x04
                      then (if have_libzip then None else Some ''zip (.zip)'')
                      else None)
        in map_option (\<lambda>n. ''unsupported compressed disk image: this build has no '' @ n @ '' support'') needed))"

definition fdd_traits_reset :: "'d libdsk \<Rightarrow> nat \<Rightarrow> 'd world \<Rightarrow> 'd world option" where
  "fdd_traits_reset L p w = do {w \<leftarrow> fd_eject L (Some p) w; fd_reset (Some p) w}"

definition traits_create_disk :: "'d libdsk \<Rightarrow> nat \<Rightarrow> string \<Rightarrow> 'd world \<Rightarrow> 'd world option" where
  "traits_create_disk L p filename w =
     (if filename \<noteq> '''' then do {(_, w) \<leftarrow> fdl_create_dsk L p filename w; Some w}
      else fd_eject L (Some p) w)"

definition traits_insert_disk :: "bool \<Rightarrow> bool \<Rightarrow> bool \<Rightarrow> 'd libdsk \<Rightarrow> nat \<Rightarrow> string \<Rightarrow> 'd world
    \<Rightarrow> (string + 'd world) option" where
  "traits_insert_disk have_libz have_libbz2 have_libzip L p filename w =
     (if filename \<noteq> '''' then
        (case check_supported have_libz have_libbz2 have_libzip filename (files w) of
           Some e \<Rightarrow> Some (Inl e)
         | None \<Rightarrow> do {w \<leftarrow> fdl_setfilename L p filename w; Some (Inr w)})
      else do {w \<leftarrow> fd_eject L (Some p) w; Some (Inr w)})"

section \<open>Instance\<close>

text \<open>The drive a number names; \<^verbatim>\<open>None\<close> is the \<^verbatim>\<open>default\<close> of the \<^verbatim>\<open>switch\<close>.\<close>

definition drive_of :: "fdc_state \<Rightarrow> int \<Rightarrow> nat option" where
  "drive_of st drive = (if drive = 0 then Some (fd0 st) else if drive = 1 then Some (fd1 st)
     else if drive = 2 then Some (fd2 st) else if drive = 3 then Some (fd3 st) else None)"

definition instance_reset :: "'d libdsk \<Rightarrow> 'd fdc_instance \<Rightarrow> 'd fdc_instance option" where
  "instance_reset L = (\<lambda>(st, fdc, w). do {
     (fdc, w) \<leftarrow> fdc_traits_reset (fdc, w);
     w \<leftarrow> fdd_traits_reset L (fd0 st) w;
     w \<leftarrow> fdd_traits_reset L (fd1 st) w;
     w \<leftarrow> fdd_traits_reset L (fd2 st) w;
     w \<leftarrow> fdd_traits_reset L (fd3 st) w;
     Some (st, fdc, w)})"

definition instance_clock :: "'d fdc_instance \<Rightarrow> 'd fdc_instance" where
  "instance_clock = (\<lambda>(st, sw). (st, fdc_tick sw))"

definition attach_drive :: "int \<Rightarrow> 'd fdc_instance \<Rightarrow> 'd fdc_instance" where
  "attach_drive drive = (\<lambda>(st, fdc, w). case drive_of st drive of
     Some p \<Rightarrow> (st, fdc_setdrive drive (Some p) fdc, w) | None \<Rightarrow> (st, fdc, w))"

definition detach_drive :: "int \<Rightarrow> 'd fdc_instance \<Rightarrow> 'd fdc_instance" where
  "detach_drive drive = (\<lambda>(st, fdc, w). case drive_of st drive of
     Some p \<Rightarrow> (st, fdc_setdrive drive None fdc, w) | None \<Rightarrow> (st, fdc, w))"

definition create_disk :: "'d libdsk \<Rightarrow> int \<Rightarrow> string \<Rightarrow> 'd fdc_instance \<Rightarrow> 'd fdc_instance option" where
  "create_disk L drive filename = (\<lambda>(st, fdc, w). case drive_of st drive of
     Some p \<Rightarrow> do {w \<leftarrow> traits_create_disk L p filename w; Some (st, fdc, w)} | None \<Rightarrow> Some (st, fdc, w))"

definition insert_disk :: "bool \<Rightarrow> bool \<Rightarrow> bool \<Rightarrow> 'd libdsk \<Rightarrow> int \<Rightarrow> string \<Rightarrow> 'd fdc_instance
    \<Rightarrow> (string + 'd fdc_instance) option" where
  "insert_disk have_libz have_libbz2 have_libzip L drive filename = (\<lambda>(st, fdc, w). case drive_of st drive of
     Some p \<Rightarrow> do {r \<leftarrow> traits_insert_disk have_libz have_libbz2 have_libzip L p filename w;
                   Some (case r of Inl e \<Rightarrow> Inl e | Inr w \<Rightarrow> Inr (st, fdc, w))}
   | None \<Rightarrow> Some (Inr (st, fdc, w)))"

definition remove_disk :: "'d libdsk \<Rightarrow> int \<Rightarrow> 'd fdc_instance \<Rightarrow> 'd fdc_instance option" where
  "remove_disk L drive = (\<lambda>(st, fdc, w). case drive_of st drive of
     Some p \<Rightarrow> do {w \<leftarrow> fd_eject L (Some p) w; Some (st, fdc, w)} | None \<Rightarrow> Some (st, fdc, w))"

definition instance_get_filename :: "int \<Rightarrow> 'd fdc_instance \<Rightarrow> string option" where
  "instance_get_filename drive = (\<lambda>(st, fdc, w). case drive_of st drive of
     Some p \<Rightarrow> fdl_getfilename p w | None \<Rightarrow> Some '''')"

text \<open>The ports of the controller; \<^verbatim>\<open>wr_stat\<close> does nothing.\<close>

definition set_motor :: "'d libdsk \<Rightarrow> u8 \<Rightarrow> 'd fdc_instance \<Rightarrow> (u8 \<times> 'd fdc_instance) option" where
  "set_motor L data = (\<lambda>(st, sw). do {sw \<leftarrow> fdc_set_motor L data sw; Some (data, st, sw)})"

definition rd_stat :: "u8 \<Rightarrow> 'd fdc_instance \<Rightarrow> (u8 \<times> 'd fdc_instance) option" where
  "rd_stat data = (\<lambda>(st, fdc, w). Some (fdc_read_ctrl fdc, st, fdc, w))"

definition wr_stat :: "u8 \<Rightarrow> 'd fdc_instance \<Rightarrow> (u8 \<times> 'd fdc_instance) option" where
  "wr_stat data i = Some (data, i)"

definition rd_data :: "'d libdsk \<Rightarrow> u8 \<Rightarrow> 'd fdc_instance \<Rightarrow> (u8 \<times> 'd fdc_instance) option" where
  "rd_data L data = (\<lambda>(st, sw). do {(v, sw) \<leftarrow> fdc_read_data L sw; Some (v, st, sw)})"

definition wr_data :: "'d libdsk \<Rightarrow> u8 \<Rightarrow> 'd fdc_instance \<Rightarrow> (u8 \<times> 'd fdc_instance) option" where
  "wr_data L data = (\<lambda>(st, sw). do {sw \<leftarrow> fdc_write_data L data sw; Some (data, st, sw)})"

end
