(* ===== verification/CPC_Vga.thy ===== *)
theory CPC_Vga
  imports Prelude
begin

text \<open>
  The gate array (\<^verbatim>\<open>lib/xcpc/amstrad/vga/vga-core.cc\<close>): the palette, the mode and rom
  register, the interrupt counter \<^verbatim>\<open>r52\<close> that raises an interrupt every 52 lines, and the
  copy of the palette it takes at the start of every line.  Its interface to the main board is a
  record of callbacks on the gate array and whatever the board keeps, as for the CPU; the locale
  \<open>vga_rel\<close> is the contract under which an operation preserves a relation of the board.
\<close>

unbundle bit_operations_syntax

section \<open>State\<close>

record vga_colormap =
  pixel0 :: "u32 list"
  pixel1 :: "u32 list"

record vga_color =
  c_ink :: u8
  c_pixel0 :: u32
  c_pixel1 :: u32

record vga_scanline =
  sl_mode :: u8
  sl_color :: "vga_color list"

record vga_state =
  pen :: u8
  ink :: "u8 list"
  rmr :: u8
  r52 :: u8
  r02 :: u8
  frame_x :: u16
  frame_y :: u16
  mode0 :: "u8 list"
  mode1 :: "u8 list"
  mode2 :: "u8 list"
  mode3 :: "u8 list"
  colormap :: vga_colormap
  scanline :: "vga_scanline list"

text \<open>\<^verbatim>\<open>class Interface\<close>.\<close>

record 'b vga_iface =
  cb_raise_nmi :: "u8 \<Rightarrow> vga_state \<times> 'b \<Rightarrow> u8 \<times> vga_state \<times> 'b"
  cb_raise_int :: "u8 \<Rightarrow> vga_state \<times> 'b \<Rightarrow> u8 \<times> vga_state \<times> 'b"
  cb_setup_ram :: "u8 \<Rightarrow> vga_state \<times> 'b \<Rightarrow> u8 \<times> vga_state \<times> 'b"
  cb_setup_rom :: "u8 \<Rightarrow> vga_state \<times> 'b \<Rightarrow> u8 \<times> vga_state \<times> 'b"
  cb_setup_rmr :: "u8 \<Rightarrow> vga_state \<times> 'b \<Rightarrow> u8 \<times> vga_state \<times> 'b"

section \<open>Pixel tables\<close>

text \<open>
  \<^verbatim>\<open>setup_mode0\<close> \<dots> \<^verbatim>\<open>setup_mode3\<close>: for every byte of video memory, its pixels in the order
  they are drawn, the first in the low bits.
\<close>

definition setup_mode0 :: "u32 \<Rightarrow> u8" where
  "setup_mode0 index = ucast (
      drop_bit 7 (index AND 0x80) OR drop_bit 2 (index AND 0x08)
   OR drop_bit 3 (index AND 0x20) OR push_bit 2 (index AND 0x02)
   OR drop_bit 2 (index AND 0x40) OR push_bit 3 (index AND 0x04)
   OR push_bit 2 (index AND 0x10) OR push_bit 7 (index AND 0x01))"

definition setup_mode1 :: "u32 \<Rightarrow> u8" where
  "setup_mode1 index = ucast (
      drop_bit 7 (index AND 0x80) OR drop_bit 2 (index AND 0x08)
   OR drop_bit 4 (index AND 0x40) OR push_bit 1 (index AND 0x04)
   OR drop_bit 1 (index AND 0x20) OR push_bit 4 (index AND 0x02)
   OR push_bit 2 (index AND 0x10) OR push_bit 7 (index AND 0x01))"

definition setup_mode2 :: "u32 \<Rightarrow> u8" where
  "setup_mode2 index = ucast (
      drop_bit 7 (index AND 0x80) OR drop_bit 5 (index AND 0x40)
   OR drop_bit 3 (index AND 0x20) OR drop_bit 1 (index AND 0x10)
   OR push_bit 1 (index AND 0x08) OR push_bit 3 (index AND 0x04)
   OR push_bit 5 (index AND 0x02) OR push_bit 7 (index AND 0x01))"

definition setup_mode3 :: "u32 \<Rightarrow> u8" where
  "setup_mode3 index = ucast (
      drop_bit 7 (index AND 0x80) OR drop_bit 2 (index AND 0x08)
   OR drop_bit 4 (index AND 0x40) OR push_bit 1 (index AND 0x04)
   OR drop_bit 1 (index AND 0x20) OR push_bit 4 (index AND 0x02)
   OR push_bit 2 (index AND 0x10) OR push_bit 7 (index AND 0x01))"

definition vga_construct :: "vga_state \<Rightarrow> vga_state" where
  "vga_construct s = s
     \<lparr>mode0 := map (\<lambda>n. setup_mode0 (of_nat n)) [0..<256], mode1 := map (\<lambda>n. setup_mode1 (of_nat n)) [0..<256],
      mode2 := map (\<lambda>n. setup_mode2 (of_nat n)) [0..<256], mode3 := map (\<lambda>n. setup_mode3 (of_nat n)) [0..<256]\<rparr>"

section \<open>Reset and registers\<close>

definition blank_scanline :: vga_scanline where
  "blank_scanline = \<lparr>sl_mode = 0, sl_color = replicate 17 \<lparr>c_ink = 0, c_pixel0 = 0, c_pixel1 = 0\<rparr>\<rparr>"

definition vga_reset :: "vga_state \<Rightarrow> vga_state" where
  "vga_reset s = s
     \<lparr>pen := pen s AND 0, ink := map (\<lambda>i. i AND 0) (ink s), rmr := rmr s AND 0, r52 := r52 s AND 0,
      r02 := r02 s AND 0, frame_x := frame_x s AND 0, frame_y := frame_y s AND 0,
      scanline := map (\<lambda>_. blank_scanline) (scanline s)\<rparr>"

definition vga_get_value :: "u8 \<Rightarrow> vga_state \<Rightarrow> u8" where
  "vga_get_value value s = 0xff"

definition vga_set_value :: "'b vga_iface \<Rightarrow> u8 \<Rightarrow> vga_state \<times> 'b \<Rightarrow> u8 \<times> vga_state \<times> 'b" where
  "vga_set_value V value sb = (let (s, b) = sb; func = drop_bit 6 value AND 0x03 in
     if func = 0 then
       (value, s\<lparr>pen := (if value AND 0x10 \<noteq> 0 then value AND 0x10 else value AND 0x0f)\<rparr>, b)
     else if func = 1 then
       (value, s\<lparr>ink := (ink s)[unat (pen s) := value AND 0x1f]\<rparr>, b)
     else if func = 2 then
       (let s = s\<lparr>rmr := value AND 0x1f\<rparr>;
            s = (if value AND 0x10 \<noteq> 0 then s\<lparr>r52 := 0\<rparr> else s)
        in (value, snd (cb_setup_rmr V value (s, b))))
     else (value, snd (cb_setup_ram V value (s, b))))"

definition ack_interrupt :: "vga_state \<Rightarrow> vga_state" where
  "ack_interrupt s = s\<lparr>r52 := r52 s AND 0xdf\<rparr>"

section \<open>Synchronisation signals\<close>

text \<open>
  The start of a line: the palette is copied for the renderer.  \<^verbatim>\<open>frame_y\<close> stays at the last
  line once the frame is full.
\<close>

definition hsync_rising :: "vga_state \<Rightarrow> vga_state" where
  "hsync_rising s = (let s = s\<lparr>frame_y := frame_y s + 1\<rparr> in
     if frame_y s < 576 then
       (let entry = (\<lambda>i. \<lparr>c_ink = i, c_pixel0 = pixel0 (colormap s) ! unat i, c_pixel1 = pixel1 (colormap s) ! unat i\<rparr>);
            line = \<lparr>sl_mode = rmr s AND 0x03, sl_color = map entry (ink s)\<rparr>
        in s\<lparr>scanline := (scanline s)[unat (frame_y s) := line]\<rparr>)
     else s\<lparr>frame_y := 575\<rparr>)"

text \<open>The end of a line: one more line on \<^verbatim>\<open>r52\<close>, and two lines after the vertical signal its realignment.\<close>

definition count_line :: "'b vga_iface \<Rightarrow> vga_state \<times> 'b \<Rightarrow> vga_state \<times> 'b" where
  "count_line V = (\<lambda>(s, b). let s = s\<lparr>r52 := r52 s + 1\<rparr> in
     if r52 s = 52 then snd (cb_raise_int V 0 (s\<lparr>r52 := 0\<rparr>, b)) else (s, b))"

definition realign :: "'b vga_iface \<Rightarrow> vga_state \<times> 'b \<Rightarrow> vga_state \<times> 'b" where
  "realign V = (\<lambda>(s, b).
     if r02 s \<noteq> 0 then
       (let s = s\<lparr>r02 := r02 s - 1\<rparr> in
        if r02 s = 0 then
          (let sb = (if 32 \<le> r52 s then snd (cb_raise_int V 0 (s, b)) else (s, b))
           in ((fst sb)\<lparr>r52 := 0\<rparr>, snd sb))
        else (s, b))
     else (s, b))"

definition hsync_falling :: "'b vga_iface \<Rightarrow> vga_state \<times> 'b \<Rightarrow> vga_state \<times> 'b" where
  "hsync_falling V sb = realign V (count_line V sb)"

definition assert_hsync :: "'b vga_iface \<Rightarrow> u8 \<Rightarrow> vga_state \<times> 'b \<Rightarrow> vga_state \<times> 'b" where
  "assert_hsync V hsync sb =
     (if hsync \<noteq> 0 then (hsync_rising (fst sb), snd sb) else hsync_falling V sb)"

definition assert_vsync :: "u8 \<Rightarrow> vga_state \<Rightarrow> vga_state" where
  "assert_vsync vsync s = (if vsync \<noteq> 0 then s\<lparr>frame_y := 0, r02 := 2\<rparr> else s)"

section \<open>The contract with the board\<close>

text \<open>
  A relation that holds between a fixed board and every board the callbacks produce holds after
  every operation of the gate array.
\<close>

locale vga_rel =
  fixes V :: "'b vga_iface" and Q :: "vga_state \<times> 'b \<Rightarrow> bool"
  assumes Q_vga: "Q (s, b) \<Longrightarrow> Q (s', b)"
    and Q_callback: "Q sb \<Longrightarrow> Q (snd (cb_raise_int V x sb))" "Q sb \<Longrightarrow> Q (snd (cb_setup_ram V x sb))"
      "Q sb \<Longrightarrow> Q (snd (cb_setup_rmr V x sb))"
begin

lemma set_value_keeps: "Q sb \<Longrightarrow> Q (snd (vga_set_value V x sb))"
  by (cases sb) (auto simp: vga_set_value_def Let_def intro: Q_vga Q_callback)

lemma Q_fst: "Q sb \<Longrightarrow> Q (f (fst sb), snd sb)"
  using Q_vga by (cases sb) auto

lemma count_line_keeps: "Q sb \<Longrightarrow> Q (count_line V sb)"
  by (cases sb) (auto simp: count_line_def Let_def intro: Q_vga Q_callback)

lemma realign_keeps: "Q sb \<Longrightarrow> Q (realign V sb)"
  by (cases sb) (auto simp: realign_def Let_def intro: Q_vga Q_callback Q_fst)

lemma hsync_falling_keeps: "Q sb \<Longrightarrow> Q (hsync_falling V sb)"
  by (simp add: hsync_falling_def count_line_keeps realign_keeps)

lemma assert_hsync_keeps: "Q sb \<Longrightarrow> Q (assert_hsync V h sb)"
  by (cases sb) (auto simp: assert_hsync_def intro: hsync_falling_keeps Q_vga)

end

section \<open>The invariant of the gate array\<close>

text \<open>
  The indices the code uses without a check stay inside their arrays: the pen inside the palette,
  every ink inside the colour map, the line inside the frame.
\<close>

definition vga_ok :: "vga_state \<Rightarrow> bool" where
  "vga_ok s \<longleftrightarrow> pen s \<le> 16 \<and> length (ink s) = 17 \<and> (\<forall>i \<in> set (ink s). i < 32) \<and>
     length (pixel0 (colormap s)) = 32 \<and> length (pixel1 (colormap s)) = 32 \<and>
     length (scanline s) = 576 \<and> frame_y s < 576 \<and> r52 s < 52 \<and> r02 s \<le> 2"

lemma mask_le: "(x :: u8) AND y \<le> y"
  by (simp add: word_and_le1)

lemma vga_reset_ok:
  "length (ink s) = 17 \<Longrightarrow> length (pixel0 (colormap s)) = 32 \<Longrightarrow> length (pixel1 (colormap s)) = 32 \<Longrightarrow>
    length (scanline s) = 576 \<Longrightarrow> vga_ok (vga_reset s)"
  by (auto simp: vga_ok_def vga_reset_def)

lemma and_1f_less: "(x :: u8) AND 0x1f < 32"
  using mask_le [of x "0x1f"] by (simp add: word_le_nat_alt word_less_nat_alt)

lemma pen_bound: "(if x AND 0x10 \<noteq> 0 then x AND 0x10 else x AND 0x0f) \<le> (16 :: u8)"
  using mask_le [of x "0x0f"] mask_le [of x "0x10"] by (auto simp: word_le_nat_alt)

lemma vga_pen_ok: "vga_ok s \<Longrightarrow> vga_ok (s\<lparr>pen := (if x AND 0x10 \<noteq> 0 then x AND 0x10 else x AND 0x0f)\<rparr>)"
  unfolding vga_ok_def using pen_bound [of x] by simp

lemma vga_ink_ok: "vga_ok s \<Longrightarrow> vga_ok (s\<lparr>ink := (ink s)[n := x AND 0x1f]\<rparr>)"
  unfolding vga_ok_def using and_1f_less [of x] set_update_subset_insert [of "ink s" n "x AND 0x1f"] by auto

lemma vga_rmr_ok: "vga_ok s \<Longrightarrow> vga_ok (s\<lparr>rmr := x\<rparr>)" "vga_ok s \<Longrightarrow> vga_ok (s\<lparr>r52 := 0\<rparr>)"
  by (simp_all add: vga_ok_def)

lemma ack_interrupt_ok: "vga_ok s \<Longrightarrow> vga_ok (ack_interrupt s)"
  using word_and_le2 [of "r52 s" "0xdf"] by (auto simp: vga_ok_def ack_interrupt_def)

lemma assert_vsync_ok: "vga_ok s \<Longrightarrow> vga_ok (assert_vsync v s)"
  by (auto simp: vga_ok_def assert_vsync_def)

lemma hsync_rising_ok: "vga_ok s \<Longrightarrow> vga_ok (hsync_rising s)"
  by (auto simp: vga_ok_def hsync_rising_def Let_def)

end
