(* ===== verification/CPC_Vdc.thy ===== *)
theory CPC_Vdc
  imports Prelude
begin

text \<open>
  The CRT controller (\<^verbatim>\<open>lib/xcpc/amstrad/vdc/vdc-core.cc\<close>): its registers with their
  capabilities and masks, the counters of characters, lines and rows, and the two
  synchronisation signals it passes to the main board.
\<close>

unbundle bit_operations_syntax

section \<open>State\<close>

text \<open>
  The union \<^verbatim>\<open>regs\<close> is read by index through \<^verbatim>\<open>array\<close> and by name through
  \<^verbatim>\<open>named\<close>; the names below are the indices of the fields.
\<close>

record vdc_bytes =
  v_addr :: u8
  v_data :: "u8 list"

record vdc_core =
  hcc :: u8
  vcc :: u8
  slc :: u8
  vac :: u8
  hsc :: u8
  vsc :: u8
  hsync_signal :: u8
  vsync_signal :: u8

record vdc_state =
  caps :: vdc_bytes
  mask :: vdc_bytes
  regs :: vdc_bytes
  core :: vdc_core

definition horizontal_total :: "vdc_state \<Rightarrow> u8" where "horizontal_total s = v_data (regs s) ! 0"
definition horizontal_sync_position :: "vdc_state \<Rightarrow> u8" where "horizontal_sync_position s = v_data (regs s) ! 2"
definition sync_width :: "vdc_state \<Rightarrow> u8" where "sync_width s = v_data (regs s) ! 3"
definition vertical_total :: "vdc_state \<Rightarrow> u8" where "vertical_total s = v_data (regs s) ! 4"
definition vertical_total_adjust :: "vdc_state \<Rightarrow> u8" where "vertical_total_adjust s = v_data (regs s) ! 5"
definition vertical_sync_position :: "vdc_state \<Rightarrow> u8" where "vertical_sync_position s = v_data (regs s) ! 7"
definition maximum_scanline_address :: "vdc_state \<Rightarrow> u8" where "maximum_scanline_address s = v_data (regs s) ! 9"

record 'b vdc_iface =
  cb_hsync :: "u8 \<Rightarrow> vdc_state \<times> 'b \<Rightarrow> u8 \<times> vdc_state \<times> 'b"
  cb_vsync :: "u8 \<Rightarrow> vdc_state \<times> 'b \<Rightarrow> u8 \<times> vdc_state \<times> 'b"

section \<open>Reset\<close>

abbreviation REG_READABLE :: u8 where "REG_READABLE \<equiv> 0x01"
abbreviation REG_WRITABLE :: u8 where "REG_WRITABLE \<equiv> 0x02"
abbreviation REGISTER_COUNT :: u8 where "REGISTER_COUNT \<equiv> 18"

definition reset_caps :: "vdc_state \<Rightarrow> vdc_state" where
  "reset_caps s = s\<lparr>caps := \<lparr>v_addr = REG_WRITABLE, v_data =
     [REG_WRITABLE, REG_WRITABLE, REG_WRITABLE, REG_WRITABLE, REG_WRITABLE, REG_WRITABLE,
      REG_WRITABLE, REG_WRITABLE, REG_WRITABLE, REG_WRITABLE, REG_WRITABLE, REG_WRITABLE,
      REG_WRITABLE, REG_WRITABLE, REG_READABLE OR REG_WRITABLE, REG_READABLE OR REG_WRITABLE,
      REG_READABLE, REG_READABLE]\<rparr>\<rparr>"

definition reset_mask :: "vdc_state \<Rightarrow> vdc_state" where
  "reset_mask s = s\<lparr>mask := \<lparr>v_addr = 0xff, v_data =
     [0xff, 0xff, 0xff, 0x0f, 0x7f, 0x1f, 0x7f, 0x7f, 0x03, 0x1f, 0x7f, 0x1f, 0x3f, 0xff, 0x3f, 0xff,
      0x3f, 0xff]\<rparr>\<rparr>"

definition reset_regs :: "vdc_state \<Rightarrow> vdc_state" where
  "reset_regs s = s\<lparr>regs := \<lparr>v_addr = 0x00, v_data =
     [0x3f, 0x28, 0x2e, 0x0e, 0x26, 0x00, 0x19, 0x1e, 0x00, 0x07, 0x00, 0x00, 0x30, 0x00, 0x00, 0x00,
      0x00, 0x00]\<rparr>\<rparr>"

definition reset_core :: "vdc_state \<Rightarrow> vdc_state" where
  "reset_core s = s\<lparr>core := \<lparr>hcc = 0, vcc = 0, slc = 0, vac = 0, hsc = 0, vsc = 0,
     hsync_signal = 0, vsync_signal = 0\<rparr>\<rparr>"

definition vdc_reset :: "vdc_state \<Rightarrow> vdc_state" where
  "vdc_reset s = reset_core (reset_regs (reset_mask (reset_caps s)))"

section \<open>The clock\<close>

text \<open>
  \<^verbatim>\<open>process_hcc\<close>: one character; the flag says that a line is complete.
\<close>

definition process_hcc :: "vdc_state \<Rightarrow> vdc_core \<Rightarrow> bool \<times> vdc_core" where
  "process_hcc s c = (let
     signal = hsync_signal c \<noteq> 0;
     c = c\<lparr>hcc := hcc c + 1\<rparr>;
     (line, c) = (if hcc c = horizontal_total s + 1 then (True, c\<lparr>hcc := 0\<rparr>) else (False, c));
     c = (if signal then
            (let c = c\<lparr>hsc := (hsc c + 1) AND 0x0f\<rparr> in
             if hsc c = sync_width s AND 0x0f then c\<lparr>hsc := 0, hsync_signal := 0\<rparr> else c)
          else if hcc c = horizontal_sync_position s then c\<lparr>hsc := 0, hsync_signal := 1\<rparr> else c)
   in (line, c))"

text \<open>
  The number of lines of the current row.  \<^verbatim>\<open>vcc + 1\<close> is an \<^verbatim>\<open>int\<close>, compared with the
  byte \<^verbatim>\<open>vertical_total\<close>.
\<close>

definition scanline_total :: "vdc_state \<Rightarrow> u8" where
  "scanline_total s =
     maximum_scanline_address s + 1 +
     (if unat (vcc (core s)) + 1 = unat (vertical_total s + 1) then vertical_total_adjust s else 0)"

text \<open>\<^verbatim>\<open>process_slc\<close>: one line; the flag says that a row is complete.\<close>

definition process_slc :: "vdc_state \<Rightarrow> vdc_core \<Rightarrow> bool \<times> vdc_core" where
  "process_slc s c = (let
     signal = vsync_signal c \<noteq> 0;
     c = c\<lparr>slc := slc c + 1\<rparr>;
     (row, c) = (if slc c = scanline_total s then (True, c\<lparr>slc := 0\<rparr>) else (False, c));
     c = (if signal then
            (let c = c\<lparr>vsc := (vsc c + 1) AND 0x0f\<rparr> in
             if vsc c = drop_bit 4 (sync_width s) AND 0x0f then c\<lparr>vsc := 0, vsync_signal := 0\<rparr> else c)
          else if vcc c = vertical_sync_position s then c\<lparr>vsc := 0, vsync_signal := 1\<rparr> else c)
   in (row, c))"

definition process_vcc :: "vdc_state \<Rightarrow> vdc_core \<Rightarrow> vdc_core" where
  "process_vcc s c = (let c = c\<lparr>vcc := vcc c + 1\<rparr> in
     if vcc c = vertical_total s + 1 then c\<lparr>vcc := 0\<rparr> else c)"

definition vdc_count :: "vdc_state \<Rightarrow> vdc_core" where
  "vdc_count s = (case process_hcc s (core s) of (line, c) \<Rightarrow>
     if line then (case process_slc s c of (row, c) \<Rightarrow> if row then process_vcc s c else c) else c)"

definition vdc_clock :: "'b vdc_iface \<Rightarrow> vdc_state \<times> 'b \<Rightarrow> vdc_state \<times> 'b" where
  "vdc_clock D sb = (let
     h = (if hsync_signal (core (fst sb)) \<noteq> 0 then 1 else 0);
     v = (if vsync_signal (core (fst sb)) \<noteq> 0 then 1 else 0);
     sb = ((fst sb)\<lparr>core := vdc_count (fst sb)\<rparr>, snd sb);
     sb = (if hsync_signal (core (fst sb)) \<noteq> h then snd (cb_hsync D (hsync_signal (core (fst sb))) sb) else sb);
     sb = (if vsync_signal (core (fst sb)) \<noteq> v then snd (cb_vsync D (vsync_signal (core (fst sb))) sb) else sb)
   in sb)"

section \<open>Registers\<close>

definition vdc_get_index :: "u8 \<Rightarrow> vdc_state \<Rightarrow> u8 \<times> vdc_state" where
  "vdc_get_index index s =
     (if v_addr (caps s) AND REG_READABLE \<noteq> 0
      then (let r = v_addr (regs s) AND v_addr (mask s) in (r, s\<lparr>regs := (regs s)\<lparr>v_addr := r\<rparr>\<rparr>))
      else (index, s))"

definition vdc_set_index :: "u8 \<Rightarrow> vdc_state \<Rightarrow> u8 \<times> vdc_state" where
  "vdc_set_index index s =
     (if v_addr (caps s) AND REG_WRITABLE \<noteq> 0
      then (let r = index AND v_addr (mask s) in (r, s\<lparr>regs := (regs s)\<lparr>v_addr := r\<rparr>\<rparr>))
      else (index, s))"

definition put_data :: "nat \<Rightarrow> u8 \<Rightarrow> vdc_state \<Rightarrow> vdc_state" where
  "put_data n x s = s\<lparr>regs := (regs s)\<lparr>v_data := (v_data (regs s))[n := x]\<rparr>\<rparr>"

definition vdc_get_value :: "u8 \<Rightarrow> vdc_state \<Rightarrow> u8 \<times> vdc_state" where
  "vdc_get_value x s = (let a = v_addr (regs s); n = unat a in
     if a < REGISTER_COUNT \<and> v_data (caps s) ! n AND REG_READABLE \<noteq> 0
     then (let r = v_data (regs s) ! n AND v_data (mask s) ! n in (r, put_data n r s))
     else (x, s))"

definition vdc_set_value :: "u8 \<Rightarrow> vdc_state \<Rightarrow> u8 \<times> vdc_state" where
  "vdc_set_value x s = (let a = v_addr (regs s); n = unat a in
     if a < REGISTER_COUNT \<and> v_data (caps s) ! n AND REG_WRITABLE \<noteq> 0
     then (let r = x AND v_data (mask s) ! n in (r, put_data n r s))
     else (x, s))"

section \<open>The contract with the board\<close>

locale vdc_rel =
  fixes D :: "'b vdc_iface" and Q :: "vdc_state \<times> 'b \<Rightarrow> bool"
  assumes Q_vdc: "Q (s, b) \<Longrightarrow> Q (s', b)"
    and Q_callback: "Q sb \<Longrightarrow> Q (snd (cb_hsync D x sb))" "Q sb \<Longrightarrow> Q (snd (cb_vsync D x sb))"
begin

lemma clock_keeps: "Q sb \<Longrightarrow> Q (vdc_clock D sb)"
proof -
  assume "Q sb"
  then have "Q ((fst sb)\<lparr>core := vdc_count (fst sb)\<rparr>, snd sb)"
    using Q_vdc by (cases sb) auto
  then show ?thesis
    by (simp add: vdc_clock_def Let_def Q_callback)
qed

end

section \<open>Well-formed controllers\<close>

text \<open>
  The capabilities and masks are those of the reset, and every register is within its mask.
\<close>

definition vdc_ok :: "vdc_state \<Rightarrow> bool" where
  "vdc_ok s \<longleftrightarrow> caps s = caps (reset_caps s) \<and> mask s = mask (reset_mask s) \<and>
     length (v_data (regs s)) = 18 \<and>
     list_all (\<lambda>n. v_data (regs s) ! n AND v_data (mask s) ! n = v_data (regs s) ! n) [0..<18] \<and>
     v_data (regs s) ! 16 = 0 \<and> v_data (regs s) ! 17 = 0"

lemma vdc_reset_ok: "vdc_ok (vdc_reset s)"
  by (simp add: vdc_ok_def vdc_reset_def reset_caps_def reset_mask_def reset_regs_def reset_core_def upt_rec)

lemma vdc_ok_caps: "vdc_ok s \<Longrightarrow> n < 18 \<Longrightarrow> v_data (caps s) ! n AND REG_WRITABLE \<noteq> 0 \<longleftrightarrow> n < 16"
  by (auto simp: vdc_ok_def reset_caps_def less_Suc_eq numeral_eq_Suc)

lemma vdc_ok_caps_addr: "vdc_ok s \<Longrightarrow> v_addr (caps s) AND REG_WRITABLE \<noteq> 0" "vdc_ok s \<Longrightarrow> v_addr (mask s) = 0xff"
  by (simp_all add: vdc_ok_def reset_caps_def reset_mask_def)

lemma vdc_set_index_ok: "vdc_ok s \<Longrightarrow> vdc_ok (snd (vdc_set_index x s))"
  by (auto simp: vdc_ok_def vdc_set_index_def Let_def reset_caps_def reset_mask_def)

lemma vdc_ok_put_data:
  assumes "vdc_ok s" and "n < 16"
  shows "vdc_ok (put_data n (x AND v_data (mask s) ! n) s)"
proof -
  have "v_data (regs (put_data n (x AND v_data (mask s) ! n) s)) ! k AND v_data (mask s) ! k
      = v_data (regs (put_data n (x AND v_data (mask s) ! n) s)) ! k" if "k < 18" for k
    using assms that by (cases "k = n") (auto simp: vdc_ok_def put_data_def list_all_iff and.assoc)
  then show ?thesis
    using assms by (auto simp: vdc_ok_def put_data_def list_all_iff reset_caps_def reset_mask_def)
qed

lemma vdc_set_value_ok: "vdc_ok s \<Longrightarrow> vdc_ok (snd (vdc_set_value x s))"
proof -
  assume ok: "vdc_ok s"
  show ?thesis
  proof (cases "v_addr (regs s) < REGISTER_COUNT \<and> v_data (caps s) ! unat (v_addr (regs s)) AND REG_WRITABLE \<noteq> 0")
    case True
    then have "unat (v_addr (regs s)) < 18" by (simp add: word_less_nat_alt)
    then have "unat (v_addr (regs s)) < 16" using True vdc_ok_caps [OF ok] by blast
    then show ?thesis using True ok vdc_ok_put_data by (simp add: vdc_set_value_def Let_def)
  next
    case False
    then show ?thesis using ok by (simp only: vdc_set_value_def Let_def if_False) simp
  qed
qed

lemma vdc_get_index_ok: "vdc_ok s \<Longrightarrow> vdc_ok (snd (vdc_get_index x s))"
  by (auto simp: vdc_ok_def vdc_get_index_def Let_def reset_caps_def reset_mask_def)

lemma vdc_get_value_ok: "vdc_ok s \<Longrightarrow> vdc_ok (snd (vdc_get_value x s))"
proof -
  assume ok: "vdc_ok s"
  have "put_data n (v_data (regs s) ! n AND v_data (mask s) ! n) s = s" if "n < 18" for n
  proof -
    have "list_all (\<lambda>n. v_data (regs s) ! n AND v_data (mask s) ! n = v_data (regs s) ! n) [0..<18]"
      using ok unfolding vdc_ok_def by blast
    then have "v_data (regs s) ! n AND v_data (mask s) ! n = v_data (regs s) ! n"
      using that by (simp add: list_all_iff)
    then show ?thesis by (simp add: put_data_def)
  qed
  then show ?thesis
    using ok by (auto simp: vdc_get_value_def Let_def word_less_nat_alt)
qed

lemma vdc_clock_regs: "caps (s\<lparr>core := c\<rparr>) = caps s" "regs (s\<lparr>core := c\<rparr>) = regs s"
  by simp_all

end
