(* ===== verification/CPC_Ppi.thy ===== *)
theory CPC_Ppi
  imports Prelude
begin

text \<open>
  The parallel interface (\<^verbatim>\<open>lib/xcpc/amstrad/ppi/ppi-core.cc\<close>): three ports whose direction
  the control port sets, and the bit set/reset command for port C.  A port that is an input is read
  through the interface, a port that is an output is written through it.
\<close>

unbundle bit_operations_syntax

record ppi_state =
  port_a :: u8
  port_b :: u8
  port_c :: u8
  ctrl_p :: u8
  grp_a :: u8
  grp_b :: u8
  dir_a :: u8
  dir_b :: u8
  dir_c :: u8

record 'b ppi_iface =
  cb_port_a_rd :: "u8 \<Rightarrow> ppi_state \<times> 'b \<Rightarrow> u8 \<times> ppi_state \<times> 'b"
  cb_port_a_wr :: "u8 \<Rightarrow> ppi_state \<times> 'b \<Rightarrow> u8 \<times> ppi_state \<times> 'b"
  cb_port_b_rd :: "u8 \<Rightarrow> ppi_state \<times> 'b \<Rightarrow> u8 \<times> ppi_state \<times> 'b"
  cb_port_b_wr :: "u8 \<Rightarrow> ppi_state \<times> 'b \<Rightarrow> u8 \<times> ppi_state \<times> 'b"
  cb_port_c_rd :: "u8 \<Rightarrow> ppi_state \<times> 'b \<Rightarrow> u8 \<times> ppi_state \<times> 'b"
  cb_port_c_wr :: "u8 \<Rightarrow> ppi_state \<times> 'b \<Rightarrow> u8 \<times> ppi_state \<times> 'b"

definition ppi_reset :: "ppi_state \<Rightarrow> ppi_state" where
  "ppi_reset s = \<lparr>port_a = 0, port_b = 0, port_c = 0, ctrl_p = 0, grp_a = 0, grp_b = 0,
     dir_a = 0, dir_b = 0, dir_c = 0\<rparr>"

section \<open>Ports\<close>

definition rd_port_a :: "'b ppi_iface \<Rightarrow> u8 \<Rightarrow> ppi_state \<times> 'b \<Rightarrow> u8 \<times> ppi_state \<times> 'b" where
  "rd_port_a P value sb =
     (if dir_a (fst sb) \<noteq> 0 then
        (case cb_port_a_rd P value sb of (v, s, b) \<Rightarrow> (v, s\<lparr>port_a := v\<rparr>, b))
      else (port_a (fst sb), sb))"

definition wr_port_a :: "'b ppi_iface \<Rightarrow> u8 \<Rightarrow> ppi_state \<times> 'b \<Rightarrow> u8 \<times> ppi_state \<times> 'b" where
  "wr_port_a P value sb = (let
     sb = ((fst sb)\<lparr>port_a := value\<rparr>, snd sb);
     sb = (if dir_a (fst sb) = 0 then snd (cb_port_a_wr P value sb) else sb)
   in (port_a (fst sb), sb))"

definition rd_port_b :: "'b ppi_iface \<Rightarrow> u8 \<Rightarrow> ppi_state \<times> 'b \<Rightarrow> u8 \<times> ppi_state \<times> 'b" where
  "rd_port_b P value sb =
     (if dir_b (fst sb) \<noteq> 0 then
        (case cb_port_b_rd P value sb of (v, s, b) \<Rightarrow> (v, s\<lparr>port_b := v\<rparr>, b))
      else (port_b (fst sb), sb))"

definition wr_port_b :: "'b ppi_iface \<Rightarrow> u8 \<Rightarrow> ppi_state \<times> 'b \<Rightarrow> u8 \<times> ppi_state \<times> 'b" where
  "wr_port_b P value sb = (let
     sb = ((fst sb)\<lparr>port_b := value\<rparr>, snd sb);
     sb = (if dir_b (fst sb) = 0 then snd (cb_port_b_wr P value sb) else sb)
   in (port_b (fst sb), sb))"

definition rd_port_c :: "'b ppi_iface \<Rightarrow> u8 \<Rightarrow> ppi_state \<times> 'b \<Rightarrow> u8 \<times> ppi_state \<times> 'b" where
  "rd_port_c P value sb =
     (if dir_c (fst sb) \<noteq> 0 then
        (case cb_port_c_rd P value sb of (v, s, b) \<Rightarrow> (v, s\<lparr>port_c := v\<rparr>, b))
      else (port_c (fst sb), sb))"

definition wr_port_c :: "'b ppi_iface \<Rightarrow> u8 \<Rightarrow> ppi_state \<times> 'b \<Rightarrow> u8 \<times> ppi_state \<times> 'b" where
  "wr_port_c P value sb = (let
     sb = ((fst sb)\<lparr>port_c := value\<rparr>, snd sb);
     sb = (if dir_c (fst sb) = 0 then snd (cb_port_c_wr P value sb) else sb)
   in (port_c (fst sb), sb))"

section \<open>The control port\<close>

text \<open>A change of direction reads a port that becomes an input and writes one that becomes an output.\<close>

definition turn_a :: "'b ppi_iface \<Rightarrow> u8 \<Rightarrow> u8 \<times> ppi_state \<times> 'b \<Rightarrow> u8 \<times> ppi_state \<times> 'b" where
  "turn_a P dir vsb = (let sb = snd vsb in
     if dir \<noteq> dir_a (fst sb) then
       (let sb = ((fst sb)\<lparr>dir_a := dir\<rparr>, snd sb) in
        if dir \<noteq> 0 then
          (case cb_port_a_rd P (port_a (fst sb)) sb of (v, s, b) \<Rightarrow> (v, s\<lparr>port_a := v\<rparr>, b))
        else cb_port_a_wr P (port_a (fst sb)) sb)
     else vsb)"

definition turn_b :: "'b ppi_iface \<Rightarrow> u8 \<Rightarrow> u8 \<times> ppi_state \<times> 'b \<Rightarrow> u8 \<times> ppi_state \<times> 'b" where
  "turn_b P dir vsb = (let sb = snd vsb in
     if dir \<noteq> dir_b (fst sb) then
       (let sb = ((fst sb)\<lparr>dir_b := dir\<rparr>, snd sb) in
        if dir \<noteq> 0 then
          (case cb_port_b_rd P (port_b (fst sb)) sb of (v, s, b) \<Rightarrow> (v, s\<lparr>port_b := v\<rparr>, b))
        else cb_port_b_wr P (port_b (fst sb)) sb)
     else vsb)"

definition turn_c :: "'b ppi_iface \<Rightarrow> u8 \<Rightarrow> u8 \<times> ppi_state \<times> 'b \<Rightarrow> u8 \<times> ppi_state \<times> 'b" where
  "turn_c P dir vsb = (let sb = snd vsb in
     if dir \<noteq> dir_c (fst sb) then
       (let sb = ((fst sb)\<lparr>dir_c := dir\<rparr>, snd sb) in
        if dir \<noteq> 0 then
          (case cb_port_c_rd P (port_c (fst sb)) sb of (v, s, b) \<Rightarrow> (v, s\<lparr>port_c := v\<rparr>, b))
        else cb_port_c_wr P (port_c (fst sb)) sb)
     else vsb)"

text \<open>
  Bit 7 of the control byte chooses between the mode word, which sets the groups and turns the
  three ports in order, and the bit set/reset command.
\<close>

definition wr_ctrl_p :: "'b ppi_iface \<Rightarrow> u8 \<Rightarrow> ppi_state \<times> 'b \<Rightarrow> u8 \<times> ppi_state \<times> 'b" where
  "wr_ctrl_p P value sb = (let
     sb = ((fst sb)\<lparr>ctrl_p := value\<rparr>, snd sb);
     c = value
   in if c AND 0x80 \<noteq> 0 then
        (let ga = drop_bit 5 c AND 0x03;
             gb = drop_bit 2 c AND 0x01;
             da = drop_bit 4 c AND 0x01;
             db = drop_bit 1 c AND 0x01;
             dc = (drop_bit 2 c AND 0x02) OR (c AND 0x01);
             sb = ((fst sb)\<lparr>grp_a := ga, grp_b := gb\<rparr>, snd sb)
         in turn_c P dc (turn_b P db (turn_a P da (value, sb))))
      else
        (let bit = unat (drop_bit 1 c AND 0x07);
             val = c AND 0x01
         in if dir_c (fst sb) = 0 then
              (let sb = ((fst sb)\<lparr>port_c := (port_c (fst sb) AND NOT (push_bit bit 1)) OR push_bit bit val\<rparr>, snd sb)
               in cb_port_c_wr P (port_c (fst sb)) sb)
            else (value, sb)))"

section \<open>The contract with the board\<close>

locale ppi_rel =
  fixes P :: "'b ppi_iface" and Q :: "ppi_state \<times> 'b \<Rightarrow> bool"
  assumes Q_ppi: "Q (s, b) \<Longrightarrow> Q (s', b)"
    and Q_read: "Q sb \<Longrightarrow> Q (snd (cb_port_a_rd P x sb))" "Q sb \<Longrightarrow> Q (snd (cb_port_b_rd P x sb))"
      "Q sb \<Longrightarrow> Q (snd (cb_port_c_rd P x sb))"
    and Q_write: "Q sb \<Longrightarrow> Q (snd (cb_port_a_wr P x sb))" "Q sb \<Longrightarrow> Q (snd (cb_port_b_wr P x sb))"
      "Q sb \<Longrightarrow> Q (snd (cb_port_c_wr P x sb))"
begin

lemma Q_fst: "Q sb \<Longrightarrow> Q (f (fst sb), snd sb)"
  using Q_ppi by (cases sb) auto

lemma Q_result: "Q (snd r) \<Longrightarrow> Q (snd (case r of (v, s, b) \<Rightarrow> (v, f v s, b)))"
  using Q_ppi by (cases r) auto

lemmas keeps_rules = Q_fst Q_read Q_write Q_result

lemma ports_keep:
  "Q sb \<Longrightarrow> Q (snd (rd_port_a P x sb))" "Q sb \<Longrightarrow> Q (snd (wr_port_a P x sb))"
  "Q sb \<Longrightarrow> Q (snd (rd_port_b P x sb))" "Q sb \<Longrightarrow> Q (snd (wr_port_b P x sb))"
  "Q sb \<Longrightarrow> Q (snd (rd_port_c P x sb))" "Q sb \<Longrightarrow> Q (snd (wr_port_c P x sb))"
  by (simp_all add: rd_port_a_def wr_port_a_def rd_port_b_def wr_port_b_def rd_port_c_def wr_port_c_def
      Let_def keeps_rules)

lemma turns_keep:
  "Q (snd vsb) \<Longrightarrow> Q (snd (turn_a P d vsb))" "Q (snd vsb) \<Longrightarrow> Q (snd (turn_b P d vsb))"
  "Q (snd vsb) \<Longrightarrow> Q (snd (turn_c P d vsb))"
  by (simp_all add: turn_a_def turn_b_def turn_c_def Let_def keeps_rules)

lemma wr_ctrl_keeps: "Q sb \<Longrightarrow> Q (snd (wr_ctrl_p P x sb))"
  by (auto simp: wr_ctrl_p_def Let_def simp del: push_bit_and intro!: turns_keep Q_write intro: Q_fst)

end

end
