(* ===== verification/CPC_Psg.thy ===== *)
theory CPC_Psg
  imports Complex_Main Prelude
begin

text \<open>
  The sound generator (\<^verbatim>\<open>lib/xcpc/amstrad/psg/psg-core.cc\<close>): its sixteen registers and the
  tone, noise and envelope generators they drive.  The samples are \<^verbatim>\<open>float\<close>s in the source:
  a constant of the table of the converter, or zero.  They are exact rationals here; the rounding
  of the constants to 24 bits is not modelled.
\<close>

unbundle bit_operations_syntax

section \<open>State\<close>

record psg_sound =
  s_counter :: u16
  s_period :: u16
  s_phase :: u8
  s_amplitude :: u8

record psg_noise =
  n_counter :: u16
  n_period :: u16
  n_shift :: u32
  n_phase :: u8

record psg_envelope =
  e_counter :: u16
  e_period :: u16
  e_shape :: u8
  e_phase :: u8
  e_amplitude :: u8

record psg_channels =
  channel0 :: rat
  channel1 :: rat
  channel2 :: rat

text \<open>The members of an instance: the \<^verbatim>\<open>State\<close>, then the generators and the output.\<close>

record psg_state =
  psg_ticks :: u32
  psg_index :: u8
  psg_array :: "u8 list"
  has_sound :: "u8 list"
  has_noise :: "u8 list"
  dir_port :: "u8 list"
  dac :: "rat list"
  sounds :: "psg_sound list"
  noise :: psg_noise
  envelope :: psg_envelope
  psg_out :: psg_channels

record 'b psg_iface =
  cb_psg_port_a_rd :: "u8 \<Rightarrow> psg_state \<times> 'b \<Rightarrow> u8 \<times> psg_state \<times> 'b"
  cb_psg_port_a_wr :: "u8 \<Rightarrow> psg_state \<times> 'b \<Rightarrow> u8 \<times> psg_state \<times> 'b"
  cb_psg_port_b_rd :: "u8 \<Rightarrow> psg_state \<times> 'b \<Rightarrow> u8 \<times> psg_state \<times> 'b"
  cb_psg_port_b_wr :: "u8 \<Rightarrow> psg_state \<times> 'b \<Rightarrow> u8 \<times> psg_state \<times> 'b"

definition ay_dac :: "rat list" where
  "ay_dac = [0, 0, 99947/10000000, 99947/10000000,
     144503/10000000, 144503/10000000, 210575/10000000, 210575/10000000,
     307012/10000000, 307012/10000000, 455482/10000000, 455482/10000000,
     644999/10000000, 644999/10000000, 1073625/10000000, 1073625/10000000,
     1265888/10000000, 1265888/10000000, 2049897/10000000, 2049897/10000000,
     2922103/10000000, 2922103/10000000, 3728389/10000000, 3728389/10000000,
     4925307/10000000, 4925307/10000000, 6353246/10000000, 6353246/10000000,
     8055848/10000000, 8055848/10000000, 1, 1]"

section \<open>Tone generators\<close>

definition sound_reset :: "psg_sound \<Rightarrow> psg_sound" where
  "sound_reset s = \<lparr>s_counter = s_counter s AND 0, s_period = s_period s AND 0, s_phase = s_phase s AND 0,
     s_amplitude = s_amplitude s AND 0\<rparr>"

definition sound_clock :: "psg_sound \<Rightarrow> psg_sound" where
  "sound_clock s = (if s_period s = 0 then s else
     (let s = s\<lparr>s_counter := s_counter s + 1\<rparr> in
      if s_period s \<le> s_counter s then s\<lparr>s_counter := 0, s_phase := s_phase s XOR 1\<rparr> else s))"

definition sound_set_fine_tune :: "u8 \<Rightarrow> psg_sound \<Rightarrow> psg_sound" where
  "sound_set_fine_tune x s = s\<lparr>s_period := (s_period s AND 0xff00) OR ucast x\<rparr>"

definition sound_set_coarse_tune :: "u8 \<Rightarrow> psg_sound \<Rightarrow> psg_sound" where
  "sound_set_coarse_tune x s = s\<lparr>s_period := (s_period s AND 0x00ff) OR push_bit 8 (ucast x)\<rparr>"

definition sound_set_amplitude :: "u8 \<Rightarrow> psg_sound \<Rightarrow> psg_sound" where
  "sound_set_amplitude x s = s\<lparr>s_amplitude := (push_bit 1 x AND 0x3e) OR (drop_bit 3 x AND 0x01)\<rparr>"

section \<open>The noise generator\<close>

definition noise_reset :: "psg_noise \<Rightarrow> psg_noise" where
  "noise_reset s = \<lparr>n_counter = n_counter s AND 0, n_period = n_period s AND 0, n_shift = n_shift s AND 0,
     n_phase = n_phase s AND 0\<rparr>"

text \<open>A linear feedback shift register of 17 bits, fed with the complement of bit 0 xor bit 3.\<close>

definition noise_shift :: "u32 \<Rightarrow> u32" where
  "noise_shift lfsr = (NOT (push_bit 16 lfsr XOR push_bit 13 lfsr) AND 0x10000) OR (drop_bit 1 lfsr AND 0x0ffff)"

definition noise_clock :: "psg_noise \<Rightarrow> psg_noise" where
  "noise_clock s = (if n_period s = 0 then s else
     (let s = s\<lparr>n_counter := n_counter s + 1\<rparr> in
      if n_period s \<le> n_counter s
      then s\<lparr>n_counter := 0, n_shift := noise_shift (n_shift s), n_phase := ucast (n_shift s AND 1)\<rparr> else s))"

definition noise_set_fine_tune :: "u8 \<Rightarrow> psg_noise \<Rightarrow> psg_noise" where
  "noise_set_fine_tune x s = s\<lparr>n_period := (n_period s AND 0xff00) OR ucast x\<rparr>"

section \<open>The envelope generator\<close>

datatype ramp = RAMP_UP | RAMP_DOWN | HOLD_UP | HOLD_DOWN

definition cycles :: "(ramp \<times> ramp) list" where
  "cycles = [(RAMP_DOWN, HOLD_DOWN), (RAMP_DOWN, HOLD_DOWN), (RAMP_DOWN, HOLD_DOWN), (RAMP_DOWN, HOLD_DOWN),
     (RAMP_UP, HOLD_DOWN), (RAMP_UP, HOLD_DOWN), (RAMP_UP, HOLD_DOWN), (RAMP_UP, HOLD_DOWN),
     (RAMP_DOWN, RAMP_DOWN), (RAMP_DOWN, HOLD_DOWN), (RAMP_DOWN, RAMP_UP), (RAMP_DOWN, HOLD_UP),
     (RAMP_UP, RAMP_UP), (RAMP_UP, HOLD_UP), (RAMP_UP, RAMP_DOWN), (RAMP_UP, HOLD_DOWN)]"

definition envelope_reset :: "psg_envelope \<Rightarrow> psg_envelope" where
  "envelope_reset s = \<lparr>e_counter = e_counter s AND 0, e_period = e_period s AND 0, e_shape = e_shape s AND 0,
     e_phase = e_phase s AND 0, e_amplitude = e_amplitude s AND 0\<rparr>"

definition envelope_ramp :: "psg_envelope \<Rightarrow> ramp" where
  "envelope_ramp s = (let p = cycles ! unat (e_shape s) in if e_phase s = 0 then fst p else snd p)"

definition envelope_step :: "psg_envelope \<Rightarrow> psg_envelope" where
  "envelope_step s = (case envelope_ramp s of
       RAMP_UP \<Rightarrow> (let s = s\<lparr>e_amplitude := (e_amplitude s + 1) AND 0x1f\<rparr> in
                    if e_amplitude s = 0x1f then s\<lparr>e_phase := e_phase s XOR 1\<rparr> else s)
     | RAMP_DOWN \<Rightarrow> (let s = s\<lparr>e_amplitude := (e_amplitude s - 1) AND 0x1f\<rparr> in
                    if e_amplitude s = 0x00 then s\<lparr>e_phase := e_phase s XOR 1\<rparr> else s)
     | HOLD_UP \<Rightarrow> s\<lparr>e_amplitude := 0x1f\<rparr>
     | HOLD_DOWN \<Rightarrow> s\<lparr>e_amplitude := 0x00\<rparr>)"

definition envelope_clock :: "psg_envelope \<Rightarrow> psg_envelope" where
  "envelope_clock s = (let s = s\<lparr>e_counter := e_counter s + 1\<rparr> in
     if e_period s \<le> e_counter s then envelope_step (s\<lparr>e_counter := 0\<rparr>) else s)"

definition envelope_set_fine_tune :: "u8 \<Rightarrow> psg_envelope \<Rightarrow> psg_envelope" where
  "envelope_set_fine_tune x s = s\<lparr>e_period := (e_period s AND 0xff00) OR ucast x\<rparr>"

definition envelope_set_coarse_tune :: "u8 \<Rightarrow> psg_envelope \<Rightarrow> psg_envelope" where
  "envelope_set_coarse_tune x s = s\<lparr>e_period := (e_period s AND 0x00ff) OR push_bit 8 (ucast x)\<rparr>"

definition envelope_set_shape :: "u8 \<Rightarrow> psg_envelope \<Rightarrow> psg_envelope" where
  "envelope_set_shape x s =
     s\<lparr>e_shape := x, e_phase := 0, e_amplitude := (if x AND 0x04 = 0 then 0x1f else 0x00)\<rparr>"

section \<open>Reset and clock\<close>

definition psg_reset :: "psg_state \<Rightarrow> psg_state" where
  "psg_reset s = s\<lparr>psg_ticks := psg_ticks s AND 0, psg_index := psg_index s AND 0,
     psg_array := map (\<lambda>v. v AND 0) (psg_array s), has_sound := map (\<lambda>v. v AND 0) (has_sound s),
     has_noise := map (\<lambda>v. v AND 0) (has_noise s), dir_port := map (\<lambda>v. v AND 0) (dir_port s),
     sounds := map sound_reset (sounds s), noise := noise_reset (noise s),
     envelope := envelope_reset (envelope s), psg_out := \<lparr>channel0 = 0, channel1 = 0, channel2 = 0\<rparr>\<rparr>"

definition fixup :: "nat \<Rightarrow> nat \<Rightarrow> psg_sound list \<Rightarrow> psg_sound list" where
  "fixup l r ss = (let lhs = ss ! l; rhs = ss ! r in
     if s_period lhs = s_period rhs \<and> s_counter lhs \<noteq> s_counter rhs
     then ss[r := rhs\<lparr>s_counter := s_counter lhs, s_phase := s_phase lhs\<rparr>] else ss)"

definition psg_prepare :: "psg_sound list \<Rightarrow> psg_sound list" where
  "psg_prepare ss = fixup 1 2 (fixup 0 2 (fixup 0 1 ss))"

definition psg_get_output :: "nat \<Rightarrow> psg_state \<Rightarrow> rat" where
  "psg_get_output n s = (let
     chan = sounds s ! n;
     sig_sound = (if has_sound s ! n \<noteq> 0 then s_phase chan else 1);
     sig_noise = (if has_noise s ! n \<noteq> 0 then n_phase (noise s) else 1);
     amplitude = (if s_amplitude chan AND 0x20 \<noteq> 0 then e_amplitude (envelope s) AND 0x1f else s_amplitude chan AND 0x1f);
     output = sig_sound AND sig_noise
   in of_nat (unat output) * dac s ! unat amplitude)"

definition psg_output :: "psg_state \<Rightarrow> psg_state" where
  "psg_output s = s\<lparr>psg_out := \<lparr>channel0 = psg_get_output 0 s, channel1 = psg_get_output 1 s, channel2 = psg_get_output 2 s\<rparr>\<rparr>"

definition psg_clock :: "psg_state \<Rightarrow> psg_state" where
  "psg_clock s = (let s = s\<lparr>psg_ticks := psg_ticks s + 1\<rparr> in
     if psg_ticks s AND 0x07 = 0 then
       psg_output (s\<lparr>sounds := map sound_clock (psg_prepare (sounds s)), noise := noise_clock (noise s),
                     envelope := envelope_clock (envelope s)\<rparr>)
     else s)"

section \<open>Registers\<close>

definition psg_get_index :: "u8 \<Rightarrow> psg_state \<Rightarrow> u8" where
  "psg_get_index index s = psg_index s"

definition psg_set_index :: "u8 \<Rightarrow> psg_state \<Rightarrow> u8 \<times> psg_state" where
  "psg_set_index index s = (index, s\<lparr>psg_index := index\<rparr>)"

definition set_mixer_and_io_control :: "u8 \<Rightarrow> psg_state \<Rightarrow> psg_state" where
  "set_mixer_and_io_control x s = (let clear = (\<lambda>m. if x AND m = 0 then 1 else 0); is_set = (\<lambda>m. if x AND m \<noteq> 0 then 1 else 0) in
     s\<lparr>has_sound := [clear 0x01, clear 0x02, clear 0x04], has_noise := [clear 0x08, clear 0x10, clear 0x20],
       dir_port := [is_set 0x40, is_set 0x80]\<rparr>)"

text \<open>The bits of each register the instance keeps, the \<^verbatim>\<open>&=\<close> of each \<^verbatim>\<open>case\<close>.\<close>

definition psg_mask :: "u8 \<Rightarrow> u8" where
  "psg_mask index =
     (if index = 1 \<or> index = 3 \<or> index = 5 \<or> index = 13 then 0x0f
      else if index = 6 \<or> index = 8 \<or> index = 9 \<or> index = 10 then 0x1f else 0xff)"

definition put_array :: "u8 \<Rightarrow> psg_state \<Rightarrow> psg_state" where
  "put_array x s = s\<lparr>psg_array := (psg_array s)[unat (psg_index s AND 0x0f) := x]\<rparr>"

definition psg_get_value :: "'b psg_iface \<Rightarrow> u8 \<Rightarrow> psg_state \<times> 'b \<Rightarrow> u8 \<times> psg_state \<times> 'b" where
  "psg_get_value G value sb = (let (s, b) = sb; index = psg_index s in
     if index < 16 then
       (let x = psg_array s ! unat (index AND 0x0f) AND psg_mask index;
            s = put_array x s
        in if index = 14 \<and> dir_port s ! 0 = 0 then cb_psg_port_a_rd G x (s, b)
           else if index = 15 \<and> dir_port s ! 1 = 0 then cb_psg_port_b_rd G x (s, b)
           else (x, s, b))
     else (value, s, b))"

text \<open>The generator that the register drives.\<close>

definition on_sound :: "nat \<Rightarrow> (psg_sound \<Rightarrow> psg_sound) \<Rightarrow> psg_state \<Rightarrow> psg_state" where
  "on_sound n f s = s\<lparr>sounds := (sounds s)[n := f (sounds s ! n)]\<rparr>"

definition psg_drive :: "u8 \<Rightarrow> u8 \<Rightarrow> psg_state \<Rightarrow> psg_state" where
  "psg_drive index x s =
     (if index = 0 then on_sound 0 (sound_set_fine_tune x) s
      else if index = 1 then on_sound 0 (sound_set_coarse_tune x) s
      else if index = 2 then on_sound 1 (sound_set_fine_tune x) s
      else if index = 3 then on_sound 1 (sound_set_coarse_tune x) s
      else if index = 4 then on_sound 2 (sound_set_fine_tune x) s
      else if index = 5 then on_sound 2 (sound_set_coarse_tune x) s
      else if index = 6 then s\<lparr>noise := noise_set_fine_tune x (noise s)\<rparr>
      else if index = 7 then set_mixer_and_io_control x s
      else if index = 8 then on_sound 0 (sound_set_amplitude x) s
      else if index = 9 then on_sound 1 (sound_set_amplitude x) s
      else if index = 10 then on_sound 2 (sound_set_amplitude x) s
      else if index = 11 then s\<lparr>envelope := envelope_set_fine_tune x (envelope s)\<rparr>
      else if index = 12 then s\<lparr>envelope := envelope_set_coarse_tune x (envelope s)\<rparr>
      else if index = 13 then s\<lparr>envelope := envelope_set_shape x (envelope s)\<rparr>
      else s)"

text \<open>The reference \<^verbatim>\<open>array\<close> is taken before the callback runs and assigned after it.\<close>

definition psg_set_value :: "'b psg_iface \<Rightarrow> u8 \<Rightarrow> psg_state \<times> 'b \<Rightarrow> u8 \<times> psg_state \<times> 'b" where
  "psg_set_value G value sb = (let (s, b) = sb; index = psg_index s in
     if index < 16 then
       (let x = value AND psg_mask index;
            (y, s, b) = (if index = 14 \<and> dir_port s ! 0 \<noteq> 0 then cb_psg_port_a_wr G x (s, b)
                         else if index = 15 \<and> dir_port s ! 1 \<noteq> 0 then cb_psg_port_b_wr G x (s, b)
                         else (x, psg_drive index x s, b))
        in (x, s\<lparr>psg_array := (psg_array s)[unat (index AND 0x0f) := y]\<rparr>, b))
     else (value, s, b))"

section \<open>The contract with the board\<close>

locale psg_rel =
  fixes G :: "'b psg_iface" and Q :: "psg_state \<times> 'b \<Rightarrow> bool"
  assumes Q_psg: "Q (s, b) \<Longrightarrow> Q (s', b)"
    and Q_callback: "Q sb \<Longrightarrow> Q (snd (cb_psg_port_a_rd G x sb))" "Q sb \<Longrightarrow> Q (snd (cb_psg_port_a_wr G x sb))"
      "Q sb \<Longrightarrow> Q (snd (cb_psg_port_b_rd G x sb))" "Q sb \<Longrightarrow> Q (snd (cb_psg_port_b_wr G x sb))"
begin

lemma Q_result: "Q (snd r) \<Longrightarrow> Q (s, snd (snd r))"
  using Q_psg by (cases r) auto

lemma get_value_keeps: "Q sb \<Longrightarrow> Q (snd (psg_get_value G x sb))"
  by (cases sb) (auto simp: psg_get_value_def Let_def intro: Q_psg Q_callback)

lemma set_value_keeps: "Q sb \<Longrightarrow> Q (snd (psg_set_value G x sb))"
  unfolding psg_set_value_def Let_def case_prod_unfold
  by (cases sb) (auto intro: Q_psg Q_callback Q_result)

end

end
