(* ===== verification/CPC_Board.thy ===== *)
theory CPC_Board
  imports Z80_Time FDC_Core CPC_Vga CPC_Vdc CPC_Ppi CPC_Psg
begin

text \<open>
  The main board (\<^verbatim>\<open>lib/xcpc/amstrad/cpc/cpc-mainboard.cc\<close>) with the memory banks
  (\<^verbatim>\<open>mem/mem-core.cc\<close>) and the keyboard (\<^verbatim>\<open>kbd/kbd-core.cc\<close>): the state, the
  memory banking, and the callbacks that the CPU and the devices make.  The board is kept apart
  from the state of the CPU, because the CPU hands its state to the callbacks it makes; a device
  that the board calls is taken out of it, runs on the rest, and is put back.

  The floppy disk controller can run into undefined behaviour (a transfer that never ends, a
  buffer overrun); \<open>b_fdc\<close> is \<^term>\<open>None\<close> from then on.
\<close>

unbundle bit_operations_syntax

section \<open>Memory banks\<close>

datatype bank_type = ROM_BANK | RAM_BANK

text \<open>The 16384 bytes of a bank, by their offset.\<close>

record mem_state =
  mem_type :: bank_type
  mem_data :: "u16 \<Rightarrow> u8"

definition mem_reset :: "mem_state \<Rightarrow> mem_state" where
  "mem_reset m = (case mem_type m of
     ROM_BANK \<Rightarrow> m\<lparr>mem_data := \<lambda>a. mem_data m a OR 0\<rparr>
   | RAM_BANK \<Rightarrow> m\<lparr>mem_data := \<lambda>a. mem_data m a AND 0\<rparr>)"

abbreviation bank_size :: nat where "bank_size \<equiv> 16384"

text \<open>
  \<^verbatim>\<open>Instance::load\<close>: the message of the exception, if one is thrown, and the bank, into
  which a short read has already put what it could read.
\<close>

definition mem_load :: "string \<Rightarrow> nat \<Rightarrow> file_system \<Rightarrow> mem_state \<Rightarrow> string option \<times> mem_state" where
  "mem_load filename offset fs m = (case fopen_read filename fs of
     None \<Rightarrow> (Some ''fopen() has failed'', m)
   | Some fp \<Rightarrow>
       (let xs = fst (fread bank_size (fseek_set (int offset) fp) fs);
            m = m\<lparr>mem_data := \<lambda>a. if unat a < length xs then xs ! unat a else mem_data m a\<rparr>
        in (if length xs \<noteq> bank_size then Some ''fread() has failed'' else None, m)))"

section \<open>Keyboard\<close>

record kbd_state =
  kbd_mode :: u8
  kbd_line :: u8
  kbd_keys :: "u8 list"

definition kbd_reset :: "kbd_state \<Rightarrow> kbd_state" where
  "kbd_reset s = s\<lparr>kbd_mode := kbd_mode s AND 0, kbd_line := kbd_line s AND 0,
     kbd_keys := map (\<lambda>k. k OR 0xff) (kbd_keys s)\<rparr>"

definition kbd_set_line :: "u8 \<Rightarrow> kbd_state \<Rightarrow> u8 \<times> kbd_state" where
  "kbd_set_line line s = (line, s\<lparr>kbd_line := line\<rparr>)"

definition kbd_get_data :: "kbd_state \<Rightarrow> u8" where
  "kbd_get_data s = (if kbd_line s < 16 then kbd_keys s ! unat (kbd_line s) else 0xff)"

definition update_key :: "nat \<Rightarrow> (u8 \<Rightarrow> u8) \<Rightarrow> kbd_state \<Rightarrow> kbd_state" where
  "update_key n f s = s\<lparr>kbd_keys := (kbd_keys s)[n := f (kbd_keys s ! n)]\<rparr>"

text \<open>
  A key event.  Which key of the matrix it is, and the modifiers it asks for, is decoded through
  the X library: \<open>decode\<close> maps the current modifiers to the line, the bit and the new modifiers.
\<close>

definition on_key_press :: "(u8 \<Rightarrow> u8 \<times> u8 \<times> u8) \<Rightarrow> kbd_state \<Rightarrow> kbd_state" where
  "on_key_press decode s = (case decode (NOT (kbd_keys s ! 15)) of (line, data, mods) \<Rightarrow>
     if line \<le> 0x0f \<and> data \<noteq> 0 then
       (let s = (if mods AND 0x01 \<noteq> 0 then update_key 2 (\<lambda>k. k AND NOT 0x20) s else s);
            s = (if mods AND 0x02 \<noteq> 0 then update_key 2 (\<lambda>k. k AND NOT 0x80) s else s);
            s = update_key (unat line) (\<lambda>k. k AND NOT data) s
        in update_key 15 (\<lambda>_. NOT mods) s)
     else s)"

section \<open>State\<close>

text \<open>The bank a pointer of \<^verbatim>\<open>pal_rd\<close> or \<^verbatim>\<open>pal_wr\<close> points into.\<close>

datatype bank = Null | RAM nat | ROM nat | EXP u8

record audio_state =
  a_channel0 :: "nat \<Rightarrow> rat"
  a_channel1 :: "nat \<Rightarrow> rat"
  a_channel2 :: "nat \<Rightarrow> rat"
  a_rd_index :: u32
  a_wr_index :: u32
  a_acc0 :: rat
  a_acc1 :: rat
  a_acc2 :: rat
  a_acc_count :: u32

record 'd board =
  memory_size :: u32
  frame_rate :: u32
  cpc_flags :: u32
  cpc_clock :: u32
  cpc_ticks :: u32
  cpu_clock :: u32
  cpu_ticks :: u32
  vdc_clock_rate :: u32
  vdc_ticks :: u32
  psg_clock_rate :: u32
  psg_ticks_acc :: u32
  snd_clock :: u32
  snd_ticks :: u32
  vdc_hsync :: u8
  vdc_vsync :: u8
  lnk_lk1 :: u8
  lnk_lk2 :: u8
  lnk_lk3 :: u8
  lnk_lk4 :: u8
  exp_busy :: u8
  prt_busy :: u8
  psg_data :: u8
  psg_bdir :: u8
  psg_bc1 :: u8
  psg_bc2 :: u8
  cas_motor :: u8
  cas_sound :: u8
  cas_rd_data :: u8
  cas_wr_data :: u8
  ram_conf :: u8
  rom_conf :: u8
  pal_rd :: "nat \<Rightarrow> bank"
  pal_wr :: "nat \<Rightarrow> bank"
  b_audio :: audio_state
  b_kbd :: kbd_state
  b_vga :: vga_state
  b_vdc :: vdc_state
  b_ppi :: ppi_state
  b_psg :: psg_state
  b_fdc :: "'d fdc_instance option"
  b_ram :: "nat \<Rightarrow> mem_state"
  b_rom :: "nat \<Rightarrow> mem_state option"
  b_exp :: "u8 \<Rightarrow> mem_state option"

text \<open>The CPU and the board, what a device sees of the machine around it.\<close>

type_synonym 'd host = "State \<times> 'd board"

section \<open>Memory banking\<close>

text \<open>The RAM banks of the four quarters of the address space, for each RAM configuration.\<close>

definition ram_banks :: "u8 \<Rightarrow> nat list option" where
  "ram_banks conf =
     (if conf = 0x00 then Some [0, 1, 2, 3]
      else if conf = 0x01 then Some [0, 1, 2, 7]
      else if conf = 0x02 then Some [4, 5, 6, 7]
      else if conf = 0x03 then Some [0, 3, 2, 7]
      else if conf = 0x04 then Some [0, 4, 2, 3]
      else if conf = 0x05 then Some [0, 5, 2, 3]
      else if conf = 0x06 then Some [0, 6, 2, 3]
      else if conf = 0x07 then Some [0, 7, 2, 3]
      else None)"

definition map_ram :: "nat list \<Rightarrow> 'd board \<Rightarrow> 'd board" where
  "map_ram ns b = b\<lparr>pal_rd := \<lambda>i. if i < 4 then RAM (ns ! i) else pal_rd b i,
                    pal_wr := \<lambda>i. if i < 4 then RAM (ns ! i) else pal_wr b i\<rparr>"

text \<open>The sizes are values of an enumeration whose unknown value is -1, and compare as an \<^verbatim>\<open>int\<close>.\<close>

definition large_memory :: "'d board \<Rightarrow> bool" where
  "large_memory b \<longleftrightarrow> word_sle 0x20000 (memory_size b)"

definition pal_ram :: "'d board \<Rightarrow> 'd board" where
  "pal_ram b =
     (if large_memory b then
        (case ram_banks (ram_conf b AND 0x3f) of Some ns \<Rightarrow> map_ram ns b | None \<Rightarrow> b)
      else map_ram [0, 1, 2, 3] b)"

definition pal_lower :: "'d board \<Rightarrow> 'd board" where
  "pal_lower b = (if rmr (b_vga b) AND 0x04 = 0 \<and> b_rom b 0 \<noteq> None
     then b\<lparr>pal_rd := (pal_rd b)(0 := ROM 0)\<rparr> else b)"

definition pal_upper :: "'d board \<Rightarrow> 'd board" where
  "pal_upper b = (if rmr (b_vga b) AND 0x08 = 0 then
     (let b = (if b_rom b 1 \<noteq> None then b\<lparr>pal_rd := (pal_rd b)(3 := ROM 1)\<rparr> else b)
      in if b_exp b (rom_conf b) \<noteq> None then b\<lparr>pal_rd := (pal_rd b)(3 := EXP (rom_conf b))\<rparr> else b)
     else b)"

definition update_pal :: "'d board \<Rightarrow> 'd board" where
  "update_pal b = pal_upper (pal_lower (pal_ram b))"

lemma update_pal_only: "\<exists>P Q. update_pal b = b\<lparr>pal_rd := P, pal_wr := Q\<rparr>"
proof -
  have ram: "\<exists>P Q. pal_ram b = b\<lparr>pal_rd := P, pal_wr := Q\<rparr>" for b :: "'a board"
    unfolding pal_ram_def map_ram_def by (cases b) (auto split: option.split)
  have lower: "\<exists>P Q. pal_lower b = b\<lparr>pal_rd := P, pal_wr := Q\<rparr>" for b :: "'a board"
    unfolding pal_lower_def by (cases b) auto
  have upper: "\<exists>P Q. pal_upper b = b\<lparr>pal_rd := P, pal_wr := Q\<rparr>" for b :: "'a board"
    unfolding pal_upper_def Let_def by (cases b) auto
  obtain P Q where 1: "pal_ram b = b\<lparr>pal_rd := P, pal_wr := Q\<rparr>" using ram by blast
  obtain P' Q' where 2: "pal_lower (pal_ram b) = (pal_ram b)\<lparr>pal_rd := P', pal_wr := Q'\<rparr>" using lower by blast
  obtain P'' Q'' where 3: "update_pal b = (pal_lower (pal_ram b))\<lparr>pal_rd := P'', pal_wr := Q''\<rparr>"
    using upper unfolding update_pal_def by blast
  have "update_pal b = b\<lparr>pal_rd := P'', pal_wr := Q''\<rparr>" by (simp add: 3 2) (simp add: 1)
  then show ?thesis by blast
qed

lemma update_pal_fields [simp]:
  "b_vga (update_pal b) = b_vga b" "b_vdc (update_pal b) = b_vdc b" "b_kbd (update_pal b) = b_kbd b"
  "b_psg (update_pal b) = b_psg b" "b_ppi (update_pal b) = b_ppi b" "b_fdc (update_pal b) = b_fdc b"
  "b_ram (update_pal b) = b_ram b" "b_rom (update_pal b) = b_rom b" "b_exp (update_pal b) = b_exp b"
  "b_audio (update_pal b) = b_audio b" "memory_size (update_pal b) = memory_size b"
  "ram_conf (update_pal b) = ram_conf b" "rom_conf (update_pal b) = rom_conf b"
  "lnk_lk1 (update_pal b) = lnk_lk1 b" "lnk_lk2 (update_pal b) = lnk_lk2 b" "lnk_lk3 (update_pal b) = lnk_lk3 b"
  "lnk_lk4 (update_pal b) = lnk_lk4 b" "exp_busy (update_pal b) = exp_busy b" "prt_busy (update_pal b) = prt_busy b"
  "vdc_vsync (update_pal b) = vdc_vsync b" "cas_rd_data (update_pal b) = cas_rd_data b"
  "frame_rate (update_pal b) = frame_rate b" "cpc_clock (update_pal b) = cpc_clock b" "snd_clock (update_pal b) = snd_clock b"
  "cpu_clock (update_pal b) = cpu_clock b" "vdc_clock_rate (update_pal b) = vdc_clock_rate b"
  "psg_clock_rate (update_pal b) = psg_clock_rate b" "cpc_flags (update_pal b) = cpc_flags b"
  "cpc_ticks (update_pal b) = cpc_ticks b" "cpu_ticks (update_pal b) = cpu_ticks b" "vdc_ticks (update_pal b) = vdc_ticks b"
  "psg_ticks_acc (update_pal b) = psg_ticks_acc b" "snd_ticks (update_pal b) = snd_ticks b" "vdc_hsync (update_pal b) = vdc_hsync b"
  "psg_data (update_pal b) = psg_data b" "psg_bdir (update_pal b) = psg_bdir b" "psg_bc1 (update_pal b) = psg_bc1 b"
  "psg_bc2 (update_pal b) = psg_bc2 b" "cas_motor (update_pal b) = cas_motor b" "cas_sound (update_pal b) = cas_sound b"
  "cas_wr_data (update_pal b) = cas_wr_data b"
  using update_pal_only [of b] by auto

lemma large_memory_same [simp]:
  "large_memory (update_pal b) = large_memory b" "large_memory (b\<lparr>ram_conf := x\<rparr>) = large_memory b"
  "large_memory (b\<lparr>b_vga := v\<rparr>) = large_memory b"
  by (simp_all add: large_memory_def)

definition bank_byte :: "'d board \<Rightarrow> bank \<Rightarrow> u16 \<Rightarrow> u8" where
  "bank_byte b k off = (case k of
     Null \<Rightarrow> 0
   | RAM i \<Rightarrow> mem_data (b_ram b i) off
   | ROM i \<Rightarrow> (case b_rom b i of Some m \<Rightarrow> mem_data m off | None \<Rightarrow> 0)
   | EXP i \<Rightarrow> (case b_exp b i of Some m \<Rightarrow> mem_data m off | None \<Rightarrow> 0))"

definition poke :: "u16 \<Rightarrow> u8 \<Rightarrow> mem_state \<Rightarrow> mem_state" where
  "poke off x m = m\<lparr>mem_data := (mem_data m)(off := x)\<rparr>"

definition bank_write :: "bank \<Rightarrow> u16 \<Rightarrow> u8 \<Rightarrow> 'd board \<Rightarrow> 'd board" where
  "bank_write k off x b = (case k of
     Null \<Rightarrow> b
   | RAM i \<Rightarrow> b\<lparr>b_ram := (b_ram b)(i := poke off x (b_ram b i))\<rparr>
   | ROM i \<Rightarrow> b\<lparr>b_rom := (b_rom b)(i := map_option (poke off x) (b_rom b i))\<rparr>
   | EXP i \<Rightarrow> b\<lparr>b_exp := (b_exp b)(i := map_option (poke off x) (b_exp b i))\<rparr>)"

section \<open>Calling a device\<close>

definition on_vga :: "(vga_state \<times> 'd host \<Rightarrow> 'x \<times> vga_state \<times> 'd host) \<Rightarrow> 'd host \<Rightarrow> 'x \<times> 'd host" where
  "on_vga f h = (case f (b_vga (snd h), h) of (x, s, c, b) \<Rightarrow> (x, c, b\<lparr>b_vga := s\<rparr>))"

definition on_vdc :: "(vdc_state \<times> 'd host \<Rightarrow> 'x \<times> vdc_state \<times> 'd host) \<Rightarrow> 'd host \<Rightarrow> 'x \<times> 'd host" where
  "on_vdc f h = (case f (b_vdc (snd h), h) of (x, s, c, b) \<Rightarrow> (x, c, b\<lparr>b_vdc := s\<rparr>))"

definition on_ppi :: "(ppi_state \<times> 'd host \<Rightarrow> 'x \<times> ppi_state \<times> 'd host) \<Rightarrow> 'd host \<Rightarrow> 'x \<times> 'd host" where
  "on_ppi f h = (case f (b_ppi (snd h), h) of (x, s, c, b) \<Rightarrow> (x, c, b\<lparr>b_ppi := s\<rparr>))"

definition on_psg :: "(psg_state \<times> 'd host \<Rightarrow> 'x \<times> psg_state \<times> 'd host) \<Rightarrow> 'd host \<Rightarrow> 'x \<times> 'd host" where
  "on_psg f h = (case f (b_psg (snd h), h) of (x, s, c, b) \<Rightarrow> (x, c, b\<lparr>b_psg := s\<rparr>))"

definition on_fdc :: "('d fdc_instance \<Rightarrow> (u8 \<times> 'd fdc_instance) option) \<Rightarrow> 'd host \<Rightarrow> u8 \<times> 'd host" where
  "on_fdc f h = (case Option.bind (b_fdc (snd h)) f of
     None \<Rightarrow> (0, fst h, (snd h)\<lparr>b_fdc := None\<rparr>)
   | Some (x, i) \<Rightarrow> (x, fst h, (snd h)\<lparr>b_fdc := Some i\<rparr>))"

section \<open>The interfaces of the devices\<close>

subsection \<open>Gate array\<close>

definition vga_raise_nmi :: "u8 \<Rightarrow> vga_state \<times> 'd host \<Rightarrow> u8 \<times> vga_state \<times> 'd host" where
  "vga_raise_nmi x = (\<lambda>(s, c, b). (x, s, pulse_nmi c, b))"

definition vga_raise_int :: "u8 \<Rightarrow> vga_state \<times> 'd host \<Rightarrow> u8 \<times> vga_state \<times> 'd host" where
  "vga_raise_int x = (\<lambda>(s, c, b). (x, s, pulse_int c, b))"

definition vga_setup_ram :: "u8 \<Rightarrow> vga_state \<times> 'd host \<Rightarrow> u8 \<times> vga_state \<times> 'd host" where
  "vga_setup_ram x = (\<lambda>(s, c, b). (x, s, c, update_pal (b\<lparr>b_vga := s, ram_conf := x AND 0x3f\<rparr>)))"

definition vga_setup_rom :: "u8 \<Rightarrow> vga_state \<times> 'd host \<Rightarrow> u8 \<times> vga_state \<times> 'd host" where
  "vga_setup_rom x = (\<lambda>(s, c, b). (x, s, c, update_pal (b\<lparr>b_vga := s, rom_conf := x AND 0xff\<rparr>)))"

definition vga_setup_rmr :: "u8 \<Rightarrow> vga_state \<times> 'd host \<Rightarrow> u8 \<times> vga_state \<times> 'd host" where
  "vga_setup_rmr x = (\<lambda>(s, c, b). (x, s, c, update_pal (b\<lparr>b_vga := s\<rparr>)))"

definition board_vga :: "'d host vga_iface" where
  "board_vga = \<lparr>cb_raise_nmi = vga_raise_nmi, cb_raise_int = vga_raise_int, cb_setup_ram = vga_setup_ram,
     cb_setup_rom = vga_setup_rom, cb_setup_rmr = vga_setup_rmr\<rparr>"

subsection \<open>CRT controller\<close>

definition vdc_hsync_cb :: "u8 \<Rightarrow> vdc_state \<times> 'd host \<Rightarrow> u8 \<times> vdc_state \<times> 'd host" where
  "vdc_hsync_cb x = (\<lambda>(s, c, b).
     (0x00, s, snd (on_vga (\<lambda>sb. ((), assert_hsync board_vga x sb)) (c, b\<lparr>vdc_hsync := x\<rparr>))))"

definition vdc_vsync_cb :: "u8 \<Rightarrow> vdc_state \<times> 'd host \<Rightarrow> u8 \<times> vdc_state \<times> 'd host" where
  "vdc_vsync_cb x = (\<lambda>(s, c, b).
     (0x00, s, snd (on_vga (\<lambda>(v, h). ((), assert_vsync x v, h)) (c, b\<lparr>vdc_vsync := x\<rparr>))))"

definition board_vdc :: "'d host vdc_iface" where
  "board_vdc = \<lparr>cb_hsync = vdc_hsync_cb, cb_vsync = vdc_vsync_cb\<rparr>"

subsection \<open>Sound generator\<close>

definition psg_port_a_rd :: "u8 \<Rightarrow> psg_state \<times> 'd host \<Rightarrow> u8 \<times> psg_state \<times> 'd host" where
  "psg_port_a_rd x sb = (kbd_get_data (b_kbd (snd (snd sb))), sb)"

definition psg_illegal :: "u8 \<Rightarrow> psg_state \<times> 'd host \<Rightarrow> u8 \<times> psg_state \<times> 'd host" where
  "psg_illegal x sb = (0xff, sb)"

definition board_psg :: "'d host psg_iface" where
  "board_psg = \<lparr>cb_psg_port_a_rd = psg_port_a_rd, cb_psg_port_a_wr = psg_illegal,
     cb_psg_port_b_rd = psg_illegal, cb_psg_port_b_wr = psg_illegal\<rparr>"

subsection \<open>Parallel interface\<close>

definition psg_function :: "'d board \<Rightarrow> u8" where
  "psg_function b = (push_bit 2 (psg_bdir b) OR push_bit 1 (psg_bc2 b) OR psg_bc1 b) AND 0x07"

text \<open>What port A or port C makes of the sound generator when it is written.\<close>

definition psg_update_wr :: "u8 \<Rightarrow> 'd host \<Rightarrow> u8 \<times> 'd host" where
  "psg_update_wr x h = (let f = psg_function (snd h) in
     if f = 0x06 then on_psg (psg_set_value board_psg x) h
     else if f = 0x07 then on_psg (\<lambda>(s, h). case psg_set_index x s of (v, s) \<Rightarrow> (v, s, h)) h
     else (0xff, h))"

definition ppi_port_a_rd :: "u8 \<Rightarrow> ppi_state \<times> 'd host \<Rightarrow> u8 \<times> ppi_state \<times> 'd host" where
  "ppi_port_a_rd x = (\<lambda>(s, h).
     if psg_function (snd h) = 0x03 then
       (case on_psg (psg_get_value board_psg x) h of (v, h) \<Rightarrow> (v, s, h))
     else (0xff, s, h))"

definition ppi_port_a_wr :: "u8 \<Rightarrow> ppi_state \<times> 'd host \<Rightarrow> u8 \<times> ppi_state \<times> 'd host" where
  "ppi_port_a_wr x = (\<lambda>(s, c, b).
     case psg_update_wr x (c, b\<lparr>psg_data := x\<rparr>) of (v, h) \<Rightarrow> (v, s, h))"

definition ppi_port_b_rd :: "u8 \<Rightarrow> ppi_state \<times> 'd host \<Rightarrow> u8 \<times> ppi_state \<times> 'd host" where
  "ppi_port_b_rd x sb = (let b = snd (snd sb) in
     (push_bit 7 (cas_rd_data b AND 0x01) OR push_bit 6 (prt_busy b AND 0x01) OR
      push_bit 5 (exp_busy b AND 0x01) OR push_bit 4 (lnk_lk4 b AND 0x01) OR
      push_bit 3 (lnk_lk3 b AND 0x01) OR push_bit 2 (lnk_lk2 b AND 0x01) OR
      push_bit 1 (lnk_lk1 b AND 0x01) OR (vdc_vsync b AND 0x01), sb))"

definition ppi_illegal :: "u8 \<Rightarrow> ppi_state \<times> 'd host \<Rightarrow> u8 \<times> ppi_state \<times> 'd host" where
  "ppi_illegal x sb = (0xff, sb)"

definition ppi_port_c_wr :: "u8 \<Rightarrow> ppi_state \<times> 'd host \<Rightarrow> u8 \<times> ppi_state \<times> 'd host" where
  "ppi_port_c_wr x = (\<lambda>(s, c, b). let
     b = b\<lparr>psg_bdir := drop_bit 7 (x AND 0x80), psg_bc1 := drop_bit 6 (x AND 0x40),
           cas_wr_data := drop_bit 5 (x AND 0x20), cas_motor := drop_bit 4 (x AND 0x10)\<rparr>;
     b = b\<lparr>b_kbd := snd (kbd_set_line (x AND 0x0f) (b_kbd b))\<rparr>
   in case psg_update_wr (psg_data b) (c, b) of (v, h) \<Rightarrow> (v, s, h))"

definition board_ppi :: "'d host ppi_iface" where
  "board_ppi = \<lparr>cb_port_a_rd = ppi_port_a_rd, cb_port_a_wr = ppi_port_a_wr, cb_port_b_rd = ppi_port_b_rd,
     cb_port_b_wr = ppi_illegal, cb_port_c_rd = ppi_illegal, cb_port_c_wr = ppi_port_c_wr\<rparr>"

section \<open>The interface of the CPU\<close>

definition mem_bank :: "u16 \<Rightarrow> nat" where "mem_bank addr = unat (drop_bit 14 addr AND 0x0003)"
definition mem_offset :: "u16 \<Rightarrow> u16" where "mem_offset addr = addr AND 0x3fff"

definition mreq_m1 :: "u16 \<Rightarrow> u8 \<Rightarrow> 'd host \<Rightarrow> u8 \<times> 'd host" where
  "mreq_m1 addr data = (\<lambda>(c, b). let
     data = bank_byte b (pal_rd b (mem_bank addr)) (mem_offset addr);
     old_t_states = t_states c;
     new_t_states = (old_t_states + 3) AND NOT 3;
     add_t_states = new_t_states - old_t_states
   in (data, c\<lparr>t_states := new_t_states, i_period := i_period c + add_t_states\<rparr>, b))"

definition mreq_rd :: "u16 \<Rightarrow> u8 \<Rightarrow> 'd host \<Rightarrow> u8 \<times> 'd host" where
  "mreq_rd addr data = (\<lambda>(c, b). (bank_byte b (pal_rd b (mem_bank addr)) (mem_offset addr), c, b))"

definition mreq_wr :: "u16 \<Rightarrow> u8 \<Rightarrow> 'd host \<Rightarrow> u8 \<times> 'd host" where
  "mreq_wr addr data = (\<lambda>(c, b). (data, c, bank_write (pal_wr b (mem_bank addr)) (mem_offset addr) data b))"

definition iorq_m1 :: "u16 \<Rightarrow> u8 \<Rightarrow> 'd host \<Rightarrow> u8 \<times> 'd host" where
  "iorq_m1 port data h = (case on_vga (\<lambda>(s, h). ((), ack_interrupt s, h)) h of (_, h) \<Rightarrow> (0xff, h))"

text \<open>
  The ports are decoded from single address bits, so one access can reach several devices; a read
  returns what the last of them gives.
\<close>

definition port_function :: "u16 \<Rightarrow> u16" where "port_function port = drop_bit 8 port AND 3"

definition fdc_function :: "u16 \<Rightarrow> u16" where
  "fdc_function port = (drop_bit 7 port AND 2) OR (port AND 1)"

definition iorq_rd_vga :: "u16 \<Rightarrow> u8 \<times> 'd host \<Rightarrow> u8 \<times> 'd host" where
  "iorq_rd_vga port = (\<lambda>(data, h). if port AND 0x8000 = 0 then (vga_get_value data (b_vga (snd h)), h) else (data, h))"

definition iorq_rd_vdc :: "u16 \<Rightarrow> u8 \<times> 'd host \<Rightarrow> u8 \<times> 'd host" where
  "iorq_rd_vdc port = (\<lambda>(data, h). if port AND 0x4000 = 0 then
     (let f = port_function port in
      if f = 0 then (0xff, h)
      else if f = 1 then (0xff, h)
      else if f = 2 then on_vdc (\<lambda>(s, h). case vdc_get_index data s of (v, s) \<Rightarrow> (v, s, h)) h
      else on_vdc (\<lambda>(s, h). case vdc_get_value data s of (v, s) \<Rightarrow> (v, s, h)) h)
     else (data, h))"

definition iorq_rd_ppi :: "u16 \<Rightarrow> u8 \<times> 'd host \<Rightarrow> u8 \<times> 'd host" where
  "iorq_rd_ppi port = (\<lambda>(data, h). if port AND 0x0800 = 0 then
     (let f = port_function port in
      if f = 0 then (case on_ppi (rd_port_a board_ppi data) h of (v, h) \<Rightarrow> (v AND 0xff, h))
      else if f = 1 then (case on_ppi (rd_port_b board_ppi data) h of (v, h) \<Rightarrow> (v AND 0xff, h))
      else if f = 2 then (case on_ppi (rd_port_c board_ppi data) h of (v, h) \<Rightarrow> (v AND 0xf0, h))
      else (data OR 0xff, h))
     else (data, h))"

definition iorq_rd_fdc :: "'d libdsk \<Rightarrow> u16 \<Rightarrow> u8 \<times> 'd host \<Rightarrow> u8 \<times> 'd host" where
  "iorq_rd_fdc L port = (\<lambda>(data, h). if port AND 0x0480 = 0 then
     (let f = fdc_function port in
      if f = 0 then (0xff, h)
      else if f = 1 then (0xff, h)
      else if f = 2 then on_fdc (rd_stat data) h
      else on_fdc (rd_data L data) h)
     else (data, h))"

definition iorq_rd :: "'d libdsk \<Rightarrow> u16 \<Rightarrow> u8 \<Rightarrow> 'd host \<Rightarrow> u8 \<times> 'd host" where
  "iorq_rd L port data h =
     iorq_rd_fdc L port (iorq_rd_ppi port (iorq_rd_vdc port (iorq_rd_vga port (0x00, h))))"

definition iorq_wr_vga :: "u16 \<Rightarrow> u8 \<Rightarrow> 'd host \<Rightarrow> 'd host" where
  "iorq_wr_vga port data h =
     (if port AND 0x8000 = 0 then snd (on_vga (vga_set_value board_vga data) h) else h)"

definition iorq_wr_vdc :: "u16 \<Rightarrow> u8 \<Rightarrow> 'd host \<Rightarrow> 'd host" where
  "iorq_wr_vdc port data h = (if port AND 0x4000 = 0 then
     (let f = port_function port in
      if f = 0 then snd (on_vdc (\<lambda>(s, h). case vdc_set_index data s of (v, s) \<Rightarrow> (v, s, h)) h)
      else if f = 1 then snd (on_vdc (\<lambda>(s, h). case vdc_set_value data s of (v, s) \<Rightarrow> (v, s, h)) h)
      else h)
     else h)"

definition iorq_wr_rom :: "u16 \<Rightarrow> u8 \<Rightarrow> 'd host \<Rightarrow> 'd host" where
  "iorq_wr_rom port data h =
     (if port AND 0x2000 = 0 then snd (on_vga (vga_setup_rom data) h) else h)"

definition iorq_wr_ppi :: "u16 \<Rightarrow> u8 \<Rightarrow> 'd host \<Rightarrow> 'd host" where
  "iorq_wr_ppi port data h = (if port AND 0x0800 = 0 then
     (let f = port_function port in
      if f = 0 then snd (on_ppi (wr_port_a board_ppi data) h)
      else if f = 1 then snd (on_ppi (wr_port_b board_ppi data) h)
      else if f = 2 then snd (on_ppi (wr_port_c board_ppi data) h)
      else snd (on_ppi (wr_ctrl_p board_ppi data) h))
     else h)"

definition iorq_wr_fdc :: "'d libdsk \<Rightarrow> u16 \<Rightarrow> u8 \<Rightarrow> 'd host \<Rightarrow> 'd host" where
  "iorq_wr_fdc L port data h = (if port AND 0x0480 = 0 then
     (let f = fdc_function port;
          motors = push_bit 1 (data AND 1) OR (data AND 1)
      in if f = 0 then snd (on_fdc (set_motor L motors) h)
      else if f = 1 then snd (on_fdc (set_motor L motors) h)
      else if f = 2 then snd (on_fdc (wr_stat data) h)
      else snd (on_fdc (wr_data L data) h))
     else h)"

definition iorq_wr :: "'d libdsk \<Rightarrow> u16 \<Rightarrow> u8 \<Rightarrow> 'd host \<Rightarrow> u8 \<times> 'd host" where
  "iorq_wr L port data h =
     (data, iorq_wr_fdc L port data (iorq_wr_ppi port data (iorq_wr_rom port data
        (iorq_wr_vdc port data (iorq_wr_vga port data h)))))"

definition board_cpu :: "'d libdsk \<Rightarrow> 'd board iface" where
  "board_cpu L = \<lparr>cpu_mreq_m1 = mreq_m1, cpu_mreq_rd = mreq_rd, cpu_mreq_wr = mreq_wr,
     cpu_iorq_m1 = iorq_m1, cpu_iorq_rd = iorq_rd L, cpu_iorq_wr = iorq_wr L\<rparr>"

end
