(* ===== verification/CPC_Keep.thy ===== *)
theory CPC_Keep
  imports CPC_Board
begin

text \<open>
  What the machine keeps while the CPU and the devices run.  \<open>kept\<close> fixes the setup of the board
  and its read-only memory and says that the memory banking stays well formed; \<open>devices_ok\<close> says
  that the gate array, the CRT controller and the keyboard stay within their arrays.  Both are
  shown of the callbacks once, by interpreting the contracts of the devices and of the CPU on the
  board.
\<close>

unbundle bit_operations_syntax

section \<open>The setup of a board\<close>

text \<open>A RAM bank or a ROM that is plugged in.\<close>

definition present :: "'d board \<Rightarrow> bank \<Rightarrow> bool" where
  "present b k = (case k of Null \<Rightarrow> False | RAM i \<Rightarrow> i < 8 | ROM i \<Rightarrow> b_rom b i \<noteq> None | EXP i \<Rightarrow> b_exp b i \<noteq> None)"

definition is_ram :: "bank \<Rightarrow> bool" where
  "is_ram k = (case k of RAM i \<Rightarrow> i < 8 | _ \<Rightarrow> False)"

definition pal_ok :: "'d board \<Rightarrow> bool" where
  "pal_ok b \<longleftrightarrow> (\<forall>i < 4. present b (pal_rd b i) \<and> is_ram (pal_wr b i))"

text \<open>The fields that no access of the CPU and no callback may change.\<close>

definition frozen :: "'d board \<Rightarrow> 'd board" where
  "frozen b = b\<lparr>vdc_hsync := 0, vdc_vsync := 0, psg_data := 0, psg_bdir := 0, psg_bc1 := 0, cas_motor := 0, cas_wr_data := 0,
     ram_conf := 0, rom_conf := 0, pal_rd := \<lambda>_. Null, pal_wr := \<lambda>_. Null, b_kbd := \<lparr>kbd_mode = 0, kbd_line = 0, kbd_keys = []\<rparr>,
     b_vga := undefined, b_vdc := undefined, b_ppi := undefined, b_psg := undefined, b_fdc := None,
     b_ram := \<lambda>_. \<lparr>mem_type = RAM_BANK, mem_data = \<lambda>_. 0\<rparr>\<rparr>"

definition kept :: "'d board \<Rightarrow> 'd board \<Rightarrow> bool" where
  "kept b0 b \<longleftrightarrow> frozen b = frozen b0 \<and> pal_ok b"

lemma frozen_updates [simp]:
  "frozen (b\<lparr>vdc_hsync := x1\<rparr>) = frozen b" "frozen (b\<lparr>vdc_vsync := x1\<rparr>) = frozen b"
  "frozen (b\<lparr>psg_data := x1\<rparr>) = frozen b" "frozen (b\<lparr>psg_bdir := x1\<rparr>) = frozen b"
  "frozen (b\<lparr>psg_bc1 := x1\<rparr>) = frozen b" "frozen (b\<lparr>cas_motor := x1\<rparr>) = frozen b"
  "frozen (b\<lparr>cas_wr_data := x1\<rparr>) = frozen b" "frozen (b\<lparr>ram_conf := x1\<rparr>) = frozen b"
  "frozen (b\<lparr>rom_conf := x1\<rparr>) = frozen b" "frozen (b\<lparr>pal_rd := x2\<rparr>) = frozen b"
  "frozen (b\<lparr>pal_wr := x2\<rparr>) = frozen b" "frozen (b\<lparr>b_kbd := x3\<rparr>) = frozen b"
  "frozen (b\<lparr>b_vga := x4\<rparr>) = frozen b" "frozen (b\<lparr>b_vdc := x5\<rparr>) = frozen b"
  "frozen (b\<lparr>b_ppi := x6\<rparr>) = frozen b" "frozen (b\<lparr>b_psg := x7\<rparr>) = frozen b"
  "frozen (b\<lparr>b_fdc := x8\<rparr>) = frozen b" "frozen (b\<lparr>b_ram := x9\<rparr>) = frozen b"
  by (simp_all add: frozen_def)

lemma frozen_fields:
  "b_rom (frozen b) = b_rom b"
  "b_exp (frozen b) = b_exp b"
  "memory_size (frozen b) = memory_size b"
  "frame_rate (frozen b) = frame_rate b"
  "cpc_ticks (frozen b) = cpc_ticks b"
  "cpc_clock (frozen b) = cpc_clock b"
  "cpc_flags (frozen b) = cpc_flags b"
  by (simp_all add: frozen_def)

lemma frozen_eqD:
  "frozen b = frozen b0 \<Longrightarrow> b_rom b = b_rom b0"
  "frozen b = frozen b0 \<Longrightarrow> b_exp b = b_exp b0"
  "frozen b = frozen b0 \<Longrightarrow> memory_size b = memory_size b0"
  "frozen b = frozen b0 \<Longrightarrow> frame_rate b = frame_rate b0"
  "frozen b = frozen b0 \<Longrightarrow> cpc_ticks b = cpc_ticks b0"
  "frozen b = frozen b0 \<Longrightarrow> cpc_clock b = cpc_clock b0"
  "frozen b = frozen b0 \<Longrightarrow> cpc_flags b = cpc_flags b0"
  by (metis frozen_fields)+

lemma pal_ok_updates [simp]:
  "pal_ok (b\<lparr>vdc_hsync := x1\<rparr>) = pal_ok b" "pal_ok (b\<lparr>vdc_vsync := x1\<rparr>) = pal_ok b"
  "pal_ok (b\<lparr>psg_data := x1\<rparr>) = pal_ok b" "pal_ok (b\<lparr>psg_bdir := x1\<rparr>) = pal_ok b"
  "pal_ok (b\<lparr>psg_bc1 := x1\<rparr>) = pal_ok b" "pal_ok (b\<lparr>cas_motor := x1\<rparr>) = pal_ok b"
  "pal_ok (b\<lparr>cas_wr_data := x1\<rparr>) = pal_ok b" "pal_ok (b\<lparr>ram_conf := x1\<rparr>) = pal_ok b"
  "pal_ok (b\<lparr>rom_conf := x1\<rparr>) = pal_ok b" "pal_ok (b\<lparr>b_kbd := x3\<rparr>) = pal_ok b"
  "pal_ok (b\<lparr>b_vga := x4\<rparr>) = pal_ok b" "pal_ok (b\<lparr>b_vdc := x5\<rparr>) = pal_ok b"
  "pal_ok (b\<lparr>b_ppi := x6\<rparr>) = pal_ok b" "pal_ok (b\<lparr>b_psg := x7\<rparr>) = pal_ok b"
  "pal_ok (b\<lparr>b_fdc := x8\<rparr>) = pal_ok b" "pal_ok (b\<lparr>b_ram := x9\<rparr>) = pal_ok b"
  by (simp_all add: pal_ok_def present_def cong: bank.case_cong)

lemma kept_refl: "pal_ok b \<Longrightarrow> kept b b"
  by (simp add: kept_def)

text \<open>The banking is well formed whatever the configuration registers hold.\<close>

lemma ram_banks_bound: "ram_banks c = Some ns \<Longrightarrow> i < 4 \<Longrightarrow> ns ! i < 8"
  by (auto simp: ram_banks_def less_Suc_eq numeral_eq_Suc split: if_splits)

lemma map_ram_ok: "(\<And>i. i < 4 \<Longrightarrow> ns ! i < 8) \<Longrightarrow> pal_ok (map_ram ns b)"
  by (auto simp: pal_ok_def map_ram_def present_def is_ram_def)

lemma map_ram_fields [simp]: "b_rom (map_ram ns b) = b_rom b" "b_exp (map_ram ns b) = b_exp b" "b_vga (map_ram ns b) = b_vga b"
  "rom_conf (map_ram ns b) = rom_conf b" "frozen (map_ram ns b) = frozen b"
  by (simp_all add: map_ram_def)

lemma pal_rd_ok: "pal_ok b \<Longrightarrow> present b k \<Longrightarrow> pal_ok (b\<lparr>pal_rd := (pal_rd b)(i := k)\<rparr>)"
  by (auto simp: pal_ok_def present_def cong: bank.case_cong)

lemma pal_fields [simp]: "b_rom (b\<lparr>pal_rd := x\<rparr>) = b_rom b" "b_exp (b\<lparr>pal_rd := x\<rparr>) = b_exp b"
  by simp_all

lemma present_slots: "b_rom b i \<noteq> None \<Longrightarrow> present b (ROM i)" "b_exp b j \<noteq> None \<Longrightarrow> present b (EXP j)"
  by (simp_all add: present_def)

lemma pal_ram_ok: "pal_ok b \<or> \<not> large_memory b \<or> ram_banks (ram_conf b AND 0x3f) \<noteq> None \<Longrightarrow> pal_ok (pal_ram b)"
  by (auto simp: pal_ram_def not_le less_Suc_eq numeral_eq_Suc dest: ram_banks_bound intro!: map_ram_ok split: option.splits)

lemma pal_lower_ok: "pal_ok b \<Longrightarrow> pal_ok (pal_lower b)"
  by (simp add: pal_lower_def pal_rd_ok present_slots)

lemma pal_upper_ok: "pal_ok b \<Longrightarrow> pal_ok (pal_upper b)"
  by (simp add: pal_upper_def Let_def pal_rd_ok present_slots)

lemma update_pal_ok:
  "pal_ok b \<or> \<not> large_memory b \<or> ram_banks (ram_conf b AND 0x3f) \<noteq> None \<Longrightarrow> pal_ok (update_pal b)"
  unfolding update_pal_def by (intro pal_upper_ok pal_lower_ok pal_ram_ok)

lemma pal_parts_frozen: "frozen (pal_ram b) = frozen b" "frozen (pal_lower b) = frozen b" "frozen (pal_upper b) = frozen b"
  by (simp_all add: pal_ram_def pal_lower_def pal_upper_def Let_def split: option.split)

lemma update_pal_frozen [simp]: "frozen (update_pal b) = frozen b"
  by (simp only: update_pal_def pal_parts_frozen)

lemma update_pal_kept: "kept b0 b \<Longrightarrow> kept b0 (update_pal b)"
  by (simp add: kept_def update_pal_ok)

lemma kept_updates [simp]:
  "kept b0 (b\<lparr>vdc_hsync := x1\<rparr>) = kept b0 b" "kept b0 (b\<lparr>vdc_vsync := x1\<rparr>) = kept b0 b"
  "kept b0 (b\<lparr>psg_data := x1\<rparr>) = kept b0 b" "kept b0 (b\<lparr>psg_bdir := x1\<rparr>) = kept b0 b"
  "kept b0 (b\<lparr>psg_bc1 := x1\<rparr>) = kept b0 b" "kept b0 (b\<lparr>cas_motor := x1\<rparr>) = kept b0 b"
  "kept b0 (b\<lparr>cas_wr_data := x1\<rparr>) = kept b0 b" "kept b0 (b\<lparr>ram_conf := x1\<rparr>) = kept b0 b"
  "kept b0 (b\<lparr>rom_conf := x1\<rparr>) = kept b0 b" "kept b0 (b\<lparr>b_kbd := x3\<rparr>) = kept b0 b"
  "kept b0 (b\<lparr>b_vga := x4\<rparr>) = kept b0 b" "kept b0 (b\<lparr>b_vdc := x5\<rparr>) = kept b0 b"
  "kept b0 (b\<lparr>b_ppi := x6\<rparr>) = kept b0 b" "kept b0 (b\<lparr>b_psg := x7\<rparr>) = kept b0 b"
  "kept b0 (b\<lparr>b_fdc := x8\<rparr>) = kept b0 b" "kept b0 (b\<lparr>b_ram := x9\<rparr>) = kept b0 b"
  by (simp_all add: kept_def)

section \<open>The contracts of the devices, for the setup\<close>

definition keeps_setup :: "'d board \<Rightarrow> 's \<times> 'd host \<Rightarrow> bool" where
  "keeps_setup b0 sb \<longleftrightarrow> kept b0 (snd (snd sb))"

lemma vga_callbacks_kept:
  "keeps_setup b0 sb \<Longrightarrow> keeps_setup b0 (snd (cb_raise_int board_vga x sb))"
  "keeps_setup b0 sb \<Longrightarrow> keeps_setup b0 (snd (cb_setup_ram board_vga x sb))"
  "keeps_setup b0 sb \<Longrightarrow> keeps_setup b0 (snd (cb_setup_rmr board_vga x sb))"
  "keeps_setup b0 sb \<Longrightarrow> keeps_setup b0 (snd (vga_setup_rom x sb))"
  by (simp_all add: keeps_setup_def board_vga_def vga_raise_int_def vga_setup_ram_def vga_setup_rmr_def
      vga_setup_rom_def case_prod_unfold update_pal_kept)

interpretation vga_setup: vga_rel board_vga "keeps_setup b0" for b0
  by unfold_locales (simp_all add: keeps_setup_def vga_callbacks_kept [unfolded keeps_setup_def])

lemma on_vga_kept: "keeps_setup b0 (snd (f (b_vga (snd h), h))) \<Longrightarrow> kept b0 (snd (snd (on_vga f h)))"
  by (simp add: on_vga_def keeps_setup_def case_prod_unfold)

lemma on_vdc_kept: "keeps_setup b0 (snd (f (b_vdc (snd h), h))) \<Longrightarrow> kept b0 (snd (snd (on_vdc f h)))"
  by (simp add: on_vdc_def keeps_setup_def case_prod_unfold)

lemma on_ppi_kept: "keeps_setup b0 (snd (f (b_ppi (snd h), h))) \<Longrightarrow> kept b0 (snd (snd (on_ppi f h)))"
  by (simp add: on_ppi_def keeps_setup_def case_prod_unfold)

lemma on_psg_kept: "keeps_setup b0 (snd (f (b_psg (snd h), h))) \<Longrightarrow> kept b0 (snd (snd (on_psg f h)))"
  by (simp add: on_psg_def keeps_setup_def case_prod_unfold)

lemma on_fdc_kept: "kept b0 (snd h) \<Longrightarrow> kept b0 (snd (snd (on_fdc f h)))"
  by (simp add: on_fdc_def split: option.split prod.split)

lemma keeps_setup_pair [simp]: "keeps_setup b0 (s, h) = kept b0 (snd h)"
  by (simp add: keeps_setup_def)

lemma vdc_callbacks_kept:
  "keeps_setup b0 sb \<Longrightarrow> keeps_setup b0 (snd (cb_hsync board_vdc x sb))"
  "keeps_setup b0 sb \<Longrightarrow> keeps_setup b0 (snd (cb_vsync board_vdc x sb))"
  by (cases sb, simp add: board_vdc_def vdc_hsync_cb_def vdc_vsync_cb_def case_prod_unfold
      on_vga_kept vga_setup.assert_hsync_keeps)+

interpretation vdc_setup: vdc_rel board_vdc "keeps_setup b0" for b0
  by unfold_locales (simp_all add: vdc_callbacks_kept)

lemma psg_callbacks_kept:
  "snd (cb_psg_port_a_rd board_psg x sb) = sb" "snd (cb_psg_port_a_wr board_psg x sb) = sb"
  "snd (cb_psg_port_b_rd board_psg x sb) = sb" "snd (cb_psg_port_b_wr board_psg x sb) = sb"
  by (simp_all add: board_psg_def psg_port_a_rd_def psg_illegal_def)

interpretation psg_setup: psg_rel board_psg "keeps_setup b0" for b0
  by unfold_locales (simp_all add: psg_callbacks_kept)

lemma psg_update_wr_kept: "kept b0 (snd h) \<Longrightarrow> kept b0 (snd (snd (psg_update_wr x h)))"
  by (simp add: psg_update_wr_def Let_def on_psg_kept psg_setup.set_value_keeps case_prod_unfold)

lemma ppi_callbacks_kept:
  "keeps_setup b0 sb \<Longrightarrow> keeps_setup b0 (snd (cb_port_a_rd board_ppi x sb))"
  "keeps_setup b0 sb \<Longrightarrow> keeps_setup b0 (snd (cb_port_b_rd board_ppi x sb))"
  "keeps_setup b0 sb \<Longrightarrow> keeps_setup b0 (snd (cb_port_c_rd board_ppi x sb))"
  "keeps_setup b0 sb \<Longrightarrow> keeps_setup b0 (snd (cb_port_a_wr board_ppi x sb))"
  "keeps_setup b0 sb \<Longrightarrow> keeps_setup b0 (snd (cb_port_b_wr board_ppi x sb))"
  "keeps_setup b0 sb \<Longrightarrow> keeps_setup b0 (snd (cb_port_c_wr board_ppi x sb))"
  by (cases sb, simp add: board_ppi_def ppi_port_a_rd_def ppi_port_a_wr_def ppi_port_b_rd_def ppi_illegal_def
      ppi_port_c_wr_def Let_def case_prod_unfold on_psg_kept psg_setup.get_value_keeps psg_update_wr_kept)+

interpretation ppi_setup: ppi_rel board_ppi "keeps_setup b0" for b0
  by unfold_locales (simp_all add: ppi_callbacks_kept)

section \<open>The contract of the CPU, for the setup\<close>

lemma mreq_wr_kept: "kept b0 (snd h) \<Longrightarrow> kept b0 (snd (snd (mreq_wr a d h)))"
proof -
  assume k: "kept b0 (snd h)"
  have "mem_bank a < 4"
    using word_and_le1 [of "drop_bit 14 a" "3"] by (simp add: mem_bank_def word_le_nat_alt)
  then have "is_ram (pal_wr (snd h) (mem_bank a))" using k by (simp add: kept_def pal_ok_def)
  then show ?thesis
    using k by (cases "pal_wr (snd h) (mem_bank a)") (simp_all add: is_ram_def mreq_wr_def bank_write_def case_prod_unfold)
qed

lemma iorq_rd_kept: "kept b0 (snd h) \<Longrightarrow> kept b0 (snd (snd (iorq_rd L a d h)))"
proof -
  have steps: "kept b0 (snd (snd (iorq_rd_vga a r)))" "kept b0 (snd (snd (iorq_rd_vdc a r)))"
    "kept b0 (snd (snd (iorq_rd_ppi a r)))" "kept b0 (snd (snd (iorq_rd_fdc L a r)))"
    if "kept b0 (snd (snd r))" for r
    using that by (simp_all add: iorq_rd_vga_def iorq_rd_vdc_def iorq_rd_ppi_def iorq_rd_fdc_def case_prod_unfold
        Let_def on_vdc_kept on_ppi_kept on_fdc_kept ppi_setup.ports_keep)
  assume "kept b0 (snd h)"
  then show ?thesis unfolding iorq_rd_def by (intro steps) simp
qed

lemma iorq_wr_kept: "kept b0 (snd h) \<Longrightarrow> kept b0 (snd (snd (iorq_wr L a d h)))"
proof -
  have steps: "kept b0 (snd (iorq_wr_vga a d r))" "kept b0 (snd (iorq_wr_vdc a d r))" "kept b0 (snd (iorq_wr_rom a d r))"
    "kept b0 (snd (iorq_wr_ppi a d r))" "kept b0 (snd (iorq_wr_fdc L a d r))"
    if "kept b0 (snd r)" for r
    using that by (simp_all add: iorq_wr_vga_def iorq_wr_vdc_def iorq_wr_rom_def iorq_wr_ppi_def iorq_wr_fdc_def
        case_prod_unfold Let_def on_vga_kept on_vdc_kept on_ppi_kept on_fdc_kept vga_setup.set_value_keeps
        vga_callbacks_kept ppi_setup.ports_keep ppi_setup.wr_ctrl_keeps)
  assume "kept b0 (snd h)"
  then show ?thesis unfolding iorq_wr_def snd_conv by (intro steps)
qed

lemma iorq_m1_kept: "kept b0 (snd h) \<Longrightarrow> kept b0 (snd (snd (iorq_m1 a d h)))"
  by (simp add: iorq_m1_def case_prod_unfold on_vga_kept)

lemma mreq_m1_board: "snd (snd (mreq_m1 a d h)) = snd h"
  by (simp add: mreq_m1_def Let_def case_prod_unfold)

lemma mreq_rd_board: "snd (mreq_rd a d h) = h"
  by (simp add: mreq_rd_def case_prod_unfold)

lemmas board_cpu_simps = board_cpu_def MREQ_M1_def MREQ_RD_def MREQ_WR_def IORQ_M1_def IORQ_RD_def IORQ_WR_def
  case_prod_unfold

definition setup_rel :: "'d board machine \<Rightarrow> 'd board machine \<Rightarrow> bool" where
  "setup_rel m m' \<longleftrightarrow> pal_ok (bus m) \<longrightarrow> kept (bus m) (bus m')"

interpretation cpu_setup: micro_rel "board_cpu L" setup_rel for L
  by unfold_locales (auto simp: setup_rel_def board_cpu_simps mreq_wr_kept iorq_rd_kept iorq_wr_kept
      iorq_m1_kept mreq_m1_board mreq_rd_board kept_refl m_consume_def epilog_def)

end
