(* ===== verification/CPC_Devices.thy ===== *)
theory CPC_Devices
  imports CPC_Keep
begin

text \<open>
  The second and third reading of the contracts on the board: the gate array, the CRT controller
  and the keyboard keep their invariants whatever the CPU does to the ports, and the CPU's own
  state and its time are touched by an M1 access only.
\<close>

unbundle bit_operations_syntax

section \<open>The contracts of the devices, for their invariants\<close>

definition rest_ok :: "'s \<times> 'd host \<Rightarrow> bool" where
  "rest_ok sb \<longleftrightarrow> vdc_ok (b_vdc (snd (snd sb))) \<and> length (kbd_keys (b_kbd (snd (snd sb)))) = 16"

definition devices_ok :: "'d board \<Rightarrow> bool" where
  "devices_ok b \<longleftrightarrow> vga_ok (b_vga b) \<and> vdc_ok (b_vdc b) \<and> length (kbd_keys (b_kbd b)) = 16"

definition keeps_devices :: "'s \<times> 'd host \<Rightarrow> bool" where
  "keeps_devices sb \<longleftrightarrow> devices_ok (snd (snd sb))"

lemma devices_ok_updates [simp]:
  "devices_ok (b\<lparr>vdc_hsync := x1\<rparr>) = devices_ok b" "devices_ok (b\<lparr>vdc_vsync := x1\<rparr>) = devices_ok b"
  "devices_ok (b\<lparr>psg_data := x1\<rparr>) = devices_ok b" "devices_ok (b\<lparr>b_ppi := x6\<rparr>) = devices_ok b"
  "devices_ok (b\<lparr>b_psg := x7\<rparr>) = devices_ok b" "devices_ok (b\<lparr>b_fdc := x8\<rparr>) = devices_ok b"
  "devices_ok (b\<lparr>b_ram := x9\<rparr>) = devices_ok b" "devices_ok (b\<lparr>b_rom := x10\<rparr>) = devices_ok b"
  "devices_ok (b\<lparr>b_exp := x11\<rparr>) = devices_ok b"
  by (simp_all add: devices_ok_def)

text \<open>The callbacks of the gate array leave it alone, so its operations keep its own invariant.\<close>

lemma vga_callbacks_state:
  "fst (snd (cb_raise_int board_vga x sb)) = fst sb" "fst (snd (cb_setup_ram board_vga x sb)) = fst sb"
  "fst (snd (cb_setup_rmr board_vga x sb)) = fst sb" "fst (snd (vga_setup_rom x sb)) = fst sb"
  by (simp_all add: board_vga_def vga_raise_int_def vga_setup_ram_def vga_setup_rmr_def vga_setup_rom_def
      case_prod_unfold)

lemma board_vga_set_value_ok: "vga_ok s \<Longrightarrow> vga_ok (fst (snd (vga_set_value board_vga x (s, h))))"
  by (simp add: vga_set_value_def Let_def vga_callbacks_state vga_pen_ok vga_ink_ok vga_rmr_ok)

lemma less_52_step: "(x :: u8) < 52 \<Longrightarrow> x + 1 \<noteq> 52 \<Longrightarrow> x + 1 < 52"
  by unat_arith

lemma board_count_line_ok:
  "vga_ok s \<Longrightarrow> vga_ok (fst (count_line board_vga (s, h)))"
  using less_52_step [of "r52 s"] by (auto simp: count_line_def Let_def vga_callbacks_state vga_ok_def)

lemma board_realign_ok: "vga_ok (fst sb) \<Longrightarrow> vga_ok (fst (realign board_vga sb))"
  by (cases sb) (auto simp: realign_def Let_def vga_callbacks_state vga_ok_def word_le_nat_alt unat_minus_one)

lemma board_hsync_ok: "vga_ok s \<Longrightarrow> vga_ok (fst (assert_hsync board_vga x (s, h)))"
  by (simp add: assert_hsync_def hsync_falling_def hsync_rising_ok board_count_line_ok board_realign_ok)

interpretation vga_rest: vga_rel board_vga rest_ok
  by unfold_locales (simp_all add: rest_ok_def board_vga_def vga_raise_int_def vga_setup_ram_def
      vga_setup_rmr_def case_prod_unfold)

lemma on_vga_devices:
  "vga_ok (fst (snd (f (b_vga (snd h), h)))) \<Longrightarrow> rest_ok (snd (f (b_vga (snd h), h))) \<Longrightarrow> devices_ok (snd (snd (on_vga f h)))"
  by (simp add: on_vga_def devices_ok_def rest_ok_def case_prod_unfold)

lemma devices_okD: "devices_ok b \<Longrightarrow> vga_ok (b_vga b)" "devices_ok b \<Longrightarrow> rest_ok (s, c, b)"
  by (simp_all add: devices_ok_def rest_ok_def)

lemma keeps_devices_pair [simp]: "keeps_devices (s, h) = devices_ok (snd h)"
  by (simp add: keeps_devices_def)

interpretation vdc_devices: vdc_rel board_vdc keeps_devices
proof unfold_locales
  fix s s' :: vdc_state and h :: "'b host"
  show "keeps_devices (s, h) \<Longrightarrow> keeps_devices (s', h)" by simp
next
  fix sb :: "vdc_state \<times> 'b host" and x
  assume ok: "keeps_devices sb"
  obtain s c b where sb: "sb = (s, c, b)" by (cases sb) auto
  let ?h = "(c, b\<lparr>vdc_hsync := x\<rparr>)" and ?v = "(c, b\<lparr>vdc_vsync := x\<rparr>)"
  have "devices_ok (snd ?h)" "devices_ok (snd ?v)" using ok by (simp_all add: sb)
  then show "keeps_devices (snd (cb_hsync board_vdc x sb))" "keeps_devices (snd (cb_vsync board_vdc x sb))"
    by (simp_all add: sb board_vdc_def vdc_hsync_cb_def vdc_vsync_cb_def case_prod_unfold on_vga_devices
        board_hsync_ok vga_rest.assert_hsync_keeps assert_vsync_ok devices_okD)
qed

lemma on_others_devices:
  "devices_ok (snd (snd (snd (f (b_psg (snd h), h))))) \<Longrightarrow> devices_ok (snd (snd (on_psg f h)))"
  "devices_ok (snd (snd (snd (g (b_ppi (snd h), h))))) \<Longrightarrow> devices_ok (snd (snd (on_ppi g h)))"
  "vdc_ok (fst (snd (k (b_vdc (snd h), h)))) \<Longrightarrow> devices_ok (snd (snd (snd (k (b_vdc (snd h), h))))) \<Longrightarrow>
     devices_ok (snd (snd (on_vdc k h)))"
  "devices_ok (snd h) \<Longrightarrow> devices_ok (snd (snd (on_fdc l h)))"
  by (simp_all add: on_psg_def on_ppi_def on_vdc_def on_fdc_def devices_ok_def case_prod_unfold split: option.split)

interpretation psg_devices: psg_rel board_psg keeps_devices
  by unfold_locales (simp_all add: psg_callbacks_kept)

lemma psg_update_wr_devices: "devices_ok (snd h) \<Longrightarrow> devices_ok (snd (snd (psg_update_wr x h)))"
  using psg_devices.set_value_keeps [of "(b_psg (snd h), h)" x]
  by (simp add: psg_update_wr_def Let_def on_others_devices keeps_devices_def case_prod_unfold)

lemma port_c_devices: "devices_ok b \<Longrightarrow> devices_ok (b\<lparr>psg_bdir := x1, psg_bc1 := x2, cas_wr_data := x3, cas_motor := x4,
    b_kbd := snd (kbd_set_line l (b_kbd b))\<rparr>)"
  by (simp add: devices_ok_def kbd_set_line_def)

interpretation ppi_devices: ppi_rel board_ppi keeps_devices
proof unfold_locales
  fix s s' :: ppi_state and h :: "'b host"
  show "keeps_devices (s, h) \<Longrightarrow> keeps_devices (s', h)" by simp
next
  fix sb :: "ppi_state \<times> 'b host" and x
  assume ok: "keeps_devices sb"
  obtain s c b where sb: "sb = (s, c, b)" by (cases sb) auto
  have b: "devices_ok b" using ok by (simp add: sb)
  show "keeps_devices (snd (cb_port_a_rd board_ppi x sb))"
    using psg_devices.get_value_keeps [of "(b_psg b, c, b)" x] b
    by (simp add: sb board_ppi_def ppi_port_a_rd_def case_prod_unfold on_others_devices keeps_devices_def)
  show "keeps_devices (snd (cb_port_b_rd board_ppi x sb))" "keeps_devices (snd (cb_port_c_rd board_ppi x sb))"
    "keeps_devices (snd (cb_port_b_wr board_ppi x sb))"
    using ok by (simp_all add: board_ppi_def ppi_port_b_rd_def ppi_illegal_def Let_def)
  show "keeps_devices (snd (cb_port_a_wr board_ppi x sb))" "keeps_devices (snd (cb_port_c_wr board_ppi x sb))"
    using b by (simp_all add: sb board_ppi_def ppi_port_a_wr_def ppi_port_c_wr_def Let_def case_prod_unfold
        psg_update_wr_devices port_c_devices)
qed

section \<open>The contract of the CPU, for the invariants of the devices\<close>

lemma iorq_rd_devices: "devices_ok (snd h) \<Longrightarrow> devices_ok (snd (snd (iorq_rd L a d h)))"
proof -
  have vdc: "vdc_ok s \<Longrightarrow> vdc_ok (snd (vdc_get_index x s))" "vdc_ok s \<Longrightarrow> vdc_ok (snd (vdc_get_value x s))" for s x
    by (rule vdc_get_index_ok, assumption) (rule vdc_get_value_ok, assumption)
  have steps: "devices_ok (snd (snd (iorq_rd_vga a r)))" "devices_ok (snd (snd (iorq_rd_vdc a r)))"
    "devices_ok (snd (snd (iorq_rd_ppi a r)))" "devices_ok (snd (snd (iorq_rd_fdc L a r)))"
    if "devices_ok (snd (snd r))" for r
    using that ppi_devices.ports_keep [of "(b_ppi (snd (snd r)), snd r)" "fst r"]
    by (simp_all add: iorq_rd_vga_def iorq_rd_vdc_def iorq_rd_ppi_def iorq_rd_fdc_def case_prod_unfold
        Let_def on_others_devices keeps_devices_def vdc devices_ok_def [of "snd (snd r)"])
  assume "devices_ok (snd h)"
  then show ?thesis unfolding iorq_rd_def by (intro steps) simp
qed

lemma iorq_wr_devices: "devices_ok (snd h) \<Longrightarrow> devices_ok (snd (snd (iorq_wr L a d h)))"
proof -
  have ppi: "devices_ok (snd (iorq_wr_ppi a d r))" if "devices_ok (snd r)" for r
    using that ppi_devices.ports_keep [of "(b_ppi (snd r), r)" d] ppi_devices.wr_ctrl_keeps [of "(b_ppi (snd r), r)" d]
    by (simp add: iorq_wr_ppi_def Let_def on_others_devices keeps_devices_def)
  have vdc: "devices_ok (snd (iorq_wr_vdc a d r))" if "devices_ok (snd r)" for r
    using that vdc_set_index_ok [of "b_vdc (snd r)" d] vdc_set_value_ok [of "b_vdc (snd r)" d]
    by (simp add: iorq_wr_vdc_def Let_def on_others_devices case_prod_unfold devices_ok_def [of "snd r"])
  have vga: "devices_ok (snd (iorq_wr_vga a d r))" "devices_ok (snd (iorq_wr_rom a d r))" if "devices_ok (snd r)" for r
    using that devices_okD [OF that]
    by (auto simp: iorq_wr_vga_def iorq_wr_rom_def vga_callbacks_state board_vga_set_value_ok
        intro!: on_vga_devices vga_rest.set_value_keeps)
      (simp_all add: vga_setup_rom_def rest_ok_def case_prod_unfold)
  assume "devices_ok (snd h)"
  then have "devices_ok (snd (iorq_wr_ppi a d (iorq_wr_rom a d (iorq_wr_vdc a d (iorq_wr_vga a d h)))))"
    by (intro ppi vdc vga)
  then show ?thesis
    by (simp add: iorq_wr_def iorq_wr_fdc_def Let_def on_others_devices)
qed

lemma iorq_m1_devices: "devices_ok (snd h) \<Longrightarrow> devices_ok (snd (snd (iorq_m1 a d h)))"
  by (simp add: iorq_m1_def case_prod_unfold on_vga_def devices_ok_def ack_interrupt_ok)

lemma mreq_wr_devices: "devices_ok (snd h) \<Longrightarrow> devices_ok (snd (snd (mreq_wr a d h)))"
  by (simp add: mreq_wr_def bank_write_def case_prod_unfold split: bank.split)

definition devices_rel :: "'d board machine \<Rightarrow> 'd board machine \<Rightarrow> bool" where
  "devices_rel m m' \<longleftrightarrow> devices_ok (bus m) \<longrightarrow> devices_ok (bus m')"

interpretation cpu_devices: micro_rel "board_cpu L" devices_rel for L
  by unfold_locales (auto simp: devices_rel_def board_cpu_simps mreq_wr_devices iorq_rd_devices iorq_wr_devices
      iorq_m1_devices mreq_m1_board mreq_rd_board m_consume_def epilog_def)

section \<open>Time\<close>

text \<open>
  A callback that does not raise an interrupt leaves the CPU alone; of those the CPU can reach, an
  M1 access only rounds the T-states up to a multiple of four.
\<close>

lemma and_not_minus: "(x :: u32) AND NOT y = x - (x AND y)"
proof -
  have "(x AND NOT y) AND (x AND y) = 0"
    by (rule bit_eqI) (auto simp: bit_simps)
  then have "(x AND NOT y) + (x AND y) = (x AND NOT y) OR (x AND y)"
    by (simp add: disjunctive_add_eq_or)
  also have "\<dots> = x"
    by (rule bit_eqI) (auto simp: bit_simps)
  finally show ?thesis by (simp add: eq_diff_eq)
qed

lemma round_up_four: "\<exists>k \<le> 3. ((t + 3) AND NOT 3) - t = (of_nat k :: u32)"
proof (intro exI conjI)
  have le: "unat ((t + 3) AND 3) \<le> 3"
    using word_and_le1 [of "t + 3" 3] by (simp add: word_le_nat_alt)
  then show "3 - unat ((t + 3) AND 3) \<le> 3" by simp
  show "((t + 3) AND NOT 3) - t = of_nat (3 - unat ((t + 3) AND 3))"
    using le unfolding and_not_minus by (simp add: of_nat_diff)
qed

lemma interrupts_only_from_raise:
  "fst (snd (snd (cb_setup_ram board_vga x sb))) = fst (snd sb)"
  "fst (snd (snd (cb_setup_rmr board_vga x sb))) = fst (snd sb)"
  "fst (snd (snd (vga_setup_rom x sb))) = fst (snd sb)"
  by (simp_all add: board_vga_def vga_setup_ram_def vga_setup_rmr_def vga_setup_rom_def case_prod_unfold)

definition keeps_cpu :: "State \<Rightarrow> 's \<times> 'd host \<Rightarrow> bool" where
  "keeps_cpu c sb \<longleftrightarrow> fst (snd sb) = c"

lemma keeps_cpu_pair [simp]: "keeps_cpu c (s, h) \<longleftrightarrow> fst h = c"
  by (simp add: keeps_cpu_def)

lemma on_device_cpu:
  "keeps_cpu c (snd (f (b_psg (snd h), h))) \<Longrightarrow> fst (snd (on_psg f h)) = c"
  "keeps_cpu c (snd (g (b_ppi (snd h), h))) \<Longrightarrow> fst (snd (on_ppi g h)) = c"
  "keeps_cpu c (snd (k (b_vdc (snd h), h))) \<Longrightarrow> fst (snd (on_vdc k h)) = c"
  "keeps_cpu c (snd (l (b_vga (snd h), h))) \<Longrightarrow> fst (snd (on_vga l h)) = c"
  "fst h = c \<Longrightarrow> fst (snd (on_fdc n h)) = c"
  by (simp_all add: on_psg_def on_ppi_def on_vdc_def on_vga_def on_fdc_def keeps_cpu_def case_prod_unfold
      split: option.split)

interpretation psg_cpu: psg_rel board_psg "keeps_cpu c" for c
  by unfold_locales (simp_all add: psg_callbacks_kept)

lemma psg_update_wr_cpu: "fst h = c \<Longrightarrow> fst (snd (psg_update_wr x h)) = c"
  by (simp add: psg_update_wr_def Let_def on_device_cpu psg_cpu.set_value_keeps case_prod_unfold)

lemma ppi_callbacks_cpu:
  "keeps_cpu c sb \<Longrightarrow> keeps_cpu c (snd (cb_port_a_rd board_ppi x sb))"
  "keeps_cpu c sb \<Longrightarrow> keeps_cpu c (snd (cb_port_b_rd board_ppi x sb))"
  "keeps_cpu c sb \<Longrightarrow> keeps_cpu c (snd (cb_port_c_rd board_ppi x sb))"
  "keeps_cpu c sb \<Longrightarrow> keeps_cpu c (snd (cb_port_a_wr board_ppi x sb))"
  "keeps_cpu c sb \<Longrightarrow> keeps_cpu c (snd (cb_port_b_wr board_ppi x sb))"
  "keeps_cpu c sb \<Longrightarrow> keeps_cpu c (snd (cb_port_c_wr board_ppi x sb))"
  by (cases sb, simp add: board_ppi_def ppi_port_a_rd_def ppi_port_a_wr_def ppi_port_b_rd_def ppi_illegal_def
      ppi_port_c_wr_def Let_def case_prod_unfold on_device_cpu psg_cpu.get_value_keeps psg_update_wr_cpu)+

interpretation ppi_cpu: ppi_rel board_ppi "keeps_cpu c" for c
  by unfold_locales (simp_all add: ppi_callbacks_cpu)

lemma set_value_cpu: "fst h = c \<Longrightarrow> keeps_cpu c (snd (vga_set_value board_vga x (s, h)))"
  by (simp add: vga_set_value_def Let_def keeps_cpu_def interrupts_only_from_raise)

lemma iorq_rd_cpu: "fst (snd (iorq_rd L a d h)) = fst h"
proof -
  have steps: "fst (snd (iorq_rd_vga a r)) = fst (snd r)" "fst (snd (iorq_rd_vdc a r)) = fst (snd r)"
    "fst (snd (iorq_rd_ppi a r)) = fst (snd r)" "fst (snd (iorq_rd_fdc L a r)) = fst (snd r)" for r
    by (simp_all add: iorq_rd_vga_def iorq_rd_vdc_def iorq_rd_ppi_def iorq_rd_fdc_def case_prod_unfold
        Let_def on_device_cpu ppi_cpu.ports_keep)
  show ?thesis by (simp add: iorq_rd_def steps)
qed

lemma iorq_wr_cpu: "fst (snd (iorq_wr L a d h)) = fst h"
proof -
  have steps: "fst (iorq_wr_vga a d r) = fst r" "fst (iorq_wr_vdc a d r) = fst r" "fst (iorq_wr_rom a d r) = fst r"
    "fst (iorq_wr_ppi a d r) = fst r" "fst (iorq_wr_fdc L a d r) = fst r" for r
    by (simp_all add: iorq_wr_vga_def iorq_wr_vdc_def iorq_wr_rom_def iorq_wr_ppi_def iorq_wr_fdc_def
        case_prod_unfold Let_def on_device_cpu set_value_cpu [unfolded keeps_cpu_def] keeps_cpu_def interrupts_only_from_raise
        ppi_cpu.ports_keep [unfolded keeps_cpu_def] ppi_cpu.wr_ctrl_keeps [unfolded keeps_cpu_def])
  show ?thesis by (simp add: iorq_wr_def steps)
qed

lemma iorq_m1_cpu: "fst (snd (iorq_m1 a d h)) = fst h"
  by (simp add: iorq_m1_def case_prod_unfold on_device_cpu)

interpretation board_time: bus_time "board_cpu L" for L
proof unfold_locales
  fix a d and sb :: "'a host"
  show "i_period (fst (snd (cpu_mreq_rd (board_cpu L) a d sb))) = i_period (fst sb)"
    "i_period (fst (snd (cpu_mreq_wr (board_cpu L) a d sb))) = i_period (fst sb)"
    "i_period (fst (snd (cpu_iorq_rd (board_cpu L) a d sb))) = i_period (fst sb)"
    "i_period (fst (snd (cpu_iorq_wr (board_cpu L) a d sb))) = i_period (fst sb)"
    "i_period (fst (snd (cpu_iorq_m1 (board_cpu L) a d sb))) = i_period (fst sb)"
    by (simp_all add: board_cpu_def mreq_rd_board iorq_rd_cpu iorq_wr_cpu iorq_m1_cpu mreq_wr_def case_prod_unfold)
  show "\<exists>k \<le> 3. i_period (fst (snd (cpu_mreq_m1 (board_cpu L) a d sb))) = i_period (fst sb) + of_nat k"
    using round_up_four [of "t_states (fst sb)"] by (auto simp: board_cpu_def mreq_m1_def Let_def case_prod_unfold)
qed

end
