(* ===== verification/CPC_Run.thy ===== *)
theory CPC_Run
  imports CPC_Devices
begin

text \<open>
  The machine in motion (\<^verbatim>\<open>cpc-mainboard.cc\<close>): the reset of the board, \<^verbatim>\<open>clock()\<close>,
  which runs the emulated time of one frame, and the loading of the expansion ROMs.
\<close>

unbundle bit_operations_syntax

section \<open>Reset\<close>

definition audio_reset :: "audio_state \<Rightarrow> audio_state" where
  "audio_reset a = \<lparr>a_channel0 = \<lambda>_. 0, a_channel1 = \<lambda>_. 0, a_channel2 = \<lambda>_. 0,
     a_rd_index = a_rd_index a AND 0, a_wr_index = a_wr_index a AND 0,
     a_acc0 = 0, a_acc1 = 0, a_acc2 = 0, a_acc_count = 0\<rparr>"

definition state_reset :: "'d board \<Rightarrow> 'd board" where
  "state_reset b = b
     \<lparr>cpc_flags := cpc_flags b AND 0, cpc_clock := cpc_clock b OR 0, cpc_ticks := cpc_ticks b AND 0,
      cpu_clock := cpu_clock b OR 0, cpu_ticks := cpu_ticks b AND 0, vdc_clock_rate := vdc_clock_rate b OR 0,
      vdc_ticks := vdc_ticks b AND 0, psg_clock_rate := psg_clock_rate b OR 0, psg_ticks_acc := psg_ticks_acc b AND 0,
      snd_clock := snd_clock b OR 0, snd_ticks := snd_ticks b AND 0, vdc_hsync := vdc_hsync b AND 0,
      vdc_vsync := vdc_vsync b AND 0, lnk_lk1 := lnk_lk1 b OR 0, lnk_lk2 := lnk_lk2 b OR 0,
      lnk_lk3 := lnk_lk3 b OR 0, lnk_lk4 := lnk_lk4 b OR 0, exp_busy := exp_busy b OR 0,
      prt_busy := prt_busy b OR 0, psg_data := psg_data b AND 0, psg_bdir := psg_bdir b AND 0,
      psg_bc1 := psg_bc1 b AND 0, psg_bc2 := psg_bc2 b OR 0, cas_motor := cas_motor b AND 0,
      cas_sound := cas_sound b AND 0, cas_rd_data := cas_rd_data b AND 0, cas_wr_data := cas_wr_data b AND 0,
      ram_conf := ram_conf b AND 0, rom_conf := rom_conf b AND 0, pal_rd := \<lambda>_. Null, pal_wr := \<lambda>_. Null\<rparr>"

definition mem_banks_reset :: "'d board \<Rightarrow> 'd board" where
  "mem_banks_reset b = b\<lparr>b_ram := \<lambda>i. mem_reset (b_ram b i), b_rom := \<lambda>i. map_option mem_reset (b_rom b i),
     b_exp := \<lambda>i. map_option mem_reset (b_exp b i)\<rparr>"

definition board_reset :: "'d libdsk \<Rightarrow> 'd host \<Rightarrow> 'd host" where
  "board_reset L h = (let b = state_reset (snd h);
     b = b\<lparr>b_audio := audio_reset (b_audio b), b_kbd := kbd_reset (b_kbd b)\<rparr>;
     c = reset_state (fst h);
     b = b\<lparr>b_vga := vga_reset (b_vga b), b_vdc := vdc_reset (b_vdc b), b_ppi := ppi_reset (b_ppi b),
           b_psg := psg_reset (b_psg b), b_fdc := Option.bind (b_fdc b) (instance_reset L)\<rparr>
   in (c, update_pal (mem_banks_reset b)))"

section \<open>The clock of the board\<close>

abbreviation FLAG_PAUSE :: u32 where "FLAG_PAUSE \<equiv> 0x02"
abbreviation SND_BUFSIZE :: u32 where "SND_BUFSIZE \<equiv> 16384"

text \<open>
  Each component has an accumulator of ticks of its own frequency.  \<^verbatim>\<open>clock()\<close> of the CPU
  starts from an uninitialised scratch \<^typ>\<open>Stack\<close>, which \<open>scratch\<close> supplies.
\<close>

definition clock_cpu :: "'d libdsk \<Rightarrow> ('d host \<Rightarrow> Stack) \<Rightarrow> 'd host \<Rightarrow> 'd host" where
  "clock_cpu L scratch h = (let b = snd h; t = cpu_ticks b + cpu_clock b in
     if cpc_clock b \<le> t then clock (board_cpu L) (scratch h) (fst h, b\<lparr>cpu_ticks := t - cpc_clock b\<rparr>)
     else (fst h, b\<lparr>cpu_ticks := t\<rparr>))"

definition clock_vdc :: "'d host \<Rightarrow> 'd host" where
  "clock_vdc h = (let b = snd h; t = vdc_ticks b + vdc_clock_rate b in
     if cpc_clock b \<le> t
     then snd (on_vdc (\<lambda>sb. ((), vdc_clock board_vdc sb)) (fst h, b\<lparr>vdc_ticks := t - cpc_clock b\<rparr>))
     else (fst h, b\<lparr>vdc_ticks := t\<rparr>))"

definition clock_psg :: "'d host \<Rightarrow> 'd host" where
  "clock_psg h = (let b = snd h; t = psg_ticks_acc b + psg_clock_rate b in
     if cpc_clock b \<le> t then
       (let p = psg_clock (b_psg b); a = b_audio b; out = psg_out p
        in (fst h, b\<lparr>psg_ticks_acc := t - cpc_clock b, b_psg := p,
             b_audio := a\<lparr>a_acc0 := a_acc0 a + channel0 out, a_acc1 := a_acc1 a + channel1 out,
                          a_acc2 := a_acc2 a + channel2 out, a_acc_count := a_acc_count a + 1\<rparr>\<rparr>))
     else (fst h, b\<lparr>psg_ticks_acc := t\<rparr>))"

text \<open>A sample is the mean of the outputs since the last one; it is dropped when the ring is full.\<close>

definition push_sample :: "audio_state \<Rightarrow> audio_state" where
  "push_sample a = (let
     rd_index = (a_rd_index a + 0) mod SND_BUFSIZE;
     wr_index = (a_wr_index a + 1) mod SND_BUFSIZE;
     scale = (if a_acc_count a \<noteq> 0 then 1 / of_nat (unat (a_acc_count a)) else 0);
     w = unat (a_wr_index a)
   in if wr_index \<noteq> rd_index then
        a\<lparr>a_channel0 := (a_channel0 a)(w := a_acc0 a * scale), a_channel1 := (a_channel1 a)(w := a_acc1 a * scale),
          a_channel2 := (a_channel2 a)(w := a_acc2 a * scale), a_wr_index := wr_index\<rparr>
      else a)"

definition clock_snd :: "'d host \<Rightarrow> 'd host" where
  "clock_snd h = (let b = snd h; t = snd_ticks b + snd_clock b in
     if cpc_clock b \<le> t then
       (fst h, b\<lparr>snd_ticks := t - cpc_clock b,
          b_audio := (push_sample (b_audio b))\<lparr>a_acc0 := 0, a_acc1 := 0, a_acc2 := 0, a_acc_count := 0\<rparr>\<rparr>)
     else (fst h, b\<lparr>snd_ticks := t\<rparr>))"

definition emulate_tick :: "'d libdsk \<Rightarrow> ('d host \<Rightarrow> Stack) \<Rightarrow> 'd host \<Rightarrow> 'd host" where
  "emulate_tick L scratch h = clock_snd (clock_psg (clock_cpu L scratch (clock_vdc
     (fst h, (snd h)\<lparr>cpc_ticks := cpc_ticks (snd h) + frame_rate (snd h)\<rparr>))))"

partial_function (option) emulate_loop :: "'d libdsk \<Rightarrow> ('d host \<Rightarrow> Stack) \<Rightarrow> 'd host \<Rightarrow> 'd host option" where
  "emulate_loop L scratch h =
     (if cpc_ticks (snd h) < cpc_clock (snd h) then emulate_loop L scratch (emulate_tick L scratch h) else Some h)"

definition board_clock :: "'d libdsk \<Rightarrow> ('d host \<Rightarrow> Stack) \<Rightarrow> 'd host \<Rightarrow> 'd host option" where
  "board_clock L scratch h =
     (if cpc_flags (snd h) AND FLAG_PAUSE \<noteq> 0 then Some h
      else Option.bind (emulate_loop L scratch h)
        (\<lambda>h. Some (fst h, (snd h)\<lparr>cpc_ticks := cpc_ticks (snd h) - cpc_clock (snd h)\<rparr>)))"

definition play :: "'d board \<Rightarrow> 'd board" where
  "play b = b\<lparr>cpc_flags := cpc_flags b AND NOT FLAG_PAUSE\<rparr>"

definition pause :: "'d board \<Rightarrow> 'd board" where
  "pause b = b\<lparr>cpc_flags := cpc_flags b OR FLAG_PAUSE\<rparr>"

section \<open>Expansion ROMs\<close>

definition is_set :: "string \<Rightarrow> bool" where
  "is_set s = (s \<noteq> '''' \<and> s \<noteq> ''{not-set}'')"

definition rom_path :: "string \<Rightarrow> string \<Rightarrow> string" where
  "rom_path romdir filename =
     (if filename \<noteq> [] \<and> hd filename \<noteq> CHR ''.'' \<and> hd filename \<noteq> CHR ''/''
      then romdir @ ''/'' @ filename else filename)"

text \<open>
  \<^verbatim>\<open>load_expansion\<close>: the slot is created, blank, before the file is read.
\<close>

definition load_expansion :: "string \<Rightarrow> file_system \<Rightarrow> string \<Rightarrow> u8 \<Rightarrow> 'd board \<Rightarrow> 'd board" where
  "load_expansion romdir fs filename index b = (let
     m = (case b_exp b index of Some m \<Rightarrow> m | None \<Rightarrow> \<lparr>mem_type = ROM_BANK, mem_data = \<lambda>_. 0\<rparr>)
   in b\<lparr>b_exp := (b_exp b)(index \<mapsto> snd (mem_load (rom_path romdir filename) 0 fs m))\<rparr>)"

text \<open>
  The loop of \<^verbatim>\<open>load_expansions_roms\<close> over the 256 elements of \<^verbatim>\<open>_exp\<close>: \<open>slots\<close> are the
  elements that remain, \<open>index\<close> the counter kept beside them.  The \<^verbatim>\<open>continue\<close> for an unset
  slot 7 goes to the next element and leaves the counter as it is.
\<close>

fun load_slots :: "string \<Rightarrow> file_system \<Rightarrow> string list \<Rightarrow> u8 list \<Rightarrow> nat \<Rightarrow> 'd board \<Rightarrow> 'd board" where
  "load_slots romdir fs expansions [] index b = b"
| "load_slots romdir fs expansions (e # slots) index b = (let
     expansion = (if index < 16 then expansions ! index else '''')
   in if index = 7 \<and> \<not> is_set expansion then load_slots romdir fs expansions slots index b
      else if is_set expansion
      then load_slots romdir fs expansions slots (index + 1) (load_expansion romdir fs expansion (of_nat index) b)
      else load_slots romdir fs expansions slots (index + 1) (b\<lparr>b_exp := (b_exp b)(e := None)\<rparr>))"

definition load_expansions_roms :: "string \<Rightarrow> file_system \<Rightarrow> string list \<Rightarrow> 'd board \<Rightarrow> 'd board" where
  "load_expansions_roms romdir fs expansions b =
     load_slots romdir fs expansions (map of_nat [0..<256]) 0 b"

section \<open>What a tick keeps\<close>

definition runs :: "'d board \<Rightarrow> 'd board \<Rightarrow> bool" where
  "runs b0 b \<longleftrightarrow> pal_ok b \<and> b_rom b = b_rom b0 \<and> b_exp b = b_exp b0 \<and> memory_size b = memory_size b0 \<and>
     frame_rate b = frame_rate b0 \<and> cpc_clock b = cpc_clock b0 \<and> cpc_ticks b = cpc_ticks b0 \<and> cpc_flags b = cpc_flags b0"

lemma kept_runs: "kept b0 b \<Longrightarrow> runs b0 b"
  unfolding kept_def runs_def by (auto intro: frozen_eqD)

lemma runs_trans: "runs b0 b1 \<Longrightarrow> runs b1 b2 \<Longrightarrow> runs b0 b2"
  by (simp add: runs_def)

lemma pal_ok_ticks [simp]:
  "pal_ok (b\<lparr>cpu_ticks := x\<rparr>) = pal_ok b" "pal_ok (b\<lparr>vdc_ticks := x\<rparr>) = pal_ok b"
  "pal_ok (b\<lparr>psg_ticks_acc := x\<rparr>) = pal_ok b" "pal_ok (b\<lparr>snd_ticks := x\<rparr>) = pal_ok b"
  "pal_ok (b\<lparr>b_audio := y\<rparr>) = pal_ok b" "pal_ok (b\<lparr>cpc_ticks := x\<rparr>) = pal_ok b"
  by (simp_all add: pal_ok_def present_def cong: bank.case_cong)

lemma clock_setup: "pal_ok b \<Longrightarrow> kept b (snd (clock (board_cpu L) s (c, b)))"
  using cpu_setup.clock_machine_rel [of "\<lparr>cpu_st = c, stk = s, bus = b\<rparr>" L]
  by (simp add: setup_rel_def clock_def Let_def)

lemma clock_cpu_runs: "pal_ok (snd h) \<Longrightarrow> runs (snd h) (snd (clock_cpu L s h))"
proof -
  assume p: "pal_ok (snd h)"
  define b where "b = (snd h)\<lparr>cpu_ticks := cpu_ticks (snd h) + cpu_clock (snd h) - cpc_clock (snd h)\<rparr>"
  have "pal_ok b" using p by (simp add: b_def)
  then have "runs b (snd (clock (board_cpu L) (s h) (fst h, b)))" by (rule kept_runs [OF clock_setup])
  then have "runs (snd h) (snd (clock (board_cpu L) (s h) (fst h, b)))"
    by (rule runs_trans [rotated]) (use p in \<open>simp add: runs_def b_def\<close>)
  then show ?thesis
    using p by (simp add: clock_cpu_def Let_def b_def [symmetric]) (simp add: runs_def)
qed

lemma clock_vdc_runs: "pal_ok (snd h) \<Longrightarrow> runs (snd h) (snd (clock_vdc h))"
proof -
  assume p: "pal_ok (snd h)"
  define b where "b = (snd h)\<lparr>vdc_ticks := vdc_ticks (snd h) + vdc_clock_rate (snd h) - cpc_clock (snd h)\<rparr>"
  have "pal_ok b" using p by (simp add: b_def)
  then have "runs b (snd (snd (on_vdc (\<lambda>sb. ((), vdc_clock board_vdc sb)) (fst h, b))))"
    by (intro kept_runs on_vdc_kept) (simp add: vdc_setup.clock_keeps kept_refl)
  then have "runs (snd h) (snd (snd (on_vdc (\<lambda>sb. ((), vdc_clock board_vdc sb)) (fst h, b))))"
    by (rule runs_trans [rotated]) (use p in \<open>simp add: runs_def b_def\<close>)
  then show ?thesis
    using p by (simp add: clock_vdc_def Let_def b_def [symmetric]) (simp add: runs_def)
qed

lemma clock_sound_runs:
  "pal_ok (snd h) \<Longrightarrow> runs (snd h) (snd (clock_psg h))" "pal_ok (snd h) \<Longrightarrow> runs (snd h) (snd (clock_snd h))"
  by (simp_all add: clock_psg_def clock_snd_def Let_def runs_def)

lemma emulate_tick_runs:
  assumes p: "pal_ok (snd h)"
  shows "runs ((snd h)\<lparr>cpc_ticks := cpc_ticks (snd h) + frame_rate (snd h)\<rparr>) (snd (emulate_tick L s h))"
proof -
  define h0 where "h0 = (fst h, (snd h)\<lparr>cpc_ticks := cpc_ticks (snd h) + frame_rate (snd h)\<rparr>)"
  have step: "runs (snd h0) (snd (f h'))" if "runs (snd h0) (snd h')" "\<And>h. pal_ok (snd h) \<Longrightarrow> runs (snd h) (snd (f h))" for f h'
  proof -
    have "pal_ok (snd h')" using that(1) by (simp add: runs_def)
    from runs_trans [OF that(1) that(2) [OF this]] show ?thesis .
  qed
  have "runs (snd h0) (snd h0)" using p by (simp add: h0_def runs_def)
  then have "runs (snd h0) (snd (clock_vdc h0))"
    by (rule step) (rule clock_vdc_runs)
  then have "runs (snd h0) (snd (clock_cpu L s (clock_vdc h0)))"
    by (rule step) (rule clock_cpu_runs)
  then have "runs (snd h0) (snd (clock_psg (clock_cpu L s (clock_vdc h0))))"
    by (rule step) (rule clock_sound_runs(1))
  then have "runs (snd h0) (snd (clock_snd (clock_psg (clock_cpu L s (clock_vdc h0)))))"
    by (rule step) (rule clock_sound_runs(2))
  then show ?thesis by (simp add: emulate_tick_def h0_def)
qed

section \<open>The loop of a frame ends\<close>

lemma ceil_div_step: "(0 :: nat) < r \<Longrightarrow> t < k \<Longrightarrow> (k - t + r - 1) div r = Suc ((k - (t + r) + r - 1) div r)"
proof -
  assume r: "0 < r" and t: "t < k"
  show ?thesis
  proof (cases "t + r \<le> k")
    case True
    define x where "x = k - (t + r) + r - 1"
    have "k - t + r - 1 = r + x" using True r by (simp add: x_def)
    then have "(k - t + r - 1) div r = (r + x) div r" by (simp only:)
    also have "\<dots> = Suc (x div r)" using r by simp
    finally show ?thesis by (simp only: x_def)
  next
    case False
    then have "(k - (t + r) + r - 1) div r = 0" "k - t + r - 1 - r < r" "r \<le> k - t + r - 1" using r t by auto
    then show ?thesis using r by (simp add: le_div_geq)
  qed
qed

text \<open>\<open>n\<close> ticks have passed, where \<open>n\<close> is the number that the accumulator needs.\<close>

definition frame_ticks :: "'d board \<Rightarrow> nat" where
  "frame_ticks b = (unat (cpc_clock b) - unat (cpc_ticks b) + unat (frame_rate b) - 1) div unat (frame_rate b)"

lemma emulate_tick_counts:
  fixes L :: "'d libdsk" and s :: "'d host \<Rightarrow> Stack"
  assumes "pal_ok (snd h)" and "0 < unat (frame_rate (snd h))" and "cpc_ticks (snd h) < cpc_clock (snd h)"
    and "unat (cpc_clock (snd h)) + unat (frame_rate (snd h)) < 2 ^ 32"
  defines "b \<equiv> snd h" and "b' \<equiv> snd (emulate_tick L s h)"
  shows "cpc_clock b' = cpc_clock b" "frame_rate b' = frame_rate b" "pal_ok b'" "b_rom b' = b_rom b" "b_exp b' = b_exp b"
    and "unat (cpc_ticks b') = unat (cpc_ticks b) + unat (frame_rate b)" and "frame_ticks b = Suc (frame_ticks b')"
proof -
  have r: "runs (b\<lparr>cpc_ticks := cpc_ticks b + frame_rate b\<rparr>) b'"
    unfolding b_def b'_def using assms(1) by (rule emulate_tick_runs)
  then show same: "cpc_clock b' = cpc_clock b" "frame_rate b' = frame_rate b" "pal_ok b'" "b_rom b' = b_rom b" "b_exp b' = b_exp b"
    by (simp_all add: runs_def)
  have t: "unat (cpc_ticks b) < unat (cpc_clock b)" using assms(3) by (simp add: b_def word_less_nat_alt)
  show sum: "unat (cpc_ticks b') = unat (cpc_ticks b) + unat (frame_rate b)"
    using r t assms(4) by (simp add: runs_def b_def unat_word_ariths)
  show "frame_ticks b = Suc (frame_ticks b')"
    unfolding frame_ticks_def same sum using assms(2) t by (simp only: b_def ceil_div_step)
qed

lemma emulate_loop_runs:
  "frame_ticks (snd h) = n \<Longrightarrow> pal_ok (snd h) \<Longrightarrow> 0 < unat (frame_rate (snd h)) \<Longrightarrow>
    unat (cpc_clock (snd h)) + unat (frame_rate (snd h)) < 2 ^ 32 \<Longrightarrow>
    emulate_loop L s h = Some ((emulate_tick L s ^^ n) h) \<and> pal_ok (snd ((emulate_tick L s ^^ n) h)) \<and>
     b_rom (snd ((emulate_tick L s ^^ n) h)) = b_rom (snd h) \<and> b_exp (snd ((emulate_tick L s ^^ n) h)) = b_exp (snd h)"
proof (induction n arbitrary: h)
  case (0 h)
  then have "\<not> cpc_ticks (snd h) < cpc_clock (snd h)"
    by (auto simp: frame_ticks_def word_less_nat_alt div_eq_0_iff)
  then show ?case using 0 by (simp add: emulate_loop.simps)
next
  case (Suc n h)
  show ?case
  proof (cases "cpc_ticks (snd h) < cpc_clock (snd h)")
    case True
    note c = emulate_tick_counts [OF Suc.prems(2,3) True Suc.prems(4), of L s]
    have "frame_ticks (snd (emulate_tick L s h)) = n" using c(7) Suc.prems(1) by simp
    from Suc.IH [OF this] c Suc.prems True show ?thesis
      by (simp add: emulate_loop.simps [of L s h] funpow_swap1 c(1-5))
  next
    case False
    then show ?thesis using Suc.prems by (simp add: frame_ticks_def word_less_nat_alt not_less)
  qed
qed

section \<open>The slots above an unset slot 7\<close>

lemma load_expansion_other: "i \<noteq> j \<Longrightarrow> b_exp (load_expansion r fs f j b) i = b_exp b i"
  by (simp add: load_expansion_def Let_def)

lemma load_slots_stuck: "\<not> is_set (ex ! 7) \<Longrightarrow> load_slots r fs ex slots 7 b = b"
  by (induction slots) simp_all

lemma load_slots_low:
  "index + length slots \<le> 7 \<Longrightarrow> \<forall>e \<in> set slots. e < 7 \<Longrightarrow>
     \<exists>b'. load_slots r fs ex (slots @ rest) index b = load_slots r fs ex rest (index + length slots) b' \<and>
       (\<forall>i \<ge> 7. b_exp b' i = b_exp b i)"
proof (induction slots arbitrary: index b)
  case Nil
  then show ?case by auto
next
  case (Cons e slots)
  let ?b = "if is_set (ex ! index) then load_expansion r fs (ex ! index) (of_nat index) b else b\<lparr>b_exp := (b_exp b)(e := None)\<rparr>"
  have lt: "index < 7" "e < 7" using Cons.prems by simp_all
  then have low: "(of_nat index :: u8) < 7" by (simp add: word_less_nat_alt unat_of_nat)
  have keep: "b_exp ?b i = b_exp b i" if "7 \<le> i" for i
    using that lt low by (auto simp: load_expansion_other)
  have "load_slots r fs ex ((e # slots) @ rest) index b = load_slots r fs ex (slots @ rest) (index + 1) ?b"
    using lt by (simp add: Let_def)
  moreover obtain b' where "load_slots r fs ex (slots @ rest) (index + 1) ?b = load_slots r fs ex rest (index + 1 + length slots) b'"
    "\<forall>i \<ge> 7. b_exp b' i = b_exp ?b i"
    using Cons.IH [of "index + 1" ?b] Cons.prems by auto
  ultimately show ?case using keep by (intro exI [of _ b']) simp
qed

end
