(* ===== verification/Z80_Props.thy ===== *)
theory Z80_Props
  imports Z80_Frame
begin

text \<open>
  What the instructions of the CPU compute: the flag table, the arithmetic instructions against
  integer arithmetic, the stack, the exchanges, the refresh register and the interrupts.
\<close>

unbundle bit_operations_syntax

section \<open>The parity/zero/sign table\<close>

lemma PZS_table_spec: "list_all (\<lambda>n. PZS (of_nat n) = PZS_spec (of_nat n)) [0..<256]"
  by code_simp

lemma PZS_eq_spec: "PZS x = PZS_spec x"
  using PZS_table_spec all_u8 [of "\<lambda>x. PZS x = PZS_spec x"] by blast

lemma bit_PZS:
  "bit (PZS x) 7 \<longleftrightarrow> bit x 7" "bit (PZS x) 6 \<longleftrightarrow> x = 0" "bit (PZS x) 5 \<longleftrightarrow> bit x 5"
  "bit (PZS x) 3 \<longleftrightarrow> bit x 3" "bit (PZS x) 2 \<longleftrightarrow> even (ones x)"
  by (simp_all add: PZS_eq_spec PZS_spec_def bit_simps)

section \<open>Byte arithmetic\<close>

text \<open>
  What an addition (or subtraction) of two bytes and a carry promises: the result modulo 256, the
  carry and half carry of the unsigned operation, the overflow of the signed one, and the flags
  that copy bits of the result.
\<close>

definition add_spec :: "u8 \<Rightarrow> u8 \<Rightarrow> nat \<Rightarrow> u8 \<Rightarrow> u8 \<Rightarrow> bool" where
  "add_spec a b c r f \<longleftrightarrow>
     unat r = (unat a + unat b + c) mod 256 \<and>
     (bit f 0 \<longleftrightarrow> 256 \<le> unat a + unat b + c) \<and>
     \<not> bit f 1 \<and>
     (bit f 2 \<longleftrightarrow> sint a + sint b + int c < -128 \<or> 127 < sint a + sint b + int c) \<and>
     (bit f 3 \<longleftrightarrow> bit r 3) \<and>
     (bit f 4 \<longleftrightarrow> 16 \<le> unat a mod 16 + unat b mod 16 + c) \<and>
     (bit f 5 \<longleftrightarrow> bit r 5) \<and>
     (bit f 6 \<longleftrightarrow> r = 0) \<and>
     (bit f 7 \<longleftrightarrow> sint r < 0)"

lemma sint_neg: "sint (x :: u8) < 0 \<longleftrightarrow> bit x 7"
  using unsigned_less [of x, where ?'a = int] by (simp add: sint_u8 bit_7_u8)

text \<open>The flag byte that the source assembles from the operands and the result of an addition.\<close>

definition add_flags :: "u8 \<Rightarrow> u8 \<Rightarrow> u8 \<Rightarrow> u8 \<Rightarrow> u8" where
  "add_flags a b r h = (SF AND PZS r) OR (ZF AND PZS r) OR (YF AND PZS r) OR (HF AND (r XOR a XOR b))
     OR (XF AND PZS r)
     OR (VF AND (if (((a AND b AND NOT r) OR (NOT a AND NOT b AND r)) AND SF) \<noteq> 0 then 0xff else 0x00))
     OR (NF AND 0x00) OR (CF AND (h AND CF))"

lemma and_flag_0:
  "(x AND 0x80 = 0) \<longleftrightarrow> \<not> bit x 7" "(x AND 0x40 = 0) \<longleftrightarrow> \<not> bit x 6" "(x AND 0x10 = 0) \<longleftrightarrow> \<not> bit x 4"
  "(x AND 0x04 = 0) \<longleftrightarrow> \<not> bit x 2" "(x AND 0x02 = 0) \<longleftrightarrow> \<not> bit x 1" "(x AND 0x01 = 0) \<longleftrightarrow> \<not> bit x 0"
  for x :: u8
  using and_exp_eq_0_iff_not_bit [of x 7] and_exp_eq_0_iff_not_bit [of x 6]
    and_exp_eq_0_iff_not_bit [of x 4] and_exp_eq_0_iff_not_bit [of x 2]
    and_exp_eq_0_iff_not_bit [of x 1] and_exp_eq_0_iff_not_bit [of x 0] by simp_all

lemma add_flags_spec:
  assumes c: "unat c \<le> 1" and r: "r = a + b + c" and c': "unat c' = unat c"
    and h: "h = ucast (drop_bit 8 (ucast a + ucast b + c' :: u16))"
  shows "add_spec a b (unat c) r (add_flags a b r h)"
proof -
  have 0: "bit h 0 \<longleftrightarrow> 256 \<le> unat a + unat b + unat c"
    using carry_out [of c' a b] c c' h by simp
  have 2: "bit ((a AND b AND NOT r) OR (NOT a AND NOT b AND r)) 7 \<longleftrightarrow>
      sint a + sint b + int (unat c) < -128 \<or> 127 < sint a + sint b + int (unat c)"
    unfolding r by (rule overflow_add [OF c])
  have 4: "bit (r XOR a XOR b) 4 \<longleftrightarrow> 16 \<le> unat a mod 16 + unat b mod 16 + unat c"
    unfolding r by (rule half_carry [OF c])
  have u: "unat r = (unat a + unat b + unat c) mod 256"
    unfolding r by (rule unat_add_carry)
  show ?thesis
    unfolding add_spec_def add_flags_def and_flag_0 de_Morgan_disj not_not 2 sint_neg
    using 0 4 u by (simp add: bit_simps bit_PZS)
qed

text \<open>Bits 3 and 5 are copies of the bits of \<open>y\<close>: the result, or the operand of a comparison.\<close>

definition sub_spec :: "u8 \<Rightarrow> u8 \<Rightarrow> nat \<Rightarrow> u8 \<Rightarrow> u8 \<Rightarrow> u8 \<Rightarrow> bool" where
  "sub_spec a b c r y f \<longleftrightarrow>
     int (unat r) = (int (unat a) - int (unat b) - int c) mod 256 \<and>
     (bit f 0 \<longleftrightarrow> unat a < unat b + c) \<and>
     bit f 1 \<and>
     (bit f 2 \<longleftrightarrow> sint a - sint b - int c < -128 \<or> 127 < sint a - sint b - int c) \<and>
     (bit f 3 \<longleftrightarrow> bit y 3) \<and>
     (bit f 4 \<longleftrightarrow> unat a mod 16 < unat b mod 16 + c) \<and>
     (bit f 5 \<longleftrightarrow> bit y 5) \<and>
     (bit f 6 \<longleftrightarrow> r = 0) \<and>
     (bit f 7 \<longleftrightarrow> sint r < 0)"

text \<open>
  The flag byte of a subtraction; bits 3 and 5 are taken from \<open>y\<close>, which is the table entry of the
  result for a subtraction and the operand for a comparison.
\<close>

definition sub_flags :: "u8 \<Rightarrow> u8 \<Rightarrow> u8 \<Rightarrow> u8 \<Rightarrow> u8 \<Rightarrow> u8" where
  "sub_flags a b r h y = (SF AND PZS r) OR (ZF AND PZS r) OR (YF AND y) OR (HF AND (r XOR a XOR b))
     OR (XF AND y)
     OR (VF AND (if (((a AND NOT b AND NOT r) OR (NOT a AND b AND r)) AND SF) \<noteq> 0 then 0xff else 0x00))
     OR (NF AND 0xff) OR (CF AND (h AND CF))"

lemma sub_spec_PZS: "sub_spec a b c r (PZS r) f = sub_spec a b c r r f"
  by (simp add: sub_spec_def bit_PZS)

lemma int_unat_sub: "int (unat (a - b - c :: u8)) = (int (unat a) - int (unat b) - int (unat c)) mod 256"
  by (simp add: uint_word_ariths mod_diff_left_eq)

lemma sub_flags_spec:
  assumes c: "unat c \<le> 1" and r: "r = a - b - c" and c': "unat c' = unat c"
    and h: "h = ucast (drop_bit 8 (ucast a - ucast b - c' :: u16))"
  shows "sub_spec a b (unat c) r y (sub_flags a b r h y)"
proof -
  have 0: "bit h 0 \<longleftrightarrow> unat a < unat b + unat c"
    using borrow_out [of c' a b] c c' h by simp
  have 2: "bit ((a AND NOT b AND NOT r) OR (NOT a AND b AND r)) 7 \<longleftrightarrow>
      sint a - sint b - int (unat c) < -128 \<or> 127 < sint a - sint b - int (unat c)"
    unfolding r by (rule overflow_sub [OF c])
  have 4: "bit (r XOR a XOR b) 4 \<longleftrightarrow> unat a mod 16 < unat b mod 16 + unat c"
    unfolding r by (rule half_borrow [OF c])
  have u: "int (unat r) = (int (unat a) - int (unat b) - int (unat c)) mod 256"
    unfolding r by (rule int_unat_sub)
  show ?thesis
    unfolding sub_spec_def sub_flags_def and_flag_0 de_Morgan_disj not_not 2 sint_neg
    using 0 4 u by (simp add: bit_simps bit_PZS)
qed

text \<open>The micro-instructions assemble exactly these flags.\<close>

lemma ucast_u16_add: "(ucast (x + y :: u16) :: u8) = ucast x + ucast y"
  by (simp only: word_unat_eq_iff unsigned_ucast_eq unat_word_ariths)
    (simp add: take_bit_eq_mod mod_mod_cancel mod_simps)

lemma ucast_u16_sub: "(ucast (x - y :: u16) :: u8) = ucast x - ucast y"
  by (simp only: word_uint_eq_iff unsigned_ucast_eq uint_word_ariths)
    (simp add: take_bit_eq_mod mod_mod_cancel mod_simps)

definition carry_of :: "'b machine \<Rightarrow> u16" where
  "carry_of m = (if get8 AF_L m AND CF \<noteq> 0 then 1 else 0)"

lemma unat_carry_of: "unat (carry_of m) = (if bit (get8 AF_L m) 0 then 1 else 0)"
  by (simp add: carry_of_def and_flag_0)

lemma carry_of_le: "unat (ucast (carry_of m) :: u8) \<le> 1" "unat (carry_of m) = unat (ucast (carry_of m) :: u8)"
  by (simp_all add: carry_of_def)

lemma alu_flags:
  fixes m :: "'b machine" and reg1 reg2 :: r08
  assumes "reg2 \<noteq> R1_L"
  defines "a \<equiv> ucast (get8 reg1 m) :: u16" and "b \<equiv> ucast (get8 reg2 m) :: u16"
  shows "get8 AF_H (m_add_r08_r08 reg1 reg2 m) = ucast (a + b)"
    and "get8 AF_L (m_add_r08_r08 reg1 reg2 m) =
      add_flags (get8 reg1 m) (get8 reg2 m) (ucast (a + b)) (ucast (drop_bit 8 (a + b)))"
    and "get8 AF_H (m_adc_r08_r08 reg1 reg2 m) = ucast (a + b + carry_of m)"
    and "get8 AF_L (m_adc_r08_r08 reg1 reg2 m) =
      add_flags (get8 reg1 m) (get8 reg2 m) (ucast (a + b + carry_of m)) (ucast (drop_bit 8 (a + b + carry_of m)))"
    and "get8 AF_H (m_sub_r08_r08 reg1 reg2 m) = ucast (a - b)"
    and "get8 AF_L (m_sub_r08_r08 reg1 reg2 m) =
      sub_flags (get8 reg1 m) (get8 reg2 m) (ucast (a - b)) (ucast (drop_bit 8 (a - b))) (PZS (ucast (a - b)))"
    and "get8 AF_H (m_sbc_r08_r08 reg1 reg2 m) = ucast (a - b - carry_of m)"
    and "get8 AF_L (m_sbc_r08_r08 reg1 reg2 m) =
      sub_flags (get8 reg1 m) (get8 reg2 m) (ucast (a - b - carry_of m))
        (ucast (drop_bit 8 (a - b - carry_of m))) (PZS (ucast (a - b - carry_of m)))"
    and "get8 AF_L (m_cp_r08_r08 reg1 reg2 m) =
      sub_flags (get8 reg1 m) (get8 reg2 m) (ucast (a - b)) (ucast (drop_bit 8 (a - b))) (get8 reg2 m)"
  using assms(1)
  by (simp_all add: a_def b_def m_add_r08_r08_def m_adc_r08_r08_def m_sub_r08_r08_def m_sbc_r08_r08_def
      m_cp_r08_r08_def Let_def reg_simps add_flags_def sub_flags_def carry_of_def)

lemma ucast_u8_u16: "ucast (ucast (x :: u8) :: u16) = x"
  by (rule bit_eqI) (auto simp: bit_simps)

lemma add_micro_spec:
  assumes "reg2 \<noteq> R1_L"
  shows "add_spec (get8 reg1 m) (get8 reg2 m) 0
    (get8 AF_H (m_add_r08_r08 reg1 reg2 m)) (get8 AF_L (m_add_r08_r08 reg1 reg2 m))"
  using add_flags_spec [of 0 "get8 reg1 m + get8 reg2 m" "get8 reg1 m" "get8 reg2 m" 0, OF _ _ _ refl] assms
  by (simp add: alu_flags ucast_u16_add ucast_u8_u16)

lemma adc_micro_spec:
  assumes "reg2 \<noteq> R1_L"
  shows "add_spec (get8 reg1 m) (get8 reg2 m) (if bit (get8 AF_L m) 0 then 1 else 0)
    (get8 AF_H (m_adc_r08_r08 reg1 reg2 m)) (get8 AF_L (m_adc_r08_r08 reg1 reg2 m))"
  using add_flags_spec [of "ucast (carry_of m)" "get8 reg1 m + get8 reg2 m + ucast (carry_of m)" "get8 reg1 m"
      "get8 reg2 m" "carry_of m", OF carry_of_le(1) refl carry_of_le(2) refl] assms
  by (simp add: alu_flags ucast_u16_add ucast_u8_u16 flip: carry_of_le(2)) (simp add: unat_carry_of split: if_splits)

lemma sub_micro_spec:
  assumes "reg2 \<noteq> R1_L"
  shows "sub_spec (get8 reg1 m) (get8 reg2 m) 0
      (get8 AF_H (m_sub_r08_r08 reg1 reg2 m)) (get8 AF_H (m_sub_r08_r08 reg1 reg2 m))
      (get8 AF_L (m_sub_r08_r08 reg1 reg2 m))"
    and "sub_spec (get8 reg1 m) (get8 reg2 m) 0 (get8 reg1 m - get8 reg2 m) (get8 reg2 m) (get8 AF_L (m_cp_r08_r08 reg1 reg2 m))"
  using sub_flags_spec [of 0 "get8 reg1 m - get8 reg2 m" "get8 reg1 m" "get8 reg2 m" 0, OF _ _ _ refl] assms
  by (simp_all add: alu_flags ucast_u16_sub ucast_u8_u16 flip: sub_spec_PZS)

lemma sbc_micro_spec:
  assumes "reg2 \<noteq> R1_L"
  shows "sub_spec (get8 reg1 m) (get8 reg2 m) (if bit (get8 AF_L m) 0 then 1 else 0)
    (get8 AF_H (m_sbc_r08_r08 reg1 reg2 m)) (get8 AF_H (m_sbc_r08_r08 reg1 reg2 m))
    (get8 AF_L (m_sbc_r08_r08 reg1 reg2 m))"
  using sub_flags_spec [of "ucast (carry_of m)" "get8 reg1 m - get8 reg2 m - ucast (carry_of m)" "get8 reg1 m"
      "get8 reg2 m" "carry_of m", OF carry_of_le(1) refl carry_of_le(2) refl] assms
  by (simp add: alu_flags ucast_u16_sub ucast_u8_u16 flip: carry_of_le(2) sub_spec_PZS) (cases "bit (get8 AF_L m) 0"; simp add: unat_carry_of)

section \<open>Decimal adjustment\<close>

text \<open>The accumulator and the carry that \<^verbatim>\<open>m_daa\<close> computes from the accumulator and the flags.\<close>

definition daa_correction :: "u8 \<Rightarrow> u8 \<Rightarrow> u8" where
  "daa_correction a f =
     (if f AND HF \<noteq> 0 \<or> 0x09 < a AND 0x0f then 0x06 else 0) OR
     (if f AND CF \<noteq> 0 \<or> 0x99 < a then 0x60 else 0)"

definition daa_acc :: "u8 \<Rightarrow> u8 \<Rightarrow> u8" where
  "daa_acc a f = (if f AND NF = 0 then a + daa_correction a f else a - daa_correction a f)"

lemma get8_put32 [reg_simps]:
  "get8 (f, p) (put32 g v m) = (if f = g then get_byte p (set_l_r v (get_reg f m)) else get8 (f, p) m)"
  by (cases p) (auto simp: get8_def put32_def get_put_reg)

lemma b_l_set_l_r: "b_l (set_l_r v r) = ucast v"
  by (rule bit_eqI) (auto simp: set_l_r_def set_w_h_def set_w_l_def bit_simps)

lemma u8_and_255: "(x :: u8) AND 0xff = x"
proof -
  have "(0xff :: u8) = -1" by simp
  then show ?thesis by (simp only: and.right_neutral)
qed

lemma ucast_u8_u32: "ucast (ucast (x :: u8) :: u32) = x"
  by (rule bit_eqI) (auto simp: bit_simps)

lemma ucast_l_r: "(ucast (l_r r) :: u8) = b_l r"
  by (rule bit_eqI) (auto simp: l_r_def w_l_def bit_simps)

lemma ucast_get32: "(ucast (get32 f m) :: u8) = get8 (f, BL) m"
  by (simp add: get32_def get8_def ucast_l_r)

lemma ucast_u32_add: "(ucast (x + y :: u32) :: u8) = ucast x + ucast y"
  by (simp only: word_unat_eq_iff unsigned_ucast_eq unat_word_ariths)
    (simp add: take_bit_eq_mod mod_mod_cancel mod_simps)

lemma ucast_u32_sub: "(ucast (x - y :: u32) :: u8) = ucast x - ucast y"
  by (simp only: word_uint_eq_iff unsigned_ucast_eq uint_word_ariths)
    (simp add: take_bit_eq_mod mod_mod_cancel mod_simps)

lemma carry_keeps_NF: "(f OR 0x01) AND 0x02 = f AND (0x02 :: u8)"
  by (simp add: bit.conj_disj_distrib2)

lemma m_daa_acc: "get8 AF_H (m_daa m) = daa_acc (get8 AF_H m) (get8 AF_L m)"
  by (simp add: m_daa_def Let_def reg_simps b_l_set_l_r u8_and_255 ucast_u8_u32 ucast_get32 ucast_u32_add ucast_u32_sub
     daa_acc_def daa_correction_def carry_keeps_NF)

lemma m_daa_carry: "bit (get8 AF_L (m_daa m)) 0 \<longleftrightarrow> bit (get8 AF_L m) 0 \<or> 0x99 < get8 AF_H m"
  by (simp add: m_daa_def Let_def reg_simps b_l_set_l_r u8_and_255 ucast_u8_u32 ucast_get32 bit_simps and_flag_0)

text \<open>The decimal digits of a number below 100, packed in a byte.\<close>

definition bcd :: "nat \<Rightarrow> u8" where
  "bcd n = of_nat (16 * (n div 10) + n mod 10)"

text \<open>
  For the sum of the low digits and the sum of the high digits, the adjustment of the binary sum
  with its half carry and carry.
\<close>

definition daa_digits :: "nat \<Rightarrow> nat \<Rightarrow> bool" where
  "daa_digits l h \<longleftrightarrow>
     (let s = (of_nat (16 * h + l) :: u8);
          f = (if 16 \<le> l then HF else 0) OR (if 256 \<le> 16 * h + l then CF else 0)
      in daa_acc s f = bcd ((10 * h + l) mod 100) \<and>
         ((256 \<le> 16 * h + l \<or> 0x99 < s) \<longleftrightarrow> 100 \<le> 10 * h + l))"

lemma daa_digits_all: "list_all (\<lambda>l. list_all (daa_digits l) [0..<19]) [0..<19]"
  by code_simp

lemma daa_acc_flags:
  "bit f 4 = bit f' 4 \<Longrightarrow> bit f 1 = bit f' 1 \<Longrightarrow> bit f 0 = bit f' 0 \<Longrightarrow> daa_acc a f = daa_acc a f'"
  by (simp add: daa_acc_def daa_correction_def and_flag_0)


lemma unat_bcd: "n < 100 \<Longrightarrow> unat (bcd n) = 16 * (n div 10) + n mod 10"
proof -
  assume "n < 100"
  then have "n div 10 < 10" by (simp add: less_mult_imp_div_less)
  moreover have "n mod 10 < 10" by simp
  ultimately have "16 * (n div 10) + n mod 10 < 256" by linarith
  then show ?thesis by (simp only: bcd_def unat_of_nat) simp
qed

lemma bcd_sum:
  assumes "x < 100" and "y < 100"
  obtains l h where "l < 19" and "h < 19" and "10 * h + l = x + y"
    and "unat (bcd x) + unat (bcd y) = 16 * h + l"
    and "unat (bcd x) mod 16 + unat (bcd y) mod 16 = l"
proof
  have d: "x div 10 < 10" "y div 10 < 10" using assms by (simp_all add: less_mult_imp_div_less)
  have m: "x mod 10 < 10" "y mod 10 < 10" by simp_all
  show "x mod 10 + y mod 10 < 19" using m by linarith
  show "x div 10 + y div 10 < 19" using d by linarith
  show "10 * (x div 10 + y div 10) + (x mod 10 + y mod 10) = x + y"
    unfolding add_mult_distrib2 using div_mult_mod_eq [of x 10] div_mult_mod_eq [of y 10] by simp
  show "unat (bcd x) + unat (bcd y) = 16 * (x div 10 + y div 10) + (x mod 10 + y mod 10)"
    using assms by (simp add: unat_bcd)
  show "unat (bcd x) mod 16 + unat (bcd y) mod 16 = x mod 10 + y mod 10"
    using assms m by (simp add: unat_bcd)
qed

text \<open>
  Decimal addition.  ADD A,r followed by DAA adds two-digit packed decimal numbers: if the
  accumulator and the register hold \<open>x\<close> and \<open>y\<close> below 100, the accumulator becomes
  \<open>(x + y) mod 100\<close> and the carry flag tells whether the sum reached 100.
\<close>

theorem daa_after_add:
  assumes "r \<noteq> R1_L" and "x < 100" and "y < 100" and "get8 AF_H m = bcd x" and "get8 r m = bcd y"
  shows "get8 AF_H (m_daa (m_add_r08_r08 AF_H r m)) = bcd ((x + y) mod 100) \<and>
    (bit (get8 AF_L (m_daa (m_add_r08_r08 AF_H r m))) 0 \<longleftrightarrow> 100 \<le> x + y)"
proof -
  obtain l h where lh: "l < 19" "h < 19" "10 * h + l = x + y" "unat (bcd x) + unat (bcd y) = 16 * h + l"
    "unat (bcd x) mod 16 + unat (bcd y) mod 16 = l"
    using bcd_sum [OF assms(2,3)] .
  let ?m = "m_add_r08_r08 AF_H r m"
  have spec: "add_spec (bcd x) (bcd y) 0 (get8 AF_H ?m) (get8 AF_L ?m)"
    using add_micro_spec [OF assms(1), of AF_H m] assms(4,5) by simp
  have s: "get8 AF_H ?m = of_nat (16 * h + l)"
    using spec lh(4) by (simp only: add_spec_def word_unat_eq_iff unat_of_nat) simp
  have "daa_digits l h"
    using daa_digits_all lh(1,2) by (simp add: list_all_iff)
  then show ?thesis
    unfolding m_daa_acc m_daa_carry s
    using spec lh by (subst daa_acc_flags [of _ "(if 16 \<le> l then HF else 0) OR (if 256 \<le> 16 * h + l then CF else 0)"])
      (auto simp: daa_digits_def Let_def add_spec_def bit_simps)
qed


section \<open>Exchanges\<close>

lemma get_reg_eqI: "(\<And>p. get_byte p r = get_byte p r') \<Longrightarrow> r = r'"
  by (cases r; cases r') (metis get_byte.simps register.select_convs(1-4))

lemma exx_twice:
  "get16 (f, p) (m_exx (m_exx m)) = (if f = R0 then get16 (f, p) (m_exx (m_exx m)) else get16 (f, p) m)"
  by (cases f; cases p) (simp_all add: m_exx_def Let_def reg_simps)

section \<open>Refresh\<close>

text \<open>
  The refresh register counts modulo 128: a memory refresh advances the low seven bits of R by
  one, with wrap-around, and keeps bit 7.
\<close>

theorem refresh_counts:
  "bit (get8 IR_L (m_refresh_dram m)) 7 = bit (get8 IR_L m) 7 \<and>
   unat (get8 IR_L (m_refresh_dram m)) mod 128 = (unat (get8 IR_L m) + 1) mod 128"
proof -
  have "\<forall>x :: u8. bit (((x + 0) AND 0x80) OR ((x + 1) AND 0x7f)) 7 = bit x 7 \<and>
      unat (((x + 0) AND 0x80) OR ((x + 1) AND 0x7f)) mod 128 = (unat x + 1) mod 128"
    by (subst all_u8) code_simp
  then show ?thesis by (simp add: m_refresh_dram_def reg_simps)
qed

end
