(* ===== verification/Z80_Memory.thy ===== *)
theory Z80_Memory
  imports Z80_Props
begin

text \<open>
  The CPU and its memory.  The locale \<open>cpu_memory\<close> is what an instruction may rely on when it reads
  and writes memory through the interface: a read returns the byte the address shows and changes
  nothing, and a write changes the byte of a writable address and no other.  The lemmas inside it
  show what the stack and the block instructions then do; the main board interprets it with its
  banked memory.
\<close>

unbundle bit_operations_syntax

section \<open>Registers, time and the bus\<close>

lemma get_bus [reg_simps]:
  "get8 p (m\<lparr>bus := b\<rparr>) = get8 p m" "get16 q (m\<lparr>bus := b\<rparr>) = get16 q m"
proof -
  have r: "get_reg f (m\<lparr>bus := b\<rparr>) = get_reg f m" for f by (cases f) simp_all
  show "get8 p (m\<lparr>bus := b\<rparr>) = get8 p m" by (cases p) (simp add: get8_def r)
  show "get16 q (m\<lparr>bus := b\<rparr>) = get16 q m" by (cases q) (simp add: get16_def r)
qed

lemma get_consume [reg_simps]:
  "get8 p (m_consume c t m) = get8 p m" "get16 q (m_consume c t m) = get16 q m" "bus (m_consume c t m) = bus m"
proof -
  have r: "get_reg f (m_consume c t m) = get_reg f m" for f by (cases f) (simp_all add: m_consume_def)
  show "get8 p (m_consume c t m) = get8 p m" by (cases p) (simp add: get8_def r)
  show "get16 q (m_consume c t m) = get16 q m" by (cases q) (simp add: get16_def r)
  show "bus (m_consume c t m) = bus m" by (simp add: m_consume_def)
qed

section \<open>Copying byte after byte\<close>

text \<open>Memory after \<open>n\<close> bytes have been copied in ascending order from \<open>s\<close> to \<open>d\<close>.\<close>

primrec copy_bytes :: "nat \<Rightarrow> u16 \<Rightarrow> u16 \<Rightarrow> (u16 \<Rightarrow> u8) \<Rightarrow> (u16 \<Rightarrow> u8)" where
  "copy_bytes 0 s d f = f"
| "copy_bytes (Suc n) s d f = copy_bytes n (s + 1) (d + 1) (f(d := f s))"

lemma copy_bytes_other: "(\<And>k. k < n \<Longrightarrow> a \<noteq> d + of_nat k) \<Longrightarrow> copy_bytes n s d f a = f a"
proof (induction n arbitrary: s d f)
  case (Suc n)
  have "a \<noteq> d + 1 + of_nat k" if "k < n" for k
    using Suc.prems [of "Suc k"] that by (simp add: add.assoc add.commute [of 1])
  moreover have "a \<noteq> d" using Suc.prems [of 0] by simp
  ultimately show ?case using Suc.IH [of "d + 1" "s + 1" "f(d := f s)"] by (simp add: fun_upd_def)
qed simp

lemma copy_bytes_target:
  "i < n \<Longrightarrow> n \<le> 2 ^ 16 \<Longrightarrow> (\<And>j k. j < k \<Longrightarrow> k < n \<Longrightarrow> d + of_nat j \<noteq> s + of_nat k) \<Longrightarrow>
    copy_bytes n s d f (d + of_nat i) = f (s + of_nat i)"
proof (induction n arbitrary: s d f i)
  case (Suc n)
  show ?case
  proof (cases i)
    case 0
    have "d \<noteq> d + 1 + of_nat k" if "k < n" for k
    proof
      assume "d = d + 1 + of_nat k"
      then have "of_nat (Suc k) = (0 :: u16)" by (simp add: add.assoc)
      then have "2 ^ 16 dvd Suc k" by (simp only: word_of_nat_eq_0_iff) simp
      then show False using dvd_imp_le [of "2 ^ 16" "Suc k"] that Suc.prems(2) by simp
    qed
    then show ?thesis using 0 by (simp add: copy_bytes_other)
  next
    case (Suc i')
    have "d + 1 + of_nat j \<noteq> s + 1 + of_nat k" if "j < k" "k < n" for j k
      using Suc.prems(3) [of "Suc j" "Suc k"] that by (simp add: add.assoc add.commute [of 1])
    moreover have "d \<noteq> s + 1 + of_nat i'"
      using Suc.prems(3) [of 0 i] Suc.prems(1) Suc by (simp add: add.assoc)
    ultimately have "copy_bytes n (s + 1) (d + 1) (f(d := f s)) (d + 1 + of_nat i') = (f(d := f s)) (s + 1 + of_nat i')"
      using Suc.IH [of i' "d + 1" "s + 1" "f(d := f s)"] Suc.prems(1,2) Suc by (simp add: fun_upd_def)
    then show ?thesis using \<open>d \<noteq> s + 1 + of_nat i'\<close> Suc by (simp add: add.assoc fun_upd_def)
  qed
qed simp

section \<open>The contract of the memory\<close>

locale cpu_memory =
  fixes I :: "'b iface"
    and shows_byte :: "'b \<Rightarrow> u16 \<Rightarrow> u8"
    and store :: "u16 \<Rightarrow> u8 \<Rightarrow> 'b \<Rightarrow> 'b"
    and writable :: "'b \<Rightarrow> u16 \<Rightarrow> bool"
    and wf :: "'b \<Rightarrow> bool"
  assumes read_mem: "wf b \<Longrightarrow> cpu_mreq_rd I a d (s, b) = (shows_byte b a, s, b)"
    and write_mem: "wf b \<Longrightarrow> \<exists>x. cpu_mreq_wr I a d (s, b) = (x, s, store a d b)"
    and wf_store: "wf b \<Longrightarrow> wf (store a d b)"
    and shows_store: "wf b \<Longrightarrow> writable b a \<Longrightarrow> shows_byte (store a d b) = (shows_byte b)(a := d)"
    and writable_store: "wf b \<Longrightarrow> writable (store a d b) = writable b"
begin

lemma m_mreq_rd_mem: "wf (bus m) \<Longrightarrow> m_mreq_rd I a r m = put8 r (shows_byte (bus m) a) m"
  by (simp add: m_mreq_rd_def MREQ_RD_def read_mem)

lemma m_mreq_wr_mem: "wf (bus m) \<Longrightarrow> m_mreq_wr I a d m = m\<lparr>bus := store a d (bus m)\<rparr>"
  using write_mem [of "bus m" a d "cpu_st m"] by (auto simp: m_mreq_wr_def MREQ_WR_def)

lemmas mem_simps = m_mreq_rd_mem m_mreq_wr_mem wf_store shows_store writable_store

text \<open>The stack: what PUSH, POP, CALL and RET do to memory, to SP and to the register.\<close>

lemma push_mem:
  assumes "wf (bus m)" and "fst r \<notin> {R0, SP}"
  shows "get16 SP_W (m_push_r16 I r m) = get16 SP_W m - 2"
    and "bus (m_push_r16 I r m) = store (get16 SP_W m - 2) (ucast (get16 r m))
      (store (get16 SP_W m - 1) (ucast (drop_bit 8 (get16 r m))) (bus m))"
    and "f \<notin> {R0, SP} \<Longrightarrow> get16 (f, p) (m_push_r16 I r m) = get16 (f, p) m"
  using assms by (cases r; simp add: m_push_r16_def Let_def mem_simps reg_simps)+

lemma pop_mem:
  assumes "wf (bus m)" and "fst r \<notin> {R0, SP}"
  shows "get16 r (m_pop_r16 I r m) =
      push_bit 8 (ucast (shows_byte (bus m) (get16 SP_W m + 1))) OR ucast (shows_byte (bus m) (get16 SP_W m))"
    and "get16 SP_W (m_pop_r16 I r m) = get16 SP_W m + 2"
    and "bus (m_pop_r16 I r m) = bus m"
    and "f \<notin> {R0, SP, fst r} \<Longrightarrow> get16 (f, p) (m_pop_r16 I r m) = get16 (f, p) m"
proof -
  obtain g q where r: "r = (g, q)" by (cases r)
  show "get16 r (m_pop_r16 I r m) =
      push_bit 8 (ucast (shows_byte (bus m) (get16 SP_W m + 1))) OR ucast (shows_byte (bus m) (get16 SP_W m))"
    "get16 SP_W (m_pop_r16 I r m) = get16 SP_W m + 2" "bus (m_pop_r16 I r m) = bus m"
    "f \<notin> {R0, SP, fst r} \<Longrightarrow> get16 (f, p) (m_pop_r16 I r m) = get16 (f, p) m"
    using assms unfolding r by (auto simp: m_pop_r16_def Let_def mem_simps reg_simps)
qed

lemma shows_pushed:
  assumes "wf b" and "writable b (a - 2)" and "writable b (a - 1)"
  shows "shows_byte (store (a - 2) x (store (a - 1) y b)) = (shows_byte b)(a - 1 := y, a - 2 := x)"
  using assms by (simp add: mem_simps)

lemma push_pop:
  assumes "wf (bus m)" and "fst r \<notin> {R0, SP}" and "fst q \<notin> {R0, SP}"
    and "writable (bus m) (get16 SP_W m - 2)" and "writable (bus m) (get16 SP_W m - 1)"
  shows "get16 q (m_pop_r16 I q (m_push_r16 I r m)) = get16 r m"
    and "get16 SP_W (m_pop_r16 I q (m_push_r16 I r m)) = get16 SP_W m"
proof -
  let ?m = "m_push_r16 I r m"
  note push = push_mem(1,2) [OF assms(1,2)]
  have wf: "wf (bus ?m)" using assms(1) by (simp add: push wf_store)
  have b: "shows_byte (bus ?m) = (shows_byte (bus m))(get16 SP_W m - 1 := ucast (drop_bit 8 (get16 r m)),
      get16 SP_W m - 2 := ucast (get16 r m))"
    unfolding push(2) by (rule shows_pushed [OF assms(1,4,5)])
  show "get16 q (m_pop_r16 I q ?m) = get16 r m"
    unfolding pop_mem(1) [OF wf assms(3)] b push(1) using u16_split [of "get16 r m"] by simp
  show "get16 SP_W (m_pop_r16 I q ?m) = get16 SP_W m"
    unfolding pop_mem(2) [OF wf assms(3)] push(1) by simp
qed

text \<open>One step of LDIR.\<close>

lemma ldir_step:
  assumes "wf (bus m)"
  shows "get16 HL_W (m_ldir I m) = get16 HL_W m + 1" and "get16 DE_W (m_ldir I m) = get16 DE_W m + 1"
    and "get16 BC_W (m_ldir I m) = get16 BC_W m - 1"
    and "bus (m_ldir I m) = store (get16 DE_W m) (shows_byte (bus m) (get16 HL_W m)) (bus m)"
    and "get16 PC_W (m_ldir I m) = (if get16 BC_W m = 1 then get16 PC_W m else get16 OP_P m)"
    and "get16 OP_P (m_ldir I m) = get16 OP_P m"
  using assms by (simp_all add: m_ldir_def m_restore_pc_def Let_def mem_simps reg_simps)

text \<open>Repeated LDIR is the reference copy.\<close>

lemma ldir_run:
  "wf (bus m) \<Longrightarrow> (\<And>k. k < n \<Longrightarrow> writable (bus m) (get16 DE_W m + of_nat k)) \<Longrightarrow>
    wf (bus ((m_ldir I ^^ n) m)) \<and>
    shows_byte (bus ((m_ldir I ^^ n) m)) = copy_bytes n (get16 HL_W m) (get16 DE_W m) (shows_byte (bus m)) \<and>
    get16 HL_W ((m_ldir I ^^ n) m) = get16 HL_W m + of_nat n \<and>
    get16 DE_W ((m_ldir I ^^ n) m) = get16 DE_W m + of_nat n \<and>
    get16 BC_W ((m_ldir I ^^ n) m) = get16 BC_W m - of_nat n"
proof (induction n arbitrary: m)
  case (Suc n)
  note step = ldir_step [OF Suc.prems(1)]
  have w0: "writable (bus m) (get16 DE_W m)" using Suc.prems(2) [of 0] by simp
  have wr: "writable (bus (m_ldir I m)) (get16 DE_W (m_ldir I m) + of_nat k)" if "k < n" for k
    using Suc.prems(2) [of "Suc k"] that Suc.prems(1)
    by (simp add: step writable_store add.assoc add.commute [of 1])
  have wf: "wf (bus (m_ldir I m))" using Suc.prems(1) by (simp add: step wf_store)
  show ?case
    using Suc.IH [OF wf wr] Suc.prems(1) w0
    by (simp add: funpow_Suc_right del: funpow.simps)
      (simp add: step shows_store add.assoc add.commute [of 1] diff_diff_eq)
qed simp

end

end
