(* ===== verification/CPC_Memory.thy ===== *)
theory CPC_Memory
  imports CPC_Keep Z80_Memory
begin

text \<open>
  The banked memory of the main board as the memory of the CPU: which byte an address shows, where
  a write goes, and that both follow the contract \<open>cpu_memory\<close>.  A write always goes to RAM, so an
  address that shows a ROM is not writable: the byte goes to the RAM beneath it.
\<close>

unbundle bit_operations_syntax

section \<open>Addresses\<close>

lemma mem_bank_less: "mem_bank a < 4"
  using word_and_le1 [of "drop_bit 14 a" "3"] by (simp add: mem_bank_def word_le_nat_alt)

lemma bit_and_mask: "bit (x AND semiring_bit_operations_class.mask k) n \<longleftrightarrow> bit x n \<and> n < k" for x :: u16
  using bit_imp_le_length [of x n] by (auto simp: bit_simps)

lemma bit_and_3: "bit (x AND (3 :: u16)) n \<longleftrightarrow> bit x n \<and> n < 2"
  using bit_and_mask [of x 2 n] by (simp add: mask_eq_exp_minus_1)

lemma bit_and_3fff: "bit (x AND (0x3fff :: u16)) n \<longleftrightarrow> bit x n \<and> n < 14"
  using bit_and_mask [of x 14 n] by (simp add: mask_eq_exp_minus_1)

text \<open>An address is its quarter and its offset.\<close>

lemma address_eqI:
  assumes "mem_bank a = mem_bank a'" and "mem_offset a = mem_offset a'"
  shows "a = a'"
proof (rule bit_word_eqI)
  fix n
  assume n: "n < LENGTH(16)"
  show "bit a n \<longleftrightarrow> bit a' n"
  proof (cases "n < 14")
    case True
    have "bit (a AND 0x3fff) n = bit (a' AND 0x3fff) n" using assms(2) by (simp add: mem_offset_def)
    then show ?thesis using True by (simp add: bit_and_3fff)
  next
    case False
    have "drop_bit 14 a AND 3 = drop_bit 14 a' AND 3"
      using assms(1) unfolding mem_bank_def by (simp only: word_unat_eq_iff)
    then have "bit (drop_bit 14 a AND 3) (n - 14) = bit (drop_bit 14 a' AND 3) (n - 14)" by simp
    moreover have "n - 14 < 2" "14 + (n - 14) = n" using False n by auto
    ultimately show ?thesis by (simp add: bit_and_3 bit_drop_bit_eq)
  qed
qed

section \<open>The memory the CPU sees\<close>

definition board_byte :: "'d board \<Rightarrow> u16 \<Rightarrow> u8" where
  "board_byte b a = bank_byte b (pal_rd b (mem_bank a)) (mem_offset a)"

definition board_store :: "u16 \<Rightarrow> u8 \<Rightarrow> 'd board \<Rightarrow> 'd board" where
  "board_store a d b = bank_write (pal_wr b (mem_bank a)) (mem_offset a) d b"

definition board_writable :: "'d board \<Rightarrow> u16 \<Rightarrow> bool" where
  "board_writable b a \<longleftrightarrow> pal_rd b (mem_bank a) = pal_wr b (mem_bank a)"

text \<open>
  The four quarters are written to different RAM banks, and a quarter that shows RAM shows the bank
  it is written to.
\<close>

definition banked_ok :: "'d board \<Rightarrow> bool" where
  "banked_ok b \<longleftrightarrow> pal_ok b \<and> distinct (map (pal_wr b) [0, 1, 2, 3]) \<and>
     (\<forall>i < 4. \<forall>k. pal_rd b i = RAM k \<longrightarrow> pal_wr b i = RAM k)"

lemma banked_inj: "banked_ok b \<Longrightarrow> i < 4 \<Longrightarrow> j < 4 \<Longrightarrow> pal_wr b i = pal_wr b j \<longleftrightarrow> i = j"
  by (auto simp: banked_ok_def less_Suc_eq numeral_eq_Suc)

lemma banked_ramE:
  assumes "banked_ok b" and "i < 4"
  obtains k where "pal_wr b i = RAM k" and "k < 8"
proof -
  have "is_ram (pal_wr b i)" using assms by (simp add: banked_ok_def pal_ok_def)
  then show ?thesis using that by (cases "pal_wr b i") (auto simp: is_ram_def)
qed

lemma board_storeE:
  assumes "banked_ok b"
  obtains k where "pal_wr b (mem_bank a) = RAM k"
    and "board_store a d b = b\<lparr>b_ram := (b_ram b)(k := poke (mem_offset a) d (b_ram b k))\<rparr>"
  using banked_ramE [OF assms mem_bank_less [of a]] by (auto simp: board_store_def bank_write_def)

lemma banked_ok_ram [simp]: "banked_ok (b\<lparr>b_ram := r\<rparr>) = banked_ok b"
  by (simp add: banked_ok_def)

lemma board_store_wf: "banked_ok b \<Longrightarrow> banked_ok (board_store a d b)"
  by (rule board_storeE [of b a d]) auto

lemma board_byte_store:
  assumes ok: "banked_ok b"
  shows "board_byte (board_store a d b) = (if board_writable b a then (board_byte b)(a := d) else board_byte b)"
proof (rule ext)
  fix a'
  let ?i = "mem_bank a" and ?j = "mem_bank a'"
  obtain k where k: "pal_wr b ?i = RAM k"
    "board_store a d b = b\<lparr>b_ram := (b_ram b)(k := poke (mem_offset a) d (b_ram b k))\<rparr>"
    using board_storeE [OF ok] .
  have ram: "pal_wr b ?j = RAM n" if "pal_rd b ?j = RAM n" for n
    using that ok mem_bank_less [of a'] by (simp add: banked_ok_def)
  have same: "?j = ?i" if "pal_rd b ?j = RAM k"
    using ram [OF that] k(1) banked_inj [OF ok mem_bank_less [of a'] mem_bank_less [of a]] by simp
  show "board_byte (board_store a d b) a' = (if board_writable b a then (board_byte b)(a := d) else board_byte b) a'"
  proof (cases "pal_rd b ?j = RAM k")
    case True
    note j = same [OF True]
    then have "board_writable b a" using True k(1) by (simp add: board_writable_def)
    moreover have "mem_offset a' = mem_offset a \<longleftrightarrow> a' = a"
      using j address_eqI [of a' a] by auto
    ultimately show ?thesis
      using True by (auto simp: board_byte_def bank_byte_def k(2) poke_def)
  next
    case False
    then have "\<not> (board_writable b a \<and> a' = a)" using k(1) by (auto simp: board_writable_def)
    then show ?thesis
      using False by (auto simp: board_byte_def bank_byte_def k(2) split: bank.split)
  qed
qed

lemma board_writable_store: "banked_ok b \<Longrightarrow> board_writable (board_store a d b) = board_writable b"
  by (rule board_storeE [of b a d]) (auto simp: board_writable_def)

interpretation board_memory: cpu_memory "board_cpu L" board_byte board_store board_writable banked_ok for L
  by unfold_locales (simp_all add: board_cpu_def mreq_rd_def mreq_wr_def board_byte_def [symmetric] board_store_def [symmetric]
      board_store_wf board_byte_store board_writable_store)

section \<open>The configuration registers\<close>

lemma ram_banks_distinct: "ram_banks c = Some ns \<Longrightarrow> distinct (map RAM ns) \<and> length ns = 4"
  by (auto simp: ram_banks_def split: if_splits)

lemma map_ram_banked:
  assumes "length ns = 4" and "distinct (map RAM ns)" and "\<And>i. i < 4 \<Longrightarrow> ns ! i < 8"
  shows "banked_ok (map_ram ns b)"
proof -
  have "map (pal_wr (map_ram ns b)) [0, 1, 2, 3] = map RAM ns"
    using assms(1) by (auto intro!: nth_equalityI simp: map_ram_def less_Suc_eq numeral_eq_Suc)
  then show ?thesis
    using assms(2) map_ram_ok [OF assms(3)] by (simp add: banked_ok_def) (simp add: map_ram_def)
qed

lemma pal_ram_banked:
  "banked_ok b \<or> \<not> large_memory b \<or> ram_banks (ram_conf b AND 0x3f) \<noteq> None \<Longrightarrow> banked_ok (pal_ram b)"
  by (auto simp: pal_ram_def not_le less_Suc_eq numeral_eq_Suc
      dest: ram_banks_bound ram_banks_distinct intro!: map_ram_banked split: option.splits)

lemma rom_read_banked: "banked_ok b \<Longrightarrow> present b k \<Longrightarrow> \<not> is_ram k \<Longrightarrow> banked_ok (b\<lparr>pal_rd := (pal_rd b)(i := k)\<rparr>)"
  by (auto simp: banked_ok_def pal_rd_ok present_def is_ram_def)

lemma pal_roms_banked: "banked_ok b \<Longrightarrow> banked_ok (pal_lower b)" "banked_ok b \<Longrightarrow> banked_ok (pal_upper b)"
  by (simp_all add: pal_lower_def pal_upper_def Let_def rom_read_banked present_slots is_ram_def)

lemma update_pal_banked:
  "banked_ok b \<or> \<not> large_memory b \<or> ram_banks (ram_conf b AND 0x3f) \<noteq> None \<Longrightarrow> banked_ok (update_pal b)"
  unfolding update_pal_def by (intro pal_roms_banked pal_ram_banked)

end
