(* ===== verification/Z80_Theorems.thy ===== *)
theory Z80_Theorems
  imports Z80_Memory Z80_Time
begin

text \<open>
  What the instructions of the CPU do, stated for the opcodes themselves: \<^term>\<open>execute_opcode\<close> on
  a machine whose opcode register holds the byte.  The second half is about the clock: an interrupt
  in the undocumented mode 3.
\<close>

unbundle bit_operations_syntax

section \<open>A small machine\<close>

text \<open>A machine with a flat memory of 64 KiB, on which the hypotheses of the theorems hold.\<close>

definition ram_iface :: "(u16 \<Rightarrow> u8) iface" where
  "ram_iface = \<lparr>cpu_mreq_m1 = (\<lambda>a d (s, f). (f a, s, f)), cpu_mreq_rd = (\<lambda>a d (s, f). (f a, s, f)),
     cpu_mreq_wr = (\<lambda>a d (s, f). (d, s, f(a := d))), cpu_iorq_m1 = (\<lambda>a d (s, f). (0xff, s, f)),
     cpu_iorq_rd = (\<lambda>a d (s, f). (0xff, s, f)), cpu_iorq_wr = (\<lambda>a d (s, f). (d, s, f))\<rparr>"

definition zero_state :: State where
  "zero_state = \<lparr>r_af = zero_register, r_bc = zero_register, r_de = zero_register, r_hl = zero_register,
     r_ix = zero_register, r_iy = zero_register, r_sp = zero_register, r_pc = zero_register, r_ir = zero_register,
     r_st = zero_register, m_cycles = 0, t_states = 0, i_period = 0\<rparr>"

definition zero_stack :: Stack where
  "zero_stack = \<lparr>r_op = zero_register, r_wz = zero_register, r_r0 = zero_register, r_r1 = zero_register,
     r_r2 = zero_register, r_r3 = zero_register\<rparr>"

text \<open>The accumulator and the register B hold \<open>a\<close> and \<open>b\<close>, the opcode register \<open>oc\<close>.\<close>

definition small_machine :: "u8 \<Rightarrow> u8 \<Rightarrow> u8 \<Rightarrow> (u16 \<Rightarrow> u8) machine" where
  "small_machine oc a b = \<lparr>cpu_st = zero_state\<lparr>r_af := zero_register\<lparr>b_h := a\<rparr>, r_bc := zero_register\<lparr>b_h := b\<rparr>\<rparr>,
     stk = zero_stack\<lparr>r_op := zero_register\<lparr>b_l := oc\<rparr>\<rparr>, bus = \<lambda>a. 0\<rparr>"

lemma small_machine_get [simp]:
  "get8 OP_L (small_machine oc a b) = oc" "get8 AF_H (small_machine oc a b) = a" "get8 AF_L (small_machine oc a b) = 0"
  "get8 BC_H (small_machine oc a b) = b"
  by (simp_all add: small_machine_def get8_def zero_state_def zero_stack_def zero_register_def)

interpretation flat: cpu_memory ram_iface "\<lambda>f. f" "\<lambda>a d f. f(a := d)" "\<lambda>f a. True" "\<lambda>f. True"
  by unfold_locales (simp_all add: ram_iface_def)

theorem daa_after_add_witness:
  "get8 AF_H (m_daa (m_add_r08_r08 AF_H BC_H (small_machine 0x80 0x15 0x27))) = 0x42"
  using daa_after_add [of BC_H 15 27 "small_machine 0x80 0x15 0x27"] by (simp add: bcd_def)

section \<open>Arithmetic opcodes\<close>

text \<open>The register operand of an opcode, from its three lowest bits; 6 stands for \<open>(HL)\<close>.\<close>

definition operand :: "nat \<Rightarrow> r08" where
  "operand i = [BC_H, BC_L, DE_H, DE_L, HL_H, HL_L, R1_L, AF_H] ! i"

lemma operand_not_scratch: "i < 8 \<Longrightarrow> i \<noteq> 6 \<Longrightarrow> operand i \<noteq> R1_L"
  by (auto simp: operand_def less_Suc_eq numeral_eq_Suc)

lemma base_lengths:
  "length (opcodes_base_0 I) = 16" "length (opcodes_base_1 I) = 16" "length (opcodes_base_2 I) = 16"
  "length (opcodes_base_3 I) = 16" "length (opcodes_base_4 I) = 16" "length (opcodes_base_5 I) = 16"
  "length (opcodes_base_6 I) = 16" "length (opcodes_base_7 I) = 16" "length (opcodes_base_8 I) = 16"
  "length (opcodes_base_9 I) = 16" "length (opcodes_base_a I) = 16" "length (opcodes_base_b I) = 16"
  by (simp_all add: opcodes_base_defs)

lemma alu_row:
  assumes "i < 16"
  shows "opcodes_base I ! (0x80 + i) = opcodes_base_8 I ! i" and "opcodes_base I ! (0x90 + i) = opcodes_base_9 I ! i"
    and "opcodes_base I ! (0xa0 + i) = opcodes_base_a I ! i" and "opcodes_base I ! (0xb0 + i) = opcodes_base_b I ! i"
  using assms by (simp_all add: opcodes_base_def nth_append base_lengths)

lemma register_cases: "i < (8 :: nat) \<Longrightarrow> i \<noteq> 6 \<Longrightarrow> i = 0 \<or> i = 1 \<or> i = 2 \<or> i = 3 \<or> i = 4 \<or> i = 5 \<or> i = 7"
  by auto

lemma alu_rows:
  assumes "i < 8" and "i \<noteq> 6"
  shows "opcodes_base_8 I ! i = Op 1 4 (m_add_r08_r08 AF_H (operand i)) Epilog"
    and "opcodes_base_8 I ! (8 + i) = Op 1 4 (m_adc_r08_r08 AF_H (operand i)) Epilog"
    and "opcodes_base_9 I ! i = Op 1 4 (m_sub_r08_r08 AF_H (operand i)) Epilog"
    and "opcodes_base_9 I ! (8 + i) = Op 1 4 (m_sbc_r08_r08 AF_H (operand i)) Epilog"
    and "opcodes_base_a I ! i = Op 1 4 (m_and_r08_r08 AF_H (operand i)) Epilog"
    and "opcodes_base_a I ! (8 + i) = Op 1 4 (m_xor_r08_r08 AF_H (operand i)) Epilog"
    and "opcodes_base_b I ! i = Op 1 4 (m_or_r08_r08 AF_H (operand i)) Epilog"
    and "opcodes_base_b I ! (8 + i) = Op 1 4 (m_cp_r08_r08 AF_H (operand i)) Epilog"
  using register_cases [OF assms]
  by (elim disjE; simp add: operand_def opcodes_base_8_def opcodes_base_9_def opcodes_base_a_def opcodes_base_b_def)+

lemma execute_row:
  "unat (get8 OP_L m) = k \<Longrightarrow> opcodes_base I ! k = Op c t f Epilog \<Longrightarrow> execute_opcode I m = m_consume c t (f m)"
  by (simp add: execute_opcode_def dispatch_def)

text \<open>
  C15: ADD A,r and ADC A,r.  For each of the seven register operands, executing the opcode leaves the
  sum modulo 256 in the accumulator and all eight flags as the arithmetic defines them: carry and half
  carry of the unsigned sum, overflow of the signed sum, sign, zero and the two copied bits.
\<close>

theorem add_opcodes:
  assumes "i < 8" and "i \<noteq> 6" and "unat (get8 OP_L m) = 0x80 + (if adc then 8 + i else i)"
  shows "add_spec (get8 AF_H m) (get8 (operand i) m) (if adc \<and> bit (get8 AF_L m) 0 then 1 else 0)
    (get8 AF_H (execute_opcode I m)) (get8 AF_L (execute_opcode I m))"
proof (cases adc)
  case False
  then have "execute_opcode I m = m_consume 1 4 (m_add_r08_r08 AF_H (operand i) m)"
    using assms by (intro execute_row [of _ "0x80 + i"]) (simp_all add: alu_row alu_rows)
  then show ?thesis
    using False add_micro_spec [OF operand_not_scratch [OF assms(1,2)], of AF_H m] by (simp add: reg_simps)
next
  case True
  then have "execute_opcode I m = m_consume 1 4 (m_adc_r08_r08 AF_H (operand i) m)"
    using assms alu_row(1) [of "8 + i" I] by (intro execute_row [of _ "0x80 + (8 + i)"]) (simp_all add: alu_rows)
  then show ?thesis
    using True adc_micro_spec [OF operand_not_scratch [OF assms(1,2)], of AF_H m] by (simp add: reg_simps)
qed

text \<open>
  C16: SUB r and SBC A,r leave the difference modulo 256 in the accumulator, with the borrow and half
  borrow of the unsigned difference, the overflow of the signed one, N set, zero and sign of the
  difference, and copies of its bits 3 and 5.
\<close>

theorem sub_opcodes:
  assumes "i < 8" and "i \<noteq> 6" and "unat (get8 OP_L m) = 0x90 + (if sbc then 8 + i else i)"
  shows "sub_spec (get8 AF_H m) (get8 (operand i) m) (if sbc \<and> bit (get8 AF_L m) 0 then 1 else 0)
    (get8 AF_H (execute_opcode I m)) (get8 AF_H (execute_opcode I m)) (get8 AF_L (execute_opcode I m))"
proof (cases sbc)
  case False
  then have "execute_opcode I m = m_consume 1 4 (m_sub_r08_r08 AF_H (operand i) m)"
    using assms by (intro execute_row [of _ "0x90 + i"]) (simp_all add: alu_row alu_rows)
  then show ?thesis
    using False sub_micro_spec(1) [OF operand_not_scratch [OF assms(1,2)], of AF_H m] by (simp add: reg_simps)
next
  case True
  then have "execute_opcode I m = m_consume 1 4 (m_sbc_r08_r08 AF_H (operand i) m)"
    using assms alu_row(2) [of "8 + i" I] by (intro execute_row [of _ "0x90 + (8 + i)"]) (simp_all add: alu_rows)
  then show ?thesis
    using True sbc_micro_spec [OF operand_not_scratch [OF assms(1,2)], of AF_H m] by (simp add: reg_simps)
qed

text \<open>
  CP r sets the flags of the subtraction and leaves the accumulator as it was.
\<close>

theorem cp_opcodes:
  assumes "i < 8" and "i \<noteq> 6" and "unat (get8 OP_L m) = 0xb8 + i"
  shows "get8 AF_H (execute_opcode I m) = get8 AF_H m \<and>
    sub_spec (get8 AF_H m) (get8 (operand i) m) 0 (get8 AF_H m - get8 (operand i) m) (get8 (operand i) m) (get8 AF_L (execute_opcode I m))"
proof -
  have "execute_opcode I m = m_consume 1 4 (m_cp_r08_r08 AF_H (operand i) m)"
    using assms alu_row(4) [of "8 + i" I] by (intro execute_row [of _ "0xb8 + i"]) (simp_all add: alu_rows)
  then show ?thesis
    using sub_micro_spec(2) [OF operand_not_scratch [OF assms(1,2)], of AF_H m]
    by (simp add: reg_simps) (simp add: m_cp_r08_r08_def Let_def reg_simps)
qed

text \<open>The flags of a logical operation with the result \<open>r\<close>; AND sets the half carry.\<close>

definition logic_spec :: "bool \<Rightarrow> u8 \<Rightarrow> u8 \<Rightarrow> bool" where
  "logic_spec half r f \<longleftrightarrow> \<not> bit f 0 \<and> \<not> bit f 1 \<and> (bit f 2 \<longleftrightarrow> even (ones r)) \<and> (bit f 3 \<longleftrightarrow> bit r 3) \<and>
     (bit f 4 \<longleftrightarrow> half) \<and> (bit f 5 \<longleftrightarrow> bit r 5) \<and> (bit f 6 \<longleftrightarrow> r = 0) \<and> (bit f 7 \<longleftrightarrow> sint r < 0)"

lemma logic_micro_spec:
  assumes "reg2 \<noteq> R1_L"
  shows "get8 AF_H (m_and_r08_r08 reg1 reg2 m) = get8 reg1 m AND get8 reg2 m"
    and "logic_spec True (get8 reg1 m AND get8 reg2 m) (get8 AF_L (m_and_r08_r08 reg1 reg2 m))"
    and "get8 AF_H (m_xor_r08_r08 reg1 reg2 m) = get8 reg1 m XOR get8 reg2 m"
    and "logic_spec False (get8 reg1 m XOR get8 reg2 m) (get8 AF_L (m_xor_r08_r08 reg1 reg2 m))"
    and "get8 AF_H (m_or_r08_r08 reg1 reg2 m) = get8 reg1 m OR get8 reg2 m"
    and "logic_spec False (get8 reg1 m OR get8 reg2 m) (get8 AF_L (m_or_r08_r08 reg1 reg2 m))"
  using assms
  by (simp_all add: m_and_r08_r08_def m_xor_r08_r08_def m_or_r08_r08_def Let_def reg_simps logic_spec_def sint_neg
      bit_simps bit_PZS)

text \<open>
  AND r, XOR r and OR r leave the bitwise result in the accumulator, clear carry and N, set the
  half carry for AND only, and set parity, zero and sign from the result.
\<close>

theorem logic_opcodes:
  assumes "i < 8" and "i \<noteq> 6" and "unat (get8 OP_L m) = 0xa0 + i \<and> f = (AND) \<or>
    unat (get8 OP_L m) = 0xa8 + i \<and> f = (XOR) \<or> unat (get8 OP_L m) = 0xb0 + i \<and> f = (OR)"
  shows "get8 AF_H (execute_opcode I m) = f (get8 AF_H m) (get8 (operand i) m) \<and>
    logic_spec (unat (get8 OP_L m) < 0xa8) (f (get8 AF_H m) (get8 (operand i) m)) (get8 AF_L (execute_opcode I m))"
proof -
  note spec = logic_micro_spec [OF operand_not_scratch [OF assms(1,2)], of AF_H m]
  consider "unat (get8 OP_L m) = 0xa0 + i" "f = (AND)" | "unat (get8 OP_L m) = 0xa8 + i" "f = (XOR)"
    | "unat (get8 OP_L m) = 0xb0 + i" "f = (OR)"
    using assms(3) by blast
  then show ?thesis
  proof cases
    case 1
    then have "execute_opcode I m = m_consume 1 4 (m_and_r08_r08 AF_H (operand i) m)"
      using assms(1,2) alu_row(3) [of i I] by (intro execute_row [of _ "0xa0 + i"]) (simp_all add: alu_rows)
    then show ?thesis using 1 spec(1,2) assms(1) by (simp add: reg_simps)
  next
    case 2
    then have "execute_opcode I m = m_consume 1 4 (m_xor_r08_r08 AF_H (operand i) m)"
      using assms(1,2) alu_row(3) [of "8 + i" I] by (intro execute_row [of _ "0xa8 + i"]) (simp_all add: alu_rows)
    then show ?thesis using 2 spec(3,4) by (simp add: reg_simps)
  next
    case 3
    then have "execute_opcode I m = m_consume 1 4 (m_or_r08_r08 AF_H (operand i) m)"
      using assms(1,2) alu_row(4) [of i I] by (intro execute_row [of _ "0xb0 + i"]) (simp_all add: alu_rows)
    then show ?thesis using 3 spec(5,6) by (simp add: reg_simps)
  qed
qed

theorem add_opcodes_witness:
  "let m' = execute_opcode ram_iface (small_machine 0x88 0x7f 0x01) in add_spec 0x7f 0x01 0 (get8 AF_H m') (get8 AF_L m')"
  using add_opcodes [of 0 "small_machine 0x88 0x7f 0x01" True ram_iface] by (simp add: operand_def)

theorem sub_opcodes_witness:
  "let m' = execute_opcode ram_iface (small_machine 0x90 3 5) in sub_spec 3 5 0 (get8 AF_H m') (get8 AF_H m') (get8 AF_L m')"
  using sub_opcodes [of 0 "small_machine 0x90 3 5" False ram_iface] by (simp add: operand_def)

theorem cp_opcodes_witness:
  "let m' = execute_opcode ram_iface (small_machine 0xb8 3 5) in get8 AF_H m' = 3 \<and> sub_spec 3 5 0 (3 - 5) 5 (get8 AF_L m')"
  using cp_opcodes [of 0 "small_machine 0xb8 3 5" ram_iface] by (simp add: operand_def)

theorem logic_opcodes_witness:
  "let m' = execute_opcode ram_iface (small_machine 0xa8 3 5) in get8 AF_H m' = 6 \<and> logic_spec False 6 (get8 AF_L m')"
  using logic_opcodes [of 0 "small_machine 0xa8 3 5" "(XOR)" ram_iface] by (simp add: operand_def)

section \<open>Exchanges\<close>

text \<open>
  EXX twice restores every register pair, in the main and in the alternate set; only the scratch
  register of the emulation may differ.
\<close>

theorem exx_involution:
  assumes "f \<noteq> R0"
  shows "get16 (f, p) (m_exx (m_exx m)) = get16 (f, p) m"
  using assms exx_twice [of f p m] by simp

theorem exx_involution_witness: "get16 (BC, WL) (m_exx (m_exx (small_machine 0 1 2))) = 0x200"
  using exx_involution [of BC WL "small_machine 0 1 2"]
  by (simp add: get16_WL) (simp add: small_machine_def get8_def zero_register_def)

section \<open>An interrupt in mode 3\<close>

lemma unat_minus_of_nat:
  assumes "k \<le> unat (x :: u32)"
  shows "unat (x - of_nat k) = unat x - k"
proof -
  have "k < 2 ^ 32" using le_less_trans [OF assms unsigned_less] by simp
  then have "unat (of_nat k :: u32) = k" by (simp add: unat_of_nat)
  then show ?thesis using assms by (simp add: unat_sub word_le_nat_alt)
qed

text \<open>While an instruction lasts, the clock only counts.\<close>

lemma clock_machine_idle:
  "k \<le> unat (i_period (cpu_st m)) \<Longrightarrow>
   (clock_machine I ^^ k) m = m\<lparr>cpu_st := (cpu_st m)\<lparr>i_period := i_period (cpu_st m) - of_nat k\<rparr>\<rparr>"
proof (induction k)
  case 0
  then show ?case by simp
next
  case (Suc k)
  have "unat (i_period (cpu_st m) - of_nat k) \<noteq> 0"
    using Suc.prems by (simp add: unat_minus_of_nat)
  then have "i_period (cpu_st m) - of_nat k \<noteq> 0" by (metis unat_0)
  then show ?case using Suc by (simp add: clock_machine_def epilog_def diff_diff_eq add.commute)
qed

definition int_in_mode_3 :: "'b machine \<Rightarrow> bool" where
  "int_in_mode_3 m \<longleftrightarrow> i_period (cpu_st m) = 0 \<and> m_interrupt_mode m = 3 \<and> get8 ST_L m AND ST_AEI = 0 \<and>
     get8 ST_L m AND ST_NMI = 0 \<and> get8 ST_L m AND ST_IFF1 \<noteq> 0 \<and> get8 ST_L m AND ST_INT \<noteq> 0"

lemma int_mode_3_prolog:
  assumes "int_in_mode_3 m"
  shows "i_period (cpu_st (prolog I m)) = 0" "bus (prolog I m) = bus m" "get16 PC_W (prolog I m) = get16 PC_W m"
proof -
  let ?m = "m_backup_pc m"
  have st: "get8 ST_L ?m = get8 ST_L m" by (simp add: m_backup_pc_def reg_simps)
  have p: "prolog I m = snd (m_take_int ?m)"
    using assms st m_take_int_mode [of ?m] m_backup_pc_mode [of m]
    by (simp add: prolog_def m_after_ei_def check_nmi_def m_take_nmi_def check_int_def int_in_mode_3_def m_take_int_def Let_def)
  have t: "snd (m_take_int ?m) = put8 ST_L (get8 ST_L ?m AND NOT (ST_HLT OR ST_INT OR ST_IFF2 OR ST_IFF1)) ?m"
    using assms st by (simp add: m_take_int_def int_in_mode_3_def)
  show "i_period (cpu_st (prolog I m)) = 0" "bus (prolog I m) = bus m" "get16 PC_W (prolog I m) = get16 PC_W m"
    using assms unfolding p t by (simp_all add: m_backup_pc_def reg_simps int_in_mode_3_def)
qed

text \<open>
  C31: an interrupt that is accepted in interrupt mode 3 (both mode bits set, as a snapshot with the
  mode 3 leaves them) consumes no time, and the count of the remaining period wraps around: for the
  next \<open>2 ^ 32 - 1\<close> clocks the CPU executes nothing, PC and the machine around it stay as they are.
\<close>

theorem interrupt_mode_3_stalls:
  assumes "int_in_mode_3 m" and "0 < k" and "k \<le> 2 ^ 32"
  shows "bus ((clock_machine I ^^ k) m) = bus m \<and> get16 PC_W ((clock_machine I ^^ k) m) = get16 PC_W m \<and>
    unat (i_period (cpu_st ((clock_machine I ^^ k) m))) = 2 ^ 32 - k"
proof -
  define m1 where "m1 = clock_machine I m"
  have m1: "m1 = (prolog I m)\<lparr>cpu_st := (cpu_st (prolog I m))\<lparr>i_period := - 1\<rparr>\<rparr>"
    using assms(1) int_mode_3_prolog(1) [OF assms(1), of I]
    by (simp add: m1_def clock_machine_def epilog_def int_in_mode_3_def)
  have u: "unat (- 1 :: u32) = 2 ^ 32 - 1" by (simp add: unsigned_minus_1_eq_mask mask_eq_exp_minus_1)
  have pc: "get16 PC_W (x\<lparr>cpu_st := (cpu_st x)\<lparr>i_period := y\<rparr>\<rparr>) = get16 PC_W x" for x :: "'a machine" and y
    by (simp add: get16_def)
  obtain j where k: "k = Suc j" using assms(2) by (cases k) auto
  have j: "j \<le> unat (i_period (cpu_st m1))" using k assms(3) by (simp add: m1 u)
  have "(clock_machine I ^^ k) m = (clock_machine I ^^ j) m1"
    by (simp only: k funpow_Suc_right comp_apply m1_def)
  also have "\<dots> = m1\<lparr>cpu_st := (cpu_st m1)\<lparr>i_period := i_period (cpu_st m1) - of_nat j\<rparr>\<rparr>"
    by (rule clock_machine_idle [OF j])
  finally show ?thesis
    using int_mode_3_prolog [OF assms(1), of I] unat_minus_of_nat [OF j] k
    by (simp add: pc) (simp add: m1 pc u)
qed

definition im3_machine :: "(u16 \<Rightarrow> u8) machine" where
  "im3_machine = (small_machine 0 0 0)\<lparr>cpu_st := zero_state\<lparr>r_st := zero_register\<lparr>b_l := ST_IM1 OR ST_IM2 OR ST_IFF1 OR ST_INT\<rparr>\<rparr>\<rparr>"

theorem interrupt_mode_3_stalls_witness:
  "unat (i_period (cpu_st ((clock_machine ram_iface ^^ 1000) im3_machine))) = 4294966296"
proof -
  have "int_in_mode_3 im3_machine"
    by (simp add: int_in_mode_3_def im3_machine_def m_interrupt_mode_def get8_def zero_state_def zero_register_def)
  from interrupt_mode_3_stalls [OF this, of 1000 ram_iface] show ?thesis by simp
qed

end
