(* ===== verification/CPC_Bench.thy ===== *)
theory CPC_Bench
  imports CPC_Run CPC_Memory Z80_Theorems
begin

text \<open>
  A concrete main board, on which the theorems about the machine apply: 64 KiB of RAM, a lower and
  an upper ROM, an AMSDOS ROM in slot 7, no floppy disc controller, and all devices as a reset leaves
  them.
\<close>

unbundle bit_operations_syntax

definition bench_vga :: vga_state where
  "bench_vga = \<lparr>pen = 0, ink = replicate 17 0, rmr = 0, r52 = 0, r02 = 0, frame_x = 0, frame_y = 0,
     mode0 = [], mode1 = [], mode2 = [], mode3 = [],
     colormap = \<lparr>pixel0 = replicate 32 0, pixel1 = replicate 32 0\<rparr>, scanline = replicate 576 blank_scanline\<rparr>"

definition bench_vdc :: vdc_state where
  "bench_vdc = vdc_reset \<lparr>caps = \<lparr>v_addr = 0, v_data = []\<rparr>, mask = \<lparr>v_addr = 0, v_data = []\<rparr>,
     regs = \<lparr>v_addr = 0, v_data = []\<rparr>,
     core = \<lparr>hcc = 0, vcc = 0, slc = 0, vac = 0, hsc = 0, vsc = 0, hsync_signal = 0, vsync_signal = 0\<rparr>\<rparr>"

definition bench_ppi :: ppi_state where
  "bench_ppi = \<lparr>port_a = 0, port_b = 0, port_c = 0, ctrl_p = 0, grp_a = 0, grp_b = 0, dir_a = 0, dir_b = 0, dir_c = 0\<rparr>"

definition bench_psg :: psg_state where
  "bench_psg = \<lparr>psg_ticks = 0, psg_index = 0, psg_array = replicate 16 0, has_sound = replicate 3 0,
     has_noise = replicate 3 0, dir_port = replicate 2 0, dac = replicate 32 0,
     sounds = replicate 3 \<lparr>s_counter = 0, s_period = 0, s_phase = 0, s_amplitude = 0\<rparr>,
     noise = \<lparr>n_counter = 0, n_period = 0, n_shift = 0, n_phase = 0\<rparr>,
     envelope = \<lparr>e_counter = 0, e_period = 0, e_shape = 0, e_phase = 0, e_amplitude = 0\<rparr>,
     psg_out = \<lparr>channel0 = 0, channel1 = 0, channel2 = 0\<rparr>\<rparr>"

definition bench_audio :: audio_state where
  "bench_audio = \<lparr>a_channel0 = \<lambda>_. 0, a_channel1 = \<lambda>_. 0, a_channel2 = \<lambda>_. 0, a_rd_index = 0, a_wr_index = 0,
     a_acc0 = 0, a_acc1 = 0, a_acc2 = 0, a_acc_count = 0\<rparr>"

text \<open>The board before its first reset, with \<open>sz\<close> bytes of memory.\<close>

definition raw_board :: "u32 \<Rightarrow> unit board" where
  "raw_board sz = \<lparr>memory_size = sz, frame_rate = 50, cpc_flags = 0, cpc_clock = 4000000, cpc_ticks = 0,
     cpu_clock = 4000000, cpu_ticks = 0, vdc_clock_rate = 1000000, vdc_ticks = 0, psg_clock_rate = 1000000,
     psg_ticks_acc = 0, snd_clock = 44100, snd_ticks = 0, vdc_hsync = 0, vdc_vsync = 0, lnk_lk1 = 1, lnk_lk2 = 1,
     lnk_lk3 = 1, lnk_lk4 = 1, exp_busy = 1, prt_busy = 1, psg_data = 0, psg_bdir = 0, psg_bc1 = 0, psg_bc2 = 1,
     cas_motor = 0, cas_sound = 0, cas_rd_data = 0, cas_wr_data = 0, ram_conf = 0, rom_conf = 0,
     pal_rd = \<lambda>_. Null, pal_wr = \<lambda>_. Null, b_audio = bench_audio,
     b_kbd = \<lparr>kbd_mode = 0, kbd_line = 0, kbd_keys = replicate 16 0xff\<rparr>,
     b_vga = bench_vga, b_vdc = bench_vdc, b_ppi = bench_ppi, b_psg = bench_psg, b_fdc = None,
     b_ram = \<lambda>_. \<lparr>mem_type = RAM_BANK, mem_data = \<lambda>_. 0\<rparr>,
     b_rom = (\<lambda>_. None)(0 \<mapsto> \<lparr>mem_type = ROM_BANK, mem_data = \<lambda>_. 0x3c\<rparr>, 1 \<mapsto> \<lparr>mem_type = ROM_BANK, mem_data = \<lambda>_. 0x80\<rparr>),
     b_exp = [7 \<mapsto> \<lparr>mem_type = ROM_BANK, mem_data = \<lambda>_. 0x01\<rparr>]\<rparr>"

definition bench_board :: "unit board" where
  "bench_board = update_pal (raw_board 0x10000)"

lemma bench_board_fields [simp]:
  "frame_rate bench_board = 50" "cpc_clock bench_board = 4000000" "cpc_ticks bench_board = 0" "cpc_flags bench_board = 0"
  "memory_size bench_board = 0x10000" "b_psg bench_board = bench_psg" "b_vga bench_board = bench_vga"
  "b_vdc bench_board = bench_vdc" "b_rom bench_board = b_rom (raw_board 0)" "b_exp bench_board = b_exp (raw_board 0)"
  "b_ppi bench_board = bench_ppi" "psg_bdir bench_board = 0" "psg_bc1 bench_board = 0" "psg_bc2 bench_board = 1"
  "b_kbd bench_board = \<lparr>kbd_mode = 0, kbd_line = 0, kbd_keys = replicate 16 0xff\<rparr>"
  by (simp_all add: bench_board_def) (simp_all add: raw_board_def)

lemma bench_board_pal:
  "pal_rd bench_board 0 = ROM 0" "pal_rd bench_board 1 = RAM 1" "pal_rd bench_board 2 = RAM 2" "pal_rd bench_board 3 = ROM 1"
  "pal_wr bench_board 0 = RAM 0" "pal_wr bench_board 1 = RAM 1" "pal_wr bench_board 2 = RAM 2" "pal_wr bench_board 3 = RAM 3"
  by (simp_all add: bench_board_def update_pal_def pal_ram_def large_memory_def pal_lower_def pal_upper_def map_ram_def Let_def raw_board_def
      bench_vga_def)

lemmas bench_pal = bench_board_pal bench_board_pal [unfolded One_nat_def]

lemma bench_vga_ok: "vga_ok bench_vga"
  by (simp add: vga_ok_def bench_vga_def)

lemma bench_vdc_ok: "vdc_ok bench_vdc"
  by (simp add: bench_vdc_def vdc_reset_ok)

lemma bench_board_ok: "pal_ok bench_board" "banked_ok bench_board" "devices_ok bench_board"
proof -
  show "banked_ok bench_board"
    by (simp add: bench_board_def update_pal_banked raw_board_def large_memory_def)
  then show "pal_ok bench_board" by (simp add: banked_ok_def)
  show "devices_ok bench_board"
    using bench_vga_ok bench_vdc_ok by (simp add: bench_board_def devices_ok_def raw_board_def)
qed

end
