(* ===== verification/FDC_Props.thy ===== *)
theory FDC_Props
  imports FDC_765
begin

text \<open>
  What the controller does for the processor: a command is executed when its last byte arrives,
  the bytes of an execution phase and of a result phase are handed over in order and end the phase,
  and the complete dialogues of the commands follow from these.
\<close>

unbundle bit_operations_syntax

section \<open>Runs of accesses to the data register\<close>

primrec write_bytes :: "'d libdsk \<Rightarrow> u8 list \<Rightarrow> 'd fdc_world \<Rightarrow> 'd fdc_world option" where
  "write_bytes L [] sw = Some sw"
| "write_bytes L (b # bs) sw = do {sw \<leftarrow> fdc_write_data L b sw; write_bytes L bs sw}"

primrec read_bytes :: "'d libdsk \<Rightarrow> nat \<Rightarrow> 'd fdc_world \<Rightarrow> (u8 list \<times> 'd fdc_world) option" where
  "read_bytes L 0 sw = Some ([], sw)"
| "read_bytes L (Suc n) sw = do {(b, sw) \<leftarrow> fdc_read_data L sw; (bs, sw) \<leftarrow> read_bytes L n sw; Some (b # bs, sw)}"

lemma write_bytes_append:
  "write_bytes L (xs @ ys) sw = Option.bind (write_bytes L xs sw) (write_bytes L ys)"
  by (induction xs arbitrary: sw) (simp_all add: Option.bind_assoc)

lemma read_bytes_add:
  "read_bytes L (m + n) sw = Option.bind (read_bytes L m sw)
     (\<lambda>(xs, sw). Option.bind (read_bytes L n sw) (\<lambda>(ys, sw). Some (xs @ ys, sw)))"
proof (induction m arbitrary: sw)
  case 0
  show ?case by (cases "read_bytes L n sw") auto
next
  case (Suc m)
  show ?case
  proof (cases "fdc_read_data L sw")
    case (Some r)
    then show ?thesis
      using Suc [of "snd r"]
      by (cases "read_bytes L m (snd r)"; cases "read_bytes L n (snd (the (read_bytes L m (snd r))))")
        (auto simp: case_prod_unfold)
  qed simp
qed

section \<open>Command phase\<close>

text \<open>Nothing of lower priority than the end of a seek is pending.\<close>

definition quiet :: "fdc_765 \<Rightarrow> bool" where
  "quiet self \<longleftrightarrow> \<not> (0 < fdc_interrupting self \<and> fdc_interrupting self < 4)"

definition idle :: "fdc_765 \<Rightarrow> bool" where
  "idle self \<longleftrightarrow> fdc_mainstat self = 0x80 \<and> fdc_cmd_id self = -1 \<and> quiet self \<and>
     length (fdc_cmd_buf self) = 20 \<and> length (fdc_result_buf self) = 20 \<and> length (fdc_drive self) = 4"

lemma quiet_clear: "quiet self \<Longrightarrow> fdc_clear_pending_interrupt (self, w) = (self, w)"
  by (auto simp: fdc_clear_pending_interrupt_def quiet_def)

text \<open>
  The state after the first bytes \<open>bs\<close> of a command: they are in the command buffer, and the rest
  is still to come.
\<close>

definition receiving :: "u8 list \<Rightarrow> fdc_765 \<Rightarrow> fdc_765" where
  "receiving bs self = self\<lparr>fdc_cmd_id := uint (hd bs), fdc_cmd_pos := int (length bs) - 1,
     fdc_cmd_len := bytes_in_cmd ! unat (hd bs AND 0x1F) - int (length bs),
     fdc_cmd_buf := bs @ drop (length bs) (fdc_cmd_buf self), fdc_mainstat := 0x90\<rparr>"

definition cmd_length :: "u8 \<Rightarrow> nat" where
  "cmd_length b = nat (bytes_in_cmd ! unat (b AND 0x1F))"

lemma and_1F: "unat (b AND 0x1F :: u8) < 32"
proof -
  have "b AND 0x1F = take_bit 5 b"
    by (simp add: take_bit_eq_mask mask_eq_exp_minus_1)
  then show ?thesis
    using take_bit_nat_less_exp [of 5 "unat b"] by (simp add: unsigned_take_bit_eq)
qed

lemma bytes_in_cmd_range: "i < 32 \<Longrightarrow> 1 \<le> bytes_in_cmd ! i \<and> bytes_in_cmd ! i \<le> 9"
proof -
  have "\<forall>x \<in> set bytes_in_cmd. 1 \<le> x \<and> x \<le> 9"
    by (simp add: bytes_in_cmd_def)
  moreover assume "i < 32"
  then have "bytes_in_cmd ! i \<in> set bytes_in_cmd" by (intro nth_mem) (simp add: bytes_in_cmd_def)
  ultimately show ?thesis by blast
qed

lemma cmd_length: "int (cmd_length b) = bytes_in_cmd ! unat (b AND 0x1F)" "1 \<le> cmd_length b" "cmd_length b \<le> 9"
  using bytes_in_cmd_range [OF and_1F [of b]] by (auto simp: cmd_length_def)

lemma write_first_byte:
  assumes "idle self" and "1 < cmd_length b"
  shows "fdc_write_data L b (self, w) = Some (receiving [b] self, w)"
proof -
  have ub: "bytes_in_cmd ! unat (b AND 0x1F) > 1"
    using assms(2) cmd_length(1) [of b] by linarith
  have cb: "(fdc_cmd_buf self)[0 := b] = b # drop (Suc 0) (fdc_cmd_buf self)"
    using assms(1) by (cases "fdc_cmd_buf self") (auto simp: idle_def)
  show ?thesis
    using assms(1) ub by (simp add: fdc_write_data_def quiet_clear idle_def write_idle_byte_def receiving_def cb)
qed

lemma write_middle_byte:
  assumes "quiet self" and "bs \<noteq> []" and "length (bs @ [b]) < cmd_length (hd bs)"
    and "length (fdc_cmd_buf self) = 20"
  shows "fdc_write_data L b (receiving bs self, w) = Some (receiving (bs @ [b]) self, w)"
proof -
  have len: "length bs < 9" "bytes_in_cmd ! unat (hd bs AND 0x1F) > int (length bs) + 1"
    using assms(3) cmd_length [of "hd bs"] by auto
  have sb: "set_byte (bs @ drop (length bs) (fdc_cmd_buf self)) (int (length bs)) b =
      Some (bs @ b # drop (Suc (length bs)) (fdc_cmd_buf self))"
    using len assms(4) by (simp add: set_byte_def list_update_append upd_conv_take_nth_drop)
  have q: "quiet (receiving bs self)"
    using assms(1) by (simp add: quiet_def receiving_def)
  show ?thesis
    using len assms(2) unfolding fdc_write_data_def quiet_clear [OF q]
    by (simp add: write_command_byte_def receiving_def sb)
qed

lemma write_last_byte:
  assumes "quiet self" and "bs \<noteq> []" and "length (bs @ [b]) = cmd_length (hd bs)"
    and "length (fdc_cmd_buf self) = 20"
  shows "fdc_write_data L b (receiving bs self, w) = fdc_execute L (receiving (bs @ [b]) self, w)"
proof -
  have len: "length bs < 9" "bytes_in_cmd ! unat (hd bs AND 0x1F) = int (length bs) + 1"
    using assms(3) cmd_length [of "hd bs"] by auto
  have sb: "set_byte (bs @ drop (length bs) (fdc_cmd_buf self)) (int (length bs)) b =
      Some (bs @ b # drop (Suc (length bs)) (fdc_cmd_buf self))"
    using len assms(4) by (simp add: set_byte_def list_update_append upd_conv_take_nth_drop)
  have q: "quiet (receiving bs self)"
    using assms(1) by (simp add: quiet_def receiving_def)
  show ?thesis
    using len assms(2) unfolding fdc_write_data_def quiet_clear [OF q]
    by (simp add: write_command_byte_def receiving_def sb)
      (rule arg_cong [where f = "\<lambda>x. fdc_execute L (x, w)"], simp)
qed

lemma write_command_rest:
  assumes "quiet self" and "length (fdc_cmd_buf self) = 20"
  shows "bs \<noteq> [] \<Longrightarrow> cs \<noteq> [] \<Longrightarrow> length (bs @ cs) = cmd_length (hd bs) \<Longrightarrow>
    write_bytes L cs (receiving bs self, w) = fdc_execute L (receiving (bs @ cs) self, w)"
proof (induction cs arbitrary: bs)
  case (Cons c cs)
  show ?case
  proof (cases "cs = []")
    case True
    then show ?thesis
      using write_last_byte [OF assms(1) Cons.prems(1) _ assms(2), of c] Cons.prems by simp
  next
    case False
    have "fdc_write_data L c (receiving bs self, w) = Some (receiving (bs @ [c]) self, w)"
      using Cons.prems False by (intro write_middle_byte assms) (cases cs; simp)+
    then show ?thesis
      using Cons.IH [of "bs @ [c]"] Cons.prems False by simp
  qed
qed simp

text \<open>
  A multibyte command: nothing happens until its last byte, which runs the command on a buffer
  that holds exactly the bytes written.
\<close>

lemma write_command:
  assumes "idle self" and "1 < cmd_length b" and "length (b # bs) = cmd_length b"
  shows "write_bytes L (b # bs) (self, w) = fdc_execute L (receiving (b # bs) self, w)"
proof -
  have "bs \<noteq> []" using assms(2,3) by auto
  then show ?thesis
    using write_first_byte [OF assms(1,2), of L w] write_command_rest [of self "[b]" bs L w] assms
    by (simp add: idle_def)
qed

section \<open>Result phase\<close>

definition in_result :: "int \<Rightarrow> fdc_765 \<Rightarrow> bool" where
  "in_result n self \<longleftrightarrow> fdc_mainstat self = 0xD0 \<and> fdc_result_len self = n \<and> fdc_result_pos self = 0 \<and>
     quiet self \<and> length (fdc_result_buf self) = 20"

definition result_at :: "int \<Rightarrow> fdc_765 \<Rightarrow> fdc_765" where
  "result_at i self = self\<lparr>fdc_result_pos := i, fdc_result_len := fdc_result_len self - i\<rparr>"

lemma read_result:
  assumes "in_result n self" and "1 \<le> n" and "n \<le> 20"
  shows "i < nat n \<Longrightarrow> read_bytes L (nat n - i) (result_at (int i) self, w) =
    Some (drop i (take (nat n) (fdc_result_buf self)), fdc_end_result_phase (result_at n self), w)"
proof (induction "nat n - i" arbitrary: i)
  case (Suc k)
  have q: "quiet (result_at (int i) self)"
    using assms(1) by (simp add: in_result_def result_at_def quiet_def)
  have byte: "byte_at (fdc_result_buf self) (int i) = Some (fdc_result_buf self ! i)"
    using assms Suc.prems by (simp add: byte_at_def in_result_def)
  have dr: "drop i (take (nat n) (fdc_result_buf self)) =
      fdc_result_buf self ! i # drop (Suc i) (take (nat n) (fdc_result_buf self))"
    using assms Suc.prems by (subst Cons_nth_drop_Suc [symmetric]) (auto simp: in_result_def)
  have last: "int i + 1 = n \<Longrightarrow> n - int i - 1 = 0" by simp
  have rd: "fdc_read_data L (result_at (int i) self, w) =
      Some (fdc_result_buf self ! i,
        if int i + 1 = n then fdc_end_result_phase (result_at n self) else result_at (int (Suc i)) self, w)"
    using assms(1) unfolding fdc_read_data_def quiet_clear [OF q]
    by (cases "int i + 1 = n") (auto simp: read_result_byte_def result_at_def in_result_def byte simp del: diff_diff_eq)
  show ?case
  proof (cases "int i + 1 = n")
    case True
    then have one: "nat n - i = Suc 0" "drop (Suc i) (take (nat n) (fdc_result_buf self)) = []" by auto
    show ?thesis using rd True dr one by simp
  next
    case False
    then have i: "Suc i < nat n" using Suc.prems by simp
    have "nat n - i = Suc (nat n - Suc i)" using Suc.prems by simp
    moreover have "k = nat n - Suc i" using Suc.hyps(2) by simp
    ultimately show ?thesis using rd False dr Suc.hyps(1) [OF _ i] by simp
  qed
qed simp

text \<open>Reading a result phase to its end yields the result bytes and leaves the controller idle.\<close>

lemma read_results:
  assumes "in_result n self" and "1 \<le> n" and "n \<le> 20"
  shows "read_bytes L (nat n) (self, w) =
    Some (take (nat n) (fdc_result_buf self), fdc_end_result_phase (result_at n self), w)"
proof -
  have "result_at 0 self = self"
    using assms(1) by (cases self) (simp add: result_at_def in_result_def)
  then show ?thesis
    using read_result [OF assms, of 0 L w] assms(2) by simp
qed

section \<open>Execution phase\<close>

text \<open>
  The execution phase of a read: \<open>n\<close> bytes are still to be handed over, from position \<open>i\<close> of the
  buffer.
\<close>

definition is_read :: "fdc_765 \<Rightarrow> bool" where
  "is_read self \<longleftrightarrow> cmd self 0 AND 0x1F = 6 \<or> cmd self 0 AND 0x1F = 12"

definition in_exec :: "fdc_765 \<Rightarrow> bool" where
  "in_exec self \<longleftrightarrow> fdc_mainstat self = 0xF0 \<and> is_read self \<and> 0 \<le> fdc_interrupting self \<and> fdc_interrupting self < 3"

text \<open>The state after some bytes of the phase, and after its last byte.\<close>

definition exec_at :: "int \<Rightarrow> int \<Rightarrow> fdc_765 \<Rightarrow> fdc_765" where
  "exec_at i n self = self\<lparr>fdc_exec_pos := i, fdc_exec_len := n, fdc_interrupting := 0,
     fdc_isr_countdown := SHORT_TIMEOUT\<rparr>"

definition exec_done :: "int \<Rightarrow> fdc_765 \<Rightarrow> fdc_765" where
  "exec_done i self = self\<lparr>fdc_exec_pos := i, fdc_exec_len := 0, fdc_mainstat := 0xD0,
     fdc_result_pos := 0, fdc_result_len := 7, fdc_interrupting := 1, fdc_isr_countdown := SHORT_TIMEOUT\<rparr>"

lemma end_read_phase: "is_read self \<Longrightarrow> fdc_end_execution_phase L (self, w) = Some (fdc_result_interrupt
   (self\<lparr>fdc_mainstat := 0xD0, fdc_result_pos := 0, fdc_result_len := 7\<rparr>), w)"
  by (auto simp: fdc_end_execution_phase_def is_read_def Let_def cmd_def)

lemma read_exec_byte:
  assumes "in_exec self" and "fdc_isr self = None" and "0 \<le> fdc_exec_pos self" and "fdc_exec_pos self < exec_buf_size"
  shows "fdc_read_data L (self, w) = Some (fdc_exec_buf self (nat (fdc_exec_pos self)),
    if fdc_exec_len self = 1 then exec_done (fdc_exec_pos self + 1) self
    else exec_at (fdc_exec_pos self + 1) (fdc_exec_len self - 1) self, w)"
proof -
  have clear: "fdc_clear_pending_interrupt (self, w) =
      (if fdc_interrupting self = 0 then self else self\<lparr>fdc_isr_countdown := 0, fdc_interrupting := 0\<rparr>, w)"
    using assms(1,2) by (auto simp: fdc_clear_pending_interrupt_def call_isr_def in_exec_def)
  have b: "buf_at (fdc_exec_buf self) (fdc_exec_pos self) = Some (fdc_exec_buf self (nat (fdc_exec_pos self)))"
    using assms(3,4) by (simp add: buf_at_def)
  have r: "is_read (self\<lparr>fdc_isr_countdown := c, fdc_interrupting := k, fdc_exec_pos := i, fdc_exec_len := j\<rparr>)"
      "is_read (self\<lparr>fdc_exec_pos := i, fdc_exec_len := j\<rparr>)" for c k i j
    using assms(1) by (simp_all add: in_exec_def is_read_def cmd_def)
  show ?thesis
    using assms(1) r
    by (simp add: fdc_read_data_def clear b exec_advance_def end_read_phase in_exec_def exec_done_def exec_at_def
        fdc_result_interrupt_def)
qed

lemma in_exec_at: "in_exec self \<Longrightarrow> in_exec (exec_at i n self)"
  by (simp add: in_exec_def exec_at_def is_read_def cmd_def)

lemma exec_at_again: "exec_at j k (exec_at i n self) = exec_at j k self" "exec_done j (exec_at i n self) = exec_done j self"
  by (simp_all add: exec_at_def exec_done_def)

text \<open>
  Reading in the execution phase: while bytes are left the bytes of the buffer come in order, and
  with the last one the result phase of seven bytes begins.
\<close>

lemma read_exec_some:
  assumes "in_exec self" and "fdc_isr self = None" and "fdc_exec_pos self = i" and "0 \<le> i"
    and "i + int k \<le> exec_buf_size" and "int k < n \<or> n \<le> 0" and "0 < k"
  shows "fdc_exec_len self = n \<Longrightarrow> read_bytes L k (self, w) =
    Some (map (fdc_exec_buf self) [nat i..<nat i + k], exec_at (i + int k) (n - int k) self, w)"
  using assms
proof (induction k arbitrary: self i n)
  case (Suc k)
  have n1: "n \<noteq> 1" using Suc.prems(7) by auto
  have rd: "fdc_read_data L (self, w) = Some (fdc_exec_buf self (nat i), exec_at (i + 1) (n - 1) self, w)"
    using read_exec_byte [OF Suc.prems(2,3), of L w] Suc.prems n1 by simp
  show ?case
  proof (cases "k = 0")
    case True
    then show ?thesis using rd by simp
  next
    case False
    have "read_bytes L k (exec_at (i + 1) (n - 1) self, w) =
        Some (map (fdc_exec_buf self) [nat (i + 1)..<nat (i + 1) + k], exec_at (i + 1 + int k) (n - 1 - int k) self, w)"
      using Suc.IH [of "exec_at (i + 1) (n - 1) self" "n - 1" "i + 1"] Suc.prems False
      by (simp add: in_exec_at exec_at_again) (auto simp: exec_at_def)
    moreover have "[nat i..<nat i + Suc k] = nat i # [nat (i + 1)..<nat (i + 1) + k]"
      using Suc.prems(5) by (simp add: upt_conv_Cons nat_add_distrib)
    ultimately show ?thesis using rd by (simp add: algebra_simps)
  qed
qed simp

lemma read_exec_all:
  assumes "in_exec self" and "fdc_isr self = None" and "fdc_exec_pos self = 0"
    and "fdc_exec_len self = int n" and "0 < n" and "int n \<le> exec_buf_size"
  shows "read_bytes L n (self, w) = Some (map (fdc_exec_buf self) [0..<n], exec_done (int n) self, w)"
proof -
  obtain k where n: "n = Suc k" using assms(5) by (cases n) auto
  have last: "read_bytes L 1 (s, w) = Some ([fdc_exec_buf s k], exec_done (int n) s, w)"
    if "in_exec s" "fdc_isr s = None" "fdc_exec_pos s = int k" "fdc_exec_len s = 1" for s
    using read_exec_byte [OF that(1,2), of L w] that(3,4) assms(6) n by (simp add: add.commute)
  show ?thesis
  proof (cases "k = 0")
    case True
    then show ?thesis using last [of self] assms n by simp
  next
    case False
    have "read_bytes L k (self, w) = Some (map (fdc_exec_buf self) [0..<k], exec_at (int k) 1 self, w)"
      using read_exec_some [OF assms(1-3), of k "int n" L w] assms(4,6) False n by simp
    moreover have "read_bytes L 1 (exec_at (int k) 1 self, w) =
        Some ([fdc_exec_buf self k], exec_done (int n) self, w)"
      using last [of "exec_at (int k) 1 self"] assms(1,2)
      by (simp add: in_exec_at exec_at_again) (simp add: exec_at_def)
    ultimately have "read_bytes L (k + 1) (self, w) =
        Some (map (fdc_exec_buf self) [0..<k] @ [fdc_exec_buf self k], exec_done (int n) self, w)"
      unfolding read_bytes_add by (simp del: read_bytes.simps One_nat_def)
    then show ?thesis using n by simp
  qed
qed

section \<open>READ DATA\<close>

lemma uint_and: "uint (a AND b :: u8) = uint a AND uint b"
  by (simp add: uint_and)

lemma cmd_receiving: "i < length bs \<Longrightarrow> cmd (receiving bs self) i = uint (bs ! i)"
  by (simp add: cmd_def receiving_def nth_append)

text \<open>The drive and head a command byte selects, without the digital output register.\<close>

definition unit_of :: "u8 \<Rightarrow> nat" where
  "unit_of b = unat (b AND 3)"

definition head_of :: "u8 \<Rightarrow> int" where
  "head_of b = uint (b AND 4) div 4"

definition sector_len :: "u8 \<Rightarrow> u8 \<Rightarrow> int" where
  "sector_len n dtl = (if n = 0 \<and> dtl < 255 then uint dtl else 128 * 2 ^ unat n)"

lemma buf_store_zero: "int (length xs) \<le> exec_buf_size \<Longrightarrow>
    \<exists>b'. buf_store b 0 xs = Some b' \<and> map b' [0..<length xs] = xs"
  by (auto simp: buf_store_def intro: nth_equalityI)

lemma uint_and_numeral:
  "uint (b :: u8) AND 1 = uint (b AND 1)" "uint b AND 3 = uint (b AND 3)" "uint b AND 4 = uint (b AND 4)"
  "uint b AND 7 = uint (b AND 7)" "uint b AND 0x1F = uint (b AND 0x1F)" "uint b AND 0x20 = uint (b AND 0x20)"
  "uint b AND 0x40 = uint (b AND 0x40)" "uint b AND 0x80 = uint (b AND 0x80)"
  by (simp_all add: uint_and)

lemma unit_of_less: "unit_of b < 4"
proof -
  have "b AND 3 = take_bit 2 b"
    by (simp add: take_bit_eq_mask mask_eq_exp_minus_1)
  then show ?thesis
    using take_bit_nat_less_exp [of 2 "unat b"] by (simp add: unit_of_def unsigned_take_bit_eq)
qed

lemma nat_uint_unit: "nat (uint (b AND 3)) = unit_of b"
  by (simp add: unit_of_def)


text \<open>The controller as a command handler finds it.\<close>

definition started :: "u8 list \<Rightarrow> fdc_765 \<Rightarrow> fdc_765" where
  "started bs self = (receiving bs self)\<lparr>fdc_dor_drive := fdc_drive self, fdc_st0 := fdc_st0 self AND 0xBF\<rparr>"

lemma dispatch_command:
  assumes "fdc_dor self < 0" and "bs \<noteq> []"
  shows "hd bs AND 0x1F = 6 \<Longrightarrow> fdc_execute L (receiving bs self, w) = fdc_read L 0 (started bs self, w)"
    and "hd bs AND 0x1F = 12 \<Longrightarrow> fdc_execute L (receiving bs self, w) = fdc_read L 1 (started bs self, w)"
    and "hd bs AND 0x1F = 5 \<Longrightarrow> fdc_execute L (receiving bs self, w) = fdc_write L 0 (started bs self, w)"
    and "hd bs AND 0x1F = 9 \<Longrightarrow> fdc_execute L (receiving bs self, w) = fdc_write L 1 (started bs self, w)"
    and "hd bs AND 0x1F = 7 \<Longrightarrow> fdc_execute L (receiving bs self, w) = fdc_recalibrate L (started bs self, w)"
    and "hd bs AND 0x1F = 15 \<Longrightarrow> fdc_execute L (receiving bs self, w) = fdc_seek L (started bs self, w)"
    and "hd bs AND 0x1F = 3 \<Longrightarrow> fdc_execute L (receiving bs self, w) = Some (fdc_specify (started bs self), w)"
    and "hd bs AND 0x1F = 4 \<Longrightarrow> fdc_execute L (receiving bs self, w) = fdc_sense_drive L (started bs self, w)"
    and "hd bs AND 0x1F = 17 \<Longrightarrow> fdc_execute L (receiving bs self, w) = fdc_scan L (started bs self, w)"
    and "hd bs AND 0x1F = 13 \<Longrightarrow> fdc_execute L (receiving bs self, w) = fdc_format L (started bs self, w)"
proof -
  have c: "cmd (started bs self) 0 AND 0x1F = uint (hd bs AND 0x1F)"
    using assms(2) by (simp add: started_def receiving_def cmd_def nth_append hd_conv_nth uint_and_numeral)
  have e: "fdc_execute L (receiving bs self, w) = (
     let c = uint (hd bs AND 0x1F); self = started bs self in
     if c = 2 then fdc_read_track L (self, w)
     else if c = 3 then Some (fdc_specify self, w)
     else if c = 4 then fdc_sense_drive L (self, w)
     else if c = 5 then fdc_write L 0 (self, w)
     else if c = 6 then fdc_read L 0 (self, w)
     else if c = 7 then fdc_recalibrate L (self, w)
     else if c = 8 then fdc_sense_int L (self, w)
     else if c = 9 then fdc_write L 1 (self, w)
     else if c = 10 then fdc_read_id L (self, w)
     else if c = 12 then fdc_read L 1 (self, w)
     else if c = 13 then fdc_format L (self, w)
     else if c = 15 then fdc_seek L (self, w)
     else if c = 17 \<or> c = 25 \<or> c = 30 then fdc_scan L (self, w)
     else Some (fdc_error self, w))"
    unfolding fdc_execute_def prod.case c [symmetric] using assms(1)
    by (simp add: Let_def fdc_dorcheck_def receiving_def started_def)
  show "hd bs AND 0x1F = 6 \<Longrightarrow> fdc_execute L (receiving bs self, w) = fdc_read L 0 (started bs self, w)"
    "hd bs AND 0x1F = 12 \<Longrightarrow> fdc_execute L (receiving bs self, w) = fdc_read L 1 (started bs self, w)"
    "hd bs AND 0x1F = 5 \<Longrightarrow> fdc_execute L (receiving bs self, w) = fdc_write L 0 (started bs self, w)"
    "hd bs AND 0x1F = 9 \<Longrightarrow> fdc_execute L (receiving bs self, w) = fdc_write L 1 (started bs self, w)"
    "hd bs AND 0x1F = 7 \<Longrightarrow> fdc_execute L (receiving bs self, w) = fdc_recalibrate L (started bs self, w)"
    "hd bs AND 0x1F = 15 \<Longrightarrow> fdc_execute L (receiving bs self, w) = fdc_seek L (started bs self, w)"
    "hd bs AND 0x1F = 3 \<Longrightarrow> fdc_execute L (receiving bs self, w) = Some (fdc_specify (started bs self), w)"
    "hd bs AND 0x1F = 4 \<Longrightarrow> fdc_execute L (receiving bs self, w) = fdc_sense_drive L (started bs self, w)"
    "hd bs AND 0x1F = 17 \<Longrightarrow> fdc_execute L (receiving bs self, w) = fdc_scan L (started bs self, w)"
    "hd bs AND 0x1F = 13 \<Longrightarrow> fdc_execute L (receiving bs self, w) = fdc_format L (started bs self, w)"
    by (simp_all add: e Let_def)
qed


lemma take_seven: "7 \<le> length xs \<Longrightarrow>
   take 7 (xs[0 := x0, Suc 0 := x1, 2 := x2, 3 := x3, 4 := x4, 5 := x5, 6 := x6]) = [x0, x1, x2, x3, x4, x5, x6]"
  by (auto simp: numeral_eq_Suc Suc_le_length_iff)

lemma read_one_sector:
  assumes "read_lensector self = Some len" and "buf_zero (fdc_exec_buf self) 0 len = Some zeros"
    and "fd_isready L (cur_drive self) w = Some (rdy, w1)" and "rdy \<noteq> 0"
    and "fd_read_sector L (cur_drive self) (cmd self 2) (cmd self 3) (fdc_curhead self) (cmd self 4) len
      (Some deleted) (cmd self 0 AND 0x20) (cmd self 0 AND 0x40) (cmd self 0 AND 0x80) w1 = Some ((0, xs, Some 0), w2)"
    and "buf_store zeros 0 xs = Some buf"
  shows "fdc_read_loop [sector] L 0 deleted err (self, w) = Some (0, self\<lparr>fdc_exec_buf := buf,
      fdc_st3 := fdc_st3 self OR 0x20, fdc_exec_len := fdc_exec_len self + len,
      fdc_cmd_buf := (fdc_cmd_buf self)[4 := fdc_cmd_buf self ! 4 + 1]\<rparr>, w2)"
  using assms by (simp add: fdc_isready_def cmd_def cur_drive_def)

lemma execute_read_sector:
  assumes "idle self" and "fdc_dor self < 0" and "b0 AND 0x1F = 6 \<or> b0 AND 0x1F = 12"
    and "del = (if b0 AND 0x1F = 6 then 0 else 1)"
    and "unat n < 24" and "sector_len n dtl = int (length xs)" and "int (length xs) \<le> exec_buf_size"
    and "fd_isready L (fdc_drive self ! unit_of b1) w = Some (rdy, w1)" and "rdy \<noteq> 0"
    and "fd_read_sector L (fdc_drive self ! unit_of b1) (uint c) (uint h) (head_of b1) (uint r)
      (sector_len n dtl) (Some del) (uint (b0 AND 0x20)) (uint (b0 AND 0x40)) (uint (b0 AND 0x80)) w1 =
      Some ((0, xs, Some 0), w2)"
  shows "\<exists>self'. fdc_execute L (receiving [b0, b1, c, h, r, n, r, gpl, dtl] self, w) = Some (self', w2) \<and>
    in_exec self' \<and> fdc_exec_pos self' = 0 \<and> fdc_exec_len self' = int (length xs) \<and>
    map (fdc_exec_buf self') [0..<length xs] = xs \<and> fdc_isr self' = fdc_isr self \<and>
    length (fdc_result_buf self') = 20 \<and>
    take 7 (fdc_result_buf self') = [b1 AND 7, 0, 0, c, h, r + 1, n] \<and>
    length (fdc_cmd_buf self') = 20 \<and> length (fdc_drive self') = 4"
proof -
  let ?bs = "[b0, b1, c, h, r, n, r, gpl, dtl]"
  obtain buf where buf: "buf_store (\<lambda>i. if i < length xs then 0 else fdc_exec_buf self i) 0 xs = Some buf"
    "map buf [0..<length xs] = xs"
    using buf_store_zero [OF assms(7)] by blast
  have len: "read_lensector s = Some (int (length xs))"
    if "fdc_cmd_buf s ! 5 = n" "fdc_cmd_buf s ! 8 = dtl" for s
    using assms(5,6) that by (auto simp: read_lensector_def shl128_def cmd_def sector_len_def word_less_def unsigned_eq_0_iff split: if_splits)
  have st: "fdc_execute L (receiving ?bs self, w) = fdc_read L del (started ?bs self, w)"
    using dispatch_command(1,2) [OF assms(2), of ?bs L w] assms(3,4) by auto
  have zero: "buf_zero b 0 (int (length xs)) = Some (\<lambda>i. if i < length xs then 0 else b i)" for b
    using assms(7) by (simp add: buf_zero_def)
  define p where "p = (fdc_get_drive ((clear_status (started ?bs self))\<lparr>fdc_lastidread := 0\<rparr>))\<lparr>fdc_exec_len := 0\<rparr>"
  have p: "fdc_cmd_buf p = ?bs @ drop (length ?bs) (fdc_cmd_buf self)" "fdc_exec_buf p = fdc_exec_buf self"
    "cur_drive p = fdc_drive self ! unit_of b1" "fdc_curhead p = head_of b1" "fdc_exec_len p = 0"
    "fdc_st0 p = uint (b1 AND 7)" "fdc_st1 p = 0" "fdc_st2 p = 0"
    "fdc_isr p = fdc_isr self" "fdc_result_buf p = fdc_result_buf self" "fdc_drive p = fdc_drive self"
    by (simp_all add: p_def started_def receiving_def fdc_get_drive_def cmd_def uint_and_numeral
        cur_drive_def unit_of_def head_of_def)
  have c: "cmd p 0 = uint b0" "cmd p 2 = uint c" "cmd p 3 = uint h" "cmd p 4 = uint r" "cmd p 6 = uint r"
    by (simp_all add: cmd_def p)
  have loop: "fdc_read_loop [uint r..uint r] L 0 del 0 (p, w) = Some (0, p\<lparr>fdc_exec_buf := buf,
      fdc_st3 := fdc_st3 p OR 0x20, fdc_exec_len := int (length xs),
      fdc_cmd_buf := (fdc_cmd_buf p)[4 := r + 1]\<rparr>, w2)"
    using read_one_sector [of p "int (length xs)" _ L w rdy w1 del xs w2 buf "uint r" 0] len [of p] zero assms(6,8-10) buf(1)
    by (simp add: p c uint_and_numeral)
  show ?thesis
    unfolding st fdc_read_def prod.case Let_def p_def [symmetric] c loop
    using assms(1,3) buf(2)
    by (auto simp: in_exec_def is_read_def cmd_def p fdc_exec_interrupt_def fdc_results_7_def uint_and_numeral idle_def take_seven)
qed

text \<open>A pending interrupt is dropped by the first access.\<close>

lemma clear_clear: "fdc_clear_pending_interrupt (fdc_clear_pending_interrupt sw) = fdc_clear_pending_interrupt sw"
  by (cases sw) (auto simp: fdc_clear_pending_interrupt_def call_isr_def split: option.split)

lemma read_bytes_clear: "0 < n \<Longrightarrow> read_bytes L n (fdc_clear_pending_interrupt sw) = read_bytes L n sw"
  by (cases n) (simp_all add: fdc_read_data_def clear_clear)

text \<open>The result phase, entered with its interrupt still pending.\<close>

lemma read_results_pending:
  assumes "fdc_mainstat self = 0xD0" and "fdc_result_len self = n" and "fdc_result_pos self = 0"
    and "length (fdc_result_buf self) = 20" and "length (fdc_cmd_buf self) = 20" and "length (fdc_drive self) = 4"
    and "fdc_isr self = None" and "1 \<le> n" and "n \<le> 20"
  shows "\<exists>self'. read_bytes L (nat n) (self, w) = Some (take (nat n) (fdc_result_buf self), self', w) \<and> idle self'"
proof -
  define s where "s = (if quiet self then self else self\<lparr>fdc_isr_countdown := 0, fdc_interrupting := 0\<rparr>)"
  have s: "fdc_clear_pending_interrupt (self, w) = (s, w)" "in_result n s" "fdc_result_buf s = fdc_result_buf self"
    "fdc_cmd_buf s = fdc_cmd_buf self" "fdc_drive s = fdc_drive self"
    using assms by (auto simp: s_def fdc_clear_pending_interrupt_def call_isr_def in_result_def quiet_def)
  have "read_bytes L (nat n) (self, w) = Some (take (nat n) (fdc_result_buf self), fdc_end_result_phase (result_at n s), w)"
    using read_bytes_clear [of "nat n" L "(self, w)"] read_results [OF s(2) assms(8,9), of L w] s(1,3) assms(8) by simp
  moreover have "idle (fdc_end_result_phase (result_at n s))"
    using s assms(4,5,6) by (auto simp: idle_def fdc_end_result_phase_def result_at_def in_result_def quiet_def)
  ultimately show ?thesis by blast
qed

text \<open>
  C2: READ DATA of one sector.  On an idle controller whose digital output register is not used,
  when the selected drive is ready and finds the sector with the data \<open>xs\<close>, the nine command bytes,
  as many reads as the sector is long and seven more reads yield exactly \<open>xs\<close> and then the
  status registers and the sector id with the next sector number; the controller is idle again.
\<close>

theorem read_data_dialogue:
  assumes "idle self" and "fdc_isr self = None" and "fdc_dor self < 0"
    and "b0 AND 0x1F = 6 \<or> b0 AND 0x1F = 12" and "del = (if b0 AND 0x1F = 6 then 0 else 1)"
    and "unat n < 24" and "sector_len n dtl = int (length xs)" and "xs \<noteq> []" and "int (length xs) \<le> exec_buf_size"
    and "fd_isready L (fdc_drive self ! unit_of b1) w = Some (rdy, w1)" and "rdy \<noteq> 0"
    and "fd_read_sector L (fdc_drive self ! unit_of b1) (uint c) (uint h) (head_of b1) (uint r)
      (sector_len n dtl) (Some del) (uint (b0 AND 0x20)) (uint (b0 AND 0x40)) (uint (b0 AND 0x80)) w1 =
      Some ((0, xs, Some 0), w2)"
  shows "\<exists>self'. do {
      sw \<leftarrow> write_bytes L [b0, b1, c, h, r, n, r, gpl, dtl] (self, w);
      (ys, sw) \<leftarrow> read_bytes L (length xs) sw;
      (zs, sw) \<leftarrow> read_bytes L 7 sw;
      Some (ys, zs, sw)} = Some (xs, [b1 AND 7, 0, 0, c, h, r + 1, n], self', w2) \<and> idle self'"
proof -
  have len9: "cmd_length b0 = 9"
    using assms(4) by (auto simp: cmd_length_def bytes_in_cmd_def)
  have idle: "length (fdc_cmd_buf self) = 20" "length (fdc_result_buf self) = 20" "length (fdc_drive self) = 4"
    using assms(1) by (auto simp: idle_def)
  obtain s where s: "fdc_execute L (receiving [b0, b1, c, h, r, n, r, gpl, dtl] self, w) = Some (s, w2)"
    "in_exec s" "fdc_exec_pos s = 0" "fdc_exec_len s = int (length xs)" "map (fdc_exec_buf s) [0..<length xs] = xs"
    "fdc_isr s = None" "length (fdc_result_buf s) = 20" "take 7 (fdc_result_buf s) = [b1 AND 7, 0, 0, c, h, r + 1, n]"
    "length (fdc_cmd_buf s) = 20" "length (fdc_drive s) = 4"
    using execute_read_sector [OF assms(1,3-7,9-12), of gpl] assms(2) by auto
  have cmd: "write_bytes L [b0, b1, c, h, r, n, r, gpl, dtl] (self, w) = Some (s, w2)"
    using write_command [OF assms(1), of b0 "[b1, c, h, r, n, r, gpl, dtl]" L w] s(1) len9 by simp
  have exec: "read_bytes L (length xs) (s, w2) = Some (xs, exec_done (int (length xs)) s, w2)"
    using read_exec_all [OF s(2,6,3,4)] assms(8,9) s(5) by simp
  obtain t where "read_bytes L 7 (exec_done (int (length xs)) s, w2) =
      Some ([b1 AND 7, 0, 0, c, h, r + 1, n], t, w2)" "idle t"
    using read_results_pending [of "exec_done (int (length xs)) s" 7 L w2] s by (auto simp: exec_done_def)
  then show ?thesis unfolding cmd by (simp add: exec)
qed

section \<open>WRITE DATA\<close>

definition is_write :: "fdc_765 \<Rightarrow> bool" where
  "is_write self \<longleftrightarrow> cmd self 0 AND 0x1F = 5 \<or> cmd self 0 AND 0x1F = 9"

definition in_wexec :: "fdc_765 \<Rightarrow> bool" where
  "in_wexec self \<longleftrightarrow> fdc_mainstat self = 0xB0 \<and> is_write self \<and> 0 \<le> fdc_interrupting self \<and> fdc_interrupting self < 3"

text \<open>The buffer after the bytes \<open>bs\<close> were written from position \<open>i\<close> on.\<close>

definition buf_put :: "nat \<Rightarrow> u8 list \<Rightarrow> (nat \<Rightarrow> u8) \<Rightarrow> nat \<Rightarrow> u8" where
  "buf_put i bs buf = (\<lambda>j. if i \<le> j \<and> j < i + length bs then bs ! (j - i) else buf j)"

definition wexec_at :: "nat \<Rightarrow> int \<Rightarrow> u8 list \<Rightarrow> fdc_765 \<Rightarrow> fdc_765" where
  "wexec_at i n bs self = self\<lparr>fdc_exec_pos := int i + int (length bs), fdc_exec_len := n - int (length bs),
     fdc_exec_buf := buf_put i bs (fdc_exec_buf self), fdc_interrupting := 0, fdc_isr_countdown := SHORT_TIMEOUT\<rparr>"

lemma in_wexec_at: "in_wexec self \<Longrightarrow> in_wexec (wexec_at i n bs self)"
  by (simp add: in_wexec_def wexec_at_def is_write_def cmd_def)

lemma buf_put_Cons: "buf_put (Suc i) bs (buf_put i [b] buf) = buf_put i (b # bs) buf"
  by (rule ext) (auto simp: buf_put_def nth_Cons' Suc_le_eq)

lemma buf_put_bytes: "map (buf_put 0 bs buf) [0..<length bs] = bs"
  by (auto simp: buf_put_def intro: nth_equalityI)

lemma write_exec_byte_step:
  assumes "in_wexec self" and "fdc_isr self = None" and "fdc_exec_pos self = int i" and "int i < exec_buf_size"
    and "fdc_exec_len self = n" and "n \<noteq> 1"
  shows "fdc_write_data L b (self, w) = Some (wexec_at i n [b] self, w)"
proof -
  define s where "s = (if fdc_interrupting self = 0 then self else self\<lparr>fdc_isr_countdown := 0, fdc_interrupting := 0\<rparr>)"
  have clear: "fdc_clear_pending_interrupt (self, w) = (s, w)"
    using assms(1,2) by (auto simp: s_def fdc_clear_pending_interrupt_def call_isr_def in_wexec_def)
  have s: "fdc_mainstat s = 0xB0" "is_write s" "fdc_interrupting s = 0" "fdc_exec_pos s = int i" "fdc_exec_len s = n"
    "fdc_exec_buf s = fdc_exec_buf self"
    using assms by (auto simp: s_def in_wexec_def is_write_def cmd_def)
  have b: "buf_set (fdc_exec_buf self) (int i) b = Some ((fdc_exec_buf self)(i := b))" "buf_put i [b] f = f(i := b)" for f
    using assms(4) by (auto simp: buf_set_def buf_put_def)
  have "s\<lparr>fdc_exec_buf := f, fdc_exec_pos := p, fdc_exec_len := l, fdc_isr_countdown := c\<rparr> =
      self\<lparr>fdc_exec_pos := p, fdc_exec_len := l, fdc_exec_buf := f, fdc_interrupting := 0, fdc_isr_countdown := c\<rparr>" for f p l c
    by (simp add: s_def)
  then show ?thesis
    using s assms(6) unfolding fdc_write_data_def clear
    by (auto simp: write_exec_byte_def exec_advance_def b wexec_at_def is_write_def)
qed

lemma write_exec_last_step:
  assumes "in_wexec self" and "fdc_isr self = None" and "fdc_exec_pos self = int i" and "int i < exec_buf_size"
    and "fdc_exec_len self = 1" and "transfer_len self = Some len"
    and "fd_write_sector L (cur_drive self) (cmd self 2) (cmd self 3) (fdc_curhead self) (cmd self 4)
      (buf_put i [b] (fdc_exec_buf self)) len (fdc_write_deleted self)
      (cmd self 0 AND 0x20) (cmd self 0 AND 0x40) (cmd self 0 AND 0x80) w = Some (0, w')"
  shows "\<exists>t. fdc_write_data L b (self, w) = Some (t, w') \<and> fdc_mainstat t = 0xD0 \<and> fdc_result_len t = 7 \<and>
    fdc_result_pos t = 0 \<and> fdc_result_buf t = fdc_result_buf (fdc_results_7 self) \<and> fdc_isr t = None \<and>
    fdc_cmd_buf t = fdc_cmd_buf self \<and> fdc_drive t = fdc_drive self"
proof -
  define s0 where "s0 = self\<lparr>fdc_isr_countdown := (if fdc_interrupting self = 0 then fdc_isr_countdown self else 0),
    fdc_interrupting := 0, fdc_exec_buf := buf_put i [b] (fdc_exec_buf self)\<rparr>"
  define s where "s = s0\<lparr>fdc_exec_pos := int i + 1, fdc_exec_len := 0\<rparr>"
  have clear: "fdc_clear_pending_interrupt (self, w) =
      (self\<lparr>fdc_isr_countdown := (if fdc_interrupting self = 0 then fdc_isr_countdown self else 0), fdc_interrupting := 0\<rparr>, w)"
    using assms(1,2) by (auto simp: fdc_clear_pending_interrupt_def call_isr_def in_wexec_def)
  have b: "buf_set (fdc_exec_buf self) (int i) b = Some (buf_put i [b] (fdc_exec_buf self))"
    using assms(4) by (auto simp: buf_set_def buf_put_def)
  obtain l where l: "shl128 (fdc_cmd_buf self ! 5) = Some l" "len = (if cmd self 8 < 255 then cmd self 8 else l)"
    using assms(6) by (auto simp: transfer_len_def Option.bind_eq_Some_conv)
  define s' where "s' = s\<lparr>fdc_mainstat := 0xD0, fdc_result_pos := 0\<rparr>"
  have f: "cur_drive s' = cur_drive self" "cmd s' k = cmd self k" "fdc_curhead s' = fdc_curhead self"
    "fdc_exec_buf s' = buf_put i [b] (fdc_exec_buf self)" "fdc_write_deleted s' = fdc_write_deleted self"
    "fdc_cmd_buf s' = fdc_cmd_buf self" for k
    by (simp_all add: s'_def s_def s0_def cur_drive_def cmd_def)
  have x0: "fdc_xlt_error 0 x = x" for x
    by (simp add: fdc_xlt_error_def)
  have e: "fdc_write_end L (s', w) = Some (fdc_result_interrupt (fdc_results_7 s'), w')"
    using assms(7) by (cases "cmd self 8 < 255") (simp_all add: fdc_write_end_def f l x0)
  have w: "cmd self 0 AND 0x1F = 5 \<or> cmd self 0 AND 0x1F = 9"
    using assms(1) by (simp add: in_wexec_def is_write_def)
  have c0: "cmd s 0 = cmd self 0" by (simp add: s_def s0_def cmd_def)
  have ep: "fdc_end_execution_phase L (s, w) =
      Some ((fdc_result_interrupt (fdc_results_7 s'))\<lparr>fdc_result_len := 7\<rparr>, w')"
    using w e unfolding fdc_end_execution_phase_def prod.case Let_def c0 s'_def [symmetric] by auto
  have adv: "fdc_write_data L b (self, w) = exec_advance L (s0, w)"
    using assms(1,3) w b unfolding fdc_write_data_def clear
    by (auto simp: write_exec_byte_def in_wexec_def cmd_def s0_def)
  have "exec_advance L (s0, w) =
      Some (fdc_result_interrupt ((fdc_result_interrupt (fdc_results_7 s'))\<lparr>fdc_result_len := 7\<rparr>), w')"
    using ep assms(3,5) by (simp add: exec_advance_def s_def s0_def s'_def fdc_result_interrupt_def)
  then show ?thesis
    using adv assms(2) by (simp add: fdc_result_interrupt_def fdc_results_7_def s'_def s_def s0_def)
qed

text \<open>The whole execution phase of a write: the drive is given exactly the bytes written.\<close>

lemma write_exec_some:
  assumes "fdc_isr self = None" and "in_wexec self" and "fdc_exec_pos self = int i"
    and "int i + int (length bs) \<le> exec_buf_size" and "int (length bs) < n" and "bs \<noteq> []"
  shows "fdc_exec_len self = n \<Longrightarrow> write_bytes L bs (self, w) = Some (wexec_at i n bs self, w)"
  using assms
proof (induction bs arbitrary: self i n)
  case (Cons b bs)
  have st: "fdc_write_data L b (self, w) = Some (wexec_at i n [b] self, w)"
    using Cons.prems by (intro write_exec_byte_step) auto
  show ?case
  proof (cases "bs = []")
    case False
    have "write_bytes L bs (wexec_at i n [b] self, w) = Some (wexec_at (Suc i) (n - 1) bs (wexec_at i n [b] self), w)"
      using Cons.IH [where self = "wexec_at i n [b] self" and i = "Suc i" and n = "n - 1"] Cons.prems False in_wexec_at [of self i n "[b]"]
      by (simp add: wexec_at_def)
    moreover have "wexec_at (Suc i) (n - 1) bs (wexec_at i n [b] self) = wexec_at i n (b # bs) self"
      by (simp add: wexec_at_def buf_put_Cons algebra_simps)
    ultimately show ?thesis using st by simp
  qed (use st in simp)
qed simp

lemma buf_put_append: "buf_put (i + length bs) cs (buf_put i bs buf) = buf_put i (bs @ cs) buf"
  by (rule ext) (auto simp: buf_put_def nth_append)

lemma write_exec_all:
  assumes "in_wexec self" and "fdc_isr self = None" and "fdc_exec_pos self = 0"
    and "fdc_exec_len self = int (length bs)" and "bs \<noteq> []" and "int (length bs) \<le> exec_buf_size"
    and "transfer_len self = Some len"
    and "fd_write_sector L (cur_drive self) (cmd self 2) (cmd self 3) (fdc_curhead self) (cmd self 4)
      (buf_put 0 bs (fdc_exec_buf self)) len (fdc_write_deleted self)
      (cmd self 0 AND 0x20) (cmd self 0 AND 0x40) (cmd self 0 AND 0x80) w = Some (0, w')"
  shows "\<exists>t. write_bytes L bs (self, w) = Some (t, w') \<and> fdc_mainstat t = 0xD0 \<and> fdc_result_len t = 7 \<and>
    fdc_result_pos t = 0 \<and> fdc_result_buf t = fdc_result_buf (fdc_results_7 self) \<and> fdc_isr t = None \<and>
    fdc_cmd_buf t = fdc_cmd_buf self \<and> fdc_drive t = fdc_drive self"
proof -
  obtain cs c where bs: "bs = cs @ [c]" using assms(5) by (cases bs rule: rev_cases) auto
  define s where "s = (if cs = [] then self else wexec_at 0 (int (length bs)) cs self)"
  have pre: "write_bytes L cs (self, w) = Some (s, w)"
    using write_exec_some [OF assms(2,1), of 0 cs "int (length bs)" L w] assms(3,4,6) bs by (auto simp: s_def)
  have w: "in_wexec s"
    using assms(1) in_wexec_at [OF assms(1)] by (simp add: s_def)
  have s: "fdc_isr s = None" "fdc_exec_pos s = int (length cs)" "fdc_exec_len s = 1"
    "buf_put (length cs) [c] (fdc_exec_buf s) = buf_put 0 bs (fdc_exec_buf self)"
    "fdc_cmd_buf s = fdc_cmd_buf self" "fdc_drive s = fdc_drive self" "cur_drive s = cur_drive self"
    "fdc_curhead s = fdc_curhead self" "fdc_write_deleted s = fdc_write_deleted self"
    "fdc_result_buf (fdc_results_7 s) = fdc_result_buf (fdc_results_7 self)"
    using assms bs buf_put_append [of 0 cs "[c]"]
    by (auto simp: s_def wexec_at_def cur_drive_def fdc_results_7_def)
  have c: "cmd s k = cmd self k" "transfer_len s = transfer_len self" for k
    unfolding cmd_def transfer_len_def s by simp_all
  obtain t where "fdc_write_data L c (s, w) = Some (t, w')" "fdc_mainstat t = 0xD0" "fdc_result_len t = 7"
    "fdc_result_pos t = 0" "fdc_result_buf t = fdc_result_buf (fdc_results_7 self)" "fdc_isr t = None"
    "fdc_cmd_buf t = fdc_cmd_buf self" "fdc_drive t = fdc_drive self"
    using write_exec_last_step [OF w s(1,2) _ s(3), of len L c w w'] assms(6,7,8) bs by (auto simp: s c)
  then show ?thesis
    using pre by (simp add: bs write_bytes_append)
qed

lemma execute_write_sector:
  assumes "idle self" and "fdc_dor self < 0" and "b0 AND 0x1F = 5 \<or> b0 AND 0x1F = 9"
    and "del = (if b0 AND 0x1F = 5 then 0 else 1)"
    and "unat n < 24" and "len = (if dtl < 255 then uint dtl else 128 * 2 ^ unat n)" and "len \<le> exec_buf_size"
    and "fd_isready L (fdc_drive self ! unit_of b1) w = Some (rdy, w1)" and "rdy \<noteq> 0"
    and "drive_readonly (fdc_drive self ! unit_of b1) w1 = Some False"
  shows "\<exists>s. fdc_execute L (receiving [b0, b1, c, h, r, n, eot, gpl, dtl] self, w) = Some (s, w1) \<and>
    in_wexec s \<and> fdc_exec_pos s = 0 \<and> fdc_exec_len s = len \<and> transfer_len s = Some len \<and>
    cur_drive s = fdc_drive self ! unit_of b1 \<and> fdc_curhead s = head_of b1 \<and> fdc_write_deleted s = del \<and>
    fdc_isr s = fdc_isr self \<and> fdc_drive s = fdc_drive self \<and>
    cmd s 0 = uint b0 \<and> cmd s 2 = uint c \<and> cmd s 3 = uint h \<and> cmd s 4 = uint r \<and>
    length (fdc_cmd_buf s) = 20 \<and> length (fdc_result_buf s) = 20 \<and>
    take 7 (fdc_result_buf (fdc_results_7 s)) = [b1 AND 7, 0, 0, c, h, r, n]"
proof -
  let ?bs = "[b0, b1, c, h, r, n, eot, gpl, dtl]"
  have st: "fdc_execute L (receiving ?bs self, w) = fdc_write L del (started ?bs self, w)"
    using dispatch_command(3,4) [OF assms(2), of ?bs L w] assms(3,4) by auto
  define p where "p = fdc_get_drive ((clear_status (started ?bs self))\<lparr>fdc_lastidread := 0, fdc_write_deleted := del\<rparr>)"
  have p: "fdc_cmd_buf p = ?bs @ drop (length ?bs) (fdc_cmd_buf self)"
    "cur_drive p = fdc_drive self ! unit_of b1" "fdc_curhead p = head_of b1"
    "fdc_st0 p = uint (b1 AND 7)" "fdc_st1 p = 0" "fdc_st2 p = 0" "fdc_write_deleted p = del"
    "fdc_isr p = fdc_isr self" "fdc_result_buf p = fdc_result_buf self" "fdc_drive p = fdc_drive self"
    by (simp_all add: p_def started_def receiving_def fdc_get_drive_def cmd_def uint_and_numeral
        cur_drive_def unit_of_def head_of_def)
  have len: "transfer_len s = Some len" if "fdc_cmd_buf s ! 5 = n" "fdc_cmd_buf s ! 8 = dtl" for s
    using assms(5,6) that by (auto simp: transfer_len_def shl128_def cmd_def word_less_def)
  have "0 \<le> len" using assms(6) by auto
  then have zero: "buf_zero (fdc_exec_buf p) 0 len = Some (\<lambda>i. if i < nat len then 0 else fdc_exec_buf p i)"
    using assms(7) by (simp add: buf_zero_def)
  have l20: "length (fdc_cmd_buf self) = 20" "length (fdc_result_buf self) = 20"
    using assms(1) by (auto simp: idle_def)
  define s where "s = (fdc_exec_interrupt (p\<lparr>fdc_exec_len := len,
    fdc_exec_buf := (\<lambda>i. if i < nat len then 0 else fdc_exec_buf p i), fdc_st3 := fdc_st3 p OR 0x20\<rparr>))
    \<lparr>fdc_mainstat := 0xB0, fdc_exec_pos := 0\<rparr>"
  have "fdc_write L del (started ?bs self, w) = Some (s, w1)"
    unfolding fdc_write_def prod.case Let_def p_def [symmetric] p(2)
    using len [of p] zero assms(8,9,10) by (simp add: p fdc_isready_def s_def)
  moreover have "fdc_cmd_buf s = fdc_cmd_buf p" "cur_drive s = cur_drive p"
    by (simp_all add: s_def fdc_exec_interrupt_def cur_drive_def)
  moreover have "take 7 (fdc_result_buf (fdc_results_7 s)) = [b1 AND 7, 0, 0, c, h, r, n]"
    using l20 by (simp add: s_def fdc_exec_interrupt_def fdc_results_7_def p take_seven)
  ultimately show ?thesis
    unfolding st using assms(3) l20 len [of s]
    by (auto simp: p in_wexec_def is_write_def cmd_def uint_and_numeral s_def fdc_exec_interrupt_def)
qed

text \<open>
  WRITE DATA of one sector as the code does it.  The number of bytes is DTL whenever DTL is below 255,
  whatever N is.
\<close>

lemma write_dialogue:
  assumes "idle self" and "fdc_isr self = None" and "fdc_dor self < 0"
    and "b0 AND 0x1F = 5 \<or> b0 AND 0x1F = 9" and "del = (if b0 AND 0x1F = 5 then 0 else 1)"
    and "unat n < 24" and "int (length xs) = (if dtl < 255 then uint dtl else 128 * 2 ^ unat n)"
    and "xs \<noteq> []" and "int (length xs) \<le> exec_buf_size"
    and "fd_isready L (fdc_drive self ! unit_of b1) w = Some (rdy, w1)" and "rdy \<noteq> 0"
    and "drive_readonly (fdc_drive self ! unit_of b1) w1 = Some False"
    and "\<And>buf. map buf [0..<length xs] = xs \<Longrightarrow>
      fd_write_sector L (fdc_drive self ! unit_of b1) (uint c) (uint h) (head_of b1) (uint r) buf (int (length xs)) del
        (uint (b0 AND 0x20)) (uint (b0 AND 0x40)) (uint (b0 AND 0x80)) w1 = Some (0, w2)"
  shows "\<exists>self'. do {
      sw \<leftarrow> write_bytes L ([b0, b1, c, h, r, n, eot, gpl, dtl] @ xs) (self, w);
      (zs, sw) \<leftarrow> read_bytes L 7 sw;
      Some (zs, sw)} = Some ([b1 AND 7, 0, 0, c, h, r, n], self', w2) \<and> idle self'"
proof -
  have len9: "cmd_length b0 = 9"
    using assms(4) by (auto simp: cmd_length_def bytes_in_cmd_def)
  obtain s where s: "fdc_execute L (receiving [b0, b1, c, h, r, n, eot, gpl, dtl] self, w) = Some (s, w1)"
    "in_wexec s" "fdc_exec_pos s = 0" "fdc_exec_len s = int (length xs)" "transfer_len s = Some (int (length xs))"
    "cur_drive s = fdc_drive self ! unit_of b1" "fdc_curhead s = head_of b1" "fdc_write_deleted s = del"
    "fdc_isr s = None" "fdc_drive s = fdc_drive self"
    "cmd s 0 = uint b0" "cmd s 2 = uint c" "cmd s 3 = uint h" "cmd s 4 = uint r"
    "length (fdc_cmd_buf s) = 20" "length (fdc_result_buf s) = 20"
    "take 7 (fdc_result_buf (fdc_results_7 s)) = [b1 AND 7, 0, 0, c, h, r, n]"
    using execute_write_sector [OF assms(1,3-7,9-12), of c h r eot gpl] assms(2) by auto
  have cmd: "write_bytes L [b0, b1, c, h, r, n, eot, gpl, dtl] (self, w) = Some (s, w1)"
    using write_command [OF assms(1), of b0 "[b1, c, h, r, n, eot, gpl, dtl]" L w] s(1) len9 by simp
  obtain t where t: "write_bytes L xs (s, w1) = Some (t, w2)" "fdc_mainstat t = 0xD0" "fdc_result_len t = 7"
    "fdc_result_pos t = 0" "fdc_result_buf t = fdc_result_buf (fdc_results_7 s)" "fdc_isr t = None"
    "fdc_cmd_buf t = fdc_cmd_buf s" "fdc_drive t = fdc_drive s"
    using write_exec_all [OF s(2,9,3,4) assms(8,9) s(5), of L w1 w2] assms(13) [OF buf_put_bytes]
    by (auto simp: s uint_and_numeral)
  have "length (fdc_result_buf t) = 20" "length (fdc_drive t) = 4"
    using t(5,8) s(10,16) assms(1) by (simp_all add: fdc_results_7_def idle_def)
  then obtain u where "read_bytes L 7 (t, w2) = Some ([b1 AND 7, 0, 0, c, h, r, n], u, w2)" "idle u"
    using read_results_pending [of t 7 L w2] t s(15,17) by auto
  then show ?thesis
    unfolding write_bytes_append cmd by (simp add: t(1))
qed

text \<open>
  C18: WRITE DATA of one sector, where N is 0 or DTL is 255, so that the number of bytes is the one
  a READ DATA with the same command bytes has: DTL for N = 0 and DTL below 255, else \<open>128 << N\<close>.  On an idle controller, when the selected drive is ready and not write-protected, the nine
  command bytes and the bytes \<open>xs\<close> of the sector make the drive write a buffer that starts with
  exactly \<open>xs\<close>; the seven result bytes follow and the controller is idle again.  The remaining case,
  N > 0 with DTL below 255, is outside the claim: there \<^verbatim>\<open>fdc_write\<close> takes DTL bytes (lemma
  \<open>write_dialogue\<close>), while the comment in \<^verbatim>\<open>fdc_read\<close> says that DTL means nothing and the whole sector
  is transferred.
\<close>

theorem write_data_dialogue:
  assumes "idle self" and "fdc_isr self = None" and "fdc_dor self < 0"
    and "b0 AND 0x1F = 5 \<or> b0 AND 0x1F = 9" and "del = (if b0 AND 0x1F = 5 then 0 else 1)"
    and "n = 0 \<or> dtl = 255" and "unat n < 24" and "int (length xs) = sector_len n dtl"
    and "xs \<noteq> []" and "int (length xs) \<le> exec_buf_size"
    and "fd_isready L (fdc_drive self ! unit_of b1) w = Some (rdy, w1)" and "rdy \<noteq> 0"
    and "drive_readonly (fdc_drive self ! unit_of b1) w1 = Some False"
    and "\<And>buf. map buf [0..<length xs] = xs \<Longrightarrow>
      fd_write_sector L (fdc_drive self ! unit_of b1) (uint c) (uint h) (head_of b1) (uint r) buf (int (length xs)) del
        (uint (b0 AND 0x20)) (uint (b0 AND 0x40)) (uint (b0 AND 0x80)) w1 = Some (0, w2)"
  shows "\<exists>self'. do {
      sw \<leftarrow> write_bytes L ([b0, b1, c, h, r, n, eot, gpl, dtl] @ xs) (self, w);
      (zs, sw) \<leftarrow> read_bytes L 7 sw;
      Some (zs, sw)} = Some ([b1 AND 7, 0, 0, c, h, r, n], self', w2) \<and> idle self'"
proof (rule write_dialogue [OF assms(1-5,7) _ assms(9-14)])
  show "int (length xs) = (if dtl < 255 then uint dtl else 128 * 2 ^ unat n)"
    using assms(6,8) by (auto simp: sector_len_def)
qed

section \<open>Seeking and SENSE INTERRUPT STATUS\<close>


lemma write_one_byte_command:
  assumes "fdc_mainstat self = 0x80" and "fdc_cmd_id self = -1" and "cmd_length b = 1" and "quiet self"
    and "length (fdc_cmd_buf self) = 20"
  shows "fdc_write_data L b (self, w) = do {
    (self, w) \<leftarrow> fdc_execute L (self\<lparr>fdc_cmd_id := uint b, fdc_cmd_pos := 0, fdc_cmd_buf := b # drop 1 (fdc_cmd_buf self),
      fdc_cmd_len := 0\<rparr>, w);
    Some (self\<lparr>fdc_mainstat := fdc_mainstat self OR 0x10\<rparr>, w)}"
proof -
  have ub: "bytes_in_cmd ! unat (b AND 0x1F) = 1"
    using assms(3) cmd_length(1) [of b] by simp
  have cb: "(fdc_cmd_buf self)[0 := b] = b # drop 1 (fdc_cmd_buf self)"
    using assms(5) by (cases "fdc_cmd_buf self") auto
  show ?thesis
    using assms ub by (simp add: fdc_write_data_def quiet_clear write_idle_byte_def cb)
qed

text \<open>The first command bytes that \<^verbatim>\<open>fdc_execute\<close> has no case for.\<close>

definition invalid_opcode :: "u8 \<Rightarrow> bool" where
  "invalid_opcode b \<longleftrightarrow> unat (b AND 0x1F) \<notin> {2, 3, 4, 5, 6, 7, 8, 9, 10, 12, 13, 15, 17, 25, 30}"

lemma invalid_cmd_length: "invalid_opcode b \<Longrightarrow> cmd_length b = 1"
proof -
  have "\<forall>i \<in> set [0..<32]. i \<notin> {2, 3, 4, 5, 6, 7, 8, 9, 10, 12, 13, 15, 17, 25, 30} \<longrightarrow> nat (bytes_in_cmd ! i) = 1"
    by (simp add: bytes_in_cmd_def upt_rec)
  then show "invalid_opcode b \<Longrightarrow> cmd_length b = 1"
    using and_1F [of b] by (auto simp: invalid_opcode_def cmd_length_def)
qed

lemma execute_invalid:
  assumes "invalid_opcode b" and "cmd self 0 = uint b"
  shows "fdc_execute L (self, w) =
    Some (fdc_error ((fdc_dorcheck self)\<lparr>fdc_st0 := fdc_st0 self AND 0xBF\<rparr>), w)"
proof -
  let ?s = "(fdc_dorcheck self)\<lparr>fdc_st0 := fdc_st0 (fdc_dorcheck self) AND 0xBF\<rparr>"
  have c: "cmd ?s 0 AND 0x1F = uint (b AND 0x1F)"
    using assms(2) by (simp add: cmd_def fdc_dorcheck_def uint_and_numeral)
  have n: "uint (b AND 0x1F) = int k \<Longrightarrow> unat (b AND 0x1F) = k" for k
    by (metis nat_int unat_eq_nat_uint)
  have "fdc_st0 (fdc_dorcheck self) = fdc_st0 self"
    by (simp add: fdc_dorcheck_def)
  then show ?thesis
    unfolding fdc_execute_def prod.case Let_def c
    using assms(1) n [of 2] n [of 3] n [of 4] n [of 5] n [of 6] n [of 7] n [of 8] n [of 9] n [of 10] n [of 12]
      n [of 13] n [of 15] n [of 17] n [of 25] n [of 30]
    unfolding invalid_opcode_def by auto
qed

text \<open>
  An opcode that is no command is answered by one result byte, ST0 with the invalid-command
  code, and the controller is idle again.
\<close>

theorem invalid_command_dialogue:
  assumes "idle self" and "fdc_isr self = None" and "invalid_opcode b"
  shows "\<exists>self'. do {
      sw \<leftarrow> fdc_write_data L b (self, w);
      fdc_read_data L sw} = Some (word_of_int ((fdc_st0 self AND 0x3F) OR 0x80), self', w) \<and> idle self'"
proof -
  have i: "fdc_mainstat self = 0x80" "fdc_cmd_id self = -1" "quiet self" "length (fdc_cmd_buf self) = 20"
    "length (fdc_result_buf self) = 20" "length (fdc_drive self) = 4"
    using assms(1) by (auto simp: idle_def)
  define s where "s = self\<lparr>fdc_cmd_id := uint b, fdc_cmd_pos := 0, fdc_cmd_buf := b # drop 1 (fdc_cmd_buf self), fdc_cmd_len := 0\<rparr>"
  define e where "e = (fdc_error ((fdc_dorcheck s)\<lparr>fdc_st0 := fdc_st0 s AND 0xBF\<rparr>))"
  define t where "t = e\<lparr>fdc_mainstat := fdc_mainstat e OR 0x10\<rparr>"
  have wr: "fdc_write_data L b (self, w) = Some (t, w)"
    using write_one_byte_command [OF i(1,2) invalid_cmd_length [OF assms(3)] i(3,4), of L w]
      execute_invalid [OF assms(3), of s L w] by (simp add: s_def [symmetric] e_def t_def) (simp add: s_def cmd_def)
  have r: "in_result 1 t" "fdc_result_buf t ! 0 = word_of_int ((fdc_st0 self AND 0x3F) OR 0x80)"
    "length (fdc_cmd_buf t) = 20" "length (fdc_result_buf t) = 20" "length (fdc_drive t) = 4"
    using i by (simp_all add: in_result_def t_def e_def s_def fdc_error_def fdc_dorcheck_def quiet_def and.assoc)
  have "read_bytes L 1 (t, w) = Some ([fdc_result_buf t ! 0], fdc_end_result_phase (result_at 1 t), w)"
    using read_results [OF r(1), of L w] r(4) by (simp add: take_Suc_conv_app_nth)
  then have "fdc_read_data L (t, w) = Some (fdc_result_buf t ! 0, fdc_end_result_phase (result_at 1 t), w)"
    by (auto simp: Option.bind_eq_Some_conv split: prod.splits)
  moreover have "idle (fdc_end_result_phase (result_at 1 t))"
    using r by (auto simp: idle_def fdc_end_result_phase_def result_at_def in_result_def quiet_def)
  ultimately show ?thesis
    using wr r(2) by auto
qed

section \<open>Seeking and SENSE INTERRUPT STATUS\<close>

lemma execute_seek:
  assumes "idle self" and "fdc_dor self < 0" and "b0 AND 0x1F = 15"
    and "fd_isready L (fdc_drive self ! unit_of b1) w = Some (rdy, w1)" and "rdy \<noteq> 0"
    and "fd_seek_cylinder L (fdc_drive self ! unit_of b1) (uint cyl) w1 = Some (0, w2)"
  shows "\<exists>s. fdc_execute L (receiving [b0, b1, cyl] self, w) = Some (s, w2) \<and> idle s \<and>
    fdc_interrupting s = 4 \<and> fdc_isr_countdown s = SHORT_TIMEOUT \<and> fdc_isr s = fdc_isr self \<and>
    fdc_dor s = fdc_dor self \<and> fdc_drive s = fdc_drive self \<and> fdc_curunit s = int (unit_of b1) \<and>
    fdc_st0 s = uint (b1 AND 7) OR 0x20"
proof -
  let ?bs = "[b0, b1, cyl]"
  have st: "fdc_execute L (receiving ?bs self, w) = fdc_seek L (started ?bs self, w)"
    using dispatch_command(6) [OF assms(2), of ?bs L w] assms(3) by simp
  define p where "p = (fdc_get_drive (clear_status (started ?bs self)))\<lparr>fdc_lastidread := 0\<rparr>"
  have p: "fdc_cmd_buf p = ?bs @ drop (length ?bs) (fdc_cmd_buf self)"
    "fdc_dor_drive p = fdc_drive self" "fdc_curunit p = int (unit_of b1)" "fdc_st0 p = uint (b1 AND 7)" "fdc_st2 p = 0"
    "fdc_isr p = fdc_isr self" "fdc_result_buf p = fdc_result_buf self" "fdc_drive p = fdc_drive self"
    "fdc_dor p = fdc_dor self"
    by (simp_all add: p_def started_def receiving_def fdc_get_drive_def cmd_def uint_and_numeral unit_of_def)
  have cyl: "cmd (started ?bs self) 2 = uint cyl"
    by (simp add: cmd_def started_def receiving_def)
  show ?thesis
    unfolding st fdc_seek_def prod.case p_def [symmetric] cyl seek_drive_def Let_def
    using assms(1,4-6)
    by (simp add: fdc_isready_def cur_drive_def fdc_end_result_phase_def p idle_def quiet_def)
qed

lemma execute_sense_int:
  assumes "idle s" and "fdc_interrupting s = 4" and "fdc_isr s = None" and "fdc_dor s < 0"
    and "fdc_drive s ! nat (fdc_curunit s) = Some p" and "get_drive p w = Some d" and "b AND 0x1F = 8"
  shows "\<exists>t. fdc_write_data L b (s, w) = Some (t, w) \<and> in_result 2 t \<and>
    take 2 (fdc_result_buf t) = [word_of_int (fdc_st0 s AND 0xBF), word_of_int (fd_cylinder d)] \<and>
    length (fdc_cmd_buf t) = 20 \<and> length (fdc_drive t) = 4"
proof -
  have i: "fdc_mainstat s = 0x80" "fdc_cmd_id s = -1" "quiet s" "length (fdc_cmd_buf s) = 20"
    "length (fdc_result_buf s) = 20" "length (fdc_drive s) = 4"
    using assms(1) by (auto simp: idle_def)
  define r where "r = s\<lparr>fdc_cmd_id := uint b, fdc_cmd_pos := 0, fdc_cmd_buf := b # drop 1 (fdc_cmd_buf s), fdc_cmd_len := 0\<rparr>"
  define q where "q = (fdc_dorcheck r)\<lparr>fdc_st0 := fdc_st0 (fdc_dorcheck r) AND 0xBF\<rparr>"
  have q: "cmd q 0 AND 0x1F = 8" "fdc_interrupting q = 4" "cur_drive q = Some p" "fdc_isr q = None"
    "fdc_st0 q = fdc_st0 s AND 0xBF" "fdc_result_buf q = fdc_result_buf s" "length (fdc_cmd_buf q) = 20"
    "fdc_drive q = fdc_drive s"
    using assms i by (simp_all add: q_def r_def cmd_def fdc_dorcheck_def cur_drive_def uint_and_numeral)
  have ex: "fdc_execute L (r, w) = fdc_sense_int L (q, w)"
    unfolding fdc_execute_def prod.case Let_def q_def [symmetric] q(1) by simp
  define u where "u = q\<lparr>fdc_result_buf := (fdc_result_buf q)[0 := word_of_int (fdc_st0 q), 1 := word_of_int (fd_cylinder d)],
    fdc_result_len := 2, fdc_mainstat := 0xD0, fdc_result_pos := 0, fdc_isr_countdown := 0, fdc_interrupting := 0\<rparr>"
  have sense: "fdc_sense_int L (q, w) = Some (u, w)"
    using q assms(6) by (simp add: fdc_sense_int_def fdc_end_execution_phase_def Let_def cmd_def call_isr_def u_def)
  have len: "cmd_length b = 1"
    using assms(7) by (simp add: cmd_length_def bytes_in_cmd_def)
  have "fdc_write_data L b (s, w) = Some (u\<lparr>fdc_mainstat := 0xD0\<rparr>, w)"
    unfolding write_one_byte_command [OF i(1,2) len i(3,4), of L w, folded r_def] ex sense
    by (simp add: u_def)
  moreover have "u\<lparr>fdc_mainstat := 0xD0\<rparr> = u"
    by (simp add: u_def)
  moreover have "take 2 (fdc_result_buf u) = [word_of_int (fdc_st0 s AND 0xBF), word_of_int (fd_cylinder d)]"
    using i(5) by (auto simp: u_def q numeral_eq_Suc Suc_le_length_iff length_Suc_conv)
  ultimately show ?thesis
    using q i by (intro exI [of _ u]) (simp add: in_result_def quiet_def u_def)
qed

text \<open>
  SEEK, then SENSE INTERRUPT STATUS.  On an idle controller whose selected drive is ready and seeks
  successfully, the three bytes of SEEK and the one of SENSE INTERRUPT STATUS lead to the two result
  bytes \<open>seek end\<close> with the unit and head, and the cylinder; the controller is idle again.
\<close>

theorem seek_dialogue:
  assumes "idle self" and "fdc_isr self = None" and "fdc_dor self < 0" and "b0 AND 0x1F = 15" and "b AND 0x1F = 8"
    and "fdc_drive self ! unit_of b1 = Some p"
    and "fd_isready L (Some p) w = Some (rdy, w1)" and "rdy \<noteq> 0"
    and "fd_seek_cylinder L (Some p) (uint cyl) w1 = Some (0, w2)"
    and "get_drive p w2 = Some d" and "fd_cylinder d = uint cyl"
  shows "\<exists>self'. do {
      sw \<leftarrow> write_bytes L [b0, b1, cyl] (self, w);
      sw \<leftarrow> fdc_write_data L b sw;
      read_bytes L 2 sw} = Some ([0x20 OR (b1 AND 7), cyl], self', w2) \<and> idle self'"
proof -
  have len3: "cmd_length b0 = 3"
    using assms(4) by (simp add: cmd_length_def bytes_in_cmd_def)
  obtain s where s: "fdc_execute L (receiving [b0, b1, cyl] self, w) = Some (s, w2)" "idle s" "fdc_interrupting s = 4"
    "fdc_isr s = None" "fdc_dor s < 0" "fdc_drive s = fdc_drive self" "fdc_curunit s = int (unit_of b1)"
    "fdc_st0 s = uint (b1 AND 7) OR 0x20"
    using execute_seek [OF assms(1,3,4), of L b1 w rdy w1 cyl w2] assms(2,3,6-9) by auto
  have cmd: "write_bytes L [b0, b1, cyl] (self, w) = Some (s, w2)"
    using write_command [OF assms(1), of b0 "[b1, cyl]" L w] s(1) len3 by simp
  obtain t where t: "fdc_write_data L b (s, w2) = Some (t, w2)" "in_result 2 t"
    "take 2 (fdc_result_buf t) = [word_of_int (fdc_st0 s AND 0xBF), word_of_int (fd_cylinder d)]"
    "length (fdc_cmd_buf t) = 20" "length (fdc_drive t) = 4"
    using execute_sense_int [OF s(2,3,4,5) _ assms(10,5), of L] assms(6) s(6,7) by auto
  have st0: "word_of_int (fdc_st0 s AND 0xBF) = 0x20 OR (b1 AND 7)"
  proof -
    have "uint (b1 AND 7) OR 0x20 = uint ((b1 AND 7) OR 0x20)" by (simp add: uint_or)
    moreover have "uint ((b1 AND 7) OR 0x20) AND 0xBF = uint (((b1 AND 7) OR 0x20) AND 0xBF)" by (simp add: uint_and)
    ultimately have "word_of_int (fdc_st0 s AND 0xBF) = ((b1 AND 7) OR 0x20) AND (0xBF :: u8)"
      unfolding s(8) by simp
    then show ?thesis by (simp add: bit.conj_disj_distrib2 and.assoc or.commute)
  qed
  have "read_bytes L 2 (t, w2) = Some ([0x20 OR (b1 AND 7), cyl], fdc_end_result_phase (result_at 2 t), w2)"
    using read_results [OF t(2), of L w2] t(3) assms(11) st0 by simp
  moreover have "idle (fdc_end_result_phase (result_at 2 t))"
    using t by (auto simp: idle_def fdc_end_result_phase_def result_at_def in_result_def quiet_def)
  ultimately show ?thesis
    unfolding cmd using t(1) by simp
qed

section \<open>The interrupt line\<close>

lemma tick_steps: "k < n \<Longrightarrow> fdc_isr_countdown self = int n \<Longrightarrow>
   (fdc_tick ^^ k) (self, w) = (self\<lparr>fdc_isr_countdown := int n - int k\<rparr>, w)"
  by (induction k) (simp_all add: fdc_tick_def)

text \<open>
  C29: the interrupt of a command is delivered exactly once.  A countdown of \<open>n\<close> calls the interrupt
  callback at tick \<open>n\<close>, not before and never again.
\<close>

theorem tick_interrupts_once:
  assumes "0 < n" and "fdc_isr_countdown self = int n" and "fdc_isr self = Some f"
  shows "(fdc_tick ^^ k) (self, w) =
    (if k < n then (self\<lparr>fdc_isr_countdown := int n - int k\<rparr>, w)
     else (self\<lparr>fdc_isr_countdown := 0\<rparr>, w\<lparr>isr_calls := isr_calls w @ [(f, 1)]\<rparr>))"
proof (cases "k < n")
  case True
  then show ?thesis using tick_steps [OF True assms(2)] by simp
next
  case False
  obtain m where n: "n = Suc m" using assms(1) by (cases n) auto
  define sw where "sw = (self\<lparr>fdc_isr_countdown := 0\<rparr>, w\<lparr>isr_calls := isr_calls w @ [(f, 1)]\<rparr>)"
  have "(fdc_tick ^^ m) (self, w) = (self\<lparr>fdc_isr_countdown := int n - int m\<rparr>, w)"
    using tick_steps [of m n self w] n assms(2) by simp
  then have "(fdc_tick ^^ n) (self, w) = sw"
    using n assms(3) by (simp add: fdc_tick_def call_isr_def sw_def)
  moreover have "(fdc_tick ^^ j) sw = sw" for j
    by (induction j) (simp_all add: fdc_tick_def sw_def)
  moreover have "(fdc_tick ^^ ((k - n) + n)) (self, w) = (fdc_tick ^^ (k - n)) ((fdc_tick ^^ n) (self, w))"
    by (simp only: funpow_add comp_apply)
  moreover have "(k - n) + n = k" using False by simp
  ultimately show ?thesis using False by (simp add: sw_def)
qed

section \<open>Transfers that do not end\<close>

lemma execute_read_none:
  assumes "idle self" and "fdc_dor self < 0" and "b0 AND 0x1F = 6 \<or> b0 AND 0x1F = 12" and "eot < r"
  shows "\<exists>s. fdc_execute L (receiving [b0, b1, c, h, r, n, eot, gpl, dtl] self, w) = Some (s, w) \<and>
    in_exec s \<and> fdc_exec_pos s = 0 \<and> fdc_exec_len s = 0 \<and> fdc_isr s = fdc_isr self"
proof -
  let ?bs = "[b0, b1, c, h, r, n, eot, gpl, dtl]"
  have st: "\<exists>del. fdc_execute L (receiving ?bs self, w) = fdc_read L del (started ?bs self, w)"
    using dispatch_command(1,2) [OF assms(2), of ?bs L w] assms(3) by auto
  define p where "p = (fdc_get_drive ((clear_status (started ?bs self))\<lparr>fdc_lastidread := 0\<rparr>))\<lparr>fdc_exec_len := 0\<rparr>"
  have p: "fdc_cmd_buf p = ?bs @ drop (length ?bs) (fdc_cmd_buf self)" "fdc_exec_len p = 0" "fdc_isr p = fdc_isr self"
    by (simp_all add: p_def started_def receiving_def fdc_get_drive_def)
  have "[cmd p 4..cmd p 6] = []"
    using assms(4) by (simp add: cmd_def p word_less_def)
  then have "fdc_read L del (started ?bs self, w) =
      Some ((fdc_exec_interrupt (fdc_results_7 p))\<lparr>fdc_mainstat := 0xF0, fdc_exec_pos := 0\<rparr>, w)" for del
    unfolding fdc_read_def prod.case Let_def p_def [symmetric] by simp
  moreover have "in_exec ((fdc_exec_interrupt (fdc_results_7 p))\<lparr>fdc_mainstat := 0xF0, fdc_exec_pos := 0\<rparr>)"
    using assms(3) by (auto simp: in_exec_def is_read_def cmd_def p fdc_exec_interrupt_def fdc_results_7_def uint_and_numeral)
  ultimately show ?thesis
    using st by (auto simp: p fdc_exec_interrupt_def fdc_results_7_def)
qed

text \<open>
  C32: READ DATA with a last sector below the first one never ends.  No sector is read, yet the
  controller enters the execution phase with nothing to transfer: every read of the data register
  lowers the count below zero, the status keeps asking the host for the next byte, and after the
  16384 bytes of the buffer the next read is out of bounds.
\<close>

theorem read_empty_range_never_ends:
  assumes "idle self" and "fdc_isr self = None" and "fdc_dor self < 0"
    and "b0 AND 0x1F = 6 \<or> b0 AND 0x1F = 12" and "eot < r"
  shows "\<exists>s. write_bytes L [b0, b1, c, h, r, n, eot, gpl, dtl] (self, w) = Some (s, w) \<and>
    (\<forall>k. 0 < k \<longrightarrow> k \<le> 16384 \<longrightarrow> (\<exists>bs s'. read_bytes L k (s, w) = Some (bs, s', w) \<and>
       fdc_mainstat s' = 0xF0 \<and> fdc_exec_len s' = - int k)) \<and>
    read_bytes L 16385 (s, w) = None"
proof -
  have len9: "cmd_length b0 = 9"
    using assms(4) by (auto simp: cmd_length_def bytes_in_cmd_def)
  obtain s where s: "fdc_execute L (receiving [b0, b1, c, h, r, n, eot, gpl, dtl] self, w) = Some (s, w)"
    "in_exec s" "fdc_exec_pos s = 0" "fdc_exec_len s = 0" "fdc_isr s = None"
    using execute_read_none [OF assms(1,3,4,5), of L b1 c h n gpl dtl w] assms(2) by auto
  have cmd: "write_bytes L [b0, b1, c, h, r, n, eot, gpl, dtl] (self, w) = Some (s, w)"
    using write_command [OF assms(1), of b0 "[b1, c, h, r, n, eot, gpl, dtl]" L w] s(1) len9 by simp
  have run: "read_bytes L k (s, w) = Some (map (fdc_exec_buf s) [0..<k], exec_at (int k) (- int k) s, w)"
    if "0 < k" "k \<le> 16384" for k
    using read_exec_some [OF s(2,5,3), of k 0 L w] that s(4) by simp
  have st: "in_exec (exec_at i l s)" "fdc_isr (exec_at i l s) = None" for i l
    using s by (simp_all add: in_exec_at) (simp add: exec_at_def)
  have "fdc_read_data L (exec_at 16384 l s, w) = None" for l
    using st [of 16384 l] by (auto simp: fdc_read_data_def fdc_clear_pending_interrupt_def exec_at_def in_exec_def buf_at_def)
  then have "read_bytes L (16384 + 1) (s, w) = None"
    unfolding read_bytes_add run [of 16384, simplified] by simp
  moreover have "fdc_mainstat (exec_at i l s) = 0xF0" "fdc_exec_len (exec_at i l s) = l" for i l
    using s(2) by (simp_all add: exec_at_def in_exec_def)
  ultimately show ?thesis
    using cmd run by (intro exI [of _ s]) auto
qed

lemma read_result_open:
  assumes "fdc_mainstat self = 0xD0" and "quiet self" and "length (fdc_result_buf self) = 20"
  shows "n \<le> 0 \<Longrightarrow> i + k \<le> 20 \<Longrightarrow>
    read_bytes L k (self\<lparr>fdc_result_pos := int i, fdc_result_len := n\<rparr>, w) =
    Some (take k (drop i (fdc_result_buf self)),
      self\<lparr>fdc_result_pos := int i + int k, fdc_result_len := n - int k\<rparr>, w)"
proof (induction k arbitrary: i n)
  case (Suc k)
  let ?s = "self\<lparr>fdc_result_pos := int i, fdc_result_len := n\<rparr>"
  have q: "quiet ?s" using assms(2) by (simp add: quiet_def)
  have b: "byte_at (fdc_result_buf self) (int i) = Some (fdc_result_buf self ! i)"
    using Suc.prems assms(3) by (simp add: byte_at_def)
  have "fdc_read_data L (?s, w) =
      Some (fdc_result_buf self ! i, self\<lparr>fdc_result_pos := int (Suc i), fdc_result_len := n - 1\<rparr>, w)"
    using assms(1) Suc.prems b unfolding fdc_read_data_def quiet_clear [OF q]
    by (simp add: read_result_byte_def add.commute)
  moreover have "take (Suc k) (drop i (fdc_result_buf self)) = fdc_result_buf self ! i # take k (drop (Suc i) (fdc_result_buf self))"
    using Suc.prems assms(3) by (simp add: Cons_nth_drop_Suc [symmetric])
  ultimately show ?case
    using Suc.IH [of "n - 1" "Suc i"] Suc.prems by (simp add: algebra_simps)
qed simp

lemma execute_format_protected:
  assumes "idle self" and "fdc_dor self < 0" and "b0 AND 0x1F = 13"
    and "fd_isready L (fdc_drive self ! unit_of b1) w = Some (rdy, w1)" and "rdy \<noteq> 0"
    and "drive_readonly (fdc_drive self ! unit_of b1) w1 = Some True"
  shows "\<exists>s. fdc_execute L (receiving [b0, b1, n, sc, gpl, fill] self, w) = Some (s, w1) \<and>
    fdc_mainstat s = 0xD0 \<and> fdc_result_pos s = 0 \<and> fdc_result_len s = fdc_result_len self \<and>
    length (fdc_result_buf s) = 20 \<and> fdc_isr s = fdc_isr self"
proof -
  let ?bs = "[b0, b1, n, sc, gpl, fill]"
  have st: "fdc_execute L (receiving ?bs self, w) = fdc_format L (started ?bs self, w)"
    using dispatch_command(10) [OF assms(2), of ?bs L w] assms(3) by simp
  define p where "p = fdc_get_drive ((clear_status (started ?bs self))\<lparr>fdc_lastidread := 0\<rparr>)"
  have p: "cur_drive p = fdc_drive self ! unit_of b1" "fdc_isr p = fdc_isr self"
    "fdc_result_buf p = fdc_result_buf self" "fdc_result_len p = fdc_result_len self"
    by (simp_all add: p_def started_def receiving_def fdc_get_drive_def cmd_def uint_and_numeral
        cur_drive_def unit_of_def)
  have x: "fdc_result_buf (fdc_xlt_error e s) = fdc_result_buf s" "fdc_result_len (fdc_xlt_error e s) = fdc_result_len s"
    "fdc_isr (fdc_xlt_error e s) = fdc_isr s" for e s
    by (auto simp: fdc_xlt_error_def)
  have l20: "length (fdc_result_buf self) = 20"
    using assms(1) by (auto simp: idle_def)
  show ?thesis
    unfolding st fdc_format_def prod.case Let_def p_def [symmetric] p(1)
    using assms(4-6) l20
    by (simp add: buf_zero_def fdc_isready_def fdc_result_interrupt_def fdc_results_7_def x p)
qed

text \<open>
  FORMAT TRACK on a write-protected drive never ends.  The error path prepares the seven result
  bytes but not their number: after a reset every read of the data register lowers the count below
  zero, the result phase is never left, and after the 20 bytes of the buffer the next read is out of
  bounds.
\<close>

theorem format_protected_never_ends:
  assumes "idle self" and "fdc_isr self = None" and "fdc_dor self < 0" and "b0 AND 0x1F = 13"
    and "fdc_result_len self = 0"
    and "fd_isready L (fdc_drive self ! unit_of b1) w = Some (rdy, w1)" and "rdy \<noteq> 0"
    and "drive_readonly (fdc_drive self ! unit_of b1) w1 = Some True"
  shows "\<exists>s. write_bytes L [b0, b1, n, sc, gpl, fill] (self, w) = Some (s, w1) \<and>
    (\<forall>k. 0 < k \<longrightarrow> k \<le> 20 \<longrightarrow> (\<exists>bs s'. read_bytes L k (s, w1) = Some (bs, s', w1) \<and>
       fdc_mainstat s' = 0xD0 \<and> fdc_result_len s' = - int k)) \<and>
    read_bytes L 21 (s, w1) = None"
proof -
  have len6: "cmd_length b0 = 6"
    using assms(4) by (simp add: cmd_length_def bytes_in_cmd_def)
  obtain s where s: "fdc_execute L (receiving [b0, b1, n, sc, gpl, fill] self, w) = Some (s, w1)"
    "fdc_mainstat s = 0xD0" "fdc_result_pos s = 0" "fdc_result_len s = 0" "length (fdc_result_buf s) = 20" "fdc_isr s = None"
    using execute_format_protected [OF assms(1,3,4,6-8), of n sc gpl fill] assms(2,5) by auto
  have cmd: "write_bytes L [b0, b1, n, sc, gpl, fill] (self, w) = Some (s, w1)"
    using write_command [OF assms(1), of b0 "[b1, n, sc, gpl, fill]" L w] s(1) len6 by simp
  define t where "t = (if quiet s then s else s\<lparr>fdc_isr_countdown := 0, fdc_interrupting := 0\<rparr>)"
  have t: "fdc_clear_pending_interrupt (s, w1) = (t, w1)" "fdc_mainstat t = 0xD0" "quiet t"
    "length (fdc_result_buf t) = 20" "fdc_isr t = None" "t\<lparr>fdc_result_pos := 0, fdc_result_len := 0\<rparr> = t"
    using s by (auto simp: t_def fdc_clear_pending_interrupt_def call_isr_def quiet_def)
  have run: "read_bytes L k (s, w1) = Some (take k (fdc_result_buf t),
      t\<lparr>fdc_result_pos := int k, fdc_result_len := - int k\<rparr>, w1)" if "0 < k" "k \<le> 20" for k
    using read_result_open [OF t(2-4), of 0 0 k L w1] that t(6) read_bytes_clear [OF that(1), of L "(s, w1)"] t(1) by simp
  have "quiet (t\<lparr>fdc_result_pos := 20, fdc_result_len := -20\<rparr>)" using t(3) by (simp add: quiet_def)
  then have "fdc_read_data L (t\<lparr>fdc_result_pos := 20, fdc_result_len := -20\<rparr>, w1) = None"
    using t(2,4) by (simp add: fdc_read_data_def quiet_clear read_result_byte_def byte_at_def)
  then have "read_bytes L (20 + 1) (s, w1) = None"
    unfolding read_bytes_add run [of 20, simplified] by simp
  then show ?thesis
    using cmd run t(2) by (intro exI [of _ s]) auto
qed

section \<open>The digital output register\<close>

text \<open>
  The digital output register selects one drive.  When it is in use, all four units of the
  controller are the drive that its two lowest bits name.
\<close>

theorem dor_selects_one_drive:
  assumes "length (fdc_drive self) = 4" and "0 \<le> fdc_dor self" and "u < 4"
  shows "fdc_dor_drive (fdc_dorcheck self) ! u = fdc_drive self ! nat (fdc_dor self mod 4)"
proof -
  have "fdc_dor self AND 3 = fdc_dor self mod 4"
    using take_bit_eq_mask [of 2 "fdc_dor self"] by (simp add: take_bit_eq_mod mask_eq_exp_minus_1)
  then show ?thesis using assms by (simp add: fdc_dorcheck_def)
qed

end
