(* ===== verification/FDD_Props.thy ===== *)
theory FDD_Props
  imports FDD_Methods
begin

text \<open>
  What the drives promise: a sector written to a \<^verbatim>\<open>.DSK\<close> image is read back, a PCW9256 dummy
  drive passes its two methods on, and the errors and the status of libdsk are translated as the
  controller expects them.
\<close>

unbundle bit_operations_syntax

section \<open>Files\<close>

lemma overwrite_keeps: "a + n \<le> length old \<Longrightarrow> a + n \<le> pos \<Longrightarrow>
   take n (drop a (overwrite old pos xs)) = take n (drop a old)"
  by (rule nth_equalityI) (auto simp: overwrite_def nth_append)

lemma take_drop_full: "length (take n (drop a xs)) = n \<Longrightarrow> n = 0 \<or> a + n \<le> length xs"
  by auto

section \<open>Sectors of an image\<close>

text \<open>What a successful search for a sector has done.\<close>

lemma load_track_headerE:
  assumes "fdd_load_track_header fd k head fs = Some (0, k')" and "fdd_fp k = Some fp"
    and "length (fdd_track_header k) = 256"
  obtains track hdr where "fdd_lookup_track fd k (fd_cylinder fd) head = Some track" "0 \<le> track"
    "take 256 (drop (nat track) (file_bytes (fp_name fp) fs)) = hdr" "length hdr = 256" "take 10 hdr = Track_Info"
    "k' = k\<lparr>fdd_fp := Some (fp\<lparr>fp_pos := nat track + 256\<rparr>), fdd_track_header := hdr\<rparr>"
proof -
  obtain track where t: "fdd_lookup_track fd k (fd_cylinder fd) head = Some track" "0 \<le> track"
    using assms(1) by (auto simp: fdd_load_track_header_def Option.bind_eq_Some_conv split: if_splits)
  define hdr where "hdr = take 256 (drop (nat track) (file_bytes (fp_name fp) fs))"
  have l: "length hdr = 256" "k' = k\<lparr>fdd_fp := Some (fp\<lparr>fp_pos := nat track + length hdr\<rparr>),
      fdd_track_header := hdr @ drop (length hdr) (fdd_track_header k)\<rparr>"
    "take 10 (hdr @ drop (length hdr) (fdd_track_header k)) = Track_Info"
    using assms(1,2) t
    by (auto simp: fdd_load_track_header_def fread_def fseek_set_def Let_def hdr_def [symmetric]
        split: if_splits) (simp_all add: hdr_def)
  show ?thesis
    using that [of track hdr] t l assms(3) by (simp add: hdr_def)
qed

lemma load_track_headerI:
  assumes "fdd_lookup_track fd k (fd_cylinder fd) head = Some track" "0 \<le> track" "fdd_fp k = Some fp"
    and "take 256 (drop (nat track) (file_bytes (fp_name fp) fs)) = hdr" "length hdr = 256" "take 10 hdr = Track_Info"
    and "length (fdd_track_header k) = 256"
  shows "fdd_load_track_header fd k head fs =
    Some (0, k\<lparr>fdd_fp := Some (fp\<lparr>fp_pos := nat track + 256\<rparr>), fdd_track_header := hdr\<rparr>)"
proof -
  have "256 \<le> length (file_bytes (fp_name fp) fs) - nat track"
    using assms(4,5) by auto
  then show ?thesis
    using assms by (simp add: fdd_load_track_header_def fread_def fseek_set_def Let_def min_absorb2)
qed

lemma seekto_sectorE:
  assumes "fdd_seekto_sector fd k xc xh head sector len fs = Some (0, len, k')"
  obtains k1 fp offs secid where "fdd_load_track_header fd k head fs = Some (0, k1)"
    "fdd_sector_offset k1 sector = Some (offs, len, secid)" "0 \<le> offs" "fdd_fp k1 = Some fp"
    "k' = k1\<lparr>fdd_fp := Some (fseek_set (offs + int (fp_pos fp)) fp)\<rparr>"
proof -
  obtain n k1 where n: "fdd_load_track_header fd k head fs = Some (n, k1)" "\<not> n < 0"
    using assms by (auto simp: fdd_seekto_sector_def Option.bind_eq_Some_conv split: if_splits)
  then have "n = 0"
    by (auto simp: fdd_load_track_header_def Option.bind_eq_Some_conv Let_def case_prod_unfold split: if_splits)
  with n have l: "fdd_load_track_header fd k head fs = Some (0, k1)" by simp
  then obtain offs seclen secid where o: "fdd_sector_offset k1 sector = Some (offs, seclen, secid)"
    using assms by (auto simp: fdd_seekto_sector_def Option.bind_eq_Some_conv)
  with l assms obtain fp where "fdd_fp k1 = Some fp" "0 \<le> offs" "seclen = len"
      "k' = k1\<lparr>fdd_fp := Some (fseek_set (offs + int (fp_pos fp)) fp)\<rparr>"
    by (auto simp: fdd_seekto_sector_def Option.bind_eq_Some_conv split: if_splits)
  then show ?thesis using that l o by blast
qed


text \<open>The lookup does not depend on the file, the stream position or the loaded track header.\<close>

lemma lookup_track_cong:
  assumes "fdd_disk_header k' = fdd_disk_header k" and "fdd_fp k' = None \<longleftrightarrow> fdd_fp k = None"
  shows "fdd_lookup_track (with_dsk fd k'') k' c h = fdd_lookup_track fd k c h"
  unfolding fdd_lookup_track_def is_extended_def assms by simp

lemma sector_offset_cong:
  "fdd_disk_header k' = fdd_disk_header k \<Longrightarrow> fdd_track_header k' = fdd_track_header k \<Longrightarrow>
   fdd_sector_offset k' s = fdd_sector_offset k s"
  by (simp add: fdd_sector_offset_def is_extended_def)

lemma unset_deleted: "x AND 0x40 = 0 \<Longrightarrow> x AND NOT 0x40 = (x :: u8)"
  by (metis and.right_neutral bit.conj_disj_distrib bit.disj_cancel_right or.left_neutral)

text \<open>
  C26: a sector written to a \<^verbatim>\<open>.DSK\<close> image is read back.  On a writable image in which the search
  finds the sector with the length asked for and without the deleted mark, the write succeeds, and a
  read of the same sector afterwards succeeds and returns exactly the bytes written.
\<close>

theorem dsk_write_then_read:
  assumes "as_dsk fd = Some k" and "fdd_fp k = Some fp" and "fp_update fp" and "files w (fp_name fp) = Some e"
    and "fd_readonly fd = 0" and "length (fdd_track_header k) = 256"
    and found: "fdd_seekto_sector fd k xcyl xhead head sector len (files w) = Some (0, len, k1)"
    and "sector_head k1 sector = Some (Some sh)" and "byte_at (fdd_track_header k1) (sh + 5) = Some st2"
    and "st2 AND 0x40 = 0" and "buf_bytes buf len = Some xs"
  shows "\<exists>fd' w'. fdd_write_sector fd xcyl xhead head sector buf len 0 w = Some (0, fd', w') \<and>
    (\<exists>fd''. fdd_read_sector fd' xcyl xhead head sector len (Some 0) skip_deleted w' = Some ((0, xs, Some 0), fd'', w'))"
proof -
  obtain k0 fp0 offs secid where k0: "fdd_load_track_header fd k head (files w) = Some (0, k0)"
    "fdd_sector_offset k0 sector = Some (offs, len, secid)" "0 \<le> offs" "fdd_fp k0 = Some fp0"
    "k1 = k0\<lparr>fdd_fp := Some (fseek_set (offs + int (fp_pos fp0)) fp0)\<rparr>"
    using seekto_sectorE [OF found] .
  obtain track hdr where t: "fdd_lookup_track fd k (fd_cylinder fd) head = Some track" "0 \<le> track"
    "take 256 (drop (nat track) (f_bytes e)) = hdr" "length hdr = 256" "take 10 hdr = Track_Info"
    "k0 = k\<lparr>fdd_fp := Some (fp\<lparr>fp_pos := nat track + 256\<rparr>), fdd_track_header := hdr\<rparr>"
    using load_track_headerE [OF k0(1) assms(2,6)] assms(4) by (auto simp: file_bytes_def)
  define pos where "pos = nat track + 256 + nat offs"
  have k1: "k1 = k\<lparr>fdd_fp := Some (fp\<lparr>fp_pos := pos\<rparr>), fdd_track_header := hdr\<rparr>"
    using k0 t(6) by (auto simp: fseek_set_def pos_def nat_add_distrib add.commute)
  have len: "0 \<le> len" "length xs = nat len"
    using assms(11) by (auto simp: buf_bytes_def split: if_splits)
  define bytes where "bytes = overwrite (f_bytes e) pos xs"
  define w' where "w' = w\<lparr>files := (files w)(fp_name fp \<mapsto> e\<lparr>f_bytes := bytes\<rparr>)\<rparr>"
  define k2 where "k2 = k\<lparr>fdd_fp := Some (fp\<lparr>fp_pos := pos + nat len\<rparr>), fdd_track_header := hdr, fdd_dirty := 1\<rparr>"
  have upd: "set_byte hdr (sh + 5) st2 = Some hdr"
    using assms(9) k1 by (auto simp: byte_at_def set_byte_def split: if_splits)
  have wr: "fdd_write_sector fd xcyl xhead head sector buf len 0 w = Some (0, with_dsk fd k2, w')"
    unfolding fdd_write_sector_def using assms(1,3-5,8-9,11) found len unset_deleted [OF assms(10)] upd
    by (simp add: k1 fwrite_def Let_def k2_def w'_def bytes_def)
  have hdr': "take 256 (drop (nat track) bytes) = hdr"
    using t(3,4) unfolding bytes_def by (subst overwrite_keeps) (auto simp: pos_def)
  have load: "fdd_load_track_header (with_dsk fd k2) k2 head (files w') =
      Some (0, k2\<lparr>fdd_fp := Some (fp\<lparr>fp_pos := nat track + 256\<rparr>), fdd_track_header := hdr\<rparr>)"
    using t hdr' lookup_track_cong [where k' = k2 and k = k and fd = fd and k'' = k2] assms(2)
    by (subst load_track_headerI [where track = track and fp = "fp\<lparr>fp_pos := pos + nat len\<rparr>" and hdr = hdr])
      (auto simp: k2_def w'_def file_bytes_def)
  define k3 where "k3 = k2\<lparr>fdd_fp := Some (fp\<lparr>fp_pos := pos\<rparr>)\<rparr>"
  have chk: "\<exists>c h. byte_at hdr secid = Some c \<and> byte_at hdr (secid + 1) = Some h \<and> xcyl = uint c \<and> xhead = uint h"
    using found k0(1-3) t(6)
    by (auto simp: fdd_seekto_sector_def Option.bind_eq_Some_conv split: if_splits)
  have off: "fdd_sector_offset (k2\<lparr>fdd_fp := f, fdd_track_header := hdr\<rparr>) sector = Some (offs, len, secid)" for f
    using k0(2) sector_offset_cong [of "k2\<lparr>fdd_fp := f, fdd_track_header := hdr\<rparr>" k0 sector] t(6) by (simp add: k2_def)
  have seek: "fdd_seekto_sector (with_dsk fd k2) k2 xcyl xhead head sector len (files w') = Some (0, len, k3)"
    unfolding fdd_seekto_sector_def load using off chk k0(3)
    by (auto simp: k3_def k2_def fseek_set_def pos_def nat_add_distrib add.commute)
  have head: "sector_head k3 sector = Some (Some sh)"
    using assms(8) by (simp add: sector_head_def k3_def k2_def k1)
  have st2: "byte_at (fdd_track_header k3) (sh + 5) = Some st2"
    using assms(9) by (simp add: k3_def k2_def k1)
  have data: "fread (nat len) (fp\<lparr>fp_pos := pos\<rparr>) (files w') = (xs, fp\<lparr>fp_pos := pos + nat len\<rparr>)"
    using len(2) overwrite_same [of xs pos "f_bytes e"] by (simp add: fread_def file_bytes_def w'_def bytes_def Let_def)
  have "fdd_read_sector (with_dsk fd k2) xcyl xhead head sector len (Some 0) skip_deleted w' =
      Some ((0, xs, Some 0), with_dsk fd (k3\<lparr>fdd_fp := Some (fp\<lparr>fp_pos := pos + nat len\<rparr>)\<rparr>), w')"
    using head st2 assms(10) data len
    by (simp add: fdd_read_sector_def as_dsk_def fdd_read_loop.simps seek) (simp add: k3_def)
  with wr show ?thesis by blast
qed

section \<open>Sector sizes\<close>

lemma psh_loop_shift: "psh_loop (128 * 2 ^ k) p = p + of_nat k"
proof (induction k arbitrary: p)
  case 0
  show ?case by (subst psh_loop.simps) simp
next
  case (Suc k)
  have "(1 :: int) < 2 * 2 ^ k"
    using one_le_power [of "2 :: int" k] by linarith
  then have "psh_loop (128 * 2 ^ Suc k) p = psh_loop (128 * 2 ^ k) (p + 1)"
    by (subst psh_loop.simps) (simp add: mult.commute mult.left_commute)
  then show ?case using Suc [of "p + 1"] by (simp add: add.assoc)
qed

text \<open>
  \<^verbatim>\<open>dsk_get_psh\<close> inverts the shift: a sector of \<open>128 << n\<close> bytes has the size code \<open>n\<close>.
\<close>

lemma sector_size_roundtrip: "shl128 n = Some len \<Longrightarrow> dsk_get_psh len = n"
  by (auto simp: shl128_def dsk_get_psh_def psh_loop_shift split: if_splits)

lemma sector_size_roundtrip_witness: "dsk_get_psh 512 = 2"
  by (rule sector_size_roundtrip) (simp add: shl128_def)

section \<open>Formatting an extended image\<close>

text \<open>
  C33: a track formatted in an extended image cannot be read back.  The track header that FORMAT TRACK
  builds for one sector of 512 bytes has the length of the sector in a place where the search for a
  sector does not look: the search finds the sector with a length of 2 bytes.
\<close>

theorem ext_format_loses_length:
  assumes "format_track_header True cylinder head 1 track filler = Some th" and "track 3 = 2"
  shows "sector_offset_loop 1 True th (uint (track 2)) 0 seclen 0x18 = Some (0, 2, 0x18)"
proof -
  have "th = (Track_Info @ [0x0D, 0x0A] @ replicate 244 0)[0x10 := word_of_int cylinder, 0x11 := word_of_int head,
      0x14 := 2, 0x15 := 1, 0x16 := track 2, 0x17 := filler, 0x18 := track 0, 0x19 := track 1, 0x1A := track 2,
      0x1B := 2, 0x1E := 0, 0x1F := 2]"
    using assms by (simp add: format_track_header_def buf_at_def shl128_def set_byte_def Track_Info_def)
  then show ?thesis
    by (simp add: byte_at_def Track_Info_def nth_append nth_list_update)
qed

end
