(* ===== verification/FDC_Bench.thy ===== *)
theory FDC_Bench
  imports FDC_Props FDD_Props
begin

text \<open>
  A test bench for the theorems on the floppy disc controller and its drives: a controller with one
  drive, a small libdsk, and a small \<^verbatim>\<open>.DSK\<close> image, on which the hypotheses of the theorems hold.
\<close>
unbundle bit_operations_syntax

section \<open>A controller with one drive\<close>

text \<open>
  Concrete values on which the theorems apply: the controller after \<^term>\<open>fdc_new\<close> with one drive,
  whose image libdsk has open, and a libdsk whose discs hold the byte \<open>0x2A\<close> in every sector.
\<close>

definition bench_fdc :: fdc_765 where
  "bench_fdc = \<lparr>fdc_interrupting = 0, fdc_specify0 = 0, fdc_specify1 = 0, fdc_lastidread = 0,
     fdc_write_deleted = 0, fdc_cmd_id = -1, fdc_cmd_len = 0, fdc_cmd_pos = 0, fdc_cmd_buf = replicate 20 0,
     fdc_exec_buf = (\<lambda>_. 0), fdc_exec_len = 0, fdc_exec_pos = 0, fdc_result_buf = replicate 20 0,
     fdc_result_len = 0, fdc_result_pos = 0, fdc_terminal_count = 0, fdc_isr_countdown = 0, fdc_dor = -1,
     fdc_dor_drive = replicate 4 None, fdc_st0 = 0, fdc_st1 = 0, fdc_st2 = 0, fdc_st3 = 0,
     fdc_mainstat = 0x80, fdc_curunit = 0, fdc_curhead = 0, fdc_isr = None,
     fdc_drive = [Some 7, None, None, None]\<rparr>"

definition bench_geometry :: DSK_GEOMETRY where
  "bench_geometry = \<lparr>dg_sidedness = SIDES_ALT, dg_cylinders = 40, dg_heads = 1, dg_sectors = 9, dg_secbase = 0xC1,
     dg_secsize = 512, dg_datarate = RATE_SD, dg_rwgap = 0x2A, dg_fmtgap = 0x52, dg_fm = 0, dg_nomulti = 0, dg_noskip = 0\<rparr>"

definition bench_lib :: "unit libdsk" where
  "bench_lib = \<lparr>dsk_open = (\<lambda>name t c s. (0, Some 0, s)), dsk_creat = (\<lambda>name t c s. (0, Some 0, s)),
     dsk_close = (\<lambda>p s. s), dsk_dirty = (\<lambda>p s. 0), dsk_getgeom = (\<lambda>p g s. (0, g, s)),
     dsk_drive_status = (\<lambda>p g h s. (0, 0x20, s)), dsk_pseek = (\<lambda>p g c h s. (0, s)),
     dsk_psecid = (\<lambda>p g c h s. (0, \<lparr>fmt_cylinder = c, fmt_head = h, fmt_sector = 0xC1, fmt_secsize = 512\<rparr>, s)),
     dsk_xread = (\<lambda>p g c h xc xh r n del s. (0, map (\<lambda>_. 0x2A) [0..<nat n], del, s)),
     dsk_pread = (\<lambda>p g c h r s. (0, [0x2A], s)), dsk_xtread = (\<lambda>p g c h xc xh s. (0, [0x2A], s)),
     dsk_xwrite = (\<lambda>p g buf c h xc xh r n del s. (0, s)), dsk_pwrite = (\<lambda>p g buf c h r s. (0, s)),
     dsk_pformat = (\<lambda>p g c h fs filler s. (0, g, s))\<rparr>"

definition bench_drive :: "int \<Rightarrow> int \<Rightarrow> floppy_drive" where
  "bench_drive ro cyl = \<lparr>fd_vtable = fdv_libdsk, fd_type = FD_30, fd_heads = 1, fd_cylinders = 43, fd_readonly = ro,
     fd_changed = 0, fd_motor = 1, fd_cylinder = cyl,
     fd_sub = Libdsk_sub \<lparr>fdl_filename = ''a.dsk'', fdl_type = None, fdl_compress = None, fdl_diskp = Some 0,
       fdl_diskg = bench_geometry\<rparr>\<rparr>"

definition bench_world :: "int \<Rightarrow> int \<Rightarrow> unit world" where
  "bench_world ro cyl = \<lparr>drives = [7 \<mapsto> bench_drive ro cyl], files = (\<lambda>name. None), lib = (), isr_calls = []\<rparr>"

lemma bench_idle: "idle bench_fdc" "fdc_isr bench_fdc = None" "fdc_dor bench_fdc < 0" "fdc_result_len bench_fdc = 0"
  "fdc_drive bench_fdc ! unit_of 0 = Some 7"
  by (simp_all add: idle_def quiet_def bench_fdc_def unit_of_def)

lemma bench_ready: "fd_isready bench_lib (Some 7) (bench_world ro cyl) = Some (1, bench_world ro cyl)"
  by (simp add: fd_isready_def on_drive_def get_drive_def put_drive_def vt_isready_def fdl_isready_def as_libdsk_def
      bench_world_def bench_drive_def fun_upd_idem)

theorem read_data_dialogue_witness:
  "\<exists>self' w. do {
     sw \<leftarrow> write_bytes bench_lib [0x46, 0, 0, 0, 0xC1, 0, 0xC1, 0, 1] (bench_fdc, bench_world 0 0);
     (ys, sw) \<leftarrow> read_bytes bench_lib 1 sw;
     (zs, sw) \<leftarrow> read_bytes bench_lib 7 sw;
     Some (ys, zs, sw)} = Some ([0x2A], [0, 0, 0, 0, 0, 0xC2, 0], self', w)"
proof -
  obtain w2 where r: "fd_read_sector bench_lib (fdc_drive bench_fdc ! unit_of 0) (uint (0 :: u8)) (uint (0 :: u8)) (head_of 0)
      (uint (0xC1 :: u8)) (sector_len 0 1) (Some 0) (uint (0x46 AND 0x20 :: u8)) (uint (0x46 AND 0x40 :: u8))
      (uint (0x46 AND 0x80 :: u8)) (bench_world 0 0) = Some ((0, [0x2A], Some 0), w2)"
    by (simp add: bench_idle fd_read_sector_def vtable_of_def on_drive_def get_drive_def fdl_read_sector_def as_libdsk_def
        bench_world_def bench_drive_def bench_lib_def fdl_flags_def sector_len_def upt_rec fdl_xlt_error_def)
  show ?thesis
    using read_data_dialogue [of bench_fdc "0x46" 0 0 1 "[0x2A]" bench_lib 0 "bench_world 0 0" 1 "bench_world 0 0" 0 0 "0xC1" w2 0]
      r by (auto simp: bench_idle bench_ready sector_len_def)
qed


lemma bench_write:
  "\<exists>w2. \<forall>buf n. fd_write_sector bench_lib (Some 7) c xh hh r buf n 0 0 mfm 0 (bench_world 0 0) = Some (0, w2)"
  by (simp add: fd_write_sector_def vtable_of_def on_drive_def get_drive_def fdl_write_sector_def as_libdsk_def
      bench_world_def bench_drive_def bench_lib_def fdl_flags_def fdl_xlt_error_def)

theorem write_data_dialogue_witness:
  "\<exists>self' w. do {
     sw \<leftarrow> write_bytes bench_lib ([0x45, 0, 0, 0, 0xC1, 0, 0xC1, 0, 2] @ [7, 8]) (bench_fdc, bench_world 0 0);
     (zs, sw) \<leftarrow> read_bytes bench_lib 7 sw;
     Some (zs, sw)} = Some ([0, 0, 0, 0, 0, 0xC1, 0], self', w)"
proof -
  obtain w2 where w: "\<And>buf. fd_write_sector bench_lib (Some 7) 0 0 0 0xC1 buf 2 0 0 0x40 0 (bench_world 0 0) = Some (0, w2)"
    using bench_write by blast
  have "drive_readonly (Some 7) (bench_world 0 0) = Some False"
    by (simp add: drive_readonly_def get_drive_def bench_world_def bench_drive_def)
  then show ?thesis
    using write_data_dialogue [of bench_fdc "0x45" 0 0 2 "[7, 8]" bench_lib 0 "bench_world 0 0" 1 "bench_world 0 0" 0 0 "0xC1" w2 "0xC1" 0]
      w by (auto simp: bench_idle bench_ready head_of_def sector_len_def)
qed

theorem invalid_command_dialogue_witness:
  "\<exists>self'. do {
      sw \<leftarrow> fdc_write_data bench_lib 0x1F (bench_fdc, bench_world 0 0);
      fdc_read_data bench_lib sw} = Some (0x80, self', bench_world 0 0) \<and> idle self'"
  using invalid_command_dialogue [OF bench_idle(1,2), of "0x1F" bench_lib "bench_world 0 0"]
  by (simp add: invalid_opcode_def bench_fdc_def)

theorem seek_dialogue_witness:
  "\<exists>self' w. do {
      sw \<leftarrow> write_bytes bench_lib [0x0F, 0, 5] (bench_fdc, bench_world 0 0);
      sw \<leftarrow> fdc_write_data bench_lib 8 sw;
      read_bytes bench_lib 2 sw} = Some ([0x20, 5], self', w)"
proof -
  define w2 where "w2 = put_drive 7 (bench_drive 0 5) (bench_world 0 0)"
  have s: "fd_seek_cylinder bench_lib (Some 7) 5 (bench_world 0 0) = Some (0, w2)"
    by (subst fd_seek_cylinder.simps) (simp add: vtable_of_def on_drive_def get_drive_def fdl_seek_cylinder_def as_libdsk_def
      bench_world_def bench_drive_def bench_lib_def w2_def put_drive_def)
  have d: "get_drive 7 w2 = Some (bench_drive 0 5)" "fd_cylinder (bench_drive 0 5) = 5"
    by (simp_all add: w2_def get_drive_def put_drive_def) (simp add: bench_drive_def)
  show ?thesis
    using seek_dialogue [OF bench_idle(1-3), of "0x0F" 8 0 7 bench_lib "bench_world 0 0" 1 "bench_world 0 0" 5 w2 "bench_drive 0 5"]
      s d by (auto simp: bench_idle bench_ready)
qed

theorem tick_interrupts_once_witness:
  "(fdc_tick ^^ 5) (bench_fdc\<lparr>fdc_isr_countdown := 2, fdc_isr := Some 9\<rparr>, bench_world 0 0) =
    (bench_fdc\<lparr>fdc_isr_countdown := 0, fdc_isr := Some 9\<rparr>, (bench_world 0 0)\<lparr>isr_calls := [(9, 1)]\<rparr>)"
  using tick_interrupts_once [of 2 "bench_fdc\<lparr>fdc_isr_countdown := 2, fdc_isr := Some 9\<rparr>" 9 5 "bench_world 0 0"]
  by (simp add: bench_world_def)

theorem read_empty_range_never_ends_witness:
  "\<exists>s. write_bytes bench_lib [0x46, 0, 0, 0, 9, 2, 8, 0, 0xFF] (bench_fdc, bench_world 0 0) = Some (s, bench_world 0 0) \<and>
    read_bytes bench_lib 16385 (s, bench_world 0 0) = None"
  using read_empty_range_never_ends [OF bench_idle(1-3), of "0x46" 8 9 bench_lib 0 0 0 2 0 "0xFF" "bench_world 0 0"] by auto

theorem format_protected_never_ends_witness:
  "\<exists>s. write_bytes bench_lib [0x4D, 0, 2, 9, 0x52, 0xE5] (bench_fdc, bench_world 1 0) = Some (s, bench_world 1 0) \<and>
    read_bytes bench_lib 21 (s, bench_world 1 0) = None"
proof -
  have "drive_readonly (Some 7) (bench_world 1 0) = Some True"
    by (simp add: drive_readonly_def get_drive_def bench_world_def bench_drive_def)
  then show ?thesis
    using format_protected_never_ends [OF bench_idle(1-3), of "0x4D" bench_lib 0 "bench_world 1 0" 1 "bench_world 1 0" 2 9 "0x52" "0xE5"]
    by (auto simp: bench_idle bench_ready)
qed

theorem dor_selects_one_drive_witness:
  "fdc_dor_drive (fdc_dorcheck (bench_fdc\<lparr>fdc_dor := 0x1C\<rparr>)) ! 3 = Some 7"
  using dor_selects_one_drive [of "bench_fdc\<lparr>fdc_dor := 0x1C\<rparr>" 3] by (simp add: bench_fdc_def)

section \<open>A drive with an image of one sector\<close>

definition bench_track :: "u8 list" where
  "bench_track = (Track_Info @ replicate 246 0)[0x15 := 1, 0x1A := 1]"

definition bench_disk :: "u8 list" where
  "bench_disk = (MV_CPC @ replicate 248 0)[0x31 := 1, 0x33 := 2]"

definition bench_file :: FILE where
  "bench_file = \<lparr>fp_name = ''a.dsk'', fp_pos = 0, fp_update = True\<rparr>"

definition bench_part :: dsk_part where
  "bench_part = \<lparr>fdd_filename = ''a.dsk'', fdd_fp = Some bench_file, fdd_disk_header = bench_disk,
     fdd_track_header = replicate 256 0, fdd_dirty = 0\<rparr>"

definition bench_dsk :: floppy_drive where
  "bench_dsk = \<lparr>fd_vtable = fdv_dsk, fd_type = FD_30, fd_heads = 1, fd_cylinders = 43, fd_readonly = 0,
     fd_changed = 0, fd_motor = 1, fd_cylinder = 0, fd_sub = Dsk_sub bench_part\<rparr>"

definition bench_files :: "unit world" where
  "bench_files = \<lparr>drives = (\<lambda>p. None), files = [''a.dsk'' \<mapsto> \<lparr>f_bytes = bench_disk @ bench_track, f_writable = True\<rparr>],
     lib = (), isr_calls = []\<rparr>"

lemma bench_lengths: "length bench_disk = 256" "length bench_track = 256" "take 10 bench_track = Track_Info"
  "take 8 bench_disk = MV_CPC"
  by (simp_all add: bench_disk_def bench_track_def MV_CPC_def Track_Info_def take_update_swap)

lemma bench_bytes:
  "bench_track ! 0x14 = 0" "bench_track ! 0x15 = 1" "bench_track ! 0x18 = 0" "bench_track ! 0x19 = 0"
  "bench_track ! 0x1A = 1" "bench_track ! 0x1D = 0"
  "bench_disk ! 0x30 = 0" "bench_disk ! 0x31 = 1" "bench_disk ! 0x32 = 0" "bench_disk ! 0x33 = 2"
  by (simp_all add: bench_disk_def bench_track_def MV_CPC_def Track_Info_def)

lemma bench_seek:
  "\<exists>k1. fdd_seekto_sector bench_dsk bench_part 0 0 0 1 128 (files bench_files) = Some (0, 128, k1) \<and>
    fdd_track_header k1 = bench_track"
proof -
  have "\<not> is_extended bench_part"
    by (simp add: is_extended_def bench_part_def bench_lengths MV_CPC_def EXTENDED_def)
  moreover have "fdd_disk_header bench_part = bench_disk" "fdd_fp bench_part = Some bench_file"
    "drop 256 (fdd_track_header bench_part) = []"
    by (simp_all add: bench_part_def)
  ultimately show ?thesis
    by (simp add: fdd_seekto_sector_def fdd_load_track_header_def fdd_lookup_track_def is_extended_def bench_dsk_def
        byte_at_def bench_lengths bench_bytes fread_def file_bytes_def bench_files_def bench_file_def fseek_set_def
        fdd_sector_offset_def shl128_def)
qed

theorem dsk_write_then_read_witness:
  "\<exists>fd' w'. fdd_write_sector bench_dsk 0 0 0 1 (\<lambda>i. 7) 128 0 bench_files = Some (0, fd', w') \<and>
    (\<exists>fd''. fdd_read_sector fd' 0 0 0 1 128 (Some 0) 0 w' = Some ((0, replicate 128 7, Some 0), fd'', w'))"
proof -
  obtain k1 where k1: "fdd_seekto_sector bench_dsk bench_part 0 0 0 1 128 (files bench_files) = Some (0, 128, k1)"
    "fdd_track_header k1 = bench_track"
    using bench_seek by blast
  have "sector_head k1 1 = Some (Some 0x18)" "byte_at (fdd_track_header k1) (0x18 + 5) = Some 0"
    by (simp_all add: sector_head_def k1(2) byte_at_def bench_lengths bench_bytes)
  moreover have "buf_bytes (\<lambda>i. 7) 128 = Some (replicate 128 7)"
    by (simp add: buf_bytes_def map_replicate_const)
  ultimately show ?thesis
    using dsk_write_then_read [of bench_dsk bench_part bench_file bench_files _ 0 0 0 1 128 k1 "0x18" 0 "\<lambda>i. 7" "replicate 128 7" 0]
      k1(1) by (simp add: as_dsk_def bench_dsk_def bench_part_def bench_file_def bench_files_def)
qed

theorem ext_format_loses_length_witness:
  "\<exists>th. format_track_header True 3 0 1 ((\<lambda>i. 0)(2 := 0xC1, 3 := 2)) 0xE5 = Some th \<and>
    sector_offset_loop 1 True th 0xC1 0 512 0x18 = Some (0, 2, 0x18)"
proof -
  obtain th where th: "format_track_header True 3 0 1 ((\<lambda>i. 0)(2 := 0xC1, 3 := 2)) 0xE5 = Some th"
    by (simp add: format_track_header_def buf_at_def shl128_def set_byte_def Track_Info_def)
  then show ?thesis using ext_format_loses_length [OF th, of 512] by simp
qed

end
