(* ===== verification/Device_Props.thy ===== *)
theory Device_Props
  imports CPC_Bench FDC_Bench
begin

text \<open>
  What the devices of the board do over time and at their registers: the interrupts of the gate
  array, the raster of the CRT controller, the tone generators and registers of the sound generator,
  and the bit command of the parallel interface.
\<close>

unbundle bit_operations_syntax

section \<open>The interrupts of the gate array\<close>

text \<open>
  The contract: an interrupt is one step \<open>f\<close> of the machine around the gate array and does not touch
  the gate array.  \<open>vga_line\<close> is one line: the horizontal signal rises and falls.
\<close>

definition vga_line :: "'b vga_iface \<Rightarrow> vga_state \<times> 'b \<Rightarrow> vga_state \<times> 'b" where
  "vga_line V sb = assert_hsync V 0 (assert_hsync V 1 sb)"

lemma div_mod_carry: "(k mod 52 + 1) div 52 + k div 52 = (k + 1) div (52 :: nat)"
  using div_add1_eq [of k 1 52] by simp

lemma hsync_rising_counters: "r52 (hsync_rising s) = r52 s" "r02 (hsync_rising s) = r02 s"
  by (simp_all add: hsync_rising_def Let_def)

locale vga_interrupts =
  fixes V :: "'b vga_iface" and f :: "'b \<Rightarrow> 'b"
  assumes raise: "snd (cb_raise_int V x (s, b)) = (s, f b)"
begin

lemma count_line_raise:
  "count_line V (s, b) = (if r52 s + 1 = 52 then (s\<lparr>r52 := 0\<rparr>, f b) else (s\<lparr>r52 := r52 s + 1\<rparr>, b))"
  by (simp add: count_line_def Let_def raise)

lemma realign_raise:
  "realign V (s, b) = (if r02 s = 1 then (s\<lparr>r02 := 0, r52 := 0\<rparr>, if 32 \<le> r52 s then f b else b)
     else if r02 s \<noteq> 0 then (s\<lparr>r02 := r02 s - 1\<rparr>, b) else (s, b))"
  by (auto simp: realign_def Let_def raise)

lemma line_counts:
  assumes "r02 (fst sb) = 0" and "r52 (fst sb) < 52"
  defines "n \<equiv> unat (r52 (fst sb)) + 1"
  shows "r02 (fst (vga_line V sb)) = 0" and "unat (r52 (fst (vga_line V sb))) = n mod 52"
    and "snd (vga_line V sb) = (f ^^ (n div 52)) (snd sb)"
proof -
  obtain s b where sb: "sb = (s, b)" by (cases sb)
  have n: "n \<le> 52" "unat (r52 s + 1) = n" "r52 s + 1 = 52 \<longleftrightarrow> n = 52"
    using assms by (auto simp: sb word_less_nat_alt unat_word_ariths word_unat_eq_iff)
  show "r02 (fst (vga_line V sb)) = 0" "unat (r52 (fst (vga_line V sb))) = n mod 52"
    "snd (vga_line V sb) = (f ^^ (n div 52)) (snd sb)"
    using assms(1) n
    by (auto simp: sb vga_line_def assert_hsync_def hsync_falling_def hsync_rising_counters count_line_raise realign_raise)
qed

lemma lines_count:
  "r02 (fst sb) = 0 \<Longrightarrow> r52 (fst sb) < 52 \<Longrightarrow>
    r02 (fst ((vga_line V ^^ n) sb)) = 0 \<and> unat (r52 (fst ((vga_line V ^^ n) sb))) = (unat (r52 (fst sb)) + n) mod 52 \<and>
    snd ((vga_line V ^^ n) sb) = (f ^^ ((unat (r52 (fst sb)) + n) div 52)) (snd sb)"
proof (induction n)
  case 0
  then show ?case by (simp add: word_less_nat_alt)
next
  case (Suc n)
  let ?k = "unat (r52 (fst sb)) + n"
  note IH = Suc.IH [OF Suc.prems]
  then have "r52 (fst ((vga_line V ^^ n) sb)) < 52" by (simp add: word_less_nat_alt)
  note step = line_counts [OF conjunct1 [OF IH] this]
  have "(?k mod 52 + 1) div 52 + ?k div 52 = (?k + 1) div 52" by (rule div_mod_carry)
  then have fs: "(f ^^ ((?k mod 52 + 1) div 52)) ((f ^^ (?k div 52)) b) = (f ^^ ((?k + 1) div 52)) b" for b
    by (metis comp_apply funpow_add)
  have m: "(?k mod 52 + 1) mod 52 = (?k + 1) mod 52" by (rule mod_add_left_eq)
  have k: "unat (r52 (fst sb)) + Suc n = ?k + 1" by simp
  show ?case
    unfolding k funpow.simps comp_apply using step IH by (simp only: fs m simp_thms)
qed

lemma vsync_lines:
  assumes "r52 s < 52" and "v \<noteq> 0"
    and sb: "sb = vga_line V (vga_line V (assert_vsync v s, b))"
  shows "r02 (fst sb) = 0" and "r52 (fst sb) = 0" and "snd sb = (if 30 \<le> r52 s then f b else b)"
proof -
  define n where "n = unat (r52 s)"
  have "unat (r52 s + 1) = n + 1" "unat (r52 s + 1 + 1) = n + 2" "n < 52"
    using assms(1) by (simp_all add: n_def word_less_nat_alt unat_word_ariths)
  then have "r52 s + 1 = 52 \<longleftrightarrow> n = 51" "r52 s + 1 + 1 = 52 \<longleftrightarrow> n = 50" "32 \<le> r52 s + 1 + 1 \<longleftrightarrow> 30 \<le> n"
    "30 \<le> r52 s \<longleftrightarrow> 30 \<le> n"
    unfolding word_unat_eq_iff word_le_nat_alt by (simp_all add: n_def)
  moreover have "\<not> (32 :: u8) \<le> 1" by (simp add: word_le_nat_alt)
  ultimately show "r02 (fst sb) = 0" "r52 (fst sb) = 0" "snd sb = (if 30 \<le> r52 s then f b else b)"
    using assms(2) by (auto simp: sb vga_line_def assert_hsync_def hsync_falling_def hsync_rising_counters
        count_line_raise realign_raise assert_vsync_def)
qed

end

interpretation board_interrupts: vga_interrupts board_vga "\<lambda>h. (pulse_int (fst h), snd h)"
  by unfold_locales (simp add: board_vga_def vga_raise_int_def case_prod_unfold)

text \<open>
  C24: the interrupt counter.  Away from the vertical signal, \<open>n\<close> lines of the display advance
  \<^verbatim>\<open>r52\<close> by \<open>n\<close> modulo 52, and the CPU is interrupted once for every time it comes round, that
  is every 52 lines.
\<close>

theorem interrupt_every_52_lines:
  assumes "r02 s = 0" and "r52 s < 52"
  shows "\<exists>s'. (vga_line board_vga ^^ n) (s, c, b) = (s', (pulse_int ^^ ((unat (r52 s) + n) div 52)) c, b) \<and>
    unat (r52 s') = (unat (r52 s) + n) mod 52"
proof -
  have pulses: "((\<lambda>h. (pulse_int (fst h), snd h)) ^^ k) (c, b) = ((pulse_int ^^ k) c, b)" for k and b :: "'b"
    by (induction k) simp_all
  show ?thesis
    using board_interrupts.lines_count [of "(s, c, b)" n] assms by (cases "(vga_line board_vga ^^ n) (s, c, b)") (auto simp: pulses)
qed

theorem interrupt_every_52_lines_witness:
  "\<exists>s'. (vga_line board_vga ^^ 312) (bench_vga, zero_state, bench_board) = (s', (pulse_int ^^ 6) zero_state, bench_board) \<and>
     unat (r52 s') = 0"
  using interrupt_every_52_lines [of bench_vga 312 zero_state bench_board] by (simp add: bench_vga_def)

text \<open>
  The vertical signal realigns the interrupts.  Two lines after it \<^verbatim>\<open>r52\<close> starts again from
  zero; exactly one interrupt is raised on the way when the counter stood at 30 or more, none otherwise.
\<close>

theorem vsync_realigns_interrupts:
  assumes "r52 s < 52" and "v \<noteq> 0"
  shows "\<exists>s'. vga_line board_vga (vga_line board_vga (assert_vsync v s, c, b)) =
      (s', if 30 \<le> r52 s then pulse_int c else c, b) \<and> r52 s' = 0 \<and> r02 s' = 0"
  using board_interrupts.vsync_lines [OF assms refl, of "(c, b)"]
  by (cases "vga_line board_vga (vga_line board_vga (assert_vsync v s, c, b))") auto

theorem vsync_realigns_interrupts_witness:
  "\<exists>s'. vga_line board_vga (vga_line board_vga (assert_vsync 1 (bench_vga\<lparr>r52 := 51\<rparr>), zero_state, bench_board)) =
      (s', pulse_int zero_state, bench_board) \<and> r52 s' = 0 \<and> r02 s' = 0"
  using vsync_realigns_interrupts [of "bench_vga\<lparr>r52 := 51\<rparr>" 1 zero_state bench_board] by simp

lemma board_vdc_clock_state: "fst (vdc_clock board_vdc (s, h)) = s\<lparr>core := vdc_count s\<rparr>"
  by (simp add: vdc_clock_def Let_def board_vdc_def vdc_hsync_cb_def vdc_vsync_cb_def case_prod_unfold)

section \<open>The raster of the CRT controller\<close>

text \<open>
  The reference: the beam is a point of a rectangle of \<open>raster_size\<close> characters, the lines one after
  the other; the last row of characters is longer by the vertical adjustment.
\<close>

definition raster_width :: "vdc_state \<Rightarrow> nat" where
  "raster_width s = unat (horizontal_total s) + 1"

definition raster_lines :: "vdc_state \<Rightarrow> nat" where
  "raster_lines s = (unat (vertical_total s) + 1) * (unat (maximum_scanline_address s) + 1) + unat (vertical_total_adjust s)"

definition raster_size :: "vdc_state \<Rightarrow> nat" where
  "raster_size s = raster_lines s * raster_width s"

definition raster_line :: "vdc_state \<Rightarrow> nat" where
  "raster_line s = unat (vcc (core s)) * (unat (maximum_scanline_address s) + 1) + unat (slc (core s))"

definition beam :: "vdc_state \<Rightarrow> nat" where
  "beam s = raster_line s * raster_width s + unat (hcc (core s))"

definition last_line :: "vdc_state \<Rightarrow> nat" where
  "last_line s = unat (maximum_scanline_address s) +
     (if vcc (core s) = vertical_total s then unat (vertical_total_adjust s) else 0)"

definition raster_ok :: "vdc_state \<Rightarrow> bool" where
  "raster_ok s \<longleftrightarrow> unat (vertical_total s) < 255 \<and>
     unat (maximum_scanline_address s) + unat (vertical_total_adjust s) < 256 \<and>
     hcc (core s) \<le> horizontal_total s \<and> vcc (core s) \<le> vertical_total s \<and> unat (slc (core s)) \<le> last_line s"

lemma raster_core:
  "horizontal_total (s\<lparr>core := c\<rparr>) = horizontal_total s" "vertical_total (s\<lparr>core := c\<rparr>) = vertical_total s"
  "maximum_scanline_address (s\<lparr>core := c\<rparr>) = maximum_scanline_address s"
  "vertical_total_adjust (s\<lparr>core := c\<rparr>) = vertical_total_adjust s"
  "raster_width (s\<lparr>core := c\<rparr>) = raster_width s" "raster_lines (s\<lparr>core := c\<rparr>) = raster_lines s"
  "raster_size (s\<lparr>core := c\<rparr>) = raster_size s"
  by (simp_all add: horizontal_total_def vertical_total_def maximum_scanline_address_def vertical_total_adjust_def
      raster_width_def raster_lines_def raster_size_def)

lemma process_hcc_counts:
  "fst (process_hcc s c) \<longleftrightarrow> hcc c = horizontal_total s"
  "hcc (snd (process_hcc s c)) = (if hcc c = horizontal_total s then 0 else hcc c + 1)"
  "slc (snd (process_hcc s c)) = slc c" "vcc (snd (process_hcc s c)) = vcc c"
  by (auto simp: process_hcc_def Let_def)

lemma process_slc_counts:
  "fst (process_slc s c) \<longleftrightarrow> slc c + 1 = scanline_total s"
  "slc (snd (process_slc s c)) = (if slc c + 1 = scanline_total s then 0 else slc c + 1)"
  "hcc (snd (process_slc s c)) = hcc c" "vcc (snd (process_slc s c)) = vcc c"
  by (auto simp: process_slc_def Let_def)

lemma process_vcc_counts:
  "vcc (process_vcc s c) = (if vcc c = vertical_total s then 0 else vcc c + 1)"
  "hcc (process_vcc s c) = hcc c" "slc (process_vcc s c) = slc c"
  by (auto simp: process_vcc_def Let_def)

lemma last_scanline:
  assumes "raster_ok s"
  shows "slc (core s) + 1 = scanline_total s \<longleftrightarrow> unat (slc (core s)) = last_line s"
proof -
  have "unat (vertical_total s + 1) = unat (vertical_total s) + 1"
    using assms by (simp add: raster_ok_def unat_word_ariths)
  then have row: "unat (vcc (core s)) + 1 = unat (vertical_total s + 1) \<longleftrightarrow> vcc (core s) = vertical_total s"
    by (simp add: word_unat_eq_iff)
  define a where "a = (if vcc (core s) = vertical_total s then vertical_total_adjust s else 0)"
  have "slc (core s) + 1 = scanline_total s \<longleftrightarrow> slc (core s) = maximum_scanline_address s + a"
    unfolding scanline_total_def row a_def by (simp add: algebra_simps)
  moreover have "unat (maximum_scanline_address s + a) = last_line s"
    using assms by (simp add: raster_ok_def unat_word_ariths last_line_def a_def)
  ultimately show ?thesis by (simp add: word_unat_eq_iff)
qed

lemma vdc_count_counts:
  assumes "raster_ok s"
  defines "line \<equiv> hcc (core s) = horizontal_total s" and "row \<equiv> unat (slc (core s)) = last_line s"
    and "frame \<equiv> vcc (core s) = vertical_total s"
  shows "hcc (vdc_count s) = (if line then 0 else hcc (core s) + 1)"
    and "slc (vdc_count s) = (if line then (if row then 0 else slc (core s) + 1) else slc (core s))"
    and "vcc (vdc_count s) = (if line \<and> row then (if frame then 0 else vcc (core s) + 1) else vcc (core s))"
  using last_scanline [OF assms(1)]
  by (auto simp: vdc_count_def case_prod_unfold process_hcc_counts process_slc_counts process_vcc_counts
      line_def row_def frame_def)


lemma unat_Suc_below: "x < y \<Longrightarrow> unat (x + 1) = unat x + 1" for x y :: u8
proof -
  assume "x < y"
  then have "unat x < unat y" by (simp add: word_less_nat_alt)
  then have "Suc (unat x) < 256" using u8_less_256 [of y] by (simp del: u8_less_256)
  then show ?thesis by (simp add: unat_word_ariths)
qed

text \<open>The next point of a raster of lines of \<open>w\<close> characters, rows of \<open>r\<close> lines, the last row longer.\<close>

lemma raster_step:
  fixes h l v w r vt adj :: nat
  assumes "h < w" and "v \<le> vt" and "l < r + (if v = vt then adj else 0)"
  defines "p \<equiv> (v * r + l) * w + h" and "n \<equiv> ((vt + 1) * r + adj) * w"
  shows "p < n"
    and "(p + 1) mod n = (if h + 1 < w then p + 1
      else if l + 1 < r + (if v = vt then adj else 0) then (v * r + l + 1) * w
      else if v = vt then 0 else (v + 1) * r * w)"
proof -
  have rows: "(v + 1) * r \<le> vt * r" if "v \<noteq> vt" using that assms(2) by (intro mult_le_mono1) simp
  have line: "v * r + l + 1 \<le> (vt + 1) * r + adj" using rows assms(3) by (cases "v = vt") (simp_all add: algebra_simps)
  then have "(v * r + l + 1) * w \<le> n" unfolding n_def by (rule mult_le_mono1)
  then have le: "p + 1 + (w - (h + 1)) \<le> n" using assms(1) by (simp add: p_def algebra_simps)
  then show "p < n" by simp
  have inside: "(v * r + l + 1) * w < n" if "v * r + l + 1 < (vt + 1) * r + adj"
    unfolding n_def using that assms(1) by (intro mult_less_mono1) simp_all
  show "(p + 1) mod n = (if h + 1 < w then p + 1
      else if l + 1 < r + (if v = vt then adj else 0) then (v * r + l + 1) * w
      else if v = vt then 0 else (v + 1) * r * w)"
  proof (cases "h + 1 < w")
    case True
    then show ?thesis using le by simp
  next
    case False
    then have p: "p + 1 = (v * r + l + 1) * w" using assms(1) by (simp add: p_def)
    show ?thesis
    proof (cases "v = vt \<and> l + 1 = r + adj")
      case True
      then have "v * r + l + 1 = (vt + 1) * r + adj" by (simp add: algebra_simps)
      then have "p + 1 = n" by (simp only: p n_def)
      then show ?thesis using True False by simp
    next
      case inner: False
      have "v * r + l + 1 < (vt + 1) * r + adj"
        using inner rows assms(3) by (cases "v = vt") (auto simp: algebra_simps)
      from inside [OF this] have "(p + 1) mod n = (v * r + l + 1) * w" unfolding p by (rule mod_less)
      moreover have "l + 1 = r" if "\<not> l + 1 < r + (if v = vt then adj else 0)"
        using that inner assms(3) by (cases "v = vt") auto
      ultimately show ?thesis using False inner assms(3) by (auto simp: algebra_simps)
    qed
  qed
qed


lemma vdc_count_beam:
  assumes ok: "raster_ok s"
  defines "s' \<equiv> s\<lparr>core := vdc_count s\<rparr>"
  shows "raster_ok s'" and "beam s' = (beam s + 1) mod raster_size s"
proof -
  let ?c = "core s"
  note counts = vdc_count_counts [OF ok]
  have bounds: "hcc ?c \<le> horizontal_total s" "vcc ?c \<le> vertical_total s" "unat (slc ?c) \<le> last_line s"
    using ok by (simp_all add: raster_ok_def)
  have h: "unat (hcc ?c + 1) = unat (hcc ?c) + 1" "unat (hcc ?c) + 1 < raster_width s" if "hcc ?c \<noteq> horizontal_total s"
    using that bounds(1) unat_Suc_below [of "hcc ?c" "horizontal_total s"]
    by (auto simp: raster_width_def word_less_nat_alt word_le_nat_alt word_unat_eq_iff)
  have l: "unat (slc ?c + 1) = unat (slc ?c) + 1" if "unat (slc ?c) \<noteq> last_line s"
    using that bounds(3) ok by (simp add: last_line_def raster_ok_def unat_word_ariths split: if_splits)
  have v: "unat (vcc ?c + 1) = unat (vcc ?c) + 1" "vcc ?c + 1 \<le> vertical_total s" if "vcc ?c \<noteq> vertical_total s"
    using that bounds(2) unat_Suc_below [of "vcc ?c" "vertical_total s"]
    by (auto simp: word_le_nat_alt word_less_nat_alt word_unat_eq_iff)
  show "raster_ok s'"
    using ok bounds h l v by (auto simp: raster_ok_def s'_def raster_core counts last_line_def raster_width_def word_le_nat_alt split: if_splits)
  have row: "unat (vcc ?c) = unat (vertical_total s) \<longleftrightarrow> vcc ?c = vertical_total s" by (simp add: word_unat_eq_iff)
  have "(beam s + 1) mod raster_size s =
     (if unat (hcc ?c) + 1 < raster_width s then beam s + 1
      else if unat (slc ?c) < last_line s then (raster_line s + 1) * raster_width s
      else if vcc ?c = vertical_total s then 0
      else (unat (vcc ?c) + 1) * (unat (maximum_scanline_address s) + 1) * raster_width s)"
    using raster_step(2) [of "unat (hcc ?c)" "raster_width s" "unat (vcc ?c)" "unat (vertical_total s)" "unat (slc ?c)"
        "unat (maximum_scanline_address s) + 1" "unat (vertical_total_adjust s)"] bounds
    by (simp add: beam_def raster_line_def raster_size_def raster_lines_def row raster_width_def last_line_def
        word_le_nat_alt less_Suc_eq_le split: if_splits)
  then show "beam s' = (beam s + 1) mod raster_size s"
    using h l v bounds(3)
    by (auto simp: s'_def beam_def raster_line_def raster_core counts raster_width_def)
qed


lemma vdc_clocks:
  assumes "raster_ok (fst sb)"
  shows "raster_ok (fst ((vdc_clock board_vdc ^^ n) sb)) \<and> regs (fst ((vdc_clock board_vdc ^^ n) sb)) = regs (fst sb) \<and>
    beam (fst ((vdc_clock board_vdc ^^ n) sb)) = (beam (fst sb) + n) mod raster_size (fst sb)"
proof (induction n)
  case 0
  have "beam (fst sb) < raster_size (fst sb)"
    using assms raster_step(1) [of "unat (hcc (core (fst sb)))" "raster_width (fst sb)" "unat (vcc (core (fst sb)))"
        "unat (vertical_total (fst sb))" "unat (slc (core (fst sb)))"
        "unat (maximum_scanline_address (fst sb)) + 1" "unat (vertical_total_adjust (fst sb))"]
    by (auto simp: beam_def raster_line_def raster_size_def raster_lines_def raster_width_def last_line_def raster_ok_def
        word_le_nat_alt less_Suc_eq_le split: if_splits)
  then show ?case using assms by simp
next
  case (Suc n)
  let ?sb = "(vdc_clock board_vdc ^^ n) sb"
  have size: "raster_size s = raster_size t" if "regs s = regs t" for s t
    using that by (simp add: raster_size_def raster_lines_def raster_width_def horizontal_total_def vertical_total_def
        maximum_scanline_address_def vertical_total_adjust_def)
  have "fst (vdc_clock board_vdc ?sb) = (fst ?sb)\<lparr>core := vdc_count (fst ?sb)\<rparr>"
    using board_vdc_clock_state [of "fst ?sb" "snd ?sb"] by simp
  then show ?case
    using Suc vdc_count_beam [of "fst ?sb"] size [of "fst ?sb" "fst sb"] by (simp add: mod_Suc_eq)
qed

text \<open>
  C14: the CRT controller refines a beam that runs over the raster.  With registers that describe a
  raster and counters inside it, \<open>n\<close> clocks on the board move the point given by the character,
  line and row counters \<open>n\<close> characters on, modulo the size of the raster
  \<open>(R0 + 1) * ((R4 + 1) * (R9 + 1) + R5)\<close>; the registers stay as they are.
\<close>

theorem crtc_refines_beam:
  assumes "raster_ok s"
  shows "\<exists>s' h'. (vdc_clock board_vdc ^^ n) (s, h) = (s', h') \<and> raster_ok s' \<and> regs s' = regs s \<and>
    beam s' = (beam s + n) mod
      ((unat (horizontal_total s) + 1) *
       ((unat (vertical_total s) + 1) * (unat (maximum_scanline_address s) + 1) + unat (vertical_total_adjust s)))"
  using vdc_clocks [of "(s, h)" n] assms
  by (cases "(vdc_clock board_vdc ^^ n) (s, h)") (simp add: raster_size_def raster_lines_def raster_width_def mult.commute)

theorem crtc_refines_beam_witness:
  "\<exists>s' h'. (vdc_clock board_vdc ^^ 20000) (bench_vdc, zero_state, bench_board) = (s', h') \<and> beam s' = 32"
proof -
  have "raster_ok bench_vdc" "beam bench_vdc = 0"
    "unat (horizontal_total bench_vdc) = 63" "unat (vertical_total bench_vdc) = 38"
    "unat (maximum_scanline_address bench_vdc) = 7" "unat (vertical_total_adjust bench_vdc) = 0"
    by (simp_all add: raster_ok_def beam_def raster_line_def last_line_def horizontal_total_def vertical_total_def
        maximum_scanline_address_def vertical_total_adjust_def bench_vdc_def vdc_reset_def reset_core_def reset_regs_def
        reset_mask_def reset_caps_def)
  then show ?thesis
    using crtc_refines_beam [of bench_vdc 20000 "(zero_state, bench_board)"] by auto
qed

section \<open>The tone generators\<close>

lemma sound_clock_step:
  assumes "unat (s_counter t) < unat (s_period t)"
  shows "unat (s_counter t + 1) = unat (s_counter t) + 1"
    and "sound_clock t = (if unat (s_period t) = unat (s_counter t) + 1
      then t\<lparr>s_counter := 0, s_phase := s_phase t XOR 1\<rparr> else t\<lparr>s_counter := s_counter t + 1\<rparr>)"
proof -
  show plus: "unat (s_counter t + 1) = unat (s_counter t) + 1"
    using assms unsigned_less [of "s_period t", where ?'a = nat] by (simp add: unat_word_ariths)
  have "s_period t \<noteq> 0" using assms by auto
  then show "sound_clock t = (if unat (s_period t) = unat (s_counter t) + 1
      then t\<lparr>s_counter := 0, s_phase := s_phase t XOR 1\<rparr> else t\<lparr>s_counter := s_counter t + 1\<rparr>)"
    using assms plus by (auto simp: sound_clock_def Let_def word_le_nat_alt)
qed

text \<open>
  A tone generator divides its clock by its period.  With a period \<open>p\<close> above zero and the counter
  below it, \<open>n\<close> clocks leave the counter at the remainder modulo \<open>p\<close> and flip the phase once for
  every full period; a generator of period zero stands still.
\<close>

theorem tone_generator_divides:
  assumes "s_counter s < s_period s"
  shows "unat (s_counter ((sound_clock ^^ n) s)) = (unat (s_counter s) + n) mod unat (s_period s) \<and>
    s_phase ((sound_clock ^^ n) s) = s_phase s XOR of_bool (odd ((unat (s_counter s) + n) div unat (s_period s))) \<and>
    s_period ((sound_clock ^^ n) s) = s_period s \<and> s_amplitude ((sound_clock ^^ n) s) = s_amplitude s"
proof (induction n)
  case 0
  then show ?case using assms by (simp add: word_less_nat_alt)
next
  case (Suc n)
  let ?t = "(sound_clock ^^ n) s" and ?p = "unat (s_period s)" and ?k = "unat (s_counter s) + n"
  have p: "0 < ?p" using assms by (simp add: word_less_nat_alt)
  then have c: "unat (s_counter ?t) < ?p" using Suc by simp
  have same: "unat (s_period ?t) = ?p" using Suc by simp
  note plus = sound_clock_step(1) [of ?t, unfolded same, OF c] and step = sound_clock_step(2) [of ?t, unfolded same, OF c]
  have IH: "unat (s_counter ?t) = ?k mod ?p" "s_phase ?t = s_phase s XOR of_bool (odd (?k div ?p))"
    "s_period ?t = s_period s" "s_amplitude ?t = s_amplitude s"
    using Suc by simp_all
  have next_t: "(sound_clock ^^ Suc n) s = sound_clock ?t" "unat (s_counter s) + Suc n = Suc ?k" by simp_all
  show ?case
  proof (cases "Suc (?k mod ?p) = ?p")
    case True
    then have "Suc ?k mod ?p = 0" "Suc ?k div ?p = Suc (?k div ?p)" by (simp_all add: mod_Suc div_Suc)
    moreover have "sound_clock ?t = ?t\<lparr>s_counter := 0, s_phase := s_phase ?t XOR 1\<rparr>"
      using step True IH(1) by simp
    ultimately show ?thesis unfolding next_t by (cases "odd (?k div ?p)") (simp_all add: IH xor.assoc)
  next
    case False
    then have "Suc ?k mod ?p = Suc (?k mod ?p)" "Suc ?k div ?p = ?k div ?p" by (auto simp: mod_Suc div_Suc)
    moreover have "sound_clock ?t = ?t\<lparr>s_counter := s_counter ?t + 1\<rparr>"
      using step False IH(1) by simp
    ultimately show ?thesis unfolding next_t by (simp add: IH plus)
  qed
qed

theorem tone_generator_divides_witness:
  "s_phase ((sound_clock ^^ 1000) \<lparr>s_counter = 0, s_period = 100, s_phase = 1, s_amplitude = 15\<rparr>) = 1"
  using tone_generator_divides [of "\<lparr>s_counter = 0, s_period = 100, s_phase = 1, s_amplitude = 15\<rparr>" 1000] by simp


section \<open>The registers of the sound generator\<close>

lemma and_0f_id:
  assumes "unat (x :: u8) < 16"
  shows "x AND 0x0f = x"
proof -
  have "x AND semiring_bit_operations_class.mask 4 = x"
    using assms by (intro word_unat_eq_iff [THEN iffD2])
      (simp add: unsigned_take_bit_eq take_bit_nat_eq_self_iff flip: take_bit_eq_mask)
  then show ?thesis by (simp add: mask_eq_exp_minus_1)
qed

lemma psg_drive_regs: "psg_array (psg_drive k z s) = psg_array s" "psg_index (psg_drive k z s) = psg_index s"
  by (simp_all add: psg_drive_def on_sound_def set_mixer_and_io_control_def Let_def)

lemma psg_index_low:
  assumes "psg_index s < 14"
  shows "psg_index s < 16" "psg_index s \<noteq> 14" "psg_index s \<noteq> 15" "psg_index s AND 0x0f = psg_index s"
proof -
  have i: "unat (psg_index s) < 14" using assms by (simp add: word_less_nat_alt)
  then show "psg_index s < 16" "psg_index s \<noteq> 14" "psg_index s \<noteq> 15" by (auto simp: word_less_nat_alt)
  show "psg_index s AND 0x0f = psg_index s" by (rule and_0f_id) (use i in simp)
qed

lemma psg_set_low:
  assumes "psg_index s < 14"
  shows "psg_set_value G x (s, b) = (x AND psg_mask (psg_index s), (psg_drive (psg_index s) (x AND psg_mask (psg_index s)) s)
     \<lparr>psg_array := (psg_array s)[unat (psg_index s) := x AND psg_mask (psg_index s)]\<rparr>, b)"
  using psg_index_low [OF assms] by (simp add: psg_set_value_def Let_def psg_drive_regs)

lemma psg_get_low:
  assumes "psg_index s < 14"
  shows "fst (psg_get_value G y (s, b)) = psg_array s ! unat (psg_index s) AND psg_mask (psg_index s)"
  using psg_index_low [OF assms] by (simp add: psg_get_value_def Let_def)

text \<open>
  A register of the sound generator is read back.  Writing the selected register, one of the
  fourteen that are no port, and reading it gives the byte with the bits the register has; the other
  registers and the machine around stay as they are.
\<close>

theorem psg_register_readback:
  assumes "psg_index s < 14" and "length (psg_array s) = 16"
  shows "\<exists>s'. psg_set_value G x (s, b) = (x AND psg_mask (psg_index s), s', b) \<and>
    fst (psg_get_value G y (s', b')) = x AND psg_mask (psg_index s) \<and>
    (\<forall>j < 16. j \<noteq> unat (psg_index s) \<longrightarrow> psg_array s' ! j = psg_array s ! j)"
proof -
  have "unat (psg_index s) < 16" using assms(1) by (simp add: word_less_nat_alt)
  then show ?thesis
    unfolding psg_set_low [OF assms(1)] using assms by (auto simp: psg_get_low psg_drive_regs and.assoc)
qed

theorem psg_register_readback_witness:
  "fst (psg_get_value board_psg 0 (fst (snd (psg_set_value board_psg 0x3c (bench_psg\<lparr>psg_index := 8\<rparr>, zero_state, bench_board))),
     zero_state, bench_board)) = 0x1c"
  using psg_register_readback [of "bench_psg\<lparr>psg_index := 8\<rparr>" board_psg "0x3c" "(zero_state, bench_board)" 0 "(zero_state, bench_board)"]
  by (auto simp: bench_psg_def psg_mask_def)


section \<open>The dialogue with the sound generator\<close>

text \<open>
  The CPU reaches the sound generator through the parallel interface: port A carries the register
  number or the value, two bits of port C say what it is.
\<close>

abbreviation io_out :: "'d libdsk \<Rightarrow> u16 \<Rightarrow> u8 \<Rightarrow> 'd host \<Rightarrow> 'd host" where
  "io_out L port x h \<equiv> snd (cpu_iorq_wr (board_cpu L) port x h)"

definition select_register :: "'d libdsk \<Rightarrow> u8 \<Rightarrow> 'd host \<Rightarrow> 'd host" where
  "select_register L i h = io_out L 0xf600 0 (io_out L 0xf600 0xc0 (io_out L 0xf400 i h))"

definition write_register :: "'d libdsk \<Rightarrow> u8 \<Rightarrow> 'd host \<Rightarrow> 'd host" where
  "write_register L x h = io_out L 0xf600 0 (io_out L 0xf600 0x80 (io_out L 0xf400 x h))"

definition read_register :: "'d libdsk \<Rightarrow> u8 \<Rightarrow> 'd host \<Rightarrow> u8 \<times> 'd host" where
  "read_register L line h = cpu_iorq_rd (board_cpu L) 0xf400 0 (io_out L 0xf600 (0x40 OR line) (io_out L 0xf700 0x92 h))"

lemma u8_and_ff: "(x :: u8) AND 0xff = x"
proof -
  have "(0xff :: u8) = - 1" by simp
  then show ?thesis by (simp only: and.right_neutral)
qed

lemma ppi_ports:
  "io_out L 0xf400 x h = snd (on_ppi (wr_port_a board_ppi x) h)"
  "io_out L 0xf600 x h = snd (on_ppi (wr_port_c board_ppi x) h)"
  "io_out L 0xf700 x h = snd (on_ppi (wr_ctrl_p board_ppi x) h)"
  "cpu_iorq_rd (board_cpu L) 0xf400 y h = on_ppi (rd_port_a board_ppi 0) h"
  by (simp_all add: board_cpu_def iorq_wr_def iorq_wr_vga_def iorq_wr_vdc_def iorq_wr_rom_def iorq_wr_ppi_def iorq_wr_fdc_def
      iorq_rd_def iorq_rd_vga_def iorq_rd_vdc_def iorq_rd_ppi_def iorq_rd_fdc_def port_function_def Let_def case_prod_unfold
      u8_and_ff)

text \<open>The generator is selected by neither bit, both ports are outputs.\<close>

definition psg_idle :: "'d board \<Rightarrow> bool" where
  "psg_idle b \<longleftrightarrow> dir_a (b_ppi b) = 0 \<and> dir_c (b_ppi b) = 0 \<and> psg_bdir b = 0 \<and> psg_bc1 b = 0 \<and> psg_bc2 b = 1"

lemmas ppi_steps = on_ppi_def wr_port_a_def wr_port_c_def board_ppi_def ppi_port_a_wr_def ppi_port_c_wr_def
  psg_update_wr_def psg_function_def Let_def case_prod_unfold kbd_set_line_def on_psg_def

lemma out_port_a:
  assumes "psg_idle (snd h)"
  shows "psg_idle (snd (io_out L 0xf400 x h))" and "psg_data (snd (io_out L 0xf400 x h)) = x"
    and "b_psg (snd (io_out L 0xf400 x h)) = b_psg (snd h)"
  using assms by (simp_all add: ppi_ports psg_idle_def ppi_steps)

lemma out_port_c_latch:
  assumes "psg_idle (snd h)"
  shows "psg_idle (snd (io_out L 0xf600 0 (io_out L 0xf600 0xc0 h)))"
    and "b_psg (snd (io_out L 0xf600 0 (io_out L 0xf600 0xc0 h))) = (b_psg (snd h))\<lparr>psg_index := psg_data (snd h)\<rparr>"
  using assms by (simp_all add: ppi_ports psg_idle_def ppi_steps psg_set_index_def)


lemma out_port_c_write:
  assumes "psg_idle (snd h)" and "psg_index (b_psg (snd h)) < 14"
  defines "s \<equiv> b_psg (snd h)"
  shows "psg_idle (snd (io_out L 0xf600 0 (io_out L 0xf600 0x80 h)))"
    and "b_psg (snd (io_out L 0xf600 0 (io_out L 0xf600 0x80 h))) =
      (psg_drive (psg_index s) (psg_data (snd h) AND psg_mask (psg_index s)) s)
        \<lparr>psg_array := (psg_array s)[unat (psg_index s) := psg_data (snd h) AND psg_mask (psg_index s)]\<rparr>"
  using assms by (simp_all add: ppi_ports psg_idle_def ppi_steps psg_set_low)

lemma line_bits:
  "(0x40 OR (l AND 0x0f)) AND 0x80 = (0 :: u8)" "drop_bit 6 ((0x40 OR (l AND 0x0f)) AND 0x40) = (1 :: u8)"
  "(0x40 OR (l AND 0x0f)) AND 0x0f = (l AND 0x0f :: u8)"
proof -
  show "(0x40 OR (l AND 0x0f)) AND 0x80 = (0 :: u8)" "(0x40 OR (l AND 0x0f)) AND 0x0f = (l AND 0x0f :: u8)"
    by (simp_all add: bit.conj_disj_distrib2 and.assoc)
  have "(0x40 OR (l AND 0x0f)) AND 0x40 = (0x40 :: u8)"
    by (simp add: bit.conj_disj_distrib2 and.assoc)
  then show "drop_bit 6 ((0x40 OR (l AND 0x0f)) AND 0x40) = (1 :: u8)" by simp
qed

text \<open>Port A becomes an input.\<close>

definition psg_listening :: "'d board \<Rightarrow> bool" where
  "psg_listening b \<longleftrightarrow> dir_a (b_ppi b) = 1 \<and> dir_c (b_ppi b) = 0 \<and> psg_bdir b = 0 \<and> psg_bc2 b = 1"

lemma turn_a_input:
  assumes "psg_idle (snd h)"
    and h': "h' = io_out L 0xf700 0x92 h"
  shows "psg_listening (snd h')" and "b_psg (snd h') = b_psg (snd h)" and "b_kbd (snd h') = b_kbd (snd h)"
  using assms(1) unfolding h' ppi_ports
  by (simp_all add: psg_idle_def psg_listening_def on_ppi_def board_ppi_def wr_ctrl_p_def turn_a_def turn_b_def turn_c_def
      ppi_port_a_rd_def ppi_port_b_rd_def psg_function_def Let_def case_prod_unfold)

lemma out_port_c_read:
  assumes "psg_listening (snd h)"
    and h': "h' = io_out L 0xf600 (0x40 OR (l AND 0x0f)) h"
  shows "psg_listening (snd h') \<and> psg_bc1 (snd h') = 1" and "b_psg (snd h') = b_psg (snd h)"
    and "b_kbd (snd h') = (b_kbd (snd h))\<lparr>kbd_line := l AND 0x0f\<rparr>"
  using assms(1) unfolding h' ppi_ports
  by (simp_all add: psg_listening_def ppi_steps line_bits del: push_bit_and drop_bit_and bit.conj_disj_distrib2)

lemma in_port_a:
  fixes h :: "'d host"
  assumes "psg_listening (snd h)" and "psg_bc1 (snd h) = 1"
  shows "\<exists>s (b :: 'd board). fst (cpu_iorq_rd (board_cpu L) 0xf400 0 h) = fst (psg_get_value board_psg 0 (b_psg (snd h), s, b)) \<and>
    b_kbd b = b_kbd (snd h)"
  using assms unfolding ppi_ports
  by (intro exI [of _ "fst h"] exI [of _ "snd h"]) (simp add: psg_listening_def on_ppi_def rd_port_a_def board_ppi_def
      ppi_port_a_rd_def psg_function_def Let_def case_prod_unfold on_psg_def)

lemma read_register_value:
  fixes h :: "'d host"
  assumes "psg_idle (snd h)"
  shows "\<exists>s (b :: 'd board). fst (read_register L (l AND 0x0f) h) = fst (psg_get_value board_psg 0 (b_psg (snd h), s, b)) \<and>
    b_kbd b = (b_kbd (snd h))\<lparr>kbd_line := l AND 0x0f\<rparr>"
proof -
  note t = turn_a_input [OF assms refl, of L]
  note c = out_port_c_read [OF t(1) refl, of L l]
  show ?thesis
    using in_port_a [OF conjunct1 [OF c(1)] conjunct2 [OF c(1)], of L] by (simp only: read_register_def t c)
qed

lemma select_register_psg:
  assumes "psg_idle (snd h)"
  shows "psg_idle (snd (select_register L i h))" and "b_psg (snd (select_register L i h)) = (b_psg (snd h))\<lparr>psg_index := i\<rparr>"
    and "b_kbd (snd (select_register L i h)) = (b_kbd (snd h))\<lparr>kbd_line := 0\<rparr>"
proof -
  note a = out_port_a [OF assms, of L i]
  note c = out_port_c_latch [OF a(1), of L]
  show "psg_idle (snd (select_register L i h))" using c by (simp only: select_register_def)
  show "b_psg (snd (select_register L i h)) = (b_psg (snd h))\<lparr>psg_index := i\<rparr>" using c a by (simp only: select_register_def)
  show "b_kbd (snd (select_register L i h)) = (b_kbd (snd h))\<lparr>kbd_line := 0\<rparr>"
    using assms by (simp add: select_register_def ppi_ports psg_idle_def ppi_steps)
qed

text \<open>
  C20: the sound generator through the ports.  The sequences of port accesses that a program uses to
  select a register, to write it and to read it back, from the CPU through the parallel interface,
  give the byte written, with the bits that the register has.
\<close>

theorem psg_through_ports:
  assumes "psg_idle b" and "i < 14" and "length (psg_array (b_psg b)) = 16"
  shows "fst (read_register L 0 (write_register L x (select_register L i (c, b)))) = x AND psg_mask i"
proof -
  let ?h = "select_register L i (c, b)"
  have idle: "psg_idle (snd (c, b))" using assms(1) by simp
  note s = select_register_psg [OF idle, of L i]
  note a = out_port_a [OF s(1), of L x]
  have i: "psg_index (b_psg (snd (io_out L 0xf400 x ?h))) = i" unfolding a s by simp
  then have "psg_index (b_psg (snd (io_out L 0xf400 x ?h))) < 14" using assms(2) by simp
  note w = out_port_c_write [OF a(1) this, of L, unfolded i a(2)]
  have idle2: "psg_idle (snd (write_register L x ?h))" using w(1) by (simp only: write_register_def)
  let ?s = "b_psg (snd (write_register L x ?h))"
  have "psg_array ?s = (psg_array (b_psg b))[unat i := x AND psg_mask i]" "psg_index ?s = i"
    unfolding write_register_def w(2) unfolding a s by (simp_all add: psg_drive_regs)
  moreover have "unat i < 16" using assms(2) by (simp add: word_less_nat_alt)
  ultimately show ?thesis
    using read_register_value [OF idle2, of L 0] assms(2,3) psg_get_low [of ?s] by (auto simp: and.assoc)
qed

theorem psg_through_ports_witness:
  "fst (read_register bench_lib 0 (write_register bench_lib 0xff (select_register bench_lib 8 (zero_state, bench_board)))) = 0x1f"
  using psg_through_ports [of bench_board 8 bench_lib "0xff" zero_state]
  by (simp add: psg_idle_def bench_ppi_def bench_psg_def psg_mask_def)

text \<open>
  C21: scanning the keyboard.  With port A of the sound generator as an input, selecting its register
  14, setting a line on port C and reading port A gives the byte of that line of the keyboard matrix:
  a bit is clear exactly when its key is down.
\<close>

theorem keyboard_through_ports:
  fixes b :: "'d board"
  assumes "psg_idle b" and "dir_port (b_psg b) ! 0 = 0" and "unat l < 16"
  shows "fst (read_register L l (select_register L 14 (c, b))) = kbd_keys (b_kbd b) ! unat l"
proof -
  have idle: "psg_idle (snd (c, b))" using assms(1) by simp
  note s = select_register_psg [OF idle, of L 14]
  have l: "l AND 0x0f = l" by (rule and_0f_id) (rule assms(3))
  obtain c' and b' :: "'d board" where r: "fst (read_register L l (select_register L 14 (c, b))) =
      fst (psg_get_value board_psg 0 ((b_psg b)\<lparr>psg_index := 14\<rparr>, c', b'))" "b_kbd b' = (b_kbd b)\<lparr>kbd_line := l\<rparr>"
    using read_register_value [OF s(1), of L l] unfolding s l by auto
  have "l < 16" using assms(3) by (simp add: word_less_nat_alt)
  then show ?thesis
    using assms(2) r by (simp add: psg_get_value_def Let_def put_array_def board_psg_def psg_port_a_rd_def kbd_get_data_def)
qed


theorem keyboard_through_ports_witness:
  "fst (read_register bench_lib 5 (select_register bench_lib 14 (zero_state,
     bench_board\<lparr>b_kbd := on_key_press (\<lambda>_. (5, 0x80, 0)) (b_kbd bench_board)\<rparr>))) = 0x7f"
proof -
  let ?b = "bench_board\<lparr>b_kbd := on_key_press (\<lambda>_. (5, 0x80, 0)) (b_kbd bench_board)\<rparr>"
  have "psg_idle ?b" by (simp add: psg_idle_def bench_ppi_def)
  moreover have "dir_port (b_psg ?b) ! 0 = 0" by (simp add: bench_psg_def)
  moreover have "kbd_keys (b_kbd ?b) ! 5 = 0x7f"
    by (simp add: on_key_press_def update_key_def Let_def word_le_nat_alt)
  ultimately show ?thesis
    using keyboard_through_ports [of ?b 5 bench_lib zero_state] by simp
qed

section \<open>The bit command of the parallel interface\<close>

text \<open>
  The bit command changes one bit of port C.  A control byte below 128, while port C is an output,
  sets the bit that its bits 1 to 3 number to its bit 0 and leaves the other seven as they are.
\<close>

theorem bit_command_sets_one_bit:
  assumes "x AND 0x80 = 0" and "dir_c s = 0" and "k < 8"
  shows "bit (port_c (fst (snd (wr_ctrl_p board_ppi x (s, h))))) k =
    (if k = unat (drop_bit 1 x AND 0x07) then bit x 0 else bit (port_c s) k)"
proof -
  let ?n = "unat (drop_bit 1 x AND 0x07)"
  have "fst (snd (wr_ctrl_p board_ppi x (s, h))) =
      s\<lparr>ctrl_p := x, port_c := (port_c s AND NOT (push_bit ?n 1)) OR push_bit ?n (x AND 1)\<rparr>"
    using assms(1,2) by (simp add: wr_ctrl_p_def Let_def board_ppi_def ppi_port_c_wr_def case_prod_unfold del: push_bit_and)
  then show ?thesis
    using assms(3) by (auto simp: bit_simps)
qed

theorem bit_command_sets_one_bit_witness:
  "bit (port_c (fst (snd (wr_ctrl_p board_ppi 0x0d (bench_ppi, zero_state, bench_board))))) 6"
  using bit_command_sets_one_bit [of "0x0d" bench_ppi 6 "(zero_state, bench_board)"] by (simp add: bench_ppi_def)


end
