(* ===== verification/CPC_Props.thy ===== *)
theory CPC_Props
  imports Device_Props FDC_Bench
begin

text \<open>
  The main board as a whole: what the CPU can change of the machine, the invariants of the devices
  while it runs, the end of a frame, and the memory as programs see it (the stack, block copies, the
  RAM beneath a ROM, an unsupported RAM configuration, the expansion slots).
\<close>

unbundle bit_operations_syntax

section \<open>The CPU and the setup of the board\<close>

lemma is_ram_iff: "is_ram k \<longleftrightarrow> (\<exists>n < 8. k = RAM n)"
  by (auto simp: is_ram_def split: bank.splits)

text \<open>
  C7: no instruction, interrupt or I/O access changes the setup of the machine.  Whatever one clock
  of the CPU does, with every device it may reach through its ports, the ROMs and the expansion ROMs
  and the size of the memory are as before, every quarter of the address space still shows a bank
  that is plugged in, and is still written to one of the eight RAM banks.
\<close>

theorem cpu_clock_keeps_setup:
  assumes "pal_ok b"
  shows "\<exists>c' b'. clock (board_cpu L) s (c, b) = (c', b') \<and> b_rom b' = b_rom b \<and> b_exp b' = b_exp b \<and>
    memory_size b' = memory_size b \<and>
    (\<forall>i < 4. present b' (pal_rd b' i) \<and> (\<exists>k < 8. pal_wr b' i = RAM k))"
proof -
  obtain c' b' where h: "clock (board_cpu L) s (c, b) = (c', b')" by (cases "clock (board_cpu L) s (c, b)")
  then have k: "kept b b'" using clock_setup [OF assms, of L s c] by simp
  then have "\<forall>i < 4. present b' (pal_rd b' i) \<and> (\<exists>k < 8. pal_wr b' i = RAM k)"
    by (simp add: kept_def pal_ok_def is_ram_iff)
  then show ?thesis using h kept_runs [OF k] by (auto simp: runs_def)
qed

theorem cpu_clock_keeps_setup_witness:
  "\<exists>c' b'. clock (board_cpu bench_lib) zero_stack (zero_state, bench_board) = (c', b') \<and> b_rom b' = b_rom bench_board"
  using cpu_clock_keeps_setup [OF bench_board_ok(1), of bench_lib zero_stack zero_state] by auto

section \<open>The invariants of the devices\<close>

lemma board_vdc_clock_ok: "vdc_ok s \<Longrightarrow> vdc_ok (fst (vdc_clock board_vdc (s, h)))"
  by (auto simp: board_vdc_clock_state vdc_ok_def reset_caps_def reset_mask_def)

lemma emulate_tick_devices:
  assumes "devices_ok (snd h)"
  shows "devices_ok (snd (emulate_tick L s h))"
proof -
  have ticks: "devices_ok (b\<lparr>cpc_ticks := x\<rparr>) = devices_ok b" "devices_ok (b\<lparr>cpu_ticks := x\<rparr>) = devices_ok b"
    "devices_ok (b\<lparr>vdc_ticks := x\<rparr>) = devices_ok b" "devices_ok (b\<lparr>psg_ticks_acc := x\<rparr>) = devices_ok b"
    "devices_ok (b\<lparr>snd_ticks := x\<rparr>) = devices_ok b" "devices_ok (b\<lparr>b_audio := a\<rparr>) = devices_ok b" for b :: "'a board" and x a
    by (simp_all add: devices_ok_def)
  have vdc: "devices_ok (snd (clock_vdc h))" if "devices_ok (snd h)" for h :: "'a host"
  proof -
    let ?h = "(fst h, (snd h)\<lparr>vdc_ticks := vdc_ticks (snd h) + vdc_clock_rate (snd h) - cpc_clock (snd h)\<rparr>)"
    have d: "devices_ok (snd ?h)" using that by (simp add: ticks)
    then have "devices_ok (snd (snd (vdc_clock board_vdc (b_vdc (snd ?h), ?h))))"
      using vdc_devices.clock_keeps [of "(b_vdc (snd ?h), ?h)"] by (simp add: keeps_devices_def)
    moreover have "vdc_ok (fst (vdc_clock board_vdc (b_vdc (snd ?h), ?h)))"
      using d by (simp add: devices_ok_def board_vdc_clock_ok)
    ultimately show ?thesis
      using that by (simp add: clock_vdc_def Let_def on_others_devices ticks)
  qed
  have cpu: "devices_ok (snd (clock_cpu L s h))" if "devices_ok (snd h)" for h :: "'a host"
    using that cpu_devices.clock_machine_rel [of "\<lparr>cpu_st = fst h, stk = s h, bus = (snd h)
       \<lparr>cpu_ticks := cpu_ticks (snd h) + cpu_clock (snd h) - cpc_clock (snd h)\<rparr>\<rparr>" L]
    by (simp add: clock_cpu_def Let_def clock_def devices_rel_def ticks)
  have psg: "devices_ok (snd (clock_psg h))" "devices_ok (snd (clock_snd h))" if "devices_ok (snd h)" for h :: "'a host"
    using that by (simp_all add: clock_psg_def clock_snd_def Let_def ticks)
  show ?thesis
    using assms unfolding emulate_tick_def by (intro psg cpu vdc) (simp add: ticks)
qed

text \<open>
  C8: the devices stay within their arrays while the machine runs.  After any number of ticks, with
  whatever the CPU writes to the ports in them, the pen, the inks, the line and the counters of the
  gate array are within their bounds, every register of the CRT controller is within its mask, and
  the keyboard has its sixteen lines.
\<close>

theorem ticks_keep_devices:
  assumes "devices_ok (snd h)"
  shows "devices_ok (snd ((emulate_tick L s ^^ n) h))"
  using assms by (induction n) (simp_all add: emulate_tick_devices)

theorem ticks_keep_devices_witness:
  "devices_ok (snd ((emulate_tick bench_lib (\<lambda>_. zero_stack) ^^ 80000) (zero_state, bench_board)))"
  using ticks_keep_devices [where h = "(zero_state, bench_board)"] bench_board_ok(3) by simp

section \<open>A frame\<close>

text \<open>
  A board on which a frame can be emulated: the memory is mapped, the emulation is not paused, the
  accumulator holds less than one step, and the accumulator cannot overflow.
\<close>

definition frame_ready :: "'d board \<Rightarrow> bool" where
  "frame_ready b \<longleftrightarrow> pal_ok b \<and> cpc_flags b AND FLAG_PAUSE = 0 \<and> cpc_ticks b < frame_rate b \<and>
     unat (cpc_clock b) + unat (frame_rate b) < 2 ^ 32"

lemma ticks_run:
  assumes "pal_ok (snd h)"
  shows "runs ((snd h)\<lparr>cpc_ticks := cpc_ticks (snd h) + of_nat n * frame_rate (snd h)\<rparr>) (snd ((emulate_tick L s ^^ n) h))"
proof (induction n)
  case 0
  then show ?case using assms by (simp add: runs_def)
next
  case (Suc n)
  then have "pal_ok (snd ((emulate_tick L s ^^ n) h))" by (simp add: runs_def)
  from emulate_tick_runs [OF this, of L s] Suc show ?case
    by (simp add: runs_def algebra_simps)
qed

lemma rounded_up:
  fixes t r k :: nat
  assumes "t < r"
  shows "k \<le> t + (k - t + r - 1) div r * r" "t + (k - t + r - 1) div r * r < k + r"
proof -
  define x where "x = (k - t + r - 1) div r * r"
  have "k - t + r - 1 = x + (k - t + r - 1) mod r" by (simp add: x_def)
  moreover have "(k - t + r - 1) mod r < r" using assms by simp
  ultimately have "x \<le> k - t + r - 1" "k - t \<le> x" using assms by linarith+
  moreover have "k < t \<Longrightarrow> x = 0" using assms by (simp add: x_def)
  ultimately show "k \<le> t + (k - t + r - 1) div r * r" "t + (k - t + r - 1) div r * r < k + r"
    using assms unfolding x_def [symmetric] by linarith+
qed

text \<open>
  C6: the emulation of one frame returns.  On a board that is ready for a frame, \<^verbatim>\<open>clock()\<close>
  runs exactly as many ticks as the clock has left in units of the frame rate, rounded up, then
  subtracts the clock from the accumulator and returns; the board is ready for the next frame.
\<close>

theorem frame_returns:
  assumes "frame_ready b"
    and "n = (unat (cpc_clock b) - unat (cpc_ticks b) + unat (frame_rate b) - 1) div unat (frame_rate b)"
  shows "\<exists>c' b'. (emulate_tick L s ^^ n) (c, b) = (c', b') \<and>
    board_clock L s (c, b) = Some (c', b'\<lparr>cpc_ticks := cpc_ticks b' - cpc_clock b'\<rparr>) \<and>
    frame_ready (b'\<lparr>cpc_ticks := cpc_ticks b' - cpc_clock b'\<rparr>)"
proof -
  let ?t = "unat (cpc_ticks b)" and ?r = "unat (frame_rate b)" and ?k = "unat (cpc_clock b)"
  obtain c' b' where h: "(emulate_tick L s ^^ n) (c, b) = (c', b')" by (cases "(emulate_tick L s ^^ n) (c, b)")
  have t: "?t < ?r" using assms(1) by (simp add: frame_ready_def word_less_nat_alt)
  have "frame_ticks b = n" using assms(2) by (simp add: frame_ticks_def)
  then have "emulate_loop L s (c, b) = Some (c', b')"
    using emulate_loop_runs [of "(c, b)" n L s] assms(1) t by (simp add: frame_ready_def h)
  moreover have r: "runs (b\<lparr>cpc_ticks := cpc_ticks b + of_nat n * frame_rate b\<rparr>) b'"
    using ticks_run [of "(c, b)" n L s] assms(1) by (simp add: frame_ready_def h)
  moreover have "unat (cpc_ticks b + of_nat n * frame_rate b - cpc_clock b) < ?r"
  proof -
    note up = rounded_up [OF t, of ?k, folded assms(2)]
    have lt: "?t + n * ?r < 2 ^ 32" using up(2) assms(1) by (simp add: frame_ready_def)
    then have "cpc_ticks b + of_nat n * frame_rate b = of_nat (?t + n * ?r)" by simp
    moreover have "unat (of_nat (?t + n * ?r) :: u32) = ?t + n * ?r"
      using lt by (simp add: unat_of_nat del: of_nat_add of_nat_mult)
    ultimately have u: "unat (cpc_ticks b + of_nat n * frame_rate b) = ?t + n * ?r" by (simp only:)
    have "cpc_clock b \<le> cpc_ticks b + of_nat n * frame_rate b" using up(1) by (simp only: word_le_nat_alt u)
    from unat_sub [OF this] show ?thesis unfolding u using up by linarith
  qed
  ultimately show ?thesis
    using assms(1) h by (simp add: board_clock_def frame_ready_def runs_def word_less_nat_alt)
qed

lemma bench_frame_ready: "frame_ready bench_board"
  using bench_board_ok(1) by (simp add: frame_ready_def)

theorem frame_returns_witness:
  "\<exists>c' b'. (emulate_tick bench_lib (\<lambda>_. zero_stack) ^^ 80000) (zero_state, bench_board) = (c', b') \<and>
     board_clock bench_lib (\<lambda>_. zero_stack) (zero_state, bench_board) =
       Some (c', b'\<lparr>cpc_ticks := cpc_ticks b' - cpc_clock b'\<rparr>)"
  using frame_returns [OF bench_frame_ready, of 80000 bench_lib "\<lambda>_. zero_stack" zero_state] by auto

section \<open>Memory as programs see it\<close>

text \<open>
  C25: PUSH and POP on the banked memory.  If the two addresses below the stack pointer show RAM, a
  register pair that is pushed is what the next POP loads, into whatever pair, and the stack pointer
  is back where it was.
\<close>

theorem board_push_pop:
  assumes "banked_ok (bus m)" and "fst r \<notin> {R0, SP}" and "fst q \<notin> {R0, SP}"
    and "board_writable (bus m) (get16 SP_W m - 2)" and "board_writable (bus m) (get16 SP_W m - 1)"
  shows "get16 q (m_pop_r16 (board_cpu L) q (m_push_r16 (board_cpu L) r m)) = get16 r m \<and>
    get16 SP_W (m_pop_r16 (board_cpu L) q (m_push_r16 (board_cpu L) r m)) = get16 SP_W m"
  using board_memory.push_pop [OF assms] by simp

definition bench_machine :: "unit board machine" where
  "bench_machine = \<lparr>cpu_st = zero_state
     \<lparr>r_sp := zero_register\<lparr>b_h := 0x80\<rparr>, r_bc := zero_register\<lparr>b_l := 3\<rparr>,
      r_de := zero_register\<lparr>b_h := 0x50\<rparr>, r_hl := zero_register\<rparr>,
     stk = zero_stack, bus = bench_board\<rparr>"

theorem board_push_pop_witness:
  "get16 HL_W (m_pop_r16 (board_cpu bench_lib) HL_W (m_push_r16 (board_cpu bench_lib) BC_W bench_machine)) = 3"
proof -
  have "bus bench_machine = bench_board" by (simp add: bench_machine_def)
  moreover have "get16 SP_W bench_machine = 0x8000" "get16 BC_W bench_machine = 3"
    by (simp_all add: bench_machine_def get16_def zero_state_def w_l_def zero_register_def)
  moreover have "board_writable bench_board 0x7ffe" "board_writable bench_board 0x7fff"
    by (simp_all add: board_writable_def mem_bank_def bench_pal)
  ultimately show ?thesis
    using board_push_pop [of bench_machine BC_W HL_W bench_lib] bench_board_ok(2) by simp
qed

text \<open>
  C17: LDIR is a copy in ascending order.  \<open>n\<close> executions of the block instruction on a banked
  memory whose targets show RAM leave what the reference copy \<open>copy_bytes\<close> leaves at every address,
  and move HL, DE and BC along by \<open>n\<close>.  When no target is read later as a source, every target
  holds the byte its source had before.
\<close>

theorem board_ldir_copies:
  assumes "banked_ok (bus m)" and "\<And>k. k < n \<Longrightarrow> board_writable (bus m) (get16 DE_W m + of_nat k)"
    and "m' = (m_ldir (board_cpu L) ^^ n) m"
  shows "board_byte (bus m') = copy_bytes n (get16 HL_W m) (get16 DE_W m) (board_byte (bus m)) \<and>
    get16 HL_W m' = get16 HL_W m + of_nat n \<and> get16 DE_W m' = get16 DE_W m + of_nat n \<and>
    get16 BC_W m' = get16 BC_W m - of_nat n \<and>
    (n \<le> 2 ^ 16 \<longrightarrow> (\<forall>j k. j < k \<longrightarrow> k < n \<longrightarrow> get16 DE_W m + of_nat j \<noteq> get16 HL_W m + of_nat k) \<longrightarrow>
      (\<forall>i < n. board_byte (bus m') (get16 DE_W m + of_nat i) = board_byte (bus m) (get16 HL_W m + of_nat i)))"
  using board_memory.ldir_run [OF assms(1,2), where L = L and n = n] assms(3) by (auto simp: copy_bytes_target)

theorem board_ldir_copies_witness:
  "board_byte (bus ((m_ldir (board_cpu bench_lib) ^^ 3) bench_machine)) 0x5002 = 0x3c"
proof -
  have "bus bench_machine = bench_board" by (simp add: bench_machine_def)
  moreover have "get16 DE_W bench_machine = 0x5000" "get16 HL_W bench_machine = 0"
    by (simp_all add: bench_machine_def get16_def zero_state_def w_l_def zero_register_def)
  moreover have "board_writable bench_board (0x5000 + of_nat k)" if "k < 3" for k
  proof -
    have "k = 0 \<or> k = 1 \<or> k = 2" using that by auto
    then show ?thesis by (auto simp: board_writable_def mem_bank_def bench_pal)
  qed
  moreover have "board_byte bench_board 2 = 0x3c"
    by (simp add: board_byte_def mem_bank_def bench_pal bank_byte_def raw_board_def)
  moreover have "(0x5000 :: u16) + of_nat j \<noteq> of_nat k" if "j < k" "k < 3" for j k
  proof -
    have "(j = 0 \<or> j = 1) \<and> (k = 1 \<or> k = 2)" using that by auto
    then show ?thesis by auto
  qed
  ultimately show ?thesis
    using board_ldir_copies [of bench_machine 3 _ bench_lib, OF _ _ refl] bench_board_ok(2)
    by (simp only:) (auto dest: spec [of _ 2])
qed

text \<open>
  A write beneath a ROM.  A byte written to an address that shows a ROM changes nothing the CPU
  can read now; when the ROM is switched off, the byte is there.
\<close>

theorem write_beneath_rom:
  assumes "banked_ok b" and "\<not> board_writable b a"
    and "pal_wr b (mem_bank a) = RAM k"
  shows "\<exists>x b'. cpu_mreq_wr (board_cpu L) a d (c, b) = (x, c, b') \<and> board_byte b' = board_byte b \<and>
    (\<forall>b''. b_ram b'' = b_ram b' \<longrightarrow> pal_rd b'' (mem_bank a) = RAM k \<longrightarrow> board_byte b'' a = d)"
proof -
  obtain x where w: "cpu_mreq_wr (board_cpu L) a d (c, b) = (x, c, board_store a d b)"
    using board_memory.write_mem [OF assms(1), of L a d c] by blast
  have "board_byte (board_store a d b) = board_byte b"
    using assms by (simp add: board_byte_store)
  moreover have "b_ram (board_store a d b) k = poke (mem_offset a) d (b_ram b k)"
    using assms(3) by (simp add: board_store_def bank_write_def)
  ultimately show ?thesis
    using w by (auto simp: board_byte_def bank_byte_def poke_def)
qed

theorem write_beneath_rom_witness:
  "\<exists>x b'. cpu_mreq_wr (board_cpu bench_lib) 0x0038 0xc9 (zero_state, bench_board) = (x, zero_state, b') \<and>
     board_byte b' = board_byte bench_board"
  using write_beneath_rom [OF bench_board_ok(2), of "0x0038" 0 bench_lib "0xc9" zero_state]
  by (auto simp: board_writable_def mem_bank_def bench_pal)

section \<open>An unsupported RAM configuration\<close>

text \<open>A write of the CPU to the gate array.\<close>

abbreviation vga_out :: "u8 \<Rightarrow> 'd host \<Rightarrow> 'd host" where
  "vga_out x h \<equiv> snd (on_vga (vga_set_value board_vga x) h)"

lemma vga_out_ram:
  assumes "drop_bit 6 x AND 3 = 3"
  shows "vga_out x (c, b) = (c, update_pal (b\<lparr>ram_conf := x AND 0x3f\<rparr>))"
  using assms by (simp add: on_vga_def vga_set_value_def Let_def board_vga_def vga_setup_ram_def)

lemma vga_out_rmr:
  assumes "drop_bit 6 x AND 3 = 2"
  shows "\<exists>s. rmr s = x AND 0x1f \<and> vga_out x (c, b) = (c, update_pal (b\<lparr>b_vga := s\<rparr>))"
  using assms by (auto simp: on_vga_def vga_set_value_def Let_def board_vga_def vga_setup_rmr_def
      intro: exI [of _ "(b_vga b)\<lparr>rmr := x AND 0x1f\<rparr>"] exI [of _ "(b_vga b)\<lparr>rmr := x AND 0x1f, r52 := 0\<rparr>"])

lemma pal_ram_unsupported:
  assumes "large_memory b" and "8 \<le> ram_conf b AND 0x3f"
  shows "pal_ram b = b"
  using assms by (auto simp: pal_ram_def ram_banks_def word_le_nat_alt)

lemma lower_rom_stays:
  assumes "pal_ram b = b" and "pal_rd b 0 = ROM 0"
  shows "pal_rd (update_pal b) 0 = ROM 0"
  using assms by (auto simp: update_pal_def pal_lower_def pal_upper_def Let_def)

text \<open>
  C34: a RAM configuration above 7 freezes the mapping.  On a machine with 128 KiB or more, after the
  CPU has written such a configuration while the lower ROM was visible, the lower ROM stays visible
  whatever the CPU writes to the mode and ROM register, the bit that switches it off included.
\<close>

theorem unsupported_conf_keeps_lower_rom:
  assumes "large_memory b" and "pal_rd b 0 = ROM 0"
    and "drop_bit 6 x AND 3 = 3" and "8 \<le> x AND 0x3f"
    and "drop_bit 6 y AND 3 = 2" and "y AND 0x04 \<noteq> 0"
  shows "\<exists>b'. vga_out y (vga_out x (c, b)) = (c, b') \<and> pal_rd b' 0 = ROM 0 \<and> rmr (b_vga b') AND 0x04 \<noteq> 0"
proof -
  let ?b1 = "update_pal (b\<lparr>ram_conf := x AND 0x3f\<rparr>)"
  have b1: "pal_rd ?b1 0 = ROM 0"
    using assms(1,2,4) by (simp add: lower_rom_stays pal_ram_unsupported and.assoc)
  obtain s where s: "rmr s = y AND 0x1f" "vga_out y (c, ?b1) = (c, update_pal (?b1\<lparr>b_vga := s\<rparr>))"
    using vga_out_rmr [OF assms(5)] by blast
  have "pal_rd (update_pal (?b1\<lparr>b_vga := s\<rparr>)) 0 = ROM 0"
    by (rule lower_rom_stays) (use b1 assms(1,4) in \<open>simp_all add: pal_ram_unsupported and.assoc\<close>)
  moreover have "(y AND 0x1f) AND 0x04 \<noteq> 0" using assms(6) by (simp add: and.assoc)
  ultimately show ?thesis
    using s by (simp add: vga_out_ram [OF assms(3)])
qed

theorem unsupported_conf_keeps_lower_rom_witness:
  "\<exists>b'. vga_out 0x8f (vga_out 0xc8 (zero_state, update_pal (raw_board 0x20000))) = (zero_state, b') \<and> pal_rd b' 0 = ROM 0"
proof -
  have "large_memory (update_pal (raw_board 0x20000))" "pal_rd (update_pal (raw_board 0x20000)) 0 = ROM 0"
    by (simp_all, simp add: large_memory_def raw_board_def) (simp add: update_pal_def pal_ram_def large_memory_def ram_banks_def pal_lower_def pal_upper_def map_ram_def Let_def raw_board_def
        bench_vga_def)
  then show ?thesis
    using unsupported_conf_keeps_lower_rom [of "update_pal (raw_board 0x20000)" "0xc8" "0x8f" zero_state] by auto
qed

section \<open>Expansion ROMs\<close>

lemma load_slots_all:
  assumes "is_set (ex ! 7)" and "index \<le> 256"
  shows "b_exp (load_slots r fs ex (map of_nat [index..<256]) index b) i =
    (if unat i < index then b_exp b i
     else if unat i < 16 \<and> is_set (ex ! unat i) then b_exp (load_expansion r fs (ex ! unat i) i b) i else None)"
  using assms(2)
proof (induction arbitrary: b rule: inc_induct)
  case base
  then show ?case using unsigned_less [of i] by simp
next
  case (step n)
  define b' where "b' = (if n < 16 \<and> is_set (ex ! n) then load_expansion r fs (ex ! n) (of_nat n) b
      else b\<lparr>b_exp := (b_exp b)(of_nat n := None)\<rparr>)"
  have n: "unat (of_nat n :: u8) = n" using step.hyps by (simp add: unat_of_nat)
  have "load_slots r fs ex (map of_nat [n..<256]) n b = load_slots r fs ex (map of_nat [Suc n..<256]) (Suc n) b'"
  proof -
    have "\<not> is_set ''''" by (simp add: is_set_def)
    moreover have "[n..<256] = n # [Suc n..<256]" using step.hyps(2) by (rule upt_conv_Cons)
    ultimately show ?thesis using assms(1) by (cases "n = 7"; cases "n < 16") (simp_all add: b'_def Let_def)
  qed
  moreover have "b_exp b' i = b_exp b i" if "unat i \<noteq> n"
    using that n by (auto simp: b'_def load_expansion_other)
  moreover have "of_nat (unat i) = i" by simp
  moreover have "b_exp (load_expansion r fs f i b') i = b_exp (load_expansion r fs f i b) i" if "unat i \<noteq> n" for f
    using that n by (auto simp: b'_def load_expansion_def Let_def)
  ultimately show ?case
    using step.IH [of b'] n by (cases "unat i = n") (auto simp: b'_def)
qed

text \<open>
  C30: when all slots are visited (slot 7 is set), loading the expansion ROMs leaves in each of the
  first sixteen slots that is set a bank into which its file has been read, and removes every other
  slot.
\<close>

theorem expansion_roms_loaded:
  assumes "is_set (ex ! 7)"
  shows "b_exp (load_expansions_roms dir fs ex b) i =
    (if unat i < 16 \<and> is_set (ex ! unat i)
     then Some (snd (mem_load (rom_path dir (ex ! unat i)) 0 fs
            (case b_exp b i of Some m \<Rightarrow> m | None \<Rightarrow> \<lparr>mem_type = ROM_BANK, mem_data = \<lambda>_. 0\<rparr>)))
     else None)"
  using load_slots_all [OF assms, of 0 dir fs b i] by (simp add: load_expansions_roms_def load_expansion_def Let_def)

definition one_expansion :: "string list" where
  "one_expansion = (replicate 16 '''')[7 := ''AMSDOS.ROM'']"

theorem expansion_roms_loaded_witness:
  "b_exp (load_expansions_roms ''roms'' Map.empty one_expansion bench_board) 7 = Some \<lparr>mem_type = ROM_BANK, mem_data = \<lambda>_. 0x01\<rparr> \<and>
   b_exp (load_expansions_roms ''roms'' Map.empty one_expansion bench_board) 8 = None"
proof -
  have s: "is_set (one_expansion ! 7)" "\<not> is_set (one_expansion ! 8)" "unat (7 :: u8) = 7" "unat (8 :: u8) = 8"
    by (simp_all add: one_expansion_def is_set_def)
  show ?thesis
    using s(1) unfolding expansion_roms_loaded [OF s(1), where dir = "''roms''" and fs = Map.empty and b = bench_board] s(3,4)
    by (simp add: s(2) mem_load_def fopen_read_def raw_board_def)
qed

text \<open>
  An unset slot 7 stops the loading.  When no ROM is configured for slot 7, the loop skips that
  slot without counting it, so every later slot is skipped as well: whatever the configuration says
  of the slots 8 to 15, the slots from 7 on keep what they held before.
\<close>

theorem unset_slot_7_stops_loading:
  assumes "\<not> is_set (ex ! 7)" and "7 \<le> i"
  shows "b_exp (load_expansions_roms dir fs ex b) i = b_exp b i"
proof -
  have split: "map of_nat [0..<256] = map of_nat [0..<7] @ (map of_nat [7..<256] :: u8 list)"
    using upt_add_eq_append [of 0 7 249] by simp
  have "\<forall>e \<in> set (map of_nat [0..<7] :: u8 list). e < 7"
    by (auto simp: word_less_nat_alt unat_of_nat)
  then obtain b' where "load_expansions_roms dir fs ex b = load_slots dir fs ex (map of_nat [7..<256]) 7 b'"
    "\<forall>i \<ge> 7. b_exp b' i = b_exp b i"
    using load_slots_low [of 0 "map of_nat [0..<7]" dir fs ex "map of_nat [7..<256]" b]
    by (auto simp: load_expansions_roms_def split)
  then show ?thesis using assms load_slots_stuck [of ex dir fs] by simp
qed

theorem unset_slot_7_stops_loading_witness:
  "b_exp (load_expansions_roms ''roms'' Map.empty ((replicate 16 '''')[8 := ''ROM8.ROM'']) bench_board) 8 = None"
  using unset_slot_7_stops_loading [of "(replicate 16 '''')[8 := ''ROM8.ROM'']" 8 "''roms''" Map.empty bench_board]
  by (simp add: is_set_def raw_board_def)

section \<open>The time of an instruction\<close>

text \<open>
  C19: an instruction on the board takes from 4 to 96 T-states.  At an instruction boundary outside
  interrupt mode 3, one clock leaves a period of 3 to 95 clocks, counted in 32 bits without wrapping,
  whatever devices the instruction reaches; so the next boundary comes after that many further clocks,
  in which nothing but the period changes.
\<close>

theorem instruction_time:
  assumes "i_period (cpu_st m) = 0" and "m_interrupt_mode m < 3"
    and "m1 = clock_machine (board_cpu L) m"
  shows "\<exists>k. 3 \<le> k \<and> k \<le> 95 \<and> unat (i_period (cpu_st m1)) = k \<and>
    (\<forall>j \<le> k. (clock_machine (board_cpu L) ^^ j) m1 = m1\<lparr>cpu_st := (cpu_st m1)\<lparr>i_period := of_nat (k - j)\<rparr>\<rparr>)"
proof -
  let ?k = "unat (i_period (cpu_st m1))"
  have "i_period (cpu_st m1) - of_nat j = of_nat (?k - j)" if "j \<le> ?k" for j
    using that by (simp add: of_nat_diff)
  then show ?thesis
    using board_time.clock_machine_time [OF assms(1,2), of L] clock_machine_idle [of _ m1 "board_cpu L"]
    by (auto simp: assms(3))
qed

theorem instruction_time_witness:
  "\<exists>k \<le> 95. unat (i_period (cpu_st (clock_machine (board_cpu bench_lib) bench_machine))) = k \<and> 3 \<le> k"
proof -
  have "i_period (cpu_st bench_machine) = 0" "m_interrupt_mode bench_machine < 3"
    by (simp_all add: bench_machine_def m_interrupt_mode_def get8_def zero_state_def zero_register_def)
  from instruction_time [OF this refl, of bench_lib] show ?thesis by auto
qed

end
