(* ===== verification/SNA_Format.thy ===== *)
theory SNA_Format
  imports Host_C
begin

text \<open>
  Snapshot files (\<^verbatim>\<open>lib/xcpc/formats/sna/sna-format.h\<close> and \<^verbatim>\<open>sna-format.cc\<close>): the header of 256
  bytes and the 32 memory pages, the checks of the header, the reader and the writer with the
  exceptions they throw.  The numbered fields of the header (\<^verbatim>\<open>vga_ink_00\<close> to
  \<^verbatim>\<open>vga_ink_16\<close>, the VDC and the PSG registers) are lists.  A page is a function of the address,
  of which the first 16384 values count.
\<close>

unbundle bit_operations_syntax

section \<open>Data\<close>

record sna_header =
  sna_signature :: "u8 list"
  sna_reserved :: "u8 list"
  sna_version :: u8
  cpu_p_af_l :: u8
  cpu_p_af_h :: u8
  cpu_p_bc_l :: u8
  cpu_p_bc_h :: u8
  cpu_p_de_l :: u8
  cpu_p_de_h :: u8
  cpu_p_hl_l :: u8
  cpu_p_hl_h :: u8
  cpu_p_ir_l :: u8
  cpu_p_ir_h :: u8
  cpu_p_iff1 :: u8
  cpu_p_iff2 :: u8
  cpu_p_ix_l :: u8
  cpu_p_ix_h :: u8
  cpu_p_iy_l :: u8
  cpu_p_iy_h :: u8
  cpu_p_sp_l :: u8
  cpu_p_sp_h :: u8
  cpu_p_pc_l :: u8
  cpu_p_pc_h :: u8
  cpu_p_im_l :: u8
  cpu_a_af_l :: u8
  cpu_a_af_h :: u8
  cpu_a_bc_l :: u8
  cpu_a_bc_h :: u8
  cpu_a_de_l :: u8
  cpu_a_de_h :: u8
  cpu_a_hl_l :: u8
  cpu_a_hl_h :: u8
  vga_ink_ix :: u8
  vga_ink :: "u8 list"
  vga_config :: u8
  ram_select :: u8
  vdc_reg_ix :: u8
  vdc_reg :: "u8 list"
  rom_select :: u8
  sna_ppi_port_a :: u8
  sna_ppi_port_b :: u8
  sna_ppi_port_c :: u8
  sna_ppi_ctrl_p :: u8
  psg_reg_ix :: u8
  psg_reg :: "u8 list"
  ram_size_l :: u8
  ram_size_h :: u8
  sna_padding :: "u8 list"

record sna_state =
  sna_head :: sna_header
  sna_memory :: "(u16 \<Rightarrow> u8) list"


text \<open>The bytes of the structure, in the order of its fields, and back.\<close>

definition header_bytes :: "sna_header \<Rightarrow> u8 list" where
  "header_bytes hdr =
     sna_signature hdr @
     sna_reserved hdr @
     [sna_version hdr, cpu_p_af_l hdr, cpu_p_af_h hdr, cpu_p_bc_l hdr, cpu_p_bc_h hdr, cpu_p_de_l hdr,
      cpu_p_de_h hdr, cpu_p_hl_l hdr, cpu_p_hl_h hdr, cpu_p_ir_l hdr, cpu_p_ir_h hdr, cpu_p_iff1 hdr,
      cpu_p_iff2 hdr, cpu_p_ix_l hdr, cpu_p_ix_h hdr, cpu_p_iy_l hdr, cpu_p_iy_h hdr, cpu_p_sp_l hdr,
      cpu_p_sp_h hdr, cpu_p_pc_l hdr, cpu_p_pc_h hdr, cpu_p_im_l hdr, cpu_a_af_l hdr, cpu_a_af_h hdr,
      cpu_a_bc_l hdr, cpu_a_bc_h hdr, cpu_a_de_l hdr, cpu_a_de_h hdr, cpu_a_hl_l hdr, cpu_a_hl_h hdr,
      vga_ink_ix hdr] @
     vga_ink hdr @
     [vga_config hdr, ram_select hdr, vdc_reg_ix hdr] @
     vdc_reg hdr @
     [rom_select hdr, sna_ppi_port_a hdr, sna_ppi_port_b hdr, sna_ppi_port_c hdr, sna_ppi_ctrl_p hdr, psg_reg_ix hdr] @
     psg_reg hdr @
     [ram_size_l hdr, ram_size_h hdr] @
     sna_padding hdr"

definition header_of_bytes :: "u8 list \<Rightarrow> sna_header" where
  "header_of_bytes bs =
    \<lparr>sna_signature = take 8 bs, sna_reserved = take 8 (drop 8 bs), sna_version = bs ! 16,
     cpu_p_af_l = bs ! 17, cpu_p_af_h = bs ! 18, cpu_p_bc_l = bs ! 19,
     cpu_p_bc_h = bs ! 20, cpu_p_de_l = bs ! 21, cpu_p_de_h = bs ! 22,
     cpu_p_hl_l = bs ! 23, cpu_p_hl_h = bs ! 24, cpu_p_ir_l = bs ! 25,
     cpu_p_ir_h = bs ! 26, cpu_p_iff1 = bs ! 27, cpu_p_iff2 = bs ! 28,
     cpu_p_ix_l = bs ! 29, cpu_p_ix_h = bs ! 30, cpu_p_iy_l = bs ! 31,
     cpu_p_iy_h = bs ! 32, cpu_p_sp_l = bs ! 33, cpu_p_sp_h = bs ! 34,
     cpu_p_pc_l = bs ! 35, cpu_p_pc_h = bs ! 36, cpu_p_im_l = bs ! 37,
     cpu_a_af_l = bs ! 38, cpu_a_af_h = bs ! 39, cpu_a_bc_l = bs ! 40,
     cpu_a_bc_h = bs ! 41, cpu_a_de_l = bs ! 42, cpu_a_de_h = bs ! 43,
     cpu_a_hl_l = bs ! 44, cpu_a_hl_h = bs ! 45, vga_ink_ix = bs ! 46,
     vga_ink = take 17 (drop 47 bs), vga_config = bs ! 64, ram_select = bs ! 65,
     vdc_reg_ix = bs ! 66, vdc_reg = take 18 (drop 67 bs), rom_select = bs ! 85,
     sna_ppi_port_a = bs ! 86, sna_ppi_port_b = bs ! 87, sna_ppi_port_c = bs ! 88,
     sna_ppi_ctrl_p = bs ! 89, psg_reg_ix = bs ! 90, psg_reg = take 16 (drop 91 bs),
     ram_size_l = bs ! 107, ram_size_h = bs ! 108, sna_padding = drop 109 bs\<rparr>"

abbreviation header_size :: nat where "header_size \<equiv> 256"
abbreviation page_size :: nat where "page_size \<equiv> 16384"

definition page_bytes :: "(u16 \<Rightarrow> u8) \<Rightarrow> u8 list" where
  "page_bytes m = map (\<lambda>i. m (of_nat i)) [0..<page_size]"

text \<open>What \<^verbatim>\<open>fread\<close> leaves in the header and in a page, when it got the bytes \<open>xs\<close>.\<close>

definition put_header :: "u8 list \<Rightarrow> sna_header \<Rightarrow> sna_header" where
  "put_header xs hdr = header_of_bytes (overwrite (header_bytes hdr) 0 xs)"

definition put_page :: "u8 list \<Rightarrow> (u16 \<Rightarrow> u8) \<Rightarrow> (u16 \<Rightarrow> u8)" where
  "put_page xs m = (\<lambda>a. if unat a < length xs then xs ! unat a else m a)"

section \<open>Construction and checks\<close>

text \<open>The characters of \<open>MV - SNA\<close>.\<close>

definition signature :: "u8 list" where
  "signature = [0x4D, 0x56, 0x20, 0x2D, 0x20, 0x53, 0x4E, 0x41]"

definition sna_construct :: sna_state where
  "sna_construct = \<lparr>sna_head = (header_of_bytes (replicate header_size 0))
     \<lparr>sna_signature := signature, sna_reserved := replicate 8 0, sna_version := 1\<rparr>,
     sna_memory = replicate 32 (\<lambda>a. 0)\<rparr>"

text \<open>A check that fails is the message of the exception.\<close>

definition sna_check :: "sna_header \<Rightarrow> string option" where
  "sna_check hdr =
     (if sna_signature hdr \<noteq> signature then Some ''bad signature''
      else if sna_version hdr \<noteq> 1 \<and> sna_version hdr \<noteq> 2 \<and> sna_version hdr \<noteq> 3 then Some ''bad version''
      else None)"

definition dump_size :: "sna_header \<Rightarrow> u64" where
  "dump_size hdr = push_bit 18 (ucast (ram_size_h hdr)) OR push_bit 10 (ucast (ram_size_l hdr))"

section \<open>The reader\<close>

text \<open>
  The exception, if one is thrown, and the snapshot, which keeps what was read before it.
\<close>

fun load_pages :: "u64 \<Rightarrow> FILE \<Rightarrow> file_system \<Rightarrow> (u16 \<Rightarrow> u8) list \<Rightarrow> string option \<times> (u16 \<Rightarrow> u8) list" where
  "load_pages remaining_bytes fp fs [] = (None, [])"
| "load_pages remaining_bytes fp fs (m # ms) =
     (if 16384 \<le> remaining_bytes then
        let (xs, fp) = fread page_size fp fs; m = put_page xs m in
        if length xs \<noteq> page_size then (Some ''unable to load snapshot memory'', m # ms)
        else let (e, ms) = load_pages (remaining_bytes - 16384) fp fs ms in (e, m # ms)
      else (None, m # ms))"

definition sna_load :: "string \<Rightarrow> file_system \<Rightarrow> sna_state \<Rightarrow> string option \<times> sna_state" where
  "sna_load filename fs sna = (case fopen_read filename fs of
     None \<Rightarrow> (Some ''unable to open snapshot for reading'', sna)
   | Some fp \<Rightarrow> (case sna_check (sna_head sna) of
       Some e \<Rightarrow> (Some e, sna)
     | None \<Rightarrow>
        let (xs, fp) = fread header_size fp fs; sna = sna\<lparr>sna_head := put_header xs (sna_head sna)\<rparr> in
        if length xs \<noteq> header_size then (Some ''unable to load snapshot header'', sna)
        else (case sna_check (sna_head sna) of
          Some e \<Rightarrow> (Some e, sna)
        | None \<Rightarrow> let (e, ms) = load_pages (dump_size (sna_head sna)) fp fs (sna_memory sna)
                  in (e, sna\<lparr>sna_memory := ms\<rparr>))))"

section \<open>The writer\<close>

fun save_pages :: "u64 \<Rightarrow> FILE \<Rightarrow> file_system \<Rightarrow> (u16 \<Rightarrow> u8) list \<Rightarrow> string option \<times> file_system" where
  "save_pages remaining_bytes fp fs [] = (None, fs)"
| "save_pages remaining_bytes fp fs (m # ms) =
     (if 16384 \<le> remaining_bytes then
        let (n, fp, fs) = fwrite (page_bytes m) fp fs in
        if n \<noteq> page_size then (Some ''unable to save snapshot memory'', fs)
        else save_pages (remaining_bytes - 16384) fp fs ms
      else (None, fs))"

definition sna_save :: "string \<Rightarrow> sna_state \<Rightarrow> file_system \<Rightarrow> string option \<times> file_system" where
  "sna_save filename sna fs = (case fopen_write filename fs of
     None \<Rightarrow> (Some ''unable to open snapshot for writing'', fs)
   | Some (fp, fs) \<Rightarrow> (case sna_check (sna_head sna) of
       Some e \<Rightarrow> (Some e, fs)
     | None \<Rightarrow>
        let (n, fp, fs) = fwrite (header_bytes (sna_head sna)) fp fs in
        if n \<noteq> header_size then (Some ''unable to save snapshot header'', fs)
        else (case sna_check (sna_head sna) of
          Some e \<Rightarrow> (Some e, fs)
        | None \<Rightarrow> save_pages (dump_size (sna_head sna)) fp fs (sna_memory sna))))"

section \<open>The layout of the header\<close>

definition header_ok :: "sna_header \<Rightarrow> bool" where
  "header_ok hdr \<longleftrightarrow> length (sna_signature hdr) = 8 \<and> length (sna_reserved hdr) = 8 \<and> length (vga_ink hdr) = 17 \<and>
     length (vdc_reg hdr) = 18 \<and> length (psg_reg hdr) = 16 \<and> length (sna_padding hdr) = 147"

lemma length_header_bytes: "header_ok hdr \<Longrightarrow> length (header_bytes hdr) = 256"
  by (simp add: header_bytes_def header_ok_def)

lemma header_roundtrip:
  assumes "header_ok hdr"
  shows "header_of_bytes (header_bytes hdr) = hdr"
  using assms unfolding header_ok_def header_of_bytes_def header_bytes_def
  by (cases hdr) (simp add: nth_append)

lemma put_header_bytes:
  assumes "header_ok hdr" and "header_ok old"
  shows "put_header (header_bytes hdr) old = hdr"
  using assms by (simp add: put_header_def overwrite_def length_header_bytes header_roundtrip)

lemma length_page_bytes: "length (page_bytes m) = page_size"
  by (simp add: page_bytes_def)

lemma put_page_bytes: "unat a < page_size \<Longrightarrow> put_page (page_bytes m) old a = m a"
  by (simp add: put_page_def page_bytes_def)

section \<open>Writing a file and reading it back\<close>

text \<open>The pages of the snapshot that are in the file, and the pages after reading them.\<close>

fun filed_pages :: "u64 \<Rightarrow> (u16 \<Rightarrow> u8) list \<Rightarrow> (u16 \<Rightarrow> u8) list" where
  "filed_pages r [] = []"
| "filed_pages r (m # ms) = (if 16384 \<le> r then m # filed_pages (r - 16384) ms else [])"

fun read_pages :: "u64 \<Rightarrow> (u16 \<Rightarrow> u8) list \<Rightarrow> (u16 \<Rightarrow> u8) list \<Rightarrow> (u16 \<Rightarrow> u8) list" where
  "read_pages r (m # ms) (n # ns) =
     (if 16384 \<le> r then put_page (page_bytes m) n # read_pages (r - 16384) ms ns else n # ns)"
| "read_pages r ms ns = ns"

lemma length_read_pages [simp]: "length (read_pages r ms ns) = length ns"
  by (induction r ms ns rule: read_pages.induct) auto

lemma fwrite_append:
  assumes "fs (fp_name fp) = Some e" and "fp_update fp" and "fp_pos fp = length (f_bytes e)"
  shows "fwrite xs fp fs = (length xs, fp\<lparr>fp_pos := length (f_bytes e @ xs)\<rparr>,
    fs(fp_name fp \<mapsto> e\<lparr>f_bytes := f_bytes e @ xs\<rparr>))"
  using assms by (simp add: fwrite_def overwrite_def)

lemma fread_next:
  assumes "file_bytes (fp_name fp) fs = pre @ xs @ post" and "fp_pos fp = length pre"
  shows "fread (length xs) fp fs = (xs, fp\<lparr>fp_pos := length (pre @ xs)\<rparr>)"
  using assms by (simp add: fread_def Let_def)

lemma save_pages_append:
  assumes "fs (fp_name fp) = Some e" and "fp_update fp" and "fp_pos fp = length (f_bytes e)"
  shows "save_pages r fp fs ms =
    (None, fs(fp_name fp \<mapsto> e\<lparr>f_bytes := f_bytes e @ concat (map page_bytes (filed_pages r ms))\<rparr>))"
  using assms
proof (induction ms arbitrary: r fp fs e)
  case Nil
  then show ?case by (simp add: fun_upd_idem)
next
  case (Cons m ms)
  show ?case
  proof (cases "16384 \<le> r")
    case True
    show ?thesis
      using True Cons.prems(2)
      by (simp add: fwrite_append [of fs fp, OF Cons.prems] length_page_bytes
          Cons.IH [where e = "e\<lparr>f_bytes := f_bytes e @ page_bytes m\<rparr>"] fun_eq_iff)
  next
    case False
    then show ?thesis using Cons.prems(1) by (simp add: fun_upd_idem)
  qed
qed

lemma load_pages_next:
  assumes "file_bytes (fp_name fp) fs = pre @ concat (map page_bytes (filed_pages r ms))"
    and "fp_pos fp = length pre" and "length ns = length ms"
  shows "load_pages r fp fs ns = (None, read_pages r ms ns)"
  using assms
proof (induction ms arbitrary: r fp pre ns)
  case Nil
  then show ?case by simp
next
  case (Cons m ms)
  obtain n ns' where ns: "ns = n # ns'" "length ns' = length ms"
    using Cons.prems(3) by (cases ns) auto
  show ?case
  proof (cases "16384 \<le> r")
    case True
    have "fread page_size fp fs = (page_bytes m, fp\<lparr>fp_pos := length (pre @ page_bytes m)\<rparr>)"
      using fread_next [of fp fs pre "page_bytes m"] Cons.prems(1,2) True by (simp add: length_page_bytes)
    moreover have "load_pages (r - 16384) (fp\<lparr>fp_pos := length (pre @ page_bytes m)\<rparr>) fs ns' =
        (None, read_pages (r - 16384) ms ns')"
      by (rule Cons.IH [where pre = "pre @ page_bytes m"]) (use Cons.prems(1) True ns(2) in simp_all)
    ultimately show ?thesis
      using True by (simp add: ns(1) Let_def length_page_bytes)
  next
    case False
    then show ?thesis by (simp add: ns(1))
  qed
qed

lemma read_pages_nth:
  assumes "i < length ns" and "length ns = length ms" and "unat a < page_size"
  shows "(read_pages r ms ns ! i) a = (if i < unat r div page_size then (ms ! i) a else (ns ! i) a)"
  using assms
proof (induction r ms ns arbitrary: i rule: read_pages.induct)
  case (1 r m ms n ns)
  show ?case
  proof (cases "16384 \<le> r")
    case True
    have "unat (r - 16384) = unat r - page_size"
      using True by (simp add: unat_sub)
    moreover have "page_size \<le> unat r"
      using True by (simp add: word_le_nat_alt)
    ultimately have "unat (r - 16384) div page_size = unat r div page_size - 1" "1 \<le> unat r div page_size"
      by (simp_all add: le_div_geq)
    then show ?thesis
      using True 1 by (cases i) (auto simp: put_page_bytes)
  next
    case False
    then have "unat r div page_size = 0" by (simp add: word_le_nat_alt)
    then show ?thesis using False by simp
  qed
qed auto

lemma sna_save_load:
  assumes "fopen_write filename fs = Some (fp, fs0)"
    and "header_ok (sna_head s)" and "sna_check (sna_head s) = None"
    and "header_ok (sna_head t)" and "sna_check (sna_head t) = None"
    and "length (sna_memory t) = length (sna_memory s)"
  shows "\<exists>fs' mem. sna_save filename s fs = (None, fs') \<and>
    sna_load filename fs' t = (None, \<lparr>sna_head = sna_head s, sna_memory = mem\<rparr>) \<and>
    length mem = length (sna_memory t) \<and>
    (\<forall>i < length mem. \<forall>a. unat a < page_size \<longrightarrow> (mem ! i) a =
       (if i < unat (dump_size (sna_head s)) div page_size then (sna_memory s ! i) a else (sna_memory t ! i) a))"
proof -
  obtain e where fp: "fp = \<lparr>fp_name = filename, fp_pos = 0, fp_update = True\<rparr>" "fs0 filename = Some e" "f_bytes e = []"
    using assms(1) by (auto simp: fopen_write_def split: option.splits if_splits)
  define bs where "bs = header_bytes (sna_head s)"
  define r where "r = dump_size (sna_head s)"
  define pages where "pages = concat (map page_bytes (filed_pages r (sna_memory s)))"
  have len: "length bs = header_size" using assms(2) by (simp add: bs_def length_header_bytes)
  define fs' where "fs' = fs0(filename \<mapsto> e\<lparr>f_bytes := bs @ pages\<rparr>)"
  have "fwrite bs fp fs0 = (header_size, fp\<lparr>fp_pos := header_size\<rparr>, fs0(filename \<mapsto> e\<lparr>f_bytes := bs\<rparr>))"
    using fwrite_append [of fs0 fp e bs] fp len by simp
  moreover have "save_pages r (fp\<lparr>fp_pos := header_size\<rparr>) (fs0(filename \<mapsto> e\<lparr>f_bytes := bs\<rparr>)) (sna_memory s) = (None, fs')"
    by (subst save_pages_append [where e = "e\<lparr>f_bytes := bs\<rparr>"]) (simp_all add: fp len pages_def fs'_def)
  ultimately have save: "sna_save filename s fs = (None, fs')"
    using assms(1,3) by (simp add: sna_save_def flip: bs_def r_def)
  define fr where "fr = \<lparr>fp_name = filename, fp_pos = 0, fp_update = False\<rparr>"
  have ft: "file_bytes filename fs' = bs @ pages" "fopen_read filename fs' = Some fr"
    by (simp_all add: fs'_def file_bytes_def fopen_read_def fr_def)
  have "fread header_size fr fs' = (bs, fr\<lparr>fp_pos := header_size\<rparr>)"
    using fread_next [of fr fs' "[]" bs pages] ft len by (simp add: fr_def)
  moreover have "load_pages r (fr\<lparr>fp_pos := header_size\<rparr>) fs' (sna_memory t) =
      (None, read_pages r (sna_memory s) (sna_memory t))"
    by (rule load_pages_next [where pre = bs]) (use ft len assms(6) in \<open>simp_all add: fr_def pages_def\<close>)
  ultimately have "sna_load filename fs' t = (None, \<lparr>sna_head = sna_head s, sna_memory = read_pages r (sna_memory s) (sna_memory t)\<rparr>)"
    using assms(2-5) ft(2) len
    by (simp add: sna_load_def put_header_bytes Let_def r_def bs_def)
  then show ?thesis
    using save assms(6) by (auto simp: read_pages_nth r_def)
qed

text \<open>
  What the writer puts in a file the reader brings back.  If the file can be created and the
  snapshot has a well-formed header, saving succeeds; loading the file into any well-formed snapshot
  then succeeds with the saved header, with the saved contents in the pages that the memory size of
  the header covers and with the old contents in the other pages.
\<close>

theorem sna_file_roundtrip:
  assumes "fopen_write filename fs = Some (fp, fs0)"
    and "header_ok (sna_head s)" and "sna_check (sna_head s) = None"
    and "header_ok (sna_head t)" and "sna_check (sna_head t) = None"
    and "length (sna_memory t) = length (sna_memory s)"
  shows "\<exists>fs' mem. sna_save filename s fs = (None, fs') \<and>
    sna_load filename fs' t = (None, \<lparr>sna_head = sna_head s, sna_memory = mem\<rparr>) \<and>
    length mem = length (sna_memory t) \<and>
    (\<forall>i < length mem. \<forall>a. unat a < page_size \<longrightarrow> (mem ! i) a =
       (if i < unat (dump_size (sna_head s)) div page_size then (sna_memory s ! i) a else (sna_memory t ! i) a))"
  using sna_save_load [OF assms] .

lemma sna_construct_ok: "header_ok (sna_head sna_construct)"
  by (simp add: header_ok_def sna_construct_def header_of_bytes_def signature_def)

lemma sna_construct_check: "sna_check (sna_head sna_construct) = None"
  by (simp add: sna_check_def sna_construct_def)

theorem sna_file_roundtrip_witness:
  "\<exists>fs' mem. sna_save ''a.sna'' sna_construct (\<lambda>name. None) = (None, fs') \<and>
    sna_load ''a.sna'' fs' sna_construct = (None, \<lparr>sna_head = sna_head sna_construct, sna_memory = mem\<rparr>)"
  using sna_file_roundtrip [of "''a.sna''" "\<lambda>name. None" _ _ sna_construct sna_construct, OF _ sna_construct_ok
      sna_construct_check sna_construct_ok sna_construct_check refl]
  by (auto simp: fopen_write_def)

end
