(* ===== verification/CPC_Snapshot.thy ===== *)
theory CPC_Snapshot
  imports CPC_Run SNA_Format
begin

text \<open>
  Snapshots (\<^verbatim>\<open>load_cpc\<close> and \<^verbatim>\<open>save_cpc\<close> of \<^verbatim>\<open>cpc-mainboard.cc\<close>, on the data
  and the files of the theory \<open>SNA_Format\<close>): the registers of the CPU and of the devices and the memory
  of the machine are copied into a snapshot and loaded again after a reset.  The numbered fields of
  the header are lists.
\<close>

unbundle bit_operations_syntax

section \<open>Saving\<close>

definition save_cpu :: "State \<Rightarrow> sna_header \<Rightarrow> sna_header" where
  "save_cpu s hdr = hdr
     \<lparr>cpu_p_af_l := b_l (r_af s), cpu_p_af_h := b_h (r_af s), cpu_a_af_l := b_y (r_af s),
      cpu_a_af_h := b_x (r_af s), cpu_p_bc_l := b_l (r_bc s), cpu_p_bc_h := b_h (r_bc s),
      cpu_a_bc_l := b_y (r_bc s), cpu_a_bc_h := b_x (r_bc s), cpu_p_de_l := b_l (r_de s),
      cpu_p_de_h := b_h (r_de s), cpu_a_de_l := b_y (r_de s), cpu_a_de_h := b_x (r_de s),
      cpu_p_hl_l := b_l (r_hl s), cpu_p_hl_h := b_h (r_hl s), cpu_a_hl_l := b_y (r_hl s),
      cpu_a_hl_h := b_x (r_hl s), cpu_p_ir_l := b_l (r_ir s), cpu_p_ir_h := b_h (r_ir s),
      cpu_p_ix_l := b_l (r_ix s), cpu_p_ix_h := b_h (r_ix s), cpu_p_iy_l := b_l (r_iy s),
      cpu_p_iy_h := b_h (r_iy s), cpu_p_sp_l := b_l (r_sp s), cpu_p_sp_h := b_h (r_sp s),
      cpu_p_pc_l := b_l (r_pc s), cpu_p_pc_h := b_h (r_pc s), cpu_p_iff1 := get_iff1 s,
      cpu_p_iff2 := get_iff2 s, cpu_p_im_l := get_im_l s\<rparr>"

definition save_devices :: "'d board \<Rightarrow> sna_header \<Rightarrow> sna_header" where
  "save_devices b hdr = hdr
     \<lparr>vga_ink_ix := pen (b_vga b), vga_ink := map (\<lambda>i. ink (b_vga b) ! i) [0..<17], vga_config := rmr (b_vga b),
      vdc_reg_ix := v_addr (regs (b_vdc b)), vdc_reg := map (\<lambda>i. v_data (regs (b_vdc b)) ! i) [0..<18],
      sna_ppi_port_a := port_a (b_ppi b), sna_ppi_port_b := port_b (b_ppi b), sna_ppi_port_c := port_c (b_ppi b),
      sna_ppi_ctrl_p := ctrl_p (b_ppi b), psg_reg_ix := psg_index (b_psg b),
      psg_reg := map (\<lambda>i. psg_array (b_psg b) ! i) [0..<16], ram_select := ram_conf b, rom_select := rom_conf b\<rparr>"

text \<open>The loop over the memory of the snapshot; \<^verbatim>\<open>ram_size\<close> is a \<^verbatim>\<open>size_t\<close>.\<close>

fun save_banks :: "(u16 \<Rightarrow> u8) list \<Rightarrow> u64 \<Rightarrow> nat \<Rightarrow> (nat \<Rightarrow> mem_state) \<Rightarrow> (u16 \<Rightarrow> u8) list" where
  "save_banks [] ram_size i ram = []"
| "save_banks (m # ms) ram_size i ram =
     (if ram_size \<noteq> 0 \<and> i < 8 then mem_data (ram i) # save_banks ms (ram_size - 16384) (i + 1) ram else m # ms)"

definition save_cpc :: "'d host \<Rightarrow> sna_state \<Rightarrow> sna_state" where
  "save_cpc h sna = (let
     ram_size = ucast (memory_size (snd h)) :: u64;
     hdr = save_devices (snd h) (save_cpu (fst h) (sna_head sna));
     hdr = hdr\<lparr>ram_size_h := ucast (drop_bit 18 ram_size), ram_size_l := ucast (drop_bit 10 ram_size)\<rparr>
   in sna\<lparr>sna_head := hdr, sna_memory := save_banks (sna_memory sna) ram_size 0 (b_ram (snd h))\<rparr>)"

section \<open>Loading\<close>

definition load_cpu :: "sna_header \<Rightarrow> State \<Rightarrow> State" where
  "load_cpu hdr s = set_im_l (cpu_p_im_l hdr) (set_iff2 (cpu_p_iff2 hdr) (set_iff1 (cpu_p_iff1 hdr) (s
     \<lparr>r_af := \<lparr>b_l = cpu_p_af_l hdr, b_h = cpu_p_af_h hdr, b_y = cpu_a_af_l hdr, b_x = cpu_a_af_h hdr\<rparr>,
      r_bc := \<lparr>b_l = cpu_p_bc_l hdr, b_h = cpu_p_bc_h hdr, b_y = cpu_a_bc_l hdr, b_x = cpu_a_bc_h hdr\<rparr>,
      r_de := \<lparr>b_l = cpu_p_de_l hdr, b_h = cpu_p_de_h hdr, b_y = cpu_a_de_l hdr, b_x = cpu_a_de_h hdr\<rparr>,
      r_hl := \<lparr>b_l = cpu_p_hl_l hdr, b_h = cpu_p_hl_h hdr, b_y = cpu_a_hl_l hdr, b_x = cpu_a_hl_h hdr\<rparr>,
      r_ir := (r_ir s)\<lparr>b_l := cpu_p_ir_l hdr, b_h := cpu_p_ir_h hdr\<rparr>,
      r_ix := (r_ix s)\<lparr>b_l := cpu_p_ix_l hdr, b_h := cpu_p_ix_h hdr\<rparr>,
      r_iy := (r_iy s)\<lparr>b_l := cpu_p_iy_l hdr, b_h := cpu_p_iy_h hdr\<rparr>,
      r_sp := (r_sp s)\<lparr>b_l := cpu_p_sp_l hdr, b_h := cpu_p_sp_h hdr\<rparr>,
      r_pc := (r_pc s)\<lparr>b_l := cpu_p_pc_l hdr, b_h := cpu_p_pc_h hdr\<rparr>\<rparr>)))"

definition load_vga :: "sna_header \<Rightarrow> 'd board \<Rightarrow> 'd board" where
  "load_vga hdr b = b\<lparr>b_vga := (b_vga b)
     \<lparr>pen := vga_ink_ix hdr, ink := map (\<lambda>i. vga_ink hdr ! i) [0..<17], rmr := vga_config hdr\<rparr>\<rparr>"

definition set_vdc :: "nat \<Rightarrow> u8 \<Rightarrow> vdc_state \<Rightarrow> vdc_state" where
  "set_vdc index x s =
     (if index = 0xff then snd (vdc_set_index x s) else snd (vdc_set_value x (snd (vdc_set_index (of_nat index) s))))"

definition load_vdc :: "sna_header \<Rightarrow> 'd board \<Rightarrow> 'd board" where
  "load_vdc hdr b = b\<lparr>b_vdc :=
     set_vdc 0xff (vdc_reg_ix hdr) (fold (\<lambda>i. set_vdc i (vdc_reg hdr ! i)) [0..<18] (b_vdc b))\<rparr>"

definition load_ppi :: "sna_header \<Rightarrow> 'd host \<Rightarrow> 'd host" where
  "load_ppi hdr h = (let
     h = snd (on_ppi (wr_port_a board_ppi (sna_ppi_port_a hdr)) h);
     h = snd (on_ppi (wr_port_b board_ppi (sna_ppi_port_b hdr)) h);
     h = snd (on_ppi (wr_port_c board_ppi (sna_ppi_port_c hdr)) h)
   in snd (on_ppi (wr_ctrl_p board_ppi (sna_ppi_ctrl_p hdr)) h))"

definition set_psg :: "nat \<Rightarrow> u8 \<Rightarrow> 'd host \<Rightarrow> 'd host" where
  "set_psg index x h = (let set_index = (\<lambda>x. snd \<circ> on_psg (\<lambda>(s, h). case psg_set_index x s of (v, s) \<Rightarrow> (v, s, h))) in
     if index = 0xff then set_index x h
     else snd (on_psg (psg_set_value board_psg x) (set_index (of_nat index) h)))"

definition load_psg :: "sna_header \<Rightarrow> 'd host \<Rightarrow> 'd host" where
  "load_psg hdr h = set_psg 0xff (psg_reg_ix hdr) (fold (\<lambda>i. set_psg i (psg_reg hdr ! i)) [0..<16] h)"

fun load_banks :: "(u16 \<Rightarrow> u8) list \<Rightarrow> u64 \<Rightarrow> nat \<Rightarrow> (nat \<Rightarrow> mem_state) \<Rightarrow> (nat \<Rightarrow> mem_state)" where
  "load_banks [] ram_size i ram = ram"
| "load_banks (m # ms) ram_size i ram =
     (if ram_size \<noteq> 0 \<and> i < 8 then load_banks ms (ram_size - 16384) (i + 1) (ram(i := (ram i)\<lparr>mem_data := m\<rparr>)) else ram)"

definition load_mem :: "sna_state \<Rightarrow> 'd board \<Rightarrow> 'd board" where
  "load_mem sna b = (let
     ram_size = push_bit 18 (ucast (ram_size_h (sna_head sna))) OR push_bit 10 (ucast (ram_size_l (sna_head sna)));
     limit = ucast (memory_size b);
     ram_size = (if limit < ram_size then limit else ram_size)
   in update_pal (b\<lparr>b_ram := load_banks (sna_memory sna) ram_size 0 (b_ram b)\<rparr>))"

definition load_cpc :: "'d libdsk \<Rightarrow> sna_state \<Rightarrow> 'd host \<Rightarrow> 'd host" where
  "load_cpc L sna h = (let
     hdr = sna_head sna;
     (c, b) = board_reset L h;
     c = load_cpu hdr c;
     b = load_vdc hdr (load_vga hdr b);
     (c, b) = load_psg hdr (load_ppi hdr (c, b));
     b = b\<lparr>ram_conf := ram_select hdr\<rparr>;
     b = b\<lparr>rom_conf := rom_select hdr\<rparr>
   in (c, load_mem sna b))"

section \<open>Snapshot files\<close>

text \<open>Both operations answer the exception they throw, if any.\<close>

definition load_snapshot :: "'d libdsk \<Rightarrow> string \<Rightarrow> file_system \<Rightarrow> 'd host \<Rightarrow> string option \<times> 'd host" where
  "load_snapshot L filename fs h = (case sna_load filename fs sna_construct of
     (None, sna) \<Rightarrow> (None, load_cpc L sna h)
   | (Some e, sna) \<Rightarrow> (Some e, board_reset L h))"

definition save_snapshot :: "string \<Rightarrow> 'd host \<Rightarrow> file_system \<Rightarrow> string option \<times> file_system" where
  "save_snapshot filename h fs = sna_save filename (save_cpc h sna_construct) fs"

end
