(* ===== verification/CPC_Snapshot_Props.thy ===== *)
theory CPC_Snapshot_Props
  imports CPC_Snapshot Device_Props
begin

text \<open>
  What a snapshot brings back: a machine that is saved and loaded into another one of the same memory
  size, through a file or not, and where the loading goes wrong.
\<close>

unbundle bit_operations_syntax

section \<open>The CPU\<close>

lemma reset_flags: "b_l (r_st (reset_state s)) = 0"
  by (simp add: reset_state_def set_l_r_def set_w_l_def set_w_h_def Let_def)

lemma flags_restored:
  fixes st :: u8
  defines "f \<equiv> (if st AND ST_IFF1 \<noteq> 0 then 1 else 0) :: u8" and "g \<equiv> (if st AND ST_IFF2 \<noteq> 0 then 1 else 0) :: u8"
    and "i \<equiv> ((if st AND ST_IM1 \<noteq> 0 then 1 else 0) OR (if st AND ST_IM2 \<noteq> 0 then 2 else 0)) :: u8"
  assumes "b_l (r_st s) = 0"
  shows "get_iff1 (set_im_l i (set_iff2 g (set_iff1 f s))) = f" and "get_iff2 (set_im_l i (set_iff2 g (set_iff1 f s))) = g"
    and "get_im_l (set_im_l i (set_iff2 g (set_iff1 f s))) = i"
  using assms(4) unfolding f_def g_def i_def
  by (auto simp: get_iff1_def get_iff2_def get_im_l_def set_iff1_def set_iff2_def set_im_l_def)

text \<open>The registers a snapshot holds.\<close>

definition same_cpu :: "State \<Rightarrow> State \<Rightarrow> bool" where
  "same_cpu c c' \<longleftrightarrow> r_af c' = r_af c \<and> r_bc c' = r_bc c \<and> r_de c' = r_de c \<and> r_hl c' = r_hl c \<and>
     w_l (r_ir c') = w_l (r_ir c) \<and> w_l (r_ix c') = w_l (r_ix c) \<and> w_l (r_iy c') = w_l (r_iy c) \<and>
     w_l (r_sp c') = w_l (r_sp c) \<and> w_l (r_pc c') = w_l (r_pc c) \<and>
     get_iff1 c' = get_iff1 c \<and> get_iff2 c' = get_iff2 c \<and> get_im_l c' = get_im_l c"

lemma set_flags_regs [simp]:
  "r_af (set_im_l x s) = r_af s" "r_bc (set_im_l x s) = r_bc s" "r_de (set_im_l x s) = r_de s" "r_hl (set_im_l x s) = r_hl s"
  "r_ir (set_im_l x s) = r_ir s" "r_ix (set_im_l x s) = r_ix s" "r_iy (set_im_l x s) = r_iy s" "r_sp (set_im_l x s) = r_sp s"
  "r_pc (set_im_l x s) = r_pc s"
  "r_af (set_iff1 x s) = r_af s" "r_bc (set_iff1 x s) = r_bc s" "r_de (set_iff1 x s) = r_de s" "r_hl (set_iff1 x s) = r_hl s"
  "r_ir (set_iff1 x s) = r_ir s" "r_ix (set_iff1 x s) = r_ix s" "r_iy (set_iff1 x s) = r_iy s" "r_sp (set_iff1 x s) = r_sp s"
  "r_pc (set_iff1 x s) = r_pc s"
  "r_af (set_iff2 x s) = r_af s" "r_bc (set_iff2 x s) = r_bc s" "r_de (set_iff2 x s) = r_de s" "r_hl (set_iff2 x s) = r_hl s"
  "r_ir (set_iff2 x s) = r_ir s" "r_ix (set_iff2 x s) = r_ix s" "r_iy (set_iff2 x s) = r_iy s" "r_sp (set_iff2 x s) = r_sp s"
  "r_pc (set_iff2 x s) = r_pc s"
  by (simp_all add: set_im_l_def set_iff1_def set_iff2_def)

lemma cpu_restored: "b_l (r_st s) = 0 \<Longrightarrow> same_cpu c (load_cpu (save_cpu c hdr) s)"
  unfolding same_cpu_def load_cpu_def save_cpu_def
  by (simp add: w_l_def get_iff1_def [of c] get_iff2_def [of c] get_im_l_def [of c] flags_restored)

section \<open>The CRT controller\<close>

lemma set_vdc_register:
  assumes "vdc_ok s" and "i < 18"
  shows "vdc_ok (set_vdc i x s)"
    and "v_data (regs (set_vdc i x s)) = (if i < 16 then (v_data (regs s))[i := x AND v_data (mask (reset_mask s)) ! i]
      else v_data (regs s))"
proof -
  have n: "unat (of_nat i :: u8) = i" "(of_nat i :: u8) < 18" using assms(2) by (simp_all add: unat_of_nat word_less_nat_alt)
  let ?s = "snd (vdc_set_index (of_nat i) s)"
  have ok: "vdc_ok ?s" by (rule vdc_set_index_ok [OF assms(1)])
  have a: "v_addr (regs ?s) = of_nat i" "v_data (regs ?s) = v_data (regs s)"
    using vdc_ok_caps_addr [OF assms(1)] by (simp_all add: vdc_set_index_def Let_def u8_and_ff)
  have eq: "set_vdc i x s = snd (vdc_set_value x ?s)" using assms(2) by (simp add: set_vdc_def)
  show "vdc_ok (set_vdc i x s)" unfolding eq by (rule vdc_set_value_ok [OF ok])
  have "v_data (mask ?s) = v_data (mask (reset_mask s))" using ok by (simp add: vdc_ok_def reset_mask_def)
  then show "v_data (regs (set_vdc i x s)) = (if i < 16 then (v_data (regs s))[i := x AND v_data (mask (reset_mask s)) ! i]
      else v_data (regs s))"
    using vdc_ok_caps [OF ok, of i] n assms(2) unfolding eq
    by (simp add: vdc_set_value_def Let_def a put_data_def)
qed

lemma fold_set_vdc:
  "vdc_ok s \<Longrightarrow> k \<le> 18 \<Longrightarrow> vdc_ok (fold (\<lambda>i. set_vdc i (xs ! i)) [0..<k] s) \<and>
    (\<forall>j < 18. v_data (regs (fold (\<lambda>i. set_vdc i (xs ! i)) [0..<k] s)) ! j =
      (if j < k \<and> j < 16 then xs ! j AND v_data (mask (reset_mask s)) ! j else v_data (regs s) ! j))"
proof (induction k)
  case (Suc k)
  let ?s = "fold (\<lambda>i. set_vdc i (xs ! i)) [0..<k] s"
  have ok: "vdc_ok ?s" using Suc by simp
  have "length (v_data (regs ?s)) = 18" using ok by (simp add: vdc_ok_def)
  moreover have "mask (reset_mask ?s) = mask (reset_mask s)" by (simp add: reset_mask_def)
  ultimately show ?case
    using Suc set_vdc_register [OF ok, of k "xs ! k"] by (auto simp: less_Suc_eq)
qed simp

lemma vdc_restored:
  assumes "vdc_ok s" and "vdc_ok t"
  shows "regs (set_vdc 0xff (v_addr (regs s)) (fold (\<lambda>i. set_vdc i (map (\<lambda>i. v_data (regs s) ! i) [0..<18] ! i)) [0..<18] t)) = regs s"
proof -
  let ?t = "fold (\<lambda>i. set_vdc i (map (\<lambda>i. v_data (regs s) ! i) [0..<18] ! i)) [0..<18] t"
  note f = fold_set_vdc [OF assms(2), of 18 "map (\<lambda>i. v_data (regs s) ! i) [0..<18]"]
  have ok: "vdc_ok ?t" using f by simp
  have t: "v_data (regs t) ! 16 = 0" "v_data (regs t) ! 17 = 0" using assms(2) unfolding vdc_ok_def by blast+
  have m: "v_data (mask s) = v_data (mask (reset_mask t))" using assms(1) by (simp add: vdc_ok_def reset_mask_def)
  have all: "list_all (\<lambda>n. v_data (regs s) ! n AND v_data (mask s) ! n = v_data (regs s) ! n) [0..<18]"
    "v_data (regs s) ! 16 = 0" "v_data (regs s) ! 17 = 0" "length (v_data (regs s)) = 18"
    using assms(1) unfolding vdc_ok_def by blast+
  have "v_data (regs ?t) ! j = v_data (regs s) ! j" if "j < 18" for j
  proof -
    have "j < 16 \<or> j = 16 \<or> j = 17" using that by auto
    then show ?thesis
      using f that all t by (auto simp: list_all_iff m)
  qed
  then have d: "v_data (regs ?t) = v_data (regs s)"
    using ok all(4) by (auto intro!: nth_equalityI simp: vdc_ok_def)
  have "regs (set_vdc 0xff (v_addr (regs s)) ?t) = (regs ?t)\<lparr>v_addr := v_addr (regs s)\<rparr>"
    using vdc_ok_caps_addr [OF ok] by (simp add: set_vdc_def vdc_set_index_def Let_def u8_and_ff)
  then show ?thesis using d by (cases "regs s"; cases "regs ?t") simp
qed

section \<open>The sound generator\<close>

lemma set_psg_board:
  "snd (set_psg i x h) = (snd h)\<lparr>b_psg := b_psg (snd (set_psg i x h))\<rparr>" "fst (set_psg i x h) = fst h"
  by (simp_all add: set_psg_def on_psg_def Let_def psg_set_index_def psg_set_value_def board_psg_def psg_illegal_def
      case_prod_unfold)

lemma set_psg_array:
  assumes "length (psg_array (b_psg (snd h))) = 16" and "i < 16" and "j < 14"
  shows "psg_array (b_psg (snd (set_psg i x h))) ! j =
      (if j = i then x AND psg_mask (of_nat i) else psg_array (b_psg (snd h)) ! j)"
    and "length (psg_array (b_psg (snd (set_psg i x h)))) = 16"
proof -
  have n: "unat (of_nat i :: u8) = i" "(of_nat i :: u8) < 16" "(of_nat i :: u8) AND 0x0f = of_nat i"
    using assms(2) by (simp_all add: unat_of_nat word_less_nat_alt and_0f_id)
  have e: "(of_nat i :: u8) = 14 \<longleftrightarrow> i = 14" "(of_nat i :: u8) = 15 \<longleftrightarrow> i = 15"
    using assms(2) n(1) by (auto simp: word_unat_eq_iff)
  show "psg_array (b_psg (snd (set_psg i x h))) ! j =
      (if j = i then x AND psg_mask (of_nat i) else psg_array (b_psg (snd h)) ! j)"
    "length (psg_array (b_psg (snd (set_psg i x h)))) = 16"
    using assms n e by (auto simp: set_psg_def on_psg_def Let_def psg_set_index_def psg_set_value_def board_psg_def
        psg_illegal_def case_prod_unfold psg_drive_regs)
qed


lemma fold_set_psg:
  "length (psg_array (b_psg (snd h))) = 16 \<Longrightarrow> k \<le> 16 \<Longrightarrow>
    length (psg_array (b_psg (snd (fold (\<lambda>i. set_psg i (xs ! i)) [0..<k] h)))) = 16 \<and>
    (\<forall>j < 14. psg_array (b_psg (snd (fold (\<lambda>i. set_psg i (xs ! i)) [0..<k] h))) ! j =
      (if j < k then xs ! j AND psg_mask (of_nat j) else psg_array (b_psg (snd h)) ! j))"
proof (induction k)
  case (Suc k)
  let ?h = "fold (\<lambda>i. set_psg i (xs ! i)) [0..<k] h"
  have len: "length (psg_array (b_psg (snd ?h))) = 16" and k: "k < 16" using Suc by simp_all
  show ?case
    using Suc set_psg_array(1) [OF len k, where x = "xs ! k"] set_psg_array(2) [OF len k, of 0 "xs ! k"]
    by (auto simp: less_Suc_eq)
qed simp

lemma fold_set_psg_board:
  "\<exists>p. snd (fold (\<lambda>i. set_psg i (xs ! i)) is h) = (snd h)\<lparr>b_psg := p\<rparr> \<and> fst (fold (\<lambda>i. set_psg i (xs ! i)) is h) = fst h"
proof (induction "is" arbitrary: h)
  case Nil
  then show ?case by (intro exI [of _ "b_psg (snd h)"]) simp
next
  case (Cons i js)
  obtain p where p: "snd (set_psg i (xs ! i) h) = (snd h)\<lparr>b_psg := p\<rparr>" using set_psg_board(1) by blast
  then show ?case using Cons [of "set_psg i (xs ! i) h"] by (auto simp: set_psg_board(2))
qed

lemma load_psg_restores:
  assumes "length (psg_array (b_psg (snd h))) = 16" and "load_psg hdr h = (c', b')"
  shows "c' = fst h" and "b' = (snd h)\<lparr>b_psg := b_psg b'\<rparr>" and "psg_index (b_psg b') = psg_reg_ix hdr"
    and "j < 14 \<Longrightarrow> psg_array (b_psg b') ! j = psg_reg hdr ! j AND psg_mask (of_nat j)"
proof -
  let ?h = "fold (\<lambda>i. set_psg i (psg_reg hdr ! i)) [0..<16] h"
  have eq: "(c', b') = (fst ?h, (snd ?h)\<lparr>b_psg := (b_psg (snd ?h))\<lparr>psg_index := psg_reg_ix hdr\<rparr>\<rparr>)"
    using assms(2) by (simp add: load_psg_def set_psg_def on_psg_def psg_set_index_def Let_def case_prod_unfold)
  note b = fold_set_psg_board [of "psg_reg hdr" "[0..<16]" h]
  show "c' = fst h" using eq b by simp
  show "psg_index (b_psg b') = psg_reg_ix hdr" using eq by simp
  show "j < 14 \<Longrightarrow> psg_array (b_psg b') ! j = psg_reg hdr ! j AND psg_mask (of_nat j)"
    using eq fold_set_psg [OF assms(1), of 16 "psg_reg hdr"] by simp
  obtain p where p: "snd ?h = (snd h)\<lparr>b_psg := p\<rparr>" using b by blast
  show "b' = (snd h)\<lparr>b_psg := b_psg b'\<rparr>" using eq unfolding p by simp
qed

section \<open>The parallel interface leaves the rest alone\<close>

definition apart_from_ppi :: "'d board \<Rightarrow> 's \<times> 'd host \<Rightarrow> bool" where
  "apart_from_ppi b0 sb \<longleftrightarrow> (let b = snd (snd sb) in b_vga b = b_vga b0 \<and> b_vdc b = b_vdc b0 \<and> b_ram b = b_ram b0 \<and>
     b_rom b = b_rom b0 \<and> b_exp b = b_exp b0 \<and> memory_size b = memory_size b0 \<and> length (psg_array (b_psg b)) = 16)"

lemma psg_array_length:
  "length (psg_array (fst (snd (psg_get_value board_psg x (s, h))))) = length (psg_array s)"
  "length (psg_array (fst (snd (psg_set_value board_psg x (s, h))))) = length (psg_array s)"
  by (auto simp: psg_get_value_def psg_set_value_def board_psg_def psg_illegal_def psg_port_a_rd_def Let_def put_array_def
      psg_drive_regs)


lemma psg_update_wr_apart: "apart_from_ppi b0 (s, h) \<Longrightarrow> apart_from_ppi b0 (s', snd (psg_update_wr x h))"
  using psg_array_length(2) [of x "b_psg (snd h)" h]
  by (auto simp: apart_from_ppi_def psg_update_wr_def on_psg_def Let_def case_prod_unfold psg_set_index_def
      psg_set_value_def board_psg_def psg_illegal_def)

interpretation ppi_apart: ppi_rel board_ppi "apart_from_ppi b0" for b0
proof unfold_locales
  fix sb :: "ppi_state \<times> 'a host" and x
  assume q: "apart_from_ppi b0 sb"
  obtain s c b where sb: "sb = (s, c, b)" by (cases sb) auto
  show "apart_from_ppi b0 (snd (cb_port_a_rd board_ppi x sb))"
    using q psg_array_length(1) [of x "b_psg b" "(c, b)"]
    by (auto simp: sb board_ppi_def ppi_port_a_rd_def on_psg_def apart_from_ppi_def Let_def case_prod_unfold
        psg_get_value_def board_psg_def psg_illegal_def psg_port_a_rd_def)
  show "apart_from_ppi b0 (snd (cb_port_a_wr board_ppi x sb))"
  proof -
    have "apart_from_ppi b0 (s, c, b\<lparr>psg_data := x\<rparr>)" using q by (simp add: sb apart_from_ppi_def)
    from psg_update_wr_apart [OF this] show ?thesis
      by (simp add: sb board_ppi_def ppi_port_a_wr_def case_prod_unfold)
  qed
  show "apart_from_ppi b0 (snd (cb_port_c_wr board_ppi x sb))"
  proof -
    have "apart_from_ppi b0 (s, c, b\<lparr>psg_bdir := u, psg_bc1 := v, cas_wr_data := y, cas_motor := z, b_kbd := k\<rparr>)" for u v y z k
      using q by (simp add: sb apart_from_ppi_def)
    from psg_update_wr_apart [OF this] show ?thesis
      by (simp add: sb board_ppi_def ppi_port_c_wr_def case_prod_unfold Let_def)
  qed
qed (simp_all add: apart_from_ppi_def board_ppi_def ppi_port_b_rd_def ppi_illegal_def Let_def)

lemma on_ppi_apart:
  "(\<And>sb. apart_from_ppi b0 sb \<Longrightarrow> apart_from_ppi b0 (snd (f sb))) \<Longrightarrow> apart_from_ppi b0 (s', h) \<Longrightarrow>
    apart_from_ppi b0 (s', snd (on_ppi f h))"
proof -
  assume f: "\<And>sb. apart_from_ppi b0 sb \<Longrightarrow> apart_from_ppi b0 (snd (f sb))" and q: "apart_from_ppi b0 (s', h)"
  have "apart_from_ppi b0 (b_ppi (snd h), h)" using q by (simp add: apart_from_ppi_def)
  from f [OF this] show ?thesis by (simp add: on_ppi_def case_prod_unfold apart_from_ppi_def Let_def)
qed

lemma load_ppi_apart: "apart_from_ppi b0 (s, h) \<Longrightarrow> apart_from_ppi b0 (s, load_ppi hdr h)"
  unfolding load_ppi_def Let_def
  by (intro on_ppi_apart) (simp_all add: ppi_apart.wr_ctrl_keeps ppi_apart.ports_keep)

lemma ppi_cpu_fst: "fst (load_ppi hdr h) = fst h"
proof -
  have ppi: "fst (snd (on_ppi f h)) = fst h" if "\<And>s. keeps_cpu (fst h) (snd (f (s, h)))" for f :: "_ \<Rightarrow> 'x \<times> _" and h :: "'b host"
    using that [of "b_ppi (snd h)"] by (simp add: on_ppi_def keeps_cpu_def case_prod_unfold)
  show ?thesis
    unfolding load_ppi_def Let_def by (simp add: ppi ppi_cpu.wr_ctrl_keeps ppi_cpu.ports_keep)
qed

section \<open>Memory\<close>

lemma load_banks_nth:
  "16384 dvd unat r \<Longrightarrow> load_banks ms r i ram j =
    (if i \<le> j \<and> j < 8 \<and> j - i < length ms \<and> (j - i) * 16384 < unat r then (ram j)\<lparr>mem_data := ms ! (j - i)\<rparr> else ram j)"
proof (induction ms r i ram rule: load_banks.induct)
  case (2 m ms r i ram)
  show ?case
  proof (cases "r \<noteq> 0 \<and> i < 8")
    case True
    then have "0 < unat r" by (simp add: unat_gt_0)
    then have le: "16384 \<le> unat r" using "2.prems" by (auto dest: dvd_imp_le)
    then have u: "unat (r - 16384) = unat r - 16384" by (simp add: unat_sub word_le_nat_alt)
    then have "16384 dvd unat (r - 16384)" using "2.prems" by (simp add: dvd_diff_nat)
    note IH = "2.IH" [OF True this]
    have step: "load_banks (m # ms) r i ram j = load_banks ms (r - 16384) (i + 1) (ram(i := (ram i)\<lparr>mem_data := m\<rparr>)) j"
      using True by simp
    consider "j < i" | "j = i" | n where "j = i + Suc n" by (metis less_imp_Suc_add nat_neq_iff add_Suc_right)
    then show ?thesis
    proof cases
      case 1
      then show ?thesis unfolding step IH by simp
    next
      case 2
      then show ?thesis unfolding step IH using True \<open>0 < unat r\<close> by simp
    next
      case (3 n)
      have "n * 16384 < unat r - 16384 \<longleftrightarrow> Suc n * 16384 < unat r" using le by auto
      then show ?thesis unfolding step IH u using 3 by simp
    qed
  next
    case False
    then show ?thesis by (auto simp: unat_eq_0)
  qed
qed simp


lemma save_banks_length: "length (save_banks ms r i ram) = length ms"
  by (induction ms r i ram rule: save_banks.induct) simp_all

lemma save_banks_nth:
  "16384 dvd unat r \<Longrightarrow> k < length ms \<Longrightarrow> save_banks ms r i ram ! k =
    (if i + k < 8 \<and> k * 16384 < unat r then mem_data (ram (i + k)) else ms ! k)"
proof (induction ms r i ram arbitrary: k rule: save_banks.induct)
  case (2 m ms r i ram)
  show ?case
  proof (cases "r \<noteq> 0 \<and> i < 8")
    case True
    then have "0 < unat r" by (simp add: unat_gt_0)
    then have le: "16384 \<le> unat r" using "2.prems" by (auto dest: dvd_imp_le)
    then have u: "unat (r - 16384) = unat r - 16384" by (simp add: unat_sub word_le_nat_alt)
    then have d: "16384 dvd unat (r - 16384)" using "2.prems" by (simp add: dvd_diff_nat)
    show ?thesis
    proof (cases k)
      case 0
      then show ?thesis using True \<open>0 < unat r\<close> by simp
    next
      case (Suc n)
      have "n * 16384 < unat r - 16384 \<longleftrightarrow> Suc n * 16384 < unat r" using le by auto
      then show ?thesis using "2.IH" [OF True d, of n] "2.prems"(2) True Suc by (simp add: u)
    qed
  next
    case False
    then show ?thesis by (auto simp: unat_eq_0)
  qed
qed simp

text \<open>The size of the memory survives its two bytes in the header.\<close>

lemma size_bytes:
  assumes "n \<le> 36"
  defines "r \<equiv> (of_nat (16384 * n) :: u64)"
  shows "push_bit 18 (ucast (ucast (drop_bit 18 r) :: u8)) OR push_bit 10 (ucast (ucast (drop_bit 10 r) :: u8)) = r"
    and "unat r = 16384 * n"
proof -
  show u: "unat r = 16384 * n" using assms(1) by (simp add: r_def unat_of_nat del: of_nat_mult)
  have bits: "14 \<le> i \<and> i < 20" if "bit r i" for i
  proof -
    have "bit (unat r) i" using that by (simp add: bit_unsigned_iff)
    moreover have "16384 * n = push_bit 14 n" by (simp add: push_bit_eq_mult)
    ultimately have "14 \<le> i" "bit n (i - 14)" by (simp_all add: u bit_simps)
    moreover have "n = take_bit 6 n" using assms(1) by (simp add: take_bit_nat_eq_self)
    ultimately have "bit (take_bit 6 n) (i - 14)" by simp
    then have "i - 14 < 6" by (simp add: bit_take_bit_iff)
    then show ?thesis using \<open>14 \<le> i\<close> by simp
  qed
  show "push_bit 18 (ucast (ucast (drop_bit 18 r) :: u8)) OR push_bit 10 (ucast (ucast (drop_bit 10 r) :: u8)) = r"
  proof (rule bit_eqI)
    fix i
    show "bit (push_bit 18 (ucast (ucast (drop_bit 18 r) :: u8)) OR push_bit 10 (ucast (ucast (drop_bit 10 r) :: u8)) :: u64) i = bit r i"
      using bits [of i] by (auto simp: bit_simps)
  qed
qed

lemma size_words:
  assumes "n \<le> 36" and "x = (of_nat (16384 * n) :: u32)"
  shows "(ucast x :: u64) = of_nat (16384 * n)" and "unat x = 16384 * n"
  unfolding assms(2) using assms(1)
  by (simp_all add: word_unat_eq_iff unat_of_nat unsigned_ucast_eq take_bit_nat_eq_self_iff del: of_nat_mult)

section \<open>The whole machine\<close>

text \<open>
  What a snapshot keeps of a machine: the registers of the CPU with its interrupt flags and mode, the
  palette and the mode of the gate array, the registers of the CRT controller, the first fourteen
  registers of the sound generator with the bits they have, the two configuration registers, and the
  RAM banks that the memory size covers.
\<close>

definition restored :: "'d host \<Rightarrow> 'd host \<Rightarrow> bool" where
  "restored h h' \<longleftrightarrow> (let b = snd h; b' = snd h' in
     same_cpu (fst h) (fst h') \<and>
     pen (b_vga b') = pen (b_vga b) \<and> ink (b_vga b') = ink (b_vga b) \<and> rmr (b_vga b') = rmr (b_vga b) \<and>
     regs (b_vdc b') = regs (b_vdc b) \<and> psg_index (b_psg b') = psg_index (b_psg b) \<and>
     (\<forall>j < 14. psg_array (b_psg b') ! j = psg_array (b_psg b) ! j AND psg_mask (of_nat j)) \<and>
     ram_conf b' = ram_conf b \<and> rom_conf b' = rom_conf b \<and>
     (\<forall>i < 8. i * 16384 < unat (memory_size b) \<longrightarrow>
       (\<forall>a. unat a < 16384 \<longrightarrow> mem_data (b_ram b' i) a = mem_data (b_ram b i) a)))"

lemma board_reset_fields:
  "b_l (r_st (fst (board_reset L h))) = 0" "b_vdc (snd (board_reset L h)) = vdc_reset (b_vdc (snd h))"
  "length (psg_array (b_psg (snd (board_reset L h)))) = length (psg_array (b_psg (snd h)))"
  "memory_size (snd (board_reset L h)) = memory_size (snd h)"
  by (simp_all add: board_reset_def Let_def reset_flags mem_banks_reset_def state_reset_def psg_reset_def)

lemma saved_header:
  fixes b :: "'d board"
  assumes hdr: "hdr = sna_head (save_cpc (c, b) sna)"
  shows "load_cpu hdr s = load_cpu (save_cpu c (sna_head sna)) s"
    and "vga_ink_ix hdr = pen (b_vga b)" "vga_ink hdr = map (\<lambda>i. ink (b_vga b) ! i) [0..<17]" "vga_config hdr = rmr (b_vga b)"
    and "vdc_reg_ix hdr = v_addr (regs (b_vdc b))" "vdc_reg hdr = map (\<lambda>i. v_data (regs (b_vdc b)) ! i) [0..<18]"
    and "psg_reg_ix hdr = psg_index (b_psg b)" "psg_reg hdr = map (\<lambda>i. psg_array (b_psg b) ! i) [0..<16]"
    and "ram_select hdr = ram_conf b" "rom_select hdr = rom_conf b"
    and "ram_size_h hdr = ucast (drop_bit 18 (ucast (memory_size b) :: u64))"
    and "ram_size_l hdr = ucast (drop_bit 10 (ucast (memory_size b) :: u64))"
  by (simp_all add: hdr save_cpc_def save_devices_def Let_def load_cpu_def)

lemma load_cpc_restores:
  fixes b b' :: "'d board"
  assumes hdr: "sna_head sna = sna_head (save_cpc (c, b) sna0)"
    and pages: "\<And>i a. i < 8 \<Longrightarrow> i * 16384 < unat (memory_size b) \<Longrightarrow> unat a < 16384 \<Longrightarrow>
      i < length (sna_memory sna) \<and> (sna_memory sna ! i) a = mem_data (b_ram b i) a"
    and size: "memory_size b = of_nat (16384 * n)" "n \<le> 36" "memory_size b' = memory_size b"
    and ok: "vdc_ok (b_vdc b)" "length (ink (b_vga b)) = 17" "length (psg_array (b_psg b')) = 16"
  shows "restored (c, b) (load_cpc L sna (c', b'))"
proof -
  let ?hdr = "sna_head sna"
  note saved = saved_header [OF hdr]
  obtain c0 b0 where r: "board_reset L (c', b') = (c0, b0)" by (cases "board_reset L (c', b')")
  note f = board_reset_fields [of L "(c', b')", unfolded r, simplified]
  define b2 where "b2 = load_vdc ?hdr (load_vga ?hdr b0)"
  obtain c3 b3 where p: "load_ppi ?hdr (load_cpu ?hdr c0, b2) = (c3, b3)" by (cases "load_ppi ?hdr (load_cpu ?hdr c0, b2)")
  obtain c4 b4 where g: "load_psg ?hdr (c3, b3) = (c4, b4)" by (cases "load_psg ?hdr (c3, b3)")
  define b5 where "b5 = b4\<lparr>ram_conf := ram_select ?hdr, rom_conf := rom_select ?hdr\<rparr>"
  have load: "load_cpc L sna (c', b') = (c4, load_mem sna b5)"
    by (simp add: load_cpc_def r p g b5_def Let_def flip: b2_def)
  have "apart_from_ppi b2 (undefined, load_cpu ?hdr c0, b2)"
    using f(3) ok(3) by (simp add: apart_from_ppi_def b2_def load_vdc_def load_vga_def)
  from load_ppi_apart [OF this, of ?hdr, unfolded p]
  have b3: "b_vga b3 = b_vga b2" "b_vdc b3 = b_vdc b2" "memory_size b3 = memory_size b2" "length (psg_array (b_psg b3)) = 16"
    by (simp_all add: apart_from_ppi_def Let_def)
  have c3: "c3 = load_cpu ?hdr c0" using ppi_cpu_fst [of ?hdr "(load_cpu ?hdr c0, b2)"] by (simp add: p)
  note psg = load_psg_restores [of "(c3, b3)" ?hdr c4 b4, simplified, OF b3(4) g]
  have b5: "b_vga b5 = b_vga b2" "b_vdc b5 = b_vdc b2" "memory_size b5 = memory_size b" "b_psg b5 = b_psg b4"
    using psg(2) b3 f(4) size(3) by (auto simp: b5_def b2_def load_vdc_def load_vga_def dest: arg_cong [of _ _ b_vga]
        arg_cong [of _ _ b_vdc] arg_cong [of _ _ memory_size])
  have cpu: "same_cpu c c4"
    using cpu_restored [OF f(1), of c] by (simp add: psg(1) c3 saved(1))
  have vdc: "regs (b_vdc b5) = regs (b_vdc b)"
    unfolding b5 using vdc_restored [OF ok(1) vdc_reset_ok] f(2)
    by (simp add: b2_def load_vdc_def load_vga_def saved)
  have vga: "pen (b_vga b5) = pen (b_vga b)" "ink (b_vga b5) = ink (b_vga b)" "rmr (b_vga b5) = rmr (b_vga b)"
    unfolding b5 using ok(2) by (auto simp: b2_def load_vdc_def load_vga_def saved intro: nth_equalityI)
  note lim = size_words(1) [OF size(2,1)] and m = size_words(2) [OF size(2,1)]
  have mem: "load_mem sna b5 = update_pal (b5\<lparr>b_ram := load_banks (sna_memory sna) (of_nat (16384 * n)) 0 (b_ram b5)\<rparr>)"
    using size_bytes(1) [OF size(2)] by (simp add: load_mem_def Let_def saved(11,12) lim b5(3))
  have u: "unat (of_nat (16384 * n) :: u64) = 16384 * n" by (rule size_bytes(2) [OF size(2)])
  have "mem_data (b_ram (load_mem sna b5) i) a = mem_data (b_ram b i) a"
    if "i < 8" "i * 16384 < unat (memory_size b)" "unat a < 16384" for i a
    using that pages [OF that] unfolding mem by (simp add: load_banks_nth u m del: of_nat_mult)
  then show ?thesis
    using cpu vdc vga psg(3,4) b5 unfolding restored_def load
    by (simp add: load_mem_def Let_def) (simp add: b5_def saved)
qed


lemma sna_construct_memory: "length (sna_memory sna_construct) = 32"
  by (simp add: sna_construct_def)

lemma saved_pages:
  assumes "memory_size b = of_nat (16384 * n)" and "n \<le> 36" and "i < length (sna_memory sna)"
  shows "sna_memory (save_cpc (c, b) sna) ! i = (if i < 8 \<and> i < n then mem_data (b_ram b i) else sna_memory sna ! i)"
  using assms(3) size_bytes(2) [OF assms(2)] size_words(1) [OF assms(2,1)]
  by (simp add: save_cpc_def Let_def save_banks_nth del: of_nat_mult)

text \<open>
  C1: a snapshot brings the machine back.  If the file can be created, saving a machine whose memory
  is a whole number of banks succeeds, and loading the file into any machine of the same memory size
  succeeds: the registers of the CPU, of the gate array, of the CRT controller and of the sound
  generator, the configuration registers and the RAM are those of the saved machine.
\<close>

theorem snapshot_restores_machine:
  fixes b b' :: "'d board"
  assumes "fopen_write filename fs = Some (fp, fs0)"
    and "memory_size b = of_nat (16384 * n)" and "n \<le> 36" and "memory_size b' = memory_size b"
    and "vdc_ok (b_vdc b)" and "length (ink (b_vga b)) = 17" and "length (psg_array (b_psg b')) = 16"
  shows "\<exists>fs' h'. save_snapshot filename (c, b) fs = (None, fs') \<and>
    load_snapshot L filename fs' (c', b') = (None, h') \<and> restored (c, b) h'"
proof -
  let ?s = "save_cpc (c, b) sna_construct"
  note hdr = saved_header [OF refl, of c b sna_construct]
  have "sna_check (sna_head ?s) = sna_check (sna_head sna_construct)"
    by (simp add: sna_check_def save_cpc_def save_devices_def save_cpu_def Let_def)
  moreover have "header_ok (sna_head ?s)"
    using sna_construct_ok by (simp add: header_ok_def save_cpc_def save_devices_def save_cpu_def Let_def)
  moreover have "length (sna_memory ?s) = 32"
    by (simp add: save_cpc_def Let_def save_banks_length sna_construct_memory)
  ultimately obtain fs' mem where f: "save_snapshot filename (c, b) fs = (None, fs')"
    "sna_load filename fs' sna_construct = (None, \<lparr>sna_head = sna_head ?s, sna_memory = mem\<rparr>)" "length mem = 32"
    "\<And>i a. i < 32 \<Longrightarrow> unat a < page_size \<Longrightarrow> (mem ! i) a =
       (if i < unat (dump_size (sna_head ?s)) div page_size then (sna_memory ?s ! i) a else (sna_memory sna_construct ! i) a)"
    using sna_save_load [where s = ?s, OF assms(1) _ _ sna_construct_ok sna_construct_check]
    by (auto simp: sna_construct_memory save_snapshot_def sna_construct_check)
  note m = size_words(2) [OF assms(3,2)]
  have "unat (dump_size (sna_head ?s)) = 16384 * n"
    using size_bytes [OF assms(3)] size_words(1) [OF assms(3,2)] by (simp add: dump_size_def hdr(11,12) del: of_nat_mult)
  then have pages: "i < length mem \<and> (mem ! i) a = mem_data (b_ram b i) a"
    if "i < 8" "i * 16384 < unat (memory_size b)" "unat a < 16384" for i a
    using that f(3) f(4) [of i a] saved_pages [OF assms(2,3), of i sna_construct c] m by (simp add: sna_construct_memory)
  have r: "restored (c, b) (load_cpc L \<lparr>sna_head = sna_head ?s, sna_memory = mem\<rparr> (c', b'))"
  proof (rule load_cpc_restores)
    show "sna_head \<lparr>sna_head = sna_head ?s, sna_memory = mem\<rparr> = sna_head ?s" by simp
    show "i < length (sna_memory \<lparr>sna_head = sna_head ?s, sna_memory = mem\<rparr>) \<and>
      (sna_memory \<lparr>sna_head = sna_head ?s, sna_memory = mem\<rparr> ! i) a = mem_data (b_ram b i) a"
      if "i < 8" "i * 16384 < unat (memory_size b)" "unat a < 16384" for i a
      using pages [OF that] by simp
  qed (rule assms)+
  show ?thesis
    by (intro exI [of _ fs'] exI [of _ "load_cpc L \<lparr>sna_head = sna_head ?s, sna_memory = mem\<rparr> (c', b')"])
      (simp add: f(1,2) r load_snapshot_def)
qed

theorem snapshot_restores_machine_witness:
  "\<exists>fs' h'. save_snapshot ''a.sna'' (zero_state, bench_board) Map.empty = (None, fs') \<and>
    load_snapshot bench_lib ''a.sna'' fs' (zero_state, bench_board) = (None, h') \<and> restored (zero_state, bench_board) h'"
proof -
  have "\<exists>fp fs0. fopen_write ''a.sna'' Map.empty = Some (fp, fs0)" by (simp add: fopen_write_def)
  then obtain fp fs0 where "fopen_write ''a.sna'' Map.empty = Some (fp, fs0)" by blast
  then show ?thesis
    using snapshot_restores_machine [of "''a.sna''" Map.empty fp fs0 bench_board 4 bench_board zero_state bench_lib zero_state]
      bench_vdc_ok by (simp add: bench_vga_def bench_psg_def)
qed


section \<open>Where the loading goes wrong\<close>

definition all_outputs :: "'d board \<Rightarrow> bool" where
  "all_outputs b \<longleftrightarrow> dir_a (b_ppi b) = 0 \<and> dir_b (b_ppi b) = 0 \<and> dir_c (b_ppi b) = 0"

lemma outputs_stay:
  assumes "all_outputs (snd h)"
  shows "all_outputs (snd (snd (on_ppi (wr_port_a board_ppi y) h)))" and "all_outputs (snd (snd (on_ppi (wr_port_b board_ppi y) h)))"
    and "all_outputs (snd (snd (on_ppi (wr_port_c board_ppi y) h)))"
    and "x AND 0x80 = 0 \<Longrightarrow> all_outputs (snd (snd (on_ppi (wr_ctrl_p board_ppi x) h)))"
  using assms by (simp_all add: all_outputs_def on_ppi_def wr_port_a_def wr_port_b_def wr_port_c_def wr_ctrl_p_def
      board_ppi_def ppi_port_a_wr_def ppi_illegal_def ppi_port_c_wr_def Let_def case_prod_unfold del: push_bit_and)

lemma load_ppi_outputs:
  "all_outputs (snd h) \<Longrightarrow> sna_ppi_ctrl_p hdr AND 0x80 = 0 \<Longrightarrow> all_outputs (snd (load_ppi hdr h))"
  by (simp add: load_ppi_def Let_def outputs_stay)

text \<open>
  C40: a snapshot taken after a bit command loses the directions of the ports.  The control register
  keeps the last control byte, the bit command included; loading the snapshot replays that byte only,
  so when its bit 7 is clear all three ports are outputs afterwards, whatever they were.
\<close>

theorem snapshot_loses_directions:
  assumes "ctrl_p (b_ppi b) AND 0x80 = 0" and "length (psg_array (b_psg b')) = 16"
    and "load_cpc L (save_cpc (c, b) sna) (c', b') = (c1, b1)"
  shows "dir_a (b_ppi b1) = 0 \<and> dir_b (b_ppi b1) = 0 \<and> dir_c (b_ppi b1) = 0"
proof -
  let ?hdr = "sna_head (save_cpc (c, b) sna)"
  obtain c0 b0 where r: "board_reset L (c', b') = (c0, b0)" by (cases "board_reset L (c', b')")
  define b2 where "b2 = load_vdc ?hdr (load_vga ?hdr b0)"
  obtain c3 b3 where p: "load_ppi ?hdr (load_cpu ?hdr c0, b2) = (c3, b3)" by (cases "load_ppi ?hdr (load_cpu ?hdr c0, b2)")
  obtain c4 b4 where g: "load_psg ?hdr (c3, b3) = (c4, b4)" by (cases "load_psg ?hdr (c3, b3)")
  have "b_ppi b0 = ppi_reset (b_ppi b')"
    using arg_cong [OF r, of "\<lambda>h. b_ppi (snd h)"] by (simp add: board_reset_def Let_def mem_banks_reset_def state_reset_def)
  then have "all_outputs (snd (load_cpu ?hdr c0, b2))"
    by (simp add: all_outputs_def b2_def load_vdc_def load_vga_def ppi_reset_def)
  moreover have "sna_ppi_ctrl_p ?hdr AND 0x80 = 0" using assms(1) by (simp add: save_cpc_def save_devices_def Let_def)
  ultimately have "all_outputs (snd (load_ppi ?hdr (load_cpu ?hdr c0, b2)))" by (rule load_ppi_outputs)
  then have o: "all_outputs b3" by (simp add: p)
  have "apart_from_ppi b2 (undefined, load_cpu ?hdr c0, b2)"
    using board_reset_fields(3) [of L "(c', b')"] r assms(2) by (simp add: apart_from_ppi_def b2_def load_vdc_def load_vga_def)
  from load_ppi_apart [OF this, of ?hdr] have "length (psg_array (b_psg (snd (c3, b3)))) = 16"
    by (simp add: apart_from_ppi_def Let_def p)
  note b4 = load_psg_restores(2) [OF this g]
  have "b_ppi b4 = b_ppi b3" by (subst b4) simp
  moreover have "b1 = load_mem (save_cpc (c, b) sna) (b4\<lparr>ram_conf := ram_select ?hdr, rom_conf := rom_select ?hdr\<rparr>)"
    using assms(3) by (simp add: load_cpc_def r p g Let_def flip: b2_def)
  ultimately show ?thesis
    using o by (simp add: load_mem_def all_outputs_def Let_def)
qed

theorem snapshot_loses_directions_witness:
  "dir_a (b_ppi (snd (load_cpc bench_lib
     (save_cpc (zero_state, bench_board\<lparr>b_ppi := bench_ppi\<lparr>ctrl_p := 0x0d, dir_a := 1\<rparr>\<rparr>) sna_construct) (zero_state, bench_board)))) = 0"
proof -
  let ?b = "bench_board\<lparr>b_ppi := bench_ppi\<lparr>ctrl_p := 0x0d, dir_a := 1\<rparr>\<rparr>"
  obtain c1 b1 where h: "load_cpc bench_lib (save_cpc (zero_state, ?b) sna_construct) (zero_state, bench_board) = (c1, b1)"
    by (cases "load_cpc bench_lib (save_cpc (zero_state, ?b) sna_construct) (zero_state, bench_board)")
  have "ctrl_p (b_ppi ?b) AND 0x80 = 0" "length (psg_array (b_psg bench_board)) = 16"
    by (simp_all add: bench_psg_def)
  from snapshot_loses_directions [OF this h] show ?thesis unfolding h by simp
qed

text \<open>
  A snapshot can put the gate array out of its bounds.  The pen of the header is copied without a
  check, so a file with a pen above 16, which passes every check of the reader, leaves a gate array
  whose next palette write goes outside the palette.
\<close>

theorem snapshot_pen_unchecked:
  assumes "16 < vga_ink_ix (sna_head sna)" and "length (psg_array (b_psg b)) = 16"
  shows "\<not> vga_ok (b_vga (snd (load_cpc L sna (c, b)))) \<and>
    length (ink (b_vga (snd (load_cpc L sna (c, b))))) \<le> unat (pen (b_vga (snd (load_cpc L sna (c, b)))))"
proof -
  let ?hdr = "sna_head sna"
  obtain c0 b0 where r: "board_reset L (c, b) = (c0, b0)" by (cases "board_reset L (c, b)")
  define b2 where "b2 = load_vdc ?hdr (load_vga ?hdr b0)"
  obtain c3 b3 where p: "load_ppi ?hdr (load_cpu ?hdr c0, b2) = (c3, b3)" by (cases "load_ppi ?hdr (load_cpu ?hdr c0, b2)")
  obtain c4 b4 where g: "load_psg ?hdr (c3, b3) = (c4, b4)" by (cases "load_psg ?hdr (c3, b3)")
  have "apart_from_ppi b2 (undefined, load_cpu ?hdr c0, b2)"
    using board_reset_fields(3) [of L "(c, b)"] r assms(2) by (simp add: apart_from_ppi_def b2_def load_vdc_def load_vga_def)
  from load_ppi_apart [OF this, of ?hdr] have b3: "length (psg_array (b_psg (snd (c3, b3)))) = 16" "b_vga b3 = b_vga b2"
    by (simp_all add: apart_from_ppi_def Let_def p)
  have "b_vga b4 = b_vga b3" by (subst load_psg_restores(2) [OF b3(1) g]) simp
  then have "b_vga (snd (load_cpc L sna (c, b))) = b_vga b2"
    using b3(2) by (simp add: load_cpc_def r p g load_mem_def Let_def flip: b2_def)
  moreover have "pen (b_vga b2) = vga_ink_ix ?hdr" "length (ink (b_vga b2)) = 17"
    by (simp_all add: b2_def load_vdc_def load_vga_def)
  ultimately show ?thesis
    using assms(1) by (auto simp: vga_ok_def word_less_nat_alt word_le_nat_alt)
qed

definition bad_pen_snapshot :: sna_state where
  "bad_pen_snapshot = sna_construct\<lparr>sna_head := (sna_head sna_construct)\<lparr>vga_ink_ix := 200\<rparr>\<rparr>"

theorem snapshot_pen_unchecked_witness:
  "sna_check (sna_head bad_pen_snapshot) = None \<and> \<not> vga_ok (b_vga (snd (load_cpc bench_lib bad_pen_snapshot (zero_state, bench_board))))"
  using snapshot_pen_unchecked [of bad_pen_snapshot bench_board bench_lib zero_state]
  by (simp add: bad_pen_snapshot_def bench_psg_def sna_check_def sna_construct_def)


end
