(* ===== verification/DSK_Format.thy ===== *)
theory DSK_Format
  imports Host_C
begin

text \<open>
  Disc images (\<^verbatim>\<open>lib/xcpc/formats/dsk/dsk-format.h\<close> and \<^verbatim>\<open>dsk-format.cc\<close>): the records of
  a disc, of a track and of a sector with their bytes, the setters and the checks of the adapters,
  and the two operations on a file, reading a whole image and creating an empty one.  A record is
  a union of its bytes and its fields: it is modelled by the fields, with its bytes and back as
  functions.  The messages that are printed on the way are not modelled.
\<close>

unbundle bit_operations_syntax

section \<open>Records\<close>

record disk_info =
  di_magic :: "u8 list"
  di_signature :: "u8 list"
  di_tool :: "u8 list"
  di_number_of_tracks :: u8
  di_number_of_sides :: u8
  di_track_size_lsb :: u8
  di_track_size_msb :: u8
  di_padding :: "u8 list"

record track_info =
  ti_signature :: "u8 list"
  ti_reserved1 :: u8
  ti_reserved2 :: u8
  ti_reserved3 :: u8
  ti_reserved4 :: u8
  ti_track_number :: u8
  ti_side_number :: u8
  ti_reserved5 :: u8
  ti_reserved6 :: u8
  ti_sector_size :: u8
  ti_number_of_sectors :: u8
  ti_gap3_length :: u8
  ti_filler_byte :: u8

record sector_info =
  si_fdc_c :: u8
  si_fdc_h :: u8
  si_fdc_r :: u8
  si_fdc_n :: u8
  si_fdc_st1 :: u8
  si_fdc_st2 :: u8
  si_size_lsb :: u8
  si_size_msb :: u8

text \<open>The data of a sector is a union of arrays from 128 to 8192 bytes.\<close>

record sector_record =
  sr_info :: sector_info
  sr_data :: "u8 list"

record image_record =
  im_disk :: disk_info
  im_track :: track_info
  im_sector :: "sector_record list"

text \<open>The bytes of the records, in the order of the fields, and back.\<close>

definition disk_info_bytes :: "disk_info \<Rightarrow> u8 list" where
  "disk_info_bytes d = di_magic d @ di_signature d @ di_tool d @
     [di_number_of_tracks d, di_number_of_sides d, di_track_size_lsb d, di_track_size_msb d] @ di_padding d"

definition disk_info_of :: "u8 list \<Rightarrow> disk_info" where
  "disk_info_of b = \<lparr>di_magic = take 23 b, di_signature = take 11 (drop 23 b), di_tool = take 14 (drop 34 b),
     di_number_of_tracks = b ! 48, di_number_of_sides = b ! 49, di_track_size_lsb = b ! 50, di_track_size_msb = b ! 51,
     di_padding = take 204 (drop 52 b)\<rparr>"

definition track_info_bytes :: "track_info \<Rightarrow> u8 list" where
  "track_info_bytes t = ti_signature t @
     [ti_reserved1 t, ti_reserved2 t, ti_reserved3 t, ti_reserved4 t, ti_track_number t, ti_side_number t, 
      ti_reserved5 t, ti_reserved6 t, ti_sector_size t, ti_number_of_sectors t, ti_gap3_length t, ti_filler_byte t]"

definition track_info_of :: "u8 list \<Rightarrow> track_info" where
  "track_info_of b = \<lparr>ti_signature = take 12 b,
     ti_reserved1 = b ! 12, ti_reserved2 = b ! 13, ti_reserved3 = b ! 14, ti_reserved4 = b ! 15, 
     ti_track_number = b ! 16, ti_side_number = b ! 17, ti_reserved5 = b ! 18, ti_reserved6 = b ! 19, 
     ti_sector_size = b ! 20, ti_number_of_sectors = b ! 21, ti_gap3_length = b ! 22, ti_filler_byte = b ! 23\<rparr>"

definition sector_info_bytes :: "sector_info \<Rightarrow> u8 list" where
  "sector_info_bytes s = [si_fdc_c s, si_fdc_h s, si_fdc_r s, si_fdc_n s, si_fdc_st1 s, si_fdc_st2 s, si_size_lsb s, si_size_msb s]"

definition sector_info_of :: "u8 list \<Rightarrow> sector_info" where
  "sector_info_of b = \<lparr>si_fdc_c = b ! 0, si_fdc_h = b ! 1, si_fdc_r = b ! 2, si_fdc_n = b ! 3, si_fdc_st1 = b ! 4, 
     si_fdc_st2 = b ! 5, si_size_lsb = b ! 6, si_size_msb = b ! 7\<rparr>"

text \<open>\<^verbatim>\<open>memset\<close> to a value.\<close>

definition clear_disk_info :: disk_info where
  "clear_disk_info = disk_info_of (replicate 256 0x00)"

definition clear_track_info :: track_info where
  "clear_track_info = track_info_of (replicate 24 0x00)"

definition clear_sector_info :: sector_info where
  "clear_sector_info = sector_info_of (replicate 8 0x00)"

definition clear_sector_data :: "u8 \<Rightarrow> u8 list" where
  "clear_sector_data byte = replicate 8192 byte"

section \<open>Texts\<close>

definition ascii :: "string \<Rightarrow> u8 list" where
  "ascii s = map of_char s"

definition std_magic :: "u8 list" where
  "std_magic = ascii ''MV - CPCEMU Disk-File'' @ [0x0D, 0x0A]"

definition ext_magic :: "u8 list" where
  "ext_magic = ascii ''EXTENDED CPC DSK File'' @ [0x0D, 0x0A]"

definition dsk_info :: "u8 list" where
  "dsk_info = ascii ''Disk-Info'' @ [0x0D, 0x0A]"

definition dsk_tool :: "u8 list" where
  "dsk_tool = ascii ''Disk-Utilities''"

definition trk_info :: "u8 list" where
  "trk_info = ascii ''Track-Info'' @ [0x0D, 0x0A]"

text \<open>
  A field is compared with its text: the first mismatch is accepted from \<open>min_count\<close> on, which
  \<open>relaxed\<close> records.  The signature of the disc is not looked at any more once it is relaxed.
\<close>

fun check_text :: "nat \<Rightarrow> nat \<Rightarrow> u8 list \<Rightarrow> u8 list \<Rightarrow> bool \<Rightarrow> bool \<times> bool" where
  "check_text min_count index [] text relaxed = (True, relaxed)"
| "check_text min_count index (byte # bytes) text relaxed =
     (if byte \<noteq> text ! index then (if min_count \<le> index then (True, True) else (False, relaxed))
      else if length text \<le> index + 1 then (True, relaxed)
      else check_text min_count (index + 1) bytes text relaxed)"

fun check_signature :: "nat \<Rightarrow> nat \<Rightarrow> u8 list \<Rightarrow> u8 list \<Rightarrow> bool \<Rightarrow> bool" where
  "check_signature min_count index [] text relaxed = True"
| "check_signature min_count index (byte # bytes) text relaxed =
     (if byte \<noteq> text ! index \<and> \<not> relaxed then min_count \<le> index
      else if length text \<le> index + 1 then True
      else check_signature min_count (index + 1) bytes text relaxed)"

text \<open>The setters of the texts copy as many bytes as the field has.\<close>

definition put_text :: "u8 list \<Rightarrow> u8 list \<Rightarrow> u8 list" where
  "put_text text field = take (length field) text @ drop (length text) field"

text \<open>The getters of the texts make them printable.\<close>

definition printable :: "u8 list \<Rightarrow> string" where
  "printable bytes = concat (map (\<lambda>c. if 0x20 \<le> c then [char_of (unat c)]
     else if c = 0x00 then [CHR 0x5C, CHR ''0'']
     else if c = 0x0D then [CHR 0x5C, CHR ''r'']
     else if c = 0x0A then [CHR 0x5C, CHR ''n'']
     else [CHR ''?'']) bytes)"

section \<open>The disc\<close>

abbreviation MIN_NUMBER_OF_SIDES :: u8 where "MIN_NUMBER_OF_SIDES \<equiv> 1"
abbreviation MAX_NUMBER_OF_SIDES :: u8 where "MAX_NUMBER_OF_SIDES \<equiv> 2"
abbreviation MIN_NUMBER_OF_TRACKS :: u8 where "MIN_NUMBER_OF_TRACKS \<equiv> 1"
abbreviation MAX_NUMBER_OF_TRACKS :: u8 where "MAX_NUMBER_OF_TRACKS \<equiv> 80"
abbreviation MAX_NUMBER_OF_SECTORS :: u8 where "MAX_NUMBER_OF_SECTORS \<equiv> 29"
abbreviation MAX_SECTOR_SIZE :: u8 where "MAX_SECTOR_SIZE \<equiv> 7"

definition check_disk_info :: "disk_info \<Rightarrow> string option" where
  "check_disk_info d = (let
     (standard, relaxed) = check_text 8 0 (di_magic d) std_magic False;
     (magic, relaxed) = (if standard then (True, relaxed) else check_text 8 0 (di_magic d) ext_magic relaxed)
   in if \<not> magic then Some ''disk has a bad magic''
     else if \<not> check_signature 9 0 (di_signature d) dsk_info relaxed then Some ''disk has a bad signature''
     else if di_number_of_tracks d < MIN_NUMBER_OF_TRACKS \<or> MAX_NUMBER_OF_TRACKS < di_number_of_tracks d
     then Some ''disk has a bad number of tracks''
     else if di_number_of_sides d < MIN_NUMBER_OF_SIDES \<or> MAX_NUMBER_OF_SIDES < di_number_of_sides d
     then Some ''disk has a bad number of sides''
     else None)"

definition set_magic :: "disk_info \<Rightarrow> disk_info" where
  "set_magic d = d\<lparr>di_magic := put_text std_magic (di_magic d)\<rparr>"
definition set_disk_signature :: "disk_info \<Rightarrow> disk_info" where
  "set_disk_signature d = d\<lparr>di_signature := put_text dsk_info (di_signature d)\<rparr>"
definition set_creator :: "disk_info \<Rightarrow> disk_info" where
  "set_creator d = d\<lparr>di_tool := put_text dsk_tool (di_tool d)\<rparr>"
definition set_number_of_tracks :: "u8 \<Rightarrow> disk_info \<Rightarrow> disk_info" where
  "set_number_of_tracks n d = d\<lparr>di_number_of_tracks := n\<rparr>"
definition set_number_of_sides :: "u8 \<Rightarrow> disk_info \<Rightarrow> disk_info" where
  "set_number_of_sides n d = d\<lparr>di_number_of_sides := n\<rparr>"
definition set_track_size :: "u16 \<Rightarrow> disk_info \<Rightarrow> disk_info" where
  "set_track_size n d = d\<lparr>di_track_size_lsb := ucast (drop_bit 0 n AND 0xff),
     di_track_size_msb := ucast (drop_bit 8 n AND 0xff)\<rparr>"
definition set_padding :: "u8 \<Rightarrow> disk_info \<Rightarrow> disk_info" where
  "set_padding padding d = d\<lparr>di_padding := map (\<lambda>_. padding) (di_padding d)\<rparr>"

definition get_magic :: "disk_info \<Rightarrow> string" where "get_magic d = printable (di_magic d)"
definition get_disk_signature :: "disk_info \<Rightarrow> string" where "get_disk_signature d = printable (di_signature d)"
definition get_creator :: "disk_info \<Rightarrow> string" where "get_creator d = printable (di_tool d)"
definition get_number_of_tracks :: "disk_info \<Rightarrow> u8" where "get_number_of_tracks d = di_number_of_tracks d"
definition get_number_of_sides :: "disk_info \<Rightarrow> u8" where "get_number_of_sides d = di_number_of_sides d"
definition get_track_size :: "disk_info \<Rightarrow> u16" where
  "get_track_size d = push_bit 8 (ucast (di_track_size_msb d)) OR ucast (di_track_size_lsb d)"
definition get_side_size :: "disk_info \<Rightarrow> u32" where
  "get_side_size d = ucast (get_number_of_sides d) * (ucast (get_number_of_tracks d) * ucast (get_track_size d))"

section \<open>A track\<close>

definition check_track_info :: "track_info \<Rightarrow> string option" where
  "check_track_info t =
     (if \<not> fst (check_text 10 0 (ti_signature t) trk_info False) then Some ''track has a bad signature''
      else if MAX_NUMBER_OF_TRACKS \<le> ti_track_number t then Some ''track has a bad track number''
      else if MAX_NUMBER_OF_SIDES \<le> ti_side_number t then Some ''track has a bad side number''
      else if MAX_SECTOR_SIZE \<le> ti_sector_size t then Some ''track has a bad sector size''
      else if MAX_NUMBER_OF_SECTORS \<le> ti_number_of_sectors t then Some ''track has a bad number of sectors''
      else None)"

definition set_track_signature :: "track_info \<Rightarrow> track_info" where
  "set_track_signature t = t\<lparr>ti_signature := put_text trk_info (ti_signature t)\<rparr>"
definition get_track_signature :: "track_info \<Rightarrow> string" where "get_track_signature t = printable (ti_signature t)"
definition set_reserved1 :: "u8 \<Rightarrow> track_info \<Rightarrow> track_info" where "set_reserved1 x t = t\<lparr>ti_reserved1 := x\<rparr>"
definition set_reserved2 :: "u8 \<Rightarrow> track_info \<Rightarrow> track_info" where "set_reserved2 x t = t\<lparr>ti_reserved2 := x\<rparr>"
definition set_reserved3 :: "u8 \<Rightarrow> track_info \<Rightarrow> track_info" where "set_reserved3 x t = t\<lparr>ti_reserved3 := x\<rparr>"
definition set_reserved4 :: "u8 \<Rightarrow> track_info \<Rightarrow> track_info" where "set_reserved4 x t = t\<lparr>ti_reserved4 := x\<rparr>"
definition set_track_number :: "u8 \<Rightarrow> track_info \<Rightarrow> track_info" where "set_track_number x t = t\<lparr>ti_track_number := x\<rparr>"
definition set_side_number :: "u8 \<Rightarrow> track_info \<Rightarrow> track_info" where "set_side_number x t = t\<lparr>ti_side_number := x\<rparr>"
definition set_reserved5 :: "u8 \<Rightarrow> track_info \<Rightarrow> track_info" where "set_reserved5 x t = t\<lparr>ti_reserved5 := x\<rparr>"
definition set_reserved6 :: "u8 \<Rightarrow> track_info \<Rightarrow> track_info" where "set_reserved6 x t = t\<lparr>ti_reserved6 := x\<rparr>"
definition set_sector_size :: "u8 \<Rightarrow> track_info \<Rightarrow> track_info" where "set_sector_size x t = t\<lparr>ti_sector_size := x\<rparr>"
definition set_number_of_sectors :: "u8 \<Rightarrow> track_info \<Rightarrow> track_info" where "set_number_of_sectors x t = t\<lparr>ti_number_of_sectors := x\<rparr>"
definition set_gap3_length :: "u8 \<Rightarrow> track_info \<Rightarrow> track_info" where "set_gap3_length x t = t\<lparr>ti_gap3_length := x\<rparr>"
definition set_filler_byte :: "u8 \<Rightarrow> track_info \<Rightarrow> track_info" where "set_filler_byte x t = t\<lparr>ti_filler_byte := x\<rparr>"
definition get_reserved1 :: "track_info \<Rightarrow> u8" where "get_reserved1 t = ti_reserved1 t"
definition get_reserved2 :: "track_info \<Rightarrow> u8" where "get_reserved2 t = ti_reserved2 t"
definition get_reserved3 :: "track_info \<Rightarrow> u8" where "get_reserved3 t = ti_reserved3 t"
definition get_reserved4 :: "track_info \<Rightarrow> u8" where "get_reserved4 t = ti_reserved4 t"
definition get_track_number :: "track_info \<Rightarrow> u8" where "get_track_number t = ti_track_number t"
definition get_side_number :: "track_info \<Rightarrow> u8" where "get_side_number t = ti_side_number t"
definition get_reserved5 :: "track_info \<Rightarrow> u8" where "get_reserved5 t = ti_reserved5 t"
definition get_reserved6 :: "track_info \<Rightarrow> u8" where "get_reserved6 t = ti_reserved6 t"
definition get_sector_size :: "track_info \<Rightarrow> u8" where "get_sector_size t = ti_sector_size t"
definition get_number_of_sectors :: "track_info \<Rightarrow> u8" where "get_number_of_sectors t = ti_number_of_sectors t"
definition get_gap3_length :: "track_info \<Rightarrow> u8" where "get_gap3_length t = ti_gap3_length t"
definition get_filler_byte :: "track_info \<Rightarrow> u8" where "get_filler_byte t = ti_filler_byte t"

lemmas track_setters = set_track_signature_def set_reserved1_def set_reserved2_def set_reserved3_def set_reserved4_def set_track_number_def set_side_number_def set_reserved5_def set_reserved6_def set_sector_size_def set_number_of_sectors_def set_gap3_length_def set_filler_byte_def

section \<open>A sector\<close>

definition check_sector_info :: "sector_info \<Rightarrow> string option" where
  "check_sector_info s =
     (if MAX_NUMBER_OF_TRACKS \<le> si_fdc_c s then Some ''sector has a bad track number''
      else if MAX_NUMBER_OF_SIDES \<le> si_fdc_h s then Some ''sector has a bad side number''
      else if MAX_SECTOR_SIZE \<le> si_fdc_n s then Some ''sector has a bad sector size''
      else None)"

definition set_fdc_c :: "u8 \<Rightarrow> sector_info \<Rightarrow> sector_info" where "set_fdc_c x s = s\<lparr>si_fdc_c := x\<rparr>"
definition set_fdc_h :: "u8 \<Rightarrow> sector_info \<Rightarrow> sector_info" where "set_fdc_h x s = s\<lparr>si_fdc_h := x\<rparr>"
definition set_fdc_r :: "u8 \<Rightarrow> sector_info \<Rightarrow> sector_info" where "set_fdc_r x s = s\<lparr>si_fdc_r := x\<rparr>"
definition set_fdc_n :: "u8 \<Rightarrow> sector_info \<Rightarrow> sector_info" where "set_fdc_n x s = s\<lparr>si_fdc_n := x\<rparr>"
definition set_fdc_st1 :: "u8 \<Rightarrow> sector_info \<Rightarrow> sector_info" where "set_fdc_st1 x s = s\<lparr>si_fdc_st1 := x\<rparr>"
definition set_fdc_st2 :: "u8 \<Rightarrow> sector_info \<Rightarrow> sector_info" where "set_fdc_st2 x s = s\<lparr>si_fdc_st2 := x\<rparr>"
definition set_size :: "u16 \<Rightarrow> sector_info \<Rightarrow> sector_info" where
  "set_size n s = s\<lparr>si_size_lsb := ucast (drop_bit 0 n AND 0xff), si_size_msb := ucast (drop_bit 8 n AND 0xff)\<rparr>"
definition get_fdc_c :: "sector_info \<Rightarrow> u8" where "get_fdc_c s = si_fdc_c s"
definition get_fdc_h :: "sector_info \<Rightarrow> u8" where "get_fdc_h s = si_fdc_h s"
definition get_fdc_r :: "sector_info \<Rightarrow> u8" where "get_fdc_r s = si_fdc_r s"
definition get_fdc_n :: "sector_info \<Rightarrow> u8" where "get_fdc_n s = si_fdc_n s"
definition get_fdc_st1 :: "sector_info \<Rightarrow> u8" where "get_fdc_st1 s = si_fdc_st1 s"
definition get_fdc_st2 :: "sector_info \<Rightarrow> u8" where "get_fdc_st2 s = si_fdc_st2 s"
definition get_size :: "sector_info \<Rightarrow> u16" where
  "get_size s = push_bit 8 (ucast (si_size_msb s)) OR ucast (si_size_lsb s)"

lemmas sector_setters = set_fdc_c_def set_fdc_h_def set_fdc_r_def set_fdc_n_def set_fdc_st1_def set_fdc_st2_def set_size_def

text \<open>The array of the union that a size code selects.\<close>

definition raw_size :: "u8 \<Rightarrow> nat option" where
  "raw_size n = (if n = 0 then Some 128 else if n = 1 then Some 256 else if n = 2 then Some 512 else if n = 3 then Some 1024
     else if n = 4 then Some 2048 else if n = 5 then Some 4096 else if n = 6 then Some 8192 else None)"

section \<open>Operations on an image and its file\<close>

text \<open>
  The state is the record and the file: what is left to read of it, or what has been written.  An
  operation returns the message of its exception, if there is one, and the state that it leaves.
\<close>

type_synonym image_state = "image_record \<times> u8 list"
type_synonym image_op = "image_state \<Rightarrow> string option \<times> image_state"

definition and_then :: "image_op \<Rightarrow> image_op \<Rightarrow> image_op" where
  "and_then f g s = (case f s of (None, s) \<Rightarrow> g s | (Some e, s) \<Rightarrow> (Some e, s))"

primrec for_each :: "('a \<Rightarrow> image_op) \<Rightarrow> 'a list \<Rightarrow> image_op" where
  "for_each f [] s = (None, s)"
| "for_each f (x # xs) s = and_then (f x) (for_each f xs) s"

definition modify :: "(image_record \<Rightarrow> image_record) \<Rightarrow> image_op" where
  "modify f s = (None, f (fst s), snd s)"

definition check_image :: "(image_record \<Rightarrow> string option) \<Rightarrow> image_op" where
  "check_image f s = (f (fst s), s)"

definition store_data :: "(image_record \<Rightarrow> u8 list) \<Rightarrow> image_op" where
  "store_data f s = (None, fst s, snd s @ f (fst s))"

text \<open>
  \<open>n\<close> bytes are read over the bytes \<open>raw\<close> of a record, which \<open>put\<close> sets.  When the file ends before,
  the bytes that were left have been stored and the exception follows.
\<close>

definition fetch_data :: "nat \<Rightarrow> (image_record \<Rightarrow> u8 list) \<Rightarrow> (u8 list \<Rightarrow> image_record \<Rightarrow> image_record) \<Rightarrow> image_op" where
  "fetch_data n raw put s = (let
       bytes = take n (snd s);
       im = put (bytes @ drop (length bytes) (take n (raw (fst s)))) (fst s)
     in if length bytes \<noteq> n then (Some ''fetch_data() has failed'', im, [])
        else (None, im, drop n (snd s)))"

definition on_disk :: "(disk_info \<Rightarrow> disk_info) \<Rightarrow> image_record \<Rightarrow> image_record" where
  "on_disk f im = im\<lparr>im_disk := f (im_disk im)\<rparr>"

definition on_track :: "(track_info \<Rightarrow> track_info) \<Rightarrow> image_record \<Rightarrow> image_record" where
  "on_track f im = im\<lparr>im_track := f (im_track im)\<rparr>"

definition on_sector :: "nat \<Rightarrow> (sector_record \<Rightarrow> sector_record) \<Rightarrow> image_record \<Rightarrow> image_record" where
  "on_sector k f im = im\<lparr>im_sector := (im_sector im)[k := f (im_sector im ! k)]\<rparr>"

definition set_info :: "(sector_info \<Rightarrow> sector_info) \<Rightarrow> sector_record \<Rightarrow> sector_record" where
  "set_info f s = s\<lparr>sr_info := f (sr_info s)\<rparr>"

definition sector_at :: "nat \<Rightarrow> image_record \<Rightarrow> sector_record" where
  "sector_at k im = im_sector im ! k"

abbreviation all_sectors :: "nat list" where "all_sectors \<equiv> [0..<29]"

text \<open>The data of a sector, as much of it as the size code of its header says.\<close>

definition clear_data :: "nat \<Rightarrow> image_record \<Rightarrow> image_record" where
  "clear_data k im = on_sector k (\<lambda>s. s\<lparr>sr_data := clear_sector_data (ti_filler_byte (im_track im))\<rparr>) im"

definition fetch_sector_bytes :: "nat \<Rightarrow> image_op" where
  "fetch_sector_bytes k s = (case raw_size (si_fdc_n (sr_info (sector_at k (fst s)))) of
     None \<Rightarrow> (Some ''unsupported sector size'', s)
   | Some n \<Rightarrow> fetch_data n (\<lambda>im. sr_data (sector_at k im)) (\<lambda>b. on_sector k (\<lambda>r. r\<lparr>sr_data := b @ drop n (sr_data r)\<rparr>)) s)"

definition store_sector_bytes :: "nat \<Rightarrow> image_op" where
  "store_sector_bytes k s = (case raw_size (si_fdc_n (sr_info (sector_at k (fst s)))) of
     None \<Rightarrow> (Some ''unsupported sector size'', s)
   | Some n \<Rightarrow> store_data (\<lambda>im. take n (sr_data (sector_at k im))) s)"

definition clear_image :: "image_record \<Rightarrow> image_record" where
  "clear_image im = (let
     im = on_disk (\<lambda>_. clear_disk_info) im;
     im = on_track (\<lambda>_. clear_track_info) im;
     im = fold (\<lambda>k. on_sector k (set_info (\<lambda>_. clear_sector_info))) all_sectors im
   in fold clear_data all_sectors im)"

section \<open>Reading an image\<close>

definition fetch_header :: image_op where
  "fetch_header = and_then (fetch_data 256 (\<lambda>im. disk_info_bytes (im_disk im)) (\<lambda>b. on_disk (\<lambda>_. disk_info_of b))) (check_image (\<lambda>im. check_disk_info (im_disk im)))"

definition fetch_track_info :: image_op where
  "fetch_track_info = and_then (fetch_data 24 (\<lambda>im. track_info_bytes (im_track im)) (\<lambda>b. on_track (\<lambda>_. track_info_of b))) (check_image (\<lambda>im. check_track_info (im_track im)))"

definition fetch_sector_info :: "nat \<Rightarrow> nat \<Rightarrow> image_op" where
  "fetch_sector_info number_of_sectors current_sector =
     and_then (fetch_data 8 (\<lambda>im. sector_info_bytes (sr_info (sector_at current_sector im)))
       (\<lambda>b. on_sector current_sector (set_info (\<lambda>_. sector_info_of b))))
       (if current_sector < number_of_sectors
        then check_image (\<lambda>im. check_sector_info (sr_info (sector_at current_sector im))) else modify id)"

definition fetch_sector_data :: "nat \<Rightarrow> nat \<Rightarrow> image_op" where
  "fetch_sector_data number_of_sectors current_sector =
     and_then (modify (clear_data current_sector))
       (if current_sector < number_of_sectors then fetch_sector_bytes current_sector else modify id)"

definition fetch_track :: image_op where
  "fetch_track = and_then fetch_track_info (\<lambda>s. let number_of_sectors = unat (get_number_of_sectors (im_track (fst s))) in
     and_then (for_each (fetch_sector_info number_of_sectors) all_sectors)
       (for_each (fetch_sector_data number_of_sectors) all_sectors) s)"

definition fetch_image :: image_op where
  "fetch_image = and_then fetch_header (\<lambda>s. let
       number_of_sides = unat (get_number_of_sides (im_disk (fst s)));
       number_of_tracks = unat (get_number_of_tracks (im_disk (fst s)))
     in for_each (\<lambda>_. for_each (\<lambda>_. fetch_track) [0..<number_of_sides]) [0..<number_of_tracks] s)"

section \<open>Creating an image\<close>

text \<open>One side of 40 tracks with nine sectors of 512 bytes, filled with \<open>0xe5\<close>.\<close>

definition created_track_size :: u16 where
  "created_track_size = (24 + (29 * 8)) + (9 * (128 * (push_bit 2 1)))"

definition store_header :: image_op where
  "store_header = and_then (modify (on_disk (\<lambda>_. set_padding 0x00 (set_track_size created_track_size (set_number_of_sides 1
       (set_number_of_tracks 40 (set_creator (set_disk_signature (set_magic clear_disk_info)))))))))
     (and_then (check_image (\<lambda>im. check_disk_info (im_disk im))) (store_data (\<lambda>im. disk_info_bytes (im_disk im))))"

definition created_track :: "u8 \<Rightarrow> u8 \<Rightarrow> track_info" where
  "created_track track side = set_filler_byte 0xe5 (set_gap3_length 0x2a (set_number_of_sectors 9 (set_sector_size 2
     (set_reserved6 0 (set_reserved5 0 (set_side_number side (set_track_number track (set_reserved4 0 (set_reserved3 0
     (set_reserved2 0 (set_reserved1 0 (set_track_signature clear_track_info))))))))))))"

definition store_track_info :: "u8 \<Rightarrow> u8 \<Rightarrow> image_op" where
  "store_track_info track side = and_then (modify (on_track (\<lambda>_. created_track track side)))
     (and_then (check_image (\<lambda>im. check_track_info (im_track im))) (store_data (\<lambda>im. track_info_bytes (im_track im))))"

definition created_sector :: "u8 \<Rightarrow> u8 \<Rightarrow> nat \<Rightarrow> sector_info" where
  "created_sector track side current_sector =
     (if current_sector < 9
      then set_size 0 (set_fdc_st2 0x00 (set_fdc_st1 0x00 (set_fdc_n 2
        (set_fdc_r (0xc0 + (of_nat current_sector + 1)) (set_fdc_h side (set_fdc_c track clear_sector_info))))))
      else clear_sector_info)"

definition store_sector_info :: "u8 \<Rightarrow> u8 \<Rightarrow> nat \<Rightarrow> image_op" where
  "store_sector_info track side k = and_then (modify (on_sector k (set_info (\<lambda>_. created_sector track side k))))
     (and_then (check_image (\<lambda>im. check_sector_info (sr_info (sector_at k im))))
       (store_data (\<lambda>im. sector_info_bytes (sr_info (sector_at k im)))))"

definition store_sector_data :: "nat \<Rightarrow> image_op" where
  "store_sector_data k = and_then (modify (clear_data k)) (if k < 9 then store_sector_bytes k else modify id)"

definition store_track :: "nat \<Rightarrow> nat \<Rightarrow> image_op" where
  "store_track track side = and_then (store_track_info (of_nat track) (of_nat side))
     (and_then (for_each (store_sector_info (of_nat track) (of_nat side)) all_sectors) (for_each store_sector_data all_sectors))"

definition store_image :: image_op where
  "store_image = and_then store_header (for_each (\<lambda>track. for_each (store_track track) [0..<1]) [0..<40])"

section \<open>Discs\<close>

text \<open>A disc has a record, a file name and a file, which an exception leaves open.\<close>

record disk =
  dk_image :: image_record
  dk_filename :: string
  dk_opened :: bool

definition blank_image :: image_record where
  "blank_image = \<lparr>im_disk = clear_disk_info, im_track = clear_track_info,
     im_sector = replicate 29 \<lparr>sr_info = clear_sector_info, sr_data = clear_sector_data 0\<rparr>\<rparr>"

definition new_disk :: "string \<Rightarrow> disk" where
  "new_disk filename = \<lparr>dk_image = blank_image, dk_filename = filename, dk_opened = False\<rparr>"

definition already_opened :: "disk \<Rightarrow> string" where
  "already_opened d = ''<'' @ dk_filename d @ ''> is already opened''"

definition disk_dump :: "file_system \<Rightarrow> disk \<Rightarrow> string option \<times> disk" where
  "disk_dump fs d = (if dk_opened d then (Some (already_opened d), d)
     else case fs (dk_filename d) of
       None \<Rightarrow> (Some ''open() has failed'', d)
     | Some f \<Rightarrow> (case fetch_image (clear_image (dk_image d), f_bytes f) of
         (Some e, im, _) \<Rightarrow> (Some e, d\<lparr>dk_image := im, dk_opened := True\<rparr>)
       | (None, im, _) \<Rightarrow> (None, d\<lparr>dk_image := im\<rparr>)))"

definition disk_create :: "file_system \<Rightarrow> disk \<Rightarrow> string option \<times> disk \<times> file_system" where
  "disk_create fs d = (if dk_opened d then (Some (already_opened d), d, fs)
     else case fopen_write (dk_filename d) fs of
       None \<Rightarrow> (Some ''open() has failed'', d, fs)
     | Some (fp, fs) \<Rightarrow> (case store_image (clear_image (dk_image d), []) of
         (e, im, bytes) \<Rightarrow> (e, d\<lparr>dk_image := im, dk_opened := (e \<noteq> None)\<rparr>,
           fs(dk_filename d \<mapsto> \<lparr>f_bytes = bytes, f_writable = True\<rparr>))))"

definition disk_remove :: "file_system \<Rightarrow> disk \<Rightarrow> string option \<times> file_system" where
  "disk_remove fs d = (case fs (dk_filename d) of
     None \<Rightarrow> (Some ''unlink() has failed'', fs)
   | Some _ \<Rightarrow> (None, fs(dk_filename d := None)))"

end
