(* ===== verification/DSK_Props.thy ===== *)
theory DSK_Props
  imports DSK_Format FDD_Props
begin

text \<open>
  Disc images between the two programs that handle them: the image that \<^verbatim>\<open>dsk-format.cc\<close> creates,
  byte for byte, that its reader accepts it, and that the drive of \<^verbatim>\<open>lib/lib765\<close> finds every
  sector in it.
\<close>

unbundle bit_operations_syntax

section \<open>Loops\<close>

text \<open>A loop over indices, with what holds of the record and what the file is before each round.\<close>

lemma for_each_upt:
  assumes "m \<le> n"
    and "\<And>k im. m \<le> k \<Longrightarrow> k < n \<Longrightarrow> P k im \<Longrightarrow> \<exists>im'. f k (im, B k) = (None, im', B (Suc k)) \<and> P (Suc k) im'"
    and "P m im"
  shows "\<exists>im'. for_each f [m..<n] (im, B m) = (None, im', B n) \<and> P n im'"
  using assms
proof (induction arbitrary: im rule: inc_induct)
  case (step k)
  then obtain im' where k: "f k (im, B k) = (None, im', B (Suc k))" "P (Suc k) im'" by blast
  obtain im2 where "for_each f [Suc k..<n] (im', B (Suc k)) = (None, im2, B n)" "P n im2"
    using step.IH [of im'] step.prems(1) k(2) by auto
  with k(1) step.hyps show ?case by (simp add: upt_conv_Cons and_then_def)
qed simp

text \<open>A loop that writes, and a loop that reads.\<close>

lemma for_each_store:
  assumes "\<And>k im out. k < n \<Longrightarrow> P k im \<Longrightarrow> \<exists>im'. f k (im, out) = (None, im', out @ g k) \<and> P (Suc k) im'" and "P 0 im"
  shows "\<exists>im'. for_each f [0..<n] (im, out) = (None, im', out @ concat (map g [0..<n])) \<and> P n im'"
proof -
  have "\<exists>im'. f k (im, out @ concat (map g [0..<k])) = (None, im', out @ concat (map g [0..<Suc k])) \<and> P (Suc k) im'"
    if "0 \<le> k" "k < n" "P k im" for k im
    using assms(1) [OF that(2,3), of "out @ concat (map g [0..<k])"] by simp
  from for_each_upt [of 0 n P f "\<lambda>k. out @ concat (map g [0..<k])" im, OF le0 this assms(2)] show ?thesis by simp
qed

lemma for_each_fetch:
  assumes "\<And>k im inp. k < n \<Longrightarrow> P k im \<Longrightarrow> \<exists>im'. f k (im, g k @ inp) = (None, im', inp) \<and> P (Suc k) im'" and "P 0 im"
  shows "\<exists>im'. for_each f [0..<n] (im, concat (map g [0..<n]) @ inp) = (None, im', inp) \<and> P n im'"
proof -
  have "\<exists>im'. f k (im, concat (map g [k..<n]) @ inp) = (None, im', concat (map g [Suc k..<n]) @ inp) \<and> P (Suc k) im'"
    if "0 \<le> k" "k < n" "P k im" for k im
    using assms(1) [OF that(2,3), of "concat (map g [Suc k..<n]) @ inp"] that(2) by (simp add: upt_conv_Cons)
  from for_each_upt [of 0 n P f "\<lambda>k. concat (map g [k..<n]) @ inp" im, OF le0 this assms(2)] show ?thesis by simp
qed

section \<open>The created image\<close>

definition created_header :: "u8 list" where
  "created_header = std_magic @ dsk_info @ dsk_tool @ [40, 1, 0x00, 0x13] @ replicate 204 0"

definition sector_id :: "nat \<Rightarrow> nat \<Rightarrow> u8 list" where
  "sector_id track k = (if k < 9 then [of_nat track, 0, 0xc1 + of_nat k, 2, 0, 0, 0, 0] else [0, 0, 0, 0, 0, 0, 0, 0])"

definition track_head :: "nat \<Rightarrow> u8 list" where
  "track_head track = trk_info @ [0, 0, 0, 0, of_nat track, 0, 0, 0, 2, 9, 0x2a, 0xe5]"

definition sector_bytes :: "nat \<Rightarrow> u8 list" where
  "sector_bytes k = (if k < 9 then replicate 512 0xe5 else [])"

definition track_block :: "nat \<Rightarrow> u8 list" where
  "track_block track = track_head track @ concat (map (sector_id track) all_sectors) @ concat (map sector_bytes all_sectors)"

definition created_image :: "u8 list" where
  "created_image = created_header @ concat (map track_block [0..<40])"

lemmas texts = std_magic_def ext_magic_def dsk_info_def dsk_tool_def trk_info_def ascii_def

lemma text_lengths [simp]:
  "length std_magic = 23" "length dsk_info = 11" "length dsk_tool = 14" "length trk_info = 12"
  by (simp_all add: texts)

lemma store_header_created: "\<exists>im'. store_header (im, out) = (None, im', out @ created_header) \<and> im_sector im' = im_sector im"
proof -
  let ?d = "\<lparr>di_magic = std_magic, di_signature = dsk_info, di_tool = dsk_tool, di_number_of_tracks = 40, di_number_of_sides = 1,
    di_track_size_lsb = 0x00, di_track_size_msb = 0x13, di_padding = replicate 204 0\<rparr>"
  have "set_padding 0x00 (set_track_size created_track_size (set_number_of_sides 1 (set_number_of_tracks 40 (set_creator
      (set_disk_signature (set_magic clear_disk_info)))))) = ?d"
    by (simp add: clear_disk_info_def disk_info_of_def set_magic_def set_disk_signature_def set_creator_def set_number_of_tracks_def
        set_number_of_sides_def set_track_size_def set_padding_def put_text_def created_track_size_def map_replicate_const)
  moreover have "check_disk_info ?d = None"
    by (simp add: check_disk_info_def texts)
  moreover have "disk_info_bytes ?d = created_header" by (simp add: disk_info_bytes_def created_header_def)
  ultimately show ?thesis by (simp add: store_header_def and_then_def modify_def check_image_def store_data_def on_disk_def)
qed

lemma byte_of_nat: "track < 40 \<Longrightarrow> (of_nat track :: u8) < 80"
  by (simp add: word_less_nat_alt unat_of_nat)

lemma created_track_fields:
  "created_track track side = \<lparr>ti_signature = trk_info, ti_reserved1 = 0, ti_reserved2 = 0, ti_reserved3 = 0, ti_reserved4 = 0,
    ti_track_number = track, ti_side_number = side, ti_reserved5 = 0, ti_reserved6 = 0, ti_sector_size = 2, ti_number_of_sectors = 9,
    ti_gap3_length = 0x2a, ti_filler_byte = 0xe5\<rparr>"
  by (simp add: created_track_def track_setters clear_track_info_def track_info_of_def put_text_def)

lemma created_track_ok: "track < 40 \<Longrightarrow> check_track_info (created_track (of_nat track) 0) = None"
  using byte_of_nat [of track] by (simp add: check_track_info_def created_track_fields texts)

lemma created_sector_fields:
  "created_sector track side k = (if k < 9 then \<lparr>si_fdc_c = track, si_fdc_h = side, si_fdc_r = 0xc1 + of_nat k, si_fdc_n = 2, si_fdc_st1 = 0,
    si_fdc_st2 = 0, si_size_lsb = 0, si_size_msb = 0\<rparr> else clear_sector_info)"
  by (simp add: created_sector_def sector_setters clear_sector_info_def sector_info_of_def add.commute)

lemma created_sector_ok: "track < 40 \<Longrightarrow> check_sector_info (created_sector (of_nat track) 0 k) = None"
  using byte_of_nat [of track]
  by (simp add: check_sector_info_def created_sector_fields clear_sector_info_def sector_info_of_def not_le)

lemma created_bytes:
  "track_info_bytes (created_track (of_nat track) 0) = track_head track"
  "sector_info_bytes (created_sector (of_nat track) 0 k) = sector_id track k"
  by (simp_all add: track_info_bytes_def created_track_fields track_head_def sector_info_bytes_def created_sector_fields sector_id_def
      clear_sector_info_def sector_info_of_def)

lemmas op_defs = and_then_def modify_def check_image_def store_data_def on_track_def on_sector_def set_info_def sector_at_def Let_def

lemma store_sector_infos:
  assumes "track < 40" "length (im_sector im) = 29"
  shows "\<exists>im'. for_each (store_sector_info (of_nat track) 0) all_sectors (im, out) = (None, im', out @ concat (map (sector_id track) all_sectors)) \<and>
    length (im_sector im') = 29 \<and> im_track im' = im_track im \<and>
    (\<forall>k < 29. sr_info (im_sector im' ! k) = created_sector (of_nat track) 0 k)"
  using for_each_store [of 29 "\<lambda>n im'. length (im_sector im') = 29 \<and> im_track im' = im_track im \<and>
      (\<forall>k < n. sr_info (im_sector im' ! k) = created_sector (of_nat track) 0 k)" "store_sector_info (of_nat track) 0" "sector_id track" im out]
    assms by (simp add: store_sector_info_def op_defs created_sector_ok created_bytes nth_list_update less_Suc_eq)

lemma clear_data_parts:
  assumes "k < length (im_sector im)"
  shows "length (im_sector (clear_data k im)) = length (im_sector im)" "im_track (clear_data k im) = im_track im"
    "im_disk (clear_data k im) = im_disk im" "sr_info (im_sector (clear_data k im) ! j) = sr_info (im_sector im ! j)"
    "sr_data (im_sector (clear_data k im) ! k) = clear_sector_data (ti_filler_byte (im_track im))"
  using assms by (simp_all add: clear_data_def on_sector_def nth_list_update)

definition sectors_created :: "u8 \<Rightarrow> image_record \<Rightarrow> bool" where
  "sectors_created t im \<longleftrightarrow> length (im_sector im) = 29 \<and> im_track im = created_track t 0 \<and>
     (\<forall>k < 29. sr_info (im_sector im ! k) = created_sector t 0 k)"

lemma store_sector_data_created:
  assumes "k < 29" "sectors_created t im"
  shows "store_sector_data k (im, out) = (None, clear_data k im, out @ sector_bytes k)" "sectors_created t (clear_data k im)"
proof -
  have im: "k < length (im_sector im)" "im_track im = created_track t 0" "sr_info (im_sector im ! k) = created_sector t 0 k"
    using assms by (simp_all add: sectors_created_def)
  note parts = clear_data_parts [OF im(1)]
  have "store_sector_bytes k (clear_data k im, out) = (None, clear_data k im, out @ sector_bytes k)" if "k < 9"
    using that by (simp add: store_sector_bytes_def sector_at_def parts im raw_size_def store_data_def clear_sector_data_def
        created_track_fields created_sector_fields sector_bytes_def)
  then show "store_sector_data k (im, out) = (None, clear_data k im, out @ sector_bytes k)"
    by (simp add: store_sector_data_def and_then_def modify_def sector_bytes_def)
  show "sectors_created t (clear_data k im)"
    using assms(2) by (simp add: sectors_created_def parts)
qed

lemma store_sector_datas:
  assumes "sectors_created t im"
  shows "\<exists>im'. for_each store_sector_data all_sectors (im, out) = (None, im', out @ concat (map sector_bytes all_sectors)) \<and>
    sectors_created t im'"
  by (rule for_each_store [where P = "\<lambda>_. sectors_created t"]) (use assms store_sector_data_created in blast)+

lemma store_track_block:
  assumes "track < 40" "length (im_sector im) = 29"
  shows "\<exists>im'. store_track track 0 (im, out) = (None, im', out @ track_block track) \<and> length (im_sector im') = 29"
proof -
  let ?im = "im\<lparr>im_track := created_track (of_nat track) 0\<rparr>"
  obtain im1 where 1: "for_each (store_sector_info (of_nat track) 0) all_sectors (?im, out @ track_head track) =
      (None, im1, (out @ track_head track) @ concat (map (sector_id track) all_sectors))" "sectors_created (of_nat track) im1"
    using store_sector_infos [OF assms(1), of ?im "out @ track_head track"] assms(2) by (auto simp: sectors_created_def)
  obtain im2 where 2: "for_each store_sector_data all_sectors (im1, (out @ track_head track) @ concat (map (sector_id track) all_sectors)) =
      (None, im2, ((out @ track_head track) @ concat (map (sector_id track) all_sectors)) @ concat (map sector_bytes all_sectors))"
    "sectors_created (of_nat track) im2"
    using store_sector_datas [OF 1(2)] by blast
  have "store_track_info (of_nat track) 0 (im, out) = (None, ?im, out @ track_head track)"
    using assms(1) by (simp add: store_track_info_def op_defs created_track_ok created_bytes)
  with 1(1) 2 show ?thesis
    by (simp add: store_track_def and_then_def track_block_def sectors_created_def)
qed

lemma store_image_created:
  assumes "length (im_sector im) = 29"
  shows "\<exists>im'. store_image (im, []) = (None, im', created_image)"
proof -
  obtain im1 where 1: "store_header (im, []) = (None, im1, created_header)" "length (im_sector im1) = 29"
    using store_header_created [of im "[]"] assms by auto
  have "\<exists>im'. for_each (store_track track) [0..<1] (im, out) = (None, im', out @ track_block track) \<and> length (im_sector im') = 29"
    if "track < 40" "length (im_sector im) = 29" for track im out
    using store_track_block [OF that, of out] by (auto simp: and_then_def)
  from for_each_store [of 40 "\<lambda>_ im. length (im_sector im) = 29" "\<lambda>track. for_each (store_track track) [0..<1]" track_block, OF this, of im1 created_header]
  obtain im2 where "for_each (\<lambda>track. for_each (store_track track) [0..<1]) [0..<40] (im1, created_header) = (None, im2, created_image)"
    using 1(2) by (auto simp: created_image_def)
  with 1(1) show ?thesis by (simp add: store_image_def and_then_def)
qed
section \<open>Reading it back\<close>

lemma sector_id_length [simp]: "length (sector_id track k) = 8"
  by (simp add: sector_id_def)

lemma track_head_length [simp]: "length (track_head track) = 24"
  by (simp add: track_head_def)

lemma fetched_records:
  "disk_info_of created_header = \<lparr>di_magic = std_magic, di_signature = dsk_info, di_tool = dsk_tool, di_number_of_tracks = 40,
     di_number_of_sides = 1, di_track_size_lsb = 0x00, di_track_size_msb = 0x13, di_padding = replicate 204 0\<rparr>"
  "track_info_of (track_head track) = created_track (of_nat track) 0"
  "sector_info_of (sector_id track k) = created_sector (of_nat track) 0 k"
  by (simp_all add: disk_info_of_def created_header_def track_info_of_def track_head_def created_track_fields nth_append
      sector_info_of_def sector_id_def created_sector_fields clear_sector_info_def)

lemma created_header_length [simp]: "length created_header = 256"
  by (simp add: created_header_def)

lemma fetch_data_full: "length b = n \<Longrightarrow> fetch_data n raw put (im, b @ inp) = (None, put b im, inp)"
  by (simp add: fetch_data_def Let_def)

lemma fetch_header_created:
  "fetch_header (im, created_header @ inp) = (None, im\<lparr>im_disk := disk_info_of created_header\<rparr>, inp)"
proof -
  have "check_disk_info (disk_info_of created_header) = None"
    by (simp add: fetched_records check_disk_info_def texts)
  then show ?thesis by (simp add: fetch_header_def op_defs on_disk_def fetch_data_full)
qed

lemma fetch_sector_infos:
  assumes "track < 40" "length (im_sector im) = 29" "im_track im = created_track (of_nat track) 0"
  shows "\<exists>im'. for_each (fetch_sector_info 9) all_sectors (im, concat (map (sector_id track) all_sectors) @ inp) = (None, im', inp) \<and>
    sectors_created (of_nat track) im' \<and> im_disk im' = im_disk im"
proof -
  let ?P = "\<lambda>n im'. length (im_sector im') = 29 \<and> im_track im' = created_track (of_nat track) 0 \<and> im_disk im' = im_disk im \<and>
      (\<forall>k < n. sr_info (im_sector im' ! k) = created_sector (of_nat track) 0 k)"
  have "\<exists>im2. fetch_sector_info 9 k (im1, sector_id track k @ inp) = (None, im2, inp) \<and> ?P (Suc k) im2" if k: "k < 29" "?P k im1" for k im1 inp
  proof -
    let ?im = "on_sector k (set_info (\<lambda>_. created_sector (of_nat track) 0 k)) im1"
    have "check_sector_info (sr_info (sector_at k ?im)) = None"
      using k created_sector_ok [OF assms(1)] by (simp add: sector_at_def on_sector_def set_info_def)
    then have "fetch_sector_info 9 k (im1, sector_id track k @ inp) = (None, ?im, inp)"
      by (simp add: fetch_sector_info_def and_then_def fetch_data_full fetched_records check_image_def modify_def)
    moreover have "?P (Suc k) ?im" using k by (simp add: on_sector_def set_info_def nth_list_update less_Suc_eq)
    ultimately show ?thesis by blast
  qed
  moreover have "?P 0 im" using assms(2,3) by simp
  ultimately obtain im' where "for_each (fetch_sector_info 9) all_sectors (im, concat (map (sector_id track) all_sectors) @ inp) = (None, im', inp)" "?P 29 im'"
    using for_each_fetch [of 29 ?P "fetch_sector_info 9" "sector_id track" im inp] by blast
  then show ?thesis by (auto simp: sectors_created_def)
qed

text \<open>The data of the first \<open>n\<close> sectors has been read.\<close>

definition data_read :: "nat \<Rightarrow> image_record \<Rightarrow> bool" where
  "data_read n im \<longleftrightarrow> (\<forall>j < n. j < 9 \<longrightarrow> take 512 (sr_data (im_sector im ! j)) = replicate 512 0xe5)"

lemma fetch_sector_data_created:
  assumes "k < 29" "sectors_created t im" "data_read k im"
  shows "\<exists>im'. fetch_sector_data 9 k (im, sector_bytes k @ inp) = (None, im', inp) \<and> sectors_created t im' \<and> im_disk im' = im_disk im \<and>
    data_read (Suc k) im'"
proof -
  have im: "k < length (im_sector im)" "sr_info (im_sector im ! k) = created_sector t 0 k"
    using assms by (simp_all add: sectors_created_def)
  note parts = clear_data_parts [OF im(1)]
  have others: "im_sector (clear_data k im) ! j = im_sector im ! j" if "j \<noteq> k" for j
    using that by (simp add: clear_data_def on_sector_def)
  have clear: "sectors_created t (clear_data k im)" "data_read k (clear_data k im)"
    using assms(2,3) by (simp_all add: sectors_created_def data_read_def parts others)
  show ?thesis
  proof (cases "k < 9")
    case True
    let ?im = "on_sector k (\<lambda>r. r\<lparr>sr_data := replicate 512 0xe5 @ drop 512 (sr_data r)\<rparr>) (clear_data k im)"
    have "fetch_sector_bytes k (clear_data k im, replicate 512 0xe5 @ inp) = (None, ?im, inp)"
      using True by (simp add: fetch_sector_bytes_def sector_at_def parts im created_sector_fields raw_size_def fetch_data_full)
    moreover have "sectors_created t ?im" "data_read (Suc k) ?im" "im_disk ?im = im_disk im"
      using clear assms(1) by (auto simp: sectors_created_def data_read_def on_sector_def nth_list_update parts less_Suc_eq)
    ultimately show ?thesis using True by (simp add: fetch_sector_data_def and_then_def modify_def sector_bytes_def)
  next
    case False
    moreover have "data_read (Suc k) (clear_data k im)" using clear(2) False by (auto simp: data_read_def less_Suc_eq)
    ultimately show ?thesis using clear by (simp add: fetch_sector_data_def and_then_def modify_def sector_bytes_def parts)
  qed
qed

definition track_read :: "nat \<Rightarrow> image_record \<Rightarrow> bool" where
  "track_read track im \<longleftrightarrow> sectors_created (of_nat track) im \<and> data_read 29 im"

lemma fetch_track_block:
  assumes "track < 40" "length (im_sector im) = 29"
  shows "\<exists>im'. fetch_track (im, track_block track @ inp) = (None, im', inp) \<and> track_read track im' \<and> im_disk im' = im_disk im"
proof -
  let ?im = "im\<lparr>im_track := created_track (of_nat track) 0\<rparr>" and ?data = "concat (map sector_bytes all_sectors) @ inp"
  have head: "fetch_track_info (im, track_head track @ rest) = (None, ?im, rest)" for rest
    using assms(1) by (simp add: fetch_track_info_def op_defs fetch_data_full fetched_records created_track_ok)
  obtain im1 where 1: "for_each (fetch_sector_info 9) all_sectors (?im, concat (map (sector_id track) all_sectors) @ ?data) = (None, im1, ?data)"
    "sectors_created (of_nat track) im1" "im_disk im1 = im_disk im"
    using fetch_sector_infos [OF assms(1), of ?im ?data] assms(2) by auto
  let ?P = "\<lambda>k im'. sectors_created (of_nat track) im' \<and> im_disk im' = im_disk im \<and> data_read k im'"
  have "\<exists>im3. fetch_sector_data 9 k (im2, sector_bytes k @ inp) = (None, im3, inp) \<and> ?P (Suc k) im3" if "k < 29" "?P k im2" for k im2 inp
    using fetch_sector_data_created [of k "of_nat track" im2 inp] that by auto
  moreover have "?P 0 im1" using 1 by (simp add: data_read_def)
  ultimately obtain im2 where "for_each (fetch_sector_data 9) all_sectors (im1, ?data) = (None, im2, inp)" "?P 29 im2"
    using for_each_fetch [of 29 ?P "fetch_sector_data 9" sector_bytes im1 inp] by blast
  with 1 head show ?thesis
    by (simp add: fetch_track_def and_then_def track_block_def get_number_of_sectors_def created_track_fields sectors_created_def
        track_read_def Let_def)
qed

definition tracks_read :: "nat \<Rightarrow> image_record \<Rightarrow> bool" where
  "tracks_read n im \<longleftrightarrow> length (im_sector im) = 29 \<and> im_disk im = disk_info_of created_header \<and> (0 < n \<longrightarrow> track_read (n - 1) im)"

lemma fetch_next_track:
  assumes "track < 40" "tracks_read track im"
  shows "\<exists>im'. for_each (\<lambda>_. fetch_track) [0..<1] (im, track_block track @ inp) = (None, im', inp) \<and> tracks_read (Suc track) im'"
proof -
  obtain im' where im': "fetch_track (im, track_block track @ inp) = (None, im', inp)" "track_read track im'" "im_disk im' = im_disk im"
    using fetch_track_block [OF assms(1), of im inp] assms(2) by (auto simp: tracks_read_def)
  then have "tracks_read (Suc track) im'"
    using assms(2) by (simp add: tracks_read_def track_read_def sectors_created_def)
  with im'(1) show ?thesis by (simp add: and_then_def)
qed

lemma fetch_image_created:
  assumes "length (im_sector im) = 29"
  shows "\<exists>im'. fetch_image (im, created_image) = (None, im', []) \<and> im_disk im' = disk_info_of created_header \<and> track_read 39 im'"
proof -
  let ?im = "im\<lparr>im_disk := disk_info_of created_header\<rparr>"
  have "tracks_read 0 ?im" using assms by (simp add: tracks_read_def)
  with for_each_fetch [of 40 tracks_read "\<lambda>_. for_each (\<lambda>_. fetch_track) [0..<1]" track_block ?im "[]", OF fetch_next_track]
  obtain im' where tracks: "for_each (\<lambda>_. for_each (\<lambda>_. fetch_track) [0..<1]) [0..<40] (?im, concat (map track_block [0..<40])) = (None, im', [])"
    "tracks_read 40 im'"
    unfolding append_Nil2 by blast
  have "fetch_image (im, created_image) = (None, im', [])"
    using tracks(1) by (simp add: fetch_image_def and_then_def created_image_def fetch_header_created get_number_of_sides_def
        get_number_of_tracks_def fetched_records Let_def)
  with tracks(2) show ?thesis by (auto simp: tracks_read_def)
qed

lemma clear_image_sectors: "length (im_sector (clear_image im)) = length (im_sector im)"
proof -
  have "length (im_sector (fold (\<lambda>k. on_sector k f) ks im)) = length (im_sector im)" for f and ks :: "nat list" and im
    by (induction ks arbitrary: im) (simp_all add: on_sector_def)
  moreover have "length (im_sector (fold clear_data ks im)) = length (im_sector im)" for ks im
    by (induction ks arbitrary: im) (simp_all add: on_sector_def clear_data_def)
  ultimately show ?thesis by (simp add: clear_image_def on_disk_def on_track_def Let_def)
qed

lemma disk_create_image:
  assumes "fopen_write filename fs = Some (fp, fs')"
  shows "\<exists>d. disk_create fs (new_disk filename) = (None, d, fs(filename \<mapsto> \<lparr>f_bytes = created_image, f_writable = True\<rparr>))"
proof -
  have "length (im_sector (clear_image blank_image)) = 29" by (simp add: clear_image_sectors blank_image_def)
  from store_image_created [OF this] obtain im where "store_image (clear_image blank_image, []) = (None, im, created_image)"
    by blast
  moreover have "fs'(filename \<mapsto> e) = fs(filename \<mapsto> e)" for e
    using assms by (auto simp: fopen_write_def split: option.splits if_splits)
  ultimately show ?thesis using assms by (simp add: disk_create_def new_disk_def)
qed

lemma disk_createD:
  assumes "disk_create fs (new_disk filename) = (None, d, fs')"
  shows "fs' filename = Some \<lparr>f_bytes = created_image, f_writable = True\<rparr>"
proof (cases "fopen_write filename fs")
  case None
  then show ?thesis using assms by (simp add: disk_create_def new_disk_def)
next
  case (Some r)
  then show ?thesis using assms disk_create_image [of filename fs "fst r" "snd r"] by auto
qed

section \<open>The drive finds its sectors\<close>

lemma concat_pieces:
  assumes "\<And>k. k < n \<Longrightarrow> length (f k) = m"
  shows "length (concat (map f [0..<n])) = m * n"
    and "j \<le> n \<Longrightarrow> drop (m * j) (concat (map f [0..<n])) = concat (map f [j..<n])"
    and "j < n \<Longrightarrow> i < m \<Longrightarrow> concat (map f [0..<n]) ! (m * j + i) = f j ! i"
proof -
  have len: "length (concat (map f [0..<j])) = m * j" if "j \<le> n" for j
    using that assms by (induction j) simp_all
  show "length (concat (map f [0..<n])) = m * n" by (rule len) simp
  show drop: "drop (m * j) (concat (map f [0..<n])) = concat (map f [j..<n])" if "j \<le> n" for j
  proof -
    have "[0..<n] = [0..<j] @ [j..<n]" using that upt_add_eq_append [of 0 j "n - j"] by simp
    then show ?thesis using len [OF that] by simp
  qed
  show "concat (map f [0..<n]) ! (m * j + i) = f j ! i" if "j < n" "i < m"
  proof -
    have "m * j + i < m * Suc j" using that by simp
    also have "m * Suc j \<le> m * n" using that by (intro mult_le_mono2) simp
    finally have "concat (map f [0..<n]) ! (m * j + i) = drop (m * j) (concat (map f [0..<n])) ! i"
      using len [of n] that by (subst nth_drop) auto
    moreover have "drop (m * j) (concat (map f [0..<n])) = f j @ concat (map f [Suc j..<n])"
      unfolding drop [OF less_imp_le [OF that(1)]] upt_conv_Cons [OF that(1)] by simp
    ultimately show ?thesis using assms [OF that(1)] that(2) by (simp only: nth_append if_True)
  qed
qed

definition track_top :: "nat \<Rightarrow> u8 list" where
  "track_top c = track_head c @ concat (map (sector_id c) all_sectors)"

lemma track_top_length [simp]: "length (track_top c) = 256"
  using concat_pieces(1) [of 29 "sector_id c" 8] by (simp add: track_top_def)

lemma sectors_data: "concat (map sector_bytes all_sectors) = replicate 4608 0xe5"
proof -
  have "all_sectors = [0..<9] @ [9..<29]" using upt_add_eq_append [of 0 9 20] by simp
  moreover have "concat (map sector_bytes [9..<29]) = []" by (simp add: sector_bytes_def)
  moreover have "concat (map sector_bytes [0..<n]) = replicate (512 * n) 0xe5" if "n \<le> 9" for n
    using that by (induction n) (simp_all add: sector_bytes_def replicate_add [symmetric])
  ultimately show ?thesis by simp
qed

lemma track_block_split: "track_block c = track_top c @ replicate 4608 0xe5"
  by (simp add: track_block_def track_top_def sectors_data)

lemma created_image_track:
  assumes "c < 40"
  shows "take 256 (drop (4864 * c + 256) created_image) = track_top c"
    and "s < 9 \<Longrightarrow> take 512 (drop (4864 * c + 512 + 512 * s) created_image) = replicate 512 0xe5"
proof -
  define tracks where "tracks = concat (map track_block [0..<40])"
  define rest where "rest = concat (map track_block [Suc c..<40])"
  have "drop (4864 * c) tracks = concat (map track_block [c..<40])"
    unfolding tracks_def using assms by (intro concat_pieces(2)) (simp_all add: track_block_split)
  also have "[c..<40] = c # [Suc c..<40]" using assms by (rule upt_conv_Cons)
  finally have "drop (4864 * c) tracks = track_top c @ replicate 4608 0xe5 @ rest"
    by (simp add: rest_def track_block_split [of c])
  moreover have image: "created_image = created_header @ tracks" by (simp only: created_image_def tracks_def)
  moreover have "drop (4864 * c + 256) (created_header @ tracks) = drop (4864 * c) tracks" by simp
  ultimately have track: "drop (4864 * c + 256) created_image = track_top c @ replicate 4608 0xe5 @ rest" by (simp only:)
  then show "take 256 (drop (4864 * c + 256) created_image) = track_top c" by simp
  assume s: "s < 9"
  have "drop (4864 * c + 512 + 512 * s) created_image = drop (512 * s) (drop 256 (drop (4864 * c + 256) created_image))"
    by (simp add: add.commute add.left_commute)
  also have "\<dots> = drop (512 * s) (replicate 4608 0xe5 @ rest)"
    unfolding track by simp
  finally show "take 512 (drop (4864 * c + 512 + 512 * s) created_image) = replicate 512 0xe5"
    using s by simp
qed

lemma created_image_length: "length created_image = 194816"
  using concat_pieces(1) [of 40 track_block 4864] by (simp add: created_image_def track_block_split)

text \<open>
  C28: creating an empty disc writes exactly this image: the header, and 40 tracks of nine sectors
  numbered from \<open>0xc1\<close> with 512 bytes \<open>0xe5\<close>, 194816 bytes in all.  Reading it afterwards raises no
  exception and closes the file again; the reader has then consumed the image to its last byte, and its
  record holds the header of the disc and, as each track is read over the one before, the last track:
  the track header, the nine sector headers and the 512 bytes of each of their sectors.
\<close>

theorem create_then_dump:
  assumes "fopen_write filename fs = Some (fp, fs')"
  shows "length created_image = 194816 \<and>
    (\<exists>d d'. disk_create fs (new_disk filename) = (None, d, fs(filename \<mapsto> \<lparr>f_bytes = created_image, f_writable = True\<rparr>)) \<and>
      disk_dump (fs(filename \<mapsto> \<lparr>f_bytes = created_image, f_writable = True\<rparr>)) (new_disk filename) = (None, d') \<and>
      \<not> dk_opened d' \<and> fetch_image (clear_image blank_image, created_image) = (None, dk_image d', []) \<and>
      disk_info_bytes (im_disk (dk_image d')) = created_header \<and> track_info_bytes (im_track (dk_image d')) = track_head 39 \<and>
      (\<forall>k < 9. sector_info_bytes (sr_info (im_sector (dk_image d') ! k)) = sector_id 39 k \<and>
        take 512 (sr_data (im_sector (dk_image d') ! k)) = replicate 512 0xe5))"
proof -
  have "length (im_sector (clear_image blank_image)) = 29" by (simp add: clear_image_sectors blank_image_def)
  from fetch_image_created [OF this] obtain im where im: "fetch_image (clear_image blank_image, created_image) = (None, im, [])"
    "im_disk im = disk_info_of created_header" "track_read 39 im" by blast
  have "disk_info_bytes (im_disk im) = created_header"
    unfolding im(2) fetched_records by (simp add: disk_info_bytes_def created_header_def)
  moreover have "track_info_bytes (im_track im) = track_head 39"
    using im(3) created_bytes [of 39] by (simp_all add: track_read_def sectors_created_def)
  moreover have "sector_info_bytes (sr_info (im_sector im ! k)) = sector_id 39 k"
    "take 512 (sr_data (im_sector im ! k)) = replicate 512 0xe5" if "k < 9" for k
    using im(3) that created_bytes [of 39] by (auto simp: track_read_def sectors_created_def data_read_def)
  ultimately show ?thesis
    using disk_create_image [OF assms] im(1) created_image_length by (auto simp: disk_dump_def new_disk_def)
qed

theorem create_then_dump_witness:
  "\<exists>d d' fs'. disk_create Map.empty (new_disk ''a.dsk'') = (None, d, fs') \<and> disk_dump fs' (new_disk ''a.dsk'') = (None, d') \<and>
    track_info_bytes (im_track (dk_image d')) = track_head 39"
proof -
  have "\<exists>fp fs'. fopen_write ''a.dsk'' Map.empty = Some (fp, fs')" by (simp add: fopen_write_def)
  then show ?thesis using create_then_dump by blast
qed

lemma track_top_at:
  "byte_at (track_top c) 0x14 = Some 2" "byte_at (track_top c) 0x15 = Some 9"
  "k < 9 \<Longrightarrow> i < 8 \<Longrightarrow> byte_at (track_top c) (int (24 + (8 * k + i))) = Some (sector_id c k ! i)"
proof -
  show "byte_at (track_top c) 0x14 = Some 2" "byte_at (track_top c) 0x15 = Some 9"
    by (simp_all add: byte_at_def) (simp_all add: track_top_def track_head_def nth_append)
  assume k: "k < 9" "i < 8"
  then have "concat (map (sector_id c) all_sectors) ! (8 * k + i) = sector_id c k ! i"
    by (intro concat_pieces(3)) simp_all
  moreover have "24 + (8 * k + i) < 256" using k by simp
  ultimately show "byte_at (track_top c) (int (24 + (8 * k + i))) = Some (sector_id c k ! i)"
    unfolding byte_at_def nat_int track_top_length by (simp add: track_top_def nth_append)
qed

lemma sector_id_at:
  assumes "k < 9"
  shows "byte_at (track_top c) (24 + 8 * int k) = Some (of_nat c)" "byte_at (track_top c) (25 + 8 * int k) = Some 0"
    "byte_at (track_top c) (26 + 8 * int k) = Some (193 + of_nat k)" "byte_at (track_top c) (29 + 8 * int k) = Some 0"
proof -
  have "int (24 + (8 * k + 0)) = 24 + 8 * int k" "int (24 + (8 * k + 1)) = 25 + 8 * int k" "int (24 + (8 * k + 2)) = 26 + 8 * int k"
    "int (24 + (8 * k + 5)) = 29 + 8 * int k" by simp_all
  from track_top_at(3) [OF assms, of 0 c, unfolded this(1)] track_top_at(3) [OF assms, of 1 c, unfolded this(2)]
    track_top_at(3) [OF assms, of 2 c, unfolded this(3)] track_top_at(3) [OF assms, of 5 c, unfolded this(4)] assms
  show "byte_at (track_top c) (24 + 8 * int k) = Some (of_nat c)" "byte_at (track_top c) (25 + 8 * int k) = Some 0"
    "byte_at (track_top c) (26 + 8 * int k) = Some (193 + of_nat k)" "byte_at (track_top c) (29 + 8 * int k) = Some 0"
    by (simp_all add: sector_id_def)
qed

lemma sector_number: "k < 9 \<Longrightarrow> uint (193 + of_nat k :: u8) = 193 + int k"
  by (simp add: uint_nat unat_word_ariths unat_of_nat)

lemma offset_loop_finds:
  assumes "j \<le> s" "s < 9"
  shows "sector_offset_loop (9 - j) False (track_top c) (193 + int s) (512 * int j) 512 (24 + 8 * int j) =
    Some (512 * int s, 512, 24 + 8 * int s)"
  using assms
proof (induction rule: inc_induct)
  case base
  then have "9 - s = Suc (8 - s)" by simp
  with base show ?case by (simp add: sector_id_at(3) sector_number)
next
  case (step j)
  then have "9 - j = Suc (9 - Suc j)" by simp
  moreover have "512 * int (Suc j) = 512 * int j + 512" "24 + 8 * int (Suc j) = 24 + 8 * int j + 8" by simp_all
  note step.IH [unfolded this]
  ultimately show ?case using step.hyps step.prems sector_id_at(3) [of j c] by (simp add: sector_number)
qed

lemma head_loop_finds:
  assumes "j \<le> s" "s < 9"
  shows "sector_head_loop (9 - j) (track_top c) (int j) (193 + int s) = Some (Some (24 + 8 * int s))"
  using assms
proof (induction rule: inc_induct)
  case base
  then have "9 - s = Suc (8 - s)" by simp
  with base show ?case by (simp add: sector_id_at(3) sector_number)
next
  case (step j)
  then have "9 - j = Suc (9 - Suc j)" by simp
  moreover have "int (Suc j) = int j + 1" by simp
  note step.IH [unfolded this]
  ultimately show ?case using step.hyps step.prems sector_id_at(3) [of j c] by (simp add: sector_number)
qed
text \<open>The drive with the created image in it: its header is loaded, and each search ends at the sector.\<close>

definition has_created :: "floppy_drive \<Rightarrow> dsk_part \<Rightarrow> nat \<Rightarrow> file_system \<Rightarrow> bool" where
  "has_created fd k c fs \<longleftrightarrow> (\<exists>fp. as_dsk fd = Some k \<and> fdd_fp k = Some fp \<and> file_bytes (fp_name fp) fs = created_image) \<and>
     fdd_disk_header k = created_header \<and> length (fdd_track_header k) = 256 \<and>
     fd_cylinder fd = int c \<and> c < 40 \<and> int c \<le> fd_cylinders fd \<and> 1 \<le> fd_heads fd"

lemma created_header_bytes:
  "byte_at created_header 0x30 = Some 40" "byte_at created_header 0x31 = Some 1" "byte_at created_header 0x32 = Some 0"
  "byte_at created_header 0x33 = Some 0x13" "take 8 created_header = MV_CPC"
  by (simp_all add: byte_at_def created_header_def nth_append) (simp_all add: texts MV_CPC_def)

lemma created_not_extended: "fdd_disk_header k = created_header \<Longrightarrow> \<not> is_extended k"
  by (simp add: is_extended_def created_header_bytes EXTENDED_def MV_CPC_def)

lemma created_track_at:
  assumes "fdd_disk_header k = created_header" "fdd_fp k \<noteq> None" "int c \<le> fd_cylinders fd" "1 \<le> fd_heads fd"
  shows "fdd_lookup_track fd k (int c) 0 = Some (int (4864 * c + 256))"
  using assms by (simp add: fdd_lookup_track_def created_header_bytes created_not_extended)

lemma seekto_created:
  assumes "has_created fd k c fs" "s < 9"
  shows "\<exists>fp. fdd_fp k = Some fp \<and> fdd_seekto_sector fd k (int c) 0 0 (193 + int s) 512 fs =
    Some (0, 512, k\<lparr>fdd_fp := Some (fp\<lparr>fp_pos := 4864 * c + 512 + 512 * s\<rparr>), fdd_track_header := track_top c\<rparr>)"
proof -
  obtain fp where fp: "fdd_fp k = Some fp" "file_bytes (fp_name fp) fs = created_image" and k: "fdd_disk_header k = created_header"
    "length (fdd_track_header k) = 256" "fd_cylinder fd = int c" "c < 40" "int c \<le> fd_cylinders fd" "1 \<le> fd_heads fd"
    using assms(1) by (auto simp: has_created_def)
  let ?k = "k\<lparr>fdd_fp := Some (fp\<lparr>fp_pos := nat (int (4864 * c + 256)) + 256\<rparr>), fdd_track_header := track_top c\<rparr>"
  have "take 10 (track_top c) = Track_Info"
    by (simp add: track_top_def track_head_def texts Track_Info_def)
  moreover have "take 256 (drop (nat (int (4864 * c + 256))) (file_bytes (fp_name fp) fs)) = track_top c"
    unfolding nat_int fp(2) by (rule created_image_track) (rule k(4))
  moreover have "fdd_lookup_track fd k (fd_cylinder fd) 0 = Some (int (4864 * c + 256))"
    using created_track_at [of k c fd] k fp by simp
  ultimately have "fdd_load_track_header fd k 0 fs = Some (0, ?k)"
    using fp(1) k(2) by (intro load_track_headerI) simp_all
  moreover have "fdd_sector_offset ?k (193 + int s) = Some (512 * int s, 512, 24 + 8 * int s)"
    using offset_loop_finds [of 0 s c] assms(2) k(1) by (simp add: fdd_sector_offset_def track_top_at shl128_def created_not_extended)
  moreover have "uint (of_nat c :: u8) = int c" using k(4) by (simp add: uint_nat unat_of_nat)
  ultimately show ?thesis
    using fp(1) sector_id_at [OF assms(2), of c]
    by (simp add: fdd_seekto_sector_def fseek_set_def nat_add_distrib nat_mult_distrib)
qed

lemma read_created:
  assumes "has_created fd k c (files w)" "s < 9"
  shows "\<exists>fd'. fdd_read_sector fd (int c) 0 0 (193 + int s) 512 (Some 0) 0 w = Some ((0, replicate 512 0xe5, Some 0), fd', w)"
proof -
  obtain fp where fp: "fdd_fp k = Some fp" "as_dsk fd = Some k" "file_bytes (fp_name fp) (files w) = created_image" "c < 40"
    using assms(1) by (auto simp: has_created_def)
  let ?k = "k\<lparr>fdd_fp := Some (fp\<lparr>fp_pos := 4864 * c + 512 + 512 * s\<rparr>), fdd_track_header := track_top c\<rparr>"
  have "fdd_seekto_sector fd k (int c) 0 0 (193 + int s) 512 (files w) = Some (0, 512, ?k)"
    using seekto_created [OF assms] fp(1) by simp
  moreover have "sector_head ?k (193 + int s) = Some (Some (24 + 8 * int s))"
    using head_loop_finds [of 0 s c] assms(2) by (simp add: sector_head_def track_top_at)
  moreover have "byte_at (track_top c) (24 + 8 * int s + 5) = Some 0"
    using sector_id_at(4) [OF assms(2), of c] by (simp add: add.commute)
  moreover have "fread 512 (fp\<lparr>fp_pos := 4864 * c + 512 + 512 * s\<rparr>) (files w) =
      (replicate 512 0xe5, fp\<lparr>fp_pos := 4864 * c + 512 + 512 * s + 512\<rparr>)"
    unfolding fread_def Let_def using created_image_track(2) [OF fp(4) assms(2)] fp(3) by simp
  ultimately show ?thesis
    using fp(2) by (simp add: fdd_read_sector_def fdd_read_loop.simps)
qed

text \<open>
  C27: what the emulator creates, the disc controller reads.  With a file in the drive that the emulator
  has created, the drive of \<^verbatim>\<open>lib765\<close> becomes ready, seeks each of the 40
  cylinders, and reads each of the nine sectors there as 512 bytes \<open>0xe5\<close> without an error.
\<close>

theorem drive_reads_created_image:
  assumes "as_dsk fd = Some k" and created: "disk_create fs (new_disk (fdd_filename k)) = (None, d, files w)"
    and "fdd_filename k \<noteq> ''''" "fdd_fp k = None" "length (fdd_track_header k) = 256" "fd_motor fd \<noteq> 0" "1 \<le> fd_heads fd"
    and "c < 40" "int c \<le> fd_cylinders fd" "s < 9"
  shows "\<exists>fd1 fd2 fd3. fdd_isready fd w = Some (1, fd1, w) \<and> fdd_seek_cylinder fd1 (int c) w = Some (0, fd2, w) \<and>
    fdd_read_sector fd2 (int c) 0 0 (193 + int s) 512 (Some 0) 0 w = Some ((0, replicate 512 0xe5, Some 0), fd3, w)"
proof -
  note e = disk_createD [OF created]
  obtain fp fd0 where opened: "fdd_open fd k (files w) = (Some fp, fd0)" "fp_name fp = fdd_filename k" "fp_pos fp = 0"
    "as_dsk fd0 = Some k" "fd_cylinders fd0 = fd_cylinders fd" "fd_heads fd0 = fd_heads fd"
    using assms(1) e by (auto simp: fdd_open_def fopen_update_def fopen_read_def as_dsk_def)
  let ?fp = "fp\<lparr>fp_pos := 256\<rparr>"
  let ?k = "k\<lparr>fdd_fp := Some ?fp, fdd_disk_header := created_header, fdd_track_header := (fdd_track_header k)[0 := 0]\<rparr>"
  have "file_bytes (fdd_filename k) (files w) = created_image" by (simp add: file_bytes_def e)
  moreover have "take 256 created_image = created_header" "256 \<le> length created_image"
    by (simp_all add: created_image_def)
  ultimately have header: "fread 256 (fseek_set 0 fp) (files w) = (created_header, ?fp)"
    by (simp add: fread_def fseek_set_def opened(2,3) Let_def)
  have ready: "fdd_isready fd w = Some (1, with_dsk fd0 ?k, w)"
    unfolding fdd_isready_def using assms(1,3,4,6) by (simp add: opened(1) header created_header_bytes(5))
  have "fdd_seek_cylinder (with_dsk fd0 ?k) (int c) w = Some (0, (with_dsk fd0 ?k)\<lparr>fd_cylinder := int c\<rparr>, w)"
    unfolding fdd_seek_cylinder_def using created_track_at [of ?k c "with_dsk fd0 ?k"] opened(5,6) assms(7,9)
    by (simp add: as_dsk_def)
  moreover have "has_created ((with_dsk fd0 ?k)\<lparr>fd_cylinder := int c\<rparr>) ?k c (files w)"
    using assms(5,7-9) opened(2,5,6) e by (simp add: has_created_def as_dsk_def file_bytes_def)
  ultimately show ?thesis using ready read_created [OF _ assms(10)] by blast
qed
text \<open>A drive with such an image, of which it reads the last sector.\<close>

definition demo_drive :: floppy_drive where
  "demo_drive = \<lparr>fd_vtable = fdv_dsk, fd_type = FD_30, fd_heads = 1, fd_cylinders = 43, fd_readonly = 0, fd_changed = 0, fd_motor = 1,
     fd_cylinder = 0, fd_sub = Dsk_sub \<lparr>fdd_filename = ''a.dsk'', fdd_fp = None, fdd_disk_header = replicate 256 0,
       fdd_track_header = replicate 256 0, fdd_dirty = 0\<rparr>\<rparr>"

definition demo_files :: "unit world" where
  "demo_files = \<lparr>drives = (\<lambda>p. None), files = [''a.dsk'' \<mapsto> \<lparr>f_bytes = created_image, f_writable = True\<rparr>], lib = (), isr_calls = []\<rparr>"

theorem drive_reads_created_image_witness:
  "\<exists>fd1 fd2 fd3. fdd_isready demo_drive demo_files = Some (1, fd1, demo_files) \<and> fdd_seek_cylinder fd1 39 demo_files = Some (0, fd2, demo_files) \<and>
    fdd_read_sector fd2 39 0 0 201 512 (Some 0) 0 demo_files = Some ((0, replicate 512 0xe5, Some 0), fd3, demo_files)"
proof -
  have "\<exists>fp fs'. fopen_write ''a.dsk'' Map.empty = Some (fp, fs')" by (simp add: fopen_write_def)
  then obtain d where "disk_create Map.empty (new_disk ''a.dsk'') = (None, d, files demo_files)"
    using disk_create_image unfolding demo_files_def by fastforce
  then show ?thesis
    using drive_reads_created_image [of demo_drive _ Map.empty d demo_files 39 8] by (simp add: demo_drive_def as_dsk_def)
qed

end
