(* ===== verification/CPC_Render.thy ===== *)
theory CPC_Render
  imports CPC_Board
begin

text \<open>
  The renderers of the main board (\<^verbatim>\<open>render_08bpp\<close>, \<^verbatim>\<open>render_16bpp\<close>,
  \<^verbatim>\<open>render_32bpp\<close> and \<^verbatim>\<open>render_rgba\<close> of \<^verbatim>\<open>cpc/cpc-mainboard.cc\<close>): once per frame they
  read the registers of the CRT controller, the lines recorded by the gate array and the video
  memory, and store pixels into the image of the display, two lines of the image for each line of
  the frame.  The four functions have the same text but for the type of a pixel and for the colour
  of the second line; here they are one function of the pixels of a colour and of the size of a
  pixel, instantiated four times.

  The image is a map from byte offsets to the pixels stored there, so that a store past the end of
  a line or of the image shows.  Offsets are kept as natural numbers.
\<close>

unbundle bit_operations_syntax

section \<open>The colour map of a frame\<close>

text \<open>\<^verbatim>\<open>update_vga\<close>: the palettes of the display are copied to the gate array.\<close>

definition update_vga :: "bool \<Rightarrow> u32 list \<Rightarrow> u32 list \<Rightarrow> 'd board \<Rightarrow> 'd board" where
  "update_vga crt_emulation palette0 palette1 b = (let cm = colormap (b_vga b);
       cm = cm\<lparr>pixel0 := map (\<lambda>i. palette0 ! i) [0..<length (pixel0 cm)]\<rparr>;
       cm = cm\<lparr>pixel1 := map (\<lambda>i. if crt_emulation then palette1 ! i else palette0 ! i) [0..<length (pixel1 cm)]\<rparr>
     in b\<lparr>b_vga := (b_vga b)\<lparr>colormap := cm\<rparr>\<rparr>)"

section \<open>Geometry\<close>

record horz_props =
  h_cw :: int
  h_ht :: int
  h_hd :: int
  h_hsp :: int
  h_hsw :: int

record vert_props =
  v_ch :: int
  v_vt :: int
  v_vd :: int
  v_vsp :: int
  v_vsw :: int

record border_props =
  b_top :: int
  b_bot :: int
  b_lft :: int
  b_rgt :: int

definition horizontal_displayed :: "vdc_state \<Rightarrow> u8" where "horizontal_displayed s = v_data (regs s) ! 1"
definition vertical_displayed :: "vdc_state \<Rightarrow> u8" where "vertical_displayed s = v_data (regs s) ! 6"
definition start_address_high :: "vdc_state \<Rightarrow> u8" where "start_address_high s = v_data (regs s) ! 12"
definition start_address_low :: "vdc_state \<Rightarrow> u8" where "start_address_low s = v_data (regs s) ! 13"

definition horz_of :: "vdc_state \<Rightarrow> horz_props" where
  "horz_of s = \<lparr>
     h_cw = 16,
     h_ht = 1 + (if horizontal_total s < 63 then uint (horizontal_total s) else 63),
     h_hd = 0 + (if horizontal_displayed s < 52 then uint (horizontal_displayed s) else 52),
     h_hsp = 0 + uint (horizontal_sync_position s),
     h_hsw = 0 + uint (sync_width s AND 0x0f)\<rparr>"

definition vert_of :: "vdc_state \<Rightarrow> vert_props" where
  "vert_of s = \<lparr>
     v_ch = 1 + uint (maximum_scanline_address s),
     v_vt = 1 + (if vertical_total s < 40 then uint (vertical_total s) else 40),
     v_vd = 0 + (if vertical_displayed s < 40 then uint (vertical_displayed s) else 40),
     v_vsp = 0 + uint (vertical_sync_position s),
     v_vsw = 0 + uint (drop_bit 4 (sync_width s) AND 0x0f)\<rparr>"

definition borders_of :: "vdc_state \<Rightarrow> border_props" where
  "borders_of s = (let h = horz_of s; v = vert_of s in \<lparr>
     b_top = (v_vt v - v_vsp v) * v_ch v + uint (vertical_total_adjust s),
     b_bot = (v_vsp v - v_vd v) * v_ch v,
     b_lft = (h_ht h - h_hsp h) * h_cw h,
     b_rgt = (h_hsp h - h_hd h) * h_cw h\<rparr>)"

definition start_address :: "vdc_state \<Rightarrow> u32" where
  "start_address s = push_bit 8 (ucast (start_address_high s)) OR ucast (start_address_low s)"

section \<open>Storing pixels\<close>

text \<open>
  The variables of a renderer: the pointers \<^verbatim>\<open>data_iter\<close>, \<^verbatim>\<open>curr_line\<close> and
  \<^verbatim>\<open>next_line\<close> as byte offsets in the image, the lines left, and the index of
  \<^verbatim>\<open>scanline\<close>.
\<close>

record 'p raster =
  data_iter :: nat
  curr_line :: nat
  next_line :: nat
  remaining_lines :: int
  line_index :: nat
  canvas :: "nat \<Rightarrow> 'p option"

text \<open>What a renderer fixes for a frame: the size of a pixel, the bytes per line, the pixels of a colour.\<close>

record 'p surface =
  px_size :: nat
  bytes_per_line :: nat
  px_of :: "vga_color \<Rightarrow> 'p \<times> 'p"

text \<open>\<^verbatim>\<open>*p++ = pixel\<close>, repeated.\<close>

fun store_run :: "nat \<Rightarrow> nat \<Rightarrow> nat \<Rightarrow> 'p \<Rightarrow> (nat \<Rightarrow> 'p option) \<Rightarrow> nat \<Rightarrow> 'p option" where
  "store_run sz p 0 px m = m"
| "store_run sz p (Suc n) px m = store_run sz (p + sz) n px (m(p \<mapsto> px))"

definition plot :: "'p surface \<Rightarrow> nat \<Rightarrow> 'p \<times> 'p \<Rightarrow> 'p raster \<Rightarrow> 'p raster" where
  "plot S n px r = r
     \<lparr>curr_line := curr_line r + n * px_size S,
      next_line := next_line r + n * px_size S,
      canvas := store_run (px_size S) (next_line r) n (snd px)
                  (store_run (px_size S) (curr_line r) n (fst px) (canvas r))\<rparr>"

text \<open>Moving to the next two lines of the image.\<close>

definition take_lines :: "'p surface \<Rightarrow> 'p raster \<Rightarrow> 'p raster" where
  "take_lines S r = r
     \<lparr>curr_line := data_iter r,
      next_line := data_iter r + bytes_per_line S,
      data_iter := data_iter r + bytes_per_line S + bytes_per_line S,
      remaining_lines := remaining_lines r - 2\<rparr>"

fun border_pixels :: "'p surface \<Rightarrow> 'p \<times> 'p \<Rightarrow> nat \<Rightarrow> 'p raster \<Rightarrow> 'p raster" where
  "border_pixels S px 0 r = r"
| "border_pixels S px (Suc n) r = border_pixels S px n (plot S 1 px r)"

section \<open>The top and the bottom border\<close>

abbreviation border_ink :: nat where "border_ink \<equiv> 16"

fun border_rows :: "'p surface \<Rightarrow> vga_scanline list \<Rightarrow> nat \<Rightarrow> nat \<Rightarrow> 'p raster \<Rightarrow> 'p raster" where
  "border_rows S lines cols 0 r = r"
| "border_rows S lines cols (Suc rows) r =
     (if 2 \<le> remaining_lines r then
        (let px = px_of S (sl_color (lines ! line_index r) ! border_ink);
             r = border_pixels S px cols (take_lines S r)
         in border_rows S lines cols rows (r\<lparr>line_index := line_index r + 1\<rparr>))
      else r)"

section \<open>The active display\<close>

text \<open>The pixels of a byte: \<open>cnt\<close> fields of \<open>w\<close> bits, each drawn \<open>rep\<close> pixels wide.\<close>

fun draw_byte :: "'p surface \<Rightarrow> vga_scanline \<Rightarrow> nat \<Rightarrow> u8 \<Rightarrow> nat \<Rightarrow> nat \<Rightarrow> u8 \<Rightarrow> 'p raster \<Rightarrow> 'p raster" where
  "draw_byte S line w msk rep 0 byte r = r"
| "draw_byte S line w msk rep (Suc cnt) byte r =
     draw_byte S line w msk rep cnt (drop_bit w byte)
       (plot S rep (px_of S (sl_color line ! unat (byte AND msk))) r)"

text \<open>The address of a character in video memory.\<close>

definition char_addr :: "u32 \<Rightarrow> nat \<Rightarrow> nat \<Rightarrow> u16" where
  "char_addr address ras col =
     ucast (push_bit 2 (address AND 0x3000) OR push_bit 11 (of_nat ras AND 0x0007)
            OR push_bit 1 ((address + of_nat col) AND 0x03ff))"

definition video_byte :: "(nat \<Rightarrow> u16 \<Rightarrow> u8) \<Rightarrow> u16 \<Rightarrow> u16 \<Rightarrow> u8" where
  "video_byte ram addr k =
     (let bank = drop_bit 14 addr AND 0x0003; disp = addr AND 0x3fff in ram (unat bank) (disp OR k))"

definition draw_char0 :: "'p surface \<Rightarrow> u8 list \<Rightarrow> (nat \<Rightarrow> u16 \<Rightarrow> u8) \<Rightarrow> vga_scanline \<Rightarrow> u16 \<Rightarrow> 'p raster \<Rightarrow> 'p raster" where
  "draw_char0 S tbl ram line addr r =
     draw_byte S line 4 0x0f 4 2 (tbl ! unat (video_byte ram addr 1))
       (draw_byte S line 4 0x0f 4 2 (tbl ! unat (video_byte ram addr 0)) r)"

definition draw_char1 :: "'p surface \<Rightarrow> u8 list \<Rightarrow> (nat \<Rightarrow> u16 \<Rightarrow> u8) \<Rightarrow> vga_scanline \<Rightarrow> u16 \<Rightarrow> 'p raster \<Rightarrow> 'p raster" where
  "draw_char1 S tbl ram line addr r =
     draw_byte S line 2 0x03 2 4 (tbl ! unat (video_byte ram addr 1))
       (draw_byte S line 2 0x03 2 4 (tbl ! unat (video_byte ram addr 0)) r)"

definition draw_char2 :: "'p surface \<Rightarrow> u8 list \<Rightarrow> (nat \<Rightarrow> u16 \<Rightarrow> u8) \<Rightarrow> vga_scanline \<Rightarrow> u16 \<Rightarrow> 'p raster \<Rightarrow> 'p raster" where
  "draw_char2 S tbl ram line addr r =
     draw_byte S line 1 0x01 1 8 (tbl ! unat (video_byte ram addr 1))
       (draw_byte S line 1 0x01 1 8 (tbl ! unat (video_byte ram addr 0)) r)"

text \<open>The loop over the characters of a line stops at the position of the synchronisation.\<close>

fun draw_columns :: "(u16 \<Rightarrow> 'p raster \<Rightarrow> 'p raster) \<Rightarrow> (nat \<Rightarrow> u16) \<Rightarrow> int \<Rightarrow> nat list \<Rightarrow> 'p raster \<Rightarrow> 'p raster" where
  "draw_columns draw addr hsp [] r = r"
| "draw_columns draw addr hsp (col # cols) r =
     (if hsp \<le> int col then r else draw_columns draw addr hsp cols (draw (addr col) r))"

text \<open>A mode other than 0, 1 and 2 is logged and draws nothing.\<close>

definition active_display :: "'p surface \<Rightarrow> vga_state \<Rightarrow> (nat \<Rightarrow> u16 \<Rightarrow> u8) \<Rightarrow> horz_props \<Rightarrow> u32 \<Rightarrow> nat \<Rightarrow> vga_scanline \<Rightarrow> 'p raster \<Rightarrow> 'p raster" where
  "active_display S vga ram h address ras line r =
     (let cols = [0..<nat (h_hd h)] in
      if sl_mode line = 0x00 then draw_columns (draw_char0 S (mode0 vga) ram line) (char_addr address ras) (h_hsp h) cols r
      else if sl_mode line = 0x01 then draw_columns (draw_char1 S (mode1 vga) ram line) (char_addr address ras) (h_hsp h) cols r
      else if sl_mode line = 0x02 then draw_columns (draw_char2 S (mode2 vga) ram line) (char_addr address ras) (h_hsp h) cols r
      else r)"

definition active_line :: "'p surface \<Rightarrow> vga_state \<Rightarrow> (nat \<Rightarrow> u16 \<Rightarrow> u8) \<Rightarrow> horz_props \<Rightarrow> border_props \<Rightarrow> u32 \<Rightarrow> nat \<Rightarrow> 'p raster \<Rightarrow> 'p raster" where
  "active_line S vga ram h b address ras r =
     (let r = take_lines S r;
          line = scanline vga ! line_index r;
          px = px_of S (sl_color line ! border_ink);
          r = border_pixels S px (nat (b_lft b)) r;
          r = active_display S vga ram h address ras line r;
          r = border_pixels S px (nat (b_rgt b)) r
      in r\<lparr>line_index := line_index r + 1\<rparr>)"

fun raster_loop :: "'p surface \<Rightarrow> vga_state \<Rightarrow> (nat \<Rightarrow> u16 \<Rightarrow> u8) \<Rightarrow> horz_props \<Rightarrow> border_props \<Rightarrow> u32 \<Rightarrow> nat list \<Rightarrow> 'p raster \<Rightarrow> 'p raster" where
  "raster_loop S vga ram h b address [] r = r"
| "raster_loop S vga ram h b address (ras # rass) r =
     (if 2 \<le> remaining_lines r then
        raster_loop S vga ram h b address rass (active_line S vga ram h b address ras r)
      else r)"

fun active_rows :: "'p surface \<Rightarrow> vga_state \<Rightarrow> (nat \<Rightarrow> u16 \<Rightarrow> u8) \<Rightarrow> horz_props \<Rightarrow> border_props \<Rightarrow> int \<Rightarrow> u32 \<Rightarrow> nat \<Rightarrow> 'p raster \<Rightarrow> 'p raster" where
  "active_rows S vga ram h b rass address 0 r = r"
| "active_rows S vga ram h b rass address (Suc rows) r =
     active_rows S vga ram h b rass (address + of_int (h_hd h)) rows
       (raster_loop S vga ram h b address [0..<nat rass] r)"

section \<open>A frame\<close>

text \<open>
  The image of the display: no image data (a null pointer) is \<^term>\<open>None\<close>, and then nothing is drawn.
\<close>

record 'p image =
  image_height :: int
  image_bpl :: u32
  image_data :: "(nat \<Rightarrow> 'p option) option"

definition raster_start :: "'p image \<Rightarrow> (nat \<Rightarrow> 'p option) \<Rightarrow> 'p raster" where
  "raster_start img m = \<lparr>data_iter = 0, curr_line = 0, next_line = 0,
     remaining_lines = image_height img, line_index = 0, canvas = m\<rparr>"

definition render_frame :: "'p surface \<Rightarrow> 'd board \<Rightarrow> 'p raster \<Rightarrow> 'p raster" where
  "render_frame S brd r =
     (let vdc = b_vdc brd; vga = b_vga brd; ram = (\<lambda>i. mem_data (b_ram brd i));
          h = horz_of vdc; v = vert_of vdc; b = borders_of vdc;
          r = border_rows S (scanline vga) (nat (h_ht h * h_cw h)) (nat (b_top b)) r;
          r = active_rows S vga ram h b (v_ch v) (start_address vdc) (nat (v_vd v)) r
      in border_rows S (scanline vga) (nat (h_ht h * h_cw h)) (nat (b_bot b)) r)"

definition render_image :: "nat \<Rightarrow> (vga_color \<Rightarrow> 'p \<times> 'p) \<Rightarrow> 'd board \<Rightarrow> 'p image \<Rightarrow> 'p image" where
  "render_image sz px brd img = (case image_data img of
     None \<Rightarrow> img
   | Some m \<Rightarrow>
       (let S = \<lparr>px_size = sz, bytes_per_line = unat (image_bpl img), px_of = px\<rparr>
        in img\<lparr>image_data := Some (canvas (render_frame S brd (raster_start img m)))\<rparr>))"

definition render_08bpp :: "'d board \<Rightarrow> u8 image \<Rightarrow> u8 image" where
  "render_08bpp = render_image 1 (\<lambda>c. (ucast (c_pixel0 c), ucast (c_pixel1 c)))"

definition render_16bpp :: "'d board \<Rightarrow> u16 image \<Rightarrow> u16 image" where
  "render_16bpp = render_image 2 (\<lambda>c. (ucast (c_pixel0 c), ucast (c_pixel1 c)))"

definition render_32bpp :: "'d board \<Rightarrow> u32 image \<Rightarrow> u32 image" where
  "render_32bpp = render_image 4 (\<lambda>c. (c_pixel0 c, c_pixel1 c))"

definition render_rgba :: "'d board \<Rightarrow> u32 image \<Rightarrow> u32 image" where
  "render_rgba = render_image 4 (\<lambda>c. (c_pixel0 c, c_pixel0 c))"

end
