(* ===== verification/Libxcpc.thy ===== *)
theory Libxcpc
  imports Prelude
begin

text \<open>
  The library around the machine (\<^verbatim>\<open>lib/xcpc/libxcpc.cc\<close>): the enumerations of the
  configuration with the tables of their labels, read without regard to case and written back, and
  the state of the library (its log level, streams, directories and joysticks), which is set up by the
  first \<^verbatim>\<open>xcpc_begin\<close> and torn down by the matching \<^verbatim>\<open>xcpc_end\<close>.

  The locale \<open>value_table\<close> is the contract of a table: under it reading inverts writing.  It is
  interpreted on each of the seven tables.
\<close>

section \<open>Enumerations\<close>

datatype company_name = COMPANY_UNKNOWN | COMPANY_DEFAULT | ISP | TRIUMPH | SAISHO | SOLAVOX | AWA | SCHNEIDER | ORION | AMSTRAD

datatype machine_type = MACHINE_UNKNOWN | MACHINE_DEFAULT | CPC464 | CPC664 | CPC6128

datatype monitor_type = MONITOR_UNKNOWN | MONITOR_DEFAULT | COLOR | GREEN | GRAY | CTM640 | CTM644 | GT64 | GT65 | CM14 | MM12

datatype refresh_rate = REFRESH_UNKNOWN | REFRESH_DEFAULT | RATE_50HZ | RATE_60HZ

datatype keyboard_type = KEYBOARD_UNKNOWN | KEYBOARD_DEFAULT | ENGLISH | FRENCH | GERMAN | SPANISH | DANISH

datatype renderer_type = RENDERER_UNKNOWN | RENDERER_DEFAULT | XIMAGE | OPENGL

text \<open>The memory size is an enumeration of sizes in bytes, on which the code computes: its bits.\<close>

abbreviation MEMORY_UNKNOWN :: u32 where "MEMORY_UNKNOWN \<equiv> 0xffffffff"
abbreviation MEMORY_DEFAULT :: u32 where "MEMORY_DEFAULT \<equiv> 0"
abbreviation MEMORY_64K :: u32 where "MEMORY_64K \<equiv> 0x10000"
abbreviation MEMORY_128K :: u32 where "MEMORY_128K \<equiv> 0x20000"

section \<open>Tables of labels\<close>

definition company_name_table :: "(string \<times> company_name) list" where
  "company_name_table = [(''default'', COMPANY_DEFAULT), (''Isp'', ISP), (''Triumph'', TRIUMPH), (''Saisho'', SAISHO),
     (''Solavox'', SOLAVOX), (''Awa'', AWA), (''Schneider'', SCHNEIDER), (''Orion'', ORION), (''Amstrad'', AMSTRAD)]"

definition machine_type_table :: "(string \<times> machine_type) list" where
  "machine_type_table = [(''default'', MACHINE_DEFAULT), (''CPC 464'', CPC464), (''CPC 664'', CPC664), (''CPC 6128'', CPC6128),
     (''CPC464'', CPC464), (''CPC664'', CPC664), (''CPC6128'', CPC6128), (''v1'', CPC464), (''v2'', CPC664), (''v3'', CPC6128)]"

definition monitor_type_table :: "(string \<times> monitor_type) list" where
  "monitor_type_table = [(''default'', MONITOR_DEFAULT), (''color'', COLOR), (''green'', GREEN), (''gray'', GRAY),
     (''CTM640'', CTM640), (''CTM644'', CTM644), (''GT64'', GT64), (''GT65'', GT65), (''CM14'', CM14), (''MM12'', MM12)]"

definition refresh_rate_table :: "(string \<times> refresh_rate) list" where
  "refresh_rate_table = [(''default'', REFRESH_DEFAULT), (''50Hz'', RATE_50HZ), (''60Hz'', RATE_60HZ)]"

definition keyboard_type_table :: "(string \<times> keyboard_type) list" where
  "keyboard_type_table = [(''default'', KEYBOARD_DEFAULT), (''english'', ENGLISH), (''french'', FRENCH), (''german'', GERMAN),
     (''spanish'', SPANISH), (''danish'', DANISH)]"

definition memory_size_table :: "(string \<times> u32) list" where
  "memory_size_table = [(''default'', MEMORY_DEFAULT), (''64Kb'', 64 * 1024), (''128Kb'', 128 * 1024), (''192Kb'', 192 * 1024),
     (''256Kb'', 256 * 1024), (''320Kb'', 320 * 1024), (''384Kb'', 384 * 1024), (''448Kb'', 448 * 1024), (''512Kb'', 512 * 1024)]"

definition renderer_type_table :: "(string \<times> renderer_type) list" where
  "renderer_type_table = [(''default'', RENDERER_DEFAULT), (''ximage'', XIMAGE), (''opengl'', OPENGL)]"

section \<open>Reading and writing labels\<close>

text \<open>\<^verbatim>\<open>tolower\<close> of the C locale, and the comparison without case.\<close>

definition to_lower :: "char \<Rightarrow> char" where
  "to_lower c = (let n = of_char c :: nat in if 65 \<le> n \<and> n \<le> 90 then char_of (n + 32) else c)"

definition strcasecmp_eq :: "string \<Rightarrow> string \<Rightarrow> bool" where
  "strcasecmp_eq s t \<longleftrightarrow> map to_lower s = map to_lower t"

text \<open>\<^verbatim>\<open>std::string::c_str\<close>: what a C function sees of a string.\<close>

definition c_str :: "string \<Rightarrow> string" where
  "c_str s = takeWhile (\<lambda>c. of_char c \<noteq> (0 :: nat)) s"

fun find_label :: "(string \<times> 'v) list \<Rightarrow> string \<Rightarrow> 'v option" where
  "find_label [] label = None"
| "find_label ((l, v) # table) label = (if strcasecmp_eq l label then Some v else find_label table label)"

fun find_value :: "(string \<times> 'v) list \<Rightarrow> 'v \<Rightarrow> string option" where
  "find_value [] value = None"
| "find_value ((l, v) # table) value = (if v = value then Some l else find_value table value)"

definition value_from_string :: "(string \<times> 'v) list \<Rightarrow> 'v \<Rightarrow> string \<Rightarrow> 'v" where
  "value_from_string table unknown label =
     (if label \<noteq> '''' then (case find_label table label of Some v \<Rightarrow> v | None \<Rightarrow> unknown) else unknown)"

definition value_to_string :: "(string \<times> 'v) list \<Rightarrow> 'v \<Rightarrow> string" where
  "value_to_string table value = (case find_value table value of Some l \<Rightarrow> l | None \<Rightarrow> ''unknown'')"

text \<open>The functions of each enumeration, as \<^verbatim>\<open>Utils\<close> calls them.\<close>

definition company_name_from_string :: "string \<Rightarrow> company_name" where
  "company_name_from_string s = value_from_string company_name_table COMPANY_UNKNOWN (c_str s)"
definition machine_type_from_string :: "string \<Rightarrow> machine_type" where
  "machine_type_from_string s = value_from_string machine_type_table MACHINE_UNKNOWN (c_str s)"
definition monitor_type_from_string :: "string \<Rightarrow> monitor_type" where
  "monitor_type_from_string s = value_from_string monitor_type_table MONITOR_UNKNOWN (c_str s)"
definition refresh_rate_from_string :: "string \<Rightarrow> refresh_rate" where
  "refresh_rate_from_string s = value_from_string refresh_rate_table REFRESH_UNKNOWN (c_str s)"
definition keyboard_type_from_string :: "string \<Rightarrow> keyboard_type" where
  "keyboard_type_from_string s = value_from_string keyboard_type_table KEYBOARD_UNKNOWN (c_str s)"
definition memory_size_from_string :: "string \<Rightarrow> u32" where
  "memory_size_from_string s = value_from_string memory_size_table MEMORY_UNKNOWN (c_str s)"
definition renderer_type_from_string :: "string \<Rightarrow> renderer_type" where
  "renderer_type_from_string s = value_from_string renderer_type_table RENDERER_UNKNOWN (c_str s)"

definition company_name_to_string :: "company_name \<Rightarrow> string" where
  "company_name_to_string v = value_to_string company_name_table v"
definition machine_type_to_string :: "machine_type \<Rightarrow> string" where
  "machine_type_to_string v = value_to_string machine_type_table v"
definition monitor_type_to_string :: "monitor_type \<Rightarrow> string" where
  "monitor_type_to_string v = value_to_string monitor_type_table v"
definition refresh_rate_to_string :: "refresh_rate \<Rightarrow> string" where
  "refresh_rate_to_string v = value_to_string refresh_rate_table v"
definition keyboard_type_to_string :: "keyboard_type \<Rightarrow> string" where
  "keyboard_type_to_string v = value_to_string keyboard_type_table v"
definition memory_size_to_string :: "u32 \<Rightarrow> string" where
  "memory_size_to_string v = value_to_string memory_size_table v"
definition renderer_type_to_string :: "renderer_type \<Rightarrow> string" where
  "renderer_type_to_string v = value_to_string renderer_type_table v"

section \<open>The contract of a table\<close>

text \<open>
  A label may stand for a value that has other labels, as long as no label is written in two ways
  for two values, none is empty, has a terminator or reads as the label of no value.
\<close>

definition label_ok :: "string \<Rightarrow> bool" where
  "label_ok l \<longleftrightarrow> l \<noteq> '''' \<and> c_str l = l \<and> \<not> strcasecmp_eq l ''unknown''"

locale value_table =
  fixes table :: "(string \<times> 'v) list" and unknown :: 'v
  assumes labels_distinct: "distinct (map (\<lambda>e. map to_lower (fst e)) table)"
    and labels_ok: "list_all (\<lambda>e. label_ok (fst e)) table"
    and unknown_unlisted: "unknown \<notin> snd ` set table"
begin

lemma find_label_listed:
  assumes "(l, v) \<in> set table" and "strcasecmp_eq l label"
  shows "find_label table label = Some v"
proof -
  have "find_label t label = Some v" if "distinct (map (\<lambda>e. map to_lower (fst e)) t)" "(l, v) \<in> set t" for t
    using that assms(2) by (induction t label rule: find_label.induct) (force simp: strcasecmp_eq_def)+
  with labels_distinct assms(1) show ?thesis by blast
qed

lemma find_label_unknown: "find_label table ''unknown'' = None"
proof -
  have "find_label t ''unknown'' = None" if "list_all (\<lambda>e. label_ok (fst e)) t" for t :: "(string \<times> 'v) list"
    using that by (induction t) (auto simp: label_ok_def)
  with labels_ok show ?thesis by blast
qed

lemma find_value_listed: "find_value table v = Some l \<Longrightarrow> (l, v) \<in> set table"
proof -
  have "find_value t v = Some l \<Longrightarrow> (l, v) \<in> set t" for t
    by (induction t v rule: find_value.induct) (auto split: if_splits)
  then show "find_value table v = Some l \<Longrightarrow> (l, v) \<in> set table" by blast
qed

lemma find_value_unlisted: "find_value table v = None \<longleftrightarrow> v \<notin> snd ` set table"
proof -
  have "find_value t v = None \<longleftrightarrow> v \<notin> snd ` set t" for t
    by (induction t v rule: find_value.induct) (auto split: if_splits)
  then show ?thesis by blast
qed

text \<open>Reading what was written gives the value back.\<close>

lemma read_write:
  assumes "v \<in> snd ` set table \<or> v = unknown"
  shows "value_from_string table unknown (c_str (value_to_string table v)) = v"
proof (cases "find_value table v")
  case None
  then have "v = unknown" using assms find_value_unlisted by blast
  moreover have "c_str ''unknown'' = ''unknown''" by code_simp
  ultimately show ?thesis
    using None by (simp add: value_to_string_def value_from_string_def find_label_unknown)
next
  case (Some l)
  then have l: "(l, v) \<in> set table" by (rule find_value_listed)
  then have "label_ok l" using labels_ok by (auto simp: list_all_iff)
  with Some find_label_listed [OF l] show ?thesis
    by (simp add: value_to_string_def value_from_string_def label_ok_def strcasecmp_eq_def)
qed

lemma write_unlisted: "v \<notin> snd ` set table \<Longrightarrow> value_to_string table v = value_to_string table unknown"
  using find_value_unlisted [of v] find_value_unlisted [of unknown] unknown_unlisted by (simp add: value_to_string_def)

lemma read_back:
  "value_from_string table unknown (c_str (value_to_string table v)) = (if v \<in> snd ` set table then v else unknown)"
  using read_write [of v] read_write [of unknown] by (simp add: write_unlisted)

text \<open>A label is read whatever its case, and everything else is unknown.\<close>

lemma read_any_case:
  assumes "(l, v) \<in> set table" "strcasecmp_eq l (c_str s)"
  shows "value_from_string table unknown (c_str s) = v"
proof -
  have "l \<noteq> ''''" using assms(1) labels_ok by (auto simp: list_all_iff label_ok_def)
  then have "c_str s \<noteq> ''''" using assms(2) by (auto simp: strcasecmp_eq_def)
  then show ?thesis using find_label_listed [OF assms] by (simp add: value_from_string_def)
qed

lemma read_unlisted:
  assumes "\<forall>(l, v) \<in> set table. \<not> strcasecmp_eq l label"
  shows "value_from_string table unknown label = unknown"
proof -
  have "\<forall>(l, v) \<in> set t. \<not> strcasecmp_eq l label \<Longrightarrow> find_label t label = None" for t :: "(string \<times> 'v) list"
    by (induction t label rule: find_label.induct) auto
  with assms show ?thesis by (simp add: value_from_string_def)
qed

end

interpretation companies: value_table company_name_table COMPANY_UNKNOWN
  by unfold_locales code_simp+
interpretation machines: value_table machine_type_table MACHINE_UNKNOWN
  by unfold_locales code_simp+
interpretation monitors: value_table monitor_type_table MONITOR_UNKNOWN
  by unfold_locales code_simp+
interpretation refresh_rates: value_table refresh_rate_table REFRESH_UNKNOWN
  by unfold_locales code_simp+
interpretation keyboards: value_table keyboard_type_table KEYBOARD_UNKNOWN
  by unfold_locales code_simp+
interpretation memory_sizes: value_table memory_size_table MEMORY_UNKNOWN
  by unfold_locales code_simp+
interpretation renderers: value_table renderer_type_table RENDERER_UNKNOWN
  by unfold_locales code_simp+

section \<open>The library\<close>

text \<open>\<^verbatim>\<open>atoi\<close>: leading white space, a sign, digits.\<close>

definition is_space :: "char \<Rightarrow> bool" where
  "is_space c = (let n = of_char c :: nat in n = 32 \<or> 9 \<le> n \<and> n \<le> 13)"

fun digits :: "int \<Rightarrow> string \<Rightarrow> int" where
  "digits acc [] = acc"
| "digits acc (c # cs) = (let n = of_char c :: nat in if 48 \<le> n \<and> n \<le> 57 then digits (acc * 10 + int (n - 48)) cs else acc)"

definition atoi :: "string \<Rightarrow> int" where
  "atoi s = (case dropWhile is_space s of
     [] \<Rightarrow> 0
   | c # cs \<Rightarrow> if c = CHR ''-'' then - digits 0 cs else if c = CHR ''+'' then digits 0 cs else digits 0 (c # cs))"

text \<open>
  The state of the library.  A stream is whether it is set; a directory or a joystick is its
  allocated string.  The environment of the process is a map, and the installation directories that
  the build defines are the argument \<open>fallback\<close>.
\<close>

record xcpc_library =
  initialized :: int
  loglevel :: int
  input_stream :: bool
  print_stream :: bool
  error_stream :: bool
  directories :: "string option list"
  joysticks :: "string option list"

abbreviation LOGLEVEL_UNKNOWN :: int where "LOGLEVEL_UNKNOWN \<equiv> -1"
abbreviation LOGLEVEL_PRINT :: int where "LOGLEVEL_PRINT \<equiv> 3"

definition libxcpc :: xcpc_library where
  "libxcpc = \<lparr>initialized = 0, loglevel = LOGLEVEL_UNKNOWN, input_stream = False, print_stream = False,
     error_stream = False, directories = replicate 8 None, joysticks = replicate 2 None\<rparr>"

type_synonym environment = "string \<Rightarrow> string option"

definition trim_slashes :: "string \<Rightarrow> string" where
  "trim_slashes s = rev (dropWhile (\<lambda>c. c = CHR ''/'') (rev s))"

definition get_path :: "environment \<Rightarrow> string \<Rightarrow> string \<Rightarrow> string" where
  "get_path env variable fallback = (case env variable of
     Some value \<Rightarrow> value
   | None \<Rightarrow> (case env ''APPDIR'' of
       Some appdir \<Rightarrow> if appdir \<noteq> '''' then trim_slashes appdir @ ''/'' @ dropWhile (\<lambda>c. c = CHR ''/'') fallback else fallback
     | None \<Rightarrow> fallback))"

definition get_variable :: "environment \<Rightarrow> string \<Rightarrow> string \<Rightarrow> string" where
  "get_variable env variable fallback = (case env variable of Some value \<Rightarrow> value | None \<Rightarrow> fallback)"

definition set_loglevel :: "int \<Rightarrow> xcpc_library \<Rightarrow> xcpc_library" where
  "set_loglevel level s =
     (let s = (if LOGLEVEL_UNKNOWN < level then s\<lparr>loglevel := level\<rparr> else s)
      in if loglevel s \<le> LOGLEVEL_UNKNOWN then s\<lparr>loglevel := LOGLEVEL_PRINT\<rparr> else s)"

definition init_loglevel :: "environment \<Rightarrow> xcpc_library \<Rightarrow> xcpc_library" where
  "init_loglevel env s = (if loglevel s \<le> LOGLEVEL_UNKNOWN then
     (case env ''XCPC_LOGLEVEL'' of
        Some value \<Rightarrow> if value \<noteq> '''' then set_loglevel (atoi value) s else set_loglevel LOGLEVEL_PRINT s
      | None \<Rightarrow> set_loglevel LOGLEVEL_PRINT s)
     else s)"

definition fini_loglevel :: "xcpc_library \<Rightarrow> xcpc_library" where
  "fini_loglevel s = (if loglevel s \<noteq> LOGLEVEL_UNKNOWN then s\<lparr>loglevel := LOGLEVEL_UNKNOWN\<rparr> else s)"

definition init_streams :: "xcpc_library \<Rightarrow> xcpc_library" where
  "init_streams s = s\<lparr>input_stream := True, print_stream := True, error_stream := True\<rparr>"

definition fini_streams :: "xcpc_library \<Rightarrow> xcpc_library" where
  "fini_streams s = s\<lparr>input_stream := False, print_stream := False, error_stream := False\<rparr>"

definition directory_variables :: "string list" where
  "directory_variables = [''XCPC_BINDIR'', ''XCPC_LIBDIR'', ''XCPC_DATDIR'', ''XCPC_DOCDIR'', ''XCPC_RESDIR'',
     ''XCPC_ROMDIR'', ''XCPC_DSKDIR'', ''XCPC_SNADIR'']"

definition joystick_variables :: "string list" where
  "joystick_variables = [''XCPC_JOYSTICK0'', ''XCPC_JOYSTICK1'']"

definition init_slot :: "(string \<Rightarrow> string \<Rightarrow> string) \<Rightarrow> (string \<Rightarrow> string) \<Rightarrow> string \<Rightarrow> string option \<Rightarrow> string option" where
  "init_slot get fallback variable slot = (if slot = None then Some (get variable (fallback variable)) else slot)"

definition init_directories :: "environment \<Rightarrow> (string \<Rightarrow> string) \<Rightarrow> xcpc_library \<Rightarrow> xcpc_library" where
  "init_directories env fallback s = s\<lparr>directories := map2 (init_slot (get_path env) fallback) directory_variables (directories s)\<rparr>"

definition fini_directories :: "xcpc_library \<Rightarrow> xcpc_library" where
  "fini_directories s = s\<lparr>directories := map (\<lambda>_. None) (directories s)\<rparr>"

definition init_joysticks :: "environment \<Rightarrow> (string \<Rightarrow> string) \<Rightarrow> xcpc_library \<Rightarrow> xcpc_library" where
  "init_joysticks env fallback s = s\<lparr>joysticks := map2 (init_slot (get_variable env) fallback) joystick_variables (joysticks s)\<rparr>"

definition fini_joysticks :: "xcpc_library \<Rightarrow> xcpc_library" where
  "fini_joysticks s = s\<lparr>joysticks := map (\<lambda>_. None) (joysticks s)\<rparr>"

definition xcpc_begin :: "environment \<Rightarrow> (string \<Rightarrow> string) \<Rightarrow> xcpc_library \<Rightarrow> xcpc_library" where
  "xcpc_begin env fallback s = (let first = initialized s = 0; s = s\<lparr>initialized := initialized s + 1\<rparr> in
     if first then init_joysticks env fallback (init_directories env fallback (init_streams (init_loglevel env s))) else s)"

definition xcpc_end :: "xcpc_library \<Rightarrow> xcpc_library" where
  "xcpc_end s = (let s = s\<lparr>initialized := initialized s - 1\<rparr> in
     if initialized s = 0 then fini_loglevel (fini_streams (fini_directories (fini_joysticks s))) else s)"

definition get_romdir :: "xcpc_library \<Rightarrow> string option" where "get_romdir s = directories s ! 5"

text \<open>Which messages are written: a level of its own for each \<^verbatim>\<open>xcpc_log_\<close> function.\<close>

datatype log_kind = LOG_ERROR | LOG_ALERT | LOG_PRINT | LOG_TRACE | LOG_DEBUG

definition log_level :: "log_kind \<Rightarrow> int" where
  "log_level k = (case k of LOG_ERROR \<Rightarrow> 1 | LOG_ALERT \<Rightarrow> 2 | LOG_PRINT \<Rightarrow> 3 | LOG_TRACE \<Rightarrow> 4 | LOG_DEBUG \<Rightarrow> 5)"

definition log_letter :: "log_kind \<Rightarrow> char" where
  "log_letter k = (case k of LOG_ERROR \<Rightarrow> CHR ''E'' | LOG_ALERT \<Rightarrow> CHR ''W'' | LOG_PRINT \<Rightarrow> CHR ''I''
     | LOG_TRACE \<Rightarrow> CHR ''T'' | LOG_DEBUG \<Rightarrow> CHR ''D'')"

definition xcpc_log :: "log_kind \<Rightarrow> string \<Rightarrow> xcpc_library \<Rightarrow> string" where
  "xcpc_log k message s = (if error_stream s \<and> log_level k \<le> loglevel s
     then log_letter k # CHR 0x09 # message @ [CHR 0x0A] else '''')"

end
