(* ===== verification/CPC_Display.thy ===== *)
theory CPC_Display
  imports Libxcpc
begin

text \<open>
  The display (\<^verbatim>\<open>lib/xcpc/amstrad/dpy/dpy-core.cc\<close>): the table of the colours of the
  gate array, what they are on each monitor, and the two palettes, the second for the darker lines of
  the emulated tube.  A renderer of the host is behind an interface; what the display uses of it is a
  record of functions, of which the allocation of a colour by the OpenGL renderer
  (\<^verbatim>\<open>dpy/ogl-renderer.cc\<close>) is modelled.
\<close>

unbundle bit_operations_syntax

section \<open>Colours\<close>

record color_entry =
  ce_label :: string
  ce_pixel :: u32
  ce_r :: u16
  ce_g :: u16
  ce_b :: u16
  ce_l :: u16

abbreviation color :: "string \<Rightarrow> u16 \<Rightarrow> u16 \<Rightarrow> u16 \<Rightarrow> u16 \<Rightarrow> color_entry" where
  "color label r g b l \<equiv> \<lparr>ce_label = label, ce_pixel = 0, ce_r = r, ce_g = g, ce_b = b, ce_l = l\<rparr>"

definition color_table :: "color_entry list" where
  "color_table = [
     color ''white'' 0x8000 0x8000 0x8000 0x8000,
     color ''white (not official)'' 0x8000 0x8000 0x8000 0x8000,
     color ''sea green'' 0x0000 0xffff 0x8000 0xa4dd,
     color ''pastel yellow'' 0xffff 0xffff 0x8000 0xf168,
     color ''blue'' 0x0000 0x0000 0x8000 0x0e97,
     color ''purple'' 0xffff 0x0000 0x8000 0x5b22,
     color ''cyan'' 0x0000 0x8000 0x8000 0x59ba,
     color ''pink'' 0xffff 0x8000 0x8000 0xa645,
     color ''purple (not official)'' 0xffff 0x0000 0x8000 0x5b22,
     color ''pastel yellow (not official)'' 0xffff 0xffff 0x8000 0xf168,
     color ''bright yellow'' 0xffff 0xffff 0x0000 0xe2d0,
     color ''bright white'' 0xffff 0xffff 0xffff 0xffff,
     color ''bright red'' 0xffff 0x0000 0x0000 0x4c8b,
     color ''bright magenta'' 0xffff 0x0000 0xffff 0x69ba,
     color ''orange'' 0xffff 0x8000 0x0000 0x97ad,
     color ''pastel magenta'' 0xffff 0x8000 0xffff 0xb4dc,
     color ''blue (not official)'' 0x0000 0x0000 0x8000 0x0e97,
     color ''sea green (not official)'' 0x0000 0xffff 0x8000 0xa4dd,
     color ''bright green'' 0x0000 0xffff 0x0000 0x9645,
     color ''bright cyan'' 0x0000 0xffff 0xffff 0xb374,
     color ''black'' 0x0000 0x0000 0x0000 0x0000,
     color ''bright blue'' 0x0000 0x0000 0xffff 0x1d2f,
     color ''green'' 0x0000 0x8000 0x0000 0x4b23,
     color ''sky blue'' 0x0000 0x8000 0xffff 0x6852,
     color ''magenta'' 0x8000 0x0000 0x8000 0x34dd,
     color ''pastel green'' 0x8000 0xffff 0x8000 0xcb22,
     color ''lime'' 0x8000 0xffff 0x0000 0xbc8b,
     color ''pastel cyan'' 0x8000 0xffff 0xffff 0xd9ba,
     color ''red'' 0x8000 0x0000 0x0000 0x2645,
     color ''mauve'' 0x8000 0x0000 0xffff 0x4374,
     color ''yellow'' 0x8000 0x8000 0x0000 0x7168,
     color ''pastel blue'' 0x8000 0x8000 0xffff 0x8e97]"

definition monitor_color :: "monitor_type \<Rightarrow> color_entry \<Rightarrow> color_entry" where
  "monitor_color monitor entry =
     (if monitor \<in> {COLOR, CTM640, CTM644, CM14} then
        entry\<lparr>ce_r := ce_r entry OR 0, ce_g := ce_g entry OR 0, ce_b := ce_b entry OR 0\<rparr>
      else if monitor \<in> {GREEN, GT64, GT65} then
        entry\<lparr>ce_r := ce_l entry AND 0, ce_g := ce_l entry OR 0, ce_b := ce_l entry AND 0\<rparr>
      else if monitor \<in> {GRAY, MM12} then
        entry\<lparr>ce_r := ce_l entry OR 0, ce_g := ce_l entry OR 0, ce_b := ce_l entry OR 0\<rparr>
      else entry\<lparr>ce_r := ce_r entry OR 0, ce_g := ce_g entry OR 0, ce_b := ce_b entry OR 0\<rparr>)"

definition darken :: "u16 \<Rightarrow> u16" where
  "darken c = ucast ((ucast c * 5 :: u32) div 8)"

definition setup_color :: "monitor_type \<Rightarrow> int \<Rightarrow> int \<Rightarrow> color_entry \<Rightarrow> color_entry" where
  "setup_color monitor index palette c =
     (if 0 \<le> index \<and> index \<le> 31 then
        (let c = monitor_color monitor (color_table ! nat index) in
         if palette = 1 then c\<lparr>ce_r := darken (ce_r c), ce_g := darken (ce_g c), ce_b := darken (ce_b c)\<rparr> else c)
      else c)"

section \<open>The display and its renderer\<close>

record renderer =
  alloc_color :: "u16 \<Rightarrow> u16 \<Rightarrow> u16 \<Rightarrow> u32"
  dealloc_color :: "u32 \<Rightarrow> u32"
  visible_area :: "int \<times> int \<times> int \<times> int"
  viewport :: "int \<times> int"

text \<open>Colours of the OpenGL renderer: the high bytes of the components, in the order of memory.\<close>

definition ogl_alloc_color :: "u16 \<Rightarrow> u16 \<Rightarrow> u16 \<Rightarrow> u32" where
  "ogl_alloc_color r g b =
     ucast (drop_bit 8 r AND 0xff) OR push_bit 8 (ucast (drop_bit 8 g AND 0xff))
     OR push_bit 16 (ucast (drop_bit 8 b AND 0xff)) OR push_bit 24 0xff"

definition ogl_dealloc_color :: "u32 \<Rightarrow> u32" where
  "ogl_dealloc_color c = 0"

record dpy_state =
  d_monitor :: monitor_type
  d_refresh :: refresh_rate
  palette0 :: "u32 list"
  palette1 :: "u32 list"
  viewport_w :: int
  viewport_h :: int
  d_renderer :: "renderer option"

definition dpy_construct :: "dpy_state \<Rightarrow> dpy_state" where
  "dpy_construct s = s\<lparr>d_monitor := MONITOR_DEFAULT, d_refresh := REFRESH_DEFAULT\<rparr>"

definition visible_area_of :: "refresh_rate \<Rightarrow> int \<times> int \<times> int \<times> int" where
  "visible_area_of rate = (if rate = RATE_50HZ then (224, 48, 768, 576)
     else if rate = RATE_60HZ then (224, 44, 768, 480) else (224, 48, 768, 576))"

definition dpy_resize :: "int \<Rightarrow> int \<Rightarrow> dpy_state \<Rightarrow> dpy_state" where
  "dpy_resize w h s = (let s = s\<lparr>viewport_w := w, viewport_h := h\<rparr> in
     s\<lparr>d_renderer := map_option (\<lambda>r. r\<lparr>viewport := (viewport_w s, viewport_h s)\<rparr>) (d_renderer s)\<rparr>)"

definition recompute_visible_area :: "dpy_state \<Rightarrow> dpy_state" where
  "recompute_visible_area s = s\<lparr>d_renderer := map_option
     (\<lambda>r. r\<lparr>visible_area := visible_area_of (d_refresh s), viewport := (viewport_w s, viewport_h s)\<rparr>) (d_renderer s)\<rparr>"

definition blank_color :: color_entry where
  "blank_color = color '''' 0 0 0 0"

text \<open>The pixels of a palette; without a renderer they stay.\<close>

definition alloc_palette :: "int \<Rightarrow> dpy_state \<Rightarrow> u32 list \<Rightarrow> u32 list" where
  "alloc_palette palette s pixels = (case d_renderer s of
     None \<Rightarrow> pixels
   | Some r \<Rightarrow> map (\<lambda>index. let c = setup_color (d_monitor s) (int index) palette blank_color
                           in alloc_color r (ce_r c) (ce_g c) (ce_b c)) [0..<length pixels])"

definition dealloc_palette :: "dpy_state \<Rightarrow> u32 list \<Rightarrow> u32 list" where
  "dealloc_palette s pixels = (case d_renderer s of None \<Rightarrow> pixels | Some r \<Rightarrow> map (dealloc_color r) pixels)"

definition alloc_palettes :: "dpy_state \<Rightarrow> dpy_state" where
  "alloc_palettes s = (let s = s\<lparr>palette0 := alloc_palette 0 s (palette0 s)\<rparr>
     in s\<lparr>palette1 := alloc_palette 1 s (palette1 s)\<rparr>)"

definition dealloc_palettes :: "dpy_state \<Rightarrow> dpy_state" where
  "dealloc_palettes s = (let s = s\<lparr>palette1 := dealloc_palette s (palette1 s)\<rparr>
     in s\<lparr>palette0 := dealloc_palette s (palette0 s)\<rparr>)"

definition dpy_set_monitor_type :: "monitor_type \<Rightarrow> dpy_state \<Rightarrow> dpy_state" where
  "dpy_set_monitor_type monitor s =
     alloc_palettes (recompute_visible_area ((dealloc_palettes s)\<lparr>d_monitor := monitor\<rparr>))"

definition dpy_set_refresh_rate :: "refresh_rate \<Rightarrow> dpy_state \<Rightarrow> dpy_state" where
  "dpy_set_refresh_rate rate s =
     alloc_palettes (recompute_visible_area ((dealloc_palettes s)\<lparr>d_refresh := rate\<rparr>))"

text \<open>Realizing makes the renderer of the given type, if there is one; \<open>mk\<close> stands for its constructor.\<close>

definition dpy_realize :: "(renderer_type \<Rightarrow> renderer) \<Rightarrow> renderer_type \<Rightarrow> dpy_state \<Rightarrow> dpy_state" where
  "dpy_realize mk type s = (if d_renderer s = None then
     (let s = (if type = XIMAGE \<or> type = OPENGL then s\<lparr>d_renderer := Some (mk type)\<rparr> else s)
      in alloc_palettes (recompute_visible_area s)) else s)"

definition dpy_unrealize :: "dpy_state \<Rightarrow> dpy_state" where
  "dpy_unrealize s = (if d_renderer s \<noteq> None
     then (recompute_visible_area (dealloc_palettes s))\<lparr>d_renderer := None\<rparr> else s)"

section \<open>Palettes\<close>

text \<open>The palettes show the colours of the monitor.\<close>

definition palettes_show :: "dpy_state \<Rightarrow> bool" where
  "palettes_show s \<longleftrightarrow> (case d_renderer s of None \<Rightarrow> True | Some r \<Rightarrow>
     palette0 s = map (\<lambda>i. let c = setup_color (d_monitor s) (int i) 0 blank_color in alloc_color r (ce_r c) (ce_g c) (ce_b c)) [0..<length (palette0 s)] \<and>
     palette1 s = map (\<lambda>i. let c = setup_color (d_monitor s) (int i) 1 blank_color in alloc_color r (ce_r c) (ce_g c) (ce_b c)) [0..<length (palette1 s)])"

lemma alloc_palettes_show: "palettes_show (alloc_palettes s)"
  by (simp add: palettes_show_def alloc_palettes_def alloc_palette_def Let_def split: option.split)

lemma alloc_palettes_simps [simp]:
  "d_renderer (alloc_palettes s) = d_renderer s" "d_monitor (alloc_palettes s) = d_monitor s"
  "d_refresh (alloc_palettes s) = d_refresh s" "length (palette0 (alloc_palettes s)) = length (palette0 s)"
  "length (palette1 (alloc_palettes s)) = length (palette1 s)"
  by (simp_all add: alloc_palettes_def alloc_palette_def Let_def split: option.split)

lemma dealloc_palettes_simps [simp]:
  "d_renderer (dealloc_palettes s) = d_renderer s" "d_monitor (dealloc_palettes s) = d_monitor s"
  "d_refresh (dealloc_palettes s) = d_refresh s" "length (palette0 (dealloc_palettes s)) = length (palette0 s)"
  "length (palette1 (dealloc_palettes s)) = length (palette1 s)"
  by (simp_all add: dealloc_palettes_def dealloc_palette_def Let_def split: option.split)

lemma set_type_shows:
  "palettes_show (dpy_set_monitor_type m s)" "palettes_show (dpy_set_refresh_rate r s)"
  by (simp_all add: dpy_set_monitor_type_def dpy_set_refresh_rate_def alloc_palettes_show)

lemma realize_shows: "d_renderer s = None \<Longrightarrow> palettes_show (dpy_realize mk type s)"
  by (simp add: dpy_realize_def Let_def alloc_palettes_show)

end
