(* ===== verification/CPC_Setup.thy ===== *)
theory CPC_Setup
  imports CPC_Render CPC_Snapshot CPC_Display
begin

text \<open>
  The settings of the main board (\<^verbatim>\<open>cpc/cpc-mainboard.cc\<close>): the state that the constructor
  gives each part, the setters of the manufacturer, the machine, the monitor, the refresh rate, the
  keyboard and the renderer with the exceptions they throw, the getters, the parameters, and
  \<^verbatim>\<open>configure\<close>, which applies the settings of the command line
  (\<^verbatim>\<open>cpc/cpc-settings.h\<close>) and loads the ROMs, the initial snapshot and the initial discs.

  An operation that can throw gives the message of the exception, if any, with the state it leaves.
  The members \<^verbatim>\<open>_setup.memory_size\<close>, \<^verbatim>\<open>_video.frame_rate\<close>, \<^verbatim>\<open>_state\<close> and
  \<^verbatim>\<open>_audio\<close> are in \<^typ>\<open>'d board\<close>; the record below holds the rest.
\<close>

unbundle bit_operations_syntax

section \<open>State\<close>

record setup_state =
  su_company_name :: company_name
  su_machine_type :: machine_type
  su_monitor_type :: monitor_type
  su_refresh_rate :: refresh_rate
  su_keyboard_type :: keyboard_type
  su_renderer_type :: renderer_type
  su_speedup :: u32
  su_xshm :: bool
  su_crt_emulation :: bool

record stats_state =
  frame_count :: u32
  frame_drawn :: u32
  stats_text :: string

record timeval =
  tv_sec :: int
  tv_usec :: int

record clock_state =
  currtime :: timeval
  deadline :: timeval
  proftime :: timeval

text \<open>The function that \<^verbatim>\<open>_funcs.render_func\<close> points to.\<close>

datatype render_func = RENDER_NULL | RENDER_08BPP | RENDER_16BPP | RENDER_32BPP | RENDER_RGBA

text \<open>The filters of the audio output, one for each channel of a stereo frame.\<close>

record mixer_state =
  volume :: rat
  dcb_input :: "nat \<Rightarrow> rat"
  dcb_output :: "nat \<Rightarrow> rat"

text \<open>
  \<open>wall_clock\<close> is the time that successive calls of \<^verbatim>\<open>gettimeofday\<close> answer, \<open>time_reads\<close>
  the number of calls made; \<open>sample_rate\<close> is the rate of the audio device.
\<close>

record 'd mainboard =
  mb_setup :: setup_state
  mb_stats :: stats_state
  mb_clock :: clock_state
  render_func :: render_func
  mb_mixer :: mixer_state
  frame_time :: u32
  mb_dpy :: dpy_state
  mb_keyboard :: keyboard_type
  mb_host :: "'d host"
  wall_clock :: "nat \<Rightarrow> timeval"
  time_reads :: nat
  sample_rate :: u32

section \<open>Construction\<close>

definition setup_construct :: setup_state where
  "setup_construct = \<lparr>su_company_name = COMPANY_UNKNOWN, su_machine_type = MACHINE_UNKNOWN,
     su_monitor_type = MONITOR_UNKNOWN, su_refresh_rate = REFRESH_UNKNOWN, su_keyboard_type = KEYBOARD_UNKNOWN,
     su_renderer_type = RENDERER_UNKNOWN, su_speedup = 1, su_xshm = True, su_crt_emulation = True\<rparr>"

definition stats_construct :: stats_state where
  "stats_construct = \<lparr>frame_count = 0, frame_drawn = 0, stats_text = ''''\<rparr>"

definition state_construct :: "'d board \<Rightarrow> 'd board" where
  "state_construct b = b
     \<lparr>memory_size := MEMORY_UNKNOWN, cpc_flags := 0, cpc_clock := 4000000, cpc_ticks := 0, cpu_clock := 4000000, cpu_ticks := 0,
      vdc_clock_rate := 1000000, vdc_ticks := 0, psg_clock_rate := 1000000, psg_ticks_acc := 0, snd_clock := 44100,
      snd_ticks := 0, vdc_hsync := 0, vdc_vsync := 0, lnk_lk1 := 1, lnk_lk2 := 1, lnk_lk3 := 1, lnk_lk4 := 1,
      exp_busy := 1, prt_busy := 1, psg_data := 0, psg_bdir := 0, psg_bc1 := 0, psg_bc2 := 1, cas_motor := 0,
      cas_sound := 0, cas_rd_data := 0, cas_wr_data := 0, ram_conf := 0, rom_conf := 0, pal_rd := \<lambda>_. Null, pal_wr := \<lambda>_. Null\<rparr>"

definition audio_construct :: audio_state where
  "audio_construct = \<lparr>a_channel0 = \<lambda>_. 0, a_channel1 = \<lambda>_. 0, a_channel2 = \<lambda>_. 0, a_rd_index = 0, a_wr_index = 0,
     a_acc0 = 0, a_acc1 = 0, a_acc2 = 0, a_acc_count = 0\<rparr>"

definition mixer_construct :: mixer_state where
  "mixer_construct = \<lparr>volume = 1/2, dcb_input = \<lambda>_. 0, dcb_output = \<lambda>_. 0\<rparr>"

text \<open>
  The clock of the host always answers: the exception that \<^verbatim>\<open>BasicTraits::gettimeofday\<close> throws when the
  call fails is not modelled.
\<close>

definition gettimeofday :: "'d mainboard \<Rightarrow> timeval \<times> 'd mainboard" where
  "gettimeofday mb = (wall_clock mb (time_reads mb), mb\<lparr>time_reads := time_reads mb + 1\<rparr>)"

definition clock_construct :: "'d mainboard \<Rightarrow> 'd mainboard" where
  "clock_construct mb = (let
     (t1, mb) = gettimeofday mb;
     (t2, mb) = gettimeofday mb;
     (t3, mb) = gettimeofday mb
   in mb\<lparr>mb_clock := \<lparr>currtime = t1, deadline = t2, proftime = t3\<rparr>\<rparr>)"

text \<open>A bank as \<^verbatim>\<open>mem::Instance::Instance\<close> makes it: of its type, and all zero.\<close>

definition mem_construct :: "bank_type \<Rightarrow> mem_state" where
  "mem_construct type = mem_reset \<lparr>mem_type = type, mem_data = \<lambda>_. 0\<rparr>"

text \<open>
  The parts of the board are made as \<^verbatim>\<open>Mainboard::Mainboard\<close> makes them: the gate array, two drives on
  the disc controller, blank RAM banks, two blank ROM banks and no expansion.  The other devices are
  those of the given board, which the reset that follows in \<^verbatim>\<open>configure\<close> sets.
\<close>

definition mainboard_construct :: "'d mainboard \<Rightarrow> 'd mainboard" where
  "mainboard_construct mb = (let
     mb = mb\<lparr>mb_setup := setup_construct, mb_stats := stats_construct\<rparr>;
     mb = clock_construct mb;
     (c, b) = mb_host mb;
     b = (state_construct b)\<lparr>b_audio := audio_construct, frame_rate := 50\<rparr>;
     mb = mb\<lparr>render_func := RENDER_NULL, mb_mixer := mixer_construct, frame_time := 20000, mb_dpy := dpy_construct (mb_dpy mb),
             mb_keyboard := KEYBOARD_DEFAULT\<rparr>;
     b = b\<lparr>b_vga := vga_construct (b_vga b), b_fdc := map_option (attach_drive 1 \<circ> attach_drive 0) (b_fdc b),
           b_ram := \<lambda>_. mem_construct RAM_BANK, b_rom := \<lambda>i. if i < 2 then Some (mem_construct ROM_BANK) else None,
           b_exp := \<lambda>_. None\<rparr>
   in mb\<lparr>mb_host := (c, b)\<rparr>)"

section \<open>Reset\<close>

definition mixer_reset :: "mixer_state \<Rightarrow> mixer_state" where
  "mixer_reset m = m\<lparr>dcb_input := \<lambda>_. 0, dcb_output := \<lambda>_. 0\<rparr>"

definition stats_reset :: "stats_state \<Rightarrow> stats_state" where
  "stats_reset s = s\<lparr>frame_count := frame_count s AND 0, frame_drawn := frame_drawn s AND 0,
     stats_text := ''''\<rparr>"

definition mainboard_reset :: "'d libdsk \<Rightarrow> 'd mainboard \<Rightarrow> 'd mainboard" where
  "mainboard_reset L mb = (let
     mb = clock_construct (mb\<lparr>mb_stats := stats_reset (mb_stats mb)\<rparr>)
   in mb\<lparr>mb_mixer := mixer_reset (mb_mixer mb), mb_host := board_reset L (mb_host mb), frame_time := frame_time mb OR 0\<rparr>)"

section \<open>The setters\<close>

definition on_board :: "('d board \<Rightarrow> 'd board) \<Rightarrow> 'd mainboard \<Rightarrow> 'd mainboard" where
  "on_board f mb = mb\<lparr>mb_host := (fst (mb_host mb), f (snd (mb_host mb)))\<rparr>"

definition mb_update_vga :: "'d mainboard \<Rightarrow> 'd mainboard" where
  "mb_update_vga mb = on_board (update_vga (su_crt_emulation (mb_setup mb)) (palette0 (mb_dpy mb)) (palette1 (mb_dpy mb))) mb"

text \<open>The links that the firmware reads to know the manufacturer.\<close>

definition company_links :: "company_name \<Rightarrow> (u8 \<times> u8 \<times> u8) option" where
  "company_links c = (case c of
     ISP \<Rightarrow> Some (0, 0, 0) | TRIUMPH \<Rightarrow> Some (0, 0, 1) | SAISHO \<Rightarrow> Some (0, 1, 0) | SOLAVOX \<Rightarrow> Some (0, 1, 1)
   | AWA \<Rightarrow> Some (1, 0, 0) | SCHNEIDER \<Rightarrow> Some (1, 0, 1) | ORION \<Rightarrow> Some (1, 1, 0) | AMSTRAD \<Rightarrow> Some (1, 1, 1)
   | _ \<Rightarrow> None)"

definition set_company_name :: "'d libdsk \<Rightarrow> string \<Rightarrow> 'd mainboard \<Rightarrow> string option \<times> 'd mainboard" where
  "set_company_name L s mb = (let c = company_name_from_string s; c = (if c = COMPANY_DEFAULT then AMSTRAD else c) in
     case company_links c of
       None \<Rightarrow> (Some ''unsupported company name'', mb)
     | Some (lk3, lk2, lk1) \<Rightarrow> (None,
         if c \<noteq> su_company_name (mb_setup mb) then
           (let mb = mb\<lparr>mb_setup := (mb_setup mb)\<lparr>su_company_name := c\<rparr>\<rparr>;
                mb = on_board (\<lambda>b. b\<lparr>lnk_lk1 := lk1, lnk_lk2 := lk2, lnk_lk3 := lk3\<rparr>) mb
            in mainboard_reset L mb)
         else mb))"

text \<open>\<^verbatim>\<open>load_lower_rom\<close> and \<^verbatim>\<open>load_upper_rom\<close>: the two halves of a firmware file.\<close>

definition load_rom :: "nat \<Rightarrow> nat \<Rightarrow> string \<Rightarrow> file_system \<Rightarrow> string \<Rightarrow> 'd board \<Rightarrow> string option \<times> 'd board" where
  "load_rom index offset romdir fs filename b = (let
     m = (case b_rom b index of Some m \<Rightarrow> m | None \<Rightarrow> \<lparr>mem_type = ROM_BANK, mem_data = \<lambda>_. 0\<rparr>);
     (e, m) = mem_load (rom_path romdir filename) offset fs m
   in (e, b\<lparr>b_rom := (b_rom b)(index \<mapsto> m)\<rparr>))"

definition load_lower_rom :: "string \<Rightarrow> file_system \<Rightarrow> string \<Rightarrow> 'd board \<Rightarrow> string option \<times> 'd board" where
  "load_lower_rom = load_rom 0 0x0000"

definition load_upper_rom :: "string \<Rightarrow> file_system \<Rightarrow> string \<Rightarrow> 'd board \<Rightarrow> string option \<times> 'd board" where
  "load_upper_rom = load_rom 1 0x4000"

definition machine_parts :: "machine_type \<Rightarrow> (u32 \<times> string \<times> string) option" where
  "machine_parts m = (case m of
     CPC464 \<Rightarrow> Some (MEMORY_64K, ''cpc464en.rom'', ''amsdos.rom'')
   | CPC664 \<Rightarrow> Some (MEMORY_64K, ''cpc664en.rom'', ''amsdos.rom'')
   | CPC6128 \<Rightarrow> Some (MEMORY_128K, ''cpc6128en.rom'', ''amsdos.rom'')
   | _ \<Rightarrow> None)"

text \<open>An exception of the loading of a ROM is logged; the memory never shrinks.\<close>

definition set_machine_type :: "'d libdsk \<Rightarrow> string \<Rightarrow> file_system \<Rightarrow> string \<Rightarrow> 'd mainboard \<Rightarrow> string option \<times> 'd mainboard" where
  "set_machine_type L romdir fs s mb = (let m = machine_type_from_string s; m = (if m = MACHINE_DEFAULT then CPC6128 else m) in
     case machine_parts m of
       None \<Rightarrow> (Some ''unsupported machine type'', mb)
     | Some (mem, firmware, amsdos) \<Rightarrow> (None,
         if m \<noteq> su_machine_type (mb_setup mb) then
           (let mb = mb\<lparr>mb_setup := (mb_setup mb)\<lparr>su_machine_type := m\<rparr>\<rparr>;
                mb = on_board (\<lambda>b. if word_sless (memory_size b) mem then b\<lparr>memory_size := mem\<rparr> else b) mb;
                mb = on_board (\<lambda>b. snd (load_lower_rom romdir fs firmware b)) mb;
                mb = on_board (\<lambda>b. snd (load_upper_rom romdir fs firmware b)) mb;
                mb = on_board (load_expansion romdir fs amsdos 7) mb
            in mainboard_reset L mb)
         else mb))"

definition set_monitor_type :: "string \<Rightarrow> 'd mainboard \<Rightarrow> string option \<times> 'd mainboard" where
  "set_monitor_type s mb = (let m = monitor_type_from_string s; m = (if m = MONITOR_DEFAULT then COLOR else m) in
     if m \<in> {COLOR, GREEN, GRAY, CTM640, CTM644, GT64, GT65, CM14, MM12} then (None,
       if m \<noteq> su_monitor_type (mb_setup mb) then
         mb_update_vga (mb\<lparr>mb_setup := (mb_setup mb)\<lparr>su_monitor_type := m\<rparr>, mb_dpy := dpy_set_monitor_type m (mb_dpy mb)\<rparr>)
       else mb)
     else (Some ''unsupported monitor type'', mb))"

definition rate_values :: "refresh_rate \<Rightarrow> (u32 \<times> u32 \<times> u8) option" where
  "rate_values r = (case r of RATE_50HZ \<Rightarrow> Some (50, 20000, 1) | RATE_60HZ \<Rightarrow> Some (60, 16667, 0) | _ \<Rightarrow> None)"

definition set_refresh_rate :: "'d libdsk \<Rightarrow> string \<Rightarrow> 'd mainboard \<Rightarrow> string option \<times> 'd mainboard" where
  "set_refresh_rate L s mb = (let r = refresh_rate_from_string s; r = (if r = REFRESH_DEFAULT then RATE_50HZ else r) in
     case rate_values r of
       None \<Rightarrow> (Some ''unsupported refresh rate'', mb)
     | Some (rate, time, lk4) \<Rightarrow> (None,
         if r \<noteq> su_refresh_rate (mb_setup mb) then
           (let mb = mb\<lparr>mb_setup := (mb_setup mb)\<lparr>su_refresh_rate := r\<rparr>, frame_time := time\<rparr>;
                mb = on_board (\<lambda>b. b\<lparr>frame_rate := rate, lnk_lk4 := lk4\<rparr>) mb;
                mb = mb\<lparr>mb_dpy := dpy_set_refresh_rate r (mb_dpy mb)\<rparr>
            in mainboard_reset L (mb_update_vga mb))
         else mb))"

definition set_keyboard_type :: "string \<Rightarrow> 'd mainboard \<Rightarrow> string option \<times> 'd mainboard" where
  "set_keyboard_type s mb = (let k = keyboard_type_from_string s; k = (if k = KEYBOARD_DEFAULT then ENGLISH else k) in
     if k \<in> {ENGLISH, FRENCH, GERMAN, SPANISH, DANISH} then (None,
       if k \<noteq> su_keyboard_type (mb_setup mb)
       then mb\<lparr>mb_setup := (mb_setup mb)\<lparr>su_keyboard_type := k\<rparr>, mb_keyboard := k\<rparr> else mb)
     else (Some ''unsupported keyboard type'', mb))"

definition set_renderer_type :: "string \<Rightarrow> 'd mainboard \<Rightarrow> string option \<times> 'd mainboard" where
  "set_renderer_type s mb = (let r = renderer_type_from_string s; r = (if r = RENDERER_DEFAULT then OPENGL else r) in
     if r \<in> {XIMAGE, OPENGL} then (None,
       if r \<noteq> su_renderer_type (mb_setup mb) then mb\<lparr>mb_setup := (mb_setup mb)\<lparr>su_renderer_type := r\<rparr>\<rparr> else mb)
     else (Some ''unsupported renderer type'', mb))"

section \<open>The getters\<close>

definition get_company_name :: "'d mainboard \<Rightarrow> string" where
  "get_company_name mb = company_name_to_string (su_company_name (mb_setup mb))"
definition get_machine_type :: "'d mainboard \<Rightarrow> string" where
  "get_machine_type mb = machine_type_to_string (su_machine_type (mb_setup mb))"
definition get_memory_size :: "'d mainboard \<Rightarrow> string" where
  "get_memory_size mb = memory_size_to_string (memory_size (snd (mb_host mb)))"
definition get_monitor_type :: "'d mainboard \<Rightarrow> string" where
  "get_monitor_type mb = monitor_type_to_string (su_monitor_type (mb_setup mb))"
definition get_refresh_rate :: "'d mainboard \<Rightarrow> string" where
  "get_refresh_rate mb = refresh_rate_to_string (su_refresh_rate (mb_setup mb))"
definition get_keyboard_type :: "'d mainboard \<Rightarrow> string" where
  "get_keyboard_type mb = keyboard_type_to_string (su_keyboard_type (mb_setup mb))"
definition get_renderer_type :: "'d mainboard \<Rightarrow> string" where
  "get_renderer_type mb = renderer_type_to_string (su_renderer_type (mb_setup mb))"

definition get_system_info :: "'d mainboard \<Rightarrow> string" where
  "get_system_info mb = get_company_name mb @ '' '' @ get_machine_type mb @ '' '' @ get_memory_size mb @ '', ''
     @ get_monitor_type mb @ '' @ '' @ get_refresh_rate mb @ '', '' @ get_keyboard_type mb"

section \<open>Parameters\<close>

text \<open>The renderer's own parameters are on its side of the interface; what the board keeps is here.\<close>

definition set_parameterb :: "string \<Rightarrow> bool \<Rightarrow> 'd mainboard \<Rightarrow> 'd mainboard" where
  "set_parameterb parameter value mb =
     (if take 6 parameter = ''video.'' \<and> parameter = ''video.crt_emulation'' then
        (let old = su_crt_emulation (mb_setup mb);
             mb = mb\<lparr>mb_setup := (mb_setup mb)\<lparr>su_crt_emulation := value\<rparr>\<rparr>
         in if value \<noteq> old then mb_update_vga mb else mb)
      else mb)"

definition clamp_volume :: "rat \<Rightarrow> rat" where
  "clamp_volume v = (let v = (if v < 0 then 0 else v) in if 1 < v then 1 else v)"

definition set_parameterf :: "string \<Rightarrow> rat \<Rightarrow> 'd mainboard \<Rightarrow> 'd mainboard" where
  "set_parameterf parameter value mb =
     (if take 6 parameter = ''audio.'' \<and> parameter = ''audio.volume''
      then mb\<lparr>mb_mixer := (mb_mixer mb)\<lparr>volume := clamp_volume value\<rparr>\<rparr> else mb)"

section \<open>Discs\<close>

text \<open>
  The library that opens the discs is \<open>L\<close>, and \<open>gz\<close> the compressions that this build supports.
  A disc operation that runs into undefined behaviour leaves no controller.
\<close>

type_synonym compressions = "bool \<times> bool \<times> bool"

definition insert_disk_into :: "compressions \<Rightarrow> 'd libdsk \<Rightarrow> int \<Rightarrow> string \<Rightarrow> 'd mainboard \<Rightarrow> string option \<times> 'd mainboard" where
  "insert_disk_into gz L drive filename mb = (let (z, bz2, zip) = gz; b = snd (mb_host mb) in
     case b_fdc b of
       None \<Rightarrow> (None, mb)
     | Some inst \<Rightarrow> (case insert_disk z bz2 zip L drive filename inst of
         None \<Rightarrow> (None, on_board (\<lambda>b. b\<lparr>b_fdc := None\<rparr>) mb)
       | Some (Inl e) \<Rightarrow> (Some e, mb)
       | Some (Inr inst) \<Rightarrow> (None, on_board (\<lambda>b. b\<lparr>b_fdc := Some inst\<rparr>) mb)))"

definition insert_disk_into_drive0 :: "compressions \<Rightarrow> 'd libdsk \<Rightarrow> string \<Rightarrow> 'd mainboard \<Rightarrow> string option \<times> 'd mainboard" where
  "insert_disk_into_drive0 gz L = insert_disk_into gz L 0"
definition insert_disk_into_drive1 :: "compressions \<Rightarrow> 'd libdsk \<Rightarrow> string \<Rightarrow> 'd mainboard \<Rightarrow> string option \<times> 'd mainboard" where
  "insert_disk_into_drive1 gz L = insert_disk_into gz L 1"

definition remove_disk_from :: "'d libdsk \<Rightarrow> int \<Rightarrow> 'd mainboard \<Rightarrow> 'd mainboard" where
  "remove_disk_from L drive = on_board (\<lambda>b. b\<lparr>b_fdc := Option.bind (b_fdc b) (remove_disk L drive)\<rparr>)"

definition remove_disk_from_drive0 :: "'d libdsk \<Rightarrow> 'd mainboard \<Rightarrow> 'd mainboard" where
  "remove_disk_from_drive0 L = remove_disk_from L 0"
definition remove_disk_from_drive1 :: "'d libdsk \<Rightarrow> 'd mainboard \<Rightarrow> 'd mainboard" where
  "remove_disk_from_drive1 L = remove_disk_from L 1"

definition get_drive_filename :: "int \<Rightarrow> 'd mainboard \<Rightarrow> string option" where
  "get_drive_filename drive mb = (case b_fdc (snd (mb_host mb)) of
     None \<Rightarrow> Some '''' | Some inst \<Rightarrow> instance_get_filename drive inst)"

definition get_drive0_filename :: "'d mainboard \<Rightarrow> string option" where "get_drive0_filename = get_drive_filename 0"
definition get_drive1_filename :: "'d mainboard \<Rightarrow> string option" where "get_drive1_filename = get_drive_filename 1"

text \<open>A snapshot: either way the whole board is reset before, or instead.\<close>

definition mb_load_snapshot :: "'d libdsk \<Rightarrow> file_system \<Rightarrow> string \<Rightarrow> 'd mainboard \<Rightarrow> string option \<times> 'd mainboard" where
  "mb_load_snapshot L fs filename mb = (let (e, h) = load_snapshot L filename fs (mb_host mb)
     in (e, (mainboard_reset L mb)\<lparr>mb_host := h\<rparr>))"

section \<open>Configuration\<close>

record settings =
  opt_company :: string
  opt_machine :: string
  opt_monitor :: string
  opt_refresh :: string
  opt_keyboard :: string
  opt_memory :: string
  opt_renderer :: string
  opt_sysrom :: string
  opt_roms :: "string list"
  opt_drive0 :: string
  opt_drive1 :: string
  opt_snapshot :: string
  opt_speedup :: string
  opt_xshm :: bool
  opt_crt_emulation :: bool

text \<open>One operation after another, up to the first exception.\<close>

definition seq :: "string option \<times> 'm \<Rightarrow> ('m \<Rightarrow> string option \<times> 'm) \<Rightarrow> string option \<times> 'm" where
  "seq r f = (case r of (Some e, m) \<Rightarrow> (Some e, m) | (None, m) \<Rightarrow> f m)"

definition clamp_int :: "int \<Rightarrow> int \<Rightarrow> int \<Rightarrow> int" where
  "clamp_int value lo hi = (let value = (if value < lo then lo else value) in if hi < value then hi else value)"

definition set_options :: "settings \<Rightarrow> 'd mainboard \<Rightarrow> string option \<times> 'd mainboard" where
  "set_options st mb = (None, on_board (\<lambda>b. b\<lparr>snd_clock := sample_rate mb\<rparr>)
     (mb\<lparr>mb_setup := (mb_setup mb)\<lparr>su_speedup := of_int (clamp_int (atoi (opt_speedup st)) 1 100),
        su_xshm := opt_xshm st, su_crt_emulation := opt_crt_emulation st\<rparr>\<rparr>))"

definition init_machine :: "'d libdsk \<Rightarrow> string \<Rightarrow> file_system \<Rightarrow> settings \<Rightarrow> 'd mainboard \<Rightarrow> string option \<times> 'd mainboard" where
  "init_machine L romdir fs st mb = (let
     r = set_company_name L (opt_company st) mb;
     r = seq r (set_machine_type L romdir fs (opt_machine st));
     r = seq r (set_monitor_type (opt_monitor st));
     r = seq r (set_refresh_rate L (opt_refresh st));
     r = seq r (set_keyboard_type (opt_keyboard st));
     r = seq r (set_renderer_type (opt_renderer st))
   in seq r (set_options st))"

definition load_system_roms :: "string \<Rightarrow> file_system \<Rightarrow> string \<Rightarrow> 'd board \<Rightarrow> 'd board" where
  "load_system_roms romdir fs firmware b =
     (let b = (if is_set firmware then snd (load_lower_rom romdir fs firmware b) else b)
      in if is_set firmware then snd (load_upper_rom romdir fs firmware b) else b)"

definition configure :: "compressions \<Rightarrow> 'd libdsk \<Rightarrow> string \<Rightarrow> file_system \<Rightarrow> settings \<Rightarrow> 'd mainboard \<Rightarrow> string option \<times> 'd mainboard" where
  "configure gz L romdir fs st mb = (case init_machine L romdir fs st mb of
     (Some e, mb) \<Rightarrow> (Some e, mainboard_reset L mb)
   | (None, mb) \<Rightarrow> (let
       mb = on_board (load_system_roms romdir fs (opt_sysrom st)) mb;
       mb = on_board (load_expansions_roms romdir fs (opt_roms st)) mb;
       mb = mainboard_reset L mb;
       mb = (if is_set (opt_snapshot st) then snd (mb_load_snapshot L fs (opt_snapshot st) mb) else mb);
       mb = (if is_set (opt_drive0 st) then snd (insert_disk_into_drive0 gz L (opt_drive0 st) mb) else mb);
       mb = (if is_set (opt_drive1 st) then snd (insert_disk_into_drive1 gz L (opt_drive1 st) mb) else mb)
     in (None, mb)))"

text \<open>The constructor with settings: an exception of \<^verbatim>\<open>configure\<close> is logged.\<close>

definition mainboard_create :: "compressions \<Rightarrow> 'd libdsk \<Rightarrow> string \<Rightarrow> file_system \<Rightarrow> settings \<Rightarrow> 'd mainboard \<Rightarrow> 'd mainboard" where
  "mainboard_create gz L romdir fs st mb = snd (configure gz L romdir fs st (mainboard_construct mb))"

section \<open>Windows\<close>

text \<open>
  The renderer of the type of the setup is realized, the colours are allocated and the render
  function chosen by the type and by the size of a pixel, \<open>bpp\<close>, of the image it made.
\<close>

definition render_func_of :: "renderer_type \<Rightarrow> int \<Rightarrow> render_func" where
  "render_func_of type bpp =
     (if type = XIMAGE then
        (if bpp = 8 then RENDER_08BPP else if bpp = 16 then RENDER_16BPP else if bpp = 32 then RENDER_32BPP else RENDER_NULL)
      else if type = OPENGL then (if bpp = 32 then RENDER_RGBA else RENDER_NULL)
      else RENDER_NULL)"

definition on_create_window :: "(renderer_type \<Rightarrow> renderer) \<Rightarrow> int \<Rightarrow> 'd mainboard \<Rightarrow> 'd mainboard" where
  "on_create_window mk bpp mb = (let
     mb = mb\<lparr>mb_dpy := dpy_realize mk (su_renderer_type (mb_setup mb)) (mb_dpy mb)\<rparr>;
     mb = mb_update_vga mb
   in mb\<lparr>render_func := render_func_of (su_renderer_type (mb_setup mb)) bpp\<rparr>)"

definition on_delete_window :: "'d mainboard \<Rightarrow> 'd mainboard" where
  "on_delete_window mb = mb\<lparr>mb_dpy := dpy_unrealize (mb_dpy mb)\<rparr>"

definition on_resize_window :: "(int \<times> int) option \<Rightarrow> 'd mainboard \<Rightarrow> 'd mainboard" where
  "on_resize_window event mb = (case event of
     None \<Rightarrow> mb | Some (w, h) \<Rightarrow> mb\<lparr>mb_dpy := dpy_resize w h (mb_dpy mb)\<rparr>)"

end
