(* ===== verification/CPC_Keyboard.thy ===== *)
theory CPC_Keyboard
  imports CPC_Setup
begin

text \<open>
  The keyboard (\<^verbatim>\<open>lib/xcpc/amstrad/kbd/kbd-core.cc\<close>) beyond what the board itself reads of it:
  which keys of the matrix a symbol is, on the English and on the French keyboard, the events of keys
  and joysticks, and the handlers of the main board that pass them on.  The X library translates an
  event into a key symbol: the operations take the symbol.
\<close>

unbundle bit_operations_syntax

section \<open>Symbols\<close>

text \<open>The symbols of the X protocol that are decoded, with the values of \<^verbatim>\<open>libxcpc-keysyms.h\<close>.\<close>

abbreviation XK_space :: u64 where "XK_space \<equiv> 0x020"
abbreviation XK_exclam :: u64 where "XK_exclam \<equiv> 0x021"
abbreviation XK_quotedbl :: u64 where "XK_quotedbl \<equiv> 0x022"
abbreviation XK_numbersign :: u64 where "XK_numbersign \<equiv> 0x023"
abbreviation XK_dollar :: u64 where "XK_dollar \<equiv> 0x024"
abbreviation XK_percent :: u64 where "XK_percent \<equiv> 0x025"
abbreviation XK_ampersand :: u64 where "XK_ampersand \<equiv> 0x026"
abbreviation XK_apostrophe :: u64 where "XK_apostrophe \<equiv> 0x027"
abbreviation XK_parenleft :: u64 where "XK_parenleft \<equiv> 0x028"
abbreviation XK_parenright :: u64 where "XK_parenright \<equiv> 0x029"
abbreviation XK_asterisk :: u64 where "XK_asterisk \<equiv> 0x02a"
abbreviation XK_plus :: u64 where "XK_plus \<equiv> 0x02b"
abbreviation XK_comma :: u64 where "XK_comma \<equiv> 0x02c"
abbreviation XK_minus :: u64 where "XK_minus \<equiv> 0x02d"
abbreviation XK_period :: u64 where "XK_period \<equiv> 0x02e"
abbreviation XK_slash :: u64 where "XK_slash \<equiv> 0x02f"
abbreviation XK_0 :: u64 where "XK_0 \<equiv> 0x030"
abbreviation XK_1 :: u64 where "XK_1 \<equiv> 0x031"
abbreviation XK_2 :: u64 where "XK_2 \<equiv> 0x032"
abbreviation XK_3 :: u64 where "XK_3 \<equiv> 0x033"
abbreviation XK_4 :: u64 where "XK_4 \<equiv> 0x034"
abbreviation XK_5 :: u64 where "XK_5 \<equiv> 0x035"
abbreviation XK_6 :: u64 where "XK_6 \<equiv> 0x036"
abbreviation XK_7 :: u64 where "XK_7 \<equiv> 0x037"
abbreviation XK_8 :: u64 where "XK_8 \<equiv> 0x038"
abbreviation XK_9 :: u64 where "XK_9 \<equiv> 0x039"
abbreviation XK_colon :: u64 where "XK_colon \<equiv> 0x03a"
abbreviation XK_semicolon :: u64 where "XK_semicolon \<equiv> 0x03b"
abbreviation XK_less :: u64 where "XK_less \<equiv> 0x03c"
abbreviation XK_equal :: u64 where "XK_equal \<equiv> 0x03d"
abbreviation XK_greater :: u64 where "XK_greater \<equiv> 0x03e"
abbreviation XK_question :: u64 where "XK_question \<equiv> 0x03f"
abbreviation XK_at :: u64 where "XK_at \<equiv> 0x040"
abbreviation XK_A :: u64 where "XK_A \<equiv> 0x041"
abbreviation XK_B :: u64 where "XK_B \<equiv> 0x042"
abbreviation XK_C :: u64 where "XK_C \<equiv> 0x043"
abbreviation XK_D :: u64 where "XK_D \<equiv> 0x044"
abbreviation XK_E :: u64 where "XK_E \<equiv> 0x045"
abbreviation XK_F :: u64 where "XK_F \<equiv> 0x046"
abbreviation XK_G :: u64 where "XK_G \<equiv> 0x047"
abbreviation XK_H :: u64 where "XK_H \<equiv> 0x048"
abbreviation XK_I :: u64 where "XK_I \<equiv> 0x049"
abbreviation XK_J :: u64 where "XK_J \<equiv> 0x04a"
abbreviation XK_K :: u64 where "XK_K \<equiv> 0x04b"
abbreviation XK_L :: u64 where "XK_L \<equiv> 0x04c"
abbreviation XK_M :: u64 where "XK_M \<equiv> 0x04d"
abbreviation XK_N :: u64 where "XK_N \<equiv> 0x04e"
abbreviation XK_O :: u64 where "XK_O \<equiv> 0x04f"
abbreviation XK_P :: u64 where "XK_P \<equiv> 0x050"
abbreviation XK_Q :: u64 where "XK_Q \<equiv> 0x051"
abbreviation XK_R :: u64 where "XK_R \<equiv> 0x052"
abbreviation XK_S :: u64 where "XK_S \<equiv> 0x053"
abbreviation XK_T :: u64 where "XK_T \<equiv> 0x054"
abbreviation XK_U :: u64 where "XK_U \<equiv> 0x055"
abbreviation XK_V :: u64 where "XK_V \<equiv> 0x056"
abbreviation XK_W :: u64 where "XK_W \<equiv> 0x057"
abbreviation XK_X :: u64 where "XK_X \<equiv> 0x058"
abbreviation XK_Y :: u64 where "XK_Y \<equiv> 0x059"
abbreviation XK_Z :: u64 where "XK_Z \<equiv> 0x05a"
abbreviation XK_bracketleft :: u64 where "XK_bracketleft \<equiv> 0x05b"
abbreviation XK_backslash :: u64 where "XK_backslash \<equiv> 0x05c"
abbreviation XK_bracketright :: u64 where "XK_bracketright \<equiv> 0x05d"
abbreviation XK_asciicircum :: u64 where "XK_asciicircum \<equiv> 0x05e"
abbreviation XK_underscore :: u64 where "XK_underscore \<equiv> 0x05f"
abbreviation XK_grave :: u64 where "XK_grave \<equiv> 0x060"
abbreviation XK_a :: u64 where "XK_a \<equiv> 0x061"
abbreviation XK_b :: u64 where "XK_b \<equiv> 0x062"
abbreviation XK_c :: u64 where "XK_c \<equiv> 0x063"
abbreviation XK_d :: u64 where "XK_d \<equiv> 0x064"
abbreviation XK_e :: u64 where "XK_e \<equiv> 0x065"
abbreviation XK_f :: u64 where "XK_f \<equiv> 0x066"
abbreviation XK_g :: u64 where "XK_g \<equiv> 0x067"
abbreviation XK_h :: u64 where "XK_h \<equiv> 0x068"
abbreviation XK_i :: u64 where "XK_i \<equiv> 0x069"
abbreviation XK_j :: u64 where "XK_j \<equiv> 0x06a"
abbreviation XK_k :: u64 where "XK_k \<equiv> 0x06b"
abbreviation XK_l :: u64 where "XK_l \<equiv> 0x06c"
abbreviation XK_m :: u64 where "XK_m \<equiv> 0x06d"
abbreviation XK_n :: u64 where "XK_n \<equiv> 0x06e"
abbreviation XK_o :: u64 where "XK_o \<equiv> 0x06f"
abbreviation XK_p :: u64 where "XK_p \<equiv> 0x070"
abbreviation XK_q :: u64 where "XK_q \<equiv> 0x071"
abbreviation XK_r :: u64 where "XK_r \<equiv> 0x072"
abbreviation XK_s :: u64 where "XK_s \<equiv> 0x073"
abbreviation XK_t :: u64 where "XK_t \<equiv> 0x074"
abbreviation XK_u :: u64 where "XK_u \<equiv> 0x075"
abbreviation XK_v :: u64 where "XK_v \<equiv> 0x076"
abbreviation XK_w :: u64 where "XK_w \<equiv> 0x077"
abbreviation XK_x :: u64 where "XK_x \<equiv> 0x078"
abbreviation XK_y :: u64 where "XK_y \<equiv> 0x079"
abbreviation XK_z :: u64 where "XK_z \<equiv> 0x07a"
abbreviation XK_braceleft :: u64 where "XK_braceleft \<equiv> 0x07b"
abbreviation XK_bar :: u64 where "XK_bar \<equiv> 0x07c"
abbreviation XK_braceright :: u64 where "XK_braceright \<equiv> 0x07d"
abbreviation XK_asciitilde :: u64 where "XK_asciitilde \<equiv> 0x07e"
abbreviation XK_sterling :: u64 where "XK_sterling \<equiv> 0x0a3"
abbreviation XK_dead_grave :: u64 where "XK_dead_grave \<equiv> 0xfe50"
abbreviation XK_dead_circumflex :: u64 where "XK_dead_circumflex \<equiv> 0xfe52"
abbreviation XK_dead_tilde :: u64 where "XK_dead_tilde \<equiv> 0xfe53"
abbreviation XK_BackSpace :: u64 where "XK_BackSpace \<equiv> 0xff08"
abbreviation XK_Tab :: u64 where "XK_Tab \<equiv> 0xff09"
abbreviation XK_Return :: u64 where "XK_Return \<equiv> 0xff0d"
abbreviation XK_Escape :: u64 where "XK_Escape \<equiv> 0xff1b"
abbreviation XK_Delete :: u64 where "XK_Delete \<equiv> 0xffff"
abbreviation XK_Left :: u64 where "XK_Left \<equiv> 0xff51"
abbreviation XK_Up :: u64 where "XK_Up \<equiv> 0xff52"
abbreviation XK_Right :: u64 where "XK_Right \<equiv> 0xff53"
abbreviation XK_Down :: u64 where "XK_Down \<equiv> 0xff54"
abbreviation XK_KP_Space :: u64 where "XK_KP_Space \<equiv> 0xff80"
abbreviation XK_KP_Tab :: u64 where "XK_KP_Tab \<equiv> 0xff89"
abbreviation XK_KP_Enter :: u64 where "XK_KP_Enter \<equiv> 0xff8d"
abbreviation XK_KP_Left :: u64 where "XK_KP_Left \<equiv> 0xff96"
abbreviation XK_KP_Up :: u64 where "XK_KP_Up \<equiv> 0xff97"
abbreviation XK_KP_Right :: u64 where "XK_KP_Right \<equiv> 0xff98"
abbreviation XK_KP_Down :: u64 where "XK_KP_Down \<equiv> 0xff99"
abbreviation XK_KP_Insert :: u64 where "XK_KP_Insert \<equiv> 0xff9e"
abbreviation XK_KP_Delete :: u64 where "XK_KP_Delete \<equiv> 0xff9f"
abbreviation XK_KP_Decimal :: u64 where "XK_KP_Decimal \<equiv> 0xffae"
abbreviation XK_KP_0 :: u64 where "XK_KP_0 \<equiv> 0xffb0"
abbreviation XK_KP_1 :: u64 where "XK_KP_1 \<equiv> 0xffb1"
abbreviation XK_KP_2 :: u64 where "XK_KP_2 \<equiv> 0xffb2"
abbreviation XK_KP_3 :: u64 where "XK_KP_3 \<equiv> 0xffb3"
abbreviation XK_KP_4 :: u64 where "XK_KP_4 \<equiv> 0xffb4"
abbreviation XK_KP_5 :: u64 where "XK_KP_5 \<equiv> 0xffb5"
abbreviation XK_KP_6 :: u64 where "XK_KP_6 \<equiv> 0xffb6"
abbreviation XK_KP_7 :: u64 where "XK_KP_7 \<equiv> 0xffb7"
abbreviation XK_KP_8 :: u64 where "XK_KP_8 \<equiv> 0xffb8"
abbreviation XK_KP_9 :: u64 where "XK_KP_9 \<equiv> 0xffb9"
abbreviation XK_Shift_L :: u64 where "XK_Shift_L \<equiv> 0xffe1"
abbreviation XK_Control_L :: u64 where "XK_Control_L \<equiv> 0xffe3"
abbreviation XK_Alt_L :: u64 where "XK_Alt_L \<equiv> 0xffe9"
abbreviation XK_Caps_Lock :: u64 where "XK_Caps_Lock \<equiv> 0xffe5"

section \<open>Keys\<close>

text \<open>The lines of the matrix; its bits have the names of the bits of a byte (\<open>Z80_State\<close>).\<close>

abbreviation ROW0 :: u8 where "ROW0 \<equiv> 0"
abbreviation ROW1 :: u8 where "ROW1 \<equiv> 1"
abbreviation ROW2 :: u8 where "ROW2 \<equiv> 2"
abbreviation ROW3 :: u8 where "ROW3 \<equiv> 3"
abbreviation ROW4 :: u8 where "ROW4 \<equiv> 4"
abbreviation ROW5 :: u8 where "ROW5 \<equiv> 5"
abbreviation ROW6 :: u8 where "ROW6 \<equiv> 6"
abbreviation ROW7 :: u8 where "ROW7 \<equiv> 7"
abbreviation ROW8 :: u8 where "ROW8 \<equiv> 8"
abbreviation ROW9 :: u8 where "ROW9 \<equiv> 9"

text \<open>
  A decoded key is its line, its bit, and the two modifier bits that replace the ones that are down:
  none, shift, or shift with control.
\<close>

type_synonym key = "u8 \<times> u8 \<times> u8"

definition SET_KEY :: "u8 \<Rightarrow> u8 \<Rightarrow> key" where
  "SET_KEY line data = (line, data, 0x00)"

definition SFT_KEY :: "u8 \<Rightarrow> u8 \<Rightarrow> key" where
  "SFT_KEY line data = (line, data, 0x01)"

definition EXT_KEY :: "u8 \<Rightarrow> u8 \<Rightarrow> key" where
  "EXT_KEY line data = (line, data, 0x03)"

lemmas key_defs = SET_KEY_def SFT_KEY_def EXT_KEY_def

section \<open>The English keyboard\<close>

definition english_symbols :: "(u64 \<times> key) list" where
  "english_symbols = [
    (XK_space, SET_KEY ROW5 BIT7), (XK_exclam, SFT_KEY ROW8 BIT0), (XK_quotedbl, SFT_KEY ROW8 BIT1),
    (XK_numbersign, SFT_KEY ROW7 BIT1), (XK_dollar, SFT_KEY ROW7 BIT0), (XK_percent, SFT_KEY ROW6 BIT1),
    (XK_ampersand, SFT_KEY ROW6 BIT0), (XK_apostrophe, SFT_KEY ROW5 BIT1), (XK_parenleft, SFT_KEY ROW5 BIT0),
    (XK_parenright, SFT_KEY ROW4 BIT1), (XK_asterisk, SFT_KEY ROW3 BIT5), (XK_plus, SFT_KEY ROW3 BIT4),
    (XK_comma, SET_KEY ROW4 BIT7), (XK_minus, SET_KEY ROW3 BIT1), (XK_period, SET_KEY ROW3 BIT7),
    (XK_slash, SET_KEY ROW3 BIT6), (XK_0, SET_KEY ROW4 BIT0), (XK_1, SET_KEY ROW8 BIT0),
    (XK_2, SET_KEY ROW8 BIT1), (XK_3, SET_KEY ROW7 BIT1), (XK_4, SET_KEY ROW7 BIT0),
    (XK_5, SET_KEY ROW6 BIT1), (XK_6, SET_KEY ROW6 BIT0), (XK_7, SET_KEY ROW5 BIT1),
    (XK_8, SET_KEY ROW5 BIT0), (XK_9, SET_KEY ROW4 BIT1), (XK_colon, SET_KEY ROW3 BIT5),
    (XK_semicolon, SET_KEY ROW3 BIT4), (XK_less, SFT_KEY ROW4 BIT7), (XK_equal, SFT_KEY ROW3 BIT1),
    (XK_greater, SFT_KEY ROW3 BIT7), (XK_question, SFT_KEY ROW3 BIT6), (XK_at, SET_KEY ROW3 BIT2)]"

definition english_capitals :: "(u64 \<times> key) list" where
  "english_capitals = [
    (XK_A, SFT_KEY ROW8 BIT5), (XK_B, SFT_KEY ROW6 BIT6), (XK_C, SFT_KEY ROW7 BIT6),
    (XK_D, SFT_KEY ROW7 BIT5), (XK_E, SFT_KEY ROW7 BIT2), (XK_F, SFT_KEY ROW6 BIT5),
    (XK_G, SFT_KEY ROW6 BIT4), (XK_H, SFT_KEY ROW5 BIT4), (XK_I, SFT_KEY ROW4 BIT3),
    (XK_J, SFT_KEY ROW5 BIT5), (XK_K, SFT_KEY ROW4 BIT5), (XK_L, SFT_KEY ROW4 BIT4),
    (XK_M, SFT_KEY ROW4 BIT6), (XK_N, SFT_KEY ROW5 BIT6), (XK_O, SFT_KEY ROW4 BIT2),
    (XK_P, SFT_KEY ROW3 BIT3), (XK_Q, SFT_KEY ROW8 BIT3), (XK_R, SFT_KEY ROW6 BIT2),
    (XK_S, SFT_KEY ROW7 BIT4), (XK_T, SFT_KEY ROW6 BIT3), (XK_U, SFT_KEY ROW5 BIT2),
    (XK_V, SFT_KEY ROW6 BIT7), (XK_W, SFT_KEY ROW7 BIT3), (XK_X, SFT_KEY ROW7 BIT7),
    (XK_Y, SFT_KEY ROW5 BIT3), (XK_Z, SFT_KEY ROW8 BIT7), (XK_bracketleft, SET_KEY ROW2 BIT1),
    (XK_backslash, SET_KEY ROW2 BIT6), (XK_bracketright, SET_KEY ROW2 BIT3),
    (XK_asciicircum, SET_KEY ROW3 BIT0), (XK_underscore, SFT_KEY ROW4 BIT0), (XK_grave, SFT_KEY ROW2 BIT6)]"

definition english_small :: "(u64 \<times> key) list" where
  "english_small = [
    (XK_a, SET_KEY ROW8 BIT5), (XK_b, SET_KEY ROW6 BIT6), (XK_c, SET_KEY ROW7 BIT6),
    (XK_d, SET_KEY ROW7 BIT5), (XK_e, SET_KEY ROW7 BIT2), (XK_f, SET_KEY ROW6 BIT5),
    (XK_g, SET_KEY ROW6 BIT4), (XK_h, SET_KEY ROW5 BIT4), (XK_i, SET_KEY ROW4 BIT3),
    (XK_j, SET_KEY ROW5 BIT5), (XK_k, SET_KEY ROW4 BIT5), (XK_l, SET_KEY ROW4 BIT4),
    (XK_m, SET_KEY ROW4 BIT6), (XK_n, SET_KEY ROW5 BIT6), (XK_o, SET_KEY ROW4 BIT2),
    (XK_p, SET_KEY ROW3 BIT3), (XK_q, SET_KEY ROW8 BIT3), (XK_r, SET_KEY ROW6 BIT2),
    (XK_s, SET_KEY ROW7 BIT4), (XK_t, SET_KEY ROW6 BIT3), (XK_u, SET_KEY ROW5 BIT2),
    (XK_v, SET_KEY ROW6 BIT7), (XK_w, SET_KEY ROW7 BIT3), (XK_x, SET_KEY ROW7 BIT7),
    (XK_y, SET_KEY ROW5 BIT3), (XK_z, SET_KEY ROW8 BIT7), (XK_braceleft, SFT_KEY ROW2 BIT1),
    (XK_bar, SFT_KEY ROW3 BIT2), (XK_braceright, SFT_KEY ROW2 BIT3), (XK_asciitilde, EXT_KEY ROW8 BIT1),
    (XK_sterling, SFT_KEY ROW3 BIT0)]"

definition english_dead :: "(u64 \<times> key) list" where
  "english_dead = [
    (XK_dead_grave, SFT_KEY ROW2 BIT6), (XK_dead_circumflex, SET_KEY ROW3 BIT0),
    (XK_dead_tilde, EXT_KEY ROW8 BIT1)]"

definition english_function :: "(u64 \<times> key) list" where
  "english_function = [
    (XK_BackSpace, SET_KEY ROW9 BIT7), (XK_Tab, SET_KEY ROW8 BIT4), (XK_Return, SET_KEY ROW2 BIT2),
    (XK_Escape, SET_KEY ROW8 BIT2), (XK_Delete, SET_KEY ROW2 BIT0), (XK_Left, SET_KEY ROW1 BIT0),
    (XK_Up, SET_KEY ROW0 BIT0), (XK_Right, SET_KEY ROW0 BIT1), (XK_Down, SET_KEY ROW0 BIT2),
    (XK_KP_Space, SET_KEY ROW5 BIT7), (XK_KP_Tab, SET_KEY ROW8 BIT4), (XK_KP_Enter, SET_KEY ROW0 BIT6),
    (XK_KP_Left, SET_KEY ROW9 BIT2), (XK_KP_Up, SET_KEY ROW9 BIT0), (XK_KP_Right, SET_KEY ROW9 BIT3),
    (XK_KP_Down, SET_KEY ROW9 BIT1), (XK_KP_Insert, SET_KEY ROW9 BIT5), (XK_KP_Delete, SET_KEY ROW9 BIT4),
    (XK_KP_Decimal, SET_KEY ROW0 BIT7), (XK_KP_0, SET_KEY ROW1 BIT7), (XK_KP_1, SET_KEY ROW1 BIT5),
    (XK_KP_2, SET_KEY ROW1 BIT6), (XK_KP_3, SET_KEY ROW0 BIT5), (XK_KP_4, SET_KEY ROW2 BIT4),
    (XK_KP_5, SET_KEY ROW1 BIT4), (XK_KP_6, SET_KEY ROW0 BIT4), (XK_KP_7, SET_KEY ROW1 BIT2),
    (XK_KP_8, SET_KEY ROW1 BIT3), (XK_KP_9, SET_KEY ROW0 BIT3), (XK_Shift_L, SET_KEY ROW2 BIT5),
    (XK_Control_L, SET_KEY ROW2 BIT7), (XK_Alt_L, SET_KEY ROW1 BIT1), (XK_Caps_Lock, SET_KEY ROW8 BIT6)]"

definition english_key :: "u64 \<Rightarrow> key option" where
  "english_key keysym = (let keypag = drop_bit 8 keysym in
     if keypag = 0x00 then map_of (english_symbols @ english_capitals @ english_small) keysym
     else if keypag = 0xfe then map_of english_dead keysym
     else if keypag = 0xff then map_of english_function keysym
     else None)"

section \<open>The French keyboard\<close>

definition french_symbols :: "(u64 \<times> key) list" where
  "french_symbols = [
    (XK_space, SET_KEY ROW5 BIT7), (XK_exclam, SET_KEY ROW5 BIT0), (XK_quotedbl, SET_KEY ROW7 BIT1),
    (XK_numbersign, SET_KEY ROW2 BIT3), (XK_dollar, SET_KEY ROW2 BIT6), (XK_percent, SFT_KEY ROW3 BIT4),
    (XK_ampersand, SET_KEY ROW8 BIT0), (XK_apostrophe, SET_KEY ROW7 BIT0), (XK_parenleft, SET_KEY ROW6 BIT1),
    (XK_parenright, SET_KEY ROW3 BIT1), (XK_asterisk, SET_KEY ROW2 BIT1), (XK_plus, SFT_KEY ROW3 BIT6),
    (XK_comma, SET_KEY ROW4 BIT6), (XK_minus, SET_KEY ROW3 BIT0), (XK_period, SFT_KEY ROW4 BIT7),
    (XK_slash, SFT_KEY ROW3 BIT7), (XK_0, SFT_KEY ROW4 BIT0), (XK_1, SFT_KEY ROW8 BIT0),
    (XK_2, SFT_KEY ROW8 BIT1), (XK_3, SFT_KEY ROW7 BIT1), (XK_4, SFT_KEY ROW7 BIT0),
    (XK_5, SFT_KEY ROW6 BIT1), (XK_6, SFT_KEY ROW6 BIT0), (XK_7, SFT_KEY ROW5 BIT1),
    (XK_8, SFT_KEY ROW5 BIT0), (XK_9, SFT_KEY ROW4 BIT1), (XK_colon, SET_KEY ROW3 BIT7),
    (XK_semicolon, SET_KEY ROW4 BIT7), (XK_less, SFT_KEY ROW2 BIT1), (XK_equal, SET_KEY ROW3 BIT6),
    (XK_greater, SFT_KEY ROW2 BIT3), (XK_question, SFT_KEY ROW4 BIT6), (XK_at, SFT_KEY ROW2 BIT6)]"

definition french_capitals :: "(u64 \<times> key) list" where
  "french_capitals = [
    (XK_A, SFT_KEY ROW8 BIT3), (XK_B, SFT_KEY ROW6 BIT6), (XK_C, SFT_KEY ROW7 BIT6),
    (XK_D, SFT_KEY ROW7 BIT5), (XK_E, SFT_KEY ROW7 BIT2), (XK_F, SFT_KEY ROW6 BIT5),
    (XK_G, SFT_KEY ROW6 BIT4), (XK_H, SFT_KEY ROW5 BIT4), (XK_I, SFT_KEY ROW4 BIT3),
    (XK_J, SFT_KEY ROW5 BIT5), (XK_K, SFT_KEY ROW4 BIT5), (XK_L, SFT_KEY ROW4 BIT4),
    (XK_M, SFT_KEY ROW3 BIT5), (XK_N, SFT_KEY ROW5 BIT6), (XK_O, SFT_KEY ROW4 BIT2),
    (XK_P, SFT_KEY ROW3 BIT3), (XK_Q, SFT_KEY ROW8 BIT5), (XK_R, SFT_KEY ROW6 BIT2),
    (XK_S, SFT_KEY ROW7 BIT4), (XK_T, SFT_KEY ROW6 BIT3), (XK_U, SFT_KEY ROW5 BIT2),
    (XK_V, SFT_KEY ROW6 BIT7), (XK_W, SFT_KEY ROW8 BIT7), (XK_X, SFT_KEY ROW7 BIT7),
    (XK_Y, SFT_KEY ROW5 BIT3), (XK_Z, SFT_KEY ROW7 BIT3), (XK_bracketleft, SFT_KEY ROW3 BIT1),
    (XK_backslash, EXT_KEY ROW2 BIT6), (XK_bracketright, SET_KEY ROW6 BIT0),
    (XK_asciicircum, SET_KEY ROW3 BIT2), (XK_underscore, SFT_KEY ROW3 BIT0), (XK_grave, SET_KEY ROW5 BIT1)]"

definition french_small :: "(u64 \<times> key) list" where
  "french_small = [
    (XK_a, SET_KEY ROW8 BIT3), (XK_b, SET_KEY ROW6 BIT6), (XK_c, SET_KEY ROW7 BIT6),
    (XK_d, SET_KEY ROW7 BIT5), (XK_e, SET_KEY ROW7 BIT2), (XK_f, SET_KEY ROW6 BIT5),
    (XK_g, SET_KEY ROW6 BIT4), (XK_h, SET_KEY ROW5 BIT4), (XK_i, SET_KEY ROW4 BIT3),
    (XK_j, SET_KEY ROW5 BIT5), (XK_k, SET_KEY ROW4 BIT5), (XK_l, SET_KEY ROW4 BIT4),
    (XK_m, SET_KEY ROW3 BIT5), (XK_n, SET_KEY ROW5 BIT6), (XK_o, SET_KEY ROW4 BIT2),
    (XK_p, SET_KEY ROW3 BIT3), (XK_q, SET_KEY ROW8 BIT5), (XK_r, SET_KEY ROW6 BIT2),
    (XK_s, SET_KEY ROW7 BIT4), (XK_t, SET_KEY ROW6 BIT3), (XK_u, SET_KEY ROW5 BIT2),
    (XK_v, SET_KEY ROW6 BIT7), (XK_w, SET_KEY ROW8 BIT7), (XK_x, SET_KEY ROW7 BIT7),
    (XK_y, SET_KEY ROW5 BIT3), (XK_z, SET_KEY ROW7 BIT3), (XK_braceleft, SET_KEY ROW8 BIT1),
    (XK_bar, SFT_KEY ROW3 BIT2), (XK_braceright, SET_KEY ROW5 BIT1), (XK_asciitilde, EXT_KEY ROW8 BIT1)]"

definition french_dead :: "(u64 \<times> key) list" where
  "french_dead = [
    (XK_dead_grave, SET_KEY ROW5 BIT1), (XK_dead_circumflex, SET_KEY ROW3 BIT2),
    (XK_dead_tilde, EXT_KEY ROW8 BIT1)]"

definition french_function :: "(u64 \<times> key) list" where
  "french_function = [
    (XK_BackSpace, SET_KEY ROW9 BIT7), (XK_Tab, SET_KEY ROW8 BIT4), (XK_Return, SET_KEY ROW2 BIT2),
    (XK_Escape, SET_KEY ROW8 BIT2), (XK_Delete, SET_KEY ROW2 BIT0), (XK_Left, SET_KEY ROW1 BIT0),
    (XK_Up, SET_KEY ROW0 BIT0), (XK_Right, SET_KEY ROW0 BIT1), (XK_Down, SET_KEY ROW0 BIT2),
    (XK_KP_Space, SET_KEY ROW5 BIT7), (XK_KP_Tab, SET_KEY ROW8 BIT4), (XK_KP_Enter, SET_KEY ROW0 BIT6),
    (XK_KP_Left, SET_KEY ROW9 BIT2), (XK_KP_Up, SET_KEY ROW9 BIT0), (XK_KP_Right, SET_KEY ROW9 BIT3),
    (XK_KP_Down, SET_KEY ROW9 BIT1), (XK_KP_Insert, SET_KEY ROW9 BIT5), (XK_KP_Delete, SET_KEY ROW9 BIT4),
    (XK_KP_Decimal, SET_KEY ROW0 BIT7), (XK_KP_0, SET_KEY ROW1 BIT7), (XK_KP_1, SET_KEY ROW1 BIT5),
    (XK_KP_2, SET_KEY ROW1 BIT6), (XK_KP_3, SET_KEY ROW0 BIT5), (XK_KP_4, SET_KEY ROW2 BIT4),
    (XK_KP_5, SET_KEY ROW1 BIT4), (XK_KP_6, SET_KEY ROW0 BIT4), (XK_KP_7, SET_KEY ROW1 BIT2),
    (XK_KP_8, SET_KEY ROW1 BIT3), (XK_KP_9, SET_KEY ROW0 BIT3), (XK_Shift_L, SET_KEY ROW2 BIT5),
    (XK_Control_L, SET_KEY ROW2 BIT7), (XK_Alt_L, SET_KEY ROW1 BIT1), (XK_Caps_Lock, SET_KEY ROW8 BIT6)]"

definition french_key :: "u64 \<Rightarrow> key option" where
  "french_key keysym = (let keypag = drop_bit 8 keysym in
     if keypag = 0x00 then map_of (french_symbols @ french_capitals @ french_small) keysym
     else if keypag = 0xfe then map_of french_dead keysym
     else if keypag = 0xff then map_of french_function keysym
     else None)"

text \<open>Decoding: a symbol that the keyboard does not have leaves line, bit and modifiers as they are.\<close>

definition apply_key :: "key option \<Rightarrow> key \<Rightarrow> key" where
  "apply_key k r = (case k of None \<Rightarrow> r | Some (line, data, mods) \<Rightarrow> (line, data, (snd (snd r) AND NOT 0x03) OR mods))"

definition decode_english :: "u64 \<Rightarrow> key \<Rightarrow> key" where
  "decode_english keysym = apply_key (english_key keysym)"

definition decode_french :: "u64 \<Rightarrow> key \<Rightarrow> key" where
  "decode_french keysym = apply_key (french_key keysym)"

definition decode_event :: "keyboard_type \<Rightarrow> u64 \<Rightarrow> u8 \<Rightarrow> key" where
  "decode_event type keysym mods = (let r = (0xff, 0x00, mods) in
     if type = ENGLISH then decode_english keysym r
     else if type = FRENCH then decode_french keysym r
     else decode_english keysym r)"

section \<open>Events\<close>

definition on_key_release :: "(u8 \<Rightarrow> key) \<Rightarrow> kbd_state \<Rightarrow> kbd_state" where
  "on_key_release decode s = (case decode (NOT (kbd_keys s ! 15)) of (line, data, mods) \<Rightarrow>
     if line \<le> 0x0f \<and> data \<noteq> 0 then
       (let s = (if mods AND 0x01 \<noteq> 0 then update_key 2 (\<lambda>k. k OR 0x20) s else s);
            s = (if mods AND 0x02 \<noteq> 0 then update_key 2 (\<lambda>k. k OR 0x80) s else s);
            s = update_key (unat line) (\<lambda>k. k OR data) s
        in update_key 15 (\<lambda>_. NOT mods) s)
     else s)"

text \<open>Joysticks send events of buttons and motion with a modifier that no keyboard sends.\<close>

record button_event =
  be_state :: u32
  be_button :: u32

record motion_event =
  me_state :: u32
  me_x :: int
  me_y :: int

abbreviation Joystick0Modifier :: u32 where "Joystick0Modifier \<equiv> 0x10000"
abbreviation Joystick1Modifier :: u32 where "Joystick1Modifier \<equiv> 0x20000"

definition joystick_line :: "u32 \<Rightarrow> u8" where
  "joystick_line modifiers = (let line = 0xff;
     line = (if modifiers = Joystick0Modifier then ROW9 else line)
   in if modifiers = Joystick1Modifier then ROW6 else line)"

definition on_button_press :: "button_event \<Rightarrow> kbd_state \<Rightarrow> kbd_state" where
  "on_button_press e s = (let line = joystick_line (be_state e) in
     if line < 16 then
       (if be_button e AND 0x01 = 0 then update_key (unat line) (\<lambda>k. k AND NOT BIT4) s
        else update_key (unat line) (\<lambda>k. k AND NOT BIT5) s)
     else s)"

definition on_button_release :: "button_event \<Rightarrow> kbd_state \<Rightarrow> kbd_state" where
  "on_button_release e s = (let line = joystick_line (be_state e) in
     if line < 16 then
       (if be_button e AND 0x01 = 0 then update_key (unat line) (\<lambda>k. k OR BIT4) s
        else update_key (unat line) (\<lambda>k. k OR BIT5) s)
     else s)"

definition on_motion_notify :: "motion_event \<Rightarrow> kbd_state \<Rightarrow> kbd_state" where
  "on_motion_notify e s = (let line = joystick_line (me_state e);
       key = (\<lambda>down bit. update_key (unat line) (\<lambda>k. if down then k AND NOT bit else k OR bit))
     in if line < 16 then
       key (16384 \<le> me_x e) BIT3 (key (me_x e \<le> -16384) BIT2
         (key (16384 \<le> me_y e) BIT1 (key (me_y e \<le> -16384) BIT0 s)))
     else s)"

section \<open>The handlers of the main board\<close>

definition on_kbd :: "(kbd_state \<Rightarrow> kbd_state) \<Rightarrow> 'd mainboard \<Rightarrow> 'd mainboard" where
  "on_kbd f = on_board (\<lambda>b. b\<lparr>b_kbd := f (b_kbd b)\<rparr>)"

definition mb_key_press :: "u64 option \<Rightarrow> 'd mainboard \<Rightarrow> 'd mainboard" where
  "mb_key_press event mb = (case event of None \<Rightarrow> mb
   | Some keysym \<Rightarrow> on_kbd (on_key_press (decode_event (mb_keyboard mb) keysym)) mb)"

definition mb_key_release :: "u64 option \<Rightarrow> 'd mainboard \<Rightarrow> 'd mainboard" where
  "mb_key_release event mb = (case event of None \<Rightarrow> mb
   | Some keysym \<Rightarrow> on_kbd (on_key_release (decode_event (mb_keyboard mb) keysym)) mb)"

definition mb_button_press :: "button_event option \<Rightarrow> 'd mainboard \<Rightarrow> 'd mainboard" where
  "mb_button_press event mb = (case event of None \<Rightarrow> mb | Some e \<Rightarrow> on_kbd (on_button_press e) mb)"

definition mb_button_release :: "button_event option \<Rightarrow> 'd mainboard \<Rightarrow> 'd mainboard" where
  "mb_button_release event mb = (case event of None \<Rightarrow> mb | Some e \<Rightarrow> on_kbd (on_button_release e) mb)"

definition mb_motion_notify :: "motion_event option \<Rightarrow> 'd mainboard \<Rightarrow> 'd mainboard" where
  "mb_motion_notify event mb = (case event of None \<Rightarrow> mb | Some e \<Rightarrow> on_kbd (on_motion_notify e) mb)"

end
