(* ===== verification/Keyboard_Props.thy ===== *)
theory Keyboard_Props
  imports CPC_Keyboard
begin

text \<open>
  What typing does to the matrix of the keyboard: a symbol pressed puts down its key and the modifiers
  that it needs and nothing else, the symbol released puts the matrix back, the two layouts have a
  key for every character, and a joystick moves the four direction bits of its line.
\<close>

unbundle bit_operations_syntax

section \<open>The tables\<close>

definition key_ok :: "key \<Rightarrow> bool" where
  "key_ok k \<longleftrightarrow> (case k of (line, data, mods) \<Rightarrow> line \<le> 9 \<and> data \<noteq> 0 \<and> mods \<in> {0, 1, 3})"

lemma key_ok_simps [simp]:
  "key_ok (SET_KEY line data) \<longleftrightarrow> line \<le> 9 \<and> data \<noteq> 0"
  "key_ok (SFT_KEY line data) \<longleftrightarrow> line \<le> 9 \<and> data \<noteq> 0"
  "key_ok (EXT_KEY line data) \<longleftrightarrow> line \<le> 9 \<and> data \<noteq> 0"
  by (simp_all add: key_ok_def key_defs)

lemma english_tables_ok:
  "list_all (key_ok \<circ> snd) english_symbols" "list_all (key_ok \<circ> snd) english_capitals"
  "list_all (key_ok \<circ> snd) english_small" "list_all (key_ok \<circ> snd) english_dead" "list_all (key_ok \<circ> snd) english_function"
  by (simp_all add: english_symbols_def english_capitals_def english_small_def english_dead_def english_function_def)

lemma french_tables_ok:
  "list_all (key_ok \<circ> snd) french_symbols" "list_all (key_ok \<circ> snd) french_capitals"
  "list_all (key_ok \<circ> snd) french_small" "list_all (key_ok \<circ> snd) french_dead" "list_all (key_ok \<circ> snd) french_function"
  by (simp_all add: french_symbols_def french_capitals_def french_small_def french_dead_def french_function_def)

lemma table_ok: "list_all (key_ok \<circ> snd) t \<Longrightarrow> map_of t k = Some v \<Longrightarrow> key_ok v"
  by (drule map_of_SomeD) (auto simp: list_all_iff)

lemma keys_ok:
  "english_key keysym = Some k \<Longrightarrow> key_ok k" "french_key keysym = Some k \<Longrightarrow> key_ok k"
proof -
  have "list_all (key_ok \<circ> snd) (english_symbols @ english_capitals @ english_small)"
    "list_all (key_ok \<circ> snd) (french_symbols @ french_capitals @ french_small)"
    by (simp_all add: english_tables_ok french_tables_ok)
  from table_ok [OF this(1)] table_ok [OF this(2)]
  show "english_key keysym = Some k \<Longrightarrow> key_ok k" "french_key keysym = Some k \<Longrightarrow> key_ok k"
    unfolding english_key_def french_key_def Let_def
    by (auto dest: table_ok [OF english_tables_ok(4)] table_ok [OF english_tables_ok(5)]
        table_ok [OF french_tables_ok(4)] table_ok [OF french_tables_ok(5)] simp del: map_of_append split: if_splits)
qed

section \<open>Pressing and releasing\<close>

definition key_of :: "keyboard_type \<Rightarrow> u64 \<Rightarrow> key option" where
  "key_of type = (if type = FRENCH then french_key else english_key)"

text \<open>The bits of a line that a key and its modifiers take: shift and control are on line 2.\<close>

definition key_mask :: "key option \<Rightarrow> nat \<Rightarrow> u8" where
  "key_mask k row = (case k of None \<Rightarrow> 0 | Some (line, data, mods) \<Rightarrow>
     (if row = 2 \<and> mods \<in> {1, 3} then BIT5 else 0) OR (if row = 2 \<and> mods = 3 then BIT7 else 0)
     OR (if row = unat line then data else 0))"

lemma key_of_ok: "key_of type keysym = Some k \<Longrightarrow> key_ok k"
  by (auto simp: key_of_def keys_ok split: if_splits)

lemma decode_event_key:
  "decode_event type keysym mods = apply_key (key_of type keysym) (0xff, 0x00, mods)"
  by (simp add: decode_event_def decode_english_def decode_french_def key_of_def Let_def)

lemma mods_bits:
  fixes x :: u8
  assumes "ms \<in> {0, 1, 3}"
  shows "(x AND NOT 0x03 OR ms) AND 0x01 \<noteq> 0 \<longleftrightarrow> ms \<in> {1, 3}" "(x AND NOT 0x03 OR ms) AND 0x02 \<noteq> 0 \<longleftrightarrow> ms = 3"
proof -
  have "(x AND NOT 0x03 OR ms) AND 0x01 = ms AND 0x01" "(x AND NOT 0x03 OR ms) AND 0x02 = ms AND 0x02"
    by (simp_all add: bit.conj_disj_distrib2 and.assoc)
  then show "(x AND NOT 0x03 OR ms) AND 0x01 \<noteq> 0 \<longleftrightarrow> ms \<in> {1, 3}" "(x AND NOT 0x03 OR ms) AND 0x02 \<noteq> 0 \<longleftrightarrow> ms = 3"
    using assms by auto
qed

lemma decode_event_some:
  assumes "key_of type keysym = Some (line, data, ms)"
  obtains m where "decode_event type keysym mods = (line, data, m)" "m AND 0x01 \<noteq> 0 \<longleftrightarrow> ms \<in> {1, 3}"
    "m AND 0x02 \<noteq> 0 \<longleftrightarrow> ms = 3"
proof -
  have "ms \<in> {0, 1, 3}" using key_of_ok [OF assms] by (simp add: key_ok_def)
  from mods_bits [OF this, of mods] assms show thesis
    by (intro that [of "mods AND NOT 0x03 OR ms"]) (simp_all only: decode_event_key apply_key_def prod.case option.case snd_conv)
qed

lemma key_of_bounds: "key_of type keysym = Some (line, data, ms) \<Longrightarrow> unat line < 15 \<and> line \<le> 0x0f \<and> data \<noteq> 0"
  by (drule key_of_ok) (simp add: key_ok_def word_le_nat_alt)

lemma update_key_row:
  "length (kbd_keys s) = 16 \<Longrightarrow> n < 16 \<Longrightarrow> kbd_keys (update_key n f s) ! row = (if row = n then f (kbd_keys s ! n) else kbd_keys s ! row)"
  "length (kbd_keys (update_key n f s)) = length (kbd_keys s)"
  by (simp_all add: update_key_def nth_list_update)

lemma shift_with_control:
  "(x :: u8) OR 0xa0 OR y = x OR 0x20 OR 0x80 OR y" "(x :: u8) AND NOT 0xa0 AND y = x AND NOT 0x20 AND NOT 0x80 AND y"
proof -
  have "x OR (0x20 OR 0x80) OR y = x OR 0x20 OR 0x80 OR y" "x AND (NOT 0x20 AND NOT 0x80) AND y = x AND NOT 0x20 AND NOT 0x80 AND y"
    by (simp_all only: or.assoc and.assoc)
  then show "(x :: u8) OR 0xa0 OR y = x OR 0x20 OR 0x80 OR y" "(x :: u8) AND NOT 0xa0 AND y = x AND NOT 0x20 AND NOT 0x80 AND y"
    by simp_all
qed

lemma press_row:
  assumes "length (kbd_keys s) = 16"
  shows "length (kbd_keys (on_key_press (decode_event type keysym) s)) = 16"
    "row < 15 \<Longrightarrow> kbd_keys (on_key_press (decode_event type keysym) s) ! row = kbd_keys s ! row AND NOT (key_mask (key_of type keysym) row)"
proof -
  show "length (kbd_keys (on_key_press (decode_event type keysym) s)) = 16"
    using assms by (simp add: on_key_press_def Let_def update_key_row split: prod.split)
  show "kbd_keys (on_key_press (decode_event type keysym) s) ! row = kbd_keys s ! row AND NOT (key_mask (key_of type keysym) row)" if "row < 15"
  proof (cases "key_of type keysym")
    case (Some k)
    then obtain line data ms where k: "key_of type keysym = Some (line, data, ms)" by (cases k) auto
    obtain m where m: "decode_event type keysym (NOT (kbd_keys s ! 15)) = (line, data, m)" "m AND 0x01 \<noteq> 0 \<longleftrightarrow> ms \<in> {1, 3}"
      "m AND 0x02 \<noteq> 0 \<longleftrightarrow> ms = 3" by (rule decode_event_some [OF k])
    show ?thesis
      unfolding on_key_press_def m(1) prod.case using assms that key_of_bounds [OF k] m(2,3)
      by (simp add: key_mask_def k Let_def update_key_row and.assoc shift_with_control [simplified])
  qed (simp add: on_key_press_def decode_event_key apply_key_def key_mask_def)
qed

lemma release_row:
  assumes "length (kbd_keys s) = 16" "row < 15"
  shows "kbd_keys (on_key_release (decode_event type keysym) s) ! row = kbd_keys s ! row OR key_mask (key_of type keysym) row"
proof (cases "key_of type keysym")
  case (Some k)
  then obtain line data ms where k: "key_of type keysym = Some (line, data, ms)" by (cases k) auto
  obtain m where m: "decode_event type keysym (NOT (kbd_keys s ! 15)) = (line, data, m)" "m AND 0x01 \<noteq> 0 \<longleftrightarrow> ms \<in> {1, 3}"
    "m AND 0x02 \<noteq> 0 \<longleftrightarrow> ms = 3" by (rule decode_event_some [OF k])
  show ?thesis
    unfolding on_key_release_def m(1) prod.case using assms key_of_bounds [OF k] m(2,3)
    by (simp add: key_mask_def k Let_def update_key_row or.assoc shift_with_control)
qed (simp add: on_key_release_def decode_event_key apply_key_def key_mask_def)

text \<open>
  C22: typing a symbol.  Pressed, it puts down exactly the keys that the layout gives for it, with
  shift and control where it needs them; released, it leaves all ten lines as they were, if none
  of these keys was down before.
\<close>

theorem key_press_release:
  assumes "length (kbd_keys s) = 16"
    and "\<forall>row < 15. kbd_keys s ! row AND key_mask (key_of type keysym) row = key_mask (key_of type keysym) row"
  shows "(let down = on_key_press (decode_event type keysym) s; up = on_key_release (decode_event type keysym) down in
    \<forall>row < 15. kbd_keys down ! row = kbd_keys s ! row AND NOT (key_mask (key_of type keysym) row) \<and> kbd_keys up ! row = kbd_keys s ! row)"
proof -
  have restored: "(k AND NOT m) OR m = k" if "k AND m = m" for k m :: u8
  proof (rule bit_word_eqI)
    fix n assume "n < LENGTH(8)"
    moreover have "bit (k AND m) n = bit m n" using that by simp
    ultimately show "bit ((k AND NOT m) OR m) n = bit k n" by (auto simp: bit_and_iff bit_or_iff bit_not_iff)
  qed
  show ?thesis
    using assms by (simp add: press_row release_row restored Let_def)
qed

text \<open>A capital on a keyboard on which no key is down: its key and shift.\<close>

definition idle_keyboard :: kbd_state where
  "idle_keyboard = \<lparr>kbd_mode = 0, kbd_line = 0, kbd_keys = replicate 16 0xff\<rparr>"

lemma english_capital_A: "key_of ENGLISH XK_A = Some (SFT_KEY ROW8 BIT5)"
  by (simp add: key_of_def english_key_def english_symbols_def english_capitals_def)

theorem key_press_release_witness:
  "(let down = on_key_press (decode_event ENGLISH XK_A) idle_keyboard in
     kbd_keys down ! 8 = 0xdf \<and> kbd_keys down ! 2 = 0xdf \<and> kbd_keys (on_key_release (decode_event ENGLISH XK_A) down) ! 8 = 0xff)"
proof -
  have idle: "kbd_keys idle_keyboard ! row = 0xff" if "row < 16" for row using that by (simp add: idle_keyboard_def)
  have "(0xff :: u8) = - 1" by simp
  then have "(0xff :: u8) AND x = x" for x by (metis and.left_neutral)
  then have "\<forall>row < 15. kbd_keys idle_keyboard ! row AND key_mask (key_of ENGLISH XK_A) row = key_mask (key_of ENGLISH XK_A) row"
    by (simp add: idle)
  from key_press_release [OF _ this] show ?thesis
    by (simp add: idle_keyboard_def english_capital_A key_mask_def key_defs Let_def)
qed

section \<open>The layouts\<close>

lemma map_of_inj:
  assumes "distinct (map snd t)" "map_of t k = Some v" "map_of t k' = Some v"
  shows "k = k'"
  using assms by (fastforce dest!: map_of_SomeD simp: distinct_map inj_on_def)

definition english_latin :: "(u64 \<times> key) list" where
  "english_latin = english_symbols @ english_capitals @ english_small"

definition french_latin :: "(u64 \<times> key) list" where
  "french_latin = french_symbols @ french_capitals @ french_small"

lemma latin_page: "c \<le> 0xff \<Longrightarrow> english_key c = map_of english_latin c \<and> french_key c = map_of french_latin c"
proof -
  assume "c \<le> 0xff"
  then have "drop_bit 8 c = 0" by (simp add: word_unat_eq_iff word_le_nat_alt unsigned_drop_bit_eq unsigned_take_bit_eq) (simp add: drop_bit_eq_div take_bit_eq_mod)
  then show ?thesis by (simp add: english_key_def french_key_def english_latin_def french_latin_def)
qed

lemma latin_symbols:
  "map fst english_latin = map of_nat [32..<127] @ [0xa3]" "map fst french_latin = map of_nat [32..<127]"
  by (simp_all add: english_latin_def english_symbols_def english_capitals_def english_small_def
      french_latin_def french_symbols_def french_capitals_def french_small_def upt_rec_numeral)

lemma english_latin_distinct: "distinct (map snd english_latin)"
  by (simp add: english_latin_def english_symbols_def english_capitals_def english_small_def key_defs)

lemma latin_members:
  assumes "0x20 \<le> c" "c \<le> 0x7e"
  shows "c \<in> set (map fst french_latin)" "c \<in> set (map fst english_latin)"
proof -
  have "unat c \<in> {32..<127}" "c = of_nat (unat c)" using assms by (simp_all add: word_le_nat_alt)
  then have "c \<in> of_nat ` {32..<127}" by blast
  then show "c \<in> set (map fst french_latin)" "c \<in> set (map fst english_latin)"
    unfolding latin_symbols set_append set_map set_upt by simp_all
qed

lemma map_of_filter_key: "P k \<Longrightarrow> map_of (filter (\<lambda>(k, _). P k) t) k = map_of t k"
  by (induction t) auto

lemma french_latin_distinct:
  "distinct (map snd (filter (\<lambda>(c, _). c \<noteq> XK_braceright) french_latin))"
  by (simp add: french_latin_def french_symbols_def french_capitals_def french_small_def key_defs)

text \<open>
  C23: both layouts have a key, with its modifiers, for each of the 95 printable characters.  On the
  English one no two characters share it; on the French one the grave accent and the closing brace
  do, and no others.
\<close>

theorem layouts_have_characters:
  assumes "0x20 \<le> c" "c \<le> 0x7e" "0x20 \<le> d" "d \<le> 0x7e" "c \<noteq> d"
  shows "english_key c \<noteq> None \<and> french_key c \<noteq> None \<and> english_key c \<noteq> english_key d \<and>
    (french_key c = french_key d \<longleftrightarrow> {c, d} = {XK_grave, XK_braceright})"
proof -
  have page: "english_key c = map_of english_latin c" "french_key c = map_of french_latin c"
    "english_key d = map_of english_latin d" "french_key d = map_of french_latin d"
    using assms latin_page [of c] latin_page [of d] by (simp_all add: word_le_nat_alt)
  have some: "map_of english_latin x \<noteq> None" "map_of french_latin x \<noteq> None" if "0x20 \<le> x" "x \<le> 0x7e" for x
    using latin_members [OF that] by (auto simp: map_of_eq_None_iff)
  let ?t = "filter (\<lambda>(c, _). c \<noteq> XK_braceright) french_latin"
  have other: "map_of ?t x = map_of french_latin x" if "x \<noteq> XK_braceright" for x
    using that by (rule map_of_filter_key)
  have same: "map_of french_latin XK_grave = map_of french_latin XK_braceright"
    by (simp add: french_latin_def french_symbols_def french_capitals_def french_small_def)
  have "map_of english_latin c \<noteq> map_of english_latin d"
    using map_of_inj [OF english_latin_distinct, of c _ d] some(1) [OF assms(1,2)] assms(5) by (metis option.exhaust)
  moreover have french: "x = y" if "map_of french_latin x = map_of french_latin y" "x \<noteq> XK_braceright" "y \<noteq> XK_braceright"
    "map_of french_latin x \<noteq> None" for x y
    using map_of_inj [OF french_latin_distinct, of x _ y] that other by (metis option.exhaust)
  have "map_of french_latin c = map_of french_latin d \<longleftrightarrow> {c, d} = {XK_grave, XK_braceright}"
  proof
    assume eq: "map_of french_latin c = map_of french_latin d"
    show "{c, d} = {XK_grave, XK_braceright}"
      using french [OF eq] french [of XK_grave c] french [of XK_grave d] eq same some(2) assms by force
  next
    assume "{c, d} = {XK_grave, XK_braceright}"
    then show "map_of french_latin c = map_of french_latin d" using same by (auto simp: doubleton_eq_iff)
  qed
  ultimately show ?thesis using some assms by (simp add: page)
qed

theorem layouts_have_characters_witness: "english_key XK_a \<noteq> english_key XK_A \<and> french_key XK_grave = french_key XK_braceright"
  using layouts_have_characters [of XK_a XK_A] layouts_have_characters [of XK_grave XK_braceright] by simp

section \<open>Modifiers that stay down\<close>

lemma demo_keys:
  "key_of ENGLISH XK_asciitilde = Some (EXT_KEY ROW8 BIT1)" "key_of ENGLISH XK_2 = Some (SET_KEY ROW8 BIT1)"
  "key_of ENGLISH XK_grave = Some (SFT_KEY ROW2 BIT6)"
  by (simp_all add: key_of_def english_key_def english_symbols_def english_capitals_def english_small_def)

text \<open>
  C39: modifiers that stay down.  A release raises the modifiers of the symbol in its own event, not
  those that were put down with the key.  When a key is pressed as one symbol and released as another,
  as happens when a modifier of the host changes in between: if the symbol pressed needs shift or
  control and the symbol released needs neither, shift stays down; if the symbol pressed needs
  control and the one released does not, control stays down.  The key of the symbol released is up.
  This is for every layout and all pairs of symbols, where the key of the second is not on line
  2, the line of shift and control themselves.
\<close>

theorem modifiers_stay_down:
  assumes "length (kbd_keys s) = 16"
    and "key_of type a = Some (la, da, ma)" and "key_of type b = Some (lb, db, mb)" and "lb \<noteq> 2"
  shows "(let s' = on_key_release (decode_event type b) (on_key_press (decode_event type a) s) in
    kbd_keys s' ! unat lb AND db = db \<and> (ma \<in> {1, 3} \<and> mb = 0 \<longrightarrow> \<not> bit (kbd_keys s' ! 2) 5) \<and>
    (ma = 3 \<and> mb \<noteq> 3 \<longrightarrow> \<not> bit (kbd_keys s' ! 2) 7))"
proof -
  let ?s' = "on_key_release (decode_event type b) (on_key_press (decode_event type a) s)"
  have row: "kbd_keys ?s' ! row = (kbd_keys s ! row AND NOT (key_mask (key_of type a) row)) OR key_mask (key_of type b) row"
    if "row < 15" for row
    using that press_row [OF assms(1)] by (simp add: release_row)
  have lb: "unat lb < 15" "unat lb \<noteq> 2" using key_of_bounds [OF assms(3)] assms(4) by (auto simp: word_unat_eq_iff)
  then have "key_mask (key_of type b) (unat lb) = db" by (simp add: assms(3) key_mask_def)
  then have "kbd_keys ?s' ! unat lb AND db = db" by (simp add: row lb(1) bit.conj_disj_distrib2)
  moreover have "\<not> bit (kbd_keys ?s' ! 2) 5" if "ma \<in> {1, 3}" "mb = 0"
    using that lb(2) by (auto simp: row assms(2,3) key_mask_def bit_simps)
  moreover have "\<not> bit (kbd_keys ?s' ! 2) 7" if "ma = 3" "mb \<noteq> 3"
    using that lb(2) by (auto simp: row assms(2,3) key_mask_def bit_simps)
  ultimately show ?thesis by (simp add: Let_def)
qed

text \<open>The tilde of the English layout, released as the 2 that shares its key.\<close>

theorem modifiers_stay_down_witness:
  "(let s' = on_key_release (decode_event ENGLISH XK_2) (on_key_press (decode_event ENGLISH XK_asciitilde) idle_keyboard) in
    bit (kbd_keys s' ! 8) 1 \<and> \<not> bit (kbd_keys s' ! 2) 5 \<and> \<not> bit (kbd_keys s' ! 2) 7)"
proof -
  have "bit (x :: u8) 1" if "x AND 2 = 2" for x
    using arg_cong [OF that, of "\<lambda>x. bit x 1"] by (simp add: bit_simps)
  then show ?thesis
    using modifiers_stay_down [of idle_keyboard ENGLISH XK_asciitilde ROW8 BIT1 3 XK_2 ROW8 BIT1 0] demo_keys
    by (simp add: idle_keyboard_def key_defs Let_def)
qed

section \<open>Joysticks\<close>

text \<open>
  A motion of a joystick sets the four direction bits of its line, and only these: a direction
  is down exactly when the stick is at least half way in it, so that never two opposite ones are.
  The first joystick is line 9, the second line 6.
\<close>

theorem joystick_directions:
  assumes "length (kbd_keys s) = 16" and "me_state e = (if first then Joystick0Modifier else Joystick1Modifier)"
  shows "(let keys = kbd_keys (on_motion_notify e s); n = (if first then 9 else 6) in
    (bit (keys ! n) 0 \<longleftrightarrow> -16384 < me_y e) \<and> (bit (keys ! n) 1 \<longleftrightarrow> me_y e < 16384) \<and>
    (bit (keys ! n) 2 \<longleftrightarrow> -16384 < me_x e) \<and> (bit (keys ! n) 3 \<longleftrightarrow> me_x e < 16384) \<and>
    keys ! n AND 0xf0 = kbd_keys s ! n AND 0xf0 \<and> (\<forall>row. row \<noteq> n \<longrightarrow> keys ! row = kbd_keys s ! row))"
proof -
  have line: "joystick_line (me_state e) = (if first then 9 else 6)"
    using assms(2) by (simp add: joystick_line_def)
  define turn where "turn down b k = (if down then k AND NOT b else k OR b)" for down and b k :: u8
  let ?n = "if first then 9 else 6 :: nat"
  let ?moved = "turn (16384 \<le> me_x e) BIT3 (turn (me_x e \<le> -16384) BIT2 (turn (16384 \<le> me_y e) BIT1
    (turn (me_y e \<le> -16384) BIT0 (kbd_keys s ! ?n))))"
  have "kbd_keys (on_motion_notify e s) ! row = (if row = ?n then ?moved else kbd_keys s ! row)" for row
    using assms(1) by (simp add: on_motion_notify_def line Let_def update_key_row turn_def)
  moreover have "bit ?moved 0 \<longleftrightarrow> -16384 < me_y e" "bit ?moved 1 \<longleftrightarrow> me_y e < 16384" "bit ?moved 2 \<longleftrightarrow> -16384 < me_x e"
    "bit ?moved 3 \<longleftrightarrow> me_x e < 16384"
    by (simp_all add: turn_def bit_simps not_le)
  moreover have "turn down b k AND 0xf0 = k AND 0xf0" if "b AND 0xf0 = 0" "NOT b AND 0xf0 = 0xf0" for down b k
    using that by (simp add: turn_def and.assoc bit.conj_disj_distrib2)
  then have "?moved AND 0xf0 = kbd_keys s ! ?n AND 0xf0" by simp
  ultimately show ?thesis by (simp add: Let_def)
qed

theorem joystick_directions_witness:
  "(let keys = kbd_keys (on_motion_notify \<lparr>me_state = Joystick0Modifier, me_x = 0, me_y = -32767\<rparr> idle_keyboard) in
    \<not> bit (keys ! 9) 0 \<and> bit (keys ! 9) 1 \<and> keys ! 8 = 0xff)"
  using joystick_directions [of idle_keyboard "\<lparr>me_state = Joystick0Modifier, me_x = 0, me_y = -32767\<rparr>" True]
  by (simp add: idle_keyboard_def Let_def)

end
