(* ===== verification/Setup_Props.thy ===== *)
theory Setup_Props
  imports CPC_Setup Device_Props
begin

text \<open>
  What the settings of the machine promise: labels are read back, the library is set up exactly while
  it is in use, every operation keeps the setup consistent with the board, the manufacturer is what a
  program reads from port B, and the palette of the gate array shows the colours of the monitor.
\<close>

unbundle bit_operations_syntax

section \<open>Labels\<close>

text \<open>
  C37: for each of the seven enumerations of the configuration, what is written of a value, known or
  unknown, is read as that value.  A memory size is any number of bytes: the nine listed ones are read
  back, every other one as the unknown size.
\<close>

theorem labels_roundtrip:
  "company_name_from_string (company_name_to_string c) = c \<and>
   machine_type_from_string (machine_type_to_string m) = m \<and>
   monitor_type_from_string (monitor_type_to_string t) = t \<and>
   refresh_rate_from_string (refresh_rate_to_string r) = r \<and>
   keyboard_type_from_string (keyboard_type_to_string k) = k \<and>
   renderer_type_from_string (renderer_type_to_string d) = d \<and>
   memory_size_from_string (memory_size_to_string n) =
     (if n = 0 \<or> n \<in> {64 * 1024, 128 * 1024, 192 * 1024, 256 * 1024, 320 * 1024, 384 * 1024, 448 * 1024, 512 * 1024}
      then n else MEMORY_UNKNOWN)"
proof (intro conjI)
  show "company_name_from_string (company_name_to_string c) = c"
    unfolding company_name_from_string_def company_name_to_string_def
    by (rule companies.read_write) (cases c; simp add: company_name_table_def)
  show "machine_type_from_string (machine_type_to_string m) = m"
    unfolding machine_type_from_string_def machine_type_to_string_def
    by (rule machines.read_write) (cases m; simp add: machine_type_table_def)
  show "monitor_type_from_string (monitor_type_to_string t) = t"
    unfolding monitor_type_from_string_def monitor_type_to_string_def
    by (rule monitors.read_write) (cases t; simp add: monitor_type_table_def)
  show "refresh_rate_from_string (refresh_rate_to_string r) = r"
    unfolding refresh_rate_from_string_def refresh_rate_to_string_def
    by (rule refresh_rates.read_write) (cases r; simp add: refresh_rate_table_def)
  show "keyboard_type_from_string (keyboard_type_to_string k) = k"
    unfolding keyboard_type_from_string_def keyboard_type_to_string_def
    by (rule keyboards.read_write) (cases k; simp add: keyboard_type_table_def)
  show "renderer_type_from_string (renderer_type_to_string d) = d"
    unfolding renderer_type_from_string_def renderer_type_to_string_def
    by (rule renderers.read_write) (cases d; simp add: renderer_type_table_def)
  have "n \<in> snd ` set memory_size_table \<longleftrightarrow>
      n = 0 \<or> n \<in> {64 * 1024, 128 * 1024, 192 * 1024, 256 * 1024, 320 * 1024, 384 * 1024, 448 * 1024, 512 * 1024}"
    by (simp add: memory_size_table_def)
  then show "memory_size_from_string (memory_size_to_string n) =
     (if n = 0 \<or> n \<in> {64 * 1024, 128 * 1024, 192 * 1024, 256 * 1024, 320 * 1024, 384 * 1024, 448 * 1024, 512 * 1024}
      then n else MEMORY_UNKNOWN)"
    unfolding memory_size_from_string_def memory_size_to_string_def memory_sizes.read_back by simp
qed

section \<open>The library\<close>

text \<open>A caller begins and ends; the number of uses that are open never goes below zero.\<close>

datatype use = BEGIN | END

fun run_uses :: "environment \<Rightarrow> (string \<Rightarrow> string) \<Rightarrow> use list \<Rightarrow> xcpc_library \<Rightarrow> xcpc_library" where
  "run_uses env fallback [] s = s"
| "run_uses env fallback (BEGIN # us) s = run_uses env fallback us (xcpc_begin env fallback s)"
| "run_uses env fallback (END # us) s = run_uses env fallback us (xcpc_end s)"

fun depth :: "nat \<Rightarrow> use list \<Rightarrow> nat option" where
  "depth n [] = Some n"
| "depth n (BEGIN # us) = depth (n + 1) us"
| "depth n (END # us) = (if n = 0 then None else depth (n - 1) us)"

text \<open>What the library is while \<open>n\<close> uses are open.\<close>

definition library_at :: "environment \<Rightarrow> (string \<Rightarrow> string) \<Rightarrow> nat \<Rightarrow> xcpc_library" where
  "library_at env fallback n =
     (if n = 0 then libxcpc else (xcpc_begin env fallback libxcpc)\<lparr>initialized := int n\<rparr>)"

lemma begun:
  "xcpc_begin env fallback libxcpc = \<lparr>initialized = 1,
     loglevel = loglevel (init_loglevel env (libxcpc\<lparr>initialized := 1\<rparr>)),
     input_stream = True, print_stream = True, error_stream = True,
     directories = map (\<lambda>v. Some (get_path env v (fallback v))) directory_variables,
     joysticks = map (\<lambda>v. Some (get_variable env v (fallback v))) joystick_variables\<rparr>"
proof -
  have none: "replicate 8 None = map (\<lambda>_. None) directory_variables" "replicate 2 None = map (\<lambda>_. None) joystick_variables"
    by (simp_all add: directory_variables_def joystick_variables_def numeral_eq_Suc)
  have slots: "map2 (init_slot get fallback) vs (map (\<lambda>_. None) vs) = map (\<lambda>v. Some (get v (fallback v))) vs" for get vs
    by (induction vs) (simp_all add: init_slot_def)
  show ?thesis
    by (simp add: xcpc_begin_def init_joysticks_def init_directories_def init_streams_def init_loglevel_def
        set_loglevel_def libxcpc_def none slots Let_def split: option.split)
qed

lemma library_begin: "xcpc_begin env fallback (library_at env fallback n) = library_at env fallback (n + 1)"
proof (cases "n = 0")
  case True
  have "(xcpc_begin env fallback libxcpc)\<lparr>initialized := 1\<rparr> = xcpc_begin env fallback libxcpc"
    by (simp add: begun)
  with True show ?thesis by (simp add: library_at_def)
next
  case False
  then show ?thesis by (simp add: library_at_def) (simp add: xcpc_begin_def)
qed

lemma library_end: "0 < n \<Longrightarrow> xcpc_end (library_at env fallback n) = library_at env fallback (n - 1)"
proof (cases "n = 1")
  case True
  have "xcpc_end (xcpc_begin env fallback libxcpc) = libxcpc"
    unfolding begun
    by (simp add: xcpc_end_def Let_def fini_joysticks_def fini_directories_def fini_streams_def fini_loglevel_def)
       (simp add: libxcpc_def directory_variables_def joystick_variables_def numeral_eq_Suc)
  with True show ?thesis by (simp add: library_at_def begun)
next
  case False
  moreover assume "0 < n"
  ultimately show ?thesis by (simp add: library_at_def xcpc_end_def Let_def of_nat_diff)
qed

text \<open>
  C38: however the uses of the library nest, its state is determined by how many are open: with none
  it is as at the start of the program, with one or more it is what the first
  \<^verbatim>\<open>xcpc_begin\<close> made.
\<close>

theorem library_follows_uses:
  assumes "depth n us = Some k"
  shows "run_uses env fallback us (library_at env fallback n) = library_at env fallback k"
  using assms by (induction n us rule: depth.induct) (auto simp: library_begin library_end split: if_splits)

theorem library_follows_uses_witness:
  "run_uses Map.empty (\<lambda>v. v) [BEGIN, BEGIN, END, END] libxcpc = libxcpc"
  using library_follows_uses [of 0 "[BEGIN, BEGIN, END, END]" 0 Map.empty "\<lambda>v. v"] by (simp add: library_at_def)

section \<open>The setup of the board\<close>

text \<open>What the settings put into the board.\<close>

definition fixed_settings :: "'d board \<Rightarrow> u32 \<times> u32 \<times> u8 \<times> u8 \<times> u8 \<times> u8" where
  "fixed_settings b = (memory_size b, frame_rate b, lnk_lk1 b, lnk_lk2 b, lnk_lk3 b, lnk_lk4 b)"

lemma fixed_settings_reset [simp]: "fixed_settings (snd (board_reset L h)) = fixed_settings (snd h)"
  by (simp add: fixed_settings_def board_reset_def Let_def mem_banks_reset_def state_reset_def)

lemma frozen_settings: "frozen b = frozen b0 \<Longrightarrow> fixed_settings b = fixed_settings b0"
proof -
  have "fixed_settings (frozen b) = fixed_settings b" for b :: "'a board"
    by (simp add: fixed_settings_def frozen_def)
  then show "frozen b = frozen b0 \<Longrightarrow> fixed_settings b = fixed_settings b0" by metis
qed

text \<open>A reset maps the memory; loading a snapshot keeps what the reset left but for the devices.\<close>

lemma board_reset_pal_ok: "pal_ok (snd (board_reset L h))"
  by (simp add: board_reset_def Let_def update_pal_ok mem_banks_reset_def state_reset_def ram_banks_def)

lemma load_ppi_kept: "kept b0 (snd h) \<Longrightarrow> kept b0 (snd (load_ppi hdr h))"
  unfolding load_ppi_def Let_def
  by (intro on_ppi_kept) (simp_all add: ppi_setup.wr_ctrl_keeps ppi_setup.ports_keep on_ppi_kept)

lemma set_psg_kept: "kept b0 (snd h) \<Longrightarrow> kept b0 (snd (set_psg i x h))"
  by (auto simp: set_psg_def Let_def case_prod_unfold intro!: on_psg_kept psg_setup.set_value_keeps)

lemma load_psg_kept: "kept b0 (snd h) \<Longrightarrow> kept b0 (snd (load_psg hdr h))"
proof -
  have "kept b0 (snd h) \<Longrightarrow> kept b0 (snd (fold (\<lambda>i. set_psg i (psg_reg hdr ! i)) is h))" for "is"
    by (induction "is" arbitrary: h) (simp_all add: set_psg_kept)
  then show "kept b0 (snd h) \<Longrightarrow> kept b0 (snd (load_psg hdr h))" by (simp add: load_psg_def set_psg_kept)
qed

lemma load_snapshot_kept: "kept (snd (board_reset L h)) (snd (snd (load_snapshot L filename fs h)))"
proof -
  let ?b0 = "snd (board_reset L h)"
  have reset: "kept ?b0 ?b0" by (simp add: kept_def board_reset_pal_ok)
  have "kept ?b0 (snd (load_cpc L sna h))" for sna
  proof -
    let ?hdr = "sna_head sna" let ?h = "(load_cpu ?hdr (fst (board_reset L h)), load_vdc ?hdr (load_vga ?hdr ?b0))"
    have "kept ?b0 (snd (load_psg ?hdr (load_ppi ?hdr ?h)))"
      by (intro load_psg_kept load_ppi_kept) (simp add: load_vdc_def load_vga_def reset)
    then show ?thesis
      by (simp add: load_cpc_def Let_def case_prod_unfold load_mem_def update_pal_kept)
  qed
  then show ?thesis by (simp add: load_snapshot_def reset split: prod.split option.split)
qed

lemma load_snapshot_fixed: "fixed_settings (snd (snd (load_snapshot L filename fs h))) = fixed_settings (snd h)"
  using frozen_settings [of "snd (snd (load_snapshot L filename fs h))" "snd (board_reset L h)"] load_snapshot_kept [of L h filename fs]
  by (simp add: kept_def)

text \<open>
  The setup agrees with the board: the links tell the manufacturer and the refresh rate, the frame
  has its rate and time, the memory suffices for the machine, the display and the keyboard are of
  the type set, and the speed is a divisor between 1 and 100.
\<close>

definition company_ok :: "'d mainboard \<Rightarrow> bool" where
  "company_ok mb \<longleftrightarrow> (let c = su_company_name (mb_setup mb); b = snd (mb_host mb) in
     c = COMPANY_UNKNOWN \<or> company_links c = Some (lnk_lk3 b, lnk_lk2 b, lnk_lk1 b))"

definition machine_ok :: "'d mainboard \<Rightarrow> bool" where
  "machine_ok mb \<longleftrightarrow> (let m = su_machine_type (mb_setup mb); sz = memory_size (snd (mb_host mb)) in
     (m = MACHINE_UNKNOWN \<and> sz = MEMORY_UNKNOWN)
     \<or> (m \<in> {CPC464, CPC664} \<and> sz \<in> {MEMORY_64K, MEMORY_128K}) \<or> (m = CPC6128 \<and> sz = MEMORY_128K))"

definition rate_ok :: "'d mainboard \<Rightarrow> bool" where
  "rate_ok mb \<longleftrightarrow> (let r = su_refresh_rate (mb_setup mb); b = snd (mb_host mb) in
     rate_values (if r = REFRESH_UNKNOWN then RATE_50HZ else r) = Some (frame_rate b, frame_time mb, lnk_lk4 b)
     \<and> (r \<noteq> REFRESH_UNKNOWN \<longrightarrow> d_refresh (mb_dpy mb) = r))"

definition types_ok :: "'d mainboard \<Rightarrow> bool" where
  "types_ok mb \<longleftrightarrow> (let su = mb_setup mb in
     (su_monitor_type su = MONITOR_UNKNOWN \<or> su_monitor_type su \<noteq> MONITOR_DEFAULT \<and> d_monitor (mb_dpy mb) = su_monitor_type su)
     \<and> (su_keyboard_type su = KEYBOARD_UNKNOWN \<or> su_keyboard_type su \<noteq> KEYBOARD_DEFAULT \<and> mb_keyboard mb = su_keyboard_type su)
     \<and> su_renderer_type su \<noteq> RENDERER_DEFAULT \<and> 1 \<le> su_speedup su \<and> su_speedup su \<le> 100)"

definition setup_ok :: "'d mainboard \<Rightarrow> bool" where
  "setup_ok mb \<longleftrightarrow> company_ok mb \<and> machine_ok mb \<and> rate_ok mb \<and> types_ok mb"

lemmas setup_ok_defs = setup_ok_def company_ok_def machine_ok_def rate_ok_def types_ok_def

text \<open>The setup depends on these parts of the board only.\<close>

definition setup_view :: "'d mainboard \<Rightarrow> _" where
  "setup_view mb = (mb_setup mb, fixed_settings (snd (mb_host mb)), frame_time mb, d_monitor (mb_dpy mb), d_refresh (mb_dpy mb), mb_keyboard mb)"

lemma setup_ok_view: "setup_view mb = setup_view mb' \<Longrightarrow> setup_ok mb = setup_ok mb'"
  by (simp add: setup_view_def setup_ok_defs fixed_settings_def Let_def)

lemma clock_construct_simps [simp]:
  "mb_setup (clock_construct mb) = mb_setup mb" "mb_host (clock_construct mb) = mb_host mb"
  "frame_time (clock_construct mb) = frame_time mb" "mb_dpy (clock_construct mb) = mb_dpy mb"
  "mb_keyboard (clock_construct mb) = mb_keyboard mb" "mb_mixer (clock_construct mb) = mb_mixer mb"
  "render_func (clock_construct mb) = render_func mb" "mb_stats (clock_construct mb) = mb_stats mb"
  by (simp_all add: clock_construct_def gettimeofday_def Let_def)

lemma mainboard_reset_simps [simp]:
  "mb_setup (mainboard_reset L mb) = mb_setup mb" "mb_host (mainboard_reset L mb) = board_reset L (mb_host mb)"
  "frame_time (mainboard_reset L mb) = frame_time mb" "mb_dpy (mainboard_reset L mb) = mb_dpy mb"
  "mb_keyboard (mainboard_reset L mb) = mb_keyboard mb" "render_func (mainboard_reset L mb) = render_func mb"
  by (simp_all add: mainboard_reset_def Let_def)

lemma mainboard_reset_view: "setup_view (mainboard_reset L mb) = setup_view mb"
  by (simp add: setup_view_def)

lemma on_board_simps [simp]:
  "mb_setup (on_board f mb) = mb_setup mb" "mb_host (on_board f mb) = (fst (mb_host mb), f (snd (mb_host mb)))"
  "frame_time (on_board f mb) = frame_time mb" "mb_dpy (on_board f mb) = mb_dpy mb"
  "mb_keyboard (on_board f mb) = mb_keyboard mb" "render_func (on_board f mb) = render_func mb"
  by (simp_all add: on_board_def)

lemma on_board_view: "fixed_settings (f (snd (mb_host mb))) = fixed_settings (snd (mb_host mb)) \<Longrightarrow> setup_view (on_board f mb) = setup_view mb"
  by (simp add: setup_view_def)

lemma mb_update_vga_simps [simp]:
  "mb_setup (mb_update_vga mb) = mb_setup mb" "frame_time (mb_update_vga mb) = frame_time mb"
  "mb_dpy (mb_update_vga mb) = mb_dpy mb" "mb_keyboard (mb_update_vga mb) = mb_keyboard mb"
  "fixed_settings (snd (mb_host (mb_update_vga mb))) = fixed_settings (snd (mb_host mb))"
  by (simp_all add: mb_update_vga_def update_vga_def Let_def fixed_settings_def)

lemma mb_update_vga_view: "setup_view (mb_update_vga mb) = setup_view mb"
  by (simp add: setup_view_def)

lemma dpy_set_simps [simp]:
  "d_monitor (dpy_set_monitor_type m s) = m" "d_refresh (dpy_set_monitor_type m s) = d_refresh s"
  "d_refresh (dpy_set_refresh_rate r s) = r" "d_monitor (dpy_set_refresh_rate r s) = d_monitor s"
  by (simp_all add: dpy_set_monitor_type_def dpy_set_refresh_rate_def recompute_visible_area_def)

lemma load_rom_fixed [simp]: "fixed_settings (snd (load_rom i n romdir fs f b)) = fixed_settings b"
  by (simp add: load_rom_def Let_def case_prod_unfold fixed_settings_def)

lemma load_expansion_fixed [simp]: "fixed_settings (load_expansion romdir fs f i b) = fixed_settings b"
  by (simp add: load_expansion_def Let_def case_prod_unfold fixed_settings_def)

lemma load_slots_fixed: "fixed_settings (load_slots romdir fs ex is n b) = fixed_settings b"
proof (induction "is" arbitrary: n b)
  case (Cons e slots)
  have "fixed_settings (b\<lparr>b_exp := x\<rparr>) = fixed_settings b" for x by (simp add: fixed_settings_def)
  with Cons show ?case by (simp add: Let_def)
qed simp

lemmas reset_ok = setup_ok_view [OF mainboard_reset_view]

lemma seq_ok: "setup_ok (snd r) \<Longrightarrow> (\<And>mb. setup_ok mb \<Longrightarrow> setup_ok (snd (f mb))) \<Longrightarrow> setup_ok (snd (seq r f))"
  by (auto simp: seq_def split: prod.split option.split)

lemma set_company_name_ok: "setup_ok mb \<Longrightarrow> setup_ok (snd (set_company_name L s mb))"
  by (auto simp: set_company_name_def Let_def reset_ok split: option.split) (auto simp: setup_ok_defs Let_def)

lemma set_monitor_type_ok: "setup_ok mb \<Longrightarrow> setup_ok (snd (set_monitor_type s mb))"
  by (auto simp: set_monitor_type_def Let_def setup_ok_view [OF mb_update_vga_view]) (auto simp: setup_ok_defs Let_def)

lemma set_keyboard_type_ok: "setup_ok mb \<Longrightarrow> setup_ok (snd (set_keyboard_type s mb))"
  by (auto simp: set_keyboard_type_def Let_def) (auto simp: setup_ok_defs Let_def)

lemma set_renderer_type_ok: "setup_ok mb \<Longrightarrow> setup_ok (snd (set_renderer_type s mb))"
  by (auto simp: set_renderer_type_def Let_def) (auto simp: setup_ok_defs Let_def)

lemma set_refresh_rate_ok: "setup_ok mb \<Longrightarrow> setup_ok (snd (set_refresh_rate L s mb))"
  by (auto simp: set_refresh_rate_def Let_def reset_ok setup_ok_view [OF mb_update_vga_view] split: option.split)
     (auto simp: setup_ok_defs Let_def rate_values_def split: refresh_rate.splits)

lemma on_board_load_ok:
  "(\<And>b. fixed_settings (f b) = fixed_settings b) \<Longrightarrow> setup_ok (on_board f mb) = setup_ok mb"
  by (intro setup_ok_view on_board_view) simp

lemma firmware_ok [simp]:
  "setup_ok (on_board (\<lambda>b. snd (load_lower_rom romdir fs f b)) mb) = setup_ok mb"
  "setup_ok (on_board (\<lambda>b. snd (load_upper_rom romdir fs f b)) mb) = setup_ok mb"
  "setup_ok (on_board (load_expansion romdir fs f i) mb) = setup_ok mb"
  "setup_ok (on_board (load_system_roms romdir fs f) mb) = setup_ok mb"
  "setup_ok (on_board (load_expansions_roms romdir fs fss) mb) = setup_ok mb"
  by (simp_all add: on_board_load_ok load_lower_rom_def load_upper_rom_def load_system_roms_def load_expansions_roms_def
      load_slots_fixed Let_def)

lemma machine_memory_ok:
  assumes "setup_ok mb" "machine_parts m = Some (mem, firmware, amsdos)"
  shows "setup_ok (on_board (\<lambda>b. if word_sless (memory_size b) mem then b\<lparr>memory_size := mem\<rparr> else b)
    (mb\<lparr>mb_setup := (mb_setup mb)\<lparr>su_machine_type := m\<rparr>\<rparr>))"
proof -
  let ?sz = "memory_size (snd (mb_host mb))"
  have "?sz \<in> {MEMORY_UNKNOWN, MEMORY_64K, MEMORY_128K}"
    using assms(1) by (auto simp: setup_ok_def machine_ok_def Let_def)
  moreover have "mem = (if m = CPC6128 then MEMORY_128K else MEMORY_64K)" "m \<in> {CPC464, CPC664, CPC6128}"
    using assms(2) by (auto simp: machine_parts_def split: machine_type.splits)
  ultimately have "machine_ok (on_board (\<lambda>b. if word_sless (memory_size b) mem then b\<lparr>memory_size := mem\<rparr> else b)
    (mb\<lparr>mb_setup := (mb_setup mb)\<lparr>su_machine_type := m\<rparr>\<rparr>))"
    by (auto simp: machine_ok_def Let_def)
  with assms(1) show ?thesis
    by (simp add: setup_ok_def company_ok_def rate_ok_def types_ok_def Let_def)
qed

lemma set_machine_type_ok: "setup_ok mb \<Longrightarrow> setup_ok (snd (set_machine_type L romdir fs s mb))"
  by (auto simp: set_machine_type_def Let_def reset_ok machine_memory_ok split: option.split)

lemma set_options_ok: "setup_ok mb \<Longrightarrow> setup_ok (snd (set_options st mb))"
proof -
  have "1 \<le> (of_int n :: u32) \<and> (of_int n :: u32) \<le> 100" if "1 \<le> n" "n \<le> 100" for n
    using that by (simp add: word_le_def uint_word_of_int mod_pos_pos_trivial)
  moreover have "1 \<le> clamp_int v 1 100" "clamp_int v 1 100 \<le> 100" for v by (simp_all add: clamp_int_def Let_def)
  ultimately have "1 \<le> (of_int (clamp_int v 1 100) :: u32) \<and> (of_int (clamp_int v 1 100) :: u32) \<le> 100" for v
    by blast
  then show "setup_ok mb \<Longrightarrow> setup_ok (snd (set_options st mb))"
    by (auto simp: set_options_def setup_ok_defs Let_def)
qed

lemma init_machine_ok: "setup_ok mb \<Longrightarrow> setup_ok (snd (init_machine L romdir fs st mb))"
  unfolding init_machine_def Let_def
  by (intro seq_ok set_company_name_ok set_machine_type_ok set_monitor_type_ok set_refresh_rate_ok set_keyboard_type_ok
      set_renderer_type_ok set_options_ok)

lemma insert_disk_ok [simp]: "setup_ok (snd (insert_disk_into gz L d f mb)) = setup_ok mb"
  by (auto simp: insert_disk_into_def Let_def on_board_load_ok fixed_settings_def split: prod.split option.split sum.split)

lemma mb_load_snapshot_ok [simp]: "setup_ok (snd (mb_load_snapshot L fs f mb)) = setup_ok mb"
  by (intro setup_ok_view) (simp add: mb_load_snapshot_def Let_def case_prod_unfold setup_view_def load_snapshot_fixed)

lemma configure_ok: "setup_ok mb \<Longrightarrow> setup_ok (snd (configure gz L romdir fs st mb))"
  using init_machine_ok [of mb L romdir fs st]
  by (auto simp: configure_def Let_def reset_ok insert_disk_into_drive0_def insert_disk_into_drive1_def split: prod.split option.split)

lemma construct_ok: "setup_ok (mainboard_construct mb)"
  by (simp add: mainboard_construct_def Let_def case_prod_unfold setup_ok_defs setup_construct_def state_construct_def rate_values_def)

end
