(* ===== verification/CPC_Discs.thy ===== *)
theory CPC_Discs
  imports CPC_Setup DSK_Format
begin

text \<open>
  New discs: the handlers of the main board (\<^verbatim>\<open>cpc-mainboard.cc\<close>) that create an empty image and
  put it into a drive.  The drives open their images through \<^verbatim>\<open>libdsk\<close>, which has files of its
  own; the file that is created here is in the file system \<open>fs\<close> of the host.
\<close>

definition create_disk_into :: "compressions \<Rightarrow> 'd libdsk \<Rightarrow> int \<Rightarrow> string \<Rightarrow> file_system \<Rightarrow> 'd mainboard
    \<Rightarrow> string option \<times> file_system \<times> 'd mainboard" where
  "create_disk_into gz L drive filename fs mb = (let
     (e, fs) = (if filename \<noteq> '''' then (case disk_create fs (new_disk filename) of (e, _, fs) \<Rightarrow> (e, fs)) else (None, fs))
   in case e of
     Some e \<Rightarrow> (Some e, fs, mb)
   | None \<Rightarrow> (case insert_disk_into gz L drive filename mb of (e, mb) \<Rightarrow> (e, fs, mb)))"

definition create_disk_into_drive0 :: "compressions \<Rightarrow> 'd libdsk \<Rightarrow> string \<Rightarrow> file_system \<Rightarrow> 'd mainboard
    \<Rightarrow> string option \<times> file_system \<times> 'd mainboard" where
  "create_disk_into_drive0 gz L = create_disk_into gz L 0"
definition create_disk_into_drive1 :: "compressions \<Rightarrow> 'd libdsk \<Rightarrow> string \<Rightarrow> file_system \<Rightarrow> 'd mainboard
    \<Rightarrow> string option \<times> file_system \<times> 'd mainboard" where
  "create_disk_into_drive1 gz L = create_disk_into gz L 1"

end
