(* ===== verification/CPC_Timing.thy ===== *)
theory CPC_Timing
  imports CPC_Setup
begin

text \<open>
  The pace of the machine (\<^verbatim>\<open>Mainboard::on_clock\<close> and \<^verbatim>\<open>Mainboard::update_stats\<close>):
  a frame is emulated, the deadline of the next one computed from the clock of the host, the frame
  drawn unless the machine is late or runs fast, and the time to wait answered in milliseconds.

  Times are integers: the fields of a \<^verbatim>\<open>timeval\<close> and the differences in microseconds do not
  reach the bounds of a \<^verbatim>\<open>long\<close>.  The frame rate shown is computed with rationals for the
  \<^verbatim>\<open>float\<close> of the code.
\<close>

unbundle bit_operations_syntax

section \<open>The handler\<close>

definition timestamp_of :: "timeval \<Rightarrow> int" where
  "timestamp_of t = tv_sec t * 1000000 + tv_usec t"

text \<open>Moving a deadline by some microseconds, less than a second.\<close>

definition add_usec :: "int \<Rightarrow> timeval \<Rightarrow> timeval" where
  "add_usec n t = (let t = t\<lparr>tv_usec := tv_usec t + n\<rparr> in
     if 1000000 \<le> tv_usec t then t\<lparr>tv_usec := tv_usec t - 1000000, tv_sec := tv_sec t + 1\<rparr> else t)"

fun nat_string :: "nat \<Rightarrow> string" where
  "nat_string n = (if n < 10 then [char_of (48 + n)] else nat_string (n div 10) @ [char_of (48 + n mod 10)])"

definition int_string :: "int \<Rightarrow> string" where
  "int_string i = (if i < 0 then CHR ''-'' # nat_string (nat (- i)) else nat_string (nat i))"

text \<open>\<^verbatim>\<open>rintf\<close>: to the nearest integer, and to the even one in the middle.\<close>

definition round_even :: "rat \<Rightarrow> int" where
  "round_even x = (let f = \<lfloor>x\<rfloor>; d = x - of_int f in
     if d < 1/2 then f else if 1/2 < d then f + 1 else if even f then f else f + 1)"

definition update_stats :: "'d mainboard \<Rightarrow> 'd mainboard" where
  "update_stats mb = (let
     (t, mb) = gettimeofday mb;
     mb = mb\<lparr>mb_clock := (mb_clock mb)\<lparr>currtime := t\<rparr>\<rparr>;
     prev = timestamp_of (proftime (mb_clock mb));
     curr = timestamp_of (currtime (mb_clock mb));
     elapsed = (if prev \<le> curr then curr - prev else 0);
     elapsed = (if elapsed = 0 then 1 else elapsed);
     frames = of_nat (unat (frame_drawn (mb_stats mb)) * 1000000) :: rat;
     fps = round_even (frames / of_int elapsed);
     mb = mb\<lparr>mb_stats := (mb_stats mb)\<lparr>stats_text := int_string fps @ '' fps''\<rparr>\<rparr>;
     mb = mb\<lparr>mb_clock := (mb_clock mb)\<lparr>proftime := currtime (mb_clock mb)\<rparr>\<rparr>
   in mb\<lparr>mb_stats := (mb_stats mb)\<lparr>frame_count := 0, frame_drawn := 0\<rparr>\<rparr>)"

text \<open>
  \<^verbatim>\<open>on_clock\<close>: the answer is the time to wait, whether the frame was drawn, and the board;
  \<^term>\<open>None\<close> is an emulation that does not return.
\<close>

definition late :: "'d mainboard \<Rightarrow> bool" where
  "late mb \<longleftrightarrow> \<not> timestamp_of (currtime (mb_clock mb)) \<le> timestamp_of (deadline (mb_clock mb))"

definition skip_frame :: "'d mainboard \<Rightarrow> bool" where
  "skip_frame mb = (let skip = late mb in
     if frame_count (mb_stats mb) = 0 then False
     else if 10 \<le> su_speedup (mb_setup mb) then True else skip)"

definition count_frame :: "bool \<Rightarrow> 'd mainboard \<Rightarrow> 'd mainboard" where
  "count_frame skip mb = (let
     mb = (if \<not> skip then mb\<lparr>mb_stats := (mb_stats mb)\<lparr>frame_drawn := frame_drawn (mb_stats mb) + 1\<rparr>\<rparr> else mb);
     mb = mb\<lparr>mb_stats := (mb_stats mb)\<lparr>frame_count := frame_count (mb_stats mb) + 1\<rparr>\<rparr>
   in if frame_count (mb_stats mb) = frame_rate (snd (mb_host mb)) then update_stats mb else mb)"

definition next_frame :: "'d mainboard \<Rightarrow> int \<times> bool \<times> 'd mainboard" where
  "next_frame mb = (let
     time = int (unat (frame_time mb div su_speedup (mb_setup mb)));
     mb = mb\<lparr>mb_clock := (mb_clock mb)\<lparr>deadline := add_usec time (deadline (mb_clock mb))\<rparr>\<rparr>;
     (t, mb) = gettimeofday mb;
     mb = mb\<lparr>mb_clock := (mb_clock mb)\<lparr>currtime := t\<rparr>\<rparr>;
     curr = timestamp_of (currtime (mb_clock mb));
     dead = timestamp_of (deadline (mb_clock mb));
     timeout = (if curr \<le> dead then dead - curr else 0);
     timedrift = (if curr \<le> dead then 0 else curr - dead);
     skip = skip_frame mb;
     mb = count_frame skip mb;
     (timeout, mb) = (if 1000000 \<le> timedrift
        then (time, mb\<lparr>mb_clock := (mb_clock mb)\<lparr>deadline := add_usec time (currtime (mb_clock mb))\<rparr>\<rparr>)
        else (timeout, mb));
     timeout = timeout div 1000;
     timeout = (if timeout = 0 \<and> frame_count (mb_stats mb) = 0 then 1 else timeout)
   in (timeout, \<not> skip, mb))"

definition on_clock :: "'d libdsk \<Rightarrow> ('d host \<Rightarrow> Stack) \<Rightarrow> 'd mainboard \<Rightarrow> (int \<times> bool \<times> 'd mainboard) option" where
  "on_clock L scratch mb = map_option (\<lambda>h. next_frame (mb\<lparr>mb_host := h\<rparr>)) (board_clock L scratch (mb_host mb))"

end
