(* ===== verification/CPC_Mixer.thy ===== *)
theory CPC_Mixer
  imports CPC_Setup
begin

text \<open>
  The audio output (\<^verbatim>\<open>Mainboard::process\<close>): the audio device asks for frames, each is
  taken from the ring of samples that the emulation fills (\<open>push_sample\<close>), mixed for the channels
  of the device, filtered and scaled by the volume.  Samples are rationals for the \<^verbatim>\<open>float\<close>
  of the code.

  Producer and consumer share the ring through its two indices.  The locale \<open>sample_queue\<close> states
  what each relies on, a bounded queue, and is interpreted on the ring.
\<close>

unbundle bit_operations_syntax

section \<open>Mixing\<close>

definition dc_block :: "nat \<Rightarrow> rat \<Rightarrow> mixer_state \<Rightarrow> rat \<times> mixer_state" where
  "dc_block stream input m = (let
     output = (input - dcb_input m stream) + (999/1000 * dcb_output m stream)
   in (output, m\<lparr>dcb_input := (dcb_input m)(stream := input), dcb_output := (dcb_output m)(stream := output)\<rparr>))"

definition clamp_sample :: "rat \<Rightarrow> rat" where
  "clamp_sample v = (if v < -1 then -1 else if 1 < v then 1 else v)"

definition left_level :: "rat \<times> rat \<times> rat \<Rightarrow> rat" where
  "left_level = (\<lambda>(c0, c1, c2). c0 * (3/4) + c1 * (1/2) + c2 * (1/4))"

definition right_level :: "rat \<times> rat \<times> rat \<Rightarrow> rat" where
  "right_level = (\<lambda>(c0, c1, c2). c0 * (1/4) + c1 * (1/2) + c2 * (3/4))"

definition mix_mono :: "rat \<times> rat \<times> rat \<Rightarrow> mixer_state \<Rightarrow> rat list \<times> mixer_state" where
  "mix_mono = (\<lambda>(c0, c1, c2) m. let
     mono = c0 * 1 + c1 * 1 + c2 * 1;
     (out, m) = dc_block 0 (mono / 3) m
   in ([clamp_sample (out * volume m)], m))"

definition mix_stereo :: "rat \<times> rat \<times> rat \<Rightarrow> mixer_state \<Rightarrow> rat list \<times> mixer_state" where
  "mix_stereo c m = (let
     (out_l, m) = dc_block 0 (left_level c / (3/2)) m;
     (out_r, m) = dc_block 1 (right_level c / (3/2)) m
   in ([clamp_sample (out_l * volume m), clamp_sample (out_r * volume m)], m))"

definition mix_surround40 :: "rat \<times> rat \<times> rat \<Rightarrow> mixer_state \<Rightarrow> rat list \<times> mixer_state" where
  "mix_surround40 c m = (let
     (l, m) = dc_block 0 (left_level c / (3/2)) m; out_l = clamp_sample (l * volume m);
     (r, m) = dc_block 1 (right_level c / (3/2)) m; out_r = clamp_sample (r * volume m)
   in ([out_l, out_r, out_l, out_r], m))"

section \<open>The consumer\<close>

definition sample_at :: "audio_state \<Rightarrow> u32 \<Rightarrow> rat \<times> rat \<times> rat" where
  "sample_at a index = (a_channel0 a (unat index), a_channel1 a (unat index), a_channel2 a (unat index))"

text \<open>The loop stops when the ring is empty: the frames that are left keep what the device put there.\<close>

fun render_frames :: "(rat \<times> rat \<times> rat \<Rightarrow> mixer_state \<Rightarrow> rat list \<times> mixer_state) \<Rightarrow> nat \<Rightarrow> audio_state \<times> mixer_state
    \<Rightarrow> rat list list \<times> audio_state \<times> mixer_state" where
  "render_frames mix 0 am = ([], am)"
| "render_frames mix (Suc count) (a, m) =
     (if a_rd_index a \<noteq> a_wr_index a then
        (let (frame, m) = mix (sample_at a (a_rd_index a)) m;
             a = a\<lparr>a_rd_index := (a_rd_index a + 1) mod SND_BUFSIZE\<rparr>;
             (frames, am) = render_frames mix count (a, m)
         in (frame # frames, am))
      else ([], a, m))"

definition mix_for :: "u32 \<Rightarrow> (rat \<times> rat \<times> rat \<Rightarrow> mixer_state \<Rightarrow> rat list \<times> mixer_state) option" where
  "mix_for channels = (if channels = 1 then Some mix_mono else if channels = 2 then Some mix_stereo
     else if channels = 4 then Some mix_surround40 else None)"

definition process :: "u32 \<Rightarrow> u32 \<Rightarrow> 'd mainboard \<Rightarrow> rat list list \<times> 'd mainboard" where
  "process channels count mb = (case mix_for channels of
     None \<Rightarrow> ([], mb)
   | Some mix \<Rightarrow> (let (frames, a, m) = render_frames mix (unat count) (b_audio (snd (mb_host mb)), mb_mixer mb)
       in (frames, on_board (\<lambda>b. b\<lparr>b_audio := a\<rparr>) (mb\<lparr>mb_mixer := m\<rparr>))))"

section \<open>The ring as a queue\<close>

abbreviation ring_size :: nat where "ring_size \<equiv> 16384"

definition ring_ok :: "audio_state \<Rightarrow> bool" where
  "ring_ok a \<longleftrightarrow> unat (a_rd_index a) < ring_size \<and> unat (a_wr_index a) < ring_size"

definition ring_length :: "audio_state \<Rightarrow> nat" where
  "ring_length a = (unat (a_wr_index a) + ring_size - unat (a_rd_index a)) mod ring_size"

definition ring_contents :: "audio_state \<Rightarrow> (rat \<times> rat \<times> rat) list" where
  "ring_contents a = map (\<lambda>k. sample_at a (of_nat ((unat (a_rd_index a) + k) mod ring_size))) [0..<ring_length a]"

text \<open>The sample that the producer stores: the mean of the outputs since the last one.\<close>

definition next_sample :: "audio_state \<Rightarrow> rat \<times> rat \<times> rat" where
  "next_sample a = (let scale = (if a_acc_count a \<noteq> 0 then 1 / of_nat (unat (a_acc_count a)) else 0)
     in (a_acc0 a * scale, a_acc1 a * scale, a_acc2 a * scale))"

definition pop_sample :: "audio_state \<Rightarrow> audio_state" where
  "pop_sample a = a\<lparr>a_rd_index := (a_rd_index a + 1) mod SND_BUFSIZE\<rparr>"

text \<open>
  A bounded queue: a push appends an element unless the queue is full, when it drops the element, and
  a pop takes the first.
\<close>

locale sample_queue =
  fixes ok :: "'s \<Rightarrow> bool" and contents :: "'s \<Rightarrow> 'x list" and capacity :: nat
    and elem :: "'s \<Rightarrow> 'x" and push :: "'s \<Rightarrow> 's" and top :: "'s \<Rightarrow> 'x" and pop :: "'s \<Rightarrow> 's"
  assumes push_ok: "ok s \<Longrightarrow> ok (push s)"
    and push_contents: "ok s \<Longrightarrow>
      contents (push s) = (if length (contents s) < capacity then contents s @ [elem s] else contents s)"
    and pop_ok: "ok s \<Longrightarrow> contents s \<noteq> [] \<Longrightarrow> ok (pop s)"
    and pop_contents: "ok s \<Longrightarrow> contents s \<noteq> [] \<Longrightarrow> contents (pop s) = tl (contents s)"
    and top_contents: "ok s \<Longrightarrow> contents s \<noteq> [] \<Longrightarrow> top s = hd (contents s)"
    and capacity_bound: "ok s \<Longrightarrow> length (contents s) \<le> capacity"
begin

fun drain :: "nat \<Rightarrow> 's \<Rightarrow> 'x list \<times> 's" where
  "drain 0 s = ([], s)"
| "drain (Suc n) s = (if contents s = [] then ([], s) else (let (xs, t) = drain n (pop s) in (top s # xs, t)))"

text \<open>Taking \<open>n\<close> elements gives the first \<open>n\<close>, in order, and leaves the rest.\<close>

lemma drain_takes:
  "ok s \<Longrightarrow> fst (drain n s) = take n (contents s) \<and> contents (snd (drain n s)) = drop n (contents s) \<and> ok (snd (drain n s))"
proof (induction n arbitrary: s)
  case (Suc n)
  show ?case
  proof (cases "contents s")
    case (Cons x xs)
    with Suc.IH [of "pop s"] Suc.prems pop_ok pop_contents top_contents show ?thesis
      by (simp add: case_prod_unfold Let_def)
  qed (simp add: Suc.prems)
qed simp

end

text \<open>The ring keeps this contract, with room for one sample less than its size.\<close>

definition cell :: "audio_state \<Rightarrow> nat \<Rightarrow> rat \<times> rat \<times> rat" where
  "cell a j = (a_channel0 a j, a_channel1 a j, a_channel2 a j)"

lemma sample_at_cell: "sample_at a i = cell a (unat i)"
  by (simp add: sample_at_def cell_def)

lemma unat_succ_ring: "unat x < ring_size \<Longrightarrow> unat ((x + 1) mod SND_BUFSIZE) = (unat x + 1) mod ring_size" for x :: u32
  by (simp add: unat_mod_distrib unat_word_ariths)

lemma ring_length_alt:
  assumes "ring_ok a"
  shows "ring_length a = (if unat (a_rd_index a) \<le> unat (a_wr_index a) then unat (a_wr_index a) - unat (a_rd_index a)
     else unat (a_wr_index a) + ring_size - unat (a_rd_index a))"
  using assms by (auto simp: ring_length_def ring_ok_def le_mod_geq)

lemma ring_contents_cells:
  "ring_contents a = map (\<lambda>k. cell a ((unat (a_rd_index a) + k) mod ring_size)) [0..<ring_length a]"
  by (simp add: ring_contents_def sample_at_cell unat_of_nat)

lemma length_ring_contents [simp]: "length (ring_contents a) = ring_length a"
  by (simp add: ring_contents_def)

lemma ring_full:
  assumes "ring_ok a"
  shows "(a_wr_index a + 1) mod SND_BUFSIZE \<noteq> (a_rd_index a + 0) mod SND_BUFSIZE \<longleftrightarrow> ring_length a < ring_size - 1"
proof -
  have "(a_wr_index a + 1) mod SND_BUFSIZE = (a_rd_index a + 0) mod SND_BUFSIZE \<longleftrightarrow>
      (unat (a_wr_index a) + 1) mod ring_size = unat (a_rd_index a)"
    using assms unat_succ_ring [of "a_wr_index a"]
    by (auto simp: word_unat_eq_iff unat_mod_distrib ring_ok_def)
  also have "\<dots> \<longleftrightarrow> \<not> ring_length a < ring_size - 1"
    using assms by (cases "unat (a_wr_index a) + 1 = ring_size") (auto simp: ring_length_alt ring_ok_def)
  finally show ?thesis by blast
qed

lemma push_sample_fields:
  assumes "ring_ok a" "ring_length a < ring_size - 1"
  shows "unat (a_wr_index (push_sample a)) = (unat (a_wr_index a) + 1) mod ring_size"
    and "a_rd_index (push_sample a) = a_rd_index a"
    and "cell (push_sample a) j = (if j = unat (a_wr_index a) then next_sample a else cell a j)"
  using assms ring_full [OF assms(1)] unat_succ_ring [of "a_wr_index a"]
  by (simp_all add: push_sample_def Let_def cell_def next_sample_def ring_ok_def)

lemma push_sample_full: "ring_ok a \<Longrightarrow> \<not> ring_length a < ring_size - 1 \<Longrightarrow> push_sample a = a"
  using ring_full [of a] by (simp add: push_sample_def Let_def)

lemma push_contents:
  assumes "ring_ok a"
  shows "ring_contents (push_sample a) =
    (if ring_length a < ring_size - 1 then ring_contents a @ [next_sample a] else ring_contents a)"
proof (cases "ring_length a < ring_size - 1")
  case True
  note f = push_sample_fields [OF assms True]
  let ?r = "unat (a_rd_index a)" and ?w = "unat (a_wr_index a)" and ?n = "ring_length a"
  have bounds: "?r < ring_size" "?w < ring_size" using assms by (auto simp: ring_ok_def)
  have ok: "ring_ok (push_sample a)" using assms f(1,2) by (simp add: ring_ok_def)
  have len: "ring_length (push_sample a) = Suc ?n"
    using True bounds by (cases "?w + 1 = ring_size")
      (auto simp: ring_length_alt [OF ok] ring_length_alt [OF assms] f(1,2))
  have last: "(?r + ?n) mod ring_size = ?w"
    using bounds by (auto simp: ring_length_alt [OF assms])
  have others: "(?r + k) mod ring_size \<noteq> ?w" if "k < ?n" for k
  proof -
    have "?n < ring_size" using True by simp
    with that bounds last show ?thesis
      by (cases "?r + k < ring_size"; cases "?r + ?n < ring_size") (auto simp: le_mod_geq)
  qed
  show ?thesis
    using True last others by (simp add: ring_contents_cells len f(2,3))
next
  case False
  then show ?thesis using push_sample_full [OF assms] by simp
qed

lemma ring_empty: "ring_ok a \<Longrightarrow> ring_contents a = [] \<longleftrightarrow> a_rd_index a = a_wr_index a"
  by (auto simp: ring_contents_def ring_length_alt ring_ok_def word_unat_eq_iff)

lemma pop_contents:
  assumes "ring_ok a" "ring_contents a \<noteq> []"
  shows "ring_ok (pop_sample a)" "ring_contents (pop_sample a) = tl (ring_contents a)"
    "sample_at a (a_rd_index a) = hd (ring_contents a)"
proof -
  let ?r = "unat (a_rd_index a)" and ?w = "unat (a_wr_index a)" and ?n = "ring_length a"
  have bounds: "?r < ring_size" "?w < ring_size" "?r \<noteq> ?w"
    using assms ring_empty [of a] by (auto simp: ring_ok_def word_unat_eq_iff)
  have rd: "unat (a_rd_index (pop_sample a)) = (?r + 1) mod ring_size"
    using unat_succ_ring [OF bounds(1)] by (simp add: pop_sample_def)
  show ok: "ring_ok (pop_sample a)" using assms(1) rd by (simp add: ring_ok_def pop_sample_def)
  have n: "?n = Suc (ring_length (pop_sample a))"
    using bounds by (cases "?r + 1 = ring_size")
      (auto simp: ring_length_alt [OF ok] ring_length_alt [OF assms(1)] rd, auto simp: pop_sample_def)
  have cells: "cell (pop_sample a) = cell a" by (simp add: cell_def pop_sample_def fun_eq_iff)
  have "[0..<?n] = 0 # map Suc [0..<ring_length (pop_sample a)]"
    unfolding n by (simp add: upt_conv_Cons map_Suc_upt)
  then have split: "ring_contents a = cell a (?r mod ring_size) #
      map (\<lambda>k. cell a ((?r + Suc k) mod ring_size)) [0..<ring_length (pop_sample a)]"
    by (simp add: ring_contents_cells comp_def)
  show "ring_contents (pop_sample a) = tl (ring_contents a)"
    unfolding split by (simp add: ring_contents_cells rd cells mod_simps)
  show "sample_at a (a_rd_index a) = hd (ring_contents a)"
    unfolding split using bounds by (simp add: sample_at_cell)
qed

interpretation audio_ring: sample_queue ring_ok ring_contents "ring_size - 1" next_sample push_sample
  "\<lambda>a. sample_at a (a_rd_index a)" pop_sample
proof unfold_locales
  show "ring_ok (push_sample a)" if "ring_ok a" for a
    using that push_sample_fields(1,2) [OF that] push_sample_full [OF that]
    by (cases "ring_length a < ring_size - 1") (simp_all add: ring_ok_def)
  show "length (ring_contents a) \<le> ring_size - 1" if "ring_ok a" for a
    using that mod_less_divisor [of ring_size] by (simp add: ring_length_def less_Suc_eq_le [symmetric])
qed (simp_all add: push_contents pop_contents)

section \<open>The audio output\<close>

text \<open>Mixing a sequence of samples.\<close>

fun mix_all :: "(rat \<times> rat \<times> rat \<Rightarrow> mixer_state \<Rightarrow> rat list \<times> mixer_state) \<Rightarrow> (rat \<times> rat \<times> rat) list \<Rightarrow> mixer_state
    \<Rightarrow> rat list list \<times> mixer_state" where
  "mix_all mix [] m = ([], m)"
| "mix_all mix (c # cs) m = (let (frame, m) = mix c m; (frames, m) = mix_all mix cs m in (frame # frames, m))"

lemma render_frames_drain:
  "ring_ok a \<Longrightarrow> render_frames mix n (a, m) =
    (let (frames, m) = mix_all mix (fst (audio_ring.drain n a)) m in (frames, snd (audio_ring.drain n a), m))"
proof (induction n arbitrary: a m)
  case (Suc n)
  show ?case
  proof (cases "ring_contents a = []")
    case False
    let ?c = "sample_at a (a_rd_index a)"
    have "a_rd_index a \<noteq> a_wr_index a" using False ring_empty [OF Suc.prems] by blast
    then have render: "render_frames mix (Suc n) (a, m) = (let (frame, m) = mix ?c m;
        (frames, am) = render_frames mix n (pop_sample a, m) in (frame # frames, am))"
      by (simp add: pop_sample_def Let_def)
    have drain: "audio_ring.drain (Suc n) a = (let (xs, t) = audio_ring.drain n (pop_sample a) in (?c # xs, t))"
      using False by (rule audio_ring.drain.simps(2) [THEN trans, OF if_not_P])
    show ?thesis
      unfolding render drain using Suc.IH [OF pop_contents(1) [OF Suc.prems False]]
      by (simp add: case_prod_unfold Let_def)
  next
    case True
    with Suc.prems ring_empty show ?thesis by simp
  qed
qed simp

lemma render_frames_queue:
  assumes "ring_ok a" "render_frames mix n (a, m) = (frames, a', m')"
  shows "frames = fst (mix_all mix (take n (ring_contents a)) m)" "ring_contents a' = drop n (ring_contents a)" "ring_ok a'"
  using assms(2) audio_ring.drain_takes [OF assms(1), of n]
  unfolding render_frames_drain [OF assms(1)] by (auto simp: case_prod_unfold Let_def)

end
