(* ===== verification/Machine_Props.thy ===== *)
theory Machine_Props
  imports Setup_Props CPC_Discs CPC_Keyboard CPC_Timing CPC_Mixer FDC_Bench
begin

text \<open>
  The machine as its user sees it: a relation of everything that can happen to a main board from its
  construction on (settings, snapshots, discs, windows, keys, audio and frames, in any order), and
  the invariant that all of it keeps: the setup agrees with the board, every quarter of the address
  space is mapped, and the indices of the audio ring stay within it.  Then what the settings mean
  at the other end: the manufacturer that a program reads, the firmware that it finds, the colours
  that it sees; and the pace of the frames and the audio output.
\<close>

unbundle bit_operations_syntax

section \<open>What a frame keeps\<close>

definition settled :: "'d board \<Rightarrow> 'd board \<Rightarrow> bool" where
  "settled b0 b \<longleftrightarrow> pal_ok b \<and> fixed_settings b = fixed_settings b0 \<and> (ring_ok (b_audio b0) \<longrightarrow> ring_ok (b_audio b))"

lemma settled_trans: "settled b0 b1 \<Longrightarrow> settled b1 b2 \<Longrightarrow> settled b0 b2"
  by (simp add: settled_def)

lemma settled_self: "settled b b = pal_ok b"
  by (simp add: settled_def)

lemma kept_settled: "kept b0 b \<Longrightarrow> settled b0 b"
proof -
  have "b_audio (frozen b) = b_audio b" for b :: "'a board" by (simp add: frozen_def)
  then show "kept b0 b \<Longrightarrow> settled b0 b"
    unfolding kept_def settled_def using frozen_settings by metis
qed

lemma settled_ticks [simp]:
  "settled b0 (b\<lparr>cpu_ticks := x\<rparr>) = settled b0 b" "settled b0 (b\<lparr>vdc_ticks := x\<rparr>) = settled b0 b"
  "settled b0 (b\<lparr>psg_ticks_acc := x\<rparr>) = settled b0 b" "settled b0 (b\<lparr>snd_ticks := x\<rparr>) = settled b0 b"
  "settled b0 (b\<lparr>cpc_ticks := x\<rparr>) = settled b0 b" "settled b0 (b\<lparr>b_psg := p\<rparr>) = settled b0 b"
  by (simp_all add: settled_def fixed_settings_def)

lemma settled_audio:
  "settled b0 b \<Longrightarrow> (ring_ok (b_audio b) \<longrightarrow> ring_ok a) \<Longrightarrow> settled b0 (b\<lparr>b_audio := a\<rparr>)"
  by (simp add: settled_def fixed_settings_def)

lemma clock_cpu_settled: "settled b0 (snd h) \<Longrightarrow> settled b0 (snd (clock_cpu L s h))"
proof -
  assume h: "settled b0 (snd h)"
  let ?b = "(snd h)\<lparr>cpu_ticks := cpu_ticks (snd h) + cpu_clock (snd h) - cpc_clock (snd h)\<rparr>"
  have "settled b0 ?b" using h by simp
  moreover have "settled ?b (snd (clock (board_cpu L) (s h) (fst h, ?b)))"
    using h by (intro kept_settled clock_setup) (simp add: settled_def)
  ultimately have "settled b0 (snd (clock (board_cpu L) (s h) (fst h, ?b)))" by (rule settled_trans)
  with h show ?thesis by (simp add: clock_cpu_def Let_def)
qed

lemma clock_vdc_settled: "settled b0 (snd h) \<Longrightarrow> settled b0 (snd (clock_vdc h))"
proof -
  assume h: "settled b0 (snd h)"
  let ?b = "(snd h)\<lparr>vdc_ticks := vdc_ticks (snd h) + vdc_clock_rate (snd h) - cpc_clock (snd h)\<rparr>"
  have "settled b0 ?b" using h by simp
  moreover have "settled ?b (snd (snd (on_vdc (\<lambda>sb. ((), vdc_clock board_vdc sb)) (fst h, ?b))))"
    using h by (intro kept_settled on_vdc_kept) (simp add: vdc_setup.clock_keeps kept_refl settled_def)
  ultimately have "settled b0 (snd (snd (on_vdc (\<lambda>sb. ((), vdc_clock board_vdc sb)) (fst h, ?b))))" by (rule settled_trans)
  with h show ?thesis by (simp add: clock_vdc_def Let_def)
qed

lemma ring_ok_acc [simp]:
  "ring_ok (a\<lparr>a_acc0 := x\<rparr>) = ring_ok a" "ring_ok (a\<lparr>a_acc1 := x\<rparr>) = ring_ok a" "ring_ok (a\<lparr>a_acc2 := x\<rparr>) = ring_ok a"
  "ring_ok (a\<lparr>a_acc_count := n\<rparr>) = ring_ok a"
  by (simp_all add: ring_ok_def)

lemma clock_psg_settled: "settled b0 (snd h) \<Longrightarrow> settled b0 (snd (clock_psg h))"
  by (simp add: clock_psg_def Let_def settled_audio)

lemma clock_snd_settled: "settled b0 (snd h) \<Longrightarrow> settled b0 (snd (clock_snd h))"
  by (simp add: clock_snd_def Let_def settled_audio audio_ring.push_ok)

lemma emulate_tick_settled: "settled b0 (snd h) \<Longrightarrow> settled b0 (snd (emulate_tick L s h))"
  unfolding emulate_tick_def
  by (intro clock_snd_settled clock_psg_settled clock_cpu_settled clock_vdc_settled) simp

lemma emulate_loop_settled: "emulate_loop L s h = Some h' \<Longrightarrow> settled b0 (snd h) \<longrightarrow> settled b0 (snd h')"
  by (rule emulate_loop.raw_induct [where P = "\<lambda>L s h h'. settled b0 (snd h) \<longrightarrow> settled b0 (snd h')"])
     (auto simp: emulate_tick_settled split: if_splits)

lemma board_clock_settled: "board_clock L s h = Some h' \<Longrightarrow> settled b0 (snd h) \<Longrightarrow> settled b0 (snd h')"
  by (auto simp: board_clock_def dest: emulate_loop_settled split: if_splits bind_splits)

section \<open>The invariant\<close>

definition memory_ok :: "'d mainboard \<Rightarrow> bool" where
  "memory_ok mb \<longleftrightarrow> pal_ok (snd (mb_host mb)) \<and> ring_ok (b_audio (snd (mb_host mb)))"

definition output_ok :: "'d mainboard \<Rightarrow> bool" where
  "output_ok mb \<longleftrightarrow> 0 \<le> volume (mb_mixer mb) \<and> volume (mb_mixer mb) \<le> 1"

definition stats_ok :: "'d mainboard \<Rightarrow> bool" where
  "stats_ok mb \<longleftrightarrow> frame_drawn (mb_stats mb) \<le> frame_count (mb_stats mb) \<and> frame_count (mb_stats mb) < frame_rate (snd (mb_host mb))"

text \<open>A time has less than a million microseconds; what the host answers is such a time.\<close>

definition normal_time :: "timeval \<Rightarrow> bool" where
  "normal_time t \<longleftrightarrow> 0 \<le> tv_usec t \<and> tv_usec t < 1000000"

definition deadline_ok :: "'d mainboard \<Rightarrow> bool" where
  "deadline_ok mb \<longleftrightarrow> ((\<forall>n. normal_time (wall_clock mb n)) \<longrightarrow> normal_time (deadline (mb_clock mb)))"

definition machine_inv :: "'d mainboard \<Rightarrow> bool" where
  "machine_inv mb \<longleftrightarrow> setup_ok mb \<and> memory_ok mb \<and> output_ok mb \<and> stats_ok mb \<and> deadline_ok mb"

lemmas inv_parts = memory_ok_def output_ok_def stats_ok_def deadline_ok_def

lemma frame_rate_pos: "setup_ok mb \<Longrightarrow> 0 < frame_rate (snd (mb_host mb))"
  by (auto simp: setup_ok_def rate_ok_def Let_def rate_values_def split: refresh_rate.splits if_splits)

lemma frame_rate_fixed: "fixed_settings b = fixed_settings b' \<Longrightarrow> frame_rate b = frame_rate b'"
  by (simp add: fixed_settings_def)

lemma board_reset_audio: "ring_ok (b_audio (snd (board_reset L h)))"
  by (simp add: board_reset_def Let_def mem_banks_reset_def audio_reset_def ring_ok_def)

text \<open>A reset establishes it, whatever the machine was before but for the setup and the volume.\<close>

lemma reset_inv: "setup_ok mb \<Longrightarrow> output_ok mb \<Longrightarrow> machine_inv (mainboard_reset L mb)"
proof -
  assume s: "setup_ok mb" and o: "output_ok mb"
  have r: "frame_rate (snd (board_reset L (mb_host mb))) = frame_rate (snd (mb_host mb))"
    using frame_rate_fixed [OF fixed_settings_reset] .
  have "memory_ok (mainboard_reset L mb)"
    by (simp add: memory_ok_def board_reset_pal_ok board_reset_audio)
  moreover have "output_ok (mainboard_reset L mb)"
    using o by (simp add: output_ok_def mainboard_reset_def Let_def mixer_reset_def)
  moreover have "stats_ok (mainboard_reset L mb)"
    using frame_rate_pos [OF s] by (simp add: stats_ok_def r) (simp add: mainboard_reset_def Let_def stats_reset_def)
  moreover have "deadline_ok (mainboard_reset L mb)"
    by (simp add: deadline_ok_def mainboard_reset_def clock_construct_def gettimeofday_def Let_def)
  ultimately show ?thesis using s by (simp add: machine_inv_def reset_ok)
qed

text \<open>An operation that resets the machine or does nothing.\<close>

definition resets :: "'d libdsk \<Rightarrow> 'd mainboard \<Rightarrow> 'd mainboard \<Rightarrow> bool" where
  "resets L mb mb' \<longleftrightarrow> mb' = mb \<or> (\<exists>m. mb' = mainboard_reset L m \<and> volume (mb_mixer m) = volume (mb_mixer mb))"

lemma resets_inv:
  assumes inv: "machine_inv mb" and "resets L mb mb'" and ok: "setup_ok mb'"
  shows "machine_inv mb'"
  using assms(2) unfolding resets_def
proof (elim disjE exE conjE)
  fix m assume m: "mb' = mainboard_reset L m" "volume (mb_mixer m) = volume (mb_mixer mb)"
  have "setup_ok m" using ok by (simp add: m(1) reset_ok)
  moreover have "output_ok m" using inv by (simp add: machine_inv_def output_ok_def m(2))
  ultimately show "machine_inv mb'" unfolding m(1) by (rule reset_inv)
qed (simp add: inv)

text \<open>An operation that changes the setup only.\<close>

definition rest_view :: "'d mainboard \<Rightarrow> _" where
  "rest_view mb = (let b = snd (mb_host mb) in
     (pal_ok b, b_audio b, frame_rate b, volume (mb_mixer mb), mb_stats mb, deadline (mb_clock mb), wall_clock mb))"

lemma rest_view_inv: "machine_inv mb \<Longrightarrow> setup_ok mb' \<Longrightarrow> rest_view mb' = rest_view mb \<Longrightarrow> machine_inv mb'"
  by (simp add: machine_inv_def inv_parts rest_view_def Let_def)

lemma on_board_parts [simp]:
  "mb_mixer (on_board f mb) = mb_mixer mb" "mb_stats (on_board f mb) = mb_stats mb" "mb_clock (on_board f mb) = mb_clock mb"
  "wall_clock (on_board f mb) = wall_clock mb"
  by (simp_all add: on_board_def)

lemma pal_ok_vga [simp]: "pal_ok (b\<lparr>b_vga := v\<rparr>) = pal_ok b"
  by (simp add: pal_ok_def present_def cong: bank.case_cong)

lemma update_vga_rest [simp]: "rest_view (mb_update_vga mb) = rest_view mb" "mb_mixer (mb_update_vga mb) = mb_mixer mb"
  by (simp_all add: mb_update_vga_def update_vga_def rest_view_def Let_def)

section \<open>The operations keep it\<close>

lemma setters_reset:
  "resets L mb (snd (set_company_name L s mb))" "resets L mb (snd (set_machine_type L romdir fs s mb))"
  "resets L mb (snd (set_refresh_rate L s mb))"
  by (auto simp: resets_def set_company_name_def set_machine_type_def set_refresh_rate_def Let_def split: option.split intro!: exI)

lemma setters_inv:
  assumes "machine_inv mb"
  shows "machine_inv (snd (set_company_name L s mb))" "machine_inv (snd (set_machine_type L romdir fs s mb))"
    "machine_inv (snd (set_refresh_rate L s mb))"
proof -
  have ok: "setup_ok mb" using assms by (simp add: machine_inv_def)
  show "machine_inv (snd (set_company_name L s mb))" "machine_inv (snd (set_machine_type L romdir fs s mb))"
    "machine_inv (snd (set_refresh_rate L s mb))"
    by (rule resets_inv [OF assms setters_reset(1) set_company_name_ok [OF ok]]
        resets_inv [OF assms setters_reset(2) set_machine_type_ok [OF ok]]
        resets_inv [OF assms setters_reset(3) set_refresh_rate_ok [OF ok]])+
qed

lemma rest_view_setup [simp]:
  "rest_view (mb\<lparr>mb_setup := su\<rparr>) = rest_view mb" "rest_view (mb\<lparr>mb_dpy := d\<rparr>) = rest_view mb"
  "rest_view (mb\<lparr>mb_keyboard := k\<rparr>) = rest_view mb" "rest_view (mb\<lparr>render_func := r\<rparr>) = rest_view mb"
  by (simp_all add: rest_view_def)

lemma setters_rest:
  "rest_view (snd (set_monitor_type s mb)) = rest_view mb" "rest_view (snd (set_keyboard_type s mb)) = rest_view mb"
  "rest_view (snd (set_renderer_type s mb)) = rest_view mb"
  by (simp_all add: set_monitor_type_def set_keyboard_type_def set_renderer_type_def Let_def)

lemma inv_setup_ok: "machine_inv mb \<Longrightarrow> setup_ok mb"
  by (simp add: machine_inv_def)

lemma other_setters_inv:
  assumes "machine_inv mb"
  shows "machine_inv (snd (set_monitor_type s mb))" "machine_inv (snd (set_keyboard_type s mb))"
    "machine_inv (snd (set_renderer_type s mb))"
  by (rule rest_view_inv [OF assms set_monitor_type_ok setters_rest(1)] rest_view_inv [OF assms set_keyboard_type_ok setters_rest(2)]
      rest_view_inv [OF assms set_renderer_type_ok setters_rest(3)], rule inv_setup_ok [OF assms])+

lemma set_parameter_inv:
  assumes "machine_inv mb"
  shows "machine_inv (set_parameterb parameter x mb)" "machine_inv (set_parameterf parameter v mb)"
proof -
  have ok: "setup_ok mb" using assms by (rule inv_setup_ok)
  show "machine_inv (set_parameterb parameter x mb)"
  proof (rule rest_view_inv [OF assms])
    have "setup_ok (mb\<lparr>mb_setup := (mb_setup mb)\<lparr>su_crt_emulation := x\<rparr>\<rparr>)"
      using ok by (simp add: setup_ok_defs Let_def)
    then show "setup_ok (set_parameterb parameter x mb)"
      using ok by (auto simp: set_parameterb_def Let_def setup_ok_view [OF mb_update_vga_view])
    show "rest_view (set_parameterb parameter x mb) = rest_view mb"
      by (simp add: set_parameterb_def Let_def)
  qed
  have "setup_ok (set_parameterf parameter v mb) = setup_ok mb"
    by (rule setup_ok_view) (simp add: set_parameterf_def setup_view_def)
  with assms show "machine_inv (set_parameterf parameter v mb)"
    by (auto simp: machine_inv_def inv_parts set_parameterf_def clamp_volume_def Let_def)
qed

text \<open>An operation on the board that keeps the settings, the memory map and the ring.\<close>

lemma on_board_inv:
  assumes "machine_inv mb" and "settled (snd (mb_host mb)) (f (snd (mb_host mb)))"
  shows "machine_inv (on_board f mb)"
proof -
  have "setup_ok (on_board f mb) = setup_ok mb"
    using assms(2) by (intro setup_ok_view on_board_view) (simp add: settled_def)
  moreover have "frame_rate (f (snd (mb_host mb))) = frame_rate (snd (mb_host mb))"
    using assms(2) by (intro frame_rate_fixed) (simp add: settled_def)
  ultimately show ?thesis
    using assms by (simp add: machine_inv_def inv_parts settled_def)
qed

lemma inv_pal_ok: "machine_inv mb \<Longrightarrow> pal_ok (snd (mb_host mb))"
  by (simp add: machine_inv_def memory_ok_def)

lemma pal_ok_parts [simp]:
  "pal_ok (b\<lparr>b_fdc := x\<rparr>) = pal_ok b" "pal_ok (b\<lparr>b_kbd := k\<rparr>) = pal_ok b" "pal_ok (b\<lparr>cpc_flags := n\<rparr>) = pal_ok b"
  by (simp_all add: pal_ok_def present_def cong: bank.case_cong)

lemma board_events_inv:
  assumes "machine_inv mb"
  shows "machine_inv (snd (insert_disk_into gz L d f mb))" "machine_inv (remove_disk_from L d mb)"
    "machine_inv (on_kbd k mb)"
    "machine_inv (on_board play mb)" "machine_inv (on_board pause mb)"
  using assms inv_pal_ok [OF assms]
  by (auto simp: insert_disk_into_def remove_disk_from_def Let_def settled_def fixed_settings_def play_def pause_def
        on_kbd_def
      intro!: on_board_inv split: prod.split option.split sum.split)

lemma create_disk_inv: "machine_inv mb \<Longrightarrow> machine_inv (snd (snd (create_disk_into gz L d f fs mb)))"
  using board_events_inv(1) [of mb gz L d f]
  by (auto simp: create_disk_into_def Let_def split: prod.split option.split)

lemma input_inv:
  assumes "machine_inv mb"
  shows "machine_inv (mb_key_press keysym mb)" "machine_inv (mb_key_release keysym mb)" "machine_inv (mb_button_press button mb)"
    "machine_inv (mb_button_release button mb)" "machine_inv (mb_motion_notify motion mb)"
  using assms by (simp_all add: mb_key_press_def mb_key_release_def mb_button_press_def mb_button_release_def mb_motion_notify_def
      board_events_inv split: option.split)

lemma windows_inv:
  assumes "machine_inv mb"
  shows "machine_inv (on_create_window mk bpp mb)" "machine_inv (on_delete_window mb)" "machine_inv (on_resize_window event mb)"
proof -
  have types: "d_monitor (dpy_realize mk r d) = d_monitor d" "d_refresh (dpy_realize mk r d) = d_refresh d"
    "d_monitor (dpy_unrealize d) = d_monitor d" "d_refresh (dpy_unrealize d) = d_refresh d"
    "d_monitor (dpy_resize w k d) = d_monitor d" "d_refresh (dpy_resize w k d) = d_refresh d" for r w k d
    by (simp_all add: dpy_realize_def dpy_unrealize_def dpy_resize_def recompute_visible_area_def Let_def)
  have "setup_ok (on_create_window mk bpp mb) = setup_ok mb" "setup_ok (on_delete_window mb) = setup_ok mb"
    "setup_ok (on_resize_window event mb) = setup_ok mb"
    by (rule setup_ok_view, simp add: on_create_window_def on_delete_window_def on_resize_window_def setup_view_def types Let_def
        split: option.split)+
  moreover have "rest_view (on_create_window mk bpp mb) = rest_view mb" "rest_view (on_delete_window mb) = rest_view mb"
    "rest_view (on_resize_window event mb) = rest_view mb"
    by (simp_all add: on_create_window_def on_delete_window_def on_resize_window_def Let_def split: option.split)
  ultimately show "machine_inv (on_create_window mk bpp mb)" "machine_inv (on_delete_window mb)" "machine_inv (on_resize_window event mb)"
    using inv_setup_ok [OF assms] rest_view_inv [OF assms] by simp_all
qed

section \<open>Snapshots and configuration\<close>

lemma mb_load_snapshot_inv:
  assumes "machine_inv mb"
  shows "machine_inv (snd (mb_load_snapshot L fs f mb))"
proof -
  let ?r = "mainboard_reset L mb" and ?h = "snd (load_snapshot L f fs (mb_host mb))"
  have r: "machine_inv ?r"
    using assms by (intro reset_inv) (simp_all add: machine_inv_def)
  have "kept (snd (mb_host ?r)) (snd ?h)"
    using load_snapshot_kept [of L "mb_host mb" f fs] by simp
  then have s: "settled (snd (mb_host ?r)) (snd ?h)" by (rule kept_settled)
  have "mb_load_snapshot L fs f mb = (fst (load_snapshot L f fs (mb_host mb)), ?r\<lparr>mb_host := ?h\<rparr>)"
    by (simp add: mb_load_snapshot_def case_prod_unfold Let_def)
  moreover have "machine_inv (on_board (\<lambda>_. snd ?h) ?r)"
    using r s by (rule on_board_inv)
  then have "machine_inv (?r\<lparr>mb_host := ?h\<rparr>)"
    by (simp add: on_board_def machine_inv_def setup_ok_defs inv_parts Let_def)
  ultimately show ?thesis by simp
qed

lemma volume_seq:
  assumes "volume (mb_mixer (snd r)) = v" and "\<And>mb. volume (mb_mixer (snd (f mb))) = volume (mb_mixer mb)"
  shows "volume (mb_mixer (snd (seq r f))) = v"
  using assms by (auto simp: seq_def split: prod.split option.split)

lemma volume_setters:
  "volume (mb_mixer (snd (set_company_name L s mb))) = volume (mb_mixer mb)"
  "volume (mb_mixer (snd (set_machine_type L romdir fs s mb))) = volume (mb_mixer mb)"
  "volume (mb_mixer (snd (set_refresh_rate L s mb))) = volume (mb_mixer mb)"
  "volume (mb_mixer (snd (set_monitor_type s mb))) = volume (mb_mixer mb)"
  "volume (mb_mixer (snd (set_keyboard_type s mb))) = volume (mb_mixer mb)"
  "volume (mb_mixer (snd (set_renderer_type s mb))) = volume (mb_mixer mb)"
  "volume (mb_mixer (snd (set_options st mb))) = volume (mb_mixer mb)"
proof -
  have reset: "volume (mb_mixer (mainboard_reset L mb)) = volume (mb_mixer mb)" for L :: "'a libdsk" and mb
    by (simp add: mainboard_reset_def mixer_reset_def Let_def)
  have "volume (mb_mixer mb') = volume (mb_mixer mb)" if "resets L mb mb'" for L mb and mb' :: "'a mainboard"
    using that reset by (auto simp: resets_def)
  then show "volume (mb_mixer (snd (set_company_name L s mb))) = volume (mb_mixer mb)"
    "volume (mb_mixer (snd (set_machine_type L romdir fs s mb))) = volume (mb_mixer mb)"
    "volume (mb_mixer (snd (set_refresh_rate L s mb))) = volume (mb_mixer mb)"
    using setters_reset by blast+
  show "volume (mb_mixer (snd (set_monitor_type s mb))) = volume (mb_mixer mb)"
    "volume (mb_mixer (snd (set_keyboard_type s mb))) = volume (mb_mixer mb)"
    "volume (mb_mixer (snd (set_renderer_type s mb))) = volume (mb_mixer mb)"
    using setters_rest [of s mb] by (simp_all add: rest_view_def Let_def)
  show "volume (mb_mixer (snd (set_options st mb))) = volume (mb_mixer mb)"
    by (simp add: set_options_def)
qed

lemma volume_init: "volume (mb_mixer (snd (init_machine L romdir fs st mb))) = volume (mb_mixer mb)"
  unfolding init_machine_def Let_def by (intro volume_seq volume_setters)

lemma configure_inv:
  assumes "setup_ok mb" "output_ok mb"
  shows "machine_inv (snd (configure gz L romdir fs st mb))"
proof -
  obtain e m where m: "init_machine L romdir fs st mb = (e, m)" by fastforce
  have ok: "setup_ok m" "output_ok m"
    using init_machine_ok [OF assms(1), of L romdir fs st] volume_init [of L romdir fs st mb] assms(2)
    by (simp_all add: m output_ok_def)
  let ?m = "on_board (load_expansions_roms romdir fs (opt_roms st)) (on_board (load_system_roms romdir fs (opt_sysrom st)) m)"
  have "machine_inv (mainboard_reset L m)" using ok by (rule reset_inv)
  moreover have "machine_inv (mainboard_reset L ?m)"
    using ok by (intro reset_inv) (simp_all add: output_ok_def)
  ultimately show ?thesis
    by (cases e) (simp_all add: configure_def m Let_def mb_load_snapshot_inv board_events_inv
        insert_disk_into_drive0_def insert_disk_into_drive1_def)
qed

lemma create_inv: "machine_inv (mainboard_create gz L romdir fs st mb)"
  unfolding mainboard_create_def
  by (rule configure_inv) (simp_all add: construct_ok, simp add: output_ok_def mainboard_construct_def mixer_construct_def
      Let_def case_prod_unfold)

section \<open>Frames and audio\<close>

lemma update_stats_parts:
  "mb_setup (update_stats mb) = mb_setup mb" "mb_host (update_stats mb) = mb_host mb" "frame_time (update_stats mb) = frame_time mb"
  "mb_dpy (update_stats mb) = mb_dpy mb" "mb_keyboard (update_stats mb) = mb_keyboard mb" "mb_mixer (update_stats mb) = mb_mixer mb"
  "wall_clock (update_stats mb) = wall_clock mb" "deadline (mb_clock (update_stats mb)) = deadline (mb_clock mb)"
  "frame_count (mb_stats (update_stats mb)) = 0" "frame_drawn (mb_stats (update_stats mb)) = 0"
  "currtime (mb_clock (update_stats mb)) = wall_clock mb (time_reads mb)"
  by (simp_all add: update_stats_def gettimeofday_def Let_def)

lemma count_frame_parts:
  "mb_setup (count_frame k mb) = mb_setup mb" "mb_host (count_frame k mb) = mb_host mb" "frame_time (count_frame k mb) = frame_time mb"
  "mb_dpy (count_frame k mb) = mb_dpy mb" "mb_keyboard (count_frame k mb) = mb_keyboard mb" "mb_mixer (count_frame k mb) = mb_mixer mb"
  "wall_clock (count_frame k mb) = wall_clock mb" "deadline (mb_clock (count_frame k mb)) = deadline (mb_clock mb)"
  by (simp_all add: count_frame_def update_stats_parts Let_def)

lemma count_frame_currtime:
  "currtime (mb_clock mb) = wall_clock mb n \<Longrightarrow> \<exists>n. currtime (mb_clock (count_frame k mb)) = wall_clock mb n"
  by (auto simp: count_frame_def update_stats_parts Let_def)

lemma count_frame_stats:
  assumes "stats_ok mb"
  shows "stats_ok (count_frame k mb)"
proof -
  let ?n = "frame_count (mb_stats mb)" and ?d = "frame_drawn (mb_stats mb)" and ?r = "frame_rate (snd (mb_host mb))"
  have le: "?d \<le> ?n" "?n < ?r" using assms by (simp_all add: stats_ok_def)
  moreover have "unat (?n + 1) = unat ?n + 1" "unat (?d + 1) = unat ?d + 1"
    using le unsigned_less [of ?r, where 'a = nat] by (simp_all add: word_less_nat_alt word_le_nat_alt unat_word_ariths)
  ultimately have "?n + 1 \<noteq> ?r \<Longrightarrow> ?n + 1 < ?r" "?d + 1 \<le> ?n + 1" "?d \<le> ?n + 1" "0 < ?r"
    by (auto simp: word_less_nat_alt word_le_nat_alt word_unat_eq_iff)
  then show ?thesis
    by (auto simp: stats_ok_def count_frame_parts(2)) (auto simp: count_frame_def update_stats_parts Let_def)
qed

lemma add_usec_normal: "0 \<le> n \<Longrightarrow> n < 1000000 \<Longrightarrow> normal_time t \<Longrightarrow> normal_time (add_usec n t)"
  by (simp add: normal_time_def add_usec_def Let_def)

lemma frame_time_bound:
  assumes "setup_ok mb"
  shows "0 \<le> int (unat (frame_time mb div su_speedup (mb_setup mb)))" "int (unat (frame_time mb div su_speedup (mb_setup mb))) < 1000000"
proof -
  have "unat (frame_time mb) \<le> 20000"
    using assms by (auto simp: setup_ok_def rate_ok_def Let_def rate_values_def split: refresh_rate.splits if_splits)
  then have "unat (frame_time mb div su_speedup (mb_setup mb)) \<le> 20000"
    unfolding unat_div_distrib by (rule order_trans [OF div_le_dividend])
  then show "int (unat (frame_time mb div su_speedup (mb_setup mb))) < 1000000" by linarith
qed simp

text \<open>A frame: the parts that the statistics and the clock leave alone, and the deadline.\<close>

lemma next_frame_parts:
  assumes "next_frame mb = (timeout, drawn, mb')"
  defines "time \<equiv> int (unat (frame_time mb div su_speedup (mb_setup mb)))"
  shows "setup_view mb' = setup_view mb" "mb_host mb' = mb_host mb" "mb_mixer mb' = mb_mixer mb" "wall_clock mb' = wall_clock mb"
    and "stats_ok mb \<Longrightarrow> stats_ok mb'"
    and "deadline (mb_clock mb') = add_usec time (deadline (mb_clock mb)) \<or> (\<exists>n. deadline (mb_clock mb') = add_usec time (wall_clock mb n))"
proof -
  define m1 where "m1 = mb\<lparr>mb_clock := (mb_clock mb)\<lparr>deadline := add_usec time (deadline (mb_clock mb))\<rparr>\<rparr>"
  define m2 where "m2 = (snd (gettimeofday m1))\<lparr>mb_clock := (mb_clock m1)\<lparr>currtime := fst (gettimeofday m1)\<rparr>\<rparr>"
  define m3 where "m3 = count_frame (skip_frame m2) m2"
  have m2: "setup_view m2 = setup_view mb" "mb_host m2 = mb_host mb" "mb_mixer m2 = mb_mixer mb" "wall_clock m2 = wall_clock mb"
    "mb_stats m2 = mb_stats mb" "deadline (mb_clock m2) = add_usec time (deadline (mb_clock mb))"
    "currtime (mb_clock m2) = wall_clock m2 (time_reads mb)"
    by (simp_all add: m2_def m1_def gettimeofday_def setup_view_def)
  have m3: "setup_view m3 = setup_view m2" "mb_host m3 = mb_host m2" "mb_mixer m3 = mb_mixer m2" "wall_clock m3 = wall_clock m2"
    "deadline (mb_clock m3) = deadline (mb_clock m2)"
    by (simp_all add: m3_def count_frame_parts setup_view_def)
  obtain n where n: "currtime (mb_clock m3) = wall_clock m2 n"
    using count_frame_currtime [OF m2(7)] unfolding m3_def by blast
  have stats: "stats_ok mb \<Longrightarrow> stats_ok m3"
    unfolding m3_def by (intro count_frame_stats) (simp add: stats_ok_def m2)
  have mb': "mb' = m3 \<or> mb' = m3\<lparr>mb_clock := (mb_clock m3)\<lparr>deadline := add_usec time (currtime (mb_clock m3))\<rparr>\<rparr>"
    using assms(1) unfolding m3_def m2_def m1_def time_def
    by (auto simp: next_frame_def Let_def gettimeofday_def split: if_splits)
  show "setup_view mb' = setup_view mb" "mb_host mb' = mb_host mb" "mb_mixer mb' = mb_mixer mb" "wall_clock mb' = wall_clock mb"
    "stats_ok mb \<Longrightarrow> stats_ok mb'"
    "deadline (mb_clock mb') = add_usec time (deadline (mb_clock mb)) \<or> (\<exists>n. deadline (mb_clock mb') = add_usec time (wall_clock mb n))"
    using mb' m2 m3 n stats by (auto simp: setup_view_def stats_ok_def)
qed

lemma next_frame_inv:
  assumes "machine_inv mb" "next_frame mb = (timeout, drawn, mb')"
  shows "machine_inv mb'"
proof -
  note parts = next_frame_parts [OF assms(2)]
  have ok: "setup_ok mb" using assms(1) by (rule inv_setup_ok)
  have "setup_ok mb'" using setup_ok_view [OF parts(1)] ok by simp
  moreover have "deadline_ok mb'"
    using assms(1) parts(6) add_usec_normal [OF frame_time_bound [OF ok]]
    by (auto simp: machine_inv_def deadline_ok_def parts(4))
  moreover have "stats_ok mb'" using assms(1) by (intro parts(5)) (simp add: machine_inv_def)
  ultimately show ?thesis using assms(1) by (simp add: machine_inv_def memory_ok_def output_ok_def parts)
qed

lemma on_clock_inv:
  assumes "machine_inv mb" "on_clock L scratch mb = Some (timeout, drawn, mb')"
  shows "machine_inv mb'"
proof -
  obtain h where h: "board_clock L scratch (mb_host mb) = Some h" "next_frame (mb\<lparr>mb_host := h\<rparr>) = (timeout, drawn, mb')"
    using assms(2) by (auto simp: on_clock_def)
  have "settled (snd (mb_host mb)) (snd h)"
    using h(1) by (rule board_clock_settled) (simp add: settled_self inv_pal_ok [OF assms(1)])
  then have "machine_inv (on_board (\<lambda>_. snd h) mb)" using assms(1) by (intro on_board_inv)
  then have "machine_inv (mb\<lparr>mb_host := h\<rparr>)"
    by (simp add: on_board_def machine_inv_def setup_ok_defs inv_parts Let_def)
  from next_frame_inv [OF this h(2)] show ?thesis .
qed

text \<open>The samples that an output of \<open>count\<close> frames takes are the oldest ones of the ring.\<close>

lemma process_some:
  assumes "mix_for channels = Some mix" and "process channels count mb = (frames, mb')"
  shows "\<exists>a m. render_frames mix (unat count) (b_audio (snd (mb_host mb)), mb_mixer mb) = (frames, a, m) \<and>
    mb' = on_board (\<lambda>b. b\<lparr>b_audio := a\<rparr>) (mb\<lparr>mb_mixer := m\<rparr>)"
  using assms by (auto simp: process_def Let_def split: prod.splits)

lemma mix_volume:
  assumes "mix_for channels = Some mix"
  shows "volume (snd (mix c m)) = volume m"
proof -
  have "volume (snd (dc_block k x m)) = volume m" for k x and m by (simp add: dc_block_def Let_def)
  then show ?thesis
    using assms by (auto simp: mix_for_def mix_mono_def mix_stereo_def mix_surround40_def Let_def case_prod_unfold split: if_splits)
qed

lemma render_frames_volume:
  assumes "mix_for channels = Some mix"
  shows "volume (snd (snd (render_frames mix n (a, m)))) = volume m"
proof (induction n arbitrary: a m)
  case (Suc n)
  then show ?case by (simp add: case_prod_unfold Let_def mix_volume [OF assms])
qed simp

lemma process_inv: "machine_inv mb \<Longrightarrow> machine_inv (snd (process channels count mb))"
proof (cases "mix_for channels")
  case (Some mix)
  assume inv: "machine_inv mb"
  obtain a m where r: "render_frames mix (unat count) (b_audio (snd (mb_host mb)), mb_mixer mb) = (fst (process channels count mb), a, m)"
    "snd (process channels count mb) = on_board (\<lambda>b. b\<lparr>b_audio := a\<rparr>) (mb\<lparr>mb_mixer := m\<rparr>)"
    using process_some [OF Some, of count mb] by (metis prod.collapse)
  have "ring_ok (b_audio (snd (mb_host mb)))" using inv by (simp add: machine_inv_def memory_ok_def)
  from render_frames_queue(3) [OF this r(1)] have "ring_ok a" .
  moreover have "volume m = volume (mb_mixer mb)"
    using render_frames_volume [OF Some, of "unat count" "b_audio (snd (mb_host mb))" "mb_mixer mb"] by (simp add: r(1))
  then have "machine_inv (mb\<lparr>mb_mixer := m\<rparr>)"
    using inv by (simp add: machine_inv_def setup_ok_defs inv_parts Let_def)
  ultimately show ?thesis
    unfolding r(2) using inv_pal_ok [OF inv] by (intro on_board_inv) (simp_all add: settled_def fixed_settings_def)
qed (simp add: process_def)

section \<open>The machine, whatever happens\<close>

inductive reached :: "'d mainboard \<Rightarrow> bool" where
  create: "reached (mainboard_create gz L romdir fs st mb)"
| company: "reached mb \<Longrightarrow> reached (snd (set_company_name L s mb))"
| machine: "reached mb \<Longrightarrow> reached (snd (set_machine_type L romdir fs s mb))"
| monitor: "reached mb \<Longrightarrow> reached (snd (set_monitor_type s mb))"
| refresh: "reached mb \<Longrightarrow> reached (snd (set_refresh_rate L s mb))"
| keyboard: "reached mb \<Longrightarrow> reached (snd (set_keyboard_type s mb))"
| renderer: "reached mb \<Longrightarrow> reached (snd (set_renderer_type s mb))"
| parameterb: "reached mb \<Longrightarrow> reached (set_parameterb parameter x mb)"
| parameterf: "reached mb \<Longrightarrow> reached (set_parameterf parameter v mb)"
| reset: "reached mb \<Longrightarrow> reached (mainboard_reset L mb)"
| play: "reached mb \<Longrightarrow> reached (on_board play mb)"
| pause: "reached mb \<Longrightarrow> reached (on_board pause mb)"
| snapshot: "reached mb \<Longrightarrow> reached (snd (mb_load_snapshot L fs f mb))"
| insert: "reached mb \<Longrightarrow> reached (snd (insert_disk_into gz L d f mb))"
| create_disk: "reached mb \<Longrightarrow> reached (snd (snd (create_disk_into gz L d f fs mb)))"
| remove: "reached mb \<Longrightarrow> reached (remove_disk_from L d mb)"
| create_window: "reached mb \<Longrightarrow> reached (on_create_window mk bpp mb)"
| delete_window: "reached mb \<Longrightarrow> reached (on_delete_window mb)"
| resize_window: "reached mb \<Longrightarrow> reached (on_resize_window event mb)"
| key_press: "reached mb \<Longrightarrow> reached (mb_key_press keysym mb)"
| key_release: "reached mb \<Longrightarrow> reached (mb_key_release keysym mb)"
| button_press: "reached mb \<Longrightarrow> reached (mb_button_press button mb)"
| button_release: "reached mb \<Longrightarrow> reached (mb_button_release button mb)"
| motion_notify: "reached mb \<Longrightarrow> reached (mb_motion_notify motion mb)"
| audio: "reached mb \<Longrightarrow> reached (snd (process channels count mb))"
| frame: "reached mb \<Longrightarrow> on_clock L scratch mb = Some (timeout, drawn, mb') \<Longrightarrow> reached mb'"

lemma reset_keeps_inv: "machine_inv mb \<Longrightarrow> machine_inv (mainboard_reset L mb)"
  by (rule reset_inv) (simp_all add: machine_inv_def)

lemma reached_inv: "reached mb \<Longrightarrow> machine_inv mb"
  by (induction rule: reached.induct)
     (simp_all add: create_inv setters_inv other_setters_inv set_parameter_inv reset_keeps_inv board_events_inv input_inv create_disk_inv
        mb_load_snapshot_inv windows_inv process_inv on_clock_inv)

text \<open>
  C3: whatever is done to a machine (settings, parameters, snapshots, discs, windows, keys, resets,
  audio and frames, in any order), its setup agrees with the board: the links on the board are those
  of the manufacturer and of the refresh rate, the frame has the rate and the time of the refresh
  rate, and the memory suffices for the machine type; every quarter of the address space shows a
  bank that is plugged in and is written to a RAM bank; the indices of the audio ring stay within
  it; the volume stays between 0 and 1; no more frames are drawn than counted, fewer than the frame
  rate; and the deadline of the next frame has its microseconds below a million, if the wall clock
  answers so.
\<close>

theorem machine_keeps_invariant:
  assumes "reached mb"
  shows "(let su = mb_setup mb; b = snd (mb_host mb); a = b_audio b in
    (su_company_name su \<noteq> COMPANY_UNKNOWN \<longrightarrow> company_links (su_company_name su) = Some (lnk_lk3 b, lnk_lk2 b, lnk_lk1 b)) \<and>
    rate_values (if su_refresh_rate su = REFRESH_UNKNOWN then RATE_50HZ else su_refresh_rate su) = Some (frame_rate b, frame_time mb, lnk_lk4 b) \<and>
    (su_machine_type su = CPC6128 \<longrightarrow> memory_size b = MEMORY_128K) \<and>
    (su_machine_type su \<in> {CPC464, CPC664} \<longrightarrow> memory_size b \<in> {MEMORY_64K, MEMORY_128K}) \<and>
    (\<forall>i < 4. present b (pal_rd b i) \<and> is_ram (pal_wr b i)) \<and>
    a_rd_index a < SND_BUFSIZE \<and> a_wr_index a < SND_BUFSIZE \<and>
    0 \<le> volume (mb_mixer mb) \<and> volume (mb_mixer mb) \<le> 1 \<and>
    frame_drawn (mb_stats mb) \<le> frame_count (mb_stats mb) \<and> frame_count (mb_stats mb) < frame_rate b \<and>
    ((\<forall>n. 0 \<le> tv_usec (wall_clock mb n) \<and> tv_usec (wall_clock mb n) < 1000000) \<longrightarrow>
      0 \<le> tv_usec (deadline (mb_clock mb)) \<and> tv_usec (deadline (mb_clock mb)) < 1000000))"
proof -
  have inv: "machine_inv mb" using assms by (rule reached_inv)
  then have "a_rd_index (b_audio (snd (mb_host mb))) < SND_BUFSIZE" "a_wr_index (b_audio (snd (mb_host mb))) < SND_BUFSIZE"
    by (simp_all add: machine_inv_def memory_ok_def ring_ok_def word_less_nat_alt)
  with inv show ?thesis
    by (auto simp: machine_inv_def setup_ok_defs memory_ok_def output_ok_def stats_ok_def pal_ok_def deadline_ok_def normal_time_def Let_def)
qed

text \<open>A machine on which this applies: a Schneider machine made from the default settings.\<close>

definition bench_settings :: settings where
  "bench_settings = \<lparr>opt_company = ''default'', opt_machine = ''default'', opt_monitor = ''default'', opt_refresh = ''default'',
     opt_keyboard = ''default'', opt_memory = ''default'', opt_renderer = ''default'', opt_sysrom = ''{not-set}'',
     opt_roms = replicate 16 ''{not-set}'', opt_drive0 = ''{not-set}'', opt_drive1 = ''{not-set}'', opt_snapshot = ''{not-set}'',
     opt_speedup = ''1'', opt_xshm = True, opt_crt_emulation = True\<rparr>"

definition blank_mainboard :: "unit mainboard" where
  "blank_mainboard = \<lparr>mb_setup = setup_construct, mb_stats = stats_construct,
     mb_clock = \<lparr>currtime = \<lparr>tv_sec = 0, tv_usec = 0\<rparr>, deadline = \<lparr>tv_sec = 0, tv_usec = 0\<rparr>, proftime = \<lparr>tv_sec = 0, tv_usec = 0\<rparr>\<rparr>,
     render_func = RENDER_NULL, mb_mixer = mixer_construct, frame_time = 20000,
     mb_dpy = \<lparr>d_monitor = MONITOR_DEFAULT, d_refresh = REFRESH_DEFAULT, palette0 = replicate 32 0, palette1 = replicate 32 0,
       viewport_w = 0, viewport_h = 0, d_renderer = None\<rparr>,
     mb_keyboard = KEYBOARD_DEFAULT, mb_host = (zero_state, raw_board 0),
     wall_clock = \<lambda>n. \<lparr>tv_sec = int n, tv_usec = 0\<rparr>, time_reads = 0, sample_rate = 44100\<rparr>"

definition schneider :: "unit mainboard" where
  "schneider = snd (set_company_name bench_lib ''Schneider''
     (mainboard_create (False, False, False) bench_lib ''roms'' Map.empty bench_settings blank_mainboard))"

lemma schneider_reached: "reached schneider"
  unfolding schneider_def by (intro reached.company reached.create)

lemma schneider_company: "su_company_name (mb_setup schneider) = SCHNEIDER"
  by (simp add: schneider_def set_company_name_def company_name_from_string_def value_from_string_def c_str_def
      company_name_table_def find_label.simps strcasecmp_eq_def to_lower_def Let_def company_links_def)

theorem machine_keeps_invariant_witness:
  "company_links SCHNEIDER = Some (lnk_lk3 (snd (mb_host schneider)), lnk_lk2 (snd (mb_host schneider)), lnk_lk1 (snd (mb_host schneider)))"
  using machine_keeps_invariant [OF schneider_reached] by (simp add: schneider_company Let_def)

section \<open>What a program sees of the settings\<close>

text \<open>The number of a manufacturer, as the links code it.\<close>

fun company_number :: "company_name \<Rightarrow> nat" where
  "company_number ISP = 0" | "company_number TRIUMPH = 1" | "company_number SAISHO = 2" | "company_number SOLAVOX = 3"
| "company_number AWA = 4" | "company_number SCHNEIDER = 5" | "company_number ORION = 6" | "company_number AMSTRAD = 7"
| "company_number _ = 7"

lemma port_b_bits:
  fixes h :: "'d host" and s :: ppi_state
  defines "b \<equiv> snd h" and "x \<equiv> fst (ppi_port_b_rd 0 (s, h))"
  shows "bit x 1 = bit (lnk_lk1 b) 0" "bit x 2 = bit (lnk_lk2 b) 0" "bit x 3 = bit (lnk_lk3 b) 0" "bit x 4 = bit (lnk_lk4 b) 0"
proof -
  have one: "bit (1 :: u8) n \<longleftrightarrow> n = 0" for n by (auto simp: bit_1_iff)
  show "bit x 1 = bit (lnk_lk1 b) 0" "bit x 2 = bit (lnk_lk2 b) 0" "bit x 3 = bit (lnk_lk3 b) 0" "bit x 4 = bit (lnk_lk4 b) 0"
    unfolding x_def ppi_port_b_rd_def b_def Let_def snd_conv fst_conv
    by (simp_all only: bit_or_iff bit_and_iff bit_push_bit_iff one) simp_all
qed

lemma in_port_b:
  assumes "dir_b (b_ppi (snd h)) \<noteq> 0"
  shows "fst (cpu_iorq_rd (board_cpu L) 0xf500 y h) = fst (ppi_port_b_rd 0 (b_ppi (snd h), h))"
  using assms by (simp add: board_cpu_def iorq_rd_def iorq_rd_vga_def iorq_rd_vdc_def iorq_rd_ppi_def iorq_rd_fdc_def
      port_function_def on_ppi_def rd_port_b_def board_ppi_def Let_def case_prod_unfold u8_and_ff)

text \<open>After the control word 0x82 port B is an input; the links are as before.\<close>

definition read_port_b :: "'d libdsk \<Rightarrow> 'd host \<Rightarrow> u8" where
  "read_port_b L h = fst (cpu_iorq_rd (board_cpu L) 0xf500 0 (io_out L 0xf700 0x82 h))"

lemma ctrl_82_input: "dir_b (b_ppi (snd (io_out L 0xf700 0x82 h))) \<noteq> 0"
  unfolding ppi_ports
  by (simp add: on_ppi_def board_ppi_def wr_ctrl_p_def turn_a_def turn_b_def turn_c_def ppi_port_a_rd_def ppi_port_b_rd_def
      ppi_port_a_wr_def ppi_port_c_wr_def ppi_illegal_def Let_def case_prod_unfold)

lemma io_out_fixed: "pal_ok (snd h) \<Longrightarrow> fixed_settings (snd (io_out L p x h)) = fixed_settings (snd h)"
proof -
  assume "pal_ok (snd h)"
  then have "kept (snd h) (snd (snd (iorq_wr L p x h)))" by (intro iorq_wr_kept) (simp add: kept_refl)
  then have "frozen (snd (snd (iorq_wr L p x h))) = frozen (snd h)" by (simp add: kept_def)
  from frozen_settings [OF this] show ?thesis by (simp add: board_cpu_def)
qed

text \<open>
  C4: a program that makes port B an input and reads it finds the settings of the machine, whatever
  has happened to the machine before: bits 1 to 3 are the number of the manufacturer, and bit 4 is
  set unless the refresh rate is 60 Hz.
\<close>

theorem program_reads_settings:
  assumes "reached mb" and "su_company_name (mb_setup mb) \<noteq> COMPANY_UNKNOWN"
  shows "(let x = read_port_b L (mb_host mb) in
    company_number (su_company_name (mb_setup mb)) = of_bool (bit x 1) + 2 * of_bool (bit x 2) + 4 * of_bool (bit x 3) \<and>
    (bit x 4 \<longleftrightarrow> su_refresh_rate (mb_setup mb) \<noteq> RATE_60HZ))"
proof -
  let ?b = "snd (mb_host mb)" and ?c = "su_company_name (mb_setup mb)" and ?h = "io_out L 0xf700 0x82 (mb_host mb)"
  have inv: "machine_inv mb" using assms(1) by (rule reached_inv)
  then have ok: "setup_ok mb" by (rule inv_setup_ok)
  then have links: "company_links ?c = Some (lnk_lk3 ?b, lnk_lk2 ?b, lnk_lk1 ?b)"
    using assms(2) by (simp add: setup_ok_def company_ok_def Let_def)
  have rate: "bit (lnk_lk4 ?b) 0 \<longleftrightarrow> su_refresh_rate (mb_setup mb) \<noteq> RATE_60HZ"
    using ok by (auto simp: setup_ok_def rate_ok_def Let_def rate_values_def split: refresh_rate.splits if_splits)
  have same: "lnk_lk1 (snd ?h) = lnk_lk1 ?b" "lnk_lk2 (snd ?h) = lnk_lk2 ?b" "lnk_lk3 (snd ?h) = lnk_lk3 ?b" "lnk_lk4 (snd ?h) = lnk_lk4 ?b"
    using io_out_fixed [OF inv_pal_ok [OF inv], of L "0xf700" "0x82"] by (simp_all add: fixed_settings_def)
  show ?thesis
    unfolding read_port_b_def in_port_b [OF ctrl_82_input] Let_def port_b_bits same
    using links rate by (cases ?c) (auto simp: company_links_def)
qed

theorem program_reads_settings_witness:
  "5 = of_bool (bit (read_port_b bench_lib (mb_host schneider)) 1) + 2 * of_bool (bit (read_port_b bench_lib (mb_host schneider)) 2)
    + (4 :: nat) * of_bool (bit (read_port_b bench_lib (mb_host schneider)) 3)"
  using program_reads_settings [OF schneider_reached, of bench_lib] by (simp add: schneider_company Let_def)

section \<open>The firmware\<close>

definition rom_banks :: "'d board \<Rightarrow> bool" where
  "rom_banks b \<longleftrightarrow> (\<forall>i m. b_rom b i = Some m \<longrightarrow> mem_type m = ROM_BANK) \<and> (\<forall>i m. b_exp b i = Some m \<longrightarrow> mem_type m = ROM_BANK)"

lemma bank_address:
  fixes off :: u16
  assumes "off < 0x4000"
  shows "mem_bank off = 0" "mem_offset off = off" "mem_bank (0xc000 + off) = 3" "mem_offset (0xc000 + off) = off"
proof -
  have bank: "mem_bank a = unat a div 16384 mod 4" and offset: "mem_offset a = of_nat (unat a mod 16384)" for a :: u16
  proof -
    have "drop_bit 14 a AND 0x0003 = take_bit 2 (drop_bit 14 a)" "a AND 0x3fff = take_bit 14 a"
      by (simp_all add: take_bit_eq_mask mask_eq_exp_minus_1)
    then show "mem_bank a = unat a div 16384 mod 4" "mem_offset a = of_nat (unat a mod 16384)"
      by (simp_all add: mem_bank_def mem_offset_def unsigned_take_bit_eq unsigned_drop_bit_eq drop_bit_eq_div take_bit_eq_mod
          word_unat_eq_iff unat_of_nat unat_div_distrib unat_mod_distrib)
  qed
  have u: "unat off < 16384" using assms by (simp add: word_less_nat_alt)
  then have c: "unat (0xc000 + off) = 49152 + unat off" by (simp add: unat_word_ariths)
  have d: "(49152 + k) div 16384 = 3" "(49152 + k) mod 16384 = k" if "k < 16384" for k :: nat
    using that by (intro div_nat_eqI; simp) (simp add: le_mod_geq that)
  show "mem_bank off = 0" "mem_offset off = off" "mem_bank (0xc000 + off) = 3" "mem_offset (0xc000 + off) = off"
    unfolding bank offset c using u by (simp_all add: d)
qed

text \<open>A ROM that is loaded from a file long enough holds the part of the file at the offset.\<close>

lemma mem_load_bytes:
  assumes "fs name = Some e" and "offset + 16384 \<le> length (f_bytes e)" and "off < (0x4000 :: u16)"
  shows "mem_data (snd (mem_load name offset fs m)) off = f_bytes e ! (offset + unat off)"
  using assms by (simp add: mem_load_def fopen_read_def fread_def fseek_set_def file_bytes_def Let_def word_less_nat_alt)

lemma mem_load_type [simp]: "mem_type (snd (mem_load name offset fs m)) = mem_type m"
  by (simp add: mem_load_def Let_def split: option.split)

lemma reset_rom_data:
  assumes "mem_type m = ROM_BANK"
  shows "mem_data (mem_reset m) = mem_data m"
  using assms by (simp add: mem_reset_def)

lemma board_reset_memory:
  "b_rom (snd (board_reset L h)) i = map_option mem_reset (b_rom (snd h) i)"
  "b_exp (snd (board_reset L h)) j = map_option mem_reset (b_exp (snd h) j)"
  "b_vga (snd (board_reset L h)) = vga_reset (b_vga (snd h))" "rom_conf (snd (board_reset L h)) = 0"
  by (simp_all add: board_reset_def Let_def mem_banks_reset_def state_reset_def)

text \<open>The ROMs are visible after a reset, the upper one unless an expansion takes slot 0.\<close>

lemma update_pal_visible:
  assumes "rmr (b_vga b) = 0" "b_rom b 0 \<noteq> None" "b_rom b 1 \<noteq> None"
  shows "pal_rd (update_pal b) 0 = ROM 0"
    and "pal_rd (update_pal b) 3 = (if b_exp b (rom_conf b) \<noteq> None then EXP (rom_conf b) else ROM 1)"
proof -
  have parts: "b_vga (pal_ram b) = b_vga b" "b_rom (pal_ram b) = b_rom b" "b_exp (pal_ram b) = b_exp b" "rom_conf (pal_ram b) = rom_conf b"
    by (simp_all add: pal_ram_def map_ram_def split: option.split)
  show "pal_rd (update_pal b) 0 = ROM 0"
    "pal_rd (update_pal b) 3 = (if b_exp b (rom_conf b) \<noteq> None then EXP (rom_conf b) else ROM 1)"
    using assms by (simp_all add: update_pal_def pal_lower_def pal_upper_def Let_def parts)
qed

lemma board_reset_visible:
  assumes "b_rom (snd h) 0 \<noteq> None" "b_rom (snd h) 1 \<noteq> None" "b_exp (snd h) 0 = None"
  shows "pal_rd (snd (board_reset L h)) 0 = ROM 0" "pal_rd (snd (board_reset L h)) 3 = ROM 1"
  using assms unfolding board_reset_def Let_def snd_conv
  by (simp_all add: update_pal_visible mem_banks_reset_def state_reset_def vga_reset_def)

text \<open>What a firmware file has become once the machine type is set.\<close>

lemma load_rom_bytes:
  assumes "fs (romdir @ ''/'' @ f) = Some e" "offset + 16384 \<le> length (f_bytes e)" "f \<noteq> []" "hd f = CHR ''c'' \<or> hd f = CHR ''a''"
    and "rom_banks b"
  shows "\<exists>m. snd (load_rom i offset romdir fs f b) = b\<lparr>b_rom := (b_rom b)(i \<mapsto> m)\<rparr> \<and> mem_type m = ROM_BANK \<and>
    (\<forall>off < 0x4000. mem_data m off = f_bytes e ! (offset + unat off))"
proof -
  let ?m = "case b_rom b i of Some m \<Rightarrow> m | None \<Rightarrow> \<lparr>mem_type = ROM_BANK, mem_data = \<lambda>_. 0\<rparr>"
  have path: "rom_path romdir f = romdir @ ''/'' @ f" using assms(3,4) by (auto simp: rom_path_def)
  have "mem_type ?m = ROM_BANK" using assms(5) by (auto simp: rom_banks_def split: option.split)
  moreover have "snd (load_rom i offset romdir fs f b) = b\<lparr>b_rom := (b_rom b)(i \<mapsto> snd (mem_load (rom_path romdir f) offset fs ?m))\<rparr>"
    by (simp add: load_rom_def Let_def case_prod_unfold)
  ultimately show ?thesis
    using mem_load_bytes [of fs, OF assms(1,2)] unfolding path by (intro exI [of _ "snd (mem_load (romdir @ ''/'' @ f) offset fs ?m)"]) auto
qed

lemma load_expansion_bytes:
  assumes "fs (romdir @ ''/'' @ f) = Some e" "16384 \<le> length (f_bytes e)" "f \<noteq> []" "hd f = CHR ''c'' \<or> hd f = CHR ''a''"
    and "rom_banks b"
  shows "\<exists>m. load_expansion romdir fs f i b = b\<lparr>b_exp := (b_exp b)(i \<mapsto> m)\<rparr> \<and> mem_type m = ROM_BANK \<and>
    (\<forall>off < 0x4000. mem_data m off = f_bytes e ! unat off)"
proof -
  let ?m = "case b_exp b i of Some m \<Rightarrow> m | None \<Rightarrow> \<lparr>mem_type = ROM_BANK, mem_data = \<lambda>_. 0\<rparr>"
  have path: "rom_path romdir f = romdir @ ''/'' @ f" using assms(3,4) by (auto simp: rom_path_def)
  have "mem_type ?m = ROM_BANK" using assms(5) by (auto simp: rom_banks_def split: option.split)
  then show ?thesis
    using mem_load_bytes [of fs, OF assms(1), of 0] assms(2)
    by (intro exI [of _ "snd (mem_load (romdir @ ''/'' @ f) 0 fs ?m)"]) (simp add: load_expansion_def Let_def path)
qed

lemma rom_banks_parts [simp]:
  "rom_banks (b\<lparr>memory_size := n\<rparr>) = rom_banks b"
  "mem_type m = ROM_BANK \<Longrightarrow> rom_banks b \<Longrightarrow> rom_banks (b\<lparr>b_rom := (b_rom b)(i \<mapsto> m)\<rparr>)"
  by (auto simp: rom_banks_def)

lemma out_rom_select: "snd (io_out L 0xdf00 x (c, b)) = update_pal (b\<lparr>rom_conf := x\<rparr>)"
  by (simp add: board_cpu_def iorq_wr_def iorq_wr_vga_def iorq_wr_vdc_def iorq_wr_rom_def iorq_wr_ppi_def iorq_wr_fdc_def
      on_vga_def vga_setup_rom_def u8_and_ff)

text \<open>
  C5: setting the machine type puts its firmware where programs look for it.  With the files of the
  machine in the directory of the ROMs, the first 16 KiB of the firmware are read at address 0, the
  second at 0xC000, and once a program selects ROM 7 the disc ROM is read at 0xC000.
\<close>

theorem machine_type_installs_firmware:
  fixes mb :: "'d mainboard" and off :: u16
  assumes "machine_type_from_string s = m" "machine_parts m = Some (mem, firmware, amsdos)" "m \<noteq> su_machine_type (mb_setup mb)"
    and "fs (romdir @ ''/'' @ firmware) = Some e" "32768 \<le> length (f_bytes e)"
    and "fs (romdir @ ''/'' @ amsdos) = Some e'" "16384 \<le> length (f_bytes e')"
    and "rom_banks (snd (mb_host mb))" "b_exp (snd (mb_host mb)) 0 = None" and "off < 0x4000"
  shows "(let h = mb_host (snd (set_machine_type L romdir fs s mb)); rd = cpu_mreq_rd (board_cpu L) in
    fst (rd off x h) = f_bytes e ! unat off \<and> fst (rd (0xc000 + off) x h) = f_bytes e ! (16384 + unat off) \<and>
    fst (rd (0xc000 + off) x (io_out L 0xdf00 7 h)) = f_bytes e' ! unat off)"
proof -
  let ?b0 = "snd (mb_host (on_board (\<lambda>b. if word_sless (memory_size b) mem then b\<lparr>memory_size := mem\<rparr> else b)
    (mb\<lparr>mb_setup := (mb_setup mb)\<lparr>su_machine_type := m\<rparr>\<rparr>)))"
  have names: "firmware \<noteq> []" "hd firmware = CHR ''c'' \<or> hd firmware = CHR ''a''" "amsdos \<noteq> []" "hd amsdos = CHR ''c'' \<or> hd amsdos = CHR ''a''"
    and known: "m \<noteq> MACHINE_DEFAULT"
    using assms(2) by (auto simp: machine_parts_def split: machine_type.splits)
  have b0: "rom_banks ?b0" "b_exp ?b0 0 = None" using assms(8,9) by simp_all
  obtain m0 where m0: "snd (load_lower_rom romdir fs firmware ?b0) = ?b0\<lparr>b_rom := (b_rom ?b0)(0 \<mapsto> m0)\<rparr>" "mem_type m0 = ROM_BANK"
    "\<forall>off < 0x4000. mem_data m0 off = f_bytes e ! (0 + unat off)"
    using load_rom_bytes [of fs romdir firmware e 0 ?b0 0, OF assms(4) _ names(1,2) b0(1)] assms(5) unfolding load_lower_rom_def by auto
  let ?b1 = "?b0\<lparr>b_rom := (b_rom ?b0)(0 \<mapsto> m0)\<rparr>"
  have b1: "rom_banks ?b1" using b0(1) m0(2) by (rule rom_banks_parts(2) [rotated])
  obtain m1 where m1: "snd (load_upper_rom romdir fs firmware ?b1) = ?b1\<lparr>b_rom := (b_rom ?b1)(1 \<mapsto> m1)\<rparr>" "mem_type m1 = ROM_BANK"
    "\<forall>off < 0x4000. mem_data m1 off = f_bytes e ! (16384 + unat off)"
    using load_rom_bytes [of fs romdir firmware e "0x4000" ?b1 1, OF assms(4) _ names(1,2) b1] assms(5) unfolding load_upper_rom_def by auto
  let ?b2 = "?b1\<lparr>b_rom := (b_rom ?b1)(1 \<mapsto> m1)\<rparr>"
  have b2: "rom_banks ?b2" using b1 m1(2) by (rule rom_banks_parts(2) [rotated])
  obtain m7 where m7: "load_expansion romdir fs amsdos 7 ?b2 = ?b2\<lparr>b_exp := (b_exp ?b2)(7 \<mapsto> m7)\<rparr>" "mem_type m7 = ROM_BANK"
    "\<forall>off < 0x4000. mem_data m7 off = f_bytes e' ! unat off"
    using load_expansion_bytes [of fs romdir amsdos, OF assms(6,7) names(3,4) b2, of 7] by blast
  let ?b3 = "?b2\<lparr>b_exp := (b_exp ?b2)(7 \<mapsto> m7)\<rparr>"
  let ?h = "mb_host (snd (set_machine_type L romdir fs s mb))"
  have h: "?h = board_reset L (fst (mb_host mb), ?b3)"
    using assms(1-3) known m0(1) m1(1) m7(1)
    by (simp add: set_machine_type_def Let_def)
  obtain c b where r: "?h = (c, b)" by (cases ?h)
  have mem: "b_rom b 0 = Some (mem_reset m0)" "b_rom b 1 = Some (mem_reset m1)" "b_exp b 7 = Some (mem_reset m7)" "rmr (b_vga b) = 0"
    using r board_reset_memory [of L "(fst (mb_host mb), ?b3)"] by (simp_all add: h vga_reset_def)
  have vis: "pal_rd b 0 = ROM 0" "pal_rd b 3 = ROM 1"
    using r board_reset_visible [of "(fst (mb_host mb), ?b3)" L] b0(2) by (simp_all add: h)
  have sel: "pal_rd (update_pal (b\<lparr>rom_conf := 7\<rparr>)) 3 = EXP 7"
    using mem by (subst update_pal_visible(2)) simp_all
  have data: "mem_data (mem_reset m0) = mem_data m0" "mem_data (mem_reset m1) = mem_data m1" "mem_data (mem_reset m7) = mem_data m7"
    using m0(2) m1(2) m7(2) by (simp_all add: reset_rom_data)
  show ?thesis
    unfolding r Let_def using assms(10) m0(3) m1(3) m7(3)
    by (simp add: board_cpu_def [of L] mreq_rd_def bank_address vis bank_byte_def mem mem(2) [unfolded One_nat_def] data case_prod_unfold
        out_rom_select [unfolded board_cpu_def, simplified] sel)
qed

text \<open>A directory in which every file holds 32 KiB of the byte 0x3E.\<close>

definition bench_roms :: file_system where
  "bench_roms = (\<lambda>_. Some \<lparr>f_bytes = replicate 32768 0x3e, f_writable = False\<rparr>)"

theorem machine_type_installs_firmware_witness:
  "fst (cpu_mreq_rd (board_cpu bench_lib) (0xc000 + 5) 0
     (mb_host (snd (set_machine_type bench_lib ''roms'' bench_roms ''CPC6128'' blank_mainboard)))) = 0x3e"
proof -
  have type: "machine_type_from_string ''CPC6128'' = CPC6128"
    by (simp add: machine_type_from_string_def value_from_string_def c_str_def machine_type_table_def find_label.simps
        strcasecmp_eq_def to_lower_def)
  have parts: "machine_parts CPC6128 = Some (MEMORY_128K, ''cpc6128en.rom'', ''amsdos.rom'')" by (simp add: machine_parts_def)
  have diff: "CPC6128 \<noteq> su_machine_type (mb_setup blank_mainboard)" by (simp add: blank_mainboard_def setup_construct_def)
  have banks: "rom_banks (snd (mb_host blank_mainboard))" "b_exp (snd (mb_host blank_mainboard)) 0 = None"
    by (simp_all add: rom_banks_def blank_mainboard_def raw_board_def)
  have found: "bench_roms n = Some \<lparr>f_bytes = replicate 32768 0x3e, f_writable = False\<rparr>" for n by (simp add: bench_roms_def)
  note installed = machine_type_installs_firmware [of "''CPC6128''" CPC6128, OF type parts diff, of bench_roms "''roms''",
      OF found _ found _ banks, of 5 bench_lib 0]
  show ?thesis using installed by (simp add: Let_def del: add_numeral_special)
qed

end
