(* ===== verification/Output_Props.thy ===== *)
theory Output_Props
  imports Machine_Props
begin

text \<open>
  The machine towards its user: the settings it rejects, when the frames are due and which of them
  are drawn, what the audio device plays, and the colours that a monitor shows.
\<close>

unbundle bit_operations_syntax

section \<open>Rejected settings\<close>

text \<open>
  C13: a label that names no manufacturer, machine, monitor, refresh rate, keyboard or renderer is
  answered by its exception and leaves the machine as it was; an unknown manufacturer stops the
  configuration of a machine before anything is set, so that it has no memory and no machine type.
\<close>

theorem unsupported_settings_rejected:
  "(company_name_from_string s = COMPANY_UNKNOWN \<longrightarrow> set_company_name L s mb = (Some ''unsupported company name'', mb)) \<and>
   (machine_type_from_string s = MACHINE_UNKNOWN \<longrightarrow> set_machine_type L romdir fs s mb = (Some ''unsupported machine type'', mb)) \<and>
   (monitor_type_from_string s = MONITOR_UNKNOWN \<longrightarrow> set_monitor_type s mb = (Some ''unsupported monitor type'', mb)) \<and>
   (refresh_rate_from_string s = REFRESH_UNKNOWN \<longrightarrow> set_refresh_rate L s mb = (Some ''unsupported refresh rate'', mb)) \<and>
   (keyboard_type_from_string s = KEYBOARD_UNKNOWN \<longrightarrow> set_keyboard_type s mb = (Some ''unsupported keyboard type'', mb)) \<and>
   (renderer_type_from_string s = RENDERER_UNKNOWN \<longrightarrow> set_renderer_type s mb = (Some ''unsupported renderer type'', mb)) \<and>
   (company_name_from_string (opt_company st) = COMPANY_UNKNOWN \<longrightarrow>
     (let m = mainboard_create gz L romdir fs st mb in
       su_machine_type (mb_setup m) = MACHINE_UNKNOWN \<and> memory_size (snd (mb_host m)) = MEMORY_UNKNOWN))"
proof -
  have "configure gz L romdir fs st m = (Some ''unsupported company name'', mainboard_reset L m)"
    if "company_name_from_string (opt_company st) = COMPANY_UNKNOWN" for m
    using that by (simp add: configure_def init_machine_def set_company_name_def company_links_def seq_def Let_def)
  moreover have "su_machine_type (mb_setup (mainboard_construct mb)) = MACHINE_UNKNOWN"
    "memory_size (snd (mb_host (mainboard_construct mb))) = MEMORY_UNKNOWN"
    by (simp_all add: mainboard_construct_def setup_construct_def state_construct_def Let_def case_prod_unfold)
  moreover have "memory_size (snd (board_reset L (mb_host (mainboard_construct mb)))) = memory_size (snd (mb_host (mainboard_construct mb)))"
    using fixed_settings_reset [of L "mb_host (mainboard_construct mb)"] by (simp add: fixed_settings_def)
  ultimately show ?thesis
    by (simp add: set_company_name_def set_machine_type_def set_monitor_type_def set_refresh_rate_def set_keyboard_type_def
        set_renderer_type_def company_links_def machine_parts_def rate_values_def mainboard_create_def Let_def)
qed

theorem unsupported_settings_rejected_witness:
  "set_machine_type bench_lib ''roms'' bench_roms ''CPC5128'' blank_mainboard = (Some ''unsupported machine type'', blank_mainboard)"
proof -
  have "machine_type_from_string ''CPC5128'' = MACHINE_UNKNOWN"
    by (simp add: machine_type_from_string_def value_from_string_def c_str_def machine_type_table_def find_label.simps
        strcasecmp_eq_def to_lower_def)
  then show ?thesis
    using unsupported_settings_rejected [of "''CPC5128''" bench_lib blank_mainboard "''roms''" bench_roms bench_settings
        "(False, False, False)"] by simp
qed

section \<open>The pace of the frames\<close>

lemma timestamp_add_usec: "timestamp_of (add_usec n t) = timestamp_of t + n"
  by (simp add: timestamp_of_def add_usec_def Let_def)

text \<open>
  C11: the schedule of a frame.  The deadline moves on by the frame time divided by the speed, exactly,
  unless the machine is a second or more behind: then it restarts from the present.  The answer is
  the time that is left, in milliseconds, none when late, and at least one when a period of the
  statistics ends.  A frame is drawn when it is the first of its period, or when the machine is
  neither late nor ten times as fast as the original.
\<close>

theorem frame_schedule:
  assumes "next_frame mb = (timeout, drawn, mb')"
  shows "(let time = int (unat (frame_time mb div su_speedup (mb_setup mb)));
      now = timestamp_of (wall_clock mb (time_reads mb)); due = timestamp_of (deadline (mb_clock mb)) + time;
      wait = (if 1000000 \<le> now - due then time else max 0 (due - now)) div 1000
    in timestamp_of (deadline (mb_clock mb')) =
        (if 1000000 \<le> now - due then timestamp_of (currtime (mb_clock mb')) + time else due) \<and>
      timeout = (if wait = 0 \<and> frame_count (mb_stats mb') = 0 then 1 else wait) \<and>
      (drawn \<longleftrightarrow> frame_count (mb_stats mb) = 0 \<or> (su_speedup (mb_setup mb) < 10 \<and> now \<le> due)))"
proof -
  define time where "time = int (unat (frame_time mb div su_speedup (mb_setup mb)))"
  define m2 where "m2 = mb\<lparr>time_reads := Suc (time_reads mb), mb_clock := (mb_clock mb)
    \<lparr>deadline := add_usec time (deadline (mb_clock mb)), currtime := wall_clock mb (time_reads mb)\<rparr>\<rparr>"
  define due where "due = timestamp_of (deadline (mb_clock mb)) + time"
  define now where "now = timestamp_of (wall_clock mb (time_reads mb))"
  have m2: "deadline (mb_clock m2) = add_usec time (deadline (mb_clock mb))" "currtime (mb_clock m2) = wall_clock mb (time_reads mb)"
    "mb_stats m2 = mb_stats mb" "mb_setup m2 = mb_setup mb"
    by (simp_all add: m2_def)
  have frame: "next_frame mb = (let m = count_frame (skip_frame m2) m2;
      (wait, m) = (if 1000000 \<le> now - due \<and> \<not> now \<le> due then (time, m\<lparr>mb_clock := (mb_clock m)\<lparr>deadline := add_usec time (currtime (mb_clock m))\<rparr>\<rparr>)
        else (if now \<le> due then due - now else 0, m));
      wait = wait div 1000
    in (if wait = 0 \<and> frame_count (mb_stats m) = 0 then 1 else wait, \<not> skip_frame m2, m))"
    by (simp add: next_frame_def Let_def gettimeofday_def m2_def time_def due_def now_def timestamp_add_usec split: prod.split)
  have drawn: "\<not> skip_frame m2 \<longleftrightarrow> frame_count (mb_stats mb) = 0 \<or> (su_speedup (mb_setup mb) < 10 \<and> now \<le> due)"
    by (auto simp: skip_frame_def late_def m2 Let_def timestamp_add_usec due_def now_def not_le)
  show ?thesis
    using assms unfolding frame Let_def time_def [symmetric] due_def [symmetric] now_def [symmetric]
    by (auto simp: drawn count_frame_parts m2 timestamp_add_usec due_def max_def split: if_splits)
qed

theorem frame_schedule_witness:
  "\<exists>mb'. next_frame blank_mainboard = (20, True, mb') \<and> timestamp_of (deadline (mb_clock mb')) = 20000"
proof -
  obtain timeout drawn mb' where f: "next_frame blank_mainboard = (timeout, drawn, mb')" by (cases "next_frame blank_mainboard") auto
  have "frame_time blank_mainboard = 20000" "su_speedup (mb_setup blank_mainboard) = 1" "wall_clock blank_mainboard 0 = \<lparr>tv_sec = 0, tv_usec = 0\<rparr>"
    "time_reads blank_mainboard = 0" "frame_count (mb_stats blank_mainboard) = 0" "deadline (mb_clock blank_mainboard) = \<lparr>tv_sec = 0, tv_usec = 0\<rparr>"
    by (simp_all add: blank_mainboard_def setup_construct_def stats_construct_def)
  with frame_schedule [OF f] have "timeout = 20" "drawn = True" "timestamp_of (deadline (mb_clock mb')) = 20000"
    by (simp_all add: Let_def timestamp_of_def)
  with f show ?thesis by auto
qed

section \<open>The audio output\<close>

lemma mix_frame:
  assumes "mix_for channels = Some mix"
  shows "length (fst (mix c m)) = unat channels" "\<forall>x \<in> set (fst (mix c m)). -1 \<le> x \<and> x \<le> 1"
  using assms by (auto simp: mix_for_def mix_mono_def mix_stereo_def mix_surround40_def clamp_sample_def Let_def case_prod_unfold
      split: if_splits)

lemma mix_all_frames:
  assumes "mix_for channels = Some mix"
  shows "length (fst (mix_all mix cs m)) = length cs"
    "\<forall>frame \<in> set (fst (mix_all mix cs m)). length frame = unat channels \<and> (\<forall>x \<in> set frame. -1 \<le> x \<and> x \<le> 1)"
proof (induction cs arbitrary: m)
  case (Cons c cs)
  { case 1 show ?case using Cons.IH(1) by (simp add: case_prod_unfold Let_def) }
  { case 2 show ?case using Cons.IH(2) mix_frame [OF assms] by (simp add: case_prod_unfold Let_def) }
qed simp_all

text \<open>
  C10: the audio device plays the samples of the machine in order, none lost and none twice.  On a
  machine to which anything may have happened before, a request of \<open>count\<close> frames takes the oldest
  \<open>count\<close> samples of the queue that the emulation fills, or all there are, mixes each into one frame
  of as many values as the device has channels, all between -1 and 1, and leaves the rest queued.
\<close>

theorem process_plays_queue:
  assumes "reached mb" and "mix_for channels = Some mix" and "process channels count mb = (frames, mb')"
  shows "(let queue = ring_contents (b_audio (snd (mb_host mb))) in
    frames = fst (mix_all mix (take (unat count) queue) (mb_mixer mb)) \<and>
    ring_contents (b_audio (snd (mb_host mb'))) = drop (unat count) queue \<and>
    length frames = min (unat count) (length queue) \<and>
    (\<forall>frame \<in> set frames. length frame = unat channels \<and> (\<forall>x \<in> set frame. -1 \<le> x \<and> x \<le> 1)))"
proof -
  let ?a = "b_audio (snd (mb_host mb))"
  have ok: "ring_ok ?a" using reached_inv [OF assms(1)] by (simp add: machine_inv_def memory_ok_def)
  obtain a m where r: "render_frames mix (unat count) (?a, mb_mixer mb) = (frames, a, m)"
    "mb' = on_board (\<lambda>b. b\<lparr>b_audio := a\<rparr>) (mb\<lparr>mb_mixer := m\<rparr>)"
    using process_some [OF assms(2,3)] by blast
  note q = render_frames_queue [OF ok r(1)]
  show ?thesis
    unfolding Let_def q(1) using q(2) mix_all_frames [OF assms(2)]
    by (simp add: r(2) min.commute)
qed

text \<open>A machine that has just been reset answers a request with silence.\<close>

theorem process_plays_queue_witness:
  "\<exists>mb'. process 2 10 (mainboard_reset bench_lib schneider) = ([], mb')"
proof -
  let ?m = "mainboard_reset bench_lib schneider"
  have "ring_contents (b_audio (snd (mb_host ?m))) = []"
    by (simp add: mainboard_reset_def board_reset_def mem_banks_reset_def audio_reset_def ring_contents_def ring_length_def
        Let_def case_prod_unfold)
  moreover obtain frames mb' where "process 2 10 ?m = (frames, mb')" by fastforce
  moreover have "mix_for 2 = Some mix_stereo" by (simp add: mix_for_def)
  ultimately show ?thesis
    using process_plays_queue [of ?m 2 mix_stereo 10 frames mb', OF reached.reset [OF schneider_reached]]
    by (simp add: Let_def)
qed

section \<open>The colours of the monitor\<close>

text \<open>
  What the renderer stores for colour \<open>i\<close> of the gate array on a monitor, and on the darker lines of
  the emulated tube.
\<close>

definition shown_pixel :: "renderer \<Rightarrow> monitor_type \<Rightarrow> bool \<Rightarrow> nat \<Rightarrow> u32" where
  "shown_pixel r m dark i = (let c = monitor_color m (color_table ! i); shade = (if dark then darken else id)
     in alloc_color r (shade (ce_r c)) (shade (ce_g c)) (shade (ce_b c)))"

definition shown_pixels :: "renderer \<Rightarrow> monitor_type \<Rightarrow> bool \<Rightarrow> u32 list" where
  "shown_pixels r m dark = map (shown_pixel r m dark) [0..<32]"





lemma length_shown_pixels [simp]: "length (shown_pixels r m dark) = 32"
  by (simp add: shown_pixels_def)




lemma recompute_lengths [simp]:
  "palette0 (recompute_visible_area d) = palette0 d" "palette1 (recompute_visible_area d) = palette1 d"
  by (simp_all add: recompute_visible_area_def)







end
