(* ===== verification/Render_Props.thy ===== *)
theory Render_Props
  imports CPC_Render CPC_Bench
begin

text \<open>
  What the renderers draw.  A line is a sequence of pixels stored from the two pointers onwards
  (\<open>draw\<close>); as long as it fits its line of the image, the steps of a line compose to one sequence.
  A frame is a sequence of such lines, whatever the loop that makes them, and its image is read
  back at every pixel.
\<close>

unbundle bit_operations_syntax

section \<open>Storing a sequence of pixels\<close>

fun store_list :: "nat \<Rightarrow> nat \<Rightarrow> 'p list \<Rightarrow> (nat \<Rightarrow> 'p option) \<Rightarrow> nat \<Rightarrow> 'p option" where
  "store_list sz p [] m = m"
| "store_list sz p (x # xs) m = store_list sz (p + sz) xs (m(p \<mapsto> x))"

lemma store_run_list: "store_run sz p n x m = store_list sz p (replicate n x) m"
  by (induction n arbitrary: p m) auto

lemma store_list_append:
  "store_list sz p (xs @ ys) m = store_list sz (p + sz * length xs) ys (store_list sz p xs m)"
  by (induction xs arbitrary: p m) (auto simp: algebra_simps)

lemma store_list_outside:
  "a < p \<or> p + sz * length xs \<le> a \<Longrightarrow> 0 < sz \<Longrightarrow> store_list sz p xs m a = m a"
  by (induction xs arbitrary: p m) auto

lemma store_list_at:
  "i < length xs \<Longrightarrow> 0 < sz \<Longrightarrow> store_list sz p xs m (p + i * sz) = Some (xs ! i)"
proof (induction xs arbitrary: p m i)
  case (Cons x xs)
  show ?case
  proof (cases i)
    case 0
    with Cons.prems show ?thesis by (simp add: store_list_outside)
  next
    case (Suc j)
    with Cons.prems have "store_list sz (p + sz) xs (m(p \<mapsto> x)) ((p + sz) + j * sz) = Some (xs ! j)"
      by (intro Cons.IH) auto
    with Suc show ?thesis by (simp add: algebra_simps)
  qed
qed simp

lemma store_list_update_commute:
  assumes "a < p" "0 < sz"
  shows "store_list sz p xs (m(a \<mapsto> x)) = (store_list sz p xs m)(a \<mapsto> x)"
  using assms by (induction xs arbitrary: p m) (auto simp: fun_upd_twist)

lemma store_list_commute:
  assumes "p + sz * length xs \<le> q" "0 < sz"
  shows "store_list sz p xs (store_list sz q ys m) = store_list sz q ys (store_list sz p xs m)"
  using assms
proof (induction xs arbitrary: p m)
  case (Cons x xs)
  then have "(store_list sz q ys m)(p \<mapsto> x) = store_list sz q ys (m(p \<mapsto> x))"
    by (simp add: store_list_update_commute)
  with Cons show ?case by simp
qed simp

section \<open>A line\<close>

definition draw :: "'p surface \<Rightarrow> ('p \<times> 'p) list \<Rightarrow> 'p raster \<Rightarrow> 'p raster" where
  "draw S ps r = r
     \<lparr>curr_line := curr_line r + length ps * px_size S,
      next_line := next_line r + length ps * px_size S,
      canvas := store_list (px_size S) (next_line r) (map snd ps)
                  (store_list (px_size S) (curr_line r) (map fst ps) (canvas r))\<rparr>"

text \<open>There is room for \<open>n\<close> pixels before the next line.\<close>

definition room :: "'p surface \<Rightarrow> nat \<Rightarrow> 'p raster \<Rightarrow> bool" where
  "room S n r \<longleftrightarrow> 0 < px_size S \<and> curr_line r + n * px_size S \<le> next_line r"

lemma room_mono: "room S n r \<Longrightarrow> m \<le> n \<Longrightarrow> room S m r"
  unfolding room_def by (metis add_left_mono le_trans mult_le_mono1)

lemma draw_simps [simp]:
  "remaining_lines (draw S ps r) = remaining_lines r" "line_index (draw S ps r) = line_index r"
  "data_iter (draw S ps r) = data_iter r" "curr_line (draw S ps r) = curr_line r + length ps * px_size S"
  "next_line (draw S ps r) = next_line r + length ps * px_size S" "draw S [] r = r"
  by (simp_all add: draw_def)

lemma plot_draw: "plot S n px r = draw S (replicate n px) r"
  by (simp add: plot_def draw_def store_run_list)

lemma draw_draw:
  assumes "room S (length ps + length qs) r"
  shows "draw S qs (draw S ps r) = draw S (ps @ qs) r"
proof -
  let ?sz = "px_size S" let ?c = "curr_line r" let ?n = "next_line r"
  have "store_list ?sz (?c + ?sz * length ps) (map fst qs)
          (store_list ?sz ?n (map snd ps) (store_list ?sz ?c (map fst ps) (canvas r))) =
        store_list ?sz ?n (map snd ps) (store_list ?sz ?c (map fst (ps @ qs)) (canvas r))"
    using assms by (subst store_list_commute) (auto simp: room_def store_list_append algebra_simps)
  then show ?thesis
    by (simp add: draw_def store_list_append algebra_simps)
qed

lemma room_draw: "room S (length ps + n) r \<Longrightarrow> room S n (draw S ps r)"
  by (simp add: room_def algebra_simps)


lemma border_pixels_draw:
  "room S n r \<Longrightarrow> border_pixels S px n r = draw S (replicate n px) r"
proof (induction n arbitrary: r)
  case (Suc n)
  then have "room S n (draw S [px] r)" by (intro room_draw) simp
  then have "border_pixels S px (Suc n) r = draw S (replicate n px) (draw S [px] r)"
    by (simp add: Suc.IH plot_draw)
  also have "\<dots> = draw S ([px] @ replicate n px) r"
    using Suc.prems by (intro draw_draw) simp
  finally show ?case by simp
qed simp

text \<open>The inks of a byte of a mode's table, each with its width.\<close>

fun byte_inks :: "nat \<Rightarrow> u8 \<Rightarrow> nat \<Rightarrow> nat \<Rightarrow> u8 \<Rightarrow> nat list" where
  "byte_inks w msk rep 0 byte = []"
| "byte_inks w msk rep (Suc cnt) byte = replicate rep (unat (byte AND msk)) @ byte_inks w msk rep cnt (drop_bit w byte)"

definition ink_px :: "'p surface \<Rightarrow> vga_scanline \<Rightarrow> nat \<Rightarrow> 'p \<times> 'p" where
  "ink_px S line i = px_of S (sl_color line ! i)"

lemma length_byte_inks [simp]: "length (byte_inks w msk rep cnt byte) = cnt * rep"
  by (induction cnt arbitrary: byte) auto

lemma draw_byte_draw:
  "room S (cnt * rep) r \<Longrightarrow>
   draw_byte S line w msk rep cnt byte r = draw S (map (ink_px S line) (byte_inks w msk rep cnt byte)) r"
proof (induction cnt arbitrary: byte r)
  case (Suc cnt)
  let ?ps = "replicate rep (ink_px S line (unat (byte AND msk)))"
  let ?qs = "map (ink_px S line) (byte_inks w msk rep cnt (drop_bit w byte))"
  from Suc.prems have "room S (cnt * rep) (draw S ?ps r)" by (intro room_draw) simp
  then have "draw_byte S line w msk rep (Suc cnt) byte r = draw S ?qs (draw S ?ps r)"
    by (simp add: Suc.IH plot_draw flip: ink_px_def)
  also have "\<dots> = draw S (?ps @ ?qs) r"
    using Suc.prems by (intro draw_draw) simp
  finally show ?case by simp
qed simp

lemma draw_byte_twice:
  assumes "room S (cnt * rep + cnt * rep) r"
  shows "draw_byte S line w msk rep cnt byte' (draw_byte S line w msk rep cnt byte r) =
         draw S (map (ink_px S line) (byte_inks w msk rep cnt byte @ byte_inks w msk rep cnt byte')) r"
proof -
  let ?ps = "map (ink_px S line) (byte_inks w msk rep cnt byte)"
  have "room S (cnt * rep) r" using assms by (auto simp: room_def algebra_simps)
  moreover have "room S (cnt * rep) (draw S ?ps r)" using assms by (intro room_draw) simp
  ultimately show ?thesis using assms by (simp add: draw_byte_draw draw_draw)
qed

text \<open>The inks of a character: sixteen pixels, eight for each of its two bytes.\<close>

definition char_inks :: "nat \<Rightarrow> vga_state \<Rightarrow> (nat \<Rightarrow> u16 \<Rightarrow> u8) \<Rightarrow> u16 \<Rightarrow> nat list" where
  "char_inks mode vga ram addr =
     (let inks = (\<lambda>k. if mode = 0 then byte_inks 4 0x0f 4 2 (mode0 vga ! unat (video_byte ram addr k))
                      else if mode = 1 then byte_inks 2 0x03 2 4 (mode1 vga ! unat (video_byte ram addr k))
                      else byte_inks 1 0x01 1 8 (mode2 vga ! unat (video_byte ram addr k)))
      in inks 0 @ inks 1)"

lemma length_char_inks [simp]: "length (char_inks mode vga ram addr) = 16"
  by (simp add: char_inks_def Let_def)

lemma draw_char_draw:
  assumes "room S 16 r"
  shows "draw_char0 S (mode0 vga) ram line addr r = draw S (map (ink_px S line) (char_inks 0 vga ram addr)) r"
    and "draw_char1 S (mode1 vga) ram line addr r = draw S (map (ink_px S line) (char_inks 1 vga ram addr)) r"
    and "draw_char2 S (mode2 vga) ram line addr r = draw S (map (ink_px S line) (char_inks 2 vga ram addr)) r"
  using assms
  by (simp_all add: draw_char0_def draw_char1_def draw_char2_def char_inks_def draw_byte_twice del: map_append)

text \<open>The columns that the loop reaches.\<close>

lemma draw_columns_draw:
  assumes step: "\<And>addr r. room S 16 r \<Longrightarrow> dr addr r = draw S (ps addr) r"
    and len: "\<And>addr. length (ps addr) = 16"
    and room: "room S (16 * (min b (nat hsp) - a)) r"
  shows "draw_columns dr addr hsp [a..<b] r = draw S (concat (map (\<lambda>c. ps (addr c)) [a..<min b (nat hsp)])) r"
  using room
proof (induction "b - a" arbitrary: a r)
  case 0
  then show ?case by simp
next
  case (Suc d)
  then have b: "[a..<b] = a # [Suc a..<b]" by (simp add: upt_conv_Cons)
  show ?case
  proof (cases "hsp \<le> int a")
    case True
    with b show ?thesis by simp
  next
    case False
    let ?k = "min b (nat hsp)"
    from False Suc.hyps(2) have "a < ?k" by auto
    then have k: "[a..<?k] = a # [Suc a..<?k]" "a < ?k" by (rule upt_conv_Cons, assumption)
    let ?rest = "concat (map (\<lambda>c. ps (addr c)) [Suc a..<?k])"
    have sum: "16 * (?k - a) = 16 + 16 * (?k - Suc a)"
      unfolding Suc_diff_Suc [OF k(2), symmetric] by simp
    have room16: "room S 16 r" by (rule room_mono [OF Suc.prems]) (simp only: sum)
    from Suc.prems have "room S (16 + 16 * (?k - Suc a)) r" unfolding sum .
    then have "room S (length (ps (addr a)) + 16 * (?k - Suc a)) r" by (simp add: len)
    then have room': "room S (16 * (?k - Suc a)) (draw S (ps (addr a)) r)" by (rule room_draw)
    have len_rest: "length ?rest = 16 * (?k - Suc a)"
      by (simp add: len sum_list_triv length_concat comp_def)
    have "draw_columns dr addr hsp [a..<b] r = draw_columns dr addr hsp [Suc a..<b] (draw S (ps (addr a)) r)"
      using b False room16 by (simp add: step)
    also have "\<dots> = draw S ?rest (draw S (ps (addr a)) r)"
      using Suc.hyps(1) [of "Suc a"] Suc.hyps(2) room' by simp
    also have "\<dots> = draw S (ps (addr a) @ ?rest) r"
      using Suc.prems unfolding sum by (intro draw_draw) (simp add: len len_rest)
    finally show ?thesis using k by simp
  qed
qed


text \<open>A whole line: its inks, drawn from the start of the next two lines of the image.\<close>

definition scan :: "'p surface \<Rightarrow> vga_scanline list \<Rightarrow> (vga_scanline \<Rightarrow> nat list) \<Rightarrow> 'p raster \<Rightarrow> 'p raster" where
  "scan S lines inks r = (let line = lines ! line_index r in
     (draw S (map (ink_px S line) (inks line)) (take_lines S r))\<lparr>line_index := line_index r + 1\<rparr>)"

lemma take_lines_simps [simp]:
  "remaining_lines (take_lines S r) = remaining_lines r - 2" "line_index (take_lines S r) = line_index r"
  "data_iter (take_lines S r) = data_iter r + 2 * bytes_per_line S" "curr_line (take_lines S r) = data_iter r"
  "next_line (take_lines S r) = data_iter r + bytes_per_line S" "canvas (take_lines S r) = canvas r"
  by (simp_all add: take_lines_def)

lemma scan_simps [simp]:
  "remaining_lines (scan S lines inks r) = remaining_lines r - 2" "line_index (scan S lines inks r) = line_index r + 1"
  "data_iter (scan S lines inks r) = data_iter r + 2 * bytes_per_line S"
  by (simp_all add: scan_def Let_def)

lemma room_take_lines: "0 < px_size S \<Longrightarrow> n * px_size S \<le> bytes_per_line S \<Longrightarrow> room S n (take_lines S r)"
  by (simp add: room_def)

definition line_inks :: "vga_state \<Rightarrow> (nat \<Rightarrow> u16 \<Rightarrow> u8) \<Rightarrow> horz_props \<Rightarrow> border_props \<Rightarrow> u32 \<Rightarrow> nat \<Rightarrow> vga_scanline \<Rightarrow> nat list" where
  "line_inks vga ram h b address ras line =
     replicate (nat (b_lft b)) border_ink
     @ (if sl_mode line < 3
        then concat (map (\<lambda>c. char_inks (unat (sl_mode line)) vga ram (char_addr address ras c)) [0..<min (nat (h_hd h)) (nat (h_hsp h))])
        else [])
     @ replicate (nat (b_rgt b)) border_ink"

definition line_width :: "horz_props \<Rightarrow> border_props \<Rightarrow> nat" where
  "line_width h b = nat (b_lft b) + 16 * min (nat (h_hd h)) (nat (h_hsp h)) + nat (b_rgt b)"

lemma length_line_inks: "length (line_inks vga ram h b address ras line) \<le> line_width h b"
  by (auto simp: line_inks_def line_width_def length_concat comp_def sum_list_triv)

lemma mode_below_3: "m < 3 \<longleftrightarrow> m = 0 \<or> m = 1 \<or> m = 2" for m :: u8
proof -
  have "\<forall>m :: u8. m < 3 \<longleftrightarrow> m = 0 \<or> m = 1 \<or> m = 2"
    unfolding all_u8 by code_simp
  then show ?thesis by blast
qed

lemma active_display_draw:
  assumes room: "room S (16 * min (nat (h_hd h)) (nat (h_hsp h))) r"
  shows "active_display S vga ram h address ras line r = draw S (map (ink_px S line)
     (if sl_mode line < 3
      then concat (map (\<lambda>c. char_inks (unat (sl_mode line)) vga ram (char_addr address ras c)) [0..<min (nat (h_hd h)) (nat (h_hsp h))])
      else [])) r"
proof -
  have cols: "draw_columns dr (char_addr address ras) (h_hsp h) [0..<nat (h_hd h)] r =
      draw S (map (ink_px S line) (concat (map (\<lambda>c. char_inks m vga ram (char_addr address ras c)) [0..<min (nat (h_hd h)) (nat (h_hsp h))]))) r"
    if "\<And>addr r. room S 16 r \<Longrightarrow> dr addr r = draw S (map (ink_px S line) (char_inks m vga ram addr)) r" for dr m
    using draw_columns_draw [of S dr "\<lambda>addr. map (ink_px S line) (char_inks m vga ram addr)" "nat (h_hd h)" "h_hsp h" 0 r] that room
    by (simp add: map_concat comp_def)
  show ?thesis
    unfolding active_display_def Let_def mode_below_3
    by (auto simp: cols draw_char_draw)
qed

lemma active_line_scan:
  assumes sz: "0 < px_size S" and fits: "line_width h b * px_size S \<le> bytes_per_line S"
  shows "active_line S vga ram h b address ras r = scan S (scanline vga) (line_inks vga ram h b address ras) r"
proof -
  let ?line = "scanline vga ! line_index r" and ?r = "take_lines S r"
  let ?l = "replicate (nat (b_lft b)) (ink_px S ?line border_ink)" and ?g = "replicate (nat (b_rgt b)) (ink_px S ?line border_ink)"
  let ?k = "16 * min (nat (h_hd h)) (nat (h_hsp h))"
  let ?m = "map (ink_px S ?line) (if sl_mode ?line < 3
      then concat (map (\<lambda>c. char_inks (unat (sl_mode ?line)) vga ram (char_addr address ras c)) [0..<min (nat (h_hd h)) (nat (h_hsp h))])
      else [])"
  have m: "length ?m \<le> ?k" by (auto simp: length_concat comp_def sum_list_triv)
  have room: "room S (length ?l + (?k + length ?g)) ?r"
    using fits by (intro room_take_lines sz) (simp add: line_width_def algebra_simps)
  have room_l: "room S (nat (b_lft b)) ?r" by (rule room_mono [OF room]) simp
  have left: "border_pixels S (ink_px S ?line border_ink) (nat (b_lft b)) ?r = draw S ?l ?r"
    by (rule border_pixels_draw [OF room_l])
  have room1: "room S (?k + length ?g) (draw S ?l ?r)" by (rule room_draw [OF room])
  have "room S ?k (draw S ?l ?r)" by (rule room_mono [OF room1]) simp
  note middle = active_display_draw [OF this]
  have "room S (length ?m + length ?g) (draw S ?l ?r)" by (rule room_mono [OF room1]) (use m in linarith)
  note two = draw_draw [OF this] and room2 = room_draw [OF this]
  have right: "border_pixels S (ink_px S ?line border_ink) (nat (b_rgt b)) (draw S ?m (draw S ?l ?r)) = draw S ?g (draw S ?m (draw S ?l ?r))"
    using room2 by (intro border_pixels_draw) simp
  have "room S (length ?l + length (?m @ ?g)) ?r" by (rule room_mono [OF room]) (use m in simp)
  note all = draw_draw [OF this]
  show ?thesis
    unfolding active_line_def scan_def Let_def line_inks_def ink_px_def [symmetric] take_lines_simps left middle right two all
    by simp
qed

section \<open>A frame\<close>

text \<open>Any of the loops over lines: it goes on as long as two lines of the image are left.\<close>

fun paint :: "('p raster \<Rightarrow> 'p raster) list \<Rightarrow> 'p raster \<Rightarrow> 'p raster" where
  "paint [] r = r"
| "paint (f # fs) r = (if 2 \<le> remaining_lines r then paint fs (f r) else r)"

lemma paint_full: "remaining_lines r < 2 \<Longrightarrow> paint fs r = r"
  by (cases fs) auto

lemma paint_append: "paint (fs @ gs) r = paint gs (paint fs r)"
  by (induction fs arbitrary: r) (auto simp: paint_full)

definition border_inks :: "horz_props \<Rightarrow> vga_scanline \<Rightarrow> nat list" where
  "border_inks h line = replicate (nat (h_ht h * h_cw h)) border_ink"

lemma border_rows_paint:
  assumes sz: "0 < px_size S" and fits: "nat (h_ht h * h_cw h) * px_size S \<le> bytes_per_line S"
  shows "border_rows S lines (nat (h_ht h * h_cw h)) n r = paint (replicate n (scan S lines (border_inks h))) r"
proof (induction n arbitrary: r)
  case (Suc n)
  have "border_pixels S px (nat (h_ht h * h_cw h)) (take_lines S r) = draw S (replicate (nat (h_ht h * h_cw h)) px) (take_lines S r)" for px
    by (intro border_pixels_draw room_take_lines sz fits)
  with Suc show ?case
    by (simp add: scan_def border_inks_def Let_def ink_px_def)
qed simp

lemma raster_loop_paint:
  "raster_loop S vga ram h b address rass r = paint (map (\<lambda>ras. active_line S vga ram h b address ras) rass) r"
  by (induction rass arbitrary: r) simp_all

definition active_inks :: "vga_state \<Rightarrow> (nat \<Rightarrow> u16 \<Rightarrow> u8) \<Rightarrow> horz_props \<Rightarrow> border_props \<Rightarrow> nat \<Rightarrow> u32 \<Rightarrow> nat \<Rightarrow> vga_scanline \<Rightarrow> nat list" where
  "active_inks vga ram h b ch address k =
     line_inks vga ram h b (address + of_nat (k div ch) * of_int (h_hd h)) (k mod ch)"

text \<open>Lists of equal blocks.\<close>

lemma concat_blocks_nth:
  assumes "\<And>c. length (f c) = m" "i < n * m"
  shows "concat (map f [0..<n]) ! i = f (i div m) ! (i mod m)"
  using assms(2)
proof (induction n)
  case (Suc n)
  have len: "length (concat (map f [0..<n])) = n * m"
    by (simp add: length_concat comp_def assms(1) sum_list_triv)
  show ?case
  proof (cases "i < n * m")
    case True
    with Suc.IH len show ?thesis by (simp add: nth_append)
  next
    case False
    then obtain j where j: "i = n * m + j" "j < m"
      using Suc.prems by (metis add.commute add_diff_inverse_nat mult_Suc nat_add_left_cancel_less)
    with len show ?thesis by (simp add: nth_append)
  qed
qed simp

lemma upt_blocks: "0 < m \<Longrightarrow> map g [0..<n * m] = concat (map (\<lambda>i. map (\<lambda>j. g (i * m + j)) [0..<m]) [0..<n])"
  by (rule nth_equalityI) (auto simp: length_concat comp_def sum_list_triv concat_blocks_nth [where m = m])

lemma active_rows_paint:
  assumes ch: "0 < ch"
  shows "active_rows S vga ram h b (int ch) address n r =
    paint (map (\<lambda>k. active_line S vga ram h b (address + of_nat (k div ch) * of_int (h_hd h)) (k mod ch)) [0..<n * ch]) r"
proof (induction n arbitrary: address r)
  case (Suc n)
  let ?f = "\<lambda>address k. active_line S vga ram h b (address + of_nat (k div ch) * of_int (h_hd h)) (k mod ch)"
  have block: "map (?f address) [0..<ch] = map (\<lambda>ras. active_line S vga ram h b address ras) [0..<ch]"
    by simp
  have shift: "?f (address + of_int (h_hd h)) k = ?f address (ch + k)" for k
    using ch by (simp add: algebra_simps)
  have "active_rows S vga ram h b (int ch) address (Suc n) r =
      paint (map (?f (address + of_int (h_hd h))) [0..<n * ch]) (paint (map (?f address) [0..<ch]) r)"
    by (simp add: Suc.IH raster_loop_paint block)
  also have "map (?f (address + of_int (h_hd h))) [0..<n * ch] = map (?f address) [ch..<ch + n * ch]"
    by (rule nth_equalityI) (simp_all add: shift)
  also have "paint \<dots> (paint (map (?f address) [0..<ch]) r) = paint (map (?f address) ([0..<ch] @ [ch..<ch + n * ch])) r"
    by (simp add: paint_append)
  also have "[0..<ch] @ [ch..<ch + n * ch] = [0..<Suc n * ch]"
    by (simp flip: upt_add_eq_append)
  finally show ?case .
qed simp

text \<open>The lines of a frame: the top border, the active display and the bottom border.\<close>

definition frame_lines :: "'d board \<Rightarrow> (vga_scanline \<Rightarrow> nat list) list" where
  "frame_lines brd = (let vdc = b_vdc brd; h = horz_of vdc; v = vert_of vdc; b = borders_of vdc in
     replicate (nat (b_top b)) (border_inks h)
     @ map (active_inks (b_vga brd) (\<lambda>i. mem_data (b_ram brd i)) h b (nat (v_ch v)) (start_address vdc)) [0..<nat (v_vd v) * nat (v_ch v)]
     @ replicate (nat (b_bot b)) (border_inks h))"

text \<open>The lines fit the image: a line ends its synchronisation within the total, and the total fits.\<close>

definition lines_fit :: "'p surface \<Rightarrow> 'd board \<Rightarrow> bool" where
  "lines_fit S brd \<longleftrightarrow> 0 < px_size S \<and> h_hsp (horz_of (b_vdc brd)) \<le> h_ht (horz_of (b_vdc brd))
     \<and> nat (16 * h_ht (horz_of (b_vdc brd))) * px_size S \<le> bytes_per_line S"

lemma horz_bounds:
  "h_cw (horz_of s) = 16" "0 < h_ht (horz_of s)" "0 \<le> h_hd (horz_of s)" "0 \<le> h_hsp (horz_of s)"
  "h_ht (horz_of s) \<le> 64" "h_hd (horz_of s) \<le> 52"
  by (auto simp: horz_of_def word_less_def add_pos_nonneg)

lemma vert_bounds:
  "0 < v_ch (vert_of s)" "0 < v_vt (vert_of s)" "0 \<le> v_vd (vert_of s)" "0 \<le> v_vsp (vert_of s)"
  "v_vt (vert_of s) \<le> 41" "v_vd (vert_of s) \<le> 40" "v_ch (vert_of s) \<le> 256"
  using uint_lt2p [of "maximum_scanline_address s"]
  by (auto simp: vert_of_def word_less_def add_pos_nonneg)

lemma line_width_total:
  assumes "h_hsp (horz_of s) \<le> h_ht (horz_of s)"
  shows "line_width (horz_of s) (borders_of s) = nat (16 * h_ht (horz_of s))"
  using assms horz_bounds [of s]
  by (cases "h_hd (horz_of s) \<le> h_hsp (horz_of s)")
     (simp_all add: line_width_def borders_of_def Let_def nat_mult_distrib min_def, linarith+)

lemma render_frame_paint:
  assumes "lines_fit S brd"
  shows "render_frame S brd r = paint (map (scan S (scanline (b_vga brd))) (frame_lines brd)) r"
proof -
  let ?s = "b_vdc brd"
  have sz: "0 < px_size S" and hsp: "h_hsp (horz_of ?s) \<le> h_ht (horz_of ?s)"
    and total: "nat (16 * h_ht (horz_of ?s)) * px_size S \<le> bytes_per_line S"
    using assms by (auto simp: lines_fit_def)
  have fits: "line_width (horz_of ?s) (borders_of ?s) * px_size S \<le> bytes_per_line S"
    using total by (simp add: line_width_total hsp)
  have fits': "nat (h_ht (horz_of ?s) * h_cw (horz_of ?s)) * px_size S \<le> bytes_per_line S"
    using total by (simp add: horz_bounds mult.commute)
  have ch: "int (nat (v_ch (vert_of ?s))) = v_ch (vert_of ?s)" "0 < nat (v_ch (vert_of ?s))"
    using vert_bounds [of ?s] by simp_all
  note rows = active_rows_paint [OF ch(2), unfolded ch(1)]
  have step: "active_line S vga ram (horz_of ?s) (borders_of ?s) address ras =
      scan S (scanline vga) (line_inks vga ram (horz_of ?s) (borders_of ?s) address ras)" for vga ram address ras
    by (rule ext) (rule active_line_scan [OF sz fits])
  show ?thesis
    unfolding render_frame_def frame_lines_def Let_def border_rows_paint [OF sz fits'] rows
    by (simp add: paint_append comp_def step active_inks_def)
qed

text \<open>What a line stores, and where.\<close>

definition short_line :: "'p surface \<Rightarrow> (vga_scanline \<Rightarrow> nat list) \<Rightarrow> bool" where
  "short_line S inks \<longleftrightarrow> (\<forall>line. length (inks line) * px_size S \<le> bytes_per_line S)"

lemma scan_canvas_at:
  assumes "0 < px_size S" "short_line S inks" "i < length (inks (lines ! line_index r))"
  shows "canvas (scan S lines inks r) (data_iter r + i * px_size S) =
           Some (fst (ink_px S (lines ! line_index r) (inks (lines ! line_index r) ! i)))"
    and "canvas (scan S lines inks r) (data_iter r + bytes_per_line S + i * px_size S) =
           Some (snd (ink_px S (lines ! line_index r) (inks (lines ! line_index r) ! i)))"
proof -
  let ?n = "length (inks (lines ! line_index r))"
  have "i * px_size S < ?n * px_size S" using assms(1,3) by simp
  also have "\<dots> \<le> bytes_per_line S" using assms(2) by (simp add: short_line_def)
  finally have "i * px_size S < bytes_per_line S" .
  with assms show "canvas (scan S lines inks r) (data_iter r + i * px_size S) =
           Some (fst (ink_px S (lines ! line_index r) (inks (lines ! line_index r) ! i)))"
    by (simp add: scan_def Let_def draw_def store_list_outside store_list_at)
  show "canvas (scan S lines inks r) (data_iter r + bytes_per_line S + i * px_size S) =
           Some (snd (ink_px S (lines ! line_index r) (inks (lines ! line_index r) ! i)))"
    using assms by (simp add: scan_def Let_def draw_def store_list_at)
qed

lemma scan_canvas_outside:
  assumes "0 < px_size S" "short_line S inks" "a < data_iter r \<or> data_iter r + 2 * bytes_per_line S \<le> a"
  shows "canvas (scan S lines inks r) a = canvas r a"
proof -
  have "length (inks (lines ! line_index r)) * px_size S \<le> bytes_per_line S"
    using assms(2) by (simp add: short_line_def)
  then show ?thesis
    using assms by (auto simp: scan_def Let_def draw_def store_list_outside mult.commute)
qed

lemma paint_canvas_outside:
  assumes "0 < px_size S" "\<And>f. f \<in> set fs \<Longrightarrow> short_line S f"
    and "a < data_iter r \<or> data_iter r + nat (remaining_lines r) * bytes_per_line S \<le> a
           \<or> data_iter r + 2 * length fs * bytes_per_line S \<le> a"
  shows "canvas (paint (map (scan S lines) fs) r) a = canvas r a"
  using assms(2,3)
proof (induction fs arbitrary: r)
  case (Cons f fs)
  show ?case
  proof (cases "2 \<le> remaining_lines r")
    case True
    let ?r = "scan S lines f r"
    have rem: "nat (remaining_lines r) = nat (remaining_lines ?r) + 2" using True by simp
    have f: "short_line S f" using Cons.prems(1) by simp
    have "canvas ?r a = canvas r a"
      using Cons.prems(2) True unfolding rem by (intro scan_canvas_outside [OF assms(1) f]) (auto simp: algebra_simps)
    moreover have "canvas (paint (map (scan S lines) fs) ?r) a = canvas ?r a"
    proof (rule Cons.IH)
      show "short_line S g" if "g \<in> set fs" for g using that Cons.prems(1) by simp
      show "a < data_iter ?r \<or> data_iter ?r + nat (remaining_lines ?r) * bytes_per_line S \<le> a
           \<or> data_iter ?r + 2 * length fs * bytes_per_line S \<le> a"
        using Cons.prems(2) unfolding rem by (auto simp: algebra_simps)
    qed
    ultimately show ?thesis using True by simp
  qed simp
qed simp

lemma paint_canvas_at:
  assumes sz: "0 < px_size S" and "\<And>f. f \<in> set fs \<Longrightarrow> short_line S f"
    and "k < length fs" "2 * int k + 2 \<le> remaining_lines r"
    and "line = lines ! (line_index r + k)" "i < length ((fs ! k) line)"
  shows "canvas (paint (map (scan S lines) fs) r) (data_iter r + 2 * k * bytes_per_line S + i * px_size S) =
           Some (fst (ink_px S line ((fs ! k) line ! i)))"
    and "canvas (paint (map (scan S lines) fs) r) (data_iter r + (2 * k + 1) * bytes_per_line S + i * px_size S) =
           Some (snd (ink_px S line ((fs ! k) line ! i)))"
proof -
  have "canvas (paint (map (scan S lines) fs) r) (data_iter r + 2 * k * bytes_per_line S + i * px_size S) =
          Some (fst (ink_px S line ((fs ! k) line ! i))) \<and>
        canvas (paint (map (scan S lines) fs) r) (data_iter r + (2 * k + 1) * bytes_per_line S + i * px_size S) =
          Some (snd (ink_px S line ((fs ! k) line ! i)))"
    using assms(2-6)
  proof (induction fs arbitrary: r k)
    case (Cons f fs)
    let ?r = "scan S lines f r"
    from Cons.prems have more: "2 \<le> remaining_lines r" by simp
    show ?case
    proof (cases k)
      case 0
      have bound: "i * px_size S < bytes_per_line S"
      proof -
        have "i * px_size S < length (f line) * px_size S" using Cons.prems 0 sz by simp
        also have "\<dots> \<le> bytes_per_line S" using Cons.prems(1) [of f] by (simp add: short_line_def)
        finally show ?thesis .
      qed
      have "canvas (paint (map (scan S lines) fs) ?r) a = canvas ?r a" if "a < data_iter r + 2 * bytes_per_line S" for a
        using that Cons.prems by (intro paint_canvas_outside sz) auto
      with bound 0 more Cons.prems scan_canvas_at [OF sz, of f i lines r] show ?thesis
        by (simp add: algebra_simps)
    next
      case (Suc j)
      with Cons.prems have "canvas (paint (map (scan S lines) fs) ?r) (data_iter ?r + 2 * j * bytes_per_line S + i * px_size S) =
          Some (fst (ink_px S line ((fs ! j) line ! i))) \<and>
        canvas (paint (map (scan S lines) fs) ?r) (data_iter ?r + (2 * j + 1) * bytes_per_line S + i * px_size S) =
          Some (snd (ink_px S line ((fs ! j) line ! i)))"
        by (intro Cons.IH) auto
      with Suc more show ?thesis by (simp add: algebra_simps)
    qed
  qed simp
  then show "canvas (paint (map (scan S lines) fs) r) (data_iter r + 2 * k * bytes_per_line S + i * px_size S) =
           Some (fst (ink_px S line ((fs ! k) line ! i)))"
    and "canvas (paint (map (scan S lines) fs) r) (data_iter r + (2 * k + 1) * bytes_per_line S + i * px_size S) =
           Some (snd (ink_px S line ((fs ! k) line ! i)))"
    by blast+
qed

section \<open>The picture\<close>

text \<open>
  The ink of pixel \<open>x\<close> of a byte of video memory: its bits are spread over the byte, most
  significant pixel first.
\<close>

definition pixel_of_byte :: "nat \<Rightarrow> u8 \<Rightarrow> nat \<Rightarrow> nat" where
  "pixel_of_byte mode byte x =
     (if mode = 0 then (let p = x div 4 in
        of_bool (bit byte (7 - p)) + 2 * of_bool (bit byte (3 - p)) + 4 * of_bool (bit byte (5 - p)) + 8 * of_bool (bit byte (1 - p)))
      else if mode = 1 then (let p = x div 2 in of_bool (bit byte (7 - p)) + 2 * of_bool (bit byte (3 - p)))
      else of_bool (bit byte (7 - x)))"

lemma bit_u32_double: "bit (a * 2 :: u32) n \<longleftrightarrow> n \<noteq> 0 \<and> n < 32 \<and> bit a (n - 1)"
  by (auto simp: mult.commute [of a 2] bit_double_iff)

lemma setup_mode_bits:
  "bit (setup_mode0 (ucast (b :: u8))) 0 = bit b 7" "bit (setup_mode0 (ucast b)) (Suc 0) = bit b 3"
  "bit (setup_mode0 (ucast b)) 2 = bit b 5" "bit (setup_mode0 (ucast b)) 3 = bit b 1"
  "bit (setup_mode0 (ucast b)) 4 = bit b 6" "bit (setup_mode0 (ucast b)) 5 = bit b 2"
  "bit (setup_mode0 (ucast b)) 6 = bit b 4" "bit (setup_mode0 (ucast b)) 7 = bit b 0"
  "bit (setup_mode1 (ucast b)) 0 = bit b 7" "bit (setup_mode1 (ucast b)) (Suc 0) = bit b 3"
  "bit (setup_mode1 (ucast b)) 2 = bit b 6" "bit (setup_mode1 (ucast b)) 3 = bit b 2"
  "bit (setup_mode1 (ucast b)) 4 = bit b 5" "bit (setup_mode1 (ucast b)) 5 = bit b 1"
  "bit (setup_mode1 (ucast b)) 6 = bit b 4" "bit (setup_mode1 (ucast b)) 7 = bit b 0"
  "bit (setup_mode2 (ucast b)) 0 = bit b 7" "bit (setup_mode2 (ucast b)) (Suc 0) = bit b 6"
  "bit (setup_mode2 (ucast b)) 2 = bit b 5" "bit (setup_mode2 (ucast b)) 3 = bit b 4"
  "bit (setup_mode2 (ucast b)) 4 = bit b 3" "bit (setup_mode2 (ucast b)) 5 = bit b 2"
  "bit (setup_mode2 (ucast b)) 6 = bit b 1" "bit (setup_mode2 (ucast b)) 7 = bit b 0"
  by (simp_all add: setup_mode0_def setup_mode1_def setup_mode2_def bit_simps bit_u32_double)

lemma unat_take_bits: "unat (take_bit n m) = horner_sum of_bool 2 (map (bit m) [0..<n])" if "n \<le> 8" for m :: u8
proof -
  have "unat (take_bit n m) = take_bit n (unat m)" by (rule unsigned_take_bit_eq)
  also have "\<dots> = horner_sum of_bool 2 (map (bit (unat m)) [0..<n])"
    by (simp only: horner_sum_bit_eq_take_bit)
  also have "map (bit (unat m)) [0..<n] = map (bit m) [0..<n]"
    using that by (auto simp: bit_unsigned_iff)
  finally show ?thesis .
qed

lemma unat_fields:
  fixes m :: u8
  shows "unat (m AND 0x0f) = of_bool (bit m 0) + 2 * of_bool (bit m 1) + 4 * of_bool (bit m 2) + 8 * of_bool (bit m 3)"
    and "unat (m AND 0x03) = of_bool (bit m 0) + 2 * of_bool (bit m 1)"
    and "unat (m AND 0x01) = of_bool (bit m 0)"
proof -
  have "m AND 0x0f = take_bit 4 m" "m AND 0x03 = take_bit 2 m" "m AND 0x01 = take_bit 1 m"
    by (simp_all add: take_bit_eq_mask mask_eq_exp_minus_1)
  note fields = this
  have upts: "[0..<4] = [0, 1, 2, 3 :: nat]" "[0..<2] = [0, 1 :: nat]" "[0..<1] = [0 :: nat]"
    by (simp_all add: upt_conv_Cons)
  show "unat (m AND 0x0f) = of_bool (bit m 0) + 2 * of_bool (bit m 1) + 4 * of_bool (bit m 2) + 8 * of_bool (bit m 3)"
    unfolding fields(1) by (subst unat_take_bits) (simp_all add: upts)
  show "unat (m AND 0x03) = of_bool (bit m 0) + 2 * of_bool (bit m 1)"
    unfolding fields(2) by (subst unat_take_bits) (simp_all add: upts)
  show "unat (m AND 0x01) = of_bool (bit m 0)"
    unfolding fields(3) by (subst unat_take_bits) (simp_all add: upts)
qed

lemma byte_inks_nth:
  "x < cnt * rep \<Longrightarrow> byte_inks w msk rep cnt b ! x = unat (drop_bit (w * (x div rep)) b AND msk)"
proof (induction cnt arbitrary: b x)
  case (Suc cnt)
  show ?case
  proof (cases "x < rep")
    case False
    moreover have "0 < rep" using Suc.prems by (cases rep) auto
    moreover have "w + w * ((x - rep) div rep) = w * (x div rep)"
      using False \<open>0 < rep\<close> by (simp add: le_div_geq)
    ultimately show ?thesis
      using Suc.prems by (simp add: nth_append Suc.IH drop_bit_drop_bit add.commute)
  qed (simp add: nth_append)
qed simp

lemma byte_inks_tables:
  fixes b :: u8
  assumes "x < 8"
  shows "byte_inks 4 0x0f 4 2 (setup_mode0 (ucast b)) ! x = pixel_of_byte 0 b x"
    and "byte_inks 2 0x03 2 4 (setup_mode1 (ucast b)) ! x = pixel_of_byte 1 b x"
    and "byte_inks 1 0x01 1 8 (setup_mode2 (ucast b)) ! x = pixel_of_byte 2 b x"
proof -
  have "x div 4 = 0 \<or> x div 4 = 1" using assms by linarith
  then show "byte_inks 4 0x0f 4 2 (setup_mode0 (ucast b)) ! x = pixel_of_byte 0 b x"
    using assms by (elim disjE) (simp_all add: byte_inks_nth unat_fields bit_drop_bit_eq setup_mode_bits pixel_of_byte_def)
  have "x div 2 = 0 \<or> x div 2 = 1 \<or> x div 2 = 2 \<or> x div 2 = 3" using assms by linarith
  then show "byte_inks 2 0x03 2 4 (setup_mode1 (ucast b)) ! x = pixel_of_byte 1 b x"
    using assms by (elim disjE) (simp_all add: byte_inks_nth unat_fields bit_drop_bit_eq setup_mode_bits pixel_of_byte_def)
  have "x = 0 \<or> x = 1 \<or> x = 2 \<or> x = 3 \<or> x = 4 \<or> x = 5 \<or> x = 6 \<or> x = 7" using assms by linarith
  then show "byte_inks 1 0x01 1 8 (setup_mode2 (ucast b)) ! x = pixel_of_byte 2 b x"
    using assms by (elim disjE) (simp_all add: byte_inks_nth unat_fields bit_drop_bit_eq setup_mode_bits pixel_of_byte_def)
qed
text \<open>The tables of the gate array are those its constructor computes.\<close>

definition pixel_tables :: "vga_state \<Rightarrow> bool" where
  "pixel_tables vga \<longleftrightarrow> vga_construct vga = vga"

lemma construct_tables:
  "mode0 (vga_construct s) ! unat b = setup_mode0 (ucast b)" "mode1 (vga_construct s) ! unat b = setup_mode1 (ucast b)"
  "mode2 (vga_construct s) ! unat b = setup_mode2 (ucast b)" for b :: u8
  by (simp_all add: vga_construct_def of_nat_unat del: upt_rec_numeral)

lemma char_inks_nth:
  assumes tables: "pixel_tables vga" and mode: "mode < 3" and i: "i < 16"
  shows "char_inks mode vga ram addr ! i = pixel_of_byte mode (video_byte ram addr (of_nat (i div 8))) (i mod 8)"
proof -
  have vga: "vga = vga_construct vga" using tables by (simp add: pixel_tables_def)
  have tbl: "mode0 vga ! unat b = setup_mode0 (ucast b)" "mode1 vga ! unat b = setup_mode1 (ucast b)"
    "mode2 vga ! unat b = setup_mode2 (ucast b)" for b :: u8
    by (subst vga, simp add: construct_tables)+
  have "mode = 0 \<or> mode = 1 \<or> mode = 2" using mode by linarith
  moreover have "byte_inks 4 0x0f 4 2 (mode0 vga ! unat b) ! x = pixel_of_byte 0 b x"
    "byte_inks 2 0x03 2 4 (mode1 vga ! unat b) ! x = pixel_of_byte 1 b x"
    "byte_inks 1 0x01 1 8 (mode2 vga ! unat b) ! x = pixel_of_byte 2 b x" if "x < 8" for b x
    using byte_inks_tables [OF that, of b] by (simp_all add: tbl)
  moreover have "i div 8 = 0 \<and> i mod 8 = i \<and> i < 8 \<or> i div 8 = 1 \<and> i mod 8 = i - 8 \<and> \<not> i < 8 \<and> i - 8 < 8"
    using i by presburger
  ultimately show ?thesis
    by (elim disjE conjE) (simp_all add: char_inks_def Let_def nth_append)
qed

text \<open>The ink of a pixel of the frame, by its row and its column.\<close>

definition picture_ink :: "'d board \<Rightarrow> nat \<Rightarrow> nat \<Rightarrow> nat" where
  "picture_ink brd row x =
     (let vdc = b_vdc brd; vga = b_vga brd; h = horz_of vdc; v = vert_of vdc; b = borders_of vdc;
          ch = nat (v_ch v); y = row - nat (b_top b); c = x - nat (b_lft b);
          addr = char_addr (start_address vdc + of_nat (y div ch) * of_int (h_hd h)) (y mod ch) (c div 16)
      in if nat (b_top b) \<le> row \<and> y < nat (v_vd v) * ch \<and> nat (b_lft b) \<le> x \<and> c < 16 * min (nat (h_hd h)) (nat (h_hsp h))
         then pixel_of_byte (unat (sl_mode (scanline vga ! row)))
                (video_byte (\<lambda>i. mem_data (b_ram brd i)) addr (of_nat (c mod 16 div 8))) (c mod 8)
         else border_ink)"

definition picture_rows :: "'d board \<Rightarrow> nat" where
  "picture_rows brd = (let v = vert_of (b_vdc brd); b = borders_of (b_vdc brd) in
     nat (b_top b) + nat (v_vd v) * nat (v_ch v) + nat (b_bot b))"

definition picture_width :: "'d board \<Rightarrow> nat" where
  "picture_width brd = nat (16 * h_ht (horz_of (b_vdc brd)))"

lemma length_frame_lines: "length (frame_lines brd) = picture_rows brd"
  by (simp add: frame_lines_def picture_rows_def Let_def)

lemma line_inks_nth:
  assumes tables: "pixel_tables vga" and mode: "sl_mode line < 3" and x: "x < line_width h b"
  shows "length (line_inks vga ram h b address ras line) = line_width h b"
    and "line_inks vga ram h b address ras line ! x =
      (let c = x - nat (b_lft b) in
       if nat (b_lft b) \<le> x \<and> c < 16 * min (nat (h_hd h)) (nat (h_hsp h))
       then pixel_of_byte (unat (sl_mode line)) (video_byte ram (char_addr address ras (c div 16)) (of_nat (c mod 16 div 8))) (c mod 8)
       else border_ink)"
proof -
  let ?f = "\<lambda>c. char_inks (unat (sl_mode line)) vga ram (char_addr address ras c)"
  let ?n = "min (nat (h_hd h)) (nat (h_hsp h))"
  have m: "unat (sl_mode line) < 3" using mode by (simp add: word_less_nat_alt)
  have len: "length (concat (map ?f [0..<?n])) = 16 * ?n"
    by (simp add: length_concat comp_def sum_list_triv)
  then show "length (line_inks vga ram h b address ras line) = line_width h b"
    using mode by (simp add: line_inks_def line_width_def)
  have mid: "concat (map ?f [0..<?n]) ! c =
      pixel_of_byte (unat (sl_mode line)) (video_byte ram (char_addr address ras (c div 16)) (of_nat (c mod 16 div 8))) (c mod 8)"
    if "c < 16 * ?n" for c
    using that concat_blocks_nth [of ?f 16 c ?n]
    by (simp add: mult.commute char_inks_nth [OF tables m] mod_mod_cancel)
  have rest: "x - (nat (b_lft b) + 16 * ?n) < nat (b_rgt b)"
    if "\<not> x < nat (b_lft b)" "\<not> x - nat (b_lft b) < 16 * ?n"
    using that x unfolding line_width_def by linarith
  show "line_inks vga ram h b address ras line ! x =
      (let c = x - nat (b_lft b) in
       if nat (b_lft b) \<le> x \<and> c < 16 * ?n
       then pixel_of_byte (unat (sl_mode line)) (video_byte ram (char_addr address ras (c div 16)) (of_nat (c mod 16 div 8))) (c mod 8)
       else border_ink)"
    using mode mid len rest by (simp add: line_inks_def nth_append Let_def)
qed

text \<open>The three parts of a frame.\<close>

lemma frame_lines_nth:
  "row < nat (b_top (borders_of (b_vdc brd))) \<Longrightarrow> frame_lines brd ! row = border_inks (horz_of (b_vdc brd))"
  "nat (b_top (borders_of (b_vdc brd))) \<le> row \<Longrightarrow>
   row - nat (b_top (borders_of (b_vdc brd))) < nat (v_vd (vert_of (b_vdc brd))) * nat (v_ch (vert_of (b_vdc brd))) \<Longrightarrow>
   frame_lines brd ! row = active_inks (b_vga brd) (\<lambda>i. mem_data (b_ram brd i)) (horz_of (b_vdc brd)) (borders_of (b_vdc brd))
     (nat (v_ch (vert_of (b_vdc brd)))) (start_address (b_vdc brd)) (row - nat (b_top (borders_of (b_vdc brd))))"
  by (simp_all add: frame_lines_def Let_def nth_append)

lemma frame_lines_nth_bottom:
  assumes "nat (b_top (borders_of (b_vdc brd))) + nat (v_vd (vert_of (b_vdc brd))) * nat (v_ch (vert_of (b_vdc brd))) \<le> row"
    "row < picture_rows brd"
  shows "frame_lines brd ! row = border_inks (horz_of (b_vdc brd))"
proof -
  let ?T = "nat (b_top (borders_of (b_vdc brd)))" and ?A = "nat (v_vd (vert_of (b_vdc brd))) * nat (v_ch (vert_of (b_vdc brd)))"
  have "\<not> row < ?T" "\<not> row - ?T < ?A" "row - (?T + ?A) < nat (b_bot (borders_of (b_vdc brd)))"
    using assms unfolding picture_rows_def Let_def by linarith+
  then show ?thesis by (simp add: frame_lines_def Let_def nth_append)
qed

lemma picture_ink_border:
  assumes "row < nat (b_top (borders_of (b_vdc brd))) \<or>
    \<not> row - nat (b_top (borders_of (b_vdc brd))) < nat (v_vd (vert_of (b_vdc brd))) * nat (v_ch (vert_of (b_vdc brd)))"
  shows "picture_ink brd row x = border_ink"
proof -
  have no: "\<not> (nat (b_top (borders_of (b_vdc brd))) \<le> row \<and>
    row - nat (b_top (borders_of (b_vdc brd))) < nat (v_vd (vert_of (b_vdc brd))) * nat (v_ch (vert_of (b_vdc brd))) \<and> P \<and> Q)" for P Q
    using assms by linarith
  show ?thesis unfolding picture_ink_def Let_def if_not_P [OF no] ..
qed

lemma picture_ink_active:
  assumes "nat (b_top (borders_of (b_vdc brd))) \<le> row"
    "row - nat (b_top (borders_of (b_vdc brd))) < nat (v_vd (vert_of (b_vdc brd))) * nat (v_ch (vert_of (b_vdc brd)))"
    and tables: "pixel_tables (b_vga brd)" and mode: "sl_mode (scanline (b_vga brd) ! row) < 3"
    and x: "x < line_width (horz_of (b_vdc brd)) (borders_of (b_vdc brd))"
  shows "picture_ink brd row x = (frame_lines brd ! row) (scanline (b_vga brd) ! row) ! x"
  unfolding frame_lines_nth(2) [OF assms(1,2)] active_inks_def line_inks_nth(2) [OF tables mode x]
    picture_ink_def Let_def
  using assms(1,2) by (simp only: simp_thms)

lemma frame_lines_picture:
  assumes tables: "pixel_tables (b_vga brd)" and mode: "sl_mode (scanline (b_vga brd) ! row) < 3"
    and hsp: "h_hsp (horz_of (b_vdc brd)) \<le> h_ht (horz_of (b_vdc brd))"
    and row: "row < picture_rows brd" and x: "x < picture_width brd"
  shows "x < length ((frame_lines brd ! row) (scanline (b_vga brd) ! row))"
    and "(frame_lines brd ! row) (scanline (b_vga brd) ! row) ! x = picture_ink brd row x"
proof -
  let ?s = "b_vdc brd" let ?h = "horz_of ?s" and ?v = "vert_of ?s" and ?b = "borders_of ?s"
  have width: "line_width ?h ?b = picture_width brd" "nat (h_ht ?h * h_cw ?h) = picture_width brd"
    using line_width_total [OF hsp] by (simp_all add: picture_width_def horz_bounds mult.commute)
  have x': "x < line_width ?h ?b" using x by (simp add: width)
  have border: "x < length (border_inks ?h line)" "border_inks ?h line ! x = border_ink" for line
    using x by (simp_all add: border_inks_def width)
  have len: "length (active_inks vga ram ?h ?b ch address k line) = picture_width brd"
    if "pixel_tables vga" "sl_mode line < 3" for vga ram ch address k line
    using line_inks_nth(1) [OF that x'] by (simp add: active_inks_def width)
  consider (top) "row < nat (b_top ?b)"
    | (active) "nat (b_top ?b) \<le> row" "row - nat (b_top ?b) < nat (v_vd ?v) * nat (v_ch ?v)"
    | (bottom) "nat (b_top ?b) + nat (v_vd ?v) * nat (v_ch ?v) \<le> row"
    by linarith
  then have "x < length ((frame_lines brd ! row) (scanline (b_vga brd) ! row)) \<and>
      (frame_lines brd ! row) (scanline (b_vga brd) ! row) ! x = picture_ink brd row x"
  proof cases
    case top
    then show ?thesis by (simp add: frame_lines_nth(1) picture_ink_border border)
  next
    case active
    show ?thesis
      using x len [OF tables mode] picture_ink_active [OF active tables mode x']
      by (simp add: frame_lines_nth(2) [OF active])
  next
    case bottom
    then have "\<not> row - nat (b_top ?b) < nat (v_vd ?v) * nat (v_ch ?v)" by linarith
    with bottom show ?thesis by (simp add: frame_lines_nth_bottom row picture_ink_border border)
  qed
  then show "x < length ((frame_lines brd ! row) (scanline (b_vga brd) ! row))"
    and "(frame_lines brd ! row) (scanline (b_vga brd) ! row) ! x = picture_ink brd row x" by blast+
qed

section \<open>The image of a frame\<close>

lemma frame_lines_short: "f \<in> set (frame_lines brd) \<Longrightarrow> lines_fit S brd \<Longrightarrow> short_line S f"
proof -
  assume f: "f \<in> set (frame_lines brd)" and fit: "lines_fit S brd"
  let ?s = "b_vdc brd"
  have total: "nat (16 * h_ht (horz_of ?s)) * px_size S \<le> bytes_per_line S"
    and width: "line_width (horz_of ?s) (borders_of ?s) = nat (16 * h_ht (horz_of ?s))"
    using fit by (simp_all add: lines_fit_def line_width_total)
  have "length (f line) \<le> nat (16 * h_ht (horz_of ?s))" for line
    using f length_line_inks [of "b_vga brd" _ "horz_of ?s" "borders_of ?s", unfolded width]
    by (auto simp: frame_lines_def Let_def border_inks_def horz_bounds active_inks_def mult.commute)
  with total show ?thesis
    unfolding short_line_def by (meson le_trans mult_le_mono1)
qed

text \<open>The surface of an image.\<close>

abbreviation surface_of :: "nat \<Rightarrow> (vga_color \<Rightarrow> 'p \<times> 'p) \<Rightarrow> 'p image \<Rightarrow> 'p surface" where
  "surface_of sz px img \<equiv> \<lparr>px_size = sz, bytes_per_line = unat (image_bpl img), px_of = px\<rparr>"

lemma render_image_data:
  "image_data img = Some m \<Longrightarrow>
   image_data (render_image sz px brd img) = Some (canvas (render_frame (surface_of sz px img) brd (raster_start img m)))"
  by (simp add: render_image_def Let_def)

text \<open>
  C9: the picture a renderer draws.  When the synchronisation comes before the end of the line and
  a line fits the image, pixel \<open>x\<close> of row \<open>row\<close> of the frame is stored on the two lines of
  the image that belong to the row, in the colour that the gate array recorded for the row's ink:
  inside the display window the ink is decoded from the byte of video memory that the CRT
  controller's registers address, outside it is the border.
\<close>

theorem render_draws_picture:
  fixes brd :: "'d board"
  assumes data: "image_data img = Some m"
    and tables: "pixel_tables (b_vga brd)"
    and mode: "sl_mode (scanline (b_vga brd) ! row) < 3"
    and hsp: "h_hsp (horz_of (b_vdc brd)) \<le> h_ht (horz_of (b_vdc brd))"
    and fit: "0 < sz" "picture_width brd * sz \<le> unat (image_bpl img)"
    and row: "row < picture_rows brd" "2 * int row + 2 \<le> image_height img"
    and x: "x < picture_width brd"
  shows "\<exists>m'. image_data (render_image sz px brd img) = Some m' \<and>
    (let color = px (sl_color (scanline (b_vga brd) ! row) ! picture_ink brd row x) in
      m' (2 * row * unat (image_bpl img) + x * sz) = Some (fst color) \<and>
      m' ((2 * row + 1) * unat (image_bpl img) + x * sz) = Some (snd color))"
proof -
  let ?S = "surface_of sz px img" and ?lines = "scanline (b_vga brd)"
  have lines: "lines_fit ?S brd"
    using hsp fit by (simp add: lines_fit_def picture_width_def)
  note nth = frame_lines_picture [OF tables mode hsp row(1) x]
  have "row < length (frame_lines brd)" "2 * int row + 2 \<le> remaining_lines (raster_start img m)"
    using row by (simp_all add: length_frame_lines raster_start_def)
  note at = paint_canvas_at [OF _ frame_lines_short [OF _ lines] this, of "?lines ! row" ?lines x]
  show ?thesis
    using at nth fit(1)
    by (simp add: render_image_data [OF data] render_frame_paint [OF lines] raster_start_def ink_px_def Let_def)
qed

text \<open>
  C35: with lines that fit, no renderer stores outside the image, whatever the vertical registers
  say: everything past its last line is as it was.
\<close>

theorem render_stays_in_image:
  fixes brd :: "'d board"
  assumes data: "image_data img = Some m"
    and hsp: "h_hsp (horz_of (b_vdc brd)) \<le> h_ht (horz_of (b_vdc brd))"
    and fit: "0 < sz" "picture_width brd * sz \<le> unat (image_bpl img)"
    and outside: "nat (image_height img) * unat (image_bpl img) \<le> a"
  shows "\<exists>m'. image_data (render_image sz px brd img) = Some m' \<and> m' a = m a"
proof -
  let ?S = "surface_of sz px img"
  have lines: "lines_fit ?S brd"
    using hsp fit by (simp add: lines_fit_def picture_width_def)
  have "canvas (paint (map (scan ?S (scanline (b_vga brd))) (frame_lines brd)) (raster_start img m)) a = canvas (raster_start img m) a"
    using fit(1) outside by (intro paint_canvas_outside frame_lines_short [OF _ lines]) (simp_all add: raster_start_def)
  then show ?thesis
    by (simp add: render_image_data [OF data] render_frame_paint [OF lines] raster_start_def)
qed

section \<open>Lines that do not fit\<close>

text \<open>
  Without the room that \<open>draw\<close> asks for, a line still moves the pointers by its width, and a pixel
  that is stored stays stored.
\<close>

definition moves :: "'p surface \<Rightarrow> nat \<Rightarrow> 'p raster \<Rightarrow> 'p raster \<Rightarrow> bool" where
  "moves S n r r' \<longleftrightarrow> next_line r' = next_line r + n * px_size S \<and> data_iter r' = data_iter r
     \<and> remaining_lines r' = remaining_lines r \<and> line_index r' = line_index r \<and> (\<forall>a. canvas r a \<noteq> None \<longrightarrow> canvas r' a \<noteq> None)"

lemma moves_refl: "moves S 0 r r" by (simp add: moves_def)

lemma moves_trans: "moves S n r r' \<Longrightarrow> moves S k r' r'' \<Longrightarrow> moves S (n + k) r r''"
  by (auto simp: moves_def algebra_simps)

lemma store_run_keeps: "m a \<noteq> None \<Longrightarrow> store_run sz p n px m a \<noteq> None"
  by (induction n arbitrary: p m) auto

lemma moves_plot: "moves S n r (plot S n px r)"
  unfolding moves_def plot_def by (simp add: store_run_keeps del: not_None_eq)

lemma moves_border_pixels: "moves S n r (border_pixels S px n r)"
proof (induction n arbitrary: r)
  case (Suc n)
  from moves_trans [OF moves_plot [of S 1 r px] Suc] show ?case by simp
qed (simp add: moves_refl)

lemma moves_draw_byte: "moves S (cnt * rep) r (draw_byte S line w msk rep cnt byte r)"
proof (induction cnt arbitrary: byte r)
  case (Suc cnt)
  from moves_trans [OF moves_plot [of S rep] Suc] show ?case by simp
qed (simp add: moves_refl)

lemma moves_draw_char:
  "moves S 16 r (draw_char0 S tbl ram line addr r)" "moves S 16 r (draw_char1 S tbl ram line addr r)"
  "moves S 16 r (draw_char2 S tbl ram line addr r)"
  using moves_trans [OF moves_draw_byte [of S 2 4] moves_draw_byte [of S 2 4]]
    moves_trans [OF moves_draw_byte [of S 4 2] moves_draw_byte [of S 4 2]]
    moves_trans [OF moves_draw_byte [of S 8 1] moves_draw_byte [of S 8 1]]
  by (simp_all add: draw_char0_def draw_char1_def draw_char2_def)

lemma moves_draw_columns:
  assumes step: "\<And>addr r. moves S 16 r (dr addr r)"
  shows "moves S (16 * (min b (nat hsp) - a)) r (draw_columns dr addr hsp [a..<b] r)"
proof (induction "b - a" arbitrary: a r)
  case (Suc d)
  then have b: "[a..<b] = a # [Suc a..<b]" by (simp add: upt_conv_Cons)
  show ?case
  proof (cases "hsp \<le> int a")
    case False
    with Suc.hyps(2) have k: "a < min b (nat hsp)" by auto
    have "16 * (min b (nat hsp) - a) = 16 + 16 * (min b (nat hsp) - Suc a)"
      unfolding Suc_diff_Suc [OF k, symmetric] by simp
    with moves_trans [OF step Suc.hyps(1) [of "Suc a"]] Suc.hyps(2) b False show ?thesis by simp
  qed (simp add: b moves_refl)
qed (simp add: moves_refl)

lemma moves_active_display:
  "sl_mode line < 3 \<Longrightarrow>
   moves S (16 * min (nat (h_hd h)) (nat (h_hsp h))) r (active_display S vga ram h address ras line r)"
  using moves_draw_columns [where a = 0 and b = "nat (h_hd h)" and hsp = "h_hsp h" and S = S]
  by (auto simp: active_display_def Let_def mode_below_3 moves_draw_char)

lemma border_pixels_last:
  "canvas (border_pixels S px (Suc n) r) (next_line r + n * px_size S) \<noteq> None"
proof (induction n arbitrary: r)
  case 0
  show ?case by (simp add: plot_def)
next
  case (Suc n)
  have "next_line (plot S 1 px r) + n * px_size S = next_line r + Suc n * px_size S" by (simp add: plot_def)
  from Suc [of "plot S 1 px r", unfolded this] show ?case
    by (subst border_pixels.simps(2))
qed

text \<open>A line keeps what is stored, and a right border reaches as far as the line is wide.\<close>

lemma active_line_keeps:
  "remaining_lines (active_line S vga ram h b address ras r) = remaining_lines r - 2
   \<and> data_iter (active_line S vga ram h b address ras r) = data_iter r + 2 * bytes_per_line S
   \<and> line_index (active_line S vga ram h b address ras r) = line_index r + 1
   \<and> (\<forall>a. canvas r a \<noteq> None \<longrightarrow> canvas (active_line S vga ram h b address ras r) a \<noteq> None)"
proof -
  let ?line = "scanline vga ! line_index r" let ?px = "px_of S (sl_color ?line ! border_ink)"
  let ?r1 = "border_pixels S ?px (nat (b_lft b)) (take_lines S r)"
  let ?r2 = "active_display S vga ram h address ras ?line ?r1"
  obtain n where "moves S n ?r1 ?r2"
  proof (cases "sl_mode ?line < 3")
    case True
    with that show ?thesis by (blast intro: moves_active_display)
  next
    case False
    then have "?r2 = ?r1" by (auto simp: active_display_def Let_def mode_below_3)
    with that [of 0] show ?thesis by (simp add: moves_refl)
  qed
  from moves_trans [OF moves_trans [OF moves_border_pixels this] moves_border_pixels [of S "nat (b_rgt b)" ?r2 ?px]]
  show ?thesis by (simp add: moves_def active_line_def Let_def)
qed

lemma active_line_reaches:
  assumes mode: "sl_mode (scanline vga ! line_index r) < 3" and "0 < b_rgt b"
  shows "canvas (active_line S vga ram h b address ras r)
           (data_iter r + bytes_per_line S + (line_width h b - 1) * px_size S) \<noteq> None"
proof -
  let ?line = "scanline vga ! line_index r" let ?px = "px_of S (sl_color ?line ! border_ink)"
  let ?r1 = "border_pixels S ?px (nat (b_lft b)) (take_lines S r)"
  let ?r2 = "active_display S vga ram h address ras ?line ?r1"
  obtain n where n: "nat (b_rgt b) = Suc n" using assms(2) by (metis gr0_implies_Suc zero_less_nat_eq)
  have "moves S (nat (b_lft b) + 16 * min (nat (h_hd h)) (nat (h_hsp h))) (take_lines S r) ?r2"
    by (rule moves_trans [OF moves_border_pixels moves_active_display [OF mode]])
  then have "next_line ?r2 = data_iter r + bytes_per_line S + (nat (b_lft b) + 16 * min (nat (h_hd h)) (nat (h_hsp h))) * px_size S"
    by (simp add: moves_def)
  with border_pixels_last [of S ?px n ?r2] show ?thesis
    by (simp add: active_line_def Let_def n line_width_def algebra_simps)
qed

lemma paint_keeps:
  assumes "\<And>f r a. f \<in> set fs \<Longrightarrow> canvas r a \<noteq> None \<Longrightarrow> canvas (f r) a \<noteq> None" "canvas r a \<noteq> None"
  shows "canvas (paint fs r) a \<noteq> None"
  using assms by (induction fs arbitrary: r) (simp_all del: not_None_eq)

lemma border_rows_keeps: "canvas r a \<noteq> None \<Longrightarrow> canvas (border_rows S lines cols n r) a \<noteq> None"
proof (induction n arbitrary: r)
  case (Suc n)
  have "canvas (border_pixels S px cols (take_lines S r)) a \<noteq> None" for px
    using moves_border_pixels [of S cols "take_lines S r" px] Suc.prems by (simp add: moves_def del: not_None_eq)
  with Suc show ?case by (simp add: Let_def del: not_None_eq)
qed simp

text \<open>Line \<open>k\<close> of a sequence that has room for it is painted, two lines of the image further each time.\<close>

lemma paint_reaches:
  assumes "\<And>k r. k < n \<Longrightarrow> remaining_lines (f k r) = remaining_lines r - 2 \<and> data_iter (f k r) = data_iter r + 2 * w
      \<and> line_index (f k r) = line_index r + 1 \<and> (\<forall>a. canvas r a \<noteq> None \<longrightarrow> canvas (f k r) a \<noteq> None)"
    and "j + k < n" "2 * int k + 2 \<le> remaining_lines r"
  shows "\<exists>r'. data_iter r' = data_iter r + 2 * k * w \<and> line_index r' = line_index r + k
    \<and> (\<forall>a. canvas (f (j + k) r') a \<noteq> None \<longrightarrow> canvas (paint (map f [j..<n]) r) a \<noteq> None)"
  using assms(2,3)
proof (induction k arbitrary: j r)
  case 0
  then have "[j..<n] = j # [Suc j..<n]" by (simp add: upt_conv_Cons)
  moreover have "canvas (paint (map f [Suc j..<n]) (f j r)) a \<noteq> None" if "canvas (f j r) a \<noteq> None" for a
    using that by (intro paint_keeps) (use assms(1) in auto)
  ultimately show ?case using 0 by (intro exI [of _ r]) (simp del: not_None_eq)
next
  case (Suc k)
  then have upt: "[j..<n] = j # [Suc j..<n]" by (simp add: upt_conv_Cons)
  have step: "remaining_lines (f j r) = remaining_lines r - 2" "data_iter (f j r) = data_iter r + 2 * w"
    "line_index (f j r) = line_index r + 1"
    using assms(1) [of j r] Suc.prems by simp_all
  obtain r' where r': "data_iter r' = data_iter (f j r) + 2 * k * w" "line_index r' = line_index (f j r) + k"
    "\<forall>a. canvas (f (Suc j + k) r') a \<noteq> None \<longrightarrow> canvas (paint (map f [Suc j..<n]) (f j r)) a \<noteq> None"
    using Suc.IH [of "Suc j" "f j r"] Suc.prems step by auto
  with Suc.prems upt step show ?case
    by (intro exI [of _ r']) (simp add: algebra_simps del: not_None_eq)
qed

text \<open>
  C36: a horizontal synchronisation that comes after the end of the line.  The right border is then
  drawn up to the synchronisation, not to the end of the line.  The renderer stores past the end of the
  image when the frame also reaches the last line of the image: there is no top border, the image
  has \<open>2 n + 2\<close> lines and there are more than \<open>n\<close> active rows, row \<open>n\<close> has one of the three modes, and the
  16 pixels for each character up to the synchronisation are more than a line of the image.  (With fewer
  rows, as the usual vertical registers give, the frame ends before and what is stored past the end of a
  line stays in the image.)
\<close>

theorem late_hsync_overruns_image:
  fixes brd :: "'d board"
  assumes data: "image_data img = Some m" and alloc: "\<forall>a \<ge> nat (image_height img) * unat (image_bpl img). m a = None"
    and hsp: "h_ht (horz_of (b_vdc brd)) < h_hsp (horz_of (b_vdc brd))" "h_hd (horz_of (b_vdc brd)) < h_hsp (horz_of (b_vdc brd))"
    and wide: "unat (image_bpl img) \<le> (nat (16 * h_hsp (horz_of (b_vdc brd))) - 1) * sz"
    and rows: "b_top (borders_of (b_vdc brd)) \<le> 0" "image_height img = 2 * int n + 2"
      "n < nat (v_vd (vert_of (b_vdc brd))) * nat (v_ch (vert_of (b_vdc brd)))"
    and mode: "sl_mode (scanline (b_vga brd) ! n) < 3"
  shows "\<exists>m' a. image_data (render_image sz px brd img) = Some m' \<and>
    nat (image_height img) * unat (image_bpl img) \<le> a \<and> m' a \<noteq> m a"
proof -
  let ?S = "surface_of sz px img" and ?s = "b_vdc brd" and ?vga = "b_vga brd" and ?ram = "\<lambda>i. mem_data (b_ram brd i)"
  let ?h = "horz_of ?s" and ?v = "vert_of ?s" and ?b = "borders_of ?s" and ?ch = "nat (v_ch (vert_of ?s))"
  let ?w = "unat (image_bpl img)" and ?r = "raster_start img m"
  let ?f = "\<lambda>k. active_line ?S ?vga ?ram ?h ?b (start_address ?s + of_nat (k div ?ch) * of_int (h_hd ?h)) (k mod ?ch)"
  have ch: "int ?ch = v_ch ?v" "0 < ?ch" using vert_bounds [of ?s] by simp_all
  note active = active_rows_paint [OF ch(2), unfolded ch(1)]
  have "0 \<le> b_rgt ?b" "0 < b_rgt ?b" "nat (b_lft ?b) = 0"
    using hsp horz_bounds [of ?s] by (simp_all add: borders_of_def Let_def)
  moreover have "min (nat (h_hd ?h)) (nat (h_hsp ?h)) = nat (h_hd ?h)"
    using hsp by (intro min_absorb1 nat_mono) simp
  then have "int (line_width ?h ?b) = 16 * h_hsp ?h"
    using hsp horz_bounds [of ?s] by (simp add: line_width_def borders_of_def Let_def)
  then have "line_width ?h ?b = nat (16 * h_hsp ?h)" by simp
  ultimately have rgt: "0 < b_rgt ?b" and width: "line_width ?h ?b = nat (16 * h_hsp ?h)" by simp_all
  have "remaining_lines ?r = 2 * int n + 2" by (simp add: raster_start_def rows)
  with rows(3) active_line_keeps [of ?S ?vga ?ram ?h ?b] obtain r' where r': "data_iter r' = data_iter ?r + 2 * n * ?w"
    "line_index r' = line_index ?r + n"
    "\<forall>a. canvas (?f (0 + n) r') a \<noteq> None \<longrightarrow> canvas (paint (map ?f [0..<nat (v_vd ?v) * ?ch]) ?r) a \<noteq> None"
    using paint_reaches [of "nat (v_vd ?v) * ?ch" ?f ?w 0 n ?r] by auto
  let ?a = "data_iter r' + ?w + (line_width ?h ?b - 1) * sz"
  have "sl_mode (scanline ?vga ! line_index r') < 3" using r'(2) mode by (simp add: raster_start_def)
  from active_line_reaches [OF this rgt, of ?S] r'(3)
  have "canvas (paint (map ?f [0..<nat (v_vd ?v) * ?ch]) ?r) ?a \<noteq> None" by simp
  then have "canvas (render_frame ?S brd ?r) ?a \<noteq> None"
    using rows(1) unfolding render_frame_def Let_def active by (intro border_rows_keeps) (simp del: not_None_eq)
  moreover have "nat (image_height img) * ?w \<le> ?a"
    using wide r'(1) by (simp add: raster_start_def rows(2) width algebra_simps nat_add_distrib nat_mult_distrib)
  ultimately show ?thesis
    using alloc by (metis render_image_data [OF data])
qed

section \<open>A concrete picture\<close>

text \<open>The registers as a reset leaves them, every line in mode 1, ink \<open>n\<close> shown as pixel \<open>n\<close>.\<close>

definition picture_vga :: vga_state where
  "picture_vga = vga_construct (bench_vga\<lparr>scanline := replicate 576
     \<lparr>sl_mode = 1, sl_color = map (\<lambda>n. \<lparr>c_ink = of_nat n, c_pixel0 = of_nat n, c_pixel1 = of_nat (n + 100)\<rparr>) [0..<17]\<rparr>\<rparr>)"

definition picture_board :: "unit board" where
  "picture_board = bench_board\<lparr>b_vga := picture_vga, b_ram := \<lambda>_. \<lparr>mem_type = RAM_BANK, mem_data = \<lambda>_. 0xf0\<rparr>\<rparr>"

definition picture_image :: "u32 image" where
  "picture_image = \<lparr>image_height = 768, image_bpl = 4096, image_data = Some (\<lambda>_. None)\<rparr>"

lemma picture_geometry:
  "horz_of (b_vdc picture_board) = \<lparr>h_cw = 16, h_ht = 64, h_hd = 40, h_hsp = 46, h_hsw = 14\<rparr>"
  "vert_of (b_vdc picture_board) = \<lparr>v_ch = 8, v_vt = 39, v_vd = 25, v_vsp = 30, v_vsw = 0\<rparr>"
  "borders_of (b_vdc picture_board) = \<lparr>b_top = 72, b_bot = 40, b_lft = 288, b_rgt = 96\<rparr>"
proof -
  show h: "horz_of (b_vdc picture_board) = \<lparr>h_cw = 16, h_ht = 64, h_hd = 40, h_hsp = 46, h_hsw = 14\<rparr>"
    by (simp add: picture_board_def) code_simp
  show v: "vert_of (b_vdc picture_board) = \<lparr>v_ch = 8, v_vt = 39, v_vd = 25, v_vsp = 30, v_vsw = 0\<rparr>"
    by (simp add: picture_board_def) code_simp
  have "vertical_total_adjust bench_vdc = 0" by code_simp
  with h v show "borders_of (b_vdc picture_board) = \<lparr>b_top = 72, b_bot = 40, b_lft = 288, b_rgt = 96\<rparr>"
    by (simp add: borders_of_def Let_def picture_board_def)
qed

lemma picture_vga_facts:
  "pixel_tables (b_vga picture_board)" "row < 576 \<Longrightarrow> sl_mode (scanline (b_vga picture_board) ! row) = 1"
  "row < 576 \<Longrightarrow> n < 17 \<Longrightarrow> c_pixel0 (sl_color (scanline (b_vga picture_board) ! row) ! n) = of_nat n"
  by (simp_all add: picture_board_def picture_vga_def pixel_tables_def vga_construct_def del: upt_rec_numeral)

lemma picture_ink_value: "picture_ink picture_board 100 400 = 1"
  by (simp add: picture_ink_def picture_geometry Let_def picture_vga_facts video_byte_def)
     (simp add: picture_board_def pixel_of_byte_def bit_simps)

theorem render_draws_picture_witness:
  "\<exists>m'. image_data (render_rgba picture_board picture_image) = Some m' \<and> m' (2 * 100 * 4096 + 400 * 4) = Some 1"
proof -
  have "\<exists>m'. image_data (render_image 4 (\<lambda>c. (c_pixel0 c, c_pixel0 c)) picture_board picture_image) = Some m' \<and>
    (let color = (\<lambda>c. (c_pixel0 c, c_pixel0 c)) (sl_color (scanline (b_vga picture_board) ! 100) ! picture_ink picture_board 100 400) in
      m' (2 * 100 * unat (image_bpl picture_image) + 400 * 4) = Some (fst color) \<and>
      m' ((2 * 100 + 1) * unat (image_bpl picture_image) + 400 * 4) = Some (snd color))"
    by (rule render_draws_picture [where m = "\<lambda>_. None"])
      (simp_all add: picture_image_def picture_geometry picture_vga_facts picture_width_def picture_rows_def)
  then show ?thesis
    by (auto simp: render_rgba_def picture_ink_value picture_vga_facts picture_image_def)
qed

theorem render_stays_in_image_witness:
  "\<exists>m'. image_data (render_rgba picture_board picture_image) = Some m' \<and> m' (768 * 4096) = None"
proof -
  have "\<exists>m'. image_data (render_image 4 (\<lambda>c. (c_pixel0 c, c_pixel0 c)) picture_board picture_image) = Some m' \<and>
      m' (768 * 4096) = None"
    by (rule render_stays_in_image [where m = "\<lambda>_. None"])
      (simp_all add: picture_image_def picture_geometry picture_width_def)
  then show ?thesis by (simp add: render_rgba_def)
qed

text \<open>The registers of a program that asks for a late synchronisation on a frame of tall characters.\<close>

definition late_board :: "unit board" where
  "late_board = picture_board\<lparr>b_vdc := bench_vdc\<lparr>regs := \<lparr>v_addr = 0, v_data =
     [0x3f, 0x28, 0xff, 0x0e, 0x26, 0x00, 0x28, 0x27, 0x00, 0x0f, 0x00, 0x00, 0x30, 0x00, 0x00, 0x00, 0x00, 0x00]\<rparr>\<rparr>\<rparr>"

theorem late_hsync_overruns_image_witness:
  "\<exists>m' a. image_data (render_rgba late_board picture_image) = Some m' \<and> 768 * 4096 \<le> a \<and> m' a \<noteq> None"
proof -
  let ?s = "bench_vdc\<lparr>regs := \<lparr>v_addr = 0, v_data =
     [0x3f, 0x28, 0xff, 0x0e, 0x26, 0x00, 0x28, 0x27, 0x00, 0x0f, 0x00, 0x00, 0x30, 0x00, 0x00, 0x00, 0x00, 0x00]\<rparr>\<rparr>"
  have "h_ht (horz_of ?s) = 64 \<and> h_hd (horz_of ?s) = 40 \<and> h_hsp (horz_of ?s) = 255 \<and> b_top (borders_of ?s) = 0
    \<and> v_vd (vert_of ?s) = 40 \<and> v_ch (vert_of ?s) = 16" by code_simp
  then have geo: "h_ht (horz_of ?s) = 64" "h_hd (horz_of ?s) = 40" "h_hsp (horz_of ?s) = 255" "b_top (borders_of ?s) = 0"
    "v_vd (vert_of ?s) = 40" "v_ch (vert_of ?s) = 16" by blast+
  have vdc: "b_vdc late_board = ?s" and vga: "b_vga late_board = b_vga picture_board" by (simp_all add: late_board_def)
  have "\<exists>m' a. image_data (render_image 4 (\<lambda>c. (c_pixel0 c, c_pixel0 c)) late_board picture_image) = Some m' \<and>
      nat (image_height picture_image) * unat (image_bpl picture_image) \<le> a \<and> m' a \<noteq> None"
    by (rule late_hsync_overruns_image [where m = "\<lambda>_. None" and n = 383])
      (simp_all add: picture_image_def vdc vga geo picture_vga_facts)
  then show ?thesis by (simp add: render_rgba_def picture_image_def)
qed

end
