(* ===== verification/Spec2Isabelle.thy ===== *)
theory Spec2Isabelle
  imports CPC_Props CPC_Snapshot_Props DSK_Props Keyboard_Props Output_Props Render_Props
begin

text \<open>
  xcpc is an emulator of the Amstrad CPC.  This library models its own core: the Z80 processor, the
  gate array, the CRT controller, the parallel interface, the sound generator, the floppy disc
  controller with its drives, the main board that connects them with its settings, its renderers and
  its audio output, the display palettes, and the snapshots.

  \<^bold>\<open>The program and its model.\<close>  \<^verbatim>\<open>Mainboard::clock()\<close> runs the time of one frame in ticks of the
  master clock; each component has an accumulator of its own frequency and is clocked when it runs
  over.  The processor reads and writes memory and ports through an interface that the board
  implements; the board decodes the address bits and calls the devices; the devices call the board
  back (interrupts, synchronisation signals, memory banking, keyboard).  A C++ interface class is a
  record of functions on the caller's state and the state around it; a component is a \<open>record\<close> and
  one definition per function of the source.  What can be undefined in C (an index outside its
  array, a null method) is \<^term>\<open>None\<close>; an exception is the \<^term>\<open>Inl\<close> of a sum or the message of
  an option.  Machine integers are words of their width; an \<^verbatim>\<open>int\<close> of the disc controller is an
  integer.

  \<^bold>\<open>Theories.\<close>
  \<^item> \<open>Prelude\<close>, \<open>Byte_Arith\<close>: word types, collections of facts, and the arithmetic behind the flags.
  \<^item> \<open>Z80_State\<close>: the registers of \<^verbatim>\<open>cpu-core.h\<close> and the access macros of \<^verbatim>\<open>cpu-core.cc\<close>;
    \<open>Z80_Micro\<close>, \<open>Z80_Alu\<close>, \<open>Z80_Flow\<close>, \<open>Z80_Bits\<close>: the micro-instructions of
    \<^verbatim>\<open>cpu-microcode.inc\<close>, one definition for each macro; \<open>Z80_Opcodes\<close>,
    \<open>Z80_Index_Opcodes\<close>: the seven opcode tables \<^verbatim>\<open>cpu-opcodes*.inc\<close>, sixteen rows each;
    \<open>Z80_Clock\<close>: interrupts and \<^verbatim>\<open>Instance::clock\<close>.
  \<^item> \<open>Z80_Frame\<close>: the locales \<open>step_rel\<close> and \<open>micro_rel\<close>, under which a relation that every access
    keeps is kept by every instruction; \<open>Z80_Time\<close>: the locale \<open>bus_time\<close> and the time of an
    instruction; \<open>Z80_Memory\<close>: the locale \<open>cpu_memory\<close>, the stack and the block copy on any memory
    that keeps its laws; \<open>Z80_Props\<close>, \<open>Z80_Theorems\<close>: the arithmetic of the opcodes.
  \<^item> \<open>Host_C\<close>: the files of the C library; \<open>FDD_Drive\<close>, \<open>FDD_Dsk\<close>, \<open>FDD_Ldsk\<close>, \<open>FDD_Methods\<close>:
    the drives of \<^verbatim>\<open>lib/lib765\<close>; \<open>FDC_765\<close>: the controller \<^verbatim>\<open>765fdc.c\<close>; \<open>FDC_Core\<close>: its
    wrapper \<^verbatim>\<open>fdc-core.cc\<close>; \<open>FDC_Props\<close>, \<open>FDD_Props\<close>: the dialogues of the commands and the
    image format; \<open>FDC_Bench\<close>: the controller on which their hypotheses hold.
  \<^item> \<open>DSK_Format\<close>: the disc images of \<^verbatim>\<open>formats/dsk\<close>; \<open>CPC_Discs\<close>: the handlers that create
    one; \<open>DSK_Props\<close>: the created image, read back by its own reader and by the drive of
    \<^verbatim>\<open>lib765\<close>.
  \<^item> \<open>CPC_Vga\<close>, \<open>CPC_Vdc\<close>, \<open>CPC_Ppi\<close>, \<open>CPC_Psg\<close>: the devices of \<^verbatim>\<open>lib/xcpc/amstrad\<close>, each
    with the locale that its callbacks must keep; \<open>CPC_Board\<close>: the state of
    \<^verbatim>\<open>cpc-mainboard.cc\<close>, memory banking and callbacks; \<open>CPC_Run\<close>: reset, clock, expansion ROMs.
  \<^item> \<open>CPC_Keep\<close>, \<open>CPC_Devices\<close>, \<open>CPC_Memory\<close>: the interpretations of all these locales on the
    board; \<open>Device_Props\<close>, \<open>CPC_Props\<close>: the theorems on the devices and on the machine;
    \<open>CPC_Bench\<close>: a concrete board for the witnesses.
  \<^item> \<open>SNA_Format\<close>: \<^verbatim>\<open>formats/sna/sna-format.cc\<close>; \<open>CPC_Snapshot\<close>: saving and loading the
    machine; \<open>CPC_Snapshot_Props\<close>: what comes back.
  \<^item> \<open>CPC_Keyboard\<close>: the layouts and events of \<^verbatim>\<open>kbd-core.cc\<close>; \<open>Keyboard_Props\<close>: what typing
    and joysticks do to the matrix.
  \<^item> \<open>CPC_Render\<close>: the four functions that draw a frame; \<open>Render_Props\<close>: the picture that they draw.
  \<^item> \<open>Libxcpc\<close>: the state of the library, the labels of the enumerations (the locale
    \<open>value_table\<close>); \<open>CPC_Display\<close>: the palettes of \<^verbatim>\<open>dpy-core.cc\<close>; \<open>CPC_Setup\<close>: the settings
    of the main board, from construction to the window; \<open>CPC_Timing\<close>: \<^verbatim>\<open>on_clock\<close>;
    \<open>CPC_Mixer\<close>: \<^verbatim>\<open>process\<close>, with the locale \<open>sample_queue\<close> between the emulation and the audio
    device; \<open>Setup_Props\<close>, \<open>Machine_Props\<close>, \<open>Output_Props\<close>: the theorems on these, with
    the relation \<open>reached\<close> of everything that can happen to a machine from its construction on.

  \<^bold>\<open>What the theorems show.\<close>  The arithmetic opcodes against integer arithmetic, flags included; the
  time of every instruction (4 to 96 T-states) on every interface that keeps time; that no
  instruction changes the ROMs or unmaps memory; the invariants of the devices, the interrupts, the
  raster as a refinement of a beam; the protocols of the sound generator and of the keyboard through
  the ports; the complete dialogues of the disc controller and the image written and read back; the
  end of a frame; a snapshot as a round trip of the machine through a file.  The renderers store the
  picture that the registers and the memory describe.  Whatever is done to a machine keeps its
  invariant, so that a program reads the settings, a machine type brings its firmware, a monitor
  its colours, and the audio device plays the queue of samples in order.  The last properties
  are about what goes wrong: inputs on which the code loops, loses data or leaves its arrays.

  \<^bold>\<open>Bounds and loops.\<close>  The loop of a frame is a \<open>partial_function\<close>; that it returns is proved, with the
  number of its ticks.  Loops of the disc code over sectors and tracks are structural or carry the
  count of the source.  No fuel is used elsewhere.  RAM sizes in the snapshot theorem go up to 36
  banks (576 KiB); eight banks are mapped by the code.

  \<^bold>\<open>Not modelled.\<close>  The user interfaces (\<^verbatim>\<open>src/gtk3ui\<close>, \<^verbatim>\<open>src/gtk4ui\<close>), the renderers of
  the host (\<^verbatim>\<open>dpy/x11-renderer.cc\<close>, \<^verbatim>\<open>dpy/ogl-renderer.cc\<close>), the translation of
  an X11 event into a key symbol, the machine that forwards to the main board and the command line are input and output;
  \<^verbatim>\<open>lib/miniaudio\<close> is vendored.  \<^verbatim>\<open>lib/libdsk\<close> is a third-party library: it is the
  parameter \<open>'d libdsk\<close> of the drives, of which only \<^verbatim>\<open>dsk_get_psh\<close> is modelled.  \<^verbatim>\<open>formats/cdt\<close>
  is empty.  The rounding of \<^verbatim>\<open>float\<close> is left out: samples and volumes are exact rationals.
\<close>

end
